(* ===== verification/Prelude.thy ===== *)
theory Prelude
  imports Main "HOL-Library.AList" "HOL-Library.Word" "HOL-Library.Sublist"
    "HOL-Library.Char_ord" "HOL-Library.List_Lexorder"
begin

text \<open>
  Shared vocabulary of the development: the Go standard-library functions on strings, runes,
  numbers and times that the sources call, and the generic lemmas on lists and association
  lists the component theories use.

  A Go \<open>string\<close> and a Go \<open>[]byte\<close> are both sequences of bytes; both are HOL's
  \<^typ>\<open>string\<close> here, a list of 8-bit characters, so \<^const>\<open>length\<close> is Go's \<open>len\<close>
  and the conversions between the two are the identity. A Go map is an association list with
  distinct keys: its order stands for the order in which one \<open>range\<close> loop visits the map.
\<close>

named_theorems go_defs \<open>definitions of the small Go library functions\<close>

type_synonym bytes = string
type_synonym ('k, 'v) gomap = "('k \<times> 'v) list"

section \<open>Association lists as Go maps\<close>

text \<open>\<open>delete(m, k)\<close> inside \<open>for k, v := range m\<close> under a condition keeps the other rows.\<close>

definition delete_if :: "('k \<Rightarrow> 'v \<Rightarrow> bool) \<Rightarrow> ('k, 'v) gomap \<Rightarrow> ('k, 'v) gomap" where
  "delete_if P m = filter (\<lambda>(k, v). \<not> P k v) m"

definition count_if :: "('k \<Rightarrow> 'v \<Rightarrow> bool) \<Rightarrow> ('k, 'v) gomap \<Rightarrow> int" where
  "count_if P m = int (length (filter (\<lambda>(k, v). P k v) m))"

definition find_val :: "('v \<Rightarrow> bool) \<Rightarrow> ('k, 'v) gomap \<Rightarrow> 'v option" where
  "find_val P m = find P (map snd m)"

abbreviation dkeys :: "('k, 'v) gomap \<Rightarrow> bool" where
  "dkeys m \<equiv> distinct (map fst m)"

text \<open>Lookups stay lookups: the library would turn them into set membership.\<close>

declare map_of_eq_Some_iff [simp del] Some_eq_map_of_iff [simp del]

lemma dkeys_update [simp]: "dkeys m \<Longrightarrow> dkeys (AList.update k v m)"
  by (rule distinct_update)

lemma dkeys_delete [simp]: "dkeys m \<Longrightarrow> dkeys (AList.delete k m)"
  by (rule distinct_delete)

lemma dkeys_delete_if [simp]: "dkeys m \<Longrightarrow> dkeys (delete_if P m)"
  by (induction m) (auto simp: delete_if_def)

lemma map_of_delete_if:
  "dkeys m \<Longrightarrow> map_of (delete_if P m) k =
     (case map_of m k of None \<Rightarrow> None | Some v \<Rightarrow> if P k v then None else Some v)"
proof (induction m)
  case Nil
  then show ?case by (simp add: delete_if_def)
next
  case (Cons a m)
  obtain k' v' where a: "a = (k', v')" by (cases a)
  from Cons have IH: "map_of (delete_if P m) k =
     (case map_of m k of None \<Rightarrow> None | Some v \<Rightarrow> if P k v then None else Some v)" by simp
  have "k = k' \<Longrightarrow> map_of m k = None"
    using Cons.prems a by (auto simp: map_of_eq_None_iff)
  with IH show ?case by (auto simp: a delete_if_def split: option.splits)
qed

lemma set_delete_if: "set (delete_if P m) = {(k, v) \<in> set m. \<not> P k v}"
  by (auto simp: delete_if_def)

lemma find_val_None_iff: "find_val P m = None \<longleftrightarrow> (\<forall>v \<in> snd ` set m. \<not> P v)"
  by (auto simp: find_val_def find_None_iff)

lemma find_val_SomeD:
  "find_val P m = Some v \<Longrightarrow> P v \<and> (\<exists>k. (k, v) \<in> set m)"
  by (auto simp: find_val_def find_Some_iff) (metis in_set_conv_nth prod.collapse)

lemma find_val_unique:
  assumes "v \<in> snd ` set m" and "P v"
    and "\<And>v'. v' \<in> snd ` set m \<Longrightarrow> P v' \<Longrightarrow> v' = v"
  shows "find_val P m = Some v"
proof (cases "find_val P m")
  case None
  with assms(1,2) show ?thesis by (auto simp: find_val_None_iff)
next
  case (Some v')
  then have "P v'" and "v' \<in> snd ` set m" by (force dest: find_val_SomeD)+
  with assms(3) Some show ?thesis by simp
qed

lemma set_update_dkeys:
  "dkeys m \<Longrightarrow> set (AList.update k v m) = insert (k, v) {(k', v') \<in> set m. k' \<noteq> k}"
  by (induction m) (auto simp: image_iff)

lemma set_AList_delete: "set (AList.delete k m) = {(k', v') \<in> set m. k' \<noteq> k}"
  by (induction m) auto

section \<open>Package strings\<close>

text \<open>\<open>strings.Cut\<close> at a one-byte separator.\<close>

definition strings_Cut :: "string \<Rightarrow> char \<Rightarrow> (string \<times> string) option" where
  "strings_Cut s c =
     (if c \<in> set s then Some (takeWhile (\<lambda>x. x \<noteq> c) s, tl (dropWhile (\<lambda>x. x \<noteq> c) s))
      else None)"

lemma strings_Cut_append [simp]:
  "c \<notin> set a \<Longrightarrow> strings_Cut (a @ c # b) c = Some (a, b)"
  by (auto simp: strings_Cut_def takeWhile_append dropWhile_append takeWhile_eq_all_conv
      dropWhile_eq_Nil_conv)

lemma strings_Cut_SomeD:
  assumes "strings_Cut s c = Some (a, b)"
  shows "s = a @ c # b" and "c \<notin> set a"
proof -
  from assms have c: "c \<in> set s" and a: "a = takeWhile (\<lambda>x. x \<noteq> c) s"
    and b: "b = tl (dropWhile (\<lambda>x. x \<noteq> c) s)"
    by (auto simp: strings_Cut_def split: if_splits)
  from c have ne: "dropWhile (\<lambda>x. x \<noteq> c) s \<noteq> []" by auto
  with hd_dropWhile [OF ne] have "dropWhile (\<lambda>x. x \<noteq> c) s = c # b"
    unfolding b by (metis list.collapse)
  then show "s = a @ c # b" unfolding a by (metis takeWhile_dropWhile_id)
  show "c \<notin> set a" unfolding a by (auto dest: set_takeWhileD)
qed

text \<open>\<open>strings.Split\<close> at a one-byte separator: never the empty list.\<close>

fun strings_Split :: "string \<Rightarrow> char \<Rightarrow> string list" where
  "strings_Split [] c = [[]]"
| "strings_Split (x # xs) c =
     (if x = c then [] # strings_Split xs c
      else (case strings_Split xs c of [] \<Rightarrow> [[x]] | y # ys \<Rightarrow> (x # y) # ys))"

fun strings_Join :: "string list \<Rightarrow> string \<Rightarrow> string" where
  "strings_Join [] sep = []"
| "strings_Join [x] sep = x"
| "strings_Join (x # y # ys) sep = x @ sep @ strings_Join (y # ys) sep"

lemma strings_Split_ne [simp]: "strings_Split s c \<noteq> []"
  by (induction s) (auto split: list.splits)

lemma strings_Split_single [simp]: "c \<notin> set s \<Longrightarrow> strings_Split s c = [s]"
  by (induction s) auto

lemma strings_Split_append [simp]:
  "c \<notin> set a \<Longrightarrow> strings_Split (a @ c # b) c = a # strings_Split b c"
  by (induction a) auto

lemma strings_Split_Join:
  "xs \<noteq> [] \<Longrightarrow> (\<And>x. x \<in> set xs \<Longrightarrow> c \<notin> set x) \<Longrightarrow> strings_Split (strings_Join xs [c]) c = xs"
  by (induction xs "[c]" rule: strings_Join.induct) auto

lemma strings_Join_Split: "strings_Join (strings_Split s c) [c] = s"
proof (induction s)
  case (Cons x xs)
  then show ?case
    by (cases "strings_Split xs c"; cases "tl (strings_Split xs c)") (auto split: list.splits)
qed simp

text \<open>
  \<open>strings.TrimSpace\<close>. The white-space runes of \<open>unicode.IsSpace\<close> are listed by their UTF-8
  encodings; UTF-8 is self-synchronising, so a string begins (ends) with such a rune exactly
  when its bytes begin (end) with the encoding.
\<close>

definition space_encodings :: "nat list list" where
  "space_encodings =
     [[9], [10], [11], [12], [13], [32], [194, 133], [194, 160], [225, 154, 128]]
     @ map (\<lambda>n. [226, 128, n]) [128, 129, 130, 131, 132, 133, 134, 135, 136, 137, 138, 168, 169, 175]
     @ [[226, 129, 159], [227, 128, 128]]"

fun strip_prefixes :: "nat \<Rightarrow> nat list list \<Rightarrow> string \<Rightarrow> string" where
  "strip_prefixes 0 es s = s"
| "strip_prefixes (Suc n) es s =
     (case find (\<lambda>e. prefix e (map of_char s)) es of
        None \<Rightarrow> s
      | Some e \<Rightarrow> strip_prefixes n es (drop (length e) s))"

definition strings_TrimSpace :: "string \<Rightarrow> string" where
  "strings_TrimSpace s =
     (let l = strip_prefixes (length s) space_encodings s
      in rev (strip_prefixes (length l) (map rev space_encodings) (rev l)))"

text \<open>Each encoding is non-empty, so \<^term>\<open>length s\<close> rounds are always enough.\<close>

lemma strip_prefixes_done:
  assumes "[] \<notin> set es" and "length s \<le> n"
  shows "find (\<lambda>e. prefix e (map of_char (strip_prefixes n es s))) es = None"
  using assms(2)
proof (induction n arbitrary: s)
  case 0
  with assms(1) show ?case by (auto simp: find_None_iff)
next
  case (Suc n)
  show ?case
  proof (cases "find (\<lambda>e. prefix e (map of_char s)) es")
    case None
    then show ?thesis by simp
  next
    case (Some e)
    then have "e \<in> set es" by (auto simp: find_Some_iff)
    with assms(1) have "e \<noteq> []" by auto
    then have "length (drop (length e) s) \<le> n" using Suc.prems by (cases e) auto
    from Suc.IH [OF this] Some show ?thesis by simp
  qed
qed

lemma strip_prefixes_none:
  "find (\<lambda>e. prefix e (map of_char s)) es = None \<Longrightarrow> strip_prefixes n es s = s"
  by (cases n) auto

text \<open>A string of visible ASCII characters has nothing to trim.\<close>

definition visible :: "string \<Rightarrow> bool" where
  "visible s \<longleftrightarrow> list_all (\<lambda>c. 33 \<le> (of_char c :: nat) \<and> (of_char c :: nat) < 128) s"

lemma no_space_prefix:
  fixes es :: "nat list list"
  assumes "visible s" "\<And>e. e \<in> set es \<Longrightarrow> e \<noteq> [] \<and> (hd e < 33 \<or> 128 \<le> hd e)"
  shows "find (\<lambda>e. prefix e (map of_char s)) es = None"
proof (cases s)
  case Nil
  with assms(2) show ?thesis by (auto simp: find_None_iff)
next
  case (Cons c s')
  have "\<not> prefix e (map of_char s)" if "e \<in> set es" for e
    using assms(1) assms(2) [OF that] Cons by (cases e) (auto simp: visible_def)
  then show ?thesis by (auto simp: find_None_iff)
qed

lemma strings_TrimSpace_visible: "visible s \<Longrightarrow> strings_TrimSpace s = s"
proof -
  assume v: "visible s"
  then have "visible (rev s)" by (simp add: visible_def list_all_iff)
  with v show ?thesis
    unfolding strings_TrimSpace_def Let_def
    by (subst strip_prefixes_none [OF no_space_prefix], (auto simp: space_encodings_def)[2])+ simp
qed

text \<open>ASCII case mapping; bytes outside ASCII are left alone.\<close>

definition is_ascii :: "string \<Rightarrow> bool" where
  "is_ascii s \<longleftrightarrow> (\<forall>c \<in> set s. of_char c < (128 :: nat))"

definition upper_byte :: "char \<Rightarrow> char" where
  "upper_byte c = (if CHR ''a'' \<le> c \<and> c \<le> CHR ''z'' then char_of (of_char c - 32 :: nat) else c)"

definition lower_byte :: "char \<Rightarrow> char" where
  "lower_byte c = (if CHR ''A'' \<le> c \<and> c \<le> CHR ''Z'' then char_of (of_char c + 32 :: nat) else c)"

text \<open>
  \<open>strings.EqualFold\<close> against a constant whose letters have no case variant outside ASCII
  (neither k nor s occurs in it).
\<close>

definition equal_fold_ascii :: "string \<Rightarrow> string \<Rightarrow> bool" where
  "equal_fold_ascii s t \<longleftrightarrow> map lower_byte s = map lower_byte t"

end
