(* ===== verification/Codec.thy ===== *)
theory Codec
  imports Prelude
begin

text \<open>
  The encodings of the Go standard library that the sources use: decimal numbers
  (\<open>strconv\<close>), UTF-8 runes, base64, hexadecimal, base32 and big-endian integers, with the
  round-trip lemmas the components rely on. Times are nanoseconds since the Unix epoch.
\<close>

unbundle bit_operations_syntax

section \<open>Package strconv\<close>

definition digit_char :: "nat \<Rightarrow> char" where
  "digit_char d = char_of (48 + d)"

function nat_dec :: "nat \<Rightarrow> string" where
  "nat_dec n = (if n < 10 then [digit_char n] else nat_dec (n div 10) @ [digit_char (n mod 10)])"
  by pat_completeness auto
termination
  by (relation "measure id") auto

declare nat_dec.simps [simp del]

definition strconv_FormatInt :: "int \<Rightarrow> string" where
  "strconv_FormatInt i = (if i < 0 then CHR ''-'' # nat_dec (nat (- i)) else nat_dec (nat i))"

definition is_digit_char :: "char \<Rightarrow> bool" where
  "is_digit_char c \<longleftrightarrow> CHR ''0'' \<le> c \<and> c \<le> CHR ''9''"

definition digit_val :: "char \<Rightarrow> nat" where
  "digit_val c = of_char c - 48"

definition dec_val :: "string \<Rightarrow> nat" where
  "dec_val s = foldl (\<lambda>a c. 10 * a + digit_val c) 0 s"

definition maxInt64 :: int where "maxInt64 = 2 ^ 63 - 1"
definition minInt64 :: int where "minInt64 = - (2 ^ 63)"

definition in_int64 :: "int \<Rightarrow> bool" where
  "in_int64 i \<longleftrightarrow> minInt64 \<le> i \<and> i \<le> maxInt64"

text \<open>\<open>strconv.ErrSyntax\<close>, or \<open>strconv.ErrRange\<close> with the clamped value.\<close>

datatype num_error = ErrSyntax | ErrRange int

definition strconv_ParseInt :: "string \<Rightarrow> num_error + int" where
  "strconv_ParseInt s =
     (let neg = (s \<noteq> [] \<and> hd s = CHR ''-'');
          body = (if s \<noteq> [] \<and> (hd s = CHR ''-'' \<or> hd s = CHR ''+'') then tl s else s)
      in if body = [] \<or> \<not> list_all is_digit_char body then Inl ErrSyntax
         else let v = (if neg then - int (dec_val body) else int (dec_val body))
              in if v > maxInt64 then Inl (ErrRange maxInt64)
                 else if v < minInt64 then Inl (ErrRange minInt64)
                 else Inr v)"

text \<open>\<open>n, _ = strconv.Atoi(s)\<close>: the value Go leaves in \<open>n\<close> when the error is dropped.\<close>

definition strconv_Atoi_val :: "string \<Rightarrow> int" where
  "strconv_Atoi_val s =
     (case strconv_ParseInt s of Inr v \<Rightarrow> v | Inl (ErrRange v) \<Rightarrow> v | Inl ErrSyntax \<Rightarrow> 0)"

text \<open>Two's complement wrap-around of \<open>int\<close> arithmetic on a 64-bit platform.\<close>

definition wrap64 :: "int \<Rightarrow> int" where
  "wrap64 i = sint (word_of_int i :: 64 word)"

lemma wrap64_id: "in_int64 i \<Longrightarrow> wrap64 i = i"
  unfolding wrap64_def in_int64_def minInt64_def maxInt64_def
  by (simp add: sint_sbintrunc' signed_take_bit_int_eq_self)

lemma is_digit_char_digit [simp]: "d < 10 \<Longrightarrow> is_digit_char (digit_char d)"
  by (simp add: is_digit_char_def digit_char_def less_eq_char_def)

lemma digit_val_digit [simp]: "d < 10 \<Longrightarrow> digit_val (digit_char d) = d"
  by (simp add: digit_val_def digit_char_def)

lemma nat_dec_digits: "list_all is_digit_char (nat_dec n)"
  by (induction n rule: nat_dec.induct) (subst nat_dec.simps, auto)

lemma nat_dec_ne [simp]: "nat_dec n \<noteq> []"
  by (subst nat_dec.simps) auto

lemma dec_val_nat_dec [simp]: "dec_val (nat_dec n) = n"
proof (induction n rule: nat_dec.induct)
  case (1 n)
  show ?case
  proof (cases "n < 10")
    case True
    then show ?thesis by (subst nat_dec.simps) (simp add: dec_val_def)
  next
    case False
    with 1 have "foldl (\<lambda>a c. 10 * a + digit_val c) 0 (nat_dec (n div 10)) = n div 10"
      by (simp add: dec_val_def)
    with False show ?thesis by (subst nat_dec.simps) (simp add: dec_val_def)
  qed
qed

lemma digit_not_sign: "is_digit_char c \<Longrightarrow> c \<noteq> CHR ''-'' \<and> c \<noteq> CHR ''+'' \<and> c \<noteq> CHR '':''"
  by (auto simp: is_digit_char_def less_eq_char_def)

lemma hd_nat_dec: "is_digit_char (hd (nat_dec n))"
  using nat_dec_digits [of n] nat_dec_ne [of n] by (cases "nat_dec n") auto

lemma ParseInt_FormatInt:
  assumes "in_int64 i"
  shows "strconv_ParseInt (strconv_FormatInt i) = Inr i"
proof (cases "i < 0")
  case True
  with assms show ?thesis
    by (simp add: strconv_FormatInt_def strconv_ParseInt_def Let_def nat_dec_digits in_int64_def
        not_less [symmetric])
next
  case False
  from digit_not_sign [OF hd_nat_dec [of "nat i"]] False assms show ?thesis
    by (simp add: strconv_FormatInt_def strconv_ParseInt_def Let_def nat_dec_digits in_int64_def
        not_less [symmetric])
qed

lemma FormatInt_no_colon: "CHR '':'' \<notin> set (strconv_FormatInt i)"
proof -
  have "CHR '':'' \<notin> set (nat_dec n)" for n
    using nat_dec_digits [of n] by (auto simp: list_all_iff dest!: bspec digit_not_sign)
  then show ?thesis by (simp add: strconv_FormatInt_def)
qed

section \<open>Runes\<close>

text \<open>
  \<open>utf8.DecodeRuneInString\<close>: the rune and its width in bytes; an invalid byte is
  \<open>utf8.RuneError\<close> (U+FFFD) of width 1. The bounds on the second byte exclude overlong forms and
  surrogates, as Go's acceptance ranges do.
\<close>

definition runeError :: nat where "runeError = 65533"

definition is_cont :: "nat \<Rightarrow> bool" where
  "is_cont b \<longleftrightarrow> 128 \<le> b \<and> b \<le> 191"

definition second_ok :: "nat \<Rightarrow> nat \<Rightarrow> bool" where
  "second_ok b0 b1 \<longleftrightarrow>
     (if b0 = 224 then 160 else if b0 = 240 then 144 else 128) \<le> b1 \<and>
     b1 \<le> (if b0 = 237 then 159 else if b0 = 244 then 143 else 191)"

fun decode_rune :: "nat list \<Rightarrow> nat \<times> nat" where
  "decode_rune [] = (runeError, 0)"
| "decode_rune (b0 # bs) =
     (if b0 < 128 then (b0, 1)
      else if 194 \<le> b0 \<and> b0 \<le> 223 then
        (case bs of b1 # _ \<Rightarrow>
             if is_cont b1 then ((b0 - 192) * 64 + (b1 - 128), 2) else (runeError, 1)
         | [] \<Rightarrow> (runeError, 1))
      else if 224 \<le> b0 \<and> b0 \<le> 239 then
        (case bs of b1 # b2 # _ \<Rightarrow>
             if second_ok b0 b1 \<and> is_cont b2
             then ((b0 - 224) * 4096 + (b1 - 128) * 64 + (b2 - 128), 3) else (runeError, 1)
         | _ \<Rightarrow> (runeError, 1))
      else if 240 \<le> b0 \<and> b0 \<le> 244 then
        (case bs of b1 # b2 # b3 # _ \<Rightarrow>
             if second_ok b0 b1 \<and> is_cont b2 \<and> is_cont b3
             then ((b0 - 240) * 262144 + (b1 - 128) * 4096 + (b2 - 128) * 64 + (b3 - 128), 4)
             else (runeError, 1)
         | _ \<Rightarrow> (runeError, 1))
      else (runeError, 1))"

fun runes_of :: "nat \<Rightarrow> nat list \<Rightarrow> nat list" where
  "runes_of 0 bs = []"
| "runes_of (Suc n) bs =
     (if bs = [] then [] else
        (case decode_rune bs of (r, w) \<Rightarrow> r # runes_of n (drop w bs)))"

text \<open>\<open>for _, r := range s\<close> and \<open>[]rune(s)\<close>: each rune takes at least one byte.\<close>

definition runes :: "string \<Rightarrow> nat list" where
  "runes s = runes_of (length s) (map of_char s)"

definition strings_ContainsRune :: "string \<Rightarrow> nat \<Rightarrow> bool" where
  "strings_ContainsRune s r \<longleftrightarrow> r \<in> set (runes s)"

lemma runes_of_ascii:
  "list_all (\<lambda>b. b < 128) bs \<Longrightarrow> length bs \<le> n \<Longrightarrow> runes_of n bs = bs"
  by (induction bs arbitrary: n; case_tac n) auto

lemma runes_ascii: "is_ascii s \<Longrightarrow> runes s = map of_char s"
  unfolding runes_def is_ascii_def by (rule runes_of_ascii) (auto simp: list_all_iff)

lemma decode_rune_width: "bs \<noteq> [] \<Longrightarrow> 1 \<le> snd (decode_rune bs)"
  by (cases bs) (auto split: list.splits)

text \<open>The byte count is enough fuel: with more, no further rune appears.\<close>

lemma runes_of_enough: "length bs \<le> n \<Longrightarrow> runes_of n bs = runes_of (length bs) bs"
proof (induction n arbitrary: bs rule: less_induct)
  case (less n)
  show ?case
  proof (cases bs)
    case Nil
    then show ?thesis by (cases n) auto
  next
    case (Cons b bs')
    obtain m where n: "n = Suc m" using less.prems Cons by (cases n) auto
    obtain r w where rw: "decode_rune bs = (r, w)" by (cases "decode_rune bs")
    have w: "1 \<le> w" using decode_rune_width [of bs] Cons rw by simp
    have l: "length (drop w bs) \<le> length bs'" using w Cons by auto
    have 1: "runes_of m (drop w bs) = runes_of (length (drop w bs)) (drop w bs)"
      using less.IH [of m "drop w bs"] l less.prems n Cons by auto
    have 2: "runes_of (length bs') (drop w bs) = runes_of (length (drop w bs)) (drop w bs)"
      using less.IH [of "length bs'" "drop w bs"] l less.prems n Cons by auto
    show ?thesis using 1 2 rw n Cons by simp
  qed
qed

section \<open>Package encoding/base64\<close>

definition alpha_std :: string where
  "alpha_std = ''ABCDEFGHIJKLMNOPQRSTUVWXYZabcdefghijklmnopqrstuvwxyz0123456789+/''"

definition alpha_url :: string where
  "alpha_url = ''ABCDEFGHIJKLMNOPQRSTUVWXYZabcdefghijklmnopqrstuvwxyz0123456789-_''"

datatype b64_encoding = StdEncoding | RawStdEncoding | RawURLEncoding

fun b64_alpha :: "b64_encoding \<Rightarrow> string" where
  "b64_alpha StdEncoding = alpha_std"
| "b64_alpha RawStdEncoding = alpha_std"
| "b64_alpha RawURLEncoding = alpha_url"

fun b64_padded :: "b64_encoding \<Rightarrow> bool" where
  "b64_padded StdEncoding = True"
| "b64_padded RawStdEncoding = False"
| "b64_padded RawURLEncoding = False"

text \<open>The index of a character in an alphabet.\<close>

fun index_of :: "char \<Rightarrow> string \<Rightarrow> nat option" where
  "index_of c [] = None"
| "index_of c (x # xs) = (if c = x then Some 0 else map_option Suc (index_of c xs))"

lemma index_of_nth: "distinct xs \<Longrightarrow> n < length xs \<Longrightarrow> index_of (xs ! n) xs = Some n"
  by (induction xs arbitrary: n) (auto simp: nth_Cons split: nat.splits)

lemma index_of_None: "index_of c xs = None \<longleftrightarrow> c \<notin> set xs"
  by (induction xs) auto

text \<open>The six-bit groups of three bytes, and the bytes recovered from four groups.\<close>

definition sextet1 :: "nat \<Rightarrow> nat" where "sextet1 a = a div 4"
definition sextet2 :: "nat \<Rightarrow> nat \<Rightarrow> nat" where "sextet2 a b = (a mod 4) * 16 + b div 16"
definition sextet3 :: "nat \<Rightarrow> nat \<Rightarrow> nat" where "sextet3 b c = (b mod 16) * 4 + c div 64"
definition sextet4 :: "nat \<Rightarrow> nat" where "sextet4 c = c mod 64"
definition octet1 :: "nat \<Rightarrow> nat \<Rightarrow> nat" where "octet1 w x = w * 4 + x div 16"
definition octet2 :: "nat \<Rightarrow> nat \<Rightarrow> nat" where "octet2 x y = (x mod 16) * 16 + y div 4"
definition octet3 :: "nat \<Rightarrow> nat \<Rightarrow> nat" where "octet3 y z = (y mod 4) * 64 + z"

lemma sextet_bounds:
  "a < 256 \<Longrightarrow> sextet1 a < 64" "b < 256 \<Longrightarrow> sextet2 a b < 64"
  "c < 256 \<Longrightarrow> sextet3 b c < 64" "sextet4 c < 64"
  unfolding sextet1_def sextet2_def sextet3_def sextet4_def by arith+

lemma div_mod_pack:
  "y < n \<Longrightarrow> (k * n + y) div n = (k :: nat)" "y < n \<Longrightarrow> (k * n + y) mod n = (y :: nat)"
  by auto

lemma octets_back:
  "b < 256 \<Longrightarrow> octet1 (sextet1 a) (sextet2 a b) = a"
  "b < 256 \<Longrightarrow> c < 256 \<Longrightarrow> octet2 (sextet2 a b) (sextet3 b c) = b"
  "c < 256 \<Longrightarrow> octet3 (sextet3 b c) (sextet4 c) = c"
proof -
  assume b: "b < 256"
  then have b16: "b div 16 < 16" by arith
  show "octet1 (sextet1 a) (sextet2 a b) = a"
    unfolding octet1_def sextet1_def sextet2_def div_mod_pack(1) [OF b16] by arith
next
  assume b: "b < 256" and c: "c < 256"
  then have b16: "b div 16 < 16" and c64: "c div 64 < 4" by arith+
  show "octet2 (sextet2 a b) (sextet3 b c) = b"
    unfolding octet2_def sextet2_def sextet3_def div_mod_pack(1) [OF c64] div_mod_pack(2) [OF b16]
    by arith
next
  assume c: "c < 256"
  then have c64: "c div 64 < 4" by arith
  show "octet3 (sextet3 b c) (sextet4 c) = c"
    unfolding octet3_def sextet3_def sextet4_def div_mod_pack(2) [OF c64] by arith
qed

text \<open>\<open>Encoding.EncodeToString\<close>: three bytes become four characters.\<close>

fun enc64 :: "string \<Rightarrow> bool \<Rightarrow> nat list \<Rightarrow> string" where
  "enc64 al pad [] = []"
| "enc64 al pad [a] =
     [al ! sextet1 a, al ! sextet2 a 0] @ (if pad then ''=='' else [])"
| "enc64 al pad [a, b] =
     [al ! sextet1 a, al ! sextet2 a b, al ! sextet3 b 0] @ (if pad then ''='' else [])"
| "enc64 al pad (a # b # c # rest) =
     [al ! sextet1 a, al ! sextet2 a b, al ! sextet3 b c, al ! sextet4 c] @ enc64 al pad rest"

definition base64_Encode :: "b64_encoding \<Rightarrow> bytes \<Rightarrow> string" where
  "base64_Encode e bs = enc64 (b64_alpha e) (b64_padded e) (map of_char bs)"

text \<open>
  \<open>Encoding.DecodeString\<close>, not strict about the unused low bits; the decoder skips carriage
  returns and line feeds wherever they stand.
\<close>

fun dec64 :: "string \<Rightarrow> bool \<Rightarrow> string \<Rightarrow> nat list option" where
  "dec64 al pad [] = Some []"
| "dec64 al pad [w] = None"
| "dec64 al pad [w, x] =
     (if pad then None else
      (case (index_of w al, index_of x al) of
         (Some a, Some b) \<Rightarrow> Some ([octet1 a b]) | _ \<Rightarrow> None))"
| "dec64 al pad [w, x, y] =
     (if pad then None else
      (case (index_of w al, index_of x al, index_of y al) of
         (Some a, Some b, Some c) \<Rightarrow> Some [octet1 a b, octet2 b c] | _ \<Rightarrow> None))"
| "dec64 al pad (w # x # y # z # rest) =
     (case (index_of w al, index_of x al) of
        (Some a, Some b) \<Rightarrow>
          (if pad \<and> rest = [] \<and> z = CHR ''='' then
             (if y = CHR ''='' then Some ([octet1 a b])
              else map_option (\<lambda>c. [octet1 a b, octet2 b c]) (index_of y al))
           else
             (case (index_of y al, index_of z al) of
                (Some c, Some d) \<Rightarrow> map_option (\<lambda>r. octet1 a b # octet2 b c # octet3 c d # r) (dec64 al pad rest)
              | _ \<Rightarrow> None))
      | _ \<Rightarrow> None)"

definition base64_Decode :: "b64_encoding \<Rightarrow> string \<Rightarrow> bytes option" where
  "base64_Decode e s =
     map_option (map char_of)
       (dec64 (b64_alpha e) (b64_padded e) (filter (\<lambda>c. c \<noteq> CHR 10 \<and> c \<noteq> CHR 13) s))"

lemma alpha_props:
  "length (b64_alpha e) = 64" "distinct (b64_alpha e)" "CHR ''='' \<notin> set (b64_alpha e)"
  "CHR '':'' \<notin> set (b64_alpha e)" "CHR 10 \<notin> set (b64_alpha e)" "CHR 13 \<notin> set (b64_alpha e)"
  "CHR ''.'' \<notin> set (b64_alpha e)" "CHR '';'' \<notin> set (b64_alpha e)" "CHR 124 \<notin> set (b64_alpha e)"
  by (cases e; simp add: alpha_std_def alpha_url_def)+

lemma al_nth: "length al = 64 \<Longrightarrow> n < 64 \<Longrightarrow> al ! n \<in> set al"
  by simp

lemma enc64_chars:
  "length al = 64 \<Longrightarrow> list_all (\<lambda>b. b < 256) bs \<Longrightarrow>
     set (enc64 al pad bs) \<subseteq> insert (CHR ''='') (set al)"
  by (induction al pad bs rule: enc64.induct) (simp_all add: al_nth sextet_bounds Collect_conv_if)

lemma enc64_chars_raw:
  "length al = 64 \<Longrightarrow> list_all (\<lambda>b. b < 256) bs \<Longrightarrow> set (enc64 al False bs) \<subseteq> set al"
  by (induction al "False" bs rule: enc64.induct) (simp_all add: al_nth sextet_bounds)

lemma dec64_enc64:
  "length al = 64 \<Longrightarrow> distinct al \<Longrightarrow> CHR ''='' \<notin> set al \<Longrightarrow> list_all (\<lambda>b. b < 256) bs \<Longrightarrow>
     dec64 al pad (enc64 al pad bs) = Some bs"
proof (induction al pad bs rule: enc64.induct)
  case (2 al pad a)
  then show ?case by (simp add: index_of_nth sextet_bounds octets_back)
next
  case (3 al pad a b)
  from 3 have "al ! sextet3 b 0 \<in> set al" by (intro al_nth) (simp_all add: sextet_bounds)
  with "3.prems"(3) have "al ! sextet3 b 0 \<noteq> CHR ''=''" by metis
  with 3 show ?case by (simp add: index_of_nth sextet_bounds octets_back)
next
  case (4 al pad a b c rest)
  from 4 have "al ! sextet4 c \<in> set al" by (intro al_nth) (simp_all add: sextet_bounds)
  with "4.prems"(3) have "al ! sextet4 c \<noteq> CHR ''=''" by metis
  with 4 show ?case by (simp add: index_of_nth sextet_bounds octets_back)
qed simp

lemma bytes_lt_256: "list_all (\<lambda>b. b < 256) (map of_char s :: nat list)"
  by (simp add: list_all_iff)

lemma base64_Encode_chars: "set (base64_Encode e s) \<subseteq> insert (CHR ''='') (set (b64_alpha e))"
  unfolding base64_Encode_def by (rule enc64_chars [OF alpha_props(1) bytes_lt_256])

lemma base64_Encode_notin:
  "c \<notin> set (b64_alpha e) \<Longrightarrow> c \<noteq> CHR ''='' \<Longrightarrow> c \<notin> set (base64_Encode e s)"
  using base64_Encode_chars [of e s] by blast

lemma base64_Encode_free [simp]:
  "CHR '':'' \<notin> set (base64_Encode e s)" "CHR ''.'' \<notin> set (base64_Encode e s)"
  "CHR '';'' \<notin> set (base64_Encode e s)" "CHR 124 \<notin> set (base64_Encode e s)"
  "CHR 10 \<notin> set (base64_Encode e s)" "CHR 13 \<notin> set (base64_Encode e s)"
  by (rule base64_Encode_notin; simp add: alpha_props)+

theorem base64_roundtrip [simp]: "base64_Decode e (base64_Encode e s) = Some s"
proof -
  have f: "filter (\<lambda>c. c \<noteq> CHR 10 \<and> c \<noteq> CHR 13) (base64_Encode e s) = base64_Encode e s"
    by (rule filter_True) (metis base64_Encode_free(5,6))
  have d: "dec64 (b64_alpha e) (b64_padded e) (base64_Encode e s) = Some (map of_char s)"
    unfolding base64_Encode_def by (rule dec64_enc64) (use alpha_props bytes_lt_256 in auto)
  show ?thesis unfolding base64_Decode_def f d by (simp add: comp_def)
qed

lemma base64_Encode_inj: "base64_Encode e s = base64_Encode e t \<longleftrightarrow> s = t"
  by (metis base64_roundtrip option.inject)

lemma enc64_ne: "bs \<noteq> [] \<Longrightarrow> enc64 al pad bs \<noteq> []"
  by (induction al pad bs rule: enc64.induct) auto

lemma base64_Encode_ne: "s \<noteq> [] \<Longrightarrow> base64_Encode e s \<noteq> []"
  by (simp add: base64_Encode_def enc64_ne)

section \<open>Packages encoding/hex and encoding/binary\<close>

definition hex_digit :: "nat \<Rightarrow> char" where
  "hex_digit d = (''0123456789abcdef'' ! d)"

definition hex_Encode :: "bytes \<Rightarrow> string" where
  "hex_Encode s = concat (map (\<lambda>c. [hex_digit (of_char c div 16), hex_digit (of_char c mod 16)]) s)"

lemma hex_digit_inj: "a < 16 \<Longrightarrow> b < 16 \<Longrightarrow> hex_digit a = hex_digit b \<longleftrightarrow> a = b"
  unfolding hex_digit_def by (subst nth_eq_iff_index_eq) auto

lemma of_char_div_16: "of_char c div 16 < (16 :: nat)"
proof -
  have "of_char c < (256 :: nat)" by simp
  then show ?thesis by arith
qed

lemma hex_Encode_inj: "hex_Encode s = hex_Encode t \<longleftrightarrow> s = t"
proof (induction s arbitrary: t)
  case Nil
  then show ?case by (cases t) (auto simp: hex_Encode_def)
next
  case (Cons c s)
  show ?case
  proof (cases t)
    case Nil
    then show ?thesis by (simp add: hex_Encode_def)
  next
    case (Cons d t')
    have "of_char c div 16 = (of_char d div 16 :: nat) \<and> of_char c mod 16 = (of_char d mod 16 :: nat)
        \<longleftrightarrow> of_char c = (of_char d :: nat)"
      by (metis div_mult_mod_eq)
    with Cons Cons.IH [of t'] show ?thesis
      by (auto simp: hex_Encode_def hex_digit_inj of_char_div_16)
  qed
qed

lemma hex_digit_range: "d < 16 \<Longrightarrow> hex_digit d \<in> set ''0123456789abcdef''"
  unfolding hex_digit_def by (rule nth_mem) simp

lemma hex_Encode_chars: "set (hex_Encode s) \<subseteq> set ''0123456789abcdef''"
proof -
  have "hex_digit (of_char c div 16) \<in> set ''0123456789abcdef''" for c
    by (rule hex_digit_range [OF of_char_div_16])
  moreover have "hex_digit (of_char c mod 16) \<in> set ''0123456789abcdef''" for c :: char
    by (rule hex_digit_range) simp
  ultimately show ?thesis unfolding hex_Encode_def by auto
qed

text \<open>\<open>binary.BigEndian.PutUintN\<close> and \<open>UintN\<close>: \<open>k\<close> bytes, most significant first.\<close>

fun be_bytes :: "nat \<Rightarrow> nat \<Rightarrow> bytes" where
  "be_bytes 0 n = []"
| "be_bytes (Suc k) n = be_bytes k (n div 256) @ [char_of (n mod 256)]"

definition be_val :: "bytes \<Rightarrow> nat" where
  "be_val s = foldl (\<lambda>a c. a * 256 + of_char c) 0 s"

lemma length_be_bytes [simp]: "length (be_bytes k n) = k"
  by (induction k arbitrary: n) auto

lemma be_val_be_bytes: "n < 256 ^ k \<Longrightarrow> be_val (be_bytes k n) = n"
proof (induction k arbitrary: n)
  case 0
  then show ?case by (simp add: be_val_def)
next
  case (Suc k)
  then have "n div 256 < 256 ^ k" by (simp add: less_mult_imp_div_less mult.commute)
  from Suc.IH [OF this] show ?case by (simp add: be_val_def)
qed

lemma be_bytes_be_val: "length s = k \<Longrightarrow> be_bytes k (be_val s) = s"
proof (induction s arbitrary: k rule: rev_induct)
  case (snoc c s)
  then obtain k' where k: "k = Suc k'" "length s = k'" by (cases k) auto
  have "be_val (s @ [c]) = be_val s * 256 + of_char c" by (simp add: be_val_def)
  moreover have "of_char c < (256 :: nat)" by simp
  ultimately have "be_val (s @ [c]) div 256 = be_val s" "be_val (s @ [c]) mod 256 = of_char c"
    by (simp_all add: div_mod_pack)
  with k snoc.IH show ?case by simp
qed (simp add: be_val_def)

lemma be_val_bound: "be_val s < 256 ^ length s"
proof (induction s rule: rev_induct)
  case (snoc c s)
  have "of_char c < (256 :: nat)" by simp
  moreover have "be_val (s @ [c]) = be_val s * 256 + of_char c" by (simp add: be_val_def)
  moreover have "256 ^ length (s @ [c]) = 256 ^ length s * (256 :: nat)" by simp
  ultimately show ?case using snoc by linarith
qed (simp add: be_val_def)

definition put_u32 :: "32 word \<Rightarrow> bytes" where "put_u32 w = be_bytes 4 (unat w)"
definition get_u32 :: "bytes \<Rightarrow> 32 word" where "get_u32 s = of_nat (be_val s)"
definition put_u64 :: "64 word \<Rightarrow> bytes" where "put_u64 w = be_bytes 8 (unat w)"
definition get_u64 :: "bytes \<Rightarrow> 64 word" where "get_u64 s = of_nat (be_val s)"

lemma length_put_u [simp]: "length (put_u32 w) = 4" "length (put_u64 v) = 8"
  by (simp_all add: put_u32_def put_u64_def)

lemma get_put_u32 [simp]: "get_u32 (put_u32 w) = w"
proof -
  have "unat w < 256 ^ 4" using unsigned_less [of w, where 'a = nat] by simp
  then show ?thesis by (simp add: get_u32_def put_u32_def be_val_be_bytes)
qed

lemma get_put_u64 [simp]: "get_u64 (put_u64 w) = w"
proof -
  have "unat w < 256 ^ 8" using unsigned_less [of w, where 'a = nat] by simp
  then show ?thesis by (simp add: get_u64_def put_u64_def be_val_be_bytes)
qed

lemma put_get_u32: "length s = 4 \<Longrightarrow> put_u32 (get_u32 s) = s"
  using be_val_bound [of s] by (simp add: put_u32_def get_u32_def unat_of_nat be_bytes_be_val)

section \<open>Package encoding/base32 without padding\<close>

definition alpha32 :: string where
  "alpha32 = ''ABCDEFGHIJKLMNOPQRSTUVWXYZ234567''"

fun enc32 :: "nat list \<Rightarrow> nat list" where
  "enc32 [] = []"
| "enc32 [v] = [v div 8, (v mod 8) * 4]"
| "enc32 [v, w] = [v div 8, (v mod 8) * 4 + w div 64, (w div 2) mod 32, (w mod 2) * 16]"
| "enc32 [v, w, x] =
     [v div 8, (v mod 8) * 4 + w div 64, (w div 2) mod 32, (w mod 2) * 16 + x div 16, (x mod 16) * 2]"
| "enc32 [v, w, x, y] =
     [v div 8, (v mod 8) * 4 + w div 64, (w div 2) mod 32, (w mod 2) * 16 + x div 16,
      (x mod 16) * 2 + y div 128, (y div 4) mod 32, (y mod 4) * 8]"
| "enc32 (v # w # x # y # z # rest) =
     [v div 8, (v mod 8) * 4 + w div 64, (w div 2) mod 32, (w mod 2) * 16 + x div 16,
      (x mod 16) * 2 + y div 128, (y div 4) mod 32, (y mod 4) * 8 + z div 32, z mod 32] @ enc32 rest"

definition base32_Encode :: "bytes \<Rightarrow> string" where
  "base32_Encode s = map (\<lambda>q. alpha32 ! q) (enc32 (map of_char s))"

text \<open>
  The decoder packs eight characters into five bytes; a last group of seven, five, four or two
  characters gives four, three, two or one byte, and any other last group gives none.
\<close>

definition p32_1 :: "nat \<Rightarrow> nat \<Rightarrow> nat" where "p32_1 a b = (a * 8 + b div 4) mod 256"
definition p32_2 :: "nat \<Rightarrow> nat \<Rightarrow> nat \<Rightarrow> nat" where
  "p32_2 b c d = (b * 64 + c * 2 + d div 16) mod 256"
definition p32_3 :: "nat \<Rightarrow> nat \<Rightarrow> nat" where "p32_3 d e = (d * 16 + e div 2) mod 256"
definition p32_4 :: "nat \<Rightarrow> nat \<Rightarrow> nat \<Rightarrow> nat" where
  "p32_4 e f g = (e * 128 + f * 4 + g div 8) mod 256"
definition p32_5 :: "nat \<Rightarrow> nat \<Rightarrow> nat" where "p32_5 g h = (g * 32 + h) mod 256"

fun dec32 :: "nat list \<Rightarrow> nat list" where
  "dec32 (a # b # c # d # e # f # g # h # rest) =
     [p32_1 a b, p32_2 b c d, p32_3 d e, p32_4 e f g, p32_5 g h] @ dec32 rest"
| "dec32 [a, b, c, d, e, f, g] = [p32_1 a b, p32_2 b c d, p32_3 d e, p32_4 e f g]"
| "dec32 [a, b, c, d, e] = [p32_1 a b, p32_2 b c d, p32_3 d e]"
| "dec32 [a, b, c, d] = [p32_1 a b, p32_2 b c d]"
| "dec32 [a, b] = [p32_1 a b]"
| "dec32 qs = []"

definition base32_Decode :: "string \<Rightarrow> bytes option" where
  "base32_Decode s =
     (let qs = map (\<lambda>c. index_of c alpha32) (filter (\<lambda>c. c \<noteq> CHR 10 \<and> c \<noteq> CHR 13) s)
      in if None \<in> set qs then None else Some (map char_of (dec32 (map the qs))))"

lemma lt_256_div:
  fixes w :: nat
  shows "w < 256 \<Longrightarrow> w div 64 < 4" "w < 256 \<Longrightarrow> w div 16 < 16" "w < 256 \<Longrightarrow> w div 128 < 2"
    "w < 256 \<Longrightarrow> w div 32 < 8"
  by arith+

lemma split_byte:
  fixes w :: nat
  shows "w div 64 * 64 + w div 2 mod 32 * 2 + w mod 2 = w" "w div 128 * 128 + w div 4 mod 32 * 4 + w mod 4 = w"
proof -
  have "w div 64 = w div 2 div 32" "w div 128 = w div 4 div 32" by (simp_all add: div_mult2_eq [symmetric])
  then show "w div 64 * 64 + w div 2 mod 32 * 2 + w mod 2 = w" "w div 128 * 128 + w div 4 mod 32 * 4 + w mod 4 = w"
    using div_mult_mod_eq [of "w div 2" 32] div_mult_mod_eq [of "w div 4" 32]
      div_mult_mod_eq [of w 2] div_mult_mod_eq [of w 4] by linarith+
qed

lemma p32_1_back:
  assumes "v < 256"
  shows "w < 256 \<Longrightarrow> p32_1 (v div 8) ((v mod 8) * 4 + w div 64) = v"
    and "p32_1 (v div 8) ((v mod 8) * 4) = v"
  using assms by (simp_all add: p32_1_def div_mod_pack lt_256_div)

lemma mod_256_cong: "a = k * 256 + w \<Longrightarrow> w < 256 \<Longrightarrow> a mod 256 = (w :: nat)"
  by simp

lemma p32_2_back:
  assumes "w < 256"
  shows "x < 256 \<Longrightarrow> p32_2 ((v mod 8) * 4 + w div 64) ((w div 2) mod 32) ((w mod 2) * 16 + x div 16) = w"
    and "p32_2 ((v mod 8) * 4 + w div 64) ((w div 2) mod 32) ((w mod 2) * 16) = w"
  unfolding p32_2_def
  by (rule mod_256_cong [OF _ assms, of _ "v mod 8"],
      simp add: div_mod_pack lt_256_div, use split_byte(1) [of w] in linarith)+

lemma p32_3_back:
  assumes "x < 256"
  shows "y < 256 \<Longrightarrow> p32_3 ((w mod 2) * 16 + x div 16) ((x mod 16) * 2 + y div 128) = x"
    and "p32_3 ((w mod 2) * 16 + x div 16) ((x mod 16) * 2) = x"
  unfolding p32_3_def
  by (rule mod_256_cong [OF _ assms, of _ "w mod 2"], simp add: div_mod_pack lt_256_div)+

lemma p32_4_back:
  assumes "y < 256"
  shows "z < 256 \<Longrightarrow> p32_4 ((x mod 16) * 2 + y div 128) ((y div 4) mod 32) ((y mod 4) * 8 + z div 32) = y"
    and "p32_4 ((x mod 16) * 2 + y div 128) ((y div 4) mod 32) ((y mod 4) * 8) = y"
  unfolding p32_4_def
  by (rule mod_256_cong [OF _ assms, of _ "x mod 16"],
      simp add: div_mod_pack lt_256_div, use split_byte(2) [of y] in linarith)+

lemma p32_5_back: "z < 256 \<Longrightarrow> p32_5 ((y mod 4) * 8 + z div 32) (z mod 32) = z"
  unfolding p32_5_def
  by (rule mod_256_cong [of _ "y mod 4"]) simp_all

lemmas p32_back = p32_1_back p32_2_back p32_3_back p32_4_back p32_5_back

lemma dec32_enc32: "list_all (\<lambda>b. b < 256) bs \<Longrightarrow> dec32 (enc32 bs) = bs"
  by (induction bs rule: enc32.induct) (simp_all add: p32_back)

lemma quintet_bounds:
  fixes v w :: nat
  shows "v < 256 \<Longrightarrow> v div 8 < 32" "v mod 8 * 4 < 32" "v mod 2 * 16 < 32" "v mod 16 * 2 < 32"
    "v mod 4 * 8 < 32"
    "w < 256 \<Longrightarrow> v mod 8 * 4 + w div 64 < 32" "w < 256 \<Longrightarrow> v mod 2 * 16 + w div 16 < 32"
    "w < 256 \<Longrightarrow> v mod 16 * 2 + w div 128 < 32" "w < 256 \<Longrightarrow> v mod 4 * 8 + w div 32 < 32"
  by arith+

lemma enc32_bound: "list_all (\<lambda>b. b < 256) bs \<Longrightarrow> \<forall>q \<in> set (enc32 bs). q < 32"
  by (induction bs rule: enc32.induct) (simp_all add: quintet_bounds)

lemma alpha32_props: "distinct alpha32" "length alpha32 = 32" "CHR 10 \<notin> set alpha32" "CHR 13 \<notin> set alpha32"
  by (simp_all add: alpha32_def)

lemma base32_roundtrip [simp]: "base32_Decode (base32_Encode s) = Some s"
proof -
  let ?qs = "enc32 (map of_char s)"
  have b: "\<forall>q \<in> set ?qs. q < 32" by (rule enc32_bound [OF bytes_lt_256])
  have f: "filter (\<lambda>c. c \<noteq> CHR 10 \<and> c \<noteq> CHR 13) (base32_Encode s) = base32_Encode s"
  proof (rule filter_True, rule ballI)
    fix c assume "c \<in> set (base32_Encode s)"
    with b nth_mem [of _ alpha32] have "c \<in> set alpha32"
      unfolding base32_Encode_def by (auto simp: alpha32_props)
    then show "c \<noteq> CHR 10 \<and> c \<noteq> CHR 13" using alpha32_props(3,4) by metis
  qed
  have m: "map (\<lambda>c. index_of c alpha32) (base32_Encode s) = map Some ?qs"
    using b by (simp add: base32_Encode_def index_of_nth alpha32_props)
  show ?thesis
    unfolding base32_Decode_def f m Let_def
    by (auto simp: dec32_enc32 bytes_lt_256 comp_def)
qed

section \<open>Package time\<close>

text \<open>
  A \<open>time.Time\<close> is its instant, in nanoseconds since the Unix epoch; a \<open>time.Duration\<close>
  is a number of nanoseconds. \<open>Time.Sub\<close> saturates at the bounds of \<open>Duration\<close>.
\<close>

type_synonym time = int
type_synonym duration = int

definition second :: duration where "second = 1000000000"
definition minute :: duration where "minute = 60 * second"
definition hour :: duration where "hour = 60 * minute"

definition time_Unix :: "time \<Rightarrow> int" where "time_Unix t = t div second"
definition time_of_Unix :: "int \<Rightarrow> time" where "time_of_Unix u = u * second"

definition time_Sub :: "time \<Rightarrow> time \<Rightarrow> duration" where
  "time_Sub t u = (if t - u > maxInt64 then maxInt64 else if t - u < minInt64 then minInt64 else t - u)"

lemma time_of_Unix_Unix: "time_of_Unix (time_Unix t) \<le> t \<and> t < time_of_Unix (time_Unix t) + second"
proof -
  have "t mod second = t - t div second * second" "0 \<le> t mod second" "t mod second < second"
    by (simp_all add: minus_div_mult_eq_mod second_def)
  then show ?thesis unfolding time_Unix_def time_of_Unix_def by linarith
qed

end
