(* ===== verification/Extern.thy ===== *)
theory Extern
  imports Codec
begin

text \<open>
  What the program takes from outside the repository: the random source, the third-party UUID
  generator, the cryptographic primitives and the Unicode tables beyond ASCII. They are the
  fields of one record, an argument of every definition that uses them; what a theorem needs of
  them is a named predicate in its hypotheses.

  The random source is a tape of bytes. A read at position \<open>t\<close> takes the next bytes and returns
  the advanced position, so two reads of one run never see the same cells. Since Go 1.24
  \<open>crypto/rand.Read\<close> never returns an error, so the panics behind it are unreachable.
\<close>

datatype hash_fn = Sha1 | Sha256 | Sha512

record extern =
  x_rand :: "nat \<Rightarrow> char"
  x_randInt :: "nat \<Rightarrow> nat \<Rightarrow> nat"
  x_uuid :: "nat \<Rightarrow> string"
  x_sha256 :: "bytes \<Rightarrow> bytes"
  x_hmac_sha256 :: "bytes \<Rightarrow> bytes \<Rightarrow> bytes"
  x_hmac_sha1 :: "bytes \<Rightarrow> bytes \<Rightarrow> bytes"
  x_pbkdf2 :: "hash_fn \<Rightarrow> bytes \<Rightarrow> bytes \<Rightarrow> nat \<Rightarrow> nat \<Rightarrow> bytes"
  x_ToUpper :: "string \<Rightarrow> string"
  x_ToLower :: "string \<Rightarrow> string"
  x_IsDigit :: "nat \<Rightarrow> bool"
  x_IsUpper :: "nat \<Rightarrow> bool"
  x_IsLower :: "nat \<Rightarrow> bool"
  x_IsLetter :: "nat \<Rightarrow> bool"

section \<open>Documented behaviour the theorems may assume\<close>

text \<open>\<open>uuid.NewString\<close> gives different strings at different reads, never the empty string and
  never one with a \<open>.\<close>, \<open>|\<close> or \<open>:\<close> (it is 32 hexadecimal digits and four hyphens).\<close>

definition uuid_ok :: "extern \<Rightarrow> bool" where
  "uuid_ok x \<longleftrightarrow> inj (x_uuid x) \<and>
     (\<forall>t. x_uuid x t \<noteq> [] \<and> set (x_uuid x t) \<subseteq> set ''0123456789abcdef-'')"

definition sha256_ok :: "extern \<Rightarrow> bool" where
  "sha256_ok x \<longleftrightarrow> (\<forall>s. length (x_sha256 x s) = 32)"

definition hmac_sha256_ok :: "extern \<Rightarrow> bool" where
  "hmac_sha256_ok x \<longleftrightarrow> (\<forall>k s. length (x_hmac_sha256 x k s) = 32)"

definition hmac_sha1_ok :: "extern \<Rightarrow> bool" where
  "hmac_sha1_ok x \<longleftrightarrow> (\<forall>k s. length (x_hmac_sha1 x k s) = 20)"

text \<open>\<open>pbkdf2.Key\<close> returns a key of the length it was asked for.\<close>

definition pbkdf2_ok :: "extern \<Rightarrow> bool" where
  "pbkdf2_ok x \<longleftrightarrow> (\<forall>p pw salt it n. length (x_pbkdf2 x p pw salt it n) = n)"

text \<open>\<open>rand.Int(rand.Reader, max)\<close> is in \<open>[0, max)\<close>.\<close>

definition randInt_ok :: "extern \<Rightarrow> bool" where
  "randInt_ok x \<longleftrightarrow> (\<forall>m t. 0 < m \<longrightarrow> x_randInt x m t < m)"

section \<open>Random values\<close>

definition rand_Read :: "extern \<Rightarrow> nat \<Rightarrow> nat \<Rightarrow> bytes \<times> nat" where
  "rand_Read x n t = (map (x_rand x) [t..<t + n], t + n)"

definition uuid_NewString :: "extern \<Rightarrow> nat \<Rightarrow> string \<times> nat" where
  "uuid_NewString x t = (x_uuid x t, t + 16)"

lemma length_rand_Read [simp]: "length (fst (rand_Read x n t)) = n"
  by (simp add: rand_Read_def)

lemma snd_rand_Read [simp]: "snd (rand_Read x n t) = t + n"
  by (simp add: rand_Read_def)

lemma uuid_ne: "uuid_ok x \<Longrightarrow> x_uuid x t \<noteq> []"
  unfolding uuid_ok_def by blast

lemma uuid_no_sep:
  assumes "uuid_ok x" and "c \<notin> set ''0123456789abcdef-''"
  shows "c \<notin> set (x_uuid x t)"
  using assms unfolding uuid_ok_def by blast

section \<open>The world of an operation\<close>

text \<open>
  An operation runs against the contents of a store and the random tape. \<^typ>\<open>'s\<close> is the
  store's state: the in-memory store's record, or anything else that meets the interfaces.
\<close>

record 's world =
  db :: 's
  tape :: nat

definition draw :: "(nat \<Rightarrow> 'a \<times> nat) \<Rightarrow> 's world \<Rightarrow> 'a \<times> 's world" where
  "draw f w = (fst (f (tape w)), w\<lparr>tape := snd (f (tape w))\<rparr>)"

lemma draw_simps [simp]:
  "fst (draw f w) = fst (f (tape w))"
  "snd (draw f w) = w\<lparr>tape := snd (f (tape w))\<rparr>"
  by (simp_all add: draw_def)

section \<open>Case mapping and classification of runes\<close>

text \<open>\<open>strings.ToUpper\<close>, \<open>strings.ToLower\<close>: the ASCII fast path, or the full Unicode mapping.\<close>

definition strings_ToUpper :: "extern \<Rightarrow> string \<Rightarrow> string" where
  "strings_ToUpper x s = (if is_ascii s then map upper_byte s else x_ToUpper x s)"

definition strings_ToLower :: "extern \<Rightarrow> string \<Rightarrow> string" where
  "strings_ToLower x s = (if is_ascii s then map lower_byte s else x_ToLower x s)"

definition in_range :: "char \<Rightarrow> char \<Rightarrow> nat \<Rightarrow> bool" where
  "in_range a b r \<longleftrightarrow> of_char a \<le> r \<and> r \<le> of_char b"

definition unicode_IsDigit :: "extern \<Rightarrow> nat \<Rightarrow> bool" where
  "unicode_IsDigit x r = (if r < 128 then in_range (CHR ''0'') (CHR ''9'') r else x_IsDigit x r)"

definition unicode_IsUpper :: "extern \<Rightarrow> nat \<Rightarrow> bool" where
  "unicode_IsUpper x r = (if r < 128 then in_range (CHR ''A'') (CHR ''Z'') r else x_IsUpper x r)"

definition unicode_IsLower :: "extern \<Rightarrow> nat \<Rightarrow> bool" where
  "unicode_IsLower x r = (if r < 128 then in_range (CHR ''a'') (CHR ''z'') r else x_IsLower x r)"

definition unicode_IsLetter :: "extern \<Rightarrow> nat \<Rightarrow> bool" where
  "unicode_IsLetter x r =
     (if r < 128 then in_range (CHR ''a'') (CHR ''z'') r \<or> in_range (CHR ''A'') (CHR ''Z'') r
      else x_IsLetter x r)"

text \<open>\<open>subtle.ConstantTimeCompare(a, b) == 1\<close>: equality, whatever its running time.\<close>

definition subtleConstEq :: "string \<Rightarrow> string \<Rightarrow> bool" where
  "subtleConstEq a b \<longleftrightarrow> a = b"

declare subtleConstEq_def [simp]

section \<open>A concrete instance\<close>

text \<open>
  An instance on which the hypotheses above hold and every definition evaluates: the tape holds
  the positions themselves, digests are padded or truncated messages. It is used by the concrete
  runs that accompany the properties; no property depends on it.
\<close>

definition demo_pad :: "nat \<Rightarrow> bytes \<Rightarrow> bytes" where
  "demo_pad n s = take n (s @ replicate n (CHR ''.''))"

definition demo_uuid :: "nat \<Rightarrow> string" where
  "demo_uuid t = replicate t (CHR ''a'') @ ''-''"

definition demo_extern :: extern where
  "demo_extern = \<lparr>x_rand = (\<lambda>t. char_of t), x_randInt = (\<lambda>m t. t mod m), x_uuid = demo_uuid,
     x_sha256 = demo_pad 32, x_hmac_sha256 = (\<lambda>k s. demo_pad 32 (rev s)),
     x_hmac_sha1 = (\<lambda>k s. demo_pad 20 (rev s)),
     x_pbkdf2 = (\<lambda>p pw salt it n. demo_pad n (pw @ salt)),
     x_ToUpper = (\<lambda>s. s), x_ToLower = (\<lambda>s. s), x_IsDigit = (\<lambda>_. False), x_IsUpper = (\<lambda>_. False),
     x_IsLower = (\<lambda>_. False), x_IsLetter = (\<lambda>_. False)\<rparr>"

lemma length_demo_pad [simp]: "length (demo_pad n s) = n"
  by (simp add: demo_pad_def)

lemma demo_uuid_inj: "inj demo_uuid"
  by (rule injI, drule arg_cong [where f = length]) (simp add: demo_uuid_def)

lemma demo_extern_ok:
  "uuid_ok demo_extern" "sha256_ok demo_extern" "hmac_sha256_ok demo_extern"
  "hmac_sha1_ok demo_extern" "pbkdf2_ok demo_extern" "randInt_ok demo_extern"
  using demo_uuid_inj
  by (auto simp: uuid_ok_def sha256_ok_def hmac_sha256_ok_def hmac_sha1_ok_def pbkdf2_ok_def
      randInt_ok_def demo_extern_def demo_uuid_def)

end
