(* ===== verification/Entities.thy ===== *)
theory Entities
  imports Extern
begin

text \<open>
  The data model of package \<open>identity\<close>: the entities of \<open>entities.go\<close>, the coded errors of
  \<open>errors.go\<close>, the options of \<open>options.go\<close> and the small value types of \<open>store.go\<close>.
  A pointer field that may be \<open>nil\<close> is an option. \<open>UserManagerOf[T]\<close> is modelled at the
  built-in \<open>User\<close>, for which \<open>Base()\<close> is the identity.
\<close>

section \<open>Errors\<close>

text \<open>
  One constructor per sentinel variable, so that \<open>errors.Is\<close> is equality of constructors;
  \<open>IdentityErr\<close> is a value made on the spot by \<open>newErr\<close>, \<open>StoreErr\<close> any failure of a
  database driver or sender.
\<close>

datatype go_error =
    ErrNotFound | ErrUserNotFound | ErrRoleNotFound | ErrDuplicateUserName | ErrDuplicateEmail
  | ErrDuplicateRoleName | ErrPasswordTooShort | ErrPasswordRequiresDigit | ErrPasswordRequiresUpper
  | ErrPasswordRequiresLower | ErrPasswordRequiresNonAlpha | ErrPasswordRequiresUnique
  | ErrInvalidUserName | ErrPasswordAlreadySet | ErrLoginAlreadyUsed | ErrNotAnonymous
  | ErrPurgeNotSupported | ErrInvalidAPIKey | ErrPasswordMismatch | ErrUserLockedOut
  | ErrInvalidToken | ErrConcurrencyFailure | ErrListNotSupported | ErrInvalidIdentifier
  | IdentityErr string | StoreErr string

section \<open>Entities\<close>

type_synonym attributes = "(string, string) gomap"

record user =
  u_ID :: string
  u_UserName :: string
  u_NormalizedUserName :: string
  u_Email :: string
  u_NormalizedEmail :: string
  u_EmailConfirmed :: bool
  u_PasswordHash :: string
  u_SecurityStamp :: string
  u_ConcurrencyStamp :: string
  u_PhoneNumber :: string
  u_PhoneNumberConfirmed :: bool
  u_TwoFactorEnabled :: bool
  u_LockoutEnd :: "time option"
  u_LockoutEnabled :: bool
  u_AccessFailedCount :: int
  u_IsAnonymous :: bool
  u_Attributes :: "attributes option"
  u_CreatedAt :: time
  u_UpdatedAt :: time

text \<open>The zero value \<open>User{}\<close>; \<open>time.Time{}\<close> is 1 January of year 1.\<close>

definition zero_time :: time where "zero_time = - 62135596800 * second"

definition zero_user :: user where
  "zero_user = \<lparr>u_ID = [], u_UserName = [], u_NormalizedUserName = [], u_Email = [],
     u_NormalizedEmail = [], u_EmailConfirmed = False, u_PasswordHash = [], u_SecurityStamp = [],
     u_ConcurrencyStamp = [], u_PhoneNumber = [], u_PhoneNumberConfirmed = False,
     u_TwoFactorEnabled = False, u_LockoutEnd = None, u_LockoutEnabled = False,
     u_AccessFailedCount = 0, u_IsAnonymous = False, u_Attributes = None,
     u_CreatedAt = zero_time, u_UpdatedAt = zero_time\<rparr>"

definition User_GetAttribute :: "user \<Rightarrow> string \<Rightarrow> string \<times> bool" where
  "User_GetAttribute u key =
     (case u_Attributes u of
        None \<Rightarrow> ([], False)
      | Some m \<Rightarrow> (case map_of m key of None \<Rightarrow> ([], False) | Some v \<Rightarrow> (v, True)))"

definition User_SetAttribute :: "string \<Rightarrow> string \<Rightarrow> user \<Rightarrow> user" where
  "User_SetAttribute key val u =
     u\<lparr>u_Attributes := Some (AList.update key val (case u_Attributes u of None \<Rightarrow> [] | Some m \<Rightarrow> m))\<rparr>"

record role =
  r_ID :: string
  r_Name :: string
  r_NormalizedName :: string
  r_ConcurrencyStamp :: string

record claim =
  c_Type :: string
  c_Value :: string

record login_info =
  l_LoginProvider :: string
  l_ProviderKey :: string
  l_ProviderDisplayName :: string

record api_key =
  k_ID :: string
  k_UserID :: string
  k_Name :: string
  k_Prefix :: string
  k_KeyHash :: string
  k_Scopes :: "string list"
  k_ExpiresAt :: "time option"
  k_LastUsedAt :: "time option"
  k_RevokedAt :: "time option"
  k_CreatedAt :: time

record refresh_token =
  rt_SessionID :: string
  rt_UserID :: string
  rt_TokenHash :: string
  rt_Name :: string
  rt_ExpiresAt :: time
  rt_CreatedAt :: time
  rt_LastUsedAt :: "time option"

section \<open>Options\<close>

record password_options =
  RequiredLength :: int
  RequireDigit :: bool
  RequireLowercase :: bool
  RequireUppercase :: bool
  RequireNonAlphanumeric :: bool
  RequiredUniqueChars :: int

record lockout_options =
  AllowedForNewUsers :: bool
  MaxFailedAccessAttempts :: int
  DefaultLockoutDuration :: duration

record user_options =
  RequireUniqueEmail :: bool
  AllowedUserNameCharacters :: string

record sign_in_options =
  RequireConfirmedEmail :: bool
  RequireConfirmedPhoneNumber :: bool

record options =
  o_Password :: password_options
  o_Lockout :: lockout_options
  o_User :: user_options
  o_SignIn :: sign_in_options

definition DefaultOptions :: options where
  "DefaultOptions =
     \<lparr>o_Password = \<lparr>RequiredLength = 6, RequireDigit = True, RequireLowercase = True,
        RequireUppercase = True, RequireNonAlphanumeric = True, RequiredUniqueChars = 1\<rparr>,
      o_Lockout = \<lparr>AllowedForNewUsers = True, MaxFailedAccessAttempts = 5,
        DefaultLockoutDuration = 5 * minute\<rparr>,
      o_User = \<lparr>RequireUniqueEmail = True,
        AllowedUserNameCharacters =
          ''abcdefghijklmnopqrstuvwxyzABCDEFGHIJKLMNOPQRSTUVWXYZ0123456789-._@+''\<rparr>,
      o_SignIn = \<lparr>RequireConfirmedEmail = False, RequireConfirmedPhoneNumber = False\<rparr>\<rparr>"

section \<open>List filters\<close>

record list_filter =
  lf_Search :: string
  lf_Limit :: int
  lf_Offset :: int

definition ListFilter_Clamp :: "list_filter \<Rightarrow> list_filter" where
  "ListFilter_Clamp f =
     (let f = (if lf_Limit f \<le> 0 then f\<lparr>lf_Limit := 50\<rparr> else f);
          f = (if lf_Limit f > 500 then f\<lparr>lf_Limit := 500\<rparr> else f)
      in if lf_Offset f < 0 then f\<lparr>lf_Offset := 0\<rparr> else f)"

section \<open>Small helpers of the package\<close>

definition newStamp :: "extern \<Rightarrow> nat \<Rightarrow> string \<times> nat" where
  "newStamp x t = (let (b, t) = rand_Read x 20 t in (base64_Encode RawURLEncoding b, t))"

definition randomToken :: "extern \<Rightarrow> nat \<Rightarrow> string \<times> nat" where
  "randomToken x t = (let (b, t) = rand_Read x 32 t in (base64_Encode RawURLEncoding b, t))"

definition NewConcurrencyStamp :: "extern \<Rightarrow> nat \<Rightarrow> string \<times> nat" where
  "NewConcurrencyStamp x t = uuid_NewString x t"

definition hashRefresh :: "extern \<Rightarrow> string \<Rightarrow> string" where
  "hashRefresh x token = base64_Encode RawStdEncoding (x_sha256 x token)"

definition upperNormalizer_Normalize :: "extern \<Rightarrow> string \<Rightarrow> string" where
  "upperNormalizer_Normalize x s = strings_ToUpper x (strings_TrimSpace s)"

lemma Get_Set_Attribute [simp]:
  "User_GetAttribute (User_SetAttribute k v u) k' =
     (if k' = k then (v, True) else User_GetAttribute u k')"
  by (auto simp: User_GetAttribute_def User_SetAttribute_def update_conv split: option.splits)

lemma Clamp_bounds:
  "1 \<le> lf_Limit (ListFilter_Clamp f)" "lf_Limit (ListFilter_Clamp f) \<le> 500"
  "0 \<le> lf_Offset (ListFilter_Clamp f)" "lf_Search (ListFilter_Clamp f) = lf_Search f"
  by (auto simp: ListFilter_Clamp_def Let_def)

lemma draw_NewConcurrencyStamp [simp]:
  "draw (NewConcurrencyStamp x) w = (x_uuid x (tape w), w\<lparr>tape := tape w + 16\<rparr>)"
  by (simp add: draw_def NewConcurrencyStamp_def uuid_NewString_def)

lemma draw_uuid [simp]:
  "draw (uuid_NewString x) w = (x_uuid x (tape w), w\<lparr>tape := tape w + 16\<rparr>)"
  by (simp add: draw_def uuid_NewString_def)

lemma newStamp_no_sep:
  "CHR ''|'' \<notin> set (fst (newStamp x t))"
  by (simp add: newStamp_def rand_Read_def)

lemma draw_randomToken [simp]:
  "draw (randomToken x) w = (fst (randomToken x (tape w)), w\<lparr>tape := tape w + 32\<rparr>)"
  by (simp add: draw_def randomToken_def rand_Read_def)

lemma randomToken_ne [simp]: "fst (randomToken x t) \<noteq> []"
  by (simp add: randomToken_def rand_Read_def base64_Encode_ne upt_rec)

lemma randomToken_no_dot: "CHR ''.'' \<notin> set (fst (randomToken x t))"
  by (simp add: randomToken_def rand_Read_def)

end
