(* ===== verification/OAuth_Types.thy ===== *)
theory OAuth_Types
  imports Entities
begin

text \<open>
  The entities of package \<open>oauth\<close> (\<open>oauth/types.go\<close>) and its protocol constants.
\<close>

definition AuthMethodNone :: string where "AuthMethodNone = ''none''"
definition AuthMethodClientSecretBasic :: string where
  "AuthMethodClientSecretBasic = ''client_secret_basic''"
definition AuthMethodClientSecretPost :: string where
  "AuthMethodClientSecretPost = ''client_secret_post''"
definition AuthMethodPrivateKeyJWT :: string where "AuthMethodPrivateKeyJWT = ''private_key_jwt''"
definition ClientAssertionTypeJWTBearer :: string where
  "ClientAssertionTypeJWTBearer = ''urn:ietf:params:oauth:client-assertion-type:jwt-bearer''"
definition GrantTypeAuthorizationCode :: string where
  "GrantTypeAuthorizationCode = ''authorization_code''"
definition GrantTypeRefreshToken :: string where "GrantTypeRefreshToken = ''refresh_token''"
definition ScopeOfflineAccess :: string where "ScopeOfflineAccess = ''offline_access''"

record oauth_client =
  cl_ClientID :: string
  cl_SecretHash :: string
  cl_Name :: string
  cl_RedirectURIs :: "string list"
  cl_TokenEndpointAuthMethod :: string
  cl_GrantTypes :: "string list"
  cl_CreatedAt :: time
  cl_LastUsedAt :: "time option"

record oauth_code =
  cd_CodeHash :: string
  cd_ClientID :: string
  cd_UserID :: string
  cd_RedirectURI :: string
  cd_Scopes :: string
  cd_Resource :: string
  cd_CodeChallenge :: string
  cd_ExpiresAt :: time
  cd_UsedAt :: "time option"
  cd_GrantID :: string

record oauth_consent =
  cs_UserID :: string
  cs_ClientID :: string
  cs_Scopes :: string
  cs_CreatedAt :: time
  cs_UpdatedAt :: time

record oauth_grant =
  g_ID :: string
  g_UserID :: string
  g_ClientID :: string
  g_Scopes :: string
  g_Resource :: string
  g_TokenHash :: string
  g_PrevTokenHash :: string
  g_SecurityStamp :: string
  g_ExpiresAt :: time
  g_CreatedAt :: time
  g_LastUsedAt :: "time option"

end
