(* ===== verification/Store_Interface.thy ===== *)
theory Store_Interface
  imports OAuth_Types
begin

text \<open>
  The store interfaces of \<open>identity/store.go\<close> and \<open>oauth/types.go\<close>. A Go interface is a record
  of functions over a world whose store state is arbitrary; the managers hold such records, as
  the structs of the code hold interface values. A locale per interface states what the managers
  rely on; the in-memory store discharges it in its own theory.

  A method that writes takes and returns the world. A lookup returns an error or a row; the pair
  of a nil row and a nil error, which no store returns, is not represented, so the managers'
  \<open>!= nil\<close> tests after a successful lookup are always true. A method handed a \<open>*User\<close> may
  write through the pointer: \<open>Create\<close> and \<open>Update\<close> return the user as they leave it.
\<close>

section \<open>User stores\<close>

record 's user_store =
  us_Create :: "user \<Rightarrow> 's world \<Rightarrow> go_error option \<times> user \<times> 's world"
  us_Update :: "user \<Rightarrow> 's world \<Rightarrow> go_error option \<times> user \<times> 's world"
  us_Delete :: "user \<Rightarrow> 's world \<Rightarrow> go_error option \<times> 's world"
  us_FindByID :: "string \<Rightarrow> 's world \<Rightarrow> go_error + user"
  us_FindByName :: "string \<Rightarrow> 's world \<Rightarrow> go_error + user"
  us_FindByEmail :: "string \<Rightarrow> 's world \<Rightarrow> go_error + user"
  us_AddToRole :: "user \<Rightarrow> string \<Rightarrow> 's world \<Rightarrow> go_error option \<times> 's world"
  us_RemoveFromRole :: "user \<Rightarrow> string \<Rightarrow> 's world \<Rightarrow> go_error option \<times> 's world"
  us_GetRoles :: "user \<Rightarrow> 's world \<Rightarrow> go_error + string list"
  us_IsInRole :: "user \<Rightarrow> string \<Rightarrow> 's world \<Rightarrow> go_error + bool"
  us_GetUsersInRole :: "string \<Rightarrow> 's world \<Rightarrow> go_error + user list"
  us_GetClaims :: "user \<Rightarrow> 's world \<Rightarrow> go_error + claim list"
  us_AddClaims :: "user \<Rightarrow> claim list \<Rightarrow> 's world \<Rightarrow> go_error option \<times> 's world"
  us_RemoveClaims :: "user \<Rightarrow> claim list \<Rightarrow> 's world \<Rightarrow> go_error option \<times> 's world"
  us_GetUsersForClaim :: "string \<Rightarrow> string \<Rightarrow> 's world \<Rightarrow> go_error + user list"
  us_GetToken :: "user \<Rightarrow> string \<Rightarrow> string \<Rightarrow> 's world \<Rightarrow> go_error + string"
  us_SetToken :: "user \<Rightarrow> string \<Rightarrow> string \<Rightarrow> string \<Rightarrow> 's world \<Rightarrow> go_error option \<times> 's world"
  us_RemoveToken :: "user \<Rightarrow> string \<Rightarrow> string \<Rightarrow> 's world \<Rightarrow> go_error option \<times> 's world"
  us_AddLogin :: "user \<Rightarrow> login_info \<Rightarrow> 's world \<Rightarrow> go_error option \<times> 's world"
  us_RemoveLogin :: "user \<Rightarrow> string \<Rightarrow> string \<Rightarrow> 's world \<Rightarrow> go_error option \<times> 's world"
  us_GetLogins :: "user \<Rightarrow> 's world \<Rightarrow> go_error + login_info list"
  us_FindByLogin :: "string \<Rightarrow> string \<Rightarrow> 's world \<Rightarrow> go_error + user"
  us_ListUsers :: "(list_filter \<Rightarrow> 's world \<Rightarrow> go_error + user list \<times> int) option"
  us_PurgeAnonymousUsers :: "(time \<Rightarrow> 's world \<Rightarrow> (go_error + int) \<times> 's world) option"

text \<open>
  The contract of \<open>UserCrudStore\<close>. \<open>rows\<close> abstracts the store to the map from IDs to users,
  \<open>inv\<close> is the store's invariant. A failed write changes nothing; \<open>Update\<close> compares the
  concurrency stamp, and on success stores the user under a stamp freshly drawn from the tape.
\<close>

definition fresh_stamp :: "extern \<Rightarrow> 's world \<Rightarrow> 's world \<Rightarrow> string \<Rightarrow> bool" where
  "fresh_stamp x w w' s \<longleftrightarrow> (\<exists>t. tape w \<le> t \<and> t < tape w' \<and> s = x_uuid x t)"

definition issued :: "extern \<Rightarrow> 's world \<Rightarrow> string \<Rightarrow> bool" where
  "issued x w s \<longleftrightarrow> (\<exists>t < tape w. s = x_uuid x t)"

lemma issued_mono: "issued x w s \<Longrightarrow> tape w \<le> tape w' \<Longrightarrow> issued x w' s"
  unfolding issued_def by (metis order.strict_trans2)

lemma fresh_not_issued: "uuid_ok x \<Longrightarrow> fresh_stamp x w w' s \<Longrightarrow> \<not> issued x w s"
  unfolding issued_def fresh_stamp_def uuid_ok_def by (metis injD not_le)

lemma fresh_issued: "fresh_stamp x w w' s \<Longrightarrow> issued x w' s"
  by (auto simp: issued_def fresh_stamp_def)

locale user_crud =
  fixes x :: extern and S :: "'s user_store" and inv :: "'s \<Rightarrow> bool"
    and rows :: "'s \<Rightarrow> string \<Rightarrow> user option"
  assumes rows_ID: "inv (db w) \<Longrightarrow> rows (db w) i = Some u \<Longrightarrow> u_ID u = i"
    and FindByID: "inv (db w) \<Longrightarrow> us_FindByID S i w = Inr u \<longleftrightarrow> rows (db w) i = Some u"
    and FindByName_some: "inv (db w) \<Longrightarrow> us_FindByName S n w = Inr u \<Longrightarrow>
      rows (db w) (u_ID u) = Some u \<and> u_NormalizedUserName u = n"
    and FindByName_none: "inv (db w) \<Longrightarrow> us_FindByName S n w = Inl ErrNotFound \<Longrightarrow>
      rows (db w) i = Some u \<Longrightarrow> u_NormalizedUserName u \<noteq> n"
    and FindByEmail_some: "inv (db w) \<Longrightarrow> us_FindByEmail S n w = Inr u \<Longrightarrow>
      rows (db w) (u_ID u) = Some u \<and> u_NormalizedEmail u = n \<and> n \<noteq> []"
    and FindByEmail_none: "inv (db w) \<Longrightarrow> us_FindByEmail S n w = Inl ErrNotFound \<Longrightarrow>
      n \<noteq> [] \<Longrightarrow> rows (db w) i = Some u \<Longrightarrow> u_NormalizedEmail u \<noteq> n"
    and FindByLogin_some: "inv (db w) \<Longrightarrow> us_FindByLogin S p k w = Inr u \<Longrightarrow>
      rows (db w) (u_ID u) = Some u"
    and Create_ok: "inv (db w) \<Longrightarrow> us_Create S u w = (None, u', w') \<Longrightarrow>
      inv (db w') \<and> u' = u \<and> tape w \<le> tape w' \<and> rows (db w') = (rows (db w))(u_ID u \<mapsto> u)"
    and Create_err: "inv (db w) \<Longrightarrow> us_Create S u w = (Some e, u', w') \<Longrightarrow>
      inv (db w') \<and> u' = u \<and> tape w \<le> tape w' \<and> rows (db w') = rows (db w)"
    and Update_ok: "inv (db w) \<Longrightarrow> us_Update S u w = (None, u', w') \<Longrightarrow>
      inv (db w') \<and> tape w \<le> tape w' \<and>
      (\<exists>r. rows (db w) (u_ID u) = Some r \<and> u_ConcurrencyStamp r = u_ConcurrencyStamp u) \<and>
      (\<exists>s. u' = u\<lparr>u_ConcurrencyStamp := s\<rparr> \<and> fresh_stamp x w w' s) \<and>
      rows (db w') = (rows (db w))(u_ID u \<mapsto> u')"
    and Update_err: "inv (db w) \<Longrightarrow> us_Update S u w = (Some e, u', w') \<Longrightarrow>
      inv (db w') \<and> u' = u \<and> tape w \<le> tape w' \<and> rows (db w') = rows (db w)"
    and Update_stale: "inv (db w) \<Longrightarrow> rows (db w) (u_ID u) = Some r \<Longrightarrow>
      u_ConcurrencyStamp r \<noteq> u_ConcurrencyStamp u \<Longrightarrow> \<exists>e u' w'. us_Update S u w = (Some e, u', w')"
    and Update_gone: "inv (db w) \<Longrightarrow> rows (db w) (u_ID u) = None \<Longrightarrow>
      \<exists>e u' w'. us_Update S u w = (Some e, u', w')"
    and Delete_ok: "inv (db w) \<Longrightarrow> us_Delete S u w = (None, w') \<Longrightarrow>
      inv (db w') \<and> tape w \<le> tape w' \<and> rows (db w') = (rows (db w))(u_ID u := None)"
    and Delete_err: "inv (db w) \<Longrightarrow> us_Delete S u w = (Some e, w') \<Longrightarrow>
      inv (db w') \<and> tape w \<le> tape w' \<and> rows (db w') = rows (db w)"

text \<open>
  The contract of \<open>UserTokenStore\<close>: one value per user, provider and name, an absent token
  reading as the empty string. Names and providers are the constants of the managers, which hold
  no \<open>|\<close>. Writing a token leaves the users' rows alone.
\<close>

definition plain_key :: "string \<Rightarrow> bool" where
  "plain_key s \<longleftrightarrow> CHR ''|'' \<notin> set s"

locale user_tokens = user_crud x S inv rows
  for x :: extern and S :: "'s user_store" and inv :: "'s \<Rightarrow> bool"
    and rows :: "'s \<Rightarrow> string \<Rightarrow> user option" +
  assumes SetToken_keeps: "inv (db w) \<Longrightarrow> us_SetToken S u p n v w = (e, w') \<Longrightarrow>
      inv (db w') \<and> tape w' = tape w \<and> rows (db w') = rows (db w)"
    and RemoveToken_keeps: "inv (db w) \<Longrightarrow> us_RemoveToken S u p n w = (e, w') \<Longrightarrow>
      inv (db w') \<and> tape w' = tape w \<and> rows (db w') = rows (db w)"
    and Get_Set_same: "inv (db w) \<Longrightarrow> us_SetToken S u p n v w = (None, w') \<Longrightarrow> u_ID u' = u_ID u \<Longrightarrow>
      us_GetToken S u' p n w' = Inr v"
    and Get_Set_other: "inv (db w) \<Longrightarrow> us_SetToken S u p n v w = (None, w') \<Longrightarrow> u_ID u' = u_ID u \<Longrightarrow>
      plain_key p \<Longrightarrow> plain_key p' \<Longrightarrow> (p, n) \<noteq> (p', n') \<Longrightarrow>
      us_GetToken S u' p' n' w' = us_GetToken S u' p' n' w"
    and Get_Remove_same: "inv (db w) \<Longrightarrow> us_RemoveToken S u p n w = (None, w') \<Longrightarrow> u_ID u' = u_ID u \<Longrightarrow>
      us_GetToken S u' p n w' = Inr []"
    and Get_Remove_other: "inv (db w) \<Longrightarrow> us_RemoveToken S u p n w = (None, w') \<Longrightarrow> u_ID u' = u_ID u \<Longrightarrow>
      plain_key p \<Longrightarrow> plain_key p' \<Longrightarrow> (p, n) \<noteq> (p', n') \<Longrightarrow>
      us_GetToken S u' p' n' w' = us_GetToken S u' p' n' w"

text \<open>
  A store without I/O failures: an update whose stamp matches succeeds, and creation never fails.
\<close>

locale reliable_users = user_tokens x S inv rows
  for x :: extern and S :: "'s user_store" and inv :: "'s \<Rightarrow> bool"
    and rows :: "'s \<Rightarrow> string \<Rightarrow> user option" +
  assumes Update_total: "inv (db w) \<Longrightarrow> rows (db w) (u_ID u) = Some r \<Longrightarrow>
      u_ConcurrencyStamp r = u_ConcurrencyStamp u \<Longrightarrow> \<exists>u' w'. us_Update S u w = (None, u', w')"
    and Create_total: "inv (db w) \<Longrightarrow> \<exists>u' w'. us_Create S u w = (None, u', w')"
    and SetToken_total: "inv (db w) \<Longrightarrow> \<exists>w'. us_SetToken S u p n v w = (None, w')"
    and RemoveToken_total: "inv (db w) \<Longrightarrow> \<exists>w'. us_RemoveToken S u p n w = (None, w')"
    and GetToken_total: "inv (db w) \<Longrightarrow> \<exists>v. us_GetToken S u p n w = Inr v"

section \<open>Role stores\<close>

record 's role_store =
  rs_Create :: "role \<Rightarrow> 's world \<Rightarrow> go_error option \<times> 's world"
  rs_Update :: "role \<Rightarrow> 's world \<Rightarrow> go_error option \<times> role \<times> 's world"
  rs_Delete :: "role \<Rightarrow> 's world \<Rightarrow> go_error option \<times> 's world"
  rs_FindByID :: "string \<Rightarrow> 's world \<Rightarrow> go_error + role"
  rs_FindByName :: "string \<Rightarrow> 's world \<Rightarrow> go_error + role"
  rs_GetClaims :: "role \<Rightarrow> 's world \<Rightarrow> go_error + claim list"
  rs_AddClaim :: "role \<Rightarrow> claim \<Rightarrow> 's world \<Rightarrow> go_error option \<times> 's world"
  rs_RemoveClaim :: "role \<Rightarrow> claim \<Rightarrow> 's world \<Rightarrow> go_error option \<times> 's world"

section \<open>API-key and refresh-session stores\<close>

text \<open>The store reads the clock in \<open>GetActiveAPIKeyByHash\<close>, \<open>RevokeAPIKey\<close> and
  \<open>TouchAPIKeyLastUsed\<close>; the instant is an argument.\<close>

record 's api_key_store =
  ks_CreateAPIKey :: "api_key \<Rightarrow> 's world \<Rightarrow> go_error option \<times> 's world"
  ks_GetActiveAPIKeyByHash :: "time \<Rightarrow> string \<Rightarrow> 's world \<Rightarrow> go_error + api_key"
  ks_ListAPIKeysByUser :: "string \<Rightarrow> 's world \<Rightarrow> go_error + api_key list"
  ks_RevokeAPIKey :: "time \<Rightarrow> string \<Rightarrow> 's world \<Rightarrow> go_error option \<times> 's world"
  ks_TouchAPIKeyLastUsed :: "time \<Rightarrow> string \<Rightarrow> 's world \<Rightarrow> go_error option \<times> 's world"

record 's refresh_token_store =
  ts_CreateRefreshToken :: "refresh_token \<Rightarrow> 's world \<Rightarrow> go_error option \<times> 's world"
  ts_GetRefreshTokenBySession :: "string \<Rightarrow> 's world \<Rightarrow> go_error + refresh_token"
  ts_UpdateRefreshToken :: "refresh_token \<Rightarrow> 's world \<Rightarrow> go_error option \<times> 's world"
  ts_DeleteRefreshToken :: "string \<Rightarrow> 's world \<Rightarrow> go_error option \<times> 's world"
  ts_DeleteUserRefreshTokens :: "string \<Rightarrow> 's world \<Rightarrow> (go_error + int) \<times> 's world"
  ts_DeleteExpiredRefreshTokens :: "time \<Rightarrow> 's world \<Rightarrow> (go_error + int) \<times> 's world"
  ts_ListUserRefreshTokens :: "string \<Rightarrow> 's world \<Rightarrow> go_error + refresh_token list"

section \<open>The authorization server's store\<close>

record 's oauth_store =
  os_CreateClient :: "oauth_client \<Rightarrow> 's world \<Rightarrow> go_error option \<times> 's world"
  os_GetClient :: "string \<Rightarrow> 's world \<Rightarrow> go_error + oauth_client"
  os_TouchClient :: "string \<Rightarrow> time \<Rightarrow> 's world \<Rightarrow> go_error option \<times> 's world"
  os_DeleteStaleClients :: "time \<Rightarrow> 's world \<Rightarrow> (go_error + int) \<times> 's world"
  os_CreateCode :: "oauth_code \<Rightarrow> 's world \<Rightarrow> go_error option \<times> 's world"
  os_GetCode :: "string \<Rightarrow> 's world \<Rightarrow> go_error + oauth_code"
  os_MarkCodeUsed :: "string \<Rightarrow> string \<Rightarrow> time \<Rightarrow> 's world \<Rightarrow> (go_error + bool) \<times> 's world"
  os_DeleteExpiredCodes :: "time \<Rightarrow> 's world \<Rightarrow> (go_error + int) \<times> 's world"
  os_GetConsent :: "string \<Rightarrow> string \<Rightarrow> 's world \<Rightarrow> go_error + oauth_consent"
  os_SaveConsent :: "oauth_consent \<Rightarrow> 's world \<Rightarrow> go_error option \<times> 's world"
  os_DeleteConsent :: "string \<Rightarrow> string \<Rightarrow> 's world \<Rightarrow> go_error option \<times> 's world"
  os_CreateGrant :: "oauth_grant \<Rightarrow> 's world \<Rightarrow> go_error option \<times> 's world"
  os_GetGrant :: "string \<Rightarrow> 's world \<Rightarrow> go_error + oauth_grant"
  os_RotateGrant :: "string \<Rightarrow> string \<Rightarrow> string \<Rightarrow> time \<Rightarrow> time \<Rightarrow> 's world \<Rightarrow> (go_error + bool) \<times> 's world"
  os_DeleteGrant :: "string \<Rightarrow> 's world \<Rightarrow> go_error option \<times> 's world"
  os_DeleteUserClientGrants :: "string \<Rightarrow> string \<Rightarrow> 's world \<Rightarrow> (go_error + int) \<times> 's world"
  os_ListUserGrants :: "string \<Rightarrow> 's world \<Rightarrow> go_error + oauth_grant list"
  os_DeleteExpiredGrants :: "time \<Rightarrow> 's world \<Rightarrow> (go_error + int) \<times> 's world"
  os_UseClientAssertion :: "string \<Rightarrow> string \<Rightarrow> time \<Rightarrow> 's world \<Rightarrow> (go_error + bool) \<times> 's world"
  os_DeleteExpiredClientAssertions :: "time \<Rightarrow> 's world \<Rightarrow> (go_error + int) \<times> 's world"

end
