(* ===== verification/Memstore.thy ===== *)
theory Memstore
  imports Store_Interface
begin

text \<open>
  The in-memory store of \<open>stores/memstore\<close>: one record for \<open>Store\<close>, one definition per
  method of its user, role, API-key, refresh-session and OAuth views. Every method of the code
  runs under the store's mutex, so each is one atomic step here. \<open>clone\<close> makes a shallow copy;
  values are copied by construction in the model (the sharing of a user's \<open>Attributes\<close> map
  between copies is not represented). A \<open>range\<close> loop over a map runs in the order of the
  association list.
\<close>

record memstore =
  m_users :: "(string, user) gomap"
  m_roles :: "(string, role) gomap"
  m_userRoles :: "(string, (string, bool) gomap) gomap"
  m_userClaims :: "(string, claim list) gomap"
  m_roleClaims :: "(string, claim list) gomap"
  m_tokens :: "(string, string) gomap"
  m_logins :: "(string, login_info) gomap"
  m_loginUser :: "(string, string) gomap"
  m_apiKeys :: "(string, api_key) gomap"
  m_refreshTokens :: "(string, refresh_token) gomap"
  m_oauthClients :: "(string, oauth_client) gomap"
  m_oauthCodes :: "(string, oauth_code) gomap"
  m_oauthConsents :: "(string, oauth_consent) gomap"
  m_oauthGrants :: "(string, oauth_grant) gomap"
  m_oauthJTIs :: "(string \<times> string, time) gomap"

definition memstore_New :: memstore where
  "memstore_New = \<lparr>m_users = [], m_roles = [], m_userRoles = [], m_userClaims = [],
     m_roleClaims = [], m_tokens = [], m_logins = [], m_loginUser = [], m_apiKeys = [],
     m_refreshTokens = [], m_oauthClients = [], m_oauthCodes = [], m_oauthConsents = [],
     m_oauthGrants = [], m_oauthJTIs = []\<rparr>"

definition tokenKey :: "string \<Rightarrow> string \<Rightarrow> string \<Rightarrow> string" where
  "tokenKey userID provider name = userID @ ''|'' @ provider @ ''|'' @ name"

definition loginKey :: "string \<Rightarrow> string \<Rightarrow> string" where
  "loginKey provider key = provider @ ''|'' @ key"

definition consentKey :: "string \<Rightarrow> string \<Rightarrow> string" where
  "consentKey userID clientID = userID @ ''|'' @ clientID"

text \<open>A write under the lock replaces the store's contents and leaves the tape.\<close>

abbreviation upd_db :: "('s \<Rightarrow> 's) \<Rightarrow> 's world \<Rightarrow> 's world" where
  "upd_db f w \<equiv> w\<lparr>db := f (db w)\<rparr>"

text \<open>\<open>m[k]\<close> of an absent key is the zero value.\<close>

definition lookup_or :: "'v \<Rightarrow> ('k, 'v) gomap \<Rightarrow> 'k \<Rightarrow> 'v" where
  "lookup_or z m k = (case map_of m k of None \<Rightarrow> z | Some v \<Rightarrow> v)"

section \<open>The user store\<close>

definition userStore_Create :: "user \<Rightarrow> memstore world \<Rightarrow> go_error option \<times> user \<times> memstore world" where
  "userStore_Create u w = (None, u, upd_db (m_users_update (AList.update (u_ID u) u)) w)"

definition userStore_Update ::
  "extern \<Rightarrow> user \<Rightarrow> memstore world \<Rightarrow> go_error option \<times> user \<times> memstore world" where
  "userStore_Update x u w =
     (case map_of (m_users (db w)) (u_ID u) of
        None \<Rightarrow> (Some ErrNotFound, u, w)
      | Some cur \<Rightarrow>
          if u_ConcurrencyStamp cur \<noteq> u_ConcurrencyStamp u then (Some ErrConcurrencyFailure, u, w)
          else
            let (s, w) = draw (NewConcurrencyStamp x) w;
                u = u\<lparr>u_ConcurrencyStamp := s\<rparr>
            in (None, u, upd_db (m_users_update (AList.update (u_ID u) u)) w))"

definition cascadeDeleteLocked :: "string \<Rightarrow> memstore \<Rightarrow> memstore" where
  "cascadeDeleteLocked i s =
     (let s = m_users_update (AList.delete i) s;
          s = m_userRoles_update (AList.delete i) s;
          s = m_userClaims_update (AList.delete i) s;
          s = m_tokens_update (delete_if (\<lambda>k _. prefix (i @ ''|'') k)) s;
          s = m_logins_update (delete_if (\<lambda>k _. map_of (m_loginUser s) k = Some i)) s;
          s = m_loginUser_update (delete_if (\<lambda>_ uid. uid = i)) s;
          s = m_apiKeys_update (delete_if (\<lambda>_ k. k_UserID k = i)) s;
          s = m_refreshTokens_update (delete_if (\<lambda>_ rt. rt_UserID rt = i)) s;
          s = m_oauthCodes_update (delete_if (\<lambda>_ c. cd_UserID c = i)) s;
          s = m_oauthConsents_update (delete_if (\<lambda>_ c. cs_UserID c = i)) s
      in m_oauthGrants_update (delete_if (\<lambda>_ g. g_UserID g = i)) s)"

definition userStore_Delete :: "user \<Rightarrow> memstore world \<Rightarrow> go_error option \<times> memstore world" where
  "userStore_Delete u w = (None, upd_db (cascadeDeleteLocked (u_ID u)) w)"

definition userStore_PurgeAnonymousUsers ::
  "time \<Rightarrow> memstore world \<Rightarrow> (go_error + int) \<times> memstore world" where
  "userStore_PurgeAnonymousUsers createdBefore w =
     (let ids = map fst (filter (\<lambda>(i, u). u_IsAnonymous u \<and> u_CreatedAt u < createdBefore)
                  (m_users (db w)))
      in (Inr (int (length ids)), upd_db (fold cascadeDeleteLocked ids) w))"

definition userStore_FindByID :: "string \<Rightarrow> memstore world \<Rightarrow> go_error + user" where
  "userStore_FindByID i w =
     (case map_of (m_users (db w)) i of None \<Rightarrow> Inl ErrNotFound | Some u \<Rightarrow> Inr u)"

definition userStore_findBy :: "(user \<Rightarrow> bool) \<Rightarrow> memstore world \<Rightarrow> go_error + user" where
  "userStore_findBy p w =
     (case find_val p (m_users (db w)) of None \<Rightarrow> Inl ErrNotFound | Some u \<Rightarrow> Inr u)"

definition userStore_FindByName :: "string \<Rightarrow> memstore world \<Rightarrow> go_error + user" where
  "userStore_FindByName n = userStore_findBy (\<lambda>u. u_NormalizedUserName u = n)"

definition userStore_FindByEmail :: "string \<Rightarrow> memstore world \<Rightarrow> go_error + user" where
  "userStore_FindByEmail e = userStore_findBy (\<lambda>u. u_NormalizedEmail u = e \<and> e \<noteq> [])"

text \<open>\<open>strings.Contains\<close> is \<^const>\<open>sublist\<close>. The slice expression \<open>matched[lo:hi]\<close> needs
  \<open>0 \<le> lo \<le> hi \<le> len\<close>, with the sum of offset and limit a 64-bit one; \<open>Clamp\<close> makes the offset non-negative, and a negative offset panics
  here, which the model returns as \<open>None\<close>.\<close>

definition userStore_ListUsers ::
  "extern \<Rightarrow> list_filter \<Rightarrow> memstore world \<Rightarrow> (go_error + user list \<times> int) option" where
  "userStore_ListUsers x f w =
     (let q = strings_ToUpper x (lf_Search f);
          matched = filter (\<lambda>u. q = [] \<or> sublist q (u_NormalizedUserName u)
                             \<or> sublist q (u_NormalizedEmail u)) (map snd (m_users (db w)));
          matched = sort_key u_ID matched;
          n = int (length matched);
          lo = (if lf_Offset f > n then n else lf_Offset f);
          hi = wrap64 (lo + lf_Limit f);
          hi = (if lf_Limit f \<le> 0 \<or> hi > n then n else hi)
      in if lo < 0 \<or> hi < lo then None
         else Some (Inr (take (nat (hi - lo)) (drop (nat lo) matched), n)))"

definition userStore_roleIDByName :: "string \<Rightarrow> memstore \<Rightarrow> string option" where
  "userStore_roleIDByName n s =
     map_option r_ID (find_val (\<lambda>r. r_NormalizedName r = n) (m_roles s))"

definition userStore_AddToRole :: "user \<Rightarrow> string \<Rightarrow> memstore world \<Rightarrow> go_error option \<times> memstore world" where
  "userStore_AddToRole u n w =
     (case userStore_roleIDByName n (db w) of
        None \<Rightarrow> (Some ErrRoleNotFound, w)
      | Some rid \<Rightarrow>
          (None, upd_db (\<lambda>s. m_userRoles_update
             (AList.update (u_ID u) (AList.update rid True (lookup_or [] (m_userRoles s) (u_ID u)))) s) w))"

definition userStore_RemoveFromRole ::
  "user \<Rightarrow> string \<Rightarrow> memstore world \<Rightarrow> go_error option \<times> memstore world" where
  "userStore_RemoveFromRole u n w =
     (case userStore_roleIDByName n (db w) of
        None \<Rightarrow> (None, w)
      | Some rid \<Rightarrow>
          (case map_of (m_userRoles (db w)) (u_ID u) of
             None \<Rightarrow> (None, w)
           | Some rs \<Rightarrow> (None, upd_db (m_userRoles_update (AList.update (u_ID u) (AList.delete rid rs))) w)))"

definition userStore_GetRoles :: "user \<Rightarrow> memstore world \<Rightarrow> go_error + string list" where
  "userStore_GetRoles u w =
     Inr (List.map_filter (\<lambda>(rid, _). map_option r_Name (map_of (m_roles (db w)) rid))
            (lookup_or [] (m_userRoles (db w)) (u_ID u)))"

definition userStore_IsInRole :: "user \<Rightarrow> string \<Rightarrow> memstore world \<Rightarrow> go_error + bool" where
  "userStore_IsInRole u n w =
     (case userStore_roleIDByName n (db w) of
        None \<Rightarrow> Inr False
      | Some rid \<Rightarrow> Inr (lookup_or False (lookup_or [] (m_userRoles (db w)) (u_ID u)) rid))"

definition userStore_GetUsersInRole :: "string \<Rightarrow> memstore world \<Rightarrow> go_error + user list" where
  "userStore_GetUsersInRole n w =
     (case userStore_roleIDByName n (db w) of
        None \<Rightarrow> Inr []
      | Some rid \<Rightarrow>
          Inr (sort_key u_ID (List.map_filter
             (\<lambda>(uid, rs). if lookup_or False rs rid then map_of (m_users (db w)) uid else None)
             (m_userRoles (db w)))))"

definition userStore_GetUsersForClaim :: "string \<Rightarrow> string \<Rightarrow> memstore world \<Rightarrow> go_error + user list" where
  "userStore_GetUsersForClaim t v w =
     Inr (sort_key u_ID (List.map_filter
        (\<lambda>(uid, cs). if list_ex (\<lambda>c. c_Type c = t \<and> c_Value c = v) cs
                    then map_of (m_users (db w)) uid else None)
        (m_userClaims (db w))))"

definition userStore_GetClaims :: "user \<Rightarrow> memstore world \<Rightarrow> go_error + claim list" where
  "userStore_GetClaims u w = Inr (lookup_or [] (m_userClaims (db w)) (u_ID u))"

definition userStore_AddClaims :: "user \<Rightarrow> claim list \<Rightarrow> memstore world \<Rightarrow> go_error option \<times> memstore world" where
  "userStore_AddClaims u cs w =
     (None, upd_db (\<lambda>s. m_userClaims_update
        (AList.update (u_ID u) (lookup_or [] (m_userClaims s) (u_ID u) @ cs)) s) w)"

definition userStore_RemoveClaims ::
  "user \<Rightarrow> claim list \<Rightarrow> memstore world \<Rightarrow> go_error option \<times> memstore world" where
  "userStore_RemoveClaims u cs w =
     (None, upd_db (\<lambda>s. m_userClaims_update
        (AList.update (u_ID u) (filter (\<lambda>c. \<not> list_ex (\<lambda>rm. c = rm) cs)
           (lookup_or [] (m_userClaims s) (u_ID u)))) s) w)"

definition userStore_GetToken :: "user \<Rightarrow> string \<Rightarrow> string \<Rightarrow> memstore world \<Rightarrow> go_error + string" where
  "userStore_GetToken u p n w = Inr (lookup_or [] (m_tokens (db w)) (tokenKey (u_ID u) p n))"

definition userStore_SetToken ::
  "user \<Rightarrow> string \<Rightarrow> string \<Rightarrow> string \<Rightarrow> memstore world \<Rightarrow> go_error option \<times> memstore world" where
  "userStore_SetToken u p n v w =
     (None, upd_db (m_tokens_update (AList.update (tokenKey (u_ID u) p n) v)) w)"

definition userStore_RemoveToken ::
  "user \<Rightarrow> string \<Rightarrow> string \<Rightarrow> memstore world \<Rightarrow> go_error option \<times> memstore world" where
  "userStore_RemoveToken u p n w =
     (None, upd_db (m_tokens_update (AList.delete (tokenKey (u_ID u) p n))) w)"

definition userStore_AddLogin :: "user \<Rightarrow> login_info \<Rightarrow> memstore world \<Rightarrow> go_error option \<times> memstore world" where
  "userStore_AddLogin u l w =
     (let k = loginKey (l_LoginProvider l) (l_ProviderKey l)
      in if map_of (m_loginUser (db w)) k \<noteq> None then (Some ErrLoginAlreadyUsed, w)
         else (None, upd_db (m_loginUser_update (AList.update k (u_ID u)) \<circ>
                             m_logins_update (AList.update k l)) w))"

definition userStore_RemoveLogin ::
  "user \<Rightarrow> string \<Rightarrow> string \<Rightarrow> memstore world \<Rightarrow> go_error option \<times> memstore world" where
  "userStore_RemoveLogin u p key w =
     (let k = loginKey p key
      in (None, upd_db (m_loginUser_update (AList.delete k) \<circ> m_logins_update (AList.delete k)) w))"

definition zero_login :: login_info where
  "zero_login = \<lparr>l_LoginProvider = [], l_ProviderKey = [], l_ProviderDisplayName = []\<rparr>"

definition userStore_GetLogins :: "user \<Rightarrow> memstore world \<Rightarrow> go_error + login_info list" where
  "userStore_GetLogins u w =
     Inr (map (\<lambda>(k, _). lookup_or zero_login (m_logins (db w)) k)
            (filter (\<lambda>(_, uid). uid = u_ID u) (m_loginUser (db w))))"

definition userStore_FindByLogin :: "string \<Rightarrow> string \<Rightarrow> memstore world \<Rightarrow> go_error + user" where
  "userStore_FindByLogin p key w =
     (case map_of (m_loginUser (db w)) (loginKey p key) of
        None \<Rightarrow> Inl ErrNotFound
      | Some uid \<Rightarrow> userStore_FindByID uid w)"

text \<open>\<open>Store.Users()\<close>. A panic of \<open>ListUsers\<close> cannot happen for the clamped filters the
  manager passes; the view hands it on as a store failure.\<close>

definition memstore_Users :: "extern \<Rightarrow> memstore user_store" where
  "memstore_Users x = \<lparr>
     us_Create = userStore_Create, us_Update = userStore_Update x, us_Delete = userStore_Delete,
     us_FindByID = userStore_FindByID, us_FindByName = userStore_FindByName,
     us_FindByEmail = userStore_FindByEmail, us_AddToRole = userStore_AddToRole,
     us_RemoveFromRole = userStore_RemoveFromRole, us_GetRoles = userStore_GetRoles,
     us_IsInRole = userStore_IsInRole, us_GetUsersInRole = userStore_GetUsersInRole,
     us_GetClaims = userStore_GetClaims, us_AddClaims = userStore_AddClaims,
     us_RemoveClaims = userStore_RemoveClaims, us_GetUsersForClaim = userStore_GetUsersForClaim,
     us_GetToken = userStore_GetToken, us_SetToken = userStore_SetToken,
     us_RemoveToken = userStore_RemoveToken, us_AddLogin = userStore_AddLogin,
     us_RemoveLogin = userStore_RemoveLogin, us_GetLogins = userStore_GetLogins,
     us_FindByLogin = userStore_FindByLogin,
     us_ListUsers = Some (\<lambda>f w. case userStore_ListUsers x f w of
                                None \<Rightarrow> Inl (StoreErr ''panic'') | Some r \<Rightarrow> r),
     us_PurgeAnonymousUsers = Some userStore_PurgeAnonymousUsers\<rparr>"

section \<open>The role store\<close>

definition roleStore_Create :: "role \<Rightarrow> memstore world \<Rightarrow> go_error option \<times> memstore world" where
  "roleStore_Create r w = (None, upd_db (m_roles_update (AList.update (r_ID r) r)) w)"

definition roleStore_Update ::
  "extern \<Rightarrow> role \<Rightarrow> memstore world \<Rightarrow> go_error option \<times> role \<times> memstore world" where
  "roleStore_Update x r w =
     (case map_of (m_roles (db w)) (r_ID r) of
        None \<Rightarrow> (Some ErrNotFound, r, w)
      | Some cur \<Rightarrow>
          if r_ConcurrencyStamp cur \<noteq> r_ConcurrencyStamp r then (Some ErrConcurrencyFailure, r, w)
          else
            let (s, w) = draw (NewConcurrencyStamp x) w;
                r = r\<lparr>r_ConcurrencyStamp := s\<rparr>
            in (None, r, upd_db (m_roles_update (AList.update (r_ID r) r)) w))"

definition roleStore_Delete :: "role \<Rightarrow> memstore world \<Rightarrow> go_error option \<times> memstore world" where
  "roleStore_Delete r w = (None, upd_db (m_roles_update (AList.delete (r_ID r))) w)"

definition roleStore_FindByID :: "string \<Rightarrow> memstore world \<Rightarrow> go_error + role" where
  "roleStore_FindByID i w =
     (case map_of (m_roles (db w)) i of None \<Rightarrow> Inl ErrNotFound | Some r \<Rightarrow> Inr r)"

definition roleStore_FindByName :: "string \<Rightarrow> memstore world \<Rightarrow> go_error + role" where
  "roleStore_FindByName n w =
     (case find_val (\<lambda>r. r_NormalizedName r = n) (m_roles (db w)) of
        None \<Rightarrow> Inl ErrNotFound | Some r \<Rightarrow> Inr r)"

definition roleStore_GetClaims :: "role \<Rightarrow> memstore world \<Rightarrow> go_error + claim list" where
  "roleStore_GetClaims r w = Inr (lookup_or [] (m_roleClaims (db w)) (r_ID r))"

definition roleStore_AddClaim :: "role \<Rightarrow> claim \<Rightarrow> memstore world \<Rightarrow> go_error option \<times> memstore world" where
  "roleStore_AddClaim r c w =
     (None, upd_db (\<lambda>s. m_roleClaims_update
        (AList.update (r_ID r) (lookup_or [] (m_roleClaims s) (r_ID r) @ [c])) s) w)"

definition roleStore_RemoveClaim :: "role \<Rightarrow> claim \<Rightarrow> memstore world \<Rightarrow> go_error option \<times> memstore world" where
  "roleStore_RemoveClaim r c w =
     (None, upd_db (\<lambda>s. m_roleClaims_update
        (AList.update (r_ID r) (filter (\<lambda>c'. c' \<noteq> c) (lookup_or [] (m_roleClaims s) (r_ID r)))) s) w)"

definition memstore_Roles :: "extern \<Rightarrow> memstore role_store" where
  "memstore_Roles x = \<lparr>rs_Create = roleStore_Create, rs_Update = roleStore_Update x,
     rs_Delete = roleStore_Delete, rs_FindByID = roleStore_FindByID,
     rs_FindByName = roleStore_FindByName, rs_GetClaims = roleStore_GetClaims,
     rs_AddClaim = roleStore_AddClaim, rs_RemoveClaim = roleStore_RemoveClaim\<rparr>"

section \<open>The API-key store\<close>

definition CreateAPIKey :: "api_key \<Rightarrow> memstore world \<Rightarrow> go_error option \<times> memstore world" where
  "CreateAPIKey k w =
     (if list_ex (\<lambda>(_, e). k_KeyHash e = k_KeyHash k) (m_apiKeys (db w))
      then (Some ErrLoginAlreadyUsed, w)
      else (None, upd_db (m_apiKeys_update (AList.update (k_ID k) k)) w))"

definition key_inactive :: "time \<Rightarrow> api_key \<Rightarrow> bool" where
  "key_inactive now k \<longleftrightarrow>
     k_RevokedAt k \<noteq> None \<or> (case k_ExpiresAt k of None \<Rightarrow> False | Some e \<Rightarrow> \<not> e > now)"

definition GetActiveAPIKeyByHash :: "time \<Rightarrow> string \<Rightarrow> memstore world \<Rightarrow> go_error + api_key" where
  "GetActiveAPIKeyByHash now h w =
     (case find_val (\<lambda>k. k_KeyHash k = h) (m_apiKeys (db w)) of
        None \<Rightarrow> Inl ErrNotFound
      | Some k \<Rightarrow> if key_inactive now k then Inl ErrNotFound else Inr k)"

definition ListAPIKeysByUser :: "string \<Rightarrow> memstore world \<Rightarrow> go_error + api_key list" where
  "ListAPIKeysByUser uid w =
     Inr (sort_key k_ID (filter (\<lambda>k. k_UserID k = uid) (map snd (m_apiKeys (db w)))))"

definition RevokeAPIKey :: "time \<Rightarrow> string \<Rightarrow> memstore world \<Rightarrow> go_error option \<times> memstore world" where
  "RevokeAPIKey now i w =
     (case map_of (m_apiKeys (db w)) i of
        None \<Rightarrow> (None, w)
      | Some k \<Rightarrow>
          if k_RevokedAt k = None
          then (None, upd_db (m_apiKeys_update (AList.update i (k\<lparr>k_RevokedAt := Some now\<rparr>))) w)
          else (None, w))"

definition TouchAPIKeyLastUsed :: "time \<Rightarrow> string \<Rightarrow> memstore world \<Rightarrow> go_error option \<times> memstore world" where
  "TouchAPIKeyLastUsed now i w =
     (case map_of (m_apiKeys (db w)) i of
        None \<Rightarrow> (None, w)
      | Some k \<Rightarrow> (None, upd_db (m_apiKeys_update (AList.update i (k\<lparr>k_LastUsedAt := Some now\<rparr>))) w))"

definition memstore_APIKeys :: "memstore api_key_store" where
  "memstore_APIKeys = \<lparr>ks_CreateAPIKey = CreateAPIKey, ks_GetActiveAPIKeyByHash = GetActiveAPIKeyByHash,
     ks_ListAPIKeysByUser = ListAPIKeysByUser, ks_RevokeAPIKey = RevokeAPIKey,
     ks_TouchAPIKeyLastUsed = TouchAPIKeyLastUsed\<rparr>"

section \<open>The refresh-session store\<close>

definition CreateRefreshToken :: "refresh_token \<Rightarrow> memstore world \<Rightarrow> go_error option \<times> memstore world" where
  "CreateRefreshToken rt w = (None, upd_db (m_refreshTokens_update (AList.update (rt_SessionID rt) rt)) w)"

definition GetRefreshTokenBySession :: "string \<Rightarrow> memstore world \<Rightarrow> go_error + refresh_token" where
  "GetRefreshTokenBySession sid w =
     (case map_of (m_refreshTokens (db w)) sid of None \<Rightarrow> Inl ErrNotFound | Some rt \<Rightarrow> Inr rt)"

definition UpdateRefreshToken :: "refresh_token \<Rightarrow> memstore world \<Rightarrow> go_error option \<times> memstore world" where
  "UpdateRefreshToken rt w =
     (case map_of (m_refreshTokens (db w)) (rt_SessionID rt) of
        None \<Rightarrow> (Some ErrNotFound, w)
      | Some _ \<Rightarrow> (None, upd_db (m_refreshTokens_update (AList.update (rt_SessionID rt) rt)) w))"

definition DeleteRefreshToken :: "string \<Rightarrow> memstore world \<Rightarrow> go_error option \<times> memstore world" where
  "DeleteRefreshToken sid w = (None, upd_db (m_refreshTokens_update (AList.delete sid)) w)"

definition DeleteUserRefreshTokens :: "string \<Rightarrow> memstore world \<Rightarrow> (go_error + int) \<times> memstore world" where
  "DeleteUserRefreshTokens uid w =
     (Inr (count_if (\<lambda>_ rt. rt_UserID rt = uid) (m_refreshTokens (db w))),
      upd_db (m_refreshTokens_update (delete_if (\<lambda>_ rt. rt_UserID rt = uid))) w)"

definition DeleteExpiredRefreshTokens :: "time \<Rightarrow> memstore world \<Rightarrow> (go_error + int) \<times> memstore world" where
  "DeleteExpiredRefreshTokens before w =
     (Inr (count_if (\<lambda>_ rt. rt_ExpiresAt rt < before) (m_refreshTokens (db w))),
      upd_db (m_refreshTokens_update (delete_if (\<lambda>_ rt. rt_ExpiresAt rt < before))) w)"

definition ListUserRefreshTokens :: "string \<Rightarrow> memstore world \<Rightarrow> go_error + refresh_token list" where
  "ListUserRefreshTokens uid w =
     Inr (sort_key rt_SessionID (filter (\<lambda>rt. rt_UserID rt = uid) (map snd (m_refreshTokens (db w)))))"

definition memstore_RefreshTokens :: "memstore refresh_token_store" where
  "memstore_RefreshTokens = \<lparr>ts_CreateRefreshToken = CreateRefreshToken,
     ts_GetRefreshTokenBySession = GetRefreshTokenBySession,
     ts_UpdateRefreshToken = UpdateRefreshToken, ts_DeleteRefreshToken = DeleteRefreshToken,
     ts_DeleteUserRefreshTokens = DeleteUserRefreshTokens,
     ts_DeleteExpiredRefreshTokens = DeleteExpiredRefreshTokens,
     ts_ListUserRefreshTokens = ListUserRefreshTokens\<rparr>"

section \<open>The OAuth store\<close>

definition CreateClient :: "oauth_client \<Rightarrow> memstore world \<Rightarrow> go_error option \<times> memstore world" where
  "CreateClient c w = (None, upd_db (m_oauthClients_update (AList.update (cl_ClientID c) c)) w)"

definition GetClient :: "string \<Rightarrow> memstore world \<Rightarrow> go_error + oauth_client" where
  "GetClient i w =
     (case map_of (m_oauthClients (db w)) i of None \<Rightarrow> Inl ErrNotFound | Some c \<Rightarrow> Inr c)"

definition TouchClient :: "string \<Rightarrow> time \<Rightarrow> memstore world \<Rightarrow> go_error option \<times> memstore world" where
  "TouchClient i t w =
     (case map_of (m_oauthClients (db w)) i of
        None \<Rightarrow> (None, w)
      | Some c \<Rightarrow> (None, upd_db (m_oauthClients_update (AList.update i (c\<lparr>cl_LastUsedAt := Some t\<rparr>))) w))"

definition stale_client :: "memstore \<Rightarrow> time \<Rightarrow> string \<Rightarrow> oauth_client \<Rightarrow> bool" where
  "stale_client s before i c \<longleftrightarrow> cl_CreatedAt c < before \<and>
     (case cl_LastUsedAt c of None \<Rightarrow> True | Some t \<Rightarrow> t < before) \<and>
     \<not> list_ex (\<lambda>(_, g). g_ClientID g = i) (m_oauthGrants s)"

definition DeleteStaleClients :: "time \<Rightarrow> memstore world \<Rightarrow> (go_error + int) \<times> memstore world" where
  "DeleteStaleClients before w =
     (Inr (count_if (stale_client (db w) before) (m_oauthClients (db w))),
      upd_db (\<lambda>s. m_oauthClients_update (delete_if (stale_client s before)) s) w)"

definition CreateCode :: "oauth_code \<Rightarrow> memstore world \<Rightarrow> go_error option \<times> memstore world" where
  "CreateCode c w = (None, upd_db (m_oauthCodes_update (AList.update (cd_CodeHash c) c)) w)"

definition GetCode :: "string \<Rightarrow> memstore world \<Rightarrow> go_error + oauth_code" where
  "GetCode h w = (case map_of (m_oauthCodes (db w)) h of None \<Rightarrow> Inl ErrNotFound | Some c \<Rightarrow> Inr c)"

definition MarkCodeUsed ::
  "string \<Rightarrow> string \<Rightarrow> time \<Rightarrow> memstore world \<Rightarrow> (go_error + bool) \<times> memstore world" where
  "MarkCodeUsed h gid t w =
     (case map_of (m_oauthCodes (db w)) h of
        None \<Rightarrow> (Inr False, w)
      | Some c \<Rightarrow>
          if cd_UsedAt c \<noteq> None then (Inr False, w)
          else (Inr True, upd_db (m_oauthCodes_update
                  (AList.update h (c\<lparr>cd_UsedAt := Some t, cd_GrantID := gid\<rparr>))) w))"

definition DeleteExpiredCodes :: "time \<Rightarrow> memstore world \<Rightarrow> (go_error + int) \<times> memstore world" where
  "DeleteExpiredCodes before w =
     (Inr (count_if (\<lambda>_ c. cd_ExpiresAt c < before) (m_oauthCodes (db w))),
      upd_db (m_oauthCodes_update (delete_if (\<lambda>_ c. cd_ExpiresAt c < before))) w)"

definition GetConsent :: "string \<Rightarrow> string \<Rightarrow> memstore world \<Rightarrow> go_error + oauth_consent" where
  "GetConsent uid cid w =
     (case map_of (m_oauthConsents (db w)) (consentKey uid cid) of
        None \<Rightarrow> Inl ErrNotFound | Some c \<Rightarrow> Inr c)"

definition SaveConsent :: "oauth_consent \<Rightarrow> memstore world \<Rightarrow> go_error option \<times> memstore world" where
  "SaveConsent c w =
     (let k = consentKey (cs_UserID c) (cs_ClientID c);
          c = (case map_of (m_oauthConsents (db w)) k of
                 None \<Rightarrow> c | Some prev \<Rightarrow> c\<lparr>cs_CreatedAt := cs_CreatedAt prev\<rparr>)
      in (None, upd_db (m_oauthConsents_update (AList.update k c)) w))"

definition DeleteConsent :: "string \<Rightarrow> string \<Rightarrow> memstore world \<Rightarrow> go_error option \<times> memstore world" where
  "DeleteConsent uid cid w = (None, upd_db (m_oauthConsents_update (AList.delete (consentKey uid cid))) w)"

definition CreateGrant :: "oauth_grant \<Rightarrow> memstore world \<Rightarrow> go_error option \<times> memstore world" where
  "CreateGrant g w = (None, upd_db (m_oauthGrants_update (AList.update (g_ID g) g)) w)"

definition GetGrant :: "string \<Rightarrow> memstore world \<Rightarrow> go_error + oauth_grant" where
  "GetGrant i w = (case map_of (m_oauthGrants (db w)) i of None \<Rightarrow> Inl ErrNotFound | Some g \<Rightarrow> Inr g)"

definition RotateGrant ::
  "string \<Rightarrow> string \<Rightarrow> string \<Rightarrow> time \<Rightarrow> time \<Rightarrow> memstore world \<Rightarrow> (go_error + bool) \<times> memstore world" where
  "RotateGrant i oldHash newHash expiresAt usedAt w =
     (case map_of (m_oauthGrants (db w)) i of
        None \<Rightarrow> (Inr False, w)
      | Some g \<Rightarrow>
          if g_TokenHash g \<noteq> oldHash then (Inr False, w)
          else (Inr True, upd_db (m_oauthGrants_update (AList.update i
                  (g\<lparr>g_PrevTokenHash := oldHash, g_TokenHash := newHash, g_ExpiresAt := expiresAt,
                     g_LastUsedAt := Some usedAt\<rparr>))) w))"

definition DeleteGrant :: "string \<Rightarrow> memstore world \<Rightarrow> go_error option \<times> memstore world" where
  "DeleteGrant i w = (None, upd_db (m_oauthGrants_update (AList.delete i)) w)"

definition DeleteUserClientGrants ::
  "string \<Rightarrow> string \<Rightarrow> memstore world \<Rightarrow> (go_error + int) \<times> memstore world" where
  "DeleteUserClientGrants uid cid w =
     (let p = (\<lambda>_ g. g_UserID g = uid \<and> g_ClientID g = cid)
      in (Inr (count_if p (m_oauthGrants (db w))), upd_db (m_oauthGrants_update (delete_if p)) w))"

text \<open>\<open>sort.Slice\<close> may order grants of equal creation time either way; the model keeps their order.\<close>

definition ListUserGrants :: "string \<Rightarrow> memstore world \<Rightarrow> go_error + oauth_grant list" where
  "ListUserGrants uid w =
     Inr (sort_key g_CreatedAt (filter (\<lambda>g. g_UserID g = uid) (map snd (m_oauthGrants (db w)))))"

definition DeleteExpiredGrants :: "time \<Rightarrow> memstore world \<Rightarrow> (go_error + int) \<times> memstore world" where
  "DeleteExpiredGrants before w =
     (Inr (count_if (\<lambda>_ g. g_ExpiresAt g < before) (m_oauthGrants (db w))),
      upd_db (m_oauthGrants_update (delete_if (\<lambda>_ g. g_ExpiresAt g < before))) w)"

definition UseClientAssertion ::
  "string \<Rightarrow> string \<Rightarrow> time \<Rightarrow> memstore world \<Rightarrow> (go_error + bool) \<times> memstore world" where
  "UseClientAssertion cid jti e w =
     (if map_of (m_oauthJTIs (db w)) (cid, jti) \<noteq> None then (Inr False, w)
      else (Inr True, upd_db (m_oauthJTIs_update (AList.update (cid, jti) e)) w))"

definition DeleteExpiredClientAssertions :: "time \<Rightarrow> memstore world \<Rightarrow> (go_error + int) \<times> memstore world" where
  "DeleteExpiredClientAssertions before w =
     (Inr (count_if (\<lambda>_ e. e < before) (m_oauthJTIs (db w))),
      upd_db (m_oauthJTIs_update (delete_if (\<lambda>_ e. e < before))) w)"

definition memstore_OAuth :: "memstore oauth_store" where
  "memstore_OAuth = \<lparr>os_CreateClient = CreateClient, os_GetClient = GetClient,
     os_TouchClient = TouchClient, os_DeleteStaleClients = DeleteStaleClients,
     os_CreateCode = CreateCode, os_GetCode = GetCode, os_MarkCodeUsed = MarkCodeUsed,
     os_DeleteExpiredCodes = DeleteExpiredCodes, os_GetConsent = GetConsent,
     os_SaveConsent = SaveConsent, os_DeleteConsent = DeleteConsent,
     os_CreateGrant = CreateGrant, os_GetGrant = GetGrant, os_RotateGrant = RotateGrant,
     os_DeleteGrant = DeleteGrant, os_DeleteUserClientGrants = DeleteUserClientGrants,
     os_ListUserGrants = ListUserGrants, os_DeleteExpiredGrants = DeleteExpiredGrants,
     os_UseClientAssertion = UseClientAssertion,
     os_DeleteExpiredClientAssertions = DeleteExpiredClientAssertions\<rparr>"

end
