(* ===== verification/Memstore_Correct.thy ===== *)
theory Memstore_Correct
  imports Memstore
begin

text \<open>
  Correctness of the in-memory store: its well-formedness invariant, that every method keeps it,
  the contracts of \<open>Store_Interface\<close> discharged for its views, and the properties of the
  composite keys and of the cascading delete.
\<close>

section \<open>Maps keyed by a field of their rows\<close>

definition keyed :: "('v \<Rightarrow> 'k) \<Rightarrow> ('k, 'v) gomap \<Rightarrow> bool" where
  "keyed f m \<longleftrightarrow> dkeys m \<and> (\<forall>(k, v) \<in> set m. f v = k)"

lemma keyed_Nil [simp]: "keyed f []"
  by (simp add: keyed_def)

lemma keyed_dkeys: "keyed f m \<Longrightarrow> dkeys m"
  by (simp add: keyed_def)

lemma keyed_update [simp]: "keyed f m \<Longrightarrow> f v = k \<Longrightarrow> keyed f (AList.update k v m)"
  by (auto simp: keyed_def set_update_dkeys)

lemma keyed_delete [simp]: "keyed f m \<Longrightarrow> keyed f (AList.delete k m)"
  by (auto simp: keyed_def set_AList_delete)

lemma keyed_delete_if [simp]: "keyed f m \<Longrightarrow> keyed f (delete_if P m)"
  by (auto simp: keyed_def set_delete_if)

lemma keyed_map_of: "keyed f m \<Longrightarrow> map_of m k = Some v \<Longrightarrow> f v = k"
  by (auto simp: keyed_def dest!: map_of_SomeD)

lemma keyed_row: "keyed f m \<Longrightarrow> v \<in> snd ` set m \<longleftrightarrow> map_of m (f v) = Some v"
  by (force simp: keyed_def image_iff dest: map_of_SomeD)

lemma map_of_update_fun: "map_of (AList.update k v m) = (map_of m)(k \<mapsto> v)"
  by (rule ext) (simp add: update_conv)

lemma map_of_delete_fun: "map_of (AList.delete k m) = (map_of m)(k := None)"
  by (rule ext) (simp add: delete_conv)

lemma find_val_keyed:
  assumes "keyed f m"
  shows "find_val P m = Some v \<Longrightarrow> P v \<and> map_of m (f v) = Some v"
    and "find_val P m = None \<Longrightarrow> map_of m k = Some v \<Longrightarrow> \<not> P v"
  using assms by (auto simp: find_val_None_iff dest!: find_val_SomeD map_of_SomeD)
    (auto simp: keyed_def)

section \<open>The invariant\<close>

definition login_wf :: "memstore \<Rightarrow> bool" where
  "login_wf s \<longleftrightarrow> dkeys (m_loginUser s) \<and>
     keyed (\<lambda>l. loginKey (l_LoginProvider l) (l_ProviderKey l)) (m_logins s) \<and>
     dom (map_of (m_logins s)) = dom (map_of (m_loginUser s))"

definition api_keys_wf :: "memstore \<Rightarrow> bool" where
  "api_keys_wf s \<longleftrightarrow> keyed k_ID (m_apiKeys s) \<and>
     inj_on k_KeyHash (snd ` set (m_apiKeys s))"

definition oauth_wf :: "memstore \<Rightarrow> bool" where
  "oauth_wf s \<longleftrightarrow> keyed cl_ClientID (m_oauthClients s) \<and> keyed cd_CodeHash (m_oauthCodes s) \<and>
     keyed (\<lambda>c. consentKey (cs_UserID c) (cs_ClientID c)) (m_oauthConsents s) \<and>
     keyed g_ID (m_oauthGrants s) \<and> dkeys (m_oauthJTIs s)"

definition mem_wf :: "memstore \<Rightarrow> bool" where
  "mem_wf s \<longleftrightarrow> keyed u_ID (m_users s) \<and> keyed r_ID (m_roles s) \<and>
     dkeys (m_userRoles s) \<and> (\<forall>(k, rs) \<in> set (m_userRoles s). dkeys rs) \<and>
     dkeys (m_userClaims s) \<and> dkeys (m_roleClaims s) \<and> dkeys (m_tokens s) \<and>
     login_wf s \<and> api_keys_wf s \<and> keyed rt_SessionID (m_refreshTokens s) \<and> oauth_wf s"

lemma mem_wf_New [simp]: "mem_wf memstore_New"
  by (simp add: mem_wf_def login_wf_def api_keys_wf_def oauth_wf_def memstore_New_def)

text \<open>An update of one field keeps the parts of the invariant that do not read it.\<close>

lemma wf_frame [simp]:
  "login_wf (m_users_update f1 s) = login_wf s" "login_wf (m_roles_update f2 s) = login_wf s"
  "login_wf (m_userRoles_update f3 s) = login_wf s" "login_wf (m_userClaims_update f4 s) = login_wf s"
  "login_wf (m_roleClaims_update f4 s) = login_wf s" "login_wf (m_tokens_update f5 s) = login_wf s"
  "login_wf (m_apiKeys_update f6 s) = login_wf s" "login_wf (m_refreshTokens_update f7 s) = login_wf s"
  "login_wf (m_oauthClients_update f8 s) = login_wf s" "login_wf (m_oauthCodes_update f9 s) = login_wf s"
  "login_wf (m_oauthConsents_update f10 s) = login_wf s" "login_wf (m_oauthGrants_update f11 s) = login_wf s"
  "login_wf (m_oauthJTIs_update f12 s) = login_wf s"
  "api_keys_wf (m_users_update f1 s) = api_keys_wf s" "api_keys_wf (m_roles_update f2 s) = api_keys_wf s"
  "api_keys_wf (m_userRoles_update f3 s) = api_keys_wf s" "api_keys_wf (m_userClaims_update f4 s) = api_keys_wf s"
  "api_keys_wf (m_roleClaims_update f4 s) = api_keys_wf s" "api_keys_wf (m_tokens_update f5 s) = api_keys_wf s"
  "api_keys_wf (m_logins_update f13 s) = api_keys_wf s" "api_keys_wf (m_loginUser_update f14 s) = api_keys_wf s"
  "api_keys_wf (m_refreshTokens_update f7 s) = api_keys_wf s"
  "api_keys_wf (m_oauthClients_update f8 s) = api_keys_wf s" "api_keys_wf (m_oauthCodes_update f9 s) = api_keys_wf s"
  "api_keys_wf (m_oauthConsents_update f10 s) = api_keys_wf s" "api_keys_wf (m_oauthGrants_update f11 s) = api_keys_wf s"
  "api_keys_wf (m_oauthJTIs_update f12 s) = api_keys_wf s"
  "oauth_wf (m_users_update f1 s) = oauth_wf s" "oauth_wf (m_roles_update f2 s) = oauth_wf s"
  "oauth_wf (m_userRoles_update f3 s) = oauth_wf s" "oauth_wf (m_userClaims_update f4 s) = oauth_wf s"
  "oauth_wf (m_roleClaims_update f4 s) = oauth_wf s" "oauth_wf (m_tokens_update f5 s) = oauth_wf s"
  "oauth_wf (m_logins_update f13 s) = oauth_wf s" "oauth_wf (m_loginUser_update f14 s) = oauth_wf s"
  "oauth_wf (m_apiKeys_update f6 s) = oauth_wf s" "oauth_wf (m_refreshTokens_update f7 s) = oauth_wf s"
  by (simp_all add: login_wf_def api_keys_wf_def oauth_wf_def)

lemma lookup_or_dkeys:
  "(\<forall>(k, rs) \<in> set m. dkeys rs) \<Longrightarrow> dkeys (lookup_or [] m k)"
  by (auto simp: lookup_or_def split: option.splits dest!: map_of_SomeD)

lemma wf_row:
  assumes "mem_wf s"
  shows "map_of (m_users s) i = Some u \<Longrightarrow> u_ID u = i"
    "map_of (m_roles s) i = Some r \<Longrightarrow> r_ID r = i"
    "map_of (m_apiKeys s) i = Some k \<Longrightarrow> k_ID k = i"
    "map_of (m_refreshTokens s) i = Some rt \<Longrightarrow> rt_SessionID rt = i"
    "map_of (m_oauthClients s) i = Some c \<Longrightarrow> cl_ClientID c = i"
    "map_of (m_oauthCodes s) i = Some cd \<Longrightarrow> cd_CodeHash cd = i"
    "map_of (m_oauthGrants s) i = Some g \<Longrightarrow> g_ID g = i"
  using assms by (auto simp: mem_wf_def api_keys_wf_def oauth_wf_def dest: keyed_map_of)

lemma wf_dkeys:
  assumes "mem_wf s"
  shows "dkeys (m_users s)" "dkeys (m_roles s)" "dkeys (m_userRoles s)" "dkeys (m_userClaims s)"
    "dkeys (m_tokens s)" "dkeys (m_logins s)" "dkeys (m_loginUser s)" "dkeys (m_apiKeys s)"
    "dkeys (m_refreshTokens s)" "dkeys (m_oauthClients s)" "dkeys (m_oauthCodes s)"
    "dkeys (m_oauthConsents s)" "dkeys (m_oauthGrants s)" "dkeys (m_oauthJTIs s)"
  using assms by (auto simp: mem_wf_def api_keys_wf_def oauth_wf_def login_wf_def dest: keyed_dkeys)

subsection \<open>Every write keeps it\<close>

lemma login_wf_cascade:
  "login_wf s \<Longrightarrow> login_wf (m_loginUser_update (delete_if (\<lambda>_ uid. uid = i))
     (m_logins_update (delete_if (\<lambda>k _. map_of (m_loginUser s) k = Some i)) s))"
proof -
  assume wf: "login_wf s"
  then have "map_of (m_logins s) k = None \<longleftrightarrow> map_of (m_loginUser s) k = None" for k
    unfolding login_wf_def by (metis domIff)
  with wf show ?thesis
    by (auto simp: login_wf_def map_of_delete_if keyed_dkeys set_eq_iff domIff split: option.splits)
qed

lemma inj_on_delete_if:
  "inj_on f (snd ` set m) \<Longrightarrow> inj_on f (snd ` set (delete_if P m))"
  by (rule inj_on_subset) (auto simp: set_delete_if)

lemma cascade_wf: "mem_wf s \<Longrightarrow> mem_wf (cascadeDeleteLocked i s)"
  unfolding cascadeDeleteLocked_def Let_def mem_wf_def
  using login_wf_cascade [of "m_tokens_update (delete_if (\<lambda>k _. prefix (i @ ''|'') k))
     (m_userClaims_update (AList.delete i) (m_userRoles_update (AList.delete i)
       (m_users_update (AList.delete i) s)))" i]
  by (auto simp: api_keys_wf_def oauth_wf_def inj_on_delete_if set_AList_delete)

lemma purge_wf: "mem_wf s \<Longrightarrow> mem_wf (fold cascadeDeleteLocked ids s)"
  by (induction ids arbitrary: s) (auto simp: cascade_wf)

lemma login_wf_add:
  "login_wf s \<Longrightarrow> k = loginKey (l_LoginProvider l) (l_ProviderKey l) \<Longrightarrow>
   login_wf (m_loginUser_update (AList.update k i) (m_logins_update (AList.update k l) s))"
  by (simp add: login_wf_def map_of_update_fun)

lemma login_wf_remove:
  "login_wf s \<Longrightarrow> login_wf (m_loginUser_update (AList.delete k) (m_logins_update (AList.delete k) s))"
  by (auto simp: login_wf_def map_of_delete_fun)

lemma api_keys_wf_update:
  assumes "api_keys_wf s" "k_ID k = i"
    and "\<And>i' k'. (i', k') \<in> set (m_apiKeys s) \<Longrightarrow> i' \<noteq> i \<Longrightarrow> k_KeyHash k' \<noteq> k_KeyHash k"
  shows "api_keys_wf (m_apiKeys_update (AList.update i k) s)"
proof -
  have "inj_on k_KeyHash (snd ` set (m_apiKeys s))" and d: "dkeys (m_apiKeys s)"
    using assms(1) by (auto simp: api_keys_wf_def keyed_dkeys)
  moreover have "snd ` set (AList.update i k (m_apiKeys s))
      = insert k (snd ` {(i', k') \<in> set (m_apiKeys s). i' \<noteq> i})"
    by (simp add: set_update_dkeys [OF d])
  moreover have "snd ` {(i', k') \<in> set (m_apiKeys s). i' \<noteq> i} \<subseteq> snd ` set (m_apiKeys s)"
    by auto
  ultimately have "inj_on k_KeyHash (snd ` set (AList.update i k (m_apiKeys s)))"
    using assms(3) by (auto intro: inj_on_subset) (metis (no_types))
  with assms(1,2) show ?thesis by (simp add: api_keys_wf_def)
qed

lemma api_keys_wf_edit:
  assumes wf: "api_keys_wf s" and row: "map_of (m_apiKeys s) i = Some k"
    and same: "k_ID k' = k_ID k" "k_KeyHash k' = k_KeyHash k"
  shows "api_keys_wf (m_apiKeys_update (AList.update i k') s)"
proof (rule api_keys_wf_update [OF wf])
  from wf row show "k_ID k' = i" by (auto simp: api_keys_wf_def same dest: keyed_map_of)
  fix i2 k2 assume 2: "(i2, k2) \<in> set (m_apiKeys s)" "i2 \<noteq> i"
  show "k_KeyHash k2 \<noteq> k_KeyHash k'"
  proof
    assume "k_KeyHash k2 = k_KeyHash k'"
    with wf 2(1) map_of_SomeD [OF row] have "k2 = k"
      unfolding api_keys_wf_def same inj_on_def by (metis image_eqI snd_conv)
    moreover have "k_ID k = i" "k_ID k2 = i2"
      using wf row 2(1) by (auto simp: api_keys_wf_def keyed_def dest!: map_of_SomeD)
    ultimately show False using 2(2) by simp
  qed
qed

lemmas user_writes = userStore_Create_def userStore_Update_def userStore_Delete_def
  userStore_PurgeAnonymousUsers_def userStore_AddToRole_def userStore_RemoveFromRole_def
  userStore_AddClaims_def userStore_RemoveClaims_def userStore_SetToken_def
  userStore_RemoveToken_def userStore_AddLogin_def userStore_RemoveLogin_def

lemmas role_writes = roleStore_Create_def roleStore_Update_def roleStore_Delete_def
  roleStore_AddClaim_def roleStore_RemoveClaim_def

lemmas key_writes = CreateAPIKey_def RevokeAPIKey_def TouchAPIKeyLastUsed_def

lemmas session_writes = CreateRefreshToken_def UpdateRefreshToken_def DeleteRefreshToken_def
  DeleteUserRefreshTokens_def DeleteExpiredRefreshTokens_def

lemmas oauth_writes = CreateClient_def TouchClient_def DeleteStaleClients_def CreateCode_def
  MarkCodeUsed_def DeleteExpiredCodes_def SaveConsent_def DeleteConsent_def CreateGrant_def
  RotateGrant_def DeleteGrant_def DeleteUserClientGrants_def DeleteExpiredGrants_def
  UseClientAssertion_def DeleteExpiredClientAssertions_def

lemmas mem_split = option.splits if_splits

lemma user_writes_wf:
  assumes "mem_wf (db w)"
  shows "userStore_Create u w = (e, u', w') \<Longrightarrow> mem_wf (db w')"
    and "userStore_Update x u w = (e, u', w') \<Longrightarrow> mem_wf (db w')"
    and "userStore_Delete u w = (e, w') \<Longrightarrow> mem_wf (db w')"
    and "userStore_PurgeAnonymousUsers t w = (n, w') \<Longrightarrow> mem_wf (db w')"
    and "userStore_AddToRole u r w = (e, w') \<Longrightarrow> mem_wf (db w')"
    and "userStore_RemoveFromRole u r w = (e, w') \<Longrightarrow> mem_wf (db w')"
    and "userStore_AddClaims u cs w = (e, w') \<Longrightarrow> mem_wf (db w')"
    and "userStore_RemoveClaims u cs w = (e, w') \<Longrightarrow> mem_wf (db w')"
    and "userStore_SetToken u p k v w = (e, w') \<Longrightarrow> mem_wf (db w')"
    and "userStore_RemoveToken u p k w = (e, w') \<Longrightarrow> mem_wf (db w')"
    and "userStore_AddLogin u l w = (e, w') \<Longrightarrow> mem_wf (db w')"
    and "userStore_RemoveLogin u p k w = (e, w') \<Longrightarrow> mem_wf (db w')"
proof -
  note wf = assms [unfolded mem_wf_def]
  show "userStore_Create u w = (e, u', w') \<Longrightarrow> mem_wf (db w')"
    using wf by (auto simp: user_writes mem_wf_def)
  show "userStore_Update x u w = (e, u', w') \<Longrightarrow> mem_wf (db w')"
    using assms wf by (auto simp: user_writes mem_wf_def Let_def split: mem_split)
  show "userStore_Delete u w = (e, w') \<Longrightarrow> mem_wf (db w')"
    using assms by (auto simp: user_writes cascade_wf)
  show "userStore_PurgeAnonymousUsers t w = (n, w') \<Longrightarrow> mem_wf (db w')"
    using assms by (auto simp: user_writes purge_wf Let_def)
  show "userStore_AddToRole u r w = (e, w') \<Longrightarrow> mem_wf (db w')"
    using assms wf lookup_or_dkeys [of "m_userRoles (db w)"]
    by (auto simp: user_writes mem_wf_def set_update_dkeys split: mem_split)
  show "userStore_RemoveFromRole u r w = (e, w') \<Longrightarrow> mem_wf (db w')"
    using assms wf
    by (auto simp: user_writes mem_wf_def set_update_dkeys split: mem_split)
      (auto dest!: map_of_SomeD)
  show "userStore_AddClaims u cs w = (e, w') \<Longrightarrow> mem_wf (db w')"
    "userStore_RemoveClaims u cs w = (e, w') \<Longrightarrow> mem_wf (db w')"
    "userStore_SetToken u p k v w = (e, w') \<Longrightarrow> mem_wf (db w')"
    "userStore_RemoveToken u p k w = (e, w') \<Longrightarrow> mem_wf (db w')"
    using wf by (auto simp: user_writes mem_wf_def)
  show "userStore_AddLogin u l w = (e, w') \<Longrightarrow> mem_wf (db w')"
    using assms wf by (auto simp: user_writes mem_wf_def Let_def login_wf_add split: if_splits)
  show "userStore_RemoveLogin u p k w = (e, w') \<Longrightarrow> mem_wf (db w')"
    using wf by (auto simp: user_writes mem_wf_def Let_def login_wf_remove)
qed

lemma role_writes_wf:
  assumes "mem_wf (db w)"
  shows "roleStore_Create r w = (e, w') \<Longrightarrow> mem_wf (db w')"
    and "roleStore_Update x r w = (e, r', w') \<Longrightarrow> mem_wf (db w')"
    and "roleStore_Delete r w = (e, w') \<Longrightarrow> mem_wf (db w')"
    and "roleStore_AddClaim r c w = (e, w') \<Longrightarrow> mem_wf (db w')"
    and "roleStore_RemoveClaim r c w = (e, w') \<Longrightarrow> mem_wf (db w')"
  using assms by (auto simp: role_writes mem_wf_def Let_def split: mem_split)

lemma key_writes_wf:
  assumes "mem_wf (db w)"
  shows "CreateAPIKey k w = (e, w') \<Longrightarrow> mem_wf (db w')"
    and "RevokeAPIKey t i w = (e, w') \<Longrightarrow> mem_wf (db w')"
    and "TouchAPIKeyLastUsed t i w = (e, w') \<Longrightarrow> mem_wf (db w')"
proof -
  note wf = assms [unfolded mem_wf_def]
  show "CreateAPIKey k w = (e, w') \<Longrightarrow> mem_wf (db w')"
    using wf by (auto simp: key_writes mem_wf_def list_ex_iff split: if_splits
        intro!: api_keys_wf_update)
  show "RevokeAPIKey t i w = (e, w') \<Longrightarrow> mem_wf (db w')"
    using assms wf by (auto simp: key_writes mem_wf_def api_keys_wf_edit split: mem_split)
  show "TouchAPIKeyLastUsed t i w = (e, w') \<Longrightarrow> mem_wf (db w')"
    using assms wf by (auto simp: key_writes mem_wf_def api_keys_wf_edit split: mem_split)
qed

lemma session_writes_wf:
  assumes "mem_wf (db w)"
  shows "CreateRefreshToken rt w = (e, w') \<Longrightarrow> mem_wf (db w')"
    and "UpdateRefreshToken rt w = (e, w') \<Longrightarrow> mem_wf (db w')"
    and "DeleteRefreshToken i w = (e, w') \<Longrightarrow> mem_wf (db w')"
    and "DeleteUserRefreshTokens i w = (n, w') \<Longrightarrow> mem_wf (db w')"
    and "DeleteExpiredRefreshTokens t w = (n, w') \<Longrightarrow> mem_wf (db w')"
  using assms by (auto simp: session_writes mem_wf_def split: mem_split)

lemma wf_oauth_field:
  assumes "mem_wf s"
  shows "keyed cl_ClientID (f1 (m_oauthClients s)) \<Longrightarrow> mem_wf (m_oauthClients_update f1 s)"
    and "keyed cd_CodeHash (f2 (m_oauthCodes s)) \<Longrightarrow> mem_wf (m_oauthCodes_update f2 s)"
    and "keyed (\<lambda>c. consentKey (cs_UserID c) (cs_ClientID c)) (f3 (m_oauthConsents s)) \<Longrightarrow>
      mem_wf (m_oauthConsents_update f3 s)"
    and "keyed g_ID (f4 (m_oauthGrants s)) \<Longrightarrow> mem_wf (m_oauthGrants_update f4 s)"
    and "dkeys (f5 (m_oauthJTIs s)) \<Longrightarrow> mem_wf (m_oauthJTIs_update f5 s)"
  using assms by (simp_all add: mem_wf_def oauth_wf_def)

lemma wf_oauth_keyed:
  assumes "mem_wf s"
  shows "keyed cl_ClientID (m_oauthClients s)" "keyed cd_CodeHash (m_oauthCodes s)"
    "keyed (\<lambda>c. consentKey (cs_UserID c) (cs_ClientID c)) (m_oauthConsents s)"
    "keyed g_ID (m_oauthGrants s)" "dkeys (m_oauthJTIs s)"
  using assms by (simp_all add: mem_wf_def oauth_wf_def)

lemma oauth_writes_wf:
  assumes wf: "mem_wf (db w)"
  shows "CreateClient c w = (e, w') \<Longrightarrow> mem_wf (db w')"
    and "TouchClient i t w = (e, w') \<Longrightarrow> mem_wf (db w')"
    and "DeleteStaleClients t w = (n, w') \<Longrightarrow> mem_wf (db w')"
    and "CreateCode cd w = (e, w') \<Longrightarrow> mem_wf (db w')"
    and "MarkCodeUsed h i t w = (b, w') \<Longrightarrow> mem_wf (db w')"
    and "DeleteExpiredCodes t w = (n, w') \<Longrightarrow> mem_wf (db w')"
    and "SaveConsent cs w = (e, w') \<Longrightarrow> mem_wf (db w')"
    and "DeleteConsent i j w = (e, w') \<Longrightarrow> mem_wf (db w')"
    and "CreateGrant g w = (e, w') \<Longrightarrow> mem_wf (db w')"
    and "RotateGrant i h h' t t' w = (b, w') \<Longrightarrow> mem_wf (db w')"
    and "DeleteGrant i w = (e, w') \<Longrightarrow> mem_wf (db w')"
    and "DeleteUserClientGrants i j w = (n, w') \<Longrightarrow> mem_wf (db w')"
    and "DeleteExpiredGrants t w = (n, w') \<Longrightarrow> mem_wf (db w')"
    and "UseClientAssertion i j t w = (b, w') \<Longrightarrow> mem_wf (db w')"
    and "DeleteExpiredClientAssertions t w = (n, w') \<Longrightarrow> mem_wf (db w')"
proof -
  note kd = wf_oauth_keyed [OF wf] and row = wf_row(5-7) [OF wf] and fld = wf_oauth_field [OF wf]
  show "CreateClient c w = (e, w') \<Longrightarrow> mem_wf (db w')"
    using wf kd row by (auto simp: CreateClient_def Let_def split: mem_split intro!: fld)
  show "TouchClient i t w = (e, w') \<Longrightarrow> mem_wf (db w')"
    using wf kd row by (auto simp: TouchClient_def Let_def split: mem_split intro!: fld)
  show "DeleteStaleClients t w = (n, w') \<Longrightarrow> mem_wf (db w')"
    using wf kd row by (auto simp: DeleteStaleClients_def Let_def split: mem_split intro!: fld)
  show "CreateCode cd w = (e, w') \<Longrightarrow> mem_wf (db w')"
    using wf kd row by (auto simp: CreateCode_def Let_def split: mem_split intro!: fld)
  show "MarkCodeUsed h i t w = (b, w') \<Longrightarrow> mem_wf (db w')"
    using wf kd row by (auto simp: MarkCodeUsed_def Let_def split: mem_split intro!: fld)
  show "DeleteExpiredCodes t w = (n, w') \<Longrightarrow> mem_wf (db w')"
    using wf kd row by (auto simp: DeleteExpiredCodes_def Let_def split: mem_split intro!: fld)
  show "SaveConsent cs w = (e, w') \<Longrightarrow> mem_wf (db w')"
    using wf kd row by (auto simp: SaveConsent_def Let_def split: mem_split intro!: fld)
  show "DeleteConsent i j w = (e, w') \<Longrightarrow> mem_wf (db w')"
    using wf kd row by (auto simp: DeleteConsent_def Let_def split: mem_split intro!: fld)
  show "CreateGrant g w = (e, w') \<Longrightarrow> mem_wf (db w')"
    using wf kd row by (auto simp: CreateGrant_def Let_def split: mem_split intro!: fld)
  show "RotateGrant i h h' t t' w = (b, w') \<Longrightarrow> mem_wf (db w')"
    using wf kd row by (auto simp: RotateGrant_def Let_def split: mem_split intro!: fld)
  show "DeleteGrant i w = (e, w') \<Longrightarrow> mem_wf (db w')"
    using wf kd row by (auto simp: DeleteGrant_def Let_def split: mem_split intro!: fld)
  show "DeleteUserClientGrants i j w = (n, w') \<Longrightarrow> mem_wf (db w')"
    using wf kd row by (auto simp: DeleteUserClientGrants_def Let_def split: mem_split intro!: fld)
  show "DeleteExpiredGrants t w = (n, w') \<Longrightarrow> mem_wf (db w')"
    using wf kd row by (auto simp: DeleteExpiredGrants_def Let_def split: mem_split intro!: fld)
  show "UseClientAssertion i j t w = (b, w') \<Longrightarrow> mem_wf (db w')"
    using wf kd row by (auto simp: UseClientAssertion_def Let_def split: mem_split intro!: fld)
  show "DeleteExpiredClientAssertions t w = (n, w') \<Longrightarrow> mem_wf (db w')"
    using wf kd row by (auto simp: DeleteExpiredClientAssertions_def Let_def split: mem_split intro!: fld)
qed

section \<open>Runs of the store\<close>

text \<open>
  One step is one method call of any view, or a read of the random source by a caller. The
  mutex makes every interleaving of concurrent callers a sequence of such steps.
\<close>

inductive mem_step :: "extern \<Rightarrow> memstore world \<Rightarrow> memstore world \<Rightarrow> bool" for x where
  step_rand: "tape w \<le> t \<Longrightarrow> mem_step x w (w\<lparr>tape := t\<rparr>)"
| step_Create: "userStore_Create u w = (e, u', w') \<Longrightarrow> mem_step x w w'"
| step_Update: "userStore_Update x u w = (e, u', w') \<Longrightarrow> mem_step x w w'"
| step_Delete: "userStore_Delete u w = (e, w') \<Longrightarrow> mem_step x w w'"
| step_Purge: "userStore_PurgeAnonymousUsers t w = (n, w') \<Longrightarrow> mem_step x w w'"
| step_AddToRole: "userStore_AddToRole u r w = (e, w') \<Longrightarrow> mem_step x w w'"
| step_RemoveFromRole: "userStore_RemoveFromRole u r w = (e, w') \<Longrightarrow> mem_step x w w'"
| step_AddClaims: "userStore_AddClaims u cs w = (e, w') \<Longrightarrow> mem_step x w w'"
| step_RemoveClaims: "userStore_RemoveClaims u cs w = (e, w') \<Longrightarrow> mem_step x w w'"
| step_SetToken: "userStore_SetToken u p k v w = (e, w') \<Longrightarrow> mem_step x w w'"
| step_RemoveToken: "userStore_RemoveToken u p k w = (e, w') \<Longrightarrow> mem_step x w w'"
| step_AddLogin: "userStore_AddLogin u l w = (e, w') \<Longrightarrow> mem_step x w w'"
| step_RemoveLogin: "userStore_RemoveLogin u p k w = (e, w') \<Longrightarrow> mem_step x w w'"
| step_roleCreate: "roleStore_Create ro w = (e, w') \<Longrightarrow> mem_step x w w'"
| step_roleUpdate: "roleStore_Update x ro w = (e, ro', w') \<Longrightarrow> mem_step x w w'"
| step_roleDelete: "roleStore_Delete ro w = (e, w') \<Longrightarrow> mem_step x w w'"
| step_roleAddClaim: "roleStore_AddClaim ro c w = (e, w') \<Longrightarrow> mem_step x w w'"
| step_roleRemoveClaim: "roleStore_RemoveClaim ro c w = (e, w') \<Longrightarrow> mem_step x w w'"
| step_CreateAPIKey: "CreateAPIKey ak w = (e, w') \<Longrightarrow> mem_step x w w'"
| step_RevokeAPIKey: "RevokeAPIKey t i w = (e, w') \<Longrightarrow> mem_step x w w'"
| step_TouchAPIKey: "TouchAPIKeyLastUsed t i w = (e, w') \<Longrightarrow> mem_step x w w'"
| step_CreateRefresh: "CreateRefreshToken rt w = (e, w') \<Longrightarrow> mem_step x w w'"
| step_UpdateRefresh: "UpdateRefreshToken rt w = (e, w') \<Longrightarrow> mem_step x w w'"
| step_DeleteRefresh: "DeleteRefreshToken i w = (e, w') \<Longrightarrow> mem_step x w w'"
| step_DeleteUserRefresh: "DeleteUserRefreshTokens i w = (n, w') \<Longrightarrow> mem_step x w w'"
| step_DeleteExpiredRefresh: "DeleteExpiredRefreshTokens t w = (n, w') \<Longrightarrow> mem_step x w w'"
| step_CreateClient: "CreateClient cl w = (e, w') \<Longrightarrow> mem_step x w w'"
| step_TouchClient: "TouchClient i t w = (e, w') \<Longrightarrow> mem_step x w w'"
| step_DeleteStaleClients: "DeleteStaleClients t w = (n, w') \<Longrightarrow> mem_step x w w'"
| step_CreateCode: "CreateCode cd w = (e, w') \<Longrightarrow> mem_step x w w'"
| step_MarkCodeUsed: "MarkCodeUsed h i t w = (b, w') \<Longrightarrow> mem_step x w w'"
| step_DeleteExpiredCodes: "DeleteExpiredCodes t w = (n, w') \<Longrightarrow> mem_step x w w'"
| step_SaveConsent: "SaveConsent co w = (e, w') \<Longrightarrow> mem_step x w w'"
| step_DeleteConsent: "DeleteConsent i j w = (e, w') \<Longrightarrow> mem_step x w w'"
| step_CreateGrant: "CreateGrant g w = (e, w') \<Longrightarrow> mem_step x w w'"
| step_RotateGrant: "RotateGrant i h h' t t' w = (b, w') \<Longrightarrow> mem_step x w w'"
| step_DeleteGrant: "DeleteGrant i w = (e, w') \<Longrightarrow> mem_step x w w'"
| step_DeleteUserClientGrants: "DeleteUserClientGrants i j w = (n, w') \<Longrightarrow> mem_step x w w'"
| step_DeleteExpiredGrants: "DeleteExpiredGrants t w = (n, w') \<Longrightarrow> mem_step x w w'"
| step_UseClientAssertion: "UseClientAssertion i j t w = (b, w') \<Longrightarrow> mem_step x w w'"
| step_DeleteExpiredAssertions: "DeleteExpiredClientAssertions t w = (n, w') \<Longrightarrow> mem_step x w w'"

lemma mem_step_wf: "mem_step x w w' \<Longrightarrow> mem_wf (db w) \<Longrightarrow> mem_wf (db w')"
  by (induction rule: mem_step.induct)
    (simp, (erule (1) user_writes_wf [rotated] role_writes_wf [rotated] key_writes_wf [rotated]
        session_writes_wf [rotated] oauth_writes_wf [rotated])+)

lemma mem_step_tape: "mem_step x w w' \<Longrightarrow> tape w \<le> tape w'"
  by (induction rule: mem_step.induct)
    (auto simp: user_writes role_writes key_writes session_writes oauth_writes Let_def split: mem_split)

lemma mem_steps_wf: "(mem_step x)\<^sup>*\<^sup>* w w' \<Longrightarrow> mem_wf (db w) \<Longrightarrow> mem_wf (db w') \<and> tape w \<le> tape w'"
  by (induction rule: rtranclp_induct) (auto dest: mem_step_wf mem_step_tape)

section \<open>The contracts\<close>

lemma mem_rows:
  assumes "mem_wf s"
  shows "find_val P (m_users s) = Some u \<Longrightarrow> P u \<and> map_of (m_users s) (u_ID u) = Some u"
    and "find_val P (m_users s) = None \<Longrightarrow> map_of (m_users s) i = Some u \<Longrightarrow> \<not> P u"
  using find_val_keyed [of u_ID "m_users s"] assms unfolding mem_wf_def by blast+

lemma cascade_users: "m_users (cascadeDeleteLocked i s) = AList.delete i (m_users s)"
  by (simp add: cascadeDeleteLocked_def Let_def)

lemma tokenKey_inj:
  assumes "plain_key p" "plain_key p'"
  shows "tokenKey i p n = tokenKey i p' n' \<longleftrightarrow> p = p' \<and> n = n'"
proof -
  have "p @ CHR ''|'' # n = p' @ CHR ''|'' # n' \<longleftrightarrow> p = p' \<and> n = n'"
    using assms strings_Cut_append [of "CHR ''|''" p n] strings_Cut_append [of "CHR ''|''" p' n']
    unfolding plain_key_def by (metis option.inject prod.inject)
  then show ?thesis by (simp add: tokenKey_def)
qed

lemma mem_user_crud: "user_crud x (memstore_Users x) mem_wf (\<lambda>s. map_of (m_users s))"
proof
  fix w :: "memstore world" and n i u u' w' e r p k
  assume wf: "mem_wf (db w)"
  show "map_of (m_users (db w)) i = Some u \<Longrightarrow> u_ID u = i" by (rule wf_row [OF wf])
  show "us_FindByID (memstore_Users x) i w = Inr u \<longleftrightarrow> map_of (m_users (db w)) i = Some u"
    by (simp add: memstore_Users_def userStore_FindByID_def split: option.splits)
  show "us_FindByName (memstore_Users x) n w = Inr u \<Longrightarrow>
      map_of (m_users (db w)) (u_ID u) = Some u \<and> u_NormalizedUserName u = n"
    using mem_rows(1) [OF wf, of _ u]
    by (auto simp: memstore_Users_def userStore_FindByName_def userStore_findBy_def split: option.splits)
  show "us_FindByName (memstore_Users x) n w = Inl ErrNotFound \<Longrightarrow>
      map_of (m_users (db w)) i = Some u \<Longrightarrow> u_NormalizedUserName u \<noteq> n"
    using mem_rows(2) [OF wf]
    by (auto simp: memstore_Users_def userStore_FindByName_def userStore_findBy_def split: option.splits)
  show "us_FindByEmail (memstore_Users x) n w = Inr u \<Longrightarrow>
      map_of (m_users (db w)) (u_ID u) = Some u \<and> u_NormalizedEmail u = n \<and> n \<noteq> []"
    using mem_rows(1) [OF wf, of _ u]
    by (auto simp: memstore_Users_def userStore_FindByEmail_def userStore_findBy_def split: option.splits)
  show "us_FindByEmail (memstore_Users x) n w = Inl ErrNotFound \<Longrightarrow> n \<noteq> [] \<Longrightarrow>
      map_of (m_users (db w)) i = Some u \<Longrightarrow> u_NormalizedEmail u \<noteq> n"
    using mem_rows(2) [OF wf]
    by (auto simp: memstore_Users_def userStore_FindByEmail_def userStore_findBy_def split: option.splits)
  show "us_FindByLogin (memstore_Users x) p k w = Inr u \<Longrightarrow> map_of (m_users (db w)) (u_ID u) = Some u"
    using wf_row(1) [OF wf]
    by (auto simp: memstore_Users_def userStore_FindByLogin_def userStore_FindByID_def split: option.splits)
  show "us_Create (memstore_Users x) u w = (None, u', w') \<Longrightarrow>
      mem_wf (db w') \<and> u' = u \<and> tape w \<le> tape w' \<and>
      map_of (m_users (db w')) = (map_of (m_users (db w)))(u_ID u \<mapsto> u)"
    using user_writes_wf(1) [OF wf, of u]
    by (auto simp: memstore_Users_def userStore_Create_def map_of_update_fun)
  show "us_Create (memstore_Users x) u w = (Some e, u', w') \<Longrightarrow>
      mem_wf (db w') \<and> u' = u \<and> tape w \<le> tape w' \<and> map_of (m_users (db w')) = map_of (m_users (db w))"
    by (simp add: memstore_Users_def userStore_Create_def)
  show "us_Update (memstore_Users x) u w = (None, u', w') \<Longrightarrow>
      mem_wf (db w') \<and> tape w \<le> tape w' \<and>
      (\<exists>r. map_of (m_users (db w)) (u_ID u) = Some r \<and> u_ConcurrencyStamp r = u_ConcurrencyStamp u) \<and>
      (\<exists>s. u' = u\<lparr>u_ConcurrencyStamp := s\<rparr> \<and> fresh_stamp x w w' s) \<and>
      map_of (m_users (db w')) = (map_of (m_users (db w)))(u_ID u \<mapsto> u')"
    using user_writes_wf(2) [OF wf, of x u]
    by (auto simp: memstore_Users_def userStore_Update_def map_of_update_fun Let_def fresh_stamp_def
        split: mem_split intro!: exI [of _ "x_uuid x (tape w)"] exI [of _ "tape w"])
  show "us_Update (memstore_Users x) u w = (Some e, u', w') \<Longrightarrow>
      mem_wf (db w') \<and> u' = u \<and> tape w \<le> tape w' \<and> map_of (m_users (db w')) = map_of (m_users (db w))"
    using wf by (auto simp: memstore_Users_def userStore_Update_def Let_def split: mem_split)
  show "map_of (m_users (db w)) (u_ID u) = Some r \<Longrightarrow> u_ConcurrencyStamp r \<noteq> u_ConcurrencyStamp u \<Longrightarrow>
      \<exists>e u' w'. us_Update (memstore_Users x) u w = (Some e, u', w')"
    by (simp add: memstore_Users_def userStore_Update_def)
  show "map_of (m_users (db w)) (u_ID u) = None \<Longrightarrow>
      \<exists>e u' w'. us_Update (memstore_Users x) u w = (Some e, u', w')"
    by (simp add: memstore_Users_def userStore_Update_def)
  show "us_Delete (memstore_Users x) u w = (None, w') \<Longrightarrow>
      mem_wf (db w') \<and> tape w \<le> tape w' \<and>
      map_of (m_users (db w')) = (map_of (m_users (db w)))(u_ID u := None)"
    using user_writes_wf(3) [OF wf, of u]
    by (auto simp: memstore_Users_def userStore_Delete_def cascade_users map_of_delete_fun)
  show "us_Delete (memstore_Users x) u w = (Some e, w') \<Longrightarrow>
      mem_wf (db w') \<and> tape w \<le> tape w' \<and> map_of (m_users (db w')) = map_of (m_users (db w))"
    by (simp add: memstore_Users_def userStore_Delete_def)
qed

interpretation mem: reliable_users x "memstore_Users x" mem_wf "\<lambda>s. map_of (m_users s)" for x
proof (intro reliable_users.intro user_tokens.intro mem_user_crud user_tokens_axioms.intro
    reliable_users_axioms.intro)
  fix w :: "memstore world" and u u' :: user and p n v p' n' e w'
  assume wf: "mem_wf (db w)"
  note defs = memstore_Users_def userStore_SetToken_def userStore_RemoveToken_def
    userStore_GetToken_def lookup_or_def update_conv delete_conv userStore_Create_def
  show "map_of (m_users (db w)) (u_ID u) = Some r \<Longrightarrow> u_ConcurrencyStamp r = u_ConcurrencyStamp u \<Longrightarrow>
      \<exists>u' w'. us_Update (memstore_Users x) u w = (None, u', w')" for r
    by (simp add: memstore_Users_def userStore_Update_def Let_def)
  show "\<exists>u' w'. us_Create (memstore_Users x) u w = (None, u', w')"
    "\<exists>w'. us_SetToken (memstore_Users x) u p n v w = (None, w')"
    "\<exists>w'. us_RemoveToken (memstore_Users x) u p n w = (None, w')"
    "\<exists>v. us_GetToken (memstore_Users x) u p n w = Inr v"
    by (auto simp: defs)
  show "us_SetToken (memstore_Users x) u p n v w = (e, w') \<Longrightarrow>
      mem_wf (db w') \<and> tape w' = tape w \<and> map_of (m_users (db w')) = map_of (m_users (db w))"
    using user_writes_wf(9) [OF wf, of u p n v] by (auto simp: defs)
  show "us_RemoveToken (memstore_Users x) u p n w = (e, w') \<Longrightarrow>
      mem_wf (db w') \<and> tape w' = tape w \<and> map_of (m_users (db w')) = map_of (m_users (db w))"
    using user_writes_wf(10) [OF wf, of u p n] by (auto simp: defs)
  show "us_SetToken (memstore_Users x) u p n v w = (None, w') \<Longrightarrow> u_ID u' = u_ID u \<Longrightarrow>
      us_GetToken (memstore_Users x) u' p n w' = Inr v"
    by (auto simp: defs)
  show "us_SetToken (memstore_Users x) u p n v w = (None, w') \<Longrightarrow> u_ID u' = u_ID u \<Longrightarrow>
      plain_key p \<Longrightarrow> plain_key p' \<Longrightarrow> (p, n) \<noteq> (p', n') \<Longrightarrow>
      us_GetToken (memstore_Users x) u' p' n' w' = us_GetToken (memstore_Users x) u' p' n' w"
    by (auto simp: defs tokenKey_inj)
  show "us_RemoveToken (memstore_Users x) u p n w = (None, w') \<Longrightarrow> u_ID u' = u_ID u \<Longrightarrow>
      us_GetToken (memstore_Users x) u' p n w' = Inr []"
    by (auto simp: defs)
  show "us_RemoveToken (memstore_Users x) u p n w = (None, w') \<Longrightarrow> u_ID u' = u_ID u \<Longrightarrow>
      plain_key p \<Longrightarrow> plain_key p' \<Longrightarrow> (p, n) \<noteq> (p', n') \<Longrightarrow>
      us_GetToken (memstore_Users x) u' p' n' w' = us_GetToken (memstore_Users x) u' p' n' w"
    by (auto simp: defs tokenKey_inj)
qed

end
