(* ===== verification/Hasher.thy ===== *)
theory Hasher
  imports Entities
begin

text \<open>
  Password hashing (\<open>identity/hasher.go\<close>): the interface \<open>PasswordHasher\<close>, its contract, and
  the PBKDF2 implementation with its byte format
  \<open>0x01 | prf (4) | iterations (4) | salt length (4) | salt | subkey\<close>, base64-encoded.
\<close>

section \<open>The interface\<close>

text \<open>\<open>Hash\<close> reads a salt from the random tape; \<open>Verify\<close> returns \<open>(ok, needsRehash)\<close>.\<close>

record password_hasher =
  ph_Hash :: "user \<Rightarrow> string \<Rightarrow> nat \<Rightarrow> string \<times> nat"
  ph_Verify :: "user \<Rightarrow> string \<Rightarrow> string \<Rightarrow> bool \<times> bool"

text \<open>
  What the managers rely on: a hash made for a password verifies for it without asking for a
  rehash, is never the empty string (which means "no password"), and hashing only moves the tape
  forward. \<open>ok\<close> stands for the conditions under which the implementation promises this.
\<close>

locale password_hashing =
  fixes H :: password_hasher and ok :: bool
  assumes Verify_Hash: "ok \<Longrightarrow> ph_Verify H u' (fst (ph_Hash H u pw t)) pw = (True, False)"
    and Hash_ne: "fst (ph_Hash H u pw t) \<noteq> []"
    and Hash_tape: "t \<le> snd (ph_Hash H u pw t)"

section \<open>PBKDF2\<close>

definition prfSHA1 :: "32 word" where "prfSHA1 = 0"
definition prfSHA256 :: "32 word" where "prfSHA256 = 1"
definition prfSHA512 :: "32 word" where "prfSHA512 = 2"

definition maxPBKDF2Iterations :: nat where "maxPBKDF2Iterations = 10000000"

record pbkdf2Hasher =
  iterations :: nat
  saltLen :: nat
  subkeyLen :: nat
  h_prf :: "32 word"

definition newHash :: "32 word \<Rightarrow> hash_fn" where
  "newHash p = (if p = prfSHA512 then Sha512 else if p = prfSHA256 then Sha256 else Sha1)"

definition pbkdf2Hasher_Hash :: "extern \<Rightarrow> pbkdf2Hasher \<Rightarrow> user \<Rightarrow> string \<Rightarrow> nat \<Rightarrow> string \<times> nat" where
  "pbkdf2Hasher_Hash x h u password t =
     (let (salt, t) = rand_Read x (saltLen h) t;
          subkey = x_pbkdf2 x (newHash (h_prf h)) password salt (iterations h) (subkeyLen h);
          out = [CHR 0x01] @ put_u32 (h_prf h) @ put_u32 (of_nat (iterations h))
                @ put_u32 (of_nat (length salt)) @ salt @ subkey
      in (base64_Encode StdEncoding out, t))"

text \<open>The slices \<open>data[1:5]\<close>, \<open>data[5:9]\<close>, \<open>data[9:13]\<close> are read only once \<open>len(data) \<ge> 13\<close>.\<close>

definition slice :: "nat \<Rightarrow> nat \<Rightarrow> bytes \<Rightarrow> bytes" where
  "slice lo hi s = take (hi - lo) (drop lo s)"

definition pbkdf2Hasher_Verify ::
  "extern \<Rightarrow> pbkdf2Hasher \<Rightarrow> user \<Rightarrow> string \<Rightarrow> string \<Rightarrow> bool \<times> bool" where
  "pbkdf2Hasher_Verify x h u encoded password =
     (case base64_Decode StdEncoding encoded of
        None \<Rightarrow> (False, False)
      | Some data \<Rightarrow>
          if length data = 0 \<or> data ! 0 \<noteq> CHR 0x01 then (False, False)
          else if length data < 13 then (False, False)
          else
            let p = get_u32 (slice 1 5 data);
                iter = unat (get_u32 (slice 5 9 data));
                sl = unat (get_u32 (slice 9 13 data))
            in if sl < 8 \<or> length data < 13 + sl + 1 then (False, False)
               else if iter < 1 \<or> iter > maxPBKDF2Iterations then (False, False)
               else
                 let salt = slice 13 (13 + sl) data;
                     subkey = drop (13 + sl) data;
                     derived = x_pbkdf2 x (newHash p) password salt iter (length subkey)
                 in if derived \<noteq> subkey then (False, False)
                    else (True, iter < iterations h \<or> p \<noteq> h_prf h \<or> sl \<noteq> saltLen h
                                \<or> length subkey \<noteq> subkeyLen h))"

definition NewPasswordHasher :: "extern \<Rightarrow> password_hasher" where
  "NewPasswordHasher x =
     (let h = \<lparr>iterations = 100000, saltLen = 16, subkeyLen = 32, h_prf = prfSHA256\<rparr>
      in \<lparr>ph_Hash = pbkdf2Hasher_Hash x h, ph_Verify = pbkdf2Hasher_Verify x h\<rparr>)"

section \<open>The format\<close>

text \<open>The parameters a hasher may be built with: those \<open>Verify\<close> will accept again.\<close>

definition hasher_ok :: "pbkdf2Hasher \<Rightarrow> bool" where
  "hasher_ok h \<longleftrightarrow> 1 \<le> iterations h \<and> iterations h \<le> maxPBKDF2Iterations \<and>
     8 \<le> saltLen h \<and> saltLen h < 2 ^ 32 \<and> 1 \<le> subkeyLen h"

definition encode_v3 :: "32 word \<Rightarrow> nat \<Rightarrow> bytes \<Rightarrow> bytes \<Rightarrow> bytes" where
  "encode_v3 p it salt subkey =
     [CHR 0x01] @ put_u32 p @ put_u32 (of_nat it) @ put_u32 (of_nat (length salt)) @ salt @ subkey"

lemma encode_v3_fields:
  "length (encode_v3 p it salt subkey) = 13 + length salt + length subkey"
  "encode_v3 p it salt subkey ! 0 = CHR 0x01"
  "slice (Suc 0) 5 (encode_v3 p it salt subkey) = put_u32 p"
  "slice 5 9 (encode_v3 p it salt subkey) = put_u32 (of_nat it)"
  "slice 9 13 (encode_v3 p it salt subkey) = put_u32 (of_nat (length salt))"
  "slice 13 (13 + length salt) (encode_v3 p it salt subkey) = salt"
  by (simp_all add: encode_v3_def slice_def)

lemma encode_v3_subkey: "drop (13 + length salt) (encode_v3 p it salt subkey) = subkey"
proof -
  have "drop 13 (encode_v3 p it salt subkey) = salt @ subkey" by (simp add: encode_v3_def)
  then have "drop (length salt) (drop 13 (encode_v3 p it salt subkey)) = subkey" by simp
  then show ?thesis by (simp only: drop_drop add.commute)
qed

lemma unat_of_nat_32: "n < 2 ^ 32 \<Longrightarrow> unat (of_nat n :: 32 word) = n"
  by (simp add: unat_of_nat)

text \<open>What \<open>Verify\<close> does on a well-formed encoding: it derives again and compares.\<close>

lemma Verify_encode_v3:
  assumes "it \<le> maxPBKDF2Iterations" "1 \<le> it" "8 \<le> length salt" "length salt < 2 ^ 32" "subkey \<noteq> []"
  shows "pbkdf2Hasher_Verify x h u (base64_Encode StdEncoding (encode_v3 p it salt subkey)) pw =
     (if x_pbkdf2 x (newHash p) pw salt it (length subkey) = subkey
      then (True, it < iterations h \<or> p \<noteq> h_prf h \<or> length salt \<noteq> saltLen h
                  \<or> length subkey \<noteq> subkeyLen h)
      else (False, False))"
proof -
  have "unat (of_nat it :: 32 word) = it" "unat (of_nat (length salt) :: 32 word) = length salt"
    using assms by (auto simp: maxPBKDF2Iterations_def intro!: unat_of_nat_32)
  moreover have "length (encode_v3 p it salt subkey) \<noteq> 0" by (simp add: encode_v3_fields)
  moreover have "1 \<le> length subkey" using assms(5) by (cases subkey) auto
  ultimately show ?thesis
    using assms unfolding pbkdf2Hasher_Verify_def base64_roundtrip option.case
    by (simp add: encode_v3_fields encode_v3_subkey Let_def)
qed

lemma Hash_encode_v3:
  "pbkdf2Hasher_Hash x h u pw t =
     (let salt = fst (rand_Read x (saltLen h) t)
      in (base64_Encode StdEncoding (encode_v3 (h_prf h) (iterations h) salt
           (x_pbkdf2 x (newHash (h_prf h)) pw salt (iterations h) (subkeyLen h))), t + saltLen h))"
  by (simp add: pbkdf2Hasher_Hash_def encode_v3_def Let_def case_prod_beta)

lemma Verify_Hash_cases:
  fixes t :: nat
  assumes "hasher_ok h" "pbkdf2_ok x"
  defines "salt \<equiv> fst (rand_Read x (saltLen h) t)"
  shows "pbkdf2Hasher_Verify x h u' (fst (pbkdf2Hasher_Hash x h u pw t)) pw' =
     (if x_pbkdf2 x (newHash (h_prf h)) pw' salt (iterations h) (subkeyLen h)
         = x_pbkdf2 x (newHash (h_prf h)) pw salt (iterations h) (subkeyLen h)
      then (True, False) else (False, False))"
proof -
  have l: "length (x_pbkdf2 x (newHash (h_prf h)) pw salt (iterations h) (subkeyLen h)) = subkeyLen h"
    and s: "length salt = saltLen h"
    using assms(2) by (auto simp: pbkdf2_ok_def salt_def)
  from l assms(1) have "x_pbkdf2 x (newHash (h_prf h)) pw salt (iterations h) (subkeyLen h) \<noteq> []"
    by (auto simp: hasher_ok_def)
  then show ?thesis
    using assms(1) l s unfolding Hash_encode_v3
    by (simp add: Verify_encode_v3 Let_def hasher_ok_def flip: salt_def)
qed

lemma default_hasher_ok:
  "hasher_ok \<lparr>iterations = 100000, saltLen = 16, subkeyLen = 32, h_prf = p\<rparr>"
  by (simp add: hasher_ok_def maxPBKDF2Iterations_def)

interpretation pbkdf2: password_hashing "NewPasswordHasher x" "pbkdf2_ok x" for x
proof
  fix u u' :: user and pw t
  show "pbkdf2_ok x \<Longrightarrow>
      ph_Verify (NewPasswordHasher x) u' (fst (ph_Hash (NewPasswordHasher x) u pw t)) pw = (True, False)"
    by (simp add: NewPasswordHasher_def Let_def Verify_Hash_cases default_hasher_ok)
  show "fst (ph_Hash (NewPasswordHasher x) u pw t) \<noteq> []"
    by (simp add: NewPasswordHasher_def Let_def Hash_encode_v3 base64_Encode_ne encode_v3_def)
  show "t \<le> snd (ph_Hash (NewPasswordHasher x) u pw t)"
    by (simp add: NewPasswordHasher_def Let_def Hash_encode_v3)
qed

section \<open>Properties\<close>

text \<open>(C5) A stored hash verifies exactly the passwords that derive the same key: for the password
  it was made from the answer is yes without a rehash, for any other it is yes only on a PBKDF2
  collision under the stored salt, and it never asks for a rehash.\<close>

theorem Verify_Hash_roundtrip:
  assumes "hasher_ok h" and "pbkdf2_ok x"
  shows "pbkdf2Hasher_Verify x h u' (fst (pbkdf2Hasher_Hash x h u pw t)) pw' =
     (let key = (\<lambda>p. x_pbkdf2 x (newHash (h_prf h)) p (fst (rand_Read x (saltLen h) t)) (iterations h) (subkeyLen h))
      in (key pw' = key pw, False))"
  using Verify_Hash_cases [OF assms] by (simp add: Let_def)

definition demo_hasher :: pbkdf2Hasher where
  "demo_hasher = \<lparr>iterations = 1000, saltLen = 8, subkeyLen = 16, h_prf = prfSHA512\<rparr>"

theorem Verify_Hash_roundtrip_witness:
  "pbkdf2Hasher_Verify demo_extern demo_hasher zero_user
     (fst (pbkdf2Hasher_Hash demo_extern demo_hasher zero_user ''secret'' 0)) ''secret'' = (True, False)"
  using Verify_Hash_roundtrip [of demo_hasher demo_extern zero_user zero_user "''secret''" 0 "''secret''"]
    demo_extern_ok(5)
  by (simp add: hasher_ok_def demo_hasher_def maxPBKDF2Iterations_def Let_def)

lemma encode_v3_of_parts:
  assumes "13 \<le> length data" "data ! 0 = CHR 0x01"
    and "unat (get_u32 (slice 9 13 data)) + 13 \<le> length data"
  defines "sl \<equiv> unat (get_u32 (slice 9 13 data))"
  shows "data = encode_v3 (get_u32 (slice 1 5 data)) (unat (get_u32 (slice 5 9 data)))
    (slice 13 (13 + sl) data) (drop (13 + sl) data)"
proof -
  have len: "length (slice 13 (13 + sl) data) = sl" using assms by (simp add: slice_def)
  have p: "put_u32 (get_u32 (slice 1 5 data)) = slice 1 5 data" "put_u32 (get_u32 (slice 5 9 data)) = slice 5 9 data"
    "put_u32 (get_u32 (slice 9 13 data)) = slice 9 13 data"
    using assms(1) by (auto simp: slice_def intro!: put_get_u32)
  have "of_nat sl = get_u32 (slice 9 13 data)" by (simp add: sl_def)
  then have e: "encode_v3 (get_u32 (slice 1 5 data)) (unat (get_u32 (slice 5 9 data)))
      (slice 13 (13 + sl) data) (drop (13 + sl) data)
    = [CHR 0x01] @ slice 1 5 data @ slice 5 9 data @ slice 9 13 data @ slice 13 (13 + sl) data @ drop (13 + sl) data"
    by (simp add: encode_v3_def len p [unfolded One_nat_def])
  have j: "slice a b data @ drop b data = drop a data" if "a \<le> b" for a b
    using that append_take_drop_id [of "b - a" "drop a data"] by (simp add: slice_def)
  have "[CHR 0x01] @ drop 1 data = data" using assms(1,2) by (cases data) auto
  with e j show ?thesis by simp
qed

text \<open>What \<open>Verify\<close> can be made to do by a stored string, whoever wrote it: it answers yes
  only for a version-1 encoding with a salt of at least 8 bytes, a non-empty subkey and between 1
  and \<open>maxPBKDF2Iterations\<close> iterations, whose subkey the password derives; and it asks for a
  rehash exactly when the stored parameters differ from (or, for the iterations, are below) the
  hasher's own.\<close>

theorem Verify_accepts_only:
  assumes "pbkdf2Hasher_Verify x h u encoded pw = (True, rehash)"
  shows "\<exists>p it salt subkey. base64_Decode StdEncoding encoded = Some (encode_v3 p it salt subkey) \<and>
    1 \<le> it \<and> it \<le> maxPBKDF2Iterations \<and> 8 \<le> length salt \<and> subkey \<noteq> [] \<and>
    x_pbkdf2 x (newHash p) pw salt it (length subkey) = subkey \<and>
    rehash = (it < iterations h \<or> p \<noteq> h_prf h \<or> length salt \<noteq> saltLen h \<or> length subkey \<noteq> subkeyLen h)"
proof -
  from assms obtain data where d: "base64_Decode StdEncoding encoded = Some data"
    by (auto simp: pbkdf2Hasher_Verify_def split: option.splits)
  let ?p = "get_u32 (slice 1 5 data)" and ?it = "unat (get_u32 (slice 5 9 data))"
    and ?sl = "unat (get_u32 (slice 9 13 data))"
  let ?salt = "slice 13 (13 + ?sl) data" and ?sk = "drop (13 + ?sl) data"
  from assms d have b: "13 \<le> length data" "data ! 0 = CHR 0x01" "8 \<le> ?sl" "13 + ?sl + 1 \<le> length data"
    "1 \<le> ?it" "?it \<le> maxPBKDF2Iterations" "x_pbkdf2 x (newHash ?p) pw ?salt ?it (length ?sk) = ?sk"
    "rehash = (?it < iterations h \<or> ?p \<noteq> h_prf h \<or> ?sl \<noteq> saltLen h \<or> length ?sk \<noteq> subkeyLen h)"
    unfolding pbkdf2Hasher_Verify_def Let_def by (auto split: if_splits)
  have "length ?salt = ?sl" "?sk \<noteq> []" using b(4) by (auto simp: slice_def)
  moreover have "data = encode_v3 ?p ?it ?salt ?sk" using b(1,2,4) by (intro encode_v3_of_parts) auto
  ultimately show ?thesis using b d by (intro exI [of _ ?p] exI [of _ ?it] exI [of _ ?salt] exI [of _ ?sk]) auto
qed

theorem Verify_accepts_only_witness:
  "\<exists>p it salt subkey. base64_Decode StdEncoding (fst (pbkdf2Hasher_Hash demo_extern demo_hasher zero_user ''secret'' 0))
     = Some (encode_v3 p it salt subkey) \<and> it \<le> maxPBKDF2Iterations"
  using Verify_accepts_only [of demo_extern demo_hasher zero_user _ "''secret''" False]
    Verify_Hash_cases [of demo_hasher demo_extern zero_user zero_user "''secret''" 0 "''secret''"] demo_extern_ok(5)
  by (fastforce simp: hasher_ok_def demo_hasher_def maxPBKDF2Iterations_def)

end
