(* ===== verification/Token_Provider.thy ===== *)
theory Token_Provider
  imports Entities
begin

text \<open>
  \<open>DataTokenProvider\<close> of \<open>identity/token_provider.go\<close>: time-limited tokens
  \<open>base64url(issued (8 bytes) | HMAC-SHA256)\<close>, whose MAC covers the issue time, the user's ID,
  the purpose and the user's security stamp. Seconds since the epoch are kept at 64 bits; a
  \<open>time.Time\<close> is an unbounded instant (only issue times within a year of the ends of the int64
  range, which no MAC covers, would make Go's internal representation wrap).
\<close>

record data_token_provider =
  dp_key :: bytes
  dp_lifespan :: duration

definition NewDataTokenProvider :: "bytes \<Rightarrow> duration \<Rightarrow> data_token_provider" where
  "NewDataTokenProvider key lifespan =
     \<lparr>dp_key = key, dp_lifespan = (if lifespan = 0 then 24 * hour else lifespan)\<rparr>"

definition DataTokenProvider_sign :: "extern \<Rightarrow> data_token_provider \<Rightarrow> bytes \<Rightarrow> bytes" where
  "DataTokenProvider_sign x p payload = x_hmac_sha256 x (dp_key p) payload"

definition token_payload :: "bytes \<Rightarrow> string \<Rightarrow> user \<Rightarrow> bytes" where
  "token_payload ts purpose u = ts @ u_ID u @ ''|'' @ purpose @ ''|'' @ u_SecurityStamp u"

definition DataTokenProvider_Generate ::
  "extern \<Rightarrow> data_token_provider \<Rightarrow> time \<Rightarrow> string \<Rightarrow> user \<Rightarrow> string" where
  "DataTokenProvider_Generate x p now purpose u =
     (let issued = time_Unix now;
          ts = put_u64 (of_int issued);
          mac = DataTokenProvider_sign x p (token_payload ts purpose u)
      in base64_Encode RawURLEncoding (ts @ mac))"

definition DataTokenProvider_ValidateWithLifespan ::
  "extern \<Rightarrow> data_token_provider \<Rightarrow> time \<Rightarrow> string \<Rightarrow> string \<Rightarrow> user \<Rightarrow> duration \<Rightarrow> bool" where
  "DataTokenProvider_ValidateWithLifespan x p now purpose token u lifespan =
     (case base64_Decode RawURLEncoding token of
        None \<Rightarrow> False
      | Some raw \<Rightarrow>
          if length raw \<noteq> 8 + 32 then False
          else
            let issued = sint (get_u64 (take 8 raw))
            in if time_Sub now (time_of_Unix issued) > lifespan then False
               else
                 let expected = DataTokenProvider_sign x p (token_payload (take 8 raw) purpose u)
                 in subtleConstEq (drop 8 raw) expected)"

definition DataTokenProvider_Validate ::
  "extern \<Rightarrow> data_token_provider \<Rightarrow> time \<Rightarrow> string \<Rightarrow> string \<Rightarrow> user \<Rightarrow> bool" where
  "DataTokenProvider_Validate x p now purpose token u =
     DataTokenProvider_ValidateWithLifespan x p now purpose token u (dp_lifespan p)"

definition purposeEmailConfirmation :: string where "purposeEmailConfirmation = ''EmailConfirmation''"
definition purposePasswordReset :: string where "purposePasswordReset = ''ResetPassword''"
definition purposeChangeEmail :: string where "purposeChangeEmail = ''ChangeEmail''"
definition purposeTwoFactorRemember :: string where "purposeTwoFactorRemember = ''TwoFactorRemember''"
definition TwoFactorRememberTTL :: duration where "TwoFactorRememberTTL = 30 * 24 * hour"

section \<open>Acceptance\<close>

lemma sint_of_int_64: "in_int64 i \<Longrightarrow> sint (of_int i :: 64 word) = i"
  unfolding in_int64_def minInt64_def maxInt64_def
  by (simp add: sint_sbintrunc' signed_take_bit_int_eq_self)

text \<open>
  What validation accepts, for a token minted for \<open>(purpose, u)\<close> at \<open>t\<close> and presented for
  \<open>(purpose', u')\<close>: the age is within the lifespan and the two MACs agree.
\<close>

lemma Validate_Generate:
  assumes "hmac_sha256_ok x" "in_int64 (time_Unix t)"
  defines "ts \<equiv> put_u64 (of_int (time_Unix t))"
  shows "DataTokenProvider_ValidateWithLifespan x p now purpose'
           (DataTokenProvider_Generate x p t purpose u) u' lifespan \<longleftrightarrow>
      time_Sub now (time_of_Unix (time_Unix t)) \<le> lifespan \<and>
      x_hmac_sha256 x (dp_key p) (token_payload ts purpose u) =
      x_hmac_sha256 x (dp_key p) (token_payload ts purpose' u')"
proof -
  have "length (x_hmac_sha256 x (dp_key p) s) = 32" for s
    using assms(1) by (simp add: hmac_sha256_ok_def)
  then show ?thesis
    using assms(2)
    by (auto simp: DataTokenProvider_ValidateWithLifespan_def DataTokenProvider_Generate_def Let_def
        DataTokenProvider_sign_def sint_of_int_64 ts_def)
qed

text \<open>
  The payload determines its parts: the issue time has eight bytes, and neither the ID nor the
  stamp holds the separator, so the purpose, which may, is what lies between.
\<close>

lemma payload_inj:
  assumes "length ts = 8" "length ts' = 8"
    and "CHR ''|'' \<notin> set (u_ID u)" "CHR ''|'' \<notin> set (u_ID u')"
    and "CHR ''|'' \<notin> set (u_SecurityStamp u)" "CHR ''|'' \<notin> set (u_SecurityStamp u')"
  shows "token_payload ts purpose u = token_payload ts' purpose' u' \<longleftrightarrow>
    ts = ts' \<and> u_ID u = u_ID u' \<and> purpose = purpose' \<and> u_SecurityStamp u = u_SecurityStamp u'"
proof
  assume eq: "token_payload ts purpose u = token_payload ts' purpose' u'"
  then have ts: "ts = ts'" using assms(1,2) by (simp add: token_payload_def)
  let ?r = "purpose @ CHR ''|'' # u_SecurityStamp u" and ?r' = "purpose' @ CHR ''|'' # u_SecurityStamp u'"
  from eq ts have "u_ID u @ CHR ''|'' # ?r = u_ID u' @ CHR ''|'' # ?r'"
    by (simp add: token_payload_def)
  with assms(3,4) have id: "u_ID u = u_ID u'" and r: "?r = ?r'"
    by (metis option.inject prod.inject strings_Cut_append)+
  from r have "rev (u_SecurityStamp u) @ CHR ''|'' # rev purpose
      = rev (u_SecurityStamp u') @ CHR ''|'' # rev purpose'"
    by (metis append.assoc append_Cons append_Nil rev.simps(2) rev_append)
  with assms(5,6) have "rev (u_SecurityStamp u) = rev (u_SecurityStamp u')" "rev purpose = rev purpose'"
    by (metis option.inject prod.inject set_rev strings_Cut_append)+
  with ts id show "ts = ts' \<and> u_ID u = u_ID u' \<and> purpose = purpose' \<and>
      u_SecurityStamp u = u_SecurityStamp u'" by simp
qed (simp add: token_payload_def)

end
