(* ===== verification/User_Manager.thy ===== *)
theory User_Manager
  imports Memstore_Correct Hasher Token_Provider
begin

text \<open>
  \<open>UserManagerOf\<close>: the business layer for users. This theory holds the manager's record and the
  operations of \<open>identity/user_manager.go\<close>, the confirmation and reset flows of
  \<open>identity/token_provider.go\<close>, the guest accounts of \<open>identity/guest.go\<close>, the mails of
  \<open>identity/email.go\<close> and the login associations of \<open>identity/external_login.go\<close>.

  The code mutates the caller's \<open>*User\<close>; an operation here takes the user and returns it as the
  code leaves it, on success and on every error. Operations that read the clock take the instant
  as the argument \<open>now\<close>; an operation that reads it twice sees one instant.
\<close>

record 's two_factor_provider =
  tp_CanGenerate :: "user \<Rightarrow> 's world \<Rightarrow> bool"
  tp_Generate :: "time \<Rightarrow> user \<Rightarrow> 's world \<Rightarrow> (go_error + string) \<times> 's world"
  tp_Validate :: "time \<Rightarrow> user \<Rightarrow> string \<Rightarrow> 's world \<Rightarrow> (go_error + bool) \<times> 's world"

record 's user_manager =
  um_Store :: "'s user_store"
  um_Hasher :: password_hasher
  um_Options :: options
  um_Normalize :: "string \<Rightarrow> string"
  um_Tokens :: "data_token_provider option"
  um_SMS :: "(string \<Rightarrow> string \<Rightarrow> go_error option) option"
  um_Email :: "(string \<Rightarrow> string \<Rightarrow> string \<Rightarrow> go_error option) option"
  um_tokenProviders :: "(string, 's two_factor_provider) gomap"

definition NewUserManager :: "extern \<Rightarrow> 's user_store \<Rightarrow> options \<Rightarrow> 's user_manager" where
  "NewUserManager x store opts = \<lparr>um_Store = store, um_Hasher = NewPasswordHasher x,
     um_Options = opts, um_Normalize = upperNormalizer_Normalize x, um_Tokens = None,
     um_SMS = None, um_Email = None, um_tokenProviders = []\<rparr>"

definition UserManager_WithHasher :: "password_hasher \<Rightarrow> 's user_manager \<Rightarrow> 's user_manager" where
  "UserManager_WithHasher h m = m\<lparr>um_Hasher := h\<rparr>"

definition UserManager_WithNormalizer :: "(string \<Rightarrow> string) \<Rightarrow> 's user_manager \<Rightarrow> 's user_manager" where
  "UserManager_WithNormalizer n m = m\<lparr>um_Normalize := n\<rparr>"

definition UserManager_WithTokenProvider :: "data_token_provider \<Rightarrow> 's user_manager \<Rightarrow> 's user_manager" where
  "UserManager_WithTokenProvider p m = m\<lparr>um_Tokens := Some p\<rparr>"

section \<open>Validation\<close>

definition UserManager_ValidateUserName :: "'s user_manager \<Rightarrow> string \<Rightarrow> go_error option" where
  "UserManager_ValidateUserName m name =
     (if strings_TrimSpace name = [] then Some ErrInvalidUserName
      else
        let allowed = AllowedUserNameCharacters (o_User (um_Options m))
        in if allowed = [] then None
           else if list_ex (\<lambda>r. \<not> strings_ContainsRune allowed r) (runes name)
           then Some ErrInvalidUserName
           else None)"

text \<open>The flags the loop of \<open>ValidatePassword\<close> collects: its \<open>switch\<close> takes the first case
  that holds, so one rune sets at most one flag.\<close>

record pw_flags =
  hasDigit :: bool
  hasUpper :: bool
  hasLower :: bool
  hasNonAlpha :: bool

definition pw_scan :: "extern \<Rightarrow> nat \<Rightarrow> pw_flags \<Rightarrow> pw_flags" where
  "pw_scan x r f =
     (if unicode_IsDigit x r then f\<lparr>hasDigit := True\<rparr>
      else if unicode_IsUpper x r then f\<lparr>hasUpper := True\<rparr>
      else if unicode_IsLower x r then f\<lparr>hasLower := True\<rparr>
      else if \<not> unicode_IsLetter x r \<and> \<not> unicode_IsDigit x r then f\<lparr>hasNonAlpha := True\<rparr>
      else f)"

definition UserManager_ValidatePassword :: "extern \<Rightarrow> 's user_manager \<Rightarrow> string \<Rightarrow> go_error option" where
  "UserManager_ValidatePassword x m pw =
     (let o' = o_Password (um_Options m)
      in if int (length (runes pw)) < RequiredLength o' then Some ErrPasswordTooShort
         else
           let f = fold (pw_scan x) (runes pw)
                 \<lparr>hasDigit = False, hasUpper = False, hasLower = False, hasNonAlpha = False\<rparr>
           in if RequireDigit o' \<and> \<not> hasDigit f then Some ErrPasswordRequiresDigit
              else if RequireUppercase o' \<and> \<not> hasUpper f then Some ErrPasswordRequiresUpper
              else if RequireLowercase o' \<and> \<not> hasLower f then Some ErrPasswordRequiresLower
              else if RequireNonAlphanumeric o' \<and> \<not> hasNonAlpha f then Some ErrPasswordRequiresNonAlpha
              else if RequiredUniqueChars o' > 1 \<and>
                      int (card (set (runes pw))) < RequiredUniqueChars o'
              then Some ErrPasswordRequiresUnique
              else None)"

section \<open>Creation\<close>

text \<open>The two forms of the conflict test after a lookup: any row is a conflict, or only a row
  of another user; an error other than \<open>ErrNotFound\<close> is handed on.\<close>

definition taken :: "go_error \<Rightarrow> go_error + user \<Rightarrow> go_error option" where
  "taken dup r =
     (case r of Inr _ \<Rightarrow> Some dup | Inl e \<Rightarrow> if e = ErrNotFound then None else Some e)"

definition taken_by_other :: "go_error \<Rightarrow> string \<Rightarrow> go_error + user \<Rightarrow> go_error option" where
  "taken_by_other dup i r =
     (case r of Inr existing \<Rightarrow> if u_ID existing \<noteq> i then Some dup else None
      | Inl e \<Rightarrow> if e = ErrNotFound then None else Some e)"

definition UserManager_prepareForCreate ::
  "extern \<Rightarrow> 's user_manager \<Rightarrow> user \<Rightarrow> 's world \<Rightarrow> go_error option \<times> user \<times> 's world" where
  "UserManager_prepareForCreate x m u w =
     (case UserManager_ValidateUserName m (u_UserName u) of
        Some e \<Rightarrow> (Some e, u, w)
      | None \<Rightarrow>
          let (u, w) = (if u_ID u = []
                        then (let (i, w) = draw (uuid_NewString x) w in (u\<lparr>u_ID := i\<rparr>, w))
                        else (u, w));
              u = u\<lparr>u_NormalizedUserName := um_Normalize m (u_UserName u)\<rparr>;
              u = u\<lparr>u_NormalizedEmail := um_Normalize m (u_Email u)\<rparr>;
              (st, w) = draw (newStamp x) w;
              u = u\<lparr>u_SecurityStamp := st\<rparr>;
              (cs, w) = draw (uuid_NewString x) w;
              u = u\<lparr>u_ConcurrencyStamp := cs\<rparr>;
              u = u\<lparr>u_LockoutEnabled := AllowedForNewUsers (o_Lockout (um_Options m))\<rparr>
          in (case taken ErrDuplicateUserName (us_FindByName (um_Store m) (u_NormalizedUserName u) w) of
                Some e \<Rightarrow> (Some e, u, w)
              | None \<Rightarrow>
                  if RequireUniqueEmail (o_User (um_Options m)) \<and> u_Email u \<noteq> []
                  then (taken ErrDuplicateEmail (us_FindByEmail (um_Store m) (u_NormalizedEmail u) w), u, w)
                  else (None, u, w)))"

definition UserManager_Create ::
  "extern \<Rightarrow> 's user_manager \<Rightarrow> user \<Rightarrow> 's world \<Rightarrow> go_error option \<times> user \<times> 's world" where
  "UserManager_Create x m u w =
     (case UserManager_prepareForCreate x m u w of
        (Some e, u, w) \<Rightarrow> (Some e, u, w)
      | (None, u, w) \<Rightarrow> us_Create (um_Store m) u w)"

definition UserManager_CreateWithPassword ::
  "extern \<Rightarrow> 's user_manager \<Rightarrow> user \<Rightarrow> string \<Rightarrow> 's world \<Rightarrow> go_error option \<times> user \<times> 's world" where
  "UserManager_CreateWithPassword x m u password w =
     (case UserManager_ValidatePassword x m password of
        Some e \<Rightarrow> (Some e, u, w)
      | None \<Rightarrow>
          (case UserManager_prepareForCreate x m u w of
             (Some e, u, w) \<Rightarrow> (Some e, u, w)
           | (None, u, w) \<Rightarrow>
               let (h, w) = draw (ph_Hash (um_Hasher m) u password) w;
                   u = u\<lparr>u_PasswordHash := h\<rparr>
               in us_Create (um_Store m) u w))"

section \<open>Passwords\<close>

text \<open>A failed write of the upgraded hash is only logged.\<close>

definition UserManager_CheckPassword ::
  "'s user_manager \<Rightarrow> user \<Rightarrow> string \<Rightarrow> 's world \<Rightarrow> bool \<times> user \<times> 's world" where
  "UserManager_CheckPassword m u password w =
     (if u_PasswordHash u = [] then (False, u, w)
      else
        (case ph_Verify (um_Hasher m) u (u_PasswordHash u) password of
           (False, _) \<Rightarrow> (False, u, w)
         | (True, False) \<Rightarrow> (True, u, w)
         | (True, True) \<Rightarrow>
             let (h, w) = draw (ph_Hash (um_Hasher m) u password) w;
                 u = u\<lparr>u_PasswordHash := h\<rparr>;
                 (_, u, w) = us_Update (um_Store m) u w
             in (True, u, w)))"

text \<open>\<open>b.PasswordHash = Hash(...); b.SecurityStamp = newStamp()\<close>, shared by the operations
  that set a password.\<close>

definition set_password_hash ::
  "extern \<Rightarrow> 's user_manager \<Rightarrow> string \<Rightarrow> user \<Rightarrow> 's world \<Rightarrow> user \<times> 's world" where
  "set_password_hash x m password u w =
     (let (h, w) = draw (ph_Hash (um_Hasher m) u password) w;
          (st, w) = draw (newStamp x) w
      in (u\<lparr>u_PasswordHash := h, u_SecurityStamp := st\<rparr>, w))"

definition rotate_stamp :: "extern \<Rightarrow> user \<Rightarrow> 's world \<Rightarrow> user \<times> 's world" where
  "rotate_stamp x u w = (let (st, w) = draw (newStamp x) w in (u\<lparr>u_SecurityStamp := st\<rparr>, w))"

definition UserManager_ChangePassword ::
  "extern \<Rightarrow> 's user_manager \<Rightarrow> user \<Rightarrow> string \<Rightarrow> string \<Rightarrow> 's world \<Rightarrow> go_error option \<times> user \<times> 's world" where
  "UserManager_ChangePassword x m u current newPassword w =
     (case UserManager_CheckPassword m u current w of
        (False, u, w) \<Rightarrow> (Some ErrPasswordMismatch, u, w)
      | (True, u, w) \<Rightarrow>
          (case UserManager_ValidatePassword x m newPassword of
             Some e \<Rightarrow> (Some e, u, w)
           | None \<Rightarrow>
               let (u, w) = set_password_hash x m newPassword u w
               in us_Update (um_Store m) u w))"

definition UserManager_HasPassword :: "user \<Rightarrow> bool" where
  "UserManager_HasPassword u \<longleftrightarrow> u_PasswordHash u \<noteq> []"

definition UserManager_AddPassword ::
  "extern \<Rightarrow> 's user_manager \<Rightarrow> user \<Rightarrow> string \<Rightarrow> 's world \<Rightarrow> go_error option \<times> user \<times> 's world" where
  "UserManager_AddPassword x m u password w =
     (if UserManager_HasPassword u then (Some ErrPasswordAlreadySet, u, w)
      else
        (case UserManager_ValidatePassword x m password of
           Some e \<Rightarrow> (Some e, u, w)
         | None \<Rightarrow>
             let (u, w) = set_password_hash x m password u w
             in us_Update (um_Store m) u w))"

definition UserManager_RemovePassword ::
  "extern \<Rightarrow> 's user_manager \<Rightarrow> user \<Rightarrow> 's world \<Rightarrow> go_error option \<times> user \<times> 's world" where
  "UserManager_RemovePassword x m u w =
     (let u = u\<lparr>u_PasswordHash := []\<rparr>;
          (u, w) = rotate_stamp x u w
      in us_Update (um_Store m) u w)"

section \<open>User name, email, stamp\<close>

definition UserManager_SetUserName ::
  "extern \<Rightarrow> 's user_manager \<Rightarrow> user \<Rightarrow> string \<Rightarrow> 's world \<Rightarrow> go_error option \<times> user \<times> 's world" where
  "UserManager_SetUserName x m u userName w =
     (case UserManager_ValidateUserName m userName of
        Some e \<Rightarrow> (Some e, u, w)
      | None \<Rightarrow>
          let normalized = um_Normalize m userName
          in (case taken_by_other ErrDuplicateUserName (u_ID u) (us_FindByName (um_Store m) normalized w) of
                Some e \<Rightarrow> (Some e, u, w)
              | None \<Rightarrow>
                  let u = u\<lparr>u_UserName := userName, u_NormalizedUserName := normalized\<rparr>;
                      (u, w) = rotate_stamp x u w
                  in us_Update (um_Store m) u w))"

text \<open>The uniqueness test of \<open>SetEmail\<close>, \<open>ChangeEmail\<close> and \<open>ConvertToRegistered\<close>.\<close>

definition email_taken :: "'s user_manager \<Rightarrow> string \<Rightarrow> string \<Rightarrow> 's world \<Rightarrow> go_error option" where
  "email_taken m i normalized w =
     (if RequireUniqueEmail (o_User (um_Options m)) \<and> normalized \<noteq> []
      then taken_by_other ErrDuplicateEmail i (us_FindByEmail (um_Store m) normalized w)
      else None)"

definition UserManager_SetEmail ::
  "extern \<Rightarrow> 's user_manager \<Rightarrow> user \<Rightarrow> string \<Rightarrow> 's world \<Rightarrow> go_error option \<times> user \<times> 's world" where
  "UserManager_SetEmail x m u email w =
     (let normalized = um_Normalize m email
      in (case email_taken m (u_ID u) normalized w of
            Some e \<Rightarrow> (Some e, u, w)
          | None \<Rightarrow>
              let u = u\<lparr>u_Email := email, u_NormalizedEmail := normalized, u_EmailConfirmed := False\<rparr>;
                  (u, w) = rotate_stamp x u w
              in us_Update (um_Store m) u w))"

definition UserManager_GetSecurityStamp :: "user \<Rightarrow> string" where
  "UserManager_GetSecurityStamp u = u_SecurityStamp u"

definition UserManager_UpdateSecurityStamp ::
  "extern \<Rightarrow> 's user_manager \<Rightarrow> user \<Rightarrow> 's world \<Rightarrow> go_error option \<times> user \<times> 's world" where
  "UserManager_UpdateSecurityStamp x m u w =
     (let (u, w) = rotate_stamp x u w in us_Update (um_Store m) u w)"

section \<open>Lookups, deletion, roles and claims\<close>

definition UserManager_Delete :: "'s user_manager \<Rightarrow> user \<Rightarrow> 's world \<Rightarrow> go_error option \<times> 's world" where
  "UserManager_Delete m = us_Delete (um_Store m)"

definition UserManager_FindByID :: "'s user_manager \<Rightarrow> string \<Rightarrow> 's world \<Rightarrow> go_error + user" where
  "UserManager_FindByID m = us_FindByID (um_Store m)"

definition UserManager_FindByName :: "'s user_manager \<Rightarrow> string \<Rightarrow> 's world \<Rightarrow> go_error + user" where
  "UserManager_FindByName m userName = us_FindByName (um_Store m) (um_Normalize m userName)"

definition UserManager_FindByEmail :: "'s user_manager \<Rightarrow> string \<Rightarrow> 's world \<Rightarrow> go_error + user" where
  "UserManager_FindByEmail m email = us_FindByEmail (um_Store m) (um_Normalize m email)"

definition UserManager_ListUsers ::
  "'s user_manager \<Rightarrow> list_filter \<Rightarrow> 's world \<Rightarrow> go_error + user list \<times> int" where
  "UserManager_ListUsers m f w =
     (case us_ListUsers (um_Store m) of
        None \<Rightarrow> Inl ErrListNotSupported
      | Some lister \<Rightarrow> lister (ListFilter_Clamp f) w)"

definition UserManager_AddToRole ::
  "'s user_manager \<Rightarrow> user \<Rightarrow> string \<Rightarrow> 's world \<Rightarrow> go_error option \<times> 's world" where
  "UserManager_AddToRole m u role' = us_AddToRole (um_Store m) u (um_Normalize m role')"

definition UserManager_RemoveFromRole ::
  "'s user_manager \<Rightarrow> user \<Rightarrow> string \<Rightarrow> 's world \<Rightarrow> go_error option \<times> 's world" where
  "UserManager_RemoveFromRole m u role' = us_RemoveFromRole (um_Store m) u (um_Normalize m role')"

definition UserManager_GetRoles :: "'s user_manager \<Rightarrow> user \<Rightarrow> 's world \<Rightarrow> go_error + string list" where
  "UserManager_GetRoles m = us_GetRoles (um_Store m)"

definition UserManager_IsInRole :: "'s user_manager \<Rightarrow> user \<Rightarrow> string \<Rightarrow> 's world \<Rightarrow> go_error + bool" where
  "UserManager_IsInRole m u role' = us_IsInRole (um_Store m) u (um_Normalize m role')"

definition UserManager_GetUsersInRole :: "'s user_manager \<Rightarrow> string \<Rightarrow> 's world \<Rightarrow> go_error + user list" where
  "UserManager_GetUsersInRole m role' = us_GetUsersInRole (um_Store m) (um_Normalize m role')"

definition UserManager_GetClaims :: "'s user_manager \<Rightarrow> user \<Rightarrow> 's world \<Rightarrow> go_error + claim list" where
  "UserManager_GetClaims m = us_GetClaims (um_Store m)"

definition UserManager_AddClaims ::
  "'s user_manager \<Rightarrow> user \<Rightarrow> claim list \<Rightarrow> 's world \<Rightarrow> go_error option \<times> 's world" where
  "UserManager_AddClaims m = us_AddClaims (um_Store m)"

definition UserManager_RemoveClaims ::
  "'s user_manager \<Rightarrow> user \<Rightarrow> claim list \<Rightarrow> 's world \<Rightarrow> go_error option \<times> 's world" where
  "UserManager_RemoveClaims m = us_RemoveClaims (um_Store m)"

definition UserManager_GetUsersForClaim ::
  "'s user_manager \<Rightarrow> string \<Rightarrow> string \<Rightarrow> 's world \<Rightarrow> go_error + user list" where
  "UserManager_GetUsersForClaim m = us_GetUsersForClaim (um_Store m)"

definition UserManager_ReplaceClaim ::
  "'s user_manager \<Rightarrow> user \<Rightarrow> claim \<Rightarrow> claim \<Rightarrow> 's world \<Rightarrow> go_error option \<times> 's world" where
  "UserManager_ReplaceClaim m u old replacement w =
     (case us_RemoveClaims (um_Store m) u [old] w of
        (Some e, w) \<Rightarrow> (Some e, w)
      | (None, w) \<Rightarrow> us_AddClaims (um_Store m) u [replacement] w)"

section \<open>Lockout\<close>

definition UserManager_IsLockedOut :: "time \<Rightarrow> user \<Rightarrow> bool" where
  "UserManager_IsLockedOut now u =
     (if \<not> u_LockoutEnabled u then False
      else (case u_LockoutEnd u of None \<Rightarrow> False | Some e \<Rightarrow> e > now))"

definition UserManager_AccessFailed ::
  "'s user_manager \<Rightarrow> time \<Rightarrow> user \<Rightarrow> 's world \<Rightarrow> go_error option \<times> user \<times> 's world" where
  "UserManager_AccessFailed m now u w =
     (let lo = o_Lockout (um_Options m);
          u = u\<lparr>u_AccessFailedCount := wrap64 (u_AccessFailedCount u + 1)\<rparr>;
          u = (if u_AccessFailedCount u \<ge> MaxFailedAccessAttempts lo
               then u\<lparr>u_LockoutEnd := Some (now + DefaultLockoutDuration lo), u_AccessFailedCount := 0\<rparr>
               else u)
      in us_Update (um_Store m) u w)"

definition UserManager_ResetAccessFailedCount ::
  "'s user_manager \<Rightarrow> user \<Rightarrow> 's world \<Rightarrow> go_error option \<times> user \<times> 's world" where
  "UserManager_ResetAccessFailedCount m u w =
     (if u_AccessFailedCount u = 0 then (None, u, w)
      else us_Update (um_Store m) (u\<lparr>u_AccessFailedCount := 0\<rparr>) w)"

section \<open>Confirmation and reset flows\<close>

text \<open>The \<open>Generate*\<close> helpers dereference \<open>m.Tokens\<close>; without a provider they panic, which
  is \<open>None\<close> here.\<close>

definition UserManager_GenerateTwoFactorRememberToken ::
  "extern \<Rightarrow> 's user_manager \<Rightarrow> time \<Rightarrow> user \<Rightarrow> string option" where
  "UserManager_GenerateTwoFactorRememberToken x m now u =
     map_option (\<lambda>p. DataTokenProvider_Generate x p now purposeTwoFactorRemember u) (um_Tokens m)"

definition UserManager_VerifyTwoFactorRememberToken ::
  "extern \<Rightarrow> 's user_manager \<Rightarrow> time \<Rightarrow> user \<Rightarrow> string \<Rightarrow> bool" where
  "UserManager_VerifyTwoFactorRememberToken x m now u token =
     (case um_Tokens m of
        None \<Rightarrow> False
      | Some p \<Rightarrow> token \<noteq> [] \<and>
          DataTokenProvider_ValidateWithLifespan x p now purposeTwoFactorRemember token u TwoFactorRememberTTL)"

definition UserManager_GenerateEmailConfirmationToken ::
  "extern \<Rightarrow> 's user_manager \<Rightarrow> time \<Rightarrow> user \<Rightarrow> string option" where
  "UserManager_GenerateEmailConfirmationToken x m now u =
     map_option (\<lambda>p. DataTokenProvider_Generate x p now purposeEmailConfirmation u) (um_Tokens m)"

definition token_valid :: "extern \<Rightarrow> 's user_manager \<Rightarrow> time \<Rightarrow> string \<Rightarrow> string \<Rightarrow> user \<Rightarrow> bool" where
  "token_valid x m now purpose token u =
     (case um_Tokens m of None \<Rightarrow> False | Some p \<Rightarrow> DataTokenProvider_Validate x p now purpose token u)"

definition UserManager_ConfirmEmail ::
  "extern \<Rightarrow> 's user_manager \<Rightarrow> time \<Rightarrow> user \<Rightarrow> string \<Rightarrow> 's world \<Rightarrow> go_error option \<times> user \<times> 's world" where
  "UserManager_ConfirmEmail x m now u token w =
     (if \<not> token_valid x m now purposeEmailConfirmation token u then (Some ErrInvalidToken, u, w)
      else us_Update (um_Store m) (u\<lparr>u_EmailConfirmed := True\<rparr>) w)"

definition UserManager_GeneratePasswordResetToken ::
  "extern \<Rightarrow> 's user_manager \<Rightarrow> time \<Rightarrow> user \<Rightarrow> string option" where
  "UserManager_GeneratePasswordResetToken x m now u =
     map_option (\<lambda>p. DataTokenProvider_Generate x p now purposePasswordReset u) (um_Tokens m)"

definition UserManager_ResetPassword ::
  "extern \<Rightarrow> 's user_manager \<Rightarrow> time \<Rightarrow> user \<Rightarrow> string \<Rightarrow> string \<Rightarrow> 's world
     \<Rightarrow> go_error option \<times> user \<times> 's world" where
  "UserManager_ResetPassword x m now u token newPassword w =
     (if \<not> token_valid x m now purposePasswordReset token u then (Some ErrInvalidToken, u, w)
      else
        (case UserManager_ValidatePassword x m newPassword of
           Some e \<Rightarrow> (Some e, u, w)
         | None \<Rightarrow>
             let (u, w) = set_password_hash x m newPassword u w
             in us_Update (um_Store m) u w))"

definition change_email_purpose :: "extern \<Rightarrow> string \<Rightarrow> string" where
  "change_email_purpose x newEmail = purposeChangeEmail @ '':'' @ strings_ToUpper x newEmail"

definition UserManager_GenerateChangeEmailToken ::
  "extern \<Rightarrow> 's user_manager \<Rightarrow> time \<Rightarrow> user \<Rightarrow> string \<Rightarrow> string option" where
  "UserManager_GenerateChangeEmailToken x m now u newEmail =
     map_option (\<lambda>p. DataTokenProvider_Generate x p now (change_email_purpose x newEmail) u) (um_Tokens m)"

definition UserManager_ChangeEmail ::
  "extern \<Rightarrow> 's user_manager \<Rightarrow> time \<Rightarrow> user \<Rightarrow> string \<Rightarrow> string \<Rightarrow> 's world
     \<Rightarrow> go_error option \<times> user \<times> 's world" where
  "UserManager_ChangeEmail x m now u newEmail token w =
     (if \<not> token_valid x m now (change_email_purpose x newEmail) token u
      then (Some ErrInvalidToken, u, w)
      else
        let normalized = um_Normalize m newEmail
        in (case email_taken m (u_ID u) normalized w of
              Some e \<Rightarrow> (Some e, u, w)
            | None \<Rightarrow>
                let u = u\<lparr>u_Email := newEmail, u_NormalizedEmail := normalized, u_EmailConfirmed := True\<rparr>;
                    (u, w) = rotate_stamp x u w
                in us_Update (um_Store m) u w))"

section \<open>Mail\<close>

text \<open>Sending is outside the program: the sender decides the error, and the message handed to
  it is returned beside the result.\<close>

definition UserManager_sendTokenEmail ::
  "'s user_manager \<Rightarrow> user \<Rightarrow> string \<Rightarrow> (string \<Rightarrow> string) \<Rightarrow> (user \<Rightarrow> string option)
     \<Rightarrow> go_error option \<times> (string \<times> string \<times> string) option" where
  "UserManager_sendTokenEmail m u subject body gen =
     (case um_Email m of
        None \<Rightarrow> (Some (IdentityErr ''NoEmailSender''), None)
      | Some send \<Rightarrow>
          if um_Tokens m = None then (Some (IdentityErr ''NoTokenProvider''), None)
          else if u_Email u = [] then (Some (IdentityErr ''NoEmail''), None)
          else
            let msg = body (the (gen u))
            in (send (u_Email u) subject msg, Some (u_Email u, subject, msg)))"

definition UserManager_SendEmailConfirmation ::
  "extern \<Rightarrow> 's user_manager \<Rightarrow> time \<Rightarrow> user \<Rightarrow> string \<Rightarrow> (string \<Rightarrow> string)
     \<Rightarrow> go_error option \<times> (string \<times> string \<times> string) option" where
  "UserManager_SendEmailConfirmation x m now u subject body =
     UserManager_sendTokenEmail m u subject body (UserManager_GenerateEmailConfirmationToken x m now)"

definition UserManager_SendPasswordReset ::
  "extern \<Rightarrow> 's user_manager \<Rightarrow> time \<Rightarrow> user \<Rightarrow> string \<Rightarrow> (string \<Rightarrow> string)
     \<Rightarrow> go_error option \<times> (string \<times> string \<times> string) option" where
  "UserManager_SendPasswordReset x m now u subject body =
     UserManager_sendTokenEmail m u subject body (UserManager_GeneratePasswordResetToken x m now)"

section \<open>Guests\<close>

definition randomHex :: "extern \<Rightarrow> nat \<Rightarrow> nat \<Rightarrow> string \<times> nat" where
  "randomHex x n t = (let (b, t) = rand_Read x n t in (hex_Encode b, t))"

definition UserManager_CreateAnonymous ::
  "extern \<Rightarrow> 's user_manager \<Rightarrow> time \<Rightarrow> 's world \<Rightarrow> (go_error + user) \<times> 's world" where
  "UserManager_CreateAnonymous x m now w =
     (let u = zero_user;
          (i, w) = draw (uuid_NewString x) w;
          u = u\<lparr>u_ID := i\<rparr>;
          (hx, w) = draw (randomHex x 16) w;
          u = u\<lparr>u_UserName := ''guest_'' @ hx\<rparr>;
          u = u\<lparr>u_NormalizedUserName := um_Normalize m (u_UserName u)\<rparr>;
          u = u\<lparr>u_IsAnonymous := True\<rparr>;
          (u, w) = rotate_stamp x u w;
          (cs, w) = draw (uuid_NewString x) w;
          u = u\<lparr>u_ConcurrencyStamp := cs\<rparr>;
          u = u\<lparr>u_LockoutEnabled := AllowedForNewUsers (o_Lockout (um_Options m))\<rparr>;
          u = (if u_CreatedAt u = zero_time then u\<lparr>u_CreatedAt := now\<rparr> else u)
      in (case us_Create (um_Store m) u w of
            (Some e, u, w) \<Rightarrow> (Inl e, w)
          | (None, u, w) \<Rightarrow> (Inr u, w)))"

definition UserManager_IsAnonymous :: "user \<Rightarrow> bool" where
  "UserManager_IsAnonymous u = u_IsAnonymous u"

definition UserManager_ConvertToRegistered ::
  "extern \<Rightarrow> 's user_manager \<Rightarrow> user \<Rightarrow> string \<Rightarrow> string \<Rightarrow> string \<Rightarrow> 's world
     \<Rightarrow> go_error option \<times> user \<times> 's world" where
  "UserManager_ConvertToRegistered x m u userName email password w =
     (if \<not> u_IsAnonymous u then (Some ErrNotAnonymous, u, w)
      else
        (case UserManager_ValidateUserName m userName of
           Some e \<Rightarrow> (Some e, u, w)
         | None \<Rightarrow>
        (case UserManager_ValidatePassword x m password of
           Some e \<Rightarrow> (Some e, u, w)
         | None \<Rightarrow>
        let normUser = um_Normalize m userName
        in (case taken_by_other ErrDuplicateUserName (u_ID u) (us_FindByName (um_Store m) normUser w) of
              Some e \<Rightarrow> (Some e, u, w)
            | None \<Rightarrow>
        let normEmail = um_Normalize m email
        in (case email_taken m (u_ID u) normEmail w of
              Some e \<Rightarrow> (Some e, u, w)
            | None \<Rightarrow>
        let u = u\<lparr>u_UserName := userName, u_NormalizedUserName := normUser,
                  u_Email := email, u_NormalizedEmail := normEmail\<rparr>;
            (h, w) = draw (ph_Hash (um_Hasher m) u password) w;
            u = u\<lparr>u_PasswordHash := h, u_IsAnonymous := False\<rparr>;
            (u, w) = rotate_stamp x u w
        in us_Update (um_Store m) u w)))))"

definition UserManager_PurgeAnonymousUsers ::
  "'s user_manager \<Rightarrow> time \<Rightarrow> 's world \<Rightarrow> (go_error + int) \<times> 's world" where
  "UserManager_PurgeAnonymousUsers m olderThan w =
     (case us_PurgeAnonymousUsers (um_Store m) of
        None \<Rightarrow> (Inl ErrPurgeNotSupported, w)
      | Some purge \<Rightarrow> purge olderThan w)"

section \<open>External logins\<close>

definition UserManager_AddLogin ::
  "'s user_manager \<Rightarrow> user \<Rightarrow> login_info \<Rightarrow> 's world \<Rightarrow> go_error option \<times> 's world" where
  "UserManager_AddLogin m = us_AddLogin (um_Store m)"

definition UserManager_RemoveLogin ::
  "'s user_manager \<Rightarrow> user \<Rightarrow> string \<Rightarrow> string \<Rightarrow> 's world \<Rightarrow> go_error option \<times> 's world" where
  "UserManager_RemoveLogin m = us_RemoveLogin (um_Store m)"

definition UserManager_GetLogins :: "'s user_manager \<Rightarrow> user \<Rightarrow> 's world \<Rightarrow> go_error + login_info list" where
  "UserManager_GetLogins m = us_GetLogins (um_Store m)"

definition UserManager_FindByLogin :: "'s user_manager \<Rightarrow> string \<Rightarrow> string \<Rightarrow> 's world \<Rightarrow> go_error + user" where
  "UserManager_FindByLogin m = us_FindByLogin (um_Store m)"

end
