(* ===== verification/Two_Factor.thy ===== *)
theory Two_Factor
  imports User_Manager
begin

unbundle bit_operations_syntax

text \<open>
  The second factor: RFC 6238 codes (\<open>identity/totp.go\<close>), SMS codes (\<open>identity/phone.go\<close>),
  authenticator keys and recovery codes (\<open>identity/twofactor.go\<close>) and the named providers
  (\<open>identity/twofactor_providers.go\<close>).
\<close>

section \<open>TOTP\<close>

record totp =
  Digits :: nat
  Period :: duration
  Skew :: nat

definition DefaultTOTP :: totp where
  "DefaultTOTP = \<lparr>Digits = 6, Period = 30 * second, Skew = 1\<rparr>"

definition TOTP_digits :: "totp \<Rightarrow> nat" where
  "TOTP_digits t = (if Digits t = 0 then 6 else Digits t)"

definition TOTP_period :: "totp \<Rightarrow> duration" where
  "TOTP_period t = (if Period t = 0 then 30 * second else Period t)"

text \<open>\<open>uint64(t.period().Seconds())\<close>: the whole seconds of the period.\<close>

definition TOTP_step :: "totp \<Rightarrow> 64 word" where
  "TOTP_step t = of_int (TOTP_period t div second)"

definition GenerateSecret :: "extern \<Rightarrow> nat \<Rightarrow> string \<times> nat" where
  "GenerateSecret x t = (let (b, t) = rand_Read x 20 t in (base32_Encode b, t))"

text \<open>\<open>fmt.Sprintf("%0*d", digits, v)\<close>: decimal, padded with zeros to at least \<open>digits\<close>.\<close>

definition pad_zero :: "nat \<Rightarrow> string \<Rightarrow> string" where
  "pad_zero n s = replicate (n - length s) (CHR ''0'') @ s"

fun pow10_32 :: "nat \<Rightarrow> 32 word" where
  "pow10_32 0 = 1"
| "pow10_32 (Suc n) = pow10_32 n * 10"

definition byte32 :: "char \<Rightarrow> 32 word" where "byte32 c = of_nat (of_char c)"

definition hotp_value :: "bytes \<Rightarrow> 32 word" where
  "hotp_value mac =
     (let off = unat (byte32 (mac ! (length mac - 1)) AND 0x0f)
      in push_bit 24 (byte32 (mac ! off) AND 0x7f) OR
         push_bit 16 (byte32 (mac ! (off + 1))) OR
         push_bit 8 (byte32 (mac ! (off + 2))) OR
         byte32 (mac ! (off + 3)))"

text \<open>\<open>mod\<close> is a \<open>uint32\<close> product that wraps; at 32 digits it is zero and the remainder
  panics, which is \<open>None\<close>.\<close>

definition hotp :: "extern \<Rightarrow> bytes \<Rightarrow> 64 word \<Rightarrow> nat \<Rightarrow> string option" where
  "hotp x key counter digits =
     (let mac = x_hmac_sha1 x key (put_u64 counter);
          value' = hotp_value mac;
          m = pow10_32 digits
      in if m = 0 then None
         else Some (pad_zero digits (nat_dec (unat (value' mod m)))))"

definition unix_u64 :: "time \<Rightarrow> 64 word" where "unix_u64 t = of_int (time_Unix t)"

text \<open>A period below one second makes the step zero and the division panic, again \<open>None\<close>.\<close>

definition TOTP_Code :: "extern \<Rightarrow> totp \<Rightarrow> string \<Rightarrow> time \<Rightarrow> (go_error + string) option" where
  "TOTP_Code x t secret at =
     (case base32_Decode (strings_ToUpper x secret) of
        None \<Rightarrow> Some (Inl ErrInvalidToken)
      | Some key \<Rightarrow>
          if TOTP_step t = 0 then None
          else map_option Inr (hotp x key (unix_u64 at div TOTP_step t) (TOTP_digits t)))"

text \<open>The loop \<open>for i := -skew; i <= skew; i++\<close> over the offsets that are left.\<close>

fun totp_window :: "extern \<Rightarrow> bytes \<Rightarrow> 64 word \<Rightarrow> nat \<Rightarrow> string \<Rightarrow> int list \<Rightarrow> bool option" where
  "totp_window x key counter digits code [] = Some False"
| "totp_window x key counter digits code (i # is) =
     (let c = (if i < 0 then counter - of_int (- i) else counter + of_int i)
      in (case hotp x key c digits of
            None \<Rightarrow> None
          | Some h \<Rightarrow> if subtleConstEq h code then Some True
                     else totp_window x key counter digits code is))"

definition TOTP_Validate :: "extern \<Rightarrow> totp \<Rightarrow> string \<Rightarrow> string \<Rightarrow> time \<Rightarrow> bool option" where
  "TOTP_Validate x t secret code now =
     (case base32_Decode (strings_ToUpper x secret) of
        None \<Rightarrow> Some False
      | Some key \<Rightarrow>
          if TOTP_step t = 0 then None
          else
            let counter = unix_u64 now div TOTP_step t;
                skew = (if Skew t = 0 then 1 else Skew t)
            in totp_window x key counter (TOTP_digits t) code [- int skew .. int skew])"

section \<open>SMS codes\<close>

definition internalProvider :: string where "internalProvider = ''[go-idento]''"
definition phoneTokenName :: string where "phoneTokenName = ''PhoneToken''"
definition changePhoneTokenName :: string where "changePhoneTokenName = ''ChangePhoneToken''"
definition authenticatorKeyName :: string where "authenticatorKeyName = ''AuthenticatorKey''"
definition recoveryCodesName :: string where "recoveryCodesName = ''RecoveryCodes''"

definition PhoneTokenTTL :: duration where "PhoneTokenTTL = 5 * minute"
definition PhoneTokenMaxAttempts :: int where "PhoneTokenMaxAttempts = 5"

definition phoneCodeValue :: "string \<Rightarrow> int \<Rightarrow> int \<Rightarrow> string" where
  "phoneCodeValue hash e attempts =
     hash @ '':'' @ strconv_FormatInt e @ '':'' @ strconv_FormatInt attempts"

text \<open>\<open>strconv.Atoi\<close>'s value is kept although its error is dropped; \<open>attempts+1\<close> wraps at
  64 bits.\<close>

definition UserManager_consumePhoneCode ::
  "'s user_manager \<Rightarrow> time \<Rightarrow> user \<Rightarrow> string \<Rightarrow> string \<Rightarrow> 's world \<Rightarrow> (go_error + bool) \<times> 's world" where
  "UserManager_consumePhoneCode m now u name candidateHash w =
     (case us_GetToken (um_Store m) u internalProvider name w of
        Inl e \<Rightarrow> (Inl e, w)
      | Inr stored \<Rightarrow>
          if stored = [] then (Inr False, w)
          else
            let parts = strings_Split stored (CHR '':'')
            in if length parts < 2 then (Inr False, w)
               else
                 let hashPart = parts ! 0
                 in (case strconv_ParseInt (parts ! 1) of
                       Inl _ \<Rightarrow> (Inr False, snd (us_RemoveToken (um_Store m) u internalProvider name w))
                     | Inr e \<Rightarrow>
                         if now > time_of_Unix e
                         then (Inr False, snd (us_RemoveToken (um_Store m) u internalProvider name w))
                         else if subtleConstEq hashPart candidateHash
                         then (Inr True, snd (us_RemoveToken (um_Store m) u internalProvider name w))
                         else
                           let attempts = (if length parts \<ge> 3 then strconv_Atoi_val (parts ! 2) else 0)
                           in if wrap64 (attempts + 1) \<ge> PhoneTokenMaxAttempts
                              then (Inr False, snd (us_RemoveToken (um_Store m) u internalProvider name w))
                              else (Inr False, snd (us_SetToken (um_Store m) u internalProvider name
                                      (phoneCodeValue hashPart e (wrap64 (attempts + 1))) w))))"

fun randomDigits :: "extern \<Rightarrow> nat \<Rightarrow> nat \<Rightarrow> string \<times> nat" where
  "randomDigits x 0 t = ([], t)"
| "randomDigits x (Suc n) t =
     (let d = digit_char (x_randInt x 10 t);
          (s, t) = randomDigits x n (t + 1)
      in (d # s, t))"

definition UserManager_GeneratePhoneToken ::
  "extern \<Rightarrow> 's user_manager \<Rightarrow> time \<Rightarrow> user \<Rightarrow> 's world \<Rightarrow> (go_error + string) \<times> 's world" where
  "UserManager_GeneratePhoneToken x m now u w =
     (let (code, w) = draw (randomDigits x 6) w;
          e = time_Unix (now + PhoneTokenTTL)
      in (case us_SetToken (um_Store m) u internalProvider phoneTokenName
                 (phoneCodeValue (hashRefresh x code) e 0) w of
            (Some err, w) \<Rightarrow> (Inl err, w)
          | (None, w) \<Rightarrow> (Inr code, w)))"

definition sms_text :: "string \<Rightarrow> string" where
  "sms_text code = ''Your verification code is '' @ code"

definition UserManager_SendPhoneToken ::
  "extern \<Rightarrow> 's user_manager \<Rightarrow> time \<Rightarrow> user \<Rightarrow> 's world
     \<Rightarrow> go_error option \<times> (string \<times> string) option \<times> 's world" where
  "UserManager_SendPhoneToken x m now u w =
     (case um_SMS m of
        None \<Rightarrow> (Some (IdentityErr ''NoSMSSender''), None, w)
      | Some send \<Rightarrow>
          (case UserManager_GeneratePhoneToken x m now u w of
             (Inl e, w) \<Rightarrow> (Some e, None, w)
           | (Inr code, w) \<Rightarrow>
               if u_PhoneNumber u = [] then (Some (IdentityErr ''NoPhoneNumber''), None, w)
               else (send (u_PhoneNumber u) (sms_text code), Some (u_PhoneNumber u, sms_text code), w)))"

definition UserManager_VerifyPhoneToken ::
  "extern \<Rightarrow> 's user_manager \<Rightarrow> time \<Rightarrow> user \<Rightarrow> string \<Rightarrow> 's world \<Rightarrow> (go_error + bool) \<times> 's world" where
  "UserManager_VerifyPhoneToken x m now u code w =
     UserManager_consumePhoneCode m now u phoneTokenName (hashRefresh x (strings_TrimSpace code)) w"

definition UserManager_ConfirmPhoneNumber ::
  "extern \<Rightarrow> 's user_manager \<Rightarrow> time \<Rightarrow> user \<Rightarrow> string \<Rightarrow> 's world \<Rightarrow> go_error option \<times> user \<times> 's world" where
  "UserManager_ConfirmPhoneNumber x m now u code w =
     (case UserManager_VerifyPhoneToken x m now u code w of
        (Inl e, w) \<Rightarrow> (Some e, u, w)
      | (Inr ok, w) \<Rightarrow>
          if \<not> ok then (Some ErrInvalidToken, u, w)
          else us_Update (um_Store m) (u\<lparr>u_PhoneNumberConfirmed := True\<rparr>) w)"

definition UserManager_GetPhoneNumberConfirmed :: "user \<Rightarrow> bool" where
  "UserManager_GetPhoneNumberConfirmed u = u_PhoneNumberConfirmed u"

definition UserManager_SetPhoneNumber ::
  "extern \<Rightarrow> 's user_manager \<Rightarrow> user \<Rightarrow> string \<Rightarrow> 's world \<Rightarrow> go_error option \<times> user \<times> 's world" where
  "UserManager_SetPhoneNumber x m u phone w =
     (let u = u\<lparr>u_PhoneNumber := phone, u_PhoneNumberConfirmed := False\<rparr>;
          (u, w) = rotate_stamp x u w
      in us_Update (um_Store m) u w)"

definition UserManager_GenerateChangePhoneNumberToken ::
  "extern \<Rightarrow> 's user_manager \<Rightarrow> time \<Rightarrow> user \<Rightarrow> string \<Rightarrow> 's world \<Rightarrow> (go_error + string) \<times> 's world" where
  "UserManager_GenerateChangePhoneNumberToken x m now u newPhone w =
     (let (code, w) = draw (randomDigits x 6) w;
          e = time_Unix (now + PhoneTokenTTL);
          v = phoneCodeValue (hashRefresh x (code @ ''|'' @ newPhone)) e 0
      in (case us_SetToken (um_Store m) u internalProvider changePhoneTokenName v w of
            (Some err, w) \<Rightarrow> (Inl err, w)
          | (None, w) \<Rightarrow> (Inr code, w)))"

definition UserManager_SendChangePhoneNumberToken ::
  "extern \<Rightarrow> 's user_manager \<Rightarrow> time \<Rightarrow> user \<Rightarrow> string \<Rightarrow> 's world
     \<Rightarrow> go_error option \<times> (string \<times> string) option \<times> 's world" where
  "UserManager_SendChangePhoneNumberToken x m now u newPhone w =
     (case um_SMS m of
        None \<Rightarrow> (Some (IdentityErr ''NoSMSSender''), None, w)
      | Some send \<Rightarrow>
          if newPhone = [] then (Some (IdentityErr ''NoPhoneNumber''), None, w)
          else
            (case UserManager_GenerateChangePhoneNumberToken x m now u newPhone w of
               (Inl e, w) \<Rightarrow> (Some e, None, w)
             | (Inr code, w) \<Rightarrow>
                 (send newPhone (sms_text code), Some (newPhone, sms_text code), w)))"

definition UserManager_ChangePhoneNumber ::
  "extern \<Rightarrow> 's user_manager \<Rightarrow> time \<Rightarrow> user \<Rightarrow> string \<Rightarrow> string \<Rightarrow> 's world
     \<Rightarrow> go_error option \<times> user \<times> 's world" where
  "UserManager_ChangePhoneNumber x m now u newPhone code w =
     (let want = hashRefresh x (strings_TrimSpace code @ ''|'' @ newPhone)
      in (case UserManager_consumePhoneCode m now u changePhoneTokenName want w of
            (Inl e, w) \<Rightarrow> (Some e, u, w)
          | (Inr ok, w) \<Rightarrow>
              if \<not> ok then (Some ErrInvalidToken, u, w)
              else
                let u = u\<lparr>u_PhoneNumber := newPhone, u_PhoneNumberConfirmed := True\<rparr>;
                    (u, w) = rotate_stamp x u w
                in us_Update (um_Store m) u w))"

section \<open>Authenticator keys and recovery codes\<close>

definition UserManager_GetAuthenticatorKey ::
  "extern \<Rightarrow> 's user_manager \<Rightarrow> user \<Rightarrow> 's world \<Rightarrow> (go_error + string) \<times> 's world" where
  "UserManager_GetAuthenticatorKey x m u w =
     (case us_GetToken (um_Store m) u internalProvider authenticatorKeyName w of
        Inl e \<Rightarrow> (Inl e, w)
      | Inr key \<Rightarrow>
          if key = []
          then
            let (key, w) = draw (GenerateSecret x) w
            in (case us_SetToken (um_Store m) u internalProvider authenticatorKeyName key w of
                  (Some e, w) \<Rightarrow> (Inl e, w)
                | (None, w) \<Rightarrow> (Inr key, w))
          else (Inr key, w))"

definition UserManager_ResetAuthenticatorKey ::
  "extern \<Rightarrow> 's user_manager \<Rightarrow> user \<Rightarrow> 's world \<Rightarrow> (go_error + string) \<times> 's world" where
  "UserManager_ResetAuthenticatorKey x m u w =
     (let (key, w) = draw (GenerateSecret x) w
      in (case us_SetToken (um_Store m) u internalProvider authenticatorKeyName key w of
            (Some e, w) \<Rightarrow> (Inl e, w)
          | (None, w) \<Rightarrow> (Inr key, w)))"

text \<open>\<open>DefaultTOTP()\<close> never panics (see below), so its validation is \<open>Some\<close>.\<close>

definition UserManager_VerifyTwoFactorTOTP ::
  "extern \<Rightarrow> 's user_manager \<Rightarrow> time \<Rightarrow> user \<Rightarrow> string \<Rightarrow> 's world \<Rightarrow> go_error + bool" where
  "UserManager_VerifyTwoFactorTOTP x m now u code w =
     (case us_GetToken (um_Store m) u internalProvider authenticatorKeyName w of
        Inl e \<Rightarrow> Inl e
      | Inr key \<Rightarrow>
          if key = [] then Inr False
          else Inr (TOTP_Validate x DefaultTOTP key (strings_TrimSpace code) now = Some True))"

definition UserManager_SetTwoFactorEnabled ::
  "extern \<Rightarrow> 's user_manager \<Rightarrow> user \<Rightarrow> bool \<Rightarrow> 's world \<Rightarrow> go_error option \<times> user \<times> 's world" where
  "UserManager_SetTwoFactorEnabled x m u enabled w =
     (let u = u\<lparr>u_TwoFactorEnabled := enabled\<rparr>;
          (u, w) = rotate_stamp x u w
      in us_Update (um_Store m) u w)"

definition randomRecoveryCode :: "extern \<Rightarrow> nat \<Rightarrow> string \<times> nat" where
  "randomRecoveryCode x t =
     (let (b, t) = rand_Read x 10 t;
          s = base32_Encode b
      in (strings_ToLower x (take 5 s @ ''-'' @ take 5 (drop 5 s)), t))"

fun recovery_codes :: "extern \<Rightarrow> nat \<Rightarrow> nat \<Rightarrow> string list \<times> nat" where
  "recovery_codes x 0 t = ([], t)"
| "recovery_codes x (Suc n) t =
     (let (c, t) = randomRecoveryCode x t;
          (cs, t) = recovery_codes x n t
      in (c # cs, t))"

definition UserManager_GenerateRecoveryCodes ::
  "extern \<Rightarrow> 's user_manager \<Rightarrow> user \<Rightarrow> nat \<Rightarrow> 's world \<Rightarrow> (go_error + string list) \<times> 's world" where
  "UserManager_GenerateRecoveryCodes x m u n w =
     (let (codes, w) = draw (recovery_codes x n) w;
          hashed = map (hashRefresh x) codes
      in (case us_SetToken (um_Store m) u internalProvider recoveryCodesName (strings_Join hashed '';'') w of
            (Some e, w) \<Rightarrow> (Inl e, w)
          | (None, w) \<Rightarrow> (Inr codes, w)))"

text \<open>The loop of \<open>RedeemRecoveryCode\<close>: drops the first part equal to the target and every
  empty part, and reports whether it found the target.\<close>

fun redeem_scan :: "string \<Rightarrow> bool \<Rightarrow> string list \<Rightarrow> string list \<times> bool" where
  "redeem_scan target found [] = ([], found)"
| "redeem_scan target found (p # ps) =
     (if \<not> found \<and> subtleConstEq p target then redeem_scan target True ps
      else if p \<noteq> []
      then (let (rest, f) = redeem_scan target found ps in (p # rest, f))
      else redeem_scan target found ps)"

definition UserManager_RedeemRecoveryCode ::
  "extern \<Rightarrow> 's user_manager \<Rightarrow> user \<Rightarrow> string \<Rightarrow> 's world \<Rightarrow> (go_error + bool) \<times> 's world" where
  "UserManager_RedeemRecoveryCode x m u code w =
     (case us_GetToken (um_Store m) u internalProvider recoveryCodesName w of
        Inl e \<Rightarrow> (Inl e, w)
      | Inr stored \<Rightarrow>
          if stored = [] then (Inr False, w)
          else
            let target = hashRefresh x (strings_TrimSpace code);
                (remaining, found) = redeem_scan target False (strings_Split stored (CHR '';''))
            in if \<not> found then (Inr False, w)
               else (case us_SetToken (um_Store m) u internalProvider recoveryCodesName
                            (strings_Join remaining '';'') w of
                       (Some e, w) \<Rightarrow> (Inl e, w)
                     | (None, w) \<Rightarrow> (Inr True, w)))"

definition UserManager_CountRecoveryCodes :: "'s user_manager \<Rightarrow> user \<Rightarrow> 's world \<Rightarrow> go_error + int" where
  "UserManager_CountRecoveryCodes m u w =
     (case us_GetToken (um_Store m) u internalProvider recoveryCodesName w of
        Inl e \<Rightarrow> Inl e
      | Inr stored \<Rightarrow>
          if stored = [] then Inr 0 else Inr (int (length (strings_Split stored (CHR '';'')))))"

section \<open>Named providers\<close>

definition TwoFactorProviderAuthenticator :: string where
  "TwoFactorProviderAuthenticator = ''Authenticator''"
definition TwoFactorProviderPhone :: string where "TwoFactorProviderPhone = ''Phone''"

definition authenticatorProvider :: "extern \<Rightarrow> 's user_manager \<Rightarrow> 's two_factor_provider" where
  "authenticatorProvider x m = \<lparr>
     tp_CanGenerate = (\<lambda>u w. case us_GetToken (um_Store m) u internalProvider authenticatorKeyName w of
        Inl _ \<Rightarrow> False | Inr key \<Rightarrow> key \<noteq> []),
     tp_Generate = (\<lambda>now u w. (Inr [], w)),
     tp_Validate = (\<lambda>now u token w. (UserManager_VerifyTwoFactorTOTP x m now u token w, w))\<rparr>"

definition phoneProvider :: "extern \<Rightarrow> 's user_manager \<Rightarrow> 's two_factor_provider" where
  "phoneProvider x m = \<lparr>
     tp_CanGenerate = (\<lambda>u w. u_PhoneNumber u \<noteq> []),
     tp_Generate = UserManager_GeneratePhoneToken x m,
     tp_Validate = UserManager_VerifyPhoneToken x m\<rparr>"

definition UserManager_RegisterTwoFactorProvider ::
  "string \<Rightarrow> 's two_factor_provider \<Rightarrow> 's user_manager \<Rightarrow> 's user_manager" where
  "UserManager_RegisterTwoFactorProvider name p m =
     m\<lparr>um_tokenProviders := AList.update name p (um_tokenProviders m)\<rparr>"

definition UserManager_resolveProvider ::
  "extern \<Rightarrow> 's user_manager \<Rightarrow> string \<Rightarrow> 's two_factor_provider option" where
  "UserManager_resolveProvider x m name =
     (case map_of (um_tokenProviders m) name of
        Some p \<Rightarrow> Some p
      | None \<Rightarrow>
          if name = TwoFactorProviderAuthenticator then Some (authenticatorProvider x m)
          else if name = TwoFactorProviderPhone then Some (phoneProvider x m)
          else None)"

definition UserManager_GenerateUserToken ::
  "extern \<Rightarrow> 's user_manager \<Rightarrow> time \<Rightarrow> user \<Rightarrow> string \<Rightarrow> 's world \<Rightarrow> (go_error + string) \<times> 's world" where
  "UserManager_GenerateUserToken x m now u provider w =
     (case UserManager_resolveProvider x m provider of
        None \<Rightarrow> (Inl (IdentityErr ''UnknownTokenProvider''), w)
      | Some p \<Rightarrow> tp_Generate p now u w)"

definition UserManager_VerifyUserToken ::
  "extern \<Rightarrow> 's user_manager \<Rightarrow> time \<Rightarrow> user \<Rightarrow> string \<Rightarrow> string \<Rightarrow> 's world \<Rightarrow> (go_error + bool) \<times> 's world" where
  "UserManager_VerifyUserToken x m now u provider token w =
     (case UserManager_resolveProvider x m provider of
        None \<Rightarrow> (Inl (IdentityErr ''UnknownTokenProvider''), w)
      | Some p \<Rightarrow> tp_Validate p now u token w)"

definition UserManager_GetValidTwoFactorProviders ::
  "extern \<Rightarrow> 's user_manager \<Rightarrow> user \<Rightarrow> 's world \<Rightarrow> string list" where
  "UserManager_GetValidTwoFactorProviders x m u w =
     sort (filter (\<lambda>name. case UserManager_resolveProvider x m name of
                            None \<Rightarrow> False | Some p \<Rightarrow> tp_CanGenerate p u w)
       (remdups ([TwoFactorProviderAuthenticator, TwoFactorProviderPhone] @ map fst (um_tokenProviders m))))"

end
