(* ===== verification/Sign_In.thy ===== *)
theory Sign_In
  imports Two_Factor
begin

text \<open>
  \<open>SignInManagerOf\<close> (\<open>identity/signin_manager.go\<close> and \<open>ExternalLoginSignIn\<close> of
  \<open>identity/external_login.go\<close>). A result of \<open>(SignInResult, *User)\<close> whose user is nil is
  \<open>None\<close> in the second place; errors of the lockout writes are logged or dropped by the code.
\<close>

record sign_in_result =
  Succeeded :: bool
  IsLockedOut :: bool
  IsNotAllowed :: bool
  RequiresTwoFactor :: bool

definition res_failed :: sign_in_result where
  "res_failed = \<lparr>Succeeded = False, IsLockedOut = False, IsNotAllowed = False, RequiresTwoFactor = False\<rparr>"

abbreviation res_ok :: sign_in_result where "res_ok \<equiv> res_failed\<lparr>Succeeded := True\<rparr>"
abbreviation res_locked :: sign_in_result where "res_locked \<equiv> res_failed\<lparr>IsLockedOut := True\<rparr>"
abbreviation res_not_allowed :: sign_in_result where "res_not_allowed \<equiv> res_failed\<lparr>IsNotAllowed := True\<rparr>"
abbreviation res_two_factor :: sign_in_result where "res_two_factor \<equiv> res_failed\<lparr>RequiresTwoFactor := True\<rparr>"

record 's sign_in_manager =
  sm_Users :: "'s user_manager"
  sm_Options :: sign_in_options

definition NewSignInManager :: "'s user_manager \<Rightarrow> 's sign_in_manager" where
  "NewSignInManager users = \<lparr>sm_Users = users, sm_Options = o_SignIn (um_Options users)\<rparr>"

definition SignInManager_CanSignIn :: "'s sign_in_manager \<Rightarrow> user \<Rightarrow> bool" where
  "SignInManager_CanSignIn s u =
     (if RequireConfirmedEmail (sm_Options s) \<and> \<not> u_EmailConfirmed u then False
      else if RequireConfirmedPhoneNumber (sm_Options s) \<and> \<not> u_PhoneNumberConfirmed u then False
      else True)"

definition SignInManager_passwordSignInUser ::
  "'s sign_in_manager \<Rightarrow> time \<Rightarrow> user \<Rightarrow> string \<Rightarrow> bool \<Rightarrow> 's world \<Rightarrow> sign_in_result \<times> user \<times> 's world" where
  "SignInManager_passwordSignInUser s now u password lockoutOnFailure w =
     (if UserManager_IsLockedOut now u then (res_locked, u, w)
      else if \<not> SignInManager_CanSignIn s u then (res_not_allowed, u, w)
      else
        (case UserManager_CheckPassword (sm_Users s) u password w of
           (True, u, w) \<Rightarrow>
             let (_, u, w) = UserManager_ResetAccessFailedCount (sm_Users s) u w
             in if u_TwoFactorEnabled u then (res_two_factor, u, w) else (res_ok, u, w)
         | (False, u, w) \<Rightarrow>
             if lockoutOnFailure
             then
               let (_, u, w) = UserManager_AccessFailed (sm_Users s) now u w
               in if UserManager_IsLockedOut now u then (res_locked, u, w) else (res_failed, u, w)
             else (res_failed, u, w)))"

definition SignInManager_PasswordSignIn ::
  "'s sign_in_manager \<Rightarrow> time \<Rightarrow> string \<Rightarrow> string \<Rightarrow> bool \<Rightarrow> 's world
     \<Rightarrow> sign_in_result \<times> user option \<times> 's world" where
  "SignInManager_PasswordSignIn s now userName password lockoutOnFailure w =
     (case UserManager_FindByName (sm_Users s) userName w of
        Inl _ \<Rightarrow> (res_failed, None, w)
      | Inr u \<Rightarrow>
          let (r, u, w) = SignInManager_passwordSignInUser s now u password lockoutOnFailure w
          in (r, Some u, w))"

definition SignInManager_IsTwoFactorClientRemembered ::
  "extern \<Rightarrow> 's sign_in_manager \<Rightarrow> time \<Rightarrow> user \<Rightarrow> string \<Rightarrow> bool" where
  "SignInManager_IsTwoFactorClientRemembered x s now u rememberToken =
     UserManager_VerifyTwoFactorRememberToken x (sm_Users s) now u rememberToken"

definition SignInManager_PasswordSignInRemembering ::
  "extern \<Rightarrow> 's sign_in_manager \<Rightarrow> time \<Rightarrow> string \<Rightarrow> string \<Rightarrow> bool \<Rightarrow> string \<Rightarrow> 's world
     \<Rightarrow> sign_in_result \<times> user option \<times> 's world" where
  "SignInManager_PasswordSignInRemembering x s now userName password lockoutOnFailure rememberToken w =
     (case UserManager_FindByName (sm_Users s) userName w of
        Inl _ \<Rightarrow> (res_failed, None, w)
      | Inr u \<Rightarrow>
          let (r, u, w) = SignInManager_passwordSignInUser s now u password lockoutOnFailure w
          in if RequiresTwoFactor r \<and> SignInManager_IsTwoFactorClientRemembered x s now u rememberToken
             then (res_ok, Some u, w)
             else (r, Some u, w))"

text \<open>The tail shared by the two code-based second factors: a miss counts as a failed access.\<close>

definition count_second_factor ::
  "'s sign_in_manager \<Rightarrow> time \<Rightarrow> go_error + bool \<Rightarrow> user \<Rightarrow> 's world \<Rightarrow> sign_in_result \<times> user \<times> 's world" where
  "count_second_factor s now verdict u w =
     (if verdict = Inr True
      then (let (_, u, w) = UserManager_ResetAccessFailedCount (sm_Users s) u w in (res_ok, u, w))
      else
        let (_, u, w) = UserManager_AccessFailed (sm_Users s) now u w
        in if UserManager_IsLockedOut now u then (res_locked, u, w) else (res_failed, u, w))"

definition SignInManager_TwoFactorAuthenticatorSignIn ::
  "extern \<Rightarrow> 's sign_in_manager \<Rightarrow> time \<Rightarrow> user \<Rightarrow> string \<Rightarrow> 's world \<Rightarrow> sign_in_result \<times> user \<times> 's world" where
  "SignInManager_TwoFactorAuthenticatorSignIn x s now u code w =
     (if UserManager_IsLockedOut now u then (res_locked, u, w)
      else count_second_factor s now (UserManager_VerifyTwoFactorTOTP x (sm_Users s) now u code w) u w)"

definition SignInManager_TwoFactorPhoneSignIn ::
  "extern \<Rightarrow> 's sign_in_manager \<Rightarrow> time \<Rightarrow> user \<Rightarrow> string \<Rightarrow> 's world \<Rightarrow> sign_in_result \<times> user \<times> 's world" where
  "SignInManager_TwoFactorPhoneSignIn x s now u code w =
     (if UserManager_IsLockedOut now u then (res_locked, u, w)
      else
        let (verdict, w) = UserManager_VerifyPhoneToken x (sm_Users s) now u code w
        in count_second_factor s now verdict u w)"

definition SignInManager_TwoFactorRecoveryCodeSignIn ::
  "extern \<Rightarrow> 's sign_in_manager \<Rightarrow> time \<Rightarrow> user \<Rightarrow> string \<Rightarrow> 's world \<Rightarrow> sign_in_result \<times> user \<times> 's world" where
  "SignInManager_TwoFactorRecoveryCodeSignIn x s now u code w =
     (if UserManager_IsLockedOut now u then (res_locked, u, w)
      else
        (case UserManager_RedeemRecoveryCode x (sm_Users s) u code w of
           (Inr True, w) \<Rightarrow>
             let (_, u, w) = UserManager_ResetAccessFailedCount (sm_Users s) u w in (res_ok, u, w)
         | (_, w) \<Rightarrow> (res_failed, u, w)))"

definition SignInManager_ValidateSecurityStamp ::
  "'s sign_in_manager \<Rightarrow> string \<Rightarrow> string \<Rightarrow> 's world \<Rightarrow> user option" where
  "SignInManager_ValidateSecurityStamp s userID stamp w =
     (case UserManager_FindByID (sm_Users s) userID w of
        Inl _ \<Rightarrow> None
      | Inr u \<Rightarrow> if subtleConstEq (u_SecurityStamp u) stamp then Some u else None)"

definition SignInManager_RefreshSignIn ::
  "'s sign_in_manager \<Rightarrow> time \<Rightarrow> string \<Rightarrow> string \<Rightarrow> 's world \<Rightarrow> sign_in_result \<times> user option" where
  "SignInManager_RefreshSignIn s now userID stamp w =
     (case SignInManager_ValidateSecurityStamp s userID stamp w of
        None \<Rightarrow> (res_failed, None)
      | Some u \<Rightarrow>
          if UserManager_IsLockedOut now u then (res_locked, Some u)
          else if \<not> SignInManager_CanSignIn s u then (res_not_allowed, Some u)
          else (res_ok, Some u))"

definition SignInManager_ExternalLoginSignIn ::
  "'s sign_in_manager \<Rightarrow> time \<Rightarrow> string \<Rightarrow> string \<Rightarrow> 's world \<Rightarrow> sign_in_result \<times> user option \<times> 's world" where
  "SignInManager_ExternalLoginSignIn s now loginProvider providerKey w =
     (case UserManager_FindByLogin (sm_Users s) loginProvider providerKey w of
        Inl _ \<Rightarrow> (res_failed, None, w)
      | Inr u \<Rightarrow>
          if UserManager_IsLockedOut now u then (res_locked, Some u, w)
          else if \<not> SignInManager_CanSignIn s u then (res_not_allowed, Some u, w)
          else
            let (_, u, w) = UserManager_ResetAccessFailedCount (sm_Users s) u w
            in if u_TwoFactorEnabled u then (res_two_factor, Some u, w) else (res_ok, Some u, w))"

end
