(* ===== verification/Account_System.thy ===== *)
theory Account_System
  imports Sign_In
begin

text \<open>
  The account system as a whole: clients hold copies of users (the \<open>*User\<close> values they loaded)
  and run manager operations on them, one operation after the other and in any order. The theory
  shows that every operation is a sequence of a few elementary steps and that these keep user
  names and emails unique. Operations whose store calls interleave are the subject of
  \<open>Store_Calls\<close>.
\<close>

section \<open>Elementary steps on a held copy\<close>

definition same_keys :: "user \<Rightarrow> user \<Rightarrow> bool" where
  "same_keys u v \<longleftrightarrow> u_ID v = u_ID u \<and> u_ConcurrencyStamp v = u_ConcurrencyStamp u \<and>
     u_NormalizedUserName v = u_NormalizedUserName u \<and> u_NormalizedEmail v = u_NormalizedEmail u"

lemma same_keys_refl [simp]: "same_keys u u"
  by (simp add: same_keys_def)

inductive copy_step :: "'s user_manager \<Rightarrow> user \<times> 's world \<Rightarrow> user \<times> 's world \<Rightarrow> bool" for m where
  cs_edit: "same_keys u u' \<Longrightarrow> db w' = db w \<Longrightarrow> tape w \<le> tape w' \<Longrightarrow> copy_step m (u, w) (u', w')"
| cs_update: "u_ID v = u_ID u \<Longrightarrow> u_ConcurrencyStamp v = u_ConcurrencyStamp u \<Longrightarrow> db w0 = db w \<Longrightarrow>
    u_NormalizedUserName v = u_NormalizedUserName u \<or>
      taken_by_other ErrDuplicateUserName (u_ID v)
        (us_FindByName (um_Store m) (u_NormalizedUserName v) w0) = None \<Longrightarrow>
    u_NormalizedEmail v = u_NormalizedEmail u \<or> email_taken m (u_ID v) (u_NormalizedEmail v) w0 = None \<Longrightarrow>
    us_Update (um_Store m) v w = (e, u', w') \<Longrightarrow> copy_step m (u, w) (u', w')"
| cs_SetToken: "us_SetToken (um_Store m) u1 p n v w = (e, w') \<Longrightarrow> copy_step m (u, w) (u, w')"
| cs_RemoveToken: "us_RemoveToken (um_Store m) u1 p n w = (e, w') \<Longrightarrow> copy_step m (u, w) (u, w')"

abbreviation copy_steps :: "'s user_manager \<Rightarrow> user \<times> 's world \<Rightarrow> user \<times> 's world \<Rightarrow> bool" where
  "copy_steps m \<equiv> (copy_step m)\<^sup>*\<^sup>*"

text \<open>What the steps need of the manager: hashing moves the tape forward.\<close>

definition hash_forward :: "'s user_manager \<Rightarrow> bool" where
  "hash_forward m \<longleftrightarrow> (\<forall>u pw t. t \<le> snd (ph_Hash (um_Hasher m) u pw t))"

lemma copy_edit:
  "same_keys u u' \<Longrightarrow> db w' = db w \<Longrightarrow> tape w \<le> tape w' \<Longrightarrow> copy_steps m (u, w) (u', w')"
  by (blast intro: cs_edit)

lemma copy_update:
  assumes "us_Update (um_Store m) v w1 = (e, u', w')" "db w1 = db w" "tape w \<le> tape w1"
    and "u_ID v = u_ID u" "u_ConcurrencyStamp v = u_ConcurrencyStamp u"
    and "u_NormalizedUserName v = u_NormalizedUserName u \<or>
      taken_by_other ErrDuplicateUserName (u_ID u)
        (us_FindByName (um_Store m) (u_NormalizedUserName v) w) = None"
    and "u_NormalizedEmail v = u_NormalizedEmail u \<or> email_taken m (u_ID u) (u_NormalizedEmail v) w = None"
  shows "copy_steps m (u, w) (u', w')"
proof -
  have "copy_step m (u, w) (u, w1)" using assms(2,3) by (simp add: cs_edit)
  moreover have "copy_step m (u, w1) (u', w')"
    using assms by (intro cs_update [of v u w]) auto
  ultimately show ?thesis by (meson converse_rtranclp_into_rtranclp rtranclp.rtrancl_refl)
qed

lemma copy_update_same:
  assumes "us_Update (um_Store m) v w1 = (e, u', w')" "db w1 = db w" "tape w \<le> tape w1" "same_keys u v"
  shows "copy_steps m (u, w) (u', w')"
  using assms(4) by (intro copy_update [OF assms(1-3)]) (auto simp: same_keys_def)

lemma newStamp_forward [simp]: "t \<le> snd (newStamp x t)"
  by (simp add: newStamp_def rand_Read_def)

lemma rotate_stamp_props:
  assumes "rotate_stamp x u w = (u', w')"
  shows "same_keys u u'" "db w' = db w" "tape w \<le> tape w'" "\<exists>st. u' = u\<lparr>u_SecurityStamp := st\<rparr>"
  using assms by (auto simp: rotate_stamp_def draw_def same_keys_def)

lemma set_password_hash_props:
  assumes "set_password_hash x m pw u w = (u', w')" "hash_forward m"
  shows "same_keys u u'" "db w' = db w" "tape w \<le> tape w'"
    "\<exists>st. u' = u\<lparr>u_PasswordHash := fst (ph_Hash (um_Hasher m) u pw (tape w)), u_SecurityStamp := st\<rparr>"
  using assms order_trans [OF _ newStamp_forward]
  by (auto simp: set_password_hash_def draw_def same_keys_def hash_forward_def)

subsection \<open>The operations of the user manager\<close>

lemma steps_CheckPassword:
  assumes "UserManager_CheckPassword m u pw w = (b, u', w')" "hash_forward m"
  shows "copy_steps m (u, w) (u', w')"
  using assms
  by (auto simp: UserManager_CheckPassword_def draw_def Let_def hash_forward_def same_keys_def
      split: if_splits prod.splits bool.splits intro!: copy_update_same)

lemma steps_set_password:
  assumes "(case set_password_hash x m pw u w of (u, w) \<Rightarrow> us_Update (um_Store m) u w) = (e, u', w')"
    and "hash_forward m"
  shows "copy_steps m (u, w) (u', w')"
proof -
  obtain v w1 where v: "set_password_hash x m pw u w = (v, w1)" by fastforce
  with assms(1) have "us_Update (um_Store m) v w1 = (e, u', w')" by simp
  then show ?thesis
    by (rule copy_update_same) (use set_password_hash_props [OF v assms(2)] in auto)
qed

lemma steps_rotate_update:
  assumes "(case rotate_stamp x v w of (u, w) \<Rightarrow> us_Update (um_Store m) u w) = (e, u', w')"
    and "same_keys u v"
  shows "copy_steps m (u, w) (u', w')"
proof -
  obtain v1 w1 where v: "rotate_stamp x v w = (v1, w1)" by fastforce
  with assms(1) have "us_Update (um_Store m) v1 w1 = (e, u', w')" by simp
  then show ?thesis
    by (rule copy_update_same)
      (use rotate_stamp_props [OF v] assms(2) in \<open>auto simp: same_keys_def\<close>)
qed

lemma steps_rotate_update_keys:
  assumes "(case rotate_stamp x v w of (u, w) \<Rightarrow> us_Update (um_Store m) u w) = (e, u', w')"
    and "u_ID v = u_ID u" "u_ConcurrencyStamp v = u_ConcurrencyStamp u"
    and "u_NormalizedUserName v = u_NormalizedUserName u \<or>
      taken_by_other ErrDuplicateUserName (u_ID u)
        (us_FindByName (um_Store m) (u_NormalizedUserName v) w) = None"
    and "u_NormalizedEmail v = u_NormalizedEmail u \<or> email_taken m (u_ID u) (u_NormalizedEmail v) w = None"
  shows "copy_steps m (u, w) (u', w')"
proof -
  obtain v1 w1 where v: "rotate_stamp x v w = (v1, w1)" by fastforce
  with assms(1) have "us_Update (um_Store m) v1 w1 = (e, u', w')" by simp
  then show ?thesis
    by (rule copy_update)
      (use rotate_stamp_props [OF v] assms(2-5) in \<open>auto simp: same_keys_def\<close>)
qed

lemma steps_refl_err: "(Some e', u, w) = (e, u', w') \<Longrightarrow> copy_steps m (u, w) (u', w')"
  by simp

lemma steps_ChangePassword:
  assumes "UserManager_ChangePassword x m u cur new w = (e, u', w')" "hash_forward m"
  shows "copy_steps m (u, w) (u', w')"
proof -
  obtain b u1 w1 where c: "UserManager_CheckPassword m u cur w = (b, u1, w1)" by (metis prod_cases3)
  have "copy_steps m (u1, w1) (u', w')"
    using assms steps_set_password [OF _ assms(2)]
    by (auto simp: UserManager_ChangePassword_def Let_def c split: bool.splits option.splits)
  with steps_CheckPassword [OF c assms(2)] show ?thesis by (rule rtranclp_trans)
qed

lemma steps_AddPassword:
  assumes "UserManager_AddPassword x m u pw w = (e, u', w')" "hash_forward m"
  shows "copy_steps m (u, w) (u', w')"
  using assms steps_set_password [OF _ assms(2)]
  by (auto simp: UserManager_AddPassword_def Let_def split: if_splits option.splits)

lemma steps_ResetPassword:
  assumes "UserManager_ResetPassword x m now u tok pw w = (e, u', w')" "hash_forward m"
  shows "copy_steps m (u, w) (u', w')"
  using assms steps_set_password [OF _ assms(2)]
  by (auto simp: UserManager_ResetPassword_def Let_def split: if_splits option.splits)

lemma steps_RemovePassword:
  assumes "UserManager_RemovePassword x m u w = (e, u', w')"
  shows "copy_steps m (u, w) (u', w')"
  by (rule steps_rotate_update [OF assms [unfolded UserManager_RemovePassword_def Let_def]])
    (simp add: same_keys_def)

lemma steps_SetUserName:
  assumes "UserManager_SetUserName x m u n w = (e, u', w')"
  shows "copy_steps m (u, w) (u', w')"
  using assms unfolding UserManager_SetUserName_def
  by (auto simp: Let_def split: option.splits intro: steps_rotate_update_keys)

lemma steps_SetEmail:
  assumes "UserManager_SetEmail x m u n w = (e, u', w')"
  shows "copy_steps m (u, w) (u', w')"
  using assms unfolding UserManager_SetEmail_def
  by (auto simp: Let_def split: option.splits intro: steps_rotate_update_keys)

lemma steps_ChangeEmail:
  assumes "UserManager_ChangeEmail x m now u n tok w = (e, u', w')"
  shows "copy_steps m (u, w) (u', w')"
  using assms unfolding UserManager_ChangeEmail_def
  by (auto simp: Let_def split: option.splits if_splits intro: steps_rotate_update_keys)

lemma steps_UpdateSecurityStamp:
  assumes "UserManager_UpdateSecurityStamp x m u w = (e, u', w')"
  shows "copy_steps m (u, w) (u', w')"
  by (rule steps_rotate_update [OF assms [unfolded UserManager_UpdateSecurityStamp_def Let_def]]) simp

lemma steps_AccessFailed:
  assumes "UserManager_AccessFailed m now u w = (e, u', w')"
  shows "copy_steps m (u, w) (u', w')"
  using assms unfolding UserManager_AccessFailed_def Let_def
  by (rule copy_update_same) (auto simp: same_keys_def)

lemma steps_ResetAccessFailedCount:
  assumes "UserManager_ResetAccessFailedCount m u w = (e, u', w')"
  shows "copy_steps m (u, w) (u', w')"
  using assms unfolding UserManager_ResetAccessFailedCount_def
  by (auto simp: same_keys_def split: if_splits intro: copy_update_same)

lemma steps_ConfirmEmail:
  assumes "UserManager_ConfirmEmail x m now u tok w = (e, u', w')"
  shows "copy_steps m (u, w) (u', w')"
  using assms unfolding UserManager_ConfirmEmail_def
  by (auto simp: same_keys_def split: if_splits intro: copy_update_same)

lemma steps_ConvertToRegistered:
  assumes "UserManager_ConvertToRegistered x m u n em pw w = (e, u', w')" "hash_forward m"
  shows "copy_steps m (u, w) (u', w')"
proof (cases "UserManager_ConvertToRegistered x m u n em pw w = (e, u, w)")
  case True
  with assms(1) show ?thesis by simp
next
  case False
  let ?n = "um_Normalize m n" and ?em = "um_Normalize m em"
  let ?u1 = "u\<lparr>u_UserName := n, u_NormalizedUserName := ?n, u_Email := em, u_NormalizedEmail := ?em\<rparr>"
  let ?h = "ph_Hash (um_Hasher m) ?u1 pw (tape w)"
  let ?u2 = "?u1\<lparr>u_PasswordHash := fst ?h, u_IsAnonymous := False\<rparr>" and ?w1 = "w\<lparr>tape := snd ?h\<rparr>"
  from assms(1) False
  have t: "taken_by_other ErrDuplicateUserName (u_ID u) (us_FindByName (um_Store m) ?n w) = None"
    "email_taken m (u_ID u) ?em w = None"
    and r: "(case rotate_stamp x ?u2 ?w1 of (u, w) \<Rightarrow> us_Update (um_Store m) u w) = (e, u', w')"
    by (auto simp: UserManager_ConvertToRegistered_def draw_def Let_def split: if_splits option.splits)
  obtain v w2 where v: "rotate_stamp x ?u2 ?w1 = (v, w2)" by fastforce
  with r have upd: "us_Update (um_Store m) v w2 = (e, u', w')" by simp
  have "tape w \<le> snd ?h" using assms(2) by (simp add: hash_forward_def)
  with rotate_stamp_props(1-3) [OF v] t show ?thesis
    by (intro copy_update [OF upd]) (auto simp: same_keys_def)
qed

subsection \<open>Second factors\<close>

lemma steps_consumePhoneCode:
  assumes "UserManager_consumePhoneCode m now u n h w = (r, w')"
  shows "copy_steps m (v, w) (v, w')"
proof -
  have "copy_steps m (v, w) (v, snd (us_RemoveToken (um_Store m) u p k w))"
    "copy_steps m (v, w) (v, snd (us_SetToken (um_Store m) u p k s w))" for p k s
    by (metis cs_RemoveToken prod.collapse r_into_rtranclp)
      (metis cs_SetToken prod.collapse r_into_rtranclp)
  with assms show ?thesis
    by (auto simp: UserManager_consumePhoneCode_def Let_def split: sum.splits if_splits)
qed

lemma steps_ConfirmPhoneNumber:
  assumes "UserManager_ConfirmPhoneNumber x m now u c w = (e, u', w')"
  shows "copy_steps m (u, w) (u', w')"
proof -
  obtain r w1 where r: "UserManager_VerifyPhoneToken x m now u c w = (r, w1)" by fastforce
  have "copy_steps m (u, w1) (u', w')"
    using assms by (auto simp: UserManager_ConfirmPhoneNumber_def r same_keys_def
        split: sum.splits if_splits intro: copy_update_same)
  with steps_consumePhoneCode [OF r [unfolded UserManager_VerifyPhoneToken_def]]
  show ?thesis by (rule rtranclp_trans)
qed

lemma steps_SetPhoneNumber:
  assumes "UserManager_SetPhoneNumber x m u p w = (e, u', w')"
  shows "copy_steps m (u, w) (u', w')"
  by (rule steps_rotate_update [OF assms [unfolded UserManager_SetPhoneNumber_def Let_def]])
    (simp add: same_keys_def)

lemma steps_ChangePhoneNumber:
  assumes "UserManager_ChangePhoneNumber x m now u p c w = (e, u', w')"
  shows "copy_steps m (u, w) (u', w')"
proof -
  obtain r w1 where r: "UserManager_consumePhoneCode m now u changePhoneTokenName
      (hashRefresh x (strings_TrimSpace c @ ''|'' @ p)) w = (r, w1)" by fastforce
  have "copy_steps m (u, w1) (u', w')"
    using assms unfolding UserManager_ChangePhoneNumber_def Let_def r prod.case
    by (cases r; cases "r = Inr True") (auto simp: same_keys_def intro!: steps_rotate_update)
  with steps_consumePhoneCode [OF r] show ?thesis by (rule rtranclp_trans)
qed

lemma steps_SetTwoFactorEnabled:
  assumes "UserManager_SetTwoFactorEnabled x m u b w = (e, u', w')"
  shows "copy_steps m (u, w) (u', w')"
  by (rule steps_rotate_update [OF assms [unfolded UserManager_SetTwoFactorEnabled_def Let_def]])
    (simp add: same_keys_def)

lemma steps_RedeemRecoveryCode:
  assumes "UserManager_RedeemRecoveryCode x m u c w = (r, w')"
  shows "copy_steps m (v, w) (v, w')"
  using assms
  by (auto simp: UserManager_RedeemRecoveryCode_def Let_def
      split: sum.splits if_splits prod.splits option.splits intro!: r_into_rtranclp cs_SetToken)

subsection \<open>Sign-in\<close>

lemma steps_passwordSignInUser:
  assumes "SignInManager_passwordSignInUser s now u pw lk w = (r, u', w')" "hash_forward (sm_Users s)"
  shows "copy_steps (sm_Users s) (u, w) (u', w')"
proof -
  let ?m = "sm_Users s"
  obtain b u1 w1 where c: "UserManager_CheckPassword ?m u pw w = (b, u1, w1)" by (metis prod_cases3)
  obtain e2 u2 w2 where r: "UserManager_ResetAccessFailedCount ?m u1 w1 = (e2, u2, w2)" by (metis prod_cases3)
  obtain e3 u3 w3 where a: "UserManager_AccessFailed ?m now u1 w1 = (e3, u3, w3)" by (metis prod_cases3)
  have 1: "copy_steps ?m (u, w) (u1, w1)" by (rule steps_CheckPassword [OF c assms(2)])
  have 2: "copy_steps ?m (u1, w1) (u2, w2)" by (rule steps_ResetAccessFailedCount [OF r])
  have 3: "copy_steps ?m (u1, w1) (u3, w3)" by (rule steps_AccessFailed [OF a])
  show ?thesis
    using assms(1) 1 rtranclp_trans [OF 1 2] rtranclp_trans [OF 1 3]
    by (auto simp: SignInManager_passwordSignInUser_def c r a split: if_splits bool.splits)
qed

lemma steps_count_second_factor:
  assumes "count_second_factor s now v u w = (r, u', w')"
  shows "copy_steps (sm_Users s) (u, w) (u', w')"
proof -
  let ?m = "sm_Users s"
  obtain e2 u2 w2 where r: "UserManager_ResetAccessFailedCount ?m u w = (e2, u2, w2)" by (metis prod_cases3)
  obtain e3 u3 w3 where a: "UserManager_AccessFailed ?m now u w = (e3, u3, w3)" by (metis prod_cases3)
  show ?thesis
    using assms steps_ResetAccessFailedCount [OF r] steps_AccessFailed [OF a]
    by (auto simp: count_second_factor_def r a split: if_splits)
qed

section \<open>Uniqueness\<close>

definition unique_rows :: "bool \<Rightarrow> (string \<Rightarrow> user option) \<Rightarrow> bool" where
  "unique_rows ue R \<longleftrightarrow>
     (\<forall>i j u v. R i = Some u \<longrightarrow> R j = Some v \<longrightarrow>
        u_NormalizedUserName u = u_NormalizedUserName v \<longrightarrow> i = j) \<and>
     (ue \<longrightarrow> (\<forall>i j u v. R i = Some u \<longrightarrow> R j = Some v \<longrightarrow>
        u_NormalizedEmail u = u_NormalizedEmail v \<longrightarrow> u_NormalizedEmail u \<noteq> [] \<longrightarrow> i = j))"

text \<open>Stored stamps came from the tape; a held stamp did too, or was never set.\<close>

definition stamps_ok :: "extern \<Rightarrow> 's world \<Rightarrow> (string \<Rightarrow> user option) \<Rightarrow> user set \<Rightarrow> bool" where
  "stamps_ok x w R P \<longleftrightarrow> (\<forall>i u. R i = Some u \<longrightarrow> issued x w (u_ConcurrencyStamp u)) \<and>
     (\<forall>u \<in> P. issued x w (u_ConcurrencyStamp u) \<or> u_ConcurrencyStamp u = [])"

text \<open>A held copy whose stamp is current carries the row's user name and email.\<close>

definition pool_ok :: "(string \<Rightarrow> user option) \<Rightarrow> user set \<Rightarrow> bool" where
  "pool_ok R P \<longleftrightarrow> (\<forall>u \<in> P. \<forall>r. R (u_ID u) = Some r \<longrightarrow>
     u_ConcurrencyStamp r = u_ConcurrencyStamp u \<longrightarrow> same_keys r u)"

definition acct_ok :: "extern \<Rightarrow> bool \<Rightarrow> 's world \<Rightarrow> (string \<Rightarrow> user option) \<Rightarrow> user set \<Rightarrow> bool" where
  "acct_ok x ue w R P \<longleftrightarrow> unique_rows ue R \<and> stamps_ok x w R P \<and> pool_ok R P"

lemma acct_ok_subset: "acct_ok x ue w R P \<Longrightarrow> Q \<subseteq> P \<Longrightarrow> acct_ok x ue w R Q"
  by (auto simp: acct_ok_def stamps_ok_def pool_ok_def)

lemma acct_ok_tape: "acct_ok x ue w R P \<Longrightarrow> tape w \<le> tape w' \<Longrightarrow> acct_ok x ue w' R P"
  unfolding acct_ok_def stamps_ok_def using issued_mono by blast

lemma acct_ok_insert:
  assumes "acct_ok x ue w R P" "issued x w (u_ConcurrencyStamp u) \<or> u_ConcurrencyStamp u = []"
    and "\<And>r. R (u_ID u) = Some r \<Longrightarrow> u_ConcurrencyStamp r = u_ConcurrencyStamp u \<Longrightarrow> same_keys r u"
  shows "acct_ok x ue w R (insert u P)"
  using assms by (auto simp: acct_ok_def stamps_ok_def pool_ok_def)

lemma acct_ok_held:
  assumes "acct_ok x ue w R P" "u \<in> P" "same_keys u v"
  shows "acct_ok x ue w R (insert v P)"
proof (rule acct_ok_insert [OF assms(1)])
  from assms show "issued x w (u_ConcurrencyStamp v) \<or> u_ConcurrencyStamp v = []"
    unfolding acct_ok_def stamps_ok_def same_keys_def by metis
  fix r assume "R (u_ID v) = Some r" "u_ConcurrencyStamp r = u_ConcurrencyStamp v"
  with assms have "same_keys r u" unfolding acct_ok_def pool_ok_def same_keys_def by metis
  with assms(3) show "same_keys r v" by (simp add: same_keys_def)
qed

lemma acct_ok_row:
  assumes "acct_ok x ue w R P" "R (u_ID u) = Some u"
  shows "acct_ok x ue w R (insert u P)"
  using assms by (intro acct_ok_insert) (auto simp: acct_ok_def stamps_ok_def)

lemma acct_ok_restrict:
  assumes "acct_ok x ue w R P" "\<And>i u. R' i = Some u \<Longrightarrow> R i = Some u"
  shows "acct_ok x ue w R' P"
  unfolding acct_ok_def
proof (intro conjI)
  show "unique_rows ue R'" using assms unfolding acct_ok_def unique_rows_def by blast
  show "stamps_ok x w R' P" using assms unfolding acct_ok_def stamps_ok_def by blast
  show "pool_ok R' P" using assms unfolding acct_ok_def pool_ok_def by blast
qed

text \<open>
  The one way a row changes: it is replaced by a user with a fresh stamp whose name and email no
  other row has.
\<close>

lemma acct_ok_write:
  assumes ok: "acct_ok x ue w R P" and uuid: "uuid_ok x" and tape: "tape w \<le> tape w'"
    and fresh: "fresh_stamp x w w' (u_ConcurrencyStamp u)"
    and name: "\<And>j v. R j = Some v \<Longrightarrow> j \<noteq> u_ID u \<Longrightarrow> u_NormalizedUserName v \<noteq> u_NormalizedUserName u"
    and mail: "\<And>j v. ue \<Longrightarrow> R j = Some v \<Longrightarrow> j \<noteq> u_ID u \<Longrightarrow> u_NormalizedEmail u \<noteq> [] \<Longrightarrow>
      u_NormalizedEmail v \<noteq> u_NormalizedEmail u"
  shows "acct_ok x ue w' (R(u_ID u \<mapsto> u)) (insert u P)"
proof -
  have "unique_rows ue (R(u_ID u \<mapsto> u))"
    using ok name mail unfolding acct_ok_def unique_rows_def by (auto split: if_splits) metis+
  moreover have "stamps_ok x w' (R(u_ID u \<mapsto> u)) (insert u P)"
    using ok fresh tape unfolding acct_ok_def stamps_ok_def
    by (auto split: if_splits intro: fresh_issued issued_mono)
  moreover have "pool_ok (R(u_ID u \<mapsto> u)) (insert u P)"
  proof -
    have "u_ConcurrencyStamp u \<noteq> u_ConcurrencyStamp p" if "p \<in> P" for p
    proof -
      have "issued x w (u_ConcurrencyStamp p) \<or> u_ConcurrencyStamp p = []"
        using ok that by (auto simp: acct_ok_def stamps_ok_def)
      moreover have "\<not> issued x w (u_ConcurrencyStamp u)" by (rule fresh_not_issued [OF uuid fresh])
      moreover have "u_ConcurrencyStamp u \<noteq> []" 
        using fresh uuid_ne [OF uuid] unfolding fresh_stamp_def by metis
      ultimately show ?thesis by metis
    qed
    with ok show ?thesis by (auto simp: acct_ok_def pool_ok_def)
  qed
  ultimately show ?thesis by (simp add: acct_ok_def)
qed

text \<open>Inside the contract of a reliable store: elementary steps keep the invariant.\<close>

context reliable_users
begin

lemma free_name:
  assumes "inv (db w)" "unique_rows ue (rows (db w))"
    and "taken_by_other e i (us_FindByName S n w) = None"
    and "rows (db w) j = Some v" "j \<noteq> i"
  shows "u_NormalizedUserName v \<noteq> n"
proof (cases "us_FindByName S n w")
  case (Inl err)
  with assms FindByName_none show ?thesis by (auto simp: taken_by_other_def split: if_splits)
next
  case (Inr u)
  with assms(3) have "u_ID u = i" by (auto simp: taken_by_other_def split: if_splits)
  with FindByName_some [OF assms(1) Inr] assms(2,4,5) show ?thesis
    unfolding unique_rows_def by metis
qed

lemma free_email:
  assumes "inv (db w)" "unique_rows ue (rows (db w))" "ue"
    and "taken_by_other e i (us_FindByEmail S n w) = None" "n \<noteq> []"
    and "rows (db w) j = Some v" "j \<noteq> i"
  shows "u_NormalizedEmail v \<noteq> n"
proof (cases "us_FindByEmail S n w")
  case (Inl err)
  with assms FindByEmail_none show ?thesis by (auto simp: taken_by_other_def split: if_splits)
next
  case (Inr u)
  with assms(4) have "u_ID u = i" by (auto simp: taken_by_other_def split: if_splits)
  with FindByEmail_some [OF assms(1) Inr] assms(2,3,6,7) show ?thesis
    unfolding unique_rows_def by metis
qed

lemma copy_step_ok:
  assumes step: "copy_step m (u, w) (u', w')" and m: "um_Store m = S"
    and ue: "RequireUniqueEmail (o_User (um_Options m)) = ue" and uuid: "uuid_ok x"
    and inv: "inv (db w)" and ok: "acct_ok x ue w (rows (db w)) P" and u: "u \<in> P"
  shows "inv (db w') \<and> acct_ok x ue w' (rows (db w')) (insert u' P)"
  using step
proof cases
  case cs_edit
  with ok u inv show ?thesis by (auto intro: acct_ok_held acct_ok_tape)
next
  case (cs_update v w0 e)
  show ?thesis
  proof (cases e)
    case None
    with cs_update m have upd: "us_Update S v w = (None, u', w')" by simp
    from Update_ok [OF inv this] obtain r s where
      r: "rows (db w) (u_ID v) = Some r" "u_ConcurrencyStamp r = u_ConcurrencyStamp v"
      and u': "u' = v\<lparr>u_ConcurrencyStamp := s\<rparr>" "fresh_stamp x w w' s"
      and w': "inv (db w')" "tape w \<le> tape w'" "rows (db w') = (rows (db w))(u_ID v \<mapsto> u')" by auto
    have inv0: "inv (db w0)" and un: "unique_rows ue (rows (db w0))"
      using cs_update inv ok by (auto simp: acct_ok_def)
    have keys: "same_keys r u" using ok u r cs_update by (auto simp: acct_ok_def pool_ok_def)
    have "u_NormalizedUserName v' \<noteq> u_NormalizedUserName v"
      if "rows (db w) j = Some v'" "j \<noteq> u_ID v" for j v'
      using cs_update that free_name [OF inv0 un] keys r(1) un
      unfolding unique_rows_def same_keys_def m by metis
    moreover have "u_NormalizedEmail v' \<noteq> u_NormalizedEmail v"
      if ue': "ue" and "rows (db w) j = Some v'" "j \<noteq> u_ID v" "u_NormalizedEmail v \<noteq> []" for j v'
    proof -
      have "taken_by_other ErrDuplicateEmail (u_ID v) (us_FindByEmail S (u_NormalizedEmail v) w0) = None
          \<or> u_NormalizedEmail v = u_NormalizedEmail u"
        using cs_update that ue by (auto simp: email_taken_def m)
      with that free_email [OF inv0 un ue'] keys r(1) un cs_update show ?thesis
        unfolding unique_rows_def same_keys_def by metis
    qed
    ultimately have "acct_ok x ue w' ((rows (db w))(u_ID u' \<mapsto> u')) (insert u' P)"
      using u' w' by (intro acct_ok_write [OF ok uuid]) auto
    with w' u' show ?thesis by simp
  next
    case (Some e')
    with cs_update m have upd: "us_Update S v w = (Some e', u', w')" by simp
    from Update_err [OF inv this] have *: "inv (db w')" "u' = v" "tape w \<le> tape w'" "rows (db w') = rows (db w)"
      by auto
    have "u_ConcurrencyStamp r \<noteq> u_ConcurrencyStamp v" if "rows (db w) (u_ID v) = Some r" for r
      using Update_total [OF inv that] upd by auto
    moreover have "issued x w (u_ConcurrencyStamp v) \<or> u_ConcurrencyStamp v = []"
      using ok u cs_update by (auto simp: acct_ok_def stamps_ok_def)
    ultimately have "acct_ok x ue w (rows (db w)) (insert v P)"
      using ok by (intro acct_ok_insert) auto
    with * show ?thesis by (auto intro: acct_ok_tape)
  qed
next
  case (cs_SetToken u1 p n v e)
  with SetToken_keeps [OF inv] m ok u show ?thesis by (fastforce simp: insert_absorb intro: acct_ok_tape)
next
  case (cs_RemoveToken u1 p n e)
  with RemoveToken_keeps [OF inv] m ok u show ?thesis by (fastforce simp: insert_absorb intro: acct_ok_tape)
qed

lemma copy_steps_ok:
  assumes "copy_steps m (u, w) (u', w')" and m: "um_Store m = S"
    and ue: "RequireUniqueEmail (o_User (um_Options m)) = ue" and uuid: "uuid_ok x"
    and "inv (db w)" and "acct_ok x ue w (rows (db w)) P" and "u \<in> P"
  shows "inv (db w') \<and> acct_ok x ue w' (rows (db w')) (insert u' P)"
  using assms(1)
proof (induction rule: rtranclp_induct2)
  case refl
  with assms show ?case by (simp add: insert_absorb)
next
  case (step u1 w1 u2 w2)
  then have "inv (db w1)" "acct_ok x ue w1 (rows (db w1)) (insert u1 P)" by auto
  from copy_step_ok [OF step(2) m ue uuid this] show ?case
    by (auto elim: acct_ok_subset)
qed

text \<open>Every row after an elementary step is an old row or carries a fresh stamp.\<close>

lemma copy_step_rows:
  assumes "copy_step m (u, w) (u', w')" "um_Store m = S" "inv (db w)"
  shows "inv (db w') \<and> tape w \<le> tape w' \<and> (\<forall>i r. rows (db w') i = Some r \<longrightarrow>
    rows (db w) i = Some r \<or> fresh_stamp x w w' (u_ConcurrencyStamp r))"
  using assms(1)
proof cases
  case cs_edit
  with assms show ?thesis by simp
next
  case (cs_update v w0 e)
  with assms(2) have upd: "us_Update S v w = (e, u', w')" by simp
  show ?thesis
  proof (cases e)
    case None
    from Update_ok [OF assms(3) upd [unfolded None]] show ?thesis by (auto split: if_splits)
  next
    case (Some e')
    from Update_err [OF assms(3) upd [unfolded Some]] show ?thesis by auto
  qed
next
  case (cs_SetToken u1 p n v e)
  with SetToken_keeps [OF assms(3)] assms(2) show ?thesis by fastforce
next
  case (cs_RemoveToken u1 p n e)
  with RemoveToken_keeps [OF assms(3)] assms(2) show ?thesis by fastforce
qed

lemma fresh_wider:
  "fresh_stamp x w1 w2 s \<Longrightarrow> tape w \<le> tape w1 \<Longrightarrow> tape w2 \<le> tape w' \<Longrightarrow> fresh_stamp x w w' s"
  unfolding fresh_stamp_def by (metis order.strict_trans2 order_trans)

lemma copy_steps_rows:
  assumes "copy_steps m (u, w) (u', w')" "um_Store m = S" "inv (db w)"
  shows "inv (db w') \<and> tape w \<le> tape w' \<and> (\<forall>i r. rows (db w') i = Some r \<longrightarrow>
    rows (db w) i = Some r \<or> fresh_stamp x w w' (u_ConcurrencyStamp r))"
  using assms(1)
proof (induction rule: rtranclp_induct2)
  case refl
  with assms show ?case by simp
next
  case (step u1 w1 u2 w2)
  from step.IH have 1: "inv (db w1)" "tape w \<le> tape w1" by auto
  note 2 = copy_step_rows [OF step(2) assms(2) 1(1)]
  show ?case
  proof (intro conjI allI impI)
    fix i r assume "rows (db w2) i = Some r"
    with 2 have "rows (db w1) i = Some r \<or> fresh_stamp x w1 w2 (u_ConcurrencyStamp r)" by blast
    with step.IH 1(2) 2 show "rows (db w) i = Some r \<or> fresh_stamp x w w2 (u_ConcurrencyStamp r)"
      by (meson fresh_wider order_refl)
  qed (use 1 2 in auto)
qed

text \<open>Creation: the prepared user has a fresh stamp and, when it passes, a free name and email.\<close>

lemma prepare_props:
  assumes "UserManager_prepareForCreate x m u w = (e, u', w')"
    and m: "um_Store m = S" "um_Normalize m [] = []" and inv: "inv (db w)"
  shows "db w' = db w \<and> tape w \<le> tape w'"
    and "e \<noteq> None \<and> u' = u \<or> fresh_stamp x w w' (u_ConcurrencyStamp u')"
    and "e = None \<Longrightarrow> rows (db w) j = Some v \<Longrightarrow> u_NormalizedUserName v \<noteq> u_NormalizedUserName u'"
    and "e = None \<Longrightarrow> RequireUniqueEmail (o_User (um_Options m)) \<Longrightarrow> rows (db w) j = Some v \<Longrightarrow>
      u_NormalizedEmail u' \<noteq> [] \<Longrightarrow> u_NormalizedEmail v \<noteq> u_NormalizedEmail u'"
proof -
  let ?ok = "UserManager_ValidateUserName m (u_UserName u) = None"
  obtain u1 w1 where 1: "(if u_ID u = [] then (let (i, w) = draw (uuid_NewString x) w in (u\<lparr>u_ID := i\<rparr>, w))
      else (u, w)) = (u1, w1)" by fastforce
  then have w1: "db w1 = db w" "tape w \<le> tape w1" "u_UserName u1 = u_UserName u" "u_Email u1 = u_Email u"
    by (auto split: if_splits)
  define w2 where "w2 = w1\<lparr>tape := snd (newStamp x (tape w1))\<rparr>"
  define u2 where "u2 = u1\<lparr>u_NormalizedUserName := um_Normalize m (u_UserName u1),
    u_NormalizedEmail := um_Normalize m (u_Email u1), u_SecurityStamp := fst (newStamp x (tape w1)),
    u_ConcurrencyStamp := x_uuid x (tape w2),
    u_LockoutEnabled := AllowedForNewUsers (o_Lockout (um_Options m))\<rparr>"
  let ?w3 = "w2\<lparr>tape := tape w2 + 16\<rparr>"
  have w2: "db w2 = db w" "tape w \<le> tape w2"
    using w1 order_trans [OF w1(2) newStamp_forward] by (auto simp: w2_def)
  have res: "(e, u', w') = (case UserManager_ValidateUserName m (u_UserName u) of
      Some e \<Rightarrow> (Some e, u, w)
    | None \<Rightarrow> (case taken ErrDuplicateUserName (us_FindByName S (u_NormalizedUserName u2) ?w3) of
        Some e \<Rightarrow> (Some e, u2, ?w3)
      | None \<Rightarrow> if RequireUniqueEmail (o_User (um_Options m)) \<and> u_Email u2 \<noteq> []
          then (taken ErrDuplicateEmail (us_FindByEmail S (u_NormalizedEmail u2) ?w3), u2, ?w3)
          else (None, u2, ?w3)))"
    using assms(1) unfolding UserManager_prepareForCreate_def 1
    by (simp add: Let_def draw_def u2_def w2_def m uuid_NewString_def cong: if_cong option.case_cong)
  have f: "fresh_stamp x w ?w3 (u_ConcurrencyStamp u2)"
    using w2 by (auto simp: fresh_stamp_def u2_def intro!: exI [of _ "tape w2"])
  show "db w' = db w \<and> tape w \<le> tape w'"
    using res w2 by (auto split: option.splits if_splits)
  show "e \<noteq> None \<and> u' = u \<or> fresh_stamp x w w' (u_ConcurrencyStamp u')"
    using res f by (auto split: option.splits if_splits)
  have inv3: "inv (db ?w3)" using inv w2 by simp
  show "e = None \<Longrightarrow> rows (db w) j = Some v \<Longrightarrow> u_NormalizedUserName v \<noteq> u_NormalizedUserName u'"
    using res FindByName_none [OF inv3] w2
    by (auto simp: taken_def split: option.splits if_splits sum.splits)
  have "u_Email u2 = [] \<Longrightarrow> u_NormalizedEmail u2 = []" using m(2) by (simp add: u2_def)
  then show "e = None \<Longrightarrow> RequireUniqueEmail (o_User (um_Options m)) \<Longrightarrow> rows (db w) j = Some v \<Longrightarrow>
      u_NormalizedEmail u' \<noteq> [] \<Longrightarrow> u_NormalizedEmail v \<noteq> u_NormalizedEmail u'"
    using res FindByEmail_none [OF inv3] w2
    by (auto simp: taken_def split: option.splits if_splits sum.splits)
qed

lemma acct_ok_unseen:
  assumes "acct_ok x ue w R P" "uuid_ok x" "fresh_stamp x w w' (u_ConcurrencyStamp u)" "tape w \<le> tape w'"
  shows "acct_ok x ue w' R (insert u P)"
proof (rule acct_ok_insert [OF acct_ok_tape [OF assms(1,4)]])
  show "issued x w' (u_ConcurrencyStamp u) \<or> u_ConcurrencyStamp u = []" using assms(3) fresh_issued by blast
  fix r assume "R (u_ID u) = Some r" "u_ConcurrencyStamp r = u_ConcurrencyStamp u"
  with assms(1) have "issued x w (u_ConcurrencyStamp u)" unfolding acct_ok_def stamps_ok_def by metis
  with fresh_not_issued [OF assms(2,3)] show "same_keys r u" by simp
qed

lemma create_ok:
  assumes prep: "UserManager_prepareForCreate x m u w = (None, u1, w1)"
    and m: "um_Store m = S" "um_Normalize m [] = []" and uuid: "uuid_ok x"
    and ue: "RequireUniqueEmail (o_User (um_Options m)) = ue"
    and inv: "inv (db w)" and ok: "acct_ok x ue w (rows (db w)) P"
    and u2: "same_keys u1 u2" and w2: "db w2 = db w1" "tape w1 \<le> tape w2"
    and cr: "us_Create S u2 w2 = (e, u', w')"
  shows "inv (db w') \<and> tape w \<le> tape w' \<and> acct_ok x ue w' (rows (db w')) (insert u' P) \<and>
    (\<forall>i r. rows (db w') i = Some r \<longrightarrow> rows (db w) i = Some r \<or> fresh_stamp x w w' (u_ConcurrencyStamp r))"
proof -
  note pr = prepare_props [OF prep m inv]
  have w1: "db w2 = db w" "tape w \<le> tape w2" using pr(1) w2 by auto
  from Create_total [of w2 u2] cr inv w1 have "e = None" by auto
  with cr Create_ok [of w2 u2 u' w'] inv w1
  have c: "inv (db w')" "u' = u2" "tape w2 \<le> tape w'" "rows (db w') = (rows (db w))(u_ID u2 \<mapsto> u2)" by auto
  have f: "fresh_stamp x w w' (u_ConcurrencyStamp u2)"
    using pr(2) u2 w2 c by (auto simp: same_keys_def intro: fresh_wider)
  have "acct_ok x ue w' ((rows (db w))(u_ID u2 \<mapsto> u2)) (insert u2 P)"
    using pr(3,4) u2 ue w1 c(3) by (intro acct_ok_write [OF ok uuid _ f]) (auto simp: same_keys_def)
  with c f w1 show ?thesis by auto
qed

end

section \<open>Clients of the in-memory store\<close>

text \<open>
  A state is a world and the set of user values that clients hold. A client loads a user, makes a
  new one, edits fields other than ID, stamp, normalized name and email, or runs an operation; an
  operation's result stands beside the copies held before (other clients may hold them). Calls
  that leave the users' table alone are steps of the store.

  A step is a whole manager operation: its lookups and its write have no other operation between
  them. \<open>Create\<close>, \<open>SetUserName\<close>, \<open>SetEmail\<close>, \<open>ChangeEmail\<close> and \<open>ConvertToRegistered\<close> look up the
  new name or email and write it in a second call of the store, which does not test it again, so
  what follows from these steps is a fact about operations that do not overlap.

  \<open>CreateAnonymous\<close> looks nothing up: the name it takes is the 128 random bits it draws, and a
  step of it is one whose draw is not a name some row has.
\<close>

definition guest_draw :: "extern \<Rightarrow> 's user_manager \<Rightarrow> 's world \<Rightarrow> string" where
  "guest_draw x m w = um_Normalize m (''guest_'' @ fst (randomHex x 16 (tape w + 16)))"

inductive acct_step :: "extern \<Rightarrow> memstore user_manager \<Rightarrow>
    memstore world \<times> user set \<Rightarrow> memstore world \<times> user set \<Rightarrow> bool" for x m where
  load_id: "UserManager_FindByID m i w = Inr u \<Longrightarrow> acct_step x m (w, P) (w, insert u P)"
| load_name: "UserManager_FindByName m i w = Inr u \<Longrightarrow> acct_step x m (w, P) (w, insert u P)"
| load_email: "UserManager_FindByEmail m i w = Inr u \<Longrightarrow> acct_step x m (w, P) (w, insert u P)"
| load_login: "UserManager_FindByLogin m p k w = Inr u \<Longrightarrow> acct_step x m (w, P) (w, insert u P)"
| new_user: "u_ConcurrencyStamp u = [] \<Longrightarrow> acct_step x m (w, P) (w, insert u P)"
| edit_user: "u \<in> P \<Longrightarrow> same_keys u v \<Longrightarrow> acct_step x m (w, P) (w, insert v P)"
| do_Create: "UserManager_Create x m u w = (e, u', w') \<Longrightarrow> u \<in> P \<Longrightarrow> acct_step x m (w, P) (w', insert u' P)"
| do_CreateWithPassword: "UserManager_CreateWithPassword x m u pw w = (e, u', w') \<Longrightarrow> u \<in> P \<Longrightarrow>
    acct_step x m (w, P) (w', insert u' P)"
| do_CreateAnonymous: "UserManager_CreateAnonymous x m now w = (Inr u', w') \<Longrightarrow>
    guest_draw x m w \<notin> u_NormalizedUserName ` snd ` set (m_users (db w)) \<Longrightarrow>
    acct_step x m (w, P) (w', insert u' P)"
| do_CheckPassword: "UserManager_CheckPassword m u pw w = (b, u', w') \<Longrightarrow> u \<in> P \<Longrightarrow>
    acct_step x m (w, P) (w', insert u' P)"
| do_ChangePassword: "UserManager_ChangePassword x m u cur pw w = (e, u', w') \<Longrightarrow> u \<in> P \<Longrightarrow>
    acct_step x m (w, P) (w', insert u' P)"
| do_AddPassword: "UserManager_AddPassword x m u pw w = (e, u', w') \<Longrightarrow> u \<in> P \<Longrightarrow>
    acct_step x m (w, P) (w', insert u' P)"
| do_RemovePassword: "UserManager_RemovePassword x m u w = (e, u', w') \<Longrightarrow> u \<in> P \<Longrightarrow>
    acct_step x m (w, P) (w', insert u' P)"
| do_ResetPassword: "UserManager_ResetPassword x m now u tok pw w = (e, u', w') \<Longrightarrow> u \<in> P \<Longrightarrow>
    acct_step x m (w, P) (w', insert u' P)"
| do_SetUserName: "UserManager_SetUserName x m u n w = (e, u', w') \<Longrightarrow> u \<in> P \<Longrightarrow>
    acct_step x m (w, P) (w', insert u' P)"
| do_SetEmail: "UserManager_SetEmail x m u n w = (e, u', w') \<Longrightarrow> u \<in> P \<Longrightarrow>
    acct_step x m (w, P) (w', insert u' P)"
| do_ConfirmEmail: "UserManager_ConfirmEmail x m now u tok w = (e, u', w') \<Longrightarrow> u \<in> P \<Longrightarrow>
    acct_step x m (w, P) (w', insert u' P)"
| do_ChangeEmail: "UserManager_ChangeEmail x m now u n tok w = (e, u', w') \<Longrightarrow> u \<in> P \<Longrightarrow>
    acct_step x m (w, P) (w', insert u' P)"
| do_UpdateSecurityStamp: "UserManager_UpdateSecurityStamp x m u w = (e, u', w') \<Longrightarrow> u \<in> P \<Longrightarrow>
    acct_step x m (w, P) (w', insert u' P)"
| do_AccessFailed: "UserManager_AccessFailed m now u w = (e, u', w') \<Longrightarrow> u \<in> P \<Longrightarrow>
    acct_step x m (w, P) (w', insert u' P)"
| do_ResetAccessFailedCount: "UserManager_ResetAccessFailedCount m u w = (e, u', w') \<Longrightarrow> u \<in> P \<Longrightarrow>
    acct_step x m (w, P) (w', insert u' P)"
| do_ConvertToRegistered: "UserManager_ConvertToRegistered x m u n em pw w = (e, u', w') \<Longrightarrow> u \<in> P \<Longrightarrow>
    acct_step x m (w, P) (w', insert u' P)"
| do_ConfirmPhoneNumber: "UserManager_ConfirmPhoneNumber x m now u c w = (e, u', w') \<Longrightarrow> u \<in> P \<Longrightarrow>
    acct_step x m (w, P) (w', insert u' P)"
| do_SetPhoneNumber: "UserManager_SetPhoneNumber x m u ph w = (e, u', w') \<Longrightarrow> u \<in> P \<Longrightarrow>
    acct_step x m (w, P) (w', insert u' P)"
| do_ChangePhoneNumber: "UserManager_ChangePhoneNumber x m now u ph c w = (e, u', w') \<Longrightarrow> u \<in> P \<Longrightarrow>
    acct_step x m (w, P) (w', insert u' P)"
| do_SetTwoFactorEnabled: "UserManager_SetTwoFactorEnabled x m u b w = (e, u', w') \<Longrightarrow> u \<in> P \<Longrightarrow>
    acct_step x m (w, P) (w', insert u' P)"
| do_passwordSignInUser: "SignInManager_passwordSignInUser s now u pw lk w = (r, u', w') \<Longrightarrow>
    sm_Users s = m \<Longrightarrow> u \<in> P \<Longrightarrow> acct_step x m (w, P) (w', insert u' P)"
| do_AuthenticatorSignIn: "SignInManager_TwoFactorAuthenticatorSignIn x s now u c w = (r, u', w') \<Longrightarrow>
    sm_Users s = m \<Longrightarrow> u \<in> P \<Longrightarrow> acct_step x m (w, P) (w', insert u' P)"
| do_PhoneSignIn: "SignInManager_TwoFactorPhoneSignIn x s now u c w = (r, u', w') \<Longrightarrow>
    sm_Users s = m \<Longrightarrow> u \<in> P \<Longrightarrow> acct_step x m (w, P) (w', insert u' P)"
| do_RecoveryCodeSignIn: "SignInManager_TwoFactorRecoveryCodeSignIn x s now u c w = (r, u', w') \<Longrightarrow>
    sm_Users s = m \<Longrightarrow> u \<in> P \<Longrightarrow> acct_step x m (w, P) (w', insert u' P)"
| do_Delete: "UserManager_Delete m u w = (e, w') \<Longrightarrow> acct_step x m (w, P) (w', P)"
| do_Purge: "UserManager_PurgeAnonymousUsers m t w = (n, w') \<Longrightarrow> acct_step x m (w, P) (w', P)"
| do_other: "mem_step x w w' \<Longrightarrow> m_users (db w') = m_users (db w) \<Longrightarrow> acct_step x m (w, P) (w', P)"

text \<open>The conditions on the manager, and the invariant of a state.\<close>

definition manager_ok :: "extern \<Rightarrow> memstore user_manager \<Rightarrow> bool" where
  "manager_ok x m \<longleftrightarrow> um_Store m = memstore_Users x \<and> hash_forward m \<and> um_Normalize m [] = []"

abbreviation unique_email :: "'s user_manager \<Rightarrow> bool" where
  "unique_email m \<equiv> RequireUniqueEmail (o_User (um_Options m))"

abbreviation user_rows :: "memstore world \<Rightarrow> string \<Rightarrow> user option" where
  "user_rows w \<equiv> map_of (m_users (db w))"

definition acct_inv :: "extern \<Rightarrow> memstore user_manager \<Rightarrow> memstore world \<times> user set \<Rightarrow> bool" where
  "acct_inv x m = (\<lambda>(w, P). mem_wf (db w) \<and> acct_ok x (unique_email m) w (user_rows w) P)"

text \<open>What a step may do to the table of users: keep a row or put one with a fresh stamp.\<close>

definition rows_forward :: "extern \<Rightarrow> memstore world \<Rightarrow> memstore world \<Rightarrow> bool" where
  "rows_forward x w w' \<longleftrightarrow> tape w \<le> tape w' \<and> (\<forall>i r. user_rows w' i = Some r \<longrightarrow>
     user_rows w i = Some r \<or> fresh_stamp x w w' (u_ConcurrencyStamp r))"

lemma acct_copy_steps:
  assumes "copy_steps m (u, w) (u', w')" "uuid_ok x" "manager_ok x m" "acct_inv x m (w, P)" "u \<in> P"
  shows "acct_inv x m (w', insert u' P) \<and> rows_forward x w w'"
proof -
  from assms have "um_Store m = memstore_Users x" "mem_wf (db w)"
    "acct_ok x (unique_email m) w (user_rows w) P" by (auto simp: manager_ok_def acct_inv_def)
  from mem.copy_steps_ok [OF assms(1) this(1) refl assms(2) this(2,3) assms(5)]
    mem.copy_steps_rows [OF assms(1) this(1,2)]
  show ?thesis by (auto simp: acct_inv_def rows_forward_def)
qed

lemma acct_create:
  assumes "UserManager_prepareForCreate x m u w = (e1, u1, w1)" "uuid_ok x" "manager_ok x m"
    and "acct_inv x m (w, P)" "u \<in> P"
    and "e1 \<noteq> None \<Longrightarrow> (u', w') = (u1, w1)"
    and "e1 = None \<Longrightarrow> \<exists>u2 w2 e. same_keys u1 u2 \<and> db w2 = db w1 \<and> tape w1 \<le> tape w2 \<and>
      us_Create (um_Store m) u2 w2 = (e, u', w')"
  shows "acct_inv x m (w', insert u' P) \<and> rows_forward x w w'"
proof -
  from assms have m: "um_Store m = memstore_Users x" "um_Normalize m [] = []" and wf: "mem_wf (db w)"
    and ok: "acct_ok x (unique_email m) w (user_rows w) P" by (auto simp: manager_ok_def acct_inv_def)
  note pr = mem.prepare_props(1,2) [OF assms(1) m wf]
  show ?thesis
  proof (cases e1)
    case None
    with assms(7) m obtain u2 w2 e where 2: "same_keys u1 u2" "db w2 = db w1" "tape w1 \<le> tape w2"
      "us_Create (memstore_Users x) u2 w2 = (e, u', w')" by auto
    from mem.create_ok [OF assms(1) [unfolded None] m assms(2) refl wf ok 2] show ?thesis
      by (simp add: acct_inv_def rows_forward_def)
  next
    case (Some e)
    with assms(6) have 2: "u' = u1" "w' = w1" by auto
    have "acct_ok x (unique_email m) w1 (user_rows w) (insert u1 P)"
    proof (cases "u1 = u")
      case True
      with ok assms(5) pr(1) show ?thesis by (auto simp: insert_absorb intro: acct_ok_tape)
    next
      case False
      with pr mem.acct_ok_unseen [OF ok assms(2)] show ?thesis by blast
    qed
    with 2 wf pr(1) show ?thesis by (simp add: acct_inv_def rows_forward_def)
  qed
qed

lemma steps_AuthenticatorSignIn:
  assumes "SignInManager_TwoFactorAuthenticatorSignIn x s now u c w = (r, u', w')"
  shows "copy_steps (sm_Users s) (u, w) (u', w')"
  using assms steps_count_second_factor
  by (auto simp: SignInManager_TwoFactorAuthenticatorSignIn_def split: if_splits)

lemma steps_PhoneSignIn:
  assumes "SignInManager_TwoFactorPhoneSignIn x s now u c w = (r, u', w')"
  shows "copy_steps (sm_Users s) (u, w) (u', w')"
proof -
  obtain v w1 where v: "UserManager_VerifyPhoneToken x (sm_Users s) now u c w = (v, w1)" by fastforce
  note 1 = steps_consumePhoneCode [OF v [unfolded UserManager_VerifyPhoneToken_def], of u]
  show ?thesis
    using assms v steps_count_second_factor [of s now v u w1 r u' w', THEN rtranclp_trans [OF 1]]
    by (auto simp: SignInManager_TwoFactorPhoneSignIn_def split: if_splits)
qed

lemma steps_RecoveryCodeSignIn:
  assumes "SignInManager_TwoFactorRecoveryCodeSignIn x s now u c w = (r, u', w')"
  shows "copy_steps (sm_Users s) (u, w) (u', w')"
proof -
  obtain v w1 where v: "UserManager_RedeemRecoveryCode x (sm_Users s) u c w = (v, w1)" by fastforce
  obtain e2 u2 w2 where r: "UserManager_ResetAccessFailedCount (sm_Users s) u w1 = (e2, u2, w2)"
    by (metis prod_cases3)
  have 1: "copy_steps (sm_Users s) (u, w) (u, w1)" by (rule steps_RedeemRecoveryCode [OF v])
  have 2: "copy_steps (sm_Users s) (u, w) (u2, w2)"
    by (rule rtranclp_trans [OF 1 steps_ResetAccessFailedCount [OF r]])
  show ?thesis
    using assms 1 2
    by (auto simp: SignInManager_TwoFactorRecoveryCodeSignIn_def v r split: if_splits sum.splits bool.splits)
qed

lemma fold_cascade_rows: "map_of (m_users (fold cascadeDeleteLocked ids s)) i = Some u \<Longrightarrow>
   map_of (m_users s) i = Some u"
proof (induction ids arbitrary: s)
  case (Cons a ids)
  then have "map_of (m_users (cascadeDeleteLocked a s)) i = Some u" by simp
  then show ?case by (simp add: cascade_users map_of_delete_fun split: if_splits)
qed simp

lemma purge_rows:
  assumes "userStore_PurgeAnonymousUsers t w = (n, w')"
  shows "tape w' = tape w" "user_rows w' i = Some u \<Longrightarrow> user_rows w i = Some u"
proof -
  from assms obtain ids where "w' = upd_db (fold cascadeDeleteLocked ids) w"
    unfolding userStore_PurgeAnonymousUsers_def Let_def by blast
  then show "tape w' = tape w" "user_rows w' i = Some u \<Longrightarrow> user_rows w i = Some u"
    using fold_cascade_rows [of ids "db w" i u] by simp_all
qed

lemma acct_removes:
  assumes "acct_inv x m (w, P)" "mem_wf (db w')" "tape w \<le> tape w'"
    and "\<And>i u. user_rows w' i = Some u \<Longrightarrow> user_rows w i = Some u"
  shows "acct_inv x m (w', P) \<and> rows_forward x w w'"
  using assms acct_ok_restrict [OF acct_ok_tape [of x "unique_email m" w "user_rows w" P w']]
  by (auto simp: acct_inv_def rows_forward_def)

text \<open>A guest is stored under a fresh stamp and without an email.\<close>

lemma CreateAnonymous_props:
  assumes "UserManager_CreateAnonymous x m now w = (Inr u', w')" "um_Store m = memstore_Users x" "mem_wf (db w)"
  shows "mem_wf (db w')" "fresh_stamp x w w' (u_ConcurrencyStamp u')" "tape w \<le> tape w'"
    "user_rows w' = (user_rows w)(u_ID u' \<mapsto> u')" "u_NormalizedEmail u' = []"
    "u_NormalizedUserName u' = guest_draw x m w"
    "\<exists>v w1. db w1 = db w \<and> tape w \<le> tape w1 \<and> u_ConcurrencyStamp v = x_uuid x (tape w1) \<and>
      userStore_Create v (w1\<lparr>tape := tape w1 + 16\<rparr>) = (None, u', w')"
proof -
  define u1 where "u1 = zero_user\<lparr>u_ID := x_uuid x (tape w),
    u_UserName := ''guest_'' @ fst (randomHex x 16 (tape w + 16)),
    u_NormalizedUserName := um_Normalize m (''guest_'' @ fst (randomHex x 16 (tape w + 16))),
    u_IsAnonymous := True\<rparr>"
  define w1 where "w1 = w\<lparr>tape := snd (randomHex x 16 (tape w + 16))\<rparr>"
  obtain u2 w2 where 2: "rotate_stamp x u1 w1 = (u2, w2)" by fastforce
  define u3 where "u3 = u2\<lparr>u_ConcurrencyStamp := x_uuid x (tape w2),
    u_LockoutEnabled := AllowedForNewUsers (o_Lockout (um_Options m)), u_CreatedAt := now\<rparr>"
  from rotate_stamp_props [OF 2] obtain st where u2: "u2 = u1\<lparr>u_SecurityStamp := st\<rparr>"
    and w2: "db w2 = db w" "tape w1 \<le> tape w2" by (auto simp: w1_def)
  have z: "u_CreatedAt u2 = zero_time" by (simp add: u2 u1_def zero_user_def)
  have run: "UserManager_CreateAnonymous x m now w =
      (case us_Create (memstore_Users x) u3 (w2\<lparr>tape := tape w2 + 16\<rparr>) of
         (Some e, u, w) \<Rightarrow> (Inl e, w) | (None, u, w) \<Rightarrow> (Inr u, w))"
    using 2 z by (simp add: UserManager_CreateAnonymous_def draw_def uuid_NewString_def Let_def assms(2)
        u1_def w1_def u3_def)
  have t: "tape w \<le> tape w2" using w2(2) by (simp add: w1_def randomHex_def rand_Read_def)
  from assms(1) run obtain u where c: "us_Create (memstore_Users x) u3 (w2\<lparr>tape := tape w2 + 16\<rparr>) = (None, u', w')"
    by (auto split: prod.splits option.splits)
  from mem.Create_ok [OF _ this] assms(3) w2
  have r: "mem_wf (db w')" "u' = u3" "tape w2 + 16 \<le> tape w'" "user_rows w' = (user_rows w)(u_ID u3 \<mapsto> u3)" by auto
  then show "mem_wf (db w')" "user_rows w' = (user_rows w)(u_ID u' \<mapsto> u')" by auto
  show "fresh_stamp x w w' (u_ConcurrencyStamp u')"
    using t r by (auto simp: fresh_stamp_def u3_def intro!: exI [of _ "tape w2"])
  show "tape w \<le> tape w'" using t r by simp
  show "u_NormalizedEmail u' = []" by (simp add: r u3_def u2 u1_def zero_user_def)
  show "u_NormalizedUserName u' = guest_draw x m w" by (simp add: r u3_def u2 u1_def guest_draw_def)
  from c have "userStore_Create u3 (w2\<lparr>tape := tape w2 + 16\<rparr>) = (None, u', w')" by (simp add: memstore_Users_def)
  moreover have "u_ConcurrencyStamp u3 = x_uuid x (tape w2)" by (simp add: u3_def)
  ultimately show "\<exists>v w1. db w1 = db w \<and> tape w \<le> tape w1 \<and> u_ConcurrencyStamp v = x_uuid x (tape w1) \<and>
      userStore_Create v (w1\<lparr>tape := tape w1 + 16\<rparr>) = (None, u', w')"
    using w2 t by (auto simp: w1_def)
qed

lemma acct_anonymous:
  assumes "UserManager_CreateAnonymous x m now w = (Inr u', w')"
    and "guest_draw x m w \<notin> u_NormalizedUserName ` snd ` set (m_users (db w))"
    and "uuid_ok x" "manager_ok x m" "acct_inv x m (w, P)"
  shows "acct_inv x m (w', insert u' P) \<and> rows_forward x w w'"
proof -
  from assms have m: "um_Store m = memstore_Users x" and wf: "mem_wf (db w)"
    and ok: "acct_ok x (unique_email m) w (user_rows w) P" by (auto simp: manager_ok_def acct_inv_def)
  note pr = CreateAnonymous_props [OF assms(1) m wf]
  have "u_NormalizedUserName v \<noteq> u_NormalizedUserName u'" if "user_rows w j = Some v" for j v
    using assms(2) map_of_SomeD [OF that] pr(6) by (metis imageI snd_conv)
  with pr have "acct_ok x (unique_email m) w' ((user_rows w)(u_ID u' \<mapsto> u')) (insert u' P)"
    by (intro acct_ok_write [OF ok assms(3)]) auto
  with pr show ?thesis by (simp add: acct_inv_def rows_forward_def)
qed

lemma acct_loads:
  assumes "acct_inv x m (w, P)" "user_rows w (u_ID u) = Some u"
  shows "acct_inv x m (w, insert u P) \<and> rows_forward x w w"
  using assms by (auto simp: acct_inv_def rows_forward_def intro: acct_ok_row)

lemma acct_load:
  assumes "manager_ok x m" "acct_inv x m (w, P)"
    and "UserManager_FindByID m i w = Inr u \<or> UserManager_FindByName m i w = Inr u \<or> UserManager_FindByEmail m i w = Inr u \<or>
      UserManager_FindByLogin m p k w = Inr u"
  shows "acct_inv x m (w, insert u P) \<and> rows_forward x w w"
proof -
  from assms have m: "um_Store m = memstore_Users x" and wf: "mem_wf (db w)" by (auto simp: manager_ok_def acct_inv_def)
  have "user_rows w (u_ID u) = Some u"
    using assms(3) mem.FindByID [OF wf, of x] wf_row(1) [OF wf, of i u] mem.FindByName_some [OF wf, of x _ u]
      mem.FindByEmail_some [OF wf, of x _ u] mem.FindByLogin_some [OF wf, of x p k u]
    by (auto simp: UserManager_FindByID_def UserManager_FindByName_def UserManager_FindByEmail_def UserManager_FindByLogin_def m)
  then show ?thesis by (rule acct_loads [OF assms(2)])
qed

lemma acct_new:
  assumes "uuid_ok x" "acct_inv x m (w, P)" "u_ConcurrencyStamp u = []"
  shows "acct_inv x m (w, insert u P) \<and> rows_forward x w w"
proof -
  have "u_ConcurrencyStamp r \<noteq> []" if "user_rows w i = Some r" for i r
    using assms(2) that uuid_ne [OF assms(1)] unfolding acct_inv_def acct_ok_def stamps_ok_def issued_def by force
  with assms(2,3) show ?thesis by (auto simp: acct_inv_def rows_forward_def intro!: acct_ok_insert)
qed

lemma acct_Create:
  assumes "UserManager_Create x m u w = (e, u', w')" "uuid_ok x" "manager_ok x m" "acct_inv x m (w, P)" "u \<in> P"
  shows "acct_inv x m (w', insert u' P) \<and> rows_forward x w w'"
proof -
  obtain e1 u1 w1 where p: "UserManager_prepareForCreate x m u w = (e1, u1, w1)" by (metis prod_cases3)
  show ?thesis by (rule acct_create [OF p assms(2-5)])
      (use assms(1) p in \<open>auto simp: UserManager_Create_def split: option.splits intro: same_keys_refl\<close>)
qed

lemma acct_CreateWithPassword:
  assumes "UserManager_CreateWithPassword x m u pw w = (e, u', w')" "uuid_ok x" "manager_ok x m" "acct_inv x m (w, P)" "u \<in> P"
  shows "acct_inv x m (w', insert u' P) \<and> rows_forward x w w'"
proof (cases "UserManager_ValidatePassword x m pw")
  case None
  obtain e1 u1 w1 where p: "UserManager_prepareForCreate x m u w = (e1, u1, w1)" by (metis prod_cases3)
  let ?h = "ph_Hash (um_Hasher m) u1 pw (tape w1)"
  show ?thesis
  proof (rule acct_create [OF p assms(2-5)])
    assume "e1 = None"
    with assms(1) p None have "us_Create (um_Store m) (u1\<lparr>u_PasswordHash := fst ?h\<rparr>) (w1\<lparr>tape := snd ?h\<rparr>) = (e, u', w')"
      by (simp add: UserManager_CreateWithPassword_def draw_def)
    moreover have "tape w1 \<le> snd ?h" using assms(3) by (simp add: manager_ok_def hash_forward_def)
    ultimately show "\<exists>u2 w2 e. same_keys u1 u2 \<and> db w2 = db w1 \<and> tape w1 \<le> tape w2 \<and> us_Create (um_Store m) u2 w2 = (e, u', w')"
      by (intro exI [of _ "u1\<lparr>u_PasswordHash := fst ?h\<rparr>"] exI [of _ "w1\<lparr>tape := snd ?h\<rparr>"] exI [of _ e]) (simp add: same_keys_def)
  qed (use assms(1) p None in \<open>auto simp: UserManager_CreateWithPassword_def split: option.splits\<close>)
next
  case (Some e')
  with assms show ?thesis by (auto simp: UserManager_CreateWithPassword_def insert_absorb rows_forward_def)
qed

lemma acct_Delete:
  assumes "UserManager_Delete m u w = (e, w')" "manager_ok x m" "acct_inv x m (w, P)"
  shows "acct_inv x m (w', P) \<and> rows_forward x w w'"
proof -
  from assms have m: "um_Store m = memstore_Users x" and wf: "mem_wf (db w)" by (auto simp: manager_ok_def acct_inv_def)
  have "mem_wf (db w') \<and> tape w \<le> tape w' \<and> user_rows w' = (user_rows w)(u_ID u := None)"
    using assms(1) mem.Delete_ok [OF wf, of x u w'] by (simp add: UserManager_Delete_def m memstore_Users_def userStore_Delete_def)
  then have "mem_wf (db w')" "tape w \<le> tape w'" "\<And>i u. user_rows w' i = Some u \<Longrightarrow> user_rows w i = Some u" by (auto split: if_splits)
  from acct_removes [OF assms(3) this] show ?thesis by simp
qed

lemma acct_Purge:
  assumes "UserManager_PurgeAnonymousUsers m t w = (n, w')" "manager_ok x m" "acct_inv x m (w, P)"
  shows "acct_inv x m (w', P) \<and> rows_forward x w w'"
proof -
  from assms have m: "um_Store m = memstore_Users x" and wf: "mem_wf (db w)" by (auto simp: manager_ok_def acct_inv_def)
  have p: "userStore_PurgeAnonymousUsers t w = (n, w')" using assms(1) by (simp add: UserManager_PurgeAnonymousUsers_def m memstore_Users_def)
  from user_writes_wf(4) [OF wf p] purge_rows [OF p]
  have "mem_wf (db w')" "tape w \<le> tape w'" "\<And>i u. user_rows w' i = Some u \<Longrightarrow> user_rows w i = Some u" by auto
  from acct_removes [OF assms(3) this] show ?thesis by simp
qed

text \<open>The operations that work on one copy of a user, each a sequence of \<open>copy_step\<close>s.\<close>

lemmas copying = steps_CheckPassword steps_ChangePassword steps_AddPassword steps_RemovePassword steps_ResetPassword
  steps_SetUserName steps_SetEmail steps_ConfirmEmail steps_ChangeEmail steps_UpdateSecurityStamp steps_AccessFailed
  steps_ResetAccessFailedCount steps_ConvertToRegistered steps_ConfirmPhoneNumber steps_SetPhoneNumber steps_ChangePhoneNumber
  steps_SetTwoFactorEnabled

lemma acct_step_inv:
  assumes "acct_step x m (w, P) (w', P')" and uuid: "uuid_ok x" and mo: "manager_ok x m"
    and inv: "acct_inv x m (w, P)"
  shows "acct_inv x m (w', P') \<and> rows_forward x w w'"
proof -
  have hf: "hash_forward m" using mo by (simp add: manager_ok_def)
  note copy = acct_copy_steps [OF _ uuid mo inv]
  note ops = acct_new [OF uuid inv] acct_Create [OF _ uuid mo inv] acct_CreateWithPassword [OF _ uuid mo inv]
    acct_anonymous [OF _ _ uuid mo inv] acct_Delete [OF _ mo inv] acct_Purge [OF _ mo inv] copying [THEN copy]
  show ?thesis
    using assms(1)
  proof cases
    case (edit_user u v)
    with inv show ?thesis by (auto simp: acct_inv_def rows_forward_def intro: acct_ok_held)
  next
    case do_other
    moreover have "mem_wf (db w)" using inv by (simp add: acct_inv_def)
    ultimately show ?thesis using mem_step_wf mem_step_tape acct_removes [OF inv, of w'] by auto
  next
    case (do_passwordSignInUser s now u pw lk r u')
    then show ?thesis using steps_passwordSignInUser hf copy by blast
  next
    case (do_AuthenticatorSignIn s now u c r u')
    then show ?thesis using steps_AuthenticatorSignIn copy by blast
  next
    case (do_PhoneSignIn s now u c r u')
    then show ?thesis using steps_PhoneSignIn copy by blast
  next
    case (do_RecoveryCodeSignIn s now u c r u')
    then show ?thesis using steps_RecoveryCodeSignIn copy by blast
  qed (hypsubst, ((rule acct_load [OF mo inv], blast) | (rule ops, (assumption | rule hf)+)))+
qed

end
