(* ===== verification/Store_Calls.thy ===== *)
theory Store_Calls
  imports Account_System
begin

text \<open>
  The in-memory user store as concurrent requests use it: a step is one call of the store, which
  holds its mutex, and the calls of different requests come in any order. No update waits for the
  lookups that went before it. Every manager operation is a run of such calls, so an interleaving
  of operations is a run of them too. The theory shows what the rotation of the concurrency stamp
  gives in every such run: a stamp that was overwritten never comes back.
\<close>

section \<open>Calls\<close>

text \<open>
  A state is a world and the stamps drawn for users that are being created: \<open>prepareForCreate\<close>
  and \<open>CreateAnonymous\<close> draw one each, and hand the user to \<open>Create\<close> at most once. \<open>Update\<close> and
  \<open>Delete\<close> take any user at all: whatever copy a request loaded or made up, edited in any way.
\<close>

inductive call_step :: "extern \<Rightarrow> memstore world \<times> string set \<Rightarrow> memstore world \<times> string set \<Rightarrow> bool"
  for x where
  call_draw: "uuid_NewString x (tape w) = (s, t) \<Longrightarrow> call_step x (w, D) (w\<lparr>tape := t\<rparr>, insert s D)"
| call_Create: "userStore_Create u w = (e, u', w') \<Longrightarrow> u_ConcurrencyStamp u \<in> D \<Longrightarrow>
    call_step x (w, D) (w', D - {u_ConcurrencyStamp u})"
| call_Update: "userStore_Update x u w = (e, u', w') \<Longrightarrow> call_step x (w, D) (w', D)"
| call_Delete: "userStore_Delete u w = (e, w') \<Longrightarrow> call_step x (w, D) (w', D)"
| call_Purge: "userStore_PurgeAnonymousUsers t w = (n, w') \<Longrightarrow> call_step x (w, D) (w', D)"
| call_other: "mem_step x w w' \<Longrightarrow> m_users (db w') = m_users (db w) \<Longrightarrow> call_step x (w, D) (w', D)"

definition no_calls :: "memstore world \<times> string set" where
  "no_calls = (\<lparr>db = memstore_New, tape = 0\<rparr>, {})"

section \<open>Stamps never come back\<close>

definition calls_ok :: "extern \<Rightarrow> memstore world \<times> string set \<Rightarrow> bool" where
  "calls_ok x = (\<lambda>(w, D). mem_wf (db w) \<and> (\<forall>s \<in> D. issued x w s) \<and>
     (\<forall>i r. user_rows w i = Some r \<longrightarrow> issued x w (u_ConcurrencyStamp r) \<and> u_ConcurrencyStamp r \<notin> D))"

text \<open>A stamp that was issued and is not waiting for its \<open>Create\<close> gets into no further row.\<close>

definition calls_forward :: "extern \<Rightarrow> memstore world \<times> string set \<Rightarrow> memstore world \<times> string set \<Rightarrow> bool" where
  "calls_forward x = (\<lambda>(w, D) (w', D'). tape w \<le> tape w' \<and>
     (\<forall>s. issued x w s \<longrightarrow> s \<notin> D \<longrightarrow> s \<notin> D' \<and>
        (\<forall>i r. user_rows w' i = Some r \<longrightarrow> u_ConcurrencyStamp r = s \<longrightarrow> user_rows w i = Some r)))"

lemma calls_forwardD:
  assumes "calls_forward x (w, D) (w', D')" "issued x w s" "s \<notin> D"
  shows "s \<notin> D'" "issued x w' s"
    "user_rows w' i = Some r \<Longrightarrow> u_ConcurrencyStamp r = s \<Longrightarrow> user_rows w i = Some r"
  using assms issued_mono by (auto simp: calls_forward_def)

lemma calls_forward_trans:
  assumes "calls_forward x (w1, D1) (w2, D2)" "calls_forward x (w2, D2) (w3, D3)"
  shows "calls_forward x (w1, D1) (w3, D3)"
proof -
  have "tape w1 \<le> tape w3" using assms by (auto simp: calls_forward_def)
  moreover have "s \<notin> D3 \<and> (\<forall>i r. user_rows w3 i = Some r \<longrightarrow> u_ConcurrencyStamp r = s \<longrightarrow> user_rows w1 i = Some r)"
    if "issued x w1 s" "s \<notin> D1" for s
    using calls_forwardD [OF assms(1) that] calls_forwardD [OF assms(2), of s] by blast
  ultimately show ?thesis unfolding calls_forward_def prod.case by blast
qed

lemma calls_okD:
  assumes "calls_ok x (w, D)"
  shows "s \<in> D \<Longrightarrow> issued x w s" "mem_wf (db w)"
    "user_rows w i = Some r \<Longrightarrow> issued x w (u_ConcurrencyStamp r)"
    "user_rows w i = Some r \<Longrightarrow> u_ConcurrencyStamp r \<notin> D"
  using assms by (auto simp: calls_ok_def)

lemma calls_fewer_rows:
  assumes "calls_ok x (w, D)" "mem_wf (db w')" "tape w \<le> tape w'"
    and "\<And>i u. user_rows w' i = Some u \<Longrightarrow> user_rows w i = Some u"
  shows "calls_ok x (w', D) \<and> calls_forward x (w, D) (w', D)"
proof -
  note ok = calls_okD [OF assms(1)]
  have "calls_ok x (w', D)"
    unfolding calls_ok_def prod.case using assms(2) ok(1,3,4) assms(4) issued_mono [OF _ assms(3)] by blast
  moreover have "calls_forward x (w, D) (w', D)"
    unfolding calls_forward_def prod.case using assms(3,4) by blast
  ultimately show ?thesis ..
qed

lemma calls_new_row:
  assumes "calls_ok x (w, D)" "mem_wf (db w')" "tape w \<le> tape w'" "D' \<subseteq> D"
    and "user_rows w' = (user_rows w)(i \<mapsto> u)" "issued x w' (u_ConcurrencyStamp u)" "u_ConcurrencyStamp u \<notin> D'"
    and "u_ConcurrencyStamp u \<in> D \<or> \<not> issued x w (u_ConcurrencyStamp u)"
  shows "calls_ok x (w', D') \<and> calls_forward x (w, D) (w', D')"
proof -
  note ok = calls_okD [OF assms(1)]
  have row: "j = i \<and> r = u \<or> user_rows w j = Some r" if "user_rows w' j = Some r" for j r
    using that assms(5) by (auto split: if_splits)
  have "calls_ok x (w', D')"
    unfolding calls_ok_def prod.case
    using assms(2,4,6,7) ok(1,3,4) row issued_mono [OF _ assms(3)] by (metis subsetD)
  moreover have "calls_forward x (w, D) (w', D')"
    unfolding calls_forward_def prod.case using assms(3,4,8) row by blast
  ultimately show ?thesis ..
qed

lemma calls_new_draw:
  assumes "calls_ok x (w, D)" "tape w \<le> tape w'" "db w' = db w"
    and "\<not> issued x w s" "issued x w' s"
  shows "calls_ok x (w', insert s D) \<and> calls_forward x (w, D) (w', insert s D)"
proof -
  note ok = calls_okD [OF assms(1)]
  have "calls_ok x (w', insert s D)"
    unfolding calls_ok_def prod.case assms(3)
    using assms(4,5) ok issued_mono [OF _ assms(2)] by (metis insert_iff)
  moreover have "calls_forward x (w, D) (w', insert s D)"
    unfolding calls_forward_def prod.case assms(3) using assms(2,4) by blast
  ultimately show ?thesis ..
qed

lemma call_step_ok:
  assumes "call_step x (w, D) (w', D')" and uuid: "uuid_ok x" and ok: "calls_ok x (w, D)"
  shows "calls_ok x (w', D') \<and> calls_forward x (w, D) (w', D')"
proof -
  from ok have wf: "mem_wf (db w)" and iss: "s \<in> D \<Longrightarrow> issued x w s" for s by (auto simp: calls_ok_def)
  show ?thesis
    using assms(1)
  proof cases
    case (call_draw s t)
    then have s: "s = x_uuid x (tape w)" "t = tape w + 16" by (auto simp: uuid_NewString_def)
    then have "fresh_stamp x w w' s" using call_draw by (auto simp: fresh_stamp_def)
    then have new: "\<not> issued x w s" "issued x w' s" using fresh_not_issued [OF uuid] fresh_issued by blast+
    with calls_new_draw [OF ok, of w' s] call_draw s show ?thesis by simp
  next
    case (call_Create u e u')
    have "mem_wf (db w')" "tape w' = tape w" "user_rows w' = (user_rows w)(u_ID u \<mapsto> u)"
      using call_Create(2) user_writes_wf(1) [OF wf, of u e u' w']
      by (auto simp: userStore_Create_def map_of_update_fun)
    moreover have "issued x w' (u_ConcurrencyStamp u)"
      using issued_mono [OF iss [OF call_Create(3)], of w'] calculation by simp
    ultimately show ?thesis using calls_new_row [OF ok, of w' D' "u_ID u" u] call_Create by auto
  next
    case (call_Update u e u')
    then have u: "us_Update (memstore_Users x) u w = (e, u', w')" by (simp add: memstore_Users_def)
    show ?thesis
    proof (cases e)
      case None
      from mem.Update_ok [OF wf u [unfolded None]] obtain s where
        r: "mem_wf (db w')" "tape w \<le> tape w'" "u' = u\<lparr>u_ConcurrencyStamp := s\<rparr>" "fresh_stamp x w w' s"
          "user_rows w' = (user_rows w)(u_ID u \<mapsto> u')" by auto
      then have "\<not> issued x w s" "issued x w' s" using fresh_not_issued [OF uuid] fresh_issued by blast+
      with calls_new_row [OF ok r(1,2) _ r(5)] r(3) iss call_Update show ?thesis by auto
    next
      case (Some e')
      from mem.Update_err [OF wf u [unfolded Some]] call_Update calls_fewer_rows [OF ok, of w'] show ?thesis by auto
    qed
  next
    case (call_Delete u e)
    then have "mem_wf (db w') \<and> tape w \<le> tape w' \<and> user_rows w' = (user_rows w)(u_ID u := None)"
      using mem.Delete_ok [OF wf, of x u w'] by (simp add: memstore_Users_def userStore_Delete_def)
    then have "mem_wf (db w')" "tape w \<le> tape w'" "\<And>i r. user_rows w' i = Some r \<Longrightarrow> user_rows w i = Some r"
      by (auto split: if_splits)
    with calls_fewer_rows [OF ok] call_Delete show ?thesis by simp
  next
    case (call_Purge t n)
    with calls_fewer_rows [OF ok, of w'] purge_rows [OF call_Purge(2)] user_writes_wf(4) [OF wf call_Purge(2)]
    show ?thesis by auto
  next
    case call_other
    with calls_fewer_rows [OF ok, of w'] mem_step_wf [OF _ wf] mem_step_tape show ?thesis by auto
  qed
qed

lemma calls_ok_run:
  assumes "(call_step x)\<^sup>*\<^sup>* (w, D) (w', D')" and "uuid_ok x" and "calls_ok x (w, D)"
  shows "calls_ok x (w', D') \<and> calls_forward x (w, D) (w', D')"
  using assms(1)
proof (induction rule: rtranclp_induct2)
  case refl
  with assms show ?case by (simp add: calls_forward_def)
next
  case (step w1 D1 w2 D2)
  with call_step_ok [OF step(2) assms(2)] show ?case by (blast intro: calls_forward_trans)
qed

lemma calls_ok_start: "calls_ok x no_calls"
  by (simp add: calls_ok_def no_calls_def memstore_New_def mem_wf_New [unfolded memstore_New_def])

section \<open>Operations are runs of calls\<close>

abbreviation calls :: "extern \<Rightarrow> memstore world \<times> string set \<Rightarrow> memstore world \<times> string set \<Rightarrow> bool" where
  "calls x \<equiv> (call_step x)\<^sup>*\<^sup>*"

lemma calls_tape:
  assumes "db w' = db w" "tape w \<le> tape w'"
  shows "calls x (w, D) (w', D)"
proof -
  have "w' = w\<lparr>tape := tape w'\<rparr>" using assms(1) by simp
  then show ?thesis using call_other [OF step_rand [OF assms(2)], where D = D] by (metis assms(1) r_into_rtranclp)
qed

lemma copy_step_calls:
  assumes "copy_step m (u, w) (u', w')" "um_Store m = memstore_Users x"
  shows "calls x (w, D) (w', D)"
  using assms(1)
proof cases
  case cs_edit
  then show ?thesis by (intro calls_tape)
next
  case (cs_update v w0 e)
  then have "userStore_Update x v w = (e, u', w')" by (simp add: assms(2) memstore_Users_def)
  then show ?thesis by (blast intro: call_Update)
next
  case (cs_SetToken u1 p n v e)
  then have t: "userStore_SetToken u1 p n v w = (e, w')" by (simp add: assms(2) memstore_Users_def)
  then have "m_users (db w') = m_users (db w)" by (auto simp: userStore_SetToken_def)
  with step_SetToken [OF t] show ?thesis by (blast intro: call_other)
next
  case (cs_RemoveToken u1 p n e)
  then have t: "userStore_RemoveToken u1 p n w = (e, w')" by (simp add: assms(2) memstore_Users_def)
  then have "m_users (db w') = m_users (db w)" by (auto simp: userStore_RemoveToken_def)
  with step_RemoveToken [OF t] show ?thesis by (blast intro: call_other)
qed

lemma copy_steps_calls:
  assumes "copy_steps m (u, w) (u', w')" "um_Store m = memstore_Users x"
  shows "calls x (w, D) (w', D)"
  using assms(1)
proof (induction rule: rtranclp_induct2)
  case (step u1 w1 u2 w2)
  with copy_step_calls [OF step(2) assms(2)] show ?case by (blast intro: rtranclp_trans)
qed simp

lemma prepare_draw:
  assumes "UserManager_prepareForCreate x m u w = (e, u', w')"
  shows "e \<noteq> None \<and> u' = u \<and> w' = w \<or> (\<exists>w1. db w1 = db w \<and> tape w \<le> tape w1 \<and>
    w' = w1\<lparr>tape := tape w1 + 16\<rparr> \<and> u_ConcurrencyStamp u' = x_uuid x (tape w1))"
proof -
  obtain u1 w1 where 1: "(if u_ID u = [] then (let (i, w) = draw (uuid_NewString x) w in (u\<lparr>u_ID := i\<rparr>, w))
      else (u, w)) = (u1, w1)" by fastforce
  then have w1: "db w1 = db w" "tape w \<le> tape w1" by (auto split: if_splits)
  have st: "tape w \<le> snd (newStamp x (tape w1))" by (rule order_trans [OF w1(2) newStamp_forward])
  let ?w2 = "w1\<lparr>tape := snd (newStamp x (tape w1))\<rparr>"
  have "e \<noteq> None \<and> u' = u \<and> w' = w \<or>
      w' = ?w2\<lparr>tape := tape ?w2 + 16\<rparr> \<and> u_ConcurrencyStamp u' = x_uuid x (tape ?w2)"
    using assms unfolding UserManager_prepareForCreate_def 1
    by (auto simp: Let_def draw_def uuid_NewString_def split: option.splits if_splits)
  moreover have "db ?w2 = db w" "tape w \<le> tape ?w2" using w1(1) st by simp_all
  ultimately show ?thesis by blast
qed

lemma calls_draw:
  assumes "db w1 = db w" "tape w \<le> tape w1"
  shows "calls x (w, D) (w1\<lparr>tape := tape w1 + 16\<rparr>, insert (x_uuid x (tape w1)) D)"
proof -
  have "call_step x (w1, D) (w1\<lparr>tape := tape w1 + 16\<rparr>, insert (x_uuid x (tape w1)) D)"
    by (rule call_draw) (simp add: uuid_NewString_def)
  with calls_tape [OF assms] show ?thesis by (rule rtranclp.rtrancl_into_rtrancl)
qed

lemma create_calls:
  assumes "UserManager_prepareForCreate x m u w = (e1, u1, w1)" "um_Store m = memstore_Users x"
    and "e1 \<noteq> None \<Longrightarrow> w' = w1"
    and "e1 = None \<Longrightarrow> \<exists>u2 w2 e. same_keys u1 u2 \<and> db w2 = db w1 \<and> tape w1 \<le> tape w2 \<and>
      us_Create (um_Store m) u2 w2 = (e, u', w')"
  shows "\<exists>D'. calls x (w, D) (w', D')"
proof -
  have p: "calls x (w, D) (w1, if w1 = w then D else insert (u_ConcurrencyStamp u1) D)"
    and s: "e1 = None \<Longrightarrow> w1 \<noteq> w"
    using prepare_draw [OF assms(1)] calls_draw by auto
  show ?thesis
  proof (cases e1)
    case None
    with assms(2,4) obtain u2 w2 e where 2: "same_keys u1 u2" "db w2 = db w1" "tape w1 \<le> tape w2"
      and c: "userStore_Create u2 w2 = (e, u', w')" by (auto simp: memstore_Users_def)
    let ?D = "insert (u_ConcurrencyStamp u1) D"
    have "calls x (w, D) (w2, ?D)"
      using p s [OF None] calls_tape [OF 2(2,3), of x ?D] by (simp add: rtranclp_trans)
    moreover have "call_step x (w2, ?D) (w', ?D - {u_ConcurrencyStamp u2})"
      using 2(1) by (intro call_Create [OF c]) (simp add: same_keys_def)
    ultimately show ?thesis by (blast intro: rtranclp.rtrancl_into_rtrancl)
  next
    case (Some e)
    with p assms(3) show ?thesis by blast
  qed
qed

text \<open>Every operation of the account system, its lookups apart, is a run of calls of the store.\<close>

lemma acct_step_calls:
  assumes "acct_step x m (w, P) (w', P')" and mo: "manager_ok x m" and wf: "mem_wf (db w)"
  shows "\<exists>D'. calls x (w, D) (w', D')"
proof -
  have hf: "hash_forward m" and m: "um_Store m = memstore_Users x" using mo by (auto simp: manager_ok_def)
  have copy: "\<exists>D'. calls x (w, D) (w', D')" if "copy_steps m (u, w) (u', w')" for u u'
    using copy_steps_calls [OF that m] by blast
  show ?thesis
    using assms(1)
  proof cases
    case (do_Create u e u')
    obtain e1 u1 w1 where p: "UserManager_prepareForCreate x m u w = (e1, u1, w1)" by (metis prod_cases3)
    show ?thesis by (rule create_calls [OF p m])
        (use do_Create p in \<open>auto simp: UserManager_Create_def split: option.splits intro: same_keys_refl\<close>)
  next
    case (do_CreateWithPassword u pw e u')
    show ?thesis
    proof (cases "UserManager_ValidatePassword x m pw")
      case None
      obtain e1 u1 w1 where p: "UserManager_prepareForCreate x m u w = (e1, u1, w1)" by (metis prod_cases3)
      let ?h = "ph_Hash (um_Hasher m) u1 pw (tape w1)"
      have t: "tape w1 \<le> snd ?h" using hf by (simp add: hash_forward_def)
      have c: "us_Create (um_Store m) (u1\<lparr>u_PasswordHash := fst ?h\<rparr>) (w1\<lparr>tape := snd ?h\<rparr>) = (e, u', w')" if "e1 = None"
        using do_CreateWithPassword p None that by (simp add: UserManager_CreateWithPassword_def draw_def)
      have f: "w' = w1" if "e1 \<noteq> None"
        using do_CreateWithPassword p None that by (auto simp: UserManager_CreateWithPassword_def split: option.splits)
      show ?thesis
        by (rule create_calls [OF p m f], assumption, intro exI [of _ "u1\<lparr>u_PasswordHash := fst ?h\<rparr>"]
            exI [of _ "w1\<lparr>tape := snd ?h\<rparr>"] exI [of _ e]) (use t c in \<open>simp_all add: same_keys_def\<close>)
    next
      case (Some e')
      with do_CreateWithPassword show ?thesis by (auto simp: UserManager_CreateWithPassword_def)
    qed
  next
    case (do_CreateAnonymous now u')
    from CreateAnonymous_props(7) [OF do_CreateAnonymous(2) m wf] obtain v w1 where
      v: "db w1 = db w" "tape w \<le> tape w1" "u_ConcurrencyStamp v = x_uuid x (tape w1)"
      and c: "userStore_Create v (w1\<lparr>tape := tape w1 + 16\<rparr>) = (None, u', w')" by blast
    from calls_draw [OF v(1,2)] call_Create [OF c, of "insert (u_ConcurrencyStamp v) D" x] v(3) show ?thesis
      by (metis insertI1 rtranclp.rtrancl_into_rtrancl)
  next
    case (do_Delete u e)
    then have "userStore_Delete u w = (e, w')" by (simp add: UserManager_Delete_def m memstore_Users_def)
    then show ?thesis by (blast intro: call_Delete)
  next
    case (do_Purge t n)
    then have "userStore_PurgeAnonymousUsers t w = (n, w')"
      by (simp add: UserManager_PurgeAnonymousUsers_def m memstore_Users_def)
    then show ?thesis by (blast intro: call_Purge)
  next
    case do_other
    then show ?thesis by (blast intro: call_other)
  next
    case (do_passwordSignInUser s now u pw lk r u')
    then show ?thesis using steps_passwordSignInUser hf copy by blast
  next
    case (do_AuthenticatorSignIn s now u c r u')
    then show ?thesis using steps_AuthenticatorSignIn copy by blast
  next
    case (do_PhoneSignIn s now u c r u')
    then show ?thesis using steps_PhoneSignIn copy by blast
  next
    case (do_RecoveryCodeSignIn s now u c r u')
    then show ?thesis using steps_RecoveryCodeSignIn copy by blast
  qed (blast intro: copying [THEN copy] hf rtranclp.rtrancl_refl)+
qed

end
