(* ===== verification/Account_Properties.thy ===== *)
theory Account_Properties
  imports Store_Calls
begin


definition initial :: "memstore world \<times> user set" where
  "initial = (\<lparr>db = memstore_New, tape = 0\<rparr>, {})"


section \<open>A concrete system\<close>

definition demo_manager :: "memstore user_manager" where
  "demo_manager = NewUserManager demo_extern (memstore_Users demo_extern) DefaultOptions"

lemma demo_manager_ok: "manager_ok demo_extern demo_manager"
  using pbkdf2.Hash_tape
  by (simp add: manager_ok_def demo_manager_def NewUserManager_def hash_forward_def
      upperNormalizer_Normalize_def strings_TrimSpace_def strings_ToUpper_def is_ascii_def)



lemma demo_stamp_step:
  assumes "user_rows w (u_ID u) = Some u" "mem_wf (db w)" "u \<in> P"
  obtains u' w' where "acct_step demo_extern demo_manager (w, P) (w', insert u' P)"
    and "user_rows w' (u_ID u) = Some u'" and "fresh_stamp demo_extern w w' (u_ConcurrencyStamp u')"
proof -
  have m: "um_Store demo_manager = memstore_Users demo_extern"
    using demo_manager_ok by (simp add: manager_ok_def)
  obtain v w1 where v: "rotate_stamp demo_extern u w = (v, w1)" by fastforce
  note pr = rotate_stamp_props [OF v]
  from pr assms have r: "mem_wf (db w1)" "user_rows w1 (u_ID v) = Some u" "u_ConcurrencyStamp u = u_ConcurrencyStamp v"
    by (auto simp: same_keys_def)
  obtain u' w' where c: "us_Update (memstore_Users demo_extern) v w1 = (None, u', w')"
    using mem.Update_total [OF r] by blast
  then have op: "UserManager_UpdateSecurityStamp demo_extern demo_manager u w = (None, u', w')"
    by (simp add: UserManager_UpdateSecurityStamp_def v m)
  from mem.Update_ok [OF r(1) c] pr(1,3)
  have "user_rows w' (u_ID u) = Some u'" "fresh_stamp demo_extern w w' (u_ConcurrencyStamp u')"
    by (auto simp: same_keys_def intro: mem.fresh_wider)
  with do_UpdateSecurityStamp [OF op assms(3)] that show ?thesis by blast
qed

section \<open>Uniqueness and lost updates\<close>



section \<open>Lost updates\<close>

text \<open>(C1) No lost update, with the store's calls interleaved in any way. A request holds a copy \<open>v\<close>
  of a row, edited as it likes, and any calls run. Then somebody else's \<open>Update\<close> of that user
  succeeds, from whatever copy, and any calls run again. From the moment of that write, an
  \<open>Update\<close> from \<open>v\<close> fails with \<open>ErrConcurrencyFailure\<close> (or \<open>ErrNotFound\<close> once the row is gone)
  and changes neither the store nor the copy, while the writer's own copy, which got the new
  stamp, can be written again at once.\<close>

theorem no_lost_update:
  assumes "uuid_ok x" and "calls x no_calls (w1, D1)"
    and "user_rows w1 (u_ID v) = Some r" and "u_ConcurrencyStamp v = u_ConcurrencyStamp r"
    and "calls x (w1, D1) (w2, D2)"
    and "userStore_Update x u w2 = (None, u', w3)" and "u_ID u = u_ID v"
    and "calls x (w3, D2) (w4, D4)"
  shows "(\<exists>e. userStore_Update x v w4 = (Some e, v, w4) \<and> (e = ErrConcurrencyFailure \<or> e = ErrNotFound)) \<and>
    user_rows w3 (u_ID v) = Some u' \<and> (\<exists>c w. userStore_Update x u' w3 = (None, c, w))"
proof -
  let ?s = "u_ConcurrencyStamp v"
  have ok1: "calls_ok x (w1, D1)"
    using calls_ok_run [OF _ assms(1), of "fst no_calls" "snd no_calls"] assms(2) calls_ok_start by simp
  from calls_okD(3,4) [OF ok1 assms(3)] assms(4) have s1: "issued x w1 ?s" "?s \<notin> D1" by auto
  from calls_ok_run [OF assms(5,1) ok1] have ok2: "calls_ok x (w2, D2)"
    and s2: "issued x w2 ?s" "?s \<notin> D2" using calls_forwardD [OF _ s1] by blast+
  have upd: "us_Update (memstore_Users x) u w2 = (None, u', w3)" using assms(6) by (simp add: memstore_Users_def)
  from mem.Update_ok [OF calls_okD(2) [OF ok2] this] have row: "user_rows w3 (u_ID v) = Some u'"
    and f: "fresh_stamp x w2 w3 (u_ConcurrencyStamp u')" and wf3: "mem_wf (db w3)" and id: "u_ID u' = u_ID v"
    using assms(7) by auto
  have new: "u_ConcurrencyStamp u' \<noteq> ?s" using fresh_not_issued [OF assms(1) f] s2(1) by metis
  from call_step_ok [OF call_Update [OF assms(6)] assms(1) ok2] have ok3: "calls_ok x (w3, D2)"
    and s3: "issued x w3 ?s" using calls_forwardD [OF _ s2] by blast+
  from calls_ok_run [OF assms(8,1) ok3] have "calls_forward x (w3, D2) (w4, D4)" by simp
  from calls_forwardD(3) [OF this s3 s2(2)] row new
  have "u_ConcurrencyStamp r4 \<noteq> ?s" if "user_rows w4 (u_ID v) = Some r4" for r4
    using that by (metis option.inject)
  then have "\<exists>e. userStore_Update x v w4 = (Some e, v, w4) \<and> (e = ErrConcurrencyFailure \<or> e = ErrNotFound)"
    by (auto simp: userStore_Update_def split: option.splits)
  moreover have "\<exists>c w. userStore_Update x u' w3 = (None, c, w)"
    using mem.Update_total [OF wf3, of u' u' x] row id by (simp add: memstore_Users_def)
  ultimately show ?thesis using row by blast
qed

text \<open>Two requests load the same user; the first rotates its security stamp, the second is refused.\<close>

theorem no_lost_update_witness:
  "\<exists>w1 D1 v u' w3. calls demo_extern no_calls (w1, D1) \<and> user_rows w1 (u_ID v) = Some v \<and>
     userStore_Update demo_extern (v\<lparr>u_SecurityStamp := ''new''\<rparr>) w1 = (None, u', w3) \<and>
     user_rows w3 (u_ID v) = Some u' \<and>
     (\<exists>e. userStore_Update demo_extern (v\<lparr>u_Email := ''stale''\<rparr>) w3 = (Some e, v\<lparr>u_Email := ''stale''\<rparr>, w3) \<and>
       (e = ErrConcurrencyFailure \<or> e = ErrNotFound))"
proof -
  let ?v = "zero_user\<lparr>u_ID := ''a'', u_ConcurrencyStamp := demo_uuid 0\<rparr>"
  let ?w0 = "\<lparr>db = memstore_New, tape = 16\<rparr>"
  have "call_step demo_extern no_calls (?w0, {demo_uuid 0})"
    using call_draw [of demo_extern "fst no_calls" "demo_uuid 0" 16 "{}"]
    by (simp add: no_calls_def uuid_NewString_def demo_extern_def)
  moreover obtain e c w1 where cr: "userStore_Create ?v ?w0 = (e, c, w1)" by (metis prod_cases3)
  from call_Create [OF this, of "{demo_uuid 0}" demo_extern]
  have "call_step demo_extern (?w0, {demo_uuid 0}) (w1, {})" by simp
  ultimately have run: "calls demo_extern no_calls (w1, {})" by (meson rtranclp.simps)
  have row: "user_rows w1 (u_ID ?v) = Some ?v" using cr by (auto simp: userStore_Create_def memstore_New_def)
  obtain u' w3 where u: "userStore_Update demo_extern (?v\<lparr>u_SecurityStamp := ''new''\<rparr>) w1 = (None, u', w3)"
    using row by (simp add: userStore_Update_def Let_def draw_def split: prod.splits)
  have "user_rows w1 (u_ID (?v\<lparr>u_Email := ''stale''\<rparr>)) = Some ?v" using row by simp
  from no_lost_update [OF demo_extern_ok(1) run this _ rtranclp.rtrancl_refl u _ rtranclp.rtrancl_refl]
  have "(\<exists>e. userStore_Update demo_extern (?v\<lparr>u_Email := ''stale''\<rparr>) w3 = (Some e, ?v\<lparr>u_Email := ''stale''\<rparr>, w3) \<and>
      (e = ErrConcurrencyFailure \<or> e = ErrNotFound)) \<and> user_rows w3 (u_ID ?v) = Some u'" by simp
  with run row u show ?thesis by blast
qed

section \<open>Creation and sign-in\<close>

text \<open>Where no other row has its name, a lookup by name finds the row.\<close>

lemma FindByName_row:
  assumes "mem_wf (db w)" "user_rows w i = Some r"
    and "\<And>j v. user_rows w j = Some v \<Longrightarrow> u_NormalizedUserName v = u_NormalizedUserName r \<Longrightarrow> j = i"
  shows "userStore_FindByName (u_NormalizedUserName r) w = Inr r"
proof -
  have k: "keyed u_ID (m_users (db w))" using assms(1) by (simp add: mem_wf_def)
  have "r \<in> snd ` set (m_users (db w))" using map_of_SomeD [OF assms(2)] by force
  moreover have "v = r" if "v \<in> snd ` set (m_users (db w))" "u_NormalizedUserName v = u_NormalizedUserName r" for v
  proof -
    from that(1) k have "user_rows w (u_ID v) = Some v" by (simp add: keyed_row)
    moreover from this that(2) have "u_ID v = i" by (rule assms(3))
    ultimately show ?thesis using assms(2) by simp
  qed
  ultimately show ?thesis
    using find_val_unique [of r "m_users (db w)" "\<lambda>u. u_NormalizedUserName u = u_NormalizedUserName r"]
    by (simp add: userStore_FindByName_def userStore_findBy_def)
qed

lemma prepare_keeps:
  assumes "UserManager_prepareForCreate x m u w = (None, u', w')"
  shows "u_UserName u' = u_UserName u" "u_NormalizedUserName u' = um_Normalize m (u_UserName u)"
    "u_LockoutEnd u' = u_LockoutEnd u" "u_AccessFailedCount u' = u_AccessFailedCount u"
    "u_TwoFactorEnabled u' = u_TwoFactorEnabled u" "u_EmailConfirmed u' = u_EmailConfirmed u"
    "u_PhoneNumberConfirmed u' = u_PhoneNumberConfirmed u"
  using assms
  by (auto simp: UserManager_prepareForCreate_def Let_def draw_def split: option.splits if_splits)

text \<open>(C4) A user created with a password can sign in with it: the lookup by user name finds the
  row just created, the stored hash verifies without a rehash, nothing is written, and the result
  is success, or the request for the second factor when the account has it enabled.\<close>

theorem create_then_sign_in:
  assumes "pbkdf2_ok x" and "mem_wf (db w)"
    and m: "m = NewUserManager x (memstore_Users x) opts"
    and "UserManager_CreateWithPassword x m u pw w = (None, u', w')"
    and "u_LockoutEnd u = None" and "u_AccessFailedCount u = 0"
    and "RequireConfirmedEmail (o_SignIn opts) \<longrightarrow> u_EmailConfirmed u"
    and "RequireConfirmedPhoneNumber (o_SignIn opts) \<longrightarrow> u_PhoneNumberConfirmed u"
  shows "SignInManager_PasswordSignIn (NewSignInManager m) now (u_UserName u) pw lk w' =
    (if u_TwoFactorEnabled u then res_two_factor else res_ok, Some u', w')"
proof -
  have st: "um_Store m = memstore_Users x" "um_Hasher m = NewPasswordHasher x"
    "um_Normalize m [] = []" "um_Options m = opts"
    by (simp_all add: m NewUserManager_def upperNormalizer_Normalize_def strings_TrimSpace_def
        strings_ToUpper_def is_ascii_def)
  from assms(4) obtain u1 w1 where p: "UserManager_prepareForCreate x m u w = (None, u1, w1)"
    and c: "us_Create (memstore_Users x) (u1\<lparr>u_PasswordHash := fst (ph_Hash (NewPasswordHasher x) u1 pw (tape w1))\<rparr>)
      (w1\<lparr>tape := snd (ph_Hash (NewPasswordHasher x) u1 pw (tape w1))\<rparr>) = (None, u', w')"
    by (auto simp: UserManager_CreateWithPassword_def draw_def st split: option.splits prod.splits)
  let ?h = "fst (ph_Hash (NewPasswordHasher x) u1 pw (tape w1))"
  note pr = mem.prepare_props [OF p st(1,3) assms(2)]
  have u': "u' = u1\<lparr>u_PasswordHash := ?h\<rparr>" and wf': "mem_wf (db w')"
    and rows: "user_rows w' = (user_rows w)(u_ID u' \<mapsto> u')"
    using mem.Create_ok [OF _ c] pr(1) assms(2) by auto
  have "userStore_FindByName (u_NormalizedUserName u') w' = Inr u'"
    using pr(3) by (intro FindByName_row [OF wf']) (auto simp: rows u' split: if_splits)
  then have "UserManager_FindByName m (u_UserName u) w' = Inr u'"
    by (simp add: UserManager_FindByName_def st memstore_Users_def u' prepare_keeps [OF p])
  moreover have "UserManager_CheckPassword m u' pw w' = (True, u', w')"
    using pbkdf2.Verify_Hash [of x, OF assms(1)] pbkdf2.Hash_ne
    by (simp add: UserManager_CheckPassword_def st u')
  moreover have "u_LockoutEnd u' = None" "u_AccessFailedCount u' = 0"
    "u_TwoFactorEnabled u' = u_TwoFactorEnabled u" "u_EmailConfirmed u' = u_EmailConfirmed u"
    "u_PhoneNumberConfirmed u' = u_PhoneNumberConfirmed u"
    using assms(5,6) prepare_keeps [OF p] by (auto simp: u')
  ultimately show ?thesis
    using assms(7,8) st
    by (auto simp: SignInManager_PasswordSignIn_def SignInManager_passwordSignInUser_def NewSignInManager_def
        UserManager_IsLockedOut_def SignInManager_CanSignIn_def UserManager_ResetAccessFailedCount_def)
qed

lemma demo_validators:
  "UserManager_ValidatePassword demo_extern demo_manager ''Passw0rd!'' = None"
  "UserManager_ValidateUserName demo_manager ''alice'' = None"
  by (simp_all add: UserManager_ValidatePassword_def UserManager_ValidateUserName_def demo_manager_def
      NewUserManager_def DefaultOptions_def runes_ascii is_ascii_def strings_ContainsRune_def
      strings_TrimSpace_visible visible_def pw_scan_def unicode_IsDigit_def unicode_IsUpper_def
      unicode_IsLower_def unicode_IsLetter_def in_range_def)

definition demo_alice :: user where
  "demo_alice = zero_user\<lparr>u_UserName := ''alice'', u_Email := ''a@example.org''\<rparr>"

text \<open>The name test and the write are two calls of the store, and the write does not test again:
  two requests that create the same user name, with their calls interleaved, both succeed.\<close>

lemma demo_alice_free:
  assumes "m_users (db w) = []"
  shows "fst (UserManager_prepareForCreate demo_extern demo_manager demo_alice w) = None"
    "u_NormalizedUserName (fst (snd (UserManager_prepareForCreate demo_extern demo_manager demo_alice w))) =
      um_Normalize demo_manager ''alice''"
    "u_ID (fst (snd (UserManager_prepareForCreate demo_extern demo_manager demo_alice w))) = demo_uuid (tape w)"
    "db (snd (snd (UserManager_prepareForCreate demo_extern demo_manager demo_alice w))) = db w"
    "tape w < tape (snd (snd (UserManager_prepareForCreate demo_extern demo_manager demo_alice w)))"
proof -
  have s: "us_FindByName (um_Store demo_manager) n w' = Inl ErrNotFound"
    "us_FindByEmail (um_Store demo_manager) n w' = Inl ErrNotFound" if "m_users (db w') = []" for n w'
    using that by (auto simp: demo_manager_def NewUserManager_def memstore_Users_def userStore_FindByName_def
        userStore_FindByEmail_def userStore_findBy_def find_val_def)
  show "fst (UserManager_prepareForCreate demo_extern demo_manager demo_alice w) = None"
    "u_NormalizedUserName (fst (snd (UserManager_prepareForCreate demo_extern demo_manager demo_alice w))) =
      um_Normalize demo_manager ''alice''"
    "u_ID (fst (snd (UserManager_prepareForCreate demo_extern demo_manager demo_alice w))) = demo_uuid (tape w)"
    "db (snd (snd (UserManager_prepareForCreate demo_extern demo_manager demo_alice w))) = db w"
    "tape w < tape (snd (snd (UserManager_prepareForCreate demo_extern demo_manager demo_alice w)))"
    using assms
    by (simp_all add: UserManager_prepareForCreate_def demo_validators demo_alice_def draw_def Let_def s
        taken_def zero_user_def uuid_NewString_def demo_extern_def newStamp_def rand_Read_def)
qed

theorem concurrent_creates_duplicate:
  "\<exists>u1 w1 u2 w2 w3 w4. UserManager_prepareForCreate demo_extern demo_manager demo_alice (fst initial) = (None, u1, w1) \<and>
     UserManager_prepareForCreate demo_extern demo_manager demo_alice w1 = (None, u2, w2) \<and>
     userStore_Create u1 w2 = (None, u1, w3) \<and> userStore_Create u2 w3 = (None, u2, w4) \<and>
     \<not> unique_rows (unique_email demo_manager) (user_rows w4)"
proof -
  let ?w0 = "fst initial" and ?p = "UserManager_prepareForCreate demo_extern demo_manager demo_alice"
  have e0: "m_users (db ?w0) = []" by (simp add: initial_def memstore_New_def)
  obtain u1 w1 where p1: "?p ?w0 = (None, u1, w1)" using demo_alice_free(1) [OF e0] by (metis prod.collapse)
  then have 1: "u_ID u1 = demo_uuid (tape ?w0)" "u_NormalizedUserName u1 = um_Normalize demo_manager ''alice''"
    and w1: "m_users (db w1) = []" "tape ?w0 < tape w1" using demo_alice_free [OF e0] e0 by auto
  obtain u2 w2 where p2: "?p w1 = (None, u2, w2)" using demo_alice_free(1) [OF w1(1)] by (metis prod.collapse)
  then have 2: "u_ID u2 = demo_uuid (tape w1)" "u_NormalizedUserName u2 = um_Normalize demo_manager ''alice''"
    using demo_alice_free [OF w1(1)] by auto
  let ?w3 = "snd (snd (userStore_Create u1 w2))"
  let ?w4 = "snd (snd (userStore_Create u2 ?w3))"
  have c: "userStore_Create u1 w2 = (None, u1, ?w3)" "userStore_Create u2 ?w3 = (None, u2, ?w4)"
    by (simp_all add: userStore_Create_def)
  have ids: "u_ID u1 \<noteq> u_ID u2" using 1(1) 2(1) w1(2) demo_uuid_inj by (metis injD less_irrefl)
  then have "user_rows ?w4 (u_ID u1) = Some u1" "user_rows ?w4 (u_ID u2) = Some u2"
    by (auto simp: userStore_Create_def update_conv)
  then have "\<not> unique_rows (unique_email demo_manager) (user_rows ?w4)"
    using ids 1(2) 2(2) unfolding unique_rows_def by metis
  with p1 p2 c show ?thesis by blast
qed

lemma demo_create_alice:
  obtains u w where "UserManager_CreateWithPassword demo_extern demo_manager demo_alice ''Passw0rd!''
    (fst initial) = (None, u, w)"
proof -
  have s: "us_FindByName (um_Store demo_manager) n w = Inl ErrNotFound"
    "us_FindByEmail (um_Store demo_manager) n w = Inl ErrNotFound" if "m_users (db w) = []" for n w
    using that by (auto simp: demo_manager_def NewUserManager_def memstore_Users_def userStore_FindByName_def
        userStore_FindByEmail_def userStore_findBy_def find_val_def)
  have "fst (UserManager_prepareForCreate demo_extern demo_manager demo_alice (fst initial)) = None"
    by (simp add: UserManager_prepareForCreate_def demo_validators demo_alice_def draw_def Let_def s
        initial_def memstore_New_def taken_def zero_user_def)
  then obtain u1 w1 where
    "UserManager_prepareForCreate demo_extern demo_manager demo_alice (fst initial) = (None, u1, w1)"
    by (metis prod.collapse)
  then have "fst (UserManager_CreateWithPassword demo_extern demo_manager demo_alice ''Passw0rd!'' (fst initial)) = None"
    using demo_validators
    by (simp add: UserManager_CreateWithPassword_def draw_def Let_def demo_manager_def NewUserManager_def
        memstore_Users_def userStore_Create_def)
  with that show ?thesis by (metis prod.collapse)
qed

theorem create_then_sign_in_witness:
  "\<exists>u w. UserManager_CreateWithPassword demo_extern demo_manager demo_alice ''Passw0rd!'' (fst initial) = (None, u, w) \<and>
     SignInManager_PasswordSignIn (NewSignInManager demo_manager) 0 ''alice'' ''Passw0rd!'' True w = (res_ok, Some u, w)"
proof -
  obtain u w where c: "UserManager_CreateWithPassword demo_extern demo_manager demo_alice ''Passw0rd!''
    (fst initial) = (None, u, w)" by (rule demo_create_alice)
  from create_then_sign_in [OF demo_extern_ok(5) _ demo_manager_def c, of 0 True] c show ?thesis
    by (simp add: initial_def demo_alice_def zero_user_def DefaultOptions_def)
qed

section \<open>Lockout\<close>

text \<open>A failed attempt on an unlocked account: the count goes up, or the lock is set.\<close>

definition after_failure :: "options \<Rightarrow> time \<Rightarrow> user \<Rightarrow> user" where
  "after_failure opts now r =
     (if wrap64 (u_AccessFailedCount r + 1) \<ge> MaxFailedAccessAttempts (o_Lockout opts)
      then r\<lparr>u_LockoutEnd := Some (now + DefaultLockoutDuration (o_Lockout opts)), u_AccessFailedCount := 0\<rparr>
      else r\<lparr>u_AccessFailedCount := wrap64 (u_AccessFailedCount r + 1)\<rparr>)"

definition wrong_password :: "'s user_manager \<Rightarrow> user \<Rightarrow> string \<Rightarrow> bool" where
  "wrong_password m r pw \<longleftrightarrow> u_PasswordHash r = [] \<or> \<not> fst (ph_Verify (um_Hasher m) r (u_PasswordHash r) pw)"

definition named_row :: "memstore user_manager \<Rightarrow> string \<Rightarrow> memstore world \<Rightarrow> user \<Rightarrow> bool" where
  "named_row m name w r \<longleftrightarrow> mem_wf (db w) \<and> user_rows w (u_ID r) = Some r \<and>
     u_NormalizedUserName r = um_Normalize m name \<and>
     (\<forall>j v. user_rows w j = Some v \<longrightarrow> u_NormalizedUserName v = u_NormalizedUserName r \<longrightarrow> j = u_ID r)"

lemma named_row_found:
  assumes "named_row m name w r" "um_Store m = memstore_Users x"
  shows "UserManager_FindByName m name w = Inr r"
  using FindByName_row [of w "u_ID r" r] assms
  by (simp add: named_row_def UserManager_FindByName_def memstore_Users_def)

lemma one_failure:
  assumes nr: "named_row (sm_Users s) name w r" and m: "um_Store (sm_Users s) = memstore_Users x"
    and "\<not> UserManager_IsLockedOut now r" "SignInManager_CanSignIn s r" "wrong_password (sm_Users s) r pw"
  obtains st w' where
    "SignInManager_PasswordSignIn s now name pw True w =
      (if UserManager_IsLockedOut now (after_failure (um_Options (sm_Users s)) now r) then res_locked else res_failed,
       Some (after_failure (um_Options (sm_Users s)) now r\<lparr>u_ConcurrencyStamp := st\<rparr>), w')"
    and "named_row (sm_Users s) name w' (after_failure (um_Options (sm_Users s)) now r\<lparr>u_ConcurrencyStamp := st\<rparr>)"
proof -
  let ?m = "sm_Users s" and ?f = "after_failure (um_Options (sm_Users s)) now r"
  have f: "u_ID ?f = u_ID r" "u_ConcurrencyStamp ?f = u_ConcurrencyStamp r"
    "u_NormalizedUserName ?f = u_NormalizedUserName r" by (simp_all add: after_failure_def)
  have wf: "mem_wf (db w)" and row: "user_rows w (u_ID ?f) = Some r" using nr f by (auto simp: named_row_def)
  obtain u' w' where upd: "us_Update (memstore_Users x) ?f w = (None, u', w')"
    using mem.Update_total [OF wf row f(2) [symmetric]] by blast
  from mem.Update_ok [OF wf this] obtain st where
    u': "u' = ?f\<lparr>u_ConcurrencyStamp := st\<rparr>" and w': "mem_wf (db w')" "user_rows w' = (user_rows w)(u_ID ?f \<mapsto> u')"
    by auto
  have af: "UserManager_AccessFailed ?m now r w = (None, u', w')"
    using upd by (auto simp: UserManager_AccessFailed_def Let_def m after_failure_def split: if_splits)
  have cp: "UserManager_CheckPassword ?m r pw w = (False, r, w)"
    using assms(5) by (auto simp: UserManager_CheckPassword_def wrong_password_def split: prod.splits bool.splits)
  have lk: "UserManager_IsLockedOut now u' = UserManager_IsLockedOut now ?f"
    by (simp add: u' UserManager_IsLockedOut_def)
  have "SignInManager_PasswordSignIn s now name pw True w =
      (if UserManager_IsLockedOut now ?f then res_locked else res_failed, Some u', w')"
    using assms(3,4) by (simp add: SignInManager_PasswordSignIn_def SignInManager_passwordSignInUser_def
        named_row_found [OF nr m] cp af lk)
  moreover have "named_row ?m name w' u'"
    using nr w' f by (auto simp: named_row_def u')
  ultimately show ?thesis using that [of st w'] u' by simp
qed

text \<open>A client that keeps trying: the results of a list of attempts, each at its own instant.\<close>

fun attempts :: "'s sign_in_manager \<Rightarrow> string \<Rightarrow> (time \<times> string) list \<Rightarrow> 's world
    \<Rightarrow> sign_in_result list \<times> 's world" where
  "attempts s name [] w = ([], w)"
| "attempts s name ((now, pw) # as) w =
     (let (r, _, w) = SignInManager_PasswordSignIn s now name pw True w;
          (rs, w) = attempts s name as w
      in (r # rs, w))"

lemma next_count:
  assumes "in_int64 (u_AccessFailedCount r)" "in_int64 n" "u_AccessFailedCount r < n"
  shows "wrap64 (u_AccessFailedCount r + 1) = u_AccessFailedCount r + 1" "in_int64 (u_AccessFailedCount r + 1)"
  using assms by (auto simp: in_int64_def intro!: wrap64_id)

lemma below_max:
  assumes "in_int64 (u_AccessFailedCount r)" "in_int64 (MaxFailedAccessAttempts (o_Lockout opts))"
    and "u_AccessFailedCount r + 1 < MaxFailedAccessAttempts (o_Lockout opts)" "\<not> UserManager_IsLockedOut now' r"
  shows "\<not> UserManager_IsLockedOut now' (after_failure opts now r)"
    "u_AccessFailedCount (after_failure opts now r) = u_AccessFailedCount r + 1"
  using assms next_count(1) [OF assms(1,2)] by (auto simp: after_failure_def UserManager_IsLockedOut_def)

lemma lockout_run:
  assumes "named_row (sm_Users s) name w r" "um_Store (sm_Users s) = memstore_Users x"
    and "u_LockoutEnd r = None" "u_LockoutEnabled r" "SignInManager_CanSignIn s r"
    and "\<And>u pw. ph_Verify (um_Hasher (sm_Users s)) u = ph_Verify (um_Hasher (sm_Users s)) r"
    and "\<forall>(t, pw) \<in> set as. wrong_password (sm_Users s) r pw"
    and "int (length as) = MaxFailedAccessAttempts (o_Lockout (um_Options (sm_Users s))) - u_AccessFailedCount r"
    and "0 < DefaultLockoutDuration (o_Lockout (um_Options (sm_Users s)))" "as \<noteq> []"
    and "in_int64 (u_AccessFailedCount r)" "in_int64 (MaxFailedAccessAttempts (o_Lockout (um_Options (sm_Users s))))"
  shows "\<exists>w' r'. attempts s name as w = (replicate (length as - 1) res_failed @ [res_locked], w') \<and>
    named_row (sm_Users s) name w' r' \<and> u_LockoutEnabled r' \<and>
    u_LockoutEnd r' = Some (fst (last as) + DefaultLockoutDuration (o_Lockout (um_Options (sm_Users s))))"
  using assms
proof (induction as arbitrary: w r)
  case (Cons a as)
  obtain now pw where a: "a = (now, pw)" by fastforce
  let ?o = "um_Options (sm_Users s)"
  have wp: "wrong_password (sm_Users s) r pw" and nl: "\<not> UserManager_IsLockedOut now r"
    using Cons.prems a by (auto simp: UserManager_IsLockedOut_def)
  obtain st w1 where si: "SignInManager_PasswordSignIn s now name pw True w =
      (if UserManager_IsLockedOut now (after_failure ?o now r) then res_locked else res_failed,
       Some (after_failure ?o now r\<lparr>u_ConcurrencyStamp := st\<rparr>), w1)"
    and nr: "named_row (sm_Users s) name w1 (after_failure ?o now r\<lparr>u_ConcurrencyStamp := st\<rparr>)"
    using one_failure [OF Cons.prems(1,2) nl Cons.prems(5) wp] by blast
  let ?r = "after_failure ?o now r\<lparr>u_ConcurrencyStamp := st\<rparr>"
  have "u_AccessFailedCount r < MaxFailedAccessAttempts (o_Lockout ?o)" using Cons.prems(8) by simp
  note inc = next_count [OF Cons.prems(11,12) this]
  show ?case
  proof (cases as)
    case Nil
    with Cons.prems(8) have "u_AccessFailedCount r + 1 \<ge> MaxFailedAccessAttempts (o_Lockout ?o)" by simp
    then have "u_LockoutEnd ?r = Some (now + DefaultLockoutDuration (o_Lockout ?o))" "u_LockoutEnabled ?r"
      "UserManager_IsLockedOut now (after_failure ?o now r)"
      using Cons.prems(4,9) inc by (auto simp: after_failure_def UserManager_IsLockedOut_def)
    with nr si Nil a show ?thesis by auto
  next
    case (Cons b bs)
    with Cons.prems(8) have c: "u_AccessFailedCount r + 1 < MaxFailedAccessAttempts (o_Lockout ?o)" by simp
    have keep: "u_LockoutEnd ?r = None" "u_LockoutEnabled ?r" "SignInManager_CanSignIn s ?r"
      "u_AccessFailedCount ?r = u_AccessFailedCount r + 1" "u_PasswordHash ?r = u_PasswordHash r"
      using Cons.prems(3-5) c inc by (auto simp: after_failure_def SignInManager_CanSignIn_def split: if_splits)
    have v: "ph_Verify (um_Hasher (sm_Users s)) u = ph_Verify (um_Hasher (sm_Users s)) ?r" for u
      using Cons.prems(6) by metis
    have "wrong_password (sm_Users s) ?r pw' = wrong_password (sm_Users s) r pw'" for pw'
      unfolding wrong_password_def keep(5) using v by metis
    then have "\<forall>(t, pw) \<in> set as. wrong_password (sm_Users s) ?r pw" using Cons.prems(7) by auto
    from Cons.IH [OF nr Cons.prems(2) keep(1-3) v this] Cons.prems(8,9,12) keep(4) inc(2) Cons
    obtain w' r' where "attempts s name as w1 = (replicate (length as - 1) res_failed @ [res_locked], w')"
      "named_row (sm_Users s) name w' r'" "u_LockoutEnabled r'"
      "u_LockoutEnd r' = Some (fst (last as) + DefaultLockoutDuration (o_Lockout ?o))" by auto
    moreover have "\<not> UserManager_IsLockedOut now (after_failure ?o now r)" using below_max [OF Cons.prems(11,12) c nl] by simp
    ultimately show ?thesis using si a Cons by auto
  qed
qed simp

text \<open>(C3) Brute-force lockout: on an account that is not locked, as many wrong passwords as are
  left to \<open>MaxFailedAccessAttempts\<close> give failures and, at the last one, a locked account;
  from then until \<open>DefaultLockoutDuration\<close> later every sign-in is refused as locked, the
  right password included, and writes nothing. The attempts are made one after the other; the
  failure count and its limit are 64-bit integers.\<close>

theorem lockout_after_max_failures:
  assumes "named_row (sm_Users s) name w r" and "um_Store (sm_Users s) = memstore_Users x"
    and "um_Hasher (sm_Users s) = NewPasswordHasher x"
    and "u_LockoutEnd r = None" and "u_LockoutEnabled r" and "SignInManager_CanSignIn s r"
    and "\<forall>(t, pw) \<in> set as. wrong_password (sm_Users s) r pw"
    and "int (length as) = MaxFailedAccessAttempts (o_Lockout (um_Options (sm_Users s))) - u_AccessFailedCount r"
    and "0 < DefaultLockoutDuration (o_Lockout (um_Options (sm_Users s)))" and "as \<noteq> []"
    and "in_int64 (u_AccessFailedCount r)" and "in_int64 (MaxFailedAccessAttempts (o_Lockout (um_Options (sm_Users s))))"
  shows "\<exists>w' r'. attempts s name as w = (replicate (length as - 1) res_failed @ [res_locked], w') \<and>
    (\<forall>now pw lk. now < fst (last as) + DefaultLockoutDuration (o_Lockout (um_Options (sm_Users s))) \<longrightarrow>
       SignInManager_PasswordSignIn s now name pw lk w' = (res_locked, Some r', w'))"
proof -
  have "ph_Verify (um_Hasher (sm_Users s)) u = ph_Verify (um_Hasher (sm_Users s)) r" for u
    by (rule ext)+ (simp add: assms(3) NewPasswordHasher_def Let_def pbkdf2Hasher_Verify_def)
  from lockout_run [OF assms(1,2,4,5,6) this assms(7-12)]
  obtain w' r' where at: "attempts s name as w = (replicate (length as - 1) res_failed @ [res_locked], w')"
    and nr: "named_row (sm_Users s) name w' r'" and "u_LockoutEnabled r'"
    "u_LockoutEnd r' = Some (fst (last as) + DefaultLockoutDuration (o_Lockout (um_Options (sm_Users s))))" by auto
  then have "SignInManager_PasswordSignIn s now name pw lk w' = (res_locked, Some r', w')"
    if "now < fst (last as) + DefaultLockoutDuration (o_Lockout (um_Options (sm_Users s)))" for now pw lk
    using that by (simp add: SignInManager_PasswordSignIn_def SignInManager_passwordSignInUser_def
        named_row_found [OF nr assms(2)] UserManager_IsLockedOut_def)
  with at show ?thesis by blast
qed

text \<open>A world that holds one user, for the concrete run: no password, so every password is wrong.\<close>

definition demo_bob :: user where
  "demo_bob = zero_user\<lparr>u_ID := ''b'', u_UserName := ''bob'', u_NormalizedUserName := ''BOB'',
     u_ConcurrencyStamp := ''s'', u_LockoutEnabled := True\<rparr>"

definition bob_world :: "memstore world" where
  "bob_world = \<lparr>db = memstore_New\<lparr>m_users := [(''b'', demo_bob)]\<rparr>, tape = 0\<rparr>"

lemma bob_row: "named_row demo_manager ''bob'' bob_world demo_bob"
  by (auto simp: named_row_def bob_world_def demo_bob_def mem_wf_def login_wf_def api_keys_wf_def oauth_wf_def
      memstore_New_def keyed_def zero_user_def demo_manager_def NewUserManager_def upperNormalizer_Normalize_def
      strings_TrimSpace_visible visible_def strings_ToUpper_def is_ascii_def upper_byte_def char_of_def bit_Suc_0_iff
      split: if_splits)

theorem lockout_after_max_failures_witness:
  "\<exists>w' r'. attempts (NewSignInManager demo_manager) ''bob'' (replicate 5 (0, ''guess'')) bob_world =
      ([res_failed, res_failed, res_failed, res_failed, res_locked], w') \<and>
    SignInManager_PasswordSignIn (NewSignInManager demo_manager) 1 ''bob'' ''any'' True w' = (res_locked, Some r', w')"
proof -
  have m: "sm_Users (NewSignInManager demo_manager) = demo_manager" by (simp add: NewSignInManager_def)
  obtain w' r' where
    "attempts (NewSignInManager demo_manager) ''bob'' (replicate 5 (0, ''guess'')) bob_world =
      (replicate 4 res_failed @ [res_locked], w')"
    "\<And>now pw lk. now < 300000000000 \<Longrightarrow>
       SignInManager_PasswordSignIn (NewSignInManager demo_manager) now ''bob'' pw lk w' = (res_locked, Some r', w')"
    using lockout_after_max_failures [of "NewSignInManager demo_manager" "''bob''" bob_world demo_bob demo_extern
        "replicate 5 (0, ''guess'')", unfolded m, OF bob_row]
    by (auto simp: demo_manager_def NewUserManager_def demo_bob_def zero_user_def DefaultOptions_def
        SignInManager_CanSignIn_def NewSignInManager_def wrong_password_def minute_def second_def
        in_int64_def minInt64_def maxInt64_def)
  moreover have "replicate 4 res_failed @ [res_locked] = [res_failed, res_failed, res_failed, res_failed, res_locked]"
    by (simp add: numeral_eq_Suc)
  ultimately show ?thesis by auto
qed

section \<open>Policies\<close>

text \<open>The classes of runes the cases of the \<open>switch\<close> stand for, and the flags of the loop: each
  is set exactly when some rune is in its class.\<close>

definition rune_upper :: "extern \<Rightarrow> nat \<Rightarrow> bool" where
  "rune_upper x r \<longleftrightarrow> unicode_IsUpper x r \<and> \<not> unicode_IsDigit x r"

definition rune_lower :: "extern \<Rightarrow> nat \<Rightarrow> bool" where
  "rune_lower x r \<longleftrightarrow> unicode_IsLower x r \<and> \<not> unicode_IsDigit x r \<and> \<not> rune_upper x r"

definition rune_other :: "extern \<Rightarrow> nat \<Rightarrow> bool" where
  "rune_other x r \<longleftrightarrow> \<not> unicode_IsLetter x r \<and> \<not> unicode_IsDigit x r \<and> \<not> rune_upper x r \<and> \<not> rune_lower x r"

lemma pw_scan_flags:
  "hasDigit (fold (pw_scan x) rs f) \<longleftrightarrow> hasDigit f \<or> (\<exists>r \<in> set rs. unicode_IsDigit x r)"
  "hasUpper (fold (pw_scan x) rs f) \<longleftrightarrow> hasUpper f \<or> (\<exists>r \<in> set rs. rune_upper x r)"
  "hasLower (fold (pw_scan x) rs f) \<longleftrightarrow> hasLower f \<or> (\<exists>r \<in> set rs. rune_lower x r)"
  "hasNonAlpha (fold (pw_scan x) rs f) \<longleftrightarrow> hasNonAlpha f \<or> (\<exists>r \<in> set rs. rune_other x r)"
  by (induction rs arbitrary: f) (auto simp: pw_scan_def rune_upper_def rune_lower_def rune_other_def)

text \<open>The password policy, for every password: \<open>ValidatePassword\<close> accepts exactly the
  passwords that are long enough in runes, have a digit, an upper-case letter, a lower-case
  letter and a non-alphanumeric rune wherever the options ask for them, and use at least
  \<open>RequiredUniqueChars\<close> different runes.\<close>

theorem ValidatePassword_accepts:
  "UserManager_ValidatePassword x m pw = None \<longleftrightarrow>
     (let o' = o_Password (um_Options m); R = set (runes pw)
      in RequiredLength o' \<le> int (length (runes pw))
       \<and> (RequireDigit o' \<longrightarrow> (\<exists>r \<in> R. unicode_IsDigit x r))
       \<and> (RequireUppercase o' \<longrightarrow> (\<exists>r \<in> R. rune_upper x r))
       \<and> (RequireLowercase o' \<longrightarrow> (\<exists>r \<in> R. rune_lower x r))
       \<and> (RequireNonAlphanumeric o' \<longrightarrow> (\<exists>r \<in> R. rune_other x r))
       \<and> (1 < RequiredUniqueChars o' \<longrightarrow> RequiredUniqueChars o' \<le> int (card R)))"
proof -
  have ite: "(if a then Some e else b) = None \<longleftrightarrow> \<not> a \<and> b = None" for a and e :: go_error and b by simp
  show ?thesis
    unfolding UserManager_ValidatePassword_def Let_def ite pw_scan_flags
    by (simp add: not_less disj_imp not_le)
qed

theorem ValidatePassword_accepts_witness:
  "UserManager_ValidatePassword demo_extern demo_manager ''Passw0rd!'' = None \<and>
   (\<exists>r \<in> set (runes ''Passw0rd!''). unicode_IsDigit demo_extern r)"
  using ValidatePassword_accepts [of demo_extern demo_manager "''Passw0rd!''"] demo_validators(1)
  by (simp add: demo_manager_def NewUserManager_def DefaultOptions_def Let_def)

text \<open>The user-name policy on ASCII names and an ASCII allow-list: a name passes exactly when
  it is not blank and, if there is an allow-list, every character of it is on the list.\<close>

theorem ValidateUserName_accepts:
  assumes "is_ascii name" and "is_ascii (AllowedUserNameCharacters (o_User (um_Options m)))"
  shows "UserManager_ValidateUserName m name = None \<longleftrightarrow>
    strings_TrimSpace name \<noteq> [] \<and>
    (AllowedUserNameCharacters (o_User (um_Options m)) = [] \<or>
     set name \<subseteq> set (AllowedUserNameCharacters (o_User (um_Options m))))"
proof -
  have "(of_char c :: nat) \<in> of_char ` set s \<longleftrightarrow> c \<in> set s" for c :: char and s by auto
  with assms show ?thesis
    by (auto simp: UserManager_ValidateUserName_def Let_def runes_ascii strings_ContainsRune_def list_ex_iff)
qed

theorem ValidateUserName_accepts_witness:
  "UserManager_ValidateUserName demo_manager ''ann_1'' = None \<longleftrightarrow>
    strings_TrimSpace ''ann_1'' \<noteq> [] \<and>
    (AllowedUserNameCharacters (o_User (um_Options demo_manager)) = [] \<or>
     set ''ann_1'' \<subseteq> set (AllowedUserNameCharacters (o_User (um_Options demo_manager))))"
  by (rule ValidateUserName_accepts)
    (simp_all add: is_ascii_def demo_manager_def NewUserManager_def DefaultOptions_def)

section \<open>Reset tokens\<close>

lemma ResetPassword_props:
  assumes "pbkdf2_ok x" and "mem_wf (db w)" and "um_Store m = memstore_Users x"
    and "um_Hasher m = NewPasswordHasher x" and "um_Tokens m = Some p"
    and "UserManager_ResetPassword x m now u tok pw w = (None, u', w')"
    and "fst (newStamp x (snd (ph_Hash (um_Hasher m) u pw (tape w)))) \<noteq> u_SecurityStamp u"
    and "CHR ''|'' \<notin> set (u_ID u)" and "CHR ''|'' \<notin> set (u_SecurityStamp u)"
  shows "user_rows w' (u_ID u) = Some u'"
    and "UserManager_CheckPassword m u' pw w' = (True, u', w')"
    and "DataTokenProvider_Validate x p later purposePasswordReset tok u' \<Longrightarrow>
      \<exists>ts. token_payload ts purposePasswordReset u \<noteq> token_payload ts purposePasswordReset u' \<and>
        x_hmac_sha256 x (dp_key p) (token_payload ts purposePasswordReset u) =
        x_hmac_sha256 x (dp_key p) (token_payload ts purposePasswordReset u')"
proof -
  from assms(5,6) obtain v w1 where tv: "DataTokenProvider_Validate x p now purposePasswordReset tok u"
    and v: "set_password_hash x m pw u w = (v, w1)" and upd: "us_Update (memstore_Users x) v w1 = (None, u', w')"
    by (auto simp: UserManager_ResetPassword_def token_valid_def assms(3) Let_def
        split: if_splits option.splits prod.splits)
  have "hash_forward m" using pbkdf2.Hash_tape by (simp add: hash_forward_def assms(4))
  note pr = set_password_hash_props [OF v this]
  have "mem_wf (db w1)" using pr(2) assms(2) by simp
  from mem.Update_ok [OF this upd] obtain s where u': "u' = v\<lparr>u_ConcurrencyStamp := s\<rparr>"
    and rows: "user_rows w' = (user_rows w1)(u_ID v \<mapsto> u')" by auto
  have id: "u_ID u' = u_ID u" using pr(1) by (simp add: u' same_keys_def)
  show "user_rows w' (u_ID u) = Some u'" using rows pr(1) by (simp add: same_keys_def)
  show "UserManager_CheckPassword m u' pw w' = (True, u', w')"
    using pr(4) pbkdf2.Verify_Hash [of x, OF assms(1)] pbkdf2.Hash_ne
    by (auto simp: UserManager_CheckPassword_def u' assms(4))
  have st: "CHR ''|'' \<notin> set (u_SecurityStamp u')" and new: "u_SecurityStamp u' \<noteq> u_SecurityStamp u"
    using v newStamp_no_sep assms(7) by (auto simp: set_password_hash_def draw_def u')
  assume "DataTokenProvider_Validate x p later purposePasswordReset tok u'"
  with tv obtain raw where "length raw = 40"
    and eq: "x_hmac_sha256 x (dp_key p) (token_payload (take 8 raw) purposePasswordReset u) =
      x_hmac_sha256 x (dp_key p) (token_payload (take 8 raw) purposePasswordReset u')"
    by (auto simp: DataTokenProvider_Validate_def DataTokenProvider_ValidateWithLifespan_def
        DataTokenProvider_sign_def Let_def split: option.splits if_splits)
  then have "token_payload (take 8 raw) purposePasswordReset u \<noteq> token_payload (take 8 raw) purposePasswordReset u'"
    using payload_inj [of "take 8 raw" "take 8 raw" u u'] assms(8,9) new st id by auto
  with eq show "\<exists>ts. token_payload ts purposePasswordReset u \<noteq> token_payload ts purposePasswordReset u' \<and>
      x_hmac_sha256 x (dp_key p) (token_payload ts purposePasswordReset u) =
      x_hmac_sha256 x (dp_key p) (token_payload ts purposePasswordReset u')" by blast
qed

text \<open>(C6) A password-reset token works once. \<open>ResetPassword\<close> draws a new security stamp, after the
  salt of the new hash; suppose the stamp it draws is not the old one. Then, once \<open>ResetPassword\<close>
  has succeeded with the token, the new password is the one stored (it verifies without a rehash),
  and the token is not accepted for the user again at any time, unless HMAC-SHA256 gives the two
  different payloads it then compares, one with the old and one with the new stamp, one value.\<close>

theorem ResetPassword_single_use:
  assumes "pbkdf2_ok x" and "mem_wf (db w)" and "um_Store m = memstore_Users x"
    and "um_Hasher m = NewPasswordHasher x" and "um_Tokens m = Some p"
    and "UserManager_ResetPassword x m now u tok pw w = (None, u', w')"
    and "fst (newStamp x (snd (ph_Hash (um_Hasher m) u pw (tape w)))) \<noteq> u_SecurityStamp u"
    and "CHR ''|'' \<notin> set (u_ID u)" and "CHR ''|'' \<notin> set (u_SecurityStamp u)"
  shows "user_rows w' (u_ID u) = Some u' \<and> UserManager_CheckPassword m u' pw w' = (True, u', w') \<and>
    (\<forall>later. DataTokenProvider_Validate x p later purposePasswordReset tok u' \<longrightarrow>
      (\<exists>ts. token_payload ts purposePasswordReset u \<noteq> token_payload ts purposePasswordReset u' \<and>
        x_hmac_sha256 x (dp_key p) (token_payload ts purposePasswordReset u) =
        x_hmac_sha256 x (dp_key p) (token_payload ts purposePasswordReset u')))"
  using ResetPassword_props [OF assms] by blast

definition demo_tokens :: data_token_provider where
  "demo_tokens = NewDataTokenProvider ''secret'' 0"

lemma newStamp_ne: "fst (newStamp x t) \<noteq> []"
  by (simp add: newStamp_def rand_Read_def base64_Encode_ne)

lemma demo_reset:
  obtains u' w' where
    "UserManager_ResetPassword demo_extern (demo_manager\<lparr>um_Tokens := Some demo_tokens\<rparr>) 0 demo_bob
       (DataTokenProvider_Generate demo_extern demo_tokens 0 purposePasswordReset demo_bob) ''Passw0rd!'' bob_world
     = (None, u', w')"
    and "u_SecurityStamp u' \<noteq> []" and "CHR ''|'' \<notin> set (u_SecurityStamp u')"
proof -
  let ?m = "demo_manager\<lparr>um_Tokens := Some demo_tokens\<rparr>"
  have m: "um_Store ?m = memstore_Users demo_extern" "hash_forward ?m"
    using demo_manager_ok by (auto simp: manager_ok_def hash_forward_def)
  have v: "UserManager_ValidatePassword demo_extern ?m ''Passw0rd!'' = None"
    using demo_validators(1) by (simp add: UserManager_ValidatePassword_def)
  have t: "token_valid demo_extern ?m 0 purposePasswordReset
      (DataTokenProvider_Generate demo_extern demo_tokens 0 purposePasswordReset demo_bob) demo_bob"
    using Validate_Generate [OF demo_extern_ok(3), of 0 demo_tokens 0 purposePasswordReset purposePasswordReset demo_bob]
    by (simp add: token_valid_def DataTokenProvider_Validate_def demo_tokens_def NewDataTokenProvider_def
        in_int64_def minInt64_def maxInt64_def time_Unix_def time_Sub_def time_of_Unix_def hour_def minute_def second_def)
  obtain u1 w1 where s: "set_password_hash demo_extern ?m ''Passw0rd!'' demo_bob bob_world = (u1, w1)" by fastforce
  note pr = set_password_hash_props [OF s m(2)]
  have wf: "mem_wf (db w1)" and row: "user_rows w1 (u_ID u1) = Some demo_bob"
    and st: "u_ConcurrencyStamp demo_bob = u_ConcurrencyStamp u1"
    using pr bob_row by (auto simp: named_row_def same_keys_def)
  obtain u' w' where upd: "us_Update (memstore_Users demo_extern) u1 w1 = (None, u', w')"
    using mem.Update_total [OF wf row st] by blast
  from mem.Update_ok [OF wf upd] obtain c where u': "u' = u1\<lparr>u_ConcurrencyStamp := c\<rparr>" by auto
  have "u_SecurityStamp u1 \<noteq> []" "CHR ''|'' \<notin> set (u_SecurityStamp u1)"
    using s newStamp_no_sep by (auto simp: set_password_hash_def draw_def newStamp_ne)
  then show ?thesis
    using that [of u' w'] upd u' by (simp add: UserManager_ResetPassword_def t v s m)
qed

text \<open>The token that reset a password is refused a minute later, and at every other time.\<close>

theorem ResetPassword_single_use_witness:
  "\<exists>u' w'. UserManager_CheckPassword (demo_manager\<lparr>um_Tokens := Some demo_tokens\<rparr>) u' ''Passw0rd!'' w' = (True, u', w')
     \<and> user_rows w' ''b'' = Some u' \<and>
     \<not> DataTokenProvider_Validate demo_extern demo_tokens minute purposePasswordReset
         (DataTokenProvider_Generate demo_extern demo_tokens 0 purposePasswordReset demo_bob) u'"
proof -
  let ?m = "demo_manager\<lparr>um_Tokens := Some demo_tokens\<rparr>"
  let ?tok = "DataTokenProvider_Generate demo_extern demo_tokens 0 purposePasswordReset demo_bob"
  obtain u' w' where r: "UserManager_ResetPassword demo_extern ?m 0 demo_bob ?tok ''Passw0rd!'' bob_world = (None, u', w')"
    and st: "u_SecurityStamp u' \<noteq> []" "CHR ''|'' \<notin> set (u_SecurityStamp u')" by (rule demo_reset)
  have "mem_wf (db bob_world)" using bob_row by (simp add: named_row_def)
  note use = ResetPassword_single_use [OF demo_extern_ok(5) this _ _ _ r]
  have bob: "u_ID demo_bob = ''b''" "u_SecurityStamp demo_bob = []" by (simp_all add: demo_bob_def zero_user_def)
  have once: "user_rows w' ''b'' = Some u' \<and> UserManager_CheckPassword ?m u' ''Passw0rd!'' w' = (True, u', w') \<and>
    (\<forall>later. DataTokenProvider_Validate demo_extern demo_tokens later purposePasswordReset ?tok u' \<longrightarrow>
      (\<exists>ts. token_payload ts purposePasswordReset demo_bob \<noteq> token_payload ts purposePasswordReset u' \<and>
        x_hmac_sha256 demo_extern (dp_key demo_tokens) (token_payload ts purposePasswordReset demo_bob) =
        x_hmac_sha256 demo_extern (dp_key demo_tokens) (token_payload ts purposePasswordReset u')))"
    using use by (simp add: demo_manager_def NewUserManager_def bob newStamp_ne)
  have "x_hmac_sha256 demo_extern k (token_payload ts purposePasswordReset demo_bob) \<noteq>
      x_hmac_sha256 demo_extern k (token_payload ts purposePasswordReset u')" for k ts
    using st by (cases "u_SecurityStamp u'" rule: rev_cases)
      (auto simp: token_payload_def bob demo_extern_def demo_pad_def)
  with once show ?thesis by blast
qed

end
