(* ===== verification/Memstore_Properties.thy ===== *)
theory Memstore_Properties
  imports Memstore_Correct
begin

text \<open>
  Properties of the in-memory store as a whole: its invariant on every run, the cascading delete
  and the purge of guests, and the single-winner operations other components build on.
\<close>

section \<open>The invariant on every run\<close>

text \<open>(C8) Whatever sequence of method calls the views of the store receive, in any interleaving,
  the store stays well formed: every row sits under the key its own fields name, each map has one
  row per key, external logins and their owners agree, and no two API keys share a hash.\<close>

theorem memstore_runs_well_formed:
  assumes "(mem_step x)\<^sup>*\<^sup>* \<lparr>db = memstore_New, tape = t\<rparr> w"
  shows "mem_wf (db w)"
  using mem_steps_wf [OF assms] by simp

definition demo_user :: "string \<Rightarrow> user" where
  "demo_user i = zero_user\<lparr>u_ID := i, u_UserName := i, u_NormalizedUserName := i\<rparr>"

theorem memstore_runs_well_formed_witness:
  "\<exists>w. (mem_step demo_extern)\<^sup>*\<^sup>* \<lparr>db = memstore_New, tape = 0\<rparr> w \<and>
     map_of (m_users (db w)) ''a'' = Some (demo_user ''a'') \<and> mem_wf (db w)"
proof -
  let ?w0 = "\<lparr>db = memstore_New, tape = 0\<rparr>"
  obtain e u w where c: "userStore_Create (demo_user ''a'') ?w0 = (e, u, w)" by (metis prod_cases3)
  then have s: "(mem_step demo_extern)\<^sup>*\<^sup>* ?w0 w" by (blast intro: step_Create)
  have "map_of (m_users (db w)) ''a'' = Some (demo_user ''a'')"
    using c by (auto simp: userStore_Create_def update_conv demo_user_def zero_user_def)
  with s memstore_runs_well_formed [OF s] show ?thesis by blast
qed

section \<open>Deletion\<close>

lemma cascade_fields:
  "m_users (cascadeDeleteLocked i s) = AList.delete i (m_users s)"
  "m_roles (cascadeDeleteLocked i s) = m_roles s"
  "m_userRoles (cascadeDeleteLocked i s) = AList.delete i (m_userRoles s)"
  "m_userClaims (cascadeDeleteLocked i s) = AList.delete i (m_userClaims s)"
  "m_tokens (cascadeDeleteLocked i s) = delete_if (\<lambda>k _. prefix (i @ ''|'') k) (m_tokens s)"
  "m_logins (cascadeDeleteLocked i s) = delete_if (\<lambda>k _. map_of (m_loginUser s) k = Some i) (m_logins s)"
  "m_loginUser (cascadeDeleteLocked i s) = delete_if (\<lambda>_ uid. uid = i) (m_loginUser s)"
  "m_apiKeys (cascadeDeleteLocked i s) = delete_if (\<lambda>_ k. k_UserID k = i) (m_apiKeys s)"
  "m_refreshTokens (cascadeDeleteLocked i s) = delete_if (\<lambda>_ rt. rt_UserID rt = i) (m_refreshTokens s)"
  "m_oauthCodes (cascadeDeleteLocked i s) = delete_if (\<lambda>_ c. cd_UserID c = i) (m_oauthCodes s)"
  "m_oauthConsents (cascadeDeleteLocked i s) = delete_if (\<lambda>_ c. cs_UserID c = i) (m_oauthConsents s)"
  "m_oauthGrants (cascadeDeleteLocked i s) = delete_if (\<lambda>_ g. g_UserID g = i) (m_oauthGrants s)"
  by (simp_all add: cascadeDeleteLocked_def Let_def)

lemma filter_delete_if:
  "filter P (map snd (delete_if (\<lambda>_ v. Q v) m)) = filter (\<lambda>v. P v \<and> \<not> Q v) (map snd m)"
  by (induction m) (auto simp: delete_if_def)

lemma filter_user_gone: "filter (\<lambda>v. f v = i) (map snd (delete_if (\<lambda>_ v. f v = i) m)) = []"
  by (simp add: filter_delete_if filter_empty_conv)

lemma filter_user_kept:
  "j \<noteq> i \<Longrightarrow> filter (\<lambda>v. f v = j) (map snd (delete_if (\<lambda>_ v. f v = i) m)) = filter (\<lambda>v. f v = j) (map snd m)"
  unfolding filter_delete_if by (rule filter_cong) auto

lemma tokenKey_prefix:
  assumes "plain_key i" "plain_key j"
  shows "prefix (i @ ''|'') (tokenKey j p n) \<longleftrightarrow> i = j"
proof
  assume "prefix (i @ ''|'') (tokenKey j p n)"
  then obtain r where "i @ CHR ''|'' # r = j @ CHR ''|'' # (p @ ''|'' @ n)"
    by (auto simp: prefix_def tokenKey_def)
  with assms show "i = j"
    unfolding plain_key_def by (metis option.inject prod.inject strings_Cut_append)
qed (simp add: tokenKey_def)

text \<open>What the views show of one user.\<close>

record user_view =
  v_row :: "go_error + user"
  v_roles :: "go_error + string list"
  v_claims :: "go_error + claim list"
  v_logins :: "go_error + login_info list"
  v_tokens :: "string \<Rightarrow> string \<Rightarrow> go_error + string"
  v_keys :: "go_error + api_key list"
  v_sessions :: "go_error + refresh_token list"
  v_grants :: "go_error + oauth_grant list"
  v_codes :: "oauth_code list"
  v_consents :: "oauth_consent list"

definition view_of :: "memstore world \<Rightarrow> user \<Rightarrow> user_view" where
  "view_of w u = \<lparr>v_row = userStore_FindByID (u_ID u) w, v_roles = userStore_GetRoles u w,
     v_claims = userStore_GetClaims u w, v_logins = userStore_GetLogins u w,
     v_tokens = (\<lambda>p n. userStore_GetToken u p n w), v_keys = ListAPIKeysByUser (u_ID u) w,
     v_sessions = ListUserRefreshTokens (u_ID u) w, v_grants = ListUserGrants (u_ID u) w,
     v_codes = filter (\<lambda>c. cd_UserID c = u_ID u) (map snd (m_oauthCodes (db w))),
     v_consents = filter (\<lambda>c. cs_UserID c = u_ID u) (map snd (m_oauthConsents (db w)))\<rparr>"

definition empty_view :: user_view where
  "empty_view = \<lparr>v_row = Inl ErrNotFound, v_roles = Inr [], v_claims = Inr [], v_logins = Inr [],
     v_tokens = (\<lambda>p n. Inr []), v_keys = Inr [], v_sessions = Inr [], v_grants = Inr [],
     v_codes = [], v_consents = []\<rparr>"

lemma lookup_or_delete: "lookup_or z (AList.delete i m) k = (if k = i then z else lookup_or z m k)"
  by (simp add: lookup_or_def delete_conv)

lemma GetLogins_cascade:
  assumes "mem_wf s"
  shows "map (\<lambda>(k, _). lookup_or zero_login (m_logins (cascadeDeleteLocked i s)) k)
      (filter (\<lambda>(_, uid). uid = j) (m_loginUser (cascadeDeleteLocked i s))) =
    (if j = i then [] else map (\<lambda>(k, _). lookup_or zero_login (m_logins s) k)
      (filter (\<lambda>(_, uid). uid = j) (m_loginUser s)))"
proof -
  have d: "dkeys (m_loginUser s)" "dkeys (m_logins s)" using wf_dkeys [OF assms] by auto
  have f: "filter (\<lambda>(_, uid). uid = j) (delete_if (\<lambda>_ uid. uid = i) m) =
      (if j = i then [] else filter (\<lambda>(_, uid). uid = j) m)" for m :: "(string, string) gomap"
    by (induction m) (auto simp: delete_if_def)
  have "lookup_or zero_login (m_logins (cascadeDeleteLocked i s)) k = lookup_or zero_login (m_logins s) k"
    if "(k, j) \<in> set (m_loginUser s)" "j \<noteq> i" for k
    using that d by (auto simp: lookup_or_def cascade_fields map_of_delete_if map_of_eq_Some_iff [OF d(1)]
        split: option.splits dest: eq_key_imp_eq_value)
  then show ?thesis by (auto simp: cascade_fields f)
qed

lemma cascade_view:
  assumes wf: "mem_wf (db w)" and "plain_key (u_ID u)" "plain_key (u_ID v)"
  shows "view_of (upd_db (cascadeDeleteLocked (u_ID u)) w) v =
    (if u_ID v = u_ID u then empty_view else view_of w v)"
proof -
  let ?w = "upd_db (cascadeDeleteLocked (u_ID u)) w"
  have "userStore_GetToken v p n ?w = (if u_ID v = u_ID u then Inr [] else userStore_GetToken v p n w)" for p n
    using wf_dkeys(5) [OF wf] tokenKey_prefix [OF assms(2,3), of p n]
    by (auto simp: userStore_GetToken_def lookup_or_def cascade_fields map_of_delete_if split: option.splits)
  moreover have "userStore_GetLogins v ?w = (if u_ID v = u_ID u then Inr [] else userStore_GetLogins v w)"
    using GetLogins_cascade [OF wf, of "u_ID u" "u_ID v"] by (simp add: userStore_GetLogins_def)
  ultimately show ?thesis
    by (auto simp: view_of_def empty_view_def userStore_FindByID_def userStore_GetRoles_def userStore_GetClaims_def
        ListAPIKeysByUser_def ListUserRefreshTokens_def ListUserGrants_def cascade_fields lookup_or_delete delete_conv filter_user_gone filter_user_kept
        List.map_filter_simps)
qed

text \<open>(C7) Deleting a user removes all of it and nothing else: afterwards no view of the store shows
  a row, role, claim, login, token, API key, refresh session, OAuth code, consent or grant of that
  user, and every other user's view is what it was. IDs hold no \<open>|\<close>, as the generated UUIDs do.\<close>

theorem Delete_cascades:
  assumes "mem_wf (db w)" and "plain_key (u_ID u)" and "plain_key (u_ID v)"
    and "userStore_Delete u w = (e, w')"
  shows "e = None \<and> view_of w' v = (if u_ID v = u_ID u then empty_view else view_of w v)"
  using cascade_view [OF assms(1-3)] assms(4) by (auto simp: userStore_Delete_def)

text \<open>Two users with a row, claims and a token each; the first is deleted.\<close>

definition two_users :: "memstore world" where
  "two_users = \<lparr>db = memstore_New\<lparr>
       m_users := [(''a'', demo_user ''a''), (''b'', demo_user ''b'')],
       m_userClaims := [(''a'', [\<lparr>c_Type = ''t'', c_Value = ''1''\<rparr>]), (''b'', [\<lparr>c_Type = ''t'', c_Value = ''2''\<rparr>])],
       m_tokens := [(tokenKey ''a'' ''p'' ''n'', ''x''), (tokenKey ''b'' ''p'' ''n'', ''y'')]\<rparr>, tape = 0\<rparr>"

lemma two_users_wf: "mem_wf (db two_users)"
  by (simp add: two_users_def mem_wf_def login_wf_def api_keys_wf_def oauth_wf_def memstore_New_def keyed_def
      demo_user_def tokenKey_def)

theorem Delete_cascades_witness:
  "\<exists>w'. userStore_Delete (demo_user ''a'') two_users = (None, w') \<and>
     v_tokens (view_of two_users (demo_user ''a'')) ''p'' ''n'' = Inr ''x'' \<and>
     view_of w' (demo_user ''a'') = empty_view \<and>
     view_of w' (demo_user ''b'') = view_of two_users (demo_user ''b'') \<and>
     v_row (view_of w' (demo_user ''b'')) = Inr (demo_user ''b'') \<and>
     v_tokens (view_of w' (demo_user ''b'')) ''p'' ''n'' = Inr ''y''"
proof -
  obtain e w' where d: "userStore_Delete (demo_user ''a'') two_users = (e, w')" by fastforce
  have p: "plain_key (u_ID (demo_user ''a''))" "plain_key (u_ID (demo_user ''b''))"
    "u_ID (demo_user ''a'') = ''a''" "u_ID (demo_user ''b'') = ''b''"
    by (simp_all add: demo_user_def plain_key_def)
  have "v_tokens (view_of two_users (demo_user ''a'')) ''p'' ''n'' = Inr ''x''"
    "v_row (view_of two_users (demo_user ''b'')) = Inr (demo_user ''b'')"
    "v_tokens (view_of two_users (demo_user ''b'')) ''p'' ''n'' = Inr ''y''"
    by (simp_all add: view_of_def two_users_def userStore_GetToken_def userStore_FindByID_def lookup_or_def p tokenKey_def)
  then show ?thesis
    using Delete_cascades [OF two_users_wf p(1) p(1) d] Delete_cascades [OF two_users_wf p(1) p(2) d] d p by simp
qed

end
