(* ===== verification/Role_Manager.thy ===== *)
theory Role_Manager
  imports Memstore_Correct
begin

text \<open>
  \<open>RoleManager\<close> (\<open>identity/role_manager.go\<close>): the business layer for roles, the contract of the
  role store it relies on and that role names stay unique under every sequence of its operations.
\<close>

record 's role_manager =
  rm_Store :: "'s role_store"
  rm_Normalize :: "string \<Rightarrow> string"

definition NewRoleManager :: "extern \<Rightarrow> 's role_store \<Rightarrow> 's role_manager" where
  "NewRoleManager x store = \<lparr>rm_Store = store, rm_Normalize = upperNormalizer_Normalize x\<rparr>"

section \<open>Operations\<close>

definition RoleManager_Create ::
  "extern \<Rightarrow> 's role_manager \<Rightarrow> role \<Rightarrow> 's world \<Rightarrow> go_error option \<times> role \<times> 's world" where
  "RoleManager_Create x m r w =
     (let (r, w) = (if r_ID r = []
                    then (let (i, w) = draw (uuid_NewString x) w in (r\<lparr>r_ID := i\<rparr>, w))
                    else (r, w));
          r = r\<lparr>r_NormalizedName := rm_Normalize m (r_Name r)\<rparr>;
          (s, w) = draw (uuid_NewString x) w;
          r = r\<lparr>r_ConcurrencyStamp := s\<rparr>
      in (case rs_FindByName (rm_Store m) (r_NormalizedName r) w of
            Inr _ \<Rightarrow> (Some ErrDuplicateRoleName, r, w)
          | Inl e \<Rightarrow>
              if e \<noteq> ErrNotFound then (Some e, r, w)
              else let (e, w) = rs_Create (rm_Store m) r w in (e, r, w)))"

definition RoleManager_Update ::
  "'s role_manager \<Rightarrow> role \<Rightarrow> 's world \<Rightarrow> go_error option \<times> role \<times> 's world" where
  "RoleManager_Update m r w =
     (let r = r\<lparr>r_NormalizedName := rm_Normalize m (r_Name r)\<rparr>
      in (case rs_FindByName (rm_Store m) (r_NormalizedName r) w of
            Inr existing \<Rightarrow>
              if r_ID existing \<noteq> r_ID r then (Some ErrDuplicateRoleName, r, w)
              else rs_Update (rm_Store m) r w
          | Inl e \<Rightarrow>
              if e \<noteq> ErrNotFound then (Some e, r, w) else rs_Update (rm_Store m) r w))"

definition RoleManager_Delete :: "'s role_manager \<Rightarrow> role \<Rightarrow> 's world \<Rightarrow> go_error option \<times> 's world" where
  "RoleManager_Delete m r w = rs_Delete (rm_Store m) r w"

definition RoleManager_FindByName :: "'s role_manager \<Rightarrow> string \<Rightarrow> 's world \<Rightarrow> go_error + role" where
  "RoleManager_FindByName m name w = rs_FindByName (rm_Store m) (rm_Normalize m name) w"

definition RoleManager_FindByID :: "'s role_manager \<Rightarrow> string \<Rightarrow> 's world \<Rightarrow> go_error + role" where
  "RoleManager_FindByID m i w = rs_FindByID (rm_Store m) i w"

definition RoleManager_RoleExists :: "'s role_manager \<Rightarrow> string \<Rightarrow> 's world \<Rightarrow> bool" where
  "RoleManager_RoleExists m name w =
     (case rs_FindByName (rm_Store m) (rm_Normalize m name) w of Inr _ \<Rightarrow> True | Inl _ \<Rightarrow> False)"

definition RoleManager_GetClaims :: "'s role_manager \<Rightarrow> role \<Rightarrow> 's world \<Rightarrow> go_error + claim list" where
  "RoleManager_GetClaims m r w = rs_GetClaims (rm_Store m) r w"

definition RoleManager_AddClaim ::
  "'s role_manager \<Rightarrow> role \<Rightarrow> claim \<Rightarrow> 's world \<Rightarrow> go_error option \<times> 's world" where
  "RoleManager_AddClaim m r c w = rs_AddClaim (rm_Store m) r c w"

definition RoleManager_RemoveClaim ::
  "'s role_manager \<Rightarrow> role \<Rightarrow> claim \<Rightarrow> 's world \<Rightarrow> go_error option \<times> 's world" where
  "RoleManager_RemoveClaim m r c w = rs_RemoveClaim (rm_Store m) r c w"

definition RoleManager_ReplaceClaim ::
  "'s role_manager \<Rightarrow> role \<Rightarrow> claim \<Rightarrow> claim \<Rightarrow> 's world \<Rightarrow> go_error option \<times> 's world" where
  "RoleManager_ReplaceClaim m r old replacement w =
     (case rs_RemoveClaim (rm_Store m) r old w of
        (Some e, w) \<Rightarrow> (Some e, w)
      | (None, w) \<Rightarrow> rs_AddClaim (rm_Store m) r replacement w)"

section \<open>The contract of the role store\<close>

text \<open>\<open>rows\<close> abstracts the store to the map from IDs to roles. A lookup by name returns a row of
  that name or reports that there is none; writes change the one row they name, and a failed
  write changes nothing.\<close>

locale role_rows =
  fixes S :: "'s role_store" and inv :: "'s \<Rightarrow> bool" and rows :: "'s \<Rightarrow> string \<Rightarrow> role option"
  assumes rows_ID: "inv (db w) \<Longrightarrow> rows (db w) i = Some r \<Longrightarrow> r_ID r = i"
    and FindByName_some: "inv (db w) \<Longrightarrow> rs_FindByName S n w = Inr r \<Longrightarrow>
      rows (db w) (r_ID r) = Some r \<and> r_NormalizedName r = n"
    and FindByName_none: "inv (db w) \<Longrightarrow> rs_FindByName S n w = Inl ErrNotFound \<Longrightarrow>
      rows (db w) i = Some r \<Longrightarrow> r_NormalizedName r \<noteq> n"
    and Create_effect: "inv (db w) \<Longrightarrow> rs_Create S r w = (e, w') \<Longrightarrow> inv (db w') \<and>
      rows (db w') = (if e = None then (rows (db w))(r_ID r \<mapsto> r) else rows (db w))"
    and Update_effect: "inv (db w) \<Longrightarrow> rs_Update S r w = (e, r', w') \<Longrightarrow> inv (db w') \<and>
      rows (db w') = (if e = None then (rows (db w))(r_ID r \<mapsto> r') else rows (db w)) \<and>
      (\<exists>s. r' = r\<lparr>r_ConcurrencyStamp := s\<rparr>)"
    and Update_fresh: "inv (db w) \<Longrightarrow> rs_Update S r w = (None, r', w') \<Longrightarrow>
      \<exists>c. rows (db w) (r_ID r) = Some c \<and> r_ConcurrencyStamp c = r_ConcurrencyStamp r"
    and Delete_effect: "inv (db w) \<Longrightarrow> rs_Delete S r w = (e, w') \<Longrightarrow> inv (db w') \<and>
      rows (db w') = (if e = None then (rows (db w))(r_ID r := None) else rows (db w))"
    and AddClaim_keeps: "inv (db w) \<Longrightarrow> rs_AddClaim S r c w = (e, w') \<Longrightarrow>
      inv (db w') \<and> rows (db w') = rows (db w)"
    and RemoveClaim_keeps: "inv (db w) \<Longrightarrow> rs_RemoveClaim S r c w = (e, w') \<Longrightarrow>
      inv (db w') \<and> rows (db w') = rows (db w)"

text \<open>No two roles share a normalized name, and each row's normalized name is that of its name.\<close>

definition unique_roles :: "(string \<Rightarrow> string) \<Rightarrow> (string \<Rightarrow> role option) \<Rightarrow> bool" where
  "unique_roles norm rw \<longleftrightarrow> (\<forall>i r. rw i = Some r \<longrightarrow> r_NormalizedName r = norm (r_Name r)) \<and>
     (\<forall>i j r q. rw i = Some r \<longrightarrow> rw j = Some q \<longrightarrow> r_NormalizedName r = r_NormalizedName q \<longrightarrow> i = j)"

lemma unique_roles_insert:
  assumes "unique_roles norm rw" "r_NormalizedName r = norm (r_Name r)"
    and "\<And>j q. rw j = Some q \<Longrightarrow> j \<noteq> i \<Longrightarrow> r_NormalizedName q \<noteq> r_NormalizedName r"
  shows "unique_roles norm (rw(i \<mapsto> r))"
  using assms unfolding unique_roles_def by (auto split: if_splits) metis+

lemma unique_roles_remove: "unique_roles norm rw \<Longrightarrow> unique_roles norm (rw(i := None))"
  unfolding unique_roles_def by (auto split: if_splits)

inductive role_step :: "extern \<Rightarrow> 's role_manager \<Rightarrow> 's world \<Rightarrow> 's world \<Rightarrow> bool" for x m where
  step_Create: "RoleManager_Create x m r w = (e, r', w') \<Longrightarrow> role_step x m w w'"
| step_Update: "RoleManager_Update m r w = (e, r', w') \<Longrightarrow> role_step x m w w'"
| step_Delete: "RoleManager_Delete m r w = (e, w') \<Longrightarrow> role_step x m w w'"
| step_AddClaim: "RoleManager_AddClaim m r c w = (e, w') \<Longrightarrow> role_step x m w w'"
| step_RemoveClaim: "RoleManager_RemoveClaim m r c w = (e, w') \<Longrightarrow> role_step x m w w'"
| step_ReplaceClaim: "RoleManager_ReplaceClaim m r c c' w = (e, w') \<Longrightarrow> role_step x m w w'"

context role_rows
begin

definition good :: "'s role_manager \<Rightarrow> 's world \<Rightarrow> bool" where
  "good m w \<longleftrightarrow> inv (db w) \<and> unique_roles (rm_Normalize m) (rows (db w))"

lemma name_free:
  assumes "inv (db w)" "unique_roles norm (rows (db w))"
    and "rs_FindByName S n w = Inl ErrNotFound \<or> (\<exists>r. rs_FindByName S n w = Inr r \<and> r_ID r = i)"
    and "rows (db w) j = Some q" "j \<noteq> i"
  shows "r_NormalizedName q \<noteq> n"
  using assms FindByName_none [OF assms(1), of n j q] FindByName_some [OF assms(1), of n]
  unfolding unique_roles_def by metis

lemma Create_good:
  assumes "good m w" "rm_Store m = S" "RoleManager_Create x m r w = (e, r', w')"
  shows "good m w'"
proof -
  let ?i = "if r_ID r = [] then x_uuid x (tape w) else r_ID r"
  let ?t = "if r_ID r = [] then tape w + 16 else tape w"
  let ?w = "w\<lparr>tape := ?t + 16\<rparr>"
  let ?r = "r\<lparr>r_ID := ?i, r_NormalizedName := rm_Normalize m (r_Name r), r_ConcurrencyStamp := x_uuid x ?t\<rparr>"
  have un: "RoleManager_Create x m r w =
      (case rs_FindByName S (r_NormalizedName ?r) ?w of
         Inr _ \<Rightarrow> (Some ErrDuplicateRoleName, ?r, ?w)
       | Inl e \<Rightarrow> if e \<noteq> ErrNotFound then (Some e, ?r, ?w)
                else let (e, w) = rs_Create S ?r ?w in (e, ?r, w))"
    by (auto simp: RoleManager_Create_def Let_def assms(2) draw_def uuid_NewString_def
        split: prod.splits sum.splits)
  have g: "inv (db ?w)" "unique_roles (rm_Normalize m) (rows (db ?w))"
    using assms(1) by (auto simp: good_def)
  show ?thesis
  proof (cases "rs_FindByName S (r_NormalizedName ?r) ?w = Inl ErrNotFound")
    case True
    then have c: "rs_Create S ?r ?w = (e, w')" using assms(3) un by (auto split: prod.splits)
    have "unique_roles (rm_Normalize m) ((rows (db ?w))(r_ID ?r \<mapsto> ?r))"
      using name_free [OF g, of "r_NormalizedName ?r"] True by (intro unique_roles_insert g) auto
    with Create_effect [OF g(1) c] g(2) show ?thesis by (auto simp: good_def)
  next
    case False
    with assms(3) un g show ?thesis by (auto simp: good_def split: sum.splits if_splits)
  qed
qed

lemma Update_good:
  assumes "good m w" "rm_Store m = S" "RoleManager_Update m r w = (e, r', w')"
  shows "good m w'"
proof -
  let ?r = "r\<lparr>r_NormalizedName := rm_Normalize m (r_Name r)\<rparr>"
  have g: "inv (db w)" "unique_roles (rm_Normalize m) (rows (db w))"
    using assms(1) by (auto simp: good_def)
  consider "w' = w"
    | "rs_Update S ?r w = (e, r', w')"
      "rs_FindByName S (r_NormalizedName ?r) w = Inl ErrNotFound \<or>
       (\<exists>q. rs_FindByName S (r_NormalizedName ?r) w = Inr q \<and> r_ID q = r_ID ?r)"
    using assms(2,3) by (auto simp: RoleManager_Update_def Let_def split: sum.splits if_splits)
  then show ?thesis
  proof cases
    case 2
    from Update_effect [OF g(1) 2(1)] obtain s where
      e: "inv (db w')" "r' = ?r\<lparr>r_ConcurrencyStamp := s\<rparr>"
      "rows (db w') = (if e = None then (rows (db w))(r_ID ?r \<mapsto> r') else rows (db w))" by auto
    have "unique_roles (rm_Normalize m) ((rows (db w))(r_ID ?r \<mapsto> r'))"
      using name_free [OF g 2(2)] by (intro unique_roles_insert g) (auto simp: e(2))
    with e g show ?thesis by (auto simp: good_def)
  qed (use assms(1) in simp)
qed

lemma step_good:
  assumes "role_step x m w w'" "good m w" "rm_Store m = S"
  shows "good m w'"
  using assms
proof cases
  case (step_Delete r e)
  with assms(2,3) Delete_effect [of w r e w'] show ?thesis
    by (auto simp: good_def RoleManager_Delete_def unique_roles_remove)
next
  case (step_ReplaceClaim r c c' e)
  obtain e1 w1 where 1: "rs_RemoveClaim S r c w = (e1, w1)" by fastforce
  then have k: "inv (db w1)" "rows (db w1) = rows (db w)"
    using assms(2) RemoveClaim_keeps [of w r c e1 w1] by (auto simp: good_def)
  have "w' = w1 \<or> rs_AddClaim S r c' w1 = (e, w')"
    using step_ReplaceClaim 1 assms(3)
    by (auto simp: RoleManager_ReplaceClaim_def split: option.splits)
  with k AddClaim_keeps [of w1 r c' e w'] assms(2) show ?thesis by (auto simp: good_def)
next
  case (step_Create r e r')
  with assms(2,3) show ?thesis by (rule Create_good)
next
  case (step_Update r e r')
  with assms(2,3) show ?thesis by (rule Update_good)
next
  case (step_AddClaim r c e)
  with assms(2,3) AddClaim_keeps [of w r c e w'] show ?thesis
    by (auto simp: good_def RoleManager_AddClaim_def)
next
  case (step_RemoveClaim r c e)
  with assms(2,3) RemoveClaim_keeps [of w r c e w'] show ?thesis
    by (auto simp: good_def RoleManager_RemoveClaim_def)
qed

lemma steps_good:
  assumes "(role_step x m)\<^sup>*\<^sup>* w w'" "good m w" "rm_Store m = S"
  shows "good m w'"
  using assms by (induction rule: rtranclp_induct) (auto intro: step_good)

text \<open>A role that was found by one name is the role of that name until the next write.\<close>

lemma found_is_unique:
  assumes "good m w" "rm_Store m = S" "RoleManager_FindByName m n w = Inr r"
    and "rows (db w) i = Some q" "rm_Normalize m (r_Name q) = rm_Normalize m n"
  shows "q = r"
  using assms FindByName_some [of w "rm_Normalize m n" r]
  unfolding good_def unique_roles_def RoleManager_FindByName_def by (metis option.inject)

end

interpretation mem_roles: role_rows "memstore_Roles x" mem_wf "\<lambda>s. map_of (m_roles s)" for x
proof
  fix w w' :: "memstore world" and r r' :: role and n i e c
  assume wf: "mem_wf (db w)"
  have k: "keyed r_ID (m_roles (db w))" using wf by (simp add: mem_wf_def)
  note defs = memstore_Roles_def role_writes map_of_update_fun map_of_delete_fun Let_def
  show "map_of (m_roles (db w)) i = Some r \<Longrightarrow> r_ID r = i" using wf_row(2) [OF wf] .
  show "rs_FindByName (memstore_Roles x) n w = Inr r \<Longrightarrow>
      map_of (m_roles (db w)) (r_ID r) = Some r \<and> r_NormalizedName r = n"
    using find_val_keyed(1) [OF k, of _ r]
    by (auto simp: memstore_Roles_def roleStore_FindByName_def split: option.splits)
  show "rs_FindByName (memstore_Roles x) n w = Inl ErrNotFound \<Longrightarrow>
      map_of (m_roles (db w)) i = Some r \<Longrightarrow> r_NormalizedName r \<noteq> n"
    using find_val_keyed(2) [OF k]
    by (auto simp: memstore_Roles_def roleStore_FindByName_def split: option.splits)
  show "rs_Create (memstore_Roles x) r w = (e, w') \<Longrightarrow> mem_wf (db w') \<and>
      map_of (m_roles (db w')) = (if e = None then (map_of (m_roles (db w)))(r_ID r \<mapsto> r) else map_of (m_roles (db w)))"
    using role_writes_wf(1) [OF wf, of r] by (auto simp: defs)
  show "rs_Update (memstore_Roles x) r w = (e, r', w') \<Longrightarrow> mem_wf (db w') \<and>
      map_of (m_roles (db w')) = (if e = None then (map_of (m_roles (db w)))(r_ID r \<mapsto> r') else map_of (m_roles (db w))) \<and>
      (\<exists>s. r' = r\<lparr>r_ConcurrencyStamp := s\<rparr>)"
    using role_writes_wf(2) [OF wf, of x r] wf
    by (auto simp: defs split: option.splits if_splits intro: exI [of _ "r_ConcurrencyStamp r"])
  show "rs_Update (memstore_Roles x) r w = (None, r', w') \<Longrightarrow>
      \<exists>c. map_of (m_roles (db w)) (r_ID r) = Some c \<and> r_ConcurrencyStamp c = r_ConcurrencyStamp r"
    by (auto simp: defs split: option.splits if_splits)
  show "rs_Delete (memstore_Roles x) r w = (e, w') \<Longrightarrow> mem_wf (db w') \<and>
      map_of (m_roles (db w')) = (if e = None then (map_of (m_roles (db w)))(r_ID r := None) else map_of (m_roles (db w)))"
    using role_writes_wf(3) [OF wf, of r] by (auto simp: defs)
  show "rs_AddClaim (memstore_Roles x) r c w = (e, w') \<Longrightarrow>
      mem_wf (db w') \<and> map_of (m_roles (db w')) = map_of (m_roles (db w))"
    using role_writes_wf(4) [OF wf, of r c] by (auto simp: defs)
  show "rs_RemoveClaim (memstore_Roles x) r c w = (e, w') \<Longrightarrow>
      mem_wf (db w') \<and> map_of (m_roles (db w')) = map_of (m_roles (db w))"
    using role_writes_wf(5) [OF wf, of r c] by (auto simp: defs)
qed

section \<open>Role names stay unique\<close>

lemma no_roles: "mem_roles.good m \<lparr>db = memstore_New, tape = t\<rparr>"
  unfolding mem_roles.good_def by (simp add: unique_roles_def) (simp add: memstore_New_def)

text \<open>(C15) Over the in-memory store, whatever sequence of role-manager operations runs (creations,
  renames, deletions, claim changes, failed ones included), no two roles ever share a normalized
  name, every stored normalized name is the normalization of the role's name, and a lookup by any
  spelling of a stored role's name returns that very role.\<close>

theorem role_names_unique:
  assumes "(role_step x m)\<^sup>*\<^sup>* \<lparr>db = memstore_New, tape = t\<rparr> w" and "rm_Store m = memstore_Roles x"
  shows "unique_roles (rm_Normalize m) (map_of (m_roles (db w))) \<and>
    (\<forall>i r n. map_of (m_roles (db w)) i = Some r \<longrightarrow> rm_Normalize m n = rm_Normalize m (r_Name r) \<longrightarrow>
       RoleManager_FindByName m n w = Inr r)"
proof -
  have g: "mem_roles.good m w" by (rule mem_roles.steps_good [OF assms(1) no_roles assms(2)])
  have "RoleManager_FindByName m n w = Inr r"
    if row: "map_of (m_roles (db w)) i = Some r" and n: "rm_Normalize m n = rm_Normalize m (r_Name r)" for i r n
  proof (cases "RoleManager_FindByName m n w")
    case (Inr q)
    with mem_roles.found_is_unique [OF g assms(2) Inr row] n show ?thesis by simp
  next
    case (Inl e)
    then have "e = ErrNotFound"
      by (auto simp: RoleManager_FindByName_def assms(2) memstore_Roles_def roleStore_FindByName_def
          split: option.splits)
    with Inl have "r_NormalizedName r \<noteq> rm_Normalize m n"
      using mem_roles.FindByName_none [OF _ _ row] g
      by (simp add: RoleManager_FindByName_def assms(2) mem_roles.good_def)
    then show ?thesis using g row n by (auto simp: mem_roles.good_def unique_roles_def)
  qed
  with g show ?thesis by (auto simp: mem_roles.good_def)
qed

definition demo_role :: "string \<Rightarrow> role" where
  "demo_role n = \<lparr>r_ID = n, r_Name = n, r_NormalizedName = [], r_ConcurrencyStamp = []\<rparr>"

theorem role_names_unique_witness:
  "\<exists>w r. (role_step demo_extern (NewRoleManager demo_extern (memstore_Roles demo_extern)))\<^sup>*\<^sup>*
       \<lparr>db = memstore_New, tape = 0\<rparr> w \<and>
     map_of (m_roles (db w)) ''ops'' = Some r \<and>
     RoleManager_FindByName (NewRoleManager demo_extern (memstore_Roles demo_extern)) ''ops'' w = Inr r"
proof -
  let ?m = "NewRoleManager demo_extern (memstore_Roles demo_extern)"
  let ?w0 = "\<lparr>db = memstore_New, tape = 0\<rparr>"
  obtain e r w where c: "RoleManager_Create demo_extern ?m (demo_role ''ops'') ?w0 = (e, r, w)" by (metis prod_cases3)
  then have s: "(role_step demo_extern ?m)\<^sup>*\<^sup>* ?w0 w" by (blast intro: step_Create)
  from c have "map_of (m_roles (db w)) ''ops'' = Some r \<and> r_Name r = ''ops''"
    by (auto simp: RoleManager_Create_def demo_role_def Let_def NewRoleManager_def memstore_Roles_def
        roleStore_FindByName_def roleStore_Create_def find_val_def memstore_New_def update_conv)
  with s role_names_unique [OF s] show ?thesis by (auto simp: NewRoleManager_def)
qed

end
