(* ===== verification/Jwt.thy ===== *)
theory Jwt
  imports Memstore_Correct
begin

text \<open>
  The JWT library \<open>golang-jwt\<close> as a parameter: the types of keys, methods and tokens, the calls the
  program makes of it, and its documented behaviour as named predicates. Times are nanoseconds;
  JSON numbers in claims are integers.
\<close>

section \<open>The library\<close>

datatype json = JNull | JBool bool | JNum int | JStr string | JArr "json list" | JObj "(string \<times> json) list"

type_synonym claims = "(string, json) gomap"

datatype jwt_method =
    SigningMethodHMAC (alg: string) | SigningMethodRSA (alg: string)
  | SigningMethodECDSA (alg: string) | SigningMethodOther (alg: string)

text \<open>\<open>ECDH().Bytes()\<close> of an EC public key is its uncompressed point, \<open>None\<close> where the conversion
  reports an error.\<close>

record rsa_public_key =
  rsa_N :: nat
  rsa_E :: int

record rsa_private_key =
  rsa_PublicKey :: rsa_public_key
  rsa_D :: nat

record ecdsa_public_key =
  ec_ECDH :: "bytes option"

record ecdsa_private_key =
  ec_PublicKey :: ecdsa_public_key
  ec_D :: nat

datatype jwt_key =
    KeyBytes bytes | RSAPrivate rsa_private_key | RSAPublic rsa_public_key
  | ECDSAPrivate ecdsa_private_key | ECDSAPublic ecdsa_public_key
  | VerificationKeySet "jwt_key list" | KeyNil

record jwt_token =
  t_Header :: claims
  t_Claims :: claims
  t_Method :: jwt_method
  t_Valid :: bool

record jwt_parser =
  pr_ValidMethods :: "string list"
  pr_Issuer :: "string option"
  pr_Subject :: "string option"
  pr_Audience :: "string list"
  pr_ExpirationRequired :: bool
  pr_IssuedAt :: bool
  pr_Leeway :: duration

definition default_parser :: jwt_parser where
  "default_parser = \<lparr>pr_ValidMethods = [], pr_Issuer = None, pr_Subject = None, pr_Audience = [],
     pr_ExpirationRequired = False, pr_IssuedAt = False, pr_Leeway = 0\<rparr>"

text \<open>\<open>j_NewHeader\<close> is the header of \<open>jwt.NewWithClaims\<close>, \<open>j_SignedString\<close> the method of that name on
  a token with the given header and claims, \<open>j_ExpirationTime\<close> is \<open>MapClaims.GetExpirationTime\<close>.\<close>

record jwt_lib =
  j_NewHeader :: "jwt_method \<Rightarrow> claims"
  j_SignedString :: "jwt_method \<Rightarrow> claims \<Rightarrow> claims \<Rightarrow> jwt_key \<Rightarrow> go_error + string"
  j_Parse :: "jwt_parser \<Rightarrow> time \<Rightarrow> (jwt_token \<Rightarrow> go_error + jwt_key) \<Rightarrow> string \<Rightarrow> go_error + jwt_token"
  j_ParseUnverified :: "string \<Rightarrow> go_error + jwt_token"
  j_ExpirationTime :: "claims \<Rightarrow> time option"

text \<open>A claim or header read with a type assertion \<open>v, _ := m[k].(string)\<close>.\<close>

definition str_claim :: "claims \<Rightarrow> string \<Rightarrow> string" where
  "str_claim c k = (case map_of c k of Some (JStr s) \<Rightarrow> s | _ \<Rightarrow> [])"

subsection \<open>Documented behaviour the theorems may assume\<close>

text \<open>What was signed is what a successful parse returns: the same header and claims, as maps.\<close>

definition jwt_faithful :: "jwt_lib \<Rightarrow> bool" where
  "jwt_faithful L \<longleftrightarrow> (\<forall>m h c key s p now kf t. j_SignedString L m h c key = Inr s \<longrightarrow>
     j_Parse L p now kf s = Inr t \<longrightarrow> map_of (t_Header t) = map_of h \<and> map_of (t_Claims t) = map_of c)"

definition aud_of :: "claims \<Rightarrow> string list" where
  "aud_of c = (case map_of c ''aud'' of
     Some (JStr a) \<Rightarrow> [a] | Some (JArr xs) \<Rightarrow> concat (map (\<lambda>j. case j of JStr a \<Rightarrow> [a] | _ \<Rightarrow> []) xs) | _ \<Rightarrow> [])"

text \<open>A successful parse has passed the checks it was configured with: the algorithm, a key for the
  token, issuer, subject, audience and expiry.\<close>

definition jwt_checks :: "jwt_lib \<Rightarrow> bool" where
  "jwt_checks L \<longleftrightarrow> (\<forall>p now kf s t. j_Parse L p now kf s = Inr t \<longrightarrow>
     (pr_ValidMethods p \<noteq> [] \<longrightarrow> alg (t_Method t) \<in> set (pr_ValidMethods p)) \<and>
     (\<exists>k. kf (t\<lparr>t_Valid := False\<rparr>) = Inr k) \<and>
     (\<forall>i. pr_Issuer p = Some i \<longrightarrow> i \<noteq> [] \<longrightarrow> map_of (t_Claims t) ''iss'' = Some (JStr i)) \<and>
     (\<forall>i. pr_Subject p = Some i \<longrightarrow> i \<noteq> [] \<longrightarrow> map_of (t_Claims t) ''sub'' = Some (JStr i)) \<and>
     (pr_Audience p \<noteq> [] \<longrightarrow> (\<exists>a \<in> set (pr_Audience p). a \<in> set (aud_of (t_Claims t)))) \<and>
     (pr_ExpirationRequired p \<longrightarrow> j_ExpirationTime L (t_Claims t) \<noteq> None) \<and>
     (\<forall>e. j_ExpirationTime L (t_Claims t) = Some e \<longrightarrow> now < e + pr_Leeway p))"

text \<open>A signed token parses when the key function answers for its header, claims and method with the
  matching key, or a set with a matching key, and its claims satisfy the parser. An audience that is
  the empty string counts as a missing one, which a parser with an expected audience refuses.\<close>

fun key_pair :: "jwt_key \<Rightarrow> jwt_key \<Rightarrow> bool" where
  "key_pair (KeyBytes a) (KeyBytes b) \<longleftrightarrow> a = b"
| "key_pair (RSAPrivate k) (RSAPublic p) \<longleftrightarrow> rsa_PublicKey k = p"
| "key_pair (ECDSAPrivate k) (ECDSAPublic p) \<longleftrightarrow> ec_PublicKey k = p"
| "key_pair k (VerificationKeySet ks) \<longleftrightarrow> list_ex (key_pair k) ks"
| "key_pair _ _ \<longleftrightarrow> False"

definition parser_accepts :: "jwt_parser \<Rightarrow> time \<Rightarrow> jwt_method \<Rightarrow> claims \<Rightarrow> bool" where
  "parser_accepts p now m c \<longleftrightarrow> alg m \<in> set (pr_ValidMethods p) \<and>
     (\<forall>i. pr_Issuer p = Some i \<longrightarrow> map_of c ''iss'' = Some (JStr i)) \<and>
     (\<forall>i. pr_Subject p = Some i \<longrightarrow> map_of c ''sub'' = Some (JStr i)) \<and>
     (pr_Audience p \<noteq> [] \<longrightarrow> (\<exists>a \<in> set (pr_Audience p). a \<noteq> [] \<and> map_of c ''aud'' = Some (JStr a))) \<and>
     (\<exists>e. map_of c ''exp'' = Some (JNum e) \<and> now < time_of_Unix e + pr_Leeway p) \<and>
     (\<exists>n. map_of c ''nbf'' = Some (JNum n) \<and> time_of_Unix n \<le> now + pr_Leeway p) \<and>
     (\<exists>n. map_of c ''iat'' = Some (JNum n) \<and> time_of_Unix n \<le> now + pr_Leeway p)"

definition jwt_complete :: "jwt_lib \<Rightarrow> bool" where
  "jwt_complete L \<longleftrightarrow> (\<forall>m h c key s p now kf. j_SignedString L m h c key = Inr s \<longrightarrow>
     (\<forall>t. map_of (t_Header t) = map_of h \<longrightarrow> map_of (t_Claims t) = map_of c \<longrightarrow> t_Method t = m \<longrightarrow> \<not> t_Valid t \<longrightarrow>
        (\<exists>k. kf t = Inr k \<and> key_pair key k)) \<longrightarrow>
     parser_accepts p now m c \<longrightarrow> (\<exists>t. j_Parse L p now kf s = Inr t \<and> t_Valid t))"

definition jwt_header_ok :: "jwt_lib \<Rightarrow> bool" where
  "jwt_header_ok L \<longleftrightarrow> (\<forall>m. map_of (j_NewHeader L m) ''typ'' = Some (JStr ''JWT''))"

text \<open>The expiry a claim set names: the \<open>exp\<close> claim in seconds.\<close>

definition jwt_exp_ok :: "jwt_lib \<Rightarrow> bool" where
  "jwt_exp_ok L \<longleftrightarrow> (\<forall>c e. map_of c ''exp'' = Some (JNum e) \<longrightarrow> j_ExpirationTime L c = Some (time_of_Unix e))"

text \<open>A successful parse returns the claims that decoding alone gives.\<close>

definition jwt_decodes :: "jwt_lib \<Rightarrow> bool" where
  "jwt_decodes L \<longleftrightarrow> (\<forall>p now kf s t. j_Parse L p now kf s = Inr t \<longrightarrow>
     (\<exists>t'. j_ParseUnverified L s = Inr t' \<and> t_Claims t' = t_Claims t))"

text \<open>
  A concrete library, given by the table of the tokens it can sign: the string of an entry is its
  position. It is used by the concrete runs only.
\<close>

definition table_jwt :: "(jwt_method \<times> claims \<times> claims \<times> jwt_key) list \<Rightarrow> jwt_lib" where
  "table_jwt es = \<lparr>
     j_NewHeader = (\<lambda>m. [(''typ'', JStr ''JWT''), (''alg'', JStr (alg m))]),
     j_SignedString = (\<lambda>m h c key.
        let n = length (takeWhile (\<lambda>e. e \<noteq> (m, h, c, key)) es)
        in if n < length es then Inr (replicate n (CHR ''t'')) else Inl (StoreErr ''sign'')),
     j_Parse = (\<lambda>p now kf s.
        if length s < length es \<and> s = replicate (length s) (CHR ''t'') then
          (case es ! length s of (m, h, c, key) \<Rightarrow>
             let t = \<lparr>t_Header = h, t_Claims = c, t_Method = m, t_Valid = False\<rparr> in
             (case kf t of
                Inl e \<Rightarrow> Inl e
              | Inr k \<Rightarrow> if key_pair key k \<and> parser_accepts p now m c then Inr (t\<lparr>t_Valid := True\<rparr>)
                         else Inl (StoreErr ''invalid'')))
        else Inl (StoreErr ''malformed'')),
     j_ParseUnverified = (\<lambda>s.
        if length s < length es \<and> s = replicate (length s) (CHR ''t'') then
          (case es ! length s of (m, h, c, key) \<Rightarrow>
             Inr \<lparr>t_Header = h, t_Claims = c, t_Method = m, t_Valid = False\<rparr>)
        else Inl (StoreErr ''malformed'')),
     j_ExpirationTime = (\<lambda>c. case map_of c ''exp'' of Some (JNum e) \<Rightarrow> Some (time_of_Unix e) | _ \<Rightarrow> None)\<rparr>"

lemma str_claim_cong: "map_of c = map_of d \<Longrightarrow> str_claim c = str_claim d"
  by (rule ext) (simp add: str_claim_def)

lemma table_sign:
  assumes "j_SignedString (table_jwt es) m h c key = Inr s"
  shows "length s < length es \<and> s = replicate (length s) (CHR ''t'') \<and> es ! length s = (m, h, c, key)"
proof -
  let ?n = "length (takeWhile (\<lambda>e. e \<noteq> (m, h, c, key)) es)"
  have "?n < length es" "s = replicate ?n (CHR ''t'')"
    using assms by (auto simp: table_jwt_def Let_def split: if_splits)
  then show ?thesis
    using nth_length_takeWhile [of "\<lambda>e. e \<noteq> (m, h, c, key)" es] by auto
qed

lemma table_jwt_ok:
  "jwt_faithful (table_jwt es)" "jwt_complete (table_jwt es)" "jwt_checks (table_jwt es)"
  "jwt_header_ok (table_jwt es)" "jwt_exp_ok (table_jwt es)"
  "jwt_decodes (table_jwt es)"
proof -
  let ?L = "table_jwt es"
  have parse: "j_Parse ?L p now kf s = (if length s < length es \<and> s = replicate (length s) (CHR ''t'') then
      (case es ! length s of (m, h, c, key) \<Rightarrow>
        (case kf \<lparr>t_Header = h, t_Claims = c, t_Method = m, t_Valid = False\<rparr> of
           Inl e \<Rightarrow> Inl e
         | Inr k \<Rightarrow> if key_pair key k \<and> parser_accepts p now m c
             then Inr \<lparr>t_Header = h, t_Claims = c, t_Method = m, t_Valid = True\<rparr>
             else Inl (StoreErr ''invalid'')))
      else Inl (StoreErr ''malformed''))" for p now kf s
    by (simp add: table_jwt_def Let_def split: prod.splits sum.splits)
  show "jwt_faithful ?L"
    unfolding jwt_faithful_def parse
    by (auto dest!: table_sign split: if_splits sum.splits prod.splits)
  show "jwt_complete ?L"
    unfolding jwt_complete_def parse
  proof (intro allI impI)
    fix m h c key s p now and kf :: "jwt_token \<Rightarrow> go_error + jwt_key"
    assume "j_SignedString ?L m h c key = Inr s" and acc: "parser_accepts p now m c"
      and kf: "\<forall>t. map_of (t_Header t) = map_of h \<longrightarrow> map_of (t_Claims t) = map_of c \<longrightarrow> t_Method t = m \<longrightarrow> \<not> t_Valid t \<longrightarrow>
        (\<exists>k. kf t = Inr k \<and> key_pair key k)"
    then have s: "length s < length es" "s = replicate (length s) (CHR ''t'')" "es ! length s = (m, h, c, key)"
      using table_sign by blast+
    from kf obtain k where "kf \<lparr>t_Header = h, t_Claims = c, t_Method = m, t_Valid = False\<rparr> = Inr k" "key_pair key k"
      by (metis jwt_token.select_convs)
    then show "\<exists>t. (if length s < length es \<and> s = replicate (length s) (CHR ''t'') then
      (case es ! length s of (m, h, c, key) \<Rightarrow>
        (case kf \<lparr>t_Header = h, t_Claims = c, t_Method = m, t_Valid = False\<rparr> of
           Inl e \<Rightarrow> Inl e
         | Inr k \<Rightarrow> if key_pair key k \<and> parser_accepts p now m c
             then Inr \<lparr>t_Header = h, t_Claims = c, t_Method = m, t_Valid = True\<rparr>
             else Inl (StoreErr ''invalid'')))
      else Inl (StoreErr ''malformed'')) = Inr t \<and> t_Valid t"
      using s acc by simp
  qed
  show "jwt_checks ?L"
    unfolding jwt_checks_def parse
    by (auto simp: parser_accepts_def aud_of_def table_jwt_def split: if_splits sum.splits prod.splits
        intro: bexI)
  show "jwt_header_ok ?L" by (simp add: jwt_header_ok_def table_jwt_def)
  show "jwt_exp_ok ?L" by (simp add: jwt_exp_ok_def table_jwt_def)
  show "jwt_decodes ?L"
    unfolding jwt_decodes_def parse by (auto simp: table_jwt_def split: if_splits sum.splits prod.splits)
qed

end
