(* ===== verification/Signer.thy ===== *)
theory Signer
  imports Jwt
begin

text \<open>
  The signers: \<open>identity/signer.go\<close> (HMAC and the RSA keyring), \<open>identity/ecdsa_signer.go\<close> and the
  published key sets of \<open>identity/jwks.go\<close>. The keyrings share one contract, a locale interpreted
  on both. Each method runs under the ring's mutex and is one atomic step.
\<close>

record signer =
  sg_Method :: jwt_method
  sg_SignKey :: "string \<times> jwt_key"
  sg_Keyfunc :: "jwt_token \<Rightarrow> go_error + jwt_key"

section \<open>HMAC\<close>

record hmacSigner =
  hs_key :: bytes

definition hmacSigner_Method :: "hmacSigner \<Rightarrow> jwt_method" where
  "hmacSigner_Method s = SigningMethodHMAC ''HS256''"

definition hmacSigner_SignKey :: "hmacSigner \<Rightarrow> string \<times> jwt_key" where
  "hmacSigner_SignKey s = ([], KeyBytes (hs_key s))"

definition hmacSigner_Keyfunc :: "hmacSigner \<Rightarrow> jwt_token \<Rightarrow> go_error + jwt_key" where
  "hmacSigner_Keyfunc s t =
     (case t_Method t of SigningMethodHMAC _ \<Rightarrow> Inr (KeyBytes (hs_key s)) | _ \<Rightarrow> Inl ErrInvalidToken)"

definition NewHMACSigner :: "bytes \<Rightarrow> signer" where
  "NewHMACSigner key = (let s = \<lparr>hs_key = key\<rparr> in
     \<lparr>sg_Method = hmacSigner_Method s, sg_SignKey = hmacSigner_SignKey s, sg_Keyfunc = hmacSigner_Keyfunc s\<rparr>)"

section \<open>Keyrings\<close>

record rsa_keyring =
  rk_active :: string
  rk_keys :: "(string, rsa_private_key) gomap"

definition NewRSAKeyring :: "string \<Rightarrow> rsa_private_key \<Rightarrow> rsa_keyring" where
  "NewRSAKeyring kid key = \<lparr>rk_active = kid, rk_keys = [(kid, key)]\<rparr>"

definition RSAKeyring_Add :: "string \<Rightarrow> rsa_private_key \<Rightarrow> bool \<Rightarrow> rsa_keyring \<Rightarrow> rsa_keyring" where
  "RSAKeyring_Add kid key makeActive k =
     (let k = k\<lparr>rk_keys := AList.update kid key (rk_keys k)\<rparr>
      in if makeActive then k\<lparr>rk_active := kid\<rparr> else k)"

definition RSAKeyring_Remove :: "string \<Rightarrow> rsa_keyring \<Rightarrow> rsa_keyring" where
  "RSAKeyring_Remove kid k = k\<lparr>rk_keys := AList.delete kid (rk_keys k)\<rparr>"

definition RSAKeyring_Method :: "rsa_keyring \<Rightarrow> jwt_method" where
  "RSAKeyring_Method k = SigningMethodRSA ''RS256''"

definition RSAKeyring_SignKey :: "rsa_keyring \<Rightarrow> string \<times> jwt_key" where
  "RSAKeyring_SignKey k =
     (rk_active k, case map_of (rk_keys k) (rk_active k) of None \<Rightarrow> KeyNil | Some key \<Rightarrow> RSAPrivate key)"

definition RSAKeyring_Keyfunc :: "rsa_keyring \<Rightarrow> jwt_token \<Rightarrow> go_error + jwt_key" where
  "RSAKeyring_Keyfunc k t =
     (case t_Method t of
        SigningMethodRSA _ \<Rightarrow>
          (case map_of (rk_keys k) (str_claim (t_Header t) ''kid'') of
             None \<Rightarrow> Inl ErrInvalidToken
           | Some key \<Rightarrow> Inr (RSAPublic (rsa_PublicKey key)))
      | _ \<Rightarrow> Inl ErrInvalidToken)"

definition rsa_signer :: "rsa_keyring \<Rightarrow> signer" where
  "rsa_signer k = \<lparr>sg_Method = RSAKeyring_Method k, sg_SignKey = RSAKeyring_SignKey k,
     sg_Keyfunc = RSAKeyring_Keyfunc k\<rparr>"

record ecdsa_keyring =
  ek_active :: string
  ek_keys :: "(string, ecdsa_private_key) gomap"

definition NewECDSAKeyring :: "string \<Rightarrow> ecdsa_private_key \<Rightarrow> ecdsa_keyring" where
  "NewECDSAKeyring kid key = \<lparr>ek_active = kid, ek_keys = [(kid, key)]\<rparr>"

definition ECDSAKeyring_Add :: "string \<Rightarrow> ecdsa_private_key \<Rightarrow> bool \<Rightarrow> ecdsa_keyring \<Rightarrow> ecdsa_keyring" where
  "ECDSAKeyring_Add kid key makeActive k =
     (let k = k\<lparr>ek_keys := AList.update kid key (ek_keys k)\<rparr>
      in if makeActive then k\<lparr>ek_active := kid\<rparr> else k)"

definition ECDSAKeyring_Remove :: "string \<Rightarrow> ecdsa_keyring \<Rightarrow> ecdsa_keyring" where
  "ECDSAKeyring_Remove kid k = k\<lparr>ek_keys := AList.delete kid (ek_keys k)\<rparr>"

definition ECDSAKeyring_Method :: "ecdsa_keyring \<Rightarrow> jwt_method" where
  "ECDSAKeyring_Method k = SigningMethodECDSA ''ES256''"

definition ECDSAKeyring_SignKey :: "ecdsa_keyring \<Rightarrow> string \<times> jwt_key" where
  "ECDSAKeyring_SignKey k =
     (ek_active k, case map_of (ek_keys k) (ek_active k) of None \<Rightarrow> KeyNil | Some key \<Rightarrow> ECDSAPrivate key)"

definition ECDSAKeyring_Keyfunc :: "ecdsa_keyring \<Rightarrow> jwt_token \<Rightarrow> go_error + jwt_key" where
  "ECDSAKeyring_Keyfunc k t =
     (case t_Method t of
        SigningMethodECDSA _ \<Rightarrow>
          (case map_of (ek_keys k) (str_claim (t_Header t) ''kid'') of
             None \<Rightarrow> Inl ErrInvalidToken
           | Some key \<Rightarrow> Inr (ECDSAPublic (ec_PublicKey key)))
      | _ \<Rightarrow> Inl ErrInvalidToken)"

definition ecdsa_signer :: "ecdsa_keyring \<Rightarrow> signer" where
  "ecdsa_signer k = \<lparr>sg_Method = ECDSAKeyring_Method k, sg_SignKey = ECDSAKeyring_SignKey k,
     sg_Keyfunc = ECDSAKeyring_Keyfunc k\<rparr>"

section \<open>Published keys\<close>

record jwk =
  jk_Kty :: string
  jk_Use :: string
  jk_Kid :: string
  jk_Alg :: string
  jk_N :: string
  jk_E :: string
  jk_Crv :: string
  jk_X :: string
  jk_Y :: string

text \<open>\<open>big.Int.Bytes\<close>: the big-endian bytes of a number without leading zeros.\<close>

function big_Bytes :: "nat \<Rightarrow> bytes" where
  "big_Bytes n = (if n = 0 then [] else big_Bytes (n div 256) @ [char_of (n mod 256)])"
  by pat_completeness auto

termination
  by (relation "measure id") auto

declare big_Bytes.simps [simp del]

fun trimLeadingZeros :: "bytes \<Rightarrow> bytes" where
  "trimLeadingZeros (c # d # s) = (if c = CHR 0x00 then trimLeadingZeros (d # s) else c # d # s)"
| "trimLeadingZeros s = s"

definition rsa_jwk :: "string \<Rightarrow> rsa_public_key \<Rightarrow> jwk" where
  "rsa_jwk kid pub = \<lparr>jk_Kty = ''RSA'', jk_Use = ''sig'', jk_Kid = kid, jk_Alg = ''RS256'',
     jk_N = base64_Encode RawURLEncoding (big_Bytes (rsa_N pub)),
     jk_E = base64_Encode RawURLEncoding (trimLeadingZeros (put_u32 (word_of_int (rsa_E pub)))),
     jk_Crv = [], jk_X = [], jk_Y = []\<rparr>"

definition RSAKeyring_JWKS :: "rsa_keyring \<Rightarrow> jwk list" where
  "RSAKeyring_JWKS k = map (\<lambda>(kid, key). rsa_jwk kid (rsa_PublicKey key)) (rk_keys k)"

definition ecJWK :: "string \<Rightarrow> ecdsa_public_key \<Rightarrow> jwk option" where
  "ecJWK kid pub =
     (case ec_ECDH pub of
        None \<Rightarrow> None
      | Some raw \<Rightarrow>
          if length raw < 3 \<or> raw ! 0 \<noteq> CHR 0x04 then None
          else
            let size = (length raw - 1) div 2
            in Some \<lparr>jk_Kty = ''EC'', jk_Use = ''sig'', jk_Kid = kid, jk_Alg = ''ES256'',
                 jk_N = [], jk_E = [], jk_Crv = ''P-256'',
                 jk_X = base64_Encode RawURLEncoding (take size (drop 1 raw)),
                 jk_Y = base64_Encode RawURLEncoding (drop (1 + size) raw)\<rparr>)"

definition ECDSAKeyring_JWKS :: "ecdsa_keyring \<Rightarrow> jwk list" where
  "ECDSAKeyring_JWKS k = List.map_filter (\<lambda>(kid, key). ecJWK kid (ec_PublicKey key)) (ek_keys k)"

section \<open>The contract of a keyring\<close>

text \<open>
  \<open>ring\<close> is the map from key IDs to private keys; \<open>Add\<close> and \<open>Remove\<close> change the named entry, the
  active key signs, and the key function answers a token of the ring's method class with the
  public key its \<open>kid\<close> names.
\<close>

locale keyring =
  fixes Add :: "string \<Rightarrow> 'k \<Rightarrow> bool \<Rightarrow> 'r \<Rightarrow> 'r" and Remove :: "string \<Rightarrow> 'r \<Rightarrow> 'r"
    and signer_of :: "'r \<Rightarrow> signer" and ring :: "'r \<Rightarrow> string \<Rightarrow> 'k option" and active :: "'r \<Rightarrow> string"
    and priv :: "'k \<Rightarrow> jwt_key" and pub :: "'k \<Rightarrow> jwt_key" and family :: "jwt_method \<Rightarrow> bool"
  assumes ring_Add: "ring (Add kid key b r) = (ring r)(kid \<mapsto> key)"
    and active_Add: "active (Add kid key b r) = (if b then kid else active r)"
    and ring_Remove: "ring (Remove kid r) = (ring r)(kid := None)"
    and active_Remove: "active (Remove kid r) = active r"
    and SignKey: "sg_SignKey (signer_of r) =
      (active r, case ring r (active r) of None \<Rightarrow> KeyNil | Some key \<Rightarrow> priv key)"
    and Method: "family (sg_Method (signer_of r))"
    and Keyfunc: "sg_Keyfunc (signer_of r) t =
      (if family (t_Method t) then
         (case ring r (str_claim (t_Header t) ''kid'') of None \<Rightarrow> Inl ErrInvalidToken | Some key \<Rightarrow> Inr (pub key))
       else Inl ErrInvalidToken)"
    and pair: "key_pair (priv key) (pub key)"

datatype 'k ring_op = RingAdd string 'k bool | RingRemove string

fun op_kid :: "'k ring_op \<Rightarrow> string" where
  "op_kid (RingAdd kid key b) = kid"
| "op_kid (RingRemove kid) = kid"

context keyring
begin

fun apply_op :: "'k ring_op \<Rightarrow> 'r \<Rightarrow> 'r" where
  "apply_op (RingAdd kid key b) r = Add kid key b r"
| "apply_op (RingRemove kid) r = Remove kid r"

lemma ring_untouched:
  "kid \<notin> op_kid ` set ops \<Longrightarrow> ring (fold apply_op ops r) kid = ring r kid"
proof (induction ops arbitrary: r)
  case (Cons a ops)
  then show ?case by (cases a) (auto simp: ring_Add ring_Remove)
qed simp

text \<open>The key a token was signed with answers for it as long as its ID is left in place.\<close>

lemma signed_stays_verifiable:
  assumes "sg_SignKey (signer_of r) = (kid, key)" "key \<noteq> KeyNil" "kid \<notin> op_kid ` set ops"
    and "family (t_Method t)" "str_claim (t_Header t) ''kid'' = kid"
  shows "\<exists>k. sg_Keyfunc (signer_of (fold apply_op ops r)) t = Inr k \<and> key_pair key k"
proof -
  from assms(1,2) obtain p where p: "ring r kid = Some p" "key = priv p"
    by (auto simp: SignKey split: option.splits)
  with assms(3-5) show ?thesis by (auto simp: Keyfunc ring_untouched pair)
qed

lemma removed_is_refused:
  assumes "kid \<notin> op_kid ` set ops" "str_claim (t_Header t) ''kid'' = kid"
  shows "sg_Keyfunc (signer_of (fold apply_op ops (Remove kid r))) t = Inl ErrInvalidToken"
  using assms by (auto simp: Keyfunc ring_untouched ring_Remove)

lemma other_family_refused: "\<not> family (t_Method t) \<Longrightarrow> sg_Keyfunc (signer_of r) t = Inl ErrInvalidToken"
  by (simp add: Keyfunc)

end

fun is_RSA :: "jwt_method \<Rightarrow> bool" where
  "is_RSA (SigningMethodRSA _) = True"
| "is_RSA _ = False"

fun is_ECDSA :: "jwt_method \<Rightarrow> bool" where
  "is_ECDSA (SigningMethodECDSA _) = True"
| "is_ECDSA _ = False"

interpretation rsa: keyring RSAKeyring_Add RSAKeyring_Remove rsa_signer "\<lambda>r. map_of (rk_keys r)" rk_active
  RSAPrivate "\<lambda>k. RSAPublic (rsa_PublicKey k)" is_RSA
  by unfold_locales
    (auto simp: Let_def RSAKeyring_Add_def RSAKeyring_Remove_def rsa_signer_def RSAKeyring_SignKey_def
      RSAKeyring_Keyfunc_def RSAKeyring_Method_def map_of_update_fun map_of_delete_fun
      split: option.splits jwt_method.splits)

interpretation ecdsa: keyring ECDSAKeyring_Add ECDSAKeyring_Remove ecdsa_signer "\<lambda>r. map_of (ek_keys r)"
  ek_active ECDSAPrivate "\<lambda>k. ECDSAPublic (ec_PublicKey k)" is_ECDSA
  by unfold_locales
    (auto simp: Let_def ECDSAKeyring_Add_def ECDSAKeyring_Remove_def ecdsa_signer_def ECDSAKeyring_SignKey_def
      ECDSAKeyring_Keyfunc_def ECDSAKeyring_Method_def map_of_update_fun map_of_delete_fun
      split: option.splits jwt_method.splits)

section \<open>Published keys decode to the ring's keys\<close>

lemma be_val_append1: "be_val (s @ [c]) = be_val s * 256 + of_char c"
  by (simp add: be_val_def)

lemma be_val_big_Bytes [simp]: "be_val (big_Bytes n) = n"
proof (induction n rule: big_Bytes.induct)
  case (1 n)
  show ?case
  proof (cases "n = 0")
    case True
    then show ?thesis by (subst big_Bytes.simps) (simp add: be_val_def)
  next
    case False
    then have "be_val (big_Bytes n) = n div 256 * 256 + n mod 256"
      using 1 by (subst big_Bytes.simps) (simp add: be_val_append1)
    then show ?thesis by simp
  qed
qed

lemma be_val_zero_Cons [simp]: "be_val (CHR 0x00 # s) = be_val s"
  by (simp add: be_val_def)

lemma be_val_trimLeadingZeros [simp]: "be_val (trimLeadingZeros s) = be_val s"
  by (induction s rule: trimLeadingZeros.induct) auto

lemma length_trimLeadingZeros: "length (trimLeadingZeros s) \<le> length s" "s \<noteq> [] \<Longrightarrow> trimLeadingZeros s \<noteq> []"
  by (induction s rule: trimLeadingZeros.induct) auto

lemma be_val_put_u32: "be_val (put_u32 w) = unat w"
  using be_val_be_bytes [of "unat w" 4] unsigned_less [of w, where 'a = nat] by (simp add: put_u32_def)

text \<open>The published form of a key in range decodes to its modulus and exponent.\<close>

lemma rsa_jwk_decodes:
  assumes "0 \<le> rsa_E pub" "rsa_E pub < 2 ^ 32"
  shows "\<exists>n e. base64_Decode RawURLEncoding (jk_N (rsa_jwk kid pub)) = Some n \<and> be_val n = rsa_N pub \<and>
    base64_Decode RawURLEncoding (jk_E (rsa_jwk kid pub)) = Some e \<and> int (be_val e) = rsa_E pub \<and>
    0 < length e \<and> length e \<le> 4"
proof -
  have "unat (word_of_int (rsa_E pub) :: 32 word) = nat (rsa_E pub)"
    using assms by (simp add: unat_eq_nat_uint uint_word_of_int take_bit_int_eq_self)
  moreover have "put_u32 (word_of_int (rsa_E pub)) \<noteq> []"
    using length_put_u(1) by (metis length_0_conv zero_neq_numeral)
  ultimately show ?thesis
    using assms length_trimLeadingZeros [of "put_u32 (word_of_int (rsa_E pub))"]
    by (simp add: rsa_jwk_def base64_roundtrip be_val_put_u32)
qed

section \<open>Rotation\<close>

text \<open>Graceful rotation: whatever keys are added, activated or removed after a token was signed,
  the ring answers for that token with the public half of the key it was signed with as long as
  nobody touches that key's ID; once the ID is removed (and not added again) the token is refused;
  and a token of another algorithm family, such as HMAC keyed with the public key, is refused
  always.\<close>

theorem keyring_rotation:
  assumes "RSAKeyring_SignKey r = (kid, RSAPrivate key)" and "kid \<notin> op_kid ` set ops"
    and "str_claim (t_Header t) ''kid'' = kid"
  shows "RSAKeyring_Keyfunc (fold rsa.apply_op ops r) t =
      (if is_RSA (t_Method t) then Inr (RSAPublic (rsa_PublicKey key)) else Inl ErrInvalidToken) \<and>
    RSAKeyring_Keyfunc (fold rsa.apply_op ops (RSAKeyring_Remove kid r)) t = Inl ErrInvalidToken"
proof -
  have s: "sg_SignKey (rsa_signer r) = (kid, RSAPrivate key)" and k: "sg_Keyfunc (rsa_signer q) = RSAKeyring_Keyfunc q" for q
    using assms(1) by (auto simp: rsa_signer_def)
  show ?thesis
    using s assms(3) rsa.ring_untouched [OF assms(2), of r] rsa.removed_is_refused [OF assms(2,3), of r]
    by (auto simp: k [symmetric] rsa.Keyfunc rsa.SignKey split: option.splits)
qed

text \<open>The same for the ECDSA ring, from the same locale.\<close>

lemma ecdsa_rotation:
  assumes "ECDSAKeyring_SignKey r = (kid, ECDSAPrivate key)" and "kid \<notin> op_kid ` set ops"
    and "str_claim (t_Header t) ''kid'' = kid"
  shows "ECDSAKeyring_Keyfunc (fold ecdsa.apply_op ops r) t =
      (if is_ECDSA (t_Method t) then Inr (ECDSAPublic (ec_PublicKey key)) else Inl ErrInvalidToken) \<and>
    ECDSAKeyring_Keyfunc (fold ecdsa.apply_op ops (ECDSAKeyring_Remove kid r)) t = Inl ErrInvalidToken"
proof -
  have s: "sg_SignKey (ecdsa_signer r) = (kid, ECDSAPrivate key)"
    and k: "sg_Keyfunc (ecdsa_signer q) = ECDSAKeyring_Keyfunc q" for q
    using assms(1) by (auto simp: ecdsa_signer_def)
  show ?thesis
    using s assms(3) ecdsa.ring_untouched [OF assms(2), of r] ecdsa.removed_is_refused [OF assms(2,3), of r]
    by (auto simp: k [symmetric] ecdsa.Keyfunc ecdsa.SignKey split: option.splits)
qed

definition demo_rsa :: "nat \<Rightarrow> rsa_private_key" where
  "demo_rsa n = \<lparr>rsa_PublicKey = \<lparr>rsa_N = n, rsa_E = 65537\<rparr>, rsa_D = 1\<rparr>"

definition kid_token :: "jwt_method \<Rightarrow> string \<Rightarrow> jwt_token" where
  "kid_token m kid = \<lparr>t_Header = [(''kid'', JStr kid)], t_Claims = [], t_Method = m, t_Valid = False\<rparr>"

theorem keyring_rotation_witness:
  "RSAKeyring_Keyfunc (fold rsa.apply_op [RingAdd ''k2'' (demo_rsa 7) True] (NewRSAKeyring ''k1'' (demo_rsa 5)))
     (kid_token (SigningMethodRSA ''RS256'') ''k1'') = Inr (RSAPublic \<lparr>rsa_N = 5, rsa_E = 65537\<rparr>)"
  using keyring_rotation [of "NewRSAKeyring ''k1'' (demo_rsa 5)" "''k1''" "demo_rsa 5"
      "[RingAdd ''k2'' (demo_rsa 7) True]" "kid_token (SigningMethodRSA ''RS256'') ''k1''"]
  by (simp add: NewRSAKeyring_def RSAKeyring_SignKey_def
      kid_token_def str_claim_def demo_rsa_def)

end
