(* ===== verification/Token_Service.thy ===== *)
theory Token_Service
  imports User_Manager Signer
begin

text \<open>
  \<open>TokenServiceOf\<close> (\<open>identity/token_service.go\<close>): signed access tokens and opaque refresh tokens,
  kept in one slot per user (legacy) or as one session per device when a session store is set.
  The clock is read once per operation. \<open>sort.Slice\<close> is not stable; sessions with the same expiry
  are evicted in the order of the list here, and no result below depends on that order.
\<close>

definition ClaimNameIdentifier :: string where "ClaimNameIdentifier = ''uid''"
definition ClaimName :: string where "ClaimName = ''name''"
definition ClaimEmail :: string where "ClaimEmail = ''email''"
definition ClaimRole :: string where "ClaimRole = ''roles''"
definition ClaimSecurityStamp :: string where "ClaimSecurityStamp = ''idn_sstamp''"

lemmas claim_names = ClaimNameIdentifier_def ClaimName_def ClaimEmail_def ClaimRole_def ClaimSecurityStamp_def

definition TokenTypeAccessJWT :: string where "TokenTypeAccessJWT = ''at+jwt''"

record token_options =
  to_SigningKey :: bytes
  to_Signer :: "signer option"
  to_Issuer :: string
  to_Audience :: string
  to_AccessTokenTTL :: duration
  to_RefreshTokenTTL :: duration
  to_MaxSessions :: int

definition TokenOptions_signer :: "token_options \<Rightarrow> signer" where
  "TokenOptions_signer o' = (case to_Signer o' of Some s \<Rightarrow> s | None \<Rightarrow> NewHMACSigner (to_SigningKey o'))"

definition TokenOptions_ResolvedSigner :: "token_options \<Rightarrow> signer" where
  "TokenOptions_ResolvedSigner o' = TokenOptions_signer o'"

definition DefaultTokenOptions :: "bytes \<Rightarrow> string \<Rightarrow> string \<Rightarrow> token_options" where
  "DefaultTokenOptions signingKey issuer audience = \<lparr>to_SigningKey = signingKey, to_Signer = None,
     to_Issuer = issuer, to_Audience = audience, to_AccessTokenTTL = 15 * minute,
     to_RefreshTokenTTL = 7 * 24 * hour, to_MaxSessions = 0\<rparr>"

record token_pair =
  pair_AccessToken :: string
  pair_RefreshToken :: string
  pair_ExpiresAt :: time
  pair_TokenType :: string

definition refreshTokenProvider :: string where "refreshTokenProvider = ''GoIdentity''"
definition refreshTokenName :: string where "refreshTokenName = ''RefreshToken''"

record 's token_service =
  sv_Users :: "'s user_manager"
  sv_Options :: token_options
  sv_Sessions :: "'s refresh_token_store option"

definition NewTokenService :: "'s user_manager \<Rightarrow> token_options \<Rightarrow> 's token_service" where
  "NewTokenService users opts = \<lparr>sv_Users = users, sv_Options = opts, sv_Sessions = None\<rparr>"

definition TokenService_WithSessionStore :: "'s refresh_token_store \<Rightarrow> 's token_service \<Rightarrow> 's token_service" where
  "TokenService_WithSessionStore s t = t\<lparr>sv_Sessions := Some s\<rparr>"

definition TokenService_refreshTTL :: "'s token_service \<Rightarrow> duration" where
  "TokenService_refreshTTL t =
     (if to_RefreshTokenTTL (sv_Options t) > 0 then to_RefreshTokenTTL (sv_Options t) else 7 * 24 * hour)"

section \<open>Access tokens\<close>

text \<open>\<open>Custom user claims are merged in\<close>: a claim never replaces one that is there.\<close>

fun merge_claims :: "claim list \<Rightarrow> claims \<Rightarrow> claims" where
  "merge_claims [] c = c"
| "merge_claims (uc # ucs) c =
     merge_claims ucs (if map_of c (c_Type uc) = None then AList.update (c_Type uc) (JStr (c_Value uc)) c else c)"

definition session_claims :: "token_options \<Rightarrow> time \<Rightarrow> user \<Rightarrow> claims" where
  "session_claims o' now u =
     [(''sub'', JStr (u_ID u)), (ClaimNameIdentifier, JStr (u_ID u)), (ClaimName, JStr (u_UserName u)),
      (ClaimEmail, JStr (u_Email u)), (ClaimSecurityStamp, JStr (u_SecurityStamp u)),
      (''iss'', JStr (to_Issuer o')), (''aud'', JStr (to_Audience o')),
      (''iat'', JNum (time_Unix now)), (''nbf'', JNum (time_Unix now)),
      (''exp'', JNum (time_Unix (now + to_AccessTokenTTL o')))]"

text \<open>The header of a new token, with the key ID when there is one.\<close>

definition with_kid :: "string \<Rightarrow> claims \<Rightarrow> claims" where
  "with_kid kid h = (if kid \<noteq> [] then AList.update ''kid'' (JStr kid) h else h)"

definition TokenService_signAccessToken ::
  "jwt_lib \<Rightarrow> 's token_service \<Rightarrow> time \<Rightarrow> user \<Rightarrow> 's world \<Rightarrow> go_error + string \<times> time" where
  "TokenService_signAccessToken L t now u w =
     (case UserManager_GetRoles (sv_Users t) u w of
        Inl e \<Rightarrow> Inl e
      | Inr roles \<Rightarrow>
          let exp = now + to_AccessTokenTTL (sv_Options t);
              claims = session_claims (sv_Options t) now u;
              claims = (if roles \<noteq> [] then AList.update ClaimRole (JArr (map JStr roles)) claims else claims);
              claims = (case UserManager_GetClaims (sv_Users t) u w of
                          Inl _ \<Rightarrow> claims | Inr ucs \<Rightarrow> merge_claims ucs claims);
              signer = TokenOptions_signer (sv_Options t);
              (kid, key) = sg_SignKey signer
          in (case j_SignedString L (sg_Method signer) (with_kid kid (j_NewHeader L (sg_Method signer))) claims key of
                Inl e \<Rightarrow> Inl e
              | Inr tok \<Rightarrow> Inr (tok, exp)))"

definition access_parser :: "token_options \<Rightarrow> jwt_parser" where
  "access_parser o' = default_parser\<lparr>pr_ValidMethods := [alg (sg_Method (TokenOptions_signer o'))],
     pr_Issuer := Some (to_Issuer o'), pr_Audience := [to_Audience o']\<rparr>"

definition TokenService_ValidateAccessToken ::
  "jwt_lib \<Rightarrow> 's token_service \<Rightarrow> time \<Rightarrow> string \<Rightarrow> 's world \<Rightarrow> go_error + user \<times> claims" where
  "TokenService_ValidateAccessToken L t now tokenStr w =
     (case j_Parse L (access_parser (sv_Options t)) now (sg_Keyfunc (TokenOptions_signer (sv_Options t))) tokenStr of
        Inl _ \<Rightarrow> Inl ErrInvalidToken
      | Inr parsed \<Rightarrow>
          if \<not> t_Valid parsed then Inl ErrInvalidToken
          else if equal_fold_ascii (str_claim (t_Header parsed) ''typ'') TokenTypeAccessJWT then Inl ErrInvalidToken
          else
            (case UserManager_FindByID (sv_Users t) (str_claim (t_Claims parsed) ''sub'') w of
               Inl _ \<Rightarrow> Inl ErrInvalidToken
             | Inr u \<Rightarrow>
                 if str_claim (t_Claims parsed) ClaimSecurityStamp \<noteq> u_SecurityStamp u then Inl ErrInvalidToken
                 else Inr (u, t_Claims parsed)))"

section \<open>Sessions\<close>

text \<open>The eviction loop of \<open>enforceMaxSessions\<close>.\<close>

fun evict_loop :: "'s refresh_token_store \<Rightarrow> string \<Rightarrow> refresh_token list \<Rightarrow> int \<Rightarrow> 's world \<Rightarrow> 's world" where
  "evict_loop S keepID [] excess w = w"
| "evict_loop S keepID (s # ss) excess w =
     (if excess = 0 then w
      else if rt_SessionID s = keepID then evict_loop S keepID ss excess w
      else
        (case ts_DeleteRefreshToken S (rt_SessionID s) w of
           (Some e, w) \<Rightarrow> evict_loop S keepID ss excess w
         | (None, w) \<Rightarrow> evict_loop S keepID ss (excess - 1) w))"

definition TokenService_enforceMaxSessions ::
  "'s token_service \<Rightarrow> 's refresh_token_store \<Rightarrow> string \<Rightarrow> string \<Rightarrow> 's world \<Rightarrow> 's world" where
  "TokenService_enforceMaxSessions t S userID keepID w =
     (let mx = to_MaxSessions (sv_Options t)
      in if mx \<le> 0 then w
         else
           (case ts_ListUserRefreshTokens S userID w of
              Inl _ \<Rightarrow> w
            | Inr sessions \<Rightarrow>
                if int (length sessions) \<le> mx then w
                else evict_loop S keepID (sort_key rt_ExpiresAt sessions) (int (length sessions) - mx) w))"

definition TokenService_newSessionRefresh ::
  "extern \<Rightarrow> 's token_service \<Rightarrow> 's refresh_token_store \<Rightarrow> time \<Rightarrow> user \<Rightarrow> 's world
     \<Rightarrow> (go_error + string) \<times> 's world" where
  "TokenService_newSessionRefresh x t S now u w =
     (let (secret, w) = draw (randomToken x) w;
          (sid, w) = draw (uuid_NewString x) w;
          rt = \<lparr>rt_SessionID = sid, rt_UserID = u_ID u, rt_TokenHash = hashRefresh x secret, rt_Name = [],
                rt_ExpiresAt = now + TokenService_refreshTTL t, rt_CreatedAt = now, rt_LastUsedAt = None\<rparr>
      in (case ts_CreateRefreshToken S rt w of
            (Some e, w) \<Rightarrow> (Inl e, w)
          | (None, w) \<Rightarrow>
              let (_, w) = ts_DeleteExpiredRefreshTokens S now w;
                  w = TokenService_enforceMaxSessions t S (u_ID u) sid w
              in (Inr (sid @ ''.'' @ secret), w)))"

definition slot_value :: "extern \<Rightarrow> string \<Rightarrow> time \<Rightarrow> string" where
  "slot_value x refresh exp = hashRefresh x refresh @ '':'' @ strconv_FormatInt (time_Unix exp)"

definition TokenService_IssuePair ::
  "extern \<Rightarrow> jwt_lib \<Rightarrow> 's token_service \<Rightarrow> time \<Rightarrow> user \<Rightarrow> 's world \<Rightarrow> (go_error + token_pair) \<times> 's world" where
  "TokenService_IssuePair x L t now u w =
     (case TokenService_signAccessToken L t now u w of
        Inl e \<Rightarrow> (Inl e, w)
      | Inr (tok, exp) \<Rightarrow>
          (case sv_Sessions t of
             Some S \<Rightarrow>
               (case TokenService_newSessionRefresh x t S now u w of
                  (Inl e, w) \<Rightarrow> (Inl e, w)
                | (Inr refresh, w) \<Rightarrow>
                    (Inr \<lparr>pair_AccessToken = tok, pair_RefreshToken = refresh, pair_ExpiresAt = exp,
                          pair_TokenType = ''Bearer''\<rparr>, w))
           | None \<Rightarrow>
               let (refresh, w) = draw (randomToken x) w
               in (case us_SetToken (um_Store (sv_Users t)) u refreshTokenProvider refreshTokenName
                          (slot_value x refresh (now + TokenService_refreshTTL t)) w of
                     (Some e, w) \<Rightarrow> (Inl e, w)
                   | (None, w) \<Rightarrow>
                       (Inr \<lparr>pair_AccessToken = tok, pair_RefreshToken = refresh, pair_ExpiresAt = exp,
                             pair_TokenType = ''Bearer''\<rparr>, w))))"

section \<open>Refresh and revocation\<close>

definition TokenService_validateLegacySlot ::
  "extern \<Rightarrow> 's token_service \<Rightarrow> time \<Rightarrow> user \<Rightarrow> string \<Rightarrow> 's world \<Rightarrow> go_error option" where
  "TokenService_validateLegacySlot x t now u refreshToken w =
     (case us_GetToken (um_Store (sv_Users t)) u refreshTokenProvider refreshTokenName w of
        Inl _ \<Rightarrow> Some ErrInvalidToken
      | Inr stored \<Rightarrow>
          if stored = [] then Some ErrInvalidToken
          else
            (case strings_Cut stored (CHR '':'') of
               None \<Rightarrow> Some ErrInvalidToken
             | Some (hashPart, expPart) \<Rightarrow>
                 (case strconv_ParseInt expPart of
                    Inl _ \<Rightarrow> Some ErrInvalidToken
                  | Inr exp \<Rightarrow>
                      if now > time_of_Unix exp then Some ErrInvalidToken
                      else if \<not> subtleConstEq hashPart (hashRefresh x refreshToken) then Some ErrInvalidToken
                      else None)))"

definition TokenService_refreshSession ::
  "extern \<Rightarrow> jwt_lib \<Rightarrow> 's token_service \<Rightarrow> 's refresh_token_store \<Rightarrow> time \<Rightarrow> user \<Rightarrow> string \<Rightarrow> string
     \<Rightarrow> 's world \<Rightarrow> (go_error + token_pair) \<times> 's world" where
  "TokenService_refreshSession x L t S now u sessionID secret w =
     (if sessionID = [] \<or> length sessionID > 64 then (Inl ErrInvalidToken, w)
      else
        (case ts_GetRefreshTokenBySession S sessionID w of
           Inl e \<Rightarrow> if e = ErrNotFound then (Inl ErrInvalidToken, w) else (Inl e, w)
         | Inr rt \<Rightarrow>
             if rt_UserID rt \<noteq> u_ID u \<or> now > rt_ExpiresAt rt then (Inl ErrInvalidToken, w)
             else if \<not> subtleConstEq (rt_TokenHash rt) (hashRefresh x secret) then (Inl ErrInvalidToken, w)
             else
               (case TokenService_signAccessToken L t now u w of
                  Inl e \<Rightarrow> (Inl e, w)
                | Inr (tok, exp) \<Rightarrow>
                    let (newSecret, w) = draw (randomToken x) w;
                        rt = rt\<lparr>rt_TokenHash := hashRefresh x newSecret,
                                rt_ExpiresAt := now + TokenService_refreshTTL t, rt_LastUsedAt := Some now\<rparr>
                    in (case ts_UpdateRefreshToken S rt w of
                          (Some e, w) \<Rightarrow> (Inl e, w)
                        | (None, w) \<Rightarrow>
                            (Inr \<lparr>pair_AccessToken = tok,
                                  pair_RefreshToken = rt_SessionID rt @ ''.'' @ newSecret,
                                  pair_ExpiresAt = exp, pair_TokenType = ''Bearer''\<rparr>, w)))))"

definition TokenService_Refresh ::
  "extern \<Rightarrow> jwt_lib \<Rightarrow> 's token_service \<Rightarrow> time \<Rightarrow> user \<Rightarrow> string \<Rightarrow> 's world
     \<Rightarrow> (go_error + token_pair) \<times> 's world" where
  "TokenService_Refresh x L t now u refreshToken w =
     (case sv_Sessions t of
        Some S \<Rightarrow>
          (case strings_Cut refreshToken (CHR ''.'') of
             Some (sid, secret) \<Rightarrow> TokenService_refreshSession x L t S now u sid secret w
           | None \<Rightarrow>
               (case TokenService_validateLegacySlot x t now u refreshToken w of
                  Some e \<Rightarrow> (Inl e, w)
                | None \<Rightarrow>
                    (case TokenService_IssuePair x L t now u w of
                       (Inl e, w) \<Rightarrow> (Inl e, w)
                     | (Inr pair, w) \<Rightarrow>
                         let (_, w) = us_RemoveToken (um_Store (sv_Users t)) u refreshTokenProvider refreshTokenName w
                         in (Inr pair, w))))
      | None \<Rightarrow>
          (case TokenService_validateLegacySlot x t now u refreshToken w of
             Some e \<Rightarrow> (Inl e, w)
           | None \<Rightarrow> TokenService_IssuePair x L t now u w))"

definition TokenService_Revoke ::
  "'s token_service \<Rightarrow> user \<Rightarrow> 's world \<Rightarrow> go_error option \<times> 's world" where
  "TokenService_Revoke t u w =
     (case us_RemoveToken (um_Store (sv_Users t)) u refreshTokenProvider refreshTokenName w of
        (Some e, w) \<Rightarrow> (Some e, w)
      | (None, w) \<Rightarrow>
          (case sv_Sessions t of
             None \<Rightarrow> (None, w)
           | Some S \<Rightarrow>
               (case ts_DeleteUserRefreshTokens S (u_ID u) w of
                  (Inl e, w) \<Rightarrow> (Some e, w)
                | (Inr _, w) \<Rightarrow> (None, w))))"

definition TokenService_RevokeSession ::
  "'s token_service \<Rightarrow> user \<Rightarrow> string \<Rightarrow> 's world \<Rightarrow> go_error option \<times> 's world" where
  "TokenService_RevokeSession t u refreshToken w =
     (case (case sv_Sessions t of None \<Rightarrow> None
            | Some S \<Rightarrow> map_option (\<lambda>(sid, _). (S, sid)) (strings_Cut refreshToken (CHR ''.''))) of
        Some (S, sid) \<Rightarrow>
          (case ts_GetRefreshTokenBySession S sid w of
             Inl e \<Rightarrow> if e = ErrNotFound then (None, w) else (Some e, w)
           | Inr rt \<Rightarrow>
               if rt_UserID rt \<noteq> u_ID u then (Some ErrInvalidToken, w)
               else ts_DeleteRefreshToken S sid w)
      | None \<Rightarrow> us_RemoveToken (um_Store (sv_Users t)) u refreshTokenProvider refreshTokenName w)"

definition TokenService_ListSessions ::
  "'s token_service \<Rightarrow> user \<Rightarrow> 's world \<Rightarrow> go_error + refresh_token list" where
  "TokenService_ListSessions t u w =
     (case sv_Sessions t of
        None \<Rightarrow> Inl ErrListNotSupported
      | Some S \<Rightarrow> ts_ListUserRefreshTokens S (u_ID u) w)"

end
