(* ===== verification/Token_Service_Correct.thy ===== *)
theory Token_Service_Correct
  imports Token_Service
begin

text \<open>
  Correctness of the token service: what an access token carries and when it validates, the
  contract of the refresh-session store as a locale with the service's guarantees proved inside,
  and the interpretation on the in-memory store.
\<close>

section \<open>Access tokens\<close>

lemma merge_claims_keeps: "map_of c k = Some v \<Longrightarrow> map_of (merge_claims ucs c) k = Some v"
proof (induction ucs arbitrary: c)
  case (Cons a ucs)
  then have "map_of (if map_of c (c_Type a) = None then AList.update (c_Type a) (JStr (c_Value a)) c else c) k = Some v"
    by (auto simp: update_conv)
  then show ?case using Cons.IH by simp
qed simp

definition carries :: "token_options \<Rightarrow> time \<Rightarrow> user \<Rightarrow> claims \<Rightarrow> bool" where
  "carries o' now u c \<longleftrightarrow> map_of c ''sub'' = Some (JStr (u_ID u)) \<and>
     map_of c ClaimSecurityStamp = Some (JStr (u_SecurityStamp u)) \<and>
     map_of c ''iss'' = Some (JStr (to_Issuer o')) \<and> map_of c ''aud'' = Some (JStr (to_Audience o')) \<and>
     map_of c ''iat'' = Some (JNum (time_Unix now)) \<and> map_of c ''nbf'' = Some (JNum (time_Unix now)) \<and>
     map_of c ''exp'' = Some (JNum (time_Unix (now + to_AccessTokenTTL o')))"

lemma session_claims_carry: "carries o' now u (session_claims o' now u)"
  by (simp add: carries_def session_claims_def claim_names)

lemma carries_update: "carries o' now u c \<Longrightarrow> carries o' now u (AList.update ClaimRole v c)"
  by (simp add: carries_def update_conv claim_names)

lemma carries_merge: "carries o' now u c \<Longrightarrow> carries o' now u (merge_claims ucs c)"
  by (simp add: carries_def merge_claims_keeps)

text \<open>Every signed session token carries the user, the stamp, issuer, audience and times, whatever
  roles and claims the user has.\<close>

lemma signAccessToken_token:
  assumes "TokenService_signAccessToken L t now u w = Inr (tok, exp)"
  obtains c where "j_SignedString L (sg_Method (TokenOptions_signer (sv_Options t)))
      (with_kid (fst (sg_SignKey (TokenOptions_signer (sv_Options t))))
        (j_NewHeader L (sg_Method (TokenOptions_signer (sv_Options t))))) c
      (snd (sg_SignKey (TokenOptions_signer (sv_Options t)))) = Inr tok"
    and "carries (sv_Options t) now u c" and "exp = now + to_AccessTokenTTL (sv_Options t)"
proof -
  let ?base = "session_claims (sv_Options t) now u"
  obtain roles where r: "UserManager_GetRoles (sv_Users t) u w = Inr roles"
    using assms by (auto simp: TokenService_signAccessToken_def split: sum.splits)
  let ?c1 = "if roles \<noteq> [] then AList.update ClaimRole (JArr (map JStr roles)) ?base else ?base"
  let ?c = "case UserManager_GetClaims (sv_Users t) u w of Inl _ \<Rightarrow> ?c1 | Inr ucs \<Rightarrow> merge_claims ucs ?c1"
  have "carries (sv_Options t) now u ?c"
    using session_claims_carry carries_update carries_merge by (simp split: sum.splits)
  with that [of ?c] assms r show ?thesis
    by (auto simp: TokenService_signAccessToken_def Let_def split: sum.splits prod.splits)
qed

lemma str_claim_Some: "map_of c k = Some (JStr s) \<Longrightarrow> str_claim c k = s"
  by (simp add: str_claim_def)

text \<open>Whoever a validated token belongs to is the stored user it was signed for, under the stamp it
  was signed with.\<close>

lemma Validate_signed:
  assumes "jwt_faithful L"
    and "TokenService_signAccessToken L t now u w = Inr (tok, exp)"
    and "TokenService_ValidateAccessToken L t' now' tok w' = Inr (v, c)"
  shows "UserManager_FindByID (sv_Users t') (u_ID u) w' = Inr v \<and> u_SecurityStamp v = u_SecurityStamp u"
proof -
  from assms(3) obtain p where p: "j_Parse L (access_parser (sv_Options t')) now'
      (sg_Keyfunc (TokenOptions_signer (sv_Options t'))) tok = Inr p"
    and v: "UserManager_FindByID (sv_Users t') (str_claim (t_Claims p) ''sub'') w' = Inr v"
      "str_claim (t_Claims p) ClaimSecurityStamp = u_SecurityStamp v"
    by (auto simp: TokenService_ValidateAccessToken_def split: sum.splits if_splits)
  from signAccessToken_token [OF assms(2)] assms(1) p
  obtain c' where c': "carries (sv_Options t) now u c'" "map_of (t_Claims p) = map_of c'"
    unfolding jwt_faithful_def by metis
  then have "carries (sv_Options t) now u (t_Claims p)" by (simp add: carries_def)
  with v show ?thesis by (auto simp: carries_def str_claim_Some)
qed

text \<open>A signer whose key function answers for the tokens it signs.\<close>

definition signer_ok :: "signer \<Rightarrow> bool" where
  "signer_ok sg \<longleftrightarrow> (\<forall>h t. map_of (t_Header t) = map_of (with_kid (fst (sg_SignKey sg)) h) \<longrightarrow>
     t_Method t = sg_Method sg \<longrightarrow> (\<exists>k. sg_Keyfunc sg t = Inr k \<and> key_pair (snd (sg_SignKey sg)) k))"

lemma hmac_signer_ok: "signer_ok (NewHMACSigner key)"
  by (simp add: signer_ok_def NewHMACSigner_def hmacSigner_Keyfunc_def hmacSigner_Method_def
      hmacSigner_SignKey_def Let_def)

lemma kid_of_with_kid: "kid \<noteq> [] \<Longrightarrow> str_claim (with_kid kid h) ''kid'' = kid"
  by (simp add: str_claim_def with_kid_def update_conv)

lemma rsa_signer_ok:
  "rk_active r \<noteq> [] \<Longrightarrow> map_of (rk_keys r) (rk_active r) = Some key \<Longrightarrow> signer_ok (rsa_signer r)"
  using rsa.Method [of r] by (auto simp: signer_ok_def rsa.Keyfunc rsa.SignKey kid_of_with_kid dest: str_claim_cong)

lemma ecdsa_signer_ok:
  "ek_active r \<noteq> [] \<Longrightarrow> map_of (ek_keys r) (ek_active r) = Some key \<Longrightarrow> signer_ok (ecdsa_signer r)"
  using ecdsa.Method [of r] by (auto simp: signer_ok_def ecdsa.Keyfunc ecdsa.SignKey kid_of_with_kid dest: str_claim_cong)

lemma map_of_with_kid: "k \<noteq> ''kid'' \<Longrightarrow> map_of (with_kid kid h) k = map_of h k"
  by (simp add: with_kid_def update_conv)

lemma signed_parses:
  assumes "jwt_complete L" "jwt_faithful L" "signer_ok sg"
    and "j_SignedString L (sg_Method sg) (with_kid (fst (sg_SignKey sg)) h) c
      (snd (sg_SignKey sg)) = Inr tok"
    and "parser_accepts p now (sg_Method sg) c"
  obtains t where "j_Parse L p now (sg_Keyfunc sg) tok = Inr t" "t_Valid t" "map_of (t_Claims t) = map_of c"
    "map_of (t_Header t) = map_of (with_kid (fst (sg_SignKey sg)) h)"
proof -
  have "\<forall>t. map_of (t_Header t) = map_of (with_kid (fst (sg_SignKey sg)) h) \<longrightarrow> map_of (t_Claims t) = map_of c \<longrightarrow>
      t_Method t = sg_Method sg \<longrightarrow> \<not> t_Valid t \<longrightarrow> (\<exists>k. sg_Keyfunc sg t = Inr k \<and> key_pair (snd (sg_SignKey sg)) k)"
    using assms(3) unfolding signer_ok_def by blast
  with assms(1,4,5) obtain t where t: "j_Parse L p now (sg_Keyfunc sg) tok = Inr t" "t_Valid t"
    unfolding jwt_complete_def by meson
  with assms(2,4) have "map_of (t_Claims t) = map_of c" "map_of (t_Header t) = map_of (with_kid (fst (sg_SignKey sg)) h)"
    unfolding jwt_faithful_def by blast+
  with t that show ?thesis by blast
qed

lemma Validate_fresh:
  assumes "jwt_complete L" "jwt_faithful L" "jwt_header_ok L"
    and "signer_ok (TokenOptions_signer (sv_Options t))"
    and "TokenService_signAccessToken L t now u w = Inr (tok, exp)"
    and "now \<le> now'" "now' < time_of_Unix (time_Unix exp)"
    and "UserManager_FindByID (sv_Users t) (u_ID u) w' = Inr v" "u_SecurityStamp v = u_SecurityStamp u"
    and "to_Audience (sv_Options t) \<noteq> []"
  shows "\<exists>c. TokenService_ValidateAccessToken L t now' tok w' = Inr (v, c)"
proof -
  let ?sg = "TokenOptions_signer (sv_Options t)"
  from signAccessToken_token [OF assms(5)] obtain c where
    s: "j_SignedString L (sg_Method ?sg) (with_kid (fst (sg_SignKey ?sg)) (j_NewHeader L (sg_Method ?sg))) c
      (snd (sg_SignKey ?sg)) = Inr tok"
    and c: "carries (sv_Options t) now u c" and e: "exp = now + to_AccessTokenTTL (sv_Options t)" by metis
  have "time_of_Unix (time_Unix now) \<le> now'" using time_of_Unix_Unix [of now] assms(6) by linarith
  then have "parser_accepts (access_parser (sv_Options t)) now' (sg_Method ?sg) c"
    using c assms(7,10) e by (simp add: parser_accepts_def access_parser_def default_parser_def carries_def)
  from signed_parses [OF assms(1,2,4) s this] obtain p where
    p: "j_Parse L (access_parser (sv_Options t)) now' (sg_Keyfunc ?sg) tok = Inr p" "t_Valid p" "map_of (t_Claims p) = map_of c"
      "map_of (t_Header p) = map_of (with_kid (fst (sg_SignKey ?sg)) (j_NewHeader L (sg_Method ?sg)))" by metis
  have "str_claim (t_Header p) ''typ'' = ''JWT''"
    using assms(3) p(4) by (simp add: jwt_header_ok_def str_claim_def map_of_with_kid)
  then have "\<not> equal_fold_ascii (str_claim (t_Header p) ''typ'') TokenTypeAccessJWT"
    by (simp add: equal_fold_ascii_def TokenTypeAccessJWT_def)
  then show ?thesis
    using p c assms(8,9)
    by (simp add: TokenService_ValidateAccessToken_def carries_def str_claim_Some)
qed

section \<open>The contract of the session store\<close>

text \<open>
  \<open>sess\<close> abstracts the store to the map from session IDs to sessions, beside the users and their
  tokens. The contract is that of a store without I/O failures.
\<close>

locale session_store = user_tokens x S inv rows
  for x :: extern and S :: "'s user_store" and inv :: "'s \<Rightarrow> bool"
    and rows :: "'s \<Rightarrow> string \<Rightarrow> user option" +
  fixes T :: "'s refresh_token_store" and sess :: "'s \<Rightarrow> string \<Rightarrow> refresh_token option"
  assumes GetSession: "inv (db w) \<Longrightarrow> ts_GetRefreshTokenBySession T sid w =
      (case sess (db w) sid of None \<Rightarrow> Inl ErrNotFound | Some rt \<Rightarrow> Inr rt)"
    and sess_ID: "inv (db w) \<Longrightarrow> sess (db w) sid = Some rt \<Longrightarrow> rt_SessionID rt = sid"
    and CreateSession: "inv (db w) \<Longrightarrow> ts_CreateRefreshToken T rt w = (e, w') \<Longrightarrow>
      e = None \<and> inv (db w') \<and> tape w' = tape w \<and> sess (db w') = (sess (db w))(rt_SessionID rt \<mapsto> rt)"
    and UpdateSession: "inv (db w) \<Longrightarrow> sess (db w) (rt_SessionID rt) \<noteq> None \<Longrightarrow>
      ts_UpdateRefreshToken T rt w = (e, w') \<Longrightarrow>
      e = None \<and> inv (db w') \<and> tape w' = tape w \<and> sess (db w') = (sess (db w))(rt_SessionID rt \<mapsto> rt)"
    and DeleteSession: "inv (db w) \<Longrightarrow> ts_DeleteRefreshToken T sid w = (e, w') \<Longrightarrow>
      e = None \<and> inv (db w') \<and> tape w' = tape w \<and> sess (db w') = (sess (db w))(sid := None)"
    and DeleteUserSessions: "inv (db w) \<Longrightarrow> ts_DeleteUserRefreshTokens T uid w = (r, w') \<Longrightarrow>
      (\<exists>n. r = Inr n) \<and> inv (db w') \<and> tape w' = tape w \<and>
      sess (db w') = (\<lambda>i. if \<exists>rt. sess (db w) i = Some rt \<and> rt_UserID rt = uid then None else sess (db w) i) \<and>
      us_GetToken S u p n w' = us_GetToken S u p n w"
    and DeleteExpiredSessions: "inv (db w) \<Longrightarrow> ts_DeleteExpiredRefreshTokens T before w = (r, w') \<Longrightarrow>
      inv (db w') \<and> tape w' = tape w \<and>
      sess (db w') = (\<lambda>i. if \<exists>rt. sess (db w) i = Some rt \<and> rt_ExpiresAt rt < before then None else sess (db w) i)"
    and ListSessions: "inv (db w) \<Longrightarrow> \<exists>l. ts_ListUserRefreshTokens T uid w = Inr l \<and>
      distinct (map rt_SessionID l) \<and> set l = {rt. \<exists>i. sess (db w) i = Some rt \<and> rt_UserID rt = uid}"
    and RemoveToken_sess: "inv (db w) \<Longrightarrow> us_RemoveToken S u p n w = (e, w') \<Longrightarrow> sess (db w') = sess (db w)"

definition sessions_of :: "(string \<Rightarrow> refresh_token option) \<Rightarrow> string \<Rightarrow> string set" where
  "sessions_of ss uid = {i. \<exists>rt. ss i = Some rt \<and> rt_UserID rt = uid}"

text \<open>A refresh token a session answers to: it names a session of the user that has not expired and
  holds the hash of the secret.\<close>

definition redeemable :: "extern \<Rightarrow> (string \<Rightarrow> refresh_token option) \<Rightarrow> time \<Rightarrow> user \<Rightarrow> string \<Rightarrow> bool" where
  "redeemable x ss now u tok \<longleftrightarrow> (\<exists>sid secret rt. strings_Cut tok (CHR ''.'') = Some (sid, secret) \<and>
     sid \<noteq> [] \<and> length sid \<le> 64 \<and> ss sid = Some rt \<and> rt_UserID rt = u_ID u \<and> now \<le> rt_ExpiresAt rt \<and>
     rt_TokenHash rt = hashRefresh x secret)"

context session_store
begin

lemma Refresh_refused:
  assumes "inv (db w)" "sv_Sessions t = Some T" "CHR ''.'' \<in> set tok" "\<not> redeemable x (sess (db w)) now u tok"
  shows "TokenService_Refresh x L t now u tok w = (Inl ErrInvalidToken, w)"
proof -
  obtain sid secret where c: "strings_Cut tok (CHR ''.'') = Some (sid, secret)"
    using assms(3) by (auto simp: strings_Cut_def)
  then show ?thesis
    using assms(1,2,4) by (auto simp: TokenService_Refresh_def TokenService_refreshSession_def
        GetSession redeemable_def split: option.splits)
qed

lemma Refresh_session:
  assumes "inv (db w)" "sv_Sessions t = Some T"
    and "strings_Cut tok (CHR ''.'') = Some (sid, secret)" "redeemable x (sess (db w)) now u tok"
    and "TokenService_signAccessToken L t now u w = Inr (at, exp)"
  obtains w' where "TokenService_Refresh x L t now u tok w =
      (Inr \<lparr>pair_AccessToken = at, pair_RefreshToken = sid @ ''.'' @ fst (randomToken x (tape w)),
            pair_ExpiresAt = exp, pair_TokenType = ''Bearer''\<rparr>, w')" "inv (db w')"
    and "sess (db w') = (sess (db w))(sid := map_option (\<lambda>rt. rt\<lparr>rt_TokenHash := hashRefresh x (fst (randomToken x (tape w))),
           rt_ExpiresAt := now + TokenService_refreshTTL t, rt_LastUsedAt := Some now\<rparr>) (sess (db w) sid))"
proof -
  from assms(3,4) obtain rt where rt: "sess (db w) sid = Some rt" "sid \<noteq> []" "length sid \<le> 64"
    "rt_UserID rt = u_ID u" "now \<le> rt_ExpiresAt rt" "rt_TokenHash rt = hashRefresh x secret"
    by (auto simp: redeemable_def)
  have sid: "rt_SessionID rt = sid" using sess_ID [OF assms(1) rt(1)] .
  let ?rt = "rt\<lparr>rt_TokenHash := hashRefresh x (fst (randomToken x (tape w))),
           rt_ExpiresAt := now + TokenService_refreshTTL t, rt_LastUsedAt := Some now\<rparr>"
  let ?w = "w\<lparr>tape := tape w + 32\<rparr>"
  obtain e w' where u: "ts_UpdateRefreshToken T ?rt ?w = (e, w')" by fastforce
  then have eff: "e = None" "inv (db w')" "sess (db w') = (sess (db w))(sid \<mapsto> ?rt)"
    using UpdateSession [of ?w ?rt e w'] assms(1) rt(1) sid by auto
  have "TokenService_Refresh x L t now u tok w =
      (Inr \<lparr>pair_AccessToken = at, pair_RefreshToken = sid @ ''.'' @ fst (randomToken x (tape w)),
            pair_ExpiresAt = exp, pair_TokenType = ''Bearer''\<rparr>, w')"
    using assms rt u sid eff(1)
    by (simp add: TokenService_Refresh_def TokenService_refreshSession_def GetSession Let_def)
  with that eff rt(1) show ?thesis by simp
qed

lemma Refresh_success:
  assumes "inv (db w)" "sv_Sessions t = Some T" "CHR ''.'' \<in> set tok"
    and "TokenService_Refresh x L t now u tok w = (Inr pair, w')"
  shows "redeemable x (sess (db w)) now u tok"
    and "\<exists>at exp. TokenService_signAccessToken L t now u w = Inr (at, exp)"
proof -
  show r: "redeemable x (sess (db w)) now u tok"
    using Refresh_refused [OF assms(1-3), of now u L] assms(4) by force
  obtain sid secret where "strings_Cut tok (CHR ''.'') = Some (sid, secret)"
    using assms(3) by (auto simp: strings_Cut_def)
  with r assms show "\<exists>at exp. TokenService_signAccessToken L t now u w = Inr (at, exp)"
    by (auto simp: TokenService_Refresh_def TokenService_refreshSession_def GetSession redeemable_def
        split: sum.splits)
qed

lemma rotation:
  assumes "inv (db w)" "sv_Sessions t = Some T" "strings_Cut tok (CHR ''.'') = Some (sid, secret)"
    and "TokenService_Refresh x L t now u tok w = (Inr pair, w')"
  shows "inv (db w')"
    and "i \<noteq> sid \<Longrightarrow> sess (db w') i = sess (db w) i"
    and "now' \<le> now + TokenService_refreshTTL t \<Longrightarrow> redeemable x (sess (db w')) now' u (pair_RefreshToken pair)"
    and "hashRefresh x secret \<noteq> hashRefresh x (fst (randomToken x (tape w))) \<Longrightarrow>
      \<not> redeemable x (sess (db w')) now' v tok"
proof -
  have dot: "CHR ''.'' \<in> set tok" using strings_Cut_SomeD [OF assms(3)] by simp
  note ok = Refresh_success [OF assms(1,2) dot assms(4)]
  from ok(2) obtain at exp where s: "TokenService_signAccessToken L t now u w = Inr (at, exp)" by blast
  let ?new = "fst (randomToken x (tape w))"
  from ok(1) assms(3) obtain rt where rt: "sess (db w) sid = Some rt" "sid \<noteq> []" "length sid \<le> 64"
    "rt_UserID rt = u_ID u" by (auto simp: redeemable_def)
  obtain w2 where w2: "TokenService_Refresh x L t now u tok w =
      (Inr \<lparr>pair_AccessToken = at, pair_RefreshToken = sid @ ''.'' @ ?new,
            pair_ExpiresAt = exp, pair_TokenType = ''Bearer''\<rparr>, w2)" "inv (db w2)"
    "sess (db w2) = (sess (db w))(sid := map_option (\<lambda>rt. rt\<lparr>rt_TokenHash := hashRefresh x ?new,
       rt_ExpiresAt := now + TokenService_refreshTTL t, rt_LastUsedAt := Some now\<rparr>) (sess (db w) sid))"
    by (rule Refresh_session [OF assms(1-3) ok(1) s])
  have p: "pair_RefreshToken pair = sid @ ''.'' @ ?new" and i: "inv (db w')"
    and e: "sess (db w') = (sess (db w))(sid \<mapsto> rt\<lparr>rt_TokenHash := hashRefresh x ?new,
           rt_ExpiresAt := now + TokenService_refreshTTL t, rt_LastUsedAt := Some now\<rparr>)"
    using w2 assms(4) by (auto simp: rt(1))
  show "inv (db w')" by (rule i)
  show "i \<noteq> sid \<Longrightarrow> sess (db w') i = sess (db w) i" by (simp add: e)
  have "CHR ''.'' \<notin> set sid" using strings_Cut_SomeD [OF assms(3)] by simp
  then have cut: "strings_Cut (pair_RefreshToken pair) (CHR ''.'') = Some (sid, ?new)" by (simp add: p)
  show "now' \<le> now + TokenService_refreshTTL t \<Longrightarrow> redeemable x (sess (db w')) now' u (pair_RefreshToken pair)"
    unfolding redeemable_def cut using e rt by simp
  show "hashRefresh x secret \<noteq> hashRefresh x ?new \<Longrightarrow> \<not> redeemable x (sess (db w')) now' v tok"
    unfolding redeemable_def assms(3) by (auto simp: e)
qed

subsection \<open>Eviction\<close>

lemma evict_effect:
  assumes "inv (db w)" "0 \<le> ex" "distinct (map rt_SessionID l)"
  shows "inv (db (evict_loop T keep l ex w)) \<and> sess (db (evict_loop T keep l ex w)) =
    (\<lambda>i. if i \<in> set (take (nat ex) (filter (\<lambda>i. i \<noteq> keep) (map rt_SessionID l))) then None else sess (db w) i)"
  using assms
proof (induction l arbitrary: ex w)
  case (Cons s l)
  show ?case
  proof (cases "ex = 0 \<or> rt_SessionID s = keep")
    case False
    obtain e w1 where d: "ts_DeleteRefreshToken T (rt_SessionID s) w = (e, w1)" by fastforce
    have w1: "e = None" "inv (db w1)" "sess (db w1) = (sess (db w))(rt_SessionID s := None)"
      using DeleteSession [OF Cons.prems(1) d] by auto
    have "0 < ex" using False Cons.prems(2) by auto
    then have n: "nat ex = Suc (nat (ex - 1))" by arith
    have "evict_loop T keep (s # l) ex w = evict_loop T keep l (ex - 1) w1" using False d w1(1) by simp
    then show ?thesis using Cons.IH [OF w1(2), of "ex - 1"] Cons.prems False by (auto simp: n w1(3))
  next
    case True
    show ?thesis
    proof (cases "ex = 0")
      case False
      with True Cons.IH [OF Cons.prems(1,2)] Cons.prems(3) show ?thesis by simp
    qed (use Cons.prems in simp)
  qed
qed simp

lemma sessions_of_list:
  assumes "inv (db w)" "ts_ListUserRefreshTokens T uid w = Inr l"
  shows "distinct (map rt_SessionID l)" "sessions_of (sess (db w)) uid = set (map rt_SessionID l)"
proof -
  from ListSessions [OF assms(1), of uid] assms(2)
  have l: "distinct (map rt_SessionID l)" "set l = {rt. \<exists>i. sess (db w) i = Some rt \<and> rt_UserID rt = uid}" by auto
  then show "distinct (map rt_SessionID l)" by simp
  show "sessions_of (sess (db w)) uid = set (map rt_SessionID l)"
    using sess_ID [OF assms(1)] by (force simp: sessions_of_def l(2))
qed

lemma distinct_sort_key_ids: "distinct (map f l) \<Longrightarrow> distinct (map f (sort_key g l))"
  by (metis distinct_map distinct_sort set_sort)

lemma enforce_effect:
  assumes "inv (db w)" "0 < to_MaxSessions (sv_Options t)" "keep \<in> sessions_of (sess (db w)) uid"
  defines "w' \<equiv> TokenService_enforceMaxSessions t T uid keep w"
  shows "inv (db w')" "finite (sessions_of (sess (db w')) uid)"
    "int (card (sessions_of (sess (db w')) uid)) \<le> to_MaxSessions (sv_Options t)"
    "sess (db w') keep = sess (db w) keep"
proof -
  let ?mx = "to_MaxSessions (sv_Options t)"
  obtain l where l: "ts_ListUserRefreshTokens T uid w = Inr l" using ListSessions [OF assms(1)] by blast
  note ids = sessions_of_list [OF assms(1) l]
  have len: "card (sessions_of (sess (db w)) uid) = length l"
    using distinct_card [OF ids(1)] ids(2) by simp
  have "inv (db w') \<and> finite (sessions_of (sess (db w')) uid) \<and>
    int (card (sessions_of (sess (db w')) uid)) \<le> ?mx \<and> sess (db w') keep = sess (db w) keep"
  proof (cases "int (length l) \<le> ?mx")
    case True
    then have "w' = w" using assms(2) l by (simp add: w'_def TokenService_enforceMaxSessions_def Let_def)
    then show ?thesis using True len ids assms(1) by simp
  next
    case False
    let ?l = "sort_key rt_ExpiresAt l"
    let ?D = "take (nat (int (length l) - ?mx)) (filter (\<lambda>i. i \<noteq> keep) (map rt_SessionID ?l))"
    have w': "w' = evict_loop T keep ?l (int (length l) - ?mx) w"
      using False assms(2) l by (simp add: w'_def TokenService_enforceMaxSessions_def Let_def)
    have d: "distinct (map rt_SessionID ?l)" by (rule distinct_sort_key_ids [OF ids(1)])
    have eff: "inv (db w')" "sess (db w') = (\<lambda>i. if i \<in> set ?D then None else sess (db w) i)"
      using evict_effect [OF assms(1) _ d, of "int (length l) - ?mx" keep] False by (auto simp: w')
    have keep: "keep \<in> set (map rt_SessionID ?l)" using assms(3) ids(2) by simp
    have "length (filter (\<lambda>i. i \<noteq> keep) (map rt_SessionID ?l)) = card (set (map rt_SessionID ?l) - {keep})"
      using distinct_card [of "filter (\<lambda>i. i \<noteq> keep) (map rt_SessionID ?l)"] d by (simp add: set_diff_eq)
    also have "\<dots> = length l - 1"
      using keep distinct_card [OF d] by (simp add: card_Diff_singleton)
    finally have "length ?D = nat (int (length l) - ?mx)" using assms(2) by simp
    moreover have "distinct ?D" using d by simp
    ultimately have cD: "card (set ?D) = nat (int (length l) - ?mx)" by (metis distinct_card)
    have sub: "set ?D \<subseteq> set (map rt_SessionID l)" using set_take_subset by fastforce
    have "sessions_of (sess (db w')) uid = set (map rt_SessionID l) - set ?D"
      unfolding eff(2) ids(2) [symmetric] by (auto simp: sessions_of_def split: if_splits)
    moreover have "card (set (map rt_SessionID l) - set ?D) = length l - nat (int (length l) - ?mx)"
      using card_Diff_subset [OF finite_set sub] cD distinct_card [OF ids(1)] by simp
    moreover have "keep \<notin> set ?D" using set_take_subset by fastforce
    ultimately show ?thesis using eff False assms(2) by auto
  qed
  then show "inv (db w')" "finite (sessions_of (sess (db w')) uid)"
    "int (card (sessions_of (sess (db w')) uid)) \<le> ?mx" "sess (db w') keep = sess (db w) keep" by blast+
qed

lemma refreshTTL_pos: "0 < TokenService_refreshTTL t"
  by (simp add: TokenService_refreshTTL_def hour_def minute_def second_def)

lemma newSession_effect:
  assumes "inv (db w)" "TokenService_newSessionRefresh x t T now u w = (r, w')"
  defines "sid \<equiv> x_uuid x (tape w + 32)" and "secret \<equiv> fst (randomToken x (tape w))"
  shows "r = Inr (sid @ ''.'' @ secret)" "inv (db w')"
    "\<exists>rt. sess (db w') sid = Some rt \<and> rt_UserID rt = u_ID u \<and> rt_TokenHash rt = hashRefresh x secret \<and>
       rt_ExpiresAt rt = now + TokenService_refreshTTL t"
    "0 < to_MaxSessions (sv_Options t) \<Longrightarrow> finite (sessions_of (sess (db w')) (u_ID u)) \<and>
       int (card (sessions_of (sess (db w')) (u_ID u))) \<le> to_MaxSessions (sv_Options t)"
proof -
  let ?rt = "\<lparr>rt_SessionID = sid, rt_UserID = u_ID u, rt_TokenHash = hashRefresh x secret, rt_Name = [],
     rt_ExpiresAt = now + TokenService_refreshTTL t, rt_CreatedAt = now, rt_LastUsedAt = None\<rparr>"
  let ?w = "w\<lparr>tape := 48 + tape w\<rparr>"
  obtain e w1 where c: "ts_CreateRefreshToken T ?rt ?w = (e, w1)" by fastforce
  have w1: "e = None" "inv (db w1)" "sess (db w1) = (sess (db w))(sid \<mapsto> ?rt)"
    using CreateSession [OF _ c] assms(1) by auto
  obtain n w2 where g: "ts_DeleteExpiredRefreshTokens T now w1 = (n, w2)" by fastforce
  have w2: "inv (db w2)" "sess (db w2) sid = Some ?rt"
    using DeleteExpiredSessions [OF w1(2) g] w1(3) refreshTTL_pos [of t] by auto
  have run: "r = Inr (sid @ ''.'' @ secret)" "w' = TokenService_enforceMaxSessions t T (u_ID u) sid w2"
    using assms(2) c g w1(1) by (auto simp: TokenService_newSessionRefresh_def Let_def sid_def secret_def)
  have keep: "sid \<in> sessions_of (sess (db w2)) (u_ID u)" using w2(2) by (simp add: sessions_of_def)
  show "r = Inr (sid @ ''.'' @ secret)" by (rule run)
  have all: "inv (db w') \<and> sess (db w') sid = Some ?rt"
  proof (cases "0 < to_MaxSessions (sv_Options t)")
    case True
    from enforce_effect [OF w2(1) True keep] run(2) w2(2) show ?thesis by simp
  next
    case False
    then have "w' = w2" by (simp add: run(2) TokenService_enforceMaxSessions_def Let_def)
    with w2 show ?thesis by simp
  qed
  then show "inv (db w')" "\<exists>rt. sess (db w') sid = Some rt \<and> rt_UserID rt = u_ID u \<and>
      rt_TokenHash rt = hashRefresh x secret \<and> rt_ExpiresAt rt = now + TokenService_refreshTTL t" by auto
  show "0 < to_MaxSessions (sv_Options t) \<Longrightarrow> finite (sessions_of (sess (db w')) (u_ID u)) \<and>
      int (card (sessions_of (sess (db w')) (u_ID u))) \<le> to_MaxSessions (sv_Options t)"
    using enforce_effect [OF w2(1) _ keep] run(2) by simp
qed

subsection \<open>Revocation\<close>

lemma Revoke_all:
  assumes "inv (db w)" "um_Store (sv_Users t) = S" "sv_Sessions t = Some T"
    and "TokenService_Revoke t u w = (None, w')" "u_ID v = u_ID u"
  shows "TokenService_Refresh x L t now v tok w' = (Inl ErrInvalidToken, w')"
proof -
  obtain w1 where w1: "us_RemoveToken S u refreshTokenProvider refreshTokenName w = (None, w1)"
    and "\<exists>n. ts_DeleteUserRefreshTokens T (u_ID u) w1 = (Inr n, w')"
    using assms(2-4) by (auto simp: TokenService_Revoke_def split: prod.splits option.splits sum.splits)
  then obtain n where d: "ts_DeleteUserRefreshTokens T (u_ID u) w1 = (Inr n, w')" by blast
  have i1: "inv (db w1)" using RemoveToken_keeps [OF assms(1) w1] by simp
  note eff = DeleteUserSessions [OF i1 d]
  have i: "inv (db w')" using eff by blast
  have "us_GetToken S v refreshTokenProvider refreshTokenName w' = Inr []"
    using eff Get_Remove_same [OF assms(1) w1 assms(5)] by simp
  then have legacy: "TokenService_validateLegacySlot x t now v tok w' = Some ErrInvalidToken"
    by (simp add: TokenService_validateLegacySlot_def assms(2))
  have none: "\<not> redeemable x (sess (db w')) now v tok"
    using eff assms(5) by (auto simp: redeemable_def split: if_splits)
  show ?thesis
  proof (cases "CHR ''.'' \<in> set tok")
    case True
    then show ?thesis by (rule Refresh_refused [OF i assms(3) _ none])
  next
    case False
    then show ?thesis using legacy assms(3) by (simp add: TokenService_Refresh_def strings_Cut_def)
  qed
qed

end

section \<open>The in-memory store\<close>

lemma sort_key_set_ids:
  assumes "keyed f m"
  shows "distinct (map f (sort_key f (filter P (map snd m))))"
    "set (sort_key f (filter P (map snd m))) = {v. (\<exists>i. map_of m i = Some v) \<and> P v}"
proof -
  have ids: "map f (map snd m) = map fst m" using assms by (auto simp: keyed_def)
  have "distinct (map f (map snd m))" unfolding ids using assms by (simp add: keyed_def)
  then have "distinct (map f (filter P (map snd m)))" by (rule distinct_map_filter)
  then show "distinct (map f (sort_key f (filter P (map snd m))))" by (metis distinct_map distinct_sort set_sort)
  show "set (sort_key f (filter P (map snd m))) = {v. (\<exists>i. map_of m i = Some v) \<and> P v}"
    using keyed_row [OF assms] keyed_map_of [OF assms] by (auto simp: image_iff)
qed

interpretation mem_sessions: session_store x "memstore_Users x" mem_wf "\<lambda>s. map_of (m_users s)"
  memstore_RefreshTokens "\<lambda>s. map_of (m_refreshTokens s)" for x
proof (intro session_store.intro session_store_axioms.intro)
  show "user_tokens x (memstore_Users x) mem_wf (\<lambda>s. map_of (m_users s))"
    by (rule mem.user_tokens_axioms)
next
  fix w w' :: "memstore world" and rt :: refresh_token and sid uid u p n before
  assume wf: "mem_wf (db w)"
  have k: "keyed rt_SessionID (m_refreshTokens (db w))" using wf by (simp add: mem_wf_def)
  note defs = memstore_RefreshTokens_def session_writes map_of_update_fun map_of_delete_fun
  show "ts_GetRefreshTokenBySession memstore_RefreshTokens sid w =
      (case map_of (m_refreshTokens (db w)) sid of None \<Rightarrow> Inl ErrNotFound | Some rt \<Rightarrow> Inr rt)"
    by (simp add: memstore_RefreshTokens_def GetRefreshTokenBySession_def)
  show "map_of (m_refreshTokens (db w)) sid = Some rt \<Longrightarrow> rt_SessionID rt = sid" using wf_row(4) [OF wf] .
  show "ts_CreateRefreshToken memstore_RefreshTokens rt w = (e, w') \<Longrightarrow>
      e = None \<and> mem_wf (db w') \<and> tape w' = tape w \<and>
      map_of (m_refreshTokens (db w')) = (map_of (m_refreshTokens (db w)))(rt_SessionID rt \<mapsto> rt)" for e
    using session_writes_wf(1) [OF wf, of rt] by (auto simp: defs)
  show "map_of (m_refreshTokens (db w)) (rt_SessionID rt) \<noteq> None \<Longrightarrow>
      ts_UpdateRefreshToken memstore_RefreshTokens rt w = (e, w') \<Longrightarrow>
      e = None \<and> mem_wf (db w') \<and> tape w' = tape w \<and>
      map_of (m_refreshTokens (db w')) = (map_of (m_refreshTokens (db w)))(rt_SessionID rt \<mapsto> rt)" for e
    using session_writes_wf(2) [OF wf, of rt] by (auto simp: defs)
  show "ts_DeleteRefreshToken memstore_RefreshTokens sid w = (e, w') \<Longrightarrow>
      e = None \<and> mem_wf (db w') \<and> tape w' = tape w \<and>
      map_of (m_refreshTokens (db w')) = (map_of (m_refreshTokens (db w)))(sid := None)" for e
    using session_writes_wf(3) [OF wf, of sid] by (auto simp: defs)
  show "ts_DeleteUserRefreshTokens memstore_RefreshTokens uid w = (r, w') \<Longrightarrow>
      (\<exists>n. r = Inr n) \<and> mem_wf (db w') \<and> tape w' = tape w \<and>
      map_of (m_refreshTokens (db w')) =
        (\<lambda>i. if \<exists>rt. map_of (m_refreshTokens (db w)) i = Some rt \<and> rt_UserID rt = uid then None
             else map_of (m_refreshTokens (db w)) i) \<and>
      us_GetToken (memstore_Users x) u p n w' = us_GetToken (memstore_Users x) u p n w" for r
    using session_writes_wf(4) [OF wf, of uid] keyed_dkeys [OF k]
    by (auto simp: defs map_of_delete_if fun_eq_iff memstore_Users_def userStore_GetToken_def split: option.splits)
  show "ts_DeleteExpiredRefreshTokens memstore_RefreshTokens before w = (r, w') \<Longrightarrow>
      mem_wf (db w') \<and> tape w' = tape w \<and>
      map_of (m_refreshTokens (db w')) =
        (\<lambda>i. if \<exists>rt. map_of (m_refreshTokens (db w)) i = Some rt \<and> rt_ExpiresAt rt < before then None
             else map_of (m_refreshTokens (db w)) i)" for r
    using session_writes_wf(5) [OF wf, of before] keyed_dkeys [OF k]
    by (auto simp: defs map_of_delete_if fun_eq_iff split: option.splits)
  show "\<exists>l. ts_ListUserRefreshTokens memstore_RefreshTokens uid w = Inr l \<and> distinct (map rt_SessionID l) \<and>
      set l = {rt. \<exists>i. map_of (m_refreshTokens (db w)) i = Some rt \<and> rt_UserID rt = uid}"
    using sort_key_set_ids [OF k, of "\<lambda>rt. rt_UserID rt = uid"]
    by (auto simp: memstore_RefreshTokens_def ListUserRefreshTokens_def)
  show "us_RemoveToken (memstore_Users x) u p n w = (e, w') \<Longrightarrow>
      map_of (m_refreshTokens (db w')) = map_of (m_refreshTokens (db w))" for e
    by (auto simp: memstore_Users_def userStore_RemoveToken_def)
qed

end
