(* ===== verification/Token_Service_Properties.thy ===== *)
theory Token_Service_Properties
  imports Token_Service_Correct
begin

text \<open>
  The properties of the token service over the in-memory store: revocation by stamp, validity of
  issued tokens, rotation and isolation of sessions, the session cap and global revocation.
\<close>

lemma IssuePair_access:
  assumes "TokenService_IssuePair x L t now u w = (Inr pair, w')"
  shows "TokenService_signAccessToken L t now u w = Inr (pair_AccessToken pair, pair_ExpiresAt pair)"
  using assms by (auto simp: TokenService_IssuePair_def Let_def split: sum.splits option.splits prod.splits)

lemma UpdateSecurityStamp_row:
  assumes "mem_wf (db w)" "um_Store m = memstore_Users x"
    and "UserManager_UpdateSecurityStamp x m u w = (None, u', w')"
  shows "UserManager_FindByID m (u_ID u) w' = Inr u' \<and> u_SecurityStamp u' = fst (newStamp x (tape w))"
proof -
  have "us_Update (memstore_Users x) (u\<lparr>u_SecurityStamp := fst (newStamp x (tape w))\<rparr>)
      (w\<lparr>tape := snd (newStamp x (tape w))\<rparr>) = (None, u', w')"
    using assms(2,3) by (simp add: UserManager_UpdateSecurityStamp_def rotate_stamp_def draw_def Let_def split: prod.splits)
  from mem.Update_ok [OF _ this] assms(1) show ?thesis
    using mem.FindByID [of w' x "u_ID u" u'] by (auto simp: UserManager_FindByID_def assms(2))
qed

text \<open>(C9) Revocation by security stamp. An access token issued for a user validates only against a
  stored user of the same ID whose security stamp is still the one of issue, whoever checks it and
  in whatever later state; in particular, after \<open>UpdateSecurityStamp\<close> every token issued before is
  refused, unless the freshly drawn stamp equals the old one.\<close>

theorem stamp_rotation_revokes:
  assumes "jwt_faithful L" and "TokenService_IssuePair x L t now u w = (Inr pair, w1)"
    and "um_Store (sv_Users t') = memstore_Users x" and "mem_wf (db w2)"
    and "UserManager_UpdateSecurityStamp x (sv_Users t') u2 w2 = (None, u3, w3)" and "u_ID u2 = u_ID u"
    and "fst (newStamp x (tape w2)) \<noteq> u_SecurityStamp u"
  shows "TokenService_ValidateAccessToken L t' now' (pair_AccessToken pair) w3 = Inl ErrInvalidToken \<and>
    (\<forall>now'' w' v c. TokenService_ValidateAccessToken L t' now'' (pair_AccessToken pair) w' = Inr (v, c) \<longrightarrow>
       UserManager_FindByID (sv_Users t') (u_ID u) w' = Inr v \<and> u_SecurityStamp v = u_SecurityStamp u)"
proof -
  note only = Validate_signed [OF assms(1) IssuePair_access [OF assms(2)]]
  note row = UpdateSecurityStamp_row [OF assms(4,3,5)]
  have "TokenService_ValidateAccessToken L t' now' (pair_AccessToken pair) w3 \<noteq> Inr (v, c)" for v c
    using only [of t' now' w3 v c] row assms(6,7) by auto
  moreover have "TokenService_ValidateAccessToken L t' now' (pair_AccessToken pair) w3 = Inl e \<Longrightarrow> e = ErrInvalidToken" for e
    by (auto simp: TokenService_ValidateAccessToken_def split: sum.splits if_splits)
  ultimately have "TokenService_ValidateAccessToken L t' now' (pair_AccessToken pair) w3 = Inl ErrInvalidToken"
    by (cases "TokenService_ValidateAccessToken L t' now' (pair_AccessToken pair) w3") auto
  with only show ?thesis by blast
qed

text \<open>(C12) An issued access token validates: from the moment \<open>IssuePair\<close> returns until the second its
  expiry names, and while the stored user keeps its security stamp, \<open>ValidateAccessToken\<close> accepts
  the token and returns the stored user, where the service names an audience. This holds for every signer that answers for its own
  tokens (HMAC always; the RSA and ECDSA rings whenever their active key is in the ring).\<close>

theorem issued_token_validates:
  assumes "jwt_complete L" and "jwt_faithful L" and "jwt_header_ok L"
    and "signer_ok (TokenOptions_signer (sv_Options t))"
    and "TokenService_IssuePair x L t now u w = (Inr pair, w')"
    and "now \<le> now'" and "now' < time_of_Unix (time_Unix (pair_ExpiresAt pair))"
    and "UserManager_FindByID (sv_Users t) (u_ID u) w'' = Inr v" and "u_SecurityStamp v = u_SecurityStamp u"
    and "to_Audience (sv_Options t) \<noteq> []"
  shows "\<exists>c. TokenService_ValidateAccessToken L t now' (pair_AccessToken pair) w'' = Inr (v, c)"
  by (rule Validate_fresh [OF assms(1-4) IssuePair_access [OF assms(5)] assms(6-10)])

text \<open>(C10) Rotation within one session. When \<open>Refresh\<close> redeems a session token, no other session
  changes; the returned token names the same session and can be redeemed until its new expiry; and
  the token that was presented is dead from then on, at any time and for any user, unless SHA-256
  maps the old and the new secret to the same digest.\<close>

theorem session_rotation:
  assumes "mem_wf (db w)" and "sv_Sessions t = Some memstore_RefreshTokens"
    and "strings_Cut tok (CHR ''.'') = Some (sid, secret)"
    and "TokenService_Refresh x L t now u tok w = (Inr pair, w')"
    and "hashRefresh x secret \<noteq> hashRefresh x (fst (randomToken x (tape w)))"
  shows "mem_wf (db w') \<and>
    (\<forall>i. i \<noteq> sid \<longrightarrow> map_of (m_refreshTokens (db w')) i = map_of (m_refreshTokens (db w)) i) \<and>
    (\<forall>now'. now' \<le> now + TokenService_refreshTTL t \<longrightarrow>
       redeemable x (map_of (m_refreshTokens (db w'))) now' u (pair_RefreshToken pair)) \<and>
    (\<forall>now' v. TokenService_Refresh x L t now' v tok w' = (Inl ErrInvalidToken, w'))"
proof -
  note r = mem_sessions.rotation [OF assms(1-4)]
  have "CHR ''.'' \<in> set tok" using strings_Cut_SomeD [OF assms(3)] by simp
  then have "TokenService_Refresh x L t now' v tok w' = (Inl ErrInvalidToken, w')" for now' v
    by (rule mem_sessions.Refresh_refused [OF r(1) assms(2) _ r(4) [OF assms(5)]])
  with r(1-3) show ?thesis by blast
qed

text \<open>(C11) The session cap. After \<open>IssuePair\<close> with a positive \<open>MaxSessions\<close> the user has at most that
  many sessions, however many there were before, and the session just created is among them: its
  refresh token can be redeemed until its expiry.\<close>

theorem max_sessions_cap:
  assumes "mem_wf (db w)" and "sv_Sessions t = Some memstore_RefreshTokens"
    and "0 < to_MaxSessions (sv_Options t)" and "uuid_ok x" and "length (x_uuid x (tape w + 32)) \<le> 64"
    and "TokenService_IssuePair x L t now u w = (Inr pair, w')"
    and "now' \<le> now + TokenService_refreshTTL t"
  shows "finite (sessions_of (map_of (m_refreshTokens (db w'))) (u_ID u)) \<and>
    int (card (sessions_of (map_of (m_refreshTokens (db w'))) (u_ID u))) \<le> to_MaxSessions (sv_Options t) \<and>
    redeemable x (map_of (m_refreshTokens (db w'))) now' u (pair_RefreshToken pair)"
proof -
  from assms(2,6) obtain r where n: "TokenService_newSessionRefresh x t memstore_RefreshTokens now u w = (r, w')"
    and p: "r = Inr (pair_RefreshToken pair)"
    by (auto simp: TokenService_IssuePair_def split: sum.splits prod.splits)
  note s = mem_sessions.newSession_effect [OF assms(1) n]
  let ?sid = "x_uuid x (tape w + 32)" and ?secret = "fst (randomToken x (tape w))"
  have "CHR ''.'' \<notin> set ?sid" using uuid_no_sep [OF assms(4)] by simp
  then have "strings_Cut (pair_RefreshToken pair) (CHR ''.'') = Some (?sid, ?secret)" using s(1) p by simp
  then have "redeemable x (map_of (m_refreshTokens (db w'))) now' u (pair_RefreshToken pair)"
    using s(3) assms(5,7) uuid_ne [OF assms(4)] by (auto simp: redeemable_def)
  with s(4) [OF assms(3)] show ?thesis by blast
qed

text \<open>Global sign-out. After \<open>Revoke\<close> no refresh token whatsoever, session or legacy, old or
  guessed, is accepted for that user: every attempt is answered \<open>ErrInvalidToken\<close> and changes
  nothing.\<close>

theorem Revoke_ends_all_sessions:
  assumes "mem_wf (db w)" and "um_Store (sv_Users t) = memstore_Users x"
    and "sv_Sessions t = Some memstore_RefreshTokens"
    and "TokenService_Revoke t u w = (None, w')" and "u_ID v = u_ID u"
  shows "TokenService_Refresh x L t now v tok w' = (Inl ErrInvalidToken, w')"
  by (rule mem_sessions.Revoke_all [OF assms])

text \<open>The single slot. Without a session store, what the slot accepts after \<open>IssuePair\<close> is known
  exactly: until the second the new expiry names, the tokens with the hash of the one just issued,
  and nothing else, so the previously issued token is dead; the stored value parses back to the
  hash and expiry that were written.\<close>

theorem legacy_slot_exact:
  assumes "mem_wf (db w)" and "um_Store (sv_Users t) = memstore_Users x" and "sv_Sessions t = None"
    and "TokenService_IssuePair x L t now u w = (Inr pair, w')" and "u_ID v = u_ID u"
    and "in_int64 (time_Unix (now + TokenService_refreshTTL t))"
  shows "TokenService_validateLegacySlot x t now' v tok w' =
    (if now' \<le> time_of_Unix (time_Unix (now + TokenService_refreshTTL t)) \<and>
        hashRefresh x tok = hashRefresh x (pair_RefreshToken pair) then None else Some ErrInvalidToken)"
proof -
  let ?exp = "now + TokenService_refreshTTL t" and ?r = "pair_RefreshToken pair"
  from assms(2-4) have s: "us_SetToken (memstore_Users x) u refreshTokenProvider refreshTokenName (slot_value x ?r ?exp)
      (w\<lparr>tape := tape w + 32\<rparr>) = (None, w')"
    by (auto simp: TokenService_IssuePair_def Let_def split: sum.splits prod.splits option.splits)
  have g: "us_GetToken (memstore_Users x) v refreshTokenProvider refreshTokenName w' = Inr (slot_value x ?r ?exp)"
    using mem.Get_Set_same [OF _ s assms(5)] assms(1) by simp
  have "strings_Cut (slot_value x ?r ?exp) (CHR '':'') = Some (hashRefresh x ?r, strconv_FormatInt (time_Unix ?exp))"
    unfolding slot_value_def hashRefresh_def by simp
  with g ParseInt_FormatInt [OF assms(6)] show ?thesis
    by (auto simp: TokenService_validateLegacySlot_def assms(2) slot_value_def)
qed

section \<open>Concrete runs\<close>

definition demo_member :: user where
  "demo_member = zero_user\<lparr>u_ID := ''a'', u_SecurityStamp := ''s''\<rparr>"

definition demo_options :: "int \<Rightarrow> token_options" where
  "demo_options n = DefaultTokenOptions ''k'' ''iss'' ''aud''\<lparr>to_MaxSessions := n\<rparr>"

definition demo_jwt :: "time \<Rightarrow> jwt_lib" where
  "demo_jwt now = table_jwt [(SigningMethodHMAC ''HS256'', [(''typ'', JStr ''JWT''), (''alg'', JStr ''HS256'')],
     session_claims (demo_options 1) now demo_member, KeyBytes ''k'')]"

definition demo_service :: "memstore refresh_token_store option \<Rightarrow> memstore token_service" where
  "demo_service S = \<lparr>sv_Users = NewUserManager demo_extern (memstore_Users demo_extern) DefaultOptions,
     sv_Options = demo_options 1, sv_Sessions = S\<rparr>"

definition demo_session :: refresh_token where
  "demo_session = \<lparr>rt_SessionID = ''s'', rt_UserID = ''a'', rt_TokenHash = hashRefresh demo_extern ''old'',
     rt_Name = [], rt_ExpiresAt = 50, rt_CreatedAt = 0, rt_LastUsedAt = None\<rparr>"

definition demo_session_world :: "memstore world" where
  "demo_session_world = \<lparr>db = memstore_New\<lparr>m_users := [(''a'', demo_member)],
     m_refreshTokens := [(''s'', demo_session)]\<rparr>, tape = 0\<rparr>"

lemma demo_session_world_wf: "mem_wf (db demo_session_world)"
  by (simp add: demo_session_world_def mem_wf_def keyed_def login_wf_def api_keys_wf_def oauth_wf_def
      memstore_New_def demo_member_def demo_session_def)

lemma demo_service_simps [simp]:
  "um_Store (sv_Users (demo_service S)) = memstore_Users demo_extern" "sv_Sessions (demo_service S) = S"
  "sv_Options (demo_service S) = demo_options 1"
  "TokenOptions_signer (demo_options n) = NewHMACSigner ''k''" "to_MaxSessions (demo_options n) = n"
  "to_AccessTokenTTL (demo_options n) = 15 * minute" "TokenService_refreshTTL (demo_service S) = 7 * 24 * hour"
  by (simp_all add: demo_service_def NewUserManager_def TokenOptions_signer_def demo_options_def
      DefaultTokenOptions_def TokenService_refreshTTL_def hour_def minute_def second_def)

lemma demo_sign:
  "TokenService_signAccessToken (demo_jwt now) (demo_service S) now demo_member demo_session_world =
     Inr ([], now + 15 * minute)"
  by (simp add: TokenService_signAccessToken_def UserManager_GetRoles_def UserManager_GetClaims_def
      memstore_Users_def userStore_GetRoles_def userStore_GetClaims_def lookup_or_def demo_session_world_def
      memstore_New_def List.map_filter_def NewHMACSigner_def hmacSigner_SignKey_def hmacSigner_Method_def
      demo_jwt_def table_jwt_def with_kid_def Let_def)

lemma demo_issue:
  "\<exists>pair w'. TokenService_IssuePair demo_extern (demo_jwt now) (demo_service S) now demo_member demo_session_world =
     (Inr pair, w') \<and> pair_AccessToken pair = [] \<and> pair_ExpiresAt pair = now + 15 * minute"
  if "S = None \<or> S = Some memstore_RefreshTokens"
proof (cases S)
  case None
  then show ?thesis
    by (simp add: TokenService_IssuePair_def demo_sign memstore_Users_def userStore_SetToken_def Let_def)
next
  case (Some T)
  with that have T: "T = memstore_RefreshTokens" by simp
  obtain r w' where n: "TokenService_newSessionRefresh demo_extern (demo_service S) T now demo_member demo_session_world = (r, w')"
    by fastforce
  from mem_sessions.newSession_effect(1) [OF demo_session_world_wf n [unfolded T]] n Some show ?thesis
    by (simp add: TokenService_IssuePair_def demo_sign)
qed

lemma demo_row: "UserManager_FindByID (sv_Users (demo_service S)) ''a'' demo_session_world = Inr demo_member"
  by (simp add: UserManager_FindByID_def memstore_Users_def userStore_FindByID_def demo_session_world_def)

theorem issued_token_validates_witness:
  "\<exists>c. TokenService_ValidateAccessToken (demo_jwt 0) (demo_service None) 1 [] demo_session_world = Inr (demo_member, c)"
proof -
  obtain pair w' where i: "TokenService_IssuePair demo_extern (demo_jwt 0) (demo_service None) 0 demo_member
      demo_session_world = (Inr pair, w')" and p: "pair_AccessToken pair = []" "pair_ExpiresAt pair = 15 * minute"
    using demo_issue [of None 0] by auto
  have aud: "to_Audience (demo_options 1) \<noteq> []" by (simp add: demo_options_def DefaultTokenOptions_def)
  have "jwt_complete (demo_jwt 0)" "jwt_faithful (demo_jwt 0)" "jwt_header_ok (demo_jwt 0)"
    by (simp_all add: demo_jwt_def table_jwt_ok)
  then have "\<exists>c. TokenService_ValidateAccessToken (demo_jwt 0) (demo_service None) 1 (pair_AccessToken pair)
      demo_session_world = Inr (demo_member, c)"
    by (rule issued_token_validates [OF _ _ _ _ i])
      (use demo_row [of None] aud in \<open>simp_all add: hmac_signer_ok demo_member_def p time_of_Unix_def time_Unix_def
         minute_def second_def\<close>)
  then show ?thesis by (simp add: p)
qed

theorem stamp_rotation_revokes_witness:
  "\<exists>u3 w3. UserManager_UpdateSecurityStamp demo_extern (sv_Users (demo_service None)) demo_member demo_session_world
       = (None, u3, w3) \<and>
     TokenService_ValidateAccessToken (demo_jwt 0) (demo_service None) 1 [] w3 = Inl ErrInvalidToken"
proof -
  obtain pair w' where i: "TokenService_IssuePair demo_extern (demo_jwt 0) (demo_service None) 0 demo_member
      demo_session_world = (Inr pair, w')" and p: "pair_AccessToken pair = []"
    using demo_issue [of None 0] by auto
  obtain u3 w3 where r: "UserManager_UpdateSecurityStamp demo_extern (sv_Users (demo_service None)) demo_member
      demo_session_world = (None, u3, w3)"
    by (simp add: UserManager_UpdateSecurityStamp_def rotate_stamp_def Let_def draw_def memstore_Users_def
        userStore_Update_def demo_session_world_def demo_member_def zero_user_def split: prod.splits)
  have "fst (newStamp demo_extern 0) \<noteq> ''s''"
    using base64_Encode_free(1) by (simp add: newStamp_def rand_Read_def demo_extern_def base64_Encode_def upt_rec)
  with stamp_rotation_revokes [OF _ i _ demo_session_world_wf r, of 1] r p show ?thesis
    by (simp add: demo_jwt_def table_jwt_ok demo_session_world_def demo_member_def)
qed

theorem session_rotation_witness:
  "\<exists>pair w'. TokenService_Refresh demo_extern (demo_jwt 5) (demo_service (Some memstore_RefreshTokens)) 5 demo_member
       ''s.old'' demo_session_world = (Inr pair, w') \<and>
     TokenService_Refresh demo_extern (demo_jwt 5) (demo_service (Some memstore_RefreshTokens)) 6 demo_member
       ''s.old'' w' = (Inl ErrInvalidToken, w')"
proof -
  let ?t = "demo_service (Some memstore_RefreshTokens)"
  have cut: "strings_Cut ''s.old'' (CHR ''.'') = Some (''s'', ''old'')" by (simp add: strings_Cut_def)
  have "redeemable demo_extern (map_of (m_refreshTokens (db demo_session_world))) 5 demo_member ''s.old''"
    by (simp add: redeemable_def cut demo_session_world_def demo_session_def demo_member_def)
  from mem_sessions.Refresh_session [OF demo_session_world_wf _ cut this demo_sign]
  obtain pair w' where r: "TokenService_Refresh demo_extern (demo_jwt 5) ?t 5 demo_member ''s.old'' demo_session_world
      = (Inr pair, w')" by (metis demo_service_simps(2))
  have "x_sha256 demo_extern ''old'' \<noteq> x_sha256 demo_extern (fst (randomToken demo_extern 0))"
    by (simp add: demo_extern_def demo_pad_def randomToken_def
        rand_Read_def base64_Encode_def upt_rec alpha_url_def sextet1_def sextet2_def sextet3_def sextet4_def)
  then have "hashRefresh demo_extern ''old'' \<noteq> hashRefresh demo_extern (fst (randomToken demo_extern (tape demo_session_world)))"
    unfolding hashRefresh_def base64_Encode_inj by (simp add: demo_session_world_def)
  with session_rotation [OF demo_session_world_wf _ cut r] r show ?thesis by auto
qed

theorem max_sessions_cap_witness:
  "\<exists>pair w'. TokenService_IssuePair demo_extern (demo_jwt 5) (demo_service (Some memstore_RefreshTokens)) 5 demo_member
       demo_session_world = (Inr pair, w') \<and> card (sessions_of (map_of (m_refreshTokens (db w'))) ''a'') \<le> 1"
proof -
  obtain pair w' where i: "TokenService_IssuePair demo_extern (demo_jwt 5) (demo_service (Some memstore_RefreshTokens))
      5 demo_member demo_session_world = (Inr pair, w')"
    using demo_issue [of "Some memstore_RefreshTokens" 5] by auto
  from max_sessions_cap [OF demo_session_world_wf _ _ demo_extern_ok(1) _ i, of 5] i show ?thesis
    by (simp add: demo_session_world_def demo_extern_def demo_uuid_def demo_member_def hour_def minute_def second_def)
qed

theorem Revoke_ends_all_sessions_witness:
  "\<exists>w'. TokenService_Revoke (demo_service (Some memstore_RefreshTokens)) demo_member demo_session_world = (None, w') \<and>
     TokenService_Refresh demo_extern (demo_jwt 5) (demo_service (Some memstore_RefreshTokens)) 5 demo_member
       ''s.old'' w' = (Inl ErrInvalidToken, w')"
proof -
  obtain w' where r: "TokenService_Revoke (demo_service (Some memstore_RefreshTokens)) demo_member demo_session_world = (None, w')"
    by (simp add: TokenService_Revoke_def memstore_Users_def userStore_RemoveToken_def memstore_RefreshTokens_def
        DeleteUserRefreshTokens_def)
  with Revoke_ends_all_sessions [OF demo_session_world_wf _ _ r] show ?thesis by auto
qed

theorem legacy_slot_exact_witness:
  "\<exists>pair w'. TokenService_IssuePair demo_extern (demo_jwt 0) (demo_service None) 0 demo_member demo_session_world
       = (Inr pair, w') \<and>
     TokenService_validateLegacySlot demo_extern (demo_service None) 9 demo_member (pair_RefreshToken pair) w' = None"
proof -
  obtain pair w' where i: "TokenService_IssuePair demo_extern (demo_jwt 0) (demo_service None) 0 demo_member
      demo_session_world = (Inr pair, w')" using demo_issue [of None 0] by auto
  from legacy_slot_exact [OF demo_session_world_wf _ _ i, of demo_member 9 "pair_RefreshToken pair"] i show ?thesis
    by (simp add: time_of_Unix_def time_Unix_def hour_def minute_def second_def in_int64_def minInt64_def maxInt64_def)
qed

end
