(* ===== verification/Two_Factor_Properties.thy ===== *)
theory Two_Factor_Properties
  imports Two_Factor Token_Service_Properties "HOL-Library.Multiset"
begin

text \<open>
  Codes that are used up: the phone codes of \<open>identity/phone.go\<close> and the recovery codes of
  \<open>identity/twofactor.go\<close>. Both live as text in one token slot of the user; the abstract states are a
  challenge with a counter, and a multiset of hashes. The lemmas hold for every store that keeps
  the contract of tokens; the properties are about the in-memory store.
\<close>

section \<open>Abstract states\<close>

text \<open>A pending phone code: the hash, the second it expires, the wrong attempts so far.\<close>

type_synonym challenge = "(string \<times> int \<times> int) option"

fun ref_attempt :: "time \<Rightarrow> string \<Rightarrow> challenge \<Rightarrow> bool \<times> challenge" where
  "ref_attempt now h None = (False, None)"
| "ref_attempt now h (Some (want, e, k)) =
     (if now > time_of_Unix e then (False, None)
      else if h = want then (True, None)
      else (False, if k + 1 \<ge> 5 then None else Some (want, e, k + 1)))"

fun ref_attempts :: "(time \<times> string) list \<Rightarrow> challenge \<Rightarrow> bool list" where
  "ref_attempts [] c = []"
| "ref_attempts ((now, h) # as) c = (let (ok, c) = ref_attempt now h c in ok # ref_attempts as c)"

text \<open>Recovery codes: a hash in the multiset is accepted and taken out.\<close>

fun ref_redeems :: "string list \<Rightarrow> string multiset \<Rightarrow> bool list \<times> string multiset" where
  "ref_redeems [] M = ([], M)"
| "ref_redeems (h # hs) M =
     (let (oks, M') = ref_redeems hs (if h \<in># M then M - {#h#} else M) in ((h \<in># M) # oks, M'))"

section \<open>Runs of the program\<close>

fun phone_attempts ::
  "extern \<Rightarrow> 's user_manager \<Rightarrow> user \<Rightarrow> (time \<times> string) list \<Rightarrow> 's world \<Rightarrow> (go_error + bool) list" where
  "phone_attempts x m u [] w = []"
| "phone_attempts x m u ((now, code) # as) w =
     (let (r, w) = UserManager_VerifyPhoneToken x m now u code w in r # phone_attempts x m u as w)"

fun redeems :: "extern \<Rightarrow> 's user_manager \<Rightarrow> user \<Rightarrow> string list \<Rightarrow> 's world \<Rightarrow> (go_error + bool) list \<times> 's world" where
  "redeems x m u [] w = ([], w)"
| "redeems x m u (code # cs) w =
     (let (r, w) = UserManager_RedeemRecoveryCode x m u code w; (rs, w) = redeems x m u cs w in (r # rs, w))"

section \<open>The stored texts\<close>

definition challenge_text :: "challenge \<Rightarrow> string" where
  "challenge_text c = (case c of None \<Rightarrow> [] | Some (h, e, k) \<Rightarrow> phoneCodeValue h e k)"

definition challenge_ok :: "challenge \<Rightarrow> bool" where
  "challenge_ok c = (case c of None \<Rightarrow> True | Some (h, e, k) \<Rightarrow> CHR '':'' \<notin> set h \<and> in_int64 e \<and> 0 \<le> k \<and> k < 5)"

lemma challenge_parts:
  assumes "challenge_ok (Some (h, e, k))"
  shows "strings_Split (phoneCodeValue h e k) (CHR '':'') = [h, strconv_FormatInt e, strconv_FormatInt k]"
  using assms FormatInt_no_colon [of e] FormatInt_no_colon [of k]
  by (simp add: challenge_ok_def phoneCodeValue_def)

lemma phoneCodeValue_ne [simp]: "phoneCodeValue h e k \<noteq> []"
  by (simp add: phoneCodeValue_def)

lemma small_int64: "0 \<le> k \<Longrightarrow> k \<le> 5 \<Longrightarrow> in_int64 k"
  by (simp add: in_int64_def maxInt64_def minInt64_def)

lemma Atoi_FormatInt: "in_int64 k \<Longrightarrow> strconv_Atoi_val (strconv_FormatInt k) = k"
  by (simp add: strconv_Atoi_val_def ParseInt_FormatInt)

lemma redeem_scan_found [simp]: "snd (redeem_scan h True ps) = True" "[] \<notin> set ps \<Longrightarrow> fst (redeem_scan h True ps) = ps"
  by (induction ps) (auto simp: case_prod_unfold)

lemma redeem_scan_remove1:
  assumes "[] \<notin> set ps"
  shows "redeem_scan h False ps = (if h \<in> set ps then (remove1 h ps, True) else (ps, False))"
  using assms
proof (induction ps)
  case (Cons p ps)
  then show ?case using redeem_scan_found [where ps = ps and h = h] by (auto simp: prod_eq_iff case_prod_unfold)
qed simp

definition codes_ok :: "string list \<Rightarrow> bool" where
  "codes_ok hs \<longleftrightarrow> (\<forall>h \<in> set hs. h \<noteq> [] \<and> CHR '';'' \<notin> set h)"

lemma codes_split:
  assumes "codes_ok hs" "hs \<noteq> []"
  shows "strings_Split (strings_Join hs '';'') (CHR '';'') = hs" "strings_Join hs '';'' \<noteq> []"
proof -
  show s: "strings_Split (strings_Join hs '';'') (CHR '';'') = hs"
    using assms by (intro strings_Split_Join) (auto simp: codes_ok_def)
  show "strings_Join hs '';'' \<noteq> []"
  proof
    assume "strings_Join hs '';'' = []"
    with s have "hs = [[]]" by simp
    with assms(1) show False by (simp add: codes_ok_def)
  qed
qed

lemma hashRefresh_code [simp]: "sha256_ok x \<Longrightarrow> hashRefresh x s \<noteq> []" "CHR '';'' \<notin> set (hashRefresh x s)" "CHR '':'' \<notin> set (hashRefresh x s)"
proof -
  show "hashRefresh x s \<noteq> []" if "sha256_ok x"
    unfolding hashRefresh_def by (rule base64_Encode_ne) (use that in \<open>auto simp: sha256_ok_def dest: spec [of _ s]\<close>)
qed (simp_all add: hashRefresh_def)

section \<open>One step of a contract-keeping store\<close>

context reliable_users
begin

lemma consume_step:
  assumes "um_Store m = S" "inv (db w)" "us_GetToken S u internalProvider name w = Inr (challenge_text c)" "challenge_ok c"
    and "UserManager_consumePhoneCode m now u name h w = (r, w')"
  shows "r = Inr (fst (ref_attempt now h c)) \<and> inv (db w') \<and> challenge_ok (snd (ref_attempt now h c)) \<and>
    us_GetToken S u internalProvider name w' = Inr (challenge_text (snd (ref_attempt now h c)))"
proof (cases c)
  case None
  then show ?thesis using assms by (auto simp: UserManager_consumePhoneCode_def challenge_text_def challenge_ok_def)
next
  case (Some q)
  obtain want e k where q: "q = (want, e, k)" by (metis prod_cases3)
  have ok: "challenge_ok (Some (want, e, k))" "in_int64 e" "0 \<le> k" "k < 5" "CHR '':'' \<notin> set want"
    using assms(4) Some q by (auto simp: challenge_ok_def)
  have g: "us_GetToken S u internalProvider name w = Inr (phoneCodeValue want e k)" using assms(3) Some q by (simp add: challenge_text_def)
  have at: "strconv_Atoi_val (strconv_FormatInt k) = k" "wrap64 (k + 1) = k + 1"
    using ok by (simp_all add: Atoi_FormatInt small_int64 wrap64_id)
  have body: "(r, w') = (if now > time_of_Unix e then (Inr False, snd (us_RemoveToken S u internalProvider name w))
      else if want = h then (Inr True, snd (us_RemoveToken S u internalProvider name w))
      else if k + 1 \<ge> 5 then (Inr False, snd (us_RemoveToken S u internalProvider name w))
      else (Inr False, snd (us_SetToken S u internalProvider name (phoneCodeValue want e (k + 1)) w)))"
    using assms(5) unfolding UserManager_consumePhoneCode_def assms(1) g
    by (simp add: challenge_parts [OF ok(1)] ParseInt_FormatInt ok(2) at PhoneTokenMaxAttempts_def Let_def cong: if_cong)
  obtain w1 where rem: "us_RemoveToken S u internalProvider name w = (None, w1)" using RemoveToken_total [OF assms(2)] by blast
  obtain w2 where set: "us_SetToken S u internalProvider name (phoneCodeValue want e (k + 1)) w = (None, w2)"
    using SetToken_total [OF assms(2)] by blast
  have "inv (db w1)" "us_GetToken S u internalProvider name w1 = Inr []"
    using RemoveToken_keeps [OF assms(2) rem] Get_Remove_same [OF assms(2) rem] by auto
  moreover have "inv (db w2)" "us_GetToken S u internalProvider name w2 = Inr (phoneCodeValue want e (k + 1))"
    using SetToken_keeps [OF assms(2) set] Get_Set_same [OF assms(2) set] by auto
  ultimately show ?thesis using body ok unfolding Some q rem set
    by (auto simp: challenge_text_def challenge_ok_def split: if_splits)
qed

lemma phone_run:
  assumes "um_Store m = S" "inv (db w)" "us_GetToken S u internalProvider phoneTokenName w = Inr (challenge_text c)" "challenge_ok c"
  shows "phone_attempts y m u as w = map Inr (ref_attempts (map (\<lambda>(t, code). (t, hashRefresh y (strings_TrimSpace code))) as) c)"
  using assms(2-4)
proof (induction as arbitrary: w c)
  case (Cons a as)
  obtain t code where a: "a = (t, code)" by fastforce
  let ?h = "hashRefresh y (strings_TrimSpace code)"
  obtain r w1 where v: "UserManager_consumePhoneCode m t u phoneTokenName ?h w = (r, w1)" by fastforce
  note st = consume_step [OF assms(1) Cons.prems v]
  from st Cons.IH [of w1 "snd (ref_attempt t ?h c)"] show ?case
    by (simp add: a UserManager_VerifyPhoneToken_def v case_prod_unfold Let_def)
qed simp

lemma redeem_step:
  assumes "um_Store m = S" "inv (db w)" "us_GetToken S u internalProvider recoveryCodesName w = Inr (strings_Join hs '';'')" "codes_ok hs"
    and "UserManager_RedeemRecoveryCode y m u code w = (r, w')"
  defines "h \<equiv> hashRefresh y (strings_TrimSpace code)"
  shows "r = Inr (h \<in> set hs) \<and> inv (db w') \<and>
    us_GetToken S u internalProvider recoveryCodesName w' = Inr (strings_Join (remove1 h hs) '';'')"
proof (cases "hs = []")
  case True
  then show ?thesis using assms by (auto simp: UserManager_RedeemRecoveryCode_def)
next
  case False
  have ne: "[] \<notin> set hs" using assms(4) by (auto simp: codes_ok_def)
  note sp = codes_split [OF assms(4) False]
  have body: "(r, w') = (if h \<in> set hs then (case us_SetToken S u internalProvider recoveryCodesName (strings_Join (remove1 h hs) '';'') w of
      (Some e, w) \<Rightarrow> (Inl e, w) | (None, w) \<Rightarrow> (Inr True, w)) else (Inr False, w))"
    using assms(5) sp unfolding UserManager_RedeemRecoveryCode_def assms(1,3) h_def
    by (simp add: redeem_scan_remove1 [OF ne] Let_def split: if_splits)
  obtain w1 where set: "us_SetToken S u internalProvider recoveryCodesName (strings_Join (remove1 h hs) '';'') w = (None, w1)"
    using SetToken_total [OF assms(2)] by blast
  show ?thesis
  proof (cases "h \<in> set hs")
    case True
    with body set SetToken_keeps [OF assms(2) set] Get_Set_same [OF assms(2) set] show ?thesis by auto
  next
    case False
    with body assms(2,3) show ?thesis by (simp add: remove1_idem)
  qed
qed

lemma redeem_run:
  assumes "um_Store m = S" "inv (db w)" "us_GetToken S u internalProvider recoveryCodesName w = Inr (strings_Join hs '';'')" "codes_ok hs"
    and "redeems y m u cs w = (rs, w')"
  shows "\<exists>left. ref_redeems (map (\<lambda>c. hashRefresh y (strings_TrimSpace c)) cs) (mset hs) = (map projr rs, mset left) \<and>
    list_all (\<lambda>r. \<not> isl r) rs \<and> inv (db w') \<and> codes_ok left \<and>
    us_GetToken S u internalProvider recoveryCodesName w' = Inr (strings_Join left '';'')"
  using assms(2-5)
proof (induction cs arbitrary: w hs rs)
  case (Cons c cs)
  let ?h = "hashRefresh y (strings_TrimSpace c)"
  obtain r w1 where v: "UserManager_RedeemRecoveryCode y m u c w = (r, w1)" by fastforce
  obtain rs1 where rs: "redeems y m u cs w1 = (rs1, w')" "rs = r # rs1" using Cons.prems(4) v by (auto split: prod.splits)
  note st = redeem_step [OF assms(1) Cons.prems(1-3) v]
  have "codes_ok (remove1 ?h hs)" using Cons.prems(3) by (auto simp: codes_ok_def dest: notin_set_remove1 [rotated] in_set_remove1 [THEN iffD1, rotated])
  with Cons.IH [of w1 "remove1 ?h hs" rs1] st rs(1) obtain left where
    "ref_redeems (map (\<lambda>c. hashRefresh y (strings_TrimSpace c)) cs) (mset (remove1 ?h hs)) = (map projr rs1, mset left)"
    "list_all (\<lambda>r. \<not> isl r) rs1" "inv (db w')" "codes_ok left"
    "us_GetToken S u internalProvider recoveryCodesName w' = Inr (strings_Join left '';'')" by auto
  moreover have "mset (remove1 ?h hs) = (if ?h \<in># mset hs then mset hs - {#?h#} else mset hs)" by (simp add: diff_single_trivial)
  ultimately show ?case using st rs(2) by (intro exI [of _ left]) (cases "?h \<in> set hs"; simp)
qed auto

end

section \<open>What the abstract states allow\<close>

lemma ref_attempts_none: "ref_attempts as None = replicate (length as) False"
  by (induction as) auto

lemma length_ref_attempts [simp]: "length (ref_attempts as c) = length as"
  by (induction as arbitrary: c) (auto simp: case_prod_unfold Let_def)

lemma ref_attempts_once: "length (filter id (ref_attempts as c)) \<le> 1"
proof (induction as arbitrary: c)
  case (Cons a as)
  obtain t h where a: "a = (t, h)" by fastforce
  show ?case
  proof (cases "fst (ref_attempt t h c)")
    case True
    then have "snd (ref_attempt t h c) = None" by (cases c) (auto split: if_splits)
    with True show ?thesis by (simp add: a case_prod_unfold Let_def ref_attempts_none)
  next
    case False
    with Cons.IH [of "snd (ref_attempt t h c)"] show ?thesis by (simp add: a case_prod_unfold Let_def)
  qed
qed simp

lemma ref_attempts_hit:
  assumes "i < length as" "ref_attempts as (Some (want, e, k)) ! i" "k < 5"
  shows "k + int i < 5 \<and> fst (as ! i) \<le> time_of_Unix e \<and> snd (as ! i) = want"
  using assms
proof (induction as arbitrary: i k)
  case (Cons a as)
  obtain t h where a: "a = (t, h)" by fastforce
  show ?case
  proof (cases i)
    case 0
    with Cons.prems show ?thesis by (auto simp: a case_prod_unfold Let_def split: if_splits)
  next
    case (Suc j)
    have "snd (ref_attempt t h (Some (want, e, k))) = Some (want, e, k + 1) \<and> k + 1 < 5 \<or> snd (ref_attempt t h (Some (want, e, k))) = None"
      by (auto split: if_splits)
    then show ?thesis
    proof
      assume st: "snd (ref_attempt t h (Some (want, e, k))) = Some (want, e, k + 1) \<and> k + 1 < 5"
      with Cons.prems Suc have "ref_attempts as (Some (want, e, k + 1)) ! j" by (simp add: a case_prod_unfold Let_def del: ref_attempt.simps)
      with Cons.IH [of j "k + 1"] Cons.prems Suc st show ?thesis by simp
    next
      assume "snd (ref_attempt t h (Some (want, e, k))) = None"
      with Cons.prems Suc show ?thesis by (simp add: a case_prod_unfold Let_def ref_attempts_none del: ref_attempt.simps)
    qed
  qed
qed simp

lemma randomDigits_visible:
  assumes "randInt_ok x"
  shows "visible (fst (randomDigits x n t))"
proof (induction n arbitrary: t)
  case (Suc n)
  have "x_randInt x 10 t < 10" using assms by (simp add: randInt_ok_def)
  with Suc.IH [of "t + 1"] show ?case by (simp add: case_prod_unfold Let_def visible_def digit_char_def)
qed (simp add: visible_def)

section \<open>Phone codes\<close>

text \<open>(C31) A phone code is worth five guesses and one success. From the moment a code is generated, any
  sequence of verification attempts, at any times, is answered as the counter says; so at most one
  attempt ever succeeds, only among the first five, only before the expiry and only with a code of
  the same hash. The code itself, presented first and in time, succeeds.\<close>

theorem phone_code_capped:
  assumes "um_Store m = memstore_Users x" and "mem_wf (db w)" and "randInt_ok x"
    and "in_int64 (time_Unix (now + PhoneTokenTTL))"
    and "UserManager_GeneratePhoneToken x m now u w = (Inr code, w')"
  defines "answers as \<equiv> phone_attempts x m u as w'" and "e \<equiv> time_Unix (now + PhoneTokenTTL)"
  shows "answers as = map Inr (ref_attempts (map (\<lambda>(t, c). (t, hashRefresh x (strings_TrimSpace c))) as)
      (Some (hashRefresh x code, e, 0))) \<and>
    length (filter (\<lambda>r. r = Inr True) (answers as)) \<le> 1 \<and>
    (\<forall>i < length as. answers as ! i = Inr True \<longrightarrow> i < 5 \<and> fst (as ! i) \<le> time_of_Unix e \<and>
      hashRefresh x (strings_TrimSpace (snd (as ! i))) = hashRefresh x code) \<and>
    (t \<le> time_of_Unix e \<longrightarrow> answers [(t, code)] = [Inr True])"
proof -
  let ?c = "Some (hashRefresh x code, e, 0)" and ?h = "\<lambda>(t, c). (t, hashRefresh x (strings_TrimSpace c))"
  let ?w = "w\<lparr>tape := snd (randomDigits x 6 (tape w))\<rparr>"
  have code: "code = fst (randomDigits x 6 (tape w))"
    and set: "us_SetToken (memstore_Users x) u internalProvider phoneTokenName (challenge_text ?c) ?w = (None, w')"
    using assms(5) unfolding UserManager_GeneratePhoneToken_def assms(1) e_def
    by (auto simp: draw_def Let_def challenge_text_def split: prod.splits option.splits)
  have inv: "mem_wf (db ?w)" using assms(2) by simp
  have ok: "challenge_ok ?c" using assms(4) by (simp add: challenge_ok_def e_def)
  have run: "answers as = map Inr (ref_attempts (map ?h as) ?c)" for as
    unfolding answers_def
    by (rule mem.phone_run [OF assms(1) _ mem.Get_Set_same [OF inv set refl] ok]) (use mem.SetToken_keeps [OF inv set] in simp)
  have "length (filter (\<lambda>r. r = Inr True) (answers as)) \<le> 1"
    using ref_attempts_once [of "map ?h as" ?c] unfolding run by (simp add: filter_map comp_def id_def)
  moreover have "\<forall>i < length as. answers as ! i = Inr True \<longrightarrow> i < 5 \<and> fst (as ! i) \<le> time_of_Unix e \<and>
      hashRefresh x (strings_TrimSpace (snd (as ! i))) = hashRefresh x code"
    unfolding run using ref_attempts_hit [of _ "map ?h as" "hashRefresh x code" e 0] by (auto simp: case_prod_unfold)
  moreover have "strings_TrimSpace code = code" unfolding code by (rule strings_TrimSpace_visible [OF randomDigits_visible [OF assms(3)]])
  then have "t \<le> time_of_Unix e \<longrightarrow> answers [(t, code)] = [Inr True]" unfolding run by simp
  ultimately show ?thesis using run by blast
qed

section \<open>Recovery codes\<close>

lemma size_ref_redeems: "ref_redeems hs M = (oks, M') \<Longrightarrow> size M' + length (filter id oks) = size M"
proof (induction hs arbitrary: M oks)
  case (Cons h hs)
  then show ?case by (auto simp: Let_def case_prod_unfold size_Diff_singleton split: if_splits prod.splits)
      (metis Suc_pred fst_conv nonempty_has_size empty_iff set_mset_empty snd_conv)+
qed simp

text \<open>(C32) Recovery codes are a multiset. After \<open>n\<close> codes were generated, every attempt, in any sequence,
  succeeds exactly if the hash of the code is still among those left, and a success takes that
  hash out; so at most \<open>n\<close> attempts ever succeed, and the count reported is what is left. Nothing but
  a success changes what is left.\<close>

theorem recovery_codes_refine:
  assumes "um_Store m = memstore_Users x" and "mem_wf (db w)" and "sha256_ok x"
    and "UserManager_GenerateRecoveryCodes x m u n w = (Inr codes, w1)"
    and "redeems x m u cs w1 = (answers, w2)"
  shows "\<exists>oks left. ref_redeems (map (\<lambda>c. hashRefresh x (strings_TrimSpace c)) cs) (mset (map (hashRefresh x) codes)) = (oks, left) \<and>
    length codes = n \<and> answers = map Inr oks \<and> UserManager_CountRecoveryCodes m u w2 = Inr (int (size left)) \<and>
    size left + length (filter id oks) = n"
proof -
  let ?w = "w\<lparr>tape := snd (recovery_codes x n (tape w))\<rparr>"
  have codes: "codes = fst (recovery_codes x n (tape w))"
    and set: "us_SetToken (memstore_Users x) u internalProvider recoveryCodesName (strings_Join (map (hashRefresh x) codes) '';'') ?w = (None, w1)"
    using assms(4) unfolding UserManager_GenerateRecoveryCodes_def assms(1)
    by (auto simp: draw_def Let_def split: prod.splits option.splits)
  have "length (fst (recovery_codes x n t)) = n" for t by (induction n arbitrary: t) (auto simp: case_prod_unfold Let_def)
  then have len: "length codes = n" by (simp add: codes)
  have inv: "mem_wf (db ?w)" using assms(2) by simp
  have ok: "codes_ok (map (hashRefresh x) codes)" using assms(3) by (simp add: codes_ok_def)
  from mem.redeem_run [OF assms(1) _ mem.Get_Set_same [OF inv set refl] ok assms(5)] mem.SetToken_keeps [OF inv set]
  obtain left where r: "ref_redeems (map (\<lambda>c. hashRefresh x (strings_TrimSpace c)) cs) (mset (map (hashRefresh x) codes)) = (map projr answers, mset left)"
    and a: "list_all (\<lambda>r. \<not> isl r) answers" and l: "codes_ok left"
    and g: "us_GetToken (memstore_Users x) u internalProvider recoveryCodesName w2 = Inr (strings_Join left '';'')" by auto
  have "answers = map Inr (map projr answers)" using a by (induction answers) auto
  moreover have "UserManager_CountRecoveryCodes m u w2 = Inr (int (size (mset left)))"
    using codes_split [OF l] unfolding UserManager_CountRecoveryCodes_def assms(1) g by (cases "left = []") auto
  ultimately show ?thesis using r size_ref_redeems [OF r] len by (metis size_mset length_map)
qed

subsection \<open>Concrete runs\<close>

definition demo_mfa :: "memstore user_manager" where
  "demo_mfa = NewUserManager demo_extern (memstore_Users demo_extern) DefaultOptions"

lemma demo_mfa_store: "um_Store demo_mfa = memstore_Users demo_extern"
  by (simp add: demo_mfa_def NewUserManager_def)

theorem phone_code_capped_witness:
  "\<exists>code w'. UserManager_GeneratePhoneToken demo_extern demo_mfa 0 demo_member demo_session_world = (Inr code, w') \<and>
    phone_attempts demo_extern demo_mfa demo_member [(60, code)] w' = [Inr True] \<and>
    length (filter (\<lambda>r. r = Inr True) (phone_attempts demo_extern demo_mfa demo_member [(60, ''x''), (61, code), (62, code)] w')) \<le> 1"
proof -
  obtain code w' where g: "UserManager_GeneratePhoneToken demo_extern demo_mfa 0 demo_member demo_session_world = (Inr code, w')"
    by (simp add: UserManager_GeneratePhoneToken_def demo_mfa_store memstore_Users_def userStore_SetToken_def draw_def Let_def)
  have i: "in_int64 (time_Unix (0 + PhoneTokenTTL))" "60 \<le> time_of_Unix (time_Unix (0 + PhoneTokenTTL))"
    by (simp_all add: PhoneTokenTTL_def minute_def second_def time_Unix_def time_of_Unix_def in_int64_def maxInt64_def minInt64_def)
  note p = phone_code_capped [OF demo_mfa_store demo_session_world_wf _ i(1) g]
  show ?thesis using g p [of "[(60, ''x''), (61, code), (62, code)]" 60] i(2) demo_extern_ok by blast
qed

theorem recovery_codes_refine_witness:
  "\<exists>codes w1 answers w2. UserManager_GenerateRecoveryCodes demo_extern demo_mfa demo_member 3 demo_session_world = (Inr codes, w1) \<and>
    redeems demo_extern demo_mfa demo_member [codes ! 0, codes ! 0] w1 = (answers, w2) \<and>
    (\<exists>left oks. UserManager_CountRecoveryCodes demo_mfa demo_member w2 = Inr (int left) \<and> answers = map Inr oks \<and>
      left + length (filter id oks) = 3)"
proof -
  obtain codes w1 where g: "UserManager_GenerateRecoveryCodes demo_extern demo_mfa demo_member 3 demo_session_world = (Inr codes, w1)"
    by (simp add: UserManager_GenerateRecoveryCodes_def demo_mfa_store memstore_Users_def userStore_SetToken_def draw_def Let_def)
  obtain answers w2 where r: "redeems demo_extern demo_mfa demo_member [codes ! 0, codes ! 0] w1 = (answers, w2)" by fastforce
  from recovery_codes_refine [OF demo_mfa_store demo_session_world_wf demo_extern_ok(2) g r] g r show ?thesis by blast
qed

end
