(* ===== verification/OAuth_Util.thy ===== *)
theory OAuth_Util
  imports Jwt OAuth_Types
begin

text \<open>
  Helpers of package \<open>oauth\<close> (\<open>oauth/util.go\<close>): error values, hashing, PKCE, scopes and URLs, and
  what the authorization server takes from outside the repository's logic: URL parsing and
  printing, IP literals, media types, decoded JSON documents and the HTTP fetches, the fields of
  the record \<open>web\<close>. Every theorem holds for all of their values.
\<close>

record url =
  url_Scheme :: string
  url_User :: bool
  url_Host :: string
  url_Path :: string
  url_RawPath :: string
  url_RawQuery :: string
  url_Fragment :: string

type_synonym url_values = "(string, string list) gomap"

text \<open>\<open>url.Values.Get\<close>, \<open>Has\<close> and \<open>Set\<close>.\<close>

definition values_Get :: "url_values \<Rightarrow> string \<Rightarrow> string" where
  "values_Get v k = (case map_of v k of Some (x # _) \<Rightarrow> x | _ \<Rightarrow> [])"

definition values_Has :: "url_values \<Rightarrow> string \<Rightarrow> bool" where
  "values_Has v k \<longleftrightarrow> map_of v k \<noteq> None"

definition values_Set :: "string \<Rightarrow> string \<Rightarrow> url_values \<Rightarrow> url_values" where
  "values_Set k x v = AList.update k [x] v"

section \<open>Errors\<close>

record oauth_error =
  oe_Code :: string
  oe_Description :: string
  oe_Status :: nat

definition oerr :: "nat \<Rightarrow> string \<Rightarrow> string \<Rightarrow> oauth_error" where
  "oerr status code desc = \<lparr>oe_Code = code, oe_Description = desc, oe_Status = status\<rparr>"

definition Error_Error :: "oauth_error \<Rightarrow> string" where
  "Error_Error e = (if oe_Description e = [] then oe_Code e else oe_Code e @ '': '' @ oe_Description e)"

definition errInvalidRequest :: "string \<Rightarrow> oauth_error" where
  "errInvalidRequest = oerr 400 ''invalid_request''"
definition errInvalidClient :: "string \<Rightarrow> oauth_error" where
  "errInvalidClient = oerr 401 ''invalid_client''"
definition errInvalidGrant :: "string \<Rightarrow> oauth_error" where
  "errInvalidGrant = oerr 400 ''invalid_grant''"
definition errInvalidScope :: "string \<Rightarrow> oauth_error" where
  "errInvalidScope = oerr 400 ''invalid_scope''"
definition errInvalidTarget :: "string \<Rightarrow> oauth_error" where
  "errInvalidTarget = oerr 400 ''invalid_target''"
definition errUnsupportedGrant :: "string \<Rightarrow> oauth_error" where
  "errUnsupportedGrant = oerr 400 ''unsupported_grant_type''"
definition errServer :: "string \<Rightarrow> oauth_error" where
  "errServer = oerr 500 ''server_error''"
definition errInvalidRedirect :: "string \<Rightarrow> oauth_error" where
  "errInvalidRedirect = oerr 400 ''invalid_redirect_uri''"

section \<open>Secrets\<close>

definition randomSecret :: "extern \<Rightarrow> nat \<Rightarrow> nat \<Rightarrow> string \<times> nat" where
  "randomSecret x n t = (let (b, t) = rand_Read x n t in (base64_Encode RawURLEncoding b, t))"

definition hashSecret :: "extern \<Rightarrow> string \<Rightarrow> string" where
  "hashSecret x s = hex_Encode (x_sha256 x s)"

definition constEq :: "string \<Rightarrow> string \<Rightarrow> bool" where
  "constEq a b \<longleftrightarrow> a = b"

declare constEq_def [simp]

lemma draw_randomSecret [simp]:
  "draw (randomSecret x n) w = (fst (randomSecret x n (tape w)), w\<lparr>tape := tape w + n\<rparr>)"
  by (simp add: draw_def randomSecret_def rand_Read_def)

lemma randomSecret_no_dot: "CHR ''.'' \<notin> set (fst (randomSecret x n t))"
  by (simp add: randomSecret_def rand_Read_def)

lemma randomSecret_ne: "0 < n \<Longrightarrow> fst (randomSecret x n t) \<noteq> []"
  by (simp add: randomSecret_def rand_Read_def base64_Encode_ne)

section \<open>PKCE\<close>

definition isUnreserved :: "nat \<Rightarrow> bool" where
  "isUnreserved r \<longleftrightarrow> in_range (CHR ''A'') (CHR ''Z'') r \<or> in_range (CHR ''a'') (CHR ''z'') r \<or>
     in_range (CHR ''0'') (CHR ''9'') r \<or> r = of_char (CHR ''-'') \<or> r = of_char (CHR ''.'') \<or>
     r = of_char (CHR ''_'') \<or> r = of_char (CHR ''~'')"

definition validChallenge :: "string \<Rightarrow> bool" where
  "validChallenge c \<longleftrightarrow> length c = 43 \<and>
     list_all (\<lambda>r. isUnreserved r \<and> r \<noteq> of_char (CHR ''.'') \<and> r \<noteq> of_char (CHR ''~'')) (runes c)"

definition validVerifier :: "string \<Rightarrow> bool" where
  "validVerifier v \<longleftrightarrow> 43 \<le> length v \<and> length v \<le> 128 \<and> list_all isUnreserved (runes v)"

definition verifyS256 :: "extern \<Rightarrow> string \<Rightarrow> string \<Rightarrow> bool" where
  "verifyS256 x verifier challenge \<longleftrightarrow> validVerifier verifier \<and>
     constEq (base64_Encode RawURLEncoding (x_sha256 x verifier)) challenge"

section \<open>Scopes\<close>

text \<open>\<open>strings.Fields\<close>: the maximal runs without white space. UTF-8 is self-synchronising, so
  the encodings of white space can be looked for at every byte. Every round consumes a byte, so
  the length of the string is fuel enough.\<close>

fun fields_scan :: "nat \<Rightarrow> string \<Rightarrow> string \<Rightarrow> string list" where
  "fields_scan n [] cur = (if cur = [] then [] else [rev cur])"
| "fields_scan 0 s cur = []"
| "fields_scan (Suc n) (c # s) cur =
     (case find (\<lambda>e. prefix e (map of_char (c # s))) space_encodings of
        None \<Rightarrow> fields_scan n s (c # cur)
      | Some e \<Rightarrow> (if cur = [] then [] else [rev cur]) @ fields_scan n (drop (length e) (c # s)) [])"

definition strings_Fields :: "string \<Rightarrow> string list" where
  "strings_Fields s = fields_scan (length s) s []"

definition parseScopes :: "string \<Rightarrow> string list" where
  "parseScopes s = rev (fold (\<lambda>sc out. if sc \<in> set out then out else sc # out) (strings_Fields s) [])"

definition joinScopes :: "string list \<Rightarrow> string" where
  "joinScopes s = strings_Join s '' ''"

definition containsAll :: "string list \<Rightarrow> string list \<Rightarrow> bool" where
  "containsAll have' want \<longleftrightarrow> list_all (\<lambda>w. w \<in> set have') want"

definition unionScopes :: "string list \<Rightarrow> string list \<Rightarrow> string list" where
  "unionScopes a b = parseScopes (joinScopes a @ '' '' @ joinScopes b)"

definition hasScope :: "string list \<Rightarrow> string \<Rightarrow> bool" where
  "hasScope list s \<longleftrightarrow> list_ex (\<lambda>x. x = s) list"

section \<open>The world outside\<close>

text \<open>The members of a JWK and of a client metadata document the program decodes.\<close>

record rawJWK =
  rj_Kty :: string
  rj_Kid :: string
  rj_Use :: string
  rj_Alg :: string
  rj_N :: string
  rj_E :: string
  rj_Crv :: string
  rj_X :: string
  rj_Y :: string
  rj_D :: string
  rj_P :: string

record cimdDocument =
  dc_ClientID :: string
  dc_ClientName :: string
  dc_RedirectURIs :: "string list"
  dc_TokenEndpointAuthMethod :: string
  dc_GrantTypes :: "string list"
  dc_ResponseTypes :: "string list"
  dc_TokenEndpointAuthSigningAlg :: string
  dc_JWKSURI :: string
  dc_JWKS :: bytes
  dc_ClientSecret :: "string option"
  dc_ClientSecretExpiresAt :: "int option"

text \<open>The answer of an HTTP GET: status, body and the \<open>Cache-Control\<close> header; \<open>None\<close> for the body
  is a read error.\<close>

record http_answer =
  ha_Status :: nat
  ha_Body :: "bytes option"
  ha_CacheControl :: string

record web =
  wb_Parse :: "string \<Rightarrow> url option"
  wb_String :: "url \<Rightarrow> string"
  wb_EscapedPath :: "url \<Rightarrow> string"
  wb_Query :: "url \<Rightarrow> url_values"
  wb_Encode :: "url_values \<Rightarrow> string"
  wb_QueryUnescape :: "string \<Rightarrow> string option"
  wb_LoopbackIP :: "string \<Rightarrow> bool"
  wb_EqualFold :: "string \<Rightarrow> string \<Rightarrow> bool"
  wb_MediaType :: "string \<Rightarrow> string"
  wb_JWKS :: "bytes \<Rightarrow> rawJWK list option"
  wb_CIMD :: "bytes \<Rightarrow> cimdDocument option"
  wb_P256 :: "bytes \<Rightarrow> ecdsa_public_key option"
  wb_Get :: "string \<Rightarrow> time \<Rightarrow> string + http_answer"
  wb_Quote :: "string \<Rightarrow> string"

definition strings_EqualFold :: "web \<Rightarrow> string \<Rightarrow> string \<Rightarrow> bool" where
  "strings_EqualFold b s t = (if is_ascii s \<and> is_ascii t then equal_fold_ascii s t else wb_EqualFold b s t)"

text \<open>\<open>URL.Hostname\<close>: the host without a valid port and without brackets.\<close>

definition validOptionalPort :: "string \<Rightarrow> bool" where
  "validOptionalPort p \<longleftrightarrow> p = [] \<or> (hd p = CHR '':'' \<and> list_all is_digit_char (tl p))"

definition url_Hostname :: "url \<Rightarrow> string" where
  "url_Hostname u =
     (let h = url_Host u;
          after = rev (takeWhile (\<lambda>c. c \<noteq> CHR '':'') (rev h));
          h = (if CHR '':'' \<in> set h \<and> validOptionalPort (CHR '':'' # after)
               then take (length h - length after - 1) h else h)
      in if h \<noteq> [] \<and> hd h = CHR ''['' \<and> last h = CHR '']'' \<and> length h \<ge> 2 then butlast (tl h) else h)"

section \<open>URLs\<close>

definition canonicalResource :: "extern \<Rightarrow> web \<Rightarrow> string \<Rightarrow> string option" where
  "canonicalResource x b s =
     (case wb_Parse b (strings_TrimSpace s) of
        None \<Rightarrow> None
      | Some u \<Rightarrow>
          if url_Scheme u = [] \<or> url_Host u = [] \<or> url_Fragment u \<noteq> [] \<or> url_User u then None
          else
            let u = u\<lparr>url_Scheme := strings_ToLower x (url_Scheme u), url_Host := strings_ToLower x (url_Host u)\<rparr>;
                u = (if url_Path u = ''/'' then u\<lparr>url_Path := []\<rparr> else u)
            in Some (wb_String b u))"

definition isLoopbackHost :: "web \<Rightarrow> string \<Rightarrow> bool" where
  "isLoopbackHost b host \<longleftrightarrow> strings_EqualFold b host ''localhost'' \<or> wb_LoopbackIP b host"

definition validateRedirectURI :: "extern \<Rightarrow> web \<Rightarrow> string \<Rightarrow> oauth_error option" where
  "validateRedirectURI x b s =
     (case wb_Parse b s of
        None \<Rightarrow> Some (errInvalidRedirect (''redirect_uri must be an absolute URI: '' @ s))
      | Some u \<Rightarrow>
          if url_Scheme u = [] \<or> url_Host u = []
          then Some (errInvalidRedirect (''redirect_uri must be an absolute URI: '' @ s))
          else if url_Fragment u \<noteq> [] \<or> CHR ''#'' \<in> set s
          then Some (errInvalidRedirect (''redirect_uri must not contain a fragment: '' @ s))
          else if url_User u then Some (errInvalidRedirect ''redirect_uri must not contain credentials'')
          else if strings_ToLower x (url_Scheme u) = ''https'' then None
          else if strings_ToLower x (url_Scheme u) = ''http'' then
            (if isLoopbackHost b (url_Hostname u) then None
             else Some (errInvalidRedirect (''http redirect_uri is only allowed on a loopback host: '' @ s)))
          else Some (errInvalidRedirect (''redirect_uri must use https (or http on loopback): '' @ s)))"

text \<open>The loopback exception of \<open>matchRedirectURI\<close> for one registered URI.\<close>

definition loopback_match :: "web \<Rightarrow> url \<Rightarrow> string \<Rightarrow> bool" where
  "loopback_match b ru reg =
     (case wb_Parse b reg of
        None \<Rightarrow> False
      | Some gu \<Rightarrow>
          if \<not> strings_EqualFold b (url_Scheme gu) ''http'' \<or> \<not> isLoopbackHost b (url_Hostname gu) then False
          else strings_EqualFold b (url_Hostname gu) (url_Hostname ru) \<and>
               wb_EscapedPath b gu = wb_EscapedPath b ru \<and> url_RawQuery gu = url_RawQuery ru)"

definition matchRedirectURI :: "web \<Rightarrow> string list \<Rightarrow> string \<Rightarrow> bool" where
  "matchRedirectURI b registered requested =
     (if requested = [] then False
      else if list_ex (\<lambda>reg. reg = requested) registered then True
      else
        (case wb_Parse b requested of
           None \<Rightarrow> False
         | Some ru \<Rightarrow>
             if \<not> strings_EqualFold b (url_Scheme ru) ''http'' \<or> \<not> isLoopbackHost b (url_Hostname ru) \<or>
                url_Fragment ru \<noteq> []
             then False
             else list_ex (loopback_match b ru) registered))"

definition allLoopback :: "web \<Rightarrow> string list \<Rightarrow> bool" where
  "allLoopback b uris =
     (if uris = [] then False
      else list_all (\<lambda>s. case wb_Parse b s of None \<Rightarrow> False | Some u \<Rightarrow> isLoopbackHost b (url_Hostname u)) uris)"

definition hostOf :: "web \<Rightarrow> string \<Rightarrow> string" where
  "hostOf b s = (case wb_Parse b s of None \<Rightarrow> [] | Some u \<Rightarrow> url_Host u)"

section \<open>Requests and responses\<close>

text \<open>A request as the handlers see it after \<open>net/http\<close> parsed it; \<open>None\<close> for the form is a
  \<open>ParseForm\<close> error (malformed or over the size limit).\<close>

record http_request =
  rq_Method :: string
  rq_ContentType :: string
  rq_Query :: url_values
  rq_PostForm :: "url_values option"
  rq_BasicAuth :: "(string \<times> string) option"
  rq_ClientIP :: string
  rq_Header :: "(string, string) gomap"
  rq_Cookies :: "(string, string) gomap"

definition cors_headers :: "string \<Rightarrow> (string, string) gomap" where
  "cors_headers meth =
     [(''Access-Control-Allow-Origin'', ''*''), (''Access-Control-Expose-Headers'', ''WWW-Authenticate'')]
     @ (if meth = ''OPTIONS''
        then [(''Access-Control-Allow-Methods'', ''GET, POST, OPTIONS''),
              (''Access-Control-Allow-Headers'', ''Authorization, Content-Type, MCP-Protocol-Version''),
              (''Access-Control-Max-Age'', ''86400'')]
        else [])"

definition cors :: "http_request \<Rightarrow> bool" where
  "cors r \<longleftrightarrow> rq_Method r = ''OPTIONS''"

definition noStore :: "(string, string) gomap \<Rightarrow> (string, string) gomap" where
  "noStore h = AList.update ''Pragma'' ''no-cache'' (AList.update ''Cache-Control'' ''no-store'' h)"

definition writeError_status :: "oauth_error \<Rightarrow> nat" where
  "writeError_status e = (if oe_Status e = 0 then 400 else oe_Status e)"

end
