(* ===== verification/OAuth_Client.thy ===== *)
theory OAuth_Client
  imports OAuth_Util Signer
begin

text \<open>
  Clients of the authorization server that publish their own metadata: the keys of
  \<open>oauth/client_assertion.go\<close> and the document fetcher of \<open>oauth/cimd.go\<close> with its two caches and
  its address block list. An HTTP fetch is a parameter that may answer differently at every
  instant; error values are their texts.
\<close>

section \<open>Keys of a client\<close>

definition AssertionSigningAlgs :: "string list" where
  "AssertionSigningAlgs = [''RS256'', ''ES256'']"

definition assertionLeeway :: duration where "assertionLeeway = 30 * second"
definition maxJTILen :: nat where "maxJTILen = 256"

record clientKey =
  ck_kid :: string
  ck_alg :: string
  ck_key :: jwt_key

definition b64 :: "string \<Rightarrow> bytes" where
  "b64 s = (case base64_Decode RawURLEncoding (rev (dropWhile (\<lambda>c. c = CHR ''='') (rev s))) of
     None \<Rightarrow> [] | Some b \<Rightarrow> b)"

definition rsaFromJWK :: "rawJWK \<Rightarrow> jwt_key option" where
  "rsaFromJWK k =
     (let n = b64 (rj_N k); e = b64 (rj_E k)
      in if length n = 0 \<or> length e = 0 \<or> length e > 4 then None
         else
           let pub = \<lparr>rsa_N = be_val n, rsa_E = int (be_val e)\<rparr>
           in if rsa_N pub < 2 ^ 2047 \<or> rsa_E pub < 3 \<or> rsa_E pub mod 2 = 0 then None
              else Some (RSAPublic pub))"

text \<open>\<open>copy\<close> into the right end of a zeroed 32-byte half.\<close>

definition pad32 :: "bytes \<Rightarrow> bytes" where
  "pad32 s = replicate (32 - length s) (CHR 0x00) @ s"

definition ecFromJWK :: "web \<Rightarrow> rawJWK \<Rightarrow> jwt_key option" where
  "ecFromJWK b k =
     (if rj_Crv k \<noteq> ''P-256'' then None
      else
        let p = b64 (rj_X k); q = b64 (rj_Y k)
        in if length p = 0 \<or> length p > 32 \<or> length q = 0 \<or> length q > 32 then None
           else map_option ECDSAPublic (wb_P256 b (CHR 0x04 # pad32 p @ pad32 q)))"

definition clientKey_fits :: "clientKey \<Rightarrow> string \<Rightarrow> bool" where
  "clientKey_fits k a =
     (if ck_alg k \<noteq> [] \<and> ck_alg k \<noteq> a then False
      else (case ck_key k of RSAPublic _ \<Rightarrow> a = ''RS256'' | ECDSAPublic _ \<Rightarrow> a = ''ES256'' | _ \<Rightarrow> False))"

fun usable_keys :: "web \<Rightarrow> rawJWK list \<Rightarrow> string + clientKey list" where
  "usable_keys b [] = Inr []"
| "usable_keys b (k # ks) =
     (if rj_D k \<noteq> [] \<or> rj_P k \<noteq> [] then Inl ''jwks must contain only public keys''
      else if rj_Use k \<noteq> [] \<and> rj_Use k \<noteq> ''sig'' then usable_keys b ks
      else
        let pub = (if rj_Kty k = ''RSA'' then rsaFromJWK k else if rj_Kty k = ''EC'' then ecFromJWK b k else None)
        in (case usable_keys b ks of
              Inl e \<Rightarrow> Inl e
            | Inr out \<Rightarrow>
                Inr (case pub of None \<Rightarrow> out
                     | Some key \<Rightarrow> \<lparr>ck_kid = rj_Kid k, ck_alg = rj_Alg k, ck_key = key\<rparr> # out)))"

definition parseJWKS :: "web \<Rightarrow> bytes \<Rightarrow> string + clientKey list" where
  "parseJWKS b data =
     (case wb_JWKS b data of
        None \<Rightarrow> Inl ''jwks is not a valid JWK Set''
      | Some keys \<Rightarrow>
          (case usable_keys b keys of
             Inl e \<Rightarrow> Inl e
           | Inr out \<Rightarrow> if length out = 0 then Inl ''jwks has no usable RS256/ES256 signing key'' else Inr out))"

definition validateJWKSURI :: "web \<Rightarrow> string \<Rightarrow> string option" where
  "validateJWKSURI b s =
     (case wb_Parse b s of
        None \<Rightarrow> Some ''invalid jwks_uri''
      | Some u \<Rightarrow>
          if url_Scheme u \<noteq> ''https'' then Some ''jwks_uri must use https''
          else if url_Hostname u = [] then Some ''jwks_uri must have a host''
          else if url_User u then Some ''jwks_uri must not contain credentials''
          else if url_Fragment u \<noteq> [] \<or> CHR ''#'' \<in> set s then Some ''jwks_uri must not contain a fragment''
          else None)"

section \<open>Metadata documents\<close>

record resolvedClient =
  rc_ID :: string
  rc_Name :: string
  rc_DisplayHost :: string
  rc_RedirectURIs :: "string list"
  rc_AuthMethod :: string
  rc_SecretHash :: string
  rc_GrantTypes :: "string list"
  rc_CIMD :: bool
  rc_JWKSURI :: string
  rc_Keys :: "clientKey list"
  rc_SigningAlg :: string

definition resolvedClient_public :: "resolvedClient \<Rightarrow> bool" where
  "resolvedClient_public c \<longleftrightarrow> rc_SecretHash c = [] \<and> rc_AuthMethod c \<noteq> AuthMethodPrivateKeyJWT"

definition zero_client :: resolvedClient where
  "zero_client = \<lparr>rc_ID = [], rc_Name = [], rc_DisplayHost = [], rc_RedirectURIs = [], rc_AuthMethod = [],
     rc_SecretHash = [], rc_GrantTypes = [], rc_CIMD = False, rc_JWKSURI = [], rc_Keys = [], rc_SigningAlg = []\<rparr>"

record cimdEntry =
  ce_client :: resolvedClient
  ce_expires :: time

record jwksEntry =
  je_keys :: "clientKey list"
  je_fetched :: time
  je_expires :: time

record cimdFetcher =
  cf_Timeout :: duration
  cf_MaxBytes :: int
  cf_MaxJWKSBytes :: int
  cf_JWKSMinRefresh :: duration
  cf_DefaultTTL :: duration
  cf_MinTTL :: duration
  cf_MaxTTL :: duration
  cf_AllowPrivateNetworks :: bool
  cf_cache :: "(string, cimdEntry) gomap"
  cf_jwksCache :: "(string, jwksEntry) gomap"

definition NewCIMDFetcher :: cimdFetcher where
  "NewCIMDFetcher = \<lparr>cf_Timeout = 5 * second, cf_MaxBytes = 5 * 1024, cf_MaxJWKSBytes = 64 * 1024,
     cf_JWKSMinRefresh = 30 * second, cf_DefaultTTL = 5 * minute, cf_MinTTL = minute, cf_MaxTTL = 24 * hour,
     cf_AllowPrivateNetworks = False, cf_cache = [], cf_jwksCache = []\<rparr>"

definition IsCIMDClientID :: "extern \<Rightarrow> string \<Rightarrow> bool" where
  "IsCIMDClientID x clientID \<longleftrightarrow> prefix ''https://'' (strings_ToLower x clientID)"

definition dot_segment :: "web \<Rightarrow> string \<Rightarrow> bool" where
  "dot_segment b seg \<longleftrightarrow> seg = ''.'' \<or> seg = ''..'' \<or> strings_EqualFold b seg ''%2e'' \<or>
     strings_EqualFold b seg ''%2e%2e''"

definition validateCIMDURL :: "web \<Rightarrow> string \<Rightarrow> string + url" where
  "validateCIMDURL b s =
     (case wb_Parse b s of
        None \<Rightarrow> Inl ''invalid client_id URL''
      | Some u \<Rightarrow>
          if url_Scheme u \<noteq> ''https'' then Inl ''client_id URL must use https''
          else if url_Host u = [] \<or> url_Hostname u = [] then Inl ''client_id URL must have a host''
          else if url_User u then Inl ''client_id URL must not contain credentials''
          else if url_Fragment u \<noteq> [] \<or> CHR ''#'' \<in> set s then Inl ''client_id URL must not contain a fragment''
          else if url_Path u = [] \<or> url_Path u = ''/'' then Inl ''client_id URL must contain a path''
          else if list_ex (dot_segment b) (strings_Split (wb_EscapedPath b u) (CHR ''/''))
          then Inl ''client_id URL must not contain dot segments''
          else Inr u)"

text \<open>The part of \<open>validateCIMDDocument\<close> that settles how the client authenticates.\<close>

definition document_auth :: "web \<Rightarrow> cimdDocument \<Rightarrow> string + resolvedClient" where
  "document_auth b d =
     (let m = dc_TokenEndpointAuthMethod d; rc = zero_client\<lparr>rc_AuthMethod := AuthMethodNone\<rparr>
      in if m = [] \<or> m = AuthMethodNone then Inr rc
         else if m = AuthMethodPrivateKeyJWT then
           let rc = rc\<lparr>rc_AuthMethod := AuthMethodPrivateKeyJWT\<rparr>;
               hasInline = (length (dc_JWKS d) > 0 \<and> dc_JWKS d \<noteq> ''null'');
               keyed = (if dc_JWKSURI d \<noteq> [] \<and> hasInline
                        then Inl ''client metadata must not contain both jwks_uri and jwks''
                        else if dc_JWKSURI d \<noteq> [] then
                          (case validateJWKSURI b (dc_JWKSURI d) of
                             Some e \<Rightarrow> Inl e | None \<Rightarrow> Inr (rc\<lparr>rc_JWKSURI := dc_JWKSURI d\<rparr>))
                        else if hasInline then
                          (case parseJWKS b (dc_JWKS d) of
                             Inl e \<Rightarrow> Inl e | Inr keys \<Rightarrow> Inr (rc\<lparr>rc_Keys := keys\<rparr>))
                        else Inl ''private_key_jwt requires jwks_uri or jwks in the client metadata'')
           in (case keyed of
                 Inl e \<Rightarrow> Inl e
               | Inr rc \<Rightarrow>
                   let a = dc_TokenEndpointAuthSigningAlg d
                   in if a = [] then Inr rc
                      else if \<not> hasScope AssertionSigningAlgs a
                      then Inl (''unsupported token_endpoint_auth_signing_alg '' @ wb_Quote b a @ '' (supported: '' @
                                strings_Join AssertionSigningAlgs '', '' @ '')'')
                      else Inr (rc\<lparr>rc_SigningAlg := a\<rparr>))
         else if m = AuthMethodClientSecretBasic \<or> m = AuthMethodClientSecretPost \<or> m = ''client_secret_jwt''
         then Inl (''token_endpoint_auth_method '' @ wb_Quote b m @
                   '' relies on a shared secret, which a metadata-document client must not use'')
         else Inl (''unsupported token_endpoint_auth_method '' @ wb_Quote b m @
                   '' for a metadata-document client (supported: none, private_key_jwt)''))"

definition validateCIMDDocument :: "extern \<Rightarrow> web \<Rightarrow> string \<Rightarrow> cimdDocument \<Rightarrow> string + resolvedClient" where
  "validateCIMDDocument x b clientID d =
     (if dc_ClientID d \<noteq> clientID then Inl ''client metadata client_id does not match the document URL''
      else if dc_ClientSecret d \<noteq> None \<or> dc_ClientSecretExpiresAt d \<noteq> None
      then Inl ''client metadata must not contain a client secret''
      else
        (case document_auth b d of
           Inl e \<Rightarrow> Inl e
         | Inr rc \<Rightarrow>
             if length (dc_RedirectURIs d) = 0 then Inl ''client metadata must list redirect_uris''
             else
               (case List.map_filter (validateRedirectURI x b) (dc_RedirectURIs d) of
                  e # _ \<Rightarrow> Inl (Error_Error e)
                | [] \<Rightarrow>
                    if length (dc_GrantTypes d) > 0 \<and> \<not> hasScope (dc_GrantTypes d) GrantTypeAuthorizationCode
                    then Inl ''client metadata grant_types must include authorization_code''
                    else if length (dc_ResponseTypes d) > 0 \<and> \<not> hasScope (dc_ResponseTypes d) ''code''
                    then Inl ''client metadata response_types must include code''
                    else
                      Inr (rc\<lparr>rc_ID := clientID, rc_Name := take 256 (strings_TrimSpace (dc_ClientName d)),
                              rc_DisplayHost := hostOf b clientID, rc_RedirectURIs := dc_RedirectURIs d,
                              rc_CIMD := True\<rparr>))))"

section \<open>Fetching and caching\<close>

definition max_age_part :: "duration \<Rightarrow> string \<Rightarrow> duration" where
  "max_age_part ttl part =
     (let part = strings_TrimSpace part
      in if prefix ''max-age='' part then
           (case strconv_ParseInt (drop 8 part) of Inr n \<Rightarrow> wrap64 (n * second) | Inl _ \<Rightarrow> ttl)
         else ttl)"

definition cimdFetcher_cacheTTL :: "extern \<Rightarrow> cimdFetcher \<Rightarrow> string \<Rightarrow> duration \<times> bool" where
  "cimdFetcher_cacheTTL x f cc =
     (let cc = strings_ToLower x cc
      in if sublist ''no-store'' cc \<or> sublist ''no-cache'' cc then (0, False)
         else
           let ttl = fold (\<lambda>part ttl. max_age_part ttl part) (strings_Split cc (CHR '','')) (cf_DefaultTTL f);
               ttl = (if ttl < cf_MinTTL f then cf_MinTTL f else ttl);
               ttl = (if ttl > cf_MaxTTL f then cf_MaxTTL f else ttl)
           in (ttl, ttl > 0))"

definition cimdFetcher_jwks ::
  "extern \<Rightarrow> web \<Rightarrow> time \<Rightarrow> string \<Rightarrow> bool \<Rightarrow> cimdFetcher \<Rightarrow> (string + clientKey list) \<times> cimdFetcher" where
  "cimdFetcher_jwks x b now uri refresh f =
     (let minRefresh = (if cf_JWKSMinRefresh f \<le> 0 then 30 * second else cf_JWKSMinRefresh f);
          fetch =
            (case validateJWKSURI b uri of
               Some e \<Rightarrow> (Inl e, f)
             | None \<Rightarrow>
                 (case wb_Get b uri now of
                    Inl e \<Rightarrow> (Inl (''fetching jwks_uri: '' @ e), f)
                  | Inr resp \<Rightarrow>
                      if ha_Status resp \<noteq> 200
                      then (Inl (''jwks_uri fetch returned HTTP '' @ nat_dec (ha_Status resp)), f)
                      else
                        let mx = (if cf_MaxJWKSBytes f \<le> 0 then 64 * 1024 else cf_MaxJWKSBytes f)
                        in (case ha_Body resp of
                              None \<Rightarrow> (Inl ''reading jwks_uri'', f)
                            | Some body \<Rightarrow>
                                if int (length body) > mx
                                then (Inl (''jwks_uri document exceeds '' @ strconv_FormatInt mx @ '' bytes''), f)
                                else
                                  (case parseJWKS b body of
                                     Inl e \<Rightarrow> (Inl e, f)
                                   | Inr keys \<Rightarrow>
                                       (case cimdFetcher_cacheTTL x f (ha_CacheControl resp) of
                                          (ttl, False) \<Rightarrow> (Inr keys, f)
                                        | (ttl, True) \<Rightarrow>
                                            let cache = (if length (cf_jwksCache f) > 1000 then [] else cf_jwksCache f)
                                            in (Inr keys, f\<lparr>cf_jwksCache := AList.update uri
                                                  \<lparr>je_keys = keys, je_fetched = now, je_expires = now + ttl\<rparr> cache\<rparr>))))))
      in (case map_of (cf_jwksCache f) uri of
            Some e \<Rightarrow>
              if now < je_expires e \<and> (\<not> refresh \<or> time_Sub now (je_fetched e) < minRefresh)
              then (Inr (je_keys e), f) else fetch
          | None \<Rightarrow> fetch))"

definition cache_room :: "time \<Rightarrow> (string, cimdEntry) gomap \<Rightarrow> (string, cimdEntry) gomap" where
  "cache_room now cache =
     (if length cache > 1000 then
        let cache = delete_if (\<lambda>_ e. now > ce_expires e) cache
        in if length cache > 1000 then [] else cache
      else cache)"

definition cimdFetcher_Resolve ::
  "extern \<Rightarrow> web \<Rightarrow> time \<Rightarrow> string \<Rightarrow> cimdFetcher \<Rightarrow> (string + resolvedClient) \<times> cimdFetcher" where
  "cimdFetcher_Resolve x b now clientID f =
     (case validateCIMDURL b clientID of
        Inl e \<Rightarrow> (Inl e, f)
      | Inr u \<Rightarrow>
          let fetch =
            (case wb_Get b (wb_String b u) now of
               Inl e \<Rightarrow> (Inl (''fetching client metadata: '' @ e), f)
             | Inr resp \<Rightarrow>
                 if ha_Status resp \<noteq> 200
                 then (Inl (''client metadata fetch returned HTTP '' @ nat_dec (ha_Status resp)), f)
                 else
                   (case ha_Body resp of
                      None \<Rightarrow> (Inl ''reading client metadata'', f)
                    | Some body \<Rightarrow>
                        if int (length body) > cf_MaxBytes f
                        then (Inl (''client metadata document exceeds '' @ strconv_FormatInt (cf_MaxBytes f) @ '' bytes''), f)
                        else
                          (case wb_CIMD b body of
                             None \<Rightarrow> (Inl ''client metadata is not valid JSON'', f)
                           | Some doc \<Rightarrow>
                               (case validateCIMDDocument x b clientID doc of
                                  Inl e \<Rightarrow> (Inl e, f)
                                | Inr rc \<Rightarrow>
                                    (case cimdFetcher_cacheTTL x f (ha_CacheControl resp) of
                                       (ttl, False) \<Rightarrow> (Inr rc, f)
                                     | (ttl, True) \<Rightarrow>
                                         (Inr rc, f\<lparr>cf_cache := AList.update clientID
                                            \<lparr>ce_client = rc, ce_expires = now + ttl\<rparr> (cache_room now (cf_cache f))\<rparr>))))))
          in (case map_of (cf_cache f) clientID of
                Some e \<Rightarrow> if now < ce_expires e then (Inr (ce_client e), f) else fetch
              | None \<Rightarrow> fetch))"

section \<open>Special-use addresses\<close>

text \<open>\<open>netip.Addr\<close>: an IPv4 address, or an IPv6 address with an optional zone.\<close>

datatype ip_addr = IPv4 "32 word" | IPv6 "128 word" string

datatype ip_prefix = Prefix4 "32 word" nat | Prefix6 "128 word" nat

definition ip4 :: "nat \<Rightarrow> nat \<Rightarrow> nat \<Rightarrow> nat \<Rightarrow> 32 word" where
  "ip4 a b c d = of_nat (((a * 256 + b) * 256 + c) * 256 + d)"

definition ip6 :: "nat list \<Rightarrow> 128 word" where
  "ip6 hs = of_nat (foldl (\<lambda>n h. n * 65536 + h) 0 hs)"

definition blockedPrefixes :: "ip_prefix list" where
  "blockedPrefixes =
     [Prefix4 (ip4 0 0 0 0) 8, Prefix4 (ip4 10 0 0 0) 8, Prefix4 (ip4 100 64 0 0) 10, Prefix4 (ip4 127 0 0 0) 8,
      Prefix4 (ip4 169 254 0 0) 16, Prefix4 (ip4 172 16 0 0) 12, Prefix4 (ip4 192 0 0 0) 24,
      Prefix4 (ip4 192 0 2 0) 24, Prefix4 (ip4 192 88 99 0) 24, Prefix4 (ip4 192 168 0 0) 16,
      Prefix4 (ip4 198 18 0 0) 15, Prefix4 (ip4 198 51 100 0) 24, Prefix4 (ip4 203 0 113 0) 24,
      Prefix4 (ip4 224 0 0 0) 4, Prefix4 (ip4 240 0 0 0) 4,
      Prefix6 (ip6 [0, 0, 0, 0, 0, 0, 0, 0]) 128, Prefix6 (ip6 [0, 0, 0, 0, 0, 0, 0, 1]) 128,
      Prefix6 (ip6 [0, 0, 0, 0, 0, 0xffff, 0, 0]) 96, Prefix6 (ip6 [0x64, 0xff9b, 0, 0, 0, 0, 0, 0]) 96,
      Prefix6 (ip6 [0x64, 0xff9b, 1, 0, 0, 0, 0, 0]) 48, Prefix6 (ip6 [0x100, 0, 0, 0, 0, 0, 0, 0]) 64,
      Prefix6 (ip6 [0x2001, 0, 0, 0, 0, 0, 0, 0]) 23, Prefix6 (ip6 [0x2001, 0xdb8, 0, 0, 0, 0, 0, 0]) 32,
      Prefix6 (ip6 [0x2002, 0, 0, 0, 0, 0, 0, 0]) 16, Prefix6 (ip6 [0xfc00, 0, 0, 0, 0, 0, 0, 0]) 7,
      Prefix6 (ip6 [0xfe80, 0, 0, 0, 0, 0, 0, 0]) 10, Prefix6 (ip6 [0xff00, 0, 0, 0, 0, 0, 0, 0]) 8]"

text \<open>\<open>netip.Addr.Unmap\<close> and \<open>netip.Prefix.Contains\<close>; the latter is false for an address with a
  zone.\<close>

fun ip_Unmap :: "ip_addr \<Rightarrow> ip_addr" where
  "ip_Unmap (IPv4 a) = IPv4 a"
| "ip_Unmap (IPv6 a z) = (if drop_bit 32 a = 0xffff then IPv4 (ucast a) else IPv6 a z)"

fun prefix_Contains :: "ip_prefix \<Rightarrow> ip_addr \<Rightarrow> bool" where
  "prefix_Contains (Prefix4 p n) (IPv4 a) \<longleftrightarrow> drop_bit (32 - n) a = drop_bit (32 - n) p"
| "prefix_Contains (Prefix6 p n) (IPv6 a z) \<longleftrightarrow> z = [] \<and> drop_bit (128 - n) a = drop_bit (128 - n) p"
| "prefix_Contains _ _ \<longleftrightarrow> False"

definition isBlockedIP :: "ip_addr \<Rightarrow> bool" where
  "isBlockedIP addr = (let addr = ip_Unmap addr in list_ex (\<lambda>p. prefix_Contains p addr) blockedPrefixes)"

text \<open>\<open>dialControl\<close> on the result of \<open>net.SplitHostPort\<close>, an error text or the host: \<open>parse\<close> is
  \<open>netip.ParseAddr\<close>, \<open>quoted\<close> and \<open>shown\<close> print a string and an address.\<close>

definition dialControl ::
  "(string \<Rightarrow> ip_addr option) \<Rightarrow> (string \<Rightarrow> string) \<Rightarrow> (ip_addr \<Rightarrow> string) \<Rightarrow> string + string \<Rightarrow> string option" where
  "dialControl parse quoted shown hostPort =
     (case hostPort of
        Inl e \<Rightarrow> Some e
      | Inr host \<Rightarrow>
          (case parse host of
             None \<Rightarrow> Some (''oauth: refusing non-IP dial target '' @ quoted host)
           | Some addr \<Rightarrow>
               if isBlockedIP addr
               then Some (''oauth: refusing to fetch client metadata from special-use address '' @ shown addr)
               else None))"

end
