(* ===== verification/OAuth_Server.thy ===== *)
theory OAuth_Server
  imports OAuth_Client Token_Service
begin

text \<open>
  The authorization server (\<open>oauth/server.go\<close>) and dynamic client registration
  (\<open>oauth/register.go\<close>): options and construction, metadata, resolution of clients, resources and
  scopes, the management operations and the registration rate limiter. The state of a running
  server is the store's world, the document fetcher with its caches and the limiter's table.
\<close>

section \<open>Options and state\<close>

record server_options =
  op_Issuer :: string
  op_Resources :: "string list"
  op_Scopes :: "string list"
  op_DefaultScopes :: "string list option"
  op_CodeTTL :: duration
  op_AccessTokenTTL :: duration
  op_RefreshTokenTTL :: duration
  op_RefreshReuseGrace :: duration
  op_RequireOfflineAccess :: bool
  op_AllowDCR :: bool
  op_AllowCIMD :: bool
  op_AuthorizePath :: string
  op_TokenPath :: string
  op_RegisterPath :: string
  op_RevokePath :: string
  op_CurrentUser :: "(http_request \<Rightarrow> string option) option"
  op_LoginURL :: "(string \<Rightarrow> string) option"
  op_CSRFKey :: bytes
  op_CIMD :: "cimdFetcher option"
  op_RegisterLimit :: int
  op_ClientAssertionMaxLifetime :: duration

record window =
  wd_start :: time
  wd_n :: int

record ipLimiter =
  il_limit :: int
  il_window :: duration

record 's server =
  sr_users :: "'s user_manager"
  sr_tokens :: "'s token_service"
  sr_store :: "'s oauth_store"
  sr_opts :: server_options
  sr_issuer :: string
  sr_ipath :: string
  sr_signer :: signer
  sr_limiter :: "ipLimiter option"
  sr_scopeSet :: "string list"
  sr_resourceList :: "string list"

record 's oauth_world =
  ow :: "'s world"
  ow_cimd :: cimdFetcher
  ow_hits :: "(string, window) gomap"

definition on_world :: "('a \<times> 's world) \<Rightarrow> 's oauth_world \<Rightarrow> 'a \<times> 's oauth_world" where
  "on_world r s = (fst r, s\<lparr>ow := snd r\<rparr>)"

definition setDefault :: "string \<Rightarrow> string \<Rightarrow> string" where
  "setDefault p v = (if p = [] then v else p)"

text \<open>The defaults \<open>NewServer\<close> fills in; the clock, pages and IP extraction are arguments of the
  handlers that use them.\<close>

definition with_defaults :: "token_options \<Rightarrow> server_options \<Rightarrow> server_options" where
  "with_defaults tokens o' =
     (let o' = (if op_CodeTTL o' \<le> 0 then o'\<lparr>op_CodeTTL := 60 * second\<rparr> else o');
          o' = (if op_AccessTokenTTL o' \<le> 0
                then o'\<lparr>op_AccessTokenTTL := (if to_AccessTokenTTL tokens \<le> 0 then 15 * minute
                                             else to_AccessTokenTTL tokens)\<rparr> else o');
          o' = (if op_RefreshTokenTTL o' \<le> 0 then o'\<lparr>op_RefreshTokenTTL := 30 * 24 * hour\<rparr> else o')
      in if op_ClientAssertionMaxLifetime o' \<le> 0 then o'\<lparr>op_ClientAssertionMaxLifetime := hour\<rparr> else o')"

definition with_paths :: "server_options \<Rightarrow> server_options" where
  "with_paths o' = o'\<lparr>op_AuthorizePath := setDefault (op_AuthorizePath o') ''/oauth/authorize'',
     op_TokenPath := setDefault (op_TokenPath o') ''/oauth/token'',
     op_RegisterPath := setDefault (op_RegisterPath o') ''/oauth/register'',
     op_RevokePath := setDefault (op_RevokePath o') ''/oauth/revoke''\<rparr>"

text \<open>The first element that fails a check, as a loop with an early return finds it.\<close>

definition first_bad :: "('a \<Rightarrow> bool) \<Rightarrow> 'a list \<Rightarrow> 'a option" where
  "first_bad ok xs = find (\<lambda>x. \<not> ok x) xs"

definition NewServer ::
  "extern \<Rightarrow> web \<Rightarrow> 's user_manager option \<Rightarrow> 's token_service option \<Rightarrow> 's oauth_store option
     \<Rightarrow> server_options \<Rightarrow> nat \<Rightarrow> (string + 's server \<times> cimdFetcher) \<times> nat" where
  "NewServer x b users tokens store opts t =
     (case (users, tokens, store) of
        (Some users, Some tokens, Some store) \<Rightarrow>
          if op_CurrentUser opts = None \<or> op_LoginURL opts = None
          then (Inl ''oauth: Options.CurrentUser and Options.LoginURL are required'', t)
          else
            let iss = op_Issuer opts;
                trimmed = (if suffix ''/'' iss then butlast iss else iss);
                badIssuer = Inl (''oauth: invalid Issuer '' @ wb_Quote b iss)
            in (case wb_Parse b trimmed of
                  None \<Rightarrow> (badIssuer, t)
                | Some iu \<Rightarrow>
                    if url_Host iu = [] \<or> url_RawQuery iu \<noteq> [] \<or> url_Fragment iu \<noteq> [] then (badIssuer, t)
                    else if url_Scheme iu \<noteq> ''https'' \<and>
                            \<not> (url_Scheme iu = ''http'' \<and> isLoopbackHost b (url_Hostname iu))
                    then (Inl ''oauth: Issuer must use https (http is allowed only on loopback for development)'', t)
                    else if op_Resources opts = [] then (Inl ''oauth: at least one Resource is required'', t)
                    else
                      (case first_bad (\<lambda>r. canonicalResource x b r \<noteq> None) (op_Resources opts) of
                         Some r \<Rightarrow> (Inl (''oauth: invalid resource '' @ wb_Quote b r), t)
                       | None \<Rightarrow>
                           (case first_bad (\<lambda>sc. sc \<in> set (op_Scopes opts))
                                   (case op_DefaultScopes opts of None \<Rightarrow> [] | Some d \<Rightarrow> d) of
                              Some sc \<Rightarrow> (Inl (''oauth: default scope '' @ wb_Quote b sc @ '' is not in Scopes''), t)
                            | None \<Rightarrow>
                                let o' = with_defaults (sv_Options tokens) opts
                                in (case first_bad (\<lambda>p. p = [] \<or> prefix ''/'' p)
                                          [op_AuthorizePath o', op_TokenPath o', op_RegisterPath o', op_RevokePath o'] of
                                      Some p \<Rightarrow> (Inl (''oauth: endpoint path '' @ wb_Quote b p @ '' must start with /''), t)
                                    | None \<Rightarrow>
                                        let o' = with_paths o';
                                            (key, t) = (if length (op_CSRFKey o') = 0 then rand_Read x 32 t
                                                        else (op_CSRFKey o', t));
                                            o' = o'\<lparr>op_CSRFKey := key\<rparr>;
                                            o' = (if op_RegisterLimit o' = 0 then o'\<lparr>op_RegisterLimit := 20\<rparr> else o')
                                        in (Inr (\<lparr>sr_users = users, sr_tokens = tokens, sr_store = store, sr_opts = o',
                                                   sr_issuer = wb_String b iu, sr_ipath = wb_EscapedPath b iu,
                                                   sr_signer = TokenOptions_ResolvedSigner (sv_Options tokens),
                                                   sr_limiter = (if op_RegisterLimit o' > 0
                                                     then Some \<lparr>il_limit = op_RegisterLimit o', il_window = minute\<rparr> else None),
                                                   sr_scopeSet = op_Scopes opts,
                                                   sr_resourceList = List.map_filter (canonicalResource x b) (op_Resources opts)\<rparr>,
                                                 case op_CIMD o' of None \<Rightarrow> NewCIMDFetcher | Some f \<Rightarrow> f), t)))))
      | _ \<Rightarrow> (Inl ''oauth: users, tokens and store are required'', t))"

definition Server_Issuer :: "'s server \<Rightarrow> string" where
  "Server_Issuer s = sr_issuer s"

definition Server_endpoint :: "'s server \<Rightarrow> string \<Rightarrow> string" where
  "Server_endpoint s path = sr_issuer s @ path"

definition Server_mountPath :: "'s server \<Rightarrow> string \<Rightarrow> string" where
  "Server_mountPath s path = sr_ipath s @ path"

definition Server_MetadataPath :: "'s server \<Rightarrow> string" where
  "Server_MetadataPath s = ''/.well-known/oauth-authorization-server'' @ sr_ipath s"

datatype endpoint = MetadataEndpoint | AuthorizeEndpoint | TokenEndpoint | RevokeEndpoint | RegisterEndpoint

definition Server_Routes :: "'s server \<Rightarrow> (string \<times> endpoint) list" where
  "Server_Routes s =
     [(Server_MetadataPath s, MetadataEndpoint),
      (Server_mountPath s (op_AuthorizePath (sr_opts s)), AuthorizeEndpoint),
      (Server_mountPath s (op_TokenPath (sr_opts s)), TokenEndpoint),
      (Server_mountPath s (op_RevokePath (sr_opts s)), RevokeEndpoint)]
     @ (if op_AllowDCR (sr_opts s) then [(Server_mountPath s (op_RegisterPath (sr_opts s)), RegisterEndpoint)] else [])"

definition json_strings :: "string list \<Rightarrow> json" where
  "json_strings xs = JArr (map JStr xs)"

definition Server_Metadata :: "'s server \<Rightarrow> (string, json) gomap" where
  "Server_Metadata s =
     (let m = [(''issuer'', JStr (sr_issuer s)),
               (''authorization_endpoint'', JStr (Server_endpoint s (op_AuthorizePath (sr_opts s)))),
               (''token_endpoint'', JStr (Server_endpoint s (op_TokenPath (sr_opts s)))),
               (''revocation_endpoint'', JStr (Server_endpoint s (op_RevokePath (sr_opts s)))),
               (''response_types_supported'', json_strings [''code'']),
               (''response_modes_supported'', json_strings [''query'']),
               (''grant_types_supported'', json_strings [GrantTypeAuthorizationCode, GrantTypeRefreshToken]),
               (''code_challenge_methods_supported'', json_strings [''S256'']),
               (''client_id_metadata_document_supported'', JBool (op_AllowCIMD (sr_opts s))),
               (''authorization_response_iss_parameter_supported'', JBool True)];
          m = (if op_Scopes (sr_opts s) \<noteq> []
               then AList.update ''scopes_supported'' (json_strings (op_Scopes (sr_opts s))) m else m);
          authMethods = [AuthMethodNone, AuthMethodClientSecretBasic, AuthMethodClientSecretPost]
            @ (if op_AllowCIMD (sr_opts s) then [AuthMethodPrivateKeyJWT] else []);
          m = (if op_AllowCIMD (sr_opts s)
               then AList.update ''revocation_endpoint_auth_signing_alg_values_supported'' (json_strings AssertionSigningAlgs)
                      (AList.update ''token_endpoint_auth_signing_alg_values_supported'' (json_strings AssertionSigningAlgs) m)
               else m);
          m = AList.update ''token_endpoint_auth_methods_supported'' (json_strings authMethods) m;
          m = AList.update ''revocation_endpoint_auth_methods_supported'' (json_strings authMethods) m
      in if op_AllowDCR (sr_opts s)
         then AList.update ''registration_endpoint'' (JStr (Server_endpoint s (op_RegisterPath (sr_opts s)))) m else m)"

section \<open>Resolution\<close>

text \<open>The text of an error of package \<open>identity\<close>: code and description. Of an error made on the
  spot the model keeps the code only.\<close>

fun IdentityError_Error :: "go_error \<Rightarrow> string" where
  "IdentityError_Error ErrNotFound = ''identity: entity not found''"
| "IdentityError_Error ErrUserNotFound = ''UserNotFound: User does not exist.''"
| "IdentityError_Error ErrRoleNotFound = ''RoleNotFound: Role does not exist.''"
| "IdentityError_Error ErrDuplicateUserName = ''DuplicateUserName: User name is already taken.''"
| "IdentityError_Error ErrDuplicateEmail = ''DuplicateEmail: Email is already taken.''"
| "IdentityError_Error ErrDuplicateRoleName = ''DuplicateRoleName: Role name is already taken.''"
| "IdentityError_Error ErrPasswordTooShort = ''PasswordTooShort: Password does not meet length requirement.''"
| "IdentityError_Error ErrPasswordRequiresDigit = ''PasswordRequiresDigit: Passwords must have at least one digit.''"
| "IdentityError_Error ErrPasswordRequiresUpper = ''PasswordRequiresUpper: Passwords must have at least one uppercase letter.''"
| "IdentityError_Error ErrPasswordRequiresLower = ''PasswordRequiresLower: Passwords must have at least one lowercase letter.''"
| "IdentityError_Error ErrPasswordRequiresNonAlpha = ''PasswordRequiresNonAlphanumeric: Passwords must have at least one non-alphanumeric character.''"
| "IdentityError_Error ErrPasswordRequiresUnique = ''PasswordRequiresUniqueChars: Passwords must use a minimum number of distinct characters.''"
| "IdentityError_Error ErrInvalidUserName = ''InvalidUserName: User name contains characters that are not allowed.''"
| "IdentityError_Error ErrPasswordAlreadySet = ''PasswordAlreadySet: User already has a password; use ChangePassword instead.''"
| "IdentityError_Error ErrLoginAlreadyUsed = ''LoginAlreadyAssociated: External login is already associated with a user.''"
| "IdentityError_Error ErrNotAnonymous = ''NotAnonymous: User is not a guest (anonymous) account.''"
| "IdentityError_Error ErrPurgeNotSupported = ''PurgeNotSupported: The configured store does not support purging anonymous users.''"
| "IdentityError_Error ErrInvalidAPIKey = ''InvalidAPIKey: API key is invalid, revoked or expired.''"
| "IdentityError_Error ErrPasswordMismatch = ''PasswordMismatch: Incorrect password.''"
| "IdentityError_Error ErrUserLockedOut = ''UserLockedOut: User is locked out.''"
| "IdentityError_Error ErrInvalidToken = ''InvalidToken: Invalid token.''"
| "IdentityError_Error ErrConcurrencyFailure = ''ConcurrencyFailure: Optimistic concurrency failure, object has been modified.''"
| "IdentityError_Error ErrListNotSupported = ''ListNotSupported: The configured store does not support listing.''"
| "IdentityError_Error ErrInvalidIdentifier = ''InvalidIdentifier: A configured schema or table name is not a valid SQL identifier.''"
| "IdentityError_Error (IdentityErr code) = code"
| "IdentityError_Error (StoreErr msg) = msg"

definition stored_client :: "oauth_client \<Rightarrow> resolvedClient" where
  "stored_client c = zero_client\<lparr>rc_ID := cl_ClientID c, rc_Name := cl_Name c, rc_RedirectURIs := cl_RedirectURIs c,
     rc_AuthMethod := cl_TokenEndpointAuthMethod c, rc_SecretHash := cl_SecretHash c, rc_GrantTypes := cl_GrantTypes c\<rparr>"

definition Server_resolveClient ::
  "extern \<Rightarrow> web \<Rightarrow> 's server \<Rightarrow> time \<Rightarrow> string \<Rightarrow> 's oauth_world \<Rightarrow> (string + resolvedClient) \<times> 's oauth_world" where
  "Server_resolveClient x b s now clientID sw =
     (if clientID = [] then (Inl ''client_id is required'', sw)
      else if IsCIMDClientID x clientID then
        if \<not> op_AllowCIMD (sr_opts s)
        then (Inl ''client metadata documents are not accepted by this server'', sw)
        else let (r, f) = cimdFetcher_Resolve x b now clientID (ow_cimd sw) in (r, sw\<lparr>ow_cimd := f\<rparr>)
      else
        (case os_GetClient (sr_store s) clientID (ow sw) of
           Inl e \<Rightarrow> (Inl (if e = ErrNotFound then ''unknown client_id'' else IdentityError_Error e), sw)
         | Inr c \<Rightarrow> (Inr (stored_client c), sw)))"

definition Server_resolveResource :: "extern \<Rightarrow> web \<Rightarrow> 's server \<Rightarrow> string \<Rightarrow> oauth_error + string" where
  "Server_resolveResource x b s raw =
     (if raw = [] then
        (case sr_resourceList s of [r] \<Rightarrow> Inr r | _ \<Rightarrow> Inl (errInvalidTarget ''resource is required''))
      else
        (case canonicalResource x b raw of
           None \<Rightarrow> Inl (errInvalidTarget ''resource must be an absolute URI without fragment'')
         | Some c \<Rightarrow>
             if list_ex (\<lambda>r. r = c) (sr_resourceList s) then Inr c
             else Inl (errInvalidTarget ''resource is not served by this authorization server'')))"

definition Server_resolveScopes :: "'s server \<Rightarrow> string \<Rightarrow> oauth_error + string list" where
  "Server_resolveScopes s raw =
     (let req = parseScopes raw
      in if length req = 0
         then Inr (case op_DefaultScopes (sr_opts s) of Some d \<Rightarrow> d | None \<Rightarrow> op_Scopes (sr_opts s))
         else
           (case first_bad (\<lambda>sc. sc \<in> set (sr_scopeSet s)) req of
              Some sc \<Rightarrow> Inl (errInvalidScope (''unknown scope: '' @ sc))
            | None \<Rightarrow> Inr req))"

section \<open>Management\<close>

definition Server_ListGrants :: "'s server \<Rightarrow> string \<Rightarrow> 's world \<Rightarrow> go_error + oauth_grant list" where
  "Server_ListGrants s userID w = os_ListUserGrants (sr_store s) userID w"

definition Server_RevokeGrant :: "'s server \<Rightarrow> string \<Rightarrow> string \<Rightarrow> 's world \<Rightarrow> go_error option \<times> 's world" where
  "Server_RevokeGrant s userID grantID w =
     (case os_GetGrant (sr_store s) grantID w of
        Inl e \<Rightarrow> if e = ErrNotFound then (None, w) else (Some e, w)
      | Inr g \<Rightarrow> if g_UserID g \<noteq> userID then (Some ErrNotFound, w) else os_DeleteGrant (sr_store s) grantID w)"

definition Server_RevokeClient :: "'s server \<Rightarrow> string \<Rightarrow> string \<Rightarrow> 's world \<Rightarrow> go_error option \<times> 's world" where
  "Server_RevokeClient s userID clientID w =
     (case os_DeleteUserClientGrants (sr_store s) userID clientID w of
        (Inl e, w) \<Rightarrow> (Some e, w)
      | (Inr _, w) \<Rightarrow> os_DeleteConsent (sr_store s) userID clientID w)"

definition Server_PurgeExpired :: "'s server \<Rightarrow> time \<Rightarrow> 's world \<Rightarrow> (go_error + int \<times> int) \<times> 's world" where
  "Server_PurgeExpired s now w =
     (case os_DeleteExpiredCodes (sr_store s) now w of
        (Inl e, w) \<Rightarrow> (Inl e, w)
      | (Inr codes, w) \<Rightarrow>
          (case os_DeleteExpiredGrants (sr_store s) now w of
             (Inl e, w) \<Rightarrow> (Inl e, w)
           | (Inr grants, w) \<Rightarrow>
               (case os_DeleteExpiredClientAssertions (sr_store s) now w of
                  (Inl e, w) \<Rightarrow> (Inl e, w)
                | (Inr _, w) \<Rightarrow> (Inr (codes, grants), w))))"

definition Server_PurgeStaleClients :: "'s server \<Rightarrow> time \<Rightarrow> 's world \<Rightarrow> (go_error + int) \<times> 's world" where
  "Server_PurgeStaleClients s olderThan w = os_DeleteStaleClients (sr_store s) olderThan w"

section \<open>The rate limiter\<close>

definition ipLimiter_allow ::
  "ipLimiter \<Rightarrow> time \<Rightarrow> string \<Rightarrow> (string, window) gomap \<Rightarrow> bool \<times> (string, window) gomap" where
  "ipLimiter_allow l now ip hits =
     (let hits = (if length hits > 10000
                  then delete_if (\<lambda>_ w. time_Sub now (wd_start w) > il_window l) hits else hits);
          fresh = (True, AList.update ip \<lparr>wd_start = now, wd_n = 1\<rparr> hits)
      in (case map_of hits ip of
            None \<Rightarrow> fresh
          | Some w \<Rightarrow>
              if time_Sub now (wd_start w) > il_window l then fresh
              else if wd_n w \<ge> il_limit l then (False, hits)
              else (True, AList.update ip (w\<lparr>wd_n := wd_n w + 1\<rparr>) hits)))"

section \<open>Registration\<close>

record clientMetadata =
  md_RedirectURIs :: "string list"
  md_TokenEndpointAuthMethod :: string
  md_GrantTypes :: "string list"
  md_ResponseTypes :: "string list"
  md_ClientName :: string

record clientRegistration =
  cr_ClientID :: string
  cr_ClientSecret :: string
  cr_ClientIDIssuedAt :: int
  cr_ClientSecretExpiresAt :: "int option"
  cr_RedirectURIs :: "string list"
  cr_TokenEndpointAuthMethod :: string
  cr_GrantTypes :: "string list"
  cr_ResponseTypes :: "string list"
  cr_ClientName :: string

definition bad_metadata :: "string \<Rightarrow> oauth_error" where
  "bad_metadata d = oerr 400 ''invalid_client_metadata'' d"

text \<open>The checks of \<open>register\<close>, in order, with the defaults they fill in.\<close>

definition check_metadata ::
  "extern \<Rightarrow> web \<Rightarrow> clientMetadata \<Rightarrow> oauth_error + string \<times> string list \<times> string list" where
  "check_metadata x b m =
     (if length (md_RedirectURIs m) = 0 then Inl (errInvalidRedirect ''at least one redirect_uri is required'')
      else if length (md_RedirectURIs m) > 20 then Inl (errInvalidRedirect ''too many redirect_uris'')
      else
        (case List.map_filter (validateRedirectURI x b) (md_RedirectURIs m) of
           e # _ \<Rightarrow> Inl e
         | [] \<Rightarrow>
             let meth = (if md_TokenEndpointAuthMethod m = [] then AuthMethodClientSecretBasic
                         else md_TokenEndpointAuthMethod m)
             in if \<not> (meth = AuthMethodNone \<or> meth = AuthMethodClientSecretBasic \<or> meth = AuthMethodClientSecretPost)
                then Inl (bad_metadata (''unsupported token_endpoint_auth_method: '' @ meth))
                else
                  let grants = (if length (md_GrantTypes m) = 0 then [GrantTypeAuthorizationCode, GrantTypeRefreshToken]
                                else md_GrantTypes m)
                  in (case first_bad (\<lambda>g. g = GrantTypeAuthorizationCode \<or> g = GrantTypeRefreshToken) grants of
                        Some g \<Rightarrow> Inl (bad_metadata (''unsupported grant_type: '' @ g))
                      | None \<Rightarrow>
                          if \<not> hasScope grants GrantTypeAuthorizationCode
                          then Inl (bad_metadata ''grant_types must include authorization_code'')
                          else
                            let resp = (if length (md_ResponseTypes m) = 0 then [''code''] else md_ResponseTypes m)
                            in (case first_bad (\<lambda>rt. rt = ''code'') resp of
                                  Some rt \<Rightarrow> Inl (bad_metadata (''unsupported response_type: '' @ rt))
                                | None \<Rightarrow> Inr (meth, grants, resp)))))"

definition Server_register ::
  "extern \<Rightarrow> web \<Rightarrow> 's server \<Rightarrow> time \<Rightarrow> clientMetadata \<Rightarrow> 's world \<Rightarrow> (oauth_error + clientRegistration) \<times> 's world" where
  "Server_register x b s now m w =
     (case check_metadata x b m of
        Inl e \<Rightarrow> (Inl e, w)
      | Inr (meth, grants, resp) \<Rightarrow>
          let name = take 256 (strings_TrimSpace (md_ClientName m));
              (i, w) = draw (uuid_NewString x) w;
              c = \<lparr>cl_ClientID = i, cl_SecretHash = [], cl_Name = name, cl_RedirectURIs = md_RedirectURIs m,
                   cl_TokenEndpointAuthMethod = meth, cl_GrantTypes = grants, cl_CreatedAt = now, cl_LastUsedAt = None\<rparr>;
              out = \<lparr>cr_ClientID = i, cr_ClientSecret = [], cr_ClientIDIssuedAt = time_Unix now,
                     cr_ClientSecretExpiresAt = None, cr_RedirectURIs = md_RedirectURIs m,
                     cr_TokenEndpointAuthMethod = meth, cr_GrantTypes = grants, cr_ResponseTypes = resp,
                     cr_ClientName = name\<rparr>;
              (c, out, w) =
                (if meth \<noteq> AuthMethodNone then
                   let (secret, w) = draw (randomSecret x 32) w
                   in (c\<lparr>cl_SecretHash := hashSecret x secret\<rparr>,
                       out\<lparr>cr_ClientSecret := secret, cr_ClientSecretExpiresAt := Some 0\<rparr>, w)
                 else (c, out, w))
          in (case os_CreateClient (sr_store s) c w of
                (Some e, w) \<Rightarrow> (Inl (errServer ''could not register client''), w)
              | (None, w) \<Rightarrow> (Inr out, w)))"

definition Server_RegisterClient ::
  "extern \<Rightarrow> web \<Rightarrow> 's server \<Rightarrow> time \<Rightarrow> clientMetadata \<Rightarrow> 's world \<Rightarrow> (oauth_error + clientRegistration) \<times> 's world" where
  "Server_RegisterClient x b s now m w = Server_register x b s now m w"

record 'b http_response =
  rp_Status :: nat
  rp_Header :: "(string, string) gomap"
  rp_Body :: 'b

datatype 'a json_body = ErrorBody oauth_error | JsonBody 'a | EmptyBody | TextBody string

definition error_response :: "(string, string) gomap \<Rightarrow> oauth_error \<Rightarrow> 'a json_body http_response" where
  "error_response h e = \<lparr>rp_Status = writeError_status e,
     rp_Header = AList.update ''Content-Type'' ''application/json'' h, rp_Body = ErrorBody e\<rparr>"

definition json_response :: "(string, string) gomap \<Rightarrow> nat \<Rightarrow> 'a \<Rightarrow> 'a json_body http_response" where
  "json_response h status v = \<lparr>rp_Status = status,
     rp_Header = AList.update ''Content-Type'' ''application/json'' h, rp_Body = JsonBody v\<rparr>"

text \<open>\<open>decoded\<close> is the outcome of decoding the request body, capped at 16 KiB, as JSON.\<close>

definition Server_RegisterHandler ::
  "extern \<Rightarrow> web \<Rightarrow> 's server \<Rightarrow> time \<Rightarrow> http_request \<Rightarrow> clientMetadata option \<Rightarrow> 's oauth_world
     \<Rightarrow> clientRegistration json_body http_response \<times> 's oauth_world" where
  "Server_RegisterHandler x b s now r decoded sw =
     (let h = cors_headers (rq_Method r)
      in if cors r then (\<lparr>rp_Status = 204, rp_Header = h, rp_Body = EmptyBody\<rparr>, sw)
         else
           let h = noStore h
           in if rq_Method r \<noteq> ''POST'' then (error_response h (oerr 405 ''invalid_request'' ''use POST''), sw)
              else
                let (allowed, sw) =
                  (case sr_limiter s of None \<Rightarrow> (True, sw)
                   | Some l \<Rightarrow> let (a, hits) = ipLimiter_allow l now (rq_ClientIP r) (ow_hits sw)
                              in (a, sw\<lparr>ow_hits := hits\<rparr>))
                in if \<not> allowed
                   then (error_response (AList.update ''Retry-After'' ''60'' h)
                           (oerr 429 ''invalid_request'' ''too many registrations; retry later''), sw)
                   else if wb_MediaType b (rq_ContentType r) \<noteq> ''application/json''
                   then (error_response h (bad_metadata ''content type must be application/json''), sw)
                   else
                     (case decoded of
                        None \<Rightarrow> (error_response h (bad_metadata ''malformed JSON''), sw)
                      | Some m \<Rightarrow>
                          (case Server_register x b s now m (ow sw) of
                             (Inl e, w) \<Rightarrow> (error_response h e, sw\<lparr>ow := w\<rparr>)
                           | (Inr reg, w) \<Rightarrow> (json_response h 201 reg, sw\<lparr>ow := w\<rparr>))))"

definition Server_MetadataHandler ::
  "'s server \<Rightarrow> http_request \<Rightarrow> (string, json) gomap json_body http_response" where
  "Server_MetadataHandler s r =
     (let h = cors_headers (rq_Method r)
      in if cors r then \<lparr>rp_Status = 204, rp_Header = h, rp_Body = EmptyBody\<rparr>
         else if rq_Method r \<noteq> ''GET'' \<and> rq_Method r \<noteq> ''HEAD''
         then \<lparr>rp_Status = 405, rp_Header = h, rp_Body = TextBody ''method not allowed''\<rparr>
         else json_response (AList.update ''Cache-Control'' ''public, max-age=300'' h) 200 (Server_Metadata s))"

end
