(* ===== verification/OAuth_Token.thy ===== *)
theory OAuth_Token
  imports OAuth_Server
begin

text \<open>
  The token endpoint (\<open>oauth/token.go\<close>) and client assertions (\<open>oauth/client_assertion.go\<close>): client
  authentication, redemption of codes, rotation of refresh tokens, access tokens and their
  validation at a resource, and revocation. Every call of the store is one atomic step; an
  operation that makes several calls threads the world through them in the code's order.
\<close>

definition ClaimClientID :: string where "ClaimClientID = ''client_id''"
definition ClaimScope :: string where "ClaimScope = ''scope''"
definition ClaimGrantID :: string where "ClaimGrantID = ''gid''"

record token_response =
  tr_AccessToken :: string
  tr_TokenType :: string
  tr_ExpiresIn :: int
  tr_RefreshToken :: string
  tr_Scope :: string

section \<open>Client assertions\<close>

text \<open>The reasons the JWT library gives for refusing a token, as the program tells them apart; the
  text of an unverifiable token is that of the key function's error.\<close>

datatype jwt_failure =
    TokenInvalid | TokenUnverifiable string | TokenSignatureInvalid | TokenInvalidAudience | TokenExpired
  | TokenRequiredClaimMissing | TokenUsedBeforeIssued | TokenNotValidYet | TokenInvalidIssuer | TokenInvalidSubject

fun assertionError :: "jwt_failure \<Rightarrow> string" where
  "assertionError TokenInvalid = ''invalid client assertion''"
| "assertionError (TokenUnverifiable msg) = ''client assertion not verifiable: '' @ msg"
| "assertionError TokenSignatureInvalid =
     ''client assertion signature or algorithm not accepted ('' @ strings_Join AssertionSigningAlgs '', '' @
     '' with the client's published keys)''"
| "assertionError TokenInvalidAudience = ''client assertion aud must be the issuer or the token endpoint URL''"
| "assertionError TokenExpired = ''client assertion has expired''"
| "assertionError TokenRequiredClaimMissing = ''client assertion must carry exp''"
| "assertionError TokenUsedBeforeIssued = ''client assertion is not valid yet (iat/nbf in the future)''"
| "assertionError TokenNotValidYet = ''client assertion is not valid yet (iat/nbf in the future)''"
| "assertionError TokenInvalidIssuer = ''client assertion iss and sub must both be the client_id''"
| "assertionError TokenInvalidSubject = ''client assertion iss and sub must both be the client_id''"

definition pick_keys :: "string \<Rightarrow> string \<Rightarrow> clientKey list \<Rightarrow> jwt_key list" where
  "pick_keys a kid keys = map ck_key (filter (\<lambda>k. clientKey_fits k a \<and> (kid = [] \<or> ck_kid k = kid)) keys)"

text \<open>The key function of \<open>authenticateAssertion\<close>; it may fetch the client's key set, once more with
  \<open>refresh\<close> when the key ID is unknown.\<close>

definition assertion_keyfunc ::
  "extern \<Rightarrow> web \<Rightarrow> time \<Rightarrow> resolvedClient \<Rightarrow> jwt_token \<Rightarrow> cimdFetcher \<Rightarrow> (string + jwt_key) \<times> cimdFetcher" where
  "assertion_keyfunc x b now client t f =
     (let a = alg (t_Method t); kid = str_claim (t_Header t) ''kid'';
          (keys, f) = (if rc_JWKSURI client \<noteq> [] then cimdFetcher_jwks x b now (rc_JWKSURI client) False f
                       else (Inr (rc_Keys client), f))
      in (case keys of
            Inl e \<Rightarrow> (Inl e, f)
          | Inr keys \<Rightarrow>
              let set1 = pick_keys a kid keys;
                  (keys2, f) = (if set1 = [] \<and> kid \<noteq> [] \<and> rc_JWKSURI client \<noteq> []
                               then (case cimdFetcher_jwks x b now (rc_JWKSURI client) True f of
                                       (Inl e, f) \<Rightarrow> (Inl e, f) | (Inr ks, f) \<Rightarrow> (Inr (pick_keys a kid ks), f))
                               else (Inr set1, f))
              in (case keys2 of
                    Inl e \<Rightarrow> (Inl e, f)
                  | Inr [] \<Rightarrow> (Inl ''no client key matches the assertion'', f)
                  | Inr ks \<Rightarrow> (Inr (VerificationKeySet ks), f))))"

definition assertion_parser :: "'s server \<Rightarrow> resolvedClient \<Rightarrow> string \<Rightarrow> string \<Rightarrow> jwt_parser" where
  "assertion_parser s client clientID endpoint =
     (let algs = (if rc_SigningAlg client \<noteq> [] then [rc_SigningAlg client] else AssertionSigningAlgs);
          tokenURL = Server_endpoint s (op_TokenPath (sr_opts s));
          audiences = [sr_issuer s, tokenURL] @ (if endpoint \<noteq> tokenURL then [endpoint] else [])
      in default_parser\<lparr>pr_ValidMethods := algs, pr_Issuer := Some clientID, pr_Subject := Some clientID,
           pr_Audience := audiences, pr_ExpirationRequired := True, pr_IssuedAt := True,
           pr_Leeway := assertionLeeway\<rparr>)"

text \<open>What follows the parse: the lifetime and the identifier of the assertion, and its record in the
  store. \<open>why\<close> classifies the library's error.\<close>

definition accept_assertion ::
  "jwt_lib \<Rightarrow> (go_error \<Rightarrow> jwt_failure) \<Rightarrow> 's server \<Rightarrow> time \<Rightarrow> resolvedClient \<Rightarrow> string \<Rightarrow> go_error + jwt_token
     \<Rightarrow> 's oauth_world \<Rightarrow> (oauth_error + resolvedClient) \<times> 's oauth_world" where
  "accept_assertion L why s now client clientID result sw =
     (case result of
        Inl e \<Rightarrow> (Inl (errInvalidClient (assertionError (why e))), sw)
      | Inr parsed \<Rightarrow>
          if \<not> t_Valid parsed then (Inl (errInvalidClient (assertionError TokenInvalid)), sw)
          else
            (case j_ExpirationTime L (t_Claims parsed) of
               None \<Rightarrow> (Inl (errInvalidClient (assertionError TokenRequiredClaimMissing)), sw)
             | Some exp \<Rightarrow>
                 if time_Sub exp now > op_ClientAssertionMaxLifetime (sr_opts s)
                 then (Inl (errInvalidClient ''client assertion lifetime is too long''), sw)
                 else
                   let jti = str_claim (t_Claims parsed) ''jti''
                   in if jti = [] \<or> length jti > maxJTILen
                      then (Inl (errInvalidClient ''client assertion must carry a jti''), sw)
                      else
                        (case os_UseClientAssertion (sr_store s) clientID jti (exp + assertionLeeway) (ow sw) of
                           (Inl _, w) \<Rightarrow> (Inl (errServer ''could not record the client assertion''), sw\<lparr>ow := w\<rparr>)
                         | (Inr False, w) \<Rightarrow> (Inl (errInvalidClient ''client assertion was already used''), sw\<lparr>ow := w\<rparr>)
                         | (Inr True, w) \<Rightarrow> (Inr client, sw\<lparr>ow := w\<rparr>))))"

text \<open>
  The library calls the key function at most once, on the decoded token and after the algorithm
  check, so its fetches happen for an accepted algorithm only; the parse then sees its answer.
\<close>

definition Server_authenticateAssertion ::
  "extern \<Rightarrow> web \<Rightarrow> jwt_lib \<Rightarrow> (go_error \<Rightarrow> jwt_failure) \<Rightarrow> 's server \<Rightarrow> time \<Rightarrow> string \<Rightarrow> url_values
     \<Rightarrow> 's oauth_world \<Rightarrow> (oauth_error + resolvedClient) \<times> 's oauth_world" where
  "Server_authenticateAssertion x b L why s now endpoint f sw =
     (if values_Get f ''client_assertion_type'' \<noteq> ClientAssertionTypeJWTBearer
      then (Inl (errInvalidClient ''unsupported client_assertion_type''), sw)
      else
        let assertion = values_Get f ''client_assertion''
        in if assertion = [] then (Inl (errInvalidRequest ''client_assertion is required''), sw)
           else
             (case j_ParseUnverified L assertion of
                Inl _ \<Rightarrow> (Inl (errInvalidClient ''malformed client assertion''), sw)
              | Inr unverified \<Rightarrow>
                  let clientID = str_claim (t_Claims unverified) ''sub''
                  in if clientID = [] \<or> str_claim (t_Claims unverified) ''iss'' \<noteq> clientID
                     then (Inl (errInvalidClient ''client assertion iss and sub must both be the client_id''), sw)
                     else if values_Get f ''client_id'' \<noteq> [] \<and> values_Get f ''client_id'' \<noteq> clientID
                     then (Inl (errInvalidClient ''client_id does not match the client assertion''), sw)
                     else
                       (case Server_resolveClient x b s now clientID sw of
                          (Inl e, sw) \<Rightarrow> (Inl (errInvalidClient e), sw)
                        | (Inr client, sw) \<Rightarrow>
                            if rc_AuthMethod client \<noteq> AuthMethodPrivateKeyJWT
                            then (Inl (errInvalidClient ''client is not registered for private_key_jwt''), sw)
                            else
                              let p = assertion_parser s client clientID endpoint;
                                  (key, sw) =
                                    (if alg (t_Method unverified) \<in> set (pr_ValidMethods p)
                                     then (case assertion_keyfunc x b now client unverified (ow_cimd sw) of
                                             (k, f) \<Rightarrow> (k, sw\<lparr>ow_cimd := f\<rparr>))
                                     else (Inl [], sw))
                              in accept_assertion L why s now client clientID
                                   (j_Parse L p now (\<lambda>_. case key of Inl e \<Rightarrow> Inl (StoreErr e) | Inr k \<Rightarrow> Inr k) assertion) sw)))"

section \<open>Client authentication\<close>

text \<open>The check of a client's secret, once the client is resolved.\<close>

definition check_secret :: "extern \<Rightarrow> resolvedClient \<Rightarrow> string \<Rightarrow> oauth_error option" where
  "check_secret x client secret =
     (if rc_AuthMethod client = AuthMethodPrivateKeyJWT
      then Some (errInvalidClient ''client must authenticate with private_key_jwt (client_assertion)'')
      else if resolvedClient_public client then
        (if secret \<noteq> [] then Some (errInvalidClient ''public client must not present a secret'') else None)
      else if secret = [] \<or> \<not> constEq (hashSecret x secret) (rc_SecretHash client)
      then Some (errInvalidClient ''invalid client credentials'')
      else None)"

text \<open>The client ID and secret a request presents.\<close>

definition presented_credentials :: "web \<Rightarrow> http_request \<Rightarrow> url_values \<Rightarrow> oauth_error + string \<times> string" where
  "presented_credentials b r form =
     (case rq_BasicAuth r of
        Some (basicID, basicSecret) \<Rightarrow>
          if values_Get form ''client_secret'' \<noteq> []
          then Inl (errInvalidRequest ''use only one client authentication method'')
          else
            (case (wb_QueryUnescape b basicID, wb_QueryUnescape b basicSecret) of
               (Some i, Some secret) \<Rightarrow>
                 if values_Get form ''client_id'' \<noteq> [] \<and> values_Get form ''client_id'' \<noteq> i
                 then Inl (errInvalidClient ''client_id mismatch'')
                 else Inr (i, secret)
             | _ \<Rightarrow> Inl (errInvalidClient ''malformed client credentials''))
      | None \<Rightarrow> Inr (values_Get form ''client_id'', values_Get form ''client_secret''))"

definition Server_authenticateClient ::
  "extern \<Rightarrow> web \<Rightarrow> jwt_lib \<Rightarrow> (go_error \<Rightarrow> jwt_failure) \<Rightarrow> 's server \<Rightarrow> time \<Rightarrow> http_request \<Rightarrow> url_values \<Rightarrow> string
     \<Rightarrow> 's oauth_world \<Rightarrow> (oauth_error + resolvedClient) \<times> bool \<times> 's oauth_world" where
  "Server_authenticateClient x b L why s now r form endpoint sw =
     (let basic = (rq_BasicAuth r \<noteq> None)
      in if values_Has form ''client_assertion'' \<or> values_Has form ''client_assertion_type'' then
           if basic \<or> values_Get form ''client_secret'' \<noteq> []
           then (Inl (errInvalidRequest ''use only one client authentication method''), basic, sw)
           else
             let (client, sw) = Server_authenticateAssertion x b L why s now endpoint form sw
             in (client, False, sw)
         else
           (case presented_credentials b r form of
              Inl e \<Rightarrow> (Inl e, basic, sw)
            | Inr (i, secret) \<Rightarrow>
                if i = [] then (Inl (errInvalidClient ''client authentication required''), basic, sw)
                else
                  (case Server_resolveClient x b s now i sw of
                     (Inl e, sw) \<Rightarrow> (Inl (errInvalidClient e), basic, sw)
                   | (Inr client, sw) \<Rightarrow>
                       (case check_secret x client secret of
                          Some e \<Rightarrow> (Inl e, basic, sw)
                        | None \<Rightarrow> (Inr client, basic, sw)))))"

definition Server_clientAllows :: "resolvedClient \<Rightarrow> string \<Rightarrow> bool" where
  "Server_clientAllows c grantType =
     (if length (rc_GrantTypes c) = 0
      then grantType = GrantTypeAuthorizationCode \<or> grantType = GrantTypeRefreshToken
      else hasScope (rc_GrantTypes c) grantType)"

definition Server_issuesRefresh :: "'s server \<Rightarrow> resolvedClient \<Rightarrow> string list \<Rightarrow> bool" where
  "Server_issuesRefresh s c scopes =
     (if \<not> Server_clientAllows c GrantTypeRefreshToken then False
      else if op_RequireOfflineAccess (sr_opts s) then hasScope scopes ScopeOfflineAccess
      else True)"

section \<open>Access tokens\<close>

definition access_claims :: "'s server \<Rightarrow> time \<Rightarrow> user \<Rightarrow> oauth_grant \<Rightarrow> string list \<Rightarrow> string \<Rightarrow> claims" where
  "access_claims s now u g scopes jti =
     [(''iss'', JStr (sr_issuer s)), (''sub'', JStr (u_ID u)), (''aud'', JStr (g_Resource g)),
      (''iat'', JNum (time_Unix now)), (''nbf'', JNum (time_Unix now)),
      (''exp'', JNum (time_Unix (now + op_AccessTokenTTL (sr_opts s)))), (''jti'', JStr jti),
      (ClaimClientID, JStr (g_ClientID g)), (ClaimScope, JStr (joinScopes scopes)),
      (ClaimGrantID, JStr (g_ID g)), (ClaimSecurityStamp, JStr (u_SecurityStamp u))]"

definition Server_signAccessToken ::
  "extern \<Rightarrow> jwt_lib \<Rightarrow> 's server \<Rightarrow> time \<Rightarrow> user \<Rightarrow> oauth_grant \<Rightarrow> string list \<Rightarrow> 's world
     \<Rightarrow> (go_error + string \<times> time) \<times> 's world" where
  "Server_signAccessToken x L s now u g scopes w =
     (let exp = now + op_AccessTokenTTL (sr_opts s);
          (jti, w) = draw (uuid_NewString x) w;
          claims = access_claims s now u g scopes jti;
          claims = (case UserManager_GetRoles (sr_users s) u w of
                      Inr roles \<Rightarrow> if roles \<noteq> [] then AList.update ClaimRole (JArr (map JStr roles)) claims else claims
                    | Inl _ \<Rightarrow> claims);
          header = AList.update ''typ'' (JStr TokenTypeAccessJWT) (j_NewHeader L (sg_Method (sr_signer s)));
          (kid, key) = sg_SignKey (sr_signer s)
      in (case j_SignedString L (sg_Method (sr_signer s)) (with_kid kid header) claims key of
            Inl e \<Rightarrow> (Inl e, w)
          | Inr tok \<Rightarrow> (Inr (tok, exp), w)))"

definition Server_tokenResponse ::
  "extern \<Rightarrow> jwt_lib \<Rightarrow> 's server \<Rightarrow> time \<Rightarrow> user \<Rightarrow> oauth_grant \<Rightarrow> string list \<Rightarrow> string \<Rightarrow> 's world
     \<Rightarrow> (oauth_error + token_response) \<times> 's world" where
  "Server_tokenResponse x L s now u g scopes refresh w =
     (case Server_signAccessToken x L s now u g scopes w of
        (Inl _, w) \<Rightarrow> (Inl (errServer ''could not sign access token''), w)
      | (Inr (tok, exp), w) \<Rightarrow>
          (Inr \<lparr>tr_AccessToken = tok, tr_TokenType = ''Bearer'',
                tr_ExpiresIn = (let d = time_Sub exp now in if d < 0 then - ((- d) div second) else d div second),
                tr_RefreshToken = refresh, tr_Scope = joinScopes scopes\<rparr>, w))"

definition resource_parser :: "'s server \<Rightarrow> string \<Rightarrow> jwt_parser" where
  "resource_parser s res = default_parser\<lparr>pr_ValidMethods := [alg (sg_Method (sr_signer s))],
     pr_Issuer := Some (sr_issuer s), pr_Audience := [res], pr_ExpirationRequired := True\<rparr>"

definition Server_ValidateResourceToken ::
  "extern \<Rightarrow> web \<Rightarrow> jwt_lib \<Rightarrow> 's server \<Rightarrow> time \<Rightarrow> string \<Rightarrow> string \<Rightarrow> 's world \<Rightarrow> go_error + user \<times> claims" where
  "Server_ValidateResourceToken x b L s now token resource w =
     (case canonicalResource x b resource of
        None \<Rightarrow> Inl ErrInvalidToken
      | Some res \<Rightarrow>
          (case j_Parse L (resource_parser s res) now (sg_Keyfunc (sr_signer s)) token of
             Inl _ \<Rightarrow> Inl ErrInvalidToken
           | Inr parsed \<Rightarrow>
               if \<not> t_Valid parsed then Inl ErrInvalidToken
               else if \<not> equal_fold_ascii (str_claim (t_Header parsed) ''typ'') TokenTypeAccessJWT
               then Inl ErrInvalidToken
               else
                 let claims = t_Claims parsed; sub = str_claim claims ''sub''; gid = str_claim claims ClaimGrantID
                 in if sub = [] \<or> gid = [] then Inl ErrInvalidToken
                    else
                      (case UserManager_FindByID (sr_users s) sub w of
                         Inl e \<Rightarrow> Inl (if e = ErrNotFound then ErrInvalidToken else e)
                       | Inr u \<Rightarrow>
                           if \<not> constEq (str_claim claims ClaimSecurityStamp) (u_SecurityStamp u) then Inl ErrInvalidToken
                           else if UserManager_IsLockedOut now u then Inl ErrInvalidToken
                           else
                             (case os_GetGrant (sr_store s) gid w of
                                Inl e \<Rightarrow> Inl (if e = ErrNotFound then ErrInvalidToken else e)
                              | Inr g \<Rightarrow> if g_UserID g \<noteq> u_ID u then Inl ErrInvalidToken else Inr (u, claims)))))"

section \<open>Redemption of codes\<close>

definition unavailable :: oauth_error where
  "unavailable = errInvalidGrant ''the authorizing user is not available''"

definition available_user :: "'s server \<Rightarrow> time \<Rightarrow> string \<Rightarrow> 's world \<Rightarrow> user option" where
  "available_user s now uid w =
     (case UserManager_FindByID (sr_users s) uid w of
        Inl _ \<Rightarrow> None
      | Inr u \<Rightarrow> if UserManager_IsLockedOut now u then None else Some u)"

text \<open>\<open>_ = s.store.DeleteGrant(...)\<close>: the result is dropped.\<close>

definition drop_grant :: "'s server \<Rightarrow> string \<Rightarrow> 's world \<Rightarrow> 's world" where
  "drop_grant s gid w = snd (os_DeleteGrant (sr_store s) gid w)"

text \<open>The checks of \<open>exchangeCode\<close> on an unused code, in order.\<close>

definition check_code ::
  "extern \<Rightarrow> web \<Rightarrow> time \<Rightarrow> resolvedClient \<Rightarrow> url_values \<Rightarrow> oauth_code \<Rightarrow> oauth_error option" where
  "check_code x b now client f code =
     (if now > cd_ExpiresAt code then Some (errInvalidGrant ''authorization code expired'')
      else if cd_ClientID code \<noteq> rc_ID client
      then Some (errInvalidGrant ''authorization code was issued to another client'')
      else if values_Get f ''redirect_uri'' \<noteq> [] \<and> values_Get f ''redirect_uri'' \<noteq> cd_RedirectURI code
      then Some (errInvalidGrant ''redirect_uri does not match the authorization request'')
      else if \<not> verifyS256 x (values_Get f ''code_verifier'') (cd_CodeChallenge code)
      then Some (errInvalidGrant ''PKCE verification failed'')
      else if values_Get f ''resource'' \<noteq> [] \<and> canonicalResource x b (values_Get f ''resource'') \<noteq> Some (cd_Resource code)
      then Some (errInvalidTarget ''resource does not match the authorization request'')
      else None)"

definition Server_exchangeCode ::
  "extern \<Rightarrow> web \<Rightarrow> jwt_lib \<Rightarrow> 's server \<Rightarrow> time \<Rightarrow> resolvedClient \<Rightarrow> url_values \<Rightarrow> 's world
     \<Rightarrow> (oauth_error + token_response) \<times> 's world" where
  "Server_exchangeCode x b L s now client f w =
     (if \<not> Server_clientAllows client GrantTypeAuthorizationCode
      then (Inl (oerr 400 ''unauthorized_client'' ''client may not use this grant''), w)
      else if values_Get f ''code'' = [] then (Inl (errInvalidRequest ''code is required''), w)
      else
        let hash = hashSecret x (values_Get f ''code'')
        in (case os_GetCode (sr_store s) hash w of
              Inl e \<Rightarrow> (Inl (if e = ErrNotFound then errInvalidGrant ''invalid authorization code''
                            else errServer ''code lookup failed''), w)
            | Inr code \<Rightarrow>
                if cd_UsedAt code \<noteq> None
                then (Inl (errInvalidGrant ''authorization code already used''),
                      if cd_GrantID code \<noteq> [] then drop_grant s (cd_GrantID code) w else w)
                else
                  (case check_code x b now client f code of
                     Some e \<Rightarrow> (Inl e, w)
                   | None \<Rightarrow>
                       (case available_user s now (cd_UserID code) w of
                          None \<Rightarrow> (Inl unavailable, w)
                        | Some u \<Rightarrow>
                            let (grantID, w) = draw (uuid_NewString x) w
                            in (case os_MarkCodeUsed (sr_store s) hash grantID now w of
                                  (Inl _, w) \<Rightarrow> (Inl (errServer ''could not redeem code''), w)
                                | (Inr False, w) \<Rightarrow>
                                    (Inl (errInvalidGrant ''authorization code already used''),
                                     case os_GetCode (sr_store s) hash w of
                                       Inl _ \<Rightarrow> w
                                     | Inr c \<Rightarrow> if cd_GrantID c \<noteq> [] then drop_grant s (cd_GrantID c) w else w)
                                | (Inr True, w) \<Rightarrow>
                                    let scopes = parseScopes (cd_Scopes code);
                                        g = \<lparr>g_ID = grantID, g_UserID = u_ID u, g_ClientID = rc_ID client,
                                             g_Scopes = cd_Scopes code, g_Resource = cd_Resource code,
                                             g_TokenHash = [], g_PrevTokenHash = [], g_SecurityStamp = u_SecurityStamp u,
                                             g_ExpiresAt = now + op_RefreshTokenTTL (sr_opts s), g_CreatedAt = now,
                                             g_LastUsedAt = None\<rparr>;
                                        (g, refresh, w) =
                                          (if Server_issuesRefresh s client scopes then
                                             let (secret, w) = draw (randomSecret x 32) w
                                             in (g\<lparr>g_TokenHash := hashSecret x secret\<rparr>, g_ID g @ ''.'' @ secret, w)
                                           else (g, [], w))
                                    in (case os_CreateGrant (sr_store s) g w of
                                          (Some _, w) \<Rightarrow> (Inl (errServer ''could not create grant''), w)
                                        | (None, w) \<Rightarrow>
                                            let w = (if \<not> rc_CIMD client
                                                     then snd (os_TouchClient (sr_store s) (rc_ID client) now w) else w)
                                            in Server_tokenResponse x L s now u g scopes refresh w))))))"

section \<open>Rotation of refresh tokens\<close>

text \<open>The checks on a grant whose current refresh token was presented, in order: an error, or the
  user and the scopes of the new access token. \<open>kill\<close> says that the grant is deleted.\<close>

definition check_refresh ::
  "extern \<Rightarrow> web \<Rightarrow> 's server \<Rightarrow> time \<Rightarrow> url_values \<Rightarrow> oauth_grant \<Rightarrow> 's world
     \<Rightarrow> oauth_error \<times> bool + user \<times> string list" where
  "check_refresh x b s now f g w =
     (if now > g_ExpiresAt g then Inl (errInvalidGrant ''refresh token expired'', True)
      else if values_Get f ''resource'' \<noteq> [] \<and> canonicalResource x b (values_Get f ''resource'') \<noteq> Some (g_Resource g)
      then Inl (errInvalidTarget ''resource does not match the grant'', False)
      else
        (case available_user s now (g_UserID g) w of
           None \<Rightarrow> Inl (unavailable, False)
         | Some u \<Rightarrow>
             if \<not> constEq (u_SecurityStamp u) (g_SecurityStamp g)
             then Inl (errInvalidGrant ''grant was revoked'', True)
             else
               let scopes = parseScopes (g_Scopes g); req = parseScopes (values_Get f ''scope'')
               in if length req > 0 then
                    (if \<not> containsAll scopes req
                     then Inl (errInvalidScope ''requested scope exceeds the original grant'', False)
                     else Inr (u, req))
                  else Inr (u, scopes)))"

text \<open>A rotated-away token that comes back within the configured window is a benign retry.\<close>

definition in_grace :: "server_options \<Rightarrow> time \<Rightarrow> oauth_grant \<Rightarrow> bool" where
  "in_grace opts now g \<longleftrightarrow> op_RefreshReuseGrace opts > 0 \<and>
     (case g_LastUsedAt g of None \<Rightarrow> False | Some t \<Rightarrow> time_Sub now t \<le> op_RefreshReuseGrace opts)"

definition Server_refreshGrant ::
  "extern \<Rightarrow> web \<Rightarrow> jwt_lib \<Rightarrow> 's server \<Rightarrow> time \<Rightarrow> resolvedClient \<Rightarrow> url_values \<Rightarrow> 's world
     \<Rightarrow> (oauth_error + token_response) \<times> 's world" where
  "Server_refreshGrant x b L s now client f w =
     (if \<not> Server_clientAllows client GrantTypeRefreshToken
      then (Inl (oerr 400 ''unauthorized_client'' ''client may not use this grant''), w)
      else
        (case strings_Cut (values_Get f ''refresh_token'') (CHR ''.'') of
           None \<Rightarrow> (Inl (errInvalidGrant ''invalid refresh token''), w)
         | Some (gid, secret) \<Rightarrow>
             if gid = [] \<or> secret = [] \<or> length gid > 64
             then (Inl (errInvalidGrant ''invalid refresh token''), w)
             else
               (case os_GetGrant (sr_store s) gid w of
                  Inl e \<Rightarrow> (Inl (if e = ErrNotFound then errInvalidGrant ''invalid refresh token''
                                else errServer ''grant lookup failed''), w)
                | Inr g \<Rightarrow>
                    if g_ClientID g \<noteq> rc_ID client
                    then (Inl (errInvalidGrant ''refresh token was issued to another client''), w)
                    else
                      let presented = hashSecret x secret
                      in if g_TokenHash g = [] \<or> \<not> constEq presented (g_TokenHash g) then
                           if g_PrevTokenHash g \<noteq> [] \<and> constEq presented (g_PrevTokenHash g) then
                             (Inl (errInvalidGrant ''refresh token already used''),
                              if \<not> in_grace (sr_opts s) now g then drop_grant s (g_ID g) w else w)
                           else (Inl (errInvalidGrant ''invalid refresh token''), w)
                         else
                           (case check_refresh x b s now f g w of
                              Inl (e, kill) \<Rightarrow> (Inl e, if kill then drop_grant s (g_ID g) w else w)
                            | Inr (u, scopes) \<Rightarrow>
                                let (newSecret, w) = draw (randomSecret x 32) w
                                in (case os_RotateGrant (sr_store s) (g_ID g) (g_TokenHash g) (hashSecret x newSecret)
                                           (now + op_RefreshTokenTTL (sr_opts s)) now w of
                                      (Inl _, w) \<Rightarrow> (Inl (errServer ''could not rotate refresh token''), w)
                                    | (Inr False, w) \<Rightarrow> (Inl (errInvalidGrant ''refresh token already used''), w)
                                    | (Inr True, w) \<Rightarrow>
                                        Server_tokenResponse x L s now u g scopes (g_ID g @ ''.'' @ newSecret) w)))))"

section \<open>Revocation\<close>

definition revoke_parser :: "'s server \<Rightarrow> jwt_parser" where
  "revoke_parser s = default_parser\<lparr>pr_ValidMethods := [alg (sg_Method (sr_signer s))], pr_Issuer := Some (sr_issuer s)\<rparr>"

definition Server_grantIDOf :: "extern \<Rightarrow> jwt_lib \<Rightarrow> 's server \<Rightarrow> time \<Rightarrow> string \<Rightarrow> 's world \<Rightarrow> string" where
  "Server_grantIDOf x L s now token w =
     (case (case strings_Cut token (CHR ''.'') of
              Some (gid, secret) \<Rightarrow> if CHR ''.'' \<notin> set secret then Some (gid, secret) else None
            | None \<Rightarrow> None) of
        Some (gid, secret) \<Rightarrow>
          (case os_GetGrant (sr_store s) gid w of
             Inl _ \<Rightarrow> []
           | Inr g \<Rightarrow>
               let h = hashSecret x secret
               in if (g_TokenHash g \<noteq> [] \<and> constEq h (g_TokenHash g)) \<or>
                     (g_PrevTokenHash g \<noteq> [] \<and> constEq h (g_PrevTokenHash g)) then gid else [])
      | None \<Rightarrow>
          (case j_Parse L (revoke_parser s) now (sg_Keyfunc (sr_signer s)) token of
             Inl _ \<Rightarrow> []
           | Inr parsed \<Rightarrow>
               if \<not> t_Valid parsed then []
               else if \<not> equal_fold_ascii (str_claim (t_Header parsed) ''typ'') TokenTypeAccessJWT then []
               else str_claim (t_Claims parsed) ClaimGrantID))"

section \<open>The handlers\<close>

definition duplicated :: "url_values \<Rightarrow> string option" where
  "duplicated v = map_option fst (find (\<lambda>(_, vs). length vs > 1) v)"

definition client_error_response ::
  "(string, string) gomap \<Rightarrow> bool \<Rightarrow> oauth_error \<Rightarrow> 'a json_body http_response" where
  "client_error_response h basic e =
     error_response (if oe_Code e = ''invalid_client'' \<and> basic
                     then AList.update ''WWW-Authenticate'' (''Basic realm='' @ [CHR 0x22] @ ''oauth'' @ [CHR 0x22]) h else h) e"

definition Server_TokenHandler ::
  "extern \<Rightarrow> web \<Rightarrow> jwt_lib \<Rightarrow> (go_error \<Rightarrow> jwt_failure) \<Rightarrow> 's server \<Rightarrow> time \<Rightarrow> http_request \<Rightarrow> 's oauth_world
     \<Rightarrow> token_response json_body http_response \<times> 's oauth_world" where
  "Server_TokenHandler x b L why s now r sw =
     (let h = cors_headers (rq_Method r)
      in if cors r then (\<lparr>rp_Status = 204, rp_Header = h, rp_Body = EmptyBody\<rparr>, sw)
         else
           let h = noStore h
           in if rq_Method r \<noteq> ''POST'' then (error_response h (oerr 405 ''invalid_request'' ''use POST''), sw)
              else if wb_MediaType b (rq_ContentType r) \<noteq> ''application/x-www-form-urlencoded''
              then (error_response h (errInvalidRequest ''content type must be application/x-www-form-urlencoded''), sw)
              else
                (case rq_PostForm r of
                   None \<Rightarrow> (error_response h (errInvalidRequest ''malformed form body''), sw)
                 | Some form \<Rightarrow>
                     (case duplicated form of
                        Some k \<Rightarrow> (error_response h (errInvalidRequest (''parameter '' @ k @ '' is duplicated'')), sw)
                      | None \<Rightarrow>
                          (case Server_authenticateClient x b L why s now r form
                                  (Server_endpoint s (op_TokenPath (sr_opts s))) sw of
                             (Inl e, basic, sw) \<Rightarrow> (client_error_response h basic e, sw)
                           | (Inr client, basic, sw) \<Rightarrow>
                               let gt = values_Get form ''grant_type'';
                                   (resp, sw) =
                                     (if gt = GrantTypeAuthorizationCode
                                      then on_world (Server_exchangeCode x b L s now client form (ow sw)) sw
                                      else if gt = GrantTypeRefreshToken
                                      then on_world (Server_refreshGrant x b L s now client form (ow sw)) sw
                                      else if gt = [] then (Inl (errInvalidRequest ''grant_type is required''), sw)
                                      else (Inl (errUnsupportedGrant (''unsupported grant_type: '' @ gt)), sw))
                               in (case resp of
                                     Inl e \<Rightarrow> (error_response h e, sw)
                                   | Inr tr \<Rightarrow> (json_response h 200 tr, sw))))))"

definition Server_RevokeHandler ::
  "extern \<Rightarrow> web \<Rightarrow> jwt_lib \<Rightarrow> (go_error \<Rightarrow> jwt_failure) \<Rightarrow> 's server \<Rightarrow> time \<Rightarrow> http_request \<Rightarrow> 's oauth_world
     \<Rightarrow> unit json_body http_response \<times> 's oauth_world" where
  "Server_RevokeHandler x b L why s now r sw =
     (let h = cors_headers (rq_Method r)
      in if cors r then (\<lparr>rp_Status = 204, rp_Header = h, rp_Body = EmptyBody\<rparr>, sw)
         else
           let h = noStore h
           in if rq_Method r \<noteq> ''POST'' then (error_response h (oerr 405 ''invalid_request'' ''use POST''), sw)
              else if wb_MediaType b (rq_ContentType r) \<noteq> ''application/x-www-form-urlencoded''
              then (error_response h (errInvalidRequest ''content type must be application/x-www-form-urlencoded''), sw)
              else
                (case rq_PostForm r of
                   None \<Rightarrow> (error_response h (errInvalidRequest ''malformed form body''), sw)
                 | Some form \<Rightarrow>
                     (case Server_authenticateClient x b L why s now r form
                             (Server_endpoint s (op_RevokePath (sr_opts s))) sw of
                        (Inl e, basic, sw) \<Rightarrow> (client_error_response h basic e, sw)
                      | (Inr client, basic, sw) \<Rightarrow>
                          let token = values_Get form ''token''
                          in if token = [] then (error_response h (errInvalidRequest ''token is required''), sw)
                             else
                               let gid = Server_grantIDOf x L s now token (ow sw);
                                   w = (if gid = [] then ow sw
                                        else (case os_GetGrant (sr_store s) gid (ow sw) of
                                                Inl _ \<Rightarrow> ow sw
                                              | Inr g \<Rightarrow> if g_ClientID g = rc_ID client then drop_grant s gid (ow sw) else ow sw))
                               in (\<lparr>rp_Status = 200, rp_Header = h, rp_Body = EmptyBody\<rparr>, sw\<lparr>ow := w\<rparr>))))"

end
