(* ===== verification/OAuth_Authorize.thy ===== *)
theory OAuth_Authorize
  imports OAuth_Token
begin

text \<open>
  The authorization endpoint (\<open>oauth/authorize.go\<close>): validation of the request in its two phases,
  login and consent, the CSRF token of the consent form, remembered consents and the issuing of
  codes. A reply is what the handler makes the browser see; the pages' HTML is not modelled, the
  data they show is.
\<close>

definition authzParams :: "string list" where
  "authzParams = [''response_type'', ''client_id'', ''redirect_uri'', ''state'', ''scope'',
     ''code_challenge'', ''code_challenge_method'', ''resource'']"

record authzRequest =
  ar_v :: url_values
  ar_client :: resolvedClient
  ar_redirectURI :: string
  ar_state :: string
  ar_scopes :: "string list"
  ar_resource :: string
  ar_challenge :: string

section \<open>Validation\<close>

text \<open>\<open>Fatal\<close> is shown as a page; \<open>RedirErr\<close> goes back to the client's validated redirect URI.\<close>

datatype authz_outcome = Fatal oauth_error | RedirErr authzRequest oauth_error | Parsed authzRequest

text \<open>The loop that copies the OAuth parameters: the first duplicated one is an error.\<close>

fun copy_params :: "string list \<Rightarrow> url_values \<Rightarrow> url_values \<Rightarrow> oauth_error + url_values" where
  "copy_params [] all' v = Inr v"
| "copy_params (k # ks) all' v =
     (case map_of all' k of
        None \<Rightarrow> copy_params ks all' v
      | Some vals \<Rightarrow>
          if length vals > 1 then Inl (errInvalidRequest (''parameter '' @ k @ '' is duplicated''))
          else copy_params ks all' (values_Set k (values_Get all' k) v))"

text \<open>The second phase, once the redirect URI is trusted.\<close>

definition check_authz :: "extern \<Rightarrow> web \<Rightarrow> 's server \<Rightarrow> authzRequest \<Rightarrow> authz_outcome" where
  "check_authz x b s req =
     (let v = ar_v req; client = ar_client req
      in if values_Get v ''response_type'' \<noteq> ''code''
         then RedirErr req (oerr 400 ''unsupported_response_type'' ''only response_type=code is supported'')
         else if length (rc_GrantTypes client) > 0 \<and> \<not> hasScope (rc_GrantTypes client) GrantTypeAuthorizationCode
         then RedirErr req (oerr 400 ''unauthorized_client'' ''client is not allowed to use the authorization code grant'')
         else
           let req = req\<lparr>ar_challenge := values_Get v ''code_challenge''\<rparr>
           in if ar_challenge req = [] then RedirErr req (errInvalidRequest ''code_challenge is required (PKCE)'')
              else if values_Get v ''code_challenge_method'' \<noteq> ''S256''
              then RedirErr req (errInvalidRequest ''code_challenge_method must be S256'')
              else if \<not> validChallenge (ar_challenge req) then RedirErr req (errInvalidRequest ''malformed code_challenge'')
              else
                (case Server_resolveScopes s (values_Get v ''scope'') of
                   Inl e \<Rightarrow> RedirErr req e
                 | Inr scopes \<Rightarrow>
                     let req = req\<lparr>ar_scopes := scopes\<rparr>
                     in (case Server_resolveResource x b s (values_Get v ''resource'') of
                           Inl e \<Rightarrow> RedirErr req e
                         | Inr res \<Rightarrow> Parsed (req\<lparr>ar_resource := res\<rparr>))))"

definition Server_parseAuthz ::
  "extern \<Rightarrow> web \<Rightarrow> 's server \<Rightarrow> time \<Rightarrow> url_values \<Rightarrow> 's oauth_world \<Rightarrow> authz_outcome \<times> 's oauth_world" where
  "Server_parseAuthz x b s now all' sw =
     (case copy_params authzParams all' [] of
        Inl e \<Rightarrow> (Fatal e, sw)
      | Inr v \<Rightarrow>
          (case Server_resolveClient x b s now (values_Get v ''client_id'') sw of
             (Inl e, sw) \<Rightarrow> (Fatal (oerr 400 ''invalid_client'' e), sw)
           | (Inr client, sw) \<Rightarrow>
               let req = \<lparr>ar_v = v, ar_client = client, ar_redirectURI = values_Get v ''redirect_uri'',
                          ar_state = values_Get v ''state'', ar_scopes = [], ar_resource = [], ar_challenge = []\<rparr>
               in if ar_redirectURI req = [] then (Fatal (errInvalidRequest ''redirect_uri is required''), sw)
                  else if \<not> matchRedirectURI b (rc_RedirectURIs client) (ar_redirectURI req)
                  then (Fatal (errInvalidRequest ''redirect_uri is not registered for this client''), sw)
                  else (check_authz x b s req, sw)))"

section \<open>The CSRF token of the consent form\<close>

definition csrfMaxAge :: duration where "csrfMaxAge = 15 * minute"

definition csrf_parts :: "string \<Rightarrow> authzRequest \<Rightarrow> string list" where
  "csrf_parts userID req = [userID, rc_ID (ar_client req), ar_redirectURI req, joinScopes (ar_scopes req),
     ar_resource req, ar_state req, ar_challenge req]"

definition csrf_message :: "int \<Rightarrow> string \<Rightarrow> authzRequest \<Rightarrow> bytes" where
  "csrf_message ts userID req =
     put_u64 (word_of_int ts) @ concat (map (\<lambda>part. part @ [CHR 0x00]) (csrf_parts userID req))"

definition Server_csrfMAC :: "extern \<Rightarrow> 's server \<Rightarrow> int \<Rightarrow> string \<Rightarrow> authzRequest \<Rightarrow> bytes" where
  "Server_csrfMAC x s ts userID req = x_hmac_sha256 x (op_CSRFKey (sr_opts s)) (csrf_message ts userID req)"

definition Server_csrfToken :: "extern \<Rightarrow> 's server \<Rightarrow> time \<Rightarrow> string \<Rightarrow> authzRequest \<Rightarrow> string" where
  "Server_csrfToken x s now userID req =
     (let ts = time_Unix now
      in base64_Encode RawURLEncoding (put_u64 (word_of_int ts) @ Server_csrfMAC x s ts userID req))"

definition Server_checkCSRF :: "extern \<Rightarrow> 's server \<Rightarrow> time \<Rightarrow> string \<Rightarrow> string \<Rightarrow> authzRequest \<Rightarrow> bool" where
  "Server_checkCSRF x s now token userID req =
     (case base64_Decode RawURLEncoding token of
        None \<Rightarrow> False
      | Some raw \<Rightarrow>
          if length raw \<noteq> 8 + 32 then False
          else
            let ts = sint (get_u64 (take 8 raw));
                age = time_Sub now (time_of_Unix ts)
            in if age < - minute \<or> age > csrfMaxAge then False
               else drop 8 raw = Server_csrfMAC x s ts userID req)"

section \<open>Replies\<close>

record consentRequest =
  cq_ClientID :: string
  cq_ClientName :: string
  cq_ClientHost :: string
  cq_RedirectURI :: string
  cq_RedirectHost :: string
  cq_LoopbackOnly :: bool
  cq_Scopes :: "string list"
  cq_Resource :: string
  cq_UserID :: string
  cq_Action :: string
  cq_Fields :: url_values

datatype authz_reply =
    ErrorPage oauth_error | RedirectReply string nat | LoginReply string | ConsentPage consentRequest
  | MethodNotAllowed

text \<open>\<open>redirectTo\<close>: the redirect URI with parameters added to its query.\<close>

definition redirect_url :: "web \<Rightarrow> 's server \<Rightarrow> authzRequest \<Rightarrow> url_values \<Rightarrow> url \<Rightarrow> string" where
  "redirect_url b s req add u =
     (let q = fold (\<lambda>(k, vs) q. AList.update k vs q) add (wb_Query b u);
          q = (if ar_state req \<noteq> [] then values_Set ''state'' (ar_state req) q else q);
          q = values_Set ''iss'' (sr_issuer s) q
      in wb_String b (u\<lparr>url_RawQuery := wb_Encode b q\<rparr>))"

definition Server_redirectTo ::
  "web \<Rightarrow> 's server \<Rightarrow> http_request \<Rightarrow> authzRequest \<Rightarrow> url_values \<Rightarrow> authz_reply" where
  "Server_redirectTo b s r req add =
     (case wb_Parse b (ar_redirectURI req) of
        None \<Rightarrow> ErrorPage (errServer ''bad redirect_uri'')
      | Some u \<Rightarrow> RedirectReply (redirect_url b s req add u) (if rq_Method r = ''POST'' then 303 else 302))"

definition Server_redirectError ::
  "web \<Rightarrow> 's server \<Rightarrow> http_request \<Rightarrow> authzRequest \<Rightarrow> oauth_error \<Rightarrow> authz_reply" where
  "Server_redirectError b s r req e =
     Server_redirectTo b s r req ((''error'', [oe_Code e]) #
       (if oe_Description e \<noteq> [] then [(''error_description'', [oe_Description e])] else []))"

section \<open>Consent and codes\<close>

definition Server_saveConsent ::
  "'s server \<Rightarrow> time \<Rightarrow> string \<Rightarrow> authzRequest \<Rightarrow> 's world \<Rightarrow> go_error option \<times> 's world" where
  "Server_saveConsent s now userID req w =
     (let (scopes, created) =
        (case os_GetConsent (sr_store s) userID (rc_ID (ar_client req)) w of
           Inr prev \<Rightarrow> (unionScopes (parseScopes (cs_Scopes prev)) (ar_scopes req), cs_CreatedAt prev)
         | Inl _ \<Rightarrow> (ar_scopes req, now))
      in os_SaveConsent (sr_store s) \<lparr>cs_UserID = userID, cs_ClientID = rc_ID (ar_client req),
           cs_Scopes = joinScopes scopes, cs_CreatedAt = created, cs_UpdatedAt = now\<rparr> w)"

definition new_code :: "extern \<Rightarrow> 's server \<Rightarrow> time \<Rightarrow> string \<Rightarrow> authzRequest \<Rightarrow> string \<Rightarrow> oauth_code" where
  "new_code x s now userID req code =
     \<lparr>cd_CodeHash = hashSecret x code, cd_ClientID = rc_ID (ar_client req), cd_UserID = userID,
      cd_RedirectURI = ar_redirectURI req, cd_Scopes = joinScopes (ar_scopes req), cd_Resource = ar_resource req,
      cd_CodeChallenge = ar_challenge req, cd_ExpiresAt = now + op_CodeTTL (sr_opts s), cd_UsedAt = None, cd_GrantID = []\<rparr>"

definition Server_issueCode ::
  "extern \<Rightarrow> web \<Rightarrow> 's server \<Rightarrow> time \<Rightarrow> http_request \<Rightarrow> string \<Rightarrow> authzRequest \<Rightarrow> 's world \<Rightarrow> authz_reply \<times> 's world" where
  "Server_issueCode x b s now r userID req w =
     (let (code, w) = draw (randomSecret x 32) w
      in (case os_CreateCode (sr_store s) (new_code x s now userID req code) w of
            (Some _, w) \<Rightarrow> (Server_redirectError b s r req (errServer ''could not issue authorization code''), w)
          | (None, w) \<Rightarrow> (Server_redirectTo b s r req [(''code'', [code])], w)))"

section \<open>The handler\<close>

definition Server_currentUser :: "'s server \<Rightarrow> http_request \<Rightarrow> string option" where
  "Server_currentUser s r =
     (case op_CurrentUser (sr_opts s) of
        None \<Rightarrow> None
      | Some f \<Rightarrow> (case f r of Some i \<Rightarrow> if i \<noteq> [] then Some i else None | None \<Rightarrow> None))"

definition login_reply :: "web \<Rightarrow> 's server \<Rightarrow> authzRequest \<Rightarrow> authz_reply" where
  "login_reply b s req =
     (let returnTo = Server_endpoint s (op_AuthorizePath (sr_opts s)) @ ''?'' @ wb_Encode b (ar_v req)
      in LoginReply (case op_LoginURL (sr_opts s) of None \<Rightarrow> [] | Some f \<Rightarrow> f returnTo))"

definition consent_page :: "extern \<Rightarrow> web \<Rightarrow> 's server \<Rightarrow> time \<Rightarrow> string \<Rightarrow> authzRequest \<Rightarrow> authz_reply" where
  "consent_page x b s now userID req =
     ConsentPage \<lparr>cq_ClientID = rc_ID (ar_client req), cq_ClientName = rc_Name (ar_client req),
       cq_ClientHost = rc_DisplayHost (ar_client req), cq_RedirectURI = ar_redirectURI req,
       cq_RedirectHost = hostOf b (ar_redirectURI req), cq_LoopbackOnly = allLoopback b (rc_RedirectURIs (ar_client req)),
       cq_Scopes = ar_scopes req, cq_Resource = ar_resource req, cq_UserID = userID,
       cq_Action = Server_endpoint s (op_AuthorizePath (sr_opts s)),
       cq_Fields = values_Set ''csrf_token'' (Server_csrfToken x s now userID req) (ar_v req)\<rparr>"

text \<open>The part of the handler that runs for a signed-in user and a valid request.\<close>

definition authorize_user ::
  "extern \<Rightarrow> web \<Rightarrow> 's server \<Rightarrow> time \<Rightarrow> http_request \<Rightarrow> url_values \<Rightarrow> string \<Rightarrow> authzRequest \<Rightarrow> 's world
     \<Rightarrow> authz_reply \<times> 's world" where
  "authorize_user x b s now r params userID req w =
     (if rq_Method r = ''POST'' then
        if \<not> Server_checkCSRF x s now (values_Get params ''csrf_token'') userID req
        then (ErrorPage (errInvalidRequest ''consent form expired or tampered; please retry''), w)
        else if values_Get params ''decision'' \<noteq> ''approve''
        then (Server_redirectError b s r req (oerr 403 ''access_denied'' ''the user denied the request''), w)
        else
          (case Server_saveConsent s now userID req w of
             (Some _, w) \<Rightarrow> (Server_redirectError b s r req (errServer ''could not record consent''), w)
           | (None, w) \<Rightarrow> Server_issueCode x b s now r userID req w)
      else
        (case os_GetConsent (sr_store s) userID (rc_ID (ar_client req)) w of
           Inr c \<Rightarrow>
             if containsAll (parseScopes (cs_Scopes c)) (ar_scopes req)
             then Server_issueCode x b s now r userID req w
             else (consent_page x b s now userID req, w)
         | Inl e \<Rightarrow>
             if e \<noteq> ErrNotFound then (Server_redirectError b s r req (errServer ''consent lookup failed''), w)
             else (consent_page x b s now userID req, w)))"

definition authorize_reply ::
  "extern \<Rightarrow> web \<Rightarrow> 's server \<Rightarrow> time \<Rightarrow> http_request \<Rightarrow> 's oauth_world \<Rightarrow> authz_reply \<times> 's oauth_world" where
  "authorize_reply x b s now r sw =
     (let params = (if rq_Method r = ''GET'' then Some (Inr (rq_Query r))
                    else if rq_Method r = ''POST'' then
                      Some (case rq_PostForm r of None \<Rightarrow> Inl (errInvalidRequest ''malformed form'') | Some f \<Rightarrow> Inr f)
                    else None)
      in (case params of
            None \<Rightarrow> (MethodNotAllowed, sw)
          | Some (Inl e) \<Rightarrow> (ErrorPage e, sw)
          | Some (Inr params) \<Rightarrow>
              (case Server_parseAuthz x b s now params sw of
                 (Fatal e, sw) \<Rightarrow> (ErrorPage e, sw)
               | (RedirErr req e, sw) \<Rightarrow> (Server_redirectError b s r req e, sw)
               | (Parsed req, sw) \<Rightarrow>
                   (case Server_currentUser s r of
                      None \<Rightarrow> (login_reply b s req, sw)
                    | Some userID \<Rightarrow>
                        (case UserManager_FindByID (sr_users s) userID (ow sw) of
                           Inl _ \<Rightarrow> (login_reply b s req, sw)
                         | Inr u \<Rightarrow>
                             if UserManager_IsLockedOut now u
                             then (Server_redirectError b s r req (oerr 403 ''access_denied'' ''account is locked''), sw)
                             else on_world (authorize_user x b s now r params userID req (ow sw)) sw)))))"

text \<open>The headers every reply carries: the page is never framed and never stored.\<close>

definition authorize_headers :: "(string, string) gomap" where
  "authorize_headers = [(''X-Frame-Options'', ''DENY''),
     (''Content-Security-Policy'', ''frame-ancestors '' @ [CHR 0x27] @ ''none'' @ [CHR 0x27]),
     (''Cache-Control'', ''no-store'')]"

definition Server_AuthorizeHandler ::
  "extern \<Rightarrow> web \<Rightarrow> 's server \<Rightarrow> time \<Rightarrow> http_request \<Rightarrow> 's oauth_world
     \<Rightarrow> ((string, string) gomap \<times> authz_reply) \<times> 's oauth_world" where
  "Server_AuthorizeHandler x b s now r sw =
     (let (reply, sw) = authorize_reply x b s now r sw in ((authorize_headers, reply), sw))"

section \<open>Default pages\<close>

text \<open>What the built-in consent page is given to show, and the built-in error page.\<close>

definition DefaultConsentPage :: "consentRequest \<Rightarrow> string \<times> string" where
  "DefaultConsentPage c =
     (let app = cq_ClientHost c;
          app = (if app = [] then cq_ClientName c else app);
          app = (if app = [] then cq_ClientID c else app)
      in (app, if cq_ClientName c = app then [] else cq_ClientName c))"

definition defaultErrorPage :: "oauth_error \<Rightarrow> string http_response" where
  "defaultErrorPage e =
     (let status = (if oe_Status e = 0 \<or> oe_Status e = 401 then 400 else oe_Status e);
          msg = ''Authorization request error: '' @ oe_Code e;
          msg = (if oe_Description e \<noteq> []
                 then msg @ '' '' @ [CHR 0xE2, CHR 0x80, CHR 0x94] @ '' '' @ oe_Description e else msg)
      in \<lparr>rp_Status = status, rp_Header = [(''Content-Type'', ''text/plain; charset=utf-8'')],
          rp_Body = strings_TrimSpace msg @ [CHR 0x0A]\<rparr>)"

end
