(* ===== verification/OAuth_Correct.thy ===== *)
theory OAuth_Correct
  imports OAuth_Authorize
begin

text \<open>
  The contract the authorization server relies on, as a locale over its store, what the token
  endpoint guarantees under it, and the interpretation on the in-memory store. Reads and writes
  may fail; a failed write changes nothing. \<open>codes\<close> and \<open>grants\<close> are the tables as the server
  sees them.
\<close>

section \<open>The contract of the store\<close>

locale oauth_tables =
  fixes T :: "'s oauth_store" and inv :: "'s \<Rightarrow> bool" and codes :: "'s \<Rightarrow> string \<Rightarrow> oauth_code option"
    and grants :: "'s \<Rightarrow> string \<Rightarrow> oauth_grant option"
  assumes GetCode_some: "os_GetCode T h w = Inr c \<Longrightarrow> codes (db w) h = Some c"
    and GetCode_none: "os_GetCode T h w = Inl ErrNotFound \<Longrightarrow> codes (db w) h = None"
    and GetGrant_some: "os_GetGrant T i w = Inr g \<Longrightarrow> grants (db w) i = Some g"
    and GetGrant_none: "os_GetGrant T i w = Inl ErrNotFound \<Longrightarrow> grants (db w) i = None"
    and grant_ID: "inv (db w) \<Longrightarrow> grants (db w) i = Some g \<Longrightarrow> g_ID g = i"
    and MarkCodeUsed_won: "os_MarkCodeUsed T h gid t w = (Inr True, w') \<Longrightarrow>
      tape w' = tape w \<and> grants (db w') = grants (db w) \<and>
      (\<exists>c. codes (db w) h = Some c \<and> cd_UsedAt c = None \<and>
           codes (db w') = (codes (db w))(h \<mapsto> c\<lparr>cd_UsedAt := Some t, cd_GrantID := gid\<rparr>))"
    and MarkCodeUsed_lost: "os_MarkCodeUsed T h gid t w = (r, w') \<Longrightarrow> r \<noteq> Inr True \<Longrightarrow>
      tape w' = tape w \<and> codes (db w') = codes (db w) \<and> grants (db w') = grants (db w)"
    and CreateGrant_ok: "os_CreateGrant T g w = (None, w') \<Longrightarrow>
      tape w' = tape w \<and> codes (db w') = codes (db w) \<and> grants (db w') = (grants (db w))(g_ID g \<mapsto> g)"
    and CreateGrant_err: "os_CreateGrant T g w = (Some e, w') \<Longrightarrow>
      tape w' = tape w \<and> codes (db w') = codes (db w) \<and> grants (db w') = grants (db w)"
    and TouchClient_keeps: "os_TouchClient T i t w = (q, w') \<Longrightarrow>
      tape w' = tape w \<and> codes (db w') = codes (db w) \<and> grants (db w') = grants (db w)"
    and RotateGrant_won: "os_RotateGrant T i h h' ex t w = (Inr True, w') \<Longrightarrow>
      tape w' = tape w \<and> codes (db w') = codes (db w) \<and>
      (\<exists>g. grants (db w) i = Some g \<and> g_TokenHash g = h \<and>
           grants (db w') = (grants (db w))(i \<mapsto> g\<lparr>g_PrevTokenHash := h, g_TokenHash := h',
             g_ExpiresAt := ex, g_LastUsedAt := Some t\<rparr>))"
    and RotateGrant_lost: "os_RotateGrant T i h h' ex t w = (r, w') \<Longrightarrow> r \<noteq> Inr True \<Longrightarrow>
      tape w' = tape w \<and> codes (db w') = codes (db w) \<and> grants (db w') = grants (db w)"
    and DeleteGrant_ok: "os_DeleteGrant T i w = (None, w') \<Longrightarrow>
      tape w' = tape w \<and> codes (db w') = codes (db w) \<and> grants (db w') = (grants (db w))(i := None)"
    and DeleteGrant_err: "os_DeleteGrant T i w = (Some e, w') \<Longrightarrow>
      tape w' = tape w \<and> codes (db w') = codes (db w) \<and> grants (db w') = grants (db w)"
    and MarkCodeUsed_inv: "inv (db w) \<Longrightarrow> inv (db (snd (os_MarkCodeUsed T h gid t w)))"
    and CreateGrant_inv: "inv (db w) \<Longrightarrow> inv (db (snd (os_CreateGrant T g w)))"
    and TouchClient_inv: "inv (db w) \<Longrightarrow> inv (db (snd (os_TouchClient T i t w)))"
    and RotateGrant_inv: "inv (db w) \<Longrightarrow> inv (db (snd (os_RotateGrant T i h h' ex t w)))"
    and DeleteGrant_inv: "inv (db w) \<Longrightarrow> inv (db (snd (os_DeleteGrant T i w)))"
begin

text \<open>Dropping a grant leaves the codes and every other grant alone, even when the store fails.\<close>

lemma drop_grant_keeps:
  assumes "sr_store s = T" "drop_grant s gid w = w'"
  shows "tape w' = tape w" "codes (db w') = codes (db w)" "i \<noteq> gid \<Longrightarrow> grants (db w') i = grants (db w) i"
    "grants (db w') gid = Some g \<Longrightarrow> grants (db w) gid = Some g"
proof -
  obtain r where r: "os_DeleteGrant T gid w = (r, w')"
    using assms by (cases "os_DeleteGrant T gid w") (auto simp: drop_grant_def)
  then have "r = None \<longrightarrow> tape w' = tape w \<and> codes (db w') = codes (db w) \<and> grants (db w') = (grants (db w))(gid := None)"
    and "r \<noteq> None \<longrightarrow> tape w' = tape w \<and> codes (db w') = codes (db w) \<and> grants (db w') = grants (db w)"
    using DeleteGrant_ok [of gid w w'] DeleteGrant_err [of gid w _ w'] by auto
  then show "tape w' = tape w" "codes (db w') = codes (db w)"
    "i \<noteq> gid \<Longrightarrow> grants (db w') i = grants (db w) i"
    "grants (db w') gid = Some g \<Longrightarrow> grants (db w) gid = Some g"
    by (cases r; simp)+
qed

lemma signing_keeps_db: "Server_tokenResponse x L s now u g scopes refresh w = (r, w') \<Longrightarrow> db w' = db w"
  by (auto simp: Server_tokenResponse_def Server_signAccessToken_def Let_def draw_def
      split: prod.splits sum.splits)


lemma store_inv:
  "os_MarkCodeUsed T h gid t w = (r1, w') \<Longrightarrow> inv (db w) \<Longrightarrow> inv (db w')"
  "os_CreateGrant T g w = (r2, w') \<Longrightarrow> inv (db w) \<Longrightarrow> inv (db w')"
  "os_RotateGrant T i h h' ex t w = (r1, w') \<Longrightarrow> inv (db w) \<Longrightarrow> inv (db w')"
  using MarkCodeUsed_inv [of w h gid t] CreateGrant_inv [of w g] RotateGrant_inv [of w i h h' ex t] by auto

lemma drop_grant_inv: "sr_store s = T \<Longrightarrow> inv (db w) \<Longrightarrow> inv (db (drop_grant s gid w))"
  by (simp add: drop_grant_def DeleteGrant_inv)

lemma exchange_inv:
  assumes "sr_store s = T" "inv (db w)" "Server_exchangeCode x b L s now client f w = (r, w')"
  shows "inv (db w')"
  using assms(2,3)
  by (auto simp: assms(1) Server_exchangeCode_def Let_def draw_def [of "uuid_NewString x"] drop_grant_inv TouchClient_inv
      split: if_splits sum.splits option.splits prod.splits bool.splits dest!: store_inv signing_keeps_db)

lemma refresh_inv:
  assumes "sr_store s = T" "inv (db w)" "Server_refreshGrant x b L s now client f w = (r, w')"
  shows "inv (db w')"
  using assms(2,3)
  by (auto simp: assms(1) Server_refreshGrant_def Let_def drop_grant_inv
      split: if_splits sum.splits option.splits prod.splits bool.splits dest!: store_inv signing_keeps_db)

text \<open>A redeemed code: it was unused and passed every check, it is now marked with the new grant, and
  the only other change is that grant.\<close>

lemma exchange_ok:
  assumes "sr_store s = T" "Server_exchangeCode x b L s now client f w = (Inr resp, w')"
  obtains c u g where "codes (db w) (hashSecret x (values_Get f ''code'')) = Some c" "cd_UsedAt c = None"
    "check_code x b now client f c = None" "available_user s now (cd_UserID c) w = Some u"
    "Server_clientAllows client GrantTypeAuthorizationCode"
    "codes (db w') = (codes (db w))(hashSecret x (values_Get f ''code'') \<mapsto>
       c\<lparr>cd_UsedAt := Some now, cd_GrantID := x_uuid x (tape w)\<rparr>)"
    "grants (db w') = (grants (db w))(x_uuid x (tape w) \<mapsto> g)"
    "g = \<lparr>g_ID = x_uuid x (tape w), g_UserID = u_ID u, g_ClientID = rc_ID client, g_Scopes = cd_Scopes c,
         g_Resource = cd_Resource c, g_TokenHash = g_TokenHash g, g_PrevTokenHash = [],
         g_SecurityStamp = u_SecurityStamp u, g_ExpiresAt = now + op_RefreshTokenTTL (sr_opts s),
         g_CreatedAt = now, g_LastUsedAt = None\<rparr>"
    "g_TokenHash g = (if Server_issuesRefresh s client (parseScopes (cd_Scopes c))
       then hashSecret x (fst (randomSecret x 32 (tape w + 16))) else [])"
    "tr_RefreshToken resp = (if Server_issuesRefresh s client (parseScopes (cd_Scopes c))
       then x_uuid x (tape w) @ ''.'' @ fst (randomSecret x 32 (tape w + 16)) else [])"
    "tr_Scope resp = joinScopes (parseScopes (cd_Scopes c))"
proof -
  let ?h = "hashSecret x (values_Get f ''code'')" and ?gid = "x_uuid x (tape w)" and ?w = "w\<lparr>tape := tape w + 16\<rparr>"
  from assms have allow: "Server_clientAllows client GrantTypeAuthorizationCode"
    and "\<exists>c. os_GetCode T ?h w = Inr c \<and> cd_UsedAt c = None \<and> check_code x b now client f c = None"
    by (auto simp: Server_exchangeCode_def Let_def split: if_splits sum.splits option.splits)
  then obtain c where c: "os_GetCode T ?h w = Inr c" "cd_UsedAt c = None" "check_code x b now client f c = None"
    by blast
  with assms obtain u w1 where u: "available_user s now (cd_UserID c) w = Some u"
    and m: "os_MarkCodeUsed T ?h ?gid now ?w = (Inr True, w1)"
    by (auto simp: Server_exchangeCode_def Let_def draw_def uuid_NewString_def
        split: if_splits sum.splits option.splits prod.splits bool.splits)
  define g0 where "g0 = \<lparr>g_ID = ?gid, g_UserID = u_ID u, g_ClientID = rc_ID client, g_Scopes = cd_Scopes c,
         g_Resource = cd_Resource c, g_TokenHash = [], g_PrevTokenHash = [],
         g_SecurityStamp = u_SecurityStamp u, g_ExpiresAt = now + op_RefreshTokenTTL (sr_opts s),
         g_CreatedAt = now, g_LastUsedAt = None\<rparr>"
  define iss where "iss = Server_issuesRefresh s client (parseScopes (cd_Scopes c))"
  define sec where "sec = fst (randomSecret x 32 (tape w1))"
  define g where "g = (if iss then g0\<lparr>g_TokenHash := hashSecret x sec\<rparr> else g0)"
  note mk = MarkCodeUsed_won [OF m]
  from assms c u m allow obtain w2 w3 where cr: "os_CreateGrant T g (if iss then w1\<lparr>tape := tape w1 + 32\<rparr> else w1) = (None, w2)"
    and w3: "w3 = (if \<not> rc_CIMD client then snd (os_TouchClient T (rc_ID client) now w2) else w2)"
    and resp: "Server_tokenResponse x L s now u g (parseScopes (cd_Scopes c))
      (if iss then ?gid @ ''.'' @ sec else []) w3 = (Inr resp, w')"
    by (auto simp: Server_exchangeCode_def Let_def draw_def [of "uuid_NewString x"] uuid_NewString_def g_def g0_def iss_def sec_def
        split: if_splits sum.splits option.splits prod.splits)
  note gr = CreateGrant_ok [OF cr]
  have w3': "codes (db w3) = codes (db w2)" "grants (db w3) = grants (db w2)"
    using w3 TouchClient_keeps [of "rc_ID client" now w2 "fst (os_TouchClient T (rc_ID client) now w2)" w3]
    by (auto split: if_splits)
  have r: "db w' = db w3" by (rule signing_keeps_db [OF resp])
  from resp have "tr_RefreshToken resp = (if iss then ?gid @ ''.'' @ sec else [])"
    "tr_Scope resp = joinScopes (parseScopes (cd_Scopes c))"
    by (auto simp: Server_tokenResponse_def split: prod.splits sum.splits)
  moreover have "codes (db w') = (codes (db w))(?h \<mapsto> c\<lparr>cd_UsedAt := Some now, cd_GrantID := ?gid\<rparr>)"
    "grants (db w') = (grants (db w))(?gid \<mapsto> g)" "tape w1 = tape w + 16"
    using mk gr w3' r GetCode_some [OF c(1)] by (auto simp: g_def g0_def)
  ultimately show ?thesis
    using that [of c u g] GetCode_some [OF c(1)] c(2,3) u allow
    by (simp add: g_def g0_def iss_def sec_def)
qed

text \<open>A presented refresh token that is accepted: it is the grant's current one, the grant is rotated
  to a fresh secret, and nothing else changes.\<close>

lemma refresh_ok:
  assumes "sr_store s = T" "inv (db w)" "Server_refreshGrant x b L s now client f w = (Inr resp, w')"
  obtains gid secret g u scopes where
    "strings_Cut (values_Get f ''refresh_token'') (CHR ''.'') = Some (gid, secret)"
    "grants (db w) gid = Some g" "g_ClientID g = rc_ID client" "g_TokenHash g \<noteq> []"
    "hashSecret x secret = g_TokenHash g" "check_refresh x b s now f g w = Inr (u, scopes)"
    "codes (db w') = codes (db w)"
    "grants (db w') = (grants (db w))(gid \<mapsto> g\<lparr>g_PrevTokenHash := g_TokenHash g,
       g_TokenHash := hashSecret x (fst (randomSecret x 32 (tape w))),
       g_ExpiresAt := now + op_RefreshTokenTTL (sr_opts s), g_LastUsedAt := Some now\<rparr>)"
    "tr_RefreshToken resp = gid @ ''.'' @ fst (randomSecret x 32 (tape w))"
    "tr_Scope resp = joinScopes scopes"
proof -
  let ?new = "fst (randomSecret x 32 (tape w))"
  from assms(1,3) obtain gid secret g where c: "strings_Cut (values_Get f ''refresh_token'') (CHR ''.'') = Some (gid, secret)"
    and g: "os_GetGrant T gid w = Inr g" "g_ClientID g = rc_ID client" "g_TokenHash g \<noteq> []" "hashSecret x secret = g_TokenHash g"
    by (auto simp: Server_refreshGrant_def Let_def split: if_splits sum.splits option.splits prod.splits)
  with assms(1,3) obtain u scopes where ch: "check_refresh x b s now f g w = Inr (u, scopes)"
    by (auto simp: Server_refreshGrant_def Let_def split: if_splits sum.splits option.splits prod.splits)
  with assms(1,3) c g obtain w1 where
      r: "os_RotateGrant T (g_ID g) (g_TokenHash g) (hashSecret x ?new) (now + op_RefreshTokenTTL (sr_opts s)) now
        (w\<lparr>tape := tape w + 32\<rparr>) = (Inr True, w1)"
    and resp: "Server_tokenResponse x L s now u g scopes (g_ID g @ ''.'' @ ?new) w1 = (Inr resp, w')"
    by (auto simp: Server_refreshGrant_def Let_def split: if_splits sum.splits option.splits prod.splits bool.splits)
  have row: "grants (db w) gid = Some g" and i: "g_ID g = gid"
    using GetGrant_some [OF g(1)] grant_ID [OF assms(2)] by auto
  have "db w' = db w1" by (rule signing_keeps_db [OF resp])
  moreover from resp have "tr_RefreshToken resp = gid @ ''.'' @ ?new" "tr_Scope resp = joinScopes scopes"
    by (auto simp: Server_tokenResponse_def i split: prod.splits sum.splits)
  ultimately show ?thesis
    using that [OF c row g(2-4) ch] RotateGrant_won [OF r] row i by auto
qed

end

section \<open>The in-memory store meets it\<close>

lemmas oauth_ops = memstore_OAuth_def GetCode_def MarkCodeUsed_def GetGrant_def CreateGrant_def
  TouchClient_def RotateGrant_def DeleteGrant_def CreateCode_def UseClientAssertion_def

lemma mem_oauth_inv:
  assumes "mem_wf (db w)"
  shows "mem_wf (db (snd (os_MarkCodeUsed memstore_OAuth h gid t w)))"
    "mem_wf (db (snd (os_CreateGrant memstore_OAuth g w)))"
    "mem_wf (db (snd (os_TouchClient memstore_OAuth i t w)))"
    "mem_wf (db (snd (os_RotateGrant memstore_OAuth i h h' ex t w)))"
    "mem_wf (db (snd (os_DeleteGrant memstore_OAuth i w)))"
  using oauth_writes_wf [OF assms] by (simp_all add: memstore_OAuth_def prod_eq_iff)

interpretation mem_oauth: oauth_tables memstore_OAuth mem_wf
    "\<lambda>s. map_of (m_oauthCodes s)" "\<lambda>s. map_of (m_oauthGrants s)"
proof (unfold_locales, goal_cases)
  case (5 w i g)
  then show ?case by (rule wf_row)
qed (auto simp: mem_oauth_inv, auto simp: oauth_ops map_of_update_fun map_of_delete_fun split: option.splits if_splits)

end
