(* ===== verification/OAuth_Access.thy ===== *)
theory OAuth_Access
  imports OAuth_Correct Token_Service_Properties
begin

text \<open>
  The access tokens of the authorization server: what a signed token carries, when a resource
  accepts it, and that OAuth tokens and session tokens are never taken for each other.
\<close>

section \<open>What a token carries\<close>

definition access_header :: "jwt_lib \<Rightarrow> 's server \<Rightarrow> claims" where
  "access_header L s = AList.update ''typ'' (JStr TokenTypeAccessJWT) (j_NewHeader L (sg_Method (sr_signer s)))"

definition bears :: "'s server \<Rightarrow> time \<Rightarrow> user \<Rightarrow> oauth_grant \<Rightarrow> string list \<Rightarrow> claims \<Rightarrow> bool" where
  "bears s now u g scopes c \<longleftrightarrow> map_of c ''iss'' = Some (JStr (sr_issuer s)) \<and>
     map_of c ''sub'' = Some (JStr (u_ID u)) \<and> map_of c ''aud'' = Some (JStr (g_Resource g)) \<and>
     map_of c ''iat'' = Some (JNum (time_Unix now)) \<and> map_of c ''nbf'' = Some (JNum (time_Unix now)) \<and>
     map_of c ''exp'' = Some (JNum (time_Unix (now + op_AccessTokenTTL (sr_opts s)))) \<and>
     map_of c ClaimClientID = Some (JStr (g_ClientID g)) \<and> map_of c ClaimScope = Some (JStr (joinScopes scopes)) \<and>
     map_of c ClaimGrantID = Some (JStr (g_ID g)) \<and> map_of c ClaimSecurityStamp = Some (JStr (u_SecurityStamp u))"

lemma access_claims_bear:
  "bears s now u g scopes (access_claims s now u g scopes jti)"
  "bears s now u g scopes (AList.update ClaimRole v (access_claims s now u g scopes jti))"
  by (simp_all add: bears_def access_claims_def update_conv claim_names ClaimClientID_def ClaimScope_def ClaimGrantID_def)

lemma signed_token:
  assumes "Server_signAccessToken x L s now u g scopes w = (Inr (tok, exp), w')"
  obtains c where "j_SignedString L (sg_Method (sr_signer s))
      (with_kid (fst (sg_SignKey (sr_signer s))) (access_header L s)) c (snd (sg_SignKey (sr_signer s))) = Inr tok"
    "bears s now u g scopes c"
proof -
  define c where "c = (case UserManager_GetRoles (sr_users s) u (w\<lparr>tape := tape w + 16\<rparr>) of
      Inr roles \<Rightarrow> if roles \<noteq> [] then AList.update ClaimRole (JArr (map JStr roles))
        (access_claims s now u g scopes (x_uuid x (tape w))) else access_claims s now u g scopes (x_uuid x (tape w))
    | Inl _ \<Rightarrow> access_claims s now u g scopes (x_uuid x (tape w)))"
  have "bears s now u g scopes c"
    by (simp add: c_def access_claims_bear split: sum.split)
  with assms that [of c] show ?thesis
    by (auto simp: Server_signAccessToken_def Let_def draw_def uuid_NewString_def c_def access_header_def
        split: prod.splits sum.splits)
qed

lemma tokenResponse_signed:
  assumes "Server_tokenResponse x L s now u g scopes refresh w = (Inr resp, w')"
  obtains c where "j_SignedString L (sg_Method (sr_signer s))
      (with_kid (fst (sg_SignKey (sr_signer s))) (access_header L s)) c (snd (sg_SignKey (sr_signer s)))
      = Inr (tr_AccessToken resp)" "bears s now u g scopes c"
proof -
  from assms obtain exp where "Server_signAccessToken x L s now u g scopes w = (Inr (tr_AccessToken resp, exp), w')"
    by (auto simp: Server_tokenResponse_def split: prod.splits sum.splits)
  from signed_token [OF this] that show ?thesis .
qed

lemma access_header_typ:
  "str_claim (with_kid kid (access_header L s)) ''typ'' = TokenTypeAccessJWT"
  by (simp add: access_header_def str_claim_def map_of_with_kid update_conv)

section \<open>When a resource accepts a token\<close>

lemma resource_accepts:
  assumes "jwt_faithful L" "jwt_checks L" "jwt_exp_ok L"
    and "j_SignedString L m (with_kid kid (access_header L s0)) c key = Inr tok" "bears s0 now u g scopes c"
    and "Server_ValidateResourceToken x b L s now' tok resource w = Inr (v, c')"
  shows "map_of c' = map_of c" "canonicalResource x b resource = Some (g_Resource g)"
    "now' < time_of_Unix (time_Unix (now + op_AccessTokenTTL (sr_opts s0)))"
    "UserManager_FindByID (sr_users s) (u_ID u) w = Inr v" "u_SecurityStamp v = u_SecurityStamp u"
    "\<not> UserManager_IsLockedOut now' v" "\<exists>g'. os_GetGrant (sr_store s) (g_ID g) w = Inr g' \<and> g_UserID g' = u_ID v"
proof -
  from assms(6) obtain res p where res: "canonicalResource x b resource = Some res"
    and p: "j_Parse L (resource_parser s res) now' (sg_Keyfunc (sr_signer s)) tok = Inr p"
    and v: "UserManager_FindByID (sr_users s) (str_claim (t_Claims p) ''sub'') w = Inr v"
      "str_claim (t_Claims p) ClaimSecurityStamp = u_SecurityStamp v" "\<not> UserManager_IsLockedOut now' v"
      "\<exists>g'. os_GetGrant (sr_store s) (str_claim (t_Claims p) ClaimGrantID) w = Inr g' \<and> g_UserID g' = u_ID v"
      "c' = t_Claims p"
    by (auto simp: Server_ValidateResourceToken_def Let_def split: option.splits sum.splits if_splits)
  have c: "map_of (t_Claims p) = map_of c" using assms(1,4) p unfolding jwt_faithful_def by blast
  from assms(2) p have "(pr_Audience (resource_parser s res) \<noteq> [] \<longrightarrow>
      (\<exists>a \<in> set (pr_Audience (resource_parser s res)). a \<in> set (aud_of (t_Claims p)))) \<and>
     (\<forall>e. j_ExpirationTime L (t_Claims p) = Some e \<longrightarrow> now' < e + pr_Leeway (resource_parser s res))"
    unfolding jwt_checks_def by blast
  then have "res \<in> set (aud_of c)" "\<forall>e. j_ExpirationTime L c = Some e \<longrightarrow> now' < e"
    using assms(3,5) by (auto simp: resource_parser_def default_parser_def c aud_of_def bears_def jwt_exp_ok_def)
  then show "canonicalResource x b resource = Some (g_Resource g)"
    "now' < time_of_Unix (time_Unix (now + op_AccessTokenTTL (sr_opts s0)))"
    using assms(3,5) res by (simp_all add: aud_of_def bears_def jwt_exp_ok_def)
  show "map_of c' = map_of c" "UserManager_FindByID (sr_users s) (u_ID u) w = Inr v" "u_SecurityStamp v = u_SecurityStamp u"
    "\<not> UserManager_IsLockedOut now' v" "\<exists>g'. os_GetGrant (sr_store s) (g_ID g) w = Inr g' \<and> g_UserID g' = u_ID v"
    using v assms(5) str_claim_cong [OF c] c by (simp_all add: bears_def str_claim_Some)
qed

lemma resource_accepts_fresh:
  assumes "jwt_complete L" "jwt_faithful L" "signer_ok (sr_signer s)"
    and "j_SignedString L (sg_Method (sr_signer s)) (with_kid (fst (sg_SignKey (sr_signer s))) (access_header L s)) c
      (snd (sg_SignKey (sr_signer s))) = Inr tok" "bears s now u g scopes c"
    and "canonicalResource x b resource = Some (g_Resource g)" "u_ID u \<noteq> []" "g_ID g \<noteq> []"
    and "now \<le> now'" "now' < time_of_Unix (time_Unix (now + op_AccessTokenTTL (sr_opts s)))"
    and "UserManager_FindByID (sr_users s) (u_ID u) w = Inr v" "u_SecurityStamp v = u_SecurityStamp u"
    and "\<not> UserManager_IsLockedOut now' v" "os_GetGrant (sr_store s) (g_ID g) w = Inr g'" "g_UserID g' = u_ID v"
    and "g_Resource g \<noteq> []"
  shows "\<exists>c'. Server_ValidateResourceToken x b L s now' tok resource w = Inr (v, c') \<and> map_of c' = map_of c"
proof -
  have "time_of_Unix (time_Unix now) \<le> now'" using time_of_Unix_Unix [of now] assms(9) by linarith
  then have "parser_accepts (resource_parser s (g_Resource g)) now' (sg_Method (sr_signer s)) c"
    using assms(5,10,16) by (simp add: parser_accepts_def resource_parser_def default_parser_def bears_def)
  from signed_parses [OF assms(1-4) this] obtain p where
    p: "j_Parse L (resource_parser s (g_Resource g)) now' (sg_Keyfunc (sr_signer s)) tok = Inr p" "t_Valid p" "map_of (t_Claims p) = map_of c"
      "map_of (t_Header p) = map_of (with_kid (fst (sg_SignKey (sr_signer s))) (access_header L s))" .
  have "equal_fold_ascii (str_claim (t_Header p) ''typ'') TokenTypeAccessJWT"
    by (simp add: str_claim_cong [OF p(4)] access_header_typ equal_fold_ascii_def)
  then show ?thesis
    using p assms(5-8,11-15) str_claim_cong [OF p(3)]
    by (simp add: Server_ValidateResourceToken_def Let_def bears_def str_claim_Some)
qed

end
