(* ===== verification/OAuth_Properties.thy ===== *)
theory OAuth_Properties
  imports OAuth_Access
begin

text \<open>
  Properties of the token endpoint on the in-memory store: a code is redeemed once, refresh tokens
  form a family that rotates and dies on reuse, and access tokens live and die with their grant.
\<close>

section \<open>Codes are redeemed once\<close>

text \<open>The code with hash \<open>h\<close> is gone, or used up by the grant \<open>gid\<close>.\<close>

definition spent :: "string \<Rightarrow> string \<Rightarrow> memstore \<Rightarrow> bool" where
  "spent h gid s \<longleftrightarrow> (case map_of (m_oauthCodes s) h of None \<Rightarrow> True
     | Some c \<Rightarrow> cd_UsedAt c \<noteq> None \<and> cd_GrantID c = gid)"

text \<open>Any call of the store other than the creation of a code with hash \<open>h\<close>.\<close>

definition other_call :: "extern \<Rightarrow> string \<Rightarrow> memstore world \<Rightarrow> memstore world \<Rightarrow> bool" where
  "other_call x h w w' \<longleftrightarrow> mem_step x w w' \<and> (\<forall>cd e. CreateCode cd w = (e, w') \<longrightarrow> cd_CodeHash cd \<noteq> h)"

lemma spent_frame [simp]:
  "spent h gid (m_users_update f1 s) = spent h gid s" "spent h gid (m_roles_update f2 s) = spent h gid s"
  "spent h gid (m_userRoles_update f3 s) = spent h gid s" "spent h gid (m_userClaims_update f4 s) = spent h gid s"
  "spent h gid (m_roleClaims_update f5 s) = spent h gid s" "spent h gid (m_tokens_update f6 s) = spent h gid s"
  "spent h gid (m_logins_update f7 s) = spent h gid s" "spent h gid (m_loginUser_update f8 s) = spent h gid s"
  "spent h gid (m_apiKeys_update f9 s) = spent h gid s" "spent h gid (m_refreshTokens_update f10 s) = spent h gid s"
  "spent h gid (m_oauthClients_update f11 s) = spent h gid s" "spent h gid (m_oauthConsents_update f12 s) = spent h gid s"
  "spent h gid (m_oauthGrants_update f13 s) = spent h gid s" "spent h gid (m_oauthJTIs_update f14 s) = spent h gid s"
  by (simp_all add: spent_def)

lemma spent_delete_if: "mem_wf s \<Longrightarrow> spent h gid s \<Longrightarrow> spent h gid (m_oauthCodes_update (delete_if P) s)"
  using wf_dkeys [of s] by (simp add: spent_def map_of_delete_if split: option.splits)

lemma spent_update:
  "spent h gid s \<Longrightarrow> k \<noteq> h \<or> cd_UsedAt c \<noteq> None \<and> cd_GrantID c = gid \<Longrightarrow>
     spent h gid (m_oauthCodes_update (AList.update k c) s)"
  by (auto simp: spent_def update_conv)

lemma spent_cascade: "mem_wf s \<Longrightarrow> spent h gid s \<Longrightarrow> spent h gid (cascadeDeleteLocked i s)"
  using wf_dkeys [of s] by (simp add: cascadeDeleteLocked_def Let_def spent_def map_of_delete_if split: option.splits)

lemma spent_purge: "mem_wf s \<Longrightarrow> spent h gid s \<Longrightarrow> spent h gid (fold cascadeDeleteLocked ids s)"
  by (induction ids arbitrary: s) (simp_all add: cascade_wf spent_cascade)

lemma spent_step:
  assumes "other_call x h w w'" "mem_wf (db w)" "spent h gid (db w)"
  shows "spent h gid (db w')"
proof -
  from assms(1) have new: "CreateCode cd w = (e, w') \<Longrightarrow> cd_CodeHash cd \<noteq> h" for cd e
    by (auto simp: other_call_def)
  from assms(1) have "mem_step x w w'" by (simp add: other_call_def)
  then show ?thesis
  proof cases
    case (step_CreateCode cd e)
    with new have "cd_CodeHash cd \<noteq> h" by blast
    then show ?thesis using step_CreateCode assms(3) by (auto simp: CreateCode_def intro!: spent_update)
  next
    case (step_MarkCodeUsed h' i t b)
    have "map_of (m_oauthCodes (db w)) h' = Some c \<Longrightarrow> cd_UsedAt c = None \<Longrightarrow> h' \<noteq> h" for c
      using assms(3) by (auto simp: spent_def)
    then show ?thesis using step_MarkCodeUsed assms(3) by (auto simp: MarkCodeUsed_def intro!: spent_update split: mem_split)
  next
    case (step_Purge t n)
    then show ?thesis using assms(2,3) by (auto simp: userStore_PurgeAnonymousUsers_def Let_def intro!: spent_purge)
  qed (use assms(2,3) in \<open>auto simp: user_writes role_writes key_writes session_writes oauth_writes Let_def
      spent_cascade spent_delete_if split: mem_split\<close>)
qed

lemma spent_run:
  assumes "(other_call x h)\<^sup>*\<^sup>* w w'" "mem_wf (db w)" "spent h gid (db w)"
  shows "mem_wf (db w') \<and> spent h gid (db w')"
  using assms
proof (induction rule: rtranclp_induct)
  case (step y z)
  then show ?case using spent_step mem_step_wf unfolding other_call_def by blast
qed simp

lemma exchange_spent:
  assumes "sr_store s = memstore_OAuth" "spent (hashSecret x (values_Get f ''code'')) gid (db w)"
  obtains e w' where "Server_exchangeCode x b L s now client f w = (Inl e, w')"
    "Server_clientAllows client GrantTypeAuthorizationCode \<Longrightarrow> values_Get f ''code'' \<noteq> [] \<Longrightarrow>
     map_of (m_oauthCodes (db w)) (hashSecret x (values_Get f ''code'')) \<noteq> None \<Longrightarrow> gid \<noteq> [] \<Longrightarrow>
       e = errInvalidGrant ''authorization code already used'' \<and> map_of (m_oauthGrants (db w')) gid = None"
proof (cases "map_of (m_oauthCodes (db w)) (hashSecret x (values_Get f ''code''))")
  case None
  then have "\<exists>e. Server_exchangeCode x b L s now client f w = (Inl e, w)"
    using assms(1) by (simp add: Server_exchangeCode_def oauth_ops Let_def)
  with None that show ?thesis by blast
next
  case (Some c)
  with assms(2) have "cd_UsedAt c \<noteq> None" "cd_GrantID c = gid" by (simp_all add: spent_def)
  then have "\<exists>e w'. Server_exchangeCode x b L s now client f w = (Inl e, w') \<and>
      (Server_clientAllows client GrantTypeAuthorizationCode \<longrightarrow> values_Get f ''code'' \<noteq> [] \<longrightarrow> gid \<noteq> [] \<longrightarrow>
       e = errInvalidGrant ''authorization code already used'' \<and> map_of (m_oauthGrants (db w')) gid = None)"
    using assms(1) Some by (simp add: Server_exchangeCode_def oauth_ops Let_def drop_grant_def delete_conv)
  with that show ?thesis by blast
qed

text \<open>(C16) An authorization code is redeemed once. After a successful redemption, and after any
  further interleaving of calls on the store, by whichever requests, that does not create a code
  with the same hash: every attempt of any client to redeem the code again fails, and as long as
  the used code is still on record it takes with it the grant that was issued from it; and a
  request that had already passed its checks before loses the compare-and-swap.\<close>

theorem code_redeemed_once:
  assumes "sr_store s = memstore_OAuth" and "mem_wf (db w)" and "uuid_ok x"
    and "Server_exchangeCode x b L s now client f w = (Inr resp, w1)"
    and "(other_call x (hashSecret x (values_Get f ''code'')))\<^sup>*\<^sup>* w1 w2"
    and "sr_store s' = memstore_OAuth" and "values_Get f' ''code'' = values_Get f ''code''"
  shows "(\<exists>e w3. Server_exchangeCode x b' L' s' now' client' f' w2 = (Inl e, w3) \<and>
      (Server_clientAllows client' GrantTypeAuthorizationCode \<and>
       map_of (m_oauthCodes (db w2)) (hashSecret x (values_Get f ''code'')) \<noteq> None \<longrightarrow>
         e = errInvalidGrant ''authorization code already used'' \<and>
         map_of (m_oauthGrants (db w3)) (x_uuid x (tape w)) = None)) \<and>
    MarkCodeUsed (hashSecret x (values_Get f ''code'')) gid' t w2 = (Inr False, w2)"
proof -
  let ?h = "hashSecret x (values_Get f ''code'')"
  obtain c where c: "map_of (m_oauthCodes (db w1)) ?h = Some (c\<lparr>cd_UsedAt := Some now, cd_GrantID := x_uuid x (tape w)\<rparr>)"
    by (rule mem_oauth.exchange_ok [OF assms(1,4)]) simp
  have "mem_wf (db w1)" by (rule mem_oauth.exchange_inv [OF assms(1,2,4)])
  moreover from c have "spent ?h (x_uuid x (tape w)) (db w1)" by (simp add: spent_def)
  ultimately have sp: "spent ?h (x_uuid x (tape w)) (db w2)" using spent_run [OF assms(5)] by blast
  from assms(4) have ne: "values_Get f ''code'' \<noteq> []" by (auto simp: Server_exchangeCode_def split: if_splits)
  obtain e w3 where "Server_exchangeCode x b' L' s' now' client' f' w2 = (Inl e, w3)"
    and "Server_clientAllows client' GrantTypeAuthorizationCode \<Longrightarrow> map_of (m_oauthCodes (db w2)) ?h \<noteq> None \<Longrightarrow>
      e = errInvalidGrant ''authorization code already used'' \<and> map_of (m_oauthGrants (db w3)) (x_uuid x (tape w)) = None"
    using exchange_spent [of s' x f' "x_uuid x (tape w)" w2 b' L' now' client'] sp assms(6,7) ne uuid_ne [OF assms(3)]
    by auto
  moreover from sp have "MarkCodeUsed ?h gid' t w2 = (Inr False, w2)"
    by (auto simp: MarkCodeUsed_def spent_def split: option.splits)
  ultimately show ?thesis by blast
qed

section \<open>Refresh tokens as a family\<close>

text \<open>
  The abstract view of a grant: revoked, or the secrets issued so far, newest first. Presenting the
  newest one rotates; presenting the one before it is reuse and ends the family, outside the grace
  window; anything else is refused without effect.
\<close>

datatype family = Revoked | Live "string list"

fun fam_present :: "bool \<Rightarrow> string \<Rightarrow> string \<Rightarrow> family \<Rightarrow> bool \<times> family" where
  "fam_present grace secret fresh (Live (c # ps)) =
     (if secret = c then (True, Live (fresh # c # ps))
      else if ps \<noteq> [] \<and> secret = hd ps then (False, if grace then Live (c # ps) else Revoked)
      else (False, Live (c # ps)))"
| "fam_present grace secret fresh fam = (False, fam)"

fun fam_secrets :: "family \<Rightarrow> string set" where
  "fam_secrets Revoked = {}"
| "fam_secrets (Live ss) = set ss"

fun family_rel :: "extern \<Rightarrow> oauth_grant option \<Rightarrow> family \<Rightarrow> bool" where
  "family_rel x None Revoked \<longleftrightarrow> True"
| "family_rel x (Some g) (Live (c # ps)) \<longleftrightarrow> g_TokenHash g = hashSecret x c \<and>
     g_PrevTokenHash g = (case ps of [] \<Rightarrow> [] | p # _ \<Rightarrow> hashSecret x p)"
| "family_rel x _ _ \<longleftrightarrow> False"

lemma family_rel_Live:
  assumes "family_rel x row (Live ss)"
  obtains g c ps where "row = Some g" "ss = c # ps" "g_TokenHash g = hashSecret x c"
    "g_PrevTokenHash g = (case ps of [] \<Rightarrow> [] | p # _ \<Rightarrow> hashSecret x p)"
  using assms by (cases row; cases ss) simp_all

lemma family_rel_Revoked: "family_rel x row Revoked \<longleftrightarrow> row = None"
  by (cases row) simp_all

lemma hashSecret_ne: "sha256_ok x \<Longrightarrow> hashSecret x s \<noteq> []"
  using hex_Encode_inj [of "x_sha256 x s" "[]"] by (auto simp: hashSecret_def hex_Encode_def sha256_ok_def dest: spec [of _ s])

text \<open>What the checks on the account and the request come to for the current token of a grant.\<close>

lemma refresh_current:
  assumes "sr_store s = memstore_OAuth" "mem_wf (db w)" "Server_clientAllows client GrantTypeRefreshToken"
    and "strings_Cut (values_Get f ''refresh_token'') (CHR ''.'') = Some (gid, secret)"
    and "gid \<noteq> []" "secret \<noteq> []" "length gid \<le> 64"
    and "map_of (m_oauthGrants (db w)) gid = Some g" "g_ClientID g = rc_ID client"
    and "g_TokenHash g = hashSecret x secret" "g_TokenHash g \<noteq> []" "check_refresh x b s now f g w = Inr (u, scopes)"
  obtains w1 where "Server_refreshGrant x b L s now client f w =
      Server_tokenResponse x L s now u g scopes (gid @ ''.'' @ fst (randomSecret x 32 (tape w))) w1"
    "map_of (m_oauthGrants (db w1)) gid = Some (g\<lparr>g_PrevTokenHash := g_TokenHash g,
       g_TokenHash := hashSecret x (fst (randomSecret x 32 (tape w))),
       g_ExpiresAt := now + op_RefreshTokenTTL (sr_opts s), g_LastUsedAt := Some now\<rparr>)"
proof -
  have i: "g_ID g = gid" using wf_row(7) [OF assms(2,8)] .
  show ?thesis
    by (rule that, use assms i in \<open>simp add: Server_refreshGrant_def Let_def oauth_ops\<close>,
        simp add: update_conv assms(10))
qed

text \<open>(C17) Refresh tokens refine the abstract family. Let a request present \<open>gid.secret\<close> for a grant
  of the authenticated client, with the account and request checks passing for the grant on
  record. Then the grant table moves exactly as the family does: the newest secret rotates the
  grant, the previous one revokes it (outside the grace window), anything else leaves it alone; a
  refusal is \<open>invalid_grant\<close>, and a rotation fails only if the new access token cannot be signed.
  The presented secret and the family's secrets are assumed free of SHA-256 collisions.\<close>

theorem refresh_refines_family:
  assumes "sha256_ok x" and "sr_store s = memstore_OAuth" and "mem_wf (db w)"
    and "Server_clientAllows client GrantTypeRefreshToken"
    and "strings_Cut (values_Get f ''refresh_token'') (CHR ''.'') = Some (gid, secret)"
    and "gid \<noteq> []" and "secret \<noteq> []" and "length gid \<le> 64"
    and "family_rel x (map_of (m_oauthGrants (db w)) gid) fam"
    and "inj_on (hashSecret x) (insert secret (fam_secrets fam))"
    and "\<forall>g. map_of (m_oauthGrants (db w)) gid = Some g \<longrightarrow>
      g_ClientID g = rc_ID client \<and> (\<exists>u scopes. check_refresh x b s now f g w = Inr (u, scopes))"
    and "Server_refreshGrant x b L s now client f w = (r, w')"
    and "fam_present (case map_of (m_oauthGrants (db w)) gid of None \<Rightarrow> False | Some g \<Rightarrow> in_grace (sr_opts s) now g)
      secret (fst (randomSecret x 32 (tape w))) fam = (accepted, fam')"
  shows "family_rel x (map_of (m_oauthGrants (db w')) gid) fam' \<and>
    (if accepted then \<forall>e. r = Inl e \<longrightarrow> e = errServer ''could not sign access token''
     else \<exists>msg. r = Inl (errInvalidGrant msg))"
proof (cases fam)
  case Revoked
  with assms(9) have "map_of (m_oauthGrants (db w)) gid = None" by (simp add: family_rel_Revoked)
  moreover from this have "os_GetGrant (sr_store s) gid w = Inl ErrNotFound"
    by (simp add: assms(2) memstore_OAuth_def GetGrant_def)
  then have "Server_refreshGrant x b L s now client f w = (Inl (errInvalidGrant ''invalid refresh token''), w)"
    using assms(4-8) by (simp add: Server_refreshGrant_def)
  then have "r = Inl (errInvalidGrant ''invalid refresh token'')" "w' = w" using assms(12) by simp_all
  moreover have "\<not> accepted" "fam' = Revoked" using assms(13) Revoked by simp_all
  ultimately show ?thesis by auto
next
  case (Live ss)
  from assms(9) [unfolded Live] obtain g c ps where
      g: "map_of (m_oauthGrants (db w)) gid = Some g" and ss: "ss = c # ps"
    and rel: "g_TokenHash g = hashSecret x c" "g_PrevTokenHash g = (case ps of [] \<Rightarrow> [] | p # _ \<Rightarrow> hashSecret x p)"
    by (rule family_rel_Live)
  note ne = hashSecret_ne [OF assms(1)]
  have i: "g_ID g = gid" using wf_row(7) [OF assms(3) g] .
  show ?thesis
  proof (cases "secret = c")
    case True
    obtain u scopes where ok: "g_ClientID g = rc_ID client" "check_refresh x b s now f g w = Inr (u, scopes)"
      using assms(11) g by blast
    have cur: "g_TokenHash g = hashSecret x secret" "g_TokenHash g \<noteq> []" using rel(1) ne True by simp_all
    obtain w1 where r: "Server_refreshGrant x b L s now client f w =
        Server_tokenResponse x L s now u g scopes (gid @ ''.'' @ fst (randomSecret x 32 (tape w))) w1"
      and row: "map_of (m_oauthGrants (db w1)) gid = Some (g\<lparr>g_PrevTokenHash := g_TokenHash g,
       g_TokenHash := hashSecret x (fst (randomSecret x 32 (tape w))),
       g_ExpiresAt := now + op_RefreshTokenTTL (sr_opts s), g_LastUsedAt := Some now\<rparr>)"
      by (rule refresh_current [OF assms(2-8) g ok(1) cur ok(2)])
    have resp: "Server_tokenResponse x L s now u g scopes (gid @ ''.'' @ fst (randomSecret x 32 (tape w))) w1 = (r, w')"
      using r assms(12) by simp
    then have "db w' = db w1" by (rule mem_oauth.signing_keeps_db)
    moreover have "fam' = Live (fst (randomSecret x 32 (tape w)) # c # ps)" "accepted"
      using assms(13) Live ss True by simp_all
    moreover have "r = Inl e \<Longrightarrow> e = errServer ''could not sign access token''" for e
      using resp by (auto simp: Server_tokenResponse_def split: prod.splits sum.splits)
    ultimately show ?thesis using row rel(1) by auto
  next
    case False
    have inj: "hashSecret x secret = hashSecret x d \<longleftrightarrow> secret = d" if "d \<in> set ss" for d
      using assms(10) that Live by (auto simp: inj_on_def)
    have cl: "g_ClientID g = rc_ID client" using assms(11) g by blast
    have nc: "hashSecret x secret \<noteq> g_TokenHash g" using inj [of c] False ss rel(1) by simp
    have old: "g_PrevTokenHash g \<noteq> [] \<and> hashSecret x secret = g_PrevTokenHash g \<longleftrightarrow> ps \<noteq> [] \<and> secret = hd ps"
      using inj rel(2) ss ne by (auto split: list.splits)
    have "Server_refreshGrant x b L s now client f w = (if ps \<noteq> [] \<and> secret = hd ps
        then (Inl (errInvalidGrant ''refresh token already used''), if in_grace (sr_opts s) now g then w else drop_grant s gid w)
        else (Inl (errInvalidGrant ''invalid refresh token''), w))"
      using assms(2,4-8) g cl nc old i by (simp add: Server_refreshGrant_def Let_def oauth_ops)
    moreover have "map_of (m_oauthGrants (db (drop_grant s gid w))) gid = None"
      by (simp add: drop_grant_def assms(2) oauth_ops delete_conv)
    ultimately show ?thesis
      using assms(12,13) Live ss False g rel by (cases "ps \<noteq> [] \<and> secret = hd ps"; cases "in_grace (sr_opts s) now g") auto
  qed
qed

text \<open>(C18) A refresh never widens a grant. An accepted refresh token is the current one of a grant on
  record that belongs to the authenticated client and has not expired; its user exists, is not
  locked out and still has the security stamp of the consent; the scopes of the new access token
  are among the granted ones; and the rotation changes nothing but the two token hashes, the
  expiry and the time of use of that one grant.\<close>

theorem refresh_never_widens:
  assumes "sr_store s = memstore_OAuth" and "um_Store (sr_users s) = memstore_Users x" and "mem_wf (db w)"
    and "Server_refreshGrant x b L s now client f w = (Inr resp, w')"
  shows "\<exists>gid g g' u scopes. map_of (m_oauthGrants (db w)) gid = Some g \<and> g_ClientID g = rc_ID client \<and>
    now \<le> g_ExpiresAt g \<and> map_of (m_users (db w)) (g_UserID g) = Some u \<and> \<not> UserManager_IsLockedOut now u \<and>
    u_SecurityStamp u = g_SecurityStamp g \<and>
    tr_Scope resp = joinScopes scopes \<and> set scopes \<subseteq> set (parseScopes (g_Scopes g)) \<and>
    map_of (m_oauthGrants (db w')) = (map_of (m_oauthGrants (db w)))(gid \<mapsto> g') \<and>
    g' = g\<lparr>g_PrevTokenHash := g_TokenHash g, g_TokenHash := g_TokenHash g', g_ExpiresAt := g_ExpiresAt g',
           g_LastUsedAt := Some now\<rparr>"
proof -
  from assms(1,3,4) obtain gid g u scopes where
      g: "map_of (m_oauthGrants (db w)) gid = Some g" "g_ClientID g = rc_ID client"
    and ch: "check_refresh x b s now f g w = Inr (u, scopes)"
    and w': "map_of (m_oauthGrants (db w')) = (map_of (m_oauthGrants (db w)))(gid \<mapsto> g\<lparr>g_PrevTokenHash := g_TokenHash g,
       g_TokenHash := hashSecret x (fst (randomSecret x 32 (tape w))),
       g_ExpiresAt := now + op_RefreshTokenTTL (sr_opts s), g_LastUsedAt := Some now\<rparr>)"
    and sc: "tr_Scope resp = joinScopes scopes"
    by (rule mem_oauth.refresh_ok) blast
  from ch have "now \<le> g_ExpiresAt g" "u_SecurityStamp u = g_SecurityStamp g" "set scopes \<subseteq> set (parseScopes (g_Scopes g))"
    and u: "available_user s now (g_UserID g) w = Some u"
    by (auto simp: check_refresh_def Let_def containsAll_def list_all_iff split: if_splits option.splits)
  moreover have "map_of (m_users (db w)) (g_UserID g) = Some u" "\<not> UserManager_IsLockedOut now u"
    using u assms(2) mem.FindByID [OF assms(3), of x "g_UserID g" u]
    by (auto simp: available_user_def UserManager_FindByID_def split: sum.splits if_splits)
  ultimately show ?thesis using g sc w' by fastforce
qed

section \<open>What a redemption requires\<close>

text \<open>(C19) A code is redeemed only by the client it was issued to, before its expiry, with the PKCE
  verifier of its challenge, and with the redirect URI and resource of the authorization request
  when the client repeats them; its user must exist and not be locked out. The redemption marks
  the code and creates exactly one grant, for that user, client, resource and the approved scopes,
  under the user's current security stamp; no other code and no other grant changes.\<close>

theorem exchange_binds:
  assumes "sr_store s = memstore_OAuth" and "um_Store (sr_users s) = memstore_Users x" and "mem_wf (db w)"
    and "Server_exchangeCode x b L s now client f w = (Inr resp, w')"
  shows "\<exists>c u g. map_of (m_oauthCodes (db w)) (hashSecret x (values_Get f ''code'')) = Some c \<and>
    cd_UsedAt c = None \<and> now \<le> cd_ExpiresAt c \<and> cd_ClientID c = rc_ID client \<and>
    values_Get f ''redirect_uri'' \<in> {[], cd_RedirectURI c} \<and>
    verifyS256 x (values_Get f ''code_verifier'') (cd_CodeChallenge c) \<and>
    (values_Get f ''resource'' = [] \<or> canonicalResource x b (values_Get f ''resource'') = Some (cd_Resource c)) \<and>
    map_of (m_users (db w)) (cd_UserID c) = Some u \<and> \<not> UserManager_IsLockedOut now u \<and>
    map_of (m_oauthCodes (db w')) = (map_of (m_oauthCodes (db w)))(hashSecret x (values_Get f ''code'') \<mapsto>
      c\<lparr>cd_UsedAt := Some now, cd_GrantID := g_ID g\<rparr>) \<and>
    map_of (m_oauthGrants (db w')) = (map_of (m_oauthGrants (db w)))(g_ID g \<mapsto> g) \<and>
    g_UserID g = cd_UserID c \<and> g_ClientID g = rc_ID client \<and> g_Scopes g = cd_Scopes c \<and>
    g_Resource g = cd_Resource c \<and> g_SecurityStamp g = u_SecurityStamp u \<and>
    tr_Scope resp = joinScopes (parseScopes (cd_Scopes c))"
proof -
  from assms(1,4) obtain c u g where
      c: "map_of (m_oauthCodes (db w)) (hashSecret x (values_Get f ''code'')) = Some c" "cd_UsedAt c = None"
    and ch: "check_code x b now client f c = None" and u: "available_user s now (cd_UserID c) w = Some u"
    and w': "map_of (m_oauthCodes (db w')) = (map_of (m_oauthCodes (db w)))(hashSecret x (values_Get f ''code'') \<mapsto>
        c\<lparr>cd_UsedAt := Some now, cd_GrantID := x_uuid x (tape w)\<rparr>)"
      "map_of (m_oauthGrants (db w')) = (map_of (m_oauthGrants (db w)))(x_uuid x (tape w) \<mapsto> g)"
    and g: "g = \<lparr>g_ID = x_uuid x (tape w), g_UserID = u_ID u, g_ClientID = rc_ID client, g_Scopes = cd_Scopes c,
         g_Resource = cd_Resource c, g_TokenHash = g_TokenHash g, g_PrevTokenHash = [],
         g_SecurityStamp = u_SecurityStamp u, g_ExpiresAt = now + op_RefreshTokenTTL (sr_opts s),
         g_CreatedAt = now, g_LastUsedAt = None\<rparr>"
    and sc: "tr_Scope resp = joinScopes (parseScopes (cd_Scopes c))"
    by (rule mem_oauth.exchange_ok) blast
  have gi: "g_ID g = x_uuid x (tape w)" "g_UserID g = u_ID u" "g_ClientID g = rc_ID client" "g_Scopes g = cd_Scopes c"
    "g_Resource g = cd_Resource c" "g_SecurityStamp g = u_SecurityStamp u"
    by (subst g, simp)+
  have row: "map_of (m_users (db w)) (cd_UserID c) = Some u" "\<not> UserManager_IsLockedOut now u"
    using u assms(2) mem.FindByID [OF assms(3), of x "cd_UserID c" u]
    by (auto simp: available_user_def UserManager_FindByID_def split: sum.splits if_splits)
  have "u_ID u = cd_UserID c" using wf_row(1) [OF assms(3) row(1)] .
  moreover from ch have "now \<le> cd_ExpiresAt c" "cd_ClientID c = rc_ID client"
    "values_Get f ''redirect_uri'' \<in> {[], cd_RedirectURI c}"
    "verifyS256 x (values_Get f ''code_verifier'') (cd_CodeChallenge c)"
    "values_Get f ''resource'' = [] \<or> canonicalResource x b (values_Get f ''resource'') = Some (cd_Resource c)"
    by (auto simp: check_code_def split: if_splits)
  ultimately show ?thesis using c row w' gi sc by (intro exI [of _ c] exI [of _ u] exI [of _ g]) simp
qed

section \<open>The whole flow\<close>

lemma exchange_succeeds:
  assumes "sr_store s = memstore_OAuth" "Server_clientAllows client GrantTypeAuthorizationCode" "values_Get f ''code'' \<noteq> []"
    and "map_of (m_oauthCodes (db w)) (hashSecret x (values_Get f ''code'')) = Some c" "cd_UsedAt c = None"
    and "check_code x b now client f c = None" "available_user s now (cd_UserID c) w = Some u"
  obtains g refresh w1 where "Server_exchangeCode x b L s now client f w =
      Server_tokenResponse x L s now u g (parseScopes (cd_Scopes c)) refresh w1"
    "g_ID g = x_uuid x (tape w)" "g_UserID g = u_ID u" "g_ClientID g = rc_ID client" "g_Resource g = cd_Resource c"
    "map_of (m_oauthGrants (db w1)) (g_ID g) = Some g" "m_users (db w1) = m_users (db w)"
    "m_userRoles (db w1) = m_userRoles (db w)"
    "tape w1 = (if Server_issuesRefresh s client (parseScopes (cd_Scopes c)) then 48 + tape w else tape w + 16)"
proof -
  define g where "g = \<lparr>g_ID = x_uuid x (tape w), g_UserID = u_ID u, g_ClientID = rc_ID client, g_Scopes = cd_Scopes c,
     g_Resource = cd_Resource c, g_TokenHash = (if Server_issuesRefresh s client (parseScopes (cd_Scopes c))
       then hashSecret x (fst (randomSecret x 32 (tape w + 16))) else []), g_PrevTokenHash = [],
     g_SecurityStamp = u_SecurityStamp u, g_ExpiresAt = now + op_RefreshTokenTTL (sr_opts s),
     g_CreatedAt = now, g_LastUsedAt = None\<rparr>"
  define d where "d = m_oauthGrants_update (AList.update (g_ID g) g)
     (m_oauthCodes_update (AList.update (hashSecret x (values_Get f ''code''))
        (c\<lparr>cd_UsedAt := Some now, cd_GrantID := x_uuid x (tape w)\<rparr>)) (db w))"
  define w1 where "w1 = (if Server_issuesRefresh s client (parseScopes (cd_Scopes c))
     then w\<lparr>tape := 48 + tape w, db := d\<rparr> else w\<lparr>tape := tape w + 16, db := d\<rparr>)"
  define w2 where "w2 = (if \<not> rc_CIMD client then snd (os_TouchClient (sr_store s) (rc_ID client) now w1) else w1)"
  have "Server_exchangeCode x b L s now client f w = Server_tokenResponse x L s now u g (parseScopes (cd_Scopes c))
      (if Server_issuesRefresh s client (parseScopes (cd_Scopes c))
       then x_uuid x (tape w) @ ''.'' @ fst (randomSecret x 32 (tape w + 16)) else []) w2"
    using assms
    by (simp add: Server_exchangeCode_def Let_def draw_def [of "uuid_NewString x"] uuid_NewString_def memstore_OAuth_def
        GetCode_def MarkCodeUsed_def CreateGrant_def g_def d_def w1_def w2_def)
  moreover have "map_of (m_oauthGrants (db w2)) (g_ID g) = Some g" "m_users (db w2) = m_users (db w)"
    "m_userRoles (db w2) = m_userRoles (db w)"
    "tape w2 = (if Server_issuesRefresh s client (parseScopes (cd_Scopes c)) then 48 + tape w else tape w + 16)"
    using assms(1) by (auto simp: w2_def w1_def d_def memstore_OAuth_def TouchClient_def update_conv split: option.splits)
  ultimately show ?thesis using that [of g _ w2] by (simp add: g_def)
qed

text \<open>(C20) The authorization code flow works end to end. After \<open>issueCode\<close> stored a code for a signed-in
  user, the same client redeems it within its lifetime with the PKCE verifier and the redirect URI
  of the request; unless signing fails the answer carries an access token, and the resource of the
  request, which is not the empty string, accepts it for that user until it expires, while the user
  is not locked out.\<close>

theorem code_flow_works:
  assumes "sr_store s = memstore_OAuth" and "um_Store (sr_users s) = memstore_Users x" and "mem_wf (db w)"
    and "jwt_complete L" and "jwt_faithful L" and "signer_ok (sr_signer s)" and "uuid_ok x"
    and "map_of (m_users (db w)) userID = Some u" and "userID \<noteq> []"
    and "Server_issueCode x b s now r userID req w = (reply, w1)"
    and "Server_clientAllows client GrantTypeAuthorizationCode" and "rc_ID client = rc_ID (ar_client req)"
    and "values_Get f ''code'' = fst (randomSecret x 32 (tape w))"
    and "values_Get f ''redirect_uri'' \<in> {[], ar_redirectURI req}" and "values_Get f ''resource'' = []"
    and "verifyS256 x (values_Get f ''code_verifier'') (ar_challenge req)"
    and "nowe \<le> now + op_CodeTTL (sr_opts s)" and "\<not> UserManager_IsLockedOut nowe u"
    and "Server_exchangeCode x b L s nowe client f w1 = (res, w2)"
    and "res \<noteq> Inl (errServer ''could not sign access token'')"
    and "canonicalResource x b resource = Some (ar_resource req)" and "ar_resource req \<noteq> []"
    and "nowe \<le> nowr" and "nowr < time_of_Unix (time_Unix (nowe + op_AccessTokenTTL (sr_opts s)))"
    and "\<not> UserManager_IsLockedOut nowr u"
  shows "\<exists>resp c. res = Inr resp \<and>
    Server_ValidateResourceToken x b L s nowr (tr_AccessToken resp) resource w2 = Inr (u, c) \<and>
    str_claim c ClaimClientID = rc_ID client \<and>
    str_claim c ClaimScope = joinScopes (parseScopes (joinScopes (ar_scopes req)))"
proof -
  let ?code = "fst (randomSecret x 32 (tape w))"
  let ?c = "new_code x s now userID req ?code"
  have w1: "w1 = w\<lparr>tape := tape w + 32, db := m_oauthCodes_update (AList.update (hashSecret x ?code) ?c) (db w)\<rparr>"
    using assms(1,10) by (simp add: Server_issueCode_def memstore_OAuth_def CreateCode_def new_code_def split: prod.splits)
  have wf1: "mem_wf (db w1)"
    using oauth_writes_wf(4) [of w ?c "fst (CreateCode ?c w)" "snd (CreateCode ?c w)"] assms(3)
    by (simp add: w1 CreateCode_def new_code_def)
  have code: "map_of (m_oauthCodes (db w1)) (hashSecret x (values_Get f ''code'')) = Some ?c" "cd_UsedAt ?c = None"
    using assms(13) by (simp_all add: w1 update_conv new_code_def)
  have ne: "values_Get f ''code'' \<noteq> []" using assms(13) randomSecret_ne [of 32 x] by simp
  have ch: "check_code x b nowe client f ?c = None"
    using assms(12,14-17) by (auto simp: check_code_def new_code_def)
  have uid: "u_ID u = userID" using wf_row(1) [OF assms(3,8)] .
  have find: "UserManager_FindByID (sr_users s) (u_ID u) w' = Inr u" if "m_users (db w') = m_users (db w)" for w'
    using that assms(2,8) uid by (simp add: UserManager_FindByID_def memstore_Users_def userStore_FindByID_def)
  have av: "available_user s nowe (cd_UserID ?c) w1 = Some u"
    using find [of w1] assms(18) uid by (simp add: available_user_def new_code_def w1)
  obtain g refresh w' where ex: "Server_exchangeCode x b L s nowe client f w1 =
      Server_tokenResponse x L s nowe u g (parseScopes (cd_Scopes ?c)) refresh w'"
    and g: "g_ID g = x_uuid x (tape w1)" "g_UserID g = u_ID u" "g_ClientID g = rc_ID client" "g_Resource g = cd_Resource ?c"
    and row: "map_of (m_oauthGrants (db w')) (g_ID g) = Some g" "m_users (db w') = m_users (db w1)"
    by (rule exchange_succeeds [OF assms(1,11) ne code ch av])
  have tr: "Server_tokenResponse x L s nowe u g (parseScopes (cd_Scopes ?c)) refresh w' = (res, w2)"
    using ex assms(19) by simp
  then obtain resp where resp: "res = Inr resp"
    using assms(20) by (cases res) (auto simp: Server_tokenResponse_def split: prod.splits sum.splits)
  have db: "db w2 = db w'" by (rule mem_oauth.signing_keeps_db [OF tr])
  obtain c where c: "j_SignedString L (sg_Method (sr_signer s))
      (with_kid (fst (sg_SignKey (sr_signer s))) (access_header L s)) c (snd (sg_SignKey (sr_signer s)))
      = Inr (tr_AccessToken resp)" "bears s nowe u g (parseScopes (cd_Scopes ?c)) c"
    using tr resp by (metis tokenResponse_signed)
  have "\<exists>c'. Server_ValidateResourceToken x b L s nowr (tr_AccessToken resp) resource w2 = Inr (u, c') \<and> map_of c' = map_of c"
    by (rule resource_accepts_fresh [OF assms(4-6) c, where g' = g])
      (use assms(9,21-25) uid g row db find uuid_ne [OF assms(7)]
        in \<open>simp_all add: new_code_def w1 memstore_OAuth_def GetGrant_def assms(1)\<close>)
  then obtain c' where "Server_ValidateResourceToken x b L s nowr (tr_AccessToken resp) resource w2 = Inr (u, c')"
    and "str_claim c' = str_claim c" using str_claim_cong by blast
  then show ?thesis using resp c(2) g(3) by (auto simp: bears_def str_claim_Some new_code_def)
qed

section \<open>Access tokens\<close>

text \<open>(C21) An access token lives exactly as long as its grant, its user's stamp and its expiry. From the
  moment it is issued, a resource accepts the token if and only if it is the resource the token was
  bound to (not the empty string), the expiry has not passed, the user still exists under the security stamp of issue and
  is not locked out, and the grant is still on record for that user.\<close>

theorem resource_token_iff:
  assumes "jwt_complete L" and "jwt_faithful L" and "jwt_checks L" and "jwt_exp_ok L" and "signer_ok (sr_signer s)"
    and "sr_store s = memstore_OAuth" and "um_Store (sr_users s) = memstore_Users x" and "mem_wf (db w')"
    and "Server_tokenResponse x L s now u g scopes refresh w = (Inr resp, w1)"
    and "u_ID u \<noteq> []" and "g_ID g \<noteq> []" and "g_Resource g \<noteq> []" and "now \<le> now'"
  shows "(\<exists>c. Server_ValidateResourceToken x b L s now' (tr_AccessToken resp) resource w' = Inr (v, c)) \<longleftrightarrow>
    canonicalResource x b resource = Some (g_Resource g) \<and>
    now' < time_of_Unix (time_Unix (now + op_AccessTokenTTL (sr_opts s))) \<and>
    map_of (m_users (db w')) (u_ID u) = Some v \<and> u_SecurityStamp v = u_SecurityStamp u \<and>
    \<not> UserManager_IsLockedOut now' v \<and>
    (\<exists>g'. map_of (m_oauthGrants (db w')) (g_ID g) = Some g' \<and> g_UserID g' = u_ID v)"
proof -
  obtain c where c: "j_SignedString L (sg_Method (sr_signer s))
      (with_kid (fst (sg_SignKey (sr_signer s))) (access_header L s)) c (snd (sg_SignKey (sr_signer s)))
      = Inr (tr_AccessToken resp)" "bears s now u g scopes c"
    by (rule tokenResponse_signed [OF assms(9)])
  have find: "UserManager_FindByID (sr_users s) i w' = Inr v \<longleftrightarrow> map_of (m_users (db w')) i = Some v" for i v
    using mem.FindByID [OF assms(8)] assms(7) by (simp add: UserManager_FindByID_def)
  have grant: "os_GetGrant (sr_store s) i w' = Inr g' \<longleftrightarrow> map_of (m_oauthGrants (db w')) i = Some g'" for i g'
    by (simp add: assms(6) memstore_OAuth_def GetGrant_def split: option.splits)
  show ?thesis
    using resource_accepts [OF assms(2-4) c, of x b s now' resource w' v]
      resource_accepts_fresh [OF assms(1,2,5) c, of x b resource now' w' v] assms(10-13)
    unfolding find grant by blast
qed

lemma session_header:
  assumes "TokenService_IssuePair x L t now u w = (Inr pair, w1)"
  obtains m kid c key where "j_SignedString L m (with_kid kid (j_NewHeader L m)) c key = Inr (pair_AccessToken pair)"
  using signAccessToken_token [OF IssuePair_access [OF assms]] by metis

text \<open>(C22) The two kinds of token are never confused. A resource refuses every session token, although
  it is signed with the same keys, and the session middleware's validation refuses every OAuth
  access token: the header's \<open>typ\<close> tells them apart.\<close>

theorem token_types_separate:
  assumes "jwt_faithful L" and "jwt_header_ok L"
    and "TokenService_IssuePair x L t now u w = (Inr pair, w1)"
    and "Server_tokenResponse x L s now2 u2 g scopes refresh w2 = (Inr resp, w3)"
  shows "Server_ValidateResourceToken x b L s' now' (pair_AccessToken pair) resource w' = Inl ErrInvalidToken \<and>
    TokenService_ValidateAccessToken L t' now' (tr_AccessToken resp) w' = Inl ErrInvalidToken"
proof
  obtain m kid c key where s: "j_SignedString L m (with_kid kid (j_NewHeader L m)) c key = Inr (pair_AccessToken pair)"
    by (rule session_header [OF assms(3)])
  have "\<not> equal_fold_ascii (str_claim (t_Header p) ''typ'') TokenTypeAccessJWT"
    if "j_Parse L q n kf (pair_AccessToken pair) = Inr p" for q n kf p
  proof -
    have "map_of (t_Header p) = map_of (with_kid kid (j_NewHeader L m))"
      using assms(1) s that unfolding jwt_faithful_def by blast
    then have "str_claim (t_Header p) ''typ'' = ''JWT''"
      using assms(2) by (simp add: jwt_header_ok_def str_claim_def map_of_with_kid)
    then show ?thesis by (simp add: equal_fold_ascii_def TokenTypeAccessJWT_def)
  qed
  then show "Server_ValidateResourceToken x b L s' now' (pair_AccessToken pair) resource w' = Inl ErrInvalidToken"
    by (auto simp: Server_ValidateResourceToken_def split: option.splits sum.splits)
next
  obtain c where c: "j_SignedString L (sg_Method (sr_signer s))
      (with_kid (fst (sg_SignKey (sr_signer s))) (access_header L s)) c (snd (sg_SignKey (sr_signer s)))
      = Inr (tr_AccessToken resp)"
    by (rule tokenResponse_signed [OF assms(4)])
  have "equal_fold_ascii (str_claim (t_Header p) ''typ'') TokenTypeAccessJWT"
    if "j_Parse L q n kf (tr_AccessToken resp) = Inr p" for q n kf p
  proof -
    have "map_of (t_Header p) = map_of (with_kid (fst (sg_SignKey (sr_signer s))) (access_header L s))"
      using assms(1) c that unfolding jwt_faithful_def by blast
    from str_claim_cong [OF this] show ?thesis by (simp add: access_header_typ equal_fold_ascii_def)
  qed
  then show "TokenService_ValidateAccessToken L t' now' (tr_AccessToken resp) w' = Inl ErrInvalidToken"
    by (auto simp: TokenService_ValidateAccessToken_def split: sum.splits)
qed

section \<open>Concrete runs\<close>

definition demo_web :: web where
  "demo_web = \<lparr>wb_Parse = (\<lambda>s. if s = [] then None else Some \<lparr>url_Scheme = ''https'', url_User = False, url_Host = s,
       url_Path = [], url_RawPath = [], url_RawQuery = [], url_Fragment = []\<rparr>),
     wb_String = url_Host, wb_EscapedPath = url_Path, wb_Query = (\<lambda>_. []), wb_Encode = (\<lambda>_. []),
     wb_QueryUnescape = Some, wb_LoopbackIP = (\<lambda>_. False), wb_EqualFold = (=), wb_MediaType = (\<lambda>s. s),
     wb_JWKS = (\<lambda>_. None), wb_CIMD = (\<lambda>_. None), wb_P256 = (\<lambda>_. None), wb_Get = (\<lambda>_ _. Inl ''unreachable''),
     wb_Quote = (\<lambda>s. s)\<rparr>"

definition demo_server_options :: server_options where
  "demo_server_options = \<lparr>op_Issuer = ''iss'', op_Resources = [''r''], op_Scopes = [''read''], op_DefaultScopes = None,
     op_CodeTTL = 60 * second, op_AccessTokenTTL = 15 * minute, op_RefreshTokenTTL = 30 * 24 * hour,
     op_RefreshReuseGrace = 0, op_RequireOfflineAccess = True, op_AllowDCR = True, op_AllowCIMD = False,
     op_AuthorizePath = ''/authorize'', op_TokenPath = ''/token'', op_RegisterPath = ''/register'',
     op_RevokePath = ''/revoke'', op_CurrentUser = Some (\<lambda>_. Some ''a''), op_LoginURL = Some (\<lambda>s. s), op_CSRFKey = ''k'',
     op_CIMD = None, op_RegisterLimit = 20, op_ClientAssertionMaxLifetime = hour\<rparr>"

definition demo_server :: "memstore server" where
  "demo_server = \<lparr>sr_users = sv_Users (demo_service None), sr_tokens = demo_service None, sr_store = memstore_OAuth,
     sr_opts = demo_server_options, sr_issuer = ''iss'', sr_ipath = [], sr_signer = NewHMACSigner ''k'',
     sr_limiter = None, sr_scopeSet = [''read''], sr_resourceList = [''r'']\<rparr>"

lemma demo_server_simps [simp]:
  "um_Store (sr_users demo_server) = memstore_Users demo_extern" "sr_store demo_server = memstore_OAuth"
  "sr_opts demo_server = demo_server_options" "sr_signer demo_server = NewHMACSigner ''k''"
  "sr_users demo_server = sv_Users (demo_service None)"
  by (simp_all add: demo_server_def)

text \<open>The JWT library that signs one claim set.\<close>

definition one_jwt :: "claims \<Rightarrow> jwt_lib" where
  "one_jwt c = table_jwt [(SigningMethodHMAC ''HS256'', [(''typ'', JStr ''at+jwt''), (''alg'', JStr ''HS256'')], c, KeyBytes ''k'')]"

lemma one_jwt_ok:
  "jwt_faithful (one_jwt c)" "jwt_complete (one_jwt c)" "jwt_checks (one_jwt c)" "jwt_header_ok (one_jwt c)"
  "jwt_exp_ok (one_jwt c)"
  by (simp_all add: one_jwt_def table_jwt_ok)

lemma demo_response:
  assumes "m_userRoles (db w) = []" "tape w = n"
  shows "Server_tokenResponse demo_extern (one_jwt (access_claims demo_server now demo_member g scopes (demo_uuid n)))
      demo_server now demo_member g scopes refresh w =
    (Inr \<lparr>tr_AccessToken = [], tr_TokenType = ''Bearer'', tr_ExpiresIn = 900, tr_RefreshToken = refresh,
       tr_Scope = joinScopes scopes\<rparr>, w\<lparr>tape := n + 16\<rparr>)"
  using assms
  by (simp add: Server_tokenResponse_def Server_signAccessToken_def draw_def uuid_NewString_def UserManager_GetRoles_def
      memstore_Users_def userStore_GetRoles_def lookup_or_def map_filter_simps one_jwt_def table_jwt_def NewHMACSigner_def hmacSigner_Method_def
      hmacSigner_SignKey_def with_kid_def TokenTypeAccessJWT_def demo_extern_def demo_server_options_def time_Sub_def
      minute_def second_def in_int64_def minInt64_def maxInt64_def)

definition demo_client :: resolvedClient where
  "demo_client = zero_client\<lparr>rc_ID := ''c''\<rparr>"

definition demo_verifier :: string where
  "demo_verifier = replicate 43 (CHR ''a'')"

definition demo_request :: authzRequest where
  "demo_request = \<lparr>ar_v = [], ar_client = demo_client, ar_redirectURI = ''u'', ar_state = [], ar_scopes = [''read''],
     ar_resource = ''r'', ar_challenge = base64_Encode RawURLEncoding (x_sha256 demo_extern demo_verifier)\<rparr>"

definition demo_http :: http_request where
  "demo_http = \<lparr>rq_Method = ''GET'', rq_ContentType = [], rq_Query = [], rq_PostForm = None, rq_BasicAuth = None,
     rq_ClientIP = [], rq_Header = [], rq_Cookies = []\<rparr>"

definition demo_code_form :: url_values where
  "demo_code_form = [(''code'', [fst (randomSecret demo_extern 32 0)]), (''code_verifier'', [demo_verifier])]"

lemma demo_parse: "parseScopes ''read'' = [''read'']"
  by code_simp

lemma demo_verifies: "verifyS256 demo_extern demo_verifier (ar_challenge demo_request)"
proof -
  have "validVerifier demo_verifier" by code_simp
  then show ?thesis by (simp add: verifyS256_def demo_request_def)
qed

lemma access_claims_cong:
  "g_ID g = g_ID g' \<Longrightarrow> g_ClientID g = g_ClientID g' \<Longrightarrow> g_Resource g = g_Resource g' \<Longrightarrow>
     access_claims s now u g scopes jti = access_claims s now u g' scopes jti"
  by (simp add: access_claims_def)

definition demo_grant :: "string \<Rightarrow> oauth_grant" where
  "demo_grant i = \<lparr>g_ID = i, g_UserID = ''a'', g_ClientID = ''c'', g_Scopes = ''read'', g_Resource = ''r'',
     g_TokenHash = hashSecret demo_extern ''new'', g_PrevTokenHash = hashSecret demo_extern ''old'',
     g_SecurityStamp = ''s'', g_ExpiresAt = 100, g_CreatedAt = 0, g_LastUsedAt = Some 2\<rparr>"

definition demo_code_jwt :: jwt_lib where
  "demo_code_jwt = one_jwt (access_claims demo_server 1 demo_member (demo_grant (demo_uuid 32)) [''read''] (demo_uuid 48))"

definition demo_coded :: "memstore world" where
  "demo_coded = snd (Server_issueCode demo_extern demo_web demo_server 0 demo_http ''a'' demo_request demo_session_world)"

lemma demo_coded_db:
  "demo_coded = demo_session_world\<lparr>tape := 32, db := m_oauthCodes_update (\<lambda>_.
     [(hashSecret demo_extern (fst (randomSecret demo_extern 32 0)),
       new_code demo_extern demo_server 0 ''a'' demo_request (fst (randomSecret demo_extern 32 0)))]) (db demo_session_world)\<rparr>"
  by (simp add: demo_coded_def Server_issueCode_def memstore_OAuth_def CreateCode_def demo_session_world_def
      memstore_New_def new_code_def)

lemma demo_coded_wf: "mem_wf (db demo_coded)"
  by (simp add: demo_coded_db demo_session_world_def mem_wf_def keyed_def login_wf_def api_keys_wf_def oauth_wf_def
      memstore_New_def demo_member_def demo_session_def new_code_def)

lemma demo_unlocked: "\<not> UserManager_IsLockedOut now demo_member"
  by (simp add: UserManager_IsLockedOut_def demo_member_def zero_user_def)

lemma demo_exchange:
  obtains resp w where "Server_exchangeCode demo_extern demo_web demo_code_jwt demo_server 1 demo_client demo_code_form
    demo_coded = (Inr resp, w)" "tr_AccessToken resp = []"
proof -
  let ?code = "fst (randomSecret demo_extern 32 0)"
  let ?c = "new_code demo_extern demo_server 0 ''a'' demo_request ?code"
  have allow: "Server_clientAllows demo_client GrantTypeAuthorizationCode"
    by (simp add: Server_clientAllows_def demo_client_def zero_client_def)
  have f: "values_Get demo_code_form ''code'' = ?code" "values_Get demo_code_form ''code_verifier'' = demo_verifier"
    "values_Get demo_code_form ''redirect_uri'' = []" "values_Get demo_code_form ''resource'' = []"
    by (simp_all add: demo_code_form_def values_Get_def)
  have code: "map_of (m_oauthCodes (db demo_coded)) (hashSecret demo_extern (values_Get demo_code_form ''code'')) = Some ?c"
    "cd_UsedAt ?c = None" by (simp_all add: f demo_coded_db new_code_def)
  have ne: "values_Get demo_code_form ''code'' \<noteq> []" using randomSecret_ne [of 32 demo_extern] by (simp add: f)
  have ch: "check_code demo_extern demo_web 1 demo_client demo_code_form ?c = None"
    using demo_verifies by (simp add: check_code_def f new_code_def demo_request_def demo_server_options_def second_def)
  have av: "available_user demo_server 1 (cd_UserID ?c) demo_coded = Some demo_member"
    using demo_unlocked by (simp add: available_user_def UserManager_FindByID_def memstore_Users_def userStore_FindByID_def
        new_code_def demo_coded_db demo_session_world_def)
  have sc: "parseScopes (cd_Scopes ?c) = [''read'']"
    by (simp add: new_code_def demo_request_def joinScopes_def demo_parse)
  have iss: "\<not> Server_issuesRefresh demo_server demo_client [''read'']"
    by (simp add: Server_issuesRefresh_def demo_server_options_def hasScope_def ScopeOfflineAccess_def)
  obtain g refresh w1 where ex: "Server_exchangeCode demo_extern demo_web demo_code_jwt demo_server 1 demo_client
      demo_code_form demo_coded = Server_tokenResponse demo_extern demo_code_jwt demo_server 1 demo_member g
        (parseScopes (cd_Scopes ?c)) refresh w1"
    and g: "g_ID g = x_uuid demo_extern (tape demo_coded)" "g_ClientID g = rc_ID demo_client" "g_Resource g = cd_Resource ?c"
    and w1: "m_userRoles (db w1) = m_userRoles (db demo_coded)"
      "tape w1 = (if Server_issuesRefresh demo_server demo_client (parseScopes (cd_Scopes ?c)) then 48 + tape demo_coded else tape demo_coded + 16)"
    by (rule exchange_succeeds [OF _ allow ne code ch av, where L = demo_code_jwt]) simp_all
  have L: "demo_code_jwt = one_jwt (access_claims demo_server 1 demo_member g [''read''] (demo_uuid 48))"
    unfolding demo_code_jwt_def
    by (subst access_claims_cong [of g "demo_grant (demo_uuid 32)"])
      (use g in \<open>simp_all add: demo_grant_def demo_extern_def demo_client_def new_code_def demo_request_def demo_coded_db\<close>)
  have "m_userRoles (db w1) = []" "tape w1 = 48"
    using w1 by (simp_all add: sc iss demo_coded_db demo_session_world_def memstore_New_def)
  from demo_response [OF this, of 1 g "[''read'']" refresh] show ?thesis
    using that ex by (simp add: L sc)
qed

theorem code_redeemed_once_witness:
  "\<exists>resp w e w'. Server_exchangeCode demo_extern demo_web demo_code_jwt demo_server 1 demo_client demo_code_form
     demo_coded = (Inr resp, w) \<and>
   Server_exchangeCode demo_extern demo_web demo_code_jwt demo_server 2 demo_client demo_code_form w = (Inl e, w') \<and>
   MarkCodeUsed (hashSecret demo_extern (values_Get demo_code_form ''code'')) ''g'' 2 w = (Inr False, w)"
proof -
  obtain resp w where ex: "Server_exchangeCode demo_extern demo_web demo_code_jwt demo_server 1 demo_client demo_code_form
      demo_coded = (Inr resp, w)" by (rule demo_exchange)
  from code_redeemed_once [OF _ demo_coded_wf demo_extern_ok(1) ex rtranclp.rtrancl_refl, of demo_server demo_code_form
      demo_web demo_code_jwt 2 demo_client "''g''" 2] ex show ?thesis by auto
qed

theorem exchange_binds_witness:
  "\<exists>resp w c. Server_exchangeCode demo_extern demo_web demo_code_jwt demo_server 1 demo_client demo_code_form
     demo_coded = (Inr resp, w) \<and>
   map_of (m_oauthCodes (db demo_coded)) (hashSecret demo_extern (values_Get demo_code_form ''code'')) = Some c \<and>
   verifyS256 demo_extern (values_Get demo_code_form ''code_verifier'') (cd_CodeChallenge c)"
proof -
  obtain resp w where ex: "Server_exchangeCode demo_extern demo_web demo_code_jwt demo_server 1 demo_client demo_code_form
      demo_coded = (Inr resp, w)" by (rule demo_exchange)
  from exchange_binds [OF _ _ demo_coded_wf ex] ex show ?thesis by auto
qed

theorem code_flow_works_witness:
  "\<exists>resp w c. Server_exchangeCode demo_extern demo_web demo_code_jwt demo_server 1 demo_client demo_code_form
     demo_coded = (Inr resp, w) \<and>
   Server_ValidateResourceToken demo_extern demo_web demo_code_jwt demo_server 2 (tr_AccessToken resp) ''r'' w =
     Inr (demo_member, c)"
proof -
  obtain resp w where ex: "Server_exchangeCode demo_extern demo_web demo_code_jwt demo_server 1 demo_client demo_code_form
      demo_coded = (Inr resp, w)" by (rule demo_exchange)
  have i: "Server_issueCode demo_extern demo_web demo_server 0 demo_http ''a'' demo_request demo_session_world =
      (fst (Server_issueCode demo_extern demo_web demo_server 0 demo_http ''a'' demo_request demo_session_world), demo_coded)"
    by (simp add: demo_coded_def)
  have res: "canonicalResource demo_extern demo_web ''r'' = Some (ar_resource demo_request)"
    by (simp add: canonicalResource_def demo_web_def demo_request_def Let_def strings_TrimSpace_visible visible_def
        strings_ToLower_def is_ascii_def lower_byte_def)
  from code_flow_works [OF _ _ demo_session_world_wf one_jwt_ok(2) one_jwt_ok(1) _ demo_extern_ok(1) _ _ i _ _ _ _ _ _ _ _
      ex [unfolded demo_code_jwt_def], where nowr = 2 and u = demo_member and resource = "''r''"] ex res demo_verifies demo_unlocked
  show ?thesis
    by (simp add: hmac_signer_ok demo_session_world_def demo_code_form_def values_Get_def demo_request_def demo_client_def
        Server_clientAllows_def zero_client_def demo_server_options_def second_def minute_def time_of_Unix_def time_Unix_def
        demo_code_jwt_def) blast
qed

definition demo_live :: "memstore world" where
  "demo_live = \<lparr>db = memstore_New\<lparr>m_users := [(''a'', demo_member)], m_oauthGrants := [(''g'', demo_grant ''g'')]\<rparr>, tape = 0\<rparr>"

lemma demo_live_wf: "mem_wf (db demo_live)"
  by (simp add: demo_live_def mem_wf_def keyed_def login_wf_def api_keys_wf_def oauth_wf_def
      memstore_New_def demo_member_def demo_grant_def)

lemma demo_allows: "Server_clientAllows demo_client GrantTypeRefreshToken"
  by (simp add: Server_clientAllows_def demo_client_def zero_client_def)

lemma demo_token: "values_Get [(''refresh_token'', [t])] ''refresh_token'' = t"
  "values_Get [(''refresh_token'', [t])] ''resource'' = []" "values_Get [(''refresh_token'', [t])] ''scope'' = []"
  by (simp_all add: values_Get_def)

lemma demo_check: "check_refresh demo_extern demo_web demo_server 5 [(''refresh_token'', [t])] (demo_grant ''g'') demo_live =
    Inr (demo_member, [''read''])"
proof -
  have "available_user demo_server 5 ''a'' demo_live = Some demo_member"
    using demo_unlocked by (simp add: available_user_def UserManager_FindByID_def memstore_Users_def userStore_FindByID_def demo_live_def)
  moreover have "u_SecurityStamp demo_member = ''s''" by (simp add: demo_member_def)
  moreover have "parseScopes [] = []" by code_simp
  ultimately show ?thesis by (simp add: check_refresh_def demo_token demo_grant_def demo_parse)
qed

lemma demo_live_row: "map_of (m_oauthGrants (db demo_live)) ''g'' = Some (demo_grant ''g'')"
  by (simp add: demo_live_def)

theorem refresh_refines_family_witness:
  "\<exists>r w. Server_refreshGrant demo_extern demo_web (one_jwt []) demo_server 5 demo_client [(''refresh_token'', [''g.old''])]
     demo_live = (r, w) \<and> (\<exists>msg. r = Inl (errInvalidGrant msg)) \<and> map_of (m_oauthGrants (db w)) ''g'' = None"
proof -
  obtain r w where r: "Server_refreshGrant demo_extern demo_web (one_jwt []) demo_server 5 demo_client
      [(''refresh_token'', [''g.old''])] demo_live = (r, w)"
    by (cases "Server_refreshGrant demo_extern demo_web (one_jwt []) demo_server 5 demo_client
      [(''refresh_token'', [''g.old''])] demo_live")
  have cut: "strings_Cut (values_Get [(''refresh_token'', [''g.old''])] ''refresh_token'') (CHR ''.'') = Some (''g'', ''old'')"
    by (simp add: demo_token strings_Cut_def)
  have rel: "family_rel demo_extern (map_of (m_oauthGrants (db demo_live)) ''g'') (Live [''new'', ''old''])"
    by (simp add: demo_live_row demo_grant_def)
  have inj: "inj_on (hashSecret demo_extern) (insert ''old'' (fam_secrets (Live [''new'', ''old''])))"
    by (simp add: inj_on_def hashSecret_def hex_Encode_inj demo_extern_def demo_pad_def)
  have ok: "\<forall>g. map_of (m_oauthGrants (db demo_live)) ''g'' = Some g \<longrightarrow> g_ClientID g = rc_ID demo_client \<and>
      (\<exists>u scopes. check_refresh demo_extern demo_web demo_server 5 [(''refresh_token'', [''g.old''])] g demo_live = Inr (u, scopes))"
    using demo_check [of "''g.old''"] by (simp add: demo_live_row) (simp add: demo_grant_def demo_client_def)
  have fam: "fam_present (case map_of (m_oauthGrants (db demo_live)) ''g'' of None \<Rightarrow> False
        | Some g \<Rightarrow> in_grace (sr_opts demo_server) 5 g) ''old'' (fst (randomSecret demo_extern 32 (tape demo_live)))
      (Live [''new'', ''old'']) = (False, Revoked)"
    by (simp add: demo_live_row in_grace_def demo_server_options_def)
  from refresh_refines_family [OF demo_extern_ok(2) _ demo_live_wf demo_allows cut _ _ _ rel inj ok r fam] r
  show ?thesis by (auto simp: family_rel_Revoked)
qed

theorem refresh_never_widens_witness:
  "\<exists>resp w gid g. Server_refreshGrant demo_extern demo_web
       (one_jwt (access_claims demo_server 5 demo_member (demo_grant ''g'') [''read''] (demo_uuid 32))) demo_server 5 demo_client
       [(''refresh_token'', [''g.new''])] demo_live = (Inr resp, w) \<and>
     map_of (m_oauthGrants (db demo_live)) gid = Some g \<and> g_ClientID g = rc_ID demo_client \<and> 5 \<le> g_ExpiresAt g"
proof -
  let ?L = "one_jwt (access_claims demo_server 5 demo_member (demo_grant ''g'') [''read''] (demo_uuid 32))"
  let ?w = "demo_live\<lparr>tape := 32, db := m_oauthGrants_update (AList.update ''g'' ((demo_grant ''g'')\<lparr>g_PrevTokenHash :=
     hashSecret demo_extern ''new'', g_TokenHash := hashSecret demo_extern (fst (randomSecret demo_extern 32 0)),
     g_ExpiresAt := 5 + op_RefreshTokenTTL (sr_opts demo_server), g_LastUsedAt := Some 5\<rparr>)) (db demo_live)\<rparr>"
  have cut: "strings_Cut (values_Get [(''refresh_token'', [''g.new''])] ''refresh_token'') (CHR ''.'') = Some (''g'', ''new'')"
    by (simp add: demo_token strings_Cut_def)
  have "Server_refreshGrant demo_extern demo_web ?L demo_server 5 demo_client [(''refresh_token'', [''g.new''])] demo_live =
      Server_tokenResponse demo_extern ?L demo_server 5 demo_member (demo_grant ''g'') [''read'']
        (''g'' @ ''.'' @ fst (randomSecret demo_extern 32 0)) ?w"
    using demo_allows hashSecret_ne [OF demo_extern_ok(2)] demo_check [of "''g.new''"]
    by (simp add: Server_refreshGrant_def cut memstore_OAuth_def GetGrant_def RotateGrant_def demo_live_row Let_def
        demo_client_def) (simp add: demo_grant_def demo_live_def demo_check)
  moreover have "m_userRoles (db ?w) = []" "tape ?w = 32" by (simp_all add: demo_live_def memstore_New_def)
  ultimately obtain resp w where r: "Server_refreshGrant demo_extern demo_web ?L demo_server 5 demo_client
      [(''refresh_token'', [''g.new''])] demo_live = (Inr resp, w)"
    using demo_response [of ?w 32] by auto
  from refresh_never_widens [OF _ _ demo_live_wf r] r show ?thesis by auto
qed

theorem resource_token_iff_witness:
  "(\<exists>c. Server_ValidateResourceToken demo_extern demo_web
       (one_jwt (access_claims demo_server 5 demo_member (demo_grant ''g'') [''read''] (demo_uuid 0))) demo_server 6 [] ''r''
       demo_live = Inr (demo_member, c))"
proof -
  let ?L = "one_jwt (access_claims demo_server 5 demo_member (demo_grant ''g'') [''read''] (demo_uuid 0))"
  have r: "m_userRoles (db demo_live) = []" "tape demo_live = 0" by (simp_all add: demo_live_def memstore_New_def)
  have res: "canonicalResource demo_extern demo_web ''r'' = Some (g_Resource (demo_grant ''g''))"
    by (simp add: canonicalResource_def demo_web_def demo_grant_def Let_def strings_TrimSpace_visible visible_def
        strings_ToLower_def is_ascii_def lower_byte_def)
  have u: "u_ID demo_member = ''a''" "u_SecurityStamp demo_member = ''s''" by (simp_all add: demo_member_def)
  from resource_token_iff [OF one_jwt_ok(2,1,3,5) _ _ _ demo_live_wf demo_response [OF r, of 5 "demo_grant ''g''" "[''read'']" "[]"],
      of 6 demo_web "''r''" demo_member] res u demo_unlocked [of 6]
  show ?thesis
    by (simp add: hmac_signer_ok demo_live_row) (simp add: demo_grant_def demo_live_def demo_server_options_def
        second_def minute_def time_of_Unix_def time_Unix_def)
qed

definition demo_mixed_jwt :: jwt_lib where
  "demo_mixed_jwt = table_jwt
     [(SigningMethodHMAC ''HS256'', [(''typ'', JStr ''JWT''), (''alg'', JStr ''HS256'')],
       session_claims (demo_options 1) 0 demo_member, KeyBytes ''k''),
      (SigningMethodHMAC ''HS256'', [(''typ'', JStr ''at+jwt''), (''alg'', JStr ''HS256'')],
       access_claims demo_server 0 demo_member (demo_grant ''g'') [''read''] (demo_uuid 0), KeyBytes ''k'')]"

theorem token_types_separate_witness:
  "\<exists>pair w resp w'. TokenService_IssuePair demo_extern demo_mixed_jwt (demo_service None) 0 demo_member demo_session_world = (Inr pair, w) \<and>
     Server_tokenResponse demo_extern demo_mixed_jwt demo_server 0 demo_member (demo_grant ''g'') [''read''] [] demo_session_world
       = (Inr resp, w') \<and>
     Server_ValidateResourceToken demo_extern demo_web demo_mixed_jwt demo_server 1 (pair_AccessToken pair) ''r'' w = Inl ErrInvalidToken \<and>
     TokenService_ValidateAccessToken demo_mixed_jwt (demo_service None) 1 (tr_AccessToken resp) w = Inl ErrInvalidToken"
proof -
  obtain pair w where i: "TokenService_IssuePair demo_extern demo_mixed_jwt (demo_service None) 0 demo_member demo_session_world
      = (Inr pair, w)"
    by (simp add: TokenService_IssuePair_def TokenService_signAccessToken_def UserManager_GetRoles_def UserManager_GetClaims_def
      memstore_Users_def userStore_GetRoles_def userStore_GetClaims_def lookup_or_def demo_session_world_def
      memstore_New_def List.map_filter_def NewHMACSigner_def hmacSigner_SignKey_def hmacSigner_Method_def
      demo_mixed_jwt_def table_jwt_def with_kid_def Let_def userStore_SetToken_def)
  obtain resp w' where r: "Server_tokenResponse demo_extern demo_mixed_jwt demo_server 0 demo_member (demo_grant ''g'') [''read''] []
      demo_session_world = (Inr resp, w')"
    by (simp add: Server_tokenResponse_def Server_signAccessToken_def draw_def uuid_NewString_def UserManager_GetRoles_def
      memstore_Users_def userStore_GetRoles_def lookup_or_def map_filter_simps demo_mixed_jwt_def table_jwt_def NewHMACSigner_def
      hmacSigner_Method_def hmacSigner_SignKey_def with_kid_def TokenTypeAccessJWT_def demo_extern_def demo_session_world_def
      memstore_New_def)
  have "jwt_faithful demo_mixed_jwt" "jwt_header_ok demo_mixed_jwt" by (simp_all add: demo_mixed_jwt_def table_jwt_ok)
  from token_types_separate [OF this i r] i r show ?thesis by blast
qed

end
