(* ===== verification/OAuth_Consent.thy ===== *)
theory OAuth_Consent
  imports OAuth_Properties
begin

text \<open>
  The authorization endpoint: scopes survive the trip through the store, a remembered consent
  covers exactly what was approved, the consent form's token is bound to its user and request, and
  codes leave the server only for the registered redirect URIs of a client that was approved.
\<close>

section \<open>Scope lists\<close>

text \<open>A scope the server can store: not empty, and no white space begins at any of its bytes.\<close>

definition begins_space :: "string \<Rightarrow> bool" where
  "begins_space s \<longleftrightarrow> (\<exists>e \<in> set space_encodings. prefix e (map of_char s))"

definition spaceless :: "string \<Rightarrow> bool" where
  "spaceless f \<longleftrightarrow> (\<forall>t. suffix t f \<longrightarrow> t \<noteq> [] \<longrightarrow> \<not> begins_space t)"

lemma find_space_None: "find (\<lambda>e. prefix e (map of_char s)) space_encodings = None \<longleftrightarrow> \<not> begins_space s"
  by (auto simp: find_None_iff begins_space_def)

lemma begins_space_append: "begins_space t \<Longrightarrow> begins_space (t @ s)"
  by (auto simp: begins_space_def intro: prefix_prefix)

lemma encoding_blank: "e \<in> set space_encodings \<Longrightarrow> e \<noteq> [] \<and> (e = [32] \<or> 32 \<notin> set e)"
  by (auto simp: space_encodings_def)

lemma begins_space_blank:
  assumes "begins_space (t @ CHR '' '' # r)" "t \<noteq> []"
  shows "begins_space t"
proof -
  from assms(1) obtain e where e: "e \<in> set space_encodings" "prefix e (map of_char (t @ CHR '' '' # r))"
    by (auto simp: begins_space_def)
  have "prefix e (map of_char t)"
  proof (cases "length e \<le> length t")
    case True
    then show ?thesis using e(2) by (auto intro: prefix_length_prefix)
  next
    case False
    have "prefix (map of_char t @ [32]) (map of_char (t @ CHR '' '' # r))" by simp
    then have "prefix (map of_char t @ [32]) e" by (rule prefix_length_prefix [OF _ e(2)]) (use False in simp)
    then have "32 \<in> set e" "length e > 1" using assms(2) by (auto simp: prefix_def Suc_le_eq)
    with encoding_blank [OF e(1)] show ?thesis by auto
  qed
  with e(1) show ?thesis by (auto simp: begins_space_def)
qed

lemma begins_space_here: "begins_space (CHR '' '' # r)"
  by (simp add: begins_space_def space_encodings_def)

lemma find_space_blank: "find (\<lambda>e. prefix e (map of_char (CHR '' '' # r))) space_encodings = Some [32]"
  by (simp add: space_encodings_def)

lemma spaceless_Cons: "spaceless (c # f) \<longleftrightarrow> \<not> begins_space (c # f) \<and> spaceless f"
  by (auto simp: spaceless_def suffix_Cons)

lemma fields_scan_spaceless:
  assumes "\<And>t. suffix t (rev cur) \<Longrightarrow> t \<noteq> [] \<Longrightarrow> \<not> begins_space (t @ s)" "f \<in> set (fields_scan n s cur)"
  shows "spaceless f \<and> f \<noteq> []"
  using assms
proof (induction n s cur rule: fields_scan.induct)
  case (1 n cur)
  then show ?case by (auto simp: spaceless_def split: if_splits)
next
  case (3 n c s cur)
  note inv = "3.prems"(1)
  have cur: "spaceless (rev cur)" using inv begins_space_append by (auto simp: spaceless_def)
  show ?case
  proof (cases "find (\<lambda>e. prefix e (map of_char (c # s))) space_encodings")
    case None
    have "\<not> begins_space (t @ s)" if "suffix t (rev (c # cur))" "t \<noteq> []" for t
    proof -
      from that obtain u where u: "t = u @ [c]" "suffix u (rev cur)" by (auto simp: suffix_snoc)
      then show ?thesis using inv [of u] None [unfolded find_space_None] by (cases "u = []") auto
    qed
    with "3.IH"(1) [OF None] "3.prems"(2) None show ?thesis by auto
  next
    case (Some e)
    with "3.IH"(2) [OF Some] "3.prems"(2) cur show ?thesis by (auto split: if_splits)
  qed
qed simp

lemma fields_scan_blank:
  assumes "spaceless f" "length f < n"
  shows "fields_scan n (f @ CHR '' '' # r) cur =
    (if rev cur @ f = [] then [] else [rev cur @ f]) @ fields_scan (n - length f - 1) r []"
  using assms
proof (induction f arbitrary: n cur)
  case Nil
  then obtain m where "n = Suc m" by (cases n) auto
  then show ?case using find_space_blank [of r] by simp
next
  case (Cons c f)
  then obtain m where m: "n = Suc m" by (cases n) auto
  have "\<not> begins_space ((c # f) @ CHR '' '' # r)"
    using begins_space_blank [of "c # f" r] Cons.prems(1) by (auto simp: spaceless_Cons)
  then have "find (\<lambda>e. prefix e (map of_char (c # f @ CHR '' '' # r))) space_encodings = None"
    unfolding find_space_None by simp
  then show ?case using Cons.IH [of m "c # cur"] Cons.prems by (simp add: m spaceless_Cons)
qed

lemma fields_scan_last:
  assumes "spaceless f" "length f \<le> n"
  shows "fields_scan n f cur = (if rev cur @ f = [] then [] else [rev cur @ f])"
  using assms
proof (induction f arbitrary: n cur)
  case (Cons c f)
  then obtain m where m: "n = Suc m" by (cases n) auto
  have "find (\<lambda>e. prefix e (map of_char (c # f))) space_encodings = None"
    unfolding find_space_None using Cons.prems(1) by (simp add: spaceless_Cons)
  then show ?case using Cons.IH [of m "c # cur"] Cons.prems by (simp add: m spaceless_Cons)
qed (cases n; simp)

lemma fields_scan_Join:
  assumes "\<forall>f \<in> set xs. spaceless f \<and> f \<noteq> []" "length (strings_Join xs '' '') + length r < n"
  shows "fields_scan n (strings_Join xs '' '' @ CHR '' '' # r) [] = xs @ fields_scan (n - length (strings_Join xs '' '') - 1) r []"
  using assms
proof (induction xs "'' ''" arbitrary: n rule: strings_Join.induct)
  case 1
  then show ?case using fields_scan_blank [of "[]" n r "[]"] by (simp add: spaceless_def)
next
  case (2 f)
  then show ?case using fields_scan_blank [of f n r "[]"] by simp
next
  case (3 f g xs)
  then show ?case
    using fields_scan_blank [of f n "strings_Join (g # xs) '' '' @ CHR '' '' # r" "[]"] by (simp add: add.commute)
qed

lemma fields_Join:
  assumes "\<forall>f \<in> set xs. spaceless f \<and> f \<noteq> []" "length (strings_Join xs '' '') \<le> n"
  shows "fields_scan n (strings_Join xs '' '') [] = xs"
  using assms
proof (induction xs "'' ''" arbitrary: n rule: strings_Join.induct)
  case (2 f)
  then show ?case using fields_scan_last [of f n "[]"] by simp
next
  case (3 f g xs)
  then show ?case using fields_scan_blank [of f n "strings_Join (g # xs) '' ''" "[]"] by simp
qed (cases n; simp)

lemma dedup_set:
  "set (fold (\<lambda>sc out. if sc \<in> set out then out else sc # out) xs out) = set out \<union> set xs"
  by (induction xs arbitrary: out) auto

lemma set_parseScopes: "set (parseScopes s) = set (strings_Fields s)"
  by (simp add: parseScopes_def dedup_set)

lemma parseScopes_spaceless: "f \<in> set (parseScopes s) \<Longrightarrow> spaceless f \<and> f \<noteq> []"
  unfolding set_parseScopes strings_Fields_def by (rule fields_scan_spaceless) simp_all

lemma parse_join_set:
  "\<forall>f \<in> set xs. spaceless f \<and> f \<noteq> [] \<Longrightarrow> set (parseScopes (joinScopes xs)) = set xs"
  by (simp add: set_parseScopes strings_Fields_def joinScopes_def fields_Join)

lemma union_set:
  assumes "\<forall>f \<in> set xs. spaceless f \<and> f \<noteq> []" "\<forall>f \<in> set ys. spaceless f \<and> f \<noteq> []"
  shows "set (unionScopes xs ys) = set xs \<union> set ys"
proof -
  let ?n = "length (joinScopes xs @ '' '' @ joinScopes ys)"
  have "fields_scan ?n (joinScopes xs @ '' '' @ joinScopes ys) [] = xs @ ys"
    using fields_scan_Join [OF assms(1), of "joinScopes ys" ?n] fields_Join [OF assms(2)]
    by (simp add: joinScopes_def)
  then show ?thesis by (simp add: unionScopes_def set_parseScopes strings_Fields_def)
qed

lemma visible_spaceless: "visible f \<Longrightarrow> spaceless f"
  unfolding spaceless_def
proof (intro allI impI)
  fix t assume "visible f" "suffix t f"
  then have "visible t" by (auto simp: visible_def suffix_def)
  then have "find (\<lambda>e. prefix e (map of_char t)) space_encodings = None"
    by (rule no_space_prefix) (auto simp: space_encodings_def)
  then show "\<not> begins_space t" by (rule find_space_None [THEN iffD1])
qed

section \<open>Remembered consent\<close>

definition remembered :: "string \<Rightarrow> string \<Rightarrow> memstore \<Rightarrow> string set" where
  "remembered uid cid s = (case map_of (m_oauthConsents s) (consentKey uid cid) of None \<Rightarrow> {}
     | Some c \<Rightarrow> set (parseScopes (cs_Scopes c)))"

lemma saveConsent_effect:
  assumes "sr_store s = memstore_OAuth" "Server_saveConsent s now uid req w = (r, w')"
    and "\<forall>f \<in> set (ar_scopes req). spaceless f \<and> f \<noteq> []"
  shows "r = None" "map_of (m_oauthConsents (db w')) (consentKey uid (rc_ID (ar_client req))) \<noteq> None"
    "remembered uid (rc_ID (ar_client req)) (db w') = remembered uid (rc_ID (ar_client req)) (db w) \<union> set (ar_scopes req)"
proof -
  let ?k = "consentKey uid (rc_ID (ar_client req))"
  show "r = None" "map_of (m_oauthConsents (db w')) ?k \<noteq> None"
    using assms(1,2) by (auto simp: Server_saveConsent_def memstore_OAuth_def SaveConsent_def Let_def update_conv split: prod.splits)
  show "remembered uid (rc_ID (ar_client req)) (db w') = remembered uid (rc_ID (ar_client req)) (db w) \<union> set (ar_scopes req)"
  proof (cases "map_of (m_oauthConsents (db w)) ?k")
    case None
    then show ?thesis using assms parse_join_set [OF assms(3)]
      by (simp add: Server_saveConsent_def memstore_OAuth_def SaveConsent_def GetConsent_def Let_def remembered_def update_conv split: prod.splits)
        (auto simp: update_conv)
  next
    case (Some c)
    have "\<forall>f \<in> set (parseScopes (cs_Scopes c)). spaceless f \<and> f \<noteq> []" using parseScopes_spaceless by blast
    note un = union_set [OF this assms(3)]
    have "set (parseScopes (joinScopes (unionScopes (parseScopes (cs_Scopes c)) (ar_scopes req)))) =
        set (parseScopes (cs_Scopes c)) \<union> set (ar_scopes req)"
      by (subst parse_join_set) (use parseScopes_spaceless un in \<open>auto simp: unionScopes_def\<close>)
    then show ?thesis using assms Some
      by (auto simp: Server_saveConsent_def memstore_OAuth_def SaveConsent_def GetConsent_def Let_def remembered_def update_conv split: prod.splits)
  qed
qed

text \<open>(C23) Consent is remembered exactly. After the user approved a request, a later authorization
  request of the same user and client is answered with a code, without a page, if and only if
  every scope it asks for was approved then or before; otherwise the consent page is shown. The
  scopes survive the trip through the store's space-separated text, whatever was stored before.\<close>

theorem consent_remembered:
  assumes "sr_store s = memstore_OAuth" and "\<forall>f \<in> set (ar_scopes req). f \<noteq> [] \<and> visible f"
    and "Server_saveConsent s now uid req w = (r, w1)" and "rq_Method rq = ''GET''"
    and "rc_ID (ar_client req') = rc_ID (ar_client req)"
  shows "r = None \<and> authorize_user x b s now' rq params uid req' w1 =
    (if set (ar_scopes req') \<subseteq> remembered uid (rc_ID (ar_client req)) (db w) \<union> set (ar_scopes req)
     then Server_issueCode x b s now' rq uid req' w1 else (consent_page x b s now' uid req', w1))"
proof -
  have sp: "\<forall>f \<in> set (ar_scopes req). spaceless f \<and> f \<noteq> []" using assms(2) visible_spaceless by blast
  note sv = saveConsent_effect [OF assms(1,3) sp]
  from sv(2) obtain c where c: "map_of (m_oauthConsents (db w1)) (consentKey uid (rc_ID (ar_client req))) = Some c" by auto
  with sv(3) have "set (parseScopes (cs_Scopes c)) = remembered uid (rc_ID (ar_client req)) (db w) \<union> set (ar_scopes req)"
    by (simp add: remembered_def)
  moreover have "os_GetConsent (sr_store s) uid (rc_ID (ar_client req')) w1 = Inr c"
    using c assms(1,5) by (simp add: memstore_OAuth_def GetConsent_def)
  ultimately show ?thesis
    using sv(1) assms(4) by (auto simp: authorize_user_def containsAll_def list_all_iff)
qed

theorem consent_remembered_witness:
  "\<exists>r w1. Server_saveConsent demo_server 0 ''a'' demo_request demo_session_world = (r, w1) \<and>
     authorize_user demo_extern demo_web demo_server 1 demo_http [] ''a'' demo_request w1 =
       Server_issueCode demo_extern demo_web demo_server 1 demo_http ''a'' demo_request w1"
proof -
  obtain r w1 where s: "Server_saveConsent demo_server 0 ''a'' demo_request demo_session_world = (r, w1)"
    by (cases "Server_saveConsent demo_server 0 ''a'' demo_request demo_session_world")
  have "\<forall>f \<in> set (ar_scopes demo_request). f \<noteq> [] \<and> visible f"
    by (simp add: demo_request_def visible_def)
  from consent_remembered [OF _ this s, of demo_http demo_request demo_extern demo_web 1 "[]"] s show ?thesis
    by (simp add: demo_http_def)
qed

section \<open>The token of the consent form\<close>

lemma nul_split:
  "z \<notin> set a \<Longrightarrow> z \<notin> set b \<Longrightarrow> a @ z # r = b @ z # r' \<longleftrightarrow> a = b \<and> r = r'"
proof (induction a arbitrary: b)
  case Nil
  then show ?case by (cases b) auto
next
  case (Cons c a)
  then show ?case by (cases b) auto
qed

lemma nul_split_last:
  assumes "z \<notin> set c" "z \<notin> set d"
  shows "a @ z # c = b @ z # d \<longleftrightarrow> a = b \<and> c = d"
proof -
  have "a @ z # c = b @ z # d \<longleftrightarrow> rev c @ z # rev a = rev d @ z # rev b"
    using rev_is_rev_conv [of "a @ z # c" "b @ z # d"] by simp
  then show ?thesis using nul_split [of z "rev c" "rev d"] assms by auto
qed

text \<open>The parameters that cannot hold a zero byte: everything but the client's \<open>state\<close>.\<close>

definition nul_free :: "string \<Rightarrow> authzRequest \<Rightarrow> bool" where
  "nul_free uid req \<longleftrightarrow> list_all (\<lambda>p. CHR 0x00 \<notin> set p) [uid, rc_ID (ar_client req), ar_redirectURI req,
     joinScopes (ar_scopes req), ar_resource req, ar_challenge req]"

lemma csrf_message_inj:
  assumes "nul_free uid req" "nul_free uid' req'"
  shows "csrf_message ts uid req = csrf_message ts uid' req' \<longleftrightarrow> csrf_parts uid req = csrf_parts uid' req'"
  using assms nul_split_last [of "CHR 0x00" "ar_challenge req" "ar_challenge req'" "ar_state req" "ar_state req'"]
  by (simp add: csrf_message_def csrf_parts_def nul_free_def nul_split)

text \<open>(C24) The consent form's token is bound to its user and to every parameter of the request. Within
  its validity (from one minute before to fifteen minutes after the second it names) it is accepted
  exactly when the user, the client's ID, the redirect URI, the scopes, the resource, the state and
  the PKCE challenge are each the ones it was made for; outside it is refused. The MAC is
  assumed free of collisions on the two messages; the parameters are separated by zero bytes, which
  only the client's \<open>state\<close> may contain.\<close>

theorem csrf_token_binds:
  assumes "hmac_sha256_ok x" and "in_int64 (time_Unix now)" and "nul_free uid req" and "nul_free uid' req'"
    and "Server_csrfMAC x s (time_Unix now) uid req = Server_csrfMAC x s (time_Unix now) uid' req' \<longrightarrow>
      csrf_message (time_Unix now) uid req = csrf_message (time_Unix now) uid' req'"
  shows "Server_checkCSRF x s now' (Server_csrfToken x s now uid req) uid' req' \<longleftrightarrow>
    - minute \<le> time_Sub now' (time_of_Unix (time_Unix now)) \<and> time_Sub now' (time_of_Unix (time_Unix now)) \<le> csrfMaxAge \<and>
    uid' = uid \<and> rc_ID (ar_client req') = rc_ID (ar_client req) \<and> ar_redirectURI req' = ar_redirectURI req \<and>
    joinScopes (ar_scopes req') = joinScopes (ar_scopes req) \<and> ar_resource req' = ar_resource req \<and>
    ar_state req' = ar_state req \<and> ar_challenge req' = ar_challenge req"
proof -
  let ?ts = "time_Unix now"
  have ts: "sint (word_of_int ?ts :: 64 word) = ?ts"
    using assms(2) by (rule sint_of_int_64)
  have len: "length (Server_csrfMAC x s ?ts uid req) = 32" using assms(1) by (simp add: hmac_sha256_ok_def Server_csrfMAC_def)
  have "csrf_message ?ts uid req = csrf_message ?ts uid' req' \<Longrightarrow> Server_csrfMAC x s ?ts uid req = Server_csrfMAC x s ?ts uid' req'"
    by (simp add: Server_csrfMAC_def)
  then have "Server_csrfMAC x s ?ts uid req = Server_csrfMAC x s ?ts uid' req' \<longleftrightarrow> csrf_parts uid' req' = csrf_parts uid req"
    using assms(5) csrf_message_inj [OF assms(3,4), of ?ts] by metis
  moreover have "Server_checkCSRF x s now' (Server_csrfToken x s now uid req) uid' req' \<longleftrightarrow>
      - minute \<le> time_Sub now' (time_of_Unix ?ts) \<and> time_Sub now' (time_of_Unix ?ts) \<le> csrfMaxAge \<and>
      Server_csrfMAC x s ?ts uid req = Server_csrfMAC x s ?ts uid' req'"
    by (simp add: Server_checkCSRF_def Server_csrfToken_def Let_def len ts not_less)
  ultimately show ?thesis by (simp add: csrf_parts_def conj_ac)
qed

theorem csrf_token_binds_witness:
  "\<exists>req. Server_checkCSRF demo_extern demo_server (5 * second) (Server_csrfToken demo_extern demo_server 0 ''a'' req) ''a'' req \<and>
     \<not> Server_checkCSRF demo_extern demo_server (5 * second) (Server_csrfToken demo_extern demo_server 0 ''a'' req) ''b'' req"
proof -
  let ?req = "demo_request\<lparr>ar_challenge := ''x''\<rparr>"
  have nf: "nul_free ''a'' ?req" "nul_free ''b'' ?req"
    by (simp_all add: nul_free_def demo_request_def demo_client_def joinScopes_def)
  have t: "in_int64 (time_Unix 0)" by (simp add: in_int64_def minInt64_def maxInt64_def time_Unix_def)
  have msg: "csrf_message 0 u ?req = put_u64 0 @ u @ CHR 0x00 # ''c'' @ CHR 0x00 # ''u'' @ CHR 0x00 # ''read'' @ CHR 0x00 #
      ''r'' @ CHR 0x00 # CHR 0x00 # ''x'' @ [CHR 0x00]" for u
    by (simp add: csrf_message_def csrf_parts_def demo_request_def demo_client_def joinScopes_def)
  have "x_hmac_sha256 demo_extern k (csrf_message 0 ''a'' ?req) \<noteq> x_hmac_sha256 demo_extern k (csrf_message 0 ''b'' ?req)" for k
    unfolding msg by (simp add: demo_extern_def demo_pad_def take_append)
  then have mac: "Server_csrfMAC demo_extern demo_server (time_Unix 0) ''a'' ?req \<noteq>
      Server_csrfMAC demo_extern demo_server (time_Unix 0) ''b'' ?req"
    by (simp add: Server_csrfMAC_def time_Unix_def)
  from csrf_token_binds [OF demo_extern_ok(3) t nf(1) nf(1), of demo_server "5 * second"]
    csrf_token_binds [OF demo_extern_ok(3) t nf(1) nf(2), of demo_server "5 * second"] mac show ?thesis
    by (intro exI [of _ ?req]) (simp add: csrf_parts_def csrfMaxAge_def time_Sub_def time_of_Unix_def time_Unix_def
        minute_def second_def maxInt64_def minInt64_def)
qed

section \<open>Where codes go\<close>

lemma resolveClient_world: "Server_resolveClient x b s now i sw = (r, sw1) \<Longrightarrow> ow sw1 = ow sw"
  by (auto simp: Server_resolveClient_def split: if_splits prod.splits sum.splits)

lemma copy_params_get:
  assumes "copy_params ks all' v = Inr v'" "distinct ks"
  shows "(k \<notin> set ks \<longrightarrow> map_of v' k = map_of v k) \<and>
    (k \<in> set ks \<longrightarrow> map_of v k = None \<longrightarrow> values_Get v' k = values_Get all' k)"
  using assms
proof (induction ks arbitrary: v)
  case (Cons q ks)
  show ?case
  proof (cases "map_of all' q")
    case None
    with Cons show ?thesis by (auto simp: values_Get_def)
  next
    case (Some vals)
    let ?v = "values_Set q (values_Get all' q) v"
    from Some Cons.prems have c: "copy_params ks all' ?v = Inr v'" "distinct ks" "q \<notin> set ks" by (auto split: if_splits)
    have m: "map_of ?v k = (if k = q then Some [values_Get all' q] else map_of v k)" by (simp add: values_Set_def update_conv)
    show ?thesis
    proof (cases "k = q")
      case True
      with m Cons.IH [OF c(1,2)] c(3) have "map_of v' k = Some [values_Get all' q]" by simp
      then show ?thesis using True by (simp add: values_Get_def)
    next
      case False
      with m Cons.IH [OF c(1,2)] show ?thesis by simp
    qed
  qed
qed simp

lemma authzParams_distinct: "distinct authzParams"
  by (simp add: authzParams_def)

lemma parseAuthz_trusted:
  assumes "Server_parseAuthz x b s now params sw = (out, sw1)" "out = Parsed req \<or> out = RedirErr req e"
  shows "Server_resolveClient x b s now (values_Get params ''client_id'') sw = (Inr (ar_client req), sw1)"
    "matchRedirectURI b (rc_RedirectURIs (ar_client req)) (values_Get params ''redirect_uri'')"
    "ar_redirectURI req = values_Get params ''redirect_uri''"
    "out = Parsed req \<Longrightarrow> validChallenge (ar_challenge req) \<and> ar_challenge req = values_Get params ''code_challenge'' \<and>
       Server_resolveScopes s (values_Get params ''scope'') = Inr (ar_scopes req) \<and>
       Server_resolveResource x b s (values_Get params ''resource'') = Inr (ar_resource req)"
proof -
  from assms obtain v where v: "copy_params authzParams params [] = Inr v"
    by (auto simp: Server_parseAuthz_def split: sum.splits)
  have get: "values_Get v k = values_Get params k" if "k \<in> set authzParams" for k
    using copy_params_get [OF v authzParams_distinct, of k] that by simp
  then have g: "values_Get v ''client_id'' = values_Get params ''client_id''"
    "values_Get v ''redirect_uri'' = values_Get params ''redirect_uri''"
    "values_Get v ''code_challenge'' = values_Get params ''code_challenge''"
    "values_Get v ''scope'' = values_Get params ''scope''" "values_Get v ''resource'' = values_Get params ''resource''"
    by (simp_all add: authzParams_def)
  from assms v obtain client where c: "Server_resolveClient x b s now (values_Get params ''client_id'') sw = (Inr client, sw1)"
    and m: "matchRedirectURI b (rc_RedirectURIs client) (values_Get params ''redirect_uri'')"
    and k: "out = check_authz x b s \<lparr>ar_v = v, ar_client = client, ar_redirectURI = values_Get params ''redirect_uri'',
      ar_state = values_Get v ''state'', ar_scopes = [], ar_resource = [], ar_challenge = []\<rparr>"
    by (auto simp: Server_parseAuthz_def Let_def g split: sum.splits prod.splits if_splits)
  have "ar_client req = client \<and> ar_redirectURI req = values_Get params ''redirect_uri'' \<and>
    (out = Parsed req \<longrightarrow> validChallenge (ar_challenge req) \<and> ar_challenge req = values_Get params ''code_challenge'' \<and>
       Server_resolveScopes s (values_Get params ''scope'') = Inr (ar_scopes req) \<and>
       Server_resolveResource x b s (values_Get params ''resource'') = Inr (ar_resource req))"
    using assms(2) unfolding k check_authz_def Let_def by (auto simp: g split: if_splits sum.splits)
  with c m show "Server_resolveClient x b s now (values_Get params ''client_id'') sw = (Inr (ar_client req), sw1)"
    "matchRedirectURI b (rc_RedirectURIs (ar_client req)) (values_Get params ''redirect_uri'')"
    "ar_redirectURI req = values_Get params ''redirect_uri''"
    "out = Parsed req \<Longrightarrow> validChallenge (ar_challenge req) \<and> ar_challenge req = values_Get params ''code_challenge'' \<and>
       Server_resolveScopes s (values_Get params ''scope'') = Inr (ar_scopes req) \<and>
       Server_resolveResource x b s (values_Get params ''resource'') = Inr (ar_resource req)" by auto
qed

lemma parseAuthz_world: "Server_parseAuthz x b s now params sw = (out, sw1) \<Longrightarrow> ow sw1 = ow sw"
  by (auto simp: Server_parseAuthz_def Let_def split: sum.splits prod.splits if_splits dest: resolveClient_world)

lemma redirectTo_where:
  "Server_redirectTo b s r req add = RedirectReply loc st \<Longrightarrow>
     \<exists>u. wb_Parse b (ar_redirectURI req) = Some u \<and> loc = redirect_url b s req add u"
  by (auto simp: Server_redirectTo_def split: option.splits)

text \<open>The parameters the endpoint reads: the query of a GET, the form of a POST.\<close>

definition request_params :: "http_request \<Rightarrow> url_values option" where
  "request_params r = (if rq_Method r = ''GET'' then Some (rq_Query r)
     else if rq_Method r = ''POST'' then rq_PostForm r else None)"

lemma authorize_user_codes:
  assumes "sr_store s = memstore_OAuth" "authorize_user x b s now r params uid req w = (reply, w')"
  shows "reply = RedirectReply loc st \<Longrightarrow>
      \<exists>u add. wb_Parse b (ar_redirectURI req) = Some u \<and> loc = redirect_url b s req add u"
    and "m_oauthCodes (db w') \<noteq> m_oauthCodes (db w) \<Longrightarrow>
      (\<exists>t. m_oauthCodes (db w') = AList.update (hashSecret x (fst (randomSecret x 32 t)))
         (new_code x s now uid req (fst (randomSecret x 32 t))) (m_oauthCodes (db w))) \<and>
      (if rq_Method r = ''POST''
       then Server_checkCSRF x s now (values_Get params ''csrf_token'') uid req \<and> values_Get params ''decision'' = ''approve''
       else \<exists>c. GetConsent uid (rc_ID (ar_client req)) w = Inr c \<and> containsAll (parseScopes (cs_Scopes c)) (ar_scopes req))"
proof -
  show "\<exists>u add. wb_Parse b (ar_redirectURI req) = Some u \<and> loc = redirect_url b s req add u" if "reply = RedirectReply loc st"
    using assms(2) that redirectTo_where
    by (auto simp: authorize_user_def Server_issueCode_def Server_redirectError_def consent_page_def Let_def
        split: if_splits prod.splits sum.splits option.splits) blast+
  have issue: "m_oauthCodes (db w2) = AList.update (hashSecret x (fst (randomSecret x 32 (tape w1))))
       (new_code x s now uid req (fst (randomSecret x 32 (tape w1)))) (m_oauthCodes (db w1))"
    if "Server_issueCode x b s now r uid req w1 = (reply, w2)" for w1 w2
    using that assms(1) by (auto simp: Server_issueCode_def memstore_OAuth_def CreateCode_def new_code_def)
  have save: "m_oauthCodes (db w1) = m_oauthCodes (db w)" if "Server_saveConsent s now uid req w = (q, w1)" for q w1
    using that assms(1) by (auto simp: Server_saveConsent_def memstore_OAuth_def SaveConsent_def Let_def split: prod.splits)
  show "(\<exists>t. m_oauthCodes (db w') = AList.update (hashSecret x (fst (randomSecret x 32 t)))
         (new_code x s now uid req (fst (randomSecret x 32 t))) (m_oauthCodes (db w))) \<and>
      (if rq_Method r = ''POST''
       then Server_checkCSRF x s now (values_Get params ''csrf_token'') uid req \<and> values_Get params ''decision'' = ''approve''
       else \<exists>c. GetConsent uid (rc_ID (ar_client req)) w = Inr c \<and> containsAll (parseScopes (cs_Scopes c)) (ar_scopes req))"
    if "m_oauthCodes (db w') \<noteq> m_oauthCodes (db w)"
    using assms(2) that
    by (auto simp: authorize_user_def assms(1) memstore_OAuth_def split: if_splits prod.splits sum.splits option.splits
        dest!: save) (metis issue)+
qed

text \<open>(C25) The authorization endpoint sends the browser only where the client may receive it, and issues
  codes only on consent. Every redirect other than to the login page goes to a redirect URI that
  matches one registered for the client that the request's \<open>client_id\<close> resolves to. A new code
  appears only for a signed-in user who exists and is not locked out, bound to a well-formed S256
  challenge and to scopes and a resource the server resolved; and either the user approved the
  form carrying a valid token, or a remembered consent covers all the scopes.\<close>

theorem codes_need_consent:
  assumes "sr_store s = memstore_OAuth" and "authorize_reply x b s now r sw = (reply, sw')"
  shows "(\<forall>loc st. reply = RedirectReply loc st \<longrightarrow> (\<exists>params req sw1 u add. request_params r = Some params \<and>
      Server_resolveClient x b s now (values_Get params ''client_id'') sw = (Inr (ar_client req), sw1) \<and>
      matchRedirectURI b (rc_RedirectURIs (ar_client req)) (ar_redirectURI req) \<and>
      wb_Parse b (ar_redirectURI req) = Some u \<and> loc = redirect_url b s req add u)) \<and>
    (m_oauthCodes (db (ow sw')) \<noteq> m_oauthCodes (db (ow sw)) \<longrightarrow> (\<exists>params req uid u t. request_params r = Some params \<and>
      m_oauthCodes (db (ow sw')) = AList.update (hashSecret x (fst (randomSecret x 32 t)))
        (new_code x s now uid req (fst (randomSecret x 32 t))) (m_oauthCodes (db (ow sw))) \<and>
      Server_currentUser s r = Some uid \<and> UserManager_FindByID (sr_users s) uid (ow sw) = Inr u \<and>
      \<not> UserManager_IsLockedOut now u \<and> validChallenge (ar_challenge req) \<and>
      Server_resolveScopes s (values_Get params ''scope'') = Inr (ar_scopes req) \<and>
      Server_resolveResource x b s (values_Get params ''resource'') = Inr (ar_resource req) \<and>
      (if rq_Method r = ''POST''
       then Server_checkCSRF x s now (values_Get params ''csrf_token'') uid req \<and> values_Get params ''decision'' = ''approve''
       else \<exists>c. GetConsent uid (rc_ID (ar_client req)) (ow sw) = Inr c \<and>
         containsAll (parseScopes (cs_Scopes c)) (ar_scopes req))))"
proof (cases "request_params r")
  case None
  with assms(2) show ?thesis by (auto simp: authorize_reply_def request_params_def split: if_splits option.splits)
next
  case (Some params)
  obtain out sw1 where p: "Server_parseAuthz x b s now params sw = (out, sw1)"
    by (cases "Server_parseAuthz x b s now params sw")
  have red: "\<exists>u add. wb_Parse b (ar_redirectURI req) = Some u \<and> loc = redirect_url b s req add u"
    if "Server_redirectError b s r req e = RedirectReply loc st" for req e loc st
    using redirectTo_where that unfolding Server_redirectError_def by blast
  note world = parseAuthz_world [OF p]
  have run: "(case out of Fatal e \<Rightarrow> (ErrorPage e, sw1)
      | RedirErr req e \<Rightarrow> (Server_redirectError b s r req e, sw1)
      | Parsed req \<Rightarrow>
          (case Server_currentUser s r of
             None \<Rightarrow> (login_reply b s req, sw1)
           | Some userID \<Rightarrow>
               (case UserManager_FindByID (sr_users s) userID (ow sw1) of
                  Inl _ \<Rightarrow> (login_reply b s req, sw1)
                | Inr u \<Rightarrow>
                    if UserManager_IsLockedOut now u
                    then (Server_redirectError b s r req (oerr 403 ''access_denied'' ''account is locked''), sw1)
                    else on_world (authorize_user x b s now r params userID req (ow sw1)) sw1))) = (reply, sw')"
    using assms(2) Some p by (auto simp: authorize_reply_def request_params_def split: if_splits)
  show ?thesis
  proof (cases out)
    case (Fatal e)
    with run world show ?thesis by auto
  next
    case (RedirErr req e)
    then have r: "reply = Server_redirectError b s r req e" "sw' = sw1" using run by simp_all
    note tr = parseAuthz_trusted [OF p, of req e]
    from r red [of req e] tr RedirErr Some world show ?thesis by fastforce
  next
    case (Parsed req)
    note tr = parseAuthz_trusted [OF p, of req, OF disjI1, OF Parsed]
    show ?thesis
    proof (cases "\<exists>uid u. Server_currentUser s r = Some uid \<and> UserManager_FindByID (sr_users s) uid (ow sw1) = Inr u \<and>
        \<not> UserManager_IsLockedOut now u")
      case False
      then have "sw' = sw1" "reply = login_reply b s req \<or>
          reply = Server_redirectError b s r req (oerr 403 ''access_denied'' ''account is locked'')"
        using run Parsed by (auto split: option.splits sum.splits if_splits)
      then show ?thesis using red [of req] tr(1-3) Some world by (fastforce simp: login_reply_def)
    next
      case True
      then obtain uid u where u: "Server_currentUser s r = Some uid" "UserManager_FindByID (sr_users s) uid (ow sw1) = Inr u"
        "\<not> UserManager_IsLockedOut now u" by blast
      obtain w' where a: "authorize_user x b s now r params uid req (ow sw) = (reply, w')" "ow sw' = w'"
        using run Parsed u world by (auto simp: on_world_def prod_eq_iff)
      note codes = authorize_user_codes [OF assms(1) a(1)]
      have "\<exists>params req sw1 u add. request_params r = Some params \<and>
          Server_resolveClient x b s now (values_Get params ''client_id'') sw = (Inr (ar_client req), sw1) \<and>
          matchRedirectURI b (rc_RedirectURIs (ar_client req)) (ar_redirectURI req) \<and>
          wb_Parse b (ar_redirectURI req) = Some u \<and> loc = redirect_url b s req add u" if "reply = RedirectReply loc st" for loc st
        using codes(1) [OF that] tr(1-3) Some by metis
      moreover have "\<exists>t. m_oauthCodes (db (ow sw')) = AList.update (hashSecret x (fst (randomSecret x 32 t)))
          (new_code x s now uid req (fst (randomSecret x 32 t))) (m_oauthCodes (db (ow sw)))"
        "if rq_Method r = ''POST''
         then Server_checkCSRF x s now (values_Get params ''csrf_token'') uid req \<and> values_Get params ''decision'' = ''approve''
         else \<exists>c. GetConsent uid (rc_ID (ar_client req)) (ow sw) = Inr c \<and> containsAll (parseScopes (cs_Scopes c)) (ar_scopes req)"
        if "m_oauthCodes (db (ow sw')) \<noteq> m_oauthCodes (db (ow sw))"
        using codes(2) that a(2) by auto
      ultimately show ?thesis using tr(4) [OF Parsed] Some u(1,3) u(2) [unfolded world] by blast
    qed
  qed
qed

definition demo_registered :: oauth_client where
  "demo_registered = \<lparr>cl_ClientID = ''c'', cl_SecretHash = [], cl_Name = [], cl_RedirectURIs = [''u''],
     cl_TokenEndpointAuthMethod = AuthMethodNone, cl_GrantTypes = [], cl_CreatedAt = 0, cl_LastUsedAt = None\<rparr>"

definition demo_query :: url_values where
  "demo_query = [(''response_type'', [''code'']), (''client_id'', [''c'']), (''redirect_uri'', [''u'']),
     (''code_challenge'', [ar_challenge demo_request]), (''code_challenge_method'', [''S256''])]"

definition demo_browser :: "memstore oauth_world" where
  "demo_browser = \<lparr>ow = \<lparr>db = memstore_New\<lparr>m_users := [(''a'', demo_member)], m_oauthClients := [(''c'', demo_registered)],
       m_oauthConsents := [(consentKey ''a'' ''c'', \<lparr>cs_UserID = ''a'', cs_ClientID = ''c'', cs_Scopes = ''read'',
         cs_CreatedAt = 0, cs_UpdatedAt = 0\<rparr>)]\<rparr>, tape = 0\<rparr>, ow_cimd = NewCIMDFetcher, ow_hits = []\<rparr>"

lemma demo_challenge_valid: "validChallenge (ar_challenge demo_request)" "ar_challenge demo_request \<noteq> []"
  by code_simp+

lemma demo_authorize:
  "\<exists>loc sw'. authorize_reply demo_extern demo_web demo_server 0 (demo_http\<lparr>rq_Query := demo_query\<rparr>) demo_browser =
     (RedirectReply loc 302, sw') \<and> m_oauthCodes (db (ow sw')) \<noteq> []"
proof -
  let ?r = "demo_http\<lparr>rq_Query := demo_query\<rparr>"
  let ?req = "\<lparr>ar_v = demo_query, ar_client = stored_client demo_registered, ar_redirectURI = ''u'', ar_state = [],
     ar_scopes = [''read''], ar_resource = ''r'', ar_challenge = ar_challenge demo_request\<rparr>"
  have v: "copy_params authzParams demo_query [] = Inr demo_query"
    by (simp add: authzParams_def demo_query_def values_Set_def values_Get_def)
  have g: "values_Get demo_query ''client_id'' = ''c''" "values_Get demo_query ''redirect_uri'' = ''u''"
    "values_Get demo_query ''state'' = []" "values_Get demo_query ''response_type'' = ''code''"
    "values_Get demo_query ''code_challenge'' = ar_challenge demo_request"
    "values_Get demo_query ''code_challenge_method'' = ''S256''" "values_Get demo_query ''scope'' = []"
    "values_Get demo_query ''resource'' = []"
    by (simp_all add: demo_query_def values_Get_def)
  have "Server_resolveClient demo_extern demo_web demo_server 0 ''c'' demo_browser = (Inr (stored_client demo_registered), demo_browser)"
    by (simp add: Server_resolveClient_def IsCIMDClientID_def strings_ToLower_def is_ascii_def lower_byte_def memstore_OAuth_def
        GetClient_def demo_browser_def)
  moreover have "matchRedirectURI demo_web [''u''] ''u''" by (simp add: matchRedirectURI_def)
  moreover have "parseScopes [] = []" by code_simp
  then have "Server_resolveScopes demo_server [] = Inr [''read'']"
    by (simp add: Server_resolveScopes_def demo_server_options_def)
  ultimately have p: "Server_parseAuthz demo_extern demo_web demo_server 0 demo_query demo_browser = (Parsed ?req, demo_browser)"
    using demo_challenge_valid
    by (simp add: Server_parseAuthz_def v g Let_def check_authz_def stored_client_def demo_registered_def zero_client_def
        Server_resolveResource_def demo_server_def)
  have "UserManager_FindByID (sr_users demo_server) ''a'' (ow demo_browser) = Inr demo_member"
    by (simp add: UserManager_FindByID_def memstore_Users_def userStore_FindByID_def demo_browser_def)
  moreover have "GetConsent ''a'' ''c'' (ow demo_browser) = Inr \<lparr>cs_UserID = ''a'', cs_ClientID = ''c'', cs_Scopes = ''read'',
         cs_CreatedAt = 0, cs_UpdatedAt = 0\<rparr>"
    by (simp add: GetConsent_def demo_browser_def)
  moreover obtain U where "wb_Parse demo_web ''u'' = Some U" by (simp add: demo_web_def)
  moreover have "m_oauthCodes (db (ow demo_browser)) = []" by (simp add: demo_browser_def memstore_New_def)
  ultimately show ?thesis
    using demo_unlocked
    by (simp add: authorize_reply_def demo_http_def p Server_currentUser_def demo_server_options_def authorize_user_def
        memstore_OAuth_def stored_client_def demo_registered_def demo_parse containsAll_def Server_issueCode_def CreateCode_def
        Server_redirectTo_def on_world_def)
qed

theorem codes_need_consent_witness:
  "\<exists>loc sw' params req uid t. authorize_reply demo_extern demo_web demo_server 0 (demo_http\<lparr>rq_Query := demo_query\<rparr>) demo_browser =
     (RedirectReply loc 302, sw') \<and> request_params (demo_http\<lparr>rq_Query := demo_query\<rparr>) = Some params \<and>
   m_oauthCodes (db (ow sw')) = AList.update (hashSecret demo_extern (fst (randomSecret demo_extern 32 t)))
     (new_code demo_extern demo_server 0 uid req (fst (randomSecret demo_extern 32 t))) (m_oauthCodes (db (ow demo_browser)))"
proof -
  obtain loc sw' where r: "authorize_reply demo_extern demo_web demo_server 0 (demo_http\<lparr>rq_Query := demo_query\<rparr>) demo_browser =
     (RedirectReply loc 302, sw')" and c: "m_oauthCodes (db (ow sw')) \<noteq> m_oauthCodes (db (ow demo_browser))"
    using demo_authorize by (auto simp: demo_browser_def memstore_New_def)
  from codes_need_consent [OF demo_server_simps(2) r] c have "\<exists>params req uid t. request_params (demo_http\<lparr>rq_Query := demo_query\<rparr>) = Some params \<and>
      m_oauthCodes (db (ow sw')) = AList.update (hashSecret demo_extern (fst (randomSecret demo_extern 32 t)))
       (new_code demo_extern demo_server 0 uid req (fst (randomSecret demo_extern 32 t))) (m_oauthCodes (db (ow demo_browser)))"
    by (elim conjE impE) blast+
  with r show ?thesis by blast
qed

end
