(* ===== verification/OAuth_Limits.thy ===== *)
theory OAuth_Limits
  imports OAuth_Consent
begin

text \<open>
  Bounds the authorization server enforces on what comes from outside: the registration rate, the
  single use of client assertions, the cache of client metadata documents, and the addresses a
  fetch may reach.
\<close>

section \<open>The rate limiter\<close>

text \<open>The decisions of a run of calls, each at its time and for its address.\<close>

fun limiter_run :: "ipLimiter \<Rightarrow> (time \<times> string) list \<Rightarrow> (string, window) gomap \<Rightarrow> bool list" where
  "limiter_run l [] hits = []"
| "limiter_run l ((now, ip) # cs) hits =
     (let (a, hits) = ipLimiter_allow l now ip hits in a # limiter_run l cs hits)"

text \<open>A fixed-window counter for one address, without a shared table.\<close>

definition ref_allow :: "ipLimiter \<Rightarrow> time \<Rightarrow> window option \<Rightarrow> bool \<times> window option" where
  "ref_allow l now st =
     (case st of
        None \<Rightarrow> (True, Some \<lparr>wd_start = now, wd_n = 1\<rparr>)
      | Some w \<Rightarrow> if now - wd_start w > il_window l then (True, Some \<lparr>wd_start = now, wd_n = 1\<rparr>)
                 else if wd_n w \<ge> il_limit l then (False, Some w)
                 else (True, Some (w\<lparr>wd_n := wd_n w + 1\<rparr>)))"

fun ref_run :: "ipLimiter \<Rightarrow> time list \<Rightarrow> window option \<Rightarrow> (time \<times> bool) list" where
  "ref_run l [] st = []"
| "ref_run l (now # ts) st = (let (a, st) = ref_allow l now st in (now, a) # ref_run l ts st)"

lemma time_Sub_gt: "0 \<le> d \<Longrightarrow> d < maxInt64 \<Longrightarrow> time_Sub t u > d \<longleftrightarrow> t - u > d"
  by (auto simp: time_Sub_def maxInt64_def minInt64_def)

text \<open>What the table holds for an address: the counter's state, or nothing where that has expired.\<close>

definition tracks :: "ipLimiter \<Rightarrow> time \<Rightarrow> (string, window) gomap \<Rightarrow> string \<Rightarrow> window option \<Rightarrow> bool" where
  "tracks l now hits ip st \<longleftrightarrow> map_of hits ip = st \<or>
     (map_of hits ip = None \<and> (\<exists>w. st = Some w \<and> now - wd_start w > il_window l))"

lemma tracks_later: "tracks l now hits ip st \<Longrightarrow> now \<le> now' \<Longrightarrow> tracks l now' hits ip st"
  by (auto simp: tracks_def)

lemma allow_tracks:
  assumes "0 \<le> il_window l" "il_window l < maxInt64" "dkeys hits" "tracks l now hits ip st"
    and "ipLimiter_allow l now ip' hits = (a, hits')"
  shows "dkeys hits' \<and> (if ip' = ip then fst (ref_allow l now st) = a \<and> tracks l now hits' ip (snd (ref_allow l now st))
     else tracks l now hits' ip st)"
proof -
  define h where "h = (if length hits > 10000
      then delete_if (\<lambda>_ w. time_Sub now (wd_start w) > il_window l) hits else hits)"
  have gt: "time_Sub now u > il_window l \<longleftrightarrow> now - u > il_window l" for u using time_Sub_gt assms(1,2) by blast
  have d: "dkeys h" using assms(3) by (simp add: h_def)
  have t: "tracks l now h ip st"
    using assms(3,4) by (auto simp: h_def tracks_def map_of_delete_if gt split: option.splits)
  have a: "(a, hits') = (case map_of h ip' of
      None \<Rightarrow> (True, AList.update ip' \<lparr>wd_start = now, wd_n = 1\<rparr> h)
    | Some w \<Rightarrow> if now - wd_start w > il_window l then (True, AList.update ip' \<lparr>wd_start = now, wd_n = 1\<rparr> h)
        else if wd_n w \<ge> il_limit l then (False, h) else (True, AList.update ip' (w\<lparr>wd_n := wd_n w + 1\<rparr>) h))"
    by (rule trans [OF assms(5) [symmetric]]) (simp only: ipLimiter_allow_def h_def Let_def gt)
  have "dkeys hits'" using a d by (auto split: option.splits if_splits)
  moreover have "ip' \<noteq> ip \<Longrightarrow> map_of hits' ip = map_of h ip"
    using a by (auto simp: update_conv split: option.splits if_splits)
  moreover have "fst (ref_allow l now st) = a \<and> tracks l now hits' ip (snd (ref_allow l now st))" if "ip' = ip"
    using a t that by (auto simp: tracks_def ref_allow_def update_conv split: option.splits if_splits)
  ultimately show ?thesis using t by (auto simp: tracks_def)
qed

lemma limiter_refines:
  assumes "0 \<le> il_window l" "il_window l < maxInt64" "dkeys hits" "tracks l now hits ip st"
    and "sorted (map fst cs)" "\<forall>c \<in> set cs. now \<le> fst c"
  shows "map (\<lambda>((t, _), a). (t, a)) (filter (\<lambda>((_, i), _). i = ip) (zip cs (limiter_run l cs hits))) =
    ref_run l (map fst (filter (\<lambda>(_, i). i = ip) cs)) st"
  using assms(3-6)
proof (induction cs arbitrary: hits st now)
  case (Cons c cs)
  obtain t ip' where c: "c = (t, ip')" by (cases c)
  obtain a hits' where a: "ipLimiter_allow l t ip' hits = (a, hits')" by (cases "ipLimiter_allow l t ip' hits")
  have tr: "tracks l t hits ip st" using tracks_later [OF Cons.prems(2)] Cons.prems(4) c by simp
  have s: "sorted (map fst cs)" "\<forall>c \<in> set cs. t \<le> fst c" using Cons.prems(3) c by auto
  note al = allow_tracks [OF assms(1,2) Cons.prems(1) tr a]
  show ?case
  proof (cases "ip' = ip")
    case True
    obtain st' where st': "ref_allow l t st = (a, st')" using al True by (cases "ref_allow l t st") auto
    with al True have "dkeys hits'" "tracks l t hits' ip st'" by auto
    from Cons.IH [OF this s] st' show ?thesis by (simp add: c True a [unfolded True])
  next
    case False
    with al have "dkeys hits'" "tracks l t hits' ip st" by auto
    with Cons.IH [OF this s] False show ?thesis by (simp add: c a)
  qed
qed simp

text \<open>How many calls in \<open>[T, T + window]\<close> the counter lets pass.\<close>

definition passed :: "ipLimiter \<Rightarrow> time \<Rightarrow> (time \<times> bool) list \<Rightarrow> int" where
  "passed l T rs = int (length (filter (\<lambda>(t, a). a \<and> T \<le> t \<and> t \<le> T + il_window l) rs))"

lemma passed_Cons: "passed l T ((t, a) # rs) = (if a \<and> T \<le> t \<and> t \<le> T + il_window l then 1 else 0) + passed l T rs"
  by (simp add: passed_def)

lemma passed_Nil [simp]: "passed l T [] = 0"
  by (simp add: passed_def)

lemma passed_none:
  "\<forall>t \<in> set ts. t > T + il_window l \<Longrightarrow> passed l T (ref_run l ts st) = 0"
  by (induction ts arbitrary: st) (auto simp: passed_Cons Let_def split: prod.splits)

text \<open>A window that began in the interval outlasts it; one that began before is followed by at most one.\<close>

lemma passed_inside:
  assumes "sorted ts" "T \<le> wd_start w" "1 \<le> il_limit l"
  shows "passed l T (ref_run l ts (Some w)) \<le> (if wd_n w \<ge> il_limit l then 0 else il_limit l - wd_n w)"
  using assms
proof (induction ts arbitrary: w)
  case (Cons t ts)
  show ?case
  proof (cases "t - wd_start w > il_window l")
    case True
    then have "\<forall>u \<in> set (t # ts). u > T + il_window l" using Cons.prems by fastforce
    from passed_none [OF this, of "Some w"] show ?thesis by simp
  next
    case False
    then show ?thesis
      using Cons.IH [of w] Cons.IH [of "w\<lparr>wd_n := wd_n w + 1\<rparr>"] Cons.prems
      by (auto simp: ref_allow_def passed_Cons split: if_splits)
  qed
qed simp

lemma passed_across:
  assumes "sorted ts" "\<forall>t \<in> set ts. T \<le> t" "1 \<le> il_limit l"
  shows "passed l T (ref_run l ts (Some w)) \<le> (if wd_n w \<ge> il_limit l then 0 else il_limit l - wd_n w) + il_limit l"
  using assms
proof (induction ts arbitrary: w)
  case (Cons t ts)
  show ?case
  proof (cases "t - wd_start w > il_window l")
    case True
    then show ?thesis
      using passed_inside [of ts T "\<lparr>wd_start = t, wd_n = 1\<rparr>" l] Cons.prems
      by (auto simp: ref_allow_def passed_Cons split: if_splits)
  next
    case False
    then show ?thesis
      using Cons.IH [of w] Cons.IH [of "w\<lparr>wd_n := wd_n w + 1\<rparr>"] Cons.prems
      by (auto simp: ref_allow_def passed_Cons split: if_splits)
  qed
qed simp

lemma passed_bound:
  assumes "sorted ts" "1 \<le> il_limit l" "\<And>w. st = Some w \<Longrightarrow> 0 \<le> wd_n w"
  shows "passed l T (ref_run l ts st) \<le> 2 * il_limit l"
  using assms
proof (induction ts arbitrary: st)
  case (Cons t ts)
  have n: "snd (ref_allow l t st) = Some w \<Longrightarrow> 0 \<le> wd_n w" for w
    using Cons.prems(3) by (auto simp: ref_allow_def split: option.splits if_splits)
  show ?case
  proof (cases "t < T")
    case True
    with Cons.IH [OF _ Cons.prems(2) n] Cons.prems(1) show ?thesis by (simp add: passed_Cons split_beta)
  next
    case False
    then have ge: "\<forall>u \<in> set (t # ts). T \<le> u" using Cons.prems(1) by fastforce
    show ?thesis
    proof (cases st)
      case None
      then show ?thesis
        using passed_inside [of ts T "\<lparr>wd_start = t, wd_n = 1\<rparr>" l] Cons.prems(1,2) False
        by (auto simp: ref_allow_def passed_Cons split: if_splits)
    next
      case (Some w)
      have "(if wd_n w \<ge> il_limit l then 0 else il_limit l - wd_n w) + il_limit l \<le> 2 * il_limit l"
        using Cons.prems(2,3) Some by auto
      with passed_across [OF Cons.prems(1) ge Cons.prems(2), of w] show ?thesis unfolding Some by (rule order_trans)
    qed
  qed
qed simp

text \<open>(C26) The registration limiter is a fixed-window counter per address. For calls in the order of
  time, the decisions for one address are exactly those of a counter that sees only that address:
  neither other addresses nor the eviction of a full table influence them. And in any interval of
  one window's length at most twice the limit is allowed.\<close>

theorem limiter_per_address:
  assumes "0 \<le> il_window l" and "il_window l < maxInt64" and "1 \<le> il_limit l" and "sorted (map fst cs)"
  shows "map (\<lambda>((t, _), a). (t, a)) (filter (\<lambda>((_, i), _). i = ip) (zip cs (limiter_run l cs []))) =
      ref_run l (map fst (filter (\<lambda>(_, i). i = ip) cs)) None \<and>
    passed l T (ref_run l (map fst (filter (\<lambda>(_, i). i = ip) cs)) None) \<le> 2 * il_limit l"
proof
  have "\<exists>now. \<forall>c \<in> set cs. now \<le> fst c"
    by (cases cs) (use assms(4) in \<open>auto intro!: exI [of _ "fst (hd cs)"]\<close>)
  then obtain now where "\<forall>c \<in> set cs. now \<le> fst c" by blast
  then show "map (\<lambda>((t, _), a). (t, a)) (filter (\<lambda>((_, i), _). i = ip) (zip cs (limiter_run l cs []))) =
      ref_run l (map fst (filter (\<lambda>(_, i). i = ip) cs)) None"
    by (intro limiter_refines [OF assms(1,2) _ _ assms(4)]) (simp_all add: tracks_def)
  show "passed l T (ref_run l (map fst (filter (\<lambda>(_, i). i = ip) cs)) None) \<le> 2 * il_limit l"
    by (rule passed_bound) (use assms(3) sorted_filter [OF assms(4)] in simp_all)
qed

theorem limiter_per_address_witness:
  "map (\<lambda>((t, _), a). (t, a)) (filter (\<lambda>((_, i), _). i = ''p'')
      (zip [(0 :: time, ''p''), (1, ''q''), (2, ''p''), (3, ''p'')] (limiter_run \<lparr>il_limit = 2, il_window = 60\<rparr>
         [(0, ''p''), (1, ''q''), (2, ''p''), (3, ''p'')] []))) = [(0, True), (2, True), (3, False)]"
proof -
  let ?l = "\<lparr>il_limit = 2, il_window = 60\<rparr>" and ?cs = "[(0, ''p''), (1, ''q''), (2, ''p''), (3, ''p'')]"
  have "map (\<lambda>((t, _), a). (t, a)) (filter (\<lambda>((_, i), _). i = ''p'') (zip ?cs (limiter_run ?l ?cs []))) =
      ref_run ?l (map fst (filter (\<lambda>(_, i). i = ''p'') ?cs)) None"
    by (rule limiter_per_address [THEN conjunct1]) (simp_all add: maxInt64_def)
  also have "\<dots> = [(0, True), (2, True), (3, False)]" by (simp add: ref_allow_def)
  finally show ?thesis .
qed

section \<open>Client assertions\<close>

lemma accept_recorded:
  assumes "sr_store s = memstore_OAuth" "accept_assertion L why s now cl cid result sw = (Inr client, sw')"
  shows "\<exists>q exp. result = Inr q \<and> j_ExpirationTime L (t_Claims q) = Some exp \<and>
    UseClientAssertion cid (str_claim (t_Claims q) ''jti'') (exp + assertionLeeway) (ow sw) = (Inr True, ow sw')"
  using assms(2)
  by (auto simp: accept_assertion_def Let_def assms(1) memstore_OAuth_def
      split: if_splits option.splits prod.splits sum.splits bool.splits)

lemma assertion_accepted:
  assumes "jwt_checks L" "jwt_decodes L" "sr_store s = memstore_OAuth"
    and "Server_authenticateAssertion x b L why s now endpoint f sw = (Inr client, sw')"
  obtains c exp where "\<exists>t. j_ParseUnverified L (values_Get f ''client_assertion'') = Inr t \<and> t_Claims t = c"
    "j_ExpirationTime L c = Some exp" "now < exp + assertionLeeway"
    "map_of (m_oauthJTIs (db (ow sw))) (str_claim c ''sub'', str_claim c ''jti'') = None"
    "map_of (m_oauthJTIs (db (ow sw'))) (str_claim c ''sub'', str_claim c ''jti'') = Some (exp + assertionLeeway)"
proof -
  let ?a = "values_Get f ''client_assertion''"
  from assms(4) obtain t where t: "j_ParseUnverified L ?a = Inr t"
    by (auto simp: Server_authenticateAssertion_def Let_def split: if_splits sum.splits)
  let ?cid = "str_claim (t_Claims t) ''sub''"
  from assms(4) t obtain cl sw1 where r: "Server_resolveClient x b s now ?cid sw = (Inr cl, sw1)"
    by (auto simp: Server_authenticateAssertion_def Let_def split: if_splits sum.splits prod.splits)
  have w1: "ow sw1 = ow sw" by (rule resolveClient_world [OF r])
  let ?p = "assertion_parser s cl ?cid endpoint"
  obtain key sw2 where k: "(if alg (t_Method t) \<in> set (pr_ValidMethods ?p)
      then (case assertion_keyfunc x b now cl t (ow_cimd sw1) of (k, f) \<Rightarrow> (k, sw1\<lparr>ow_cimd := f\<rparr>)) else (Inl [], sw1)) = (key, sw2)"
    by fastforce
  have w2: "ow sw2 = ow sw" using k w1 by (auto split: if_splits prod.splits)
  let ?parsed = "j_Parse L ?p now (\<lambda>_. case key of Inl e \<Rightarrow> Inl (StoreErr e) | Inr k \<Rightarrow> Inr k) ?a"
  have "accept_assertion L why s now cl ?cid ?parsed sw2 = (Inr client, sw')"
    using assms(4) t r by (auto simp: Server_authenticateAssertion_def k Let_def split: if_splits)
  then obtain q exp where q: "?parsed = Inr q" and e: "j_ExpirationTime L (t_Claims q) = Some exp"
    and u: "UseClientAssertion ?cid (str_claim (t_Claims q) ''jti'') (exp + assertionLeeway) (ow sw2) = (Inr True, ow sw')"
    using accept_recorded [OF assms(3)] by blast
  from assms(2) q obtain t' where "j_ParseUnverified L ?a = Inr t'" "t_Claims t' = t_Claims q"
    unfolding jwt_decodes_def by blast
  with t have c: "t_Claims q = t_Claims t" by simp
  from assms(1) q have "\<forall>e. j_ExpirationTime L (t_Claims q) = Some e \<longrightarrow> now < e + pr_Leeway ?p"
    unfolding jwt_checks_def by blast
  then have "now < exp + assertionLeeway" using e by (simp add: assertion_parser_def Let_def)
  moreover from u [THEN sym] w2 have "map_of (m_oauthJTIs (db (ow sw))) (?cid, str_claim (t_Claims q) ''jti'') = None"
    "map_of (m_oauthJTIs (db (ow sw'))) (?cid, str_claim (t_Claims q) ''jti'') = Some (exp + assertionLeeway)"
    by (auto simp: UseClientAssertion_def update_conv split: if_splits)
  ultimately show ?thesis using that [of "t_Claims t" exp] t e c by auto
qed

text \<open>A call of the store, by any request, that removes records of assertions only once they expired
  before \<open>t\<close>.\<close>

definition timely_call :: "extern \<Rightarrow> time \<Rightarrow> memstore world \<Rightarrow> memstore world \<Rightarrow> bool" where
  "timely_call x t w w' \<longleftrightarrow> mem_step x w w' \<and> (\<forall>k e. map_of (m_oauthJTIs (db w)) k = Some e \<longrightarrow>
     map_of (m_oauthJTIs (db w')) k = None \<longrightarrow> e < t)"

lemma cascade_jtis: "m_oauthJTIs (fold cascadeDeleteLocked ids s) = m_oauthJTIs s"
  by (induction ids arbitrary: s) (simp_all add: cascadeDeleteLocked_def Let_def)

lemma jti_step:
  assumes "mem_step x w w'" "mem_wf (db w)" "map_of (m_oauthJTIs (db w)) k = Some e"
  shows "map_of (m_oauthJTIs (db w')) k \<in> {None, Some e}"
  using assms(1)
proof cases
  case (step_UseClientAssertion i j t b)
  then show ?thesis using assms(3) by (auto simp: UseClientAssertion_def update_conv split: if_splits)
next
  case (step_DeleteExpiredAssertions t n)
  then show ?thesis using assms(3) wf_dkeys(14) [OF assms(2)]
    by (auto simp: DeleteExpiredClientAssertions_def map_of_delete_if split: if_splits)
qed (use assms(3) in \<open>auto simp: user_writes role_writes key_writes session_writes oauth_writes Let_def
      cascadeDeleteLocked_def cascade_jtis split: mem_split\<close>)

lemma jti_run:
  assumes "(timely_call x t)\<^sup>*\<^sup>* w w'" "mem_wf (db w)" "map_of (m_oauthJTIs (db w)) k = Some e \<or> e < t"
  shows "mem_wf (db w') \<and> (map_of (m_oauthJTIs (db w')) k = Some e \<or> e < t)"
  using assms
proof (induction rule: rtranclp_induct)
  case (step y z)
  then have y: "mem_wf (db y)" "map_of (m_oauthJTIs (db y)) k = Some e \<or> e < t" and s: "timely_call x t y z" by auto
  from s have m: "mem_step x y z" and kept: "map_of (m_oauthJTIs (db y)) k = Some e \<Longrightarrow>
      map_of (m_oauthJTIs (db z)) k = None \<Longrightarrow> e < t" unfolding timely_call_def by blast+
  show ?case using y jti_step [OF m, of k e] kept mem_step_wf [OF m] by auto
qed simp

text \<open>(C27) A client assertion authenticates once. After an assertion was accepted, every later attempt
  with the same assertion fails, at any endpoint and any time, whatever calls other requests make
  of the store in between, provided records of assertions are purged only after they expired: the
  record of the identifier outlives the assertion, leeway included.\<close>

theorem assertion_used_once:
  assumes "jwt_checks L" and "jwt_decodes L" and "sr_store s = memstore_OAuth" and "sr_store s' = memstore_OAuth"
    and "Server_authenticateAssertion x b L why s now endpoint f sw = (Inr client, sw1)" and "mem_wf (db (ow sw1))"
    and "(timely_call x now')\<^sup>*\<^sup>* (ow sw1) (ow sw2)"
    and "values_Get f' ''client_assertion'' = values_Get f ''client_assertion''"
  shows "\<exists>e sw3. Server_authenticateAssertion x b' L why' s' now' endpoint' f' sw2 = (Inl e, sw3)"
proof (cases "Server_authenticateAssertion x b' L why' s' now' endpoint' f' sw2")
  case (Pair r sw3)
  show ?thesis
  proof (cases r)
    case (Inl e)
    with Pair show ?thesis by simp
  next
    case (Inr client')
    obtain c exp where c: "\<exists>t. j_ParseUnverified L (values_Get f ''client_assertion'') = Inr t \<and> t_Claims t = c"
      "j_ExpirationTime L c = Some exp"
      "map_of (m_oauthJTIs (db (ow sw1))) (str_claim c ''sub'', str_claim c ''jti'') = Some (exp + assertionLeeway)"
      by (rule assertion_accepted [OF assms(1-3,5)])
    obtain c' exp' where c': "\<exists>t. j_ParseUnverified L (values_Get f' ''client_assertion'') = Inr t \<and> t_Claims t = c'"
      "j_ExpirationTime L c' = Some exp'" "now' < exp' + assertionLeeway"
      "map_of (m_oauthJTIs (db (ow sw2))) (str_claim c' ''sub'', str_claim c' ''jti'') = None"
      by (rule assertion_accepted [OF assms(1,2,4) Pair [unfolded Inr]])
    have "c' = c" using c(1) c'(1) assms(8) by auto
    with jti_run [OF assms(7,6), of "(str_claim c ''sub'', str_claim c ''jti'')" "exp + assertionLeeway"] c c'
    show ?thesis by simp
  qed
qed

subsection \<open>A concrete run\<close>

definition demo_cimd_web :: web where
  "demo_cimd_web = demo_web\<lparr>wb_Parse := (\<lambda>s. if s = [] then None else Some \<lparr>url_Scheme = ''https'', url_User = False,
     url_Host = ''h'', url_Path = ''/x'', url_RawPath = [], url_RawQuery = [], url_Fragment = []\<rparr>)\<rparr>"

definition demo_cimd_client :: resolvedClient where
  "demo_cimd_client = zero_client\<lparr>rc_ID := ''https://h/x'', rc_AuthMethod := AuthMethodPrivateKeyJWT, rc_CIMD := True,
     rc_Keys := [\<lparr>ck_kid = [], ck_alg = [], ck_key = RSAPublic \<lparr>rsa_N = 1, rsa_E = 3\<rparr>\<rparr>]\<rparr>"

definition demo_cimd_server :: "memstore server" where
  "demo_cimd_server = demo_server\<lparr>sr_opts := demo_server_options\<lparr>op_AllowCIMD := True\<rparr>\<rparr>"

definition demo_assertion_jwt :: jwt_lib where
  "demo_assertion_jwt = table_jwt [(SigningMethodHMAC ''HS256'', [], [], KeyNil),
     (SigningMethodRSA ''RS256'', [(''typ'', JStr ''JWT'')], [(''iss'', JStr ''https://h/x''), (''sub'', JStr ''https://h/x''),
        (''aud'', JStr ''iss''), (''exp'', JNum 100), (''nbf'', JNum 0), (''iat'', JNum 0), (''jti'', JStr ''j'')],
      RSAPrivate \<lparr>rsa_PublicKey = \<lparr>rsa_N = 1, rsa_E = 3\<rparr>, rsa_D = 1\<rparr>)]"

definition demo_assertion_form :: url_values where
  "demo_assertion_form = [(''client_assertion_type'', [ClientAssertionTypeJWTBearer]), (''client_assertion'', [''t''])]"

definition demo_cimd_world :: "memstore oauth_world" where
  "demo_cimd_world = \<lparr>ow = demo_session_world, ow_cimd = NewCIMDFetcher\<lparr>cf_cache :=
     [(''https://h/x'', \<lparr>ce_client = demo_cimd_client, ce_expires = 50\<rparr>)]\<rparr>, ow_hits = []\<rparr>"

lemma demo_assertion:
  "Server_authenticateAssertion demo_extern demo_cimd_web demo_assertion_jwt why demo_cimd_server 5 ''e'' demo_assertion_form
     demo_cimd_world = (Inr demo_cimd_client, demo_cimd_world\<lparr>ow := (ow demo_cimd_world)\<lparr>db := m_oauthJTIs_update
       (\<lambda>_. [((''https://h/x'', ''j''), 100 * second + assertionLeeway)]) (db (ow demo_cimd_world))\<rparr>\<rparr>)"
proof -
  have f: "values_Get demo_assertion_form ''client_assertion_type'' = ClientAssertionTypeJWTBearer"
    "values_Get demo_assertion_form ''client_assertion'' = ''t''" "values_Get demo_assertion_form ''client_id'' = []"
    by (simp_all add: demo_assertion_form_def values_Get_def)
  have r: "Server_resolveClient demo_extern demo_cimd_web demo_cimd_server 5 ''https://h/x'' demo_cimd_world =
      (Inr demo_cimd_client, demo_cimd_world)"
    by (simp add: Server_resolveClient_def IsCIMDClientID_def strings_ToLower_def is_ascii_def lower_byte_def char_of_def
        demo_cimd_server_def cimdFetcher_Resolve_def validateCIMDURL_def demo_cimd_web_def demo_web_def url_Hostname_def Let_def
        dot_segment_def strings_EqualFold_def equal_fold_ascii_def demo_cimd_world_def)
  let ?c = "[(''iss'', JStr ''https://h/x''), (''sub'', JStr ''https://h/x''), (''aud'', JStr ''iss''), (''exp'', JNum 100),
     (''nbf'', JNum 0), (''iat'', JNum 0), (''jti'', JStr ''j'')]"
  let ?t = "\<lparr>t_Header = [(''typ'', JStr ''JWT'')], t_Claims = ?c, t_Method = SigningMethodRSA ''RS256'', t_Valid = False\<rparr>"
  let ?k = "VerificationKeySet [RSAPublic \<lparr>rsa_N = 1, rsa_E = 3\<rparr>]"
  let ?p = "assertion_parser demo_cimd_server demo_cimd_client ''https://h/x'' ''e''"
  have u: "j_ParseUnverified demo_assertion_jwt ''t'' = Inr ?t" by (simp add: demo_assertion_jwt_def table_jwt_def)
  have c: "str_claim ?c ''sub'' = ''https://h/x''" "str_claim ?c ''iss'' = ''https://h/x''" "str_claim ?c ''jti'' = ''j''"
    by (simp_all add: str_claim_def)
  have k: "assertion_keyfunc demo_extern demo_cimd_web 5 demo_cimd_client ?t (ow_cimd demo_cimd_world) =
      (Inr ?k, ow_cimd demo_cimd_world)"
    by (simp add: assertion_keyfunc_def demo_cimd_client_def zero_client_def pick_keys_def clientKey_fits_def str_claim_def)
  have p: "j_Parse demo_assertion_jwt ?p 5 (\<lambda>_. Inr ?k) ''t'' = Inr (?t\<lparr>t_Valid := True\<rparr>)"
    by (simp add: demo_assertion_jwt_def table_jwt_def parser_accepts_def assertion_parser_def Let_def AssertionSigningAlgs_def
        demo_cimd_client_def zero_client_def demo_cimd_server_def demo_server_def time_of_Unix_def second_def assertionLeeway_def
        default_parser_def)
  have m: "''RS256'' \<in> set (pr_ValidMethods ?p)"
    by (simp add: assertion_parser_def Let_def AssertionSigningAlgs_def demo_cimd_client_def zero_client_def)
  have e: "j_ExpirationTime demo_assertion_jwt ?c = Some (100 * second)"
    by (simp add: demo_assertion_jwt_def table_jwt_def time_of_Unix_def)
  have a: "accept_assertion demo_assertion_jwt why demo_cimd_server 5 demo_cimd_client ''https://h/x''
      (Inr (?t\<lparr>t_Valid := True\<rparr>)) demo_cimd_world = (Inr demo_cimd_client, demo_cimd_world\<lparr>ow := (ow demo_cimd_world)\<lparr>db :=
        m_oauthJTIs_update (\<lambda>_. [((''https://h/x'', ''j''), 100 * second + assertionLeeway)]) (db (ow demo_cimd_world))\<rparr>\<rparr>)"
    by (simp add: accept_assertion_def e c Let_def demo_cimd_server_def demo_server_options_def time_Sub_def second_def minute_def
        hour_def maxInt64_def minInt64_def maxJTILen_def memstore_OAuth_def UseClientAssertion_def demo_cimd_world_def
        demo_session_world_def memstore_New_def)
  have au: "rc_AuthMethod demo_cimd_client = AuthMethodPrivateKeyJWT" by (simp add: demo_cimd_client_def)
  show ?thesis
    unfolding Server_authenticateAssertion_def Let_def
    using f u c r au k m p a by simp
qed

theorem assertion_used_once_witness:
  "\<exists>sw1 e sw3. Server_authenticateAssertion demo_extern demo_cimd_web demo_assertion_jwt (\<lambda>_. TokenInvalid) demo_cimd_server 5 ''e''
       demo_assertion_form demo_cimd_world = (Inr demo_cimd_client, sw1) \<and>
     Server_authenticateAssertion demo_extern demo_cimd_web demo_assertion_jwt (\<lambda>_. TokenInvalid) demo_cimd_server 6 ''e''
       demo_assertion_form sw1 = (Inl e, sw3)"
proof -
  let ?sw = "demo_cimd_world\<lparr>ow := (ow demo_cimd_world)\<lparr>db := m_oauthJTIs_update
       (\<lambda>_. [((''https://h/x'', ''j''), 100 * second + assertionLeeway)]) (db (ow demo_cimd_world))\<rparr>\<rparr>"
  have "mem_wf (db (ow ?sw))"
    by (simp add: demo_cimd_world_def demo_session_world_def mem_wf_def keyed_def login_wf_def api_keys_wf_def oauth_wf_def
        memstore_New_def demo_member_def demo_session_def)
  then have "\<exists>e sw3. Server_authenticateAssertion demo_extern demo_cimd_web demo_assertion_jwt (\<lambda>_. TokenInvalid) demo_cimd_server 6 ''e''
       demo_assertion_form ?sw = (Inl e, sw3)"
    by (intro assertion_used_once [OF _ _ _ _ demo_assertion, where now' = 6])
      (simp_all add: demo_cimd_server_def demo_server_def demo_assertion_jwt_def table_jwt_ok)
  with demo_assertion
  show ?thesis by blast
qed

end
