(* ===== verification/OAuth_CIMD.thy ===== *)
theory OAuth_CIMD
  imports OAuth_Limits
begin

text \<open>
  The metadata fetcher of \<open>oauth/cimd.go\<close> over time. Its two caches are the state; the steps are the
  two fetching operations and the passing of time. What a call answers is compared with what the
  remote side published: \<open>published\<close> and \<open>keys_published\<close> say what a fetch at one instant yields.
\<close>

section \<open>What the remote side publishes\<close>

definition published :: "extern \<Rightarrow> web \<Rightarrow> int \<Rightarrow> string \<Rightarrow> time \<Rightarrow> resolvedClient \<Rightarrow> bool" where
  "published x b mx cid t c \<longleftrightarrow> (\<exists>u resp body doc. validateCIMDURL b cid = Inr u \<and> wb_Get b (wb_String b u) t = Inr resp \<and>
     ha_Status resp = 200 \<and> ha_Body resp = Some body \<and> int (length body) \<le> mx \<and> wb_CIMD b body = Some doc \<and>
     validateCIMDDocument x b cid doc = Inr c)"

definition keys_published :: "web \<Rightarrow> int \<Rightarrow> string \<Rightarrow> time \<Rightarrow> clientKey list \<Rightarrow> bool" where
  "keys_published b mx uri t keys \<longleftrightarrow> (\<exists>resp body. validateJWKSURI b uri = None \<and> wb_Get b uri t = Inr resp \<and>
     ha_Status resp = 200 \<and> ha_Body resp = Some body \<and> int (length body) \<le> mx \<and> parseJWKS b body = Inr keys)"

definition jwks_limit :: "cimdFetcher \<Rightarrow> int" where
  "jwks_limit f = (if cf_MaxJWKSBytes f \<le> 0 then 64 * 1024 else cf_MaxJWKSBytes f)"

definition min_refresh :: "cimdFetcher \<Rightarrow> duration" where
  "min_refresh f = (if cf_JWKSMinRefresh f \<le> 0 then 30 * second else cf_JWKSMinRefresh f)"

section \<open>The two calls, as a cache hit or a fetch\<close>

lemma cacheTTL_bounds:
  assumes "cimdFetcher_cacheTTL x f cc = (ttl, True)"
  shows "0 < ttl" "ttl \<le> cf_MaxTTL f" "cf_MinTTL f \<le> cf_MaxTTL f \<Longrightarrow> cf_MinTTL f \<le> ttl"
  using assms by (auto simp: cimdFetcher_cacheTTL_def Let_def split: if_splits)

lemma Resolve_cases:
  assumes "cimdFetcher_Resolve x b now cid f = (r, f')"
  obtains (error) e where "r = Inl e" "f' = f"
  | (hit) e where "map_of (cf_cache f) cid = Some e" "now < ce_expires e" "r = Inr (ce_client e)" "f' = f"
  | (fetched) c where "r = Inr c" "published x b (cf_MaxBytes f) cid now c" "f' = f"
  | (stored) c ttl where "r = Inr c" "published x b (cf_MaxBytes f) cid now c" "ttl \<le> cf_MaxTTL f"
      "f' = f\<lparr>cf_cache := AList.update cid \<lparr>ce_client = c, ce_expires = now + ttl\<rparr> (cache_room now (cf_cache f))\<rparr>"
proof (cases "\<exists>e. map_of (cf_cache f) cid = Some e \<and> now < ce_expires e")
  case True
  then show ?thesis using assms error hit
    by (auto simp: cimdFetcher_Resolve_def Let_def split: sum.splits)
next
  case False
  then have miss: "(case map_of (cf_cache f) cid of Some e \<Rightarrow> if now < ce_expires e then (Inr (ce_client e), f) else z | None \<Rightarrow> z) = z" for z
    by (auto split: option.splits)
  show ?thesis
  proof (cases r)
    case (Inl e)
    then have "f' = f" using assms unfolding cimdFetcher_Resolve_def Let_def miss
      by (auto split: sum.splits if_splits option.splits prod.splits bool.splits)
    with Inl show ?thesis by (rule error)
  next
    case (Inr c)
    then obtain u resp body doc where p: "validateCIMDURL b cid = Inr u" "wb_Get b (wb_String b u) now = Inr resp"
      "ha_Status resp = 200" "ha_Body resp = Some body" "int (length body) \<le> cf_MaxBytes f" "wb_CIMD b body = Some doc"
      "validateCIMDDocument x b cid doc = Inr c"
      using assms unfolding cimdFetcher_Resolve_def Let_def miss
      by (auto split: sum.splits if_splits option.splits prod.splits bool.splits)
    then have pub: "published x b (cf_MaxBytes f) cid now c" unfolding published_def by blast
    obtain ttl ok where t: "cimdFetcher_cacheTTL x f (ha_CacheControl resp) = (ttl, ok)" by fastforce
    show ?thesis
    proof (cases ok)
      case True
      then have ok: "ok = True" by simp
      then have "f' = f\<lparr>cf_cache := AList.update cid \<lparr>ce_client = c, ce_expires = now + ttl\<rparr> (cache_room now (cf_cache f))\<rparr>"
        using assms p t unfolding cimdFetcher_Resolve_def Let_def miss by auto
      then show ?thesis by (rule stored [OF Inr pub cacheTTL_bounds(2) [OF t [unfolded ok]]])
    next
      case False
      then have "f' = f" using assms p t unfolding cimdFetcher_Resolve_def Let_def miss by auto
      with Inr pub show ?thesis by (rule fetched)
    qed
  qed
qed

lemma jwks_cases:
  assumes "cimdFetcher_jwks x b now uri refresh f = (r, f')"
  obtains (error) e where "r = Inl e" "f' = f"
  | (hit) e where "map_of (cf_jwksCache f) uri = Some e" "now < je_expires e" "r = Inr (je_keys e)" "f' = f"
      "refresh \<longrightarrow> time_Sub now (je_fetched e) < min_refresh f"
  | (fetched) ks where "r = Inr ks" "keys_published b (jwks_limit f) uri now ks" "f' = f"
  | (stored) ks ttl where "r = Inr ks" "keys_published b (jwks_limit f) uri now ks" "ttl \<le> cf_MaxTTL f"
      "f' = f\<lparr>cf_jwksCache := AList.update uri \<lparr>je_keys = ks, je_fetched = now, je_expires = now + ttl\<rparr>
         (if length (cf_jwksCache f) > 1000 then [] else cf_jwksCache f)\<rparr>"
proof (cases "\<exists>e. map_of (cf_jwksCache f) uri = Some e \<and> now < je_expires e \<and>
    (refresh \<longrightarrow> time_Sub now (je_fetched e) < min_refresh f)")
  case True
  then obtain e where e: "map_of (cf_jwksCache f) uri = Some e" "now < je_expires e"
    "refresh \<longrightarrow> time_Sub now (je_fetched e) < min_refresh f" by blast
  then have "r = Inr (je_keys e)" "f' = f" using assms by (auto simp: cimdFetcher_jwks_def Let_def min_refresh_def split: if_splits)
  with e show ?thesis by (intro hit)
next
  case False
  then have miss: "(case map_of (cf_jwksCache f) uri of Some e \<Rightarrow> if now < je_expires e \<and> (\<not> refresh \<or> time_Sub now (je_fetched e) <
      (if cf_JWKSMinRefresh f \<le> 0 then 30 * second else cf_JWKSMinRefresh f)) then (Inr (je_keys e), f) else z | None \<Rightarrow> z) = z" for z
    unfolding min_refresh_def by (cases "map_of (cf_jwksCache f) uri") auto
  show ?thesis
  proof (cases r)
    case (Inl e)
    then have "f' = f" using assms unfolding cimdFetcher_jwks_def Let_def miss
      by (auto split: sum.splits if_splits option.splits prod.splits bool.splits)
    with Inl show ?thesis by (rule error)
  next
    case (Inr ks)
    then obtain resp body where p: "validateJWKSURI b uri = None" "wb_Get b uri now = Inr resp" "ha_Status resp = 200"
      "ha_Body resp = Some body" "\<not> int (length body) > jwks_limit f" "parseJWKS b body = Inr ks"
      using assms unfolding cimdFetcher_jwks_def Let_def miss jwks_limit_def
      by (auto split: sum.splits if_splits option.splits prod.splits bool.splits)
    then have pub: "keys_published b (jwks_limit f) uri now ks" unfolding keys_published_def by auto
    obtain ttl ok where t: "cimdFetcher_cacheTTL x f (ha_CacheControl resp) = (ttl, ok)" by fastforce
    show ?thesis
    proof (cases ok)
      case True
      then have ok: "ok = True" by simp
      then have "f' = f\<lparr>cf_jwksCache := AList.update uri \<lparr>je_keys = ks, je_fetched = now, je_expires = now + ttl\<rparr>
          (if length (cf_jwksCache f) > 1000 then [] else cf_jwksCache f)\<rparr>"
        using assms p t unfolding cimdFetcher_jwks_def Let_def miss jwks_limit_def by simp
      then show ?thesis by (rule stored [OF Inr pub cacheTTL_bounds(2) [OF t [unfolded ok]]])
    next
      case False
      then have "f' = f" using assms p t unfolding cimdFetcher_jwks_def Let_def miss jwks_limit_def by simp
      with Inr pub show ?thesis by (rule fetched)
    qed
  qed
qed

section \<open>Runs\<close>

text \<open>The fetcher's state under any sequence of calls, the clock running forward in between.\<close>

inductive cimd_reach :: "extern \<Rightarrow> web \<Rightarrow> cimdFetcher \<Rightarrow> time \<Rightarrow> cimdFetcher \<Rightarrow> bool" for x b cfg where
  start: "cf_cache cfg = [] \<Longrightarrow> cf_jwksCache cfg = [] \<Longrightarrow> cimd_reach x b cfg t cfg"
| wait: "cimd_reach x b cfg t f \<Longrightarrow> t \<le> t' \<Longrightarrow> cimd_reach x b cfg t' f"
| resolve: "cimd_reach x b cfg t f \<Longrightarrow> cimdFetcher_Resolve x b t cid f = (r, f') \<Longrightarrow> cimd_reach x b cfg t f'"
| jwks: "cimd_reach x b cfg t f \<Longrightarrow> cimdFetcher_jwks x b t uri refresh f = (ks, f') \<Longrightarrow> cimd_reach x b cfg t f'"

definition client_entry_ok :: "extern \<Rightarrow> web \<Rightarrow> cimdFetcher \<Rightarrow> time \<Rightarrow> string \<Rightarrow> cimdEntry \<Rightarrow> bool" where
  "client_entry_ok x b cfg now k e \<longleftrightarrow>
     (\<exists>t \<le> now. published x b (cf_MaxBytes cfg) k t (ce_client e) \<and> ce_expires e \<le> t + cf_MaxTTL cfg)"

definition keys_entry_ok :: "web \<Rightarrow> cimdFetcher \<Rightarrow> time \<Rightarrow> string \<Rightarrow> jwksEntry \<Rightarrow> bool" where
  "keys_entry_ok b cfg now k e \<longleftrightarrow> je_fetched e \<le> now \<and> keys_published b (jwks_limit cfg) k (je_fetched e) (je_keys e) \<and>
     je_expires e \<le> je_fetched e + cf_MaxTTL cfg"

definition cimd_inv :: "extern \<Rightarrow> web \<Rightarrow> cimdFetcher \<Rightarrow> time \<Rightarrow> cimdFetcher \<Rightarrow> bool" where
  "cimd_inv x b cfg now f \<longleftrightarrow> f = cfg\<lparr>cf_cache := cf_cache f, cf_jwksCache := cf_jwksCache f\<rparr> \<and>
     length (cf_cache f) \<le> 1001 \<and> length (cf_jwksCache f) \<le> 1001 \<and>
     (\<forall>(k, e) \<in> set (cf_cache f). client_entry_ok x b cfg now k e) \<and>
     (\<forall>(k, e) \<in> set (cf_jwksCache f). keys_entry_ok b cfg now k e)"

lemma set_update_subset: "set (AList.update k v m) \<subseteq> insert (k, v) (set m)"
  by (induction m) auto

lemma length_update_le: "length (AList.update k v m) \<le> Suc (length m)"
  by (induction m) auto

lemma cache_room_sub: "set (cache_room now m) \<subseteq> set m" "length (cache_room now m) \<le> 1000"
  by (auto simp: cache_room_def delete_if_def Let_def)

lemma cimd_inv_config:
  assumes "cimd_inv x b cfg now f"
  shows "cf_MaxBytes f = cf_MaxBytes cfg" "cf_MaxTTL f = cf_MaxTTL cfg" "jwks_limit f = jwks_limit cfg"
    "min_refresh f = min_refresh cfg"
proof -
  from assms obtain c j where "f = cfg\<lparr>cf_cache := c, cf_jwksCache := j\<rparr>" unfolding cimd_inv_def by blast
  then show "cf_MaxBytes f = cf_MaxBytes cfg" "cf_MaxTTL f = cf_MaxTTL cfg" "jwks_limit f = jwks_limit cfg"
    "min_refresh f = min_refresh cfg" by (simp_all add: jwks_limit_def min_refresh_def)
qed

lemma cimd_inv_store:
  assumes "cimd_inv x b cfg now f" "client_entry_ok x b cfg now cid e"
  shows "cimd_inv x b cfg now (f\<lparr>cf_cache := AList.update cid e (cache_room now (cf_cache f))\<rparr>)"
proof -
  have "length (AList.update cid e (cache_room now (cf_cache f))) \<le> 1001"
    using length_update_le [of cid e "cache_room now (cf_cache f)"] cache_room_sub(2) [of now "cf_cache f"] by linarith
  moreover have "\<forall>(k, e) \<in> set (AList.update cid e (cache_room now (cf_cache f))). client_entry_ok x b cfg now k e"
    using set_update_subset [of cid e "cache_room now (cf_cache f)"] cache_room_sub(1) [of now "cf_cache f"] assms
    by (fastforce simp: cimd_inv_def)
  moreover from assms(1) have "f = cfg\<lparr>cf_cache := cf_cache f, cf_jwksCache := cf_jwksCache f\<rparr>" by (simp add: cimd_inv_def)
  ultimately show ?thesis using assms(1) by (cases f; cases cfg) (simp add: cimd_inv_def)
qed

lemma cimd_inv_store_keys:
  assumes "cimd_inv x b cfg now f" "keys_entry_ok b cfg now uri e" "m = (if length (cf_jwksCache f) > 1000 then [] else cf_jwksCache f)"
  shows "cimd_inv x b cfg now (f\<lparr>cf_jwksCache := AList.update uri e m\<rparr>)"
proof -
  have "length (AList.update uri e m) \<le> 1001" using length_update_le [of uri e m] assms(3) by (simp split: if_splits)
  moreover have "\<forall>(k, e) \<in> set (AList.update uri e m). keys_entry_ok b cfg now k e"
    using set_update_subset [of uri e m] assms by (fastforce simp: cimd_inv_def split: if_splits)
  ultimately show ?thesis using assms(1) by (cases f; cases cfg) (simp add: cimd_inv_def)
qed

lemma cimd_reach_inv: "cimd_reach x b cfg t f \<Longrightarrow> cimd_inv x b cfg t f"
proof (induction rule: cimd_reach.induct)
  case (start t)
  then show ?case by (cases cfg) (simp add: cimd_inv_def)
next
  case (wait t f t')
  have "client_entry_ok x b cfg t k e \<Longrightarrow> client_entry_ok x b cfg t' k e" for k e
    using wait.hyps(2) unfolding client_entry_ok_def by (meson order_trans)
  moreover have "keys_entry_ok b cfg t k e \<Longrightarrow> keys_entry_ok b cfg t' k e" for k e
    using wait.hyps(2) unfolding keys_entry_ok_def by (meson order_trans)
  ultimately show ?case using wait.IH unfolding cimd_inv_def by blast
next
  case (resolve t f cid r f')
  note c = cimd_inv_config [OF resolve.IH]
  from resolve.hyps(2) show ?case
  proof (cases rule: Resolve_cases)
    case (stored c ttl)
    have "client_entry_ok x b cfg t cid \<lparr>ce_client = c, ce_expires = t + ttl\<rparr>"
      unfolding client_entry_ok_def using stored c by (intro exI [of _ t]) simp
    then show ?thesis unfolding stored(4) by (rule cimd_inv_store [OF resolve.IH])
  qed (use resolve.IH in simp_all)
next
  case (jwks t f uri refresh ks f')
  note c = cimd_inv_config [OF jwks.IH]
  from jwks.hyps(2) show ?case
  proof (cases rule: jwks_cases)
    case (stored c ttl)
    have "keys_entry_ok b cfg t uri \<lparr>je_keys = c, je_fetched = t, je_expires = t + ttl\<rparr>"
      unfolding keys_entry_ok_def using stored c by simp
    then show ?thesis unfolding stored(4) by (rule cimd_inv_store_keys [OF jwks.IH]) simp
  qed (use jwks.IH in simp_all)
qed


section \<open>What an accepted document guarantees\<close>

text \<open>A client that a metadata document may describe: it has no secret, it authenticates with a key of
  its own or not at all, and all its redirect URIs were checked.\<close>

definition sound_client :: "extern \<Rightarrow> web \<Rightarrow> string \<Rightarrow> resolvedClient \<Rightarrow> bool" where
  "sound_client x b cid c \<longleftrightarrow> rc_ID c = cid \<and> rc_CIMD c \<and> rc_SecretHash c = [] \<and>
     rc_AuthMethod c \<in> {AuthMethodNone, AuthMethodPrivateKeyJWT} \<and>
     (rc_AuthMethod c = AuthMethodPrivateKeyJWT \<longleftrightarrow> rc_Keys c \<noteq> [] \<or> rc_JWKSURI c \<noteq> []) \<and>
     (rc_Keys c = [] \<or> rc_JWKSURI c = []) \<and> rc_SigningAlg c \<in> insert [] (set AssertionSigningAlgs) \<and>
     rc_RedirectURIs c \<noteq> [] \<and> list_all (\<lambda>u. validateRedirectURI x b u = None) (rc_RedirectURIs c)"

text \<open>A key that a client may sign assertions with: RSA of at least 2048 bits with an odd exponent, or a
  point the curve package accepted; never a secret.\<close>

definition sound_key :: "clientKey \<Rightarrow> bool" where
  "sound_key k = (case ck_key k of RSAPublic p \<Rightarrow> 2 ^ 2047 \<le> rsa_N p \<and> 3 \<le> rsa_E p \<and> rsa_E p mod 2 = 1
     | ECDSAPublic _ \<Rightarrow> True | _ \<Rightarrow> False)"

lemma parseJWKS_ne: "parseJWKS b d = Inr ks \<Longrightarrow> ks \<noteq> []"
  by (auto simp: parseJWKS_def split: option.splits sum.splits if_splits)

lemma rsaFromJWK_sound: "rsaFromJWK k = Some p \<Longrightarrow> sound_key \<lparr>ck_kid = i, ck_alg = a, ck_key = p\<rparr>"
  by (auto simp: rsaFromJWK_def Let_def sound_key_def split: if_splits)

lemma ecFromJWK_sound: "ecFromJWK b k = Some p \<Longrightarrow> sound_key \<lparr>ck_kid = i, ck_alg = a, ck_key = p\<rparr>"
  by (auto simp: ecFromJWK_def Let_def sound_key_def split: if_splits)

lemma usable_keys_sound: "usable_keys b ks = Inr out \<Longrightarrow> list_all sound_key out"
proof (induction ks arbitrary: out)
  case (Cons k ks)
  then show ?case
    by (auto simp: Let_def rsaFromJWK_sound ecFromJWK_sound split: if_splits sum.splits option.splits)
qed simp

lemma parseJWKS_sound: "parseJWKS b d = Inr ks \<Longrightarrow> ks \<noteq> [] \<and> list_all sound_key ks"
  by (auto simp: parseJWKS_def split: option.splits sum.splits if_splits dest: usable_keys_sound)

lemma map_filter_None: "List.map_filter f xs = [] \<longleftrightarrow> list_all (\<lambda>a. f a = None) xs"
  by (induction xs) (auto simp: List.map_filter_def)

lemma document_auth_sound:
  assumes "document_auth b d = Inr rc"
  shows "rc_SecretHash rc = []" "rc_AuthMethod rc \<in> {AuthMethodNone, AuthMethodPrivateKeyJWT}"
    "rc_AuthMethod rc = AuthMethodPrivateKeyJWT \<longleftrightarrow> rc_Keys rc \<noteq> [] \<or> rc_JWKSURI rc \<noteq> []"
    "rc_Keys rc = [] \<or> rc_JWKSURI rc = []" "rc_SigningAlg rc \<in> insert [] (set AssertionSigningAlgs)"
  using assms
  by (auto simp: document_auth_def Let_def zero_client_def AuthMethodNone_def AuthMethodPrivateKeyJWT_def hasScope_def list_ex_iff
      dest: parseJWKS_ne split: if_splits sum.splits option.splits)

lemma document_sound:
  assumes "validateCIMDDocument x b cid d = Inr c"
  shows "sound_client x b cid c"
proof -
  from assms obtain rc where rc: "document_auth b d = Inr rc" by (auto simp: validateCIMDDocument_def split: if_splits sum.splits)
  with assms have "c = rc\<lparr>rc_ID := cid, rc_Name := take 256 (strings_TrimSpace (dc_ClientName d)),
      rc_DisplayHost := hostOf b cid, rc_RedirectURIs := dc_RedirectURIs d, rc_CIMD := True\<rparr>"
    "dc_RedirectURIs d \<noteq> []" "List.map_filter (validateRedirectURI x b) (dc_RedirectURIs d) = []"
    by (auto simp: validateCIMDDocument_def split: if_splits list.splits)
  then show ?thesis using document_auth_sound [OF rc] by (simp add: sound_client_def map_filter_None)
qed

text \<open>(C28) Metadata clients are never staler than the fetcher's maximum lifetime, and the caches are
  bounded. Whatever calls came before, over any clock that runs forward: a client that \<open>Resolve\<close>
  answers is what its document said at some instant no longer ago than \<open>MaxTTL\<close>, and it has no
  secret, only checked redirect URIs, and keys exactly if it authenticates with them; the keys
  that \<open>jwks\<close> answers are what their URL served then, under a forced refresh within the minimum
  refresh interval, and are all usable public keys. Neither cache ever holds more than 1001
  entries.\<close>

theorem metadata_fresh:
  assumes "cimd_reach x b cfg now f"
  shows "length (cf_cache f) \<le> 1001 \<and> length (cf_jwksCache f) \<le> 1001 \<and>
    (\<forall>cid c f'. cimdFetcher_Resolve x b now cid f = (Inr c, f') \<longrightarrow> sound_client x b cid c \<and>
      (\<exists>t \<le> now. published x b (cf_MaxBytes cfg) cid t c \<and> (t = now \<or> now < t + cf_MaxTTL cfg))) \<and>
    (\<forall>uri refresh ks f'. cimdFetcher_jwks x b now uri refresh f = (Inr ks, f') \<longrightarrow> ks \<noteq> [] \<and> list_all sound_key ks \<and>
      (\<exists>t \<le> now. keys_published b (jwks_limit cfg) uri t ks \<and> (t = now \<or> now < t + cf_MaxTTL cfg \<and>
        (refresh \<longrightarrow> time_Sub now t < min_refresh cfg))))"
proof -
  note inv = cimd_reach_inv [OF assms]
  note c = cimd_inv_config [OF inv]
  have "\<exists>t \<le> now. published x b (cf_MaxBytes cfg) cid t cl \<and> (t = now \<or> now < t + cf_MaxTTL cfg)"
    if "cimdFetcher_Resolve x b now cid f = (Inr cl, f')" for cid cl f'
    using that
  proof (cases rule: Resolve_cases)
    case (hit e)
    then have "client_entry_ok x b cfg now cid e" using inv by (auto simp: cimd_inv_def dest: map_of_SomeD)
    with hit show ?thesis unfolding client_entry_ok_def by (auto intro: order.strict_trans2)
  qed (use c in auto)
  moreover have "\<exists>t \<le> now. keys_published b (jwks_limit cfg) uri t ks \<and> (t = now \<or> now < t + cf_MaxTTL cfg \<and>
      (refresh \<longrightarrow> time_Sub now t < min_refresh cfg))"
    if "cimdFetcher_jwks x b now uri refresh f = (Inr ks, f')" for uri refresh ks f'
    using that
  proof (cases rule: jwks_cases)
    case (hit e)
    then have "keys_entry_ok b cfg now uri e" using inv by (auto simp: cimd_inv_def dest: map_of_SomeD)
    with hit c show ?thesis unfolding keys_entry_ok_def by (intro exI [of _ "je_fetched e"]) auto
  qed (use c in auto)
  moreover have "published x b mx cid t cl \<Longrightarrow> sound_client x b cid cl" for mx cid t cl
    unfolding published_def using document_sound by blast
  moreover have "keys_published b mx uri t ks \<Longrightarrow> ks \<noteq> [] \<and> list_all sound_key ks" for mx uri t ks
    unfolding keys_published_def using parseJWKS_sound by blast
  ultimately show ?thesis using inv unfolding cimd_inv_def by blast
qed

subsection \<open>A concrete run\<close>

definition demo_document :: cimdDocument where
  "demo_document = \<lparr>dc_ClientID = ''https://h/x'', dc_ClientName = ''n'', dc_RedirectURIs = [''https://h/cb''],
     dc_TokenEndpointAuthMethod = [], dc_GrantTypes = [], dc_ResponseTypes = [], dc_TokenEndpointAuthSigningAlg = [],
     dc_JWKSURI = [], dc_JWKS = [], dc_ClientSecret = None, dc_ClientSecretExpiresAt = None\<rparr>"

definition demo_doc_web :: web where
  "demo_doc_web = demo_cimd_web\<lparr>wb_CIMD := (\<lambda>_. Some demo_document),
     wb_Get := (\<lambda>_ _. Inr \<lparr>ha_Status = 200, ha_Body = Some ''{}'', ha_CacheControl = []\<rparr>)\<rparr>"

definition demo_doc_client :: resolvedClient where
  "demo_doc_client = zero_client\<lparr>rc_AuthMethod := AuthMethodNone, rc_ID := ''https://h/x'', rc_Name := ''n'',
     rc_DisplayHost := ''h'', rc_RedirectURIs := [''https://h/cb''], rc_CIMD := True\<rparr>"

definition demo_doc_fetcher :: cimdFetcher where
  "demo_doc_fetcher = NewCIMDFetcher\<lparr>cf_cache :=
     [(''https://h/x'', \<lparr>ce_client = demo_doc_client, ce_expires = 5 + 5 * minute\<rparr>)]\<rparr>"

lemma demo_doc_fetch:
  "cimdFetcher_Resolve demo_extern demo_doc_web 5 ''https://h/x'' NewCIMDFetcher = (Inr demo_doc_client, demo_doc_fetcher)"
proof -
  have u: "validateCIMDURL demo_doc_web ''https://h/x'' = Inr \<lparr>url_Scheme = ''https'', url_User = False, url_Host = ''h'',
      url_Path = ''/x'', url_RawPath = [], url_RawQuery = [], url_Fragment = []\<rparr>"
    by (simp add: validateCIMDURL_def demo_doc_web_def demo_cimd_web_def demo_web_def url_Hostname_def Let_def dot_segment_def
        strings_EqualFold_def is_ascii_def equal_fold_ascii_def)
  have r: "validateRedirectURI demo_extern demo_doc_web ''https://h/cb'' = None"
    by (simp add: validateRedirectURI_def demo_doc_web_def demo_cimd_web_def strings_ToLower_def is_ascii_def lower_byte_def)
  have h: "hostOf demo_doc_web ''https://h/x'' = ''h''" by (simp add: hostOf_def demo_doc_web_def demo_cimd_web_def)
  have d: "validateCIMDDocument demo_extern demo_doc_web ''https://h/x'' demo_document = Inr demo_doc_client"
    by (simp add: validateCIMDDocument_def demo_document_def document_auth_def Let_def List.map_filter_def r demo_doc_client_def
        strings_TrimSpace_visible visible_def h)
  have t: "cimdFetcher_cacheTTL demo_extern NewCIMDFetcher [] = (5 * minute, True)"
    by (simp add: cimdFetcher_cacheTTL_def strings_ToLower_def is_ascii_def NewCIMDFetcher_def Let_def max_age_part_def
        strings_TrimSpace_visible visible_def minute_def second_def hour_def)
  have m: "cf_MaxBytes NewCIMDFetcher = 5120" "cf_cache NewCIMDFetcher = []" by (simp_all add: NewCIMDFetcher_def)
  have g: "wb_Get demo_doc_web z n = Inr \<lparr>ha_Status = 200, ha_Body = Some ''{}'', ha_CacheControl = []\<rparr>"
    "wb_CIMD demo_doc_web z = Some demo_document" for z n by (simp_all add: demo_doc_web_def)
  show ?thesis
    unfolding cimdFetcher_Resolve_def u Let_def sum.case g m
    by (simp add: g d t m demo_doc_fetcher_def cache_room_def)
qed

theorem metadata_fresh_witness:
  "cimdFetcher_Resolve demo_extern demo_doc_web 7 ''https://h/x'' demo_doc_fetcher = (Inr demo_doc_client, demo_doc_fetcher) \<and>
    sound_client demo_extern demo_doc_web ''https://h/x'' demo_doc_client \<and>
    (\<exists>t \<le> 7. published demo_extern demo_doc_web 5120 ''https://h/x'' t demo_doc_client \<and> (t = 7 \<or> 7 < t + 24 * hour))"
proof -
  have "cimd_reach demo_extern demo_doc_web NewCIMDFetcher 5 NewCIMDFetcher"
    by (rule cimd_reach.start) (simp_all add: NewCIMDFetcher_def)
  then have "cimd_reach demo_extern demo_doc_web NewCIMDFetcher 5 demo_doc_fetcher" by (rule cimd_reach.resolve [OF _ demo_doc_fetch])
  then have reach: "cimd_reach demo_extern demo_doc_web NewCIMDFetcher 7 demo_doc_fetcher" by (rule cimd_reach.wait) simp
  have h: "cimdFetcher_Resolve demo_extern demo_doc_web 7 ''https://h/x'' demo_doc_fetcher = (Inr demo_doc_client, demo_doc_fetcher)"
    by (simp add: cimdFetcher_Resolve_def validateCIMDURL_def demo_doc_web_def demo_cimd_web_def demo_web_def url_Hostname_def
        Let_def dot_segment_def strings_EqualFold_def is_ascii_def equal_fold_ascii_def demo_doc_fetcher_def minute_def second_def)
  have c: "cf_MaxBytes NewCIMDFetcher = 5120" "cf_MaxTTL NewCIMDFetcher = 24 * hour" by (simp_all add: NewCIMDFetcher_def)
  from metadata_fresh [OF reach, THEN conjunct2, THEN conjunct2, THEN conjunct1, rule_format, OF h]
  show ?thesis unfolding c using h by blast
qed

end
