(* ===== verification/OAuth_Keys.thy ===== *)
theory OAuth_Keys
  imports OAuth_CIMD
begin

text \<open>
  The JWK sets that \<open>identity/jwks.go\<close> publishes against the reader of \<open>oauth/client_assertion.go\<close>.
  The JSON text in between is a parameter: \<open>raw_jwk\<close> names the members that survive it.
\<close>

definition raw_jwk :: "jwk \<Rightarrow> rawJWK" where
  "raw_jwk k = \<lparr>rj_Kty = jk_Kty k, rj_Kid = jk_Kid k, rj_Use = jk_Use k, rj_Alg = jk_Alg k, rj_N = jk_N k, rj_E = jk_E k,
     rj_Crv = jk_Crv k, rj_X = jk_X k, rj_Y = jk_Y k, rj_D = [], rj_P = []\<rparr>"

lemma b64_Encode [simp]: "b64 (base64_Encode RawURLEncoding s) = s"
proof -
  have "set (base64_Encode RawURLEncoding s) \<subseteq> set (b64_alpha RawURLEncoding)"
    using enc64_chars_raw [OF alpha_props(1) [of RawURLEncoding] bytes_lt_256, of s] by (simp add: base64_Encode_def)
  then have "CHR ''='' \<notin> set (rev (base64_Encode RawURLEncoding s))" using alpha_props(3) [of RawURLEncoding] by auto
  then have "dropWhile (\<lambda>c. c = CHR ''='') (rev (base64_Encode RawURLEncoding s)) = rev (base64_Encode RawURLEncoding s)"
    by (cases "rev (base64_Encode RawURLEncoding s)") auto
  then show ?thesis by (simp add: b64_def)
qed

lemma big_Bytes_ne: "0 < n \<Longrightarrow> big_Bytes n \<noteq> []"
  by (subst big_Bytes.simps) simp

lemma rsaFromJWK_rsa_jwk:
  assumes "2 ^ 2047 \<le> rsa_N pub" "3 \<le> rsa_E pub" "rsa_E pub < 2 ^ 32" "odd (rsa_E pub)"
  shows "rsaFromJWK (raw_jwk (rsa_jwk kid pub)) = Some (RSAPublic pub)"
proof -
  from rsa_jwk_decodes [of pub kid] assms obtain e where "b64 (jk_E (rsa_jwk kid pub)) = e" "int (be_val e) = rsa_E pub"
    "0 < length e" "length e \<le> 4" unfolding rsa_jwk_def by auto
  moreover have "0 < rsa_N pub" by (rule less_le_trans [OF _ assms(1)]) simp
  moreover have "b64 (jk_N (rsa_jwk kid pub)) = big_Bytes (rsa_N pub)" by (simp add: rsa_jwk_def)
  ultimately show ?thesis using assms big_Bytes_ne [of "rsa_N pub"]
    by (simp add: rsaFromJWK_def raw_jwk_def Let_def even_iff_mod_2_eq_zero not_less)
qed

lemma ecFromJWK_ecJWK:
  assumes "ec_ECDH pub = Some raw" "length raw = 65" "raw ! 0 = CHR 0x04" "wb_P256 b raw = Some pub"
  shows "\<exists>j. ecJWK kid pub = Some j \<and> jk_Kty j = ''EC'' \<and> jk_Use j = ''sig'' \<and> jk_Kid j = kid \<and> jk_Alg j = ''ES256'' \<and>
    ecFromJWK b (raw_jwk j) = Some (ECDSAPublic pub)"
proof -
  let ?p = "take 32 (drop 1 raw)" and ?q = "drop 33 raw"
  have l: "length ?p = 32" "length ?q = 32" using assms(2) by simp_all
  have "raw = CHR 0x04 # ?p @ ?q"
    using assms(2,3) by (cases raw) (simp_all add: append_take_drop_id [of 32, symmetric] drop_Cons')
  then show ?thesis using assms l by (simp add: ecJWK_def ecFromJWK_def raw_jwk_def Let_def pad32_def)
qed

lemma usable_keys_all:
  assumes "\<forall>k \<in> set ks. rj_D k = [] \<and> rj_P k = [] \<and> rj_Use k = ''sig'' \<and>
    (rj_Kty k = ''RSA'' \<and> rsaFromJWK k = Some (key k) \<or> rj_Kty k = ''EC'' \<and> ecFromJWK b k = Some (key k))"
  shows "usable_keys b ks = Inr (map (\<lambda>k. \<lparr>ck_kid = rj_Kid k, ck_alg = rj_Alg k, ck_key = key k\<rparr>) ks)"
  using assms by (induction ks) (auto simp: Let_def)

text \<open>A ring whose keys the reader supports: RSA of 2048 bits or more with an odd exponent from 3 on,
  or a P-256 point, which the curve package reads back from its own encoding.\<close>

definition rsa_fit :: "rsa_public_key \<Rightarrow> bool" where
  "rsa_fit pub \<longleftrightarrow> 2 ^ 2047 \<le> rsa_N pub \<and> 3 \<le> rsa_E pub \<and> rsa_E pub < 2 ^ 32 \<and> odd (rsa_E pub)"

definition p256_fit :: "web \<Rightarrow> ecdsa_public_key \<Rightarrow> bool" where
  "p256_fit b pub = (case ec_ECDH pub of None \<Rightarrow> False
     | Some raw \<Rightarrow> length raw = 65 \<and> raw ! 0 = CHR 0x04 \<and> wb_P256 b raw = Some pub)"

lemma rsa_set_parses:
  assumes "wb_JWKS b data = Some (map raw_jwk (RSAKeyring_JWKS r))" "rk_keys r \<noteq> []"
    "\<forall>(kid, key) \<in> set (rk_keys r). rsa_fit (rsa_PublicKey key)"
  shows "parseJWKS b data = Inr (map (\<lambda>(kid, key). \<lparr>ck_kid = kid, ck_alg = ''RS256'', ck_key = RSAPublic (rsa_PublicKey key)\<rparr>) (rk_keys r))"
proof -
  let ?ks = "map raw_jwk (RSAKeyring_JWKS r)"
  have "\<forall>k \<in> set ?ks. rj_D k = [] \<and> rj_P k = [] \<and> rj_Use k = ''sig'' \<and> (rj_Kty k = ''RSA'' \<and> rsaFromJWK k = Some (the (rsaFromJWK k)) \<or>
      rj_Kty k = ''EC'' \<and> ecFromJWK b k = Some (the (rsaFromJWK k)))"
    using assms(3) rsaFromJWK_rsa_jwk by (fastforce simp: RSAKeyring_JWKS_def rsa_fit_def raw_jwk_def rsa_jwk_def)
  from usable_keys_all [OF this] have "usable_keys b ?ks = Inr (map (\<lambda>k. \<lparr>ck_kid = rj_Kid k, ck_alg = rj_Alg k,
      ck_key = the (rsaFromJWK k)\<rparr>) ?ks)" .
  also have "map (\<lambda>k. \<lparr>ck_kid = rj_Kid k, ck_alg = rj_Alg k, ck_key = the (rsaFromJWK k)\<rparr>) ?ks =
      map (\<lambda>(kid, key). \<lparr>ck_kid = kid, ck_alg = ''RS256'', ck_key = RSAPublic (rsa_PublicKey key)\<rparr>) (rk_keys r)"
    using assms(3) rsaFromJWK_rsa_jwk by (fastforce simp: RSAKeyring_JWKS_def rsa_fit_def raw_jwk_def rsa_jwk_def)
  finally show ?thesis using assms(1,2) by (simp add: parseJWKS_def)
qed

lemma ec_ring_published:
  assumes "\<forall>(kid, key) \<in> set ks. p256_fit b (ec_PublicKey key)"
  shows "usable_keys b (map raw_jwk (List.map_filter (\<lambda>(kid, key). ecJWK kid (ec_PublicKey key)) ks)) =
    Inr (map (\<lambda>(kid, key). \<lparr>ck_kid = kid, ck_alg = ''ES256'', ck_key = ECDSAPublic (ec_PublicKey key)\<rparr>) ks)"
  using assms
proof (induction ks)
  case (Cons a ks)
  obtain kid key where a: "a = (kid, key)" by fastforce
  with Cons.prems obtain raw where "ec_ECDH (ec_PublicKey key) = Some raw" "length raw = 65" "raw ! 0 = CHR 0x04"
    "wb_P256 b raw = Some (ec_PublicKey key)" by (auto simp: p256_fit_def split: option.splits)
  from ecFromJWK_ecJWK [OF this, of kid] obtain j where "ecJWK kid (ec_PublicKey key) = Some j"
    "jk_Kty j = ''EC''" "jk_Use j = ''sig''" "jk_Kid j = kid" "jk_Alg j = ''ES256''"
    "ecFromJWK b (raw_jwk j) = Some (ECDSAPublic (ec_PublicKey key))" by blast
  with Cons a show ?case by (simp add: List.map_filter_def raw_jwk_def)
qed (simp add: List.map_filter_def)

lemma filter_dkeys: "dkeys m \<Longrightarrow> map_of m k = Some v \<Longrightarrow> filter (\<lambda>p. fst p = k) m = [(k, v)]"
  by (induction m) (force split: if_splits simp: filter_empty_conv)+

lemma pick_ring:
  assumes "dkeys m" "map_of m kid = Some key" "kid \<noteq> []" "\<And>i key. clientKey_fits \<lparr>ck_kid = i, ck_alg = a, ck_key = pub key\<rparr> a"
  shows "pick_keys a kid (map (\<lambda>(kid, key). \<lparr>ck_kid = kid, ck_alg = a, ck_key = pub key\<rparr>) m) = [pub key]"
  using filter_dkeys [OF assms(1,2)] assms(3,4) by (simp add: pick_keys_def filter_map comp_def case_prod_unfold)

text \<open>(C33) Published key sets read back. The JWK set of a keyring, RSA or ECDSA, parses to exactly the
  public halves of its keys, each under its key ID and its algorithm; and for a token signed with
  the ring's active key, the reader picks that key's public half and no other.\<close>

theorem jwks_roundtrip:
  assumes "wb_JWKS b rsa_text = Some (map raw_jwk (RSAKeyring_JWKS r))" and "dkeys (rk_keys r)"
    and "\<forall>(kid, key) \<in> set (rk_keys r). rsa_fit (rsa_PublicKey key)"
    and "RSAKeyring_SignKey r = (kid, RSAPrivate key)" and "kid \<noteq> []"
    and "wb_JWKS b ec_text = Some (map raw_jwk (ECDSAKeyring_JWKS q))" and "dkeys (ek_keys q)"
    and "\<forall>(kid, key) \<in> set (ek_keys q). p256_fit b (ec_PublicKey key)"
    and "ECDSAKeyring_SignKey q = (kid', ECDSAPrivate key')" and "kid' \<noteq> []"
  shows "\<exists>rsa ec. parseJWKS b rsa_text = Inr rsa \<and> parseJWKS b ec_text = Inr ec \<and>
    rsa = map (\<lambda>(kid, key). \<lparr>ck_kid = kid, ck_alg = ''RS256'', ck_key = RSAPublic (rsa_PublicKey key)\<rparr>) (rk_keys r) \<and>
    ec = map (\<lambda>(kid, key). \<lparr>ck_kid = kid, ck_alg = ''ES256'', ck_key = ECDSAPublic (ec_PublicKey key)\<rparr>) (ek_keys q) \<and>
    pick_keys ''RS256'' kid rsa = [RSAPublic (rsa_PublicKey key)] \<and>
    pick_keys ''ES256'' kid' ec = [ECDSAPublic (ec_PublicKey key')]"
proof -
  have k: "map_of (rk_keys r) kid = Some key" "map_of (ek_keys q) kid' = Some key'"
    using assms(4,9) by (auto simp: RSAKeyring_SignKey_def ECDSAKeyring_SignKey_def split: option.splits)
  then have ne: "rk_keys r \<noteq> []" "ek_keys q \<noteq> []" by auto
  have "parseJWKS b ec_text = Inr (map (\<lambda>(kid, key). \<lparr>ck_kid = kid, ck_alg = ''ES256'', ck_key = ECDSAPublic (ec_PublicKey key)\<rparr>) (ek_keys q))"
    using ec_ring_published [OF assms(8)] assms(6) ne(2) by (simp add: parseJWKS_def ECDSAKeyring_JWKS_def)
  moreover note rsa_set_parses [OF assms(1) ne(1) assms(3)]
  moreover have "pick_keys ''RS256'' kid (map (\<lambda>(kid, key). \<lparr>ck_kid = kid, ck_alg = ''RS256'', ck_key = RSAPublic (rsa_PublicKey key)\<rparr>) (rk_keys r)) =
      [RSAPublic (rsa_PublicKey key)]"
    by (rule pick_ring [OF assms(2) k(1) assms(5), of _ "\<lambda>key. RSAPublic (rsa_PublicKey key)"]) (simp add: clientKey_fits_def)
  moreover have "pick_keys ''ES256'' kid' (map (\<lambda>(kid, key). \<lparr>ck_kid = kid, ck_alg = ''ES256'', ck_key = ECDSAPublic (ec_PublicKey key)\<rparr>) (ek_keys q)) =
      [ECDSAPublic (ec_PublicKey key')]"
    by (rule pick_ring [OF assms(7) k(2) assms(10), of _ "\<lambda>key. ECDSAPublic (ec_PublicKey key)"]) (simp add: clientKey_fits_def)
  ultimately show ?thesis by blast
qed

subsection \<open>Two concrete rings\<close>

definition demo_rsa_ring :: rsa_keyring where
  "demo_rsa_ring = NewRSAKeyring ''k'' \<lparr>rsa_PublicKey = \<lparr>rsa_N = 2 ^ 2047, rsa_E = 65537\<rparr>, rsa_D = 1\<rparr>"

definition demo_ec_ring :: ecdsa_keyring where
  "demo_ec_ring = NewECDSAKeyring ''e'' \<lparr>ec_PublicKey = \<lparr>ec_ECDH = Some (CHR 0x04 # replicate 64 (CHR 0x01))\<rparr>, ec_D = 1\<rparr>"

definition demo_key_web :: web where
  "demo_key_web = demo_web\<lparr>wb_P256 := (\<lambda>raw. Some \<lparr>ec_ECDH = Some raw\<rparr>),
     wb_JWKS := (\<lambda>d. Some (map raw_jwk (if d = ''r'' then RSAKeyring_JWKS demo_rsa_ring else ECDSAKeyring_JWKS demo_ec_ring)))\<rparr>"

theorem jwks_roundtrip_witness:
  "\<exists>rsa ec. parseJWKS demo_key_web ''r'' = Inr rsa \<and> parseJWKS demo_key_web ''e'' = Inr ec \<and>
    map ck_kid rsa = [''k''] \<and> map ck_kid ec = [''e''] \<and>
    pick_keys ''RS256'' ''k'' rsa = [RSAPublic \<lparr>rsa_N = 2 ^ 2047, rsa_E = 65537\<rparr>] \<and> length (pick_keys ''ES256'' ''e'' ec) = 1"
proof -
  let ?r = "\<lparr>rsa_PublicKey = \<lparr>rsa_N = 2 ^ 2047, rsa_E = 65537\<rparr>, rsa_D = 1\<rparr>"
  let ?e = "\<lparr>ec_PublicKey = \<lparr>ec_ECDH = Some (CHR 0x04 # replicate 64 (CHR 0x01))\<rparr>, ec_D = 1\<rparr>"
  have r: "rk_keys demo_rsa_ring = [(''k'', ?r)]" "rk_active demo_rsa_ring = ''k''" by (simp_all add: demo_rsa_ring_def NewRSAKeyring_def)
  have e: "ek_keys demo_ec_ring = [(''e'', ?e)]" "ek_active demo_ec_ring = ''e''" by (simp_all add: demo_ec_ring_def NewECDSAKeyring_def)
  have w: "wb_JWKS demo_key_web ''r'' = Some (map raw_jwk (RSAKeyring_JWKS demo_rsa_ring))"
    "wb_JWKS demo_key_web ''e'' = Some (map raw_jwk (ECDSAKeyring_JWKS demo_ec_ring))"
    "wb_P256 demo_key_web z = Some \<lparr>ec_ECDH = Some z\<rparr>" for z by (simp_all add: demo_key_web_def)
  have f: "rsa_fit \<lparr>rsa_N = 2 ^ 2047, rsa_E = 65537\<rparr>" unfolding rsa_fit_def by simp
  have g: "p256_fit demo_key_web (ec_PublicKey ?e)" unfolding p256_fit_def by (simp add: w)
  have "RSAKeyring_SignKey demo_rsa_ring = (''k'', RSAPrivate ?r)" "ECDSAKeyring_SignKey demo_ec_ring = (''e'', ECDSAPrivate ?e)"
    by (simp_all add: RSAKeyring_SignKey_def ECDSAKeyring_SignKey_def r e)
  from jwks_roundtrip [OF w(1) _ _ this(1) _ w(2) _ _ this(2)] f g
  show ?thesis unfolding r e by fastforce
qed

end
