(* ===== verification/OAuth_Dial.thy ===== *)
theory OAuth_Dial
  imports OAuth_Client
begin

text \<open>
  The address filter of \<open>oauth/cimd.go\<close>: the prefixes of \<open>blockedPrefixes\<close>, compared bit by bit in the
  code, against a table of address ranges with their first and last address.
\<close>

section \<open>Reference table\<close>

definition quad :: "nat \<Rightarrow> nat \<Rightarrow> nat \<Rightarrow> nat \<Rightarrow> nat" where
  "quad a b c d = ((a * 256 + b) * 256 + c) * 256 + d"

definition special4 :: "(nat \<times> nat) list" where
  "special4 =
     [(quad 0 0 0 0, quad 0 255 255 255), (quad 10 0 0 0, quad 10 255 255 255), (quad 100 64 0 0, quad 100 127 255 255),
      (quad 127 0 0 0, quad 127 255 255 255), (quad 169 254 0 0, quad 169 254 255 255),
      (quad 172 16 0 0, quad 172 31 255 255), (quad 192 0 0 0, quad 192 0 0 255), (quad 192 0 2 0, quad 192 0 2 255),
      (quad 192 88 99 0, quad 192 88 99 255), (quad 192 168 0 0, quad 192 168 255 255),
      (quad 198 18 0 0, quad 198 19 255 255), (quad 198 51 100 0, quad 198 51 100 255),
      (quad 203 0 113 0, quad 203 0 113 255), (quad 224 0 0 0, quad 239 255 255 255),
      (quad 240 0 0 0, quad 255 255 255 255)]"

text \<open>A block of IPv6 addresses, by its leading 64 bits and the first and last of the rest.\<close>

definition top64 :: "nat \<Rightarrow> nat \<Rightarrow> nat \<Rightarrow> nat \<Rightarrow> nat" where
  "top64 a b c d = ((a * 65536 + b) * 65536 + c) * 65536 + d"

definition block6 :: "nat \<Rightarrow> nat \<Rightarrow> nat \<times> nat" where
  "block6 lo hi = (lo * 2 ^ 64, hi * 2 ^ 64 + (2 ^ 64 - 1))"

definition special6 :: "(nat \<times> nat) list" where
  "special6 =
     [(0, 0), (1, 1), (top64 0x64 0xff9b 0 0 * 2 ^ 64, top64 0x64 0xff9b 0 0 * 2 ^ 64 + (2 ^ 32 - 1)),
      block6 (top64 0x64 0xff9b 1 0) (top64 0x64 0xff9b 1 0xffff), block6 (top64 0x100 0 0 0) (top64 0x100 0 0 0),
      block6 (top64 0x2001 0 0 0) (top64 0x2001 0x1ff 0xffff 0xffff),
      block6 (top64 0x2001 0xdb8 0 0) (top64 0x2001 0xdb8 0xffff 0xffff),
      block6 (top64 0x2002 0 0 0) (top64 0x2002 0xffff 0xffff 0xffff),
      block6 (top64 0xfc00 0 0 0) (top64 0xfdff 0xffff 0xffff 0xffff),
      block6 (top64 0xfe80 0 0 0) (top64 0xfebf 0xffff 0xffff 0xffff),
      block6 (top64 0xff00 0 0 0) (top64 0xffff 0xffff 0xffff 0xffff)]"

definition within :: "(nat \<times> nat) list \<Rightarrow> nat \<Rightarrow> bool" where
  "within table n \<longleftrightarrow> list_ex (\<lambda>(lo, hi). lo \<le> n \<and> n \<le> hi) table"

section \<open>Prefixes are ranges\<close>

lemma div_eq_range: "0 < m \<Longrightarrow> (n div m = k) = (k * m \<le> n \<and> n < Suc k * m)" for m n k :: nat
  by (metis dividend_less_div_times div_nat_eqI div_times_less_eq_dividend mult.commute mult_Suc add.commute)

lemma drop_bit_range:
  fixes a :: "'a::len word"
  assumes "numeral k < (2 :: nat) ^ LENGTH('a)"
  shows "drop_bit n a = numeral k \<longleftrightarrow> numeral k * 2 ^ n \<le> unat a \<and> unat a < Suc (numeral k) * 2 ^ n"
proof -
  have "unat (numeral k :: 'a word) = numeral k" using assms by (simp add: unsigned_numeral take_bit_nat_eq_self)
  then have "drop_bit n a = numeral k \<longleftrightarrow> unat a div 2 ^ n = numeral k"
    by (metis drop_bit_eq_div unat_drop_bit_eq unsigned_word_eqI)
  then show ?thesis by (simp add: div_eq_range)
qed

lemma drop_bit_zero_range: "drop_bit n a = 0 \<longleftrightarrow> unat a < 2 ^ n" for a :: "'a::len word"
proof -
  have "unat (drop_bit n a) = unat a div 2 ^ n" by (metis unat_drop_bit_eq drop_bit_eq_div)
  then have "drop_bit n a = 0 \<longleftrightarrow> unat a div 2 ^ n = 0" by (metis unsigned_0 unsigned_word_eqI)
  then show ?thesis by (simp add: div_eq_0_iff)
qed

lemma within_less: "within table n \<longleftrightarrow> list_ex (\<lambda>(lo, hi). lo \<le> n \<and> n < Suc hi) table"
  by (simp add: within_def less_Suc_eq_le)

lemma blocked4: "isBlockedIP (IPv4 a) \<longleftrightarrow> within special4 (unat a)"
proof -
  have "unat a < 4294967296" using unsigned_less [of a] by simp
  then show ?thesis
    by (simp add: isBlockedIP_def blockedPrefixes_def ip4_def drop_bit_range drop_bit_zero_range within_less special4_def quad_def)
qed

lemma blocked6:
  assumes "drop_bit 32 a \<noteq> 0xffff"
  shows "isBlockedIP (IPv6 a []) \<longleftrightarrow> within special6 (unat a)"
proof -
  have lt: "unat a < 340282366920938463463374607431768211456" using unsigned_less [of a] by simp
  have "a = 0 \<longleftrightarrow> unat a = 0" "a = 1 \<longleftrightarrow> unat a = 1" by (metis unsigned_0 unsigned_1 unsigned_word_eqI)+
  then have eq: "a = 0 \<longleftrightarrow> unat a < Suc 0" "a = 1 \<longleftrightarrow> Suc 0 \<le> unat a \<and> unat a < Suc (Suc 0)" by auto
  have m: "ip_Unmap (IPv6 a []) = IPv6 a []" using assms by simp
  have f: "(drop_bit 32 a = 65535) = False" using assms by simp
  show ?thesis
    unfolding isBlockedIP_def m Let_def
    by (simp add: blockedPrefixes_def ip6_def f eq) (use lt in \<open>simp add: drop_bit_range within_less special6_def top64_def block6_def\<close>)
qed

lemma mapped_blocked:
  assumes "drop_bit 32 a = 0xffff"
  shows "isBlockedIP (IPv6 a z) = isBlockedIP (IPv4 (ucast a))"
proof -
  have "ip_Unmap (IPv6 a z) = IPv4 (ucast a)" using assms by simp
  then show ?thesis unfolding isBlockedIP_def by simp
qed

text \<open>An address with a zone is inside no prefix.\<close>

lemma Contains_zoned: "z \<noteq> [] \<Longrightarrow> \<not> prefix_Contains p (IPv6 a z)"
  by (cases p) simp_all

lemma zoned_never_blocked:
  assumes "drop_bit 32 a \<noteq> 0xffff" "z \<noteq> []"
  shows "\<not> isBlockedIP (IPv6 a z)"
proof -
  have "ip_Unmap (IPv6 a z) = IPv6 a z" using assms(1) by simp
  then show ?thesis using Contains_zoned [OF assms(2)] unfolding isBlockedIP_def by (simp add: list_ex_iff)
qed

text \<open>(C34) The fetcher dials exactly the addresses outside the special-use ranges. The bitwise prefix
  test agrees with the table of first and last addresses, for IPv4, for IPv4 addresses written as
  IPv6 (with or without a zone), and for every other IPv6 address without a zone; an address with
  a zone passes the test whatever its range, link-local ones included. A target whose host is not
  a literal address is refused.\<close>

theorem address_filter:
  "isBlockedIP (IPv4 v) = within special4 (unat v) \<and>
   isBlockedIP (IPv6 a z) = (if drop_bit 32 a = 0xffff then within special4 (unat (ucast a :: 32 word))
     else z = [] \<and> within special6 (unat a)) \<and>
   (dialControl parse quoted shown target = None) =
     (\<exists>host addr. target = Inr host \<and> parse host = Some addr \<and> \<not> isBlockedIP addr)"
proof -
  have "isBlockedIP (IPv6 a z) = (z = [] \<and> within special6 (unat a))" if "drop_bit 32 a \<noteq> 0xffff"
    using blocked6 [OF that] zoned_never_blocked [OF that, of z] by (cases "z = []") simp_all
  moreover have "(dialControl parse quoted shown target = None) =
     (\<exists>host addr. target = Inr host \<and> parse host = Some addr \<and> \<not> isBlockedIP addr)"
    by (auto simp: dialControl_def split: sum.splits option.splits)
  ultimately show ?thesis using blocked4 [of v] mapped_blocked [of a z] blocked4 [of "ucast a"] by presburger
qed

end
