(* ===== verification/Api_Key.thy ===== *)
theory Api_Key
  imports User_Manager
begin

text \<open>
  \<open>APIKeyManagerOf\<close> (\<open>identity/apikey.go\<close>): minting, importing, verifying, revoking and listing
  opaque API keys, the contract of the key store and what the manager promises on top of it.
\<close>

section \<open>The manager\<close>

definition sha256Hex :: "extern \<Rightarrow> string \<Rightarrow> string" where
  "sha256Hex x plaintext = hex_Encode (x_sha256 x plaintext)"

record api_key_options =
  ko_Name :: string
  ko_ExpiresAt :: "time option"
  ko_Scopes :: "string list"

record 's api_key_manager =
  km_Store :: "'s api_key_store"
  km_Users :: "'s user_manager"
  km_Hasher :: "string \<Rightarrow> string"
  km_Prefix :: string
  km_PrefixLen :: int

definition NewAPIKeyManager ::
  "extern \<Rightarrow> 's api_key_store \<Rightarrow> 's user_manager \<Rightarrow> 's api_key_manager" where
  "NewAPIKeyManager x store users = \<lparr>km_Store = store, km_Users = users,
     km_Hasher = sha256Hex x, km_Prefix = [], km_PrefixLen = 12\<rparr>"

definition APIKeyManager_WithAPIKeyHasher ::
  "(string \<Rightarrow> string) option \<Rightarrow> 's api_key_manager \<Rightarrow> 's api_key_manager" where
  "APIKeyManager_WithAPIKeyHasher h m = (case h of None \<Rightarrow> m | Some h \<Rightarrow> m\<lparr>km_Hasher := h\<rparr>)"

definition APIKeyManager_WithAPIKeyPrefix :: "string \<Rightarrow> 's api_key_manager \<Rightarrow> 's api_key_manager" where
  "APIKeyManager_WithAPIKeyPrefix p m = m\<lparr>km_Prefix := p\<rparr>"

definition displayPrefix :: "string \<Rightarrow> int \<Rightarrow> string" where
  "displayPrefix secret n =
     (let n = (if n \<le> 0 then 8 else n);
          n = (if n > int (length secret) then int (length secret) else n)
      in take (nat n) secret)"

definition APIKeyManager_CreateAPIKey ::
  "extern \<Rightarrow> 's api_key_manager \<Rightarrow> time \<Rightarrow> user \<Rightarrow> api_key_options \<Rightarrow> 's world
     \<Rightarrow> (go_error + string \<times> api_key) \<times> 's world" where
  "APIKeyManager_CreateAPIKey x m now u opts w =
     (let (tok, w) = draw (randomToken x) w;
          secret = km_Prefix m @ tok;
          (i, w) = draw (uuid_NewString x) w;
          k = \<lparr>k_ID = i, k_UserID = u_ID u, k_Name = ko_Name opts,
               k_Prefix = displayPrefix secret (km_PrefixLen m), k_KeyHash = km_Hasher m secret,
               k_Scopes = ko_Scopes opts, k_ExpiresAt = ko_ExpiresAt opts, k_LastUsedAt = None,
               k_RevokedAt = None, k_CreatedAt = now\<rparr>
      in (case ks_CreateAPIKey (km_Store m) k w of
            (Some e, w) \<Rightarrow> (Inl e, w)
          | (None, w) \<Rightarrow> (Inr (secret, k), w)))"

definition APIKeyManager_ImportAPIKey ::
  "extern \<Rightarrow> 's api_key_manager \<Rightarrow> time \<Rightarrow> string \<Rightarrow> string \<Rightarrow> string \<Rightarrow> string \<Rightarrow> time option
     \<Rightarrow> string list \<Rightarrow> 's world \<Rightarrow> (go_error + api_key) \<times> 's world" where
  "APIKeyManager_ImportAPIKey x m now userID name pre keyHash expiresAt scopes w =
     (let (i, w) = draw (uuid_NewString x) w;
          k = \<lparr>k_ID = i, k_UserID = userID, k_Name = name, k_Prefix = pre, k_KeyHash = keyHash,
               k_Scopes = scopes, k_ExpiresAt = expiresAt, k_LastUsedAt = None,
               k_RevokedAt = None, k_CreatedAt = now\<rparr>
      in (case ks_CreateAPIKey (km_Store m) k w of
            (Some e, w) \<Rightarrow> (Inl e, w)
          | (None, w) \<Rightarrow> (Inr k, w)))"

text \<open>A failure to record the last use is only logged.\<close>

definition APIKeyManager_VerifyAPIKey ::
  "'s api_key_manager \<Rightarrow> time \<Rightarrow> string \<Rightarrow> 's world \<Rightarrow> (go_error + user \<times> api_key) \<times> 's world" where
  "APIKeyManager_VerifyAPIKey m now plaintext w =
     (if plaintext = [] then (Inl ErrInvalidAPIKey, w)
      else
        (case ks_GetActiveAPIKeyByHash (km_Store m) now (km_Hasher m plaintext) w of
           Inl e \<Rightarrow> if e = ErrNotFound then (Inl ErrInvalidAPIKey, w) else (Inl e, w)
         | Inr k \<Rightarrow>
             if k_RevokedAt k \<noteq> None \<or> (case k_ExpiresAt k of None \<Rightarrow> False | Some e \<Rightarrow> \<not> e > now)
             then (Inl ErrInvalidAPIKey, w)
             else
               (case UserManager_FindByID (km_Users m) (k_UserID k) w of
                  Inl e \<Rightarrow> if e = ErrNotFound then (Inl ErrInvalidAPIKey, w) else (Inl e, w)
                | Inr u \<Rightarrow>
                    if UserManager_IsLockedOut now u then (Inl ErrInvalidAPIKey, w)
                    else
                      let (_, w) = ks_TouchAPIKeyLastUsed (km_Store m) now (k_ID k) w
                      in (Inr (u, k), w))))"

definition APIKeyManager_RevokeAPIKey ::
  "'s api_key_manager \<Rightarrow> time \<Rightarrow> string \<Rightarrow> 's world \<Rightarrow> go_error option \<times> 's world" where
  "APIKeyManager_RevokeAPIKey m now i w = ks_RevokeAPIKey (km_Store m) now i w"

definition APIKeyManager_ListAPIKeys ::
  "'s api_key_manager \<Rightarrow> user \<Rightarrow> 's world \<Rightarrow> go_error + api_key list" where
  "APIKeyManager_ListAPIKeys m u w = ks_ListAPIKeysByUser (km_Store m) (u_ID u) w"

section \<open>The contract of the key store\<close>

text \<open>
  \<open>keys\<close> abstracts the store to the map from IDs to keys. Hashes are unique; the lookup sees
  exactly the active keys; a revocation marks the row and a use only touches \<open>LastUsedAt\<close>.
\<close>

locale api_keys =
  fixes S :: "'s api_key_store" and inv :: "'s \<Rightarrow> bool" and keys :: "'s \<Rightarrow> string \<Rightarrow> api_key option"
  assumes hash_unique: "inv (db w) \<Longrightarrow> keys (db w) i = Some k \<Longrightarrow> keys (db w) j = Some k' \<Longrightarrow>
      k_KeyHash k = k_KeyHash k' \<Longrightarrow> i = j"
    and keys_ID: "inv (db w) \<Longrightarrow> keys (db w) i = Some k \<Longrightarrow> k_ID k = i"
    and GetActive_some: "inv (db w) \<Longrightarrow> ks_GetActiveAPIKeyByHash S now h w = Inr k \<longleftrightarrow>
      (\<exists>i. keys (db w) i = Some k) \<and> k_KeyHash k = h \<and> \<not> key_inactive now k"
    and GetActive_none: "inv (db w) \<Longrightarrow> ks_GetActiveAPIKeyByHash S now h w = Inl err \<Longrightarrow> err = ErrNotFound"
    and CreateAPIKey_effect: "inv (db w) \<Longrightarrow> ks_CreateAPIKey S k w = (e, w') \<Longrightarrow>
      inv (db w') \<and> tape w' = tape w \<and>
      keys (db w') = (if e = None then (keys (db w))(k_ID k \<mapsto> k) else keys (db w)) \<and>
      (e = None \<longrightarrow> (\<forall>i k'. keys (db w) i = Some k' \<longrightarrow> k_KeyHash k' \<noteq> k_KeyHash k))"
    and RevokeAPIKey_effect: "inv (db w) \<Longrightarrow> ks_RevokeAPIKey S now i w = (e, w') \<Longrightarrow>
      e = None \<and> inv (db w') \<and> tape w' = tape w \<and>
      keys (db w') = (keys (db w))(i := map_option (\<lambda>k. if k_RevokedAt k = None
        then k\<lparr>k_RevokedAt := Some now\<rparr> else k) (keys (db w) i))"
    and Touch_effect: "inv (db w) \<Longrightarrow> ks_TouchAPIKeyLastUsed S now i w = (e, w') \<Longrightarrow>
      inv (db w') \<and> tape w' = tape w \<and>
      keys (db w') = (keys (db w))(i := map_option (\<lambda>k. k\<lparr>k_LastUsedAt := Some now\<rparr>) (keys (db w) i))"

text \<open>The operations of the manager, as steps of a run.\<close>

inductive key_step :: "extern \<Rightarrow> 's api_key_manager \<Rightarrow> 's world \<Rightarrow> 's world \<Rightarrow> bool" for x m where
  step_CreateAPIKey: "APIKeyManager_CreateAPIKey x m now u opts w = (r, w') \<Longrightarrow> key_step x m w w'"
| step_ImportAPIKey: "APIKeyManager_ImportAPIKey x m now uid name pre h ex sc w = (r, w') \<Longrightarrow> key_step x m w w'"
| step_VerifyAPIKey: "APIKeyManager_VerifyAPIKey m now pl w = (r, w') \<Longrightarrow> key_step x m w w'"
| step_RevokeAPIKey: "APIKeyManager_RevokeAPIKey m now i w = (e, w') \<Longrightarrow> key_step x m w w'"

lemma key_inactive_mono: "key_inactive now k \<Longrightarrow> now \<le> now' \<Longrightarrow> key_inactive now' k"
  by (auto simp: key_inactive_def split: option.splits)

lemma key_inactive_touch [simp]: "key_inactive now (k\<lparr>k_LastUsedAt := l\<rparr>) = key_inactive now k"
  by (simp add: key_inactive_def)

context api_keys
begin

text \<open>A key with hash \<open>h\<close> is in the store and is dead at time \<open>now\<close>; all IDs were drawn before.\<close>

definition dead :: "extern \<Rightarrow> time \<Rightarrow> string \<Rightarrow> 's world \<Rightarrow> bool" where
  "dead x now h w \<longleftrightarrow> inv (db w) \<and> (\<forall>i \<in> dom (keys (db w)). issued x w i) \<and>
     (\<exists>i k. keys (db w) i = Some k \<and> k_KeyHash k = h \<and> key_inactive now k)"

lemma Create_dead:
  assumes "uuid_ok x" "dead x now h w" "tape w \<le> t"
    and "ks_CreateAPIKey S k (w\<lparr>tape := t + 16\<rparr>) = (e, w')" "k_ID k = x_uuid x t"
  shows "dead x now h w'"
proof -
  let ?w = "w\<lparr>tape := t + 16\<rparr>"
  have inv: "inv (db ?w)" and ids: "\<forall>i \<in> dom (keys (db w)). issued x w i"
    using assms(2) by (auto simp: dead_def)
  note eff = CreateAPIKey_effect [OF inv assms(4)]
  from assms(2) obtain i k0 where old: "keys (db w) i = Some k0" "k_KeyHash k0 = h" "key_inactive now k0"
    by (auto simp: dead_def)
  have "\<not> issued x w (k_ID k)"
    using fresh_not_issued [OF assms(1), of w "w\<lparr>tape := t + 16\<rparr>" "x_uuid x t"] assms(3,5)
    unfolding fresh_stamp_def by (metis less_add_same_cancel1 world.select_convs(2) world.surjective
        world.update_convs(2) zero_less_numeral)
  then have "k_ID k \<noteq> i" using old(1) ids by blast
  with old eff have "keys (db w') i = Some k0" by auto
  moreover have "issued x w' j" if "j \<in> dom (keys (db w'))" for j
  proof -
    have t: "tape w' = t + 16" using eff by simp
    have "j = k_ID k \<or> j \<in> dom (keys (db w))" using that eff by (auto split: if_splits)
    then show ?thesis
    proof
      assume "j = k_ID k"
      with assms(5) t show ?thesis by (auto simp: issued_def intro: exI [of _ t])
    next
      assume "j \<in> dom (keys (db w))"
      with ids have "issued x w j" by blast
      then show ?thesis by (rule issued_mono) (simp add: t trans_le_add1 assms(3))
    qed
  qed
  ultimately show ?thesis unfolding dead_def using eff old by blast
qed

lemma edit_dead:
  assumes "dead x now h w" "inv (db w')" "tape w' = tape w"
    and "keys (db w') = (keys (db w))(i := map_option f (keys (db w) i))"
    and "\<And>k. k_KeyHash (f k) = k_KeyHash k \<and> (key_inactive now k \<longrightarrow> key_inactive now (f k))"
  shows "dead x now h w'"
proof -
  from assms(1) obtain j k where old: "keys (db w) j = Some k" "k_KeyHash k = h" "key_inactive now k"
    by (auto simp: dead_def)
  have "\<exists>k'. keys (db w') j = Some k' \<and> k_KeyHash k' = h \<and> key_inactive now k'"
    using old assms(4,5) by (cases "j = i") auto
  moreover have "dom (keys (db w')) = dom (keys (db w))" using assms(4) by (auto split: if_splits)
  ultimately show ?thesis using assms(1-3) by (auto simp: dead_def issued_def)
qed

lemma Verify_dead_state:
  assumes "dead x now h w" "km_Store m = S" "APIKeyManager_VerifyAPIKey m t pl w = (r, w')"
  shows "dead x now h w'"
proof (cases "w' = w")
  case False
  with assms(2,3) obtain i e where "ks_TouchAPIKeyLastUsed S t i w = (e, w')"
    by (auto simp: APIKeyManager_VerifyAPIKey_def split: if_splits sum.splits option.splits prod.splits)
  with assms(1) Touch_effect [of w t i e w'] show ?thesis
    by (intro edit_dead [OF assms(1), of w' i "k_LastUsedAt_update (\<lambda>_. Some t)"]) (auto simp: dead_def)
qed (use assms in simp)

lemma step_dead:
  assumes "key_step x m w w'" "uuid_ok x" "km_Store m = S" "dead x now h w"
  shows "dead x now h w'"
  using assms(1)
proof cases
  case (step_CreateAPIKey n u opts r)
  then show ?thesis
    using Create_dead [OF assms(2,4), of "tape w + 32"] assms(3)
    by (force simp: APIKeyManager_CreateAPIKey_def Let_def split: prod.splits option.splits)
next
  case (step_ImportAPIKey n uid name pre h' ex sc r)
  then show ?thesis
    using Create_dead [OF assms(2,4), of "tape w"] assms(3)
    by (force simp: APIKeyManager_ImportAPIKey_def Let_def split: prod.splits option.splits)
next
  case (step_VerifyAPIKey n pl r)
  then show ?thesis using Verify_dead_state assms by blast
next
  case (step_RevokeAPIKey n i e)
  then show ?thesis
    using RevokeAPIKey_effect [of w n i e w'] assms(3,4)
    by (intro edit_dead [OF assms(4)]) (auto simp: dead_def APIKeyManager_RevokeAPIKey_def key_inactive_def)
qed

lemma steps_dead:
  assumes "(key_step x m)\<^sup>*\<^sup>* w w'" "uuid_ok x" "km_Store m = S" "dead x now h w"
  shows "dead x now h w'"
  using assms by (induction rule: rtranclp_induct) (auto intro: step_dead)

lemma dead_refused:
  assumes "dead x now (km_Hasher m pl) w" "km_Store m = S" "now \<le> now'"
  shows "APIKeyManager_VerifyAPIKey m now' pl w = (Inl ErrInvalidAPIKey, w)"
proof -
  from assms(1) obtain i k where inv: "inv (db w)"
    and old: "keys (db w) i = Some k" "k_KeyHash k = km_Hasher m pl" "key_inactive now k"
    by (auto simp: dead_def)
  have "ks_GetActiveAPIKeyByHash S now' (km_Hasher m pl) w \<noteq> Inr k'" for k'
    using GetActive_some [OF inv] hash_unique [OF inv old(1)] key_inactive_mono [OF old(3) assms(3)] old
    by (metis option.inject)
  then obtain e where "ks_GetActiveAPIKeyByHash S now' (km_Hasher m pl) w = Inl e"
    by (cases "ks_GetActiveAPIKeyByHash S now' (km_Hasher m pl) w") auto
  with GetActive_none [OF inv this] show ?thesis
    by (simp add: APIKeyManager_VerifyAPIKey_def assms(2))
qed

lemma Verify_iff:
  assumes "inv (db w)" "km_Store m = S"
  shows "(\<exists>w'. APIKeyManager_VerifyAPIKey m now pl w = (Inr (u, k), w')) \<longleftrightarrow>
    pl \<noteq> [] \<and> (\<exists>i. keys (db w) i = Some k) \<and> k_KeyHash k = km_Hasher m pl \<and> \<not> key_inactive now k \<and>
    UserManager_FindByID (km_Users m) (k_UserID k) w = Inr u \<and> \<not> UserManager_IsLockedOut now u"
proof -
  have "(\<exists>w'. APIKeyManager_VerifyAPIKey m now pl w = (Inr (u, k), w')) \<longleftrightarrow>
    pl \<noteq> [] \<and> ks_GetActiveAPIKeyByHash S now (km_Hasher m pl) w = Inr k \<and> \<not> key_inactive now k \<and>
    UserManager_FindByID (km_Users m) (k_UserID k) w = Inr u \<and> \<not> UserManager_IsLockedOut now u"
    by (auto simp: APIKeyManager_VerifyAPIKey_def assms(2) key_inactive_def
        split: sum.splits if_splits prod.splits option.splits)
  with GetActive_some [OF assms(1)] show ?thesis by blast
qed

lemma Create_then_Verify:
  assumes "inv (db w)" "km_Store m = S"
    and "APIKeyManager_CreateAPIKey x m now u opts w = (Inr (secret, k), w')"
    and "UserManager_FindByID (km_Users m) (u_ID u) w' = Inr u'" "\<not> UserManager_IsLockedOut now' u'"
    and "\<And>e. ko_ExpiresAt opts = Some e \<Longrightarrow> now' < e"
  shows "\<exists>w''. APIKeyManager_VerifyAPIKey m now' secret w' = (Inr (u', k), w'')"
proof -
  let ?w = "w\<lparr>tape := 48 + tape w\<rparr>"
  from assms(2,3) have c: "ks_CreateAPIKey S k ?w = (None, w')" and s: "secret \<noteq> []"
    and k: "k_KeyHash k = km_Hasher m secret" "k_UserID k = u_ID u" "\<not> key_inactive now' k"
    using assms(6)
    by (auto simp: APIKeyManager_CreateAPIKey_def Let_def key_inactive_def
        split: prod.splits option.splits)
  have "inv (db w')" "keys (db w') (k_ID k) = Some k"
    using CreateAPIKey_effect [OF _ c] assms(1) by auto
  then show ?thesis using Verify_iff [of w' m now' secret u' k] assms(2,4,5) s k by auto
qed

end

lemma mem_keys_row:
  assumes "mem_wf (db w)"
  shows "keyed k_ID (m_apiKeys (db w))" "inj_on k_KeyHash (snd ` set (m_apiKeys (db w)))"
  using assms by (auto simp: mem_wf_def api_keys_wf_def)

interpretation mem_keys: api_keys memstore_APIKeys mem_wf "\<lambda>s. map_of (m_apiKeys s)"
proof
  fix w w' :: "memstore world" and k k' :: api_key and i j h e and now :: time
  assume wf: "mem_wf (db w)"
  note rows = mem_keys_row [OF wf]
  note defs = memstore_APIKeys_def key_writes map_of_update_fun
  show row_ID: "map_of (m_apiKeys (db w)) i = Some k \<Longrightarrow> k_ID k = i" for i k using wf_row(3) [OF wf] .
  show uniq: "map_of (m_apiKeys (db w)) i = Some k \<Longrightarrow> map_of (m_apiKeys (db w)) j = Some k' \<Longrightarrow>
      k_KeyHash k = k_KeyHash k' \<Longrightarrow> i = j" for i j k k'
    using rows(2) row_ID [of i k] row_ID [of j k'] unfolding inj_on_def
    by (metis image_eqI map_of_SomeD snd_conv)
  show "ks_GetActiveAPIKeyByHash memstore_APIKeys now h w = Inr k \<longleftrightarrow>
      (\<exists>i. map_of (m_apiKeys (db w)) i = Some k) \<and> k_KeyHash k = h \<and> \<not> key_inactive now k"
  proof (cases "find_val (\<lambda>k. k_KeyHash k = h) (m_apiKeys (db w))")
    case None
    with find_val_keyed(2) [OF rows(1) None] show ?thesis
      by (auto simp: memstore_APIKeys_def GetActiveAPIKeyByHash_def)
  next
    case (Some q)
    note q = find_val_keyed(1) [OF rows(1) Some]
    have "k = q" if "map_of (m_apiKeys (db w)) l = Some k" "k_KeyHash k = h" for l
      using uniq [OF that(1), of "k_ID q" q] q that by auto
    with Some q show ?thesis by (auto simp: memstore_APIKeys_def GetActiveAPIKeyByHash_def)
  qed
  show "ks_GetActiveAPIKeyByHash memstore_APIKeys now h w = Inl e \<Longrightarrow> e = ErrNotFound" for e
    by (auto simp: memstore_APIKeys_def GetActiveAPIKeyByHash_def split: option.splits if_splits)
  show "ks_CreateAPIKey memstore_APIKeys k w = (e, w') \<Longrightarrow> mem_wf (db w') \<and> tape w' = tape w \<and>
      map_of (m_apiKeys (db w')) = (if e = None then (map_of (m_apiKeys (db w)))(k_ID k \<mapsto> k)
        else map_of (m_apiKeys (db w))) \<and>
      (e = None \<longrightarrow> (\<forall>i k'. map_of (m_apiKeys (db w)) i = Some k' \<longrightarrow> k_KeyHash k' \<noteq> k_KeyHash k))"
    using key_writes_wf(1) [OF wf, of k]
    by (auto simp: defs list_ex_iff split: if_splits dest: map_of_SomeD)
  show "ks_RevokeAPIKey memstore_APIKeys now i w = (e, w') \<Longrightarrow> e = None \<and> mem_wf (db w') \<and> tape w' = tape w \<and>
      map_of (m_apiKeys (db w')) = (map_of (m_apiKeys (db w)))(i := map_option (\<lambda>k. if k_RevokedAt k = None
        then k\<lparr>k_RevokedAt := Some now\<rparr> else k) (map_of (m_apiKeys (db w)) i))"
    using key_writes_wf(2) [OF wf, of now i]
    by (auto simp: defs fun_upd_idem split: option.splits if_splits)
  show "ks_TouchAPIKeyLastUsed memstore_APIKeys now i w = (e, w') \<Longrightarrow> mem_wf (db w') \<and> tape w' = tape w \<and>
      map_of (m_apiKeys (db w')) = (map_of (m_apiKeys (db w)))(i := map_option (\<lambda>k. k\<lparr>k_LastUsedAt := Some now\<rparr>)
        (map_of (m_apiKeys (db w)) i))"
    using key_writes_wf(3) [OF wf, of now i]
    by (auto simp: defs fun_upd_idem split: option.splits)
qed

section \<open>Properties\<close>

text \<open>(C13) \<open>VerifyAPIKey\<close> lets a caller in exactly when the presented key is non-empty, its hash is
  that of a stored key that is neither revoked nor expired, and the key's owner exists and is not
  locked out; the user and key it returns are the stored ones. Everything else is refused.\<close>

theorem VerifyAPIKey_iff:
  assumes "mem_wf (db w)" and "km_Store m = memstore_APIKeys" and "um_Store (km_Users m) = memstore_Users x"
  shows "(\<exists>w'. APIKeyManager_VerifyAPIKey m now plaintext w = (Inr (u, k), w')) \<longleftrightarrow>
    plaintext \<noteq> [] \<and> map_of (m_apiKeys (db w)) (k_ID k) = Some k \<and>
    k_KeyHash k = km_Hasher m plaintext \<and> k_RevokedAt k = None \<and>
    (case k_ExpiresAt k of None \<Rightarrow> True | Some e \<Rightarrow> now < e) \<and>
    map_of (m_users (db w)) (k_UserID k) = Some u \<and> \<not> UserManager_IsLockedOut now u"
proof -
  have "(\<exists>i. map_of (m_apiKeys (db w)) i = Some k) \<longleftrightarrow> map_of (m_apiKeys (db w)) (k_ID k) = Some k"
    using mem_keys.keys_ID [OF assms(1)] by auto
  moreover have "UserManager_FindByID (km_Users m) (k_UserID k) w = Inr u \<longleftrightarrow>
      map_of (m_users (db w)) (k_UserID k) = Some u"
    using mem.FindByID [OF assms(1)] by (simp add: UserManager_FindByID_def assms(3))
  moreover have "\<not> key_inactive now k \<longleftrightarrow> k_RevokedAt k = None \<and>
      (case k_ExpiresAt k of None \<Rightarrow> True | Some e \<Rightarrow> now < e)"
    by (auto simp: key_inactive_def split: option.splits)
  ultimately show ?thesis using mem_keys.Verify_iff [OF assms(1,2)] by auto
qed

text \<open>(C14) A dead key stays dead: once a stored key is revoked or past its expiry, no sequence of the
  manager's operations (minting, importing even the same hash, verifying, revoking) ever makes its
  plaintext verify again, at that or any later time; every attempt is answered \<open>ErrInvalidAPIKey\<close>
  and changes nothing.\<close>

theorem dead_key_stays_dead:
  assumes "uuid_ok x" and "km_Store m = memstore_APIKeys"
    and "mem_wf (db w)" and "\<And>i. i \<in> dom (map_of (m_apiKeys (db w))) \<Longrightarrow> issued x w i"
    and "map_of (m_apiKeys (db w)) i = Some k" and "k_KeyHash k = km_Hasher m plaintext"
    and "k_RevokedAt k \<noteq> None \<or> (\<exists>e. k_ExpiresAt k = Some e \<and> e \<le> now)"
    and "(key_step x m)\<^sup>*\<^sup>* w w'" and "now \<le> now'"
  shows "APIKeyManager_VerifyAPIKey m now' plaintext w' = (Inl ErrInvalidAPIKey, w')"
proof -
  have "key_inactive now k" using assms(7) by (auto simp: key_inactive_def)
  then have "mem_keys.dead x now (km_Hasher m plaintext) w"
    using assms(3-6) unfolding mem_keys.dead_def by blast
  from mem_keys.steps_dead [OF assms(8,1,2) this] show ?thesis
    by (rule mem_keys.dead_refused [OF _ assms(2,9)])
qed

text \<open>A minted key works: after a successful \<open>CreateAPIKey\<close>, presenting the returned plaintext
  returns the owner and the key, as long as the owner exists and is not locked out and the key has
  not expired. The stored row holds the hash of the plaintext and none of it beyond the prefix.\<close>

theorem created_key_verifies:
  assumes "mem_wf (db w)" and "km_Store m = memstore_APIKeys" and "um_Store (km_Users m) = memstore_Users x"
    and "APIKeyManager_CreateAPIKey x m now u opts w = (Inr (secret, k), w')"
    and "map_of (m_users (db w)) (u_ID u) = Some u'" and "\<not> UserManager_IsLockedOut now' u'"
    and "\<And>e. ko_ExpiresAt opts = Some e \<Longrightarrow> now' < e"
  shows "(\<exists>w''. APIKeyManager_VerifyAPIKey m now' secret w' = (Inr (u', k), w'')) \<and>
    map_of (m_apiKeys (db w')) (k_ID k) = Some k \<and> k_KeyHash k = km_Hasher m secret \<and>
    k_Prefix k = displayPrefix secret (km_PrefixLen m)"
proof -
  from assms(2,4) have c: "CreateAPIKey k (w\<lparr>tape := 48 + tape w\<rparr>) = (None, w')"
    and k: "k_KeyHash k = km_Hasher m secret" "k_Prefix k = displayPrefix secret (km_PrefixLen m)"
    by (auto simp: APIKeyManager_CreateAPIKey_def Let_def memstore_APIKeys_def split: prod.splits option.splits)
  then have "map_of (m_users (db w')) = map_of (m_users (db w))" "map_of (m_apiKeys (db w')) (k_ID k) = Some k"
    by (auto simp: CreateAPIKey_def update_conv split: if_splits)
  moreover have "UserManager_FindByID (km_Users m) (u_ID u) w' = Inr u'"
    using assms(3,5) calculation(1) by (simp add: UserManager_FindByID_def memstore_Users_def userStore_FindByID_def)
  ultimately show ?thesis
    using mem_keys.Create_then_Verify [OF assms(1,2,4) _ assms(6,7)] k by auto
qed

text \<open>The comment on \<open>displayPrefix\<close> says that it never returns the whole secret; it does whenever
  the configured length reaches the length of the secret.\<close>

lemma displayPrefix_whole: "0 < n \<Longrightarrow> int (length s) \<le> n \<Longrightarrow> displayPrefix s n = s"
  by (auto simp: displayPrefix_def)

lemma displayPrefix_prefix: "prefix (displayPrefix s n) s"
  by (auto simp: displayPrefix_def Let_def take_is_prefix)

subsection \<open>Concrete runs\<close>

definition demo_owner :: user where
  "demo_owner = zero_user\<lparr>u_ID := ''a''\<rparr>"

definition demo_keys :: "memstore api_key_manager" where
  "demo_keys = NewAPIKeyManager demo_extern memstore_APIKeys
     (NewUserManager demo_extern (memstore_Users demo_extern) DefaultOptions)"

definition demo_key :: api_key where
  "demo_key = \<lparr>k_ID = demo_uuid 0, k_UserID = ''a'', k_Name = [], k_Prefix = [],
     k_KeyHash = sha256Hex demo_extern ''pw'', k_Scopes = [], k_ExpiresAt = None, k_LastUsedAt = None,
     k_RevokedAt = None, k_CreatedAt = 0\<rparr>"

definition demo_key_world :: "api_key \<Rightarrow> memstore world" where
  "demo_key_world k = \<lparr>db = memstore_New\<lparr>m_users := [(''a'', demo_owner)], m_apiKeys := [(demo_uuid 0, k)]\<rparr>, tape = 1\<rparr>"

lemma demo_key_world_wf: "k_ID k = demo_uuid 0 \<Longrightarrow> mem_wf (db (demo_key_world k))"
  by (simp add: demo_key_world_def mem_wf_def keyed_def login_wf_def api_keys_wf_def oauth_wf_def
      memstore_New_def demo_owner_def)

lemma demo_keys_stores [simp]:
  "km_Store demo_keys = memstore_APIKeys" "km_Hasher demo_keys = sha256Hex demo_extern"
  "um_Store (km_Users demo_keys) = memstore_Users demo_extern"
  by (simp_all add: demo_keys_def NewAPIKeyManager_def NewUserManager_def)

theorem VerifyAPIKey_iff_witness:
  "\<exists>w'. APIKeyManager_VerifyAPIKey demo_keys 5 ''pw'' (demo_key_world demo_key) =
     (Inr (demo_owner, demo_key), w')"
  using VerifyAPIKey_iff [of "demo_key_world demo_key" demo_keys demo_extern 5 "''pw''" demo_owner demo_key]
    demo_key_world_wf [of demo_key]
  by (simp add: demo_key_def demo_key_world_def demo_owner_def UserManager_IsLockedOut_def zero_user_def)

definition demo_import :: "memstore world \<Rightarrow> memstore world" where
  "demo_import w = snd (APIKeyManager_ImportAPIKey demo_extern demo_keys 5 ''b'' [] []
     (sha256Hex demo_extern ''pw'') None [] w)"

theorem dead_key_stays_dead_witness:
  "APIKeyManager_VerifyAPIKey demo_keys 7 ''pw'' (demo_import (demo_key_world (demo_key\<lparr>k_RevokedAt := Some 3\<rparr>)))
     = (Inl ErrInvalidAPIKey, demo_import (demo_key_world (demo_key\<lparr>k_RevokedAt := Some 3\<rparr>)))"
proof (rule dead_key_stays_dead [OF demo_extern_ok(1) _ demo_key_world_wf,
      where i = "demo_uuid 0" and k = "demo_key\<lparr>k_RevokedAt := Some 3\<rparr>" and now = 4])
  let ?k = "demo_key\<lparr>k_RevokedAt := Some 3\<rparr>"
  show "(key_step demo_extern demo_keys)\<^sup>*\<^sup>* (demo_key_world ?k) (demo_import (demo_key_world ?k))"
    unfolding demo_import_def by (metis step_ImportAPIKey prod.collapse r_into_rtranclp)
  show "issued demo_extern (demo_key_world ?k) i" if "i \<in> dom (map_of (m_apiKeys (db (demo_key_world ?k))))" for i
    using that by (auto simp: demo_key_world_def issued_def demo_extern_def split: if_splits)
qed (simp_all add: demo_key_world_def demo_key_def)

theorem created_key_verifies_witness:
  "\<exists>secret k w' w''. APIKeyManager_CreateAPIKey demo_extern demo_keys 1 demo_owner
       \<lparr>ko_Name = [], ko_ExpiresAt = Some 9, ko_Scopes = []\<rparr> (demo_key_world demo_key) = (Inr (secret, k), w') \<and>
     APIKeyManager_VerifyAPIKey demo_keys 5 secret w' = (Inr (demo_owner, k), w'')"
proof -
  let ?o = "\<lparr>ko_Name = [], ko_ExpiresAt = Some 9, ko_Scopes = []\<rparr>"
  have "sha256Hex demo_extern (fst (randomToken demo_extern 1)) \<noteq> sha256Hex demo_extern ''pw''"
    by (simp add: sha256Hex_def hex_Encode_inj demo_extern_def demo_pad_def randomToken_def rand_Read_def
        base64_Encode_def upt_rec alpha_url_def sextet1_def sextet2_def sextet3_def sextet4_def)
  then obtain secret k w' where c: "APIKeyManager_CreateAPIKey demo_extern demo_keys 1 demo_owner ?o
      (demo_key_world demo_key) = (Inr (secret, k), w')"
    by (auto simp: APIKeyManager_CreateAPIKey_def Let_def memstore_APIKeys_def CreateAPIKey_def demo_key_world_def
        demo_key_def demo_keys_def NewAPIKeyManager_def)
  from created_key_verifies [OF demo_key_world_wf _ _ c, of demo_owner 5] c show ?thesis
    by (auto simp: demo_key_def demo_key_world_def demo_owner_def UserManager_IsLockedOut_def zero_user_def)
qed

end
