(* ===== verification/Auth.thy ===== *)
theory Auth
  imports OAuth_Token Api_Key
begin

text \<open>
  The \<open>auth\<close> package: the principal of a request (\<open>auth/middleware.go\<close>), policies over it
  (\<open>auth/policy.go\<close>), the session cookie (\<open>auth/cookie.go\<close>) and the key-set endpoint
  (\<open>auth/jwks.go\<close>). A handler takes the request, the principal its context carries and the state; a
  middleware maps handlers to handlers.
\<close>

section \<open>Principals\<close>

text \<open>A value of a claims map: what the JSON decoder makes, or the Go \<open>[]string\<close> that
  \<open>authenticateAPIKey\<close> stores.\<close>

datatype claim_value = Decoded json | Strings "string list"

record principal =
  pr_User :: user
  pr_Claims :: "(string, claim_value) gomap"
  pr_Roles :: "string list"
  pr_Scopes :: "string list"
  pr_ViaAPIKey :: bool
  pr_ViaOAuth :: bool
  pr_ClientID :: string

definition Principal_HasRole :: "web \<Rightarrow> principal \<Rightarrow> string \<Rightarrow> bool" where
  "Principal_HasRole b p role' = list_ex (\<lambda>r. strings_EqualFold b r role') (pr_Roles p)"

definition Principal_HasScope :: "principal \<Rightarrow> string \<Rightarrow> bool" where
  "Principal_HasScope p scope = list_ex (\<lambda>s. s = scope) (pr_Scopes p)"

definition rolesFromClaims :: "(string, claim_value) gomap \<Rightarrow> string list" where
  "rolesFromClaims c =
     (case map_of c ClaimRole of
        None \<Rightarrow> []
      | Some (Decoded (JStr s)) \<Rightarrow> [s]
      | Some (Decoded (JArr vs)) \<Rightarrow> List.map_filter (\<lambda>v. case v of JStr s \<Rightarrow> Some s | _ \<Rightarrow> None) vs
      | Some (Strings ss) \<Rightarrow> ss
      | Some _ \<Rightarrow> [])"

definition Principal_ClaimValue :: "principal \<Rightarrow> string \<Rightarrow> string option" where
  "Principal_ClaimValue p claimType =
     (case map_of (pr_Claims p) claimType of
        None \<Rightarrow> None
      | Some (Decoded (JStr s)) \<Rightarrow> Some s
      | Some (Decoded (JArr (JStr s # _))) \<Rightarrow> Some s
      | Some _ \<Rightarrow> None)"

text \<open>The variadic \<open>value\<close> of \<open>HasClaim\<close> is a list; only its first element counts.\<close>

definition Principal_HasClaim :: "web \<Rightarrow> principal \<Rightarrow> string \<Rightarrow> string list \<Rightarrow> bool" where
  "Principal_HasClaim b p claimType vals =
     (case Principal_ClaimValue p claimType of
        None \<Rightarrow> False
      | Some v \<Rightarrow> (case vals of [] \<Rightarrow> True | val # _ \<Rightarrow> strings_EqualFold b v val))"

section \<open>The session cookie\<close>

datatype same_site = SameSiteDefaultMode | SameSiteLaxMode | SameSiteStrictMode | SameSiteNoneMode

record cookieAuth =
  ca_Name :: string
  ca_Path :: string
  ca_Secure :: bool
  ca_SameSite :: same_site
  ca_MaxAge :: duration

definition DefaultCookieAuth :: cookieAuth where
  "DefaultCookieAuth = \<lparr>ca_Name = ''.GoIdentity.Auth'', ca_Path = ''/'', ca_Secure = True, ca_SameSite = SameSiteLaxMode,
     ca_MaxAge = 24 * hour\<rparr>"

definition CookieAuth_read :: "cookieAuth option \<Rightarrow> http_request \<Rightarrow> string" where
  "CookieAuth_read c r =
     (case c of None \<Rightarrow> [] | Some c \<Rightarrow> (case map_of (rq_Cookies r) (ca_Name c) of None \<Rightarrow> [] | Some v \<Rightarrow> v))"

text \<open>\<open>http.Cookie\<close>; \<open>None\<close> is the zero \<open>Expires\<close>, a negative \<open>MaxAge\<close> deletes the cookie.\<close>

record cookie =
  ck_Name :: string
  ck_Value :: string
  ck_Path :: string
  ck_HttpOnly :: bool
  ck_Secure :: bool
  ck_SameSite :: same_site
  ck_Expires :: "time option"
  ck_MaxAge :: int

definition CookieAuth_Write :: "cookieAuth \<Rightarrow> time \<Rightarrow> string \<Rightarrow> cookie" where
  "CookieAuth_Write c now accessToken = \<lparr>ck_Name = ca_Name c, ck_Value = accessToken, ck_Path = ca_Path c,
     ck_HttpOnly = True, ck_Secure = ca_Secure c, ck_SameSite = ca_SameSite c, ck_Expires = Some (now + ca_MaxAge c),
     ck_MaxAge = 0\<rparr>"

definition CookieAuth_Clear :: "cookieAuth \<Rightarrow> cookie" where
  "CookieAuth_Clear c = \<lparr>ck_Name = ca_Name c, ck_Value = [], ck_Path = ca_Path c, ck_HttpOnly = True,
     ck_Secure = ca_Secure c, ck_SameSite = ca_SameSite c, ck_Expires = None, ck_MaxAge = -1\<rparr>"

section \<open>Authentication\<close>

text \<open>\<open>OAuthTokenValidator\<close>: the clock, the token and the resource.\<close>

type_synonym 's oauth_validator = "time \<Rightarrow> string \<Rightarrow> string \<Rightarrow> 's world \<Rightarrow> go_error + user \<times> claims"

record 's middlewareConfig =
  mc_keys :: "'s api_key_manager option"
  mc_oauth :: "'s oauth_validator option"
  mc_oauthResource :: string

definition WithOAuthResource :: "'s oauth_validator \<Rightarrow> string \<Rightarrow> 's middlewareConfig \<Rightarrow> 's middlewareConfig" where
  "WithOAuthResource v resource c = c\<lparr>mc_oauth := Some v, mc_oauthResource := resource\<rparr>"

definition WithAPIKeys :: "'s api_key_manager \<Rightarrow> 's middlewareConfig \<Rightarrow> 's middlewareConfig" where
  "WithAPIKeys keys c = c\<lparr>mc_keys := Some keys\<rparr>"

definition bearerToken :: "web \<Rightarrow> http_request \<Rightarrow> string" where
  "bearerToken b r =
     (let h = (case map_of (rq_Header r) ''Authorization'' of None \<Rightarrow> [] | Some h \<Rightarrow> h)
      in if length h > 7 \<and> strings_EqualFold b (take 7 h) ''Bearer '' then drop 7 h else [])"

definition authenticateAPIKey ::
  "'s api_key_manager \<Rightarrow> time \<Rightarrow> string \<Rightarrow> 's world \<Rightarrow> principal option \<times> 's world" where
  "authenticateAPIKey keys now token w =
     (case APIKeyManager_VerifyAPIKey keys now token w of
        (Inl _, w) \<Rightarrow> (None, w)
      | (Inr (u, key), w) \<Rightarrow>
          let roles = (case UserManager_GetRoles (km_Users keys) u w of Inl _ \<Rightarrow> [] | Inr roles \<Rightarrow> roles);
              claims = (case UserManager_GetClaims (km_Users keys) u w of
                          Inl _ \<Rightarrow> []
                        | Inr cs \<Rightarrow> fold (\<lambda>c m. if map_of m (c_Type c) \<noteq> None then m
                                               else AList.update (c_Type c) (Decoded (JStr (c_Value c))) m) cs []);
              claims = (if roles \<noteq> [] then AList.update ClaimRole (Strings roles) claims else claims)
          in (Some \<lparr>pr_User = u, pr_Claims = claims, pr_Roles = roles, pr_Scopes = k_Scopes key, pr_ViaAPIKey = True,
                    pr_ViaOAuth = False, pr_ClientID = []\<rparr>, w))"

definition decoded :: "claims \<Rightarrow> (string, claim_value) gomap" where
  "decoded c = map (\<lambda>(k, v). (k, Decoded v)) c"

definition session_principal :: "user \<Rightarrow> claims \<Rightarrow> principal" where
  "session_principal u c = \<lparr>pr_User = u, pr_Claims = decoded c, pr_Roles = rolesFromClaims (decoded c), pr_Scopes = [],
     pr_ViaAPIKey = False, pr_ViaOAuth = False, pr_ClientID = []\<rparr>"

definition oauth_principal :: "user \<Rightarrow> claims \<Rightarrow> principal" where
  "oauth_principal u c = (session_principal u c)\<lparr>pr_Scopes := strings_Fields (str_claim c ''scope''),
     pr_ViaOAuth := True, pr_ClientID := str_claim c ''client_id''\<rparr>"

definition authenticate ::
  "web \<Rightarrow> jwt_lib \<Rightarrow> http_request \<Rightarrow> 's token_service option \<Rightarrow> cookieAuth option \<Rightarrow> 's middlewareConfig \<Rightarrow> time
     \<Rightarrow> 's world \<Rightarrow> principal option \<times> 's world" where
  "authenticate b L r tokens cookies cfg now w =
     (let (token, fromCookie) =
        (if bearerToken b r = [] \<and> cookies \<noteq> None then (CookieAuth_read cookies r, True) else (bearerToken b r, False))
      in if token = [] then (None, w)
         else
           (case (case tokens of None \<Rightarrow> Inl ErrInvalidToken | Some t \<Rightarrow> TokenService_ValidateAccessToken L t now token w) of
              Inr (u, claims) \<Rightarrow> (Some (session_principal u claims), w)
            | Inl _ \<Rightarrow>
                (case (if fromCookie then None else mc_oauth cfg) of
                   Some v \<Rightarrow>
                     (case v now token (mc_oauthResource cfg) w of
                        Inr (u, claims) \<Rightarrow> (Some (oauth_principal u claims), w)
                      | Inl _ \<Rightarrow>
                          (case mc_keys cfg of None \<Rightarrow> (None, w) | Some keys \<Rightarrow> authenticateAPIKey keys now token w))
                 | None \<Rightarrow>
                     (case (if fromCookie then None else mc_keys cfg) of
                        None \<Rightarrow> (None, w)
                      | Some keys \<Rightarrow> authenticateAPIKey keys now token w))))"

section \<open>Middleware\<close>

text \<open>The answer of a guarded handler: \<open>http.Error\<close> with a status and a text, or what the next handler
  answers.\<close>

datatype 'a outcome = HttpError nat string | Served 'a

type_synonym ('s, 'a) handler = "http_request \<Rightarrow> principal option \<Rightarrow> 's world \<Rightarrow> 'a outcome \<times> 's world"

definition Middleware ::
  "web \<Rightarrow> jwt_lib \<Rightarrow> time \<Rightarrow> 's token_service option \<Rightarrow> cookieAuth option \<Rightarrow> ('s middlewareConfig \<Rightarrow> 's middlewareConfig) list
     \<Rightarrow> ('s, 'a) handler \<Rightarrow> ('s, 'a) handler" where
  "Middleware b L now tokens cookies opts next' r ctx w =
     (let cfg = fold (\<lambda>o' c. o' c) opts \<lparr>mc_keys = None, mc_oauth = None, mc_oauthResource = []\<rparr>;
          (p, w) = authenticate b L r tokens cookies cfg now w
      in next' r (case p of None \<Rightarrow> ctx | Some p \<Rightarrow> Some p) w)"

definition PrincipalFrom :: "principal option \<Rightarrow> principal option" where
  "PrincipalFrom ctx = ctx"

definition RequireAuth :: "('s, 'a) handler \<Rightarrow> ('s, 'a) handler" where
  "RequireAuth next' r ctx w =
     (case PrincipalFrom ctx of
        None \<Rightarrow> (HttpError 401 ''unauthorized'', w)
      | Some _ \<Rightarrow> next' r ctx w)"

definition RequireRole :: "web \<Rightarrow> string \<Rightarrow> ('s, 'a) handler \<Rightarrow> ('s, 'a) handler" where
  "RequireRole b role' next' r ctx w =
     (case PrincipalFrom ctx of
        None \<Rightarrow> (HttpError 401 ''unauthorized'', w)
      | Some p \<Rightarrow> if \<not> Principal_HasRole b p role' then (HttpError 403 ''forbidden'', w) else next' r ctx w)"

section \<open>Policies\<close>

type_synonym requirement = "principal \<Rightarrow> bool"

record policy =
  po_Name :: string
  po_Requirements :: "requirement list"

definition NewPolicy :: "string \<Rightarrow> policy" where
  "NewPolicy name = \<lparr>po_Name = name, po_Requirements = []\<rparr>"

definition Policy_RequireRole :: "web \<Rightarrow> string list \<Rightarrow> policy \<Rightarrow> policy" where
  "Policy_RequireRole b roles p =
     p\<lparr>po_Requirements := po_Requirements p @ [\<lambda>pr. list_ex (\<lambda>r. Principal_HasRole b pr r) roles]\<rparr>"

definition Policy_RequireClaim :: "string \<Rightarrow> string list \<Rightarrow> policy \<Rightarrow> policy" where
  "Policy_RequireClaim claimType allowedValues p =
     p\<lparr>po_Requirements := po_Requirements p @ [\<lambda>pr.
        case Principal_ClaimValue pr claimType of
          None \<Rightarrow> False
        | Some v \<Rightarrow> if length allowedValues = 0 then True else list_ex (\<lambda>a. v = a) allowedValues]\<rparr>"

definition Policy_RequireAssertion :: "requirement \<Rightarrow> policy \<Rightarrow> policy" where
  "Policy_RequireAssertion fn p = p\<lparr>po_Requirements := po_Requirements p @ [fn]\<rparr>"

fun evaluate_all :: "requirement list \<Rightarrow> principal \<Rightarrow> bool" where
  "evaluate_all [] pr = True"
| "evaluate_all (req # reqs) pr = (if \<not> req pr then False else evaluate_all reqs pr)"

definition Policy_Evaluate :: "policy \<Rightarrow> principal \<Rightarrow> bool" where
  "Policy_Evaluate p pr = evaluate_all (po_Requirements p) pr"

definition RequirePolicy :: "policy \<Rightarrow> ('s, 'a) handler \<Rightarrow> ('s, 'a) handler" where
  "RequirePolicy policy next' r ctx w =
     (case PrincipalFrom ctx of
        None \<Rightarrow> (HttpError 401 ''unauthorized'', w)
      | Some p \<Rightarrow> if \<not> Policy_Evaluate policy p then (HttpError 403 ''forbidden'', w) else next' r ctx w)"

section \<open>Key sets\<close>

text \<open>\<open>JWKSHandler\<close>: the headers and the encoded key set.\<close>

definition JWKSHandler :: "jwk list \<Rightarrow> jwk list http_response" where
  "JWKSHandler keys = \<lparr>rp_Status = 200, rp_Header = [(''Content-Type'', ''application/json''),
     (''Cache-Control'', ''public, max-age=300'')], rp_Body = keys\<rparr>"

end
