(* ===== verification/Auth_Properties.thy ===== *)
theory Auth_Properties
  imports Auth OAuth_Properties
begin

text \<open>
  What the middleware stack lets through: the composition of the session service, the authorization
  server and the API keys over one store, behind a policy.
\<close>

section \<open>Who a request is\<close>

text \<open>The credential of a request: the bearer token, or else the session cookie.\<close>

definition presented :: "web \<Rightarrow> cookieAuth option \<Rightarrow> http_request \<Rightarrow> string" where
  "presented b cookies r = (if bearerToken b r \<noteq> [] then bearerToken b r else CookieAuth_read cookies r)"

lemma CookieAuth_read_None [simp]: "CookieAuth_read None r = []"
  by (simp add: CookieAuth_read_def)

lemma authenticate_session:
  assumes "TokenService_ValidateAccessToken L t now (presented b cookies r) w = Inr (u, c)" "presented b cookies r \<noteq> []"
  shows "authenticate b L r (Some t) cookies cfg now w = (Some (session_principal u c), w)"
  using assms by (cases cookies) (auto simp: authenticate_def presented_def split: if_splits)

lemma authenticate_none:
  assumes "presented b cookies r = [] \<or> (\<exists>e. TokenService_ValidateAccessToken L t now (presented b cookies r) w = Inl e) \<and>
    bearerToken b r = []"
  shows "authenticate b L r (Some t) cookies cfg now w = (None, w)"
  using assms by (cases cookies) (auto simp: authenticate_def presented_def split: if_splits)

lemma authenticate_bearer:
  assumes "bearerToken b r \<noteq> []" "TokenService_ValidateAccessToken L t now (bearerToken b r) w = Inl e"
    "mc_oauth cfg = Some v" "mc_keys cfg = Some keys"
  shows "authenticate b L r (Some t) cookies cfg now w =
    (case v now (bearerToken b r) (mc_oauthResource cfg) w of
       Inr (u, c) \<Rightarrow> (Some (oauth_principal u c), w)
     | Inl _ \<Rightarrow> authenticateAPIKey keys now (bearerToken b r) w)"
  using assms by (simp add: authenticate_def split: sum.splits)

lemma evaluate_all_iff: "evaluate_all reqs p \<longleftrightarrow> (\<forall>req \<in> set reqs. req p)"
  by (induction reqs) auto

section \<open>What validation says of the store\<close>

lemma session_row:
  assumes "TokenService_ValidateAccessToken L t now tok w = Inr (u, c)" "um_Store (sv_Users t) = memstore_Users x" "mem_wf (db w)"
  shows "map_of (m_users (db w)) (u_ID u) = Some u \<and> str_claim c ''sub'' = u_ID u \<and> str_claim c ClaimSecurityStamp = u_SecurityStamp u"
proof -
  from assms(1) have "UserManager_FindByID (sv_Users t) (str_claim c ''sub'') w = Inr u" "str_claim c ClaimSecurityStamp = u_SecurityStamp u"
    by (auto simp: TokenService_ValidateAccessToken_def split: sum.splits if_splits)
  then show ?thesis using mem.FindByID [OF assms(3), of x] mem.rows_ID [OF assms(3)] unfolding UserManager_FindByID_def assms(2) by metis
qed

lemma oauth_row:
  assumes "Server_ValidateResourceToken x b L s now tok res w = Inr (u, c)" "um_Store (sr_users s) = memstore_Users x"
    "sr_store s = memstore_OAuth" "mem_wf (db w)"
  shows "map_of (m_users (db w)) (u_ID u) = Some u \<and> str_claim c ClaimSecurityStamp = u_SecurityStamp u \<and> \<not> UserManager_IsLockedOut now u \<and>
    (\<exists>g. map_of (m_oauthGrants (db w)) (str_claim c ClaimGrantID) = Some g \<and> g_UserID g = u_ID u)"
proof -
  from assms(1) have f: "UserManager_FindByID (sr_users s) (str_claim c ''sub'') w = Inr u" "str_claim c ClaimSecurityStamp = u_SecurityStamp u"
    "\<not> UserManager_IsLockedOut now u" and g: "\<exists>g. GetGrant (str_claim c ClaimGrantID) w = Inr g \<and> g_UserID g = u_ID u"
    by (auto simp: Server_ValidateResourceToken_def constEq_def assms(3) memstore_OAuth_def Let_def split: option.splits sum.splits if_splits)
  from f(1) have "map_of (m_users (db w)) (u_ID u) = Some u"
    using mem.FindByID [OF assms(4), of x] mem.rows_ID [OF assms(4)] unfolding UserManager_FindByID_def assms(2) by metis
  moreover from g have "\<exists>g. map_of (m_oauthGrants (db w)) (str_claim c ClaimGrantID) = Some g \<and> g_UserID g = u_ID u"
    by (auto simp: GetGrant_def split: option.splits)
  ultimately show ?thesis using f by blast
qed

text \<open>A principal that stands for an identity in the store: its user is the stored row; a session carries
  the row's security stamp; an OAuth or API-key principal came on the \<open>Authorization\<close> header and
  belongs to a user who is not locked out, through a stored grant or a stored, active key.\<close>

definition live :: "web \<Rightarrow> 's api_key_manager \<Rightarrow> time \<Rightarrow> http_request \<Rightarrow> memstore \<Rightarrow> principal \<Rightarrow> bool" where
  "live b keys now r d p \<longleftrightarrow> map_of (m_users d) (u_ID (pr_User p)) = Some (pr_User p) \<and>
     (if pr_ViaAPIKey p then bearerToken b r \<noteq> [] \<and> \<not> UserManager_IsLockedOut now (pr_User p) \<and>
        (\<exists>k. map_of (m_apiKeys d) (k_ID k) = Some k \<and> k_KeyHash k = km_Hasher keys (bearerToken b r) \<and>
           k_UserID k = u_ID (pr_User p) \<and> \<not> key_inactive now k \<and> pr_Scopes p = k_Scopes k)
      else map_of (pr_Claims p) ClaimSecurityStamp = Some (Decoded (JStr (u_SecurityStamp (pr_User p)))) \<and>
        (if pr_ViaOAuth p then bearerToken b r \<noteq> [] \<and> \<not> UserManager_IsLockedOut now (pr_User p) \<and>
           (\<exists>g gid. map_of (pr_Claims p) ClaimGrantID = Some (Decoded (JStr gid)) \<and>
              map_of (m_oauthGrants d) gid = Some g \<and> g_UserID g = u_ID (pr_User p))
         else pr_Scopes p = []))"

lemma map_of_decoded: "map_of (decoded c) k = map_option Decoded (map_of c k)"
  unfolding decoded_def by (induction c) auto

lemma str_claim_ne: "str_claim c k = s \<Longrightarrow> s \<noteq> [] \<Longrightarrow> map_of c k = Some (JStr s)"
  by (auto simp: str_claim_def split: option.splits json.splits)

lemma session_live:
  assumes "TokenService_ValidateAccessToken L t now tok w = Inr (u, c)" "um_Store (sv_Users t) = memstore_Users x" "mem_wf (db w)"
    "u_SecurityStamp u \<noteq> []"
  shows "live b keys now r (db w) (session_principal u c)"
  using session_row [OF assms(1-3)] str_claim_ne [of c ClaimSecurityStamp "u_SecurityStamp u"] assms(4)
  by (simp add: live_def session_principal_def map_of_decoded)

lemma oauth_live:
  assumes "Server_ValidateResourceToken x b L s now (bearerToken b r) res w = Inr (u, c)" "um_Store (sr_users s) = memstore_Users x"
    "sr_store s = memstore_OAuth" "mem_wf (db w)" "u_SecurityStamp u \<noteq> []" "bearerToken b r \<noteq> []"
  shows "live b keys now r (db w) (oauth_principal u c)"
proof -
  note o = oauth_row [OF assms(1-4)]
  have "str_claim c ClaimGrantID \<noteq> []"
    using assms(1) by (auto simp: Server_ValidateResourceToken_def Let_def split: option.splits sum.splits if_splits)
  with o str_claim_ne [of c ClaimSecurityStamp "u_SecurityStamp u"] str_claim_ne [of c ClaimGrantID "str_claim c ClaimGrantID"] assms(5,6)
  show ?thesis by (auto simp: live_def oauth_principal_def session_principal_def map_of_decoded)
qed

lemma key_live:
  assumes "authenticateAPIKey keys now (bearerToken b r) w = (Some p, w')" "km_Store keys = memstore_APIKeys"
    "um_Store (km_Users keys) = memstore_Users x" "mem_wf (db w)"
  shows "live b keys now r (db w) p \<and> pr_ViaAPIKey p"
proof -
  from assms(1) obtain u k w1 where v: "APIKeyManager_VerifyAPIKey keys now (bearerToken b r) w = (Inr (u, k), w1)"
    and p: "pr_User p = u" "pr_Scopes p = k_Scopes k" "pr_ViaAPIKey p"
    by (auto simp: authenticateAPIKey_def Let_def split: prod.splits sum.splits)
  from mem_keys.Verify_iff [OF assms(4,2), of now "bearerToken b r" u k] v
  have k: "bearerToken b r \<noteq> []" "\<exists>i. map_of (m_apiKeys (db w)) i = Some k" "k_KeyHash k = km_Hasher keys (bearerToken b r)"
    "\<not> key_inactive now k" "UserManager_FindByID (km_Users keys) (k_UserID k) w = Inr u" "\<not> UserManager_IsLockedOut now u" by blast+
  have "map_of (m_users (db w)) (k_UserID k) = Some u" using k(5) mem.FindByID [OF assms(4), of x] by (simp add: UserManager_FindByID_def assms(3))
  moreover then have "u_ID u = k_UserID k" by (rule mem.rows_ID [OF assms(4)])
  moreover have "map_of (m_apiKeys (db w)) (k_ID k) = Some k" using k(2) mem_keys.keys_ID [OF assms(4)] by auto
  ultimately show ?thesis using k p by (auto simp: live_def)
qed

section \<open>Roles and claims by the kind of credential\<close>

text \<open>A session token carries the roles as a decoded JSON array, an API-key principal as a \<open>[]string\<close>.
  \<open>HasRole\<close> reads both; \<open>ClaimValue\<close>, and with it \<open>RequireClaim\<close> on the role claim, only the first.\<close>

lemma role_claim_by_session:
  assumes "map_of c ClaimRole = Some (JArr (map JStr (role' # roles)))"
  shows "pr_Roles (session_principal u c) = role' # roles" "Principal_ClaimValue (session_principal u c) ClaimRole = Some role'"
proof -
  have "List.map_filter (\<lambda>v. case v of JStr s \<Rightarrow> Some s | _ \<Rightarrow> None) (map JStr rs) = rs" for rs
    by (induction rs) (simp_all add: List.map_filter_def)
  from this [of "role' # roles"] show "pr_Roles (session_principal u c) = role' # roles"
    using assms by (simp add: session_principal_def rolesFromClaims_def map_of_decoded)
qed (use assms in \<open>simp add: session_principal_def Principal_ClaimValue_def map_of_decoded\<close>)

lemma role_claim_by_key:
  assumes "authenticateAPIKey keys now tok w = (Some p, w')" "pr_Roles p \<noteq> []"
  shows "Principal_ClaimValue p ClaimRole = None \<and> \<not> Policy_Evaluate (Policy_RequireClaim ClaimRole vals (NewPolicy n)) p"
  using assms
  by (auto simp: authenticateAPIKey_def Let_def Principal_ClaimValue_def Policy_Evaluate_def Policy_RequireClaim_def NewPolicy_def
      update_conv split: prod.splits sum.splits)

text \<open>For a user without roles, a user claim named like the role claim becomes a role of the session
  principal; an API-key principal has the roles of the store and no others.\<close>

lemma role_from_user_claim:
  "pr_Roles (session_principal u (merge_claims [\<lparr>c_Type = ClaimRole, c_Value = v\<rparr>] (session_claims o' now u))) = [v]"
  by (simp add: session_principal_def rolesFromClaims_def map_of_decoded update_conv session_claims_def claim_names)

section \<open>The guarded stack\<close>

definition guarded ::
  "extern \<Rightarrow> web \<Rightarrow> jwt_lib \<Rightarrow> time \<Rightarrow> 's token_service \<Rightarrow> 's server \<Rightarrow> string \<Rightarrow> 's api_key_manager \<Rightarrow> cookieAuth option \<Rightarrow> policy
     \<Rightarrow> http_request \<Rightarrow> 's world \<Rightarrow> principal option outcome \<times> 's world" where
  "guarded x b L now t s res keys cookies pol r w =
     Middleware b L now (Some t) cookies
       [WithOAuthResource (Server_ValidateResourceToken x b L s) res, WithAPIKeys keys]
       (RequirePolicy pol (\<lambda>r ctx w. (Served ctx, w))) r None w"

lemma guarded_outcome:
  assumes "authenticate b L r (Some t) cookies \<lparr>mc_keys = Some keys, mc_oauth = Some (Server_ValidateResourceToken x b L s),
      mc_oauthResource = res\<rparr> now w = (p, w')"
  shows "guarded x b L now t s res keys cookies pol r w =
    (case p of None \<Rightarrow> HttpError 401 ''unauthorized''
     | Some p \<Rightarrow> if \<forall>req \<in> set (po_Requirements pol). req p then Served (Some p) else HttpError 403 ''forbidden'', w')"
  using assms
  by (cases p) (simp_all add: guarded_def Middleware_def WithOAuthResource_def WithAPIKeys_def RequirePolicy_def PrincipalFrom_def
      Policy_Evaluate_def evaluate_all_iff)

lemma authenticateAPIKey_none:
  "fst (authenticateAPIKey keys now tok w) = None \<longleftrightarrow> (\<nexists>a. fst (APIKeyManager_VerifyAPIKey keys now tok w) = Inr a)"
  by (cases "APIKeyManager_VerifyAPIKey keys now tok w"; cases "fst (APIKeyManager_VerifyAPIKey keys now tok w)")
    (auto simp: authenticateAPIKey_def Let_def)

text \<open>No credential of the request is valid: none is presented, or it is no session token and, where it is
  a bearer token, neither an OAuth token for the resource nor an API key.\<close>

definition unidentified ::
  "extern \<Rightarrow> web \<Rightarrow> jwt_lib \<Rightarrow> time \<Rightarrow> 's token_service \<Rightarrow> 's server \<Rightarrow> string \<Rightarrow> 's api_key_manager \<Rightarrow> cookieAuth option
     \<Rightarrow> http_request \<Rightarrow> 's world \<Rightarrow> bool" where
  "unidentified x b L now t s res keys cookies r w \<longleftrightarrow> presented b cookies r = [] \<or>
      (\<nexists>a. TokenService_ValidateAccessToken L t now (presented b cookies r) w = Inr a) \<and>
      (bearerToken b r = [] \<or> (\<nexists>a. Server_ValidateResourceToken x b L s now (bearerToken b r) res w = Inr a) \<and>
         (\<nexists>a. fst (APIKeyManager_VerifyAPIKey keys now (bearerToken b r) w) = Inr a))"

text \<open>(C29) Behind the middleware and a policy, a request is answered in one of three ways. It is refused
  with 401 exactly if it presents no credential, or its credential is no valid session token and,
  unless it came on the \<open>Authorization\<close> header and is a valid OAuth token for the resource or a valid
  API key, nothing else; a cookie is only ever a session token. It is refused with 403 if it has an
  identity that fails a requirement. It is served only with a principal that satisfies every
  requirement and stands for an identity alive in the store: the stored user, under the current
  security stamp, or through a stored grant or an active key of a user who is not locked out.\<close>

theorem request_guarded:
  assumes "mem_wf (db w)" and "um_Store (sv_Users t) = memstore_Users x" and "um_Store (sr_users s) = memstore_Users x"
    and "um_Store (km_Users keys) = memstore_Users x" and "sr_store s = memstore_OAuth" and "km_Store keys = memstore_APIKeys"
    and "\<forall>u. u \<in> snd ` set (m_users (db w)) \<longrightarrow> u_SecurityStamp u \<noteq> []"
    and "guarded x b L now t s res keys cookies pol r w = (out, w')"
  shows "(out = HttpError 401 ''unauthorized'' \<longleftrightarrow> unidentified x b L now t s res keys cookies r w) \<and>
    (out = HttpError 401 ''unauthorized'' \<or> (\<exists>p. live b keys now r (db w) p \<and>
      out = (if \<forall>req \<in> set (po_Requirements pol). req p then Served (Some p) else HttpError 403 ''forbidden'')))"
proof -
  let ?cfg = "\<lparr>mc_keys = Some keys, mc_oauth = Some (Server_ValidateResourceToken x b L s), mc_oauthResource = res\<rparr>"
  have stamp: "u_SecurityStamp u \<noteq> []" if "map_of (m_users (db w)) i = Some u" for i u
    using assms(7) map_of_SomeD [OF that] by force
  obtain p w2 where a: "authenticate b L r (Some t) cookies ?cfg now w = (p, w2)" by fastforce
  have "(case p of None \<Rightarrow> unidentified x b L now t s res keys cookies r w
      | Some q \<Rightarrow> \<not> unidentified x b L now t s res keys cookies r w \<and> live b keys now r (db w) q)"
  proof (cases "presented b cookies r = []")
    case True
    then have "p = None" using authenticate_none [of b cookies r L t now w ?cfg] a by simp
    with True show ?thesis by (simp add: unidentified_def)
  next
    case cred: False
    show ?thesis
    proof (cases "TokenService_ValidateAccessToken L t now (presented b cookies r) w")
      case (Inr uc)
      obtain u c where uc: "uc = (u, c)" by fastforce
      from session_row [OF Inr [unfolded uc] assms(2,1)] stamp have "u_SecurityStamp u \<noteq> []" by blast
      note session_live [OF Inr [unfolded uc] assms(2,1) this, of b keys r]
      moreover have "p = Some (session_principal u c)" using authenticate_session [OF Inr [unfolded uc] cred] a by simp
      ultimately show ?thesis using Inr cred by (simp add: unidentified_def)
    next
      case refused: (Inl e)
      show ?thesis
      proof (cases "bearerToken b r = []")
        case True
        then have "p = None" using authenticate_none [of b cookies r L t now w ?cfg] refused a by simp
        with True refused show ?thesis by (simp add: unidentified_def)
      next
        case False
        then have pres: "presented b cookies r = bearerToken b r" by (simp add: presented_def)
        note au = authenticate_bearer [OF False refused [unfolded pres], of ?cfg, simplified, OF refl refl, of cookies, unfolded a]
        show ?thesis
        proof (cases "Server_ValidateResourceToken x b L s now (bearerToken b r) res w")
          case (Inr uc)
          obtain u c where uc: "uc = (u, c)" by fastforce
          from oauth_row [OF Inr [unfolded uc] assms(3,5,1)] stamp have "u_SecurityStamp u \<noteq> []" by blast
          note oauth_live [OF Inr [unfolded uc] assms(3,5,1) this False, of keys]
          moreover have "p = Some (oauth_principal u c)" using au Inr uc by simp
          ultimately show ?thesis using Inr cred False by (simp add: unidentified_def)
        next
          case (Inl err)
          with au have k: "authenticateAPIKey keys now (bearerToken b r) w = (p, w2)" by simp
          have "p = None \<longleftrightarrow> unidentified x b L now t s res keys cookies r w"
            using authenticateAPIKey_none [of keys now "bearerToken b r" w] k Inl refused False by (simp add: unidentified_def pres)
          then show ?thesis using key_live [OF _ assms(6,4,1), of now b r _ w2] k by (cases p) simp_all
        qed
      qed
    qed
  qed
  then show ?thesis using guarded_outcome [OF a, of pol] assms(8) by (cases p) auto
qed

subsection \<open>A concrete request\<close>

definition demo_guard_world :: "memstore world" where
  "demo_guard_world = \<lparr>db = memstore_New\<lparr>m_users := [(''a'', demo_member)], m_apiKeys := [(k_ID demo_key, demo_key)]\<rparr>, tape = 0\<rparr>"

definition demo_api_request :: http_request where
  "demo_api_request = \<lparr>rq_Method = ''GET'', rq_ContentType = [], rq_Query = [], rq_PostForm = None, rq_BasicAuth = None,
     rq_ClientIP = [], rq_Header = [(''Authorization'', ''Bearer pw'')], rq_Cookies = []\<rparr>"

theorem request_guarded_witness:
  "\<exists>p w'. guarded demo_extern demo_web (one_jwt []) 5 (demo_service None) demo_server ''r'' demo_keys (Some DefaultCookieAuth) (NewPolicy ''any'')
     demo_api_request demo_guard_world = (Served (Some p), w') \<and> live demo_web demo_keys 5 demo_api_request (db demo_guard_world) p"
proof -
  have wf: "mem_wf (db demo_guard_world)"
    by (simp add: demo_guard_world_def mem_wf_def keyed_def login_wf_def api_keys_wf_def oauth_wf_def memstore_New_def demo_member_def)
  have bt: "bearerToken demo_web demo_api_request = ''pw''"
    by (simp add: bearerToken_def demo_api_request_def strings_EqualFold_def is_ascii_def equal_fold_ascii_def)
  have "map_of (m_apiKeys (db demo_guard_world)) (k_ID demo_key) = Some demo_key" "k_KeyHash demo_key = sha256Hex demo_extern ''pw''"
    "\<not> key_inactive 5 demo_key" "UserManager_FindByID (km_Users demo_keys) (k_UserID demo_key) demo_guard_world = Inr demo_member"
    "\<not> UserManager_IsLockedOut 5 demo_member"
    using mem.FindByID [OF wf, of demo_extern "''a''" demo_member]
    by (simp_all add: demo_guard_world_def demo_key_def key_inactive_def UserManager_FindByID_def UserManager_IsLockedOut_def
        demo_member_def zero_user_def)
  with mem_keys.Verify_iff [OF wf, of demo_keys 5 "''pw''" demo_member demo_key]
  obtain w' where "APIKeyManager_VerifyAPIKey demo_keys 5 ''pw'' demo_guard_world = (Inr (demo_member, demo_key), w')" by auto
  then have id: "\<not> unidentified demo_extern demo_web (one_jwt []) 5 (demo_service None) demo_server ''r'' demo_keys (Some DefaultCookieAuth) demo_api_request demo_guard_world"
    by (simp add: unidentified_def bt presented_def)
  obtain out w1 where g: "guarded demo_extern demo_web (one_jwt []) 5 (demo_service None) demo_server ''r'' demo_keys (Some DefaultCookieAuth) (NewPolicy ''any'')
     demo_api_request demo_guard_world = (out, w1)" by fastforce
  have "(out = HttpError 401 ''unauthorized'' \<longleftrightarrow>
      unidentified demo_extern demo_web (one_jwt []) 5 (demo_service None) demo_server ''r'' demo_keys (Some DefaultCookieAuth) demo_api_request demo_guard_world) \<and>
    (out = HttpError 401 ''unauthorized'' \<or> (\<exists>p. live demo_web demo_keys 5 demo_api_request (db demo_guard_world) p \<and>
      out = (if \<forall>req \<in> set (po_Requirements (NewPolicy ''any'')). req p then Served (Some p) else HttpError 403 ''forbidden'')))"
    by (rule request_guarded [OF wf _ _ _ _ _ _ g]) (simp_all add: demo_server_def demo_guard_world_def demo_member_def)
  then show ?thesis using id g by (auto simp: NewPolicy_def)
qed

end
