(* ===== verification/OAuth_Resource.thy ===== *)
theory OAuth_Resource
  imports Auth_Properties OAuth_Consent
begin

text \<open>
  The resource side of \<open>oauth/resource.go\<close>: the metadata document, the challenges a protected resource
  answers with, and the scope check. A handler here also takes the headers that outer middleware
  has already set on the response.
\<close>

section \<open>Metadata\<close>

record protectedResourceMetadata =
  pm_Resource :: string
  pm_AuthorizationServers :: "string list"
  pm_ScopesSupported :: "string list"
  pm_BearerMethodsSupported :: "string list"
  pm_ResourceName :: string
  pm_ResourceDocumentation :: string

definition ProtectedResourceHandler ::
  "protectedResourceMetadata \<Rightarrow> http_request \<Rightarrow> protectedResourceMetadata json_body http_response" where
  "ProtectedResourceHandler m r =
     (let m = (if length (pm_BearerMethodsSupported m) = 0 then m\<lparr>pm_BearerMethodsSupported := [''header'']\<rparr> else m);
          h = cors_headers (rq_Method r)
      in if cors r then \<lparr>rp_Status = 204, rp_Header = h, rp_Body = EmptyBody\<rparr>
         else if rq_Method r \<noteq> ''GET'' \<and> rq_Method r \<noteq> ''HEAD''
         then \<lparr>rp_Status = 405, rp_Header = h, rp_Body = TextBody ''method not allowed''\<rparr>
         else json_response (AList.update ''Cache-Control'' ''public, max-age=300'' h) 200 m)"

definition strings_TrimSuffix :: "string \<Rightarrow> string \<Rightarrow> string" where
  "strings_TrimSuffix s t = (if suffix t s then take (length s - length t) s else s)"

definition ResourceMetadataPath :: "web \<Rightarrow> string \<Rightarrow> string + string" where
  "ResourceMetadataPath b resource =
     (case wb_Parse b resource of
        None \<Rightarrow> Inl (''oauth: invalid resource '' @ wb_Quote b resource)
      | Some u \<Rightarrow>
          if url_Host u = [] then Inl (''oauth: invalid resource '' @ wb_Quote b resource)
          else Inr (''/.well-known/oauth-protected-resource'' @ strings_TrimSuffix (wb_EscapedPath b u) ''/''))"

definition ResourceMetadataURL :: "web \<Rightarrow> string \<Rightarrow> string + string" where
  "ResourceMetadataURL b resource =
     (case ResourceMetadataPath b resource of
        Inl e \<Rightarrow> Inl e
      | Inr p \<Rightarrow>
          (case wb_Parse b resource of
             None \<Rightarrow> Inl (''oauth: invalid resource '' @ wb_Quote b resource)
           | Some u \<Rightarrow> Inr (url_Scheme u @ ''://'' @ url_Host u @ p)))"

section \<open>Challenges\<close>

definition escape :: "char \<Rightarrow> string" where
  "escape c = (if c = CHR 0x5C then [CHR 0x5C, CHR 0x5C] else if c = CHR 0x22 then [CHR 0x5C, CHR 0x22] else [c])"

definition quote_header :: "string \<Rightarrow> string" where
  "quote_header s = CHR 0x22 # concat (map escape s) @ [CHR 0x22]"

definition exposeHeader :: "web \<Rightarrow> string \<Rightarrow> (string, string) gomap \<Rightarrow> (string, string) gomap" where
  "exposeHeader b name h =
     (let cur = (case map_of h ''Access-Control-Expose-Headers'' of None \<Rightarrow> [] | Some v \<Rightarrow> v)
      in if list_ex (\<lambda>v. strings_EqualFold b (strings_TrimSpace v) name) (strings_Split cur (CHR '','')) then h
         else if cur = [] then AList.update ''Access-Control-Expose-Headers'' name h
         else AList.update ''Access-Control-Expose-Headers'' (cur @ '', '' @ name) h)"

definition Challenge :: "web \<Rightarrow> (string, string) gomap \<Rightarrow> string \<Rightarrow> string \<Rightarrow> (string \<times> string) list json_body http_response" where
  "Challenge b h metadataURL scope =
     (let v = ''Bearer resource_metadata='' @ quote_header metadataURL;
          v = (if scope \<noteq> [] then v @ '', scope='' @ quote_header scope else v)
      in json_response (exposeHeader b ''WWW-Authenticate'' (AList.update ''WWW-Authenticate'' v h)) 401
           [(''error'', ''unauthorized''), (''error_description'', ''authentication required'')])"

definition InsufficientScope ::
  "web \<Rightarrow> (string, string) gomap \<Rightarrow> string \<Rightarrow> string \<Rightarrow> string \<Rightarrow> (string \<times> string) list json_body http_response" where
  "InsufficientScope b h metadataURL scope description =
     (let v = ''Bearer error=\"insufficient_scope\", scope='' @ quote_header scope @ '', resource_metadata='' @ quote_header metadataURL;
          v = (if description \<noteq> [] then v @ '', error_description='' @ quote_header description else v)
      in json_response (exposeHeader b ''WWW-Authenticate'' (AList.update ''WWW-Authenticate'' v h)) 403
           [(''error'', ''insufficient_scope''), (''error_description'', description)])"

section \<open>The scope check\<close>

type_synonym ('s, 'a) scoped_handler =
  "http_request \<Rightarrow> principal option \<Rightarrow> (string, string) gomap \<Rightarrow> 's world
     \<Rightarrow> ((string \<times> string) list json_body http_response + 'a) \<times> 's world"

definition RequireScopes :: "web \<Rightarrow> string \<Rightarrow> string list \<Rightarrow> ('s, 'a) scoped_handler \<Rightarrow> ('s, 'a) scoped_handler" where
  "RequireScopes b metadataURL scopes next' r ctx h w =
     (case PrincipalFrom ctx of
        None \<Rightarrow> (Inl (Challenge b h metadataURL (joinScopes scopes)), w)
      | Some p \<Rightarrow>
          if pr_ViaOAuth p \<and> \<not> containsAll (pr_Scopes p) scopes
          then (Inl (InsufficientScope b h metadataURL (joinScopes (unionScopes (pr_Scopes p) scopes))
                       ''additional scope required''), w)
          else next' r ctx h w)"

section \<open>Reading a challenge\<close>

text \<open>A quoted string of RFC 9110: a backslash takes the next byte literally, a quote ends the string.
  The reader returns the content and the rest of the input.\<close>

fun read_quoted :: "string \<Rightarrow> (string \<times> string) option" where
  "read_quoted [] = None"
| "read_quoted (c # s) =
     (if c = CHR 0x22 then Some ([], s)
      else if c = CHR 0x5C then
        (case s of [] \<Rightarrow> None | d # s' \<Rightarrow> map_option (\<lambda>(v, rest). (d # v, rest)) (read_quoted s'))
      else map_option (\<lambda>(v, rest). (c # v, rest)) (read_quoted s))"

lemma read_quoted_escaped: "read_quoted (concat (map escape s) @ CHR 0x22 # rest) = Some (s, rest)"
  by (induction s) (simp_all add: escape_def)

text \<open>The value of a parameter \<open>name="..."\<close> at the start of the input, and what follows it.\<close>

definition read_param :: "string \<Rightarrow> string \<Rightarrow> (string \<times> string) option" where
  "read_param name s = (if prefix (name @ [CHR 0x3D, CHR 0x22]) s then read_quoted (drop (length name + 2) s) else None)"

lemma read_param_quote [simp]: "read_param name (name @ CHR 0x3D # quote_header s @ rest) = Some (s, rest)"
  using read_quoted_escaped [of s rest] by (simp add: read_param_def quote_header_def)

lemma exposeHeader_other: "k \<noteq> ''Access-Control-Expose-Headers'' \<Longrightarrow> map_of (exposeHeader b name h) k = map_of h k"
  by (simp add: exposeHeader_def Let_def update_conv)

lemma containsAll_subset: "containsAll have' want \<longleftrightarrow> set want \<subseteq> set have'"
  by (auto simp: containsAll_def list_all_iff)

lemma Join_ne: "\<forall>f \<in> set scopes. f \<noteq> [] \<Longrightarrow> joinScopes scopes = [] \<longleftrightarrow> scopes = []"
  unfolding joinScopes_def by (cases "(scopes, '' '')" rule: strings_Join.cases) auto

lemma Challenge_header:
  "map_of (rp_Header (Challenge b h url scope)) ''WWW-Authenticate'' =
     Some (''Bearer '' @ ''resource_metadata'' @ CHR 0x3D # quote_header url @ (if scope = [] then [] else '', '' @ ''scope'' @ CHR 0x3D # quote_header scope))"
  by (simp add: Challenge_def Let_def json_response_def update_conv exposeHeader_other)

lemma InsufficientScope_header:
  "d \<noteq> [] \<Longrightarrow> map_of (rp_Header (InsufficientScope b h url scope d)) ''WWW-Authenticate'' =
     Some (''Bearer error=\"insufficient_scope\", '' @ ''scope'' @ CHR 0x3D # quote_header scope @ '', '' @ ''resource_metadata'' @ CHR 0x3D #
       quote_header url @ '', error_description='' @ quote_header d)"
  by (simp add: InsufficientScope_def Let_def json_response_def update_conv exposeHeader_other)

lemma oauth_scopes_fields: "\<forall>f \<in> set (pr_Scopes (oauth_principal u c)). spaceless f \<and> f \<noteq> []"
  using parseScopes_spaceless by (simp add: oauth_principal_def set_parseScopes [symmetric])

text \<open>(C30) A protected resource answers with the challenge that tells the client what to ask for. An
  anonymous request gets 401; its \<open>WWW-Authenticate\<close> header reads back as the metadata URL and exactly
  the required scopes. A request with an OAuth token that lacks a required scope gets 403; the
  header reads back as the scopes it has together with the required ones. Every other request
  reaches the handler, OAuth requests only with all the scopes. Whatever bytes the URL contains,
  the quoting keeps them apart from the header's own syntax.\<close>

theorem scopes_enforced:
  assumes "\<forall>f \<in> set scopes. f \<noteq> [] \<and> visible f"
    and "\<forall>p. ctx = Some p \<and> pr_ViaOAuth p \<longrightarrow> (\<exists>u c. p = oauth_principal u c)"
    and "RequireScopes b url scopes (\<lambda>r ctx h w. (Inr ctx, w)) r ctx h w = (out, w')"
  shows "w' = w \<and> (case ctx of
      None \<Rightarrow> \<exists>resp v rest. out = Inl resp \<and> rp_Status resp = 401 \<and>
        map_of (rp_Header resp) ''WWW-Authenticate'' = Some (''Bearer '' @ v) \<and>
        read_param ''resource_metadata'' v = Some (url, rest) \<and>
        (if scopes = [] then rest = [] else \<exists>s. read_param ''scope'' (drop 2 rest) = Some (s, []) \<and> set (parseScopes s) = set scopes)
    | Some p \<Rightarrow> if pr_ViaOAuth p \<and> \<not> set scopes \<subseteq> set (pr_Scopes p)
        then \<exists>resp v s rest rest'. out = Inl resp \<and> rp_Status resp = 403 \<and>
          map_of (rp_Header resp) ''WWW-Authenticate'' = Some (''Bearer error=\"insufficient_scope\", '' @ v) \<and>
          read_param ''scope'' v = Some (s, rest) \<and> set (parseScopes s) = set (pr_Scopes p) \<union> set scopes \<and>
          read_param ''resource_metadata'' (drop 2 rest) = Some (url, rest')
        else out = Inr ctx)"
proof (cases ctx)
  case None
  have ne: "joinScopes scopes = [] \<longleftrightarrow> scopes = []" using assms(1) by (intro Join_ne) blast
  let ?rest = "if scopes = [] then [] else '', '' @ ''scope'' @ CHR 0x3D # quote_header (joinScopes scopes)"
  have o: "out = Inl (Challenge b h url (joinScopes scopes))" "w' = w"
    using assms(3) None by (simp_all add: RequireScopes_def PrincipalFrom_def)
  have p: "set (parseScopes (joinScopes scopes)) = set scopes" using assms(1) visible_spaceless by (intro parse_join_set) blast
  have q: "read_param ''scope'' (drop 2 ?rest) = Some (joinScopes scopes, [])" if "scopes \<noteq> []"
    using that read_param_quote [of "''scope''" "joinScopes scopes" "[]"] by simp
  have st: "rp_Status (Challenge b h url (joinScopes scopes)) = 401" by (simp add: Challenge_def Let_def json_response_def)
  have "\<exists>resp v rest. out = Inl resp \<and> rp_Status resp = 401 \<and> map_of (rp_Header resp) ''WWW-Authenticate'' = Some (''Bearer '' @ v) \<and>
      read_param ''resource_metadata'' v = Some (url, rest) \<and>
      (if scopes = [] then rest = [] else \<exists>s. read_param ''scope'' (drop 2 rest) = Some (s, []) \<and> set (parseScopes s) = set scopes)"
    by (intro exI conjI, rule o(1), rule st, subst Challenge_header, rule refl, rule read_param_quote) (use q p ne in auto)
  with o(2) None show ?thesis by simp
next
  case (Some p)
  show ?thesis
  proof (cases "pr_ViaOAuth p \<and> \<not> set scopes \<subseteq> set (pr_Scopes p)")
    case True
    let ?s = "joinScopes (unionScopes (pr_Scopes p) scopes)" and ?d = "''additional scope required''"
    have o: "out = Inl (InsufficientScope b h url ?s ?d)" "w' = w"
      using assms(3) Some True by (simp_all add: RequireScopes_def PrincipalFrom_def containsAll_subset)
    from True assms(2) Some obtain u c where "p = oauth_principal u c" by blast
    then have f: "\<forall>f \<in> set (pr_Scopes p). spaceless f \<and> f \<noteq> []" using oauth_scopes_fields by blast
    have g: "\<forall>f \<in> set scopes. spaceless f \<and> f \<noteq> []" using assms(1) visible_spaceless by blast
    note un = union_set [OF f g]
    have p: "set (parseScopes ?s) = set (pr_Scopes p) \<union> set scopes"
      using f g un by (subst parse_join_set) auto
    have d: "drop 2 ('', '' @ t) = t" for t :: string by simp
    have st: "rp_Status (InsufficientScope b h url ?s ?d) = 403" by (simp add: InsufficientScope_def Let_def json_response_def)
    have "\<exists>resp v s rest rest'. out = Inl resp \<and> rp_Status resp = 403 \<and>
        map_of (rp_Header resp) ''WWW-Authenticate'' = Some (''Bearer error=\"insufficient_scope\", '' @ v) \<and>
        read_param ''scope'' v = Some (s, rest) \<and> set (parseScopes s) = set (pr_Scopes p) \<union> set scopes \<and>
        read_param ''resource_metadata'' (drop 2 rest) = Some (url, rest')"
      by (intro exI conjI, rule o(1), rule st, subst InsufficientScope_header, simp, rule refl, rule read_param_quote, rule p)
        (subst d, rule read_param_quote)
    with o(2) Some True show ?thesis by simp
  next
    case False
    then have "out = Inr ctx \<and> w' = w"
      using assms(3) Some by (simp add: RequireScopes_def PrincipalFrom_def containsAll_subset split: if_splits)
    with False Some show ?thesis by auto
  qed
qed

theorem scopes_enforced_witness:
  "\<exists>resp v rest s. RequireScopes demo_web ''https://h/m\"x'' [''read'', ''write''] (\<lambda>r ctx h w. (Inr ctx, w)) demo_api_request None [] demo_guard_world =
      (Inl resp :: _ + principal option, demo_guard_world) \<and> map_of (rp_Header resp) ''WWW-Authenticate'' = Some (''Bearer '' @ v) \<and>
    read_param ''resource_metadata'' v = Some (''https://h/m\"x'', rest) \<and> read_param ''scope'' (drop 2 rest) = Some (s, []) \<and>
    set (parseScopes s) = {''read'', ''write''}"
proof -
  obtain out w' where r: "RequireScopes demo_web ''https://h/m\"x'' [''read'', ''write''] (\<lambda>r ctx h w. (Inr ctx :: _ + principal option, w))
      demo_api_request None [] demo_guard_world = (out, w')" by fastforce
  from scopes_enforced [OF _ _ r] r show ?thesis by (auto simp: visible_def)
qed

end
