(* ===== verification/Naming.thy ===== *)
theory Naming
  imports Entities
begin

text \<open>
  The physical layout of \<open>identity/naming.go\<close>: table names, an optional schema, and the check that
  every name is safe to put into SQL text. Go ranges over the map of tables in an unspecified
  order, which is a parameter, as is the \<open>%q\<close> formatting of the error text.
\<close>

section \<open>Identifiers\<close>

text \<open>The loop of \<open>isValidIdentifier\<close>: the rune at each byte offset; the byte count bounds the steps.\<close>

fun ident_scan :: "nat \<Rightarrow> nat \<Rightarrow> nat list \<Rightarrow> bool" where
  "ident_scan 0 i bs = True"
| "ident_scan (Suc n) i bs =
     (if bs = [] then True
      else
        let (r, k) = decode_rune bs
        in if r = 95 then ident_scan n (i + k) (drop k bs)
           else if 97 \<le> r \<and> r \<le> 122 \<or> 65 \<le> r \<and> r \<le> 90 then ident_scan n (i + k) (drop k bs)
           else if 48 \<le> r \<and> r \<le> 57 \<and> i > 0 then ident_scan n (i + k) (drop k bs)
           else False)"

definition isValidIdentifier :: "string \<Rightarrow> bool" where
  "isValidIdentifier s = (if s = [] \<or> length s > 63 then False else ident_scan (length s) 0 (map of_char s))"

section \<open>Layouts\<close>

record tableNames =
  tn_Users :: string
  tn_Roles :: string
  tn_UserRoles :: string
  tn_UserClaims :: string
  tn_RoleClaims :: string
  tn_UserLogins :: string
  tn_UserTokens :: string
  tn_APIKeys :: string
  tn_RefreshTokens :: string
  tn_OAuthClients :: string
  tn_OAuthCodes :: string
  tn_OAuthConsents :: string
  tn_OAuthGrants :: string
  tn_OAuthAssertions :: string

definition DefaultTableNames :: tableNames where
  "DefaultTableNames = \<lparr>tn_Users = ''identity_users'', tn_Roles = ''identity_roles'', tn_UserRoles = ''identity_user_roles'',
     tn_UserClaims = ''identity_user_claims'', tn_RoleClaims = ''identity_role_claims'',
     tn_UserLogins = ''identity_user_logins'', tn_UserTokens = ''identity_user_tokens'', tn_APIKeys = ''identity_api_keys'',
     tn_RefreshTokens = ''identity_refresh_tokens'', tn_OAuthClients = ''identity_oauth_clients'',
     tn_OAuthCodes = ''identity_oauth_codes'', tn_OAuthConsents = ''identity_oauth_consents'',
     tn_OAuthGrants = ''identity_oauth_grants'', tn_OAuthAssertions = ''identity_oauth_assertions''\<rparr>"

definition TableNames_WithPrefix :: "string \<Rightarrow> tableNames \<Rightarrow> tableNames" where
  "TableNames_WithPrefix p n = \<lparr>tn_Users = p @ tn_Users n, tn_Roles = p @ tn_Roles n, tn_UserRoles = p @ tn_UserRoles n,
     tn_UserClaims = p @ tn_UserClaims n, tn_RoleClaims = p @ tn_RoleClaims n, tn_UserLogins = p @ tn_UserLogins n,
     tn_UserTokens = p @ tn_UserTokens n, tn_APIKeys = p @ tn_APIKeys n, tn_RefreshTokens = p @ tn_RefreshTokens n,
     tn_OAuthClients = p @ tn_OAuthClients n, tn_OAuthCodes = p @ tn_OAuthCodes n,
     tn_OAuthConsents = p @ tn_OAuthConsents n, tn_OAuthGrants = p @ tn_OAuthGrants n,
     tn_OAuthAssertions = p @ tn_OAuthAssertions n\<rparr>"

record naming =
  nm_Schema :: string
  nm_Tables :: tableNames

definition DefaultNaming :: naming where
  "DefaultNaming = \<lparr>nm_Schema = [], nm_Tables = DefaultTableNames\<rparr>"

text \<open>The map literal that \<open>Validate\<close> ranges over.\<close>

definition labelled :: "tableNames \<Rightarrow> (string \<times> string) list" where
  "labelled t = [(''Users'', tn_Users t), (''Roles'', tn_Roles t), (''UserRoles'', tn_UserRoles t),
     (''UserClaims'', tn_UserClaims t), (''RoleClaims'', tn_RoleClaims t), (''UserLogins'', tn_UserLogins t),
     (''UserTokens'', tn_UserTokens t), (''APIKeys'', tn_APIKeys t), (''RefreshTokens'', tn_RefreshTokens t),
     (''OAuthClients'', tn_OAuthClients t), (''OAuthCodes'', tn_OAuthCodes t), (''OAuthConsents'', tn_OAuthConsents t),
     (''OAuthGrants'', tn_OAuthGrants t), (''OAuthAssertions'', tn_OAuthAssertions t)]"

definition Naming_Validate ::
  "((string \<times> string) list \<Rightarrow> (string \<times> string) list) \<Rightarrow> (string \<Rightarrow> string) \<Rightarrow> naming \<Rightarrow> (go_error \<times> string) option" where
  "Naming_Validate ord quoted n =
     (if nm_Schema n \<noteq> [] \<and> \<not> isValidIdentifier (nm_Schema n)
      then Some (ErrInvalidIdentifier, '': schema '' @ quoted (nm_Schema n))
      else map_option (\<lambda>(label, name). (ErrInvalidIdentifier, '': table '' @ label @ ''='' @ quoted name))
             (find (\<lambda>(label, name). \<not> isValidIdentifier name) (ord (labelled (nm_Tables n)))))"

definition Naming_Qualify :: "naming \<Rightarrow> string \<Rightarrow> string" where
  "Naming_Qualify n table = (if nm_Schema n \<noteq> [] then nm_Schema n @ ''.'' @ table else table)"

section \<open>Identifiers byte by byte\<close>

definition word_byte :: "char \<Rightarrow> bool" where
  "word_byte c \<longleftrightarrow> (let b = of_char c :: nat in b = 95 \<or> 97 \<le> b \<and> b \<le> 122 \<or> 65 \<le> b \<and> b \<le> 90 \<or> 48 \<le> b \<and> b \<le> 57)"

definition digit_byte :: "char \<Rightarrow> bool" where
  "digit_byte c \<longleftrightarrow> (let b = of_char c :: nat in 48 \<le> b \<and> b \<le> 57)"

definition plain_ident :: "string \<Rightarrow> bool" where
  "plain_ident s \<longleftrightarrow> s \<noteq> [] \<and> length s \<le> 63 \<and> \<not> digit_byte (hd s) \<and> list_all word_byte s"

lemma decode_high: "b \<ge> 128 \<Longrightarrow> fst (decode_rune (b # bs)) \<ge> 128"
proof -
  assume "b \<ge> 128"
  then show ?thesis
    by (auto simp: runeError_def is_cont_def second_ok_def split: list.splits)
qed

lemma ident_scan_bytes:
  "length bs \<le> n \<Longrightarrow> ident_scan n i bs \<longleftrightarrow> list_all (\<lambda>b. b = 95 \<or> 97 \<le> b \<and> b \<le> 122 \<or> 65 \<le> b \<and> b \<le> 90 \<or> 48 \<le> b \<and> b \<le> 57) bs \<and>
     (i = 0 \<longrightarrow> bs \<noteq> [] \<longrightarrow> \<not> (48 \<le> hd bs \<and> hd bs \<le> 57))"
proof (induction n arbitrary: i bs)
  case (Suc n)
  show ?case
  proof (cases bs)
    case (Cons b bs')
    show ?thesis
    proof (cases "b < 128")
      case True
      with Cons Suc show ?thesis by (auto simp: Let_def)
    next
      case False
      then have "fst (decode_rune bs) \<ge> 128" using Cons decode_high by simp
      then show ?thesis using Cons False by (auto simp: Let_def case_prod_unfold simp del: decode_rune.simps)
    qed
  qed simp
qed simp

lemma isValidIdentifier_iff: "isValidIdentifier s \<longleftrightarrow> plain_ident s"
  using ident_scan_bytes [of "map of_char s" "length s" 0]
  by (cases s) (auto simp: isValidIdentifier_def plain_ident_def word_byte_def digit_byte_def Let_def list_all_iff)

lemma Validate_None:
  assumes "set (ord (labelled (nm_Tables n))) = set (labelled (nm_Tables n))"
  shows "Naming_Validate ord quoted n = None \<longleftrightarrow>
    (nm_Schema n = [] \<or> plain_ident (nm_Schema n)) \<and> (\<forall>(label, name) \<in> set (labelled (nm_Tables n)). plain_ident name)"
  using assms by (auto simp: Naming_Validate_def isValidIdentifier_iff find_None_iff split: prod.splits)

lemma plain_ident_append:
  "p \<noteq> [] \<Longrightarrow> list_all word_byte s \<Longrightarrow> plain_ident (p @ s) \<longleftrightarrow> plain_ident p \<and> length p + length s \<le> 63"
  by (auto simp: plain_ident_def)

lemma default_names:
  "\<forall>(label, name) \<in> set (labelled DefaultTableNames). list_all word_byte name \<and> plain_ident name \<and> length name \<le> 25"
  by (simp add: labelled_def DefaultTableNames_def word_byte_def digit_byte_def plain_ident_def Let_def)

lemma longest_default: "(''OAuthAssertions'', ''identity_oauth_assertions'') \<in> set (labelled DefaultTableNames)"
  by (simp add: labelled_def DefaultTableNames_def)

lemma labelled_WithPrefix: "labelled (TableNames_WithPrefix p t) = map (\<lambda>(label, name). (label, p @ name)) (labelled t)"
  by (simp add: labelled_def TableNames_WithPrefix_def)

lemma prefixed_default:
  "(\<forall>(label, name) \<in> set (labelled (TableNames_WithPrefix p DefaultTableNames)). plain_ident name) \<longleftrightarrow>
     p = [] \<or> plain_ident p \<and> length p \<le> 38"
proof (cases "p = []")
  case True
  then show ?thesis using default_names by (auto simp: labelled_WithPrefix)
next
  case False
  have w: "list_all word_byte ''identity_oauth_assertions''" using default_names longest_default by blast
  have "(\<forall>(label, name) \<in> set (labelled (TableNames_WithPrefix p DefaultTableNames)). plain_ident name) \<longleftrightarrow>
      (\<forall>(label, name) \<in> set (labelled DefaultTableNames). plain_ident p \<and> length p + length name \<le> 63)"
    using default_names plain_ident_append [OF False] by (fastforce simp: labelled_WithPrefix)
  also have "\<dots> \<longleftrightarrow> plain_ident p \<and> length p \<le> 38"
  proof
    assume "\<forall>(label, name) \<in> set (labelled DefaultTableNames). plain_ident p \<and> length p + length name \<le> 63"
    with longest_default have "plain_ident p \<and> length p + length ''identity_oauth_assertions'' \<le> 63" by blast
    then show "plain_ident p \<and> length p \<le> 38" by simp
  next
    assume "plain_ident p \<and> length p \<le> 38"
    then show "\<forall>(label, name) \<in> set (labelled DefaultTableNames). plain_ident p \<and> length p + length name \<le> 63"
      using default_names by fastforce
  qed
  finally show ?thesis using False by simp
qed

lemma plain_ident_chars: "plain_ident s \<Longrightarrow> list_all word_byte s \<and> length s \<le> 63"
  by (simp add: plain_ident_def)

text \<open>A layout that passes \<open>Validate\<close> is safe in SQL text. In whatever order the tables are checked,
  \<open>Validate\<close> succeeds exactly if the schema, where set, and all fourteen table names are identifiers
  of 1 to 63 letters, digits and underscores that do not start with a digit (no byte outside ASCII
  gets through the rune loop); every other layout is \<open>ErrInvalidIdentifier\<close>. Then every qualified name
  is made of such bytes and at most one dot. The default names pass, and with a prefix exactly if
  the prefix is itself an identifier of at most 38 bytes.\<close>

theorem naming_safe:
  assumes "\<forall>ts. set (ord ts) = set ts"
  shows "(Naming_Validate ord quoted n = None \<longleftrightarrow> (nm_Schema n = [] \<or> plain_ident (nm_Schema n)) \<and>
      (\<forall>(label, name) \<in> set (labelled (nm_Tables n)). plain_ident name)) \<and>
    (Naming_Validate ord quoted n \<noteq> None \<longrightarrow> fst (the (Naming_Validate ord quoted n)) = ErrInvalidIdentifier) \<and>
    (Naming_Validate ord quoted n = None \<longrightarrow> (\<forall>(label, name) \<in> set (labelled (nm_Tables n)).
      \<exists>sch. Naming_Qualify n name = sch @ name \<and> list_all word_byte name \<and> length name \<le> 63 \<and>
        (sch = [] \<or> (\<exists>s. sch = s @ ''.'' \<and> list_all word_byte s \<and> length s \<le> 63)))) \<and>
    (Naming_Validate ord quoted \<lparr>nm_Schema = schema, nm_Tables = TableNames_WithPrefix p DefaultTableNames\<rparr> = None \<longleftrightarrow>
      (schema = [] \<or> plain_ident schema) \<and> (p = [] \<or> plain_ident p \<and> length p \<le> 38))"
proof (intro conjI)
  have o: "set (ord ts) = set ts" for ts using assms by blast
  show v: "Naming_Validate ord quoted n = None \<longleftrightarrow> (nm_Schema n = [] \<or> plain_ident (nm_Schema n)) \<and>
      (\<forall>(label, name) \<in> set (labelled (nm_Tables n)). plain_ident name)" by (rule Validate_None) (rule o)
  show "Naming_Validate ord quoted n \<noteq> None \<longrightarrow> fst (the (Naming_Validate ord quoted n)) = ErrInvalidIdentifier"
    by (auto simp: Naming_Validate_def split: if_splits)
  show "Naming_Validate ord quoted n = None \<longrightarrow> (\<forall>(label, name) \<in> set (labelled (nm_Tables n)).
      \<exists>sch. Naming_Qualify n name = sch @ name \<and> list_all word_byte name \<and> length name \<le> 63 \<and>
        (sch = [] \<or> (\<exists>s. sch = s @ ''.'' \<and> list_all word_byte s \<and> length s \<le> 63)))"
    unfolding v using plain_ident_chars by (fastforce simp: Naming_Qualify_def)
  show "Naming_Validate ord quoted \<lparr>nm_Schema = schema, nm_Tables = TableNames_WithPrefix p DefaultTableNames\<rparr> = None \<longleftrightarrow>
      (schema = [] \<or> plain_ident schema) \<and> (p = [] \<or> plain_ident p \<and> length p \<le> 38)"
    by (subst Validate_None, rule o) (simp add: prefixed_default)
qed

theorem naming_safe_witness:
  "Naming_Validate rev (\<lambda>s. s) \<lparr>nm_Schema = ''auth'', nm_Tables = TableNames_WithPrefix ''app_'' DefaultTableNames\<rparr> = None \<and>
   Naming_Validate rev (\<lambda>s. s) \<lparr>nm_Schema = [], nm_Tables = TableNames_WithPrefix ''a-b '' DefaultTableNames\<rparr> \<noteq> None"
proof -
  have r: "\<forall>ts. set (rev ts :: (string \<times> string) list) = set ts" by simp
  show ?thesis
    using naming_safe [OF r, of "\<lambda>s. s" DefaultNaming "''auth''" "''app_''"] naming_safe [OF r, of "\<lambda>s. s" DefaultNaming "[]" "''a-b ''"]
    by (simp add: plain_ident_def word_byte_def digit_byte_def Let_def)
qed

end
