(* ===== verification/Sql.thy ===== *)
theory Sql
  imports Naming "HOL-Library.Multiset"
begin

text \<open>
  PostgreSQL as the stores use it. The server and the driver are outside the repository: they are
  the fields of the record \<open>pgx\<close>, arguments of every store operation, which send SQL text. This
  theory fixes how the text of the fragment in use is read (a lexer, and the tokens of each
  statement form) and what the documentation of PostgreSQL says the statements do on tables
  (\<open>exec\<close>, \<open>answers\<close>) and which constraints the tables keep. The theorems take
  \<open>server_ok\<close> as a hypothesis: the server may reject any statement, leaving the tables alone,
  and runs the others as documented.
\<close>

section \<open>Values and the driver\<close>

text \<open>
  The values that go over the wire; text stands for every character type and for JSON. \<open>Exec\<close>
  answers with the number of rows affected, \<open>Query\<close> with the rows, \<open>SendBatch\<close> runs its
  statements in one implicit transaction. An error met while the rows are read shows as the error
  of \<open>Query\<close>: the callers give up on both alike.
\<close>

datatype sval = Null | Text string | Bool bool | Num int | Time time

record 's pgx =
  pg_Exec :: "string \<Rightarrow> sval list \<Rightarrow> 's \<Rightarrow> (go_error + int) \<times> 's"
  pg_Query :: "string \<Rightarrow> sval list \<Rightarrow> 's \<Rightarrow> go_error + sval list list"
  pg_SendBatch :: "(string \<times> sval list) list \<Rightarrow> 's \<Rightarrow> go_error option \<times> 's"

text \<open>The sentinel of \<open>Scan\<close> on an empty answer; the server's own errors are others.\<close>

definition pgx_ErrNoRows :: go_error where "pgx_ErrNoRows = StoreErr ''no rows in result set''"

definition driver_error :: "go_error \<Rightarrow> bool" where
  "driver_error e \<longleftrightarrow> (case e of StoreErr _ \<Rightarrow> e \<noteq> pgx_ErrNoRows | _ \<Rightarrow> False)"

section \<open>Tables, columns and the text of statements\<close>

datatype tab = Users | Roles | UserRoles | UserClaims | RoleClaims | UserLogins | UserTokens
  | APIKeys | RefreshTokens | OAuthClients | OAuthCodes | OAuthConsents | OAuthGrants | OAuthAssertions

primrec tab_base :: "tableNames \<Rightarrow> tab \<Rightarrow> string" where
  "tab_base n Users = tn_Users n"
| "tab_base n Roles = tn_Roles n"
| "tab_base n UserRoles = tn_UserRoles n"
| "tab_base n UserClaims = tn_UserClaims n"
| "tab_base n RoleClaims = tn_RoleClaims n"
| "tab_base n UserLogins = tn_UserLogins n"
| "tab_base n UserTokens = tn_UserTokens n"
| "tab_base n APIKeys = tn_APIKeys n"
| "tab_base n RefreshTokens = tn_RefreshTokens n"
| "tab_base n OAuthClients = tn_OAuthClients n"
| "tab_base n OAuthCodes = tn_OAuthCodes n"
| "tab_base n OAuthConsents = tn_OAuthConsents n"
| "tab_base n OAuthGrants = tn_OAuthGrants n"
| "tab_base n OAuthAssertions = tn_OAuthAssertions n"

declare tab_base.simps [simp del]

definition tab_name :: "naming \<Rightarrow> tab \<Rightarrow> string" where
  "tab_name n t = Naming_Qualify n (tab_base (nm_Tables n) t)"

text \<open>Lexical analysis: words (identifiers, qualified names, parameters, numbers, keywords),
  quoted literals and single signs, with white space between them.\<close>

definition sql_word :: "char \<Rightarrow> bool" where
  "sql_word c \<longleftrightarrow> word_byte c \<or> c = CHR ''.'' \<or> c = CHR ''$''"

text \<open>The class of a character from its bits.\<close>

lemma sql_word_code [code]:
  "sql_word (Char b0 b1 b2 b3 b4 b5 b6 b7) \<longleftrightarrow> \<not> b7 \<and>
     (if b6 then (if b0 \<and> b1 \<and> b2 \<and> b3 \<and> b4 then \<not> b5 else (b0 \<or> b1 \<or> b2 \<or> b3 \<or> b4) \<and> \<not> (b4 \<and> b3 \<and> (b2 \<or> b1 \<and> b0)))
      else b5 \<and> (if b4 then \<not> (b3 \<and> (b2 \<or> b1)) else \<not> b0 \<and> b2 \<and> b1 = b3))"
  by (cases b0; cases b1; cases b2; cases b3; cases b4; cases b5; cases b6; cases b7)
    (simp_all add: sql_word_def word_byte_def of_char_def)

definition sql_space :: "char \<Rightarrow> bool" where
  "sql_space c \<longleftrightarrow> c = CHR '' '' \<or> c = CHR 0x0A \<or> c = CHR 0x09"

definition quote_mark :: char where "quote_mark = CHR 0x27"

definition flush_word :: "string \<Rightarrow> string list \<Rightarrow> string list" where
  "flush_word cur ts = (if cur = [] then ts else cur # ts)"

fun sql_lex :: "string \<Rightarrow> string \<Rightarrow> string list"
and sql_literal :: "string \<Rightarrow> string \<Rightarrow> string list" where
  "sql_lex cur [] = flush_word cur []"
| "sql_lex cur (c # s) =
     (if sql_word c then sql_lex (cur @ [c]) s
      else flush_word cur
             (if sql_space c then sql_lex [] s
              else if c = quote_mark then sql_literal [c] s
              else [c] # sql_lex [] s))"
| "sql_literal cur [] = [cur]"
| "sql_literal cur (c # s) =
     (if c = quote_mark then (cur @ [c]) # sql_lex [] s else sql_literal (cur @ [c]) s)"

definition sql_tokens :: "string \<Rightarrow> string list" where
  "sql_tokens s = sql_lex [] s"

text \<open>A comment runs from two dashes outside a literal to the end of the line.\<close>

primrec uncomment_from :: "bool \<Rightarrow> bool \<Rightarrow> string \<Rightarrow> string" where
  "uncomment_from quoted comment [] = []"
| "uncomment_from quoted comment (c # s) =
     (if comment then (if c = CHR 0x0A then c # uncomment_from False False s else uncomment_from False True s)
      else if c = quote_mark then c # uncomment_from (\<not> quoted) False s
      else if \<not> quoted \<and> c = CHR ''-'' \<and> take 1 s = ''-'' then uncomment_from False True s
      else c # uncomment_from quoted False s)"

definition uncomment :: "string \<Rightarrow> string" where
  "uncomment s = uncomment_from False False s"

section \<open>Statements\<close>

text \<open>The limit and the offset of a selection are parameters. A column may carry the alias of its table; \<open>EXCLUDED.c\<close> is the value proposed for insertion.\<close>

datatype sexp = Par nat | Col string | Now | Str string | Concat sexp sexp | CastText sexp

datatype cond = Eq sexp sexp | Lt sexp sexp | Gt sexp sexp | IsNull sexp | IsTrue sexp
  | Like sexp sexp | AndC cond cond | OrC cond cond | Paren cond
  | InSel string string tab cond | EqSel string string tab cond | NotExists tab string cond

datatype conflict = NoConflict | DoNothing "string list" | DoUpdate "string list" "string list"

datatype stmt =
    Insert tab "string list" "sexp list" conflict
  | InsertSel tab "string list" "sexp list" tab cond conflict
  | Update tab "(string \<times> sexp) list" cond
  | Delete tab string cond
  | Select "string list" tab cond "string option" "(nat \<times> nat) option"
  | Count tab cond
  | Exists tab cond
  | SelectJoin string tab string tab string cond cond
  | ExistsJoin tab string tab string cond cond

fun comma_sep :: "string list list \<Rightarrow> string list" where
  "comma_sep [] = []"
| "comma_sep [ts] = ts"
| "comma_sep (ts # us # rest) = ts @ '','' # comma_sep (us # rest)"

definition parens :: "string list \<Rightarrow> string list" where
  "parens ts = [''(''] @ ts @ ['')'']"

primrec sexp_tokens :: "sexp \<Rightarrow> string list" where
  "sexp_tokens (Par k) = [''$'' @ nat_dec k]"
| "sexp_tokens (Col c) = [c]"
| "sexp_tokens Now = [''now'', ''('', '')'']"
| "sexp_tokens (Str s) = [[quote_mark] @ s @ [quote_mark]]"
| "sexp_tokens (Concat a b) = sexp_tokens a @ [''|'', ''|''] @ sexp_tokens b"
| "sexp_tokens (CastText a) = sexp_tokens a @ ['':'', '':'', ''text'']"

primrec cond_tokens :: "naming \<Rightarrow> cond \<Rightarrow> string list" where
  "cond_tokens n (Eq a b) = sexp_tokens a @ [''=''] @ sexp_tokens b"
| "cond_tokens n (Lt a b) = sexp_tokens a @ [''<''] @ sexp_tokens b"
| "cond_tokens n (Gt a b) = sexp_tokens a @ [''>''] @ sexp_tokens b"
| "cond_tokens n (IsNull a) = sexp_tokens a @ [''IS'', ''NULL'']"
| "cond_tokens n (IsTrue a) = sexp_tokens a"
| "cond_tokens n (Like a b) = sexp_tokens a @ [''LIKE''] @ sexp_tokens b"
| "cond_tokens n (AndC a b) = cond_tokens n a @ [''AND''] @ cond_tokens n b"
| "cond_tokens n (OrC a b) = cond_tokens n a @ [''OR''] @ cond_tokens n b"
| "cond_tokens n (Paren a) = parens (cond_tokens n a)"
| "cond_tokens n (InSel c d t a) =
     [c, ''IN''] @ parens ([''SELECT'', d, ''FROM'', tab_name n t, ''WHERE''] @ cond_tokens n a)"
| "cond_tokens n (EqSel c d t a) =
     [c, ''=''] @ parens ([''SELECT'', d, ''FROM'', tab_name n t, ''WHERE''] @ cond_tokens n a)"
| "cond_tokens n (NotExists t al a) =
     [''NOT'', ''EXISTS''] @ parens ([''SELECT'', ''1'', ''FROM'', tab_name n t, al, ''WHERE''] @ cond_tokens n a)"

definition column_list :: "string list \<Rightarrow> string list" where
  "column_list cs = comma_sep (map (\<lambda>c. [c]) cs)"

primrec conflict_tokens :: "conflict \<Rightarrow> string list" where
  "conflict_tokens NoConflict = []"
| "conflict_tokens (DoNothing ks) = [''ON'', ''CONFLICT''] @ parens (column_list ks) @ [''DO'', ''NOTHING'']"
| "conflict_tokens (DoUpdate ks cs) =
     [''ON'', ''CONFLICT''] @ parens (column_list ks) @ [''DO'', ''UPDATE'', ''SET''] @
     comma_sep (map (\<lambda>c. [c, ''='', ''EXCLUDED.'' @ c]) cs)"

primrec stmt_tokens :: "naming \<Rightarrow> stmt \<Rightarrow> string list" where
  "stmt_tokens n (Insert t cs es cf) =
     [''INSERT'', ''INTO'', tab_name n t] @ parens (column_list cs) @ [''VALUES''] @
     parens (comma_sep (map sexp_tokens es)) @ conflict_tokens cf"
| "stmt_tokens n (InsertSel t cs es t' a cf) =
     [''INSERT'', ''INTO'', tab_name n t] @ parens (column_list cs) @ [''SELECT''] @
     comma_sep (map sexp_tokens es) @ [''FROM'', tab_name n t', ''WHERE''] @ cond_tokens n a @ conflict_tokens cf"
| "stmt_tokens n (Update t asg a) =
     [''UPDATE'', tab_name n t, ''SET''] @ comma_sep (map (\<lambda>(c, e). [c, ''=''] @ sexp_tokens e) asg) @
     [''WHERE''] @ cond_tokens n a"
| "stmt_tokens n (Delete t al a) =
     [''DELETE'', ''FROM'', tab_name n t] @ (if al = [] then [] else [al]) @ [''WHERE''] @ cond_tokens n a"
| "stmt_tokens n (Select cs t a ord lim) =
     [''SELECT''] @ column_list cs @ [''FROM'', tab_name n t, ''WHERE''] @ cond_tokens n a @
     (case ord of None \<Rightarrow> [] | Some c \<Rightarrow> [''ORDER'', ''BY'', c]) @
     (case lim of None \<Rightarrow> [] | Some (k, j) \<Rightarrow> [''LIMIT'', ''$'' @ nat_dec k, ''OFFSET'', ''$'' @ nat_dec j])"
| "stmt_tokens n (Count t a) =
     [''SELECT'', ''count'', ''('', ''*'', '')'', ''FROM'', tab_name n t, ''WHERE''] @ cond_tokens n a"
| "stmt_tokens n (Exists t a) =
     [''SELECT'', ''EXISTS''] @ parens ([''SELECT'', ''1'', ''FROM'', tab_name n t, ''WHERE''] @ cond_tokens n a)"
| "stmt_tokens n (SelectJoin c t al t' al' on a) =
     [''SELECT'', c, ''FROM'', tab_name n t, al, ''JOIN'', tab_name n t', al', ''ON''] @ cond_tokens n on @
     [''WHERE''] @ cond_tokens n a"
| "stmt_tokens n (ExistsJoin t al t' al' on a) =
     [''SELECT'', ''EXISTS''] @ parens ([''SELECT'', ''1'', ''FROM'', tab_name n t, al, ''JOIN'', tab_name n t', al', ''ON''] @
     cond_tokens n on @ [''WHERE''] @ cond_tokens n a)"

section \<open>Names in the text\<close>

text \<open>A table name that \<open>Validate\<close> accepted is one word, so it cannot change how the rest is read.\<close>

lemma lex_word: "list_all sql_word nm \<Longrightarrow> sql_lex cur (nm @ s) = sql_lex (cur @ nm) s"
  by (induction nm arbitrary: cur) auto

definition names_ok :: "naming \<Rightarrow> bool" where
  "names_ok n \<longleftrightarrow> (nm_Schema n = [] \<or> isValidIdentifier (nm_Schema n)) \<and>
     (\<forall>t. isValidIdentifier (tab_base (nm_Tables n) t))"

lemma tab_name_word:
  assumes "names_ok n"
  shows "list_all sql_word (tab_name n t) \<and> tab_name n t \<noteq> []"
proof -
  have *: "isValidIdentifier s \<Longrightarrow> list_all sql_word s \<and> s \<noteq> []" for s
    by (auto simp: isValidIdentifier_iff plain_ident_def sql_word_def list_all_iff)
  have "list_all sql_word (tab_base (nm_Tables n) t) \<and> tab_base (nm_Tables n) t \<noteq> []"
    and "nm_Schema n \<noteq> [] \<Longrightarrow> list_all sql_word (nm_Schema n)"
    using assms * unfolding names_ok_def by blast+
  then show ?thesis by (auto simp: tab_name_def Naming_Qualify_def sql_word_def)
qed

lemma lex_tab_name:
  assumes "names_ok n"
  shows "sql_lex [] (tab_name n t @ s) = sql_lex (tab_name n t) s"
  using lex_word [of "tab_name n t" "[]" s] tab_name_word [OF assms, of t] by simp

lemma flush_tab_name: "names_ok n \<Longrightarrow> flush_word (tab_name n t) ts = tab_name n t # ts"
  using tab_name_word [of n t] by (simp add: flush_word_def)

lemma flush_word_simps: "flush_word [] ts = ts" "flush_word (c # cs) ts = (c # cs) # ts"
  by (simp_all add: flush_word_def)

lemma param_digits:
  "nat_dec 1 = ''1''" "nat_dec (Suc 0) = ''1''" "nat_dec 2 = ''2''" "nat_dec 3 = ''3''" "nat_dec 4 = ''4''" "nat_dec 5 = ''5''"
  "nat_dec 6 = ''6''" "nat_dec 7 = ''7''" "nat_dec 8 = ''8''" "nat_dec 9 = ''9''"
  "nat_dec 10 = ''10''" "nat_dec 11 = ''11''" "nat_dec 12 = ''12''" "nat_dec 13 = ''13''"
  "nat_dec 14 = ''14''" "nat_dec 15 = ''15''" "nat_dec 16 = ''16''" "nat_dec 17 = ''17''" "nat_dec 18 = ''18''"
  by code_simp+

text \<open>The lexer's steps as rewrite rules, so that simplification reads a text whose table names
  are arbitrary without unfolding the character classes.\<close>

lemma word_chars:
  "sql_word (CHR ''a'')" "sql_word (CHR ''b'')" "sql_word (CHR ''c'')" "sql_word (CHR ''d'')" "sql_word (CHR ''e'')" "sql_word (CHR ''f'')"
  "sql_word (CHR ''g'')" "sql_word (CHR ''h'')" "sql_word (CHR ''i'')" "sql_word (CHR ''j'')" "sql_word (CHR ''k'')" "sql_word (CHR ''l'')"
  "sql_word (CHR ''m'')" "sql_word (CHR ''n'')" "sql_word (CHR ''o'')" "sql_word (CHR ''p'')" "sql_word (CHR ''q'')" "sql_word (CHR ''r'')"
  "sql_word (CHR ''s'')" "sql_word (CHR ''t'')" "sql_word (CHR ''u'')" "sql_word (CHR ''v'')" "sql_word (CHR ''w'')" "sql_word (CHR ''x'')"
  "sql_word (CHR ''y'')" "sql_word (CHR ''z'')" "sql_word (CHR ''A'')" "sql_word (CHR ''B'')" "sql_word (CHR ''C'')" "sql_word (CHR ''D'')"
  "sql_word (CHR ''E'')" "sql_word (CHR ''F'')" "sql_word (CHR ''G'')" "sql_word (CHR ''H'')" "sql_word (CHR ''I'')" "sql_word (CHR ''J'')"
  "sql_word (CHR ''K'')" "sql_word (CHR ''L'')" "sql_word (CHR ''M'')" "sql_word (CHR ''N'')" "sql_word (CHR ''O'')" "sql_word (CHR ''P'')"
  "sql_word (CHR ''Q'')" "sql_word (CHR ''R'')" "sql_word (CHR ''S'')" "sql_word (CHR ''T'')" "sql_word (CHR ''U'')" "sql_word (CHR ''V'')"
  "sql_word (CHR ''W'')" "sql_word (CHR ''X'')" "sql_word (CHR ''Y'')" "sql_word (CHR ''Z'')" "sql_word (CHR ''0'')" "sql_word (CHR ''1'')"
  "sql_word (CHR ''2'')" "sql_word (CHR ''3'')" "sql_word (CHR ''4'')" "sql_word (CHR ''5'')" "sql_word (CHR ''6'')" "sql_word (CHR ''7'')"
  "sql_word (CHR ''8'')" "sql_word (CHR ''9'')" "sql_word (CHR ''_'')" "sql_word (CHR ''.'')" "sql_word (CHR ''$'')"
  by code_simp+

lemma sign_chars:
  "\<not> sql_word (CHR ''('')" "\<not> sql_space (CHR ''('')" "CHR ''('' \<noteq> quote_mark"
  "\<not> sql_word (CHR '')'')" "\<not> sql_space (CHR '')'')" "CHR '')'' \<noteq> quote_mark"
  "\<not> sql_word (CHR ''='')" "\<not> sql_space (CHR ''='')" "CHR ''='' \<noteq> quote_mark"
  "\<not> sql_word (CHR ''<'')" "\<not> sql_space (CHR ''<'')" "CHR ''<'' \<noteq> quote_mark"
  "\<not> sql_word (CHR ''>'')" "\<not> sql_space (CHR ''>'')" "CHR ''>'' \<noteq> quote_mark"
  "\<not> sql_word (CHR ''|'')" "\<not> sql_space (CHR ''|'')" "CHR ''|'' \<noteq> quote_mark"
  "\<not> sql_word (CHR '','')" "\<not> sql_space (CHR '','')" "CHR '','' \<noteq> quote_mark"
  "\<not> sql_word (CHR '';'')" "\<not> sql_space (CHR '';'')" "CHR '';'' \<noteq> quote_mark"
  "\<not> sql_word (CHR '':'')" "\<not> sql_space (CHR '':'')" "CHR '':'' \<noteq> quote_mark"
  "\<not> sql_word (CHR ''*'')" "\<not> sql_space (CHR ''*'')" "CHR ''*'' \<noteq> quote_mark"
  by code_simp+

lemma space_chars: "sql_space (CHR '' '')" "sql_space (CHR 0x0A)" "sql_space (CHR 0x09)"
  "\<not> sql_word (CHR '' '')" "\<not> sql_word (CHR 0x0A)" "\<not> sql_word (CHR 0x09)"
  by code_simp+

lemma quote_chars: "\<not> sql_word (CHR 0x27)" "\<not> sql_space (CHR 0x27)" "CHR 0x27 = quote_mark"
  by code_simp+

lemma lex_steps:
  "sql_word c \<Longrightarrow> sql_lex cur (c # s) = sql_lex (cur @ [c]) s"
  "\<not> sql_word c \<Longrightarrow> sql_space c \<Longrightarrow> sql_lex cur (c # s) = flush_word cur (sql_lex [] s)"
  "\<not> sql_word c \<Longrightarrow> \<not> sql_space c \<Longrightarrow> c \<noteq> quote_mark \<Longrightarrow> sql_lex cur (c # s) = flush_word cur ([c] # sql_lex [] s)"
  "\<not> sql_word c \<Longrightarrow> \<not> sql_space c \<Longrightarrow> c = quote_mark \<Longrightarrow> sql_lex cur (c # s) = flush_word cur (sql_literal [c] s)"
  by simp_all

declare sql_lex.simps(2) [simp del]

definition nl :: string where "nl = [CHR 0x0A]"
definition nl_tab :: string where "nl_tab = [CHR 0x0A, CHR 0x09]"
definition nl_tabs :: string where "nl_tabs = [CHR 0x0A, CHR 0x09, CHR 0x09, CHR 0x09]"

lemmas read_simps = nl_def nl_tab_def nl_tabs_def sql_tokens_def lex_tab_name flush_tab_name flush_word_simps param_digits
  lex_steps word_chars sign_chars space_chars quote_chars(1,2) quote_mark_def parens_def column_list_def

end
