(* ===== verification/Pgx_Migrate.thy ===== *)
theory Pgx_Migrate
  imports Sql
begin

text \<open>
  The schema that \<open>stores/pgxstore/migrate.go\<close> creates: its columns, keys, references and indexes as
  data, the DDL text that \<open>buildDDL\<close> composes, and the proof that the text, read token by token,
  declares exactly that data under every layout that \<open>Validate\<close> accepts. The options of
  \<open>pgxstore.go\<close> that choose the layout are functions on \<^typ>\<open>naming\<close>.
\<close>

section \<open>Layout options\<close>

type_synonym pgx_option = "naming \<Rightarrow> naming"

definition WithSchema :: "string \<Rightarrow> pgx_option" where
  "WithSchema schema n = n\<lparr>nm_Schema := schema\<rparr>"

definition WithTablePrefix :: "string \<Rightarrow> pgx_option" where
  "WithTablePrefix p n = n\<lparr>nm_Tables := TableNames_WithPrefix p (nm_Tables n)\<rparr>"

definition WithTableNames :: "tableNames \<Rightarrow> pgx_option" where
  "WithTableNames t n = n\<lparr>nm_Tables := t\<rparr>"

definition WithNaming :: "naming \<Rightarrow> pgx_option" where
  "WithNaming nm n = nm"

definition resolve :: "pgx_option list \<Rightarrow> naming" where
  "resolve opts = fold (\<lambda>f n. f n) opts DefaultNaming"

section \<open>The schema as data\<close>

datatype ctype = Varchar nat | TextType | Boolean | Integer | Timestamptz | Jsonb | Bigserial

text \<open>\<open>Ref\<close> is \<open>NOT NULL REFERENCES t(id) ON DELETE CASCADE\<close>.\<close>

datatype cflag = Nullable | NotNull | Primary | Ref tab

datatype dflt = NoDefault | DText string | DFalse | DZero | DJson string | DNow

type_synonym coldef = "string \<times> ctype \<times> cflag \<times> dflt"

primrec columns :: "tab \<Rightarrow> coldef list" where
  "columns Users =
    [(''id'', Varchar 36, Primary, NoDefault), (''user_name'', Varchar 256, NotNull, DText ''''),
     (''normalized_user_name'', Varchar 256, NotNull, DText ''''), (''email'', Varchar 256, NotNull, DText ''''),
     (''normalized_email'', Varchar 256, NotNull, DText ''''), (''email_confirmed'', Boolean, NotNull, DFalse),
     (''password_hash'', Varchar 256, NotNull, DText ''''), (''security_stamp'', Varchar 64, NotNull, DText ''''),
     (''concurrency_stamp'', Varchar 64, NotNull, DText ''''), (''phone_number'', Varchar 32, NotNull, DText ''''),
     (''phone_number_confirmed'', Boolean, NotNull, DFalse), (''two_factor_enabled'', Boolean, NotNull, DFalse),
     (''lockout_end'', Timestamptz, Nullable, NoDefault), (''lockout_enabled'', Boolean, NotNull, DFalse),
     (''access_failed_count'', Integer, NotNull, DZero), (''attributes'', Jsonb, NotNull, DJson ''{}''),
     (''is_anonymous'', Boolean, NotNull, DFalse), (''created_at'', Timestamptz, NotNull, DNow),
     (''updated_at'', Timestamptz, NotNull, DNow)]"
| "columns Roles =
    [(''id'', Varchar 36, Primary, NoDefault), (''name'', Varchar 256, NotNull, DText ''''),
     (''normalized_name'', Varchar 256, NotNull, DText ''''),
     (''concurrency_stamp'', Varchar 64, NotNull, DText '''')]"
| "columns UserRoles =
    [(''user_id'', Varchar 36, Ref Users, NoDefault), (''role_id'', Varchar 36, Ref Roles, NoDefault)]"
| "columns UserClaims =
    [(''id'', Bigserial, Primary, NoDefault), (''user_id'', Varchar 36, Ref Users, NoDefault),
     (''claim_type'', Varchar 256, NotNull, DText ''''), (''claim_value'', Varchar 256, NotNull, DText '''')]"
| "columns RoleClaims =
    [(''id'', Bigserial, Primary, NoDefault), (''role_id'', Varchar 36, Ref Roles, NoDefault),
     (''claim_type'', Varchar 256, NotNull, DText ''''), (''claim_value'', Varchar 256, NotNull, DText '''')]"
| "columns UserLogins =
    [(''login_provider'', Varchar 128, NotNull, NoDefault), (''provider_key'', Varchar 128, NotNull, NoDefault),
     (''provider_display_name'', Varchar 128, NotNull, DText ''''), (''user_id'', Varchar 36, Ref Users, NoDefault)]"
| "columns UserTokens =
    [(''user_id'', Varchar 36, Ref Users, NoDefault), (''login_provider'', Varchar 128, NotNull, NoDefault),
     (''name'', Varchar 128, NotNull, NoDefault), (''value'', TextType, NotNull, DText '''')]"
| "columns APIKeys =
    [(''id'', Varchar 36, Primary, NoDefault), (''user_id'', Varchar 36, Ref Users, NoDefault),
     (''name'', Varchar 256, NotNull, DText ''''), (''prefix'', Varchar 32, NotNull, DText ''''),
     (''key_hash'', Varchar 128, NotNull, NoDefault), (''scopes'', Jsonb, NotNull, DJson ''[]''),
     (''expires_at'', Timestamptz, Nullable, NoDefault), (''last_used_at'', Timestamptz, Nullable, NoDefault),
     (''revoked_at'', Timestamptz, Nullable, NoDefault), (''created_at'', Timestamptz, NotNull, DNow)]"
| "columns RefreshTokens =
    [(''session_id'', Varchar 36, Primary, NoDefault), (''user_id'', Varchar 36, Ref Users, NoDefault),
     (''token_hash'', Varchar 128, NotNull, NoDefault), (''name'', Varchar 256, NotNull, DText ''''),
     (''expires_at'', Timestamptz, NotNull, NoDefault), (''created_at'', Timestamptz, NotNull, DNow),
     (''last_used_at'', Timestamptz, Nullable, NoDefault)]"
| "columns OAuthClients =
    [(''client_id'', Varchar 512, Primary, NoDefault), (''secret_hash'', Varchar 128, NotNull, DText ''''),
     (''name'', Varchar 256, NotNull, DText ''''), (''redirect_uris'', TextType, NotNull, DText ''[]''),
     (''token_endpoint_auth_method'', Varchar 32, NotNull, DText ''''),
     (''grant_types'', TextType, NotNull, DText ''[]''), (''created_at'', Timestamptz, NotNull, DNow),
     (''last_used_at'', Timestamptz, Nullable, NoDefault)]"
| "columns OAuthCodes =
    [(''code_hash'', Varchar 128, Primary, NoDefault), (''client_id'', Varchar 512, NotNull, NoDefault),
     (''user_id'', Varchar 36, Ref Users, NoDefault), (''redirect_uri'', TextType, NotNull, NoDefault),
     (''scopes'', TextType, NotNull, DText ''''), (''resource'', TextType, NotNull, DText ''''),
     (''code_challenge'', Varchar 128, NotNull, NoDefault), (''expires_at'', Timestamptz, NotNull, NoDefault),
     (''used_at'', Timestamptz, Nullable, NoDefault), (''grant_id'', Varchar 36, NotNull, DText '''')]"
| "columns OAuthConsents =
    [(''user_id'', Varchar 36, Ref Users, NoDefault), (''client_id'', Varchar 512, NotNull, NoDefault),
     (''scopes'', TextType, NotNull, DText ''''), (''created_at'', Timestamptz, NotNull, DNow),
     (''updated_at'', Timestamptz, NotNull, DNow)]"
| "columns OAuthGrants =
    [(''id'', Varchar 36, Primary, NoDefault), (''user_id'', Varchar 36, Ref Users, NoDefault),
     (''client_id'', Varchar 512, NotNull, NoDefault), (''scopes'', TextType, NotNull, DText ''''),
     (''resource'', TextType, NotNull, DText ''''), (''token_hash'', Varchar 128, NotNull, DText ''''),
     (''prev_token_hash'', Varchar 128, NotNull, DText ''''), (''security_stamp'', Varchar 64, NotNull, DText ''''),
     (''expires_at'', Timestamptz, NotNull, NoDefault), (''created_at'', Timestamptz, NotNull, DNow),
     (''last_used_at'', Timestamptz, Nullable, NoDefault)]"
| "columns OAuthAssertions =
    [(''client_id'', Varchar 512, NotNull, NoDefault), (''jti'', Varchar 256, NotNull, NoDefault),
     (''expires_at'', Timestamptz, NotNull, NoDefault)]"

text \<open>Primary keys of several columns.\<close>

primrec primary :: "tab \<Rightarrow> string list" where
  "primary Users = []"
| "primary Roles = []"
| "primary UserRoles = [''user_id'', ''role_id'']"
| "primary UserClaims = []"
| "primary RoleClaims = []"
| "primary UserLogins = [''login_provider'', ''provider_key'']"
| "primary UserTokens = [''user_id'', ''login_provider'', ''name'']"
| "primary APIKeys = []"
| "primary RefreshTokens = []"
| "primary OAuthClients = []"
| "primary OAuthCodes = []"
| "primary OAuthConsents = [''user_id'', ''client_id'']"
| "primary OAuthGrants = []"
| "primary OAuthAssertions = [''client_id'', ''jti'']"

text \<open>Indexes: whether unique, the suffix of the name, the column, whether only over the guests.\<close>

primrec indexes :: "tab \<Rightarrow> (bool \<times> string \<times> string \<times> bool) list" where
  "indexes Users = [(True, ''uname'', ''normalized_user_name'', False), (False, ''email'', ''normalized_email'', False), (False, ''guest'', ''created_at'', True)]"
| "indexes Roles = [(True, ''name'', ''normalized_name'', False)]"
| "indexes UserRoles = []"
| "indexes UserClaims = [(False, ''user'', ''user_id'', False)]"
| "indexes RoleClaims = [(False, ''role'', ''role_id'', False)]"
| "indexes UserLogins = [(False, ''user'', ''user_id'', False)]"
| "indexes UserTokens = []"
| "indexes APIKeys = [(True, ''hash'', ''key_hash'', False), (False, ''user'', ''user_id'', False)]"
| "indexes RefreshTokens = [(True, ''hash'', ''token_hash'', False), (False, ''user'', ''user_id'', False), (False, ''exp'', ''expires_at'', False)]"
| "indexes OAuthClients = []"
| "indexes OAuthCodes = [(False, ''user'', ''user_id'', False), (False, ''exp'', ''expires_at'', False)]"
| "indexes OAuthConsents = []"
| "indexes OAuthGrants = [(False, ''user'', ''user_id'', False), (False, ''client'', ''client_id'', False), (False, ''exp'', ''expires_at'', False)]"
| "indexes OAuthAssertions = [(False, ''exp'', ''expires_at'', False)]"

section \<open>The text\<close>

definition ix :: "string \<Rightarrow> string \<Rightarrow> string \<Rightarrow> string" where
  "ix pre base suf = pre @ ''_'' @ base @ ''_'' @ suf"

definition ddl_Users :: "naming \<Rightarrow> string" where
  "ddl_Users n =
     ''CREATE TABLE IF NOT EXISTS '' @ tab_name n Users @ '' ('' @ nl_tab @
     ''id                     varchar(36) PRIMARY KEY,'' @ nl_tab @
     ''user_name              varchar(256) NOT NULL DEFAULT '' @ [quote_mark] @ [quote_mark] @ '','' @ nl_tab @
     ''normalized_user_name   varchar(256) NOT NULL DEFAULT '' @ [quote_mark] @ [quote_mark] @ '','' @ nl_tab @
     ''email                  varchar(256) NOT NULL DEFAULT '' @ [quote_mark] @ [quote_mark] @ '','' @ nl_tab @
     ''normalized_email       varchar(256) NOT NULL DEFAULT '' @ [quote_mark] @ [quote_mark] @ '','' @ nl_tab @
     ''email_confirmed        boolean      NOT NULL DEFAULT false,'' @ nl_tab @
     ''password_hash          varchar(256) NOT NULL DEFAULT '' @ [quote_mark] @ [quote_mark] @ '','' @ nl_tab @
     ''security_stamp         varchar(64)  NOT NULL DEFAULT '' @ [quote_mark] @ [quote_mark] @ '','' @ nl_tab @
     ''concurrency_stamp      varchar(64)  NOT NULL DEFAULT '' @ [quote_mark] @ [quote_mark] @ '','' @ nl_tab @
     ''phone_number           varchar(32)  NOT NULL DEFAULT '' @ [quote_mark] @ [quote_mark] @ '','' @ nl_tab @
     ''phone_number_confirmed boolean      NOT NULL DEFAULT false,'' @ nl_tab @
     ''two_factor_enabled     boolean      NOT NULL DEFAULT false,'' @ nl_tab @
     ''lockout_end            timestamptz,'' @ nl_tab @
     ''lockout_enabled        boolean      NOT NULL DEFAULT false,'' @ nl_tab @
     ''access_failed_count    integer      NOT NULL DEFAULT 0,'' @ nl_tab @
     ''attributes             jsonb        NOT NULL DEFAULT '' @ [quote_mark] @ ''{}'' @ [quote_mark] @ ''::jsonb,'' @
     nl_tab @ ''is_anonymous           boolean      NOT NULL DEFAULT false,'' @ nl_tab @
     ''created_at             timestamptz  NOT NULL DEFAULT now(),'' @ nl_tab @
     ''updated_at             timestamptz  NOT NULL DEFAULT now()'' @ nl @ '');'' @ nl @
     ''CREATE UNIQUE INDEX IF NOT EXISTS '' @ ix ''ux'' (tab_base (nm_Tables n) Users) ''uname'' @ '' ON '' @
     tab_name n Users @ '' (normalized_user_name);'' @ nl @ ''CREATE INDEX IF NOT EXISTS '' @
     ix ''ix'' (tab_base (nm_Tables n) Users) ''email'' @ '' ON '' @ tab_name n Users @ '' (normalized_email);'' @ nl @
     ''CREATE INDEX IF NOT EXISTS '' @ ix ''ix'' (tab_base (nm_Tables n) Users) ''guest'' @ '' ON '' @
     tab_name n Users @ '' (created_at) WHERE is_anonymous;'' @ nl"

definition ddl_Roles :: "naming \<Rightarrow> string" where
  "ddl_Roles n =
     ''CREATE TABLE IF NOT EXISTS '' @ tab_name n Roles @ '' ('' @ nl_tab @
     ''id                varchar(36) PRIMARY KEY,'' @ nl_tab @ ''name              varchar(256) NOT NULL DEFAULT '' @
     [quote_mark] @ [quote_mark] @ '','' @ nl_tab @ ''normalized_name   varchar(256) NOT NULL DEFAULT '' @
     [quote_mark] @ [quote_mark] @ '','' @ nl_tab @ ''concurrency_stamp varchar(64)  NOT NULL DEFAULT '' @
     [quote_mark] @ [quote_mark] @ nl @ '');'' @ nl @ ''CREATE UNIQUE INDEX IF NOT EXISTS '' @
     ix ''ux'' (tab_base (nm_Tables n) Roles) ''name'' @ '' ON '' @ tab_name n Roles @ '' (normalized_name);'' @ nl"

definition ddl_UserRoles :: "naming \<Rightarrow> string" where
  "ddl_UserRoles n =
     ''CREATE TABLE IF NOT EXISTS '' @ tab_name n UserRoles @ '' ('' @ nl_tab @
     ''user_id varchar(36) NOT NULL REFERENCES '' @ tab_name n Users @ ''(id) ON DELETE CASCADE,'' @ nl_tab @
     ''role_id varchar(36) NOT NULL REFERENCES '' @ tab_name n Roles @ ''(id) ON DELETE CASCADE,'' @ nl_tab @
     ''PRIMARY KEY (user_id, role_id)'' @ nl @ '');'' @ nl"

definition ddl_UserClaims :: "naming \<Rightarrow> string" where
  "ddl_UserClaims n =
     ''CREATE TABLE IF NOT EXISTS '' @ tab_name n UserClaims @ '' ('' @ nl_tab @
     ''id          bigserial PRIMARY KEY,'' @ nl_tab @ ''user_id     varchar(36)  NOT NULL REFERENCES '' @
     tab_name n Users @ ''(id) ON DELETE CASCADE,'' @ nl_tab @ ''claim_type  varchar(256) NOT NULL DEFAULT '' @
     [quote_mark] @ [quote_mark] @ '','' @ nl_tab @ ''claim_value varchar(256) NOT NULL DEFAULT '' @ [quote_mark] @
     [quote_mark] @ nl @ '');'' @ nl @ ''CREATE INDEX IF NOT EXISTS '' @
     ix ''ix'' (tab_base (nm_Tables n) UserClaims) ''user'' @ '' ON '' @ tab_name n UserClaims @ '' (user_id);'' @ nl"

definition ddl_RoleClaims :: "naming \<Rightarrow> string" where
  "ddl_RoleClaims n =
     ''CREATE TABLE IF NOT EXISTS '' @ tab_name n RoleClaims @ '' ('' @ nl_tab @
     ''id          bigserial PRIMARY KEY,'' @ nl_tab @ ''role_id     varchar(36)  NOT NULL REFERENCES '' @
     tab_name n Roles @ ''(id) ON DELETE CASCADE,'' @ nl_tab @ ''claim_type  varchar(256) NOT NULL DEFAULT '' @
     [quote_mark] @ [quote_mark] @ '','' @ nl_tab @ ''claim_value varchar(256) NOT NULL DEFAULT '' @ [quote_mark] @
     [quote_mark] @ nl @ '');'' @ nl @ ''CREATE INDEX IF NOT EXISTS '' @
     ix ''ix'' (tab_base (nm_Tables n) RoleClaims) ''role'' @ '' ON '' @ tab_name n RoleClaims @ '' (role_id);'' @ nl"

definition ddl_UserLogins :: "naming \<Rightarrow> string" where
  "ddl_UserLogins n =
     ''CREATE TABLE IF NOT EXISTS '' @ tab_name n UserLogins @ '' ('' @ nl_tab @
     ''login_provider        varchar(128) NOT NULL,'' @ nl_tab @ ''provider_key          varchar(128) NOT NULL,'' @
     nl_tab @ ''provider_display_name varchar(128) NOT NULL DEFAULT '' @ [quote_mark] @ [quote_mark] @ '','' @ nl_tab @
     ''user_id               varchar(36)  NOT NULL REFERENCES '' @ tab_name n Users @ ''(id) ON DELETE CASCADE,'' @
     nl_tab @ ''PRIMARY KEY (login_provider, provider_key)'' @ nl @ '');'' @ nl @ ''CREATE INDEX IF NOT EXISTS '' @
     ix ''ix'' (tab_base (nm_Tables n) UserLogins) ''user'' @ '' ON '' @ tab_name n UserLogins @ '' (user_id);'' @ nl"

definition ddl_UserTokens :: "naming \<Rightarrow> string" where
  "ddl_UserTokens n =
     ''CREATE TABLE IF NOT EXISTS '' @ tab_name n UserTokens @ '' ('' @ nl_tab @
     ''user_id        varchar(36)  NOT NULL REFERENCES '' @ tab_name n Users @ ''(id) ON DELETE CASCADE,'' @ nl_tab @
     ''login_provider varchar(128) NOT NULL,'' @ nl_tab @ ''name           varchar(128) NOT NULL,'' @ nl_tab @
     ''value          text         NOT NULL DEFAULT '' @ [quote_mark] @ [quote_mark] @ '','' @ nl_tab @
     ''PRIMARY KEY (user_id, login_provider, name)'' @ nl @ '');'' @ nl"

definition ddl_APIKeys :: "naming \<Rightarrow> string" where
  "ddl_APIKeys n =
     ''CREATE TABLE IF NOT EXISTS '' @ tab_name n APIKeys @ '' ('' @ nl_tab @
     ''id           varchar(36)  PRIMARY KEY,'' @ nl_tab @ ''user_id      varchar(36)  NOT NULL REFERENCES '' @
     tab_name n Users @ ''(id) ON DELETE CASCADE,'' @ nl_tab @ ''name         varchar(256) NOT NULL DEFAULT '' @
     [quote_mark] @ [quote_mark] @ '','' @ nl_tab @ ''prefix       varchar(32)  NOT NULL DEFAULT '' @ [quote_mark] @
     [quote_mark] @ '','' @ nl_tab @ ''key_hash     varchar(128) NOT NULL,'' @ nl_tab @
     ''scopes       jsonb        NOT NULL DEFAULT '' @ [quote_mark] @ ''[]'' @ [quote_mark] @ ''::jsonb,'' @ nl_tab @
     ''expires_at   timestamptz,'' @ nl_tab @ ''last_used_at timestamptz,'' @ nl_tab @ ''revoked_at   timestamptz,'' @
     nl_tab @ ''created_at   timestamptz  NOT NULL DEFAULT now()'' @ nl @ '');'' @ nl @
     ''CREATE UNIQUE INDEX IF NOT EXISTS '' @ ix ''ux'' (tab_base (nm_Tables n) APIKeys) ''hash'' @ '' ON '' @
     tab_name n APIKeys @ '' (key_hash);'' @ nl @ ''CREATE INDEX IF NOT EXISTS '' @
     ix ''ix'' (tab_base (nm_Tables n) APIKeys) ''user'' @ '' ON '' @ tab_name n APIKeys @ '' (user_id);'' @ nl"

definition ddl_RefreshTokens :: "naming \<Rightarrow> string" where
  "ddl_RefreshTokens n =
     ''CREATE TABLE IF NOT EXISTS '' @ tab_name n RefreshTokens @ '' ('' @ nl_tab @
     ''session_id   varchar(36)  PRIMARY KEY,'' @ nl_tab @ ''user_id      varchar(36)  NOT NULL REFERENCES '' @
     tab_name n Users @ ''(id) ON DELETE CASCADE,'' @ nl_tab @ ''token_hash   varchar(128) NOT NULL,'' @ nl_tab @
     ''name         varchar(256) NOT NULL DEFAULT '' @ [quote_mark] @ [quote_mark] @ '','' @ nl_tab @
     ''expires_at   timestamptz  NOT NULL,'' @ nl_tab @ ''created_at   timestamptz  NOT NULL DEFAULT now(),'' @ nl_tab @
     ''last_used_at timestamptz'' @ nl @ '');'' @ nl @ ''CREATE UNIQUE INDEX IF NOT EXISTS '' @
     ix ''ux'' (tab_base (nm_Tables n) RefreshTokens) ''hash'' @ '' ON '' @ tab_name n RefreshTokens @
     '' (token_hash);'' @ nl @ ''CREATE INDEX IF NOT EXISTS '' @
     ix ''ix'' (tab_base (nm_Tables n) RefreshTokens) ''user'' @ '' ON '' @ tab_name n RefreshTokens @ '' (user_id);'' @
     nl @ ''CREATE INDEX IF NOT EXISTS '' @ ix ''ix'' (tab_base (nm_Tables n) RefreshTokens) ''exp'' @ '' ON '' @
     tab_name n RefreshTokens @ '' (expires_at);'' @ nl"

definition ddl_OAuthClients :: "naming \<Rightarrow> string" where
  "ddl_OAuthClients n =
     ''CREATE TABLE IF NOT EXISTS '' @ tab_name n OAuthClients @ '' ('' @ nl_tab @
     ''client_id                  varchar(512) PRIMARY KEY,'' @ nl_tab @
     ''secret_hash                varchar(128) NOT NULL DEFAULT '' @ [quote_mark] @ [quote_mark] @ '','' @ nl_tab @
     ''name                       varchar(256) NOT NULL DEFAULT '' @ [quote_mark] @ [quote_mark] @ '','' @ nl_tab @
     ''redirect_uris              text         NOT NULL DEFAULT '' @ [quote_mark] @ ''[]'' @ [quote_mark] @ '','' @
     nl_tab @ ''token_endpoint_auth_method varchar(32)  NOT NULL DEFAULT '' @ [quote_mark] @ [quote_mark] @ '','' @
     nl_tab @ ''grant_types                text         NOT NULL DEFAULT '' @ [quote_mark] @ ''[]'' @ [quote_mark] @
     '','' @ nl_tab @ ''created_at                 timestamptz  NOT NULL DEFAULT now(),'' @ nl_tab @
     ''last_used_at               timestamptz'' @ nl @ '');'' @ nl"

definition ddl_OAuthCodes :: "naming \<Rightarrow> string" where
  "ddl_OAuthCodes n =
     ''CREATE TABLE IF NOT EXISTS '' @ tab_name n OAuthCodes @ '' ('' @ nl_tab @
     ''code_hash      varchar(128) PRIMARY KEY,'' @ nl_tab @ ''client_id      varchar(512) NOT NULL,'' @ nl_tab @
     ''user_id        varchar(36)  NOT NULL REFERENCES '' @ tab_name n Users @ ''(id) ON DELETE CASCADE,'' @ nl_tab @
     ''redirect_uri   text         NOT NULL,'' @ nl_tab @ ''scopes         text         NOT NULL DEFAULT '' @
     [quote_mark] @ [quote_mark] @ '','' @ nl_tab @ ''resource       text         NOT NULL DEFAULT '' @ [quote_mark] @
     [quote_mark] @ '','' @ nl_tab @ ''code_challenge varchar(128) NOT NULL,'' @ nl_tab @
     ''expires_at     timestamptz  NOT NULL,'' @ nl_tab @ ''used_at        timestamptz,'' @ nl_tab @
     ''grant_id       varchar(36)  NOT NULL DEFAULT '' @ [quote_mark] @ [quote_mark] @ nl @ '');'' @ nl @
     ''CREATE INDEX IF NOT EXISTS '' @ ix ''ix'' (tab_base (nm_Tables n) OAuthCodes) ''user'' @ '' ON '' @
     tab_name n OAuthCodes @ '' (user_id);'' @ nl @ ''CREATE INDEX IF NOT EXISTS '' @
     ix ''ix'' (tab_base (nm_Tables n) OAuthCodes) ''exp'' @ '' ON '' @ tab_name n OAuthCodes @ '' (expires_at);'' @
     nl"

definition ddl_OAuthConsents :: "naming \<Rightarrow> string" where
  "ddl_OAuthConsents n =
     ''CREATE TABLE IF NOT EXISTS '' @ tab_name n OAuthConsents @ '' ('' @ nl_tab @
     ''user_id    varchar(36)  NOT NULL REFERENCES '' @ tab_name n Users @ ''(id) ON DELETE CASCADE,'' @ nl_tab @
     ''client_id  varchar(512) NOT NULL,'' @ nl_tab @ ''scopes     text         NOT NULL DEFAULT '' @ [quote_mark] @
     [quote_mark] @ '','' @ nl_tab @ ''created_at timestamptz  NOT NULL DEFAULT now(),'' @ nl_tab @
     ''updated_at timestamptz  NOT NULL DEFAULT now(),'' @ nl_tab @ ''PRIMARY KEY (user_id, client_id)'' @ nl @ '');'' @
     nl"

definition ddl_OAuthGrants :: "naming \<Rightarrow> string" where
  "ddl_OAuthGrants n =
     ''CREATE TABLE IF NOT EXISTS '' @ tab_name n OAuthGrants @ '' ('' @ nl_tab @
     ''id              varchar(36)  PRIMARY KEY,'' @ nl_tab @ ''user_id         varchar(36)  NOT NULL REFERENCES '' @
     tab_name n Users @ ''(id) ON DELETE CASCADE,'' @ nl_tab @ ''client_id       varchar(512) NOT NULL,'' @ nl_tab @
     ''scopes          text         NOT NULL DEFAULT '' @ [quote_mark] @ [quote_mark] @ '','' @ nl_tab @
     ''resource        text         NOT NULL DEFAULT '' @ [quote_mark] @ [quote_mark] @ '','' @ nl_tab @
     ''token_hash      varchar(128) NOT NULL DEFAULT '' @ [quote_mark] @ [quote_mark] @ '','' @ nl_tab @
     ''prev_token_hash varchar(128) NOT NULL DEFAULT '' @ [quote_mark] @ [quote_mark] @ '','' @ nl_tab @
     ''security_stamp  varchar(64)  NOT NULL DEFAULT '' @ [quote_mark] @ [quote_mark] @ '','' @ nl_tab @
     ''expires_at      timestamptz  NOT NULL,'' @ nl_tab @ ''created_at      timestamptz  NOT NULL DEFAULT now(),'' @
     nl_tab @ ''last_used_at    timestamptz'' @ nl @ '');'' @ nl @ ''CREATE INDEX IF NOT EXISTS '' @
     ix ''ix'' (tab_base (nm_Tables n) OAuthGrants) ''user'' @ '' ON '' @ tab_name n OAuthGrants @ '' (user_id);'' @
     nl @ ''CREATE INDEX IF NOT EXISTS '' @ ix ''ix'' (tab_base (nm_Tables n) OAuthGrants) ''client'' @ '' ON '' @
     tab_name n OAuthGrants @ '' (client_id);'' @ nl @ ''CREATE INDEX IF NOT EXISTS '' @
     ix ''ix'' (tab_base (nm_Tables n) OAuthGrants) ''exp'' @ '' ON '' @ tab_name n OAuthGrants @ '' (expires_at);'' @
     nl"

definition ddl_OAuthAssertions :: "naming \<Rightarrow> string" where
  "ddl_OAuthAssertions n =
     ''CREATE TABLE IF NOT EXISTS '' @ tab_name n OAuthAssertions @ '' ('' @ nl_tab @
     ''client_id  varchar(512) NOT NULL,'' @ nl_tab @ ''jti        varchar(256) NOT NULL,'' @ nl_tab @
     ''expires_at timestamptz  NOT NULL,'' @ nl_tab @ ''PRIMARY KEY (client_id, jti)'' @ nl @ '');'' @ nl @
     ''CREATE INDEX IF NOT EXISTS '' @ ix ''ix'' (tab_base (nm_Tables n) OAuthAssertions) ''exp'' @ '' ON '' @
     tab_name n OAuthAssertions @ '' (expires_at);'' @ nl"

definition all_tabs :: "tab list" where
  "all_tabs = [Users, Roles, UserRoles, UserClaims, RoleClaims, UserLogins, UserTokens, APIKeys,
     RefreshTokens, OAuthClients, OAuthCodes, OAuthConsents, OAuthGrants, OAuthAssertions]"

definition buildDDL :: "naming \<Rightarrow> string" where
  "buildDDL n =
     (if nm_Schema n \<noteq> [] then ''CREATE SCHEMA IF NOT EXISTS '' @ nm_Schema n @ '';'' @ nl else []) @
     ddl_Users n @ ddl_Roles n @ ddl_UserRoles n @ ddl_UserClaims n @ ddl_RoleClaims n @
     ddl_UserLogins n @ ddl_UserTokens n @ ddl_APIKeys n @ ddl_RefreshTokens n @
     ddl_OAuthClients n @ ddl_OAuthCodes n @ ddl_OAuthConsents n @ ddl_OAuthGrants n @ ddl_OAuthAssertions n"

definition pgx_Migrate ::
  "((string \<times> string) list \<Rightarrow> (string \<times> string) list) \<Rightarrow> (string \<Rightarrow> string) \<Rightarrow> 's pgx \<Rightarrow> pgx_option list
    \<Rightarrow> 's world \<Rightarrow> go_error option \<times> 's world" where
  "pgx_Migrate ord quoted d opts w =
     (let n = resolve opts
      in case Naming_Validate ord quoted n of
           Some (e, _) \<Rightarrow> (Some e, w)
         | None \<Rightarrow>
             (case pg_Exec d (buildDDL n) [] (db w) of
                (Inl e, s) \<Rightarrow> (Some e, w\<lparr>db := s\<rparr>)
              | (Inr _, s) \<Rightarrow> (None, w\<lparr>db := s\<rparr>)))"

section \<open>Reading the text\<close>

primrec type_tokens :: "ctype \<Rightarrow> string list" where
  "type_tokens (Varchar k) = [''varchar'', ''('', nat_dec k, '')'']"
| "type_tokens TextType = [''text'']"
| "type_tokens Boolean = [''boolean'']"
| "type_tokens Integer = [''integer'']"
| "type_tokens Timestamptz = [''timestamptz'']"
| "type_tokens Jsonb = [''jsonb'']"
| "type_tokens Bigserial = [''bigserial'']"

primrec flag_tokens :: "naming \<Rightarrow> cflag \<Rightarrow> string list" where
  "flag_tokens n Nullable = []"
| "flag_tokens n NotNull = [''NOT'', ''NULL'']"
| "flag_tokens n Primary = [''PRIMARY'', ''KEY'']"
| "flag_tokens n (Ref t) =
     [''NOT'', ''NULL'', ''REFERENCES'', tab_name n t, ''('', ''id'', '')'', ''ON'', ''DELETE'', ''CASCADE'']"

primrec dflt_tokens :: "dflt \<Rightarrow> string list" where
  "dflt_tokens NoDefault = []"
| "dflt_tokens (DText s) = [''DEFAULT'', [quote_mark] @ s @ [quote_mark]]"
| "dflt_tokens DFalse = [''DEFAULT'', ''false'']"
| "dflt_tokens DZero = [''DEFAULT'', ''0'']"
| "dflt_tokens (DJson s) = [''DEFAULT'', [quote_mark] @ s @ [quote_mark], '':'', '':'', ''jsonb'']"
| "dflt_tokens DNow = [''DEFAULT'', ''now'', ''('', '')'']"

definition col_tokens :: "naming \<Rightarrow> coldef \<Rightarrow> string list" where
  "col_tokens n = (\<lambda>(c, ty, f, d). [c] @ type_tokens ty @ flag_tokens n f @ dflt_tokens d)"

definition index_tokens :: "naming \<Rightarrow> tab \<Rightarrow> bool \<times> string \<times> string \<times> bool \<Rightarrow> string list" where
  "index_tokens n t = (\<lambda>(uniq, suf, c, guests).
     [''CREATE''] @ (if uniq then [''UNIQUE''] else []) @ [''INDEX'', ''IF'', ''NOT'', ''EXISTS'',
      ix (if uniq then ''ux'' else ''ix'') (tab_base (nm_Tables n) t) suf, ''ON'', tab_name n t] @ parens [c] @
     (if guests then [''WHERE'', ''is_anonymous''] else []) @ ['';''])"

definition table_tokens :: "naming \<Rightarrow> tab \<Rightarrow> string list" where
  "table_tokens n t =
     [''CREATE'', ''TABLE'', ''IF'', ''NOT'', ''EXISTS'', tab_name n t] @
     parens (comma_sep (map (col_tokens n) (columns t) @
       (if primary t = [] then [] else [[''PRIMARY'', ''KEY''] @ parens (column_list (primary t))]))) @ ['';''] @
     concat (map (index_tokens n t) (indexes t))"

lemma ix_word:
  assumes "names_ok n" and "list_all sql_word p" and "list_all sql_word s"
  shows "list_all sql_word (ix p (tab_base (nm_Tables n) t) s) \<and> ix p (tab_base (nm_Tables n) t) s \<noteq> []"
proof -
  have "list_all sql_word (tab_base (nm_Tables n) t)"
    using assms(1) by (auto simp: names_ok_def isValidIdentifier_iff plain_ident_def sql_word_def list_all_iff)
  with assms show ?thesis by (simp add: ix_def word_chars)
qed

lemma lex_ix:
  assumes "names_ok n" and "list_all sql_word p" and "list_all sql_word s"
  shows "sql_lex [] (ix p (tab_base (nm_Tables n) t) s @ r) = sql_lex (ix p (tab_base (nm_Tables n) t) s) r"
  using lex_word [of "ix p (tab_base (nm_Tables n) t) s" "[]" r] ix_word [OF assms] by simp

lemma flush_ix:
  "names_ok n \<Longrightarrow> list_all sql_word p \<Longrightarrow> list_all sql_word s \<Longrightarrow>
   flush_word (ix p (tab_base (nm_Tables n) t) s) ts = ix p (tab_base (nm_Tables n) t) s # ts"
  using ix_word [of n p s t] by (simp add: flush_word_def)

lemma varchar_digits:
  "nat_dec 32 = ''32''" "nat_dec 36 = ''36''" "nat_dec 64 = ''64''" "nat_dec 128 = ''128''"
  "nat_dec 256 = ''256''" "nat_dec 512 = ''512''"
  by code_simp+

lemmas ddl_simps = read_simps lex_ix flush_ix varchar_digits table_tokens_def index_tokens_def col_tokens_def

lemma read_Users: "names_ok n \<Longrightarrow> sql_lex [] (ddl_Users n @ r) = table_tokens n Users @ sql_lex [] r"
  by (simp add: ddl_Users_def ddl_simps)

lemma read_Roles: "names_ok n \<Longrightarrow> sql_lex [] (ddl_Roles n @ r) = table_tokens n Roles @ sql_lex [] r"
  by (simp add: ddl_Roles_def ddl_simps)

lemma read_UserRoles: "names_ok n \<Longrightarrow> sql_lex [] (ddl_UserRoles n @ r) = table_tokens n UserRoles @ sql_lex [] r"
  by (simp add: ddl_UserRoles_def ddl_simps)

lemma read_UserClaims: "names_ok n \<Longrightarrow> sql_lex [] (ddl_UserClaims n @ r) = table_tokens n UserClaims @ sql_lex [] r"
  by (simp add: ddl_UserClaims_def ddl_simps)

lemma read_RoleClaims: "names_ok n \<Longrightarrow> sql_lex [] (ddl_RoleClaims n @ r) = table_tokens n RoleClaims @ sql_lex [] r"
  by (simp add: ddl_RoleClaims_def ddl_simps)

lemma read_UserLogins: "names_ok n \<Longrightarrow> sql_lex [] (ddl_UserLogins n @ r) = table_tokens n UserLogins @ sql_lex [] r"
  by (simp add: ddl_UserLogins_def ddl_simps)

lemma read_UserTokens: "names_ok n \<Longrightarrow> sql_lex [] (ddl_UserTokens n @ r) = table_tokens n UserTokens @ sql_lex [] r"
  by (simp add: ddl_UserTokens_def ddl_simps)

lemma read_APIKeys: "names_ok n \<Longrightarrow> sql_lex [] (ddl_APIKeys n @ r) = table_tokens n APIKeys @ sql_lex [] r"
  by (simp add: ddl_APIKeys_def ddl_simps)

lemma read_RefreshTokens: "names_ok n \<Longrightarrow> sql_lex [] (ddl_RefreshTokens n @ r) = table_tokens n RefreshTokens @ sql_lex [] r"
  by (simp add: ddl_RefreshTokens_def ddl_simps)

lemma read_OAuthClients: "names_ok n \<Longrightarrow> sql_lex [] (ddl_OAuthClients n @ r) = table_tokens n OAuthClients @ sql_lex [] r"
  by (simp add: ddl_OAuthClients_def ddl_simps)

lemma read_OAuthCodes: "names_ok n \<Longrightarrow> sql_lex [] (ddl_OAuthCodes n @ r) = table_tokens n OAuthCodes @ sql_lex [] r"
  by (simp add: ddl_OAuthCodes_def ddl_simps)

lemma read_OAuthConsents: "names_ok n \<Longrightarrow> sql_lex [] (ddl_OAuthConsents n @ r) = table_tokens n OAuthConsents @ sql_lex [] r"
  by (simp add: ddl_OAuthConsents_def ddl_simps)

lemma read_OAuthGrants: "names_ok n \<Longrightarrow> sql_lex [] (ddl_OAuthGrants n @ r) = table_tokens n OAuthGrants @ sql_lex [] r"
  by (simp add: ddl_OAuthGrants_def ddl_simps)

lemma read_OAuthAssertions: "names_ok n \<Longrightarrow> sql_lex [] (ddl_OAuthAssertions n @ r) = table_tokens n OAuthAssertions @ sql_lex [] r"
  by (simp add: ddl_OAuthAssertions_def ddl_simps)

lemma DDL_read:
  assumes "names_ok n"
  shows "sql_tokens (buildDDL n) =
    (if nm_Schema n \<noteq> [] then [''CREATE'', ''SCHEMA'', ''IF'', ''NOT'', ''EXISTS'', nm_Schema n, '';''] else []) @
    concat (map (table_tokens n) all_tabs)"
proof -
  have body: "sql_lex [] (ddl_Users n @ ddl_Roles n @ ddl_UserRoles n @ ddl_UserClaims n @ ddl_RoleClaims n @
     ddl_UserLogins n @ ddl_UserTokens n @ ddl_APIKeys n @ ddl_RefreshTokens n @
     ddl_OAuthClients n @ ddl_OAuthCodes n @ ddl_OAuthConsents n @ ddl_OAuthGrants n @ ddl_OAuthAssertions n)
     = concat (map (table_tokens n) all_tabs)"
    using assms read_OAuthAssertions [OF assms, of "[]"]
    by (simp add: all_tabs_def read_Users read_Roles read_UserRoles read_UserClaims read_RoleClaims read_UserLogins
        read_UserTokens read_APIKeys read_RefreshTokens read_OAuthClients read_OAuthCodes read_OAuthConsents
        read_OAuthGrants flush_word_simps)
  have "list_all sql_word (nm_Schema n)" if "nm_Schema n \<noteq> []"
    using assms that by (auto simp: names_ok_def isValidIdentifier_iff plain_ident_def sql_word_def list_all_iff)
  then have "sql_lex [] (''CREATE SCHEMA IF NOT EXISTS '' @ nm_Schema n @ '';'' @ nl @ r) =
      [''CREATE'', ''SCHEMA'', ''IF'', ''NOT'', ''EXISTS'', nm_Schema n, '';''] @ sql_lex [] r"
    if "nm_Schema n \<noteq> []" for r
    using that lex_word [of "nm_Schema n" "[]"] by (simp add: read_simps flush_word_def)
  with body show ?thesis by (simp add: sql_tokens_def buildDDL_def)
qed

end
