(* ===== verification/Pgx_Queries.thy ===== *)
theory Pgx_Queries
  imports Pgx_Migrate
begin

text \<open>
  The SQL of \<open>stores/pgxstore\<close>: the records of statement texts that the four stores build from a
  layout, the statement each text is meant to be, and the proof that under every layout
  \<open>Validate\<close> accepts each text reads as its statement.
\<close>

section \<open>Column lists and shared fragments\<close>

definition userCols :: string where
  "userCols =
     ''id, user_name, normalized_user_name, email, normalized_email,'' @ nl_tab @
     ''email_confirmed, password_hash, security_stamp, concurrency_stamp,'' @ nl_tab @
     ''phone_number, phone_number_confirmed, two_factor_enabled, lockout_end,'' @ nl_tab @
     ''lockout_enabled, access_failed_count, attributes, is_anonymous, created_at, updated_at''"

definition clientCols :: string where
  "clientCols =
     ''client_id, secret_hash, name, redirect_uris, token_endpoint_auth_method, grant_types, created_at, last_used_at''"

definition codeCols :: string where
  "codeCols =
     ''code_hash, client_id, user_id, redirect_uri, scopes, resource, code_challenge, expires_at, used_at, grant_id''"

definition grantCols :: string where
  "grantCols =
     ''id, user_id, client_id, scopes, resource, token_hash, prev_token_hash, security_stamp, expires_at, created_at, last_used_at''"

definition sessionCols :: string where
  "sessionCols = ''session_id, user_id, token_hash, name, expires_at, created_at, last_used_at''"

definition search_text :: string where
  "search_text =
     ''($1 = '' @ [quote_mark] @ [quote_mark] @ '' OR normalized_user_name LIKE '' @ [quote_mark] @ ''%'' @
     [quote_mark] @ ''||$1||'' @ [quote_mark] @ ''%'' @ [quote_mark] @ '' OR normalized_email LIKE '' @ [quote_mark] @
     ''%'' @ [quote_mark] @ ''||$1||'' @ [quote_mark] @ ''%'' @ [quote_mark] @ '')''"

definition user_columns :: "string list" where
  "user_columns =
    [''id'', ''user_name'', ''normalized_user_name'', ''email'', ''normalized_email'', ''email_confirmed'',
     ''password_hash'', ''security_stamp'', ''concurrency_stamp'', ''phone_number'',
     ''phone_number_confirmed'', ''two_factor_enabled'', ''lockout_end'', ''lockout_enabled'',
     ''access_failed_count'', ''attributes'', ''is_anonymous'', ''created_at'', ''updated_at'']"

definition role_columns :: "string list" where
  "role_columns =
    [''id'', ''name'', ''normalized_name'', ''concurrency_stamp'']"

definition key_columns :: "string list" where
  "key_columns =
    [''id'', ''user_id'', ''name'', ''prefix'', ''key_hash'', ''scopes'', ''expires_at'', ''last_used_at'',
     ''revoked_at'', ''created_at'']"

definition session_columns :: "string list" where
  "session_columns =
    [''session_id'', ''user_id'', ''token_hash'', ''name'', ''expires_at'', ''created_at'', ''last_used_at'']"

definition client_columns :: "string list" where
  "client_columns =
    [''client_id'', ''secret_hash'', ''name'', ''redirect_uris'', ''token_endpoint_auth_method'',
     ''grant_types'', ''created_at'', ''last_used_at'']"

definition code_columns :: "string list" where
  "code_columns =
    [''code_hash'', ''client_id'', ''user_id'', ''redirect_uri'', ''scopes'', ''resource'',
     ''code_challenge'', ''expires_at'', ''used_at'', ''grant_id'']"

definition consent_columns :: "string list" where
  "consent_columns =
    [''user_id'', ''client_id'', ''scopes'', ''created_at'', ''updated_at'']"

definition grant_columns :: "string list" where
  "grant_columns =
    [''id'', ''user_id'', ''client_id'', ''scopes'', ''resource'', ''token_hash'', ''prev_token_hash'',
     ''security_stamp'', ''expires_at'', ''created_at'', ''last_used_at'']"

definition like_arg :: sexp where
  "like_arg = Concat (Str ''%'') (Concat (Par 1) (Str ''%''))"

definition search_cond :: cond where
  "search_cond = Paren (OrC (Eq (Par 1) (Str [])) (OrC (Like (Col ''normalized_user_name'') like_arg)
     (Like (Col ''normalized_email'') like_arg)))"

section \<open>The texts\<close>

record queries =
  q_createUser :: string
  q_updateUser :: string
  q_userExists :: string
  q_deleteUser :: string
  q_findUserByID :: string
  q_findUserByName :: string
  q_findUserByEmail :: string
  q_countUsers :: string
  q_listUsers :: string
  q_purgeAnonymous :: string
  q_addToRole :: string
  q_removeFromRole :: string
  q_getRoles :: string
  q_isInRole :: string
  q_roleExistsByName :: string
  q_usersInRole :: string
  q_usersForClaim :: string
  q_getUserClaims :: string
  q_addUserClaim :: string
  q_removeUserClaim :: string
  q_getToken :: string
  q_setToken :: string
  q_removeToken :: string
  q_addLogin :: string
  q_removeLogin :: string
  q_getLogins :: string
  q_findByLogin :: string
  q_createRole :: string
  q_updateRole :: string
  q_deleteRole :: string
  q_roleExists :: string
  q_findRoleByID :: string
  q_findRoleByName :: string
  q_getRoleClaims :: string
  q_addRoleClaim :: string
  q_removeRoleClaim :: string

definition buildQueries :: "naming \<Rightarrow> queries" where
  "buildQueries n =
    (let U = tab_name n Users; R = tab_name n Roles; UR = tab_name n UserRoles; UC = tab_name n UserClaims;
         RC = tab_name n RoleClaims; UL = tab_name n UserLogins; UT = tab_name n UserTokens;
         where = search_text
     in \<lparr>q_createUser =
         ''INSERT INTO '' @ U @ '' ('' @ userCols @
         '') VALUES ($1,$2,$3,$4,$5,$6,$7,$8,$9,$10,$11,$12,$13,$14,$15,$16,$17, now(), now())'',
       q_updateUser =
         ''UPDATE '' @ U @ '' SET'' @ nl_tabs @
         ''user_name=$2, normalized_user_name=$3, email=$4, normalized_email=$5,'' @ nl_tabs @
         ''email_confirmed=$6, password_hash=$7, security_stamp=$8, concurrency_stamp=$9,'' @ nl_tabs @
         ''phone_number=$10, phone_number_confirmed=$11, two_factor_enabled=$12,'' @ nl_tabs @
         ''lockout_end=$13, lockout_enabled=$14, access_failed_count=$15, attributes=$16,'' @ nl_tabs @
         ''is_anonymous=$17, updated_at=now()'' @ nl_tabs @ ''WHERE id=$1 AND concurrency_stamp=$18'',
       q_userExists =
         ''SELECT EXISTS(SELECT 1 FROM '' @ U @ '' WHERE id=$1)'',
       q_deleteUser =
         ''DELETE FROM '' @ U @ '' WHERE id=$1'',
       q_findUserByID =
         ''SELECT '' @ userCols @ '' FROM '' @ U @ '' WHERE id=$1'',
       q_findUserByName =
         ''SELECT '' @ userCols @ '' FROM '' @ U @ '' WHERE normalized_user_name=$1'',
       q_findUserByEmail =
         ''SELECT '' @ userCols @ '' FROM '' @ U @ '' WHERE normalized_email=$1'',
       q_countUsers =
         ''SELECT count(*) FROM '' @ U @ '' WHERE '' @ where,
       q_listUsers =
         ''SELECT '' @ userCols @ '' FROM '' @ U @ '' WHERE '' @ where @ '' ORDER BY id LIMIT $2 OFFSET $3'',
       q_purgeAnonymous =
         ''DELETE FROM '' @ U @ '' WHERE is_anonymous AND created_at < $1'',
       q_addToRole =
         ''INSERT INTO '' @ UR @ '' (user_id, role_id) SELECT $1, id FROM '' @ R @
         '' WHERE normalized_name=$2 ON CONFLICT (user_id, role_id) DO NOTHING'',
       q_removeFromRole =
         ''DELETE FROM '' @ UR @ '' WHERE user_id=$1 AND role_id=(SELECT id FROM '' @ R @
         '' WHERE normalized_name=$2)'',
       q_getRoles =
         ''SELECT r.name FROM '' @ R @ '' r JOIN '' @ UR @ '' ur ON ur.role_id=r.id WHERE ur.user_id=$1'',
       q_isInRole =
         ''SELECT EXISTS(SELECT 1 FROM '' @ UR @ '' ur JOIN '' @ R @
         '' r ON r.id=ur.role_id WHERE ur.user_id=$1 AND r.normalized_name=$2)'',
       q_roleExistsByName =
         ''SELECT EXISTS(SELECT 1 FROM '' @ R @ '' WHERE normalized_name=$1)'',
       q_usersInRole =
         ''SELECT '' @ userCols @ '' FROM '' @ U @ '' WHERE id IN (SELECT user_id FROM '' @ UR @
         '' WHERE role_id=(SELECT id FROM '' @ R @ '' WHERE normalized_name=$1)) ORDER BY id'',
       q_usersForClaim =
         ''SELECT '' @ userCols @ '' FROM '' @ U @ '' WHERE id IN (SELECT user_id FROM '' @ UC @
         '' WHERE claim_type=$1 AND claim_value=$2) ORDER BY id'',
       q_getUserClaims =
         ''SELECT claim_type, claim_value FROM '' @ UC @ '' WHERE user_id=$1'',
       q_addUserClaim =
         ''INSERT INTO '' @ UC @ '' (user_id, claim_type, claim_value) VALUES ($1,$2,$3)'',
       q_removeUserClaim =
         ''DELETE FROM '' @ UC @ '' WHERE user_id=$1 AND claim_type=$2 AND claim_value=$3'',
       q_getToken =
         ''SELECT value FROM '' @ UT @ '' WHERE user_id=$1 AND login_provider=$2 AND name=$3'',
       q_setToken =
         ''INSERT INTO '' @ UT @
         '' (user_id, login_provider, name, value) VALUES ($1,$2,$3,$4) ON CONFLICT (user_id, login_provider, name) DO UPDATE SET value=EXCLUDED.value'',
       q_removeToken =
         ''DELETE FROM '' @ UT @ '' WHERE user_id=$1 AND login_provider=$2 AND name=$3'',
       q_addLogin =
         ''INSERT INTO '' @ UL @
         '' (login_provider, provider_key, provider_display_name, user_id) VALUES ($1,$2,$3,$4)'',
       q_removeLogin =
         ''DELETE FROM '' @ UL @ '' WHERE user_id=$1 AND login_provider=$2 AND provider_key=$3'',
       q_getLogins =
         ''SELECT login_provider, provider_key, provider_display_name FROM '' @ UL @ '' WHERE user_id=$1'',
       q_findByLogin =
         ''SELECT user_id FROM '' @ UL @ '' WHERE login_provider=$1 AND provider_key=$2'',
       q_createRole =
         ''INSERT INTO '' @ R @ '' (id, name, normalized_name, concurrency_stamp) VALUES ($1,$2,$3,$4)'',
       q_updateRole =
         ''UPDATE '' @ R @
         '' SET name=$2, normalized_name=$3, concurrency_stamp=$4 WHERE id=$1 AND concurrency_stamp=$5'',
       q_deleteRole =
         ''DELETE FROM '' @ R @ '' WHERE id=$1'',
       q_roleExists =
         ''SELECT EXISTS(SELECT 1 FROM '' @ R @ '' WHERE id=$1)'',
       q_findRoleByID =
         ''SELECT id, name, normalized_name, concurrency_stamp FROM '' @ R @ '' WHERE id=$1'',
       q_findRoleByName =
         ''SELECT id, name, normalized_name, concurrency_stamp FROM '' @ R @ '' WHERE normalized_name=$1'',
       q_getRoleClaims =
         ''SELECT claim_type, claim_value FROM '' @ RC @ '' WHERE role_id=$1'',
       q_addRoleClaim =
         ''INSERT INTO '' @ RC @ '' (role_id, claim_type, claim_value) VALUES ($1,$2,$3)'',
       q_removeRoleClaim =
         ''DELETE FROM '' @ RC @ '' WHERE role_id=$1 AND claim_type=$2 AND claim_value=$3''\<rparr>)"

record apiKeyQueries =
  ak_create :: string
  ak_getActiveByHash :: string
  ak_listByUser :: string
  ak_revoke :: string
  ak_touch :: string

definition buildAPIKeyQueries :: "naming \<Rightarrow> apiKeyQueries" where
  "buildAPIKeyQueries n =
    (let t = tab_name n APIKeys
     in \<lparr>ak_create =
         ''INSERT INTO '' @ t @ '' (id, user_id, name, prefix, key_hash, scopes, expires_at, created_at)'' @ nl_tabs @
         ''VALUES ($1,$2,$3,$4,$5,$6,$7,$8)'',
       ak_getActiveByHash =
         ''SELECT id, user_id, name, prefix, key_hash, scopes, expires_at, last_used_at, revoked_at, created_at'' @
         nl_tabs @ ''FROM '' @ t @
         '' WHERE key_hash=$1 AND revoked_at IS NULL AND (expires_at IS NULL OR expires_at > now())'',
       ak_listByUser =
         ''SELECT id, user_id, name, prefix, key_hash, scopes, expires_at, last_used_at, revoked_at, created_at'' @
         nl_tabs @ ''FROM '' @ t @ '' WHERE user_id=$1 ORDER BY created_at'',
       ak_revoke =
         ''UPDATE '' @ t @ '' SET revoked_at=now() WHERE id=$1 AND revoked_at IS NULL'',
       ak_touch =
         ''UPDATE '' @ t @ '' SET last_used_at=now() WHERE id=$1''\<rparr>)"

record refreshTokenQueries =
  rq_create :: string
  rq_getBySession :: string
  rq_update :: string
  rq_del :: string
  rq_delByUser :: string
  rq_delExpired :: string
  rq_listByUser :: string

definition buildRefreshTokenQueries :: "naming \<Rightarrow> refreshTokenQueries" where
  "buildRefreshTokenQueries n =
    (let t = tab_name n RefreshTokens; cols = sessionCols
     in \<lparr>rq_create =
         ''INSERT INTO '' @ t @ '' ('' @ cols @ '') VALUES ($1,$2,$3,$4,$5,$6,$7)'',
       rq_getBySession =
         ''SELECT '' @ cols @ '' FROM '' @ t @ '' WHERE session_id=$1'',
       rq_update =
         ''UPDATE '' @ t @ '' SET token_hash=$2, expires_at=$3, last_used_at=$4, name=$5 WHERE session_id=$1'',
       rq_del =
         ''DELETE FROM '' @ t @ '' WHERE session_id=$1'',
       rq_delByUser =
         ''DELETE FROM '' @ t @ '' WHERE user_id=$1'',
       rq_delExpired =
         ''DELETE FROM '' @ t @ '' WHERE expires_at < $1'',
       rq_listByUser =
         ''SELECT '' @ cols @ '' FROM '' @ t @ '' WHERE user_id=$1 ORDER BY created_at''\<rparr>)"

record oauthQueries =
  oq_createClient :: string
  oq_getClient :: string
  oq_touchClient :: string
  oq_deleteStaleClients :: string
  oq_createCode :: string
  oq_getCode :: string
  oq_markCodeUsed :: string
  oq_deleteExpiredCodes :: string
  oq_getConsent :: string
  oq_saveConsent :: string
  oq_deleteConsent :: string
  oq_createGrant :: string
  oq_getGrant :: string
  oq_rotateGrant :: string
  oq_deleteGrant :: string
  oq_deleteUserClientGrants :: string
  oq_listUserGrants :: string
  oq_deleteExpiredGrants :: string
  oq_useAssertion :: string
  oq_deleteExpiredAssertions :: string

definition buildOAuthQueries :: "naming \<Rightarrow> oauthQueries" where
  "buildOAuthQueries n =
    (let C = tab_name n OAuthClients; CD = tab_name n OAuthCodes; CS = tab_name n OAuthConsents;
         G = tab_name n OAuthGrants; A = tab_name n OAuthAssertions
     in \<lparr>oq_createClient =
         ''INSERT INTO '' @ C @ '' ('' @ clientCols @ '') VALUES ($1,$2,$3,$4,$5,$6,$7,$8)'',
       oq_getClient =
         ''SELECT '' @ clientCols @ '' FROM '' @ C @ '' WHERE client_id=$1'',
       oq_touchClient =
         ''UPDATE '' @ C @ '' SET last_used_at=$2 WHERE client_id=$1'',
       oq_deleteStaleClients =
         ''DELETE FROM '' @ C @ '' c WHERE c.created_at < $1 AND (c.last_used_at IS NULL OR c.last_used_at < $1)'' @
         nl_tabs @ ''AND NOT EXISTS (SELECT 1 FROM '' @ G @ '' g WHERE g.client_id = c.client_id)'',
       oq_createCode =
         ''INSERT INTO '' @ CD @ '' ('' @ codeCols @ '') VALUES ($1,$2,$3,$4,$5,$6,$7,$8,$9,$10)'',
       oq_getCode =
         ''SELECT '' @ codeCols @ '' FROM '' @ CD @ '' WHERE code_hash=$1'',
       oq_markCodeUsed =
         ''UPDATE '' @ CD @ '' SET used_at=$3, grant_id=$2 WHERE code_hash=$1 AND used_at IS NULL'',
       oq_deleteExpiredCodes =
         ''DELETE FROM '' @ CD @ '' WHERE expires_at < $1'',
       oq_getConsent =
         ''SELECT user_id, client_id, scopes, created_at, updated_at FROM '' @ CS @
         '' WHERE user_id=$1 AND client_id=$2'',
       oq_saveConsent =
         ''INSERT INTO '' @ CS @ '' (user_id, client_id, scopes, created_at, updated_at) VALUES ($1,$2,$3,$4,$5)'' @
         nl_tabs @
         ''ON CONFLICT (user_id, client_id) DO UPDATE SET scopes=EXCLUDED.scopes, updated_at=EXCLUDED.updated_at'',
       oq_deleteConsent =
         ''DELETE FROM '' @ CS @ '' WHERE user_id=$1 AND client_id=$2'',
       oq_createGrant =
         ''INSERT INTO '' @ G @ '' ('' @ grantCols @ '') VALUES ($1,$2,$3,$4,$5,$6,$7,$8,$9,$10,$11)'',
       oq_getGrant =
         ''SELECT '' @ grantCols @ '' FROM '' @ G @ '' WHERE id=$1'',
       oq_rotateGrant =
         ''UPDATE '' @ G @ '' SET prev_token_hash=token_hash, token_hash=$3, expires_at=$4, last_used_at=$5'' @
         nl_tabs @ ''WHERE id=$1 AND token_hash=$2'',
       oq_deleteGrant =
         ''DELETE FROM '' @ G @ '' WHERE id=$1'',
       oq_deleteUserClientGrants =
         ''DELETE FROM '' @ G @ '' WHERE user_id=$1 AND client_id=$2'',
       oq_listUserGrants =
         ''SELECT '' @ grantCols @ '' FROM '' @ G @ '' WHERE user_id=$1 ORDER BY created_at'',
       oq_deleteExpiredGrants =
         ''DELETE FROM '' @ G @ '' WHERE expires_at < $1'',
       oq_useAssertion =
         ''INSERT INTO '' @ A @ '' (client_id, jti, expires_at) VALUES ($1,$2,$3)'' @ nl_tabs @
         ''ON CONFLICT (client_id, jti) DO NOTHING'',
       oq_deleteExpiredAssertions =
         ''DELETE FROM '' @ A @ '' WHERE expires_at < $1''\<rparr>)"

section \<open>The statements\<close>

definition st_createUser :: stmt where
  "st_createUser = Insert Users user_columns ([Par 1, Par 2, Par 3, Par 4, Par 5, Par 6, Par 7, Par 8, Par 9, Par 10, Par 11, Par 12, Par 13, Par 14, Par 15, Par 16, Par 17] @ [Now, Now]) NoConflict"

definition st_updateUser :: stmt where
  "st_updateUser = Update Users [(''user_name'', Par 2), (''normalized_user_name'', Par 3), (''email'', Par 4), (''normalized_email'', Par 5),
     (''email_confirmed'', Par 6), (''password_hash'', Par 7), (''security_stamp'', Par 8), (''concurrency_stamp'', Par 9),
     (''phone_number'', Par 10), (''phone_number_confirmed'', Par 11), (''two_factor_enabled'', Par 12),
     (''lockout_end'', Par 13), (''lockout_enabled'', Par 14), (''access_failed_count'', Par 15), (''attributes'', Par 16),
     (''is_anonymous'', Par 17), (''updated_at'', Now)]
     (AndC (Eq (Col ''id'') (Par 1)) (Eq (Col ''concurrency_stamp'') (Par 18)))"

definition st_userExists :: stmt where
  "st_userExists = Exists Users (Eq (Col ''id'') (Par 1))"

definition st_deleteUser :: stmt where
  "st_deleteUser = Delete Users [] (Eq (Col ''id'') (Par 1))"

definition st_findUserByID :: stmt where
  "st_findUserByID = Select user_columns Users (Eq (Col ''id'') (Par 1)) None None"

definition st_findUserByName :: stmt where
  "st_findUserByName = Select user_columns Users (Eq (Col ''normalized_user_name'') (Par 1)) None None"

definition st_findUserByEmail :: stmt where
  "st_findUserByEmail = Select user_columns Users (Eq (Col ''normalized_email'') (Par 1)) None None"

definition st_countUsers :: stmt where
  "st_countUsers = Count Users search_cond"

definition st_listUsers :: stmt where
  "st_listUsers = Select user_columns Users search_cond (Some ''id'') (Some (2, 3))"

definition st_purgeAnonymous :: stmt where
  "st_purgeAnonymous = Delete Users [] (AndC (IsTrue (Col ''is_anonymous'')) (Lt (Col ''created_at'') (Par 1)))"

definition st_addToRole :: stmt where
  "st_addToRole = InsertSel UserRoles [''user_id'', ''role_id''] [Par 1, Col ''id''] Roles (Eq (Col ''normalized_name'') (Par 2))
     (DoNothing [''user_id'', ''role_id''])"

definition st_removeFromRole :: stmt where
  "st_removeFromRole = Delete UserRoles [] (AndC (Eq (Col ''user_id'') (Par 1)) (EqSel ''role_id'' ''id'' Roles (Eq (Col ''normalized_name'') (Par 2))))"

definition st_getRoles :: stmt where
  "st_getRoles = SelectJoin ''r.name'' Roles ''r'' UserRoles ''ur'' (Eq (Col ''ur.role_id'') (Col ''r.id'')) (Eq (Col ''ur.user_id'') (Par 1))"

definition st_isInRole :: stmt where
  "st_isInRole = ExistsJoin UserRoles ''ur'' Roles ''r'' (Eq (Col ''r.id'') (Col ''ur.role_id''))
     (AndC (Eq (Col ''ur.user_id'') (Par 1)) (Eq (Col ''r.normalized_name'') (Par 2)))"

definition st_roleExistsByName :: stmt where
  "st_roleExistsByName = Exists Roles (Eq (Col ''normalized_name'') (Par 1))"

definition st_usersInRole :: stmt where
  "st_usersInRole = Select user_columns Users (InSel ''id'' ''user_id'' UserRoles (EqSel ''role_id'' ''id'' Roles (Eq (Col ''normalized_name'') (Par 1)))) (Some ''id'') None"

definition st_usersForClaim :: stmt where
  "st_usersForClaim = Select user_columns Users (InSel ''id'' ''user_id'' UserClaims (AndC (Eq (Col ''claim_type'') (Par 1)) (Eq (Col ''claim_value'') (Par 2)))) (Some ''id'') None"

definition st_getUserClaims :: stmt where
  "st_getUserClaims = Select [''claim_type'', ''claim_value''] UserClaims (Eq (Col ''user_id'') (Par 1)) None None"

definition st_addUserClaim :: stmt where
  "st_addUserClaim = Insert UserClaims [''user_id'', ''claim_type'', ''claim_value''] [Par 1, Par 2, Par 3] NoConflict"

definition st_removeUserClaim :: stmt where
  "st_removeUserClaim = Delete UserClaims [] (AndC (AndC (Eq (Col ''user_id'') (Par 1)) (Eq (Col ''claim_type'') (Par 2))) (Eq (Col ''claim_value'') (Par 3)))"

definition st_getToken :: stmt where
  "st_getToken = Select [''value''] UserTokens (AndC (AndC (Eq (Col ''user_id'') (Par 1)) (Eq (Col ''login_provider'') (Par 2))) (Eq (Col ''name'') (Par 3))) None None"

definition st_setToken :: stmt where
  "st_setToken = Insert UserTokens [''user_id'', ''login_provider'', ''name'', ''value''] [Par 1, Par 2, Par 3, Par 4]
     (DoUpdate [''user_id'', ''login_provider'', ''name''] [''value''])"

definition st_removeToken :: stmt where
  "st_removeToken = Delete UserTokens [] (AndC (AndC (Eq (Col ''user_id'') (Par 1)) (Eq (Col ''login_provider'') (Par 2))) (Eq (Col ''name'') (Par 3)))"

definition st_addLogin :: stmt where
  "st_addLogin = Insert UserLogins [''login_provider'', ''provider_key'', ''provider_display_name'', ''user_id''] [Par 1, Par 2, Par 3, Par 4] NoConflict"

definition st_removeLogin :: stmt where
  "st_removeLogin = Delete UserLogins [] (AndC (AndC (Eq (Col ''user_id'') (Par 1)) (Eq (Col ''login_provider'') (Par 2))) (Eq (Col ''provider_key'') (Par 3)))"

definition st_getLogins :: stmt where
  "st_getLogins = Select [''login_provider'', ''provider_key'', ''provider_display_name''] UserLogins (Eq (Col ''user_id'') (Par 1)) None None"

definition st_findByLogin :: stmt where
  "st_findByLogin = Select [''user_id''] UserLogins (AndC (Eq (Col ''login_provider'') (Par 1)) (Eq (Col ''provider_key'') (Par 2))) None None"

definition st_createRole :: stmt where
  "st_createRole = Insert Roles role_columns [Par 1, Par 2, Par 3, Par 4] NoConflict"

definition st_updateRole :: stmt where
  "st_updateRole = Update Roles [(''name'', Par 2), (''normalized_name'', Par 3), (''concurrency_stamp'', Par 4)]
     (AndC (Eq (Col ''id'') (Par 1)) (Eq (Col ''concurrency_stamp'') (Par 5)))"

definition st_deleteRole :: stmt where
  "st_deleteRole = Delete Roles [] (Eq (Col ''id'') (Par 1))"

definition st_roleExists :: stmt where
  "st_roleExists = Exists Roles (Eq (Col ''id'') (Par 1))"

definition st_findRoleByID :: stmt where
  "st_findRoleByID = Select role_columns Roles (Eq (Col ''id'') (Par 1)) None None"

definition st_findRoleByName :: stmt where
  "st_findRoleByName = Select role_columns Roles (Eq (Col ''normalized_name'') (Par 1)) None None"

definition st_getRoleClaims :: stmt where
  "st_getRoleClaims = Select [''claim_type'', ''claim_value''] RoleClaims (Eq (Col ''role_id'') (Par 1)) None None"

definition st_addRoleClaim :: stmt where
  "st_addRoleClaim = Insert RoleClaims [''role_id'', ''claim_type'', ''claim_value''] [Par 1, Par 2, Par 3] NoConflict"

definition st_removeRoleClaim :: stmt where
  "st_removeRoleClaim = Delete RoleClaims [] (AndC (AndC (Eq (Col ''role_id'') (Par 1)) (Eq (Col ''claim_type'') (Par 2))) (Eq (Col ''claim_value'') (Par 3)))"

definition sk_create :: stmt where
  "sk_create = Insert APIKeys [''id'', ''user_id'', ''name'', ''prefix'', ''key_hash'', ''scopes'', ''expires_at'', ''created_at'']
     [Par 1, Par 2, Par 3, Par 4, Par 5, Par 6, Par 7, Par 8] NoConflict"

definition sk_getActiveByHash :: stmt where
  "sk_getActiveByHash = Select key_columns APIKeys (AndC (AndC (Eq (Col ''key_hash'') (Par 1)) (IsNull (Col ''revoked_at'')))
     (Paren (OrC (IsNull (Col ''expires_at'')) (Gt (Col ''expires_at'') Now)))) None None"

definition sk_listByUser :: stmt where
  "sk_listByUser = Select key_columns APIKeys (Eq (Col ''user_id'') (Par 1)) (Some ''created_at'') None"

definition sk_revoke :: stmt where
  "sk_revoke = Update APIKeys [(''revoked_at'', Now)] (AndC (Eq (Col ''id'') (Par 1)) (IsNull (Col ''revoked_at'')))"

definition sk_touch :: stmt where
  "sk_touch = Update APIKeys [(''last_used_at'', Now)] (Eq (Col ''id'') (Par 1))"

definition ss_create :: stmt where
  "ss_create = Insert RefreshTokens session_columns [Par 1, Par 2, Par 3, Par 4, Par 5, Par 6, Par 7] NoConflict"

definition ss_getBySession :: stmt where
  "ss_getBySession = Select session_columns RefreshTokens (Eq (Col ''session_id'') (Par 1)) None None"

definition ss_update :: stmt where
  "ss_update = Update RefreshTokens [(''token_hash'', Par 2), (''expires_at'', Par 3), (''last_used_at'', Par 4), (''name'', Par 5)]
     (Eq (Col ''session_id'') (Par 1))"

definition ss_del :: stmt where
  "ss_del = Delete RefreshTokens [] (Eq (Col ''session_id'') (Par 1))"

definition ss_delByUser :: stmt where
  "ss_delByUser = Delete RefreshTokens [] (Eq (Col ''user_id'') (Par 1))"

definition ss_delExpired :: stmt where
  "ss_delExpired = Delete RefreshTokens [] (Lt (Col ''expires_at'') (Par 1))"

definition ss_listByUser :: stmt where
  "ss_listByUser = Select session_columns RefreshTokens (Eq (Col ''user_id'') (Par 1)) (Some ''created_at'') None"

definition so_createClient :: stmt where
  "so_createClient = Insert OAuthClients client_columns [Par 1, Par 2, Par 3, Par 4, Par 5, Par 6, Par 7, Par 8] NoConflict"

definition so_getClient :: stmt where
  "so_getClient = Select client_columns OAuthClients (Eq (Col ''client_id'') (Par 1)) None None"

definition so_touchClient :: stmt where
  "so_touchClient = Update OAuthClients [(''last_used_at'', Par 2)] (Eq (Col ''client_id'') (Par 1))"

definition so_deleteStaleClients :: stmt where
  "so_deleteStaleClients = Delete OAuthClients ''c'' (AndC (AndC (Lt (Col ''c.created_at'') (Par 1))
     (Paren (OrC (IsNull (Col ''c.last_used_at'')) (Lt (Col ''c.last_used_at'') (Par 1)))))
     (NotExists OAuthGrants ''g'' (Eq (Col ''g.client_id'') (Col ''c.client_id''))))"

definition so_createCode :: stmt where
  "so_createCode = Insert OAuthCodes code_columns [Par 1, Par 2, Par 3, Par 4, Par 5, Par 6, Par 7, Par 8, Par 9, Par 10] NoConflict"

definition so_getCode :: stmt where
  "so_getCode = Select code_columns OAuthCodes (Eq (Col ''code_hash'') (Par 1)) None None"

definition so_markCodeUsed :: stmt where
  "so_markCodeUsed = Update OAuthCodes [(''used_at'', Par 3), (''grant_id'', Par 2)] (AndC (Eq (Col ''code_hash'') (Par 1)) (IsNull (Col ''used_at'')))"

definition so_deleteExpiredCodes :: stmt where
  "so_deleteExpiredCodes = Delete OAuthCodes [] (Lt (Col ''expires_at'') (Par 1))"

definition so_getConsent :: stmt where
  "so_getConsent = Select consent_columns OAuthConsents (AndC (Eq (Col ''user_id'') (Par 1)) (Eq (Col ''client_id'') (Par 2))) None None"

definition so_saveConsent :: stmt where
  "so_saveConsent = Insert OAuthConsents consent_columns [Par 1, Par 2, Par 3, Par 4, Par 5]
     (DoUpdate [''user_id'', ''client_id''] [''scopes'', ''updated_at''])"

definition so_deleteConsent :: stmt where
  "so_deleteConsent = Delete OAuthConsents [] (AndC (Eq (Col ''user_id'') (Par 1)) (Eq (Col ''client_id'') (Par 2)))"

definition so_createGrant :: stmt where
  "so_createGrant = Insert OAuthGrants grant_columns [Par 1, Par 2, Par 3, Par 4, Par 5, Par 6, Par 7, Par 8, Par 9, Par 10, Par 11] NoConflict"

definition so_getGrant :: stmt where
  "so_getGrant = Select grant_columns OAuthGrants (Eq (Col ''id'') (Par 1)) None None"

definition so_rotateGrant :: stmt where
  "so_rotateGrant = Update OAuthGrants [(''prev_token_hash'', Col ''token_hash''), (''token_hash'', Par 3), (''expires_at'', Par 4), (''last_used_at'', Par 5)]
     (AndC (Eq (Col ''id'') (Par 1)) (Eq (Col ''token_hash'') (Par 2)))"

definition so_deleteGrant :: stmt where
  "so_deleteGrant = Delete OAuthGrants [] (Eq (Col ''id'') (Par 1))"

definition so_deleteUserClientGrants :: stmt where
  "so_deleteUserClientGrants = Delete OAuthGrants [] (AndC (Eq (Col ''user_id'') (Par 1)) (Eq (Col ''client_id'') (Par 2)))"

definition so_listUserGrants :: stmt where
  "so_listUserGrants = Select grant_columns OAuthGrants (Eq (Col ''user_id'') (Par 1)) (Some ''created_at'') None"

definition so_deleteExpiredGrants :: stmt where
  "so_deleteExpiredGrants = Delete OAuthGrants [] (Lt (Col ''expires_at'') (Par 1))"

definition so_useAssertion :: stmt where
  "so_useAssertion = Insert OAuthAssertions [''client_id'', ''jti'', ''expires_at''] [Par 1, Par 2, Par 3] (DoNothing [''client_id'', ''jti''])"

definition so_deleteExpiredAssertions :: stmt where
  "so_deleteExpiredAssertions = Delete OAuthAssertions [] (Lt (Col ''expires_at'') (Par 1))"

section \<open>Reading the texts\<close>

lemmas text_simps = read_simps userCols_def clientCols_def codeCols_def grantCols_def sessionCols_def search_text_def
  user_columns_def role_columns_def key_columns_def session_columns_def client_columns_def code_columns_def
  consent_columns_def grant_columns_def like_arg_def search_cond_def

lemma read_q_createUser: "names_ok n \<Longrightarrow> sql_tokens (q_createUser (buildQueries n)) = stmt_tokens n st_createUser"
  unfolding buildQueries_def Let_def queries.select_convs by (simp add: st_createUser_def text_simps)

lemma read_q_updateUser: "names_ok n \<Longrightarrow> sql_tokens (q_updateUser (buildQueries n)) = stmt_tokens n st_updateUser"
  unfolding buildQueries_def Let_def queries.select_convs by (simp add: st_updateUser_def text_simps)

lemma read_q_userExists: "names_ok n \<Longrightarrow> sql_tokens (q_userExists (buildQueries n)) = stmt_tokens n st_userExists"
  unfolding buildQueries_def Let_def queries.select_convs by (simp add: st_userExists_def text_simps)

lemma read_q_deleteUser: "names_ok n \<Longrightarrow> sql_tokens (q_deleteUser (buildQueries n)) = stmt_tokens n st_deleteUser"
  unfolding buildQueries_def Let_def queries.select_convs by (simp add: st_deleteUser_def text_simps)

lemma read_q_findUserByID: "names_ok n \<Longrightarrow> sql_tokens (q_findUserByID (buildQueries n)) = stmt_tokens n st_findUserByID"
  unfolding buildQueries_def Let_def queries.select_convs by (simp add: st_findUserByID_def text_simps)

lemma read_q_findUserByName: "names_ok n \<Longrightarrow> sql_tokens (q_findUserByName (buildQueries n)) = stmt_tokens n st_findUserByName"
  unfolding buildQueries_def Let_def queries.select_convs by (simp add: st_findUserByName_def text_simps)

lemma read_q_findUserByEmail: "names_ok n \<Longrightarrow> sql_tokens (q_findUserByEmail (buildQueries n)) = stmt_tokens n st_findUserByEmail"
  unfolding buildQueries_def Let_def queries.select_convs by (simp add: st_findUserByEmail_def text_simps)

lemma read_q_countUsers: "names_ok n \<Longrightarrow> sql_tokens (q_countUsers (buildQueries n)) = stmt_tokens n st_countUsers"
  unfolding buildQueries_def Let_def queries.select_convs by (simp add: st_countUsers_def text_simps)

lemma read_q_listUsers: "names_ok n \<Longrightarrow> sql_tokens (q_listUsers (buildQueries n)) = stmt_tokens n st_listUsers"
  unfolding buildQueries_def Let_def queries.select_convs by (simp add: st_listUsers_def text_simps)

lemma read_q_purgeAnonymous: "names_ok n \<Longrightarrow> sql_tokens (q_purgeAnonymous (buildQueries n)) = stmt_tokens n st_purgeAnonymous"
  unfolding buildQueries_def Let_def queries.select_convs by (simp add: st_purgeAnonymous_def text_simps)

lemma read_q_addToRole: "names_ok n \<Longrightarrow> sql_tokens (q_addToRole (buildQueries n)) = stmt_tokens n st_addToRole"
  unfolding buildQueries_def Let_def queries.select_convs by (simp add: st_addToRole_def text_simps)

lemma read_q_removeFromRole: "names_ok n \<Longrightarrow> sql_tokens (q_removeFromRole (buildQueries n)) = stmt_tokens n st_removeFromRole"
  unfolding buildQueries_def Let_def queries.select_convs by (simp add: st_removeFromRole_def text_simps)

lemma read_q_getRoles: "names_ok n \<Longrightarrow> sql_tokens (q_getRoles (buildQueries n)) = stmt_tokens n st_getRoles"
  unfolding buildQueries_def Let_def queries.select_convs by (simp add: st_getRoles_def text_simps)

lemma read_q_isInRole: "names_ok n \<Longrightarrow> sql_tokens (q_isInRole (buildQueries n)) = stmt_tokens n st_isInRole"
  unfolding buildQueries_def Let_def queries.select_convs by (simp add: st_isInRole_def text_simps)

lemma read_q_roleExistsByName: "names_ok n \<Longrightarrow> sql_tokens (q_roleExistsByName (buildQueries n)) = stmt_tokens n st_roleExistsByName"
  unfolding buildQueries_def Let_def queries.select_convs by (simp add: st_roleExistsByName_def text_simps)

lemma read_q_usersInRole: "names_ok n \<Longrightarrow> sql_tokens (q_usersInRole (buildQueries n)) = stmt_tokens n st_usersInRole"
  unfolding buildQueries_def Let_def queries.select_convs by (simp add: st_usersInRole_def text_simps)

lemma read_q_usersForClaim: "names_ok n \<Longrightarrow> sql_tokens (q_usersForClaim (buildQueries n)) = stmt_tokens n st_usersForClaim"
  unfolding buildQueries_def Let_def queries.select_convs by (simp add: st_usersForClaim_def text_simps)

lemma read_q_getUserClaims: "names_ok n \<Longrightarrow> sql_tokens (q_getUserClaims (buildQueries n)) = stmt_tokens n st_getUserClaims"
  unfolding buildQueries_def Let_def queries.select_convs by (simp add: st_getUserClaims_def text_simps)

lemma read_q_addUserClaim: "names_ok n \<Longrightarrow> sql_tokens (q_addUserClaim (buildQueries n)) = stmt_tokens n st_addUserClaim"
  unfolding buildQueries_def Let_def queries.select_convs by (simp add: st_addUserClaim_def text_simps)

lemma read_q_removeUserClaim: "names_ok n \<Longrightarrow> sql_tokens (q_removeUserClaim (buildQueries n)) = stmt_tokens n st_removeUserClaim"
  unfolding buildQueries_def Let_def queries.select_convs by (simp add: st_removeUserClaim_def text_simps)

lemma read_q_getToken: "names_ok n \<Longrightarrow> sql_tokens (q_getToken (buildQueries n)) = stmt_tokens n st_getToken"
  unfolding buildQueries_def Let_def queries.select_convs by (simp add: st_getToken_def text_simps)

lemma read_q_setToken: "names_ok n \<Longrightarrow> sql_tokens (q_setToken (buildQueries n)) = stmt_tokens n st_setToken"
  unfolding buildQueries_def Let_def queries.select_convs by (simp add: st_setToken_def text_simps)

lemma read_q_removeToken: "names_ok n \<Longrightarrow> sql_tokens (q_removeToken (buildQueries n)) = stmt_tokens n st_removeToken"
  unfolding buildQueries_def Let_def queries.select_convs by (simp add: st_removeToken_def text_simps)

lemma read_q_addLogin: "names_ok n \<Longrightarrow> sql_tokens (q_addLogin (buildQueries n)) = stmt_tokens n st_addLogin"
  unfolding buildQueries_def Let_def queries.select_convs by (simp add: st_addLogin_def text_simps)

lemma read_q_removeLogin: "names_ok n \<Longrightarrow> sql_tokens (q_removeLogin (buildQueries n)) = stmt_tokens n st_removeLogin"
  unfolding buildQueries_def Let_def queries.select_convs by (simp add: st_removeLogin_def text_simps)

lemma read_q_getLogins: "names_ok n \<Longrightarrow> sql_tokens (q_getLogins (buildQueries n)) = stmt_tokens n st_getLogins"
  unfolding buildQueries_def Let_def queries.select_convs by (simp add: st_getLogins_def text_simps)

lemma read_q_findByLogin: "names_ok n \<Longrightarrow> sql_tokens (q_findByLogin (buildQueries n)) = stmt_tokens n st_findByLogin"
  unfolding buildQueries_def Let_def queries.select_convs by (simp add: st_findByLogin_def text_simps)

lemma read_q_createRole: "names_ok n \<Longrightarrow> sql_tokens (q_createRole (buildQueries n)) = stmt_tokens n st_createRole"
  unfolding buildQueries_def Let_def queries.select_convs by (simp add: st_createRole_def text_simps)

lemma read_q_updateRole: "names_ok n \<Longrightarrow> sql_tokens (q_updateRole (buildQueries n)) = stmt_tokens n st_updateRole"
  unfolding buildQueries_def Let_def queries.select_convs by (simp add: st_updateRole_def text_simps)

lemma read_q_deleteRole: "names_ok n \<Longrightarrow> sql_tokens (q_deleteRole (buildQueries n)) = stmt_tokens n st_deleteRole"
  unfolding buildQueries_def Let_def queries.select_convs by (simp add: st_deleteRole_def text_simps)

lemma read_q_roleExists: "names_ok n \<Longrightarrow> sql_tokens (q_roleExists (buildQueries n)) = stmt_tokens n st_roleExists"
  unfolding buildQueries_def Let_def queries.select_convs by (simp add: st_roleExists_def text_simps)

lemma read_q_findRoleByID: "names_ok n \<Longrightarrow> sql_tokens (q_findRoleByID (buildQueries n)) = stmt_tokens n st_findRoleByID"
  unfolding buildQueries_def Let_def queries.select_convs by (simp add: st_findRoleByID_def text_simps)

lemma read_q_findRoleByName: "names_ok n \<Longrightarrow> sql_tokens (q_findRoleByName (buildQueries n)) = stmt_tokens n st_findRoleByName"
  unfolding buildQueries_def Let_def queries.select_convs by (simp add: st_findRoleByName_def text_simps)

lemma read_q_getRoleClaims: "names_ok n \<Longrightarrow> sql_tokens (q_getRoleClaims (buildQueries n)) = stmt_tokens n st_getRoleClaims"
  unfolding buildQueries_def Let_def queries.select_convs by (simp add: st_getRoleClaims_def text_simps)

lemma read_q_addRoleClaim: "names_ok n \<Longrightarrow> sql_tokens (q_addRoleClaim (buildQueries n)) = stmt_tokens n st_addRoleClaim"
  unfolding buildQueries_def Let_def queries.select_convs by (simp add: st_addRoleClaim_def text_simps)

lemma read_q_removeRoleClaim: "names_ok n \<Longrightarrow> sql_tokens (q_removeRoleClaim (buildQueries n)) = stmt_tokens n st_removeRoleClaim"
  unfolding buildQueries_def Let_def queries.select_convs by (simp add: st_removeRoleClaim_def text_simps)

lemma read_ak_create: "names_ok n \<Longrightarrow> sql_tokens (ak_create (buildAPIKeyQueries n)) = stmt_tokens n sk_create"
  unfolding buildAPIKeyQueries_def Let_def apiKeyQueries.select_convs by (simp add: sk_create_def text_simps)

lemma read_ak_getActiveByHash: "names_ok n \<Longrightarrow> sql_tokens (ak_getActiveByHash (buildAPIKeyQueries n)) = stmt_tokens n sk_getActiveByHash"
  unfolding buildAPIKeyQueries_def Let_def apiKeyQueries.select_convs by (simp add: sk_getActiveByHash_def text_simps)

lemma read_ak_listByUser: "names_ok n \<Longrightarrow> sql_tokens (ak_listByUser (buildAPIKeyQueries n)) = stmt_tokens n sk_listByUser"
  unfolding buildAPIKeyQueries_def Let_def apiKeyQueries.select_convs by (simp add: sk_listByUser_def text_simps)

lemma read_ak_revoke: "names_ok n \<Longrightarrow> sql_tokens (ak_revoke (buildAPIKeyQueries n)) = stmt_tokens n sk_revoke"
  unfolding buildAPIKeyQueries_def Let_def apiKeyQueries.select_convs by (simp add: sk_revoke_def text_simps)

lemma read_ak_touch: "names_ok n \<Longrightarrow> sql_tokens (ak_touch (buildAPIKeyQueries n)) = stmt_tokens n sk_touch"
  unfolding buildAPIKeyQueries_def Let_def apiKeyQueries.select_convs by (simp add: sk_touch_def text_simps)

lemma read_rq_create: "names_ok n \<Longrightarrow> sql_tokens (rq_create (buildRefreshTokenQueries n)) = stmt_tokens n ss_create"
  unfolding buildRefreshTokenQueries_def Let_def refreshTokenQueries.select_convs by (simp add: ss_create_def text_simps)

lemma read_rq_getBySession: "names_ok n \<Longrightarrow> sql_tokens (rq_getBySession (buildRefreshTokenQueries n)) = stmt_tokens n ss_getBySession"
  unfolding buildRefreshTokenQueries_def Let_def refreshTokenQueries.select_convs by (simp add: ss_getBySession_def text_simps)

lemma read_rq_update: "names_ok n \<Longrightarrow> sql_tokens (rq_update (buildRefreshTokenQueries n)) = stmt_tokens n ss_update"
  unfolding buildRefreshTokenQueries_def Let_def refreshTokenQueries.select_convs by (simp add: ss_update_def text_simps)

lemma read_rq_del: "names_ok n \<Longrightarrow> sql_tokens (rq_del (buildRefreshTokenQueries n)) = stmt_tokens n ss_del"
  unfolding buildRefreshTokenQueries_def Let_def refreshTokenQueries.select_convs by (simp add: ss_del_def text_simps)

lemma read_rq_delByUser: "names_ok n \<Longrightarrow> sql_tokens (rq_delByUser (buildRefreshTokenQueries n)) = stmt_tokens n ss_delByUser"
  unfolding buildRefreshTokenQueries_def Let_def refreshTokenQueries.select_convs by (simp add: ss_delByUser_def text_simps)

lemma read_rq_delExpired: "names_ok n \<Longrightarrow> sql_tokens (rq_delExpired (buildRefreshTokenQueries n)) = stmt_tokens n ss_delExpired"
  unfolding buildRefreshTokenQueries_def Let_def refreshTokenQueries.select_convs by (simp add: ss_delExpired_def text_simps)

lemma read_rq_listByUser: "names_ok n \<Longrightarrow> sql_tokens (rq_listByUser (buildRefreshTokenQueries n)) = stmt_tokens n ss_listByUser"
  unfolding buildRefreshTokenQueries_def Let_def refreshTokenQueries.select_convs by (simp add: ss_listByUser_def text_simps)

lemma read_oq_createClient: "names_ok n \<Longrightarrow> sql_tokens (oq_createClient (buildOAuthQueries n)) = stmt_tokens n so_createClient"
  unfolding buildOAuthQueries_def Let_def oauthQueries.select_convs by (simp add: so_createClient_def text_simps)

lemma read_oq_getClient: "names_ok n \<Longrightarrow> sql_tokens (oq_getClient (buildOAuthQueries n)) = stmt_tokens n so_getClient"
  unfolding buildOAuthQueries_def Let_def oauthQueries.select_convs by (simp add: so_getClient_def text_simps)

lemma read_oq_touchClient: "names_ok n \<Longrightarrow> sql_tokens (oq_touchClient (buildOAuthQueries n)) = stmt_tokens n so_touchClient"
  unfolding buildOAuthQueries_def Let_def oauthQueries.select_convs by (simp add: so_touchClient_def text_simps)

lemma read_oq_deleteStaleClients: "names_ok n \<Longrightarrow> sql_tokens (oq_deleteStaleClients (buildOAuthQueries n)) = stmt_tokens n so_deleteStaleClients"
  unfolding buildOAuthQueries_def Let_def oauthQueries.select_convs by (simp add: so_deleteStaleClients_def text_simps)

lemma read_oq_createCode: "names_ok n \<Longrightarrow> sql_tokens (oq_createCode (buildOAuthQueries n)) = stmt_tokens n so_createCode"
  unfolding buildOAuthQueries_def Let_def oauthQueries.select_convs by (simp add: so_createCode_def text_simps)

lemma read_oq_getCode: "names_ok n \<Longrightarrow> sql_tokens (oq_getCode (buildOAuthQueries n)) = stmt_tokens n so_getCode"
  unfolding buildOAuthQueries_def Let_def oauthQueries.select_convs by (simp add: so_getCode_def text_simps)

lemma read_oq_markCodeUsed: "names_ok n \<Longrightarrow> sql_tokens (oq_markCodeUsed (buildOAuthQueries n)) = stmt_tokens n so_markCodeUsed"
  unfolding buildOAuthQueries_def Let_def oauthQueries.select_convs by (simp add: so_markCodeUsed_def text_simps)

lemma read_oq_deleteExpiredCodes: "names_ok n \<Longrightarrow> sql_tokens (oq_deleteExpiredCodes (buildOAuthQueries n)) = stmt_tokens n so_deleteExpiredCodes"
  unfolding buildOAuthQueries_def Let_def oauthQueries.select_convs by (simp add: so_deleteExpiredCodes_def text_simps)

lemma read_oq_getConsent: "names_ok n \<Longrightarrow> sql_tokens (oq_getConsent (buildOAuthQueries n)) = stmt_tokens n so_getConsent"
  unfolding buildOAuthQueries_def Let_def oauthQueries.select_convs by (simp add: so_getConsent_def text_simps)

lemma read_oq_saveConsent: "names_ok n \<Longrightarrow> sql_tokens (oq_saveConsent (buildOAuthQueries n)) = stmt_tokens n so_saveConsent"
  unfolding buildOAuthQueries_def Let_def oauthQueries.select_convs by (simp add: so_saveConsent_def text_simps)

lemma read_oq_deleteConsent: "names_ok n \<Longrightarrow> sql_tokens (oq_deleteConsent (buildOAuthQueries n)) = stmt_tokens n so_deleteConsent"
  unfolding buildOAuthQueries_def Let_def oauthQueries.select_convs by (simp add: so_deleteConsent_def text_simps)

lemma read_oq_createGrant: "names_ok n \<Longrightarrow> sql_tokens (oq_createGrant (buildOAuthQueries n)) = stmt_tokens n so_createGrant"
  unfolding buildOAuthQueries_def Let_def oauthQueries.select_convs by (simp add: so_createGrant_def text_simps)

lemma read_oq_getGrant: "names_ok n \<Longrightarrow> sql_tokens (oq_getGrant (buildOAuthQueries n)) = stmt_tokens n so_getGrant"
  unfolding buildOAuthQueries_def Let_def oauthQueries.select_convs by (simp add: so_getGrant_def text_simps)

lemma read_oq_rotateGrant: "names_ok n \<Longrightarrow> sql_tokens (oq_rotateGrant (buildOAuthQueries n)) = stmt_tokens n so_rotateGrant"
  unfolding buildOAuthQueries_def Let_def oauthQueries.select_convs by (simp add: so_rotateGrant_def text_simps)

lemma read_oq_deleteGrant: "names_ok n \<Longrightarrow> sql_tokens (oq_deleteGrant (buildOAuthQueries n)) = stmt_tokens n so_deleteGrant"
  unfolding buildOAuthQueries_def Let_def oauthQueries.select_convs by (simp add: so_deleteGrant_def text_simps)

lemma read_oq_deleteUserClientGrants: "names_ok n \<Longrightarrow> sql_tokens (oq_deleteUserClientGrants (buildOAuthQueries n)) = stmt_tokens n so_deleteUserClientGrants"
  unfolding buildOAuthQueries_def Let_def oauthQueries.select_convs by (simp add: so_deleteUserClientGrants_def text_simps)

lemma read_oq_listUserGrants: "names_ok n \<Longrightarrow> sql_tokens (oq_listUserGrants (buildOAuthQueries n)) = stmt_tokens n so_listUserGrants"
  unfolding buildOAuthQueries_def Let_def oauthQueries.select_convs by (simp add: so_listUserGrants_def text_simps)

lemma read_oq_deleteExpiredGrants: "names_ok n \<Longrightarrow> sql_tokens (oq_deleteExpiredGrants (buildOAuthQueries n)) = stmt_tokens n so_deleteExpiredGrants"
  unfolding buildOAuthQueries_def Let_def oauthQueries.select_convs by (simp add: so_deleteExpiredGrants_def text_simps)

lemma read_oq_useAssertion: "names_ok n \<Longrightarrow> sql_tokens (oq_useAssertion (buildOAuthQueries n)) = stmt_tokens n so_useAssertion"
  unfolding buildOAuthQueries_def Let_def oauthQueries.select_convs by (simp add: so_useAssertion_def text_simps)

lemma read_oq_deleteExpiredAssertions: "names_ok n \<Longrightarrow> sql_tokens (oq_deleteExpiredAssertions (buildOAuthQueries n)) = stmt_tokens n so_deleteExpiredAssertions"
  unfolding buildOAuthQueries_def Let_def oauthQueries.select_convs by (simp add: so_deleteExpiredAssertions_def text_simps)

lemmas read_stmts =
  read_q_createUser read_q_updateUser read_q_userExists read_q_deleteUser read_q_findUserByID read_q_findUserByName read_q_findUserByEmail read_q_countUsers read_q_listUsers read_q_purgeAnonymous read_q_addToRole read_q_removeFromRole read_q_getRoles read_q_isInRole read_q_roleExistsByName read_q_usersInRole read_q_usersForClaim read_q_getUserClaims read_q_addUserClaim read_q_removeUserClaim read_q_getToken read_q_setToken read_q_removeToken read_q_addLogin read_q_removeLogin read_q_getLogins read_q_findByLogin read_q_createRole read_q_updateRole read_q_deleteRole read_q_roleExists read_q_findRoleByID read_q_findRoleByName read_q_getRoleClaims read_q_addRoleClaim read_q_removeRoleClaim
  read_ak_create read_ak_getActiveByHash read_ak_listByUser read_ak_revoke read_ak_touch
  read_rq_create read_rq_getBySession read_rq_update read_rq_del read_rq_delByUser read_rq_delExpired read_rq_listByUser
  read_oq_createClient read_oq_getClient read_oq_touchClient read_oq_deleteStaleClients read_oq_createCode read_oq_getCode read_oq_markCodeUsed read_oq_deleteExpiredCodes read_oq_getConsent read_oq_saveConsent read_oq_deleteConsent read_oq_createGrant read_oq_getGrant read_oq_rotateGrant read_oq_deleteGrant read_oq_deleteUserClientGrants read_oq_listUserGrants read_oq_deleteExpiredGrants read_oq_useAssertion read_oq_deleteExpiredAssertions

definition pgx_stmts :: "stmt list" where
  "pgx_stmts =
    [st_createUser, st_updateUser, st_userExists, st_deleteUser, st_findUserByID, st_findUserByName,
     st_findUserByEmail, st_countUsers, st_listUsers, st_purgeAnonymous, st_addToRole, st_removeFromRole,
     st_getRoles, st_isInRole, st_roleExistsByName, st_usersInRole, st_usersForClaim, st_getUserClaims,
     st_addUserClaim, st_removeUserClaim, st_getToken, st_setToken, st_removeToken, st_addLogin, st_removeLogin,
     st_getLogins, st_findByLogin, st_createRole, st_updateRole, st_deleteRole, st_roleExists, st_findRoleByID,
     st_findRoleByName, st_getRoleClaims, st_addRoleClaim, st_removeRoleClaim, sk_create, sk_getActiveByHash,
     sk_listByUser, sk_revoke, sk_touch, ss_create, ss_getBySession, ss_update, ss_del, ss_delByUser,
     ss_delExpired, ss_listByUser, so_createClient, so_getClient, so_touchClient, so_deleteStaleClients,
     so_createCode, so_getCode, so_markCodeUsed, so_deleteExpiredCodes, so_getConsent, so_saveConsent,
     so_deleteConsent, so_createGrant, so_getGrant, so_rotateGrant, so_deleteGrant, so_deleteUserClientGrants,
     so_listUserGrants, so_deleteExpiredGrants, so_useAssertion, so_deleteExpiredAssertions]"

end
