(* ===== verification/Json_Strings.thy ===== *)
theory Json_Strings
  imports Codec
begin

text \<open>
  The part of \<open>encoding/json\<close> that the SQL stores use: \<open>Marshal\<close> of a string, of a \<open>[]string\<close> and
  of a \<open>map[string]string\<close>, and \<open>Unmarshal\<close> into the latter two. A nil slice and an empty one
  are not told apart. The round trips hold for valid UTF-8; other bytes become U+FFFD.
\<close>

section \<open>Writing\<close>

definition json_hex :: "nat \<Rightarrow> char" where
  "json_hex d = char_of (if d < 10 then 48 + d else 87 + d)"

definition bslash :: char where "bslash = CHR 0x5C"
definition dquote :: char where "dquote = CHR 0x22"

definition json_escape :: "char \<Rightarrow> string" where
  "json_escape c =
     (let b = of_char c :: nat
      in if c = bslash \<or> c = dquote then [bslash, c]
         else if b = 8 then [bslash, CHR ''b''] else if b = 12 then [bslash, CHR ''f'']
         else if b = 10 then [bslash, CHR ''n''] else if b = 13 then [bslash, CHR ''r'']
         else if b = 9 then [bslash, CHR ''t'']
         else if b < 32 \<or> b = 60 \<or> b = 62 \<or> b = 38
         then [bslash, CHR ''u'', CHR ''0'', CHR ''0'', json_hex (b div 16), json_hex (b mod 16)]
         else [c])"

text \<open>The rune at the head of a byte string, with its width.\<close>

abbreviation head_rune :: "string \<Rightarrow> nat \<times> nat" where
  "head_rune s \<equiv> decode_rune (map of_char s)"

function json_quoted_body :: "string \<Rightarrow> string" where
  "json_quoted_body [] = []"
| "json_quoted_body (c # s) =
     (if of_char c < (128 :: nat) then json_escape c @ json_quoted_body s
      else
        let (r, k) = head_rune (c # s)
        in if r = runeError \<and> k = 1 then [bslash] @ ''ufffd'' @ json_quoted_body s
           else if r = 8232 \<or> r = 8233
           then [bslash] @ ''u202'' @ [json_hex (r mod 16)] @ json_quoted_body (drop (k - 1) s)
           else take k (c # s) @ json_quoted_body (drop (k - 1) s))"
  by pat_completeness auto
termination
  by (relation "measure length") auto

definition json_string :: "string \<Rightarrow> string" where
  "json_string s = [dquote] @ json_quoted_body s @ [dquote]"

definition json_Marshal_list :: "string list \<Rightarrow> string" where
  "json_Marshal_list xs = ''['' @ strings_Join (map json_string xs) '','' @ '']''"

text \<open>The members of a map are written in the order of their keys.\<close>

definition json_Marshal_map :: "(string, string) gomap \<Rightarrow> string" where
  "json_Marshal_map m =
     ''{'' @ strings_Join (map (\<lambda>(k, v). json_string k @ '':'' @ json_string v) (sort_key fst m)) '','' @ ''}''"

section \<open>Reading\<close>

definition hex_val :: "char \<Rightarrow> nat option" where
  "hex_val c =
     (let b = of_char c :: nat
      in if 48 \<le> b \<and> b \<le> 57 then Some (b - 48)
         else if 97 \<le> b \<and> b \<le> 102 then Some (b - 87)
         else if 65 \<le> b \<and> b \<le> 70 then Some (b - 55) else None)"

text \<open>\<open>getu4\<close>: the four hexadecimal digits after \<open>\u\<close>.\<close>

fun json_u4 :: "string \<Rightarrow> (nat \<times> string) option" where
  "json_u4 (a # b # c # d # s) =
     (case (hex_val a, hex_val b, hex_val c, hex_val d) of
        (Some a, Some b, Some c, Some d) \<Rightarrow> Some (((a * 16 + b) * 16 + c) * 16 + d, s)
      | _ \<Rightarrow> None)"
| "json_u4 _ = None"

definition encode_rune :: "nat \<Rightarrow> string" where
  "encode_rune r = map char_of
     (if r < 128 then [r]
      else if r < 2048 then [192 + r div 64, 128 + r mod 64]
      else if 55296 \<le> r \<and> r < 57344 \<or> 1114112 \<le> r then [239, 191, 189]
      else if r < 65536 then [224 + r div 4096, 128 + r div 64 mod 64, 128 + r mod 64]
      else [240 + r div 262144, 128 + r div 4096 mod 64, 128 + r div 64 mod 64, 128 + r mod 64])"

text \<open>A \<open>\u\<close> escape: a surrogate joins with the low surrogate escaped right after it, or is
  replaced by U+FFFD.\<close>

definition json_unicode :: "string \<Rightarrow> (string \<times> string) option" where
  "json_unicode s =
     (case json_u4 s of
        None \<Rightarrow> None
      | Some (r, s') \<Rightarrow>
          if 55296 \<le> r \<and> r < 57344 then
            (case s' of
               a # b # t \<Rightarrow>
                 (case (if a = bslash \<and> b = CHR ''u'' then json_u4 t else None) of
                    Some (r2, t') \<Rightarrow>
                      if r < 56320 \<and> 56320 \<le> r2 \<and> r2 < 57344
                      then Some (encode_rune (65536 + (r - 55296) * 1024 + (r2 - 56320)), t')
                      else Some (encode_rune runeError, s')
                  | None \<Rightarrow> Some (encode_rune runeError, s'))
             | _ \<Rightarrow> Some (encode_rune runeError, s'))
          else Some (encode_rune r, s'))"

definition json_simple :: "char \<Rightarrow> char option" where
  "json_simple e =
     (if e = dquote \<or> e = bslash \<or> e = CHR ''/'' then Some e
      else map_of [(CHR ''b'', CHR 0x08), (CHR ''f'', CHR 0x0C), (CHR ''n'', CHR 0x0A),
                   (CHR ''r'', CHR 0x0D), (CHR ''t'', CHR 0x09)] e)"

lemma json_u4_shorter: "json_u4 s = Some (r, t) \<Longrightarrow> length t < length s"
  by (cases s rule: json_u4.cases) (auto split: option.splits prod.splits)

lemma json_unicode_shorter: "json_unicode s = Some (v, t) \<Longrightarrow> length t < length s"
  by (auto simp: json_unicode_def split: option.splits list.splits if_splits prod.splits
      dest!: json_u4_shorter)

text \<open>The contents of a string literal up to its closing quote, and what follows it.\<close>

function json_unquote :: "string \<Rightarrow> (string \<times> string) option" where
  "json_unquote [] = None"
| "json_unquote (c # s) =
     (if c = dquote then Some ([], s)
      else if c = bslash then
        (case s of
           [] \<Rightarrow> None
         | e # t \<Rightarrow>
             if e = CHR ''u'' then
               (case json_unicode t of
                  None \<Rightarrow> None
                | Some (v, t') \<Rightarrow> map_option (apfst (append v)) (json_unquote t'))
             else (case json_simple e of
                     None \<Rightarrow> None
                   | Some v \<Rightarrow> map_option (apfst (Cons v)) (json_unquote t)))
      else if of_char c < (32 :: nat) then None
      else if of_char c < (128 :: nat) then map_option (apfst (Cons c)) (json_unquote s)
      else
        let (r, k) = head_rune (c # s)
        in if r = runeError \<and> k = 1 then map_option (apfst (append (encode_rune runeError))) (json_unquote s)
           else map_option (apfst (append (take k (c # s)))) (json_unquote (drop (k - 1) s)))"
  by pat_completeness auto
termination
  by (relation "measure length") (auto dest: json_unicode_shorter)

definition json_space :: "char \<Rightarrow> bool" where
  "json_space c \<longleftrightarrow> c = CHR '' '' \<or> c = CHR 0x09 \<or> c = CHR 0x0A \<or> c = CHR 0x0D"

abbreviation skip_space :: "string \<Rightarrow> string" where
  "skip_space \<equiv> dropWhile json_space"

text \<open>A string, or \<open>null\<close>, which leaves the empty string.\<close>

definition json_value :: "string \<Rightarrow> (string \<times> string) option" where
  "json_value s =
     (case skip_space s of
        c # t \<Rightarrow> if c = dquote then json_unquote t
                 else if take 4 (c # t) = ''null'' then Some ([], drop 3 t) else None
      | [] \<Rightarrow> None)"

lemma skip_Cons_shorter: "skip_space s = c # t \<Longrightarrow> length t < length s"
  using length_dropWhile_le [of json_space s] by simp

lemma json_unquote_shorter: "json_unquote s = Some (v, t) \<Longrightarrow> length t < length s"
proof (induction s arbitrary: v t rule: json_unquote.induct)
  case (2 c s)
  then show ?case
    by (fastforce simp: Let_def split: if_splits list.splits option.splits prod.splits
        dest: json_unicode_shorter)
qed simp

lemma json_value_shorter: "json_value s = Some (v, t) \<Longrightarrow> length t < length s"
  using length_dropWhile_le [of json_space s]
  by (fastforce simp: json_value_def split: list.splits if_splits dest: json_unquote_shorter)

text \<open>The elements after an opening bracket or a comma.\<close>

function json_items :: "string \<Rightarrow> (string list \<times> string) option" where
  "json_items s =
     (case json_value s of
        None \<Rightarrow> None
      | Some (v, t) \<Rightarrow>
          (case skip_space t of
             [] \<Rightarrow> None
           | c # t' \<Rightarrow> if c = CHR '','' then map_option (apfst (Cons v)) (json_items t')
                       else if c = CHR '']'' then Some ([v], t') else None))"
  by pat_completeness auto
termination
  by (relation "measure length")
     (auto dest!: json_value_shorter skip_Cons_shorter)

definition json_key :: "string \<Rightarrow> (string \<times> string) option" where
  "json_key s =
     (case skip_space s of
        c # t \<Rightarrow> if c = dquote then
                   (case json_unquote t of
                      None \<Rightarrow> None
                    | Some (k, t') \<Rightarrow> (case skip_space t' of
                                        c' # r \<Rightarrow> if c' = CHR '':'' then Some (k, r) else None
                                      | [] \<Rightarrow> None))
                 else None
      | [] \<Rightarrow> None)"

lemma json_key_shorter: "json_key s = Some (v, t) \<Longrightarrow> length t < length s"
  by (auto simp: json_key_def split: list.splits if_splits option.splits
      dest!: json_unquote_shorter skip_Cons_shorter)

function json_members :: "string \<Rightarrow> ((string \<times> string) list \<times> string) option" where
  "json_members s =
     (case json_key s of
        None \<Rightarrow> None
      | Some (k, r) \<Rightarrow>
          (case json_value r of
             None \<Rightarrow> None
           | Some (v, t) \<Rightarrow>
               (case skip_space t of
                  [] \<Rightarrow> None
                | c # t' \<Rightarrow> if c = CHR '','' then map_option (apfst (Cons (k, v))) (json_members t')
                            else if c = CHR ''}'' then Some ([(k, v)], t') else None)))"
  by pat_completeness auto
termination
  by (relation "measure length")
     (auto dest!: json_value_shorter json_key_shorter skip_Cons_shorter)

definition only_space :: "'a \<times> string \<Rightarrow> 'a option" where
  "only_space p = (if skip_space (snd p) = [] then Some (fst p) else None)"

definition json_Unmarshal_list :: "string \<Rightarrow> string list option" where
  "json_Unmarshal_list s =
     (case skip_space s of
        [] \<Rightarrow> None
      | c # t \<Rightarrow>
          if c = CHR ''['' then
            (case skip_space t of
               [] \<Rightarrow> None
             | c' # t' \<Rightarrow> if c' = CHR '']'' then only_space ([], t')
                          else Option.bind (json_items t) only_space)
          else if take 4 (c # t) = ''null'' then only_space ([], drop 3 t) else None)"

text \<open>Members are stored in turn, so of two members with one key the later stays.\<close>

definition json_Unmarshal_map :: "string \<Rightarrow> (string, string) gomap option" where
  "json_Unmarshal_map s =
     (case skip_space s of
        [] \<Rightarrow> None
      | c # t \<Rightarrow>
          if c = CHR ''{'' then
            (case skip_space t of
               [] \<Rightarrow> None
             | c' # t' \<Rightarrow> if c' = CHR ''}'' then only_space ([], t')
                          else map_option (\<lambda>ms. fold (\<lambda>(k, v). AList.update k v) ms [])
                                 (Option.bind (json_members t) only_space))
          else if take 4 (c # t) = ''null'' then only_space ([], drop 3 t) else None)"

section \<open>Round trips\<close>

text \<open>\<open>utf8.ValidString\<close>.\<close>

function valid_utf8 :: "string \<Rightarrow> bool" where
  "valid_utf8 [] = True"
| "valid_utf8 (c # s) =
     (let (r, k) = head_rune (c # s) in \<not> (r = runeError \<and> k = 1) \<and> valid_utf8 (drop (k - 1) s))"
  by pat_completeness auto
termination
  by (relation "measure length") auto

lemma decode_rune_take:
  assumes "decode_rune (b # bs) = (r, k)" and "\<not> (r = runeError \<and> k = 1)"
  shows "1 \<le> k \<and> k \<le> length (b # bs) \<and> decode_rune (take k (b # bs) @ cs) = (r, k)"
  using assms by (auto split: if_splits list.splits)

lemma head_rune_take:
  assumes "head_rune (c # s) = (r, k)" and "\<not> (r = runeError \<and> k = 1)"
  shows "1 \<le> k \<and> k \<le> length (c # s) \<and> head_rune (take k (c # s) @ t) = (r, k)"
  using decode_rune_take [of "of_char c" "map of_char s" r k "map of_char t"] assms
  by (auto simp: take_map [symmetric])

lemma head_rune_ascii: "of_char c < (128 :: nat) \<Longrightarrow> head_rune (c # s) = (of_char c, 1)"
  by simp

lemma hex_val_digit [simp]: "d < 16 \<Longrightarrow> hex_val (json_hex d) = Some d"
  by (auto simp: hex_val_def json_hex_def Let_def)

lemma hex_val_0 [simp]: "hex_val (CHR ''0'') = Some 0" "hex_val (CHR ''2'') = Some 2"
  by (simp_all add: hex_val_def)

lemma char_of_eq: "of_char c = (n :: nat) \<Longrightarrow> c = char_of n"
  by auto

lemma char_controls:
  "char_of (8 :: nat) = CHR 0x08" "char_of (9 :: nat) = CHR 0x09" "char_of (10 :: nat) = CHR 0x0A"
  "char_of (12 :: nat) = CHR 0x0C" "char_of (13 :: nat) = CHR 0x0D"
  by code_simp+

lemma unicode_ascii:
  "b < 128 \<Longrightarrow> json_unicode (CHR ''0'' # CHR ''0'' # json_hex (b div 16) # json_hex (b mod 16) # t) = Some ([char_of b], t)"
  by (simp add: json_unicode_def encode_rune_def)

lemma unquote_escape:
  assumes "of_char c < (128 :: nat)"
  shows "json_unquote (json_escape c @ t) = map_option (apfst (Cons c)) (json_unquote t)"
proof (cases "of_char c \<in> {8, 9, 10, 12, 13 :: nat}")
  case True
  then show ?thesis
    by (auto dest!: char_of_eq simp: json_escape_def json_simple_def bslash_def dquote_def
        char_controls)
next
  case False
  have dq: "CHR ''u'' \<noteq> bslash" "dquote \<noteq> CHR ''u''" "bslash \<noteq> dquote" by (simp_all add: bslash_def dquote_def)
  show ?thesis
  proof (cases "of_char c < (32 :: nat) \<or> of_char c \<in> {60, 62, 38 :: nat}")
    case True
    with False assms have "json_escape c = [bslash, CHR ''u'', CHR ''0'', CHR ''0'', json_hex (of_char c div 16), json_hex (of_char c mod 16)]"
      by (auto simp: json_escape_def Let_def bslash_def dquote_def)
    with dq unicode_ascii [OF assms, of t] show ?thesis by (simp add: apfst_def map_prod_def)
  next
    case False
    with \<open>of_char c \<notin> _\<close> assms dq show ?thesis
      by (auto simp: json_escape_def Let_def json_simple_def)
  qed
qed

text \<open>The line separators are the only other runes that are escaped.\<close>

lemma three_digits:
  assumes "(a :: nat) * 4096 + b * 64 + c = 8192 + d" and "b < 64" "c < 64" "d < 64"
  shows "a = 2 \<and> b = 0 \<and> c = d"
proof -
  have 64: "x = y \<and> i = j" if "x * 64 + i = y * 64 + j" "i < 64" "j < 64" for x y i j :: nat
  proof -
    have "x = y" using arg_cong [OF that(1), of "\<lambda>n. n div 64"] that by simp
    with that(1) show ?thesis by simp
  qed
  show ?thesis using 64 [of "a * 64 + b" c 128 d] 64 [of a b 2 0] assms by simp
qed

lemma separator_three:
  assumes "224 \<le> b0" "128 \<le> b1" "b1 \<le> 191" "128 \<le> b2" "b2 \<le> 191"
    and "(b0 - 224) * 4096 + (b1 - 128) * 64 + (b2 - 128) = r" and "r = 8232 \<or> r = (8233 :: nat)"
  shows "b0 = 226 \<and> b1 = 128 \<and> b2 = 128 + r mod 64"
proof -
  have "b0 - 224 = 2 \<and> b1 - 128 = 0 \<and> b2 - 128 = r - 8192"
    using assms by (intro three_digits) auto
  then show ?thesis using assms by auto
qed

lemma separator_bytes:
  assumes "decode_rune bs = (r, k)" and "r = 8232 \<or> r = 8233"
  shows "k = 3 \<and> take 3 bs = [226, 128, 128 + r mod 64]"
proof (cases bs rule: decode_rune.cases)
  case 1
  with assms show ?thesis by (simp add: runeError_def)
next
  case (2 b0 cs)
  have small: "(b0 - 192) * 64 + (b1 - 128) < 8232" if "b0 \<le> 223" "b1 \<le> 191" for b1
    using mult_le_mono1 [of "b0 - 192" 31 64] that by simp
  have big: "65536 \<le> (b0 - 240) * 262144 + ((b1 - 128) * 4096 + e)"
    if "240 \<le> b0" "second_ok b0 b1" for b1 e
    using that mult_le_mono1 [of 16 "b1 - 128" 4096] mult_le_mono1 [of 1 "b0 - 240" 262144]
    by (cases "b0 = 240") (auto simp: second_ok_def)
  have second: "128 \<le> b1 \<and> b1 \<le> 191" if "second_ok b0 b1" for b1
    using that by (auto simp: second_ok_def split: if_splits)
  show ?thesis
  proof (cases "224 \<le> b0 \<and> b0 \<le> 239")
    case True
    with assms 2 obtain b1 b2 ds where cs: "cs = b1 # b2 # ds" "second_ok b0 b1" "is_cont b2"
        "r = (b0 - 224) * 4096 + (b1 - 128) * 64 + (b2 - 128)" "k = 3"
      by (auto simp: runeError_def split: if_splits list.splits)
    with separator_three [of b0 b1 b2 r] second [of b1] True assms(2) 2 show ?thesis by (auto simp: is_cont_def)
  next
    case False
    show ?thesis
    proof (cases "240 \<le> b0 \<and> b0 \<le> 244")
      case True
      then have "r = runeError \<or> 65536 \<le> r"
        using assms(1) 2 big by (auto simp: add.assoc split: if_splits list.splits)
      with assms(2) show ?thesis by (auto simp: runeError_def)
    next
      case no: False
      then have "r = runeError \<or> r < 8232"
        using assms(1) 2 small False by (auto simp: is_cont_def split: if_splits list.splits)
      with assms(2) show ?thesis by (auto simp: runeError_def)
    qed
  qed
qed

lemma unicode_separator:
  assumes "r = 8232 \<or> r = 8233"
  shows "json_unicode (CHR ''2'' # CHR ''0'' # CHR ''2'' # json_hex (r mod 16) # t) =
    Some (map char_of [226, 128, 128 + r mod 64], t)"
  using assms by (auto simp: json_unicode_def encode_rune_def)

lemma take_chars: "take k (map of_char s) = (bs :: nat list) \<Longrightarrow> take k s = map char_of bs"
  by (auto simp: take_map comp_def)

lemma unquote_body:
  "valid_utf8 s \<Longrightarrow> json_unquote (json_quoted_body s @ dquote # t) = Some (s, t)"
proof (induction s rule: json_quoted_body.induct)
  case (2 c s)
  obtain r k where rk: "head_rune (c # s) = (r, k)" by (cases "head_rune (c # s)")
  show ?case
  proof (cases "of_char c < (128 :: nat)")
    case True
    with 2 show ?thesis by (simp add: unquote_escape)
  next
    case False
    then have q: "c \<noteq> dquote" "c \<noteq> bslash" "bslash \<noteq> dquote" by (auto simp: bslash_def dquote_def)
    from 2(5) rk have ok: "\<not> (r = runeError \<and> k = 1)" "valid_utf8 (drop (k - 1) s)" by simp_all
    have k: "1 \<le> k" "k \<le> length (c # s)" using head_rune_take [OF rk ok(1)] by auto
    let ?rest = "json_quoted_body (drop (k - 1) s) @ dquote # t"
    have split: "take k (c # s) @ drop (k - 1) s = c # s" using k by (cases k) auto
    show ?thesis
    proof (cases "r = 8232 \<or> r = 8233")
      case True
      from separator_bytes [OF rk True] have sep: "k = 3" "take 3 (c # s) = map char_of [226, 128, 128 + r mod 64]"
        using take_chars [of 3 "c # s"] by auto
      have "r \<noteq> runeError" using True by (auto simp: runeError_def)
      with 2(3) rk False True ok have IH: "json_unquote ?rest = Some (drop (k - 1) s, t)" by (auto simp: Let_def)
      have "json_quoted_body (c # s) @ dquote # t = bslash # CHR ''u'' # CHR ''2'' # CHR ''0'' # CHR ''2'' # json_hex (r mod 16) # ?rest"
        using False rk True ok by (simp add: \<open>r \<noteq> runeError\<close>)
      also have "json_unquote \<dots> = Some (take 3 (c # s) @ drop (k - 1) s, t)"
        using q(3) IH unicode_separator [OF True, of ?rest] sep by simp
      finally show ?thesis using split sep(1) by simp
    next
      case no: False
      have IH: "json_unquote ?rest = Some (drop (k - 1) s, t)" using 2(4) rk False no ok by (auto simp: Let_def)
      have h: "head_rune (take k (c # s) @ ?rest) = (r, k)" using head_rune_take [OF rk ok(1), of ?rest] by auto
      obtain m where m: "k = Suc m" using k by (cases k) auto
      then have "json_quoted_body (c # s) @ dquote # t = c # take m s @ ?rest"
        using False rk no ok by (auto simp: Let_def)
      moreover have "json_unquote (c # take m s @ ?rest) = Some (take k (c # s) @ drop (k - 1) s, t)"
        using False q h IH m k ok by (auto simp: Let_def)
      ultimately show ?thesis using split by simp
    qed
  qed
qed simp

lemma skip_plain [simp]: "\<not> json_space c \<Longrightarrow> skip_space (c # s) = c # s"
  by simp

lemma plain_marks [simp]:
  "\<not> json_space dquote" "\<not> json_space (CHR '','')" "\<not> json_space (CHR '']'')" "\<not> json_space (CHR ''}'')"
  "\<not> json_space (CHR ''['')" "\<not> json_space (CHR ''{'')" "\<not> json_space (CHR '':'')"
  by (simp_all add: json_space_def dquote_def)

lemma value_string: "valid_utf8 v \<Longrightarrow> json_value (json_string v @ t) = Some (v, t)"
  by (simp add: json_value_def json_string_def unquote_body)

lemma key_string: "valid_utf8 k \<Longrightarrow> json_key (json_string k @ CHR '':'' # t) = Some (k, t)"
  by (simp add: json_key_def json_string_def unquote_body)

declare json_items.simps [simp del] json_members.simps [simp del]

lemma items_join:
  "xs \<noteq> [] \<Longrightarrow> list_all valid_utf8 xs \<Longrightarrow>
   json_items (strings_Join (map json_string xs) '','' @ CHR '']'' # t) = Some (xs, t)"
proof (induction xs rule: induct_list012)
  case (2 v)
  then show ?case by (subst json_items.simps) (simp add: value_string)
next
  case (3 v w xs)
  then show ?case by (subst json_items.simps) (simp add: value_string)
qed simp

lemma members_join:
  "ms \<noteq> [] \<Longrightarrow> list_all (\<lambda>(k, v). valid_utf8 k \<and> valid_utf8 v) ms \<Longrightarrow>
   json_members (strings_Join (map (\<lambda>(k, v). json_string k @ '':'' @ json_string v) ms) '','' @ CHR ''}'' # t) = Some (ms, t)"
proof (induction ms rule: induct_list012)
  case (2 v)
  then show ?case by (subst json_members.simps) (auto simp: value_string key_string)
next
  case (3 v w xs)
  then show ?case by (subst json_members.simps) (auto simp: value_string key_string)
qed simp

lemma Unmarshal_Marshal_list:
  assumes "list_all valid_utf8 xs"
  shows "json_Unmarshal_list (json_Marshal_list xs) = Some xs"
proof (cases xs)
  case Nil
  then show ?thesis by (simp add: json_Unmarshal_list_def json_Marshal_list_def only_space_def)
next
  case (Cons v vs)
  then have "strings_Join (map json_string xs) '','' = dquote # tl (strings_Join (map json_string xs) '','')"
    by (cases vs) (simp_all add: json_string_def)
  then obtain t where t: "strings_Join (map json_string xs) '','' = dquote # t" by blast
  have "dquote \<noteq> CHR '']''" by (simp add: dquote_def)
  with items_join [of xs "[]"] assms Cons t show ?thesis
    by (simp add: json_Unmarshal_list_def json_Marshal_list_def only_space_def)
qed

lemma update_fresh: "k \<notin> fst ` set m \<Longrightarrow> AList.update k v m = m @ [(k, v)]"
  by (induction m) auto

lemma fold_update_fresh:
  "distinct (map fst ms) \<Longrightarrow> set (map fst ms) \<inter> fst ` set m = {} \<Longrightarrow>
   fold (\<lambda>(k, v). AList.update k v) ms m = m @ ms"
proof (induction ms arbitrary: m)
  case (Cons p ms)
  obtain k v where p: "p = (k, v)" by (cases p)
  with Cons.prems have "AList.update k v m = m @ [(k, v)]" by (intro update_fresh) auto
  with Cons.IH [of "m @ [(k, v)]"] Cons.prems p show ?case by auto
qed simp

lemma Unmarshal_Marshal_map:
  assumes "list_all (\<lambda>(k, v). valid_utf8 k \<and> valid_utf8 v) m" and "distinct (map fst m)"
  shows "json_Unmarshal_map (json_Marshal_map m) = Some (sort_key fst m)"
proof (cases "m = []")
  case True
  then show ?thesis by (simp add: json_Unmarshal_map_def json_Marshal_map_def only_space_def)
next
  case False
  let ?ms = "sort_key fst m" and ?show = "\<lambda>(k, v). json_string k @ '':'' @ json_string v"
  have ms: "?ms \<noteq> []" "list_all (\<lambda>(k, v). valid_utf8 k \<and> valid_utf8 v) ?ms" "distinct (map fst ?ms)"
    using assms False by (auto simp: list_all_iff distinct_map dest: arg_cong [of _ _ set])
  obtain p ps where "?ms = p # ps" using ms(1) list.exhaust by blast
  then have "strings_Join (map ?show ?ms) '','' = dquote # tl (strings_Join (map ?show ?ms) '','')"
    by (cases ps) (auto simp: json_string_def split: prod.splits)
  then obtain t where t: "strings_Join (map ?show ?ms) '','' = dquote # t" by blast
  have "dquote \<noteq> CHR ''}''" by (simp add: dquote_def)
  with members_join [OF ms(1, 2), of "[]"] t fold_update_fresh [OF ms(3), of "[]"] show ?thesis
    by (simp add: json_Unmarshal_map_def json_Marshal_map_def only_space_def)
qed

end
