(* ===== verification/Sql_Server.thy ===== *)
theory Sql_Server
  imports Pgx_Queries Json_Strings
begin

text \<open>
  What PostgreSQL documents about the statements in use, on tables that are multisets of rows: how
  conditions are evaluated, which rows a statement inserts, changes or deletes (with the cascades of
  the references), what a query may answer, and which constraints the tables keep. \<open>server_ok\<close>
  puts it together as the assumption the store theorems make about a driver.
\<close>

type_synonym row = "(string \<times> sval) list"

type_synonym tables = "tab \<Rightarrow> row multiset"

definition fld :: "row \<Rightarrow> string \<Rightarrow> sval" where
  "fld r c = (case map_of r c of None \<Rightarrow> Null | Some v \<Rightarrow> v)"

text \<open>The columns of a row under an alias.\<close>

definition qual :: "string \<Rightarrow> row \<Rightarrow> row" where
  "qual al r = (if al = [] then r else map (\<lambda>(c, v). (al @ ''.'' @ c, v)) r)"

section \<open>Expressions and conditions\<close>

text \<open>\<open>timestamptz\<close> has microseconds; the driver cuts the rest off when it binds a time.\<close>

definition micro :: "time \<Rightarrow> time" where
  "micro t = t - t mod 1000"

primrec bound :: "sval \<Rightarrow> sval" where
  "bound Null = Null"
| "bound (Text s) = Text s"
| "bound (Bool b) = Bool b"
| "bound (Num i) = Num i"
| "bound (Time t) = Time (micro t)"

primrec ev :: "sval list \<Rightarrow> time \<Rightarrow> row \<Rightarrow> sexp \<Rightarrow> sval" where
  "ev args now r (Par k) = (if 1 \<le> k \<and> k \<le> length args then bound (args ! (k - 1)) else Null)"
| "ev args now r (Col c) = fld r c"
| "ev args now r Now = Time (micro now)"
| "ev args now r (Str s) = Text s"
| "ev args now r (Concat a b) =
     (case (ev args now r a, ev args now r b) of (Text s, Text t) \<Rightarrow> Text (s @ t) | _ \<Rightarrow> Null)"
| "ev args now r (CastText a) = (case ev args now r a of Text s \<Rightarrow> Text s | _ \<Rightarrow> Null)"

fun sql_less :: "sval \<Rightarrow> sval \<Rightarrow> bool" where
  "sql_less (Time a) (Time b) = (a < b)"
| "sql_less (Num a) (Num b) = (a < b)"
| "sql_less _ _ = False"

text \<open>\<open>LIKE\<close> on characters: \<open>%\<close> stands for any text, \<open>_\<close> for any character, and a backslash takes
  the next character literally.\<close>

fun like_runes :: "nat list \<Rightarrow> nat list \<Rightarrow> bool" where
  "like_runes [] s = (s = [])"
| "like_runes (p # ps) s =
     (if p = 37 then like_runes ps s \<or> (case s of [] \<Rightarrow> False | _ # t \<Rightarrow> like_runes (p # ps) t)
      else case s of
             [] \<Rightarrow> False
           | c # t \<Rightarrow> if p = 95 then like_runes ps t
                      else if p = 92 then (case ps of [] \<Rightarrow> False | q # qs \<Rightarrow> c = q \<and> like_runes qs t)
                      else c = p \<and> like_runes ps t)"

fun sql_like :: "sval \<Rightarrow> sval \<Rightarrow> bool" where
  "sql_like (Text s) (Text p) = like_runes (runes p) (runes s)"
| "sql_like _ _ = False"

text \<open>Whether a condition is true of a row; comparisons with NULL are not true. The subqueries after
  \<open>IN\<close> and \<open>=\<close> mention columns of their own table only. A scalar subquery that finds several rows
  is an error of the server; the one in use finds a role by its unique name.\<close>

primrec holds :: "tables \<Rightarrow> sval list \<Rightarrow> time \<Rightarrow> cond \<Rightarrow> row \<Rightarrow> bool" where
  "holds T args now (Eq a b) r \<longleftrightarrow> ev args now r a \<noteq> Null \<and> ev args now r a = ev args now r b"
| "holds T args now (Lt a b) r \<longleftrightarrow> sql_less (ev args now r a) (ev args now r b)"
| "holds T args now (Gt a b) r \<longleftrightarrow> sql_less (ev args now r b) (ev args now r a)"
| "holds T args now (IsNull a) r \<longleftrightarrow> ev args now r a = Null"
| "holds T args now (IsTrue a) r \<longleftrightarrow> ev args now r a = Bool True"
| "holds T args now (Like a b) r \<longleftrightarrow> sql_like (ev args now r a) (ev args now r b)"
| "holds T args now (AndC a b) r \<longleftrightarrow> holds T args now a r \<and> holds T args now b r"
| "holds T args now (OrC a b) r \<longleftrightarrow> holds T args now a r \<or> holds T args now b r"
| "holds T args now (Paren a) r \<longleftrightarrow> holds T args now a r"
| "holds T args now (InSel c e t a) r \<longleftrightarrow>
     fld r c \<noteq> Null \<and> (\<exists>r' \<in># T t. holds T args now a r' \<and> fld r' e = fld r c)"
| "holds T args now (EqSel c e t a) r \<longleftrightarrow>
     fld r c \<noteq> Null \<and> (\<exists>r' \<in># T t. holds T args now a r' \<and> fld r' e = fld r c)"
| "holds T args now (NotExists t al a) r \<longleftrightarrow> \<not> (\<exists>r' \<in># T t. holds T args now a (qual al r' @ r))"

section \<open>Statements that write\<close>

text \<open>\<open>varchar(n)\<close> cuts a text to n characters if all it loses are spaces; a longer text is kept here,
  and the constraints of the column reject it.\<close>

definition clip :: "nat \<Rightarrow> string \<Rightarrow> string" where
  "clip n s = (if list_all (\<lambda>c. c = 32) (drop n (runes s)) then take (length s - (length (runes s) - n)) s else s)"

lemma clip_fit [simp]: "length (runes s) \<le> n \<Longrightarrow> clip n s = s"
  by (simp add: clip_def)

text \<open>A \<open>jsonb\<close> column keeps the value and prints it in its own form, here \<open>J\<close>.\<close>

definition store_val :: "(string \<Rightarrow> string) \<Rightarrow> ctype \<Rightarrow> sval \<Rightarrow> sval" where
  "store_val J ty v =
     (case v of
        Text s \<Rightarrow> (case ty of Jsonb \<Rightarrow> Text (J s) | Varchar n \<Rightarrow> Text (clip n s) | _ \<Rightarrow> v)
      | _ \<Rightarrow> v)"

primrec dflt_val :: "(string \<Rightarrow> string) \<Rightarrow> time \<Rightarrow> dflt \<Rightarrow> sval" where
  "dflt_val J now NoDefault = Null"
| "dflt_val J now (DText s) = Text s"
| "dflt_val J now DFalse = Bool False"
| "dflt_val J now DZero = Num 0"
| "dflt_val J now (DJson s) = Text (J s)"
| "dflt_val J now DNow = Time (micro now)"

text \<open>A new row: the given values, the defaults for the other columns, \<open>sr\<close> from the sequence.\<close>

definition new_row :: "(string \<Rightarrow> string) \<Rightarrow> time \<Rightarrow> int \<Rightarrow> tab \<Rightarrow> (string \<times> sval) list \<Rightarrow> row" where
  "new_row J now sr t vs = map (\<lambda>(c, ty, f, d). (c, case map_of vs c of
       Some v \<Rightarrow> store_val J ty v
     | None \<Rightarrow> if ty = Bigserial then Num sr else dflt_val J now d)) (columns t)"

definition col_type :: "tab \<Rightarrow> string \<Rightarrow> ctype" where
  "col_type t c = (case map_of (columns t) c of None \<Rightarrow> TextType | Some (ty, _) \<Rightarrow> ty)"

definition set_cols :: "(string \<Rightarrow> string) \<Rightarrow> tab \<Rightarrow> (string \<times> sval) list \<Rightarrow> row \<Rightarrow> row" where
  "set_cols J t vs r = map (\<lambda>(c, v). (c, case map_of vs c of
       Some v' \<Rightarrow> store_val J (col_type t c) v' | None \<Rightarrow> v)) r"

definition same_on :: "string list \<Rightarrow> row \<Rightarrow> row \<Rightarrow> bool" where
  "same_on cs r r' \<longleftrightarrow> map (fld r) cs = map (fld r') cs"

definition refs :: "tab \<Rightarrow> (string \<times> tab) list" where
  "refs t = List.map_filter (\<lambda>(c, ty, f, d). case f of Ref p \<Rightarrow> Some (c, p) | _ \<Rightarrow> None) (columns t)"

definition orphaned :: "tables \<Rightarrow> tab \<Rightarrow> (row \<Rightarrow> bool) \<Rightarrow> tab \<Rightarrow> row \<Rightarrow> bool" where
  "orphaned T t gone t' r' \<longleftrightarrow>
     (\<exists>(c, p) \<in> set (refs t'). p = t \<and> (\<exists>r \<in># T t. gone r \<and> fld r ''id'' = fld r' c))"

text \<open>Deleting rows deletes the rows that refer to them; those are not referred to in turn.\<close>

definition delete_rows :: "tables \<Rightarrow> tab \<Rightarrow> (row \<Rightarrow> bool) \<Rightarrow> tables" where
  "delete_rows T t gone = (\<lambda>t'.
     if t' = t then filter_mset (\<lambda>r. \<not> gone r) (T t) else filter_mset (\<lambda>r. \<not> orphaned T t gone t' r) (T t'))"

definition insert_row :: "(string \<Rightarrow> string) \<Rightarrow> tab \<Rightarrow> row \<Rightarrow> conflict \<Rightarrow> tables \<Rightarrow> int \<times> tables" where
  "insert_row J t r cf T =
     (case cf of
        NoConflict \<Rightarrow> (1, T(t := add_mset r (T t)))
      | DoNothing ks \<Rightarrow>
          if \<exists>r' \<in># T t. same_on ks r' r then (0, T) else (1, T(t := add_mset r (T t)))
      | DoUpdate ks cs \<Rightarrow>
          if \<exists>r' \<in># T t. same_on ks r' r
          then (1, T(t := image_mset (\<lambda>r'. if same_on ks r' r
                       then set_cols J t (map (\<lambda>c. (c, fld r c)) cs) r' else r') (T t)))
          else (1, T(t := add_mset r (T t))))"

fun exec :: "(string \<Rightarrow> string) \<Rightarrow> time \<Rightarrow> int \<Rightarrow> stmt \<Rightarrow> sval list \<Rightarrow> tables \<Rightarrow> int \<times> tables" where
  "exec J now sr (Insert t cs es cf) args T =
     insert_row J t (new_row J now sr t (zip cs (map (ev args now []) es))) cf T"
| "exec J now sr (InsertSel t cs es t' a cf) args T =
     (let new = image_mset (\<lambda>r. new_row J now sr t (zip cs (map (ev args now r) es)))
                  (filter_mset (holds T args now a) (T t'));
          new = (case cf of
                   DoNothing ks \<Rightarrow> filter_mset (\<lambda>r. \<not> (\<exists>r' \<in># T t. same_on ks r' r)) new
                 | _ \<Rightarrow> new)
      in (int (size new), T(t := T t + new)))"
| "exec J now sr (Update t asg a) args T =
     (int (size (filter_mset (holds T args now a) (T t))),
      T(t := image_mset (\<lambda>r. if holds T args now a r
               then set_cols J t (map (\<lambda>(c, e). (c, ev args now r e)) asg) r else r) (T t)))"
| "exec J now sr (Delete t al a) args T =
     (int (size (filter_mset (\<lambda>r. holds T args now a (qual al r)) (T t))),
      delete_rows T t (\<lambda>r. holds T args now a (qual al r)))"
| "exec J now sr _ args T = (0, T)"

section \<open>Queries\<close>

primrec is_query :: "stmt \<Rightarrow> bool" where
  "is_query (Insert t cs es cf) = False"
| "is_query (InsertSel t cs es t' a cf) = False"
| "is_query (Update t asg a) = False"
| "is_query (Delete t al a) = False"
| "is_query (Select cs t a ord lim) = True"
| "is_query (Count t a) = True"
| "is_query (Exists t a) = True"
| "is_query (SelectJoin c t al t' al' on a) = True"
| "is_query (ExistsJoin t al t' al' on a) = True"

definition joined :: "tables \<Rightarrow> tab \<Rightarrow> string \<Rightarrow> tab \<Rightarrow> string \<Rightarrow> row multiset" where
  "joined T t al t' al' = sum_mset (image_mset (\<lambda>r. image_mset (\<lambda>r'. qual al r @ qual al' r') (T t')) (T t))"

text \<open>Rows come in any order unless the statement asks for one, and rows that tie in any order;
  \<open>le\<close> is the server's order on values, which for text depends on its collation.\<close>

definition ordered :: "(sval \<Rightarrow> sval \<Rightarrow> bool) \<Rightarrow> string option \<Rightarrow> row list \<Rightarrow> bool" where
  "ordered le ord rs = (case ord of None \<Rightarrow> True | Some c \<Rightarrow> sorted_wrt (\<lambda>r r'. le (fld r c) (fld r' c)) rs)"

definition row_window :: "(nat \<times> nat) option \<Rightarrow> sval list \<Rightarrow> row list \<Rightarrow> row list" where
  "row_window lim args rs =
     (case lim of
        None \<Rightarrow> rs
      | Some (k, j) \<Rightarrow>
          (case (ev args 0 [] (Par k), ev args 0 [] (Par j)) of
             (Num limit, Num offset) \<Rightarrow> take (nat limit) (drop (nat offset) rs) | _ \<Rightarrow> rs))"

fun answers :: "(sval \<Rightarrow> sval \<Rightarrow> bool) \<Rightarrow> time \<Rightarrow> tables \<Rightarrow> stmt \<Rightarrow> sval list \<Rightarrow> sval list list \<Rightarrow> bool" where
  "answers le now T (Select cs t a ord lim) args out \<longleftrightarrow>
     (\<exists>rs. mset rs = filter_mset (holds T args now a) (T t) \<and> ordered le ord rs \<and>
           out = map (\<lambda>r. map (fld r) cs) (row_window lim args rs))"
| "answers le now T (Count t a) args out \<longleftrightarrow> out = [[Num (int (size (filter_mset (holds T args now a) (T t))))]]"
| "answers le now T (Exists t a) args out \<longleftrightarrow> out = [[Bool (\<exists>r \<in># T t. holds T args now a r)]]"
| "answers le now T (SelectJoin c t al t' al' on a) args out \<longleftrightarrow>
     mset out = {#[fld r c]. r \<in># filter_mset (holds T args now (AndC on a)) (joined T t al t' al')#}"
| "answers le now T (ExistsJoin t al t' al' on a) args out \<longleftrightarrow>
     out = [[Bool (\<exists>r \<in># joined T t al t' al'. holds T args now (AndC on a) r)]]"
| "answers le now T _ args out \<longleftrightarrow> True"

section \<open>Constraints\<close>

definition unique_on :: "string list \<Rightarrow> row multiset \<Rightarrow> bool" where
  "unique_on cs M \<longleftrightarrow> (\<forall>r \<in># M. size (filter_mset (\<lambda>r'. same_on cs r' r) M) = 1)"

definition uniques :: "tab \<Rightarrow> string list list" where
  "uniques t =
     (if primary t \<noteq> [] then primary t
      else List.map_filter (\<lambda>(c, ty, f, d). if f = Primary then Some c else None) (columns t)) #
     List.map_filter (\<lambda>(uniq, _, c, _). if uniq then Some [c] else None) (indexes t)"

fun has_type :: "ctype \<Rightarrow> sval \<Rightarrow> bool" where
  "has_type (Varchar k) (Text s) = (length (runes s) \<le> k)"
| "has_type TextType (Text s) = True"
| "has_type Jsonb (Text s) = True"
| "has_type Boolean (Bool b) = True"
| "has_type Integer (Num i) = (- (2 ^ 31) \<le> i \<and> i < 2 ^ 31)"
| "has_type Bigserial (Num i) = True"
| "has_type Timestamptz (Time t) = (micro t = t)"
| "has_type _ _ = False"

definition typed_row :: "tab \<Rightarrow> row \<Rightarrow> bool" where
  "typed_row t r \<longleftrightarrow>
     list_all2 (\<lambda>(c, ty, f, d) (c', v). c' = c \<and> (if v = Null then f = Nullable else has_type ty v)) (columns t) r"

definition constraints :: "tables \<Rightarrow> bool" where
  "constraints T \<longleftrightarrow> (\<forall>t \<in> set all_tabs.
     (\<forall>r \<in># T t. typed_row t r \<and> (\<forall>(c, p) \<in> set (refs t). \<exists>r' \<in># T p. fld r' ''id'' = fld r c)) \<and>
     (\<forall>cs \<in> set (uniques t). unique_on cs (T t)))"

section \<open>The server\<close>

text \<open>How a state of the server is seen: its tables, its clock, how it prints \<open>jsonb\<close> and orders values.\<close>

record 's view =
  v_tables :: "'s \<Rightarrow> tables"
  v_clock :: "'s \<Rightarrow> time"
  v_json :: "string \<Rightarrow> string"
  v_le :: "sval \<Rightarrow> sval \<Rightarrow> bool"

text \<open>An error the server reports (\<open>pgconn.PgError\<close>, whose text begins with the severity) undoes the statement.
  Any other error, of a cancelled context or a lost connection, may come after the statement took effect:
  then all of it did, or nothing.\<close>

definition sql_error :: "go_error \<Rightarrow> bool" where
  "sql_error e \<longleftrightarrow> (case e of StoreErr s \<Rightarrow> take 7 s = ''ERROR: '' | _ \<Rightarrow> False)"

definition exec_as :: "'s view \<Rightarrow> stmt \<Rightarrow> sval list \<Rightarrow> 's \<Rightarrow> (go_error + int) \<times> 's \<Rightarrow> bool" where
  "exec_as V st args s res \<longleftrightarrow>
     (case fst res of
        Inl e \<Rightarrow> v_tables V (snd res) = v_tables V s \<or> \<not> sql_error e \<and>
          (\<exists>k sr. (k, v_tables V (snd res)) = exec (v_json V) (v_clock V s) sr st args (v_tables V s))
      | Inr k \<Rightarrow> \<exists>sr. (k, v_tables V (snd res)) = exec (v_json V) (v_clock V s) sr st args (v_tables V s))"

fun exec_all :: "(string \<Rightarrow> string) \<Rightarrow> time \<Rightarrow> (int \<times> stmt \<times> sval list) list \<Rightarrow> tables \<Rightarrow> tables" where
  "exec_all J now [] T = T"
| "exec_all J now ((sr, st, args) # rest) T = exec_all J now rest (snd (exec J now sr st args T))"

definition batch_as :: "'s view \<Rightarrow> (stmt \<times> sval list) list \<Rightarrow> 's \<Rightarrow> go_error option \<times> 's \<Rightarrow> bool" where
  "batch_as V sts s res \<longleftrightarrow>
     (let ran = (\<exists>srs. length srs = length sts \<and>
                  v_tables V (snd res) = exec_all (v_json V) (v_clock V s) (zip srs sts) (v_tables V s))
      in case fst res of
           Some e \<Rightarrow> v_tables V (snd res) = v_tables V s \<or> \<not> sql_error e \<and> ran
         | None \<Rightarrow> ran)"

text \<open>What a call that writes may have done: on success \<open>done\<close>; on an error of the driver nothing, or
  \<open>done\<close> unless the server rejected it.\<close>

definition wrote :: "tables \<Rightarrow> tables \<Rightarrow> go_error option \<Rightarrow> bool \<Rightarrow> bool" where
  "wrote T T' res done \<longleftrightarrow>
     (case res of
        None \<Rightarrow> done
      | Some e \<Rightarrow> driver_error e \<and> (T' = T \<or> \<not> sql_error e \<and> done))"

lemma wrote_mono: "wrote T T' res A \<Longrightarrow> (A \<Longrightarrow> B) \<Longrightarrow> wrote T T' res B"
  by (auto simp: wrote_def split: option.splits)

text \<open>A text is one of the statements the stores use: the lexer splits it into the tokens of the statement.
  The lexer does not know the reserved words of SQL, and does not fold unquoted names to lower case;
  \<open>Validate\<close> admits layouts with such names, and for those no server reads the texts this way.\<close>

definition reads_as :: "naming \<Rightarrow> string \<Rightarrow> stmt \<Rightarrow> bool" where
  "reads_as n text st \<longleftrightarrow> st \<in> set pgx_stmts \<and> sql_tokens text = stmt_tokens n st"

text \<open>Every text of the stores is one of them.\<close>

lemma reads:
  "names_ok n \<Longrightarrow> reads_as n (q_createUser (buildQueries n)) st_createUser"
  "names_ok n \<Longrightarrow> reads_as n (q_updateUser (buildQueries n)) st_updateUser"
  "names_ok n \<Longrightarrow> reads_as n (q_userExists (buildQueries n)) st_userExists"
  "names_ok n \<Longrightarrow> reads_as n (q_deleteUser (buildQueries n)) st_deleteUser"
  "names_ok n \<Longrightarrow> reads_as n (q_findUserByID (buildQueries n)) st_findUserByID"
  "names_ok n \<Longrightarrow> reads_as n (q_findUserByName (buildQueries n)) st_findUserByName"
  "names_ok n \<Longrightarrow> reads_as n (q_findUserByEmail (buildQueries n)) st_findUserByEmail"
  "names_ok n \<Longrightarrow> reads_as n (q_countUsers (buildQueries n)) st_countUsers"
  "names_ok n \<Longrightarrow> reads_as n (q_listUsers (buildQueries n)) st_listUsers"
  "names_ok n \<Longrightarrow> reads_as n (q_purgeAnonymous (buildQueries n)) st_purgeAnonymous"
  "names_ok n \<Longrightarrow> reads_as n (q_addToRole (buildQueries n)) st_addToRole"
  "names_ok n \<Longrightarrow> reads_as n (q_removeFromRole (buildQueries n)) st_removeFromRole"
  "names_ok n \<Longrightarrow> reads_as n (q_getRoles (buildQueries n)) st_getRoles"
  "names_ok n \<Longrightarrow> reads_as n (q_isInRole (buildQueries n)) st_isInRole"
  "names_ok n \<Longrightarrow> reads_as n (q_roleExistsByName (buildQueries n)) st_roleExistsByName"
  "names_ok n \<Longrightarrow> reads_as n (q_usersInRole (buildQueries n)) st_usersInRole"
  "names_ok n \<Longrightarrow> reads_as n (q_usersForClaim (buildQueries n)) st_usersForClaim"
  "names_ok n \<Longrightarrow> reads_as n (q_getUserClaims (buildQueries n)) st_getUserClaims"
  "names_ok n \<Longrightarrow> reads_as n (q_addUserClaim (buildQueries n)) st_addUserClaim"
  "names_ok n \<Longrightarrow> reads_as n (q_removeUserClaim (buildQueries n)) st_removeUserClaim"
  "names_ok n \<Longrightarrow> reads_as n (q_getToken (buildQueries n)) st_getToken"
  "names_ok n \<Longrightarrow> reads_as n (q_setToken (buildQueries n)) st_setToken"
  "names_ok n \<Longrightarrow> reads_as n (q_removeToken (buildQueries n)) st_removeToken"
  "names_ok n \<Longrightarrow> reads_as n (q_addLogin (buildQueries n)) st_addLogin"
  "names_ok n \<Longrightarrow> reads_as n (q_removeLogin (buildQueries n)) st_removeLogin"
  "names_ok n \<Longrightarrow> reads_as n (q_getLogins (buildQueries n)) st_getLogins"
  "names_ok n \<Longrightarrow> reads_as n (q_findByLogin (buildQueries n)) st_findByLogin"
  "names_ok n \<Longrightarrow> reads_as n (q_createRole (buildQueries n)) st_createRole"
  "names_ok n \<Longrightarrow> reads_as n (q_updateRole (buildQueries n)) st_updateRole"
  "names_ok n \<Longrightarrow> reads_as n (q_deleteRole (buildQueries n)) st_deleteRole"
  "names_ok n \<Longrightarrow> reads_as n (q_roleExists (buildQueries n)) st_roleExists"
  "names_ok n \<Longrightarrow> reads_as n (q_findRoleByID (buildQueries n)) st_findRoleByID"
  "names_ok n \<Longrightarrow> reads_as n (q_findRoleByName (buildQueries n)) st_findRoleByName"
  "names_ok n \<Longrightarrow> reads_as n (q_getRoleClaims (buildQueries n)) st_getRoleClaims"
  "names_ok n \<Longrightarrow> reads_as n (q_addRoleClaim (buildQueries n)) st_addRoleClaim"
  "names_ok n \<Longrightarrow> reads_as n (q_removeRoleClaim (buildQueries n)) st_removeRoleClaim"
  "names_ok n \<Longrightarrow> reads_as n (ak_create (buildAPIKeyQueries n)) sk_create"
  "names_ok n \<Longrightarrow> reads_as n (ak_getActiveByHash (buildAPIKeyQueries n)) sk_getActiveByHash"
  "names_ok n \<Longrightarrow> reads_as n (ak_listByUser (buildAPIKeyQueries n)) sk_listByUser"
  "names_ok n \<Longrightarrow> reads_as n (ak_revoke (buildAPIKeyQueries n)) sk_revoke"
  "names_ok n \<Longrightarrow> reads_as n (ak_touch (buildAPIKeyQueries n)) sk_touch"
  "names_ok n \<Longrightarrow> reads_as n (rq_create (buildRefreshTokenQueries n)) ss_create"
  "names_ok n \<Longrightarrow> reads_as n (rq_getBySession (buildRefreshTokenQueries n)) ss_getBySession"
  "names_ok n \<Longrightarrow> reads_as n (rq_update (buildRefreshTokenQueries n)) ss_update"
  "names_ok n \<Longrightarrow> reads_as n (rq_del (buildRefreshTokenQueries n)) ss_del"
  "names_ok n \<Longrightarrow> reads_as n (rq_delByUser (buildRefreshTokenQueries n)) ss_delByUser"
  "names_ok n \<Longrightarrow> reads_as n (rq_delExpired (buildRefreshTokenQueries n)) ss_delExpired"
  "names_ok n \<Longrightarrow> reads_as n (rq_listByUser (buildRefreshTokenQueries n)) ss_listByUser"
  "names_ok n \<Longrightarrow> reads_as n (oq_createClient (buildOAuthQueries n)) so_createClient"
  "names_ok n \<Longrightarrow> reads_as n (oq_getClient (buildOAuthQueries n)) so_getClient"
  "names_ok n \<Longrightarrow> reads_as n (oq_touchClient (buildOAuthQueries n)) so_touchClient"
  "names_ok n \<Longrightarrow> reads_as n (oq_deleteStaleClients (buildOAuthQueries n)) so_deleteStaleClients"
  "names_ok n \<Longrightarrow> reads_as n (oq_createCode (buildOAuthQueries n)) so_createCode"
  "names_ok n \<Longrightarrow> reads_as n (oq_getCode (buildOAuthQueries n)) so_getCode"
  "names_ok n \<Longrightarrow> reads_as n (oq_markCodeUsed (buildOAuthQueries n)) so_markCodeUsed"
  "names_ok n \<Longrightarrow> reads_as n (oq_deleteExpiredCodes (buildOAuthQueries n)) so_deleteExpiredCodes"
  "names_ok n \<Longrightarrow> reads_as n (oq_getConsent (buildOAuthQueries n)) so_getConsent"
  "names_ok n \<Longrightarrow> reads_as n (oq_saveConsent (buildOAuthQueries n)) so_saveConsent"
  "names_ok n \<Longrightarrow> reads_as n (oq_deleteConsent (buildOAuthQueries n)) so_deleteConsent"
  "names_ok n \<Longrightarrow> reads_as n (oq_createGrant (buildOAuthQueries n)) so_createGrant"
  "names_ok n \<Longrightarrow> reads_as n (oq_getGrant (buildOAuthQueries n)) so_getGrant"
  "names_ok n \<Longrightarrow> reads_as n (oq_rotateGrant (buildOAuthQueries n)) so_rotateGrant"
  "names_ok n \<Longrightarrow> reads_as n (oq_deleteGrant (buildOAuthQueries n)) so_deleteGrant"
  "names_ok n \<Longrightarrow> reads_as n (oq_deleteUserClientGrants (buildOAuthQueries n)) so_deleteUserClientGrants"
  "names_ok n \<Longrightarrow> reads_as n (oq_listUserGrants (buildOAuthQueries n)) so_listUserGrants"
  "names_ok n \<Longrightarrow> reads_as n (oq_deleteExpiredGrants (buildOAuthQueries n)) so_deleteExpiredGrants"
  "names_ok n \<Longrightarrow> reads_as n (oq_useAssertion (buildOAuthQueries n)) so_useAssertion"
  "names_ok n \<Longrightarrow> reads_as n (oq_deleteExpiredAssertions (buildOAuthQueries n)) so_deleteExpiredAssertions"
  by (simp_all add: reads_as_def read_stmts pgx_stmts_def)

text \<open>A server that runs the texts of a relation as their statements: it keeps the constraints, does what is
  documented, may reject any statement and then changes nothing, and may leave a caller without an answer.\<close>

definition server_runs :: "(string \<Rightarrow> stmt \<Rightarrow> bool) \<Rightarrow> 's pgx \<Rightarrow> 's view \<Rightarrow> bool" where
  "server_runs R d V \<longleftrightarrow>
     (\<forall>s. constraints (v_tables V s)) \<and>
     (\<forall>text args s e. fst (pg_Exec d text args s) = Inl e \<or> pg_Query d text args s = Inl e \<longrightarrow> driver_error e) \<and>
     (\<forall>qs s e. fst (pg_SendBatch d qs s) = Some e \<longrightarrow> driver_error e) \<and>
     (\<forall>text st args s. R text st \<and> \<not> is_query st \<longrightarrow> exec_as V st args s (pg_Exec d text args s)) \<and>
     (\<forall>text st args s out. R text st \<and> is_query st \<and> pg_Query d text args s = Inr out \<longrightarrow>
        answers (v_le V) (v_clock V s) (v_tables V s) st args out) \<and>
     (\<forall>qs sts s. list_all2 (\<lambda>(text, args) (st, args'). args = args' \<and> R text st \<and> \<not> is_query st) qs sts \<longrightarrow>
        batch_as V sts s (pg_SendBatch d qs s))"

definition server_ok :: "naming \<Rightarrow> 's pgx \<Rightarrow> 's view \<Rightarrow> bool" where
  "server_ok n d V \<longleftrightarrow> server_runs (reads_as n) d V"

section \<open>Rows\<close>

lemma all_tabs [simp]: "t \<in> set all_tabs"
  by (cases t) (simp_all add: all_tabs_def)

lemma fld_Nil [simp]: "fld [] c = Null"
  by (simp add: fld_def)

lemma fld_Cons [simp]: "fld ((c', v) # r) c = (if c = c' then v else fld r c)"
  by (simp add: fld_def)

lemma fld_append: "fld (r @ r') c = (if c \<in> fst ` set r then fld r c else fld r' c)"
  by (induction r) (force simp: image_iff)+

lemma fld_outside: "c \<notin> fst ` set r \<Longrightarrow> fld r c = Null"
  by (induction r) auto

lemma fld_qual [simp]: "al \<noteq> [] \<Longrightarrow> fld (qual al r) (al @ ''.'' @ c) = fld r c"
  unfolding qual_def by (induction r) auto

lemma eq_value [simp]: "v \<noteq> Null \<and> v = Text s \<longleftrightarrow> v = Text s"
  by auto

lemma qual_Nil [simp]: "qual [] r = r"
  by (simp add: qual_def)

lemma fld_new_row:
  "fld (new_row J now sr t vs) c =
     (case map_of (columns t) c of
        None \<Rightarrow> Null
      | Some (ty, f, d) \<Rightarrow>
          (case map_of vs c of
             Some v \<Rightarrow> store_val J ty v
           | None \<Rightarrow> if ty = Bigserial then Num sr else dflt_val J now d))"
proof -
  have "fld (map (\<lambda>(c, ty, f, d). (c, g c ty f d)) cols) c =
      (case map_of cols c of None \<Rightarrow> Null | Some (ty, f, d) \<Rightarrow> g c ty f d)" for g and cols :: "coldef list"
    by (induction cols) auto
  then show ?thesis by (simp add: new_row_def)
qed

lemma fst_set_cols [simp]: "map fst (set_cols J t vs r) = map fst r"
  by (auto simp: set_cols_def)

lemma fld_set_cols:
  "fld (set_cols J t vs r) c =
     (if c \<in> fst ` set r then (case map_of vs c of Some v \<Rightarrow> store_val J (col_type t c) v | None \<Rightarrow> fld r c) else Null)"
  unfolding set_cols_def by (induction r) (force simp: fld_outside image_iff split: option.splits)+

lemma typed_row_cols:
  assumes "typed_row t r"
  shows "map fst r = map fst (columns t)"
proof -
  have "list_all2 (\<lambda>(c, ty, f, d) (c', v). c' = c \<and> P ty f v) cols r \<Longrightarrow> map fst r = map fst cols"
    for P and cols :: "coldef list" and r :: row
    by (induction cols r rule: list_all2_induct) auto
  from this [of "\<lambda>ty f v. if v = Null then f = Nullable else has_type ty v"] assms
  show ?thesis unfolding typed_row_def .
qed

section \<open>Constraints at work\<close>

lemma constraints_typed: "constraints T \<Longrightarrow> r \<in># T t \<Longrightarrow> typed_row t r"
  unfolding constraints_def using all_tabs by blast

lemma constraints_cols: "constraints T \<Longrightarrow> r \<in># T t \<Longrightarrow> c \<in> fst ` set r \<longleftrightarrow> c \<in> fst ` set (columns t)"
  using typed_row_cols [OF constraints_typed] by (metis list.set_map)

lemma constraints_unique: "constraints T \<Longrightarrow> cs \<in> set (uniques t) \<Longrightarrow> unique_on cs (T t)"
  unfolding constraints_def using all_tabs by blast

lemma unique_on_filter:
  assumes "unique_on cs M" and "r \<in># M"
  shows "filter_mset (\<lambda>r'. same_on cs r' r) M = {#r#}"
proof -
  have "size (filter_mset (\<lambda>r'. same_on cs r' r) M) = 1" using assms by (simp add: unique_on_def)
  then obtain r0 where "filter_mset (\<lambda>r'. same_on cs r' r) M = {#r0#}" using size_1_singleton_mset by metis
  moreover have "r \<in># filter_mset (\<lambda>r'. same_on cs r' r) M" using assms by (simp add: same_on_def)
  ultimately show ?thesis by simp
qed

lemma unique_on_eq: "unique_on cs M \<Longrightarrow> r \<in># M \<Longrightarrow> r' \<in># M \<Longrightarrow> same_on cs r' r \<Longrightarrow> r' = r"
  using unique_on_filter [of cs M r] by (metis (mono_tags, lifting) filter_mset_eq_conv mem_Collect_eq set_mset_filter singletonD set_mset_single)

text \<open>No row is inserted under a key that is taken.\<close>

lemma unique_on_add: "unique_on cs (add_mset r M) \<Longrightarrow> r' \<in># M \<Longrightarrow> \<not> same_on cs r' r"
proof
  assume "unique_on cs (add_mset r M)" "r' \<in># M" "same_on cs r' r"
  then have "filter_mset (\<lambda>r'. same_on cs r' r) (add_mset r M) = {#r#}" by (intro unique_on_filter) auto
  moreover have "same_on cs r r" by (simp add: same_on_def)
  ultimately have "filter_mset (\<lambda>r'. same_on cs r' r) M = {#}" by simp
  with \<open>r' \<in># M\<close> \<open>same_on cs r' r\<close> show False by (auto simp: multiset_eq_iff dest: multi_member_split split: if_splits)
qed

text \<open>A conditional update that meets no row changes nothing; one that is limited to a key meets at most one.\<close>

lemma image_none: "(\<And>r. r \<in># M \<Longrightarrow> \<not> hit r) \<Longrightarrow> image_mset (\<lambda>r. if hit r then f r else r) M = M"
  using image_mset_cong [of M "\<lambda>r. if hit r then f r else r" id] by simp

lemma size_hits:
  assumes "unique_on cs M" and "\<And>r. r \<in># M \<Longrightarrow> hit r \<Longrightarrow> map (fld r) cs = k"
  shows "size (filter_mset hit M) = (if \<exists>r \<in># M. hit r then 1 else 0)"
proof (cases "\<exists>r \<in># M. hit r")
  case True
  then obtain r where r: "r \<in># M" "hit r" by blast
  have "hit r' \<longleftrightarrow> same_on cs r' r" if "r' \<in># M" for r'
    using assms(2) [OF that] assms(2) [OF r] unique_on_eq [OF assms(1) r(1) that] r(2) by (auto simp: same_on_def)
  then have "filter_mset hit M = filter_mset (\<lambda>r'. same_on cs r' r) M" by (intro filter_mset_cong) auto
  with unique_on_filter [OF assms(1) r(1)] True show ?thesis by simp
qed simp

end
