(* ===== verification/Pgx_Store.thy ===== *)
theory Pgx_Store
  imports Sql_Server Store_Interface "HOL-Library.Monad_Syntax"
begin

text \<open>
  The stores of \<open>stores/pgxstore\<close> on a driver: \<open>UserStore\<close> and \<open>RoleStore\<close> (\<open>pgxstore.go\<close>),
  \<open>APIKeyStore\<close> (\<open>apikey.go\<close>), \<open>RefreshTokenStore\<close> (\<open>refreshtoken.go\<close>) and \<open>OAuthStore\<close>
  (\<open>oauth.go\<close>). Each method sends the texts of its store with its arguments in the order of the
  code and scans the answer. \<open>json.Marshal\<close> of strings cannot fail, so the error branches behind
  it are not reachable. \<open>errors.Is(err, pgx.ErrNoRows)\<close> is equality with its value.
\<close>

section \<open>Scanning\<close>

definition errScan :: go_error where "errScan = StoreErr ''scan''"

definition mapNotFound :: "go_error \<Rightarrow> go_error" where
  "mapNotFound e = (if e = pgx_ErrNoRows then ErrNotFound else e)"

definition asText :: "sval \<Rightarrow> string option" where
  "asText v = (case v of Text s \<Rightarrow> Some s | _ \<Rightarrow> None)"

definition asBool :: "sval \<Rightarrow> bool option" where
  "asBool v = (case v of Bool b \<Rightarrow> Some b | _ \<Rightarrow> None)"

definition asNum :: "sval \<Rightarrow> int option" where
  "asNum v = (case v of Num i \<Rightarrow> Some i | _ \<Rightarrow> None)"

definition asTime :: "sval \<Rightarrow> time option" where
  "asTime v = (case v of Time t \<Rightarrow> Some t | _ \<Rightarrow> None)"

text \<open>Into a \<open>*time.Time\<close> field: NULL is \<open>nil\<close>.\<close>

definition asTimePtr :: "sval \<Rightarrow> time option option" where
  "asTimePtr v = (case v of Time t \<Rightarrow> Some (Some t) | Null \<Rightarrow> Some None | _ \<Rightarrow> None)"

definition timePtr :: "time option \<Rightarrow> sval" where
  "timePtr t = (case t of None \<Rightarrow> Null | Some t \<Rightarrow> Time t)"

text \<open>\<open>QueryRow(...).Scan(...)\<close>: the first row, or \<open>ErrNoRows\<close>.\<close>

definition query_row :: "'s pgx \<Rightarrow> string \<Rightarrow> sval list \<Rightarrow> 's world \<Rightarrow> go_error + sval list" where
  "query_row d text args w =
     (case pg_Query d text args (db w) of
        Inl e \<Rightarrow> Inl e | Inr [] \<Rightarrow> Inl pgx_ErrNoRows | Inr (r # _) \<Rightarrow> Inr r)"

definition scan_one :: "(sval \<Rightarrow> 'a option) \<Rightarrow> sval list \<Rightarrow> go_error + 'a" where
  "scan_one f vs =
     (case vs of [v] \<Rightarrow> (case f v of Some a \<Rightarrow> Inr a | None \<Rightarrow> Inl errScan) | _ \<Rightarrow> Inl errScan)"

definition query_one :: "'s pgx \<Rightarrow> (sval \<Rightarrow> 'a option) \<Rightarrow> string \<Rightarrow> sval list \<Rightarrow> 's world \<Rightarrow> go_error + 'a" where
  "query_one d f text args w =
     (case query_row d text args w of Inl e \<Rightarrow> Inl e | Inr vs \<Rightarrow> scan_one f vs)"

text \<open>\<open>for rows.Next()\<close>: the first row that does not scan ends the loop with its error.\<close>

fun scan_rows :: "(sval list \<Rightarrow> go_error + 'a) \<Rightarrow> sval list list \<Rightarrow> go_error + 'a list" where
  "scan_rows f [] = Inr []"
| "scan_rows f (r # rs) =
     (case f r of
        Inl e \<Rightarrow> Inl e
      | Inr a \<Rightarrow> (case scan_rows f rs of Inl e \<Rightarrow> Inl e | Inr as \<Rightarrow> Inr (a # as)))"

definition query_rows :: "'s pgx \<Rightarrow> (sval list \<Rightarrow> go_error + 'a) \<Rightarrow> string \<Rightarrow> sval list \<Rightarrow> 's world \<Rightarrow> go_error + 'a list" where
  "query_rows d f text args w =
     (case pg_Query d text args (db w) of Inl e \<Rightarrow> Inl e | Inr rows \<Rightarrow> scan_rows f rows)"

text \<open>\<open>Exec\<close> with the tag used, and with the tag dropped.\<close>

definition exec_tag :: "'s pgx \<Rightarrow> string \<Rightarrow> sval list \<Rightarrow> 's world \<Rightarrow> (go_error + int) \<times> 's world" where
  "exec_tag d text args w = (case pg_Exec d text args (db w) of (r, s) \<Rightarrow> (r, w\<lparr>db := s\<rparr>))"

definition exec_err :: "'s pgx \<Rightarrow> string \<Rightarrow> sval list \<Rightarrow> 's world \<Rightarrow> go_error option \<times> 's world" where
  "exec_err d text args w =
     (case exec_tag d text args w of (Inl e, w) \<Rightarrow> (Some e, w) | (Inr _, w) \<Rightarrow> (None, w))"

section \<open>The user store\<close>

record ('s, 'q) pgx_store =
  ps_db :: "'s pgx"
  ps_q :: 'q

type_synonym 's pgx_user_store = "('s, queries) pgx_store"

definition NewUserStore :: "'s pgx \<Rightarrow> pgx_option list \<Rightarrow> 's pgx_user_store" where
  "NewUserStore d opts = \<lparr>ps_db = d, ps_q = buildQueries (resolve opts)\<rparr>"

definition NewRoleStore :: "'s pgx \<Rightarrow> pgx_option list \<Rightarrow> 's pgx_user_store" where
  "NewRoleStore d opts = \<lparr>ps_db = d, ps_q = buildQueries (resolve opts)\<rparr>"

definition scan_user_cols :: "sval list \<Rightarrow> (user \<times> string) option" where
  "scan_user_cols vs =
     (case vs of
        [i, un, nun, em, nem, ec, ph, ss, cs, pn, pnc, tf, le, lk, af, at, an, ca, ua] \<Rightarrow> do {
          i \<leftarrow> asText i; un \<leftarrow> asText un; nun \<leftarrow> asText nun; em \<leftarrow> asText em; nem \<leftarrow> asText nem;
          ec \<leftarrow> asBool ec; ph \<leftarrow> asText ph; ss \<leftarrow> asText ss; cs \<leftarrow> asText cs; pn \<leftarrow> asText pn;
          pnc \<leftarrow> asBool pnc; tf \<leftarrow> asBool tf; le \<leftarrow> asTimePtr le; lk \<leftarrow> asBool lk; af \<leftarrow> asNum af;
          at \<leftarrow> asText at; an \<leftarrow> asBool an; ca \<leftarrow> asTime ca; ua \<leftarrow> asTime ua;
          Some (\<lparr>u_ID = i, u_UserName = un, u_NormalizedUserName = nun, u_Email = em, u_NormalizedEmail = nem,
             u_EmailConfirmed = ec, u_PasswordHash = ph, u_SecurityStamp = ss, u_ConcurrencyStamp = cs,
             u_PhoneNumber = pn, u_PhoneNumberConfirmed = pnc, u_TwoFactorEnabled = tf, u_LockoutEnd = le,
             u_LockoutEnabled = lk, u_AccessFailedCount = af, u_IsAnonymous = an, u_Attributes = None,
             u_CreatedAt = ca, u_UpdatedAt = ua\<rparr>, at) }
      | _ \<Rightarrow> None)"

definition scanUserRow :: "sval list \<Rightarrow> go_error + user" where
  "scanUserRow vs =
     (case scan_user_cols vs of
        None \<Rightarrow> Inl errScan
      | Some (u, attrs) \<Rightarrow>
          if attrs \<noteq> [] then
            (case json_Unmarshal_map attrs of
               None \<Rightarrow> Inl (StoreErr ''json'') | Some m \<Rightarrow> Inr (u\<lparr>u_Attributes := Some m\<rparr>))
          else Inr u)"

definition scanUser :: "go_error + sval list \<Rightarrow> go_error + user" where
  "scanUser row = (case row of Inl e \<Rightarrow> Inl (mapNotFound e) | Inr vs \<Rightarrow> scanUserRow vs)"

definition marshalAttrs :: "attributes option \<Rightarrow> string" where
  "marshalAttrs a = (case a of None \<Rightarrow> ''{}'' | Some m \<Rightarrow> json_Marshal_map m)"

text \<open>The arguments that \<open>Create\<close> and \<open>Update\<close> share; \<open>Update\<close> sends the new stamp in its place.\<close>

definition user_args :: "user \<Rightarrow> string \<Rightarrow> sval list" where
  "user_args u stamp =
     [Text (u_ID u), Text (u_UserName u), Text (u_NormalizedUserName u), Text (u_Email u), Text (u_NormalizedEmail u),
      Bool (u_EmailConfirmed u), Text (u_PasswordHash u), Text (u_SecurityStamp u), Text stamp,
      Text (u_PhoneNumber u), Bool (u_PhoneNumberConfirmed u), Bool (u_TwoFactorEnabled u), timePtr (u_LockoutEnd u),
      Bool (u_LockoutEnabled u), Num (u_AccessFailedCount u), Text (marshalAttrs (u_Attributes u)), Bool (u_IsAnonymous u)]"

definition pgx_Create :: "'s pgx_user_store \<Rightarrow> user \<Rightarrow> 's world \<Rightarrow> go_error option \<times> user \<times> 's world" where
  "pgx_Create st u w =
     (case exec_err (ps_db st) (q_createUser (ps_q st)) (user_args u (u_ConcurrencyStamp u)) w of
        (e, w) \<Rightarrow> (e, u, w))"

definition pgx_Update ::
  "extern \<Rightarrow> 's pgx_user_store \<Rightarrow> user \<Rightarrow> 's world \<Rightarrow> go_error option \<times> user \<times> 's world" where
  "pgx_Update x st u w =
     (let old = u_ConcurrencyStamp u;
          (stamp, w) = draw (NewConcurrencyStamp x) w
      in case exec_tag (ps_db st) (q_updateUser (ps_q st)) (user_args u stamp @ [Text old]) w of
           (Inl e, w) \<Rightarrow> (Some e, u, w)
         | (Inr k, w) \<Rightarrow>
             if k = 0 then
               (case query_one (ps_db st) asBool (q_userExists (ps_q st)) [Text (u_ID u)] w of
                  Inr exists \<Rightarrow> if \<not> exists then (Some ErrNotFound, u, w) else (Some ErrConcurrencyFailure, u, w)
                | Inl _ \<Rightarrow> (Some ErrConcurrencyFailure, u, w))
             else (None, u\<lparr>u_ConcurrencyStamp := stamp\<rparr>, w))"

definition pgx_PurgeAnonymousUsers :: "'s pgx_user_store \<Rightarrow> time \<Rightarrow> 's world \<Rightarrow> (go_error + int) \<times> 's world" where
  "pgx_PurgeAnonymousUsers st createdBefore w =
     exec_tag (ps_db st) (q_purgeAnonymous (ps_q st)) [Time createdBefore] w"

definition pgx_Delete :: "'s pgx_user_store \<Rightarrow> user \<Rightarrow> 's world \<Rightarrow> go_error option \<times> 's world" where
  "pgx_Delete st u w = exec_err (ps_db st) (q_deleteUser (ps_q st)) [Text (u_ID u)] w"

definition pgx_FindByID :: "'s pgx_user_store \<Rightarrow> string \<Rightarrow> 's world \<Rightarrow> go_error + user" where
  "pgx_FindByID st i w = scanUser (query_row (ps_db st) (q_findUserByID (ps_q st)) [Text i] w)"

definition pgx_FindByName :: "'s pgx_user_store \<Rightarrow> string \<Rightarrow> 's world \<Rightarrow> go_error + user" where
  "pgx_FindByName st n w = scanUser (query_row (ps_db st) (q_findUserByName (ps_q st)) [Text n] w)"

definition pgx_FindByEmail :: "'s pgx_user_store \<Rightarrow> string \<Rightarrow> 's world \<Rightarrow> go_error + user" where
  "pgx_FindByEmail st e w =
     (if e = [] then Inl ErrNotFound
      else scanUser (query_row (ps_db st) (q_findUserByEmail (ps_q st)) [Text e] w))"

definition pgx_ListUsers :: "extern \<Rightarrow> 's pgx_user_store \<Rightarrow> list_filter \<Rightarrow> 's world \<Rightarrow> go_error + user list \<times> int" where
  "pgx_ListUsers x st f w =
     (let search = strings_ToUpper x (lf_Search f)
      in case query_one (ps_db st) asNum (q_countUsers (ps_q st)) [Text search] w of
           Inl e \<Rightarrow> Inl e
         | Inr n \<Rightarrow>
             (case query_rows (ps_db st) scanUserRow (q_listUsers (ps_q st))
                     [Text search, Num (lf_Limit f), Num (lf_Offset f)] w of
                Inl e \<Rightarrow> Inl e | Inr out \<Rightarrow> Inr (out, n)))"

definition pgx_AddToRole :: "'s pgx_user_store \<Rightarrow> user \<Rightarrow> string \<Rightarrow> 's world \<Rightarrow> go_error option \<times> 's world" where
  "pgx_AddToRole st u normalizedRoleName w =
     (case exec_tag (ps_db st) (q_addToRole (ps_q st)) [Text (u_ID u), Text normalizedRoleName] w of
        (Inl e, w) \<Rightarrow> (Some e, w)
      | (Inr k, w) \<Rightarrow>
          if k = 0 then
            (case query_one (ps_db st) asBool (q_roleExistsByName (ps_q st)) [Text normalizedRoleName] w of
               Inr exists \<Rightarrow> if \<not> exists then (Some ErrRoleNotFound, w) else (None, w)
             | Inl _ \<Rightarrow> (None, w))
          else (None, w))"

definition pgx_RemoveFromRole :: "'s pgx_user_store \<Rightarrow> user \<Rightarrow> string \<Rightarrow> 's world \<Rightarrow> go_error option \<times> 's world" where
  "pgx_RemoveFromRole st u normalizedRoleName w =
     exec_err (ps_db st) (q_removeFromRole (ps_q st)) [Text (u_ID u), Text normalizedRoleName] w"

definition pgx_GetRoles :: "'s pgx_user_store \<Rightarrow> user \<Rightarrow> 's world \<Rightarrow> go_error + string list" where
  "pgx_GetRoles st u w = query_rows (ps_db st) (scan_one asText) (q_getRoles (ps_q st)) [Text (u_ID u)] w"

definition pgx_IsInRole :: "'s pgx_user_store \<Rightarrow> user \<Rightarrow> string \<Rightarrow> 's world \<Rightarrow> go_error + bool" where
  "pgx_IsInRole st u normalizedRoleName w =
     query_one (ps_db st) asBool (q_isInRole (ps_q st)) [Text (u_ID u), Text normalizedRoleName] w"

text \<open>\<open>scanUsers\<close> runs \<open>scanUser\<close> on each row; a row in hand never scans to \<open>ErrNoRows\<close>.\<close>

definition pgx_GetUsersInRole :: "'s pgx_user_store \<Rightarrow> string \<Rightarrow> 's world \<Rightarrow> go_error + user list" where
  "pgx_GetUsersInRole st normalizedRoleName w =
     query_rows (ps_db st) scanUserRow (q_usersInRole (ps_q st)) [Text normalizedRoleName] w"

definition pgx_GetUsersForClaim :: "'s pgx_user_store \<Rightarrow> string \<Rightarrow> string \<Rightarrow> 's world \<Rightarrow> go_error + user list" where
  "pgx_GetUsersForClaim st claimType claimValue w =
     query_rows (ps_db st) scanUserRow (q_usersForClaim (ps_q st)) [Text claimType, Text claimValue] w"

definition scan_claim :: "sval list \<Rightarrow> go_error + claim" where
  "scan_claim vs =
     (case vs of
        [t, v] \<Rightarrow> (case (asText t, asText v) of
                    (Some t, Some v) \<Rightarrow> Inr \<lparr>c_Type = t, c_Value = v\<rparr> | _ \<Rightarrow> Inl errScan)
      | _ \<Rightarrow> Inl errScan)"

definition pgx_GetClaims :: "'s pgx_user_store \<Rightarrow> user \<Rightarrow> 's world \<Rightarrow> go_error + claim list" where
  "pgx_GetClaims st u w = query_rows (ps_db st) scan_claim (q_getUserClaims (ps_q st)) [Text (u_ID u)] w"

definition send_batch :: "'s pgx \<Rightarrow> (string \<times> sval list) list \<Rightarrow> 's world \<Rightarrow> go_error option \<times> 's world" where
  "send_batch d qs w = (case pg_SendBatch d qs (db w) of (e, s) \<Rightarrow> (e, w\<lparr>db := s\<rparr>))"

definition pgx_AddClaims :: "'s pgx_user_store \<Rightarrow> user \<Rightarrow> claim list \<Rightarrow> 's world \<Rightarrow> go_error option \<times> 's world" where
  "pgx_AddClaims st u claims w =
     send_batch (ps_db st)
       (map (\<lambda>c. (q_addUserClaim (ps_q st), [Text (u_ID u), Text (c_Type c), Text (c_Value c)])) claims) w"

definition pgx_RemoveClaims :: "'s pgx_user_store \<Rightarrow> user \<Rightarrow> claim list \<Rightarrow> 's world \<Rightarrow> go_error option \<times> 's world" where
  "pgx_RemoveClaims st u claims w =
     send_batch (ps_db st)
       (map (\<lambda>c. (q_removeUserClaim (ps_q st), [Text (u_ID u), Text (c_Type c), Text (c_Value c)])) claims) w"

definition pgx_GetToken :: "'s pgx_user_store \<Rightarrow> user \<Rightarrow> string \<Rightarrow> string \<Rightarrow> 's world \<Rightarrow> go_error + string" where
  "pgx_GetToken st u loginProvider name w =
     (case query_one (ps_db st) asText (q_getToken (ps_q st)) [Text (u_ID u), Text loginProvider, Text name] w of
        Inl e \<Rightarrow> if e = pgx_ErrNoRows then Inr [] else Inl e
      | Inr v \<Rightarrow> Inr v)"

definition pgx_SetToken ::
  "'s pgx_user_store \<Rightarrow> user \<Rightarrow> string \<Rightarrow> string \<Rightarrow> string \<Rightarrow> 's world \<Rightarrow> go_error option \<times> 's world" where
  "pgx_SetToken st u loginProvider name val w =
     exec_err (ps_db st) (q_setToken (ps_q st)) [Text (u_ID u), Text loginProvider, Text name, Text val] w"

definition pgx_RemoveToken ::
  "'s pgx_user_store \<Rightarrow> user \<Rightarrow> string \<Rightarrow> string \<Rightarrow> 's world \<Rightarrow> go_error option \<times> 's world" where
  "pgx_RemoveToken st u loginProvider name w =
     exec_err (ps_db st) (q_removeToken (ps_q st)) [Text (u_ID u), Text loginProvider, Text name] w"

definition pgx_AddLogin :: "'s pgx_user_store \<Rightarrow> user \<Rightarrow> login_info \<Rightarrow> 's world \<Rightarrow> go_error option \<times> 's world" where
  "pgx_AddLogin st u login w =
     exec_err (ps_db st) (q_addLogin (ps_q st))
       [Text (l_LoginProvider login), Text (l_ProviderKey login), Text (l_ProviderDisplayName login), Text (u_ID u)] w"

definition pgx_RemoveLogin ::
  "'s pgx_user_store \<Rightarrow> user \<Rightarrow> string \<Rightarrow> string \<Rightarrow> 's world \<Rightarrow> go_error option \<times> 's world" where
  "pgx_RemoveLogin st u loginProvider providerKey w =
     exec_err (ps_db st) (q_removeLogin (ps_q st)) [Text (u_ID u), Text loginProvider, Text providerKey] w"

definition scan_login :: "sval list \<Rightarrow> go_error + login_info" where
  "scan_login vs =
     (case vs of
        [p, k, n] \<Rightarrow> (case (asText p, asText k, asText n) of
             (Some p, Some k, Some n) \<Rightarrow> Inr \<lparr>l_LoginProvider = p, l_ProviderKey = k, l_ProviderDisplayName = n\<rparr>
           | _ \<Rightarrow> Inl errScan)
      | _ \<Rightarrow> Inl errScan)"

definition pgx_GetLogins :: "'s pgx_user_store \<Rightarrow> user \<Rightarrow> 's world \<Rightarrow> go_error + login_info list" where
  "pgx_GetLogins st u w = query_rows (ps_db st) scan_login (q_getLogins (ps_q st)) [Text (u_ID u)] w"

definition pgx_FindByLogin :: "'s pgx_user_store \<Rightarrow> string \<Rightarrow> string \<Rightarrow> 's world \<Rightarrow> go_error + user" where
  "pgx_FindByLogin st loginProvider providerKey w =
     (case query_one (ps_db st) asText (q_findByLogin (ps_q st)) [Text loginProvider, Text providerKey] w of
        Inl e \<Rightarrow> Inl (mapNotFound e)
      | Inr uid \<Rightarrow> pgx_FindByID st uid w)"

text \<open>\<open>*UserStore\<close> as an \<open>identity.DefaultUserStore\<close>.\<close>

definition pgx_Users :: "extern \<Rightarrow> 's pgx_user_store \<Rightarrow> 's user_store" where
  "pgx_Users x st = \<lparr>
     us_Create = pgx_Create st, us_Update = pgx_Update x st, us_Delete = pgx_Delete st,
     us_FindByID = pgx_FindByID st, us_FindByName = pgx_FindByName st, us_FindByEmail = pgx_FindByEmail st,
     us_AddToRole = pgx_AddToRole st, us_RemoveFromRole = pgx_RemoveFromRole st, us_GetRoles = pgx_GetRoles st,
     us_IsInRole = pgx_IsInRole st, us_GetUsersInRole = pgx_GetUsersInRole st, us_GetClaims = pgx_GetClaims st,
     us_AddClaims = pgx_AddClaims st, us_RemoveClaims = pgx_RemoveClaims st,
     us_GetUsersForClaim = pgx_GetUsersForClaim st, us_GetToken = pgx_GetToken st, us_SetToken = pgx_SetToken st,
     us_RemoveToken = pgx_RemoveToken st, us_AddLogin = pgx_AddLogin st, us_RemoveLogin = pgx_RemoveLogin st,
     us_GetLogins = pgx_GetLogins st, us_FindByLogin = pgx_FindByLogin st,
     us_ListUsers = Some (pgx_ListUsers x st), us_PurgeAnonymousUsers = Some (pgx_PurgeAnonymousUsers st)\<rparr>"

section \<open>The role store\<close>

definition scanRole :: "go_error + sval list \<Rightarrow> go_error + role" where
  "scanRole row =
     (case row of
        Inl e \<Rightarrow> Inl (mapNotFound e)
      | Inr vs \<Rightarrow>
          (case map asText vs of
             [Some i, Some nm, Some nn, Some cs] \<Rightarrow>
               Inr \<lparr>r_ID = i, r_Name = nm, r_NormalizedName = nn, r_ConcurrencyStamp = cs\<rparr>
           | _ \<Rightarrow> Inl errScan))"

definition pgxr_Create :: "'s pgx_user_store \<Rightarrow> role \<Rightarrow> 's world \<Rightarrow> go_error option \<times> 's world" where
  "pgxr_Create st r w =
     exec_err (ps_db st) (q_createRole (ps_q st))
       [Text (r_ID r), Text (r_Name r), Text (r_NormalizedName r), Text (r_ConcurrencyStamp r)] w"

definition pgxr_Update ::
  "extern \<Rightarrow> 's pgx_user_store \<Rightarrow> role \<Rightarrow> 's world \<Rightarrow> go_error option \<times> role \<times> 's world" where
  "pgxr_Update x st r w =
     (let old = r_ConcurrencyStamp r;
          (stamp, w) = draw (NewConcurrencyStamp x) w
      in case exec_tag (ps_db st) (q_updateRole (ps_q st))
                [Text (r_ID r), Text (r_Name r), Text (r_NormalizedName r), Text stamp, Text old] w of
           (Inl e, w) \<Rightarrow> (Some e, r, w)
         | (Inr k, w) \<Rightarrow>
             if k = 0 then
               (case query_one (ps_db st) asBool (q_roleExists (ps_q st)) [Text (r_ID r)] w of
                  Inr exists \<Rightarrow> if \<not> exists then (Some ErrNotFound, r, w) else (Some ErrConcurrencyFailure, r, w)
                | Inl _ \<Rightarrow> (Some ErrConcurrencyFailure, r, w))
             else (None, r\<lparr>r_ConcurrencyStamp := stamp\<rparr>, w))"

definition pgxr_Delete :: "'s pgx_user_store \<Rightarrow> role \<Rightarrow> 's world \<Rightarrow> go_error option \<times> 's world" where
  "pgxr_Delete st r w = exec_err (ps_db st) (q_deleteRole (ps_q st)) [Text (r_ID r)] w"

definition pgxr_FindByID :: "'s pgx_user_store \<Rightarrow> string \<Rightarrow> 's world \<Rightarrow> go_error + role" where
  "pgxr_FindByID st i w = scanRole (query_row (ps_db st) (q_findRoleByID (ps_q st)) [Text i] w)"

definition pgxr_FindByName :: "'s pgx_user_store \<Rightarrow> string \<Rightarrow> 's world \<Rightarrow> go_error + role" where
  "pgxr_FindByName st n w = scanRole (query_row (ps_db st) (q_findRoleByName (ps_q st)) [Text n] w)"

definition pgxr_GetClaims :: "'s pgx_user_store \<Rightarrow> role \<Rightarrow> 's world \<Rightarrow> go_error + claim list" where
  "pgxr_GetClaims st r w = query_rows (ps_db st) scan_claim (q_getRoleClaims (ps_q st)) [Text (r_ID r)] w"

definition pgxr_AddClaim :: "'s pgx_user_store \<Rightarrow> role \<Rightarrow> claim \<Rightarrow> 's world \<Rightarrow> go_error option \<times> 's world" where
  "pgxr_AddClaim st r c w =
     exec_err (ps_db st) (q_addRoleClaim (ps_q st)) [Text (r_ID r), Text (c_Type c), Text (c_Value c)] w"

definition pgxr_RemoveClaim :: "'s pgx_user_store \<Rightarrow> role \<Rightarrow> claim \<Rightarrow> 's world \<Rightarrow> go_error option \<times> 's world" where
  "pgxr_RemoveClaim st r c w =
     exec_err (ps_db st) (q_removeRoleClaim (ps_q st)) [Text (r_ID r), Text (c_Type c), Text (c_Value c)] w"

definition pgx_Roles :: "extern \<Rightarrow> 's pgx_user_store \<Rightarrow> 's role_store" where
  "pgx_Roles x st = \<lparr>rs_Create = pgxr_Create st, rs_Update = pgxr_Update x st, rs_Delete = pgxr_Delete st,
     rs_FindByID = pgxr_FindByID st, rs_FindByName = pgxr_FindByName st, rs_GetClaims = pgxr_GetClaims st,
     rs_AddClaim = pgxr_AddClaim st, rs_RemoveClaim = pgxr_RemoveClaim st\<rparr>"

end
