(* ===== verification/Pgx_OAuth.thy ===== *)
theory Pgx_OAuth
  imports Pgx_Store
begin

text \<open>
  The API-key, refresh-session and authorization-server stores of \<open>stores/pgxstore\<close>.
  \<open>created.IsZero()\<close> compares with the zero time; the clock read then is an argument.
\<close>

section \<open>API keys\<close>

type_synonym 's pgx_key_store = "('s, apiKeyQueries) pgx_store"

definition NewAPIKeyStore :: "'s pgx \<Rightarrow> pgx_option list \<Rightarrow> 's pgx_key_store" where
  "NewAPIKeyStore d opts = \<lparr>ps_db = d, ps_q = buildAPIKeyQueries (resolve opts)\<rparr>"

definition created_or_now :: "time \<Rightarrow> time \<Rightarrow> time" where
  "created_or_now now t = (if t = zero_time then now else t)"

definition pgx_CreateAPIKey :: "time \<Rightarrow> 's pgx_key_store \<Rightarrow> api_key \<Rightarrow> 's world \<Rightarrow> go_error option \<times> 's world" where
  "pgx_CreateAPIKey now st k w =
     (let scopes = json_Marshal_list (k_Scopes k);
          created = created_or_now now (k_CreatedAt k)
      in exec_err (ps_db st) (ak_create (ps_q st))
           [Text (k_ID k), Text (k_UserID k), Text (k_Name k), Text (k_Prefix k), Text (k_KeyHash k), Text scopes,
            timePtr (k_ExpiresAt k), Time created] w)"

text \<open>An error of \<open>json.Unmarshal\<close> is dropped here and leaves the scopes empty.\<close>

definition scanAPIKeyRow :: "sval list \<Rightarrow> go_error + api_key" where
  "scanAPIKeyRow vs =
     (case vs of
        [i, u, n, p, h, sc, e, l, r, c] \<Rightarrow>
          (case do { i \<leftarrow> asText i; u \<leftarrow> asText u; n \<leftarrow> asText n; p \<leftarrow> asText p; h \<leftarrow> asText h; sc \<leftarrow> asText sc;
                     e \<leftarrow> asTimePtr e; l \<leftarrow> asTimePtr l; r \<leftarrow> asTimePtr r; c \<leftarrow> asTime c;
                     Some \<lparr>k_ID = i, k_UserID = u, k_Name = n, k_Prefix = p, k_KeyHash = h,
                       k_Scopes = (if sc \<noteq> [] then (case json_Unmarshal_list sc of None \<Rightarrow> [] | Some l \<Rightarrow> l) else []),
                       k_ExpiresAt = e, k_LastUsedAt = l, k_RevokedAt = r, k_CreatedAt = c\<rparr> } of
             None \<Rightarrow> Inl errScan | Some k \<Rightarrow> Inr k)
      | _ \<Rightarrow> Inl errScan)"

definition scanAPIKey :: "go_error + sval list \<Rightarrow> go_error + api_key" where
  "scanAPIKey row = (case row of Inl e \<Rightarrow> Inl (mapNotFound e) | Inr vs \<Rightarrow> scanAPIKeyRow vs)"

definition pgx_GetActiveAPIKeyByHash :: "'s pgx_key_store \<Rightarrow> string \<Rightarrow> 's world \<Rightarrow> go_error + api_key" where
  "pgx_GetActiveAPIKeyByHash st keyHash w =
     scanAPIKey (query_row (ps_db st) (ak_getActiveByHash (ps_q st)) [Text keyHash] w)"

definition pgx_ListAPIKeysByUser :: "'s pgx_key_store \<Rightarrow> string \<Rightarrow> 's world \<Rightarrow> go_error + api_key list" where
  "pgx_ListAPIKeysByUser st userID w =
     query_rows (ps_db st) scanAPIKeyRow (ak_listByUser (ps_q st)) [Text userID] w"

definition pgx_RevokeAPIKey :: "'s pgx_key_store \<Rightarrow> string \<Rightarrow> 's world \<Rightarrow> go_error option \<times> 's world" where
  "pgx_RevokeAPIKey st i w = exec_err (ps_db st) (ak_revoke (ps_q st)) [Text i] w"

definition pgx_TouchAPIKeyLastUsed :: "'s pgx_key_store \<Rightarrow> string \<Rightarrow> 's world \<Rightarrow> go_error option \<times> 's world" where
  "pgx_TouchAPIKeyLastUsed st i w = exec_err (ps_db st) (ak_touch (ps_q st)) [Text i] w"

text \<open>The interface passes the caller's clock to the lookups; this store uses the server's.\<close>

definition pgx_APIKeys :: "time \<Rightarrow> 's pgx_key_store \<Rightarrow> 's api_key_store" where
  "pgx_APIKeys now st = \<lparr>ks_CreateAPIKey = pgx_CreateAPIKey now st,
     ks_GetActiveAPIKeyByHash = (\<lambda>_. pgx_GetActiveAPIKeyByHash st),
     ks_ListAPIKeysByUser = pgx_ListAPIKeysByUser st, ks_RevokeAPIKey = (\<lambda>_. pgx_RevokeAPIKey st),
     ks_TouchAPIKeyLastUsed = (\<lambda>_. pgx_TouchAPIKeyLastUsed st)\<rparr>"

section \<open>Refresh sessions\<close>

type_synonym 's pgx_session_store = "('s, refreshTokenQueries) pgx_store"

definition NewRefreshTokenStore :: "'s pgx \<Rightarrow> pgx_option list \<Rightarrow> 's pgx_session_store" where
  "NewRefreshTokenStore d opts = \<lparr>ps_db = d, ps_q = buildRefreshTokenQueries (resolve opts)\<rparr>"

definition pgx_CreateRefreshToken ::
  "time \<Rightarrow> 's pgx_session_store \<Rightarrow> refresh_token \<Rightarrow> 's world \<Rightarrow> go_error option \<times> 's world" where
  "pgx_CreateRefreshToken now st rt w =
     (let created = created_or_now now (rt_CreatedAt rt)
      in exec_err (ps_db st) (rq_create (ps_q st))
           [Text (rt_SessionID rt), Text (rt_UserID rt), Text (rt_TokenHash rt), Text (rt_Name rt),
            Time (rt_ExpiresAt rt), Time created, timePtr (rt_LastUsedAt rt)] w)"

definition scanRefreshTokenRow :: "sval list \<Rightarrow> go_error + refresh_token" where
  "scanRefreshTokenRow vs =
     (case vs of
        [i, u, h, n, e, c, l] \<Rightarrow>
          (case do { i \<leftarrow> asText i; u \<leftarrow> asText u; h \<leftarrow> asText h; n \<leftarrow> asText n; e \<leftarrow> asTime e; c \<leftarrow> asTime c; l \<leftarrow> asTimePtr l;
                     Some \<lparr>rt_SessionID = i, rt_UserID = u, rt_TokenHash = h, rt_Name = n, rt_ExpiresAt = e,
                       rt_CreatedAt = c, rt_LastUsedAt = l\<rparr> } of
             None \<Rightarrow> Inl errScan | Some rt \<Rightarrow> Inr rt)
      | _ \<Rightarrow> Inl errScan)"

definition scanRefreshToken :: "go_error + sval list \<Rightarrow> go_error + refresh_token" where
  "scanRefreshToken row = (case row of Inl e \<Rightarrow> Inl (mapNotFound e) | Inr vs \<Rightarrow> scanRefreshTokenRow vs)"

definition pgx_GetRefreshTokenBySession :: "'s pgx_session_store \<Rightarrow> string \<Rightarrow> 's world \<Rightarrow> go_error + refresh_token" where
  "pgx_GetRefreshTokenBySession st sessionID w =
     scanRefreshToken (query_row (ps_db st) (rq_getBySession (ps_q st)) [Text sessionID] w)"

definition pgx_UpdateRefreshToken ::
  "'s pgx_session_store \<Rightarrow> refresh_token \<Rightarrow> 's world \<Rightarrow> go_error option \<times> 's world" where
  "pgx_UpdateRefreshToken st rt w =
     (case exec_tag (ps_db st) (rq_update (ps_q st))
             [Text (rt_SessionID rt), Text (rt_TokenHash rt), Time (rt_ExpiresAt rt), timePtr (rt_LastUsedAt rt),
              Text (rt_Name rt)] w of
        (Inl e, w) \<Rightarrow> (Some e, w)
      | (Inr k, w) \<Rightarrow> if k = 0 then (Some ErrNotFound, w) else (None, w))"

definition pgx_DeleteRefreshToken :: "'s pgx_session_store \<Rightarrow> string \<Rightarrow> 's world \<Rightarrow> go_error option \<times> 's world" where
  "pgx_DeleteRefreshToken st sessionID w = exec_err (ps_db st) (rq_del (ps_q st)) [Text sessionID] w"

definition pgx_DeleteUserRefreshTokens :: "'s pgx_session_store \<Rightarrow> string \<Rightarrow> 's world \<Rightarrow> (go_error + int) \<times> 's world" where
  "pgx_DeleteUserRefreshTokens st userID w = exec_tag (ps_db st) (rq_delByUser (ps_q st)) [Text userID] w"

definition pgx_DeleteExpiredRefreshTokens :: "'s pgx_session_store \<Rightarrow> time \<Rightarrow> 's world \<Rightarrow> (go_error + int) \<times> 's world" where
  "pgx_DeleteExpiredRefreshTokens st before w = exec_tag (ps_db st) (rq_delExpired (ps_q st)) [Time before] w"

definition pgx_ListUserRefreshTokens :: "'s pgx_session_store \<Rightarrow> string \<Rightarrow> 's world \<Rightarrow> go_error + refresh_token list" where
  "pgx_ListUserRefreshTokens st userID w =
     query_rows (ps_db st) scanRefreshTokenRow (rq_listByUser (ps_q st)) [Text userID] w"

definition pgx_RefreshTokens :: "time \<Rightarrow> 's pgx_session_store \<Rightarrow> 's refresh_token_store" where
  "pgx_RefreshTokens now st = \<lparr>ts_CreateRefreshToken = pgx_CreateRefreshToken now st,
     ts_GetRefreshTokenBySession = pgx_GetRefreshTokenBySession st,
     ts_UpdateRefreshToken = pgx_UpdateRefreshToken st, ts_DeleteRefreshToken = pgx_DeleteRefreshToken st,
     ts_DeleteUserRefreshTokens = pgx_DeleteUserRefreshTokens st,
     ts_DeleteExpiredRefreshTokens = pgx_DeleteExpiredRefreshTokens st,
     ts_ListUserRefreshTokens = pgx_ListUserRefreshTokens st\<rparr>"

section \<open>The authorization server's store\<close>

type_synonym 's pgx_oauth_store = "('s, oauthQueries) pgx_store"

definition NewOAuthStore :: "'s pgx \<Rightarrow> pgx_option list \<Rightarrow> 's pgx_oauth_store" where
  "NewOAuthStore d opts = \<lparr>ps_db = d, ps_q = buildOAuthQueries (resolve opts)\<rparr>"

definition jsonList :: "string list \<Rightarrow> string" where
  "jsonList v = json_Marshal_list v"

definition pgx_CreateClient :: "'s pgx_oauth_store \<Rightarrow> oauth_client \<Rightarrow> 's world \<Rightarrow> go_error option \<times> 's world" where
  "pgx_CreateClient st c w =
     exec_err (ps_db st) (oq_createClient (ps_q st))
       [Text (cl_ClientID c), Text (cl_SecretHash c), Text (cl_Name c), Text (jsonList (cl_RedirectURIs c)),
        Text (cl_TokenEndpointAuthMethod c), Text (jsonList (cl_GrantTypes c)), Time (cl_CreatedAt c),
        timePtr (cl_LastUsedAt c)] w"

definition scan_client :: "sval list \<Rightarrow> go_error + oauth_client" where
  "scan_client vs =
     (case vs of
        [i, h, n, ru, m, gt, c, l] \<Rightarrow>
          (case do { i \<leftarrow> asText i; h \<leftarrow> asText h; n \<leftarrow> asText n; ru \<leftarrow> asText ru; m \<leftarrow> asText m; gt \<leftarrow> asText gt;
                     c \<leftarrow> asTime c; l \<leftarrow> asTimePtr l;
                     Some (\<lparr>cl_ClientID = i, cl_SecretHash = h, cl_Name = n, cl_RedirectURIs = [],
                       cl_TokenEndpointAuthMethod = m, cl_GrantTypes = [], cl_CreatedAt = c, cl_LastUsedAt = l\<rparr>, ru, gt) } of
             None \<Rightarrow> Inl errScan
           | Some (cl, ru, gt) \<Rightarrow>
               (case json_Unmarshal_list ru of
                  None \<Rightarrow> Inl (StoreErr ''json'')
                | Some rs \<Rightarrow>
                    (case json_Unmarshal_list gt of
                       None \<Rightarrow> Inl (StoreErr ''json'')
                     | Some gs \<Rightarrow> Inr (cl\<lparr>cl_RedirectURIs := rs, cl_GrantTypes := gs\<rparr>))))
      | _ \<Rightarrow> Inl errScan)"

definition pgx_GetClient :: "'s pgx_oauth_store \<Rightarrow> string \<Rightarrow> 's world \<Rightarrow> go_error + oauth_client" where
  "pgx_GetClient st clientID w =
     (case query_row (ps_db st) (oq_getClient (ps_q st)) [Text clientID] w of
        Inl e \<Rightarrow> Inl (mapNotFound e) | Inr vs \<Rightarrow> scan_client vs)"

definition pgx_TouchClient :: "'s pgx_oauth_store \<Rightarrow> string \<Rightarrow> time \<Rightarrow> 's world \<Rightarrow> go_error option \<times> 's world" where
  "pgx_TouchClient st clientID t w = exec_err (ps_db st) (oq_touchClient (ps_q st)) [Text clientID, Time t] w"

definition pgx_DeleteStaleClients :: "'s pgx_oauth_store \<Rightarrow> time \<Rightarrow> 's world \<Rightarrow> (go_error + int) \<times> 's world" where
  "pgx_DeleteStaleClients st before w = exec_tag (ps_db st) (oq_deleteStaleClients (ps_q st)) [Time before] w"

definition pgx_CreateCode :: "'s pgx_oauth_store \<Rightarrow> oauth_code \<Rightarrow> 's world \<Rightarrow> go_error option \<times> 's world" where
  "pgx_CreateCode st c w =
     exec_err (ps_db st) (oq_createCode (ps_q st))
       [Text (cd_CodeHash c), Text (cd_ClientID c), Text (cd_UserID c), Text (cd_RedirectURI c), Text (cd_Scopes c),
        Text (cd_Resource c), Text (cd_CodeChallenge c), Time (cd_ExpiresAt c), timePtr (cd_UsedAt c), Text (cd_GrantID c)] w"

definition scan_code :: "sval list \<Rightarrow> go_error + oauth_code" where
  "scan_code vs =
     (case vs of
        [h, c, u, ru, sc, r, ch, e, us, g] \<Rightarrow>
          (case do { h \<leftarrow> asText h; c \<leftarrow> asText c; u \<leftarrow> asText u; ru \<leftarrow> asText ru; sc \<leftarrow> asText sc; r \<leftarrow> asText r;
                     ch \<leftarrow> asText ch; e \<leftarrow> asTime e; us \<leftarrow> asTimePtr us; g \<leftarrow> asText g;
                     Some \<lparr>cd_CodeHash = h, cd_ClientID = c, cd_UserID = u, cd_RedirectURI = ru, cd_Scopes = sc,
                       cd_Resource = r, cd_CodeChallenge = ch, cd_ExpiresAt = e, cd_UsedAt = us, cd_GrantID = g\<rparr> } of
             None \<Rightarrow> Inl errScan | Some c \<Rightarrow> Inr c)
      | _ \<Rightarrow> Inl errScan)"

definition pgx_GetCode :: "'s pgx_oauth_store \<Rightarrow> string \<Rightarrow> 's world \<Rightarrow> go_error + oauth_code" where
  "pgx_GetCode st codeHash w =
     (case query_row (ps_db st) (oq_getCode (ps_q st)) [Text codeHash] w of
        Inl e \<Rightarrow> Inl (mapNotFound e) | Inr vs \<Rightarrow> scan_code vs)"

text \<open>\<open>return tag.RowsAffected() == 1, err\<close>.\<close>

definition one_row :: "(go_error + int) \<times> 's world \<Rightarrow> (go_error + bool) \<times> 's world" where
  "one_row r = (case r of (Inl e, w) \<Rightarrow> (Inl e, w) | (Inr k, w) \<Rightarrow> (Inr (k = 1), w))"

definition pgx_MarkCodeUsed ::
  "'s pgx_oauth_store \<Rightarrow> string \<Rightarrow> string \<Rightarrow> time \<Rightarrow> 's world \<Rightarrow> (go_error + bool) \<times> 's world" where
  "pgx_MarkCodeUsed st codeHash grantID t w =
     one_row (exec_tag (ps_db st) (oq_markCodeUsed (ps_q st)) [Text codeHash, Text grantID, Time t] w)"

definition pgx_DeleteExpiredCodes :: "'s pgx_oauth_store \<Rightarrow> time \<Rightarrow> 's world \<Rightarrow> (go_error + int) \<times> 's world" where
  "pgx_DeleteExpiredCodes st before w = exec_tag (ps_db st) (oq_deleteExpiredCodes (ps_q st)) [Time before] w"

definition scan_consent :: "sval list \<Rightarrow> go_error + oauth_consent" where
  "scan_consent vs =
     (case vs of
        [u, c, sc, ca, ua] \<Rightarrow>
          (case do { u \<leftarrow> asText u; c \<leftarrow> asText c; sc \<leftarrow> asText sc; ca \<leftarrow> asTime ca; ua \<leftarrow> asTime ua;
                     Some \<lparr>cs_UserID = u, cs_ClientID = c, cs_Scopes = sc, cs_CreatedAt = ca, cs_UpdatedAt = ua\<rparr> } of
             None \<Rightarrow> Inl errScan | Some c \<Rightarrow> Inr c)
      | _ \<Rightarrow> Inl errScan)"

definition pgx_GetConsent :: "'s pgx_oauth_store \<Rightarrow> string \<Rightarrow> string \<Rightarrow> 's world \<Rightarrow> go_error + oauth_consent" where
  "pgx_GetConsent st userID clientID w =
     (case query_row (ps_db st) (oq_getConsent (ps_q st)) [Text userID, Text clientID] w of
        Inl e \<Rightarrow> Inl (mapNotFound e) | Inr vs \<Rightarrow> scan_consent vs)"

definition pgx_SaveConsent :: "'s pgx_oauth_store \<Rightarrow> oauth_consent \<Rightarrow> 's world \<Rightarrow> go_error option \<times> 's world" where
  "pgx_SaveConsent st c w =
     exec_err (ps_db st) (oq_saveConsent (ps_q st))
       [Text (cs_UserID c), Text (cs_ClientID c), Text (cs_Scopes c), Time (cs_CreatedAt c), Time (cs_UpdatedAt c)] w"

definition pgx_DeleteConsent :: "'s pgx_oauth_store \<Rightarrow> string \<Rightarrow> string \<Rightarrow> 's world \<Rightarrow> go_error option \<times> 's world" where
  "pgx_DeleteConsent st userID clientID w =
     exec_err (ps_db st) (oq_deleteConsent (ps_q st)) [Text userID, Text clientID] w"

definition pgx_CreateGrant :: "'s pgx_oauth_store \<Rightarrow> oauth_grant \<Rightarrow> 's world \<Rightarrow> go_error option \<times> 's world" where
  "pgx_CreateGrant st g w =
     exec_err (ps_db st) (oq_createGrant (ps_q st))
       [Text (g_ID g), Text (g_UserID g), Text (g_ClientID g), Text (g_Scopes g), Text (g_Resource g),
        Text (g_TokenHash g), Text (g_PrevTokenHash g), Text (g_SecurityStamp g), Time (g_ExpiresAt g),
        Time (g_CreatedAt g), timePtr (g_LastUsedAt g)] w"

definition scanGrantRow :: "sval list \<Rightarrow> go_error + oauth_grant" where
  "scanGrantRow vs =
     (case vs of
        [i, u, c, sc, r, h, ph, ss, e, ca, l] \<Rightarrow>
          (case do { i \<leftarrow> asText i; u \<leftarrow> asText u; c \<leftarrow> asText c; sc \<leftarrow> asText sc; r \<leftarrow> asText r; h \<leftarrow> asText h;
                     ph \<leftarrow> asText ph; ss \<leftarrow> asText ss; e \<leftarrow> asTime e; ca \<leftarrow> asTime ca; l \<leftarrow> asTimePtr l;
                     Some \<lparr>g_ID = i, g_UserID = u, g_ClientID = c, g_Scopes = sc, g_Resource = r, g_TokenHash = h,
                       g_PrevTokenHash = ph, g_SecurityStamp = ss, g_ExpiresAt = e, g_CreatedAt = ca, g_LastUsedAt = l\<rparr> } of
             None \<Rightarrow> Inl errScan | Some g \<Rightarrow> Inr g)
      | _ \<Rightarrow> Inl errScan)"

definition scanGrant :: "go_error + sval list \<Rightarrow> go_error + oauth_grant" where
  "scanGrant row = (case row of Inl e \<Rightarrow> Inl (mapNotFound e) | Inr vs \<Rightarrow> scanGrantRow vs)"

definition pgx_GetGrant :: "'s pgx_oauth_store \<Rightarrow> string \<Rightarrow> 's world \<Rightarrow> go_error + oauth_grant" where
  "pgx_GetGrant st i w = scanGrant (query_row (ps_db st) (oq_getGrant (ps_q st)) [Text i] w)"

definition pgx_RotateGrant ::
  "'s pgx_oauth_store \<Rightarrow> string \<Rightarrow> string \<Rightarrow> string \<Rightarrow> time \<Rightarrow> time \<Rightarrow> 's world \<Rightarrow> (go_error + bool) \<times> 's world" where
  "pgx_RotateGrant st i oldHash newHash expiresAt usedAt w =
     one_row (exec_tag (ps_db st) (oq_rotateGrant (ps_q st))
       [Text i, Text oldHash, Text newHash, Time expiresAt, Time usedAt] w)"

definition pgx_DeleteGrant :: "'s pgx_oauth_store \<Rightarrow> string \<Rightarrow> 's world \<Rightarrow> go_error option \<times> 's world" where
  "pgx_DeleteGrant st i w = exec_err (ps_db st) (oq_deleteGrant (ps_q st)) [Text i] w"

definition pgx_DeleteUserClientGrants ::
  "'s pgx_oauth_store \<Rightarrow> string \<Rightarrow> string \<Rightarrow> 's world \<Rightarrow> (go_error + int) \<times> 's world" where
  "pgx_DeleteUserClientGrants st userID clientID w =
     exec_tag (ps_db st) (oq_deleteUserClientGrants (ps_q st)) [Text userID, Text clientID] w"

definition pgx_ListUserGrants :: "'s pgx_oauth_store \<Rightarrow> string \<Rightarrow> 's world \<Rightarrow> go_error + oauth_grant list" where
  "pgx_ListUserGrants st userID w = query_rows (ps_db st) scanGrantRow (oq_listUserGrants (ps_q st)) [Text userID] w"

definition pgx_DeleteExpiredGrants :: "'s pgx_oauth_store \<Rightarrow> time \<Rightarrow> 's world \<Rightarrow> (go_error + int) \<times> 's world" where
  "pgx_DeleteExpiredGrants st before w = exec_tag (ps_db st) (oq_deleteExpiredGrants (ps_q st)) [Time before] w"

definition pgx_UseClientAssertion ::
  "'s pgx_oauth_store \<Rightarrow> string \<Rightarrow> string \<Rightarrow> time \<Rightarrow> 's world \<Rightarrow> (go_error + bool) \<times> 's world" where
  "pgx_UseClientAssertion st clientID jti expiresAt w =
     one_row (exec_tag (ps_db st) (oq_useAssertion (ps_q st)) [Text clientID, Text jti, Time expiresAt] w)"

definition pgx_DeleteExpiredClientAssertions ::
  "'s pgx_oauth_store \<Rightarrow> time \<Rightarrow> 's world \<Rightarrow> (go_error + int) \<times> 's world" where
  "pgx_DeleteExpiredClientAssertions st before w =
     exec_tag (ps_db st) (oq_deleteExpiredAssertions (ps_q st)) [Time before] w"

definition pgx_OAuth :: "'s pgx_oauth_store \<Rightarrow> 's oauth_store" where
  "pgx_OAuth st = \<lparr>os_CreateClient = pgx_CreateClient st, os_GetClient = pgx_GetClient st,
     os_TouchClient = pgx_TouchClient st, os_DeleteStaleClients = pgx_DeleteStaleClients st,
     os_CreateCode = pgx_CreateCode st, os_GetCode = pgx_GetCode st, os_MarkCodeUsed = pgx_MarkCodeUsed st,
     os_DeleteExpiredCodes = pgx_DeleteExpiredCodes st, os_GetConsent = pgx_GetConsent st,
     os_SaveConsent = pgx_SaveConsent st, os_DeleteConsent = pgx_DeleteConsent st,
     os_CreateGrant = pgx_CreateGrant st, os_GetGrant = pgx_GetGrant st, os_RotateGrant = pgx_RotateGrant st,
     os_DeleteGrant = pgx_DeleteGrant st, os_DeleteUserClientGrants = pgx_DeleteUserClientGrants st,
     os_ListUserGrants = pgx_ListUserGrants st, os_DeleteExpiredGrants = pgx_DeleteExpiredGrants st,
     os_UseClientAssertion = pgx_UseClientAssertion st,
     os_DeleteExpiredClientAssertions = pgx_DeleteExpiredClientAssertions st\<rparr>"

end
