(* ===== verification/Pgx_Correct.thy ===== *)
theory Pgx_Correct
  imports Pgx_OAuth
begin

text \<open>
  From texts to tables: what each call of the driver does to the tables under \<open>server_ok\<close>, and a
  locale for a table that holds one entity per key, interpreted for the tables of users, roles,
  API keys, sessions, clients, codes, consents and grants with the scanning functions of the stores.
\<close>

section \<open>Calls of the driver\<close>

lemma server_constraints: "server_ok n d V \<Longrightarrow> constraints (v_tables V s)"
  unfolding server_ok_def server_runs_def by (elim conjE) (erule allE)

lemma server_exec:
  "server_ok n d V \<Longrightarrow> reads_as n text st \<Longrightarrow> \<not> is_query st \<Longrightarrow> exec_as V st args s (pg_Exec d text args s)"
  unfolding server_ok_def server_runs_def by (elim conjE) simp

lemma server_exec_error: "server_ok n d V \<Longrightarrow> fst (pg_Exec d text args s) = Inl e \<Longrightarrow> driver_error e"
  unfolding server_ok_def server_runs_def by (elim conjE) blast

lemma server_batch_error: "server_ok n d V \<Longrightarrow> fst (pg_SendBatch d qs s) = Some e \<Longrightarrow> driver_error e"
  unfolding server_ok_def server_runs_def by (elim conjE) blast

lemma server_query_error: "server_ok n d V \<Longrightarrow> pg_Query d text args s = Inl e \<Longrightarrow> driver_error e"
  unfolding server_ok_def server_runs_def by (elim conjE) blast

lemma server_query:
  "server_ok n d V \<Longrightarrow> reads_as n text st \<Longrightarrow> is_query st \<Longrightarrow> pg_Query d text args s = Inr out \<Longrightarrow>
   answers (v_le V) (v_clock V s) (v_tables V s) st args out"
  unfolding server_ok_def server_runs_def by (elim conjE) blast

lemma server_batch:
  "server_ok n d V \<Longrightarrow>
   list_all2 (\<lambda>(text, args) (st, args'). args = args' \<and> reads_as n text st \<and> \<not> is_query st) qs sts \<Longrightarrow>
   batch_as V sts s (pg_SendBatch d qs s)"
  unfolding server_ok_def server_runs_def by (elim conjE) blast

lemma exec_tag_effect:
  assumes "server_ok n d V" and "reads_as n text st" and "\<not> is_query st"
    and "exec_tag d text args w = (r, w')"
  shows "tape w' = tape w \<and> (case r of
      Inl e \<Rightarrow> wrote (v_tables V (db w)) (v_tables V (db w')) (Some e)
        (\<exists>k sr. (k, v_tables V (db w')) = exec (v_json V) (v_clock V (db w)) sr st args (v_tables V (db w)))
    | Inr k \<Rightarrow> \<exists>sr. (k, v_tables V (db w')) =
        exec (v_json V) (v_clock V (db w)) sr st args (v_tables V (db w)))"
proof -
  obtain s where s: "pg_Exec d text args (db w) = (r, s)" "w' = w\<lparr>db := s\<rparr>"
    using assms(4) by (auto simp: exec_tag_def split: prod.splits)
  from server_exec [OF assms(1-3), of args "db w"] server_exec_error [OF assms(1), of "text" args "db w"] s
  show ?thesis by (auto simp: exec_as_def wrote_def split: sum.splits)
qed

lemma exec_err_effect:
  assumes "server_ok n d V" and "reads_as n text st" and "\<not> is_query st"
    and "exec_err d text args w = (r, w')"
  shows "tape w' = tape w" and "wrote (v_tables V (db w)) (v_tables V (db w')) r
      (\<exists>k sr. (k, v_tables V (db w')) = exec (v_json V) (v_clock V (db w)) sr st args (v_tables V (db w)))"
proof -
  obtain r0 where r0: "exec_tag d text args w = (r0, w')"
      "r = (case r0 of Inl e \<Rightarrow> Some e | Inr _ \<Rightarrow> None)"
    using assms(4) by (auto simp: exec_err_def split: prod.splits sum.splits)
  note eff = exec_tag_effect [OF assms(1-3) r0(1)]
  from eff show "tape w' = tape w" ..
  from eff r0(2) show "wrote (v_tables V (db w)) (v_tables V (db w')) r
      (\<exists>k sr. (k, v_tables V (db w')) = exec (v_json V) (v_clock V (db w)) sr st args (v_tables V (db w)))"
    by (cases r0) (auto simp: wrote_def)
qed

lemma query_effect:
  assumes "server_ok n d V" and "reads_as n text st" and "is_query st"
  shows "case pg_Query d text args s of
      Inl e \<Rightarrow> driver_error e
    | Inr out \<Rightarrow> answers (v_le V) (v_clock V s) (v_tables V s) st args out"
  using server_query [OF assms] server_query_error [OF assms(1)] by (auto split: sum.splits)

text \<open>The first row of a selection, and the sentinel exactly if nothing is selected.\<close>

lemma query_row_effect:
  assumes "server_ok n d V" and "reads_as n text (Select cs t a ord None)"
  shows "case query_row d text args w of
      Inl e \<Rightarrow> driver_error e \<or>
        e = pgx_ErrNoRows \<and> (\<forall>r \<in># v_tables V (db w) t. \<not> holds (v_tables V (db w)) args (v_clock V (db w)) a r)
    | Inr vs \<Rightarrow> \<exists>r \<in># v_tables V (db w) t. holds (v_tables V (db w)) args (v_clock V (db w)) a r \<and> vs = map (fld r) cs"
proof -
  let ?T = "v_tables V (db w)" and ?now = "v_clock V (db w)"
  have q: "is_query (Select cs t a ord None)" by simp
  note eff = query_effect [OF assms q, where args = args and s = "db w"]
  show ?thesis
  proof (cases "pg_Query d text args (db w)")
    case (Inl e)
    with eff show ?thesis by (simp add: query_row_def)
  next
    case (Inr out)
    with eff obtain rs where rs: "mset rs = filter_mset (holds ?T args ?now a) (?T t)"
        "out = map (\<lambda>r. map (fld r) cs) rs"
      by (auto simp: row_window_def)
    show ?thesis
    proof (cases rs)
      case Nil
      with rs(1) have "set_mset (filter_mset (holds ?T args ?now a) (?T t)) = {}" by simp
      then have "\<forall>r \<in># ?T t. \<not> holds ?T args ?now a r" by auto
      with Inr Nil rs show ?thesis by (simp add: query_row_def)
    next
      case (Cons r rs')
      then have "r \<in># mset rs" by simp
      with rs(1) have "r \<in># filter_mset (holds ?T args ?now a) (?T t)" by simp
      then have "r \<in># ?T t" "holds ?T args ?now a r" by simp_all
      with Inr Cons rs(2) show ?thesis by (auto simp: query_row_def)
    qed
  qed
qed

text \<open>An existence query answers the truth or an error of the driver.\<close>

lemma query_bool_effect:
  assumes "server_ok n d V" and "reads_as n text st"
    and "st = Exists t a \<and> b = (\<exists>r \<in># v_tables V (db w) t. holds (v_tables V (db w)) args (v_clock V (db w)) a r) \<or>
      st = ExistsJoin t1 al1 t2 al2 on a \<and>
      b = (\<exists>r \<in># joined (v_tables V (db w)) t1 al1 t2 al2. holds (v_tables V (db w)) args (v_clock V (db w)) (AndC on a) r)"
  shows "query_one d asBool text args w = Inr b \<or> (\<exists>e. query_one d asBool text args w = Inl e \<and> driver_error e)"
proof -
  have "is_query st" using assms(3) by auto
  from query_effect [OF assms(1, 2) this, where args = args and s = "db w"] assms(3) show ?thesis
    by (auto simp: query_one_def query_row_def scan_one_def asBool_def split: sum.splits)
qed

section \<open>Tables of entities\<close>

definition stored :: "tables \<Rightarrow> tab \<Rightarrow> string list \<Rightarrow> (sval list \<Rightarrow> go_error + 'e) \<Rightarrow> 'e set" where
  "stored T t cols scan = {e. \<exists>r \<in># T t. scan (map (fld r) cols) = Inr e}"

locale entity_table =
  fixes t :: tab and cols :: "string list" and scan :: "sval list \<Rightarrow> go_error + 'e"
    and ks :: "string list" and key :: "'e \<Rightarrow> sval list"
  assumes scan_key: "scan (map (fld r) cols) = Inr e \<Longrightarrow> map (fld r) ks = key e"
    and key_unique: "ks \<in> set (uniques t)"
begin

text \<open>A key names at most one entity.\<close>

lemma stored_unique:
  assumes "constraints T" and "e \<in> stored T t cols scan" and "e' \<in> stored T t cols scan" and "key e = key e'"
  shows "e = e'"
proof -
  obtain r r' where r: "r \<in># T t" "scan (map (fld r) cols) = Inr e"
      and r': "r' \<in># T t" "scan (map (fld r') cols) = Inr e'"
    using assms(2, 3) by (auto simp: stored_def)
  with scan_key assms(4) have "same_on ks r' r" by (simp add: same_on_def)
  with unique_on_eq [OF constraints_unique [OF assms(1) key_unique] r(1) r'(1)] r r' show ?thesis by simp
qed

text \<open>Inserting a row under a fresh key adds its entity.\<close>

lemma stored_insert:
  assumes "constraints (T(t := add_mset r (T t)))" and "scan (map (fld r) cols) = Inr e"
  shows "stored (T(t := add_mset r (T t))) t cols scan = insert e (stored T t cols scan)"
    and "e' \<in> stored T t cols scan \<Longrightarrow> key e' \<noteq> key e"
proof -
  show "stored (T(t := add_mset r (T t))) t cols scan = insert e (stored T t cols scan)"
    using assms(2) by (auto simp: stored_def)
  show "e' \<in> stored T t cols scan \<Longrightarrow> key e' \<noteq> key e"
    using unique_on_add [of ks r "T t"] constraints_unique [OF assms(1) key_unique] scan_key assms(2)
    by (fastforce simp: stored_def same_on_def)
qed

text \<open>Deleting by key removes that entity and no other.\<close>

lemma stored_delete:
  assumes "\<And>r. r \<in># T t \<Longrightarrow> gone r \<longleftrightarrow> map (fld r) ks = k"
  shows "stored (delete_rows T t gone) t cols scan = {e \<in> stored T t cols scan. key e \<noteq> k}"
  using assms scan_key by (fastforce simp: stored_def delete_rows_def)

text \<open>An update of the row under a key replaces its entity.\<close>

lemma stored_update:
  assumes "constraints T" and "r \<in># T t" and "hit r" and "\<And>r'. r' \<in># T t \<Longrightarrow> hit r' \<Longrightarrow> map (fld r') ks = map (fld r) ks"
    and "scan (map (fld (f r)) cols) = Inr e"
  shows "stored (T(t := image_mset (\<lambda>r. if hit r then f r else r) (T t))) t cols scan =
    insert e {e' \<in> stored T t cols scan. key e' \<noteq> map (fld r) ks}"
proof -
  let ?g = "\<lambda>r. if hit r then f r else r"
  have one: "r' = r" if "r' \<in># T t" "map (fld r') ks = map (fld r) ks" for r'
    using unique_on_eq [OF constraints_unique [OF assms(1) key_unique] assms(2) that(1)] that(2)
    by (simp add: same_on_def)
  have "hit r' \<longleftrightarrow> r' = r" if "r' \<in># T t" for r' using one assms(3, 4) that by blast
  then have old: "\<exists>r' \<in># T t. scan (map (fld (?g r')) cols) = Inr e'"
    if "e' \<in> stored T t cols scan" "key e' \<noteq> map (fld r) ks" for e'
    using that scan_key by (fastforce simp: stored_def)
  have new: "e' = e \<or> e' \<in> stored T t cols scan \<and> key e' \<noteq> map (fld r) ks"
    if "r' \<in># T t" "scan (map (fld (?g r')) cols) = Inr e'" for e' r'
  proof (cases "hit r'")
    case True
    with that assms(4, 5) one show ?thesis by fastforce
  next
    case False
    with that have e': "scan (map (fld r') cols) = Inr e'" by simp
    with False that(1) assms(3) one [of r'] scan_key [of r' e'] show ?thesis by (auto simp: stored_def)
  qed
  have "stored (T(t := image_mset ?g (T t))) t cols scan = {e'. \<exists>r' \<in># T t. scan (map (fld (?g r')) cols) = Inr e'}"
    unfolding stored_def fun_upd_same set_image_mset bex_simps ..
  also have "\<dots> = insert e {e' \<in> stored T t cols scan. key e' \<noteq> map (fld r) ks}"
  proof (rule set_eqI)
    have "scan (map (fld (?g r)) cols) = Inr e" using assms(3, 5) by simp
    then show "e' \<in> {e'. \<exists>r' \<in># T t. scan (map (fld (?g r')) cols) = Inr e'} \<longleftrightarrow>
        e' \<in> insert e {e' \<in> stored T t cols scan. key e' \<noteq> map (fld r) ks}" for e'
      using old new assms(2) by blast
  qed
  finally show ?thesis .
qed

text \<open>Looking an entity up by its key.\<close>

lemma lookup_key:
  assumes "constraints T" and "\<And>r. r \<in># T t \<Longrightarrow> P r \<longleftrightarrow> map (fld r) ks = k"
    and "r \<in># T t" and "P r" and "scan (map (fld r) cols) = res"
  shows "case res of Inl _ \<Rightarrow> (\<forall>e \<in> stored T t cols scan. key e \<noteq> k) | Inr e \<Rightarrow> e \<in> stored T t cols scan \<and> key e = k"
proof (cases res)
  case (Inr e)
  with assms scan_key [of r e] show ?thesis by (auto simp: stored_def)
next
  case (Inl err)
  have "r' = r" if "r' \<in># T t" "map (fld r') ks = k" for r'
    using unique_on_eq [OF constraints_unique [OF assms(1) key_unique] assms(3) that(1)] assms(2-4) that(2)
    by (simp add: same_on_def)
  with Inl assms(5) scan_key show ?thesis by (fastforce simp: stored_def)
qed

end

section \<open>The tables of the stores\<close>

lemma as_simps:
  "asText v = Some s \<longleftrightarrow> v = Text s" "asBool v = Some b \<longleftrightarrow> v = Bool b" "asNum v = Some i \<longleftrightarrow> v = Num i"
  "asTime v = Some t \<longleftrightarrow> v = Time t" "asTimePtr v = Some tp \<longleftrightarrow> v = timePtr tp"
  by (auto simp: asText_def asBool_def asNum_def asTime_def asTimePtr_def timePtr_def split: sval.splits option.splits)

lemma as_results [simp]:
  "asText (Text s) = Some s" "asBool (Bool b) = Some b" "asNum (Num i) = Some i" "asTime (Time t) = Some t"
  "asTimePtr (timePtr tp) = Some tp"
  by (simp_all add: as_simps)

lemma uniques_simps:
  "uniques Users = [[''id''], [''normalized_user_name'']]" "uniques Roles = [[''id''], [''normalized_name'']]"
  "uniques UserRoles = [[''user_id'', ''role_id'']]" "uniques UserLogins = [[''login_provider'', ''provider_key'']]"
  "uniques UserTokens = [[''user_id'', ''login_provider'', ''name'']]"
  "uniques APIKeys = [[''id''], [''key_hash'']]" "uniques RefreshTokens = [[''session_id''], [''token_hash'']]"
  "uniques OAuthClients = [[''client_id'']]" "uniques OAuthCodes = [[''code_hash'']]"
  "uniques OAuthConsents = [[''user_id'', ''client_id'']]" "uniques OAuthGrants = [[''id'']]"
  "uniques OAuthAssertions = [[''client_id'', ''jti'']]"
  by (simp_all add: uniques_def map_filter_def)

interpretation pg_users: entity_table Users user_columns scanUserRow "[''id'']" "\<lambda>u. [Text (u_ID u)]"
  by unfold_locales
    (auto simp: uniques_simps scanUserRow_def scan_user_cols_def user_columns_def as_simps bind_eq_Some_conv
      split: option.splits if_splits prod.splits)

interpretation pg_roles: entity_table Roles role_columns "\<lambda>vs. scanRole (Inr vs)" "[''id'']" "\<lambda>r. [Text (r_ID r)]"
  by unfold_locales
    (auto simp: uniques_simps scanRole_def role_columns_def as_simps split: option.splits)

interpretation pg_keys: entity_table APIKeys key_columns scanAPIKeyRow "[''id'']" "\<lambda>k. [Text (k_ID k)]"
  by unfold_locales
    (auto simp: uniques_simps scanAPIKeyRow_def key_columns_def as_simps bind_eq_Some_conv split: option.splits)

interpretation pg_sessions: entity_table RefreshTokens session_columns scanRefreshTokenRow "[''session_id'']"
  "\<lambda>rt. [Text (rt_SessionID rt)]"
  by unfold_locales
    (auto simp: uniques_simps scanRefreshTokenRow_def session_columns_def as_simps bind_eq_Some_conv split: option.splits)

interpretation pg_clients: entity_table OAuthClients client_columns scan_client "[''client_id'']"
  "\<lambda>c. [Text (cl_ClientID c)]"
  by unfold_locales
    (auto simp: uniques_simps scan_client_def client_columns_def as_simps bind_eq_Some_conv split: option.splits prod.splits)

interpretation pg_codes: entity_table OAuthCodes code_columns scan_code "[''code_hash'']" "\<lambda>c. [Text (cd_CodeHash c)]"
  by unfold_locales
    (auto simp: uniques_simps scan_code_def code_columns_def as_simps bind_eq_Some_conv split: option.splits)

interpretation pg_consents: entity_table OAuthConsents consent_columns scan_consent "[''user_id'', ''client_id'']"
  "\<lambda>c. [Text (cs_UserID c), Text (cs_ClientID c)]"
  by unfold_locales
    (auto simp: uniques_simps scan_consent_def consent_columns_def as_simps bind_eq_Some_conv split: option.splits)

interpretation pg_grants: entity_table OAuthGrants grant_columns scanGrantRow "[''id'']" "\<lambda>g. [Text (g_ID g)]"
  by unfold_locales
    (auto simp: uniques_simps scanGrantRow_def grant_columns_def as_simps bind_eq_Some_conv split: option.splits)

end
