(* ===== verification/Pgx_Users.thy ===== *)
theory Pgx_Users
  imports Pgx_Correct
begin

text \<open>
  The user and role tables under the operations of \<open>pgxstore.go\<close>: what a saved user reads back as,
  creation, the compare-and-swap of \<open>Update\<close>, lookups and the cascade of \<open>Delete\<close>.
\<close>

definition users_in :: "tables \<Rightarrow> user set" where
  "users_in T = stored T Users user_columns scanUserRow"

text \<open>Go maps have distinct keys; Marshal replaces invalid UTF-8, so the attributes are text.\<close>

definition attrs_ok :: "user \<Rightarrow> bool" where
  "attrs_ok u \<longleftrightarrow> (case u_Attributes u of None \<Rightarrow> True
     | Some m \<Rightarrow> distinct (map fst m) \<and> list_all (\<lambda>(k, v). valid_utf8 k \<and> valid_utf8 v) m)"

text \<open>\<open>jsonb\<close> keeps the members of an object and the elements of an array of strings.\<close>

definition json_kept :: "(string \<Rightarrow> string) \<Rightarrow> bool" where
  "json_kept J \<longleftrightarrow> (\<forall>s m. json_Unmarshal_map s = Some m \<longrightarrow>
       (\<exists>m'. json_Unmarshal_map (J s) = Some m' \<and> map_of m' = map_of m)) \<and>
     (\<forall>s l. json_Unmarshal_list s = Some l \<longrightarrow> json_Unmarshal_list (J s) = Some l)"

text \<open>The columns of the user table cut spaces beyond their width.\<close>

definition clip_user :: "user \<Rightarrow> user" where
  "clip_user u = u\<lparr>u_ID := clip 36 (u_ID u), u_UserName := clip 256 (u_UserName u),
     u_NormalizedUserName := clip 256 (u_NormalizedUserName u), u_Email := clip 256 (u_Email u),
     u_NormalizedEmail := clip 256 (u_NormalizedEmail u), u_PasswordHash := clip 256 (u_PasswordHash u),
     u_SecurityStamp := clip 64 (u_SecurityStamp u), u_ConcurrencyStamp := clip 64 (u_ConcurrencyStamp u),
     u_PhoneNumber := clip 32 (u_PhoneNumber u)\<rparr>"

text \<open>How a user reads back: texts as the columns keep them, times cut to microseconds, attributes equal
  as maps, and the time stamps of the row in place of those of the struct.\<close>

definition saved_as :: "user \<Rightarrow> user \<Rightarrow> bool" where
  "saved_as u v \<longleftrightarrow> (\<exists>a.
     v = (clip_user u)\<lparr>u_LockoutEnd := map_option micro (u_LockoutEnd u), u_Attributes := Some a,
           u_CreatedAt := u_CreatedAt v, u_UpdatedAt := u_UpdatedAt v\<rparr> \<and>
     map_of a = map_of (case u_Attributes u of None \<Rightarrow> [] | Some m \<Rightarrow> m))"

lemma Unmarshal_map_Nil: "json_Unmarshal_map [] = None"
  by (simp add: json_Unmarshal_map_def)

lemma map_of_eqI_mset:
  assumes "distinct (map fst m)" and "mset m = mset m'"
  shows "map_of m' = map_of m"
proof -
  have "mset (map fst m) = mset (map fst m')" using assms(2) by simp
  then have "distinct (map fst m')" using assms(1) mset_eq_imp_distinct_iff by blast
  with assms show ?thesis by (metis map_of_inject_set mset_eq_setD)
qed

lemma map_of_sort_key: "distinct (map fst m) \<Longrightarrow> map_of (sort_key fst m) = map_of m"
  by (intro map_of_eqI_mset) auto

lemma attrs_stored:
  assumes "json_kept J" and "attrs_ok u"
  shows "\<exists>a. json_Unmarshal_map (J (marshalAttrs (u_Attributes u))) = Some a \<and>
    map_of a = map_of (case u_Attributes u of None \<Rightarrow> [] | Some m \<Rightarrow> m)"
proof -
  have "\<exists>a. json_Unmarshal_map (marshalAttrs (u_Attributes u)) = Some a \<and>
      map_of a = map_of (case u_Attributes u of None \<Rightarrow> [] | Some m \<Rightarrow> m)"
  proof (cases "u_Attributes u")
    case None
    have "json_Unmarshal_map ''{}'' = Some []" by code_simp
    with None show ?thesis by (simp add: marshalAttrs_def)
  next
    case (Some m)
    with assms(2) Unmarshal_Marshal_map [of m] show ?thesis
      by (auto simp: marshalAttrs_def attrs_ok_def map_of_sort_key)
  qed
  with assms(1) show ?thesis unfolding json_kept_def by metis
qed

lemma bound_timePtr [simp]: "bound (timePtr t) = timePtr (map_option micro t)"
  by (simp add: timePtr_def split: option.splits)

lemma store_val_simps [simp]:
  "store_val J Jsonb (Text s) = Text (J s)" "store_val J (Varchar n) (Text s) = Text (clip n s)"
  "store_val J TextType v = v" "store_val J Boolean v = v" "store_val J Integer v = v"
  "store_val J Timestamptz v = v" "store_val J Bigserial v = v" "store_val J ty Null = Null"
  "store_val J ty (Bool b) = Bool b" "store_val J ty (Num i) = Num i" "store_val J ty (Time t) = Time t"
  by (auto simp: store_val_def split: sval.splits)

lemma store_val_timePtr [simp]: "store_val J ty (timePtr tp) = timePtr tp"
  by (simp add: timePtr_def split: option.splits)

text \<open>A value a column has is not changed by storing it again.\<close>

lemma store_val_typed: "has_type ty v \<Longrightarrow> ty \<noteq> Jsonb \<Longrightarrow> store_val J ty v = v"
  by (cases "(ty, v)" rule: has_type.cases) auto

definition user_vals :: "(string \<Rightarrow> string) \<Rightarrow> user \<Rightarrow> string \<Rightarrow> time \<Rightarrow> time \<Rightarrow> sval list" where
  "user_vals J u stamp c t =
     (map bound (user_args (clip_user u) (clip 64 stamp)))[15 := Text (J (marshalAttrs (u_Attributes u)))] @ [Time c, Time t]"

lemma scan_saved:
  assumes "json_kept J" and "attrs_ok u"
    and "map (fld r) user_columns = user_vals J u stamp c t"
  shows "\<exists>v. scanUserRow (map (fld r) user_columns) = Inr v \<and> saved_as (u\<lparr>u_ConcurrencyStamp := stamp\<rparr>) v \<and>
    u_CreatedAt v = c \<and> u_UpdatedAt v = t"
proof -
  from attrs_stored [OF assms(1, 2)] obtain a where a: "json_Unmarshal_map (J (marshalAttrs (u_Attributes u))) = Some a"
      "map_of a = map_of (case u_Attributes u of None \<Rightarrow> [] | Some m \<Rightarrow> m)"
    by blast
  from a(1) have "J (marshalAttrs (u_Attributes u)) \<noteq> []" by (auto simp: Unmarshal_map_Nil)
  with a assms(3) show ?thesis
    by (cases u) (auto simp: scanUserRow_def scan_user_cols_def user_args_def user_vals_def saved_as_def clip_user_def)
qed

lemma created_row:
  assumes "r = new_row J now sr Users (zip user_columns (map (ev args now []) ([Par 1, Par 2, Par 3, Par 4, Par 5, Par 6, Par 7, Par 8,
     Par 9, Par 10, Par 11, Par 12, Par 13, Par 14, Par 15, Par 16, Par 17] @ [Now, Now])))" and "args = user_args u stamp"
  shows "map (fld r) user_columns = user_vals J u stamp (micro now) (micro now)"
  unfolding assms by (simp add: fld_new_row user_columns_def user_args_def user_vals_def clip_user_def)

lemma typed_fld:
  assumes "typed_row t r" and "map_of (columns t) c = Some (ty, f, d)"
  shows "fld r c = Null \<and> f = Nullable \<or> has_type ty (fld r c)"
proof -
  have "map_of cols c = Some (ty, f, d) \<Longrightarrow> fld r c = Null \<and> f = Nullable \<or> has_type ty (fld r c)"
    if "list_all2 (\<lambda>(c, ty, f, d) (c', v). c' = c \<and> (if v = Null then f = Nullable else has_type ty v)) cols r"
    for cols and r :: row
    using that by (induction cols r rule: list_all2_induct) (auto split: if_splits)
  with assms show ?thesis unfolding typed_row_def by blast
qed

lemma has_time: "has_type Timestamptz v \<Longrightarrow> \<exists>t. v = Time t"
  by (cases v) auto

lemma has_text: "has_type (Varchar k) v \<Longrightarrow> \<exists>s. v = Text s"
  by (cases v) auto

lemma updated_row:
  assumes "constraints T" and "r \<in># T Users" and "fld r ''id'' = Text (u_ID u)"
  shows "\<exists>c. map (fld (set_cols J Users (map (\<lambda>(c, e). (c, ev (user_args u stamp @ [Text old]) now r e))
      [(''user_name'', Par 2), (''normalized_user_name'', Par 3), (''email'', Par 4), (''normalized_email'', Par 5),
       (''email_confirmed'', Par 6), (''password_hash'', Par 7), (''security_stamp'', Par 8), (''concurrency_stamp'', Par 9),
       (''phone_number'', Par 10), (''phone_number_confirmed'', Par 11), (''two_factor_enabled'', Par 12),
       (''lockout_end'', Par 13), (''lockout_enabled'', Par 14), (''access_failed_count'', Par 15), (''attributes'', Par 16),
       (''is_anonymous'', Par 17), (''updated_at'', Now)]) r)) user_columns = user_vals J u stamp c (micro now) \<and>
    fld r ''created_at'' = Time c"
proof -
  obtain c where c: "fld r ''created_at'' = Time c"
    using typed_fld [OF constraints_typed [OF assms(1, 2)], of "''created_at''"] has_time by fastforce
  have "has_type (Varchar 36) (fld r ''id'')"
    using typed_fld [OF constraints_typed [OF assms(1, 2)], of "''id''"] by fastforce
  then have "clip 36 (u_ID u) = u_ID u" using assms(3) by simp
  then show ?thesis
    using assms(3) c
    by (simp add: fld_set_cols constraints_cols [OF assms(1, 2)] user_columns_def user_args_def user_vals_def col_type_def
        clip_user_def)
qed

section \<open>Operations\<close>

interpretation pg_names: entity_table Users user_columns scanUserRow "[''normalized_user_name'']"
  "\<lambda>u. [Text (u_NormalizedUserName u)]"
  by unfold_locales
    (auto simp: uniques_simps scanUserRow_def scan_user_cols_def user_columns_def as_simps bind_eq_Some_conv
      split: option.splits if_splits prod.splits)

lemma store_parts [simp]:
  "ps_db (NewUserStore d opts) = d" "ps_q (NewUserStore d opts) = buildQueries (resolve opts)"
  by (simp_all add: NewUserStore_def)

lemma writes [simp]:
  "\<not> is_query st_createUser" "\<not> is_query st_updateUser" "\<not> is_query st_deleteUser" "\<not> is_query st_purgeAnonymous"
  "\<not> is_query st_addToRole" "\<not> is_query st_removeFromRole" "\<not> is_query st_setToken" "\<not> is_query st_removeToken"
  "\<not> is_query st_addLogin" "\<not> is_query st_removeLogin"
  by (simp_all add: st_createUser_def st_updateUser_def st_deleteUser_def st_purgeAnonymous_def st_addToRole_def
      st_removeFromRole_def st_setToken_def st_removeToken_def st_addLogin_def st_removeLogin_def)

lemma saved_as_keys:
  "saved_as u v \<Longrightarrow> u_ID v = clip 36 (u_ID u) \<and> u_NormalizedUserName v = clip 256 (u_NormalizedUserName u)"
proof -
  assume "saved_as u v"
  then obtain a c t where "v = (clip_user u)\<lparr>u_LockoutEnd := map_option micro (u_LockoutEnd u), u_Attributes := Some a,
      u_CreatedAt := c, u_UpdatedAt := t\<rparr>"
    unfolding saved_as_def by blast
  then show ?thesis by (simp add: clip_user_def)
qed

lemma Create_effect:
  assumes "server_ok (resolve opts) d V" and "names_ok (resolve opts)" and "json_kept (v_json V)" and "attrs_ok u"
    and "pgx_Create (NewUserStore d opts) u w = (res, u', w')"
  shows "u' = u \<and> wrote (v_tables V (db w)) (v_tables V (db w')) res
      ((\<exists>v. saved_as u v \<and> users_in (v_tables V (db w')) = insert v (users_in (v_tables V (db w)))) \<and>
       (\<forall>v \<in> users_in (v_tables V (db w)).
          u_ID v \<noteq> clip 36 (u_ID u) \<and> u_NormalizedUserName v \<noteq> clip 256 (u_NormalizedUserName u)) \<and>
       (\<forall>t. t \<noteq> Users \<longrightarrow> v_tables V (db w') t = v_tables V (db w) t))"
proof -
  let ?T = "v_tables V (db w)" and ?T' = "v_tables V (db w')"
  let ?args = "user_args u (u_ConcurrencyStamp u)"
  from assms(5) have u': "u' = u" and e: "exec_err d (q_createUser (buildQueries (resolve opts))) ?args w = (res, w')"
    by (auto simp: pgx_Create_def split: prod.splits)
  show ?thesis
  proof (intro conjI u' wrote_mono [OF exec_err_effect(2) [OF assms(1) reads(1) [OF assms(2)] writes(1) e]])
    assume "\<exists>k sr. (k, ?T') = exec (v_json V) (v_clock V (db w)) sr st_createUser ?args ?T"
    then obtain k sr where "(k, ?T') = exec (v_json V) (v_clock V (db w)) sr st_createUser ?args ?T" by auto
    then obtain r where r: "?T' = ?T(Users := add_mset r (?T Users))"
        "map (fld r) user_columns = user_vals (v_json V) u (u_ConcurrencyStamp u) (micro (v_clock V (db w))) (micro (v_clock V (db w)))"
      using created_row [OF refl refl, of "v_json V" "v_clock V (db w)" sr u "u_ConcurrencyStamp u"]
      by (auto simp: st_createUser_def insert_row_def)
    from scan_saved [OF assms(3, 4) r(2)] obtain v where v: "scanUserRow (map (fld r) user_columns) = Inr v" "saved_as u v"
      by auto
    have c: "constraints (?T(Users := add_mset r (?T Users)))" using server_constraints [OF assms(1), of "db w'"] r(1) by simp
    note ins = pg_users.stored_insert [OF c v(1)] pg_names.stored_insert(2) [OF c v(1)] saved_as_keys [OF v(2)]
    show "\<exists>v. saved_as u v \<and> users_in ?T' = insert v (users_in ?T)"
      using v(2) ins(1) r(1) by (auto simp: users_in_def)
    show "\<forall>v \<in> users_in ?T. u_ID v \<noteq> clip 36 (u_ID u) \<and> u_NormalizedUserName v \<noteq> clip 256 (u_NormalizedUserName u)"
      using ins by (auto simp: users_in_def)
    show "\<forall>t. t \<noteq> Users \<longrightarrow> ?T' t = ?T t" using r(1) by simp
  qed
qed

definition stamped :: "tables \<Rightarrow> string \<Rightarrow> string \<Rightarrow> bool" where
  "stamped T i s \<longleftrightarrow> (\<exists>r \<in># T Users. fld r ''id'' = Text i \<and> fld r ''concurrency_stamp'' = Text s)"

lemma update_exec:
  assumes "constraints T" and "json_kept J" and "attrs_ok u"
    and "(k, T') = exec J now sr st_updateUser (user_args u stamp @ [Text old]) T"
  shows "if k = 0 then T' = T \<and> \<not> stamped T (u_ID u) old
    else stamped T (u_ID u) old \<and> (\<forall>t. t \<noteq> Users \<longrightarrow> T' t = T t) \<and>
      (\<exists>v. saved_as (u\<lparr>u_ConcurrencyStamp := stamp\<rparr>) v \<and> users_in T' = insert v {v' \<in> users_in T. u_ID v' \<noteq> u_ID u})"
proof -
  let ?args = "user_args u stamp @ [Text old]"
  let ?hit = "\<lambda>r. fld r ''id'' = Text (u_ID u) \<and> fld r ''concurrency_stamp'' = Text old"
  obtain asg where asg: "st_updateUser = Update Users asg (AndC (Eq (Col ''id'') (Par 1)) (Eq (Col ''concurrency_stamp'') (Par 18)))"
    by (simp add: st_updateUser_def)
  let ?f = "\<lambda>r. set_cols J Users (map (\<lambda>(c, e). (c, ev ?args now r e)) asg) r"
  have hit: "holds T ?args now (AndC (Eq (Col ''id'') (Par 1)) (Eq (Col ''concurrency_stamp'') (Par 18))) = ?hit"
    by (auto simp: user_args_def fun_eq_iff)
  have k: "k = int (size (filter_mset ?hit (T Users)))"
    and T': "T' = T(Users := image_mset (\<lambda>r. if ?hit r then ?f r else r) (T Users))"
    using assms(4) unfolding asg exec.simps hit by simp_all
  show ?thesis
  proof (cases "stamped T (u_ID u) old")
    case False
    then have no: "\<not> ?hit r" if "r \<in># T Users" for r using that by (auto simp: stamped_def)
    then have "filter_mset ?hit (T Users) = {#}" by (simp add: filter_mset_eq_mempty_iff)
    moreover have "image_mset (\<lambda>r. if ?hit r then ?f r else r) (T Users) = T Users"
      using no by (rule image_none)
    ultimately show ?thesis using False k T' by simp
  next
    case True
    then obtain r where r: "r \<in># T Users" "?hit r" by (auto simp: stamped_def)
    have "unique_on [''id''] (T Users)" using constraints_unique [OF assms(1)] by (simp add: uniques_simps)
    then have "size (filter_mset ?hit (T Users)) = 1"
      using size_hits [of "[''id'']" "T Users" ?hit "[Text (u_ID u)]"] r by auto
    then have "k \<noteq> 0" unfolding k by simp
    from updated_row [OF assms(1) r(1), of u J stamp old now] r(2) asg
    obtain c where c: "map (fld (?f r)) user_columns = user_vals J u stamp c (micro now)"
      by (auto simp: st_updateUser_def)
    from scan_saved [OF assms(2, 3) c] obtain v where v: "scanUserRow (map (fld (?f r)) user_columns) = Inr v"
        "saved_as (u\<lparr>u_ConcurrencyStamp := stamp\<rparr>) v" by blast
    have "users_in T' = insert v {v' \<in> users_in T. [Text (u_ID v')] \<noteq> map (fld r) [''id'']}"
      unfolding users_in_def T'
      by (rule pg_users.stored_update [of T r ?hit ?f v]) (use assms(1) r v(1) in auto)
    with v(2) r T' True \<open>k \<noteq> 0\<close> show ?thesis by auto
  qed
qed

text \<open>The compare-and-swap: the row had the stamp of the copy, and it alone was replaced by the copy under
  the stamp \<open>s\<close>.\<close>

definition swapped :: "extern \<Rightarrow> 's view \<Rightarrow> user \<Rightarrow> 's world \<Rightarrow> 's world \<Rightarrow> string \<Rightarrow> bool" where
  "swapped x V u w w' s \<longleftrightarrow>
     stamped (v_tables V (db w)) (u_ID u) (u_ConcurrencyStamp u) \<and> fresh_stamp x w w' s \<and>
     (\<exists>v. saved_as (u\<lparr>u_ConcurrencyStamp := s\<rparr>) v \<and>
        users_in (v_tables V (db w')) = insert v {v' \<in> users_in (v_tables V (db w)). u_ID v' \<noteq> u_ID u}) \<and>
     (\<forall>t. t \<noteq> Users \<longrightarrow> v_tables V (db w') t = v_tables V (db w) t)"

lemma Update_effect:
  assumes "server_ok (resolve opts) d V" and "names_ok (resolve opts)" and "json_kept (v_json V)" and "attrs_ok u"
    and "pgx_Update x (NewUserStore d opts) u w = (res, u', w')"
  shows "case res of
      Some e \<Rightarrow> u' = u \<and>
        (v_tables V (db w') = v_tables V (db w) \<or> driver_error e \<and> \<not> sql_error e \<and> (\<exists>s. swapped x V u w w' s)) \<and>
        (driver_error e \<or>
         e \<in> {ErrNotFound, ErrConcurrencyFailure} \<and> \<not> stamped (v_tables V (db w)) (u_ID u) (u_ConcurrencyStamp u)) \<and>
        (e = ErrNotFound \<longrightarrow> (\<forall>v \<in> users_in (v_tables V (db w)). u_ID v \<noteq> u_ID u))
    | None \<Rightarrow> \<exists>s. u' = u\<lparr>u_ConcurrencyStamp := s\<rparr> \<and> swapped x V u w w' s"
proof -
  let ?T = "v_tables V (db w)"
  let ?s = "x_uuid x (tape w)" and ?w = "w\<lparr>tape := tape w + 16\<rparr>"
  let ?n = "resolve opts" and ?args = "user_args u (x_uuid x (tape w)) @ [Text (u_ConcurrencyStamp u)]"
  obtain r w1 where e: "exec_tag d (q_updateUser (buildQueries ?n)) ?args ?w = (r, w1)" by fastforce
  note eff = exec_tag_effect [OF assms(1) reads(2) [OF assms(2)] writes(2) e]
  have no_id: "(\<forall>v \<in> users_in T. u_ID v \<noteq> u_ID u)" if "\<not> (\<exists>r \<in># T Users. fld r ''id'' = Text (u_ID u))" for T
    using that pg_users.scan_key by (fastforce simp: users_in_def stored_def)
  have fresh: "fresh_stamp x w w1 ?s" using eff by (auto simp: fresh_stamp_def intro!: exI [of _ "tape w"])
  have upd: "if k = 0 then v_tables V (db w1) = ?T \<and> \<not> stamped ?T (u_ID u) (u_ConcurrencyStamp u) else swapped x V u w w1 ?s"
    if "(k, v_tables V (db w1)) = exec (v_json V) (v_clock V (db w)) sr st_updateUser ?args ?T" for k sr
    using update_exec [OF server_constraints [OF assms(1)] assms(3, 4) that] fresh by (auto simp: swapped_def)
  show ?thesis
  proof (cases r)
    case (Inl err)
    then have "res = Some err" "u' = u" "w' = w1" using e assms(5) by (auto simp: pgx_Update_def Let_def)
    moreover from eff Inl have "wrote ?T (v_tables V (db w1)) (Some err)
        (\<exists>k sr. (k, v_tables V (db w1)) = exec (v_json V) (v_clock V (db w)) sr st_updateUser ?args ?T)" by simp
    then have "wrote ?T (v_tables V (db w1)) (Some err) (v_tables V (db w1) = ?T \<or> swapped x V u w w1 ?s)"
      by (rule wrote_mono) (metis upd)
    then have "driver_error err \<and> (v_tables V (db w1) = ?T \<or> \<not> sql_error err \<and> swapped x V u w w1 ?s)"
      by (auto simp: wrote_def)
    moreover from this have "err \<noteq> ErrNotFound" by (auto simp: driver_error_def)
    ultimately show ?thesis by auto
  next
    case (Inr k)
    with eff obtain sr where ex: "(k, v_tables V (db w1)) = exec (v_json V) (v_clock V (db w)) sr st_updateUser ?args ?T" by auto
    show ?thesis
    proof (cases "k = 0")
      case False
      then have "res = None" "u' = u\<lparr>u_ConcurrencyStamp := ?s\<rparr>" "w' = w1"
        using e Inr assms(5) by (auto simp: pgx_Update_def Let_def)
      then show ?thesis using upd [OF ex] False by auto
    next
      case True
      note same = upd [OF ex, simplified True, simplified]
      let ?b = "\<exists>r \<in># ?T Users. fld r ''id'' = Text (u_ID u)"
      have "query_one d asBool (q_userExists (buildQueries ?n)) [Text (u_ID u)] w1 = Inr ?b \<or>
          (\<exists>e. query_one d asBool (q_userExists (buildQueries ?n)) [Text (u_ID u)] w1 = Inl e)"
        using query_bool_effect [OF assms(1) reads(3) [OF assms(2)], where w = w1 and args = "[Text (u_ID u)]" and t = Users] same
        by (auto simp: st_userExists_def)
      with e Inr True assms(5) same no_id show ?thesis
        by (auto simp: pgx_Update_def Let_def split: if_splits)
    qed
  qed
qed

section \<open>Lookups\<close>

lemma scanUserRow_error: "scanUserRow vs = Inl e \<Longrightarrow> e \<noteq> ErrNotFound"
  by (auto simp: scanUserRow_def errScan_def split: option.splits if_splits prod.splits)

lemma driver_error_cases: "driver_error e \<Longrightarrow> e \<noteq> ErrNotFound \<and> e \<noteq> pgx_ErrNoRows"
  by (auto simp: driver_error_def split: go_error.splits)

lemma find_user_effect:
  assumes "server_ok n d V" and "reads_as n txt (Select user_columns Users a ord None)"
  shows "case scanUser (query_row d txt args w) of
      Inr v \<Rightarrow> \<exists>r \<in># v_tables V (db w) Users. holds (v_tables V (db w)) args (v_clock V (db w)) a r \<and>
        scanUserRow (map (fld r) user_columns) = Inr v
    | Inl e \<Rightarrow> e = ErrNotFound \<longrightarrow>
        (\<forall>r \<in># v_tables V (db w) Users. \<not> holds (v_tables V (db w)) args (v_clock V (db w)) a r)"
  using query_row_effect [OF assms, where args = args and w = w]
  by (auto simp: scanUser_def mapNotFound_def split: sum.splits dest: scanUserRow_error driver_error_cases)

text \<open>The fields a lookup compares are those of the scanned user.\<close>

lemma scan_fields:
  assumes "scanUserRow (map (fld r) user_columns) = Inr v"
  shows "fld r ''id'' = Text (u_ID v)" "fld r ''normalized_user_name'' = Text (u_NormalizedUserName v)"
    "fld r ''normalized_email'' = Text (u_NormalizedEmail v)" "fld r ''is_anonymous'' = Bool (u_IsAnonymous v)"
    "fld r ''created_at'' = Time (u_CreatedAt v)" "fld r ''concurrency_stamp'' = Text (u_ConcurrencyStamp v)"
  using assms
  by (auto simp: scanUserRow_def scan_user_cols_def user_columns_def as_simps bind_eq_Some_conv
      split: option.splits if_splits prod.splits)

lemma find_by:
  assumes "server_ok (resolve opts) d V" and "reads_as (resolve opts) txt (Select user_columns Users (Eq (Col c) (Par 1)) None None)"
    and "\<And>r v. scanUserRow (map (fld r) user_columns) = Inr v \<Longrightarrow> fld r c = Text (f v)"
  shows "case scanUser (query_row d txt [Text k] w) of
      Inr v \<Rightarrow> v \<in> users_in (v_tables V (db w)) \<and> f v = k
    | Inl e \<Rightarrow> e = ErrNotFound \<longrightarrow> (\<forall>v \<in> users_in (v_tables V (db w)). f v \<noteq> k)"
proof -
  note eff = find_user_effect [OF assms(1, 2), where args = "[Text k]" and w = w]
  show ?thesis
  proof (cases "scanUser (query_row d txt [Text k] w)")
    case (Inl e)
    with eff assms(3) show ?thesis by (auto simp: users_in_def stored_def)
  next
    case (Inr v)
    with eff obtain r where "r \<in># v_tables V (db w) Users" "fld r c = Text k" "scanUserRow (map (fld r) user_columns) = Inr v"
      by auto
    with assms(3) [of r v] Inr show ?thesis by (auto simp: users_in_def stored_def)
  qed
qed

lemma find_reads:
  assumes "names_ok n"
  shows "reads_as n (q_findUserByID (buildQueries n)) (Select user_columns Users (Eq (Col ''id'') (Par 1)) None None)"
    and "reads_as n (q_findUserByName (buildQueries n)) (Select user_columns Users (Eq (Col ''normalized_user_name'') (Par 1)) None None)"
    and "reads_as n (q_findUserByEmail (buildQueries n)) (Select user_columns Users (Eq (Col ''normalized_email'') (Par 1)) None None)"
  using reads [OF assms] by (simp_all add: st_findUserByID_def st_findUserByName_def st_findUserByEmail_def)

section \<open>Deleting users\<close>

lemma refs_simps:
  "refs Users = []" "refs Roles = []" "refs UserRoles = [(''user_id'', Users), (''role_id'', Roles)]"
  "refs UserClaims = [(''user_id'', Users)]" "refs RoleClaims = [(''role_id'', Roles)]"
  "refs UserLogins = [(''user_id'', Users)]" "refs UserTokens = [(''user_id'', Users)]"
  "refs APIKeys = [(''user_id'', Users)]" "refs RefreshTokens = [(''user_id'', Users)]"
  "refs OAuthClients = []" "refs OAuthCodes = [(''user_id'', Users)]" "refs OAuthConsents = [(''user_id'', Users)]"
  "refs OAuthGrants = [(''user_id'', Users)]" "refs OAuthAssertions = []"
  by (simp_all add: refs_def map_filter_def)

lemma refs_Users: "(c, Users) \<in> set (refs t) \<longleftrightarrow> c = ''user_id'' \<and> t \<notin> {Users, Roles, RoleClaims, OAuthClients, OAuthAssertions}"
  by (cases t) (auto simp: refs_simps)

definition owned :: "tab \<Rightarrow> bool" where
  "owned t \<longleftrightarrow> t \<notin> {Users, Roles, RoleClaims, OAuthClients, OAuthAssertions}"

text \<open>The tables without some users: their rows, and every row that belongs to them.\<close>

definition without_users :: "(string \<Rightarrow> bool) \<Rightarrow> tables \<Rightarrow> tables" where
  "without_users P T = (\<lambda>t.
     if t = Users then filter_mset (\<lambda>r. \<not> (\<exists>i. fld r ''id'' = Text i \<and> P i)) (T t)
     else if owned t then filter_mset (\<lambda>r. \<not> (\<exists>i. fld r ''user_id'' = Text i \<and> P i)) (T t)
     else T t)"

lemma delete_users:
  assumes "constraints T" and "\<And>r. r \<in># T Users \<Longrightarrow> gone r \<longleftrightarrow> (\<exists>i. fld r ''id'' = Text i \<and> P i)"
  shows "delete_rows T Users gone = without_users P T"
proof
  fix t
  have parent: "\<exists>r' \<in># T Users. fld r' ''id'' = fld r ''user_id''" if "r \<in># T t" "owned t" for r
  proof -
    have "(''user_id'', Users) \<in> set (refs t)" using that(2) refs_Users by (auto simp: owned_def)
    with assms(1) that(1) show ?thesis unfolding constraints_def using all_tabs [of t] by blast
  qed
  have "orphaned T Users gone t r \<longleftrightarrow> owned t \<and> (\<exists>r' \<in># T Users. gone r' \<and> fld r' ''id'' = fld r ''user_id'')" for r
  proof -
    have "orphaned T Users gone t r \<longleftrightarrow> (\<exists>c. (c, Users) \<in> set (refs t) \<and> (\<exists>r' \<in># T Users. gone r' \<and> fld r' ''id'' = fld r c))"
      unfolding orphaned_def by (simp add: split_beta) (metis fst_conv snd_conv prod.collapse)
    then show ?thesis by (auto simp: refs_Users owned_def)
  qed
  then have orphan: "orphaned T Users gone t r \<longleftrightarrow> owned t \<and> (\<exists>i. fld r ''user_id'' = Text i \<and> P i)" if "r \<in># T t" for r
    using parent [OF that] assms(2) by metis
  show "delete_rows T Users gone t = without_users P T t"
  proof (cases "t = Users")
    case True
    then show ?thesis using assms(2) by (auto simp: delete_rows_def without_users_def intro!: filter_mset_cong)
  next
    case False
    then have "delete_rows T Users gone t = filter_mset (\<lambda>r. \<not> orphaned T Users gone t r) (T t)"
      by (simp add: delete_rows_def)
    also have "\<dots> = filter_mset (\<lambda>r. \<not> (owned t \<and> (\<exists>i. fld r ''user_id'' = Text i \<and> P i))) (T t)"
      using orphan by (intro filter_mset_cong) auto
    finally show ?thesis using False by (simp add: without_users_def)
  qed
qed

end
