(* ===== verification/Pgx_Satellites.thy ===== *)
theory Pgx_Satellites
  imports Pgx_Users
begin

text \<open>
  Deletion with its cascade, and the tables that hang off a user: tokens, role memberships and
  external logins.
\<close>

lemma Delete_effect:
  assumes "server_ok (resolve opts) d V" and "names_ok (resolve opts)"
    and "pgx_Delete (NewUserStore d opts) u w = (res, w')"
  shows "wrote (v_tables V (db w)) (v_tables V (db w')) res
      (v_tables V (db w') = without_users (\<lambda>i. i = u_ID u) (v_tables V (db w)))"
proof -
  let ?T = "v_tables V (db w)"
  from assms(3) have e: "exec_err d (q_deleteUser (buildQueries (resolve opts))) [Text (u_ID u)] w = (res, w')"
    by (simp add: pgx_Delete_def)
  have "delete_rows ?T Users (\<lambda>r. fld r ''id'' = Text (u_ID u)) = without_users (\<lambda>i. i = u_ID u) ?T"
    by (rule delete_users [OF server_constraints [OF assms(1)]]) auto
  then show ?thesis
    by (intro wrote_mono [OF exec_err_effect(2) [OF assms(1) reads(4) [OF assms(2)] writes(3) e]])
      (auto simp: st_deleteUser_def)
qed

definition stale_guest :: "tables \<Rightarrow> time \<Rightarrow> row \<Rightarrow> bool" where
  "stale_guest T cutoff r \<longleftrightarrow> fld r ''is_anonymous'' = Bool True \<and> sql_less (fld r ''created_at'') (Time (micro cutoff))"

definition guest_ids :: "tables \<Rightarrow> time \<Rightarrow> string \<Rightarrow> bool" where
  "guest_ids T cutoff i \<longleftrightarrow> (\<exists>r \<in># T Users. fld r ''id'' = Text i \<and> stale_guest T cutoff r)"

lemma guest_ids_iff:
  assumes "constraints T" and "r \<in># T Users"
  shows "stale_guest T cutoff r \<longleftrightarrow> (\<exists>i. fld r ''id'' = Text i \<and> guest_ids T cutoff i)"
proof
  assume g: "stale_guest T cutoff r"
  have "\<exists>i. fld r ''id'' = Text i"
    using typed_fld [OF constraints_typed [OF assms], of "''id''"] has_text by fastforce
  with g assms(2) show "\<exists>i. fld r ''id'' = Text i \<and> guest_ids T cutoff i" unfolding guest_ids_def by blast
next
  assume "\<exists>i. fld r ''id'' = Text i \<and> guest_ids T cutoff i"
  then obtain r' where r': "r' \<in># T Users" "fld r' ''id'' = fld r ''id''" "stale_guest T cutoff r'"
    unfolding guest_ids_def by auto
  have "unique_on [''id''] (T Users)" using constraints_unique [OF assms(1)] by (simp add: uniques_simps)
  from unique_on_eq [OF this assms(2) r'(1)] r' show "stale_guest T cutoff r" by (simp add: same_on_def)
qed

lemma Purge_effect:
  assumes "server_ok (resolve opts) d V" and "names_ok (resolve opts)"
    and "pgx_PurgeAnonymousUsers (NewUserStore d opts) cutoff w = (res, w')"
  shows "case res of
      Inl e \<Rightarrow> wrote (v_tables V (db w)) (v_tables V (db w')) (Some e)
        (v_tables V (db w') = without_users (guest_ids (v_tables V (db w)) cutoff) (v_tables V (db w)))
    | Inr k \<Rightarrow> v_tables V (db w') = without_users (guest_ids (v_tables V (db w)) cutoff) (v_tables V (db w)) \<and>
        k = int (size (filter_mset (stale_guest (v_tables V (db w)) cutoff) (v_tables V (db w) Users)))"
proof -
  let ?T = "v_tables V (db w)"
  from assms(3) have e: "exec_tag d (q_purgeAnonymous (buildQueries (resolve opts))) [Time cutoff] w = (res, w')"
    by (simp add: pgx_PurgeAnonymousUsers_def)
  have "delete_rows ?T Users (stale_guest ?T cutoff) = without_users (guest_ids ?T cutoff) ?T"
    by (rule delete_users [OF server_constraints [OF assms(1)]])
      (rule guest_ids_iff [OF server_constraints [OF assms(1)]])
  with exec_tag_effect [OF assms(1) reads(10) [OF assms(2)] writes(4) e] show ?thesis
    by (auto simp: st_purgeAnonymous_def stale_guest_def [abs_def] split: sum.splits elim: wrote_mono)
qed

section \<open>Tokens\<close>

definition token_value :: "tables \<Rightarrow> string \<Rightarrow> string \<Rightarrow> string \<Rightarrow> string \<Rightarrow> bool" where
  "token_value T i p nm v \<longleftrightarrow> (\<exists>r \<in># T UserTokens. fld r ''user_id'' = Text i \<and> fld r ''login_provider'' = Text p \<and>
     fld r ''name'' = Text nm \<and> fld r ''value'' = Text v)"

definition token_is :: "tables \<Rightarrow> string \<Rightarrow> string \<Rightarrow> string \<Rightarrow> string \<Rightarrow> bool" where
  "token_is T i p nm v \<longleftrightarrow> (if \<exists>a. token_value T i p nm a then token_value T i p nm v else v = [])"

lemma GetToken_effect:
  assumes "server_ok (resolve opts) d V" and "names_ok (resolve opts)"
    and "pgx_GetToken (NewUserStore d opts) u p nm w = Inr v"
  shows "token_is (v_tables V (db w)) (u_ID u) p nm v"
proof -
  let ?T = "v_tables V (db w)" and ?q = "q_getToken (buildQueries (resolve opts))"
  let ?args = "[Text (u_ID u), Text p, Text nm]"
  have "reads_as (resolve opts) ?q (Select [''value''] UserTokens
      (AndC (AndC (Eq (Col ''user_id'') (Par 1)) (Eq (Col ''login_provider'') (Par 2))) (Eq (Col ''name'') (Par 3))) None None)"
    using reads(21) [OF assms(2)] by (simp add: st_getToken_def)
  note eff = query_row_effect [OF assms(1) this, where args = ?args and w = w]
  have val: "\<exists>a. fld r ''value'' = Text a" if "r \<in># ?T UserTokens" for r
    using typed_fld [OF constraints_typed [OF server_constraints [OF assms(1)] that], of "''value''"]
    by (auto elim: has_type.elims)
  show ?thesis
  proof (cases "query_row d ?q ?args w")
    case (Inl e)
    with assms(3) eff driver_error_cases [of e] show ?thesis
      by (auto simp: pgx_GetToken_def query_one_def token_is_def token_value_def split: if_splits)
  next
    case (Inr vs)
    with eff obtain r where r: "r \<in># ?T UserTokens" "fld r ''user_id'' = Text (u_ID u)" "fld r ''login_provider'' = Text p"
        "fld r ''name'' = Text nm" "vs = [fld r ''value'']"
      by (auto simp: numeral_2_eq_2)
    obtain a where a: "fld r ''value'' = Text a" using val [OF r(1)] by blast
    have "v = a" using assms(3) Inr r(5) a by (simp add: pgx_GetToken_def query_one_def scan_one_def)
    with r a show ?thesis by (auto simp: token_is_def token_value_def)
  qed
qed

definition token_key :: "row \<Rightarrow> string \<Rightarrow> string \<Rightarrow> string \<Rightarrow> bool" where
  "token_key r i p nm \<longleftrightarrow> fld r ''user_id'' = Text i \<and> fld r ''login_provider'' = Text p \<and> fld r ''name'' = Text nm"

lemma token_value_key: "token_value T i p nm v \<longleftrightarrow> (\<exists>r \<in># T UserTokens. token_key r i p nm \<and> fld r ''value'' = Text v)"
  by (auto simp: token_value_def token_key_def)

lemma set_token_exec:
  assumes "constraints T" and "(k, T') = exec J now sr st_setToken [Text i, Text p, Text nm, Text v] T"
  shows "token_value T' i' p' nm' v' \<longleftrightarrow>
      (if (i', p', nm') = (clip 36 i, clip 128 p, clip 128 nm) then v' = v else token_value T i' p' nm' v')"
    and "t \<noteq> UserTokens \<Longrightarrow> T' t = T t"
proof -
  let ?i = "clip 36 i" and ?p = "clip 128 p" and ?nm = "clip 128 nm"
  let ?ks = "[''user_id'', ''login_provider'', ''name'']"
  define new where "new = new_row J now sr UserTokens (zip [''user_id'', ''login_provider'', ''name'', ''value'']
     (map (ev [Text i, Text p, Text nm, Text v] now []) [Par 1, Par 2, Par 3, Par 4]))"
  have new: "fld new ''user_id'' = Text ?i" "fld new ''login_provider'' = Text ?p" "fld new ''name'' = Text ?nm" "fld new ''value'' = Text v"
    by (simp_all add: new_def fld_new_row numeral_2_eq_2 numeral_3_eq_3)
  have same: "same_on ?ks r new \<longleftrightarrow> token_key r ?i ?p ?nm" for r
    by (auto simp: same_on_def token_key_def new)
  have vals: "map (\<lambda>c. (c, fld new c)) [''value''] = [(''value'', Text v)]" by (simp add: new)
  let ?f = "\<lambda>r. set_cols J UserTokens [(''value'', Text v)] r"
  have T': "T' = T(UserTokens := (if \<exists>r \<in># T UserTokens. token_key r ?i ?p ?nm
      then image_mset (\<lambda>r. if token_key r ?i ?p ?nm then ?f r else r) (T UserTokens) else add_mset new (T UserTokens)))"
    using assms(2) unfolding st_setToken_def exec.simps insert_row_def conflict.case new_def [symmetric] same vals
    by (auto split: if_splits)
  then show "t \<noteq> UserTokens \<Longrightarrow> T' t = T t" by simp
  show "token_value T' i' p' nm' v' \<longleftrightarrow> (if (i', p', nm') = (?i, ?p, ?nm) then v' = v else token_value T i' p' nm' v')"
  proof (cases "\<exists>r \<in># T UserTokens. token_key r ?i ?p ?nm")
    case False
    then show ?thesis using T' new by (auto simp: token_value_key token_key_def)
  next
    case True
    let ?g = "\<lambda>r. if token_key r ?i ?p ?nm then ?f r else r"
    have f: "token_key (?f r) a b c \<longleftrightarrow> token_key r a b c" "fld (?f r) ''value'' = Text v" if "r \<in># T UserTokens" for r a b c
      using constraints_cols [OF assms(1) that]
      by (auto simp: token_key_def fld_set_cols col_type_def)
    have "token_value T' i' p' nm' v' \<longleftrightarrow> (\<exists>r \<in># T UserTokens. token_key (?g r) i' p' nm' \<and> fld (?g r) ''value'' = Text v')"
      unfolding token_value_key T' using True by simp blast
    also have "\<dots> \<longleftrightarrow> (\<exists>r \<in># T UserTokens. token_key r i' p' nm' \<and>
        (if token_key r ?i ?p ?nm then v' = v else fld r ''value'' = Text v'))"
      by (rule bex_cong) (auto simp: f)
    also have "\<dots> \<longleftrightarrow> (if (i', p', nm') = (?i, ?p, ?nm) then v' = v else token_value T i' p' nm' v')"
    proof (cases "(i', p', nm') = (?i, ?p, ?nm)")
      case True
      then show ?thesis using \<open>\<exists>r \<in># T UserTokens. token_key r ?i ?p ?nm\<close> by auto
    next
      case False
      then have "token_key r i' p' nm' \<Longrightarrow> \<not> token_key r ?i ?p ?nm" for r by (auto simp: token_key_def)
      then show ?thesis using False unfolding token_value_key by (simp cong: conj_cong)
    qed
    finally show ?thesis .
  qed
qed

lemma SetToken_effect:
  assumes "server_ok (resolve opts) d V" and "names_ok (resolve opts)"
    and "pgx_SetToken (NewUserStore d opts) u p nm v w = (res, w')"
  shows "wrote (v_tables V (db w)) (v_tables V (db w')) res
      ((\<forall>i' p' nm' v'. token_is (v_tables V (db w')) i' p' nm' v' \<longleftrightarrow>
         (if (i', p', nm') = (clip 36 (u_ID u), clip 128 p, clip 128 nm) then v' = v
          else token_is (v_tables V (db w)) i' p' nm' v')) \<and>
       (\<forall>t. t \<noteq> UserTokens \<longrightarrow> v_tables V (db w') t = v_tables V (db w) t))"
proof -
  let ?args = "[Text (u_ID u), Text p, Text nm, Text v]" and ?k = "(clip 36 (u_ID u), clip 128 p, clip 128 nm)"
  from assms(3) have e: "exec_err d (q_setToken (buildQueries (resolve opts))) ?args w = (res, w')"
    by (simp add: pgx_SetToken_def)
  show ?thesis
  proof (rule wrote_mono [OF exec_err_effect(2) [OF assms(1) reads(22) [OF assms(2)] writes(7) e]])
    assume "\<exists>k sr. (k, v_tables V (db w')) = exec (v_json V) (v_clock V (db w)) sr st_setToken ?args (v_tables V (db w))"
    then obtain k sr where
      ex: "(k, v_tables V (db w')) = exec (v_json V) (v_clock V (db w)) sr st_setToken ?args (v_tables V (db w))" by auto
    note tok = set_token_exec [OF server_constraints [OF assms(1)] ex]
    have "token_is (v_tables V (db w')) i' p' nm' v' \<longleftrightarrow>
        (if (i', p', nm') = ?k then v' = v else token_is (v_tables V (db w)) i' p' nm' v')" for i' p' nm' v'
      by (cases "(i', p', nm') = ?k") (simp add: token_is_def tok(1), simp only: token_is_def tok(1) if_False)
    with tok(2) show "(\<forall>i' p' nm' v'. token_is (v_tables V (db w')) i' p' nm' v' \<longleftrightarrow>
         (if (i', p', nm') = ?k then v' = v else token_is (v_tables V (db w)) i' p' nm' v')) \<and>
       (\<forall>t. t \<noteq> UserTokens \<longrightarrow> v_tables V (db w') t = v_tables V (db w) t)" by blast
  qed
qed

lemma RemoveToken_effect:
  assumes "server_ok (resolve opts) d V" and "names_ok (resolve opts)"
    and "pgx_RemoveToken (NewUserStore d opts) u p nm w = (res, w')"
  shows "wrote (v_tables V (db w)) (v_tables V (db w')) res
      ((\<forall>i' p' nm' v'. token_is (v_tables V (db w')) i' p' nm' v' \<longleftrightarrow>
         (if (i', p', nm') = (u_ID u, p, nm) then v' = [] else token_is (v_tables V (db w)) i' p' nm' v')) \<and>
       (\<forall>t. t \<noteq> UserTokens \<longrightarrow> v_tables V (db w') t = v_tables V (db w) t))"
proof -
  let ?T = "v_tables V (db w)" and ?T' = "v_tables V (db w')" and ?args = "[Text (u_ID u), Text p, Text nm]"
  from assms(3) have e: "exec_err d (q_removeToken (buildQueries (resolve opts))) ?args w = (res, w')"
    by (simp add: pgx_RemoveToken_def)
  show ?thesis
  proof (rule wrote_mono [OF exec_err_effect(2) [OF assms(1) reads(23) [OF assms(2)] writes(8) e]])
    assume "\<exists>k sr. (k, ?T') = exec (v_json V) (v_clock V (db w)) sr st_removeToken ?args ?T"
    then have T': "?T' = delete_rows ?T UserTokens (\<lambda>r. token_key r (u_ID u) p nm)"
      by (auto simp: st_removeToken_def token_key_def numeral_2_eq_2 numeral_3_eq_3 conj_assoc)
    have other: "?T' t = ?T t" if "t \<noteq> UserTokens" for t
    proof -
      have "\<not> orphaned ?T UserTokens g t r" for g r by (cases t) (auto simp: orphaned_def refs_simps)
      with that T' show ?thesis by (simp add: delete_rows_def)
    qed
    have "token_value ?T' i' p' nm' v' \<longleftrightarrow> (i', p', nm') \<noteq> (u_ID u, p, nm) \<and> token_value ?T i' p' nm' v'" for i' p' nm' v'
      by (auto simp: T' token_value_key delete_rows_def token_key_def)
    with other show "(\<forall>i' p' nm' v'. token_is ?T' i' p' nm' v' \<longleftrightarrow>
         (if (i', p', nm') = (u_ID u, p, nm) then v' = [] else token_is ?T i' p' nm' v')) \<and>
       (\<forall>t. t \<noteq> UserTokens \<longrightarrow> ?T' t = ?T t)" by (simp add: token_is_def)
  qed
qed

section \<open>Role memberships\<close>

definition role_named :: "tables \<Rightarrow> string \<Rightarrow> row \<Rightarrow> bool" where
  "role_named T rn r \<longleftrightarrow> r \<in># T Roles \<and> fld r ''normalized_name'' = Text rn"

definition member_of :: "tables \<Rightarrow> string \<Rightarrow> string \<Rightarrow> bool" where
  "member_of T i rn \<longleftrightarrow> (\<exists>m \<in># T UserRoles. \<exists>r. role_named T rn r \<and> fld m ''user_id'' = Text i \<and> fld m ''role_id'' = fld r ''id'')"

lemma role_id_unique:
  assumes "constraints T" and "r \<in># T Roles" and "r' \<in># T Roles" and "fld r' ''id'' = fld r ''id''"
  shows "r' = r"
proof -
  have "unique_on [''id''] (T Roles)" using constraints_unique [OF assms(1)] by (simp add: uniques_simps)
  from unique_on_eq [OF this assms(2, 3)] assms(4) show ?thesis by (simp add: same_on_def)
qed

lemma role_id_typed: "constraints T \<Longrightarrow> r \<in># T Roles \<Longrightarrow> has_type (Varchar 36) (fld r ''id'')"
  using typed_fld [OF constraints_typed, of T r Roles "''id''"] by fastforce

lemma role_id_text: "constraints T \<Longrightarrow> r \<in># T Roles \<Longrightarrow> \<exists>s. fld r ''id'' = Text s"
  using typed_fld [OF constraints_typed, of T r Roles "''id''"] has_text by fastforce

lemma join_fields:
  assumes "constraints T" and "m \<in># T UserRoles"
  shows "fld (qual ''ur'' m @ qual ''r'' r) ''ur.user_id'' = fld m ''user_id''"
    and "fld (qual ''ur'' m @ qual ''r'' r) ''ur.role_id'' = fld m ''role_id''"
    and "fld (qual ''ur'' m @ qual ''r'' r) ''r.id'' = fld r ''id''"
    and "fld (qual ''ur'' m @ qual ''r'' r) ''r.normalized_name'' = fld r ''normalized_name''"
proof -
  have cols: "map fst m = [''user_id'', ''role_id'']" using typed_row_cols [OF constraints_typed [OF assms]] by simp
  then obtain a b where m: "m = [(''user_id'', a), (''role_id'', b)]" by (auto simp: map_eq_Cons_conv)
  note q = fld_qual [of "''r''" r]
  show "fld (qual ''ur'' m @ qual ''r'' r) ''ur.user_id'' = fld m ''user_id''"
    "fld (qual ''ur'' m @ qual ''r'' r) ''ur.role_id'' = fld m ''role_id''"
    "fld (qual ''ur'' m @ qual ''r'' r) ''r.id'' = fld r ''id''"
    "fld (qual ''ur'' m @ qual ''r'' r) ''r.normalized_name'' = fld r ''normalized_name''"
    using q [of "''id''"] q [of "''normalized_name''"] by (simp_all add: m qual_def)
qed

lemma query_join:
  assumes "server_ok n d V" and "reads_as n txt (ExistsJoin t al t' al' on a)" and "query_one d asBool txt args w = Inr b"
  shows "b = (\<exists>r \<in># joined (v_tables V (db w)) t al t' al'. holds (v_tables V (db w)) args (v_clock V (db w)) (AndC on a) r)"
  using query_effect [OF assms(1, 2), where args = args and s = "db w"] assms(3)
  by (auto simp: query_one_def query_row_def scan_one_def split: sum.splits)

lemma IsInRole_effect:
  assumes "server_ok (resolve opts) d V" and "names_ok (resolve opts)"
    and "pgx_IsInRole (NewUserStore d opts) u rn w = Inr b"
  shows "b \<longleftrightarrow> member_of (v_tables V (db w)) (u_ID u) rn"
proof -
  let ?T = "v_tables V (db w)" and ?now = "v_clock V (db w)" and ?args = "[Text (u_ID u), Text rn]"
  note c = server_constraints [OF assms(1), of "db w"]
  let ?on = "Eq (Col ''r.id'') (Col ''ur.role_id'')"
    and ?a = "AndC (Eq (Col ''ur.user_id'') (Par 1)) (Eq (Col ''r.normalized_name'') (Par 2))"
  have rd: "reads_as (resolve opts) (q_isInRole (buildQueries (resolve opts))) (ExistsJoin UserRoles ''ur'' Roles ''r'' ?on ?a)"
    using reads(14) [OF assms(2)] by (simp add: st_isInRole_def)
  have holds: "holds ?T ?args ?now (AndC ?on ?a) (qual ''ur'' m @ qual ''r'' r) \<longleftrightarrow>
      fld m ''user_id'' = Text (u_ID u) \<and> role_named ?T rn r \<and> fld m ''role_id'' = fld r ''id''"
    if "m \<in># ?T UserRoles" "r \<in># ?T Roles" for m r
    using that role_id_text [OF c that(2)] by (auto simp: join_fields [OF c that(1)] role_named_def numeral_2_eq_2)
  have "(\<exists>r \<in># joined ?T UserRoles ''ur'' Roles ''r''. holds ?T ?args ?now (AndC ?on ?a) r) \<longleftrightarrow>
      (\<exists>m \<in># ?T UserRoles. \<exists>r \<in># ?T Roles. holds ?T ?args ?now (AndC ?on ?a) (qual ''ur'' m @ qual ''r'' r))"
    by (auto simp: joined_def)
  also have "\<dots> \<longleftrightarrow> member_of ?T (u_ID u) rn"
    unfolding member_of_def using holds by (auto simp del: holds.simps simp: role_named_def)
  finally show ?thesis
    using query_join [OF assms(1) rd, where args = ?args and w = w and b = b] assms(3) by (simp add: pgx_IsInRole_def)
qed

lemma add_role_exec:
  assumes "constraints T" and "(k, T') = exec J now sr st_addToRole [Text i, Text rn] T"
  shows "member_of T' i' rn' \<longleftrightarrow> member_of T i' rn' \<or> i' = clip 36 i \<and> rn' = rn \<and> (\<exists>r. role_named T rn r)"
    and "t \<noteq> UserRoles \<Longrightarrow> T' t = T t" and "k = 0 \<Longrightarrow> T' = T"
proof -
  let ?args = "[Text i, Text rn]"
  define row where "row r = new_row J now sr UserRoles (zip [''user_id'', ''role_id''] (map (ev ?args now r) [Par 1, Col ''id'']))" for r
  define new where "new = filter_mset (\<lambda>m. \<not> (\<exists>m' \<in># T UserRoles. same_on [''user_id'', ''role_id''] m' m))
    (image_mset row (filter_mset (\<lambda>r. fld r ''normalized_name'' = Text rn) (T Roles)))"
  have row: "fld (row r) ''user_id'' = Text (clip 36 i)" "r \<in># T Roles \<Longrightarrow> fld (row r) ''role_id'' = fld r ''id''" for r
    using role_id_typed [OF assms(1), of r] by (simp_all add: row_def fld_new_row store_val_typed)
  have row_named: "role_named T rn' r \<Longrightarrow> fld (row r) ''role_id'' = fld r ''id''" for rn' r
    using row(2) by (simp add: role_named_def)
  have "holds T ?args now (Eq (Col ''normalized_name'') (Par 2)) = (\<lambda>r. fld r ''normalized_name'' = Text rn)"
    by (auto simp: fun_eq_iff numeral_2_eq_2)
  then have k: "k = int (size new)" and T': "T' = T(UserRoles := T UserRoles + new)"
    using assms(2) unfolding st_addToRole_def exec.simps new_def row_def [abs_def] by (simp_all add: Let_def)
  then show "t \<noteq> UserRoles \<Longrightarrow> T' t = T t" and "k = 0 \<Longrightarrow> T' = T" by simp_all
  have named: "role_named T' = role_named T" by (simp add: T' role_named_def fun_eq_iff)
  have grown: "member_of T' i' rn' \<longleftrightarrow> member_of T i' rn' \<or>
      (\<exists>m \<in># new. \<exists>r. role_named T rn' r \<and> fld m ''user_id'' = Text i' \<and> fld m ''role_id'' = fld r ''id'')"
    by (auto simp: member_of_def named) (auto simp: T')
  have only: "i' = clip 36 i \<and> rn' = rn \<and> (\<exists>r. role_named T rn r)"
    if m: "m \<in># new" and r: "role_named T rn' r" "fld m ''user_id'' = Text i'" "fld m ''role_id'' = fld r ''id''" for m r
  proof -
    obtain r0 where r0: "r0 \<in># T Roles" "fld r0 ''normalized_name'' = Text rn" "m = row r0" using m by (auto simp: new_def)
    with r role_id_unique [OF assms(1), of r r0] row [of r0] show ?thesis by (auto simp: role_named_def)
  qed
  have there: "member_of T (clip 36 i) rn \<or> row r \<in># new" if "role_named T rn r" for r
    using that by (fastforce simp: new_def member_of_def same_on_def row role_named_def)
  show "member_of T' i' rn' \<longleftrightarrow> member_of T i' rn' \<or> i' = clip 36 i \<and> rn' = rn \<and> (\<exists>r. role_named T rn r)"
    unfolding grown using only there row(1) row_named by blast
qed

lemma AddToRole_effect:
  assumes "server_ok (resolve opts) d V" and "names_ok (resolve opts)"
    and "pgx_AddToRole (NewUserStore d opts) u rn w = (res, w')"
  shows "res = Some ErrRoleNotFound \<and> \<not> (\<exists>r. role_named (v_tables V (db w)) rn r) \<and> v_tables V (db w') = v_tables V (db w) \<or>
    wrote (v_tables V (db w)) (v_tables V (db w')) res
      ((\<forall>i' rn'. member_of (v_tables V (db w')) i' rn' \<longleftrightarrow> member_of (v_tables V (db w)) i' rn' \<or>
         i' = clip 36 (u_ID u) \<and> rn' = rn \<and> (\<exists>r. role_named (v_tables V (db w)) rn r)) \<and>
       (\<forall>t. t \<noteq> UserRoles \<longrightarrow> v_tables V (db w') t = v_tables V (db w) t))"
    (is "_ \<or> wrote _ _ res (?P w')")
proof -
  let ?T = "v_tables V (db w)" and ?n = "resolve opts" and ?args = "[Text (u_ID u), Text rn]"
  obtain r w1 where e: "exec_tag d (q_addToRole (buildQueries ?n)) ?args w = (r, w1)" by fastforce
  note eff = exec_tag_effect [OF assms(1) reads(11) [OF assms(2)] writes(5) e]
  have add: "?P w1 \<and> (k = 0 \<longrightarrow> v_tables V (db w1) = ?T)"
    if "(k, v_tables V (db w1)) = exec (v_json V) (v_clock V (db w)) sr st_addToRole ?args ?T" for k sr
    using add_role_exec [OF server_constraints [OF assms(1)] that] by blast
  show ?thesis
  proof (cases r)
    case (Inl err)
    with eff have "wrote ?T (v_tables V (db w1)) (Some err)
        (\<exists>k sr. (k, v_tables V (db w1)) = exec (v_json V) (v_clock V (db w)) sr st_addToRole ?args ?T)" by simp
    then have "wrote ?T (v_tables V (db w1)) (Some err) (?P w1)" by (rule wrote_mono) (use add in blast)
    moreover have "res = Some err" "w' = w1" using e Inl assms(3) by (auto simp: pgx_AddToRole_def)
    ultimately show ?thesis by simp
  next
    case (Inr k)
    with eff obtain sr where ex: "(k, v_tables V (db w1)) = exec (v_json V) (v_clock V (db w)) sr st_addToRole ?args ?T" by auto
    show ?thesis
    proof (cases "k = 0")
      case False
      then have "res = None" "w' = w1" using e Inr assms(3) by (auto simp: pgx_AddToRole_def)
      then show ?thesis using add [OF ex] by (simp add: wrote_def)
    next
      case True
      then have same: "v_tables V (db w1) = ?T" and P: "?P w1" using add [OF ex] by blast+
      let ?q = "query_one d asBool (q_roleExistsByName (buildQueries ?n)) [Text rn] w1"
      have "?q = Inr (\<exists>r. role_named ?T rn r) \<or> (\<exists>e. ?q = Inl e \<and> driver_error e)"
        using query_bool_effect [OF assms(1) reads(15) [OF assms(2)], where w = w1 and args = "[Text rn]" and t = Roles] same
        by (auto simp: st_roleExistsByName_def role_named_def Bex_def)
      then consider "res = None" "w' = w1" | e where "res = Some e" "w' = w1" "driver_error e"
        | "res = Some ErrRoleNotFound" "w' = w1" "\<not> (\<exists>r. role_named ?T rn r)"
        using e Inr True assms(3) by (auto simp: pgx_AddToRole_def split: if_splits)
      then show ?thesis by cases (use same P in \<open>simp_all add: wrote_def\<close>)
    qed
  qed
qed

lemma RemoveFromRole_effect:
  assumes "server_ok (resolve opts) d V" and "names_ok (resolve opts)"
    and "pgx_RemoveFromRole (NewUserStore d opts) u rn w = (res, w')"
  shows "wrote (v_tables V (db w)) (v_tables V (db w')) res
      ((\<forall>i' rn'. member_of (v_tables V (db w')) i' rn' \<longleftrightarrow>
         member_of (v_tables V (db w)) i' rn' \<and> (i', rn') \<noteq> (u_ID u, rn)) \<and>
       (\<forall>t. t \<noteq> UserRoles \<longrightarrow> v_tables V (db w') t = v_tables V (db w) t))"
proof -
  let ?T = "v_tables V (db w)" and ?T' = "v_tables V (db w')"
  note c = server_constraints [OF assms(1), of "db w"]
  let ?gone = "\<lambda>m. fld m ''user_id'' = Text (u_ID u) \<and> (\<exists>r. role_named ?T rn r \<and> fld r ''id'' = fld m ''role_id'')"
  from assms(3) have e: "exec_err d (q_removeFromRole (buildQueries (resolve opts))) [Text (u_ID u), Text rn] w = (res, w')"
    by (simp add: pgx_RemoveFromRole_def)
  show ?thesis
  proof (rule wrote_mono [OF exec_err_effect(2) [OF assms(1) reads(12) [OF assms(2)] writes(6) e]])
    assume ex: "\<exists>k sr. (k, ?T') = exec (v_json V) (v_clock V (db w)) sr st_removeFromRole [Text (u_ID u), Text rn] ?T"
    have gone: "(\<lambda>m. fld m ''user_id'' = Text (u_ID u) \<and> fld m ''role_id'' \<noteq> Null \<and>
        (\<exists>r \<in># ?T Roles. fld r ''normalized_name'' = Text rn \<and> fld r ''id'' = fld m ''role_id'')) = ?gone"
      using role_id_text [OF c] by (fastforce simp: fun_eq_iff role_named_def)
    have "?T' = delete_rows ?T UserRoles (\<lambda>m. fld m ''user_id'' = Text (u_ID u) \<and> fld m ''role_id'' \<noteq> Null \<and>
        (\<exists>r \<in># ?T Roles. fld r ''normalized_name'' = Text rn \<and> fld r ''id'' = fld m ''role_id''))"
      using ex by (auto simp: st_removeFromRole_def numeral_2_eq_2)
    then have T': "?T' = delete_rows ?T UserRoles ?gone" unfolding gone .
    have other: "?T' t = ?T t" if "t \<noteq> UserRoles" for t
    proof -
      have "\<not> orphaned ?T UserRoles g t r" for g r by (cases t) (auto simp: orphaned_def refs_simps)
      with that T' show ?thesis by (simp add: delete_rows_def)
    qed
    have named: "role_named ?T' = role_named ?T" using other [of Roles] by (simp add: role_named_def fun_eq_iff)
    have mem: "m \<in># ?T' UserRoles \<longleftrightarrow> m \<in># ?T UserRoles \<and> \<not> ?gone m" for m by (simp add: T' delete_rows_def)
    have same: "rn' = rn" if "role_named ?T rn r" "role_named ?T rn' r'" "fld r ''id'' = fld r' ''id''" for rn' r r'
      using that role_id_unique [OF c, of r' r] by (auto simp: role_named_def)
    have "member_of ?T' i' rn' \<longleftrightarrow> member_of ?T i' rn' \<and> (i', rn') \<noteq> (u_ID u, rn)" for i' rn'
    proof -
      have "member_of ?T' i' rn' \<longleftrightarrow> (\<exists>m \<in># ?T UserRoles. \<not> ?gone m \<and>
          (\<exists>r. role_named ?T rn' r \<and> fld m ''user_id'' = Text i' \<and> fld m ''role_id'' = fld r ''id''))"
        unfolding member_of_def named Bex_def mem by blast
      also have "\<dots> \<longleftrightarrow> member_of ?T i' rn' \<and> (i', rn') \<noteq> (u_ID u, rn)"
      proof
        assume "\<exists>m \<in># ?T UserRoles. \<not> ?gone m \<and>
          (\<exists>r. role_named ?T rn' r \<and> fld m ''user_id'' = Text i' \<and> fld m ''role_id'' = fld r ''id'')"
        then obtain m r where m: "m \<in># ?T UserRoles" "\<not> ?gone m" "role_named ?T rn' r" "fld m ''user_id'' = Text i'"
            "fld m ''role_id'' = fld r ''id''" by blast
        then have "member_of ?T i' rn'" unfolding member_of_def by blast
        moreover have "(i', rn') \<noteq> (u_ID u, rn)" using m by auto
        ultimately show "member_of ?T i' rn' \<and> (i', rn') \<noteq> (u_ID u, rn)" ..
      next
        assume R: "member_of ?T i' rn' \<and> (i', rn') \<noteq> (u_ID u, rn)"
        then obtain m r where m: "m \<in># ?T UserRoles" "role_named ?T rn' r" "fld m ''user_id'' = Text i'"
            "fld m ''role_id'' = fld r ''id''" unfolding member_of_def by blast
        have "\<not> ?gone m"
        proof
          assume g: "?gone m"
          then obtain r0 where "role_named ?T rn r0" "fld r0 ''id'' = fld r ''id''" using m(4) by auto
          from same [OF this(1) m(2) this(2)] g m(3) R show False by simp
        qed
        with m show "\<exists>m \<in># ?T UserRoles. \<not> ?gone m \<and>
          (\<exists>r. role_named ?T rn' r \<and> fld m ''user_id'' = Text i' \<and> fld m ''role_id'' = fld r ''id'')" by blast
      qed
      finally show ?thesis .
    qed
    with other show "(\<forall>i' rn'. member_of ?T' i' rn' \<longleftrightarrow> member_of ?T i' rn' \<and> (i', rn') \<noteq> (u_ID u, rn)) \<and>
        (\<forall>t. t \<noteq> UserRoles \<longrightarrow> ?T' t = ?T t)" by blast
  qed
qed

section \<open>External logins\<close>

definition login_of :: "tables \<Rightarrow> string \<Rightarrow> string \<Rightarrow> string \<Rightarrow> bool" where
  "login_of T p k i \<longleftrightarrow> (\<exists>r \<in># T UserLogins. fld r ''login_provider'' = Text p \<and> fld r ''provider_key'' = Text k \<and>
     fld r ''user_id'' = Text i)"

lemma AddLogin_effect:
  assumes "server_ok (resolve opts) d V" and "names_ok (resolve opts)"
    and "pgx_AddLogin (NewUserStore d opts) u l w = (res, w')"
  shows "wrote (v_tables V (db w)) (v_tables V (db w')) res
      ((\<forall>i. \<not> login_of (v_tables V (db w)) (clip 128 (l_LoginProvider l)) (clip 128 (l_ProviderKey l)) i) \<and>
       (\<forall>p k i. login_of (v_tables V (db w')) p k i \<longleftrightarrow> login_of (v_tables V (db w)) p k i \<or>
          (p, k, i) = (clip 128 (l_LoginProvider l), clip 128 (l_ProviderKey l), clip 36 (u_ID u))) \<and>
       (\<forall>t. t \<noteq> UserLogins \<longrightarrow> v_tables V (db w') t = v_tables V (db w) t))"
proof -
  let ?T = "v_tables V (db w)" and ?T' = "v_tables V (db w')" and ?p = "clip 128 (l_LoginProvider l)" and ?k = "clip 128 (l_ProviderKey l)"
  let ?args = "[Text (l_LoginProvider l), Text (l_ProviderKey l), Text (l_ProviderDisplayName l), Text (u_ID u)]"
  from assms(3) have e: "exec_err d (q_addLogin (buildQueries (resolve opts))) ?args w = (res, w')"
    by (simp add: pgx_AddLogin_def)
  show ?thesis
  proof (rule wrote_mono [OF exec_err_effect(2) [OF assms(1) reads(24) [OF assms(2)] writes(9) e]])
    assume "\<exists>k sr. (k, ?T') = exec (v_json V) (v_clock V (db w)) sr st_addLogin ?args ?T"
    then obtain k sr where "(k, ?T') = exec (v_json V) (v_clock V (db w)) sr st_addLogin ?args ?T" by auto
    then obtain r where T': "?T' = ?T(UserLogins := add_mset r (?T UserLogins))"
        and r: "r = new_row (v_json V) (v_clock V (db w)) sr UserLogins
          (zip [''login_provider'', ''provider_key'', ''provider_display_name'', ''user_id'']
            (map (ev ?args (v_clock V (db w)) []) [Par 1, Par 2, Par 3, Par 4]))"
      unfolding st_addLogin_def exec.simps insert_row_def conflict.case by blast
    have flds: "fld r ''login_provider'' = Text ?p" "fld r ''provider_key'' = Text ?k" "fld r ''user_id'' = Text (clip 36 (u_ID u))"
      unfolding r by (simp_all add: fld_new_row numeral_2_eq_2 numeral_3_eq_3)
    have "unique_on [''login_provider'', ''provider_key''] (?T' UserLogins)"
      using constraints_unique [OF server_constraints [OF assms(1)], of "[''login_provider'', ''provider_key'']" UserLogins "db w'"]
      by (simp add: uniques_simps)
    then have "\<not> login_of ?T ?p ?k i" for i
      using unique_on_add [of "[''login_provider'', ''provider_key'']" r "?T UserLogins"] T' flds by (auto simp: login_of_def same_on_def)
    with T' flds show "(\<forall>i. \<not> login_of ?T ?p ?k i) \<and>
       (\<forall>p k i. login_of ?T' p k i \<longleftrightarrow> login_of ?T p k i \<or> (p, k, i) = (?p, ?k, clip 36 (u_ID u))) \<and>
       (\<forall>t. t \<noteq> UserLogins \<longrightarrow> ?T' t = ?T t)" by (auto simp: login_of_def)
  qed
qed

lemma FindByLogin_effect:
  assumes "server_ok (resolve opts) d V" and "names_ok (resolve opts)"
    and "pgx_FindByLogin (NewUserStore d opts) p k w = Inr v"
  shows "v \<in> users_in (v_tables V (db w)) \<and> login_of (v_tables V (db w)) p k (u_ID v)"
proof -
  let ?T = "v_tables V (db w)" and ?q = "q_findByLogin (buildQueries (resolve opts))"
  have "reads_as (resolve opts) ?q (Select [''user_id''] UserLogins
      (AndC (Eq (Col ''login_provider'') (Par 1)) (Eq (Col ''provider_key'') (Par 2))) None None)"
    using reads(27) [OF assms(2)] by (simp add: st_findByLogin_def)
  note eff = query_row_effect [OF assms(1) this, where args = "[Text p, Text k]" and w = w]
  from assms(3) obtain uid where uid: "query_one d asText ?q [Text p, Text k] w = Inr uid"
      "pgx_FindByID (NewUserStore d opts) uid w = Inr v"
    by (auto simp: pgx_FindByLogin_def split: sum.splits)
  from uid(1) obtain vs where vs: "query_row d ?q [Text p, Text k] w = Inr vs" "scan_one asText vs = Inr uid"
    by (auto simp: query_one_def split: sum.splits)
  with eff obtain r where r: "r \<in># ?T UserLogins" "fld r ''login_provider'' = Text p" "fld r ''provider_key'' = Text k"
      "vs = [fld r ''user_id'']"
    by (auto simp: numeral_2_eq_2)
  with vs(2) have "fld r ''user_id'' = Text uid" by (auto simp: scan_one_def as_simps split: option.splits)
  with r have "login_of ?T p k uid" by (auto simp: login_of_def)
  moreover have "v \<in> users_in ?T \<and> u_ID v = uid"
    using find_by [OF assms(1) find_reads(1) [OF assms(2)], where f = u_ID and k = uid and w = w] scan_fields(1) uid(2)
    by (simp add: pgx_FindByID_def)
  ultimately show ?thesis by simp
qed

end
