(* ===== verification/Pgx_Runs.thy ===== *)
theory Pgx_Runs
  imports Pgx_Satellites
begin

text \<open>
  Several processes share one database. A run is a sequence of statements of the stores, issued by
  any of them with any arguments at any time; what one of them used up, marked or revoked, stays so
  for all. Each statement is atomic, so compare-and-swap needs no lock.
\<close>

section \<open>Which statement writes which table\<close>

primrec target :: "stmt \<Rightarrow> tab option" where
  "target (Insert t cs es cf) = Some t"
| "target (InsertSel t cs es t' a cf) = Some t"
| "target (Update t asg a) = Some t"
| "target (Delete t al a) = None"
| "target (Select cs t a ord lim) = None"
| "target (Count t a) = None"
| "target (Exists t a) = None"
| "target (SelectJoin c t al t' al' on a) = None"
| "target (ExistsJoin t al t' al' on a) = None"

text \<open>Inserts and updates touch their own table; everything else only removes rows.\<close>

lemma exec_shrinks:
  assumes "(k, T') = exec J now sr st args T" and "target st \<noteq> Some t"
  shows "T' t \<subseteq># T t"
  using assms by (cases st) (auto simp: insert_row_def delete_rows_def Let_def split: conflict.splits if_splits)

lemma writers:
  "filter (\<lambda>st. target st = Some OAuthCodes) pgx_stmts = [so_createCode, so_markCodeUsed]"
  "filter (\<lambda>st. target st = Some APIKeys) pgx_stmts = [sk_create, sk_revoke, sk_touch]"
  "filter (\<lambda>st. target st = Some OAuthAssertions) pgx_stmts = [so_useAssertion]"
  "filter (\<lambda>st. target st = Some OAuthGrants) pgx_stmts = [so_createGrant, so_rotateGrant]"
  by code_simp+

lemma targets:
  assumes "st \<in> set pgx_stmts"
  shows "target st = Some OAuthCodes \<Longrightarrow> st = so_createCode \<or> st = so_markCodeUsed"
    and "target st = Some APIKeys \<Longrightarrow> st = sk_create \<or> st = sk_revoke \<or> st = sk_touch"
    and "target st = Some OAuthAssertions \<Longrightarrow> st = so_useAssertion"
    and "target st = Some OAuthGrants \<Longrightarrow> st = so_createGrant \<or> st = so_rotateGrant"
proof -
  have mem: "target st = Some t \<Longrightarrow> st \<in> set (filter (\<lambda>st. target st = Some t) pgx_stmts)" for t using assms by simp
  show "target st = Some OAuthCodes \<Longrightarrow> st = so_createCode \<or> st = so_markCodeUsed"
    using mem [of OAuthCodes] unfolding writers by simp
  show "target st = Some APIKeys \<Longrightarrow> st = sk_create \<or> st = sk_revoke \<or> st = sk_touch"
    using mem [of APIKeys] unfolding writers by simp
  show "target st = Some OAuthAssertions \<Longrightarrow> st = so_useAssertion"
    using mem [of OAuthAssertions] unfolding writers by simp
  show "target st = Some OAuthGrants \<Longrightarrow> st = so_createGrant \<or> st = so_rotateGrant"
    using mem [of OAuthGrants] unfolding writers by simp
qed

section \<open>Runs\<close>

text \<open>A statement of any client that the server accepted.\<close>

inductive sql_run :: "(stmt \<Rightarrow> sval list \<Rightarrow> bool) \<Rightarrow> (string \<Rightarrow> string) \<Rightarrow> tables \<Rightarrow> tables \<Rightarrow> bool"
  for ok J where
  run_done: "sql_run ok J T T"
| run_step: "sql_run ok J T T' \<Longrightarrow> st \<in> set pgx_stmts \<Longrightarrow> ok st args \<Longrightarrow> (k, T'') = exec J now sr st args T' \<Longrightarrow>
    constraints T'' \<Longrightarrow> sql_run ok J T T''"

lemma run_constraints: "sql_run ok J T T' \<Longrightarrow> constraints T \<Longrightarrow> constraints T'"
  by (induction rule: sql_run.induct) auto

lemma run_invariant:
  assumes "sql_run ok J T T'" and "constraints T" and "I T"
    and "\<And>T T' st args k now sr. constraints T \<Longrightarrow> I T \<Longrightarrow> st \<in> set pgx_stmts \<Longrightarrow> ok st args \<Longrightarrow>
      (k, T') = exec J now sr st args T \<Longrightarrow> I T'"
  shows "I T'"
  using assms(1-3) by (induction rule: sql_run.induct) (auto intro: assms(4) run_constraints)

text \<open>What holds of every row of a table survives an update that keeps it.\<close>

lemma update_preserves:
  assumes "(k, T') = exec J now sr (Update t asg a) args T" and "\<forall>r \<in># T t. P r"
    and "\<And>r. r \<in># T t \<Longrightarrow> P r \<Longrightarrow> holds T args now a r \<Longrightarrow> P (set_cols J t (map (\<lambda>(c, e). (c, ev args now r e)) asg) r)"
  shows "\<forall>r \<in># T' t. P r"
proof
  fix r' assume "r' \<in># T' t"
  then obtain r where r: "r \<in># T t"
      "r' = (if holds T args now a r then set_cols J t (map (\<lambda>(c, e). (c, ev args now r e)) asg) r else r)"
    using assms(1) by auto
  with assms(2, 3) show "P r'" by (cases "holds T args now a r") simp_all
qed

text \<open>What a column \<open>varchar(n)\<close> keeps of an argument.\<close>

definition kept :: "nat \<Rightarrow> sval \<Rightarrow> sval" where
  "kept n v = (case bound v of Text s \<Rightarrow> Text (clip n s) | v \<Rightarrow> v)"

lemma store_val_kept: "store_val J (Varchar n) (bound v) = kept n v"
  by (simp add: store_val_def kept_def split: sval.splits)

lemma kept_Text [simp]: "kept n (Text s) = Text (clip n s)"
  by (simp add: kept_def)

section \<open>Authorization codes are used once\<close>

definition code_spent :: "string \<Rightarrow> tables \<Rightarrow> bool" where
  "code_spent h T \<longleftrightarrow> (\<forall>r \<in># T OAuthCodes. fld r ''code_hash'' = Text h \<longrightarrow> fld r ''used_at'' \<noteq> Null)"

text \<open>Hashes of fresh random codes do not repeat.\<close>

definition no_such_code :: "string \<Rightarrow> stmt \<Rightarrow> sval list \<Rightarrow> bool" where
  "no_such_code h st args \<longleftrightarrow> (st = so_createCode \<longrightarrow> kept 128 (hd args) \<noteq> Text h)"

lemma mark_exec:
  assumes "constraints T" and "(k, T') = exec J now sr so_markCodeUsed [Text h, Text g, Time at] T"
  shows "k = (if \<exists>r \<in># T OAuthCodes. fld r ''code_hash'' = Text h \<and> fld r ''used_at'' = Null then 1 else 0)"
    and "k = 0 \<longleftrightarrow> code_spent h T" and "code_spent h T'"
proof -
  let ?hit = "\<lambda>r. fld r ''code_hash'' = Text h \<and> fld r ''used_at'' = Null"
  let ?f = "set_cols J OAuthCodes [(''used_at'', Time (micro at)), (''grant_id'', Text g)]"
  have ex: "k = int (size (filter_mset ?hit (T OAuthCodes)))"
      "T' = T(OAuthCodes := image_mset (\<lambda>r. if ?hit r then ?f r else r) (T OAuthCodes))"
  proof -
    have hit: "holds T [Text h, Text g, Time at] now (AndC (Eq (Col ''code_hash'') (Par 1)) (IsNull (Col ''used_at''))) = ?hit"
      by (simp add: fun_eq_iff)
    have asg: "map (\<lambda>(c, e). (c, ev [Text h, Text g, Time at] now r e)) [(''used_at'', Par 3), (''grant_id'', Par 2)] =
        [(''used_at'', Time (micro at)), (''grant_id'', Text g)]" for r
      by simp
    show "k = int (size (filter_mset ?hit (T OAuthCodes)))"
        "T' = T(OAuthCodes := image_mset (\<lambda>r. if ?hit r then ?f r else r) (T OAuthCodes))"
      using assms(2) unfolding so_markCodeUsed_def exec.simps hit asg by simp_all
  qed
  have "unique_on [''code_hash''] (T OAuthCodes)" using constraints_unique [OF assms(1)] by (simp add: uniques_simps)
  then show k: "k = (if \<exists>r \<in># T OAuthCodes. ?hit r then 1 else 0)"
    unfolding ex(1) by (subst size_hits [where k = "[Text h]"]) auto
  then show "k = 0 \<longleftrightarrow> code_spent h T" by (auto simp: code_spent_def)
  have "fld (?f r) ''used_at'' = Time (micro at)" if "r \<in># T OAuthCodes" for r
    using constraints_cols [OF assms(1) that] by (simp add: fld_set_cols col_type_def)
  then show "code_spent h T'" by (auto simp: code_spent_def ex(2) split: if_splits)
qed

lemma code_spent_step:
  assumes "constraints T" and "code_spent h T" and "st \<in> set pgx_stmts" and "no_such_code h st args"
    and ex: "(k, T') = exec J now sr st args T"
  shows "code_spent h T'"
proof (cases "target st = Some OAuthCodes")
  case False
  with exec_shrinks [OF ex] have "T' OAuthCodes \<subseteq># T OAuthCodes" by blast
  with assms(2) show ?thesis by (auto simp: code_spent_def dest: mset_subset_eqD)
next
  case True
  from targets(1) [OF assms(3) this] show ?thesis
  proof
    assume st: "st = so_createCode"
    then have "kept 128 (hd args) \<noteq> Text h" using assms(4) by (simp add: no_such_code_def)
    then have "fld (new_row J now sr OAuthCodes (zip code_columns (map (ev args now []) [Par 1, Par 2, Par 3, Par 4, Par 5, Par 6,
        Par 7, Par 8, Par 9, Par 10]))) ''code_hash'' \<noteq> Text h"
      by (cases args) (auto simp: fld_new_row code_columns_def store_val_kept)
    with assms(2) ex show ?thesis by (auto simp: st so_createCode_def insert_row_def code_spent_def)
  next
    assume st: "st = so_markCodeUsed"
    show ?thesis
      unfolding code_spent_def
      by (rule update_preserves [OF ex [unfolded st so_markCodeUsed_def]])
        (use assms(2) in \<open>auto simp: code_spent_def fld_set_cols split: if_splits\<close>)
  qed
qed

section \<open>API keys stay revoked\<close>

definition key_dead :: "string \<Rightarrow> tables \<Rightarrow> bool" where
  "key_dead i T \<longleftrightarrow> (\<forall>r \<in># T APIKeys. fld r ''id'' = Text i \<longrightarrow> fld r ''revoked_at'' \<noteq> Null)"

definition no_such_key :: "string \<Rightarrow> stmt \<Rightarrow> sval list \<Rightarrow> bool" where
  "no_such_key i st args \<longleftrightarrow> (st = sk_create \<longrightarrow> kept 36 (hd args) \<noteq> Text i)"

lemma key_dead_step:
  assumes "constraints T" and "key_dead i T" and "st \<in> set pgx_stmts" and "no_such_key i st args"
    and ex: "(k, T') = exec J now sr st args T"
  shows "key_dead i T'"
proof (cases "target st = Some APIKeys")
  case False
  with exec_shrinks [OF ex] have "T' APIKeys \<subseteq># T APIKeys" by blast
  with assms(2) show ?thesis by (auto simp: key_dead_def dest: mset_subset_eqD)
next
  case True
  from targets(2) [OF assms(3) True] consider "st = sk_create" | "st = sk_revoke" | "st = sk_touch" by blast
  then show ?thesis
  proof cases
    case 1
    then have "kept 36 (hd args) \<noteq> Text i" using assms(4) by (simp add: no_such_key_def)
    then have "fld (new_row J now sr APIKeys (zip [''id'', ''user_id'', ''name'', ''prefix'', ''key_hash'', ''scopes'', ''expires_at'', ''created_at'']
        (map (ev args now []) [Par 1, Par 2, Par 3, Par 4, Par 5, Par 6, Par 7, Par 8]))) ''id'' \<noteq> Text i"
      by (cases args) (auto simp: fld_new_row store_val_kept)
    with assms(2) ex show ?thesis by (auto simp: 1 sk_create_def insert_row_def key_dead_def)
  next
    case 2
    show ?thesis
      unfolding key_dead_def
      by (rule update_preserves [OF ex [unfolded 2 sk_revoke_def]])
        (use assms(2) in \<open>auto simp: key_dead_def fld_set_cols split: if_splits\<close>)
  next
    case 3
    show ?thesis
      unfolding key_dead_def
      by (rule update_preserves [OF ex [unfolded 3 sk_touch_def]])
        (use assms(2) in \<open>auto simp: key_dead_def fld_set_cols constraints_cols [OF assms(1)] split: if_splits\<close>)
  qed
qed

section \<open>Assertions are used once\<close>

definition assertion_known :: "string \<Rightarrow> string \<Rightarrow> time \<Rightarrow> tables \<Rightarrow> bool" where
  "assertion_known c j e T \<longleftrightarrow> (\<exists>r \<in># T OAuthAssertions. fld r ''client_id'' = Text c \<and> fld r ''jti'' = Text j \<and>
     fld r ''expires_at'' = Time (micro e))"

text \<open>The cleanup deletes what has expired before the given time; it is called with the present.\<close>

definition no_cleanup_after :: "time \<Rightarrow> stmt \<Rightarrow> sval list \<Rightarrow> bool" where
  "no_cleanup_after e st args \<longleftrightarrow> (st = so_deleteExpiredAssertions \<longrightarrow> (\<exists>b. args = [Time b] \<and> b \<le> e))"

lemma micro_mono: "a \<le> b \<Longrightarrow> micro a \<le> micro b"
  unfolding micro_def minus_mod_eq_mult_div by (simp add: zdiv_mono1)

lemma deleters: "filter (\<lambda>st. case st of Delete t al a \<Rightarrow> t = OAuthAssertions | _ \<Rightarrow> False) pgx_stmts = [so_deleteExpiredAssertions]"
  by code_simp

lemma delete_assertions:
  assumes "st \<in> set pgx_stmts" and "st = Delete OAuthAssertions al a"
  shows "st = so_deleteExpiredAssertions"
proof -
  have "st \<in> set (filter (\<lambda>st. case st of Delete t al a \<Rightarrow> t = OAuthAssertions | _ \<Rightarrow> False) pgx_stmts)"
    using assms by simp
  then show ?thesis unfolding deleters by simp
qed

lemma no_orphans: "\<not> orphaned T t gone OAuthAssertions r"
  by (simp add: orphaned_def refs_simps)

lemma assertion_known_step:
  assumes "assertion_known c j e T" and "st \<in> set pgx_stmts" and "no_cleanup_after e st args"
    and ex: "(k, T') = exec J now sr st args T"
  shows "assertion_known c j e T'"
proof (cases "st = so_useAssertion \<or> st = so_deleteExpiredAssertions")
  case False
  have "T' OAuthAssertions = T OAuthAssertions"
  proof -
    have "target st \<noteq> Some OAuthAssertions" using False targets(3) [OF assms(2)] by blast
    moreover have "\<And>al a. st \<noteq> Delete OAuthAssertions al a" using False delete_assertions [OF assms(2)] by blast
    ultimately show ?thesis using ex
      by (cases st) (auto simp: insert_row_def delete_rows_def no_orphans Let_def split: conflict.splits if_splits)
  qed
  with assms(1) show ?thesis by (simp add: assertion_known_def)
next
  case True
  then show ?thesis
  proof
    assume "st = so_useAssertion"
    with ex assms(1) show ?thesis
      by (auto simp: so_useAssertion_def insert_row_def assertion_known_def split: if_splits)
  next
    assume st: "st = so_deleteExpiredAssertions"
    then obtain b where b: "args = [Time b]" "b \<le> e" using assms(3) by (auto simp: no_cleanup_after_def)
    from assms(1) obtain r where r: "r \<in># T OAuthAssertions" "fld r ''client_id'' = Text c" "fld r ''jti'' = Text j"
        "fld r ''expires_at'' = Time (micro e)"
      by (auto simp: assertion_known_def)
    have "r \<in># T' OAuthAssertions"
      using ex r micro_mono [OF b(2)] unfolding st so_deleteExpiredAssertions_def by (simp add: b(1) delete_rows_def)
    with r show ?thesis by (auto simp: assertion_known_def)
  qed
qed

lemma use_exec:
  assumes "(k, T') = exec J now sr so_useAssertion [Text c, Text j, Time e] T"
  shows "k = 1 \<Longrightarrow> assertion_known (clip 512 c) (clip 256 j) e T'" and "assertion_known (clip 512 c) (clip 256 j) e' T \<Longrightarrow> k = 0"
proof -
  let ?c = "clip 512 c" and ?j = "clip 256 j"
  let ?new = "new_row J now sr OAuthAssertions (zip [''client_id'', ''jti'', ''expires_at'']
    (map (ev [Text c, Text j, Time e] now []) [Par 1, Par 2, Par 3]))"
  have new: "fld ?new ''client_id'' = Text ?c" "fld ?new ''jti'' = Text ?j" "fld ?new ''expires_at'' = Time (micro e)"
    by (simp_all add: fld_new_row numeral_2_eq_2 numeral_3_eq_3)
  have res: "(k, T') = (if \<exists>r' \<in># T OAuthAssertions. same_on [''client_id'', ''jti''] r' ?new then (0, T)
      else (1, T(OAuthAssertions := add_mset ?new (T OAuthAssertions))))"
    using assms unfolding so_useAssertion_def exec.simps insert_row_def conflict.case .
  show "k = 1 \<Longrightarrow> assertion_known ?c ?j e T'"
  proof -
    assume "k = 1"
    with res have "T' = T(OAuthAssertions := add_mset ?new (T OAuthAssertions))" by (simp split: if_splits)
    then have "?new \<in># T' OAuthAssertions" by (simp only: fun_upd_same) simp
    with new show ?thesis unfolding assertion_known_def by blast
  qed
  show "assertion_known ?c ?j e' T \<Longrightarrow> k = 0"
  proof -
    assume "assertion_known ?c ?j e' T"
    then have "\<exists>r' \<in># T OAuthAssertions. same_on [''client_id'', ''jti''] r' ?new"
      unfolding assertion_known_def same_on_def using new by auto
    with res show ?thesis by simp
  qed
qed

section \<open>Refresh tokens are rotated once\<close>

definition rotated :: "string \<Rightarrow> string \<Rightarrow> tables \<Rightarrow> bool" where
  "rotated i h T \<longleftrightarrow> (\<forall>r \<in># T OAuthGrants. fld r ''id'' = Text i \<longrightarrow> fld r ''token_hash'' \<noteq> Text h)"

text \<open>Hashes of fresh random tokens and grant ids do not repeat.\<close>

definition no_such_token :: "string \<Rightarrow> string \<Rightarrow> stmt \<Rightarrow> sval list \<Rightarrow> bool" where
  "no_such_token i h st args \<longleftrightarrow> (st = so_createGrant \<longrightarrow> kept 36 (hd args) \<noteq> Text i) \<and>
     (st = so_rotateGrant \<longrightarrow> (\<exists>a b c d e. args = [a, b, c, d, e] \<and> kept 128 c \<noteq> Text h))"

lemma rotated_step:
  assumes "constraints T" and "rotated i h T" and "st \<in> set pgx_stmts" and "no_such_token i h st args"
    and ex: "(k, T') = exec J now sr st args T"
  shows "rotated i h T'"
proof (cases "target st = Some OAuthGrants")
  case False
  with exec_shrinks [OF ex] have "T' OAuthGrants \<subseteq># T OAuthGrants" by blast
  with assms(2) show ?thesis by (auto simp: rotated_def dest: mset_subset_eqD)
next
  case True
  from targets(4) [OF assms(3) this] show ?thesis
  proof
    assume st: "st = so_createGrant"
    then have "kept 36 (hd args) \<noteq> Text i" using assms(4) by (simp add: no_such_token_def)
    then have "fld (new_row J now sr OAuthGrants (zip grant_columns
        (map (ev args now []) [Par 1, Par 2, Par 3, Par 4, Par 5, Par 6, Par 7, Par 8, Par 9, Par 10, Par 11]))) ''id'' \<noteq> Text i"
      by (cases args) (auto simp: fld_new_row grant_columns_def store_val_kept)
    with assms(2) ex show ?thesis by (auto simp: st so_createGrant_def insert_row_def rotated_def)
  next
    assume st: "st = so_rotateGrant"
    then obtain a b c d e where args: "args = [a, b, c, d, e]" "kept 128 c \<noteq> Text h"
      using assms(4) by (auto simp: no_such_token_def)
    show ?thesis
      unfolding rotated_def
      by (rule update_preserves [OF ex [unfolded st so_rotateGrant_def]])
        (use assms(2) args in \<open>auto simp: rotated_def fld_set_cols constraints_cols [OF assms(1)] col_type_def numeral_eq_Suc store_val_kept
          split: if_splits\<close>)
  qed
qed

lemma rotate_exec:
  assumes "constraints T" and "clip 128 h' \<noteq> h"
    and "(k, T') = exec J now sr so_rotateGrant [Text i, Text h, Text h', Time e, Time u] T"
  shows "k = 1 \<longleftrightarrow> \<not> rotated i h T" and "rotated i h T'"
proof -
  let ?args = "[Text i, Text h, Text h', Time e, Time u]"
  let ?hit = "\<lambda>r. fld r ''id'' = Text i \<and> fld r ''token_hash'' = Text h"
  let ?vals = "\<lambda>r. [(''prev_token_hash'', fld r ''token_hash''), (''token_hash'', Text h'),
    (''expires_at'', Time (micro e)), (''last_used_at'', Time (micro u))]"
  have hit: "holds T ?args now (AndC (Eq (Col ''id'') (Par 1)) (Eq (Col ''token_hash'') (Par 2))) = ?hit"
    by (simp add: fun_eq_iff)
  have asg: "map (\<lambda>(c, e). (c, ev ?args now r e)) [(''prev_token_hash'', Col ''token_hash''), (''token_hash'', Par 3),
      (''expires_at'', Par 4), (''last_used_at'', Par 5)] = ?vals r" for r
    by (simp add: numeral_eq_Suc)
  have ex: "k = int (size (filter_mset ?hit (T OAuthGrants)))"
      "T' = T(OAuthGrants := image_mset (\<lambda>r. if ?hit r then set_cols J OAuthGrants (?vals r) r else r) (T OAuthGrants))"
    using assms(3) unfolding so_rotateGrant_def exec.simps hit asg by simp_all
  have "unique_on [''id''] (T OAuthGrants)" using constraints_unique [OF assms(1)] by (simp add: uniques_simps)
  then have "k = (if \<exists>r \<in># T OAuthGrants. ?hit r then 1 else 0)"
    unfolding ex(1) by (subst size_hits [where k = "[Text i]"]) auto
  then show "k = 1 \<longleftrightarrow> \<not> rotated i h T" by (auto simp: rotated_def)
  have "fld (set_cols J OAuthGrants ((''prev_token_hash'', p) # tl (?vals r)) r) ''token_hash'' = Text (clip 128 h')" if "r \<in># T OAuthGrants" for p r
    using constraints_cols [OF assms(1) that] by (simp add: fld_set_cols col_type_def)
  then show "rotated i h T'" using assms(2) by (auto simp: rotated_def ex(2) split: if_splits)
qed

section \<open>The operations\<close>

lemma oauth_parts [simp]:
  "ps_db (NewOAuthStore d opts) = d" "ps_q (NewOAuthStore d opts) = buildOAuthQueries (resolve opts)"
  "ps_db (NewAPIKeyStore d opts) = d" "ps_q (NewAPIKeyStore d opts) = buildAPIKeyQueries (resolve opts)"
  by (simp_all add: NewOAuthStore_def NewAPIKeyStore_def)

lemma one_row_Inr: "one_row r = (Inr b, w) \<longleftrightarrow> (\<exists>k. r = (Inr k, w) \<and> b = (k = 1))"
  by (auto simp: one_row_def split: prod.splits sum.splits)

lemma MarkCodeUsed_effect:
  assumes "server_ok (resolve opts) d V" and "names_ok (resolve opts)"
    and "pgx_MarkCodeUsed (NewOAuthStore d opts) h g at w = (Inr b, w')"
  shows "b \<longleftrightarrow> \<not> code_spent h (v_tables V (db w))" and "code_spent h (v_tables V (db w'))"
proof -
  let ?T = "v_tables V (db w)"
  from assms(3) obtain k where k: "b = (k = 1)"
      "exec_tag d (oq_markCodeUsed (buildOAuthQueries (resolve opts))) [Text h, Text g, Time at] w = (Inr k, w')"
    by (auto simp: pgx_MarkCodeUsed_def one_row_Inr)
  have q: "\<not> is_query so_markCodeUsed" by (simp add: so_markCodeUsed_def)
  from exec_tag_effect [OF assms(1) reads(55) [OF assms(2)] q k(2)] obtain sr where
    "(k, v_tables V (db w')) = exec (v_json V) (v_clock V (db w)) sr so_markCodeUsed [Text h, Text g, Time at] ?T" by auto
  note ex = mark_exec [OF server_constraints [OF assms(1)] this]
  from ex(1, 2) k(1) show "b \<longleftrightarrow> \<not> code_spent h ?T" by (auto split: if_splits)
  show "code_spent h (v_tables V (db w'))" by (rule ex(3))
qed

lemma UseClientAssertion_effect:
  assumes "server_ok (resolve opts) d V" and "names_ok (resolve opts)"
    and "pgx_UseClientAssertion (NewOAuthStore d opts) c j e w = (Inr b, w')"
  shows "b \<Longrightarrow> assertion_known (clip 512 c) (clip 256 j) e (v_tables V (db w'))" and "assertion_known (clip 512 c) (clip 256 j) e' (v_tables V (db w)) \<Longrightarrow> \<not> b"
proof -
  let ?T = "v_tables V (db w)"
  from assms(3) obtain k where k: "b = (k = 1)"
      "exec_tag d (oq_useAssertion (buildOAuthQueries (resolve opts))) [Text c, Text j, Time e] w = (Inr k, w')"
    by (auto simp: pgx_UseClientAssertion_def one_row_Inr)
  have q: "\<not> is_query so_useAssertion" by (simp add: so_useAssertion_def)
  from exec_tag_effect [OF assms(1) reads(67) [OF assms(2)] q k(2)] obtain sr where
    "(k, v_tables V (db w')) = exec (v_json V) (v_clock V (db w)) sr so_useAssertion [Text c, Text j, Time e] ?T" by auto
  from use_exec [OF this] k(1) show "b \<Longrightarrow> assertion_known (clip 512 c) (clip 256 j) e (v_tables V (db w'))"
    and "assertion_known (clip 512 c) (clip 256 j) e' ?T \<Longrightarrow> \<not> b" by auto
qed

lemma RotateGrant_effect:
  assumes "server_ok (resolve opts) d V" and "names_ok (resolve opts)" and "clip 128 h' \<noteq> h"
    and "pgx_RotateGrant (NewOAuthStore d opts) i h h' e u w = (Inr b, w')"
  shows "b \<longleftrightarrow> \<not> rotated i h (v_tables V (db w))" and "rotated i h (v_tables V (db w'))"
proof -
  let ?args = "[Text i, Text h, Text h', Time e, Time u]"
  from assms(4) obtain k where k: "b = (k = 1)"
      "exec_tag d (oq_rotateGrant (buildOAuthQueries (resolve opts))) ?args w = (Inr k, w')"
    by (auto simp: pgx_RotateGrant_def one_row_Inr)
  have q: "\<not> is_query so_rotateGrant" by (simp add: so_rotateGrant_def)
  from exec_tag_effect [OF assms(1) reads(62) [OF assms(2)] q k(2)] obtain sr where
    "(k, v_tables V (db w')) = exec (v_json V) (v_clock V (db w)) sr so_rotateGrant ?args (v_tables V (db w))" by auto
  from rotate_exec [OF server_constraints [OF assms(1)] assms(3) this] k(1)
  show "b \<longleftrightarrow> \<not> rotated i h (v_tables V (db w))" and "rotated i h (v_tables V (db w'))" by auto
qed

lemma RevokeAPIKey_effect:
  assumes "server_ok (resolve opts) d V" and "names_ok (resolve opts)"
    and "pgx_RevokeAPIKey (NewAPIKeyStore d opts) i w = (None, w')"
  shows "key_dead i (v_tables V (db w'))"
proof -
  let ?T = "v_tables V (db w)" and ?T' = "v_tables V (db w')" and ?now = "v_clock V (db w)"
  let ?hit = "\<lambda>r. fld r ''id'' = Text i \<and> fld r ''revoked_at'' = Null"
  have q: "\<not> is_query sk_revoke" by (simp add: sk_revoke_def)
  from assms(3) have e: "exec_err d (ak_revoke (buildAPIKeyQueries (resolve opts))) [Text i] w = (None, w')"
    by (simp add: pgx_RevokeAPIKey_def)
  from exec_err_effect [OF assms(1) reads(40) [OF assms(2)] q e] obtain k sr where
    ex: "(k, ?T') = exec (v_json V) ?now sr sk_revoke [Text i] ?T" by (auto simp: wrote_def)
  have hit: "holds ?T [Text i] ?now (AndC (Eq (Col ''id'') (Par 1)) (IsNull (Col ''revoked_at''))) = ?hit"
    by (simp add: fun_eq_iff)
  have asg: "map (\<lambda>(c, e). (c, ev [Text i] ?now r e)) [(''revoked_at'', Now)] = [(''revoked_at'', Time (micro ?now))]" for r
    by simp
  have T': "?T' APIKeys = image_mset (\<lambda>r. if ?hit r then set_cols (v_json V) APIKeys [(''revoked_at'', Time (micro ?now))] r else r) (?T APIKeys)"
    using ex unfolding sk_revoke_def exec.simps hit asg by simp
  have "fld (set_cols (v_json V) APIKeys [(''revoked_at'', Time (micro ?now))] r) ''revoked_at'' = Time (micro ?now)"
    if "r \<in># ?T APIKeys" for r
    using constraints_cols [OF server_constraints [OF assms(1)] that] by (simp add: fld_set_cols col_type_def)
  then show ?thesis unfolding key_dead_def T' by (auto split: if_splits)
qed

lemma GetActive_not_dead:
  assumes "server_ok (resolve opts) d V" and "names_ok (resolve opts)"
    and "pgx_GetActiveAPIKeyByHash (NewAPIKeyStore d opts) h w = Inr k"
  shows "k_KeyHash k = h" and "\<not> key_dead (k_ID k) (v_tables V (db w))"
proof -
  let ?T = "v_tables V (db w)"
  from assms(3) obtain vs where vs: "query_row d (ak_getActiveByHash (buildAPIKeyQueries (resolve opts))) [Text h] w = Inr vs"
      "scanAPIKeyRow vs = Inr k"
    by (auto simp: pgx_GetActiveAPIKeyByHash_def scanAPIKey_def split: sum.splits)
  from query_row_effect [OF assms(1) reads(38) [OF assms(2), unfolded sk_getActiveByHash_def], where args = "[Text h]" and w = w] vs(1)
  obtain r where r: "r \<in># ?T APIKeys" "fld r ''key_hash'' = Text h" "fld r ''revoked_at'' = Null" "vs = map (fld r) key_columns"
    by auto
  from r(4) vs(2) have k: "fld r ''id'' = Text (k_ID k)" "fld r ''key_hash'' = Text (k_KeyHash k)"
    by (auto simp: scanAPIKeyRow_def key_columns_def as_simps bind_eq_Some_conv split: option.splits if_splits)
  with r show "k_KeyHash k = h" and "\<not> key_dead (k_ID k) ?T" by (auto simp: key_dead_def)
qed

end
