(* ===== verification/Pgx_Lookup.thy ===== *)
theory Pgx_Lookup
  imports Sql_Server
begin

text \<open>
  Under the default names the statements of the stores are told apart by their tokens, so a text has
  at most one of them.
\<close>

definition stmt_of :: "string \<Rightarrow> stmt option" where
  "stmt_of q = find (\<lambda>st. sql_tokens q = stmt_tokens DefaultNaming st) pgx_stmts"

lemma default_names_ok: "names_ok DefaultNaming"
proof -
  have "list_all (\<lambda>t. isValidIdentifier (tab_base (nm_Tables DefaultNaming) t)) all_tabs" by code_simp
  then show ?thesis by (simp add: names_ok_def list_all_iff) (simp add: DefaultNaming_def)
qed

text \<open>The first, tenth and seventeenth letter of each token are enough: table names share nine, and
  those of the authorization server fifteen.\<close>

definition initials :: "string list \<Rightarrow> string" where
  "initials ts = concat (map (\<lambda>w. take 1 w @ take 1 (drop 9 w) @ take 1 (drop 16 w)) ts)"

lemma stmt_initials: "distinct (map (\<lambda>st. initials (stmt_tokens DefaultNaming st)) pgx_stmts)"
  by code_simp

lemma stmt_tokens_inj: "inj_on (stmt_tokens DefaultNaming) (set pgx_stmts)"
  using stmt_initials by (auto simp: distinct_map inj_on_def)

lemma stmt_of_reads:
  assumes "reads_as DefaultNaming q st"
  shows "stmt_of q = Some st"
proof -
  have "find (\<lambda>st'. sql_tokens q = stmt_tokens DefaultNaming st') sts = Some st"
    if "st \<in> set sts" "set sts \<subseteq> set pgx_stmts" for sts
    using that assms stmt_tokens_inj by (induction sts) (auto simp: reads_as_def inj_on_def)
  with assms show ?thesis by (simp add: stmt_of_def reads_as_def)
qed

lemma pgx_stmts_distinct: "distinct pgx_stmts"
  using stmt_initials by (simp add: distinct_map)

end
