(* ===== verification/Pgx_Demo.thy ===== *)
theory Pgx_Demo
  imports Pgx_Runs Pgx_Lookup
begin

text \<open>
  A concrete server: tables as lists, statements looked up for their texts and run on the lists, a
  statement that would break a constraint rejected. It meets \<open>server_ok\<close>, so the assumption of the
  store theorems can be satisfied, and the concrete runs beside the properties use it.
\<close>

type_synonym demo_db = "tab \<Rightarrow> row list"

definition demo_tables :: "demo_db \<Rightarrow> tables" where
  "demo_tables s = (\<lambda>t. mset (s t))"

definition demo_sound :: "demo_db \<Rightarrow> demo_db" where
  "demo_sound s = (if constraints (demo_tables s) then s else (\<lambda>_. []))"

fun demo_write :: "stmt \<Rightarrow> sval list \<Rightarrow> demo_db \<Rightarrow> int \<times> demo_db" where
  "demo_write (Insert t cs es cf) args s =
     (let r = new_row id 0 (int (length (s t))) t (zip cs (map (ev args 0 []) es))
      in case cf of
           NoConflict \<Rightarrow> (1, s(t := r # s t))
         | DoNothing ks \<Rightarrow> if \<exists>r' \<in> set (s t). same_on ks r' r then (0, s) else (1, s(t := r # s t))
         | DoUpdate ks cs \<Rightarrow>
             if \<exists>r' \<in> set (s t). same_on ks r' r
             then (1, s(t := map (\<lambda>r'. if same_on ks r' r then set_cols id t (map (\<lambda>c. (c, fld r c)) cs) r' else r') (s t)))
             else (1, s(t := r # s t)))"
| "demo_write (InsertSel t cs es t' a cf) args s =
     (let new = map (\<lambda>r. new_row id 0 0 t (zip cs (map (ev args 0 r) es))) (filter (holds (demo_tables s) args 0 a) (s t'));
          new = (case cf of
                   DoNothing ks \<Rightarrow> filter (\<lambda>r. \<not> (\<exists>r' \<in> set (s t). same_on ks r' r)) new
                 | _ \<Rightarrow> new)
      in (int (length new), s(t := s t @ new)))"
| "demo_write (Update t asg a) args s =
     (int (length (filter (holds (demo_tables s) args 0 a) (s t))),
      s(t := map (\<lambda>r. if holds (demo_tables s) args 0 a r
               then set_cols id t (map (\<lambda>(c, e). (c, ev args 0 r e)) asg) r else r) (s t)))"
| "demo_write (Delete t al a) args s =
     (let gone = (\<lambda>r. holds (demo_tables s) args 0 a (qual al r))
      in (int (length (filter gone (s t))),
          \<lambda>t'. if t' = t then filter (\<lambda>r. \<not> gone r) (s t) else filter (\<lambda>r. \<not> orphaned (demo_tables s) t gone t' r) (s t')))"
| "demo_write _ args s = (0, s)"

fun demo_read :: "stmt \<Rightarrow> sval list \<Rightarrow> demo_db \<Rightarrow> sval list list" where
  "demo_read (Select cs t a ord lim) args s =
     map (\<lambda>r. map (fld r) cs) (row_window lim args (filter (holds (demo_tables s) args 0 a) (s t)))"
| "demo_read (Count t a) args s = [[Num (int (length (filter (holds (demo_tables s) args 0 a) (s t))))]]"
| "demo_read (Exists t a) args s = [[Bool (\<exists>r \<in> set (s t). holds (demo_tables s) args 0 a r)]]"
| "demo_read (SelectJoin c t al t' al' on a) args s =
     map (\<lambda>r. [fld r c]) (filter (holds (demo_tables s) args 0 (AndC on a))
       (concat (map (\<lambda>r. map (\<lambda>r'. qual al r @ qual al' r') (s t')) (s t))))"
| "demo_read (ExistsJoin t al t' al' on a) args s =
     [[Bool (\<exists>r \<in> set (s t). \<exists>r' \<in> set (s t'). holds (demo_tables s) args 0 (AndC on a) (qual al r @ qual al' r'))]]"
| "demo_read _ args s = []"

definition demo_reject :: go_error where "demo_reject = StoreErr ''ERROR: rejected''"

definition demo_run :: "stmt \<Rightarrow> sval list \<Rightarrow> demo_db \<Rightarrow> (go_error + int) \<times> demo_db" where
  "demo_run st args s =
     (case demo_write st args (demo_sound s) of (k, s') \<Rightarrow>
        if constraints (demo_tables s') then (Inr k, s') else (Inl demo_reject, s))"

definition demo_Exec :: "(string \<Rightarrow> stmt option) \<Rightarrow> string \<Rightarrow> sval list \<Rightarrow> demo_db \<Rightarrow> (go_error + int) \<times> demo_db" where
  "demo_Exec look q args s = (case look q of None \<Rightarrow> (Inl demo_reject, s) | Some st \<Rightarrow> demo_run st args s)"

definition demo_Query :: "(string \<Rightarrow> stmt option) \<Rightarrow> string \<Rightarrow> sval list \<Rightarrow> demo_db \<Rightarrow> go_error + sval list list" where
  "demo_Query look q args s =
     (case look q of None \<Rightarrow> Inl demo_reject | Some st \<Rightarrow> Inr (demo_read st args (demo_sound s)))"

fun demo_batch :: "(string \<Rightarrow> stmt option) \<Rightarrow> (string \<times> sval list) list \<Rightarrow> demo_db \<Rightarrow> demo_db option" where
  "demo_batch look [] s = Some s"
| "demo_batch look ((q, args) # qs) s =
     (case look q of None \<Rightarrow> None | Some st \<Rightarrow> demo_batch look qs (snd (demo_write st args s)))"

definition demo_SendBatch :: "(string \<Rightarrow> stmt option) \<Rightarrow> (string \<times> sval list) list \<Rightarrow> demo_db \<Rightarrow> go_error option \<times> demo_db" where
  "demo_SendBatch look qs s =
     (case demo_batch look qs (demo_sound s) of
        None \<Rightarrow> (Some demo_reject, s)
      | Some s' \<Rightarrow> if constraints (demo_tables s') then (None, s') else (Some demo_reject, s))"

definition demo_driver :: "(string \<Rightarrow> stmt option) \<Rightarrow> demo_db pgx" where
  "demo_driver look = \<lparr>pg_Exec = demo_Exec look, pg_Query = demo_Query look, pg_SendBatch = demo_SendBatch look\<rparr>"

definition demo_pgx :: "demo_db pgx" where
  "demo_pgx = demo_driver stmt_of"

definition demo_view :: "demo_db view" where
  "demo_view = \<lparr>v_tables = (\<lambda>s. demo_tables (demo_sound s)), v_clock = (\<lambda>_. 0), v_json = id, v_le = (\<lambda>_ _. True)\<rparr>"

section \<open>It meets the assumption\<close>

lemma constraints_empty: "constraints (\<lambda>_. {#})"
  by (simp add: constraints_def unique_on_def)

lemma demo_sound_constraints: "constraints (demo_tables (demo_sound s))"
  using constraints_empty by (simp add: demo_sound_def demo_tables_def)

lemma demo_sound_id [simp]: "constraints (demo_tables s) \<Longrightarrow> demo_sound s = s"
  by (simp add: demo_sound_def)

lemma demo_tables_upd: "demo_tables (s(t := rs)) = (demo_tables s)(t := mset rs)"
  by (simp add: demo_tables_def fun_eq_iff)

lemma demo_tables_rows:
  "mset (s t) = demo_tables s t" "set (s t) = set_mset (demo_tables s t)"
  "length (s t) = size (demo_tables s t)" "length (filter P (s t)) = size (filter_mset P (demo_tables s t))"
proof -
  have "length (filter P (s t)) = size (mset (filter P (s t)))" by (simp only: size_mset)
  then show "length (filter P (s t)) = size (filter_mset P (demo_tables s t))" by (simp add: demo_tables_def)
qed (simp_all add: demo_tables_def)

lemma demo_write_exec:
  "\<exists>sr. (fst (demo_write st args s), demo_tables (snd (demo_write st args s))) = exec id 0 sr st args (demo_tables s)"
proof (cases st)
  case (Insert t cs es cf)
  then show ?thesis
    by (intro exI [of _ "int (length (s t))"])
      (simp add: Let_def insert_row_def demo_tables_upd demo_tables_rows [where s = s] split: conflict.splits)
next
  case (InsertSel t cs es t' a cf)
  then show ?thesis
    by (intro exI [of _ 0])
      (simp add: Let_def demo_tables_upd demo_tables_rows [where s = s] filter_mset_image_mset filter_filter_mset split: conflict.splits)
next
  case (Update t asg a)
  then show ?thesis
    by (intro exI [of _ 0]) (simp add: demo_tables_upd demo_tables_rows [where s = s])
next
  case (Delete t al a)
  then show ?thesis
    by (intro exI [of _ 0]) (simp add: Let_def delete_rows_def demo_tables_rows [where s = s], simp add: demo_tables_def fun_eq_iff)
qed auto

lemma demo_joined: "mset (concat (map (\<lambda>r. map (\<lambda>r'. qual al r @ qual al' r') (s t')) (s t))) = joined (demo_tables s) t al t' al'"
  unfolding joined_def demo_tables_def mset_concat by (simp add: sum_mset_sum_list [symmetric] comp_def)

lemma demo_read_answers:
  assumes "is_query st"
  shows "answers (\<lambda>_ _. True) 0 (demo_tables s) st args (demo_read st args s)"
proof (cases st)
  case (Select cs t a ord lim)
  then show ?thesis
    by (auto simp: ordered_def sorted_wrt_true demo_tables_rows [where s = s] split: option.splits
        intro!: exI [of _ "filter (holds (demo_tables s) args 0 a) (s t)"])
next
  case (SelectJoin c t al t' al' on a)
  then show ?thesis by (simp only: answers.simps demo_read.simps mset_map mset_filter demo_joined)
next
  case (ExistsJoin t al t' al' on a)
  then show ?thesis by (auto simp: joined_def demo_tables_rows [where s = s])
qed (use assms in \<open>simp_all add: demo_tables_rows [where s = s]\<close>)

section \<open>The server assumption holds\<close>

lemma demo_exec_as:
  assumes "look q = Some st"
  shows "exec_as demo_view st args s (demo_Exec look q args s)"
  using demo_write_exec [of st args "demo_sound s"] assms
  by (auto simp: exec_as_def demo_Exec_def demo_run_def demo_view_def split: prod.splits)

lemma demo_batch_exec:
  assumes "list_all2 (\<lambda>(q, args) (st, args'). args = args' \<and> R q st \<and> \<not> is_query st) qs sts"
    and look: "\<And>q st. R q st \<Longrightarrow> look q = Some st"
  shows "\<exists>s' srs. demo_batch look qs s = Some s' \<and> length srs = length sts \<and>
    demo_tables s' = exec_all id 0 (zip srs sts) (demo_tables s)"
  using assms(1)
proof (induction qs sts arbitrary: s rule: list_all2_induct)
  case (Cons x qs y sts)
  obtain q args st where qp: "x = (q, args)" "y = (st, args)" "R q st"
    using Cons.hyps by (auto split: prod.splits)
  obtain sr where sr: "(fst (demo_write st args s), demo_tables (snd (demo_write st args s))) =
      exec id 0 sr st args (demo_tables s)" using demo_write_exec by blast
  obtain s' srs where rest: "demo_batch look qs (snd (demo_write st args s)) = Some s'" "length srs = length sts"
      "demo_tables s' = exec_all id 0 (zip srs sts) (demo_tables (snd (demo_write st args s)))"
    using Cons.IH by blast
  have "demo_tables (snd (demo_write st args s)) = snd (exec id 0 sr st args (demo_tables s))"
    using sr by (metis snd_conv)
  with rest qp look [OF qp(3)] show ?case by (intro exI [of _ s'] exI [of _ "sr # srs"]) (simp flip: id_def)
qed simp

lemma demo_batch_as:
  assumes "list_all2 (\<lambda>(q, args) (st, args'). args = args' \<and> R q st \<and> \<not> is_query st) qs sts"
    and "\<And>q st. R q st \<Longrightarrow> look q = Some st"
  shows "batch_as demo_view sts s (demo_SendBatch look qs s)"
  using demo_batch_exec [where R = R and look = look and s = "demo_sound s", OF assms]
  by (auto simp: batch_as_def demo_SendBatch_def demo_view_def)

text \<open>Whatever texts a relation reads, if the statements are looked up as it says.\<close>

lemma demo_runs:
  assumes look: "\<And>q st. R q st \<Longrightarrow> look q = Some st"
  shows "server_runs R (demo_driver look) demo_view"
proof -
  have "answers (v_le demo_view) (v_clock demo_view s) (v_tables demo_view s) st args out"
    if "R q st" "is_query st" "demo_Query look q args s = Inr out" for q st args s out
    using that demo_read_answers [of st "demo_sound s" args] by (simp add: demo_Query_def demo_view_def look)
  moreover have "driver_error demo_reject" by (simp add: demo_reject_def driver_error_def pgx_ErrNoRows_def)
  then have "driver_error e" if "fst (demo_Exec look q args s) = Inl e \<or> demo_Query look q args s = Inl e \<or>
      fst (demo_SendBatch look qs s) = Some e" for q args qs s e
    using that by (auto simp: demo_Exec_def demo_run_def demo_Query_def demo_SendBatch_def split: option.splits prod.splits if_splits)
  moreover have "constraints (v_tables demo_view s)" for s
    using demo_sound_constraints by (simp add: demo_view_def)
  ultimately show ?thesis
    using demo_exec_as [of look] demo_batch_as [where R = R and look = look] look
    unfolding server_runs_def demo_driver_def by (simp only: pgx.simps) blast
qed

theorem demo_server: "server_ok DefaultNaming demo_pgx demo_view"
  unfolding server_ok_def demo_pgx_def by (rule demo_runs) (rule stmt_of_reads)

section \<open>A concrete run\<close>

definition pg_start :: "demo_db world" where
  "pg_start = \<lparr>db = (\<lambda>_. []), tape = 0\<rparr>"

definition pg_ann :: user where
  "pg_ann = zero_user\<lparr>u_ID := ''u1'', u_UserName := ''ann'', u_NormalizedUserName := ''ANN'', u_ConcurrencyStamp := ''c1''\<rparr>"

definition pg_code :: oauth_code where
  "pg_code = \<lparr>cd_CodeHash = ''h'', cd_ClientID = ''c'', cd_UserID = ''u1'', cd_RedirectURI = ''https://a'', cd_Scopes = [],
     cd_Resource = [], cd_CodeChallenge = [], cd_ExpiresAt = 0, cd_UsedAt = None, cd_GrantID = []\<rparr>"

text \<open>The user is stored, then a token and a code of it.\<close>

definition pg_with_ann :: "demo_db world" where
  "pg_with_ann = snd (snd (pgx_Create (NewUserStore demo_pgx []) pg_ann pg_start))"

definition pg_with_token :: "demo_db world" where
  "pg_with_token = snd (pgx_SetToken (NewUserStore demo_pgx []) pg_ann ''p'' ''n'' ''v'' pg_with_ann)"

definition pg_with_code :: "demo_db world" where
  "pg_with_code = snd (pgx_CreateCode (NewOAuthStore demo_pgx []) pg_code pg_with_ann)"

text \<open>The statements behind these calls, so that evaluation need not look up the texts.\<close>

lemma resolve_Nil: "resolve [] = DefaultNaming"
  by (simp add: resolve_def)

lemma demo_exec_tag:
  "reads_as DefaultNaming q st \<Longrightarrow> exec_tag demo_pgx q args w = apsnd (\<lambda>s. w\<lparr>db := s\<rparr>) (demo_run st args (db w))"
  by (simp add: exec_tag_def demo_pgx_def demo_driver_def demo_Exec_def stmt_of_reads split: prod.splits)

lemma demo_calls:
  "pgx_Create (NewUserStore demo_pgx []) u w =
     (case demo_run st_createUser (user_args u (u_ConcurrencyStamp u)) (db w) of
        (Inl e, s) \<Rightarrow> (Some e, u, w\<lparr>db := s\<rparr>) | (Inr _, s) \<Rightarrow> (None, u, w\<lparr>db := s\<rparr>))"
  "pgx_SetToken (NewUserStore demo_pgx []) u p n v w =
     (case demo_run st_setToken [Text (u_ID u), Text p, Text n, Text v] (db w) of
        (Inl e, s) \<Rightarrow> (Some e, w\<lparr>db := s\<rparr>) | (Inr _, s) \<Rightarrow> (None, w\<lparr>db := s\<rparr>))"
  "pgx_Delete (NewUserStore demo_pgx []) u w =
     (case demo_run st_deleteUser [Text (u_ID u)] (db w) of
        (Inl e, s) \<Rightarrow> (Some e, w\<lparr>db := s\<rparr>) | (Inr _, s) \<Rightarrow> (None, w\<lparr>db := s\<rparr>))"
  "pgx_CreateCode (NewOAuthStore demo_pgx []) c w =
     (case demo_run so_createCode [Text (cd_CodeHash c), Text (cd_ClientID c), Text (cd_UserID c), Text (cd_RedirectURI c),
        Text (cd_Scopes c), Text (cd_Resource c), Text (cd_CodeChallenge c), Time (cd_ExpiresAt c), timePtr (cd_UsedAt c),
        Text (cd_GrantID c)] (db w) of
        (Inl e, s) \<Rightarrow> (Some e, w\<lparr>db := s\<rparr>) | (Inr _, s) \<Rightarrow> (None, w\<lparr>db := s\<rparr>))"
  "pgx_MarkCodeUsed (NewOAuthStore demo_pgx []) h g at w =
     one_row (apsnd (\<lambda>s. w\<lparr>db := s\<rparr>) (demo_run so_markCodeUsed [Text h, Text g, Time at] (db w)))"
  using reads [OF default_names_ok]
  by (simp_all add: pgx_Create_def pgx_SetToken_def pgx_Delete_def pgx_CreateCode_def pgx_MarkCodeUsed_def NewOAuthStore_def
      resolve_Nil exec_err_def demo_exec_tag split: prod.splits sum.splits)

lemma demo_states_code [code]:
  "pg_with_ann = (case demo_run st_createUser (user_args pg_ann (u_ConcurrencyStamp pg_ann)) (db pg_start) of
     (_, s) \<Rightarrow> pg_start\<lparr>db := s\<rparr>)"
  "pg_with_token = (case demo_run st_setToken [Text (u_ID pg_ann), Text ''p'', Text ''n'', Text ''v''] (db pg_with_ann) of
     (_, s) \<Rightarrow> pg_with_ann\<lparr>db := s\<rparr>)"
  "pg_with_code = (case demo_run so_createCode [Text ''h'', Text ''c'', Text ''u1'', Text ''https://a'', Text [], Text [], Text [],
     Time 0, Null, Text []] (db pg_with_ann) of (_, s) \<Rightarrow> pg_with_ann\<lparr>db := s\<rparr>)"
  by (simp_all add: pg_with_ann_def pg_with_token_def pg_with_code_def pg_code_def timePtr_def demo_calls
      split: prod.splits sum.splits)

lemma demo_Create: "fst (pgx_Create (NewUserStore demo_pgx []) pg_ann pg_start) = None"
  unfolding demo_calls by code_simp

lemma demo_SetToken: "fst (pgx_SetToken (NewUserStore demo_pgx []) pg_ann ''p'' ''n'' ''v'' pg_with_ann) = None"
  unfolding demo_calls by code_simp

lemma demo_Delete: "fst (pgx_Delete (NewUserStore demo_pgx []) pg_ann pg_with_token) = None"
  unfolding demo_calls by code_simp

lemma demo_Mark: "fst (pgx_MarkCodeUsed (NewOAuthStore demo_pgx []) ''h'' ''g'' 5 pg_with_code) = Inr True"
  unfolding demo_calls by code_simp

definition pg_with_used :: "demo_db world" where
  "pg_with_used = snd (pgx_MarkCodeUsed (NewOAuthStore demo_pgx []) ''h'' ''g'' 5 pg_with_code)"

lemma demo_used_code [code]:
  "pg_with_used = (case demo_run so_markCodeUsed [Text ''h'', Text ''g'', Time 5] (db pg_with_code) of
     (_, s) \<Rightarrow> pg_with_code\<lparr>db := s\<rparr>)"
  by (simp add: pg_with_used_def demo_calls one_row_def split: prod.splits sum.splits)

lemma demo_Mark_answers:
  "case fst (pgx_MarkCodeUsed (NewOAuthStore demo_pgx []) ''h'' ''g2'' 6 pg_with_used) of Inl e \<Rightarrow> False | Inr b \<Rightarrow> True"
  unfolding demo_calls by code_simp

lemma demo_defaults: "resolve [] = DefaultNaming" "json_kept (v_json demo_view)" "attrs_ok pg_ann"
  by (simp_all add: resolve_def json_kept_def demo_view_def attrs_ok_def pg_ann_def zero_user_def)

end
