(* ===== verification/Pgx_Properties.thy ===== *)
theory Pgx_Properties
  imports Pgx_Demo
begin

text \<open>
  What the PostgreSQL stores of \<open>stores/pgxstore\<close> guarantee on a server that behaves as documented,
  with the concrete server as the witness that such a server exists.
\<close>

lemma labelled_tab: "snd ` set (labelled ns) = range (tab_base ns)"
proof -
  have "range (tab_base ns) = set (map (tab_base ns) all_tabs)" by force
  then show ?thesis by (simp add: labelled_def all_tabs_def tab_base.simps)
qed

lemma Validate_names_ok:
  assumes "set (ord (labelled (nm_Tables n))) = set (labelled (nm_Tables n))"
  shows "Naming_Validate ord quoted n = None \<longleftrightarrow> names_ok n"
proof -
  have "(\<forall>(label, name) \<in> set (labelled (nm_Tables n)). plain_ident name) \<longleftrightarrow>
      (\<forall>name \<in> snd ` set (labelled (nm_Tables n)). plain_ident name)" by auto
  then show ?thesis
    unfolding Validate_None [of ord n, OF assms] names_ok_def isValidIdentifier_iff labelled_tab by simp
qed

section \<open>The texts\<close>

text \<open>All the texts, in the order of \<open>pgx_stmts\<close>.\<close>

definition pgx_texts :: "naming \<Rightarrow> string list" where
  "pgx_texts n =
     (let q = buildQueries n; k = buildAPIKeyQueries n; s = buildRefreshTokenQueries n; oa = buildOAuthQueries n in [
       q_createUser q, q_updateUser q, q_userExists q, q_deleteUser q, q_findUserByID q, q_findUserByName q,
       q_findUserByEmail q, q_countUsers q, q_listUsers q, q_purgeAnonymous q, q_addToRole q,
       q_removeFromRole q, q_getRoles q, q_isInRole q, q_roleExistsByName q, q_usersInRole q,
       q_usersForClaim q, q_getUserClaims q, q_addUserClaim q, q_removeUserClaim q, q_getToken q, q_setToken q,
       q_removeToken q, q_addLogin q, q_removeLogin q, q_getLogins q, q_findByLogin q, q_createRole q,
       q_updateRole q, q_deleteRole q, q_roleExists q, q_findRoleByID q, q_findRoleByName q, q_getRoleClaims q,
       q_addRoleClaim q, q_removeRoleClaim q, ak_create k, ak_getActiveByHash k, ak_listByUser k, ak_revoke k,
       ak_touch k, rq_create s, rq_getBySession s, rq_update s, rq_del s, rq_delByUser s, rq_delExpired s,
       rq_listByUser s, oq_createClient oa, oq_getClient oa, oq_touchClient oa, oq_deleteStaleClients oa,
       oq_createCode oa, oq_getCode oa, oq_markCodeUsed oa, oq_deleteExpiredCodes oa, oq_getConsent oa,
       oq_saveConsent oa, oq_deleteConsent oa, oq_createGrant oa, oq_getGrant oa, oq_rotateGrant oa,
       oq_deleteGrant oa, oq_deleteUserClientGrants oa, oq_listUserGrants oa, oq_deleteExpiredGrants oa,
       oq_useAssertion oa, oq_deleteExpiredAssertions oa])"

text \<open>(C35) Names cannot change the meaning of SQL. \<open>Validate\<close> accepts exactly the layouts of plain
  identifiers, and under every such layout the lexer reads each of the 68 texts of the four stores
  as the tokens of its statement, with the qualified table names as single tokens, and the text of
  \<open>Migrate\<close> as the schema, where set, followed by the fourteen tables with their columns, keys,
  references and indexes. \<open>Migrate\<close> sends that text once, and under any other layout fails with
  \<open>ErrInvalidIdentifier\<close> and sends nothing.\<close>

theorem pgx_texts_read:
  assumes "\<forall>ts. set (ord ts) = set ts"
  shows "(Naming_Validate ord quoted n = None \<longrightarrow>
      map sql_tokens (pgx_texts n) = map (stmt_tokens n) pgx_stmts \<and>
      sql_tokens (buildDDL n) =
        (if nm_Schema n \<noteq> [] then [''CREATE'', ''SCHEMA'', ''IF'', ''NOT'', ''EXISTS'', nm_Schema n, '';''] else []) @
        concat (map (table_tokens n) all_tabs)) \<and>
    (resolve opts = n \<longrightarrow> pgx_Migrate ord quoted d opts w =
      (if names_ok n
       then (case pg_Exec d (buildDDL n) [] (db w) of
               (Inl e, s) \<Rightarrow> (Some e, w\<lparr>db := s\<rparr>) | (Inr _, s) \<Rightarrow> (None, w\<lparr>db := s\<rparr>))
       else (Some ErrInvalidIdentifier, w)))"
proof (intro conjI impI)
  have v: "Naming_Validate ord quoted n = None \<longleftrightarrow> names_ok n" by (rule Validate_names_ok) (use assms in blast)
  { assume "Naming_Validate ord quoted n = None"
    with v have ok: "names_ok n" by simp
    show "map sql_tokens (pgx_texts n) = map (stmt_tokens n) pgx_stmts"
      by (simp add: pgx_texts_def pgx_stmts_def read_stmts ok Let_def)
    show "sql_tokens (buildDDL n) =
        (if nm_Schema n \<noteq> [] then [''CREATE'', ''SCHEMA'', ''IF'', ''NOT'', ''EXISTS'', nm_Schema n, '';''] else []) @
        concat (map (table_tokens n) all_tabs)" by (rule DDL_read [OF ok]) }
  assume r: "resolve opts = n"
  have "fst (the (Naming_Validate ord quoted n)) = ErrInvalidIdentifier" if "Naming_Validate ord quoted n \<noteq> None"
    using that by (auto simp: Naming_Validate_def split: if_splits)
  with v show "pgx_Migrate ord quoted d opts w =
      (if names_ok n
       then (case pg_Exec d (buildDDL n) [] (db w) of
               (Inl e, s) \<Rightarrow> (Some e, w\<lparr>db := s\<rparr>) | (Inr _, s) \<Rightarrow> (None, w\<lparr>db := s\<rparr>))
       else (Some ErrInvalidIdentifier, w))"
    by (cases "Naming_Validate ord quoted n") (auto simp: pgx_Migrate_def r)
qed

theorem pgx_texts_read_witness:
  "map sql_tokens (pgx_texts DefaultNaming) = map (stmt_tokens DefaultNaming) pgx_stmts \<and>
   pgx_Migrate rev (\<lambda>s. s) demo_pgx [WithSchema ''a b''] pg_start = (Some ErrInvalidIdentifier, pg_start)"
proof -
  have r: "\<forall>ts. set (rev ts :: (string \<times> string) list) = set ts" by simp
  have "Naming_Validate rev (\<lambda>s. s) DefaultNaming = None"
    using Validate_names_ok [of rev DefaultNaming "\<lambda>s. s"] default_names_ok by simp
  moreover have "\<not> names_ok (resolve [WithSchema ''a b''])"
    by (simp add: names_ok_def isValidIdentifier_iff plain_ident_def word_byte_def resolve_def WithSchema_def Let_def)
  ultimately show ?thesis
    using pgx_texts_read [OF r, of "\<lambda>s. s" DefaultNaming "[]" demo_pgx pg_start]
      pgx_texts_read [OF r, of "\<lambda>s. s" "resolve [WithSchema ''a b'']" "[WithSchema ''a b'']" demo_pgx pg_start] by simp
qed

section \<open>Users\<close>

text \<open>Results of Go functions, error first, as pairs and by their parts.\<close>

lemma err_case:
  "(case r of (Some e, w') \<Rightarrow> A e w' | (None, w') \<Rightarrow> B w') \<longleftrightarrow> (case fst r of Some e \<Rightarrow> A e (snd r) | None \<Rightarrow> B (snd r))"
  "(case q of (Inl e, w') \<Rightarrow> C e w' | (Inr k, w') \<Rightarrow> D k w') \<longleftrightarrow> (case fst q of Inl e \<Rightarrow> C e (snd q) | Inr k \<Rightarrow> D k (snd q))"
  by (auto split: prod.splits option.splits sum.splits)


definition users_of :: "'s view \<Rightarrow> 's world \<Rightarrow> user set" where
  "users_of V w = users_in (v_tables V (db w))"

lemma users_unique:
  assumes "server_ok n d V" and "a \<in> users_of V w" and "b \<in> users_of V w"
    and "u_ID a = u_ID b \<or> u_NormalizedUserName a = u_NormalizedUserName b"
  shows "a = b"
  using assms(4)
proof
  assume "u_ID a = u_ID b"
  with pg_users.stored_unique [OF server_constraints [OF assms(1)], of a _ b] assms(2, 3) show ?thesis
    by (simp add: users_of_def users_in_def)
next
  assume "u_NormalizedUserName a = u_NormalizedUserName b"
  with pg_names.stored_unique [OF server_constraints [OF assms(1)], of a _ b] assms(2, 3) show ?thesis
    by (simp add: users_of_def users_in_def)
qed

lemma finders:
  assumes "server_ok (resolve opts) d V" and "names_ok (resolve opts)"
  shows "case pgx_FindByID (NewUserStore d opts) k w of
      Inr v \<Rightarrow> v \<in> users_of V w \<and> u_ID v = k
    | Inl e \<Rightarrow> e = ErrNotFound \<longrightarrow> (\<forall>v \<in> users_of V w. u_ID v \<noteq> k)"
    and "case pgx_FindByName (NewUserStore d opts) k w of
      Inr v \<Rightarrow> v \<in> users_of V w \<and> u_NormalizedUserName v = k
    | Inl e \<Rightarrow> e = ErrNotFound \<longrightarrow> (\<forall>v \<in> users_of V w. u_NormalizedUserName v \<noteq> k)"
    and "case pgx_FindByEmail (NewUserStore d opts) k w of
      Inr v \<Rightarrow> k \<noteq> [] \<and> v \<in> users_of V w \<and> u_NormalizedEmail v = k
    | Inl e \<Rightarrow> e = ErrNotFound \<and> k \<noteq> [] \<longrightarrow> (\<forall>v \<in> users_of V w. u_NormalizedEmail v \<noteq> k)"
  using find_by [OF assms(1) find_reads(1) [OF assms(2)], where f = u_ID and k = k and w = w]
    find_by [OF assms(1) find_reads(2) [OF assms(2)], where f = u_NormalizedUserName and k = k and w = w]
    find_by [OF assms(1) find_reads(3) [OF assms(2)], where f = u_NormalizedEmail and k = k and w = w]
  by (auto simp: pgx_FindByID_def pgx_FindByName_def pgx_FindByEmail_def users_of_def scan_fields split: sum.splits)

text \<open>What was written is what is found under its key.\<close>

lemma find_saved:
  assumes "server_ok (resolve opts) d V" and "names_ok (resolve opts)" and "v \<in> users_of V w"
  shows "case pgx_FindByID (NewUserStore d opts) (u_ID v) w of Inr v' \<Rightarrow> v' = v | Inl e \<Rightarrow> e \<noteq> ErrNotFound"
  using finders(1) [OF assms(1, 2), where k = "u_ID v" and w = w] users_unique [OF assms(1) _ assms(3)] assms(3)
  by (auto split: sum.splits)

text \<open>(C36) The user store on PostgreSQL implements a set of users. In every state of a server that
  behaves as documented, no two users share an id or a normalized name. \<open>Create\<close> that succeeds adds
  the user, whose id and name were free, and touches no other table; the user reads back field by
  field, as the columns keep it (times to the microsecond, attributes as a map, texts without the
  spaces beyond the width of their column). \<open>Update\<close> is a compare-and-swap: it succeeds only if
  the row still has the stamp of the copy, then replaces that row and no other and hands out a fresh
  stamp; if it answers a missing user or a stale copy, nothing changed and it tells the two apart.
  An error of the server changes nothing; any other error of the driver (a cancelled context, a lost
  reply) leaves the copy with its old stamp and the tables either as they were or as after success.
  The finders answer users that are there with the key asked for, and \<open>ErrNotFound\<close> only if there is
  none.\<close>

theorem pgx_users_refine:
  assumes "server_ok (resolve opts) d V" and "names_ok (resolve opts)" and "json_kept (v_json V)" and "attrs_ok u"
  shows "(\<forall>a \<in> users_of V w. \<forall>b \<in> users_of V w.
      u_ID a = u_ID b \<or> u_NormalizedUserName a = u_NormalizedUserName b \<longrightarrow> a = b) \<and>
    (case pgx_Create (NewUserStore d opts) u w of (res, u', w') \<Rightarrow>
       u' = u \<and>
       wrote (v_tables V (db w)) (v_tables V (db w')) res
         ((\<exists>v. saved_as u v \<and> users_of V w' = insert v (users_of V w)) \<and>
          (\<forall>v \<in> users_of V w. u_ID v \<noteq> clip 36 (u_ID u) \<and> u_NormalizedUserName v \<noteq> clip 256 (u_NormalizedUserName u)) \<and>
          (\<forall>t. t \<noteq> Users \<longrightarrow> v_tables V (db w') t = v_tables V (db w) t) \<and>
          (case pgx_FindByID (NewUserStore d opts) (clip 36 (u_ID u)) w' of Inr v \<Rightarrow> saved_as u v | Inl e \<Rightarrow> e \<noteq> ErrNotFound))) \<and>
    (case pgx_Update x (NewUserStore d opts) u w of
       (Some e, u', w') \<Rightarrow> u' = u \<and>
         (v_tables V (db w') = v_tables V (db w) \<or> driver_error e \<and> \<not> sql_error e \<and> (\<exists>s. swapped x V u w w' s)) \<and>
         (driver_error e \<or> e \<in> {ErrNotFound, ErrConcurrencyFailure} \<and>
            \<not> stamped (v_tables V (db w)) (u_ID u) (u_ConcurrencyStamp u)) \<and>
         (e = ErrNotFound \<longrightarrow> (\<forall>v \<in> users_of V w. u_ID v \<noteq> u_ID u))
     | (None, u', w') \<Rightarrow> \<exists>s. u' = u\<lparr>u_ConcurrencyStamp := s\<rparr> \<and> swapped x V u w w' s) \<and>
    (\<forall>k. (case pgx_FindByID (NewUserStore d opts) k w of
            Inr v \<Rightarrow> v \<in> users_of V w \<and> u_ID v = k
          | Inl e \<Rightarrow> e = ErrNotFound \<longrightarrow> (\<forall>v \<in> users_of V w. u_ID v \<noteq> k)) \<and>
         (case pgx_FindByName (NewUserStore d opts) k w of
            Inr v \<Rightarrow> v \<in> users_of V w \<and> u_NormalizedUserName v = k
          | Inl e \<Rightarrow> e = ErrNotFound \<longrightarrow> (\<forall>v \<in> users_of V w. u_NormalizedUserName v \<noteq> k)) \<and>
         (case pgx_FindByEmail (NewUserStore d opts) k w of
            Inr v \<Rightarrow> k \<noteq> [] \<and> v \<in> users_of V w \<and> u_NormalizedEmail v = k
          | Inl e \<Rightarrow> e = ErrNotFound \<and> k \<noteq> [] \<longrightarrow> (\<forall>v \<in> users_of V w. u_NormalizedEmail v \<noteq> k)))"
proof (intro conjI)
  show "\<forall>a \<in> users_of V w. \<forall>b \<in> users_of V w.
      u_ID a = u_ID b \<or> u_NormalizedUserName a = u_NormalizedUserName b \<longrightarrow> a = b"
    using users_unique [OF assms(1)] by blast
next
  obtain res u' w' where c: "pgx_Create (NewUserStore d opts) u w = (res, u', w')" by (metis prod_cases3)
  note eff = Create_effect [OF assms c]
  have "case pgx_FindByID (NewUserStore d opts) (clip 36 (u_ID u)) w' of Inr v' \<Rightarrow> saved_as u v' | Inl e \<Rightarrow> e \<noteq> ErrNotFound"
    if "saved_as u v" "users_of V w' = insert v (users_of V w)" for v
    using find_saved [OF assms(1, 2), of v w'] saved_as_keys [OF that(1)] that by (auto split: sum.splits)
  then show "case pgx_Create (NewUserStore d opts) u w of (res, u', w') \<Rightarrow>
       u' = u \<and>
       wrote (v_tables V (db w)) (v_tables V (db w')) res
         ((\<exists>v. saved_as u v \<and> users_of V w' = insert v (users_of V w)) \<and>
          (\<forall>v \<in> users_of V w. u_ID v \<noteq> clip 36 (u_ID u) \<and> u_NormalizedUserName v \<noteq> clip 256 (u_NormalizedUserName u)) \<and>
          (\<forall>t. t \<noteq> Users \<longrightarrow> v_tables V (db w') t = v_tables V (db w) t) \<and>
          (case pgx_FindByID (NewUserStore d opts) (clip 36 (u_ID u)) w' of Inr v \<Rightarrow> saved_as u v | Inl e \<Rightarrow> e \<noteq> ErrNotFound))"
    unfolding c prod.case by (intro conjI conjunct1 [OF eff] wrote_mono [OF conjunct2 [OF eff]])
      (unfold users_of_def, blast+)
next
  obtain res u' w' where c: "pgx_Update x (NewUserStore d opts) u w = (res, u', w')" by (metis prod_cases3)
  from Update_effect [OF assms c] c show "case pgx_Update x (NewUserStore d opts) u w of
       (Some e, u', w') \<Rightarrow> u' = u \<and>
         (v_tables V (db w') = v_tables V (db w) \<or> driver_error e \<and> \<not> sql_error e \<and> (\<exists>s. swapped x V u w w' s)) \<and>
         (driver_error e \<or> e \<in> {ErrNotFound, ErrConcurrencyFailure} \<and>
            \<not> stamped (v_tables V (db w)) (u_ID u) (u_ConcurrencyStamp u)) \<and>
         (e = ErrNotFound \<longrightarrow> (\<forall>v \<in> users_of V w. u_ID v \<noteq> u_ID u))
     | (None, u', w') \<Rightarrow> \<exists>s. u' = u\<lparr>u_ConcurrencyStamp := s\<rparr> \<and> swapped x V u w w' s"
    by (cases res) (simp_all add: users_of_def)
qed (intro allI conjI; rule finders [OF assms(1, 2)])

theorem pgx_users_refine_witness:
  "fst (pgx_Create (NewUserStore demo_pgx []) pg_ann pg_start) = None \<and>
   (\<exists>v. saved_as pg_ann v \<and> users_of demo_view pg_with_ann = insert v (users_of demo_view pg_start)) \<and>
   (case pgx_FindByID (NewUserStore demo_pgx []) ''u1'' pg_with_ann of Inr v \<Rightarrow> saved_as pg_ann v | Inl e \<Rightarrow> e \<noteq> ErrNotFound)"
proof -
  obtain u' where c: "pgx_Create (NewUserStore demo_pgx []) pg_ann pg_start = (None, u', pg_with_ann)"
    using demo_Create by (metis pg_with_ann_def prod.collapse)
  have i: "u_ID pg_ann = ''u1''" by (simp add: pg_ann_def)
  have k: "clip 36 ''u1'' = ''u1''" by code_simp
  show ?thesis
    using pgx_users_refine [where opts = "[]" and d = demo_pgx and V = demo_view and u = pg_ann and w = pg_start] demo_server default_names_ok demo_defaults
    by (simp add: c i k wrote_def)
qed

section \<open>Deletion\<close>

text \<open>A user that is gone leaves nothing under its id.\<close>

lemma without_users_gone:
  assumes "P i"
  shows "\<And>r. r \<in># without_users P T Users \<Longrightarrow> fld r ''id'' \<noteq> Text i"
    and "\<And>t r. owned t \<Longrightarrow> r \<in># without_users P T t \<Longrightarrow> fld r ''user_id'' \<noteq> Text i"
  using assms by (auto simp: without_users_def owned_def)

lemma without_users_rest:
  assumes "\<not> P i"
  shows "filter_mset (\<lambda>r. fld r ''id'' = Text i) (without_users P T Users) = filter_mset (\<lambda>r. fld r ''id'' = Text i) (T Users)"
    and "owned t \<Longrightarrow> filter_mset (\<lambda>r. fld r ''user_id'' = Text i) (without_users P T t) =
      filter_mset (\<lambda>r. fld r ''user_id'' = Text i) (T t)"
    and "\<not> owned t \<Longrightarrow> t \<noteq> Users \<Longrightarrow> without_users P T t = T t"
  using assms by (auto simp: without_users_def owned_def filter_filter_mset intro!: filter_mset_cong)

text \<open>What it means that exactly the users with \<open>P\<close> were deleted.\<close>

definition users_deleted :: "(string \<Rightarrow> bool) \<Rightarrow> tables \<Rightarrow> tables \<Rightarrow> bool" where
  "users_deleted P T T' \<longleftrightarrow>
     (\<forall>i. P i \<longrightarrow> (\<forall>r \<in># T' Users. fld r ''id'' \<noteq> Text i) \<and>
        (\<forall>t. owned t \<longrightarrow> (\<forall>r \<in># T' t. fld r ''user_id'' \<noteq> Text i))) \<and>
     (\<forall>i. \<not> P i \<longrightarrow>
        filter_mset (\<lambda>r. fld r ''id'' = Text i) (T' Users) = filter_mset (\<lambda>r. fld r ''id'' = Text i) (T Users) \<and>
        (\<forall>t. owned t \<longrightarrow> filter_mset (\<lambda>r. fld r ''user_id'' = Text i) (T' t) =
           filter_mset (\<lambda>r. fld r ''user_id'' = Text i) (T t))) \<and>
     (\<forall>t. \<not> owned t \<and> t \<noteq> Users \<longrightarrow> T' t = T t)"

lemma users_deleted_without: "users_deleted P T (without_users P T)"
  unfolding users_deleted_def
  using without_users_gone [of P] without_users_rest [of P] by (auto simp: without_users_def)

text \<open>(C38) Deleting a user deletes all that belongs to it, in every table the schema declares: after
  \<open>Delete\<close> no row of the user, of its roles, claims, logins, tokens, API keys, sessions, codes,
  consents or grants is left, the rows of every other user are as before, and the tables without
  owner (roles, role claims, clients, assertions) are unchanged. \<open>PurgeAnonymousUsers\<close> does the same
  for exactly the anonymous users created before the cutoff and reports how many they were. Nothing
  is ever deleted in part: a call the server rejects changes nothing, and after any other error of the
  driver either nothing is deleted or all of it.\<close>

theorem pgx_delete_cascades:
  assumes "server_ok (resolve opts) d V" and "names_ok (resolve opts)"
  shows "(case pgx_Delete (NewUserStore d opts) u w of (res, w') \<Rightarrow>
      wrote (v_tables V (db w)) (v_tables V (db w')) res
        (users_deleted (\<lambda>i. i = u_ID u) (v_tables V (db w)) (v_tables V (db w')))) \<and>
   (case pgx_PurgeAnonymousUsers (NewUserStore d opts) cutoff w of
      (Inl e, w') \<Rightarrow> wrote (v_tables V (db w)) (v_tables V (db w')) (Some e)
        (users_deleted (guest_ids (v_tables V (db w)) cutoff) (v_tables V (db w)) (v_tables V (db w')))
    | (Inr k, w') \<Rightarrow> users_deleted (guest_ids (v_tables V (db w)) cutoff) (v_tables V (db w)) (v_tables V (db w')) \<and>
        k = int (size (filter_mset (stale_guest (v_tables V (db w)) cutoff) (v_tables V (db w) Users))))"
proof
  show "case pgx_Delete (NewUserStore d opts) u w of (res, w') \<Rightarrow> wrote (v_tables V (db w)) (v_tables V (db w')) res
      (users_deleted (\<lambda>i. i = u_ID u) (v_tables V (db w)) (v_tables V (db w')))"
    using Delete_effect [OF assms, where u = u and w = w] by (auto simp: users_deleted_without split: prod.splits elim!: wrote_mono)
  show "case pgx_PurgeAnonymousUsers (NewUserStore d opts) cutoff w of
      (Inl e, w') \<Rightarrow> wrote (v_tables V (db w)) (v_tables V (db w')) (Some e)
        (users_deleted (guest_ids (v_tables V (db w)) cutoff) (v_tables V (db w)) (v_tables V (db w')))
    | (Inr k, w') \<Rightarrow> users_deleted (guest_ids (v_tables V (db w)) cutoff) (v_tables V (db w)) (v_tables V (db w')) \<and>
        k = int (size (filter_mset (stale_guest (v_tables V (db w)) cutoff) (v_tables V (db w) Users)))"
    using Purge_effect [OF assms prod.collapse [symmetric], where cutoff = cutoff and w = w]
    unfolding err_case by (auto simp: users_deleted_without split: sum.splits elim!: wrote_mono)
qed

theorem pgx_delete_cascades_witness:
  "\<exists>w'. pgx_Delete (NewUserStore demo_pgx []) pg_ann pg_with_token = (None, w') \<and>
     users_deleted (\<lambda>i. i = ''u1'') (v_tables demo_view (db pg_with_token)) (v_tables demo_view (db w'))"
proof -
  obtain w' where c: "pgx_Delete (NewUserStore demo_pgx []) pg_ann pg_with_token = (None, w')"
    using demo_Delete by (metis prod.collapse)
  have i: "u_ID pg_ann = ''u1''" by (simp add: pg_ann_def)
  show ?thesis
    using pgx_delete_cascades [where opts = "[]" and d = demo_pgx and V = demo_view and u = pg_ann and w = pg_with_token] demo_server default_names_ok demo_defaults
    by (simp add: c i wrote_def)
qed

section \<open>Tokens, roles and logins\<close>

lemma token_unique:
  assumes "server_ok n d V" and "token_is (v_tables V s) i p nm a" and "token_is (v_tables V s) i p nm b"
  shows "a = b"
proof (cases "\<exists>c. token_value (v_tables V s) i p nm c")
  case True
  with assms(2, 3) obtain r r' where r: "r \<in># v_tables V s UserTokens" "token_key r i p nm" "fld r ''value'' = Text a"
      and r': "r' \<in># v_tables V s UserTokens" "token_key r' i p nm" "fld r' ''value'' = Text b"
    by (auto simp: token_is_def token_value_key)
  have "unique_on [''user_id'', ''login_provider'', ''name''] (v_tables V s UserTokens)"
    using constraints_unique [OF server_constraints [OF assms(1)]] by (simp add: uniques_simps)
  from unique_on_eq [OF this r(1) r'(1)] r r' show ?thesis by (simp add: same_on_def token_key_def)
qed (use assms(2, 3) in \<open>simp add: token_is_def\<close>)

text \<open>(C39) The tables around a user read back what was written. Seen as a map from user, provider and
  name to a value (empty if unset), \<open>SetToken\<close> and \<open>RemoveToken\<close> change that entry and no other,
  and \<open>GetToken\<close> answers it; \<open>SetToken\<close> writes under the key as its columns keep it, without the
  spaces beyond their width. Seen as a relation, \<open>AddToRole\<close> adds the membership if the role exists
  and otherwise nothing, \<open>ErrRoleNotFound\<close> is answered only if there is no such role, \<open>RemoveFromRole\<close>
  takes it away, and \<open>IsInRole\<close> decides it. \<open>AddLogin\<close> succeeds only for a login nobody has, and
  \<open>FindByLogin\<close> answers only its owner. Calls the server rejects change nothing; after any other error
  of the driver either nothing changed or what a success would have.\<close>

theorem pgx_satellites:
  assumes "server_ok (resolve opts) d V" and "names_ok (resolve opts)"
  shows "(\<forall>i p nm. \<exists>\<^sub>\<le>\<^sub>1 v. token_is (v_tables V (db w)) i p nm v) \<and>
    (\<forall>p nm v. pgx_GetToken (NewUserStore d opts) u p nm w = Inr v \<longrightarrow> token_is (v_tables V (db w)) (u_ID u) p nm v) \<and>
    (case pgx_SetToken (NewUserStore d opts) u p nm v w of (res, w') \<Rightarrow>
       wrote (v_tables V (db w)) (v_tables V (db w')) res
         ((\<forall>i' p' nm' v'. token_is (v_tables V (db w')) i' p' nm' v' \<longleftrightarrow>
            (if (i', p', nm') = (clip 36 (u_ID u), clip 128 p, clip 128 nm) then v' = v
             else token_is (v_tables V (db w)) i' p' nm' v')) \<and>
          (\<forall>t. t \<noteq> UserTokens \<longrightarrow> v_tables V (db w') t = v_tables V (db w) t))) \<and>
    (case pgx_RemoveToken (NewUserStore d opts) u p nm w of (res, w') \<Rightarrow>
       wrote (v_tables V (db w)) (v_tables V (db w')) res
         ((\<forall>i' p' nm' v'. token_is (v_tables V (db w')) i' p' nm' v' \<longleftrightarrow>
            (if (i', p', nm') = (u_ID u, p, nm) then v' = [] else token_is (v_tables V (db w)) i' p' nm' v')) \<and>
          (\<forall>t. t \<noteq> UserTokens \<longrightarrow> v_tables V (db w') t = v_tables V (db w) t))) \<and>
    (\<forall>rn b. pgx_IsInRole (NewUserStore d opts) u rn w = Inr b \<longrightarrow> b = member_of (v_tables V (db w)) (u_ID u) rn) \<and>
    (case pgx_AddToRole (NewUserStore d opts) u rn w of (res, w') \<Rightarrow>
       res = Some ErrRoleNotFound \<and> \<not> (\<exists>r. role_named (v_tables V (db w)) rn r) \<and>
         v_tables V (db w') = v_tables V (db w) \<or>
       wrote (v_tables V (db w)) (v_tables V (db w')) res
         ((\<forall>i' rn'. member_of (v_tables V (db w')) i' rn' \<longleftrightarrow> member_of (v_tables V (db w)) i' rn' \<or>
            i' = clip 36 (u_ID u) \<and> rn' = rn \<and> (\<exists>r. role_named (v_tables V (db w)) rn r)) \<and>
          (\<forall>t. t \<noteq> UserRoles \<longrightarrow> v_tables V (db w') t = v_tables V (db w) t))) \<and>
    (case pgx_RemoveFromRole (NewUserStore d opts) u rn w of (res, w') \<Rightarrow>
       wrote (v_tables V (db w)) (v_tables V (db w')) res
         ((\<forall>i' rn'. member_of (v_tables V (db w')) i' rn' \<longleftrightarrow>
            member_of (v_tables V (db w)) i' rn' \<and> (i', rn') \<noteq> (u_ID u, rn)) \<and>
          (\<forall>t. t \<noteq> UserRoles \<longrightarrow> v_tables V (db w') t = v_tables V (db w) t))) \<and>
    (case pgx_AddLogin (NewUserStore d opts) u l w of (res, w') \<Rightarrow>
       wrote (v_tables V (db w)) (v_tables V (db w')) res
         ((\<forall>i. \<not> login_of (v_tables V (db w)) (clip 128 (l_LoginProvider l)) (clip 128 (l_ProviderKey l)) i) \<and>
          (\<forall>p k i. login_of (v_tables V (db w')) p k i \<longleftrightarrow> login_of (v_tables V (db w)) p k i \<or>
             (p, k, i) = (clip 128 (l_LoginProvider l), clip 128 (l_ProviderKey l), clip 36 (u_ID u))) \<and>
          (\<forall>t. t \<noteq> UserLogins \<longrightarrow> v_tables V (db w') t = v_tables V (db w) t))) \<and>
    (\<forall>p k v. pgx_FindByLogin (NewUserStore d opts) p k w = Inr v \<longrightarrow>
       v \<in> users_of V w \<and> login_of (v_tables V (db w)) p k (u_ID v))"
proof (intro conjI)
  show "\<forall>i p nm. \<exists>\<^sub>\<le>\<^sub>1 v. token_is (v_tables V (db w)) i p nm v"
    using token_unique [OF assms(1)] unfolding Uniq_def by blast
  show "\<forall>p nm v. pgx_GetToken (NewUserStore d opts) u p nm w = Inr v \<longrightarrow> token_is (v_tables V (db w)) (u_ID u) p nm v"
    using GetToken_effect [OF assms] by blast
  show "\<forall>rn b. pgx_IsInRole (NewUserStore d opts) u rn w = Inr b \<longrightarrow> b = member_of (v_tables V (db w)) (u_ID u) rn"
    using IsInRole_effect [OF assms] by blast
  show "\<forall>p k v. pgx_FindByLogin (NewUserStore d opts) p k w = Inr v \<longrightarrow>
      v \<in> users_of V w \<and> login_of (v_tables V (db w)) p k (u_ID v)"
    using FindByLogin_effect [OF assms] unfolding users_of_def by blast
qed (unfold case_prod_beta, (rule SetToken_effect RemoveToken_effect AddToRole_effect RemoveFromRole_effect AddLogin_effect,
  rule assms, rule assms, rule prod.collapse [symmetric])+)

theorem pgx_satellites_witness:
  "\<forall>v. token_is (v_tables demo_view (db pg_with_token)) ''u1'' ''p'' ''n'' v \<longleftrightarrow> v = ''v''"
proof -
  have k: "clip 36 ''u1'' = ''u1''" "clip 128 ''p'' = ''p''" "clip 128 ''n'' = ''n''" by code_simp+
  have c: "pgx_SetToken (NewUserStore demo_pgx []) pg_ann ''p'' ''n'' ''v'' pg_with_ann = (None, pg_with_token)"
    using demo_SetToken by (metis pg_with_token_def prod.collapse)
  have i: "u_ID pg_ann = ''u1''" by (simp add: pg_ann_def)
  show ?thesis
    using pgx_satellites [where opts = "[]" and d = demo_pgx and V = demo_view and w = pg_with_ann and u = pg_ann
        and p = "''p''" and nm = "''n''" and v = "''v''"]
      demo_server default_names_ok demo_defaults by (simp add: c i k wrote_def)
qed

section \<open>Credentials that are used up\<close>

text \<open>(C37) What is used up stays so, for all processes that share the database. Each operation is
  one conditional statement, so it needs no lock: of any number of calls that mark the same
  authorization code, rotate the same refresh token or use the same client assertion, at most one
  answers true, whatever statements any process runs in between; and after \<open>RevokeAPIKey\<close> no
  lookup by hash ever answers that key. The new hashes of a rotation, as the column keeps them, are
  not the old one, the statements in between create no code or grant under
  the same random hash or id, and the cleanup of assertions runs with times before the expiry.\<close>

theorem pgx_used_once:
  assumes "server_ok (resolve opts) d V" and "names_ok (resolve opts)"
  shows "(\<forall>g at w1 w2 w3 w4 g' at' b.
       pgx_MarkCodeUsed (NewOAuthStore d opts) h g at w1 = (Inr True, w2) \<and>
       sql_run (no_such_code h) (v_json V) (v_tables V (db w2)) (v_tables V (db w3)) \<and>
       pgx_MarkCodeUsed (NewOAuthStore d opts) h g' at' w3 = (Inr b, w4) \<longrightarrow> \<not> b) \<and>
    (\<forall>h1 h2 e u w1 w2 w3 w4 e' u' b. clip 128 h1 \<noteq> h \<and> clip 128 h2 \<noteq> h \<and>
       pgx_RotateGrant (NewOAuthStore d opts) i h h1 e u w1 = (Inr True, w2) \<and>
       sql_run (no_such_token i h) (v_json V) (v_tables V (db w2)) (v_tables V (db w3)) \<and>
       pgx_RotateGrant (NewOAuthStore d opts) i h h2 e' u' w3 = (Inr b, w4) \<longrightarrow> \<not> b) \<and>
    (\<forall>c j e w1 w2 w3 w4 e' b.
       pgx_UseClientAssertion (NewOAuthStore d opts) c j e w1 = (Inr True, w2) \<and>
       sql_run (no_cleanup_after e) (v_json V) (v_tables V (db w2)) (v_tables V (db w3)) \<and>
       pgx_UseClientAssertion (NewOAuthStore d opts) c j e' w3 = (Inr b, w4) \<longrightarrow> \<not> b) \<and>
    (\<forall>w1 w2 w3 k.
       pgx_RevokeAPIKey (NewAPIKeyStore d opts) i w1 = (None, w2) \<and>
       sql_run (no_such_key i) (v_json V) (v_tables V (db w2)) (v_tables V (db w3)) \<and>
       pgx_GetActiveAPIKeyByHash (NewAPIKeyStore d opts) h w3 = Inr k \<longrightarrow> k_ID k \<noteq> i \<and> k_KeyHash k = h)"
proof -
  note con = server_constraints [OF assms(1)]
  have code: "\<not> b"
    if "pgx_MarkCodeUsed (NewOAuthStore d opts) h g at w1 = (Inr True, w2)"
      "sql_run (no_such_code h) (v_json V) (v_tables V (db w2)) (v_tables V (db w3))"
      "pgx_MarkCodeUsed (NewOAuthStore d opts) h g' at' w3 = (Inr b, w4)" for g at w1 w2 w3 w4 g' at' b
    using run_invariant [OF that(2) con, of "code_spent h"] MarkCodeUsed_effect(2) [OF assms that(1)]
      MarkCodeUsed_effect(1) [OF assms that(3)] code_spent_step by blast
  have tok: "\<not> b"
    if "clip 128 h1 \<noteq> h" "clip 128 h2 \<noteq> h" "pgx_RotateGrant (NewOAuthStore d opts) i h h1 e u w1 = (Inr True, w2)"
      "sql_run (no_such_token i h) (v_json V) (v_tables V (db w2)) (v_tables V (db w3))"
      "pgx_RotateGrant (NewOAuthStore d opts) i h h2 e' u' w3 = (Inr b, w4)" for h1 h2 e u w1 w2 w3 w4 e' u' b
    using run_invariant [OF that(4) con, of "rotated i h"] RotateGrant_effect(2) [OF assms that(1, 3)]
      RotateGrant_effect(1) [OF assms that(2, 5)] rotated_step by blast
  have assertion: "\<not> b"
    if "pgx_UseClientAssertion (NewOAuthStore d opts) c j e w1 = (Inr True, w2)"
      "sql_run (no_cleanup_after e) (v_json V) (v_tables V (db w2)) (v_tables V (db w3))"
      "pgx_UseClientAssertion (NewOAuthStore d opts) c j e' w3 = (Inr b, w4)" for c j e w1 w2 w3 w4 e' b
    using run_invariant [OF that(2) con, of "assertion_known (clip 512 c) (clip 256 j) e"] UseClientAssertion_effect(1) [OF assms that(1)]
      UseClientAssertion_effect(2) [OF assms that(3)] assertion_known_step by blast
  have key: "k_ID k \<noteq> i \<and> k_KeyHash k = h"
    if "pgx_RevokeAPIKey (NewAPIKeyStore d opts) i w1 = (None, w2)"
      "sql_run (no_such_key i) (v_json V) (v_tables V (db w2)) (v_tables V (db w3))"
      "pgx_GetActiveAPIKeyByHash (NewAPIKeyStore d opts) h w3 = Inr k" for w1 w2 w3 k
    using run_invariant [OF that(2) con, of "key_dead i"] RevokeAPIKey_effect [OF assms that(1)]
      GetActive_not_dead [OF assms that(3)] key_dead_step by blast
  show ?thesis
    by (intro conjI; intro allI impI; elim conjE)
      ((rule code; assumption), (rule tok; assumption), (rule assertion; assumption), rule key)
qed

theorem pgx_used_once_witness:
  "fst (pgx_MarkCodeUsed (NewOAuthStore demo_pgx []) ''h'' ''g'' 5 pg_with_code) = Inr True \<and>
   fst (pgx_MarkCodeUsed (NewOAuthStore demo_pgx []) ''h'' ''g2'' 6 pg_with_used) = Inr False"
proof -
  have s: "server_ok (resolve []) demo_pgx demo_view" "names_ok (resolve [])"
    using demo_server default_names_ok demo_defaults by simp_all
  have c: "pgx_MarkCodeUsed (NewOAuthStore demo_pgx []) ''h'' ''g'' 5 pg_with_code = (Inr True, pg_with_used)"
    using demo_Mark by (metis pg_with_used_def prod.collapse)
  obtain b w'' where b: "pgx_MarkCodeUsed (NewOAuthStore demo_pgx []) ''h'' ''g2'' 6 pg_with_used = (Inr b, w'')"
    using demo_Mark_answers by (cases "pgx_MarkCodeUsed (NewOAuthStore demo_pgx []) ''h'' ''g2'' 6 pg_with_used")
      (auto split: sum.splits)
  with conjunct1 [OF pgx_used_once [OF s, of "''h''"]] c run_done have "\<not> b" by blast
  with b c show ?thesis by simp
qed

end
