(* ===== verification/Sqlc_Queries.thy ===== *)
theory Sqlc_Queries
  imports Pgx_OAuth
begin

text \<open>
  \<open>stores/pgxsqlc/internal/sqlcgen\<close>: the query texts with their comments, and the methods of
  \<open>Queries\<close>, each of which sends its text with its arguments in the order of the parameters. A method
  takes the fields of its \<open>Params\<close> struct in the order of the struct. A row of \<open>models.go\<close> with the
  fields of an entity is that entity; \<open>IdentityUser\<close>, \<open>IdentityApiKey\<close> and \<open>IdentityOauthClient\<close> keep
  their JSON columns as text beside the other fields.
\<close>

section \<open>Rows\<close>

type_synonym identity_user = "user \<times> string"

type_synonym identity_key = "api_key \<times> string"

type_synonym identity_client = "oauth_client \<times> string \<times> string"

definition scan_identity_user :: "sval list \<Rightarrow> go_error + identity_user" where
  "scan_identity_user vs = (case scan_user_cols vs of None \<Rightarrow> Inl errScan | Some i \<Rightarrow> Inr i)"

definition scan_identity_role :: "sval list \<Rightarrow> go_error + role" where
  "scan_identity_role vs =
     (case map asText vs of
        [Some i, Some nm, Some nn, Some cs] \<Rightarrow>
          Inr \<lparr>r_ID = i, r_Name = nm, r_NormalizedName = nn, r_ConcurrencyStamp = cs\<rparr>
      | _ \<Rightarrow> Inl errScan)"

definition scan_identity_key :: "sval list \<Rightarrow> go_error + identity_key" where
  "scan_identity_key vs =
     (case vs of
        [i, u, n, p, h, sc, e, l, r, c] \<Rightarrow>
          (case do { i \<leftarrow> asText i; u \<leftarrow> asText u; n \<leftarrow> asText n; p \<leftarrow> asText p; h \<leftarrow> asText h; sc \<leftarrow> asText sc;
                     e \<leftarrow> asTimePtr e; l \<leftarrow> asTimePtr l; r \<leftarrow> asTimePtr r; c \<leftarrow> asTime c;
                     Some (\<lparr>k_ID = i, k_UserID = u, k_Name = n, k_Prefix = p, k_KeyHash = h, k_Scopes = [],
                       k_ExpiresAt = e, k_LastUsedAt = l, k_RevokedAt = r, k_CreatedAt = c\<rparr>, sc) } of
             None \<Rightarrow> Inl errScan | Some k \<Rightarrow> Inr k)
      | _ \<Rightarrow> Inl errScan)"

definition scan_identity_client :: "sval list \<Rightarrow> go_error + identity_client" where
  "scan_identity_client vs =
     (case vs of
        [i, h, n, ru, m, gt, c, l] \<Rightarrow>
          (case do { i \<leftarrow> asText i; h \<leftarrow> asText h; n \<leftarrow> asText n; ru \<leftarrow> asText ru; m \<leftarrow> asText m; gt \<leftarrow> asText gt;
                     c \<leftarrow> asTime c; l \<leftarrow> asTimePtr l;
                     Some (\<lparr>cl_ClientID = i, cl_SecretHash = h, cl_Name = n, cl_RedirectURIs = [],
                       cl_TokenEndpointAuthMethod = m, cl_GrantTypes = [], cl_CreatedAt = c, cl_LastUsedAt = l\<rparr>, ru, gt) } of
             None \<Rightarrow> Inl errScan | Some c \<Rightarrow> Inr c)
      | _ \<Rightarrow> Inl errScan)"

text \<open>\<open>row.Scan\<close> into a struct.\<close>

definition query_struct :: "'s pgx \<Rightarrow> (sval list \<Rightarrow> go_error + 'a) \<Rightarrow> string \<Rightarrow> sval list \<Rightarrow> 's world \<Rightarrow> go_error + 'a" where
  "query_struct q f text args w = (case query_row q text args w of Inl e \<Rightarrow> Inl e | Inr vs \<Rightarrow> f vs)"

section \<open>Texts and methods\<close>

definition unlines :: "string list \<Rightarrow> string" where
  "unlines ls = concat (map (\<lambda>l. l @ nl) ls)"

definition sq_addRoleClaim :: "string list" where
  "sq_addRoleClaim = [
       ''-- name: AddRoleClaim :exec'',
       ''INSERT INTO identity_role_claims (role_id, claim_type, claim_value) VALUES ($1,$2,$3)'']"

definition gen_AddRoleClaim ::
  "'s pgx \<Rightarrow> string \<Rightarrow> string \<Rightarrow> string \<Rightarrow> 's world
    \<Rightarrow> go_error option \<times> 's world" where
  "gen_AddRoleClaim q roleID claimType claimValue w =
     exec_err q (unlines sq_addRoleClaim) [Text roleID, Text claimType, Text claimValue] w"

definition sq_addUserClaim :: "string list" where
  "sq_addUserClaim = [
       ''-- name: AddUserClaim :exec'',
       ''INSERT INTO identity_user_claims (user_id, claim_type, claim_value) VALUES ($1,$2,$3)'']"

definition gen_AddUserClaim ::
  "'s pgx \<Rightarrow> string \<Rightarrow> string \<Rightarrow> string \<Rightarrow> 's world
    \<Rightarrow> go_error option \<times> 's world" where
  "gen_AddUserClaim q userID claimType claimValue w =
     exec_err q (unlines sq_addUserClaim) [Text userID, Text claimType, Text claimValue] w"

definition sq_addUserLogin :: "string list" where
  "sq_addUserLogin = [
       ''-- name: AddUserLogin :exec'',
       ''INSERT INTO identity_user_logins (login_provider, provider_key, provider_display_name, user_id)'',
       ''VALUES ($1,$2,$3,$4)'']"

definition gen_AddUserLogin ::
  "'s pgx \<Rightarrow> string \<Rightarrow> string \<Rightarrow> string \<Rightarrow> string \<Rightarrow> 's world
    \<Rightarrow> go_error option \<times> 's world" where
  "gen_AddUserLogin q loginProvider providerKey providerDisplayName userID w =
     exec_err q (unlines sq_addUserLogin) 
       [Text loginProvider, Text providerKey, Text providerDisplayName, Text userID] w"

definition sq_addUserToRole :: "string list" where
  "sq_addUserToRole = [
       ''-- name: AddUserToRole :exec'',
       ''INSERT INTO identity_user_roles (user_id, role_id) VALUES ($1, $2)'',
       ''ON CONFLICT (user_id, role_id) DO NOTHING'']"

definition gen_AddUserToRole ::
  "'s pgx \<Rightarrow> string \<Rightarrow> string \<Rightarrow> 's world
    \<Rightarrow> go_error option \<times> 's world" where
  "gen_AddUserToRole q userID roleID w =
     exec_err q (unlines sq_addUserToRole) [Text userID, Text roleID] w"

definition sq_countUsers :: "string list" where
  "sq_countUsers = [
       ''-- name: CountUsers :one'',
       ''SELECT count(*) FROM identity_users'',
       ''WHERE $1::text = '' @ [quote_mark] @ [quote_mark] @ '' OR normalized_user_name LIKE '' @
        [quote_mark] @ ''%'' @ [quote_mark] @ '' || $1 || '' @ [quote_mark] @ ''%'' @ [quote_mark],
       ''   OR normalized_email LIKE '' @ [quote_mark] @ ''%'' @ [quote_mark] @ '' || $1 || '' @ [quote_mark] @
        ''%'' @ [quote_mark]]"

definition gen_CountUsers :: "'s pgx \<Rightarrow> string \<Rightarrow> 's world \<Rightarrow> go_error + int" where
  "gen_CountUsers q search w =
     query_one q asNum (unlines sq_countUsers) [Text search] w"

definition sq_createAPIKey :: "string list" where
  "sq_createAPIKey = [
       ''-- name: CreateAPIKey :exec'',
       ''INSERT INTO identity_api_keys (id, user_id, name, prefix, key_hash, scopes, expires_at, created_at)'',
       ''VALUES ($1,$2,$3,$4,$5,$6,$7,$8)'']"

definition gen_CreateAPIKey ::
  "'s pgx \<Rightarrow> string \<Rightarrow> string \<Rightarrow> string \<Rightarrow> string \<Rightarrow> string \<Rightarrow> string \<Rightarrow> time option \<Rightarrow> time \<Rightarrow> 's world
    \<Rightarrow> go_error option \<times> 's world" where
  "gen_CreateAPIKey q i userID nm pfx keyHash scopes expiresAt createdAt w =
     exec_err q (unlines sq_createAPIKey) 
       [Text i, Text userID, Text nm, Text pfx, Text keyHash, Text scopes, timePtr expiresAt, Time createdAt] w"

definition sq_createOAuthClient :: "string list" where
  "sq_createOAuthClient = [
       ''-- name: CreateOAuthClient :exec'',
       ''INSERT INTO identity_oauth_clients (client_id, secret_hash, name, redirect_uris, token_endpoint_auth_method, grant_types, created_at, last_used_at)'',
       ''VALUES ($1,$2,$3,$4,$5,$6,$7,$8)'']"

definition gen_CreateOAuthClient ::
  "'s pgx \<Rightarrow> string \<Rightarrow> string \<Rightarrow> string \<Rightarrow> string \<Rightarrow> string \<Rightarrow> string \<Rightarrow> time \<Rightarrow> time option \<Rightarrow> 's world
    \<Rightarrow> go_error option \<times> 's world" where
  "gen_CreateOAuthClient q clientID secretHash nm redirectUris tokenEndpointAuthMethod grantTypes createdAt lastUsedAt w =
     exec_err q (unlines sq_createOAuthClient) 
       [Text clientID, Text secretHash, Text nm, Text redirectUris, Text tokenEndpointAuthMethod,
        Text grantTypes, Time createdAt, timePtr lastUsedAt] w"

definition sq_createOAuthCode :: "string list" where
  "sq_createOAuthCode = [
       ''-- name: CreateOAuthCode :exec'',
       ''INSERT INTO identity_oauth_codes (code_hash, client_id, user_id, redirect_uri, scopes, resource, code_challenge, expires_at, used_at, grant_id)'',
       ''VALUES ($1,$2,$3,$4,$5,$6,$7,$8,$9,$10)'']"

definition gen_CreateOAuthCode ::
  "'s pgx \<Rightarrow> string \<Rightarrow> string \<Rightarrow> string \<Rightarrow> string \<Rightarrow> string \<Rightarrow> string \<Rightarrow> string \<Rightarrow> time \<Rightarrow> time option \<Rightarrow> string \<Rightarrow> 's world
    \<Rightarrow> go_error option \<times> 's world" where
  "gen_CreateOAuthCode q codeHash clientID userID redirectUri scopes resource codeChallenge expiresAt usedAt grantID w =
     exec_err q (unlines sq_createOAuthCode) 
       [Text codeHash, Text clientID, Text userID, Text redirectUri, Text scopes, Text resource,
        Text codeChallenge, Time expiresAt, timePtr usedAt, Text grantID] w"

definition sq_createOAuthGrant :: "string list" where
  "sq_createOAuthGrant = [
       ''-- name: CreateOAuthGrant :exec'',
       ''INSERT INTO identity_oauth_grants (id, user_id, client_id, scopes, resource, token_hash, prev_token_hash, security_stamp, expires_at, created_at, last_used_at)'',
       ''VALUES ($1,$2,$3,$4,$5,$6,$7,$8,$9,$10,$11)'']"

definition gen_CreateOAuthGrant ::
  "'s pgx \<Rightarrow> string \<Rightarrow> string \<Rightarrow> string \<Rightarrow> string \<Rightarrow> string \<Rightarrow> string \<Rightarrow> string \<Rightarrow> string \<Rightarrow> time \<Rightarrow> time \<Rightarrow> time option \<Rightarrow> 's world
    \<Rightarrow> go_error option \<times> 's world" where
  "gen_CreateOAuthGrant q i userID clientID scopes resource tokenHash prevTokenHash securityStamp expiresAt createdAt lastUsedAt w =
     exec_err q (unlines sq_createOAuthGrant) 
       [Text i, Text userID, Text clientID, Text scopes, Text resource, Text tokenHash, Text prevTokenHash,
        Text securityStamp, Time expiresAt, Time createdAt, timePtr lastUsedAt] w"

definition sq_createRefreshToken :: "string list" where
  "sq_createRefreshToken = [
       ''-- name: CreateRefreshToken :exec'',
       ''INSERT INTO identity_refresh_tokens (session_id, user_id, token_hash, name, expires_at, created_at, last_used_at)'',
       ''VALUES ($1,$2,$3,$4,$5,$6,$7)'']"

definition gen_CreateRefreshToken ::
  "'s pgx \<Rightarrow> string \<Rightarrow> string \<Rightarrow> string \<Rightarrow> string \<Rightarrow> time \<Rightarrow> time \<Rightarrow> time option \<Rightarrow> 's world
    \<Rightarrow> go_error option \<times> 's world" where
  "gen_CreateRefreshToken q sessionID userID tokenHash nm expiresAt createdAt lastUsedAt w =
     exec_err q (unlines sq_createRefreshToken) 
       [Text sessionID, Text userID, Text tokenHash, Text nm, Time expiresAt, Time createdAt,
        timePtr lastUsedAt] w"

definition sq_createRole :: "string list" where
  "sq_createRole = [
       ''-- name: CreateRole :exec'',
       ''INSERT INTO identity_roles (id, name, normalized_name, concurrency_stamp)'',
       ''VALUES ($1,$2,$3,$4)'']"

definition gen_CreateRole ::
  "'s pgx \<Rightarrow> string \<Rightarrow> string \<Rightarrow> string \<Rightarrow> string \<Rightarrow> 's world
    \<Rightarrow> go_error option \<times> 's world" where
  "gen_CreateRole q i nm normalizedName concurrencyStamp w =
     exec_err q (unlines sq_createRole) [Text i, Text nm, Text normalizedName, Text concurrencyStamp] w"

definition sq_createUser :: "string list" where
  "sq_createUser = [
       ''-- name: CreateUser :exec'',
       ''INSERT INTO identity_users ('',
       ''    id, user_name, normalized_user_name, email, normalized_email, email_confirmed,'',
       ''    password_hash, security_stamp, concurrency_stamp, phone_number,'',
       ''    phone_number_confirmed, two_factor_enabled, lockout_end, lockout_enabled,'',
       ''    access_failed_count, attributes, is_anonymous'',
       '') VALUES ('',
       ''    $1,$2,$3,$4,$5,$6,$7,$8,$9,$10,$11,$12,$13,$14,$15,$16,$17'',
       '')'']"

definition gen_CreateUser ::
  "'s pgx \<Rightarrow> string \<Rightarrow> string \<Rightarrow> string \<Rightarrow> string \<Rightarrow> string \<Rightarrow> bool \<Rightarrow> string \<Rightarrow> string \<Rightarrow> string \<Rightarrow> string \<Rightarrow> bool \<Rightarrow> bool \<Rightarrow> time option \<Rightarrow> bool \<Rightarrow> int \<Rightarrow> string \<Rightarrow> bool \<Rightarrow> 's world
    \<Rightarrow> go_error option \<times> 's world" where
  "gen_CreateUser q i userName normalizedUserName email normalizedEmail emailConfirmed passwordHash securityStamp concurrencyStamp phoneNumber phoneNumberConfirmed twoFactorEnabled lockoutEnd lockoutEnabled accessFailedCount attributes isAnonymous w =
     exec_err q (unlines sq_createUser) 
       [Text i, Text userName, Text normalizedUserName, Text email, Text normalizedEmail,
        Bool emailConfirmed, Text passwordHash, Text securityStamp, Text concurrencyStamp,
        Text phoneNumber, Bool phoneNumberConfirmed, Bool twoFactorEnabled, timePtr lockoutEnd,
        Bool lockoutEnabled, Num accessFailedCount, Text attributes, Bool isAnonymous] w"

definition sq_deleteExpiredOAuthClientAssertions :: "string list" where
  "sq_deleteExpiredOAuthClientAssertions = [
       ''-- name: DeleteExpiredOAuthClientAssertions :execrows'',
       ''DELETE FROM identity_oauth_assertions WHERE expires_at < $1'']"

definition gen_DeleteExpiredOAuthClientAssertions ::
  "'s pgx \<Rightarrow> time \<Rightarrow> 's world
    \<Rightarrow> (go_error + int) \<times> 's world" where
  "gen_DeleteExpiredOAuthClientAssertions q expiresAt w =
     exec_tag q (unlines sq_deleteExpiredOAuthClientAssertions) [Time expiresAt] w"

definition sq_deleteExpiredOAuthCodes :: "string list" where
  "sq_deleteExpiredOAuthCodes = [
       ''-- name: DeleteExpiredOAuthCodes :execrows'',
       ''DELETE FROM identity_oauth_codes WHERE expires_at < $1'']"

definition gen_DeleteExpiredOAuthCodes :: "'s pgx \<Rightarrow> time \<Rightarrow> 's world \<Rightarrow> (go_error + int) \<times> 's world" where
  "gen_DeleteExpiredOAuthCodes q expiresAt w =
     exec_tag q (unlines sq_deleteExpiredOAuthCodes) [Time expiresAt] w"

definition sq_deleteExpiredOAuthGrants :: "string list" where
  "sq_deleteExpiredOAuthGrants = [
       ''-- name: DeleteExpiredOAuthGrants :execrows'',
       ''DELETE FROM identity_oauth_grants WHERE expires_at < $1'']"

definition gen_DeleteExpiredOAuthGrants :: "'s pgx \<Rightarrow> time \<Rightarrow> 's world \<Rightarrow> (go_error + int) \<times> 's world" where
  "gen_DeleteExpiredOAuthGrants q expiresAt w =
     exec_tag q (unlines sq_deleteExpiredOAuthGrants) [Time expiresAt] w"

definition sq_deleteExpiredRefreshTokens :: "string list" where
  "sq_deleteExpiredRefreshTokens = [
       ''-- name: DeleteExpiredRefreshTokens :execrows'',
       ''DELETE FROM identity_refresh_tokens WHERE expires_at < $1'']"

definition gen_DeleteExpiredRefreshTokens :: "'s pgx \<Rightarrow> time \<Rightarrow> 's world \<Rightarrow> (go_error + int) \<times> 's world" where
  "gen_DeleteExpiredRefreshTokens q expiresAt w =
     exec_tag q (unlines sq_deleteExpiredRefreshTokens) [Time expiresAt] w"

definition sq_deleteOAuthConsent :: "string list" where
  "sq_deleteOAuthConsent = [
       ''-- name: DeleteOAuthConsent :exec'',
       ''DELETE FROM identity_oauth_consents WHERE user_id = $1 AND client_id = $2'']"

definition gen_DeleteOAuthConsent ::
  "'s pgx \<Rightarrow> string \<Rightarrow> string \<Rightarrow> 's world
    \<Rightarrow> go_error option \<times> 's world" where
  "gen_DeleteOAuthConsent q userID clientID w =
     exec_err q (unlines sq_deleteOAuthConsent) [Text userID, Text clientID] w"

definition sq_deleteOAuthGrant :: "string list" where
  "sq_deleteOAuthGrant = [
       ''-- name: DeleteOAuthGrant :exec'',
       ''DELETE FROM identity_oauth_grants WHERE id = $1'']"

definition gen_DeleteOAuthGrant :: "'s pgx \<Rightarrow> string \<Rightarrow> 's world \<Rightarrow> go_error option \<times> 's world" where
  "gen_DeleteOAuthGrant q i w =
     exec_err q (unlines sq_deleteOAuthGrant) [Text i] w"

definition sq_deleteRefreshToken :: "string list" where
  "sq_deleteRefreshToken = [
       ''-- name: DeleteRefreshToken :exec'',
       ''DELETE FROM identity_refresh_tokens WHERE session_id = $1'']"

definition gen_DeleteRefreshToken :: "'s pgx \<Rightarrow> string \<Rightarrow> 's world \<Rightarrow> go_error option \<times> 's world" where
  "gen_DeleteRefreshToken q sessionID w =
     exec_err q (unlines sq_deleteRefreshToken) [Text sessionID] w"

definition sq_deleteRole :: "string list" where
  "sq_deleteRole = [
       ''-- name: DeleteRole :exec'',
       ''DELETE FROM identity_roles WHERE id=$1'']"

definition gen_DeleteRole :: "'s pgx \<Rightarrow> string \<Rightarrow> 's world \<Rightarrow> go_error option \<times> 's world" where
  "gen_DeleteRole q i w =
     exec_err q (unlines sq_deleteRole) [Text i] w"

definition sq_deleteRoleClaim :: "string list" where
  "sq_deleteRoleClaim = [
       ''-- name: DeleteRoleClaim :exec'',
       ''DELETE FROM identity_role_claims WHERE role_id=$1 AND claim_type=$2 AND claim_value=$3'']"

definition gen_DeleteRoleClaim ::
  "'s pgx \<Rightarrow> string \<Rightarrow> string \<Rightarrow> string \<Rightarrow> 's world
    \<Rightarrow> go_error option \<times> 's world" where
  "gen_DeleteRoleClaim q roleID claimType claimValue w =
     exec_err q (unlines sq_deleteRoleClaim) [Text roleID, Text claimType, Text claimValue] w"

definition sq_deleteStaleOAuthClients :: "string list" where
  "sq_deleteStaleOAuthClients = [
       ''-- name: DeleteStaleOAuthClients :execrows'',
       ''DELETE FROM identity_oauth_clients c'',
       ''WHERE c.created_at < $1 AND (c.last_used_at IS NULL OR c.last_used_at < $1)'',
       ''  AND NOT EXISTS (SELECT 1 FROM identity_oauth_grants g WHERE g.client_id = c.client_id)'']"

definition gen_DeleteStaleOAuthClients :: "'s pgx \<Rightarrow> time \<Rightarrow> 's world \<Rightarrow> (go_error + int) \<times> 's world" where
  "gen_DeleteStaleOAuthClients q before w =
     exec_tag q (unlines sq_deleteStaleOAuthClients) [Time before] w"

definition sq_deleteUser :: "string list" where
  "sq_deleteUser = [
       ''-- name: DeleteUser :exec'',
       ''DELETE FROM identity_users WHERE id=$1'']"

definition gen_DeleteUser :: "'s pgx \<Rightarrow> string \<Rightarrow> 's world \<Rightarrow> go_error option \<times> 's world" where
  "gen_DeleteUser q i w =
     exec_err q (unlines sq_deleteUser) [Text i] w"

definition sq_deleteUserClaim :: "string list" where
  "sq_deleteUserClaim = [
       ''-- name: DeleteUserClaim :exec'',
       ''DELETE FROM identity_user_claims WHERE user_id=$1 AND claim_type=$2 AND claim_value=$3'']"

definition gen_DeleteUserClaim ::
  "'s pgx \<Rightarrow> string \<Rightarrow> string \<Rightarrow> string \<Rightarrow> 's world
    \<Rightarrow> go_error option \<times> 's world" where
  "gen_DeleteUserClaim q userID claimType claimValue w =
     exec_err q (unlines sq_deleteUserClaim) [Text userID, Text claimType, Text claimValue] w"

definition sq_deleteUserClientOAuthGrants :: "string list" where
  "sq_deleteUserClientOAuthGrants = [
       ''-- name: DeleteUserClientOAuthGrants :execrows'',
       ''DELETE FROM identity_oauth_grants WHERE user_id = $1 AND client_id = $2'']"

definition gen_DeleteUserClientOAuthGrants ::
  "'s pgx \<Rightarrow> string \<Rightarrow> string \<Rightarrow> 's world
    \<Rightarrow> (go_error + int) \<times> 's world" where
  "gen_DeleteUserClientOAuthGrants q userID clientID w =
     exec_tag q (unlines sq_deleteUserClientOAuthGrants) [Text userID, Text clientID] w"

definition sq_deleteUserRefreshTokens :: "string list" where
  "sq_deleteUserRefreshTokens = [
       ''-- name: DeleteUserRefreshTokens :execrows'',
       ''DELETE FROM identity_refresh_tokens WHERE user_id = $1'']"

definition gen_DeleteUserRefreshTokens :: "'s pgx \<Rightarrow> string \<Rightarrow> 's world \<Rightarrow> (go_error + int) \<times> 's world" where
  "gen_DeleteUserRefreshTokens q userID w =
     exec_tag q (unlines sq_deleteUserRefreshTokens) [Text userID] w"

definition sq_deleteUserToken :: "string list" where
  "sq_deleteUserToken = [
       ''-- name: DeleteUserToken :exec'',
       ''DELETE FROM identity_user_tokens WHERE user_id=$1 AND login_provider=$2 AND name=$3'']"

definition gen_DeleteUserToken ::
  "'s pgx \<Rightarrow> string \<Rightarrow> string \<Rightarrow> string \<Rightarrow> 's world
    \<Rightarrow> go_error option \<times> 's world" where
  "gen_DeleteUserToken q userID loginProvider nm w =
     exec_err q (unlines sq_deleteUserToken) [Text userID, Text loginProvider, Text nm] w"

definition sq_getActiveAPIKeyByHash :: "string list" where
  "sq_getActiveAPIKeyByHash = [
       ''-- name: GetActiveAPIKeyByHash :one'',
       ''SELECT id, user_id, name, prefix, key_hash, scopes, expires_at, last_used_at, revoked_at, created_at'',
       ''FROM identity_api_keys'',
       ''WHERE key_hash = $1 AND revoked_at IS NULL AND (expires_at IS NULL OR expires_at > now())'']"

definition gen_GetActiveAPIKeyByHash :: "'s pgx \<Rightarrow> string \<Rightarrow> 's world \<Rightarrow> go_error + identity_key" where
  "gen_GetActiveAPIKeyByHash q keyHash w =
     query_struct q scan_identity_key (unlines sq_getActiveAPIKeyByHash) [Text keyHash] w"

definition sq_getOAuthClient :: "string list" where
  "sq_getOAuthClient = [
       ''-- name: GetOAuthClient :one'',
       ''SELECT client_id, secret_hash, name, redirect_uris, token_endpoint_auth_method, grant_types, created_at, last_used_at'',
       ''FROM identity_oauth_clients WHERE client_id = $1'']"

definition gen_GetOAuthClient :: "'s pgx \<Rightarrow> string \<Rightarrow> 's world \<Rightarrow> go_error + identity_client" where
  "gen_GetOAuthClient q clientID w =
     query_struct q scan_identity_client (unlines sq_getOAuthClient) [Text clientID] w"

definition sq_getOAuthCode :: "string list" where
  "sq_getOAuthCode = [
       ''-- name: GetOAuthCode :one'',
       ''SELECT code_hash, client_id, user_id, redirect_uri, scopes, resource, code_challenge, expires_at, used_at, grant_id'',
       ''FROM identity_oauth_codes WHERE code_hash = $1'']"

definition gen_GetOAuthCode :: "'s pgx \<Rightarrow> string \<Rightarrow> 's world \<Rightarrow> go_error + oauth_code" where
  "gen_GetOAuthCode q codeHash w =
     query_struct q scan_code (unlines sq_getOAuthCode) [Text codeHash] w"

definition sq_getOAuthConsent :: "string list" where
  "sq_getOAuthConsent = [
       ''-- name: GetOAuthConsent :one'',
       ''SELECT user_id, client_id, scopes, created_at, updated_at'',
       ''FROM identity_oauth_consents WHERE user_id = $1 AND client_id = $2'']"

definition gen_GetOAuthConsent ::
  "'s pgx \<Rightarrow> string \<Rightarrow> string \<Rightarrow> 's world
    \<Rightarrow> go_error + oauth_consent" where
  "gen_GetOAuthConsent q userID clientID w =
     query_struct q scan_consent (unlines sq_getOAuthConsent) [Text userID, Text clientID] w"

definition sq_getOAuthGrant :: "string list" where
  "sq_getOAuthGrant = [
       ''-- name: GetOAuthGrant :one'',
       ''SELECT id, user_id, client_id, scopes, resource, token_hash, prev_token_hash, security_stamp, expires_at, created_at, last_used_at'',
       ''FROM identity_oauth_grants WHERE id = $1'']"

definition gen_GetOAuthGrant :: "'s pgx \<Rightarrow> string \<Rightarrow> 's world \<Rightarrow> go_error + oauth_grant" where
  "gen_GetOAuthGrant q i w =
     query_struct q scanGrantRow (unlines sq_getOAuthGrant) [Text i] w"

definition sq_getRefreshTokenBySession :: "string list" where
  "sq_getRefreshTokenBySession = [
       ''-- name: GetRefreshTokenBySession :one'',
       ''SELECT session_id, user_id, token_hash, name, expires_at, created_at, last_used_at'',
       ''FROM identity_refresh_tokens WHERE session_id = $1'']"

definition gen_GetRefreshTokenBySession :: "'s pgx \<Rightarrow> string \<Rightarrow> 's world \<Rightarrow> go_error + refresh_token" where
  "gen_GetRefreshTokenBySession q sessionID w =
     query_struct q scanRefreshTokenRow (unlines sq_getRefreshTokenBySession) [Text sessionID] w"

definition sq_getRoleByID :: "string list" where
  "sq_getRoleByID = [
       ''-- name: GetRoleByID :one'',
       ''SELECT id, name, normalized_name, concurrency_stamp FROM identity_roles WHERE id=$1'']"

definition gen_GetRoleByID :: "'s pgx \<Rightarrow> string \<Rightarrow> 's world \<Rightarrow> go_error + role" where
  "gen_GetRoleByID q i w =
     query_struct q scan_identity_role (unlines sq_getRoleByID) [Text i] w"

definition sq_getRoleByName :: "string list" where
  "sq_getRoleByName = [
       ''-- name: GetRoleByName :one'',
       ''SELECT id, name, normalized_name, concurrency_stamp FROM identity_roles WHERE normalized_name=$1'']"

definition gen_GetRoleByName :: "'s pgx \<Rightarrow> string \<Rightarrow> 's world \<Rightarrow> go_error + role" where
  "gen_GetRoleByName q normalizedName w =
     query_struct q scan_identity_role (unlines sq_getRoleByName) [Text normalizedName] w"

definition sq_getRoleClaims :: "string list" where
  "sq_getRoleClaims = [
       ''-- name: GetRoleClaims :many'',
       ''SELECT claim_type, claim_value FROM identity_role_claims WHERE role_id=$1'']"

definition gen_GetRoleClaims :: "'s pgx \<Rightarrow> string \<Rightarrow> 's world \<Rightarrow> go_error + claim list" where
  "gen_GetRoleClaims q roleID w =
     query_rows q scan_claim (unlines sq_getRoleClaims) [Text roleID] w"

definition sq_getRoleIDByName :: "string list" where
  "sq_getRoleIDByName = [
       ''-- name: GetRoleIDByName :one'',
       ''SELECT id FROM identity_roles WHERE normalized_name=$1'']"

definition gen_GetRoleIDByName :: "'s pgx \<Rightarrow> string \<Rightarrow> 's world \<Rightarrow> go_error + string" where
  "gen_GetRoleIDByName q normalizedName w =
     query_one q asText (unlines sq_getRoleIDByName) [Text normalizedName] w"

definition sq_getUserByEmail :: "string list" where
  "sq_getUserByEmail = [
       ''-- name: GetUserByEmail :one'',
       ''SELECT id, user_name, normalized_user_name, email, normalized_email, email_confirmed, password_hash, security_stamp, concurrency_stamp, phone_number, phone_number_confirmed, two_factor_enabled, lockout_end, lockout_enabled, access_failed_count, attributes, is_anonymous, created_at, updated_at FROM identity_users WHERE normalized_email=$1'']"

definition gen_GetUserByEmail :: "'s pgx \<Rightarrow> string \<Rightarrow> 's world \<Rightarrow> go_error + identity_user" where
  "gen_GetUserByEmail q normalizedEmail w =
     query_struct q scan_identity_user (unlines sq_getUserByEmail) [Text normalizedEmail] w"

definition sq_getUserByID :: "string list" where
  "sq_getUserByID = [
       ''-- name: GetUserByID :one'',
       ''SELECT id, user_name, normalized_user_name, email, normalized_email, email_confirmed, password_hash, security_stamp, concurrency_stamp, phone_number, phone_number_confirmed, two_factor_enabled, lockout_end, lockout_enabled, access_failed_count, attributes, is_anonymous, created_at, updated_at FROM identity_users WHERE id=$1'']"

definition gen_GetUserByID :: "'s pgx \<Rightarrow> string \<Rightarrow> 's world \<Rightarrow> go_error + identity_user" where
  "gen_GetUserByID q i w =
     query_struct q scan_identity_user (unlines sq_getUserByID) [Text i] w"

definition sq_getUserByName :: "string list" where
  "sq_getUserByName = [
       ''-- name: GetUserByName :one'',
       ''SELECT id, user_name, normalized_user_name, email, normalized_email, email_confirmed, password_hash, security_stamp, concurrency_stamp, phone_number, phone_number_confirmed, two_factor_enabled, lockout_end, lockout_enabled, access_failed_count, attributes, is_anonymous, created_at, updated_at FROM identity_users WHERE normalized_user_name=$1'']"

definition gen_GetUserByName :: "'s pgx \<Rightarrow> string \<Rightarrow> 's world \<Rightarrow> go_error + identity_user" where
  "gen_GetUserByName q normalizedUserName w =
     query_struct q scan_identity_user (unlines sq_getUserByName) [Text normalizedUserName] w"

definition sq_getUserClaims :: "string list" where
  "sq_getUserClaims = [
       ''-- name: GetUserClaims :many'',
       ''SELECT claim_type, claim_value FROM identity_user_claims WHERE user_id=$1'']"

definition gen_GetUserClaims :: "'s pgx \<Rightarrow> string \<Rightarrow> 's world \<Rightarrow> go_error + claim list" where
  "gen_GetUserClaims q userID w =
     query_rows q scan_claim (unlines sq_getUserClaims) [Text userID] w"

definition sq_getUserIDByLogin :: "string list" where
  "sq_getUserIDByLogin = [
       ''-- name: GetUserIDByLogin :one'',
       ''SELECT user_id FROM identity_user_logins WHERE login_provider=$1 AND provider_key=$2'']"

definition gen_GetUserIDByLogin :: "'s pgx \<Rightarrow> string \<Rightarrow> string \<Rightarrow> 's world \<Rightarrow> go_error + string" where
  "gen_GetUserIDByLogin q loginProvider providerKey w =
     query_one q asText (unlines sq_getUserIDByLogin) [Text loginProvider, Text providerKey] w"

definition sq_getUserLogins :: "string list" where
  "sq_getUserLogins = [
       ''-- name: GetUserLogins :many'',
       ''SELECT login_provider, provider_key, provider_display_name'',
       ''FROM identity_user_logins WHERE user_id=$1'']"

definition gen_GetUserLogins :: "'s pgx \<Rightarrow> string \<Rightarrow> 's world \<Rightarrow> go_error + login_info list" where
  "gen_GetUserLogins q userID w =
     query_rows q scan_login (unlines sq_getUserLogins) [Text userID] w"

definition sq_getUserRoles :: "string list" where
  "sq_getUserRoles = [
       ''-- name: GetUserRoles :many'',
       ''SELECT r.name FROM identity_roles r'',
       ''JOIN identity_user_roles ur ON ur.role_id = r.id'',
       ''WHERE ur.user_id=$1'']"

definition gen_GetUserRoles :: "'s pgx \<Rightarrow> string \<Rightarrow> 's world \<Rightarrow> go_error + string list" where
  "gen_GetUserRoles q userID w =
     query_rows q (scan_one asText) (unlines sq_getUserRoles) [Text userID] w"

definition sq_getUserToken :: "string list" where
  "sq_getUserToken = [
       ''-- name: GetUserToken :one'',
       ''SELECT value FROM identity_user_tokens'',
       ''WHERE user_id=$1 AND login_provider=$2 AND name=$3'']"

definition gen_GetUserToken ::
  "'s pgx \<Rightarrow> string \<Rightarrow> string \<Rightarrow> string \<Rightarrow> 's world
    \<Rightarrow> go_error + string" where
  "gen_GetUserToken q userID loginProvider nm w =
     query_one q asText (unlines sq_getUserToken) [Text userID, Text loginProvider, Text nm] w"

definition sq_getUsersForClaim :: "string list" where
  "sq_getUsersForClaim = [
       ''-- name: GetUsersForClaim :many'',
       ''SELECT id, user_name, normalized_user_name, email, normalized_email, email_confirmed, password_hash, security_stamp, concurrency_stamp, phone_number, phone_number_confirmed, two_factor_enabled, lockout_end, lockout_enabled, access_failed_count, attributes, is_anonymous, created_at, updated_at FROM identity_users'',
       ''WHERE id IN ('',
       ''    SELECT user_id FROM identity_user_claims WHERE claim_type = $1 AND claim_value = $2'',
       '')'',
       ''ORDER BY id'']"

definition gen_GetUsersForClaim ::
  "'s pgx \<Rightarrow> string \<Rightarrow> string \<Rightarrow> 's world
    \<Rightarrow> go_error + identity_user list" where
  "gen_GetUsersForClaim q claimType claimValue w =
     query_rows q scan_identity_user (unlines sq_getUsersForClaim) [Text claimType, Text claimValue] w"

definition sq_getUsersInRole :: "string list" where
  "sq_getUsersInRole = [
       ''-- name: GetUsersInRole :many'',
       ''SELECT id, user_name, normalized_user_name, email, normalized_email, email_confirmed, password_hash, security_stamp, concurrency_stamp, phone_number, phone_number_confirmed, two_factor_enabled, lockout_end, lockout_enabled, access_failed_count, attributes, is_anonymous, created_at, updated_at FROM identity_users'',
       ''WHERE id IN ('',
       ''    SELECT user_id FROM identity_user_roles'',
       ''    WHERE role_id = (SELECT id FROM identity_roles WHERE normalized_name = $1)'',
       '')'',
       ''ORDER BY id'']"

definition gen_GetUsersInRole :: "'s pgx \<Rightarrow> string \<Rightarrow> 's world \<Rightarrow> go_error + identity_user list" where
  "gen_GetUsersInRole q normalizedName w =
     query_rows q scan_identity_user (unlines sq_getUsersInRole) [Text normalizedName] w"

definition sq_isUserInRole :: "string list" where
  "sq_isUserInRole = [
       ''-- name: IsUserInRole :one'',
       ''SELECT EXISTS('',
       ''    SELECT 1 FROM identity_user_roles ur'',
       ''    JOIN identity_roles r ON r.id = ur.role_id'',
       ''    WHERE ur.user_id=$1 AND r.normalized_name=$2'',
       '')'']"

definition gen_IsUserInRole :: "'s pgx \<Rightarrow> string \<Rightarrow> string \<Rightarrow> 's world \<Rightarrow> go_error + bool" where
  "gen_IsUserInRole q userID normalizedName w =
     query_one q asBool (unlines sq_isUserInRole) [Text userID, Text normalizedName] w"

definition sq_listAPIKeysByUser :: "string list" where
  "sq_listAPIKeysByUser = [
       ''-- name: ListAPIKeysByUser :many'',
       ''SELECT id, user_id, name, prefix, key_hash, scopes, expires_at, last_used_at, revoked_at, created_at'',
       ''FROM identity_api_keys WHERE user_id = $1 ORDER BY created_at'']"

definition gen_ListAPIKeysByUser :: "'s pgx \<Rightarrow> string \<Rightarrow> 's world \<Rightarrow> go_error + identity_key list" where
  "gen_ListAPIKeysByUser q userID w =
     query_rows q scan_identity_key (unlines sq_listAPIKeysByUser) [Text userID] w"

definition sq_listUserOAuthGrants :: "string list" where
  "sq_listUserOAuthGrants = [
       ''-- name: ListUserOAuthGrants :many'',
       ''SELECT id, user_id, client_id, scopes, resource, token_hash, prev_token_hash, security_stamp, expires_at, created_at, last_used_at'',
       ''FROM identity_oauth_grants WHERE user_id = $1 ORDER BY created_at'']"

definition gen_ListUserOAuthGrants :: "'s pgx \<Rightarrow> string \<Rightarrow> 's world \<Rightarrow> go_error + oauth_grant list" where
  "gen_ListUserOAuthGrants q userID w =
     query_rows q scanGrantRow (unlines sq_listUserOAuthGrants) [Text userID] w"

definition sq_listUserRefreshTokens :: "string list" where
  "sq_listUserRefreshTokens = [
       ''-- name: ListUserRefreshTokens :many'',
       ''SELECT session_id, user_id, token_hash, name, expires_at, created_at, last_used_at'',
       ''FROM identity_refresh_tokens WHERE user_id = $1 ORDER BY created_at'']"

definition gen_ListUserRefreshTokens :: "'s pgx \<Rightarrow> string \<Rightarrow> 's world \<Rightarrow> go_error + refresh_token list" where
  "gen_ListUserRefreshTokens q userID w =
     query_rows q scanRefreshTokenRow (unlines sq_listUserRefreshTokens) [Text userID] w"

definition sq_listUsers :: "string list" where
  "sq_listUsers = [
       ''-- name: ListUsers :many'',
       ''SELECT id, user_name, normalized_user_name, email, normalized_email, email_confirmed, password_hash, security_stamp, concurrency_stamp, phone_number, phone_number_confirmed, two_factor_enabled, lockout_end, lockout_enabled, access_failed_count, attributes, is_anonymous, created_at, updated_at FROM identity_users'',
       ''WHERE $1::text = '' @ [quote_mark] @ [quote_mark] @ '' OR normalized_user_name LIKE '' @
        [quote_mark] @ ''%'' @ [quote_mark] @ '' || $1 || '' @ [quote_mark] @ ''%'' @ [quote_mark],
       ''   OR normalized_email LIKE '' @ [quote_mark] @ ''%'' @ [quote_mark] @ '' || $1 || '' @ [quote_mark] @
        ''%'' @ [quote_mark],
       ''ORDER BY id'',
       ''LIMIT $3 OFFSET $2'']"

definition gen_ListUsers ::
  "'s pgx \<Rightarrow> string \<Rightarrow> int \<Rightarrow> int \<Rightarrow> 's world
    \<Rightarrow> go_error + identity_user list" where
  "gen_ListUsers q search off lim w =
     query_rows q scan_identity_user (unlines sq_listUsers) [Text search, Num off, Num lim] w"

definition sq_markOAuthCodeUsed :: "string list" where
  "sq_markOAuthCodeUsed = [
       ''-- name: MarkOAuthCodeUsed :execrows'',
       ''UPDATE identity_oauth_codes SET used_at = $1, grant_id = $2'',
       ''WHERE code_hash = $3 AND used_at IS NULL'']"

definition gen_MarkOAuthCodeUsed ::
  "'s pgx \<Rightarrow> time option \<Rightarrow> string \<Rightarrow> string \<Rightarrow> 's world
    \<Rightarrow> (go_error + int) \<times> 's world" where
  "gen_MarkOAuthCodeUsed q usedAt grantID codeHash w =
     exec_tag q (unlines sq_markOAuthCodeUsed) [timePtr usedAt, Text grantID, Text codeHash] w"

definition sq_purgeAnonymousUsers :: "string list" where
  "sq_purgeAnonymousUsers = [
       ''-- name: PurgeAnonymousUsers :execrows'',
       ''DELETE FROM identity_users WHERE is_anonymous AND created_at < $1'']"

definition gen_PurgeAnonymousUsers :: "'s pgx \<Rightarrow> time \<Rightarrow> 's world \<Rightarrow> (go_error + int) \<times> 's world" where
  "gen_PurgeAnonymousUsers q createdAt w =
     exec_tag q (unlines sq_purgeAnonymousUsers) [Time createdAt] w"

definition sq_removeUserFromRole :: "string list" where
  "sq_removeUserFromRole = [
       ''-- name: RemoveUserFromRole :exec'',
       ''DELETE FROM identity_user_roles WHERE user_id=$1 AND role_id=$2'']"

definition gen_RemoveUserFromRole ::
  "'s pgx \<Rightarrow> string \<Rightarrow> string \<Rightarrow> 's world
    \<Rightarrow> go_error option \<times> 's world" where
  "gen_RemoveUserFromRole q userID roleID w =
     exec_err q (unlines sq_removeUserFromRole) [Text userID, Text roleID] w"

definition sq_removeUserLogin :: "string list" where
  "sq_removeUserLogin = [
       ''-- name: RemoveUserLogin :exec'',
       ''DELETE FROM identity_user_logins WHERE user_id=$1 AND login_provider=$2 AND provider_key=$3'']"

definition gen_RemoveUserLogin ::
  "'s pgx \<Rightarrow> string \<Rightarrow> string \<Rightarrow> string \<Rightarrow> 's world
    \<Rightarrow> go_error option \<times> 's world" where
  "gen_RemoveUserLogin q userID loginProvider providerKey w =
     exec_err q (unlines sq_removeUserLogin) [Text userID, Text loginProvider, Text providerKey] w"

definition sq_revokeAPIKey :: "string list" where
  "sq_revokeAPIKey = [
       ''-- name: RevokeAPIKey :exec'',
       ''UPDATE identity_api_keys SET revoked_at = now() WHERE id = $1 AND revoked_at IS NULL'']"

definition gen_RevokeAPIKey :: "'s pgx \<Rightarrow> string \<Rightarrow> 's world \<Rightarrow> go_error option \<times> 's world" where
  "gen_RevokeAPIKey q i w =
     exec_err q (unlines sq_revokeAPIKey) [Text i] w"

definition sq_roleExists :: "string list" where
  "sq_roleExists = [
       ''-- name: RoleExists :one'',
       ''SELECT EXISTS(SELECT 1 FROM identity_roles WHERE id=$1)'']"

definition gen_RoleExists :: "'s pgx \<Rightarrow> string \<Rightarrow> 's world \<Rightarrow> go_error + bool" where
  "gen_RoleExists q i w =
     query_one q asBool (unlines sq_roleExists) [Text i] w"

definition sq_rotateOAuthGrant :: "string list" where
  "sq_rotateOAuthGrant = [
       ''-- name: RotateOAuthGrant :execrows'',
       ''UPDATE identity_oauth_grants'',
       ''SET prev_token_hash = token_hash, token_hash = $1, expires_at = $2, last_used_at = $3'',
       ''WHERE id = $4 AND token_hash = $5'']"

definition gen_RotateOAuthGrant ::
  "'s pgx \<Rightarrow> string \<Rightarrow> time \<Rightarrow> time option \<Rightarrow> string \<Rightarrow> string \<Rightarrow> 's world
    \<Rightarrow> (go_error + int) \<times> 's world" where
  "gen_RotateOAuthGrant q newHash expiresAt lastUsedAt i oldHash w =
     exec_tag q (unlines sq_rotateOAuthGrant) 
       [Text newHash, Time expiresAt, timePtr lastUsedAt, Text i, Text oldHash] w"

definition sq_saveOAuthConsent :: "string list" where
  "sq_saveOAuthConsent = [
       ''-- name: SaveOAuthConsent :exec'',
       ''INSERT INTO identity_oauth_consents (user_id, client_id, scopes, created_at, updated_at)'',
       ''VALUES ($1,$2,$3,$4,$5)'',
       ''ON CONFLICT (user_id, client_id) DO UPDATE SET scopes = EXCLUDED.scopes, updated_at = EXCLUDED.updated_at'']"

definition gen_SaveOAuthConsent ::
  "'s pgx \<Rightarrow> string \<Rightarrow> string \<Rightarrow> string \<Rightarrow> time \<Rightarrow> time \<Rightarrow> 's world
    \<Rightarrow> go_error option \<times> 's world" where
  "gen_SaveOAuthConsent q userID clientID scopes createdAt updatedAt w =
     exec_err q (unlines sq_saveOAuthConsent) 
       [Text userID, Text clientID, Text scopes, Time createdAt, Time updatedAt] w"

definition sq_touchAPIKeyLastUsed :: "string list" where
  "sq_touchAPIKeyLastUsed = [
       ''-- name: TouchAPIKeyLastUsed :exec'',
       ''UPDATE identity_api_keys SET last_used_at = now() WHERE id = $1'']"

definition gen_TouchAPIKeyLastUsed :: "'s pgx \<Rightarrow> string \<Rightarrow> 's world \<Rightarrow> go_error option \<times> 's world" where
  "gen_TouchAPIKeyLastUsed q i w =
     exec_err q (unlines sq_touchAPIKeyLastUsed) [Text i] w"

definition sq_touchOAuthClient :: "string list" where
  "sq_touchOAuthClient = [
       ''-- name: TouchOAuthClient :exec'',
       ''UPDATE identity_oauth_clients SET last_used_at = $2 WHERE client_id = $1'']"

definition gen_TouchOAuthClient ::
  "'s pgx \<Rightarrow> string \<Rightarrow> time option \<Rightarrow> 's world
    \<Rightarrow> go_error option \<times> 's world" where
  "gen_TouchOAuthClient q clientID lastUsedAt w =
     exec_err q (unlines sq_touchOAuthClient) [Text clientID, timePtr lastUsedAt] w"

definition sq_updateRefreshToken :: "string list" where
  "sq_updateRefreshToken = [
       ''-- name: UpdateRefreshToken :execrows'',
       ''UPDATE identity_refresh_tokens'',
       ''SET token_hash = $1, expires_at = $2, last_used_at = $3, name = $4'',
       ''WHERE session_id = $5'']"

definition gen_UpdateRefreshToken ::
  "'s pgx \<Rightarrow> string \<Rightarrow> time \<Rightarrow> time option \<Rightarrow> string \<Rightarrow> string \<Rightarrow> 's world
    \<Rightarrow> (go_error + int) \<times> 's world" where
  "gen_UpdateRefreshToken q tokenHash expiresAt lastUsedAt nm sessionID w =
     exec_tag q (unlines sq_updateRefreshToken) 
       [Text tokenHash, Time expiresAt, timePtr lastUsedAt, Text nm, Text sessionID] w"

definition sq_updateRole :: "string list" where
  "sq_updateRole = [
       ''-- name: UpdateRole :execrows'',
       ''UPDATE identity_roles SET name = $1, normalized_name = $2,'',
       ''    concurrency_stamp = $3'',
       ''WHERE id = $4 AND concurrency_stamp = $5'']"

definition gen_UpdateRole ::
  "'s pgx \<Rightarrow> string \<Rightarrow> string \<Rightarrow> string \<Rightarrow> string \<Rightarrow> string \<Rightarrow> 's world
    \<Rightarrow> (go_error + int) \<times> 's world" where
  "gen_UpdateRole q nm normalizedName newConcurrencyStamp i oldConcurrencyStamp w =
     exec_tag q (unlines sq_updateRole) 
       [Text nm, Text normalizedName, Text newConcurrencyStamp, Text i, Text oldConcurrencyStamp] w"

definition sq_updateUser :: "string list" where
  "sq_updateUser = [
       ''-- name: UpdateUser :execrows'',
       ''UPDATE identity_users SET'',
       ''    user_name = $1, normalized_user_name = $2, email = $3,'',
       ''    normalized_email = $4, email_confirmed = $5,'',
       ''    password_hash = $6, security_stamp = $7,'',
       ''    concurrency_stamp = $8, phone_number = $9,'',
       ''    phone_number_confirmed = $10, two_factor_enabled = $11,'',
       ''    lockout_end = $12, lockout_enabled = $13,'',
       ''    access_failed_count = $14, attributes = $15,'',
       ''    is_anonymous = $16, updated_at = now()'',
       ''WHERE id = $17 AND concurrency_stamp = $18'']"

definition gen_UpdateUser ::
  "'s pgx \<Rightarrow> string \<Rightarrow> string \<Rightarrow> string \<Rightarrow> string \<Rightarrow> bool \<Rightarrow> string \<Rightarrow> string \<Rightarrow> string \<Rightarrow> string \<Rightarrow> bool \<Rightarrow> bool \<Rightarrow> time option \<Rightarrow> bool \<Rightarrow> int \<Rightarrow> string \<Rightarrow> bool \<Rightarrow> string \<Rightarrow> string \<Rightarrow> 's world
    \<Rightarrow> (go_error + int) \<times> 's world" where
  "gen_UpdateUser q userName normalizedUserName email normalizedEmail emailConfirmed passwordHash securityStamp newConcurrencyStamp phoneNumber phoneNumberConfirmed twoFactorEnabled lockoutEnd lockoutEnabled accessFailedCount attributes isAnonymous i oldConcurrencyStamp w =
     exec_tag q (unlines sq_updateUser) 
       [Text userName, Text normalizedUserName, Text email, Text normalizedEmail, Bool emailConfirmed,
        Text passwordHash, Text securityStamp, Text newConcurrencyStamp, Text phoneNumber,
        Bool phoneNumberConfirmed, Bool twoFactorEnabled, timePtr lockoutEnd, Bool lockoutEnabled,
        Num accessFailedCount, Text attributes, Bool isAnonymous, Text i, Text oldConcurrencyStamp] w"

definition sq_upsertUserToken :: "string list" where
  "sq_upsertUserToken = [
       ''-- name: UpsertUserToken :exec'',
       ''INSERT INTO identity_user_tokens (user_id, login_provider, name, value)'',
       ''VALUES ($1,$2,$3,$4)'',
       ''ON CONFLICT (user_id, login_provider, name) DO UPDATE SET value=EXCLUDED.value'']"

definition gen_UpsertUserToken ::
  "'s pgx \<Rightarrow> string \<Rightarrow> string \<Rightarrow> string \<Rightarrow> string \<Rightarrow> 's world
    \<Rightarrow> go_error option \<times> 's world" where
  "gen_UpsertUserToken q userID loginProvider nm val w =
     exec_err q (unlines sq_upsertUserToken) [Text userID, Text loginProvider, Text nm, Text val] w"

definition sq_useOAuthClientAssertion :: "string list" where
  "sq_useOAuthClientAssertion = [
       ''-- name: UseOAuthClientAssertion :execrows'',
       ''INSERT INTO identity_oauth_assertions (client_id, jti, expires_at) VALUES ($1, $2, $3)'',
       ''ON CONFLICT (client_id, jti) DO NOTHING'']"

definition gen_UseOAuthClientAssertion ::
  "'s pgx \<Rightarrow> string \<Rightarrow> string \<Rightarrow> time \<Rightarrow> 's world
    \<Rightarrow> (go_error + int) \<times> 's world" where
  "gen_UseOAuthClientAssertion q clientID jti expiresAt w =
     exec_tag q (unlines sq_useOAuthClientAssertion) [Text clientID, Text jti, Time expiresAt] w"

section \<open>The statements\<close>

text \<open>Most are statements of \<open>pgxstore\<close>; these differ, mostly in the numbers of the parameters.\<close>

definition sx_search :: cond where
  "sx_search = OrC (OrC (Eq (CastText (Par 1)) (Str [])) (Like (Col ''normalized_user_name'') like_arg))
     (Like (Col ''normalized_email'') like_arg)"

definition sx_addUserToRole :: stmt where
  "sx_addUserToRole = Insert UserRoles [''user_id'', ''role_id''] [Par 1, Par 2] (DoNothing [''user_id'', ''role_id''])"

definition sx_countUsers :: stmt where
  "sx_countUsers = Count Users sx_search"

definition sx_createUser :: stmt where
  "sx_createUser = Insert Users [''id'', ''user_name'', ''normalized_user_name'', ''email'', ''normalized_email'', ''email_confirmed'',
     ''password_hash'', ''security_stamp'', ''concurrency_stamp'', ''phone_number'', ''phone_number_confirmed'', ''two_factor_enabled'',
     ''lockout_end'', ''lockout_enabled'', ''access_failed_count'', ''attributes'', ''is_anonymous'']
     [Par 1, Par 2, Par 3, Par 4, Par 5, Par 6, Par 7, Par 8, Par 9, Par 10, Par 11, Par 12, Par 13, Par 14, Par 15, Par 16, Par 17] NoConflict"

definition sx_getRoleIDByName :: stmt where
  "sx_getRoleIDByName = Select [''id''] Roles (Eq (Col ''normalized_name'') (Par 1)) None None"

definition sx_listUsers :: stmt where
  "sx_listUsers = Select user_columns Users sx_search (Some ''id'') (Some (3, 2))"

definition sx_markOAuthCodeUsed :: stmt where
  "sx_markOAuthCodeUsed = Update OAuthCodes [(''used_at'', Par 1), (''grant_id'', Par 2)]
     (AndC (Eq (Col ''code_hash'') (Par 3)) (IsNull (Col ''used_at'')))"

definition sx_removeUserFromRole :: stmt where
  "sx_removeUserFromRole = Delete UserRoles [] (AndC (Eq (Col ''user_id'') (Par 1)) (Eq (Col ''role_id'') (Par 2)))"

definition sx_rotateOAuthGrant :: stmt where
  "sx_rotateOAuthGrant = Update OAuthGrants [(''prev_token_hash'', Col ''token_hash''), (''token_hash'', Par 1), (''expires_at'', Par 2),
     (''last_used_at'', Par 3)] (AndC (Eq (Col ''id'') (Par 4)) (Eq (Col ''token_hash'') (Par 5)))"

definition sx_updateRefreshToken :: stmt where
  "sx_updateRefreshToken = Update RefreshTokens [(''token_hash'', Par 1), (''expires_at'', Par 2), (''last_used_at'', Par 3), (''name'', Par 4)]
     (Eq (Col ''session_id'') (Par 5))"

definition sx_updateRole :: stmt where
  "sx_updateRole = Update Roles [(''name'', Par 1), (''normalized_name'', Par 2), (''concurrency_stamp'', Par 3)]
     (AndC (Eq (Col ''id'') (Par 4)) (Eq (Col ''concurrency_stamp'') (Par 5)))"

definition sx_updateUser :: stmt where
  "sx_updateUser = Update Users [(''user_name'', Par 1), (''normalized_user_name'', Par 2), (''email'', Par 3), (''normalized_email'', Par 4),
     (''email_confirmed'', Par 5), (''password_hash'', Par 6), (''security_stamp'', Par 7), (''concurrency_stamp'', Par 8),
     (''phone_number'', Par 9), (''phone_number_confirmed'', Par 10), (''two_factor_enabled'', Par 11), (''lockout_end'', Par 12),
     (''lockout_enabled'', Par 13), (''access_failed_count'', Par 14), (''attributes'', Par 15), (''is_anonymous'', Par 16),
     (''updated_at'', Now)] (AndC (Eq (Col ''id'') (Par 17)) (Eq (Col ''concurrency_stamp'') (Par 18)))"

definition sqlc_stmts :: "(string list \<times> stmt) list" where
  "sqlc_stmts =
    [(sq_addRoleClaim, st_addRoleClaim), (sq_addUserClaim, st_addUserClaim), (sq_addUserLogin, st_addLogin),
     (sq_addUserToRole, sx_addUserToRole), (sq_countUsers, sx_countUsers), (sq_createAPIKey, sk_create),
     (sq_createOAuthClient, so_createClient), (sq_createOAuthCode, so_createCode),
     (sq_createOAuthGrant, so_createGrant), (sq_createRefreshToken, ss_create), (sq_createRole, st_createRole),
     (sq_createUser, sx_createUser), (sq_deleteExpiredOAuthClientAssertions, so_deleteExpiredAssertions),
     (sq_deleteExpiredOAuthCodes, so_deleteExpiredCodes), (sq_deleteExpiredOAuthGrants, so_deleteExpiredGrants),
     (sq_deleteExpiredRefreshTokens, ss_delExpired), (sq_deleteOAuthConsent, so_deleteConsent),
     (sq_deleteOAuthGrant, so_deleteGrant), (sq_deleteRefreshToken, ss_del), (sq_deleteRole, st_deleteRole),
     (sq_deleteRoleClaim, st_removeRoleClaim), (sq_deleteStaleOAuthClients, so_deleteStaleClients),
     (sq_deleteUser, st_deleteUser), (sq_deleteUserClaim, st_removeUserClaim),
     (sq_deleteUserClientOAuthGrants, so_deleteUserClientGrants), (sq_deleteUserRefreshTokens, ss_delByUser),
     (sq_deleteUserToken, st_removeToken), (sq_getActiveAPIKeyByHash, sk_getActiveByHash),
     (sq_getOAuthClient, so_getClient), (sq_getOAuthCode, so_getCode), (sq_getOAuthConsent, so_getConsent),
     (sq_getOAuthGrant, so_getGrant), (sq_getRefreshTokenBySession, ss_getBySession),
     (sq_getRoleByID, st_findRoleByID), (sq_getRoleByName, st_findRoleByName),
     (sq_getRoleClaims, st_getRoleClaims), (sq_getRoleIDByName, sx_getRoleIDByName),
     (sq_getUserByEmail, st_findUserByEmail), (sq_getUserByID, st_findUserByID),
     (sq_getUserByName, st_findUserByName), (sq_getUserClaims, st_getUserClaims),
     (sq_getUserIDByLogin, st_findByLogin), (sq_getUserLogins, st_getLogins), (sq_getUserRoles, st_getRoles),
     (sq_getUserToken, st_getToken), (sq_getUsersForClaim, st_usersForClaim),
     (sq_getUsersInRole, st_usersInRole), (sq_isUserInRole, st_isInRole), (sq_listAPIKeysByUser, sk_listByUser),
     (sq_listUserOAuthGrants, so_listUserGrants), (sq_listUserRefreshTokens, ss_listByUser),
     (sq_listUsers, sx_listUsers), (sq_markOAuthCodeUsed, sx_markOAuthCodeUsed),
     (sq_purgeAnonymousUsers, st_purgeAnonymous), (sq_removeUserFromRole, sx_removeUserFromRole),
     (sq_removeUserLogin, st_removeLogin), (sq_revokeAPIKey, sk_revoke), (sq_roleExists, st_roleExists),
     (sq_rotateOAuthGrant, sx_rotateOAuthGrant), (sq_saveOAuthConsent, so_saveConsent),
     (sq_touchAPIKeyLastUsed, sk_touch), (sq_touchOAuthClient, so_touchClient),
     (sq_updateRefreshToken, sx_updateRefreshToken), (sq_updateRole, sx_updateRole),
     (sq_updateUser, sx_updateUser), (sq_upsertUserToken, st_setToken),
     (sq_useOAuthClientAssertion, so_useAssertion)]"

section \<open>Reading the texts\<close>

definition closed_line :: "string \<Rightarrow> bool" where
  "closed_line a \<longleftrightarrow> even (length (filter (\<lambda>c. c = quote_mark) a))"

lemma quote_sign: "\<not> sql_word quote_mark" "\<not> sql_space quote_mark"
  by code_simp+

lemma lex_line:
  "(closed_line a \<longrightarrow> sql_lex cur (a @ nl @ b) = sql_lex cur a @ sql_lex [] b) \<and>
   (\<not> closed_line a \<longrightarrow> sql_literal cur (a @ nl @ b) = sql_literal cur a @ sql_lex [] b)"
proof (induction a arbitrary: cur)
  case Nil
  show ?case by (simp add: closed_line_def nl_def lex_steps space_chars flush_word_def)
next
  case (Cons c a)
  have step: "sql_lex cur ((c # a) @ nl @ b) = sql_lex cur (c # a) @ sql_lex [] b" if "closed_line (c # a)"
  proof (cases "c = quote_mark")
    case True
    with that have "\<not> closed_line a" by (simp add: closed_line_def)
    with True Cons.IH [of "[quote_mark]"] show ?thesis by (simp add: lex_steps quote_sign flush_word_def)
  next
    case False
    with that have "closed_line a" by (simp add: closed_line_def)
    with False Cons.IH show ?thesis
      by (cases "sql_word c"; cases "sql_space c") (simp_all add: lex_steps flush_word_def)
  qed
  have "sql_literal cur ((c # a) @ nl @ b) = sql_literal cur (c # a) @ sql_lex [] b" if "\<not> closed_line (c # a)"
    using that Cons.IH by (cases "c = quote_mark") (simp_all add: closed_line_def)
  with step show ?case by blast
qed

lemma tokens_unlines: "list_all closed_line ls \<Longrightarrow> sql_tokens (unlines ls) = concat (map sql_tokens ls)"
proof (induction ls)
  case (Cons l ls)
  with lex_line [of l "[]" "unlines ls"] show ?case by (simp add: unlines_def sql_tokens_def)
qed (simp add: unlines_def sql_tokens_def flush_word_def)

lemma uncomment_id: "CHR ''-'' \<notin> set s \<Longrightarrow> uncomment_from q False s = s"
  by (induction s arbitrary: q) auto

lemma uncomment_head: "CHR 0x0A \<notin> set c \<Longrightarrow> uncomment_from False True (c @ nl @ s) = nl @ uncomment_from False False s"
  by (induction c) (auto simp: nl_def)

definition lines_read :: "string list \<Rightarrow> string list \<Rightarrow> bool" where
  "lines_read ls ts \<longleftrightarrow>
     (case ls of
        [] \<Rightarrow> False
      | c # ls \<Rightarrow> take 2 c = ''--'' \<and> CHR 0x0A \<notin> set c \<and> list_all (\<lambda>l. closed_line l \<and> CHR ''-'' \<notin> set l) ls \<and>
                  concat (map sql_tokens ls) = ts)"

lemma read_lines:
  assumes "lines_read ls ts"
  shows "sql_tokens (uncomment (unlines ls)) = ts"
proof -
  obtain c ls' where ls: "ls = c # ls'" "take 2 c = ''--''" "CHR 0x0A \<notin> set c" "concat (map sql_tokens ls') = ts"
      "list_all (\<lambda>l. closed_line l \<and> CHR ''-'' \<notin> set l) ls'"
    using assms by (auto simp: lines_read_def split: list.splits)
  then obtain c' where c: "c = CHR ''-'' # CHR ''-'' # c'" by (cases c; cases "tl c") auto
  have "CHR ''-'' \<notin> set (unlines ls')" using ls(5) by (auto simp: unlines_def nl_def list_all_iff)
  then have "uncomment (unlines ls) = nl @ unlines ls'"
    using ls(3) uncomment_id uncomment_head [of "CHR ''-'' # c'" "unlines ls'"]
    by (simp add: uncomment_def unlines_def ls(1) c quote_mark_def)
  moreover have "sql_tokens (nl @ unlines ls') = sql_tokens (unlines ls')"
    using lex_line [of "[]" "[]" "unlines ls'"] by (simp add: sql_tokens_def closed_line_def flush_word_def)
  ultimately show ?thesis using ls tokens_unlines [of ls'] by (simp add: list_all_iff)
qed

lemma read_lines_1:
  "list_all (\<lambda>(ls, st). lines_read ls (stmt_tokens DefaultNaming st))
    [(sq_addRoleClaim, st_addRoleClaim), (sq_addUserClaim, st_addUserClaim), (sq_addUserLogin, st_addLogin),
     (sq_addUserToRole, sx_addUserToRole), (sq_countUsers, sx_countUsers), (sq_createAPIKey, sk_create),
     (sq_createOAuthClient, so_createClient), (sq_createOAuthCode, so_createCode), (sq_createOAuthGrant, so_createGrant),
     (sq_createRefreshToken, ss_create), (sq_createRole, st_createRole), (sq_createUser, sx_createUser)]"
  by code_simp

lemma read_lines_2:
  "list_all (\<lambda>(ls, st). lines_read ls (stmt_tokens DefaultNaming st))
    [(sq_deleteExpiredOAuthClientAssertions, so_deleteExpiredAssertions), (sq_deleteExpiredOAuthCodes, so_deleteExpiredCodes), (sq_deleteExpiredOAuthGrants, so_deleteExpiredGrants),
     (sq_deleteExpiredRefreshTokens, ss_delExpired), (sq_deleteOAuthConsent, so_deleteConsent), (sq_deleteOAuthGrant, so_deleteGrant),
     (sq_deleteRefreshToken, ss_del), (sq_deleteRole, st_deleteRole), (sq_deleteRoleClaim, st_removeRoleClaim),
     (sq_deleteStaleOAuthClients, so_deleteStaleClients), (sq_deleteUser, st_deleteUser), (sq_deleteUserClaim, st_removeUserClaim)]"
  by code_simp

lemma read_lines_3:
  "list_all (\<lambda>(ls, st). lines_read ls (stmt_tokens DefaultNaming st))
    [(sq_deleteUserClientOAuthGrants, so_deleteUserClientGrants), (sq_deleteUserRefreshTokens, ss_delByUser), (sq_deleteUserToken, st_removeToken),
     (sq_getActiveAPIKeyByHash, sk_getActiveByHash), (sq_getOAuthClient, so_getClient), (sq_getOAuthCode, so_getCode),
     (sq_getOAuthConsent, so_getConsent), (sq_getOAuthGrant, so_getGrant), (sq_getRefreshTokenBySession, ss_getBySession),
     (sq_getRoleByID, st_findRoleByID), (sq_getRoleByName, st_findRoleByName), (sq_getRoleClaims, st_getRoleClaims)]"
  by code_simp

lemma read_lines_4:
  "list_all (\<lambda>(ls, st). lines_read ls (stmt_tokens DefaultNaming st))
    [(sq_getRoleIDByName, sx_getRoleIDByName), (sq_getUserByEmail, st_findUserByEmail), (sq_getUserByID, st_findUserByID),
     (sq_getUserByName, st_findUserByName), (sq_getUserClaims, st_getUserClaims), (sq_getUserIDByLogin, st_findByLogin),
     (sq_getUserLogins, st_getLogins), (sq_getUserRoles, st_getRoles), (sq_getUserToken, st_getToken),
     (sq_getUsersForClaim, st_usersForClaim), (sq_getUsersInRole, st_usersInRole), (sq_isUserInRole, st_isInRole)]"
  by code_simp

lemma read_lines_5:
  "list_all (\<lambda>(ls, st). lines_read ls (stmt_tokens DefaultNaming st))
    [(sq_listAPIKeysByUser, sk_listByUser), (sq_listUserOAuthGrants, so_listUserGrants), (sq_listUserRefreshTokens, ss_listByUser),
     (sq_listUsers, sx_listUsers), (sq_markOAuthCodeUsed, sx_markOAuthCodeUsed), (sq_purgeAnonymousUsers, st_purgeAnonymous),
     (sq_removeUserFromRole, sx_removeUserFromRole), (sq_removeUserLogin, st_removeLogin), (sq_revokeAPIKey, sk_revoke),
     (sq_roleExists, st_roleExists), (sq_rotateOAuthGrant, sx_rotateOAuthGrant), (sq_saveOAuthConsent, so_saveConsent)]"
  by code_simp

lemma read_lines_6:
  "list_all (\<lambda>(ls, st). lines_read ls (stmt_tokens DefaultNaming st))
    [(sq_touchAPIKeyLastUsed, sk_touch), (sq_touchOAuthClient, so_touchClient), (sq_updateRefreshToken, sx_updateRefreshToken),
     (sq_updateRole, sx_updateRole), (sq_updateUser, sx_updateUser), (sq_upsertUserToken, st_setToken),
     (sq_useOAuthClientAssertion, so_useAssertion)]"
  by code_simp

lemma sqlc_reads: "list_all (\<lambda>(ls, st). lines_read ls (stmt_tokens DefaultNaming st)) sqlc_stmts"
  using read_lines_1 read_lines_2 read_lines_3 read_lines_4 read_lines_5 read_lines_6
  by (simp add: sqlc_stmts_def)

end
