(* ===== verification/Sqlc_Store.thy ===== *)
theory Sqlc_Store
  imports Sqlc_Queries
begin

text \<open>
  The stores of \<open>stores/pgxsqlc\<close> (\<open>store.go\<close>, \<open>oauth.go\<close>): adapters from the generated queries to the
  store interfaces. \<open>gen.New(db)\<close> runs the queries on the pool, \<open>WithTx\<close> on a transaction. The pool
  and its transactions are the fields of \<open>sqlc_db\<close>. Conversions to \<open>int32\<close> wrap.
\<close>

record ('s, 't) sqlc_db =
  sd_pool :: "'s pgx"
  sd_Begin :: "'s \<Rightarrow> (go_error + 't) \<times> 's"
  sd_tx :: "'t pgx"
  sd_Commit :: "'t \<Rightarrow> 's \<Rightarrow> go_error option \<times> 's"
  sd_Rollback :: "'t \<Rightarrow> 's \<Rightarrow> 's"

definition int32 :: "int \<Rightarrow> int" where
  "int32 i = sint (word_of_int i :: 32 word)"

section \<open>Users\<close>

definition attrsToJSON :: "attributes option \<Rightarrow> string" where
  "attrsToJSON a = (case a of None \<Rightarrow> ''{}'' | Some m \<Rightarrow> json_Marshal_map m)"

text \<open>The error of \<open>json.Unmarshal\<close> is dropped; what the stores write always decodes.\<close>

definition toUser :: "identity_user \<Rightarrow> user" where
  "toUser r =
     (case r of (u, attrs) \<Rightarrow>
        if attrs \<noteq> [] then
          (case json_Unmarshal_map attrs of None \<Rightarrow> u | Some m \<Rightarrow> u\<lparr>u_Attributes := Some m\<rparr>)
        else u)"

definition usersFromRows :: "identity_user list \<Rightarrow> user list" where
  "usersFromRows rows = map toUser rows"

definition found :: "('a \<Rightarrow> 'b) \<Rightarrow> go_error + 'a \<Rightarrow> go_error + 'b" where
  "found f r = (case r of Inl e \<Rightarrow> Inl (mapNotFound e) | Inr a \<Rightarrow> Inr (f a))"

definition listed :: "('a \<Rightarrow> 'b) \<Rightarrow> go_error + 'a list \<Rightarrow> go_error + 'b list" where
  "listed f r = (case r of Inl e \<Rightarrow> Inl e | Inr as \<Rightarrow> Inr (map f as))"

definition sqlc_Create :: "('s, 't) sqlc_db \<Rightarrow> user \<Rightarrow> 's world \<Rightarrow> go_error option \<times> user \<times> 's world" where
  "sqlc_Create d u w =
     (case gen_CreateUser (sd_pool d) (u_ID u) (u_UserName u) (u_NormalizedUserName u) (u_Email u) (u_NormalizedEmail u)
             (u_EmailConfirmed u) (u_PasswordHash u) (u_SecurityStamp u) (u_ConcurrencyStamp u) (u_PhoneNumber u)
             (u_PhoneNumberConfirmed u) (u_TwoFactorEnabled u) (u_LockoutEnd u) (u_LockoutEnabled u)
             (int32 (u_AccessFailedCount u)) (attrsToJSON (u_Attributes u)) (u_IsAnonymous u) w of
        (e, w) \<Rightarrow> (e, u, w))"

definition sqlc_Update ::
  "extern \<Rightarrow> ('s, 't) sqlc_db \<Rightarrow> user \<Rightarrow> 's world \<Rightarrow> go_error option \<times> user \<times> 's world" where
  "sqlc_Update x d u w =
     (let (newStamp, w) = draw (NewConcurrencyStamp x) w
      in case gen_UpdateUser (sd_pool d) (u_UserName u) (u_NormalizedUserName u) (u_Email u) (u_NormalizedEmail u)
                (u_EmailConfirmed u) (u_PasswordHash u) (u_SecurityStamp u) newStamp (u_PhoneNumber u)
                (u_PhoneNumberConfirmed u) (u_TwoFactorEnabled u) (u_LockoutEnd u) (u_LockoutEnabled u)
                (int32 (u_AccessFailedCount u)) (attrsToJSON (u_Attributes u)) (u_IsAnonymous u) (u_ID u)
                (u_ConcurrencyStamp u) w of
           (Inl e, w) \<Rightarrow> (Some e, u, w)
         | (Inr n, w) \<Rightarrow>
             if n = 0 then
               (if gen_GetUserByID (sd_pool d) (u_ID u) w = Inl pgx_ErrNoRows then (Some ErrNotFound, u, w)
                else (Some ErrConcurrencyFailure, u, w))
             else (None, u\<lparr>u_ConcurrencyStamp := newStamp\<rparr>, w))"

definition sqlc_PurgeAnonymousUsers :: "('s, 't) sqlc_db \<Rightarrow> time \<Rightarrow> 's world \<Rightarrow> (go_error + int) \<times> 's world" where
  "sqlc_PurgeAnonymousUsers d createdBefore w = gen_PurgeAnonymousUsers (sd_pool d) createdBefore w"

definition sqlc_Delete :: "('s, 't) sqlc_db \<Rightarrow> user \<Rightarrow> 's world \<Rightarrow> go_error option \<times> 's world" where
  "sqlc_Delete d u w = gen_DeleteUser (sd_pool d) (u_ID u) w"

definition sqlc_FindByID :: "('s, 't) sqlc_db \<Rightarrow> string \<Rightarrow> 's world \<Rightarrow> go_error + user" where
  "sqlc_FindByID d i w = found toUser (gen_GetUserByID (sd_pool d) i w)"

definition sqlc_FindByName :: "('s, 't) sqlc_db \<Rightarrow> string \<Rightarrow> 's world \<Rightarrow> go_error + user" where
  "sqlc_FindByName d n w = found toUser (gen_GetUserByName (sd_pool d) n w)"

definition sqlc_FindByEmail :: "('s, 't) sqlc_db \<Rightarrow> string \<Rightarrow> 's world \<Rightarrow> go_error + user" where
  "sqlc_FindByEmail d e w = (if e = [] then Inl ErrNotFound else found toUser (gen_GetUserByEmail (sd_pool d) e w))"

definition sqlc_ListUsers :: "extern \<Rightarrow> ('s, 't) sqlc_db \<Rightarrow> list_filter \<Rightarrow> 's world \<Rightarrow> go_error + user list \<times> int" where
  "sqlc_ListUsers x d f w =
     (let search = strings_ToUpper x (lf_Search f)
      in case gen_CountUsers (sd_pool d) search w of
           Inl e \<Rightarrow> Inl e
         | Inr n \<Rightarrow>
             (case gen_ListUsers (sd_pool d) search (int32 (lf_Offset f)) (int32 (lf_Limit f)) w of
                Inl e \<Rightarrow> Inl e | Inr rows \<Rightarrow> Inr (map toUser rows, n)))"

definition sqlc_AddToRole :: "('s, 't) sqlc_db \<Rightarrow> user \<Rightarrow> string \<Rightarrow> 's world \<Rightarrow> go_error option \<times> 's world" where
  "sqlc_AddToRole d u normalizedRoleName w =
     (case gen_GetRoleIDByName (sd_pool d) normalizedRoleName w of
        Inl e \<Rightarrow> if e = pgx_ErrNoRows then (Some ErrRoleNotFound, w) else (Some e, w)
      | Inr rid \<Rightarrow> gen_AddUserToRole (sd_pool d) (u_ID u) rid w)"

definition sqlc_RemoveFromRole :: "('s, 't) sqlc_db \<Rightarrow> user \<Rightarrow> string \<Rightarrow> 's world \<Rightarrow> go_error option \<times> 's world" where
  "sqlc_RemoveFromRole d u normalizedRoleName w =
     (case gen_GetRoleIDByName (sd_pool d) normalizedRoleName w of
        Inl e \<Rightarrow> if e = pgx_ErrNoRows then (None, w) else (Some e, w)
      | Inr rid \<Rightarrow> gen_RemoveUserFromRole (sd_pool d) (u_ID u) rid w)"

definition sqlc_GetRoles :: "('s, 't) sqlc_db \<Rightarrow> user \<Rightarrow> 's world \<Rightarrow> go_error + string list" where
  "sqlc_GetRoles d u w = gen_GetUserRoles (sd_pool d) (u_ID u) w"

definition sqlc_GetUsersInRole :: "('s, 't) sqlc_db \<Rightarrow> string \<Rightarrow> 's world \<Rightarrow> go_error + user list" where
  "sqlc_GetUsersInRole d normalizedRoleName w =
     (case gen_GetUsersInRole (sd_pool d) normalizedRoleName w of Inl e \<Rightarrow> Inl e | Inr rows \<Rightarrow> Inr (usersFromRows rows))"

definition sqlc_GetUsersForClaim :: "('s, 't) sqlc_db \<Rightarrow> string \<Rightarrow> string \<Rightarrow> 's world \<Rightarrow> go_error + user list" where
  "sqlc_GetUsersForClaim d claimType claimValue w =
     (case gen_GetUsersForClaim (sd_pool d) claimType claimValue w of Inl e \<Rightarrow> Inl e | Inr rows \<Rightarrow> Inr (usersFromRows rows))"

definition sqlc_IsInRole :: "('s, 't) sqlc_db \<Rightarrow> user \<Rightarrow> string \<Rightarrow> 's world \<Rightarrow> go_error + bool" where
  "sqlc_IsInRole d u normalizedRoleName w = gen_IsUserInRole (sd_pool d) (u_ID u) normalizedRoleName w"

definition sqlc_GetClaims :: "('s, 't) sqlc_db \<Rightarrow> user \<Rightarrow> 's world \<Rightarrow> go_error + claim list" where
  "sqlc_GetClaims d u w = gen_GetUserClaims (sd_pool d) (u_ID u) w"

text \<open>\<open>inTx\<close>: the deferred \<open>Rollback\<close> does nothing once \<open>Commit\<close> was called.\<close>

definition sqlc_inTx ::
  "('s, 't) sqlc_db \<Rightarrow> ('t pgx \<Rightarrow> 't world \<Rightarrow> go_error option \<times> 't world) \<Rightarrow> 's world \<Rightarrow> go_error option \<times> 's world" where
  "sqlc_inTx d fn w =
     (case sd_Begin d (db w) of
        (Inl e, s) \<Rightarrow> (Some e, w\<lparr>db := s\<rparr>)
      | (Inr tx, s) \<Rightarrow>
          (case fn (sd_tx d) \<lparr>db = tx, tape = tape w\<rparr> of
             (Some e, wt) \<Rightarrow> (Some e, w\<lparr>db := sd_Rollback d (db wt) s\<rparr>)
           | (None, wt) \<Rightarrow> (case sd_Commit d (db wt) s of (e, s) \<Rightarrow> (e, w\<lparr>db := s\<rparr>))))"

fun each_claim :: "(claim \<Rightarrow> 't world \<Rightarrow> go_error option \<times> 't world) \<Rightarrow> claim list \<Rightarrow> 't world \<Rightarrow> go_error option \<times> 't world" where
  "each_claim f [] w = (None, w)"
| "each_claim f (c # cs) w = (case f c w of (Some e, w) \<Rightarrow> (Some e, w) | (None, w) \<Rightarrow> each_claim f cs w)"

definition sqlc_AddClaims :: "('s, 't) sqlc_db \<Rightarrow> user \<Rightarrow> claim list \<Rightarrow> 's world \<Rightarrow> go_error option \<times> 's world" where
  "sqlc_AddClaims d u claims w =
     sqlc_inTx d (\<lambda>q. each_claim (\<lambda>c. gen_AddUserClaim q (u_ID u) (c_Type c) (c_Value c)) claims) w"

definition sqlc_RemoveClaims :: "('s, 't) sqlc_db \<Rightarrow> user \<Rightarrow> claim list \<Rightarrow> 's world \<Rightarrow> go_error option \<times> 's world" where
  "sqlc_RemoveClaims d u claims w =
     sqlc_inTx d (\<lambda>q. each_claim (\<lambda>c. gen_DeleteUserClaim q (u_ID u) (c_Type c) (c_Value c)) claims) w"

definition sqlc_GetToken :: "('s, 't) sqlc_db \<Rightarrow> user \<Rightarrow> string \<Rightarrow> string \<Rightarrow> 's world \<Rightarrow> go_error + string" where
  "sqlc_GetToken d u loginProvider name w =
     (case gen_GetUserToken (sd_pool d) (u_ID u) loginProvider name w of
        Inl e \<Rightarrow> if e = pgx_ErrNoRows then Inr [] else Inl e | Inr v \<Rightarrow> Inr v)"

definition sqlc_SetToken ::
  "('s, 't) sqlc_db \<Rightarrow> user \<Rightarrow> string \<Rightarrow> string \<Rightarrow> string \<Rightarrow> 's world \<Rightarrow> go_error option \<times> 's world" where
  "sqlc_SetToken d u loginProvider name val w = gen_UpsertUserToken (sd_pool d) (u_ID u) loginProvider name val w"

definition sqlc_RemoveToken ::
  "('s, 't) sqlc_db \<Rightarrow> user \<Rightarrow> string \<Rightarrow> string \<Rightarrow> 's world \<Rightarrow> go_error option \<times> 's world" where
  "sqlc_RemoveToken d u loginProvider name w = gen_DeleteUserToken (sd_pool d) (u_ID u) loginProvider name w"

definition sqlc_AddLogin :: "('s, 't) sqlc_db \<Rightarrow> user \<Rightarrow> login_info \<Rightarrow> 's world \<Rightarrow> go_error option \<times> 's world" where
  "sqlc_AddLogin d u login w =
     gen_AddUserLogin (sd_pool d) (l_LoginProvider login) (l_ProviderKey login) (l_ProviderDisplayName login) (u_ID u) w"

definition sqlc_RemoveLogin ::
  "('s, 't) sqlc_db \<Rightarrow> user \<Rightarrow> string \<Rightarrow> string \<Rightarrow> 's world \<Rightarrow> go_error option \<times> 's world" where
  "sqlc_RemoveLogin d u loginProvider providerKey w =
     gen_RemoveUserLogin (sd_pool d) (u_ID u) loginProvider providerKey w"

definition sqlc_GetLogins :: "('s, 't) sqlc_db \<Rightarrow> user \<Rightarrow> 's world \<Rightarrow> go_error + login_info list" where
  "sqlc_GetLogins d u w = gen_GetUserLogins (sd_pool d) (u_ID u) w"

definition sqlc_FindByLogin :: "('s, 't) sqlc_db \<Rightarrow> string \<Rightarrow> string \<Rightarrow> 's world \<Rightarrow> go_error + user" where
  "sqlc_FindByLogin d loginProvider providerKey w =
     (case gen_GetUserIDByLogin (sd_pool d) loginProvider providerKey w of
        Inl e \<Rightarrow> Inl (mapNotFound e) | Inr uid \<Rightarrow> sqlc_FindByID d uid w)"

definition sqlc_Users :: "extern \<Rightarrow> ('s, 't) sqlc_db \<Rightarrow> 's user_store" where
  "sqlc_Users x d = \<lparr>
     us_Create = sqlc_Create d, us_Update = sqlc_Update x d, us_Delete = sqlc_Delete d,
     us_FindByID = sqlc_FindByID d, us_FindByName = sqlc_FindByName d, us_FindByEmail = sqlc_FindByEmail d,
     us_AddToRole = sqlc_AddToRole d, us_RemoveFromRole = sqlc_RemoveFromRole d, us_GetRoles = sqlc_GetRoles d,
     us_IsInRole = sqlc_IsInRole d, us_GetUsersInRole = sqlc_GetUsersInRole d, us_GetClaims = sqlc_GetClaims d,
     us_AddClaims = sqlc_AddClaims d, us_RemoveClaims = sqlc_RemoveClaims d,
     us_GetUsersForClaim = sqlc_GetUsersForClaim d, us_GetToken = sqlc_GetToken d, us_SetToken = sqlc_SetToken d,
     us_RemoveToken = sqlc_RemoveToken d, us_AddLogin = sqlc_AddLogin d, us_RemoveLogin = sqlc_RemoveLogin d,
     us_GetLogins = sqlc_GetLogins d, us_FindByLogin = sqlc_FindByLogin d,
     us_ListUsers = Some (sqlc_ListUsers x d), us_PurgeAnonymousUsers = Some (sqlc_PurgeAnonymousUsers d)\<rparr>"

section \<open>Roles\<close>

definition sqlcr_Create :: "('s, 't) sqlc_db \<Rightarrow> role \<Rightarrow> 's world \<Rightarrow> go_error option \<times> 's world" where
  "sqlcr_Create d r w = gen_CreateRole (sd_pool d) (r_ID r) (r_Name r) (r_NormalizedName r) (r_ConcurrencyStamp r) w"

definition sqlcr_Update ::
  "extern \<Rightarrow> ('s, 't) sqlc_db \<Rightarrow> role \<Rightarrow> 's world \<Rightarrow> go_error option \<times> role \<times> 's world" where
  "sqlcr_Update x d r w =
     (let (newStamp, w) = draw (NewConcurrencyStamp x) w
      in case gen_UpdateRole (sd_pool d) (r_Name r) (r_NormalizedName r) newStamp (r_ID r) (r_ConcurrencyStamp r) w of
           (Inl e, w) \<Rightarrow> (Some e, r, w)
         | (Inr n, w) \<Rightarrow>
             if n = 0 then
               (case gen_RoleExists (sd_pool d) (r_ID r) w of
                  Inr exists \<Rightarrow> if \<not> exists then (Some ErrNotFound, r, w) else (Some ErrConcurrencyFailure, r, w)
                | Inl _ \<Rightarrow> (Some ErrConcurrencyFailure, r, w))
             else (None, r\<lparr>r_ConcurrencyStamp := newStamp\<rparr>, w))"

definition sqlcr_Delete :: "('s, 't) sqlc_db \<Rightarrow> role \<Rightarrow> 's world \<Rightarrow> go_error option \<times> 's world" where
  "sqlcr_Delete d r w = gen_DeleteRole (sd_pool d) (r_ID r) w"

definition sqlcr_FindByID :: "('s, 't) sqlc_db \<Rightarrow> string \<Rightarrow> 's world \<Rightarrow> go_error + role" where
  "sqlcr_FindByID d i w = found id (gen_GetRoleByID (sd_pool d) i w)"

definition sqlcr_FindByName :: "('s, 't) sqlc_db \<Rightarrow> string \<Rightarrow> 's world \<Rightarrow> go_error + role" where
  "sqlcr_FindByName d n w = found id (gen_GetRoleByName (sd_pool d) n w)"

definition sqlcr_GetClaims :: "('s, 't) sqlc_db \<Rightarrow> role \<Rightarrow> 's world \<Rightarrow> go_error + claim list" where
  "sqlcr_GetClaims d r w = gen_GetRoleClaims (sd_pool d) (r_ID r) w"

definition sqlcr_AddClaim :: "('s, 't) sqlc_db \<Rightarrow> role \<Rightarrow> claim \<Rightarrow> 's world \<Rightarrow> go_error option \<times> 's world" where
  "sqlcr_AddClaim d r c w = gen_AddRoleClaim (sd_pool d) (r_ID r) (c_Type c) (c_Value c) w"

definition sqlcr_RemoveClaim :: "('s, 't) sqlc_db \<Rightarrow> role \<Rightarrow> claim \<Rightarrow> 's world \<Rightarrow> go_error option \<times> 's world" where
  "sqlcr_RemoveClaim d r c w = gen_DeleteRoleClaim (sd_pool d) (r_ID r) (c_Type c) (c_Value c) w"

definition sqlc_Roles :: "extern \<Rightarrow> ('s, 't) sqlc_db \<Rightarrow> 's role_store" where
  "sqlc_Roles x d = \<lparr>rs_Create = sqlcr_Create d, rs_Update = sqlcr_Update x d, rs_Delete = sqlcr_Delete d,
     rs_FindByID = sqlcr_FindByID d, rs_FindByName = sqlcr_FindByName d, rs_GetClaims = sqlcr_GetClaims d,
     rs_AddClaim = sqlcr_AddClaim d, rs_RemoveClaim = sqlcr_RemoveClaim d\<rparr>"

section \<open>API keys and sessions\<close>

definition toAPIKey :: "identity_key \<Rightarrow> api_key" where
  "toAPIKey r =
     (case r of (k, scopes) \<Rightarrow>
        if scopes \<noteq> [] then (case json_Unmarshal_list scopes of None \<Rightarrow> k | Some l \<Rightarrow> k\<lparr>k_Scopes := l\<rparr>) else k)"

definition scopesJSON :: "string list \<Rightarrow> string" where
  "scopesJSON s = (if s = [] then ''[]'' else json_Marshal_list s)"

definition sqlc_CreateAPIKey :: "time \<Rightarrow> ('s, 't) sqlc_db \<Rightarrow> api_key \<Rightarrow> 's world \<Rightarrow> go_error option \<times> 's world" where
  "sqlc_CreateAPIKey now d k w =
     (let created = created_or_now now (k_CreatedAt k)
      in gen_CreateAPIKey (sd_pool d) (k_ID k) (k_UserID k) (k_Name k) (k_Prefix k) (k_KeyHash k) (scopesJSON (k_Scopes k))
           (k_ExpiresAt k) created w)"

definition sqlc_GetActiveAPIKeyByHash :: "('s, 't) sqlc_db \<Rightarrow> string \<Rightarrow> 's world \<Rightarrow> go_error + api_key" where
  "sqlc_GetActiveAPIKeyByHash d keyHash w = found toAPIKey (gen_GetActiveAPIKeyByHash (sd_pool d) keyHash w)"

definition sqlc_ListAPIKeysByUser :: "('s, 't) sqlc_db \<Rightarrow> string \<Rightarrow> 's world \<Rightarrow> go_error + api_key list" where
  "sqlc_ListAPIKeysByUser d userID w = listed toAPIKey (gen_ListAPIKeysByUser (sd_pool d) userID w)"

definition sqlc_RevokeAPIKey :: "('s, 't) sqlc_db \<Rightarrow> string \<Rightarrow> 's world \<Rightarrow> go_error option \<times> 's world" where
  "sqlc_RevokeAPIKey d i w = gen_RevokeAPIKey (sd_pool d) i w"

definition sqlc_TouchAPIKeyLastUsed :: "('s, 't) sqlc_db \<Rightarrow> string \<Rightarrow> 's world \<Rightarrow> go_error option \<times> 's world" where
  "sqlc_TouchAPIKeyLastUsed d i w = gen_TouchAPIKeyLastUsed (sd_pool d) i w"

definition sqlc_APIKeys :: "time \<Rightarrow> ('s, 't) sqlc_db \<Rightarrow> 's api_key_store" where
  "sqlc_APIKeys now d = \<lparr>ks_CreateAPIKey = sqlc_CreateAPIKey now d,
     ks_GetActiveAPIKeyByHash = (\<lambda>_. sqlc_GetActiveAPIKeyByHash d),
     ks_ListAPIKeysByUser = sqlc_ListAPIKeysByUser d, ks_RevokeAPIKey = (\<lambda>_. sqlc_RevokeAPIKey d),
     ks_TouchAPIKeyLastUsed = (\<lambda>_. sqlc_TouchAPIKeyLastUsed d)\<rparr>"

definition sqlc_CreateRefreshToken ::
  "time \<Rightarrow> ('s, 't) sqlc_db \<Rightarrow> refresh_token \<Rightarrow> 's world \<Rightarrow> go_error option \<times> 's world" where
  "sqlc_CreateRefreshToken now d rt w =
     (let created = created_or_now now (rt_CreatedAt rt)
      in gen_CreateRefreshToken (sd_pool d) (rt_SessionID rt) (rt_UserID rt) (rt_TokenHash rt) (rt_Name rt) (rt_ExpiresAt rt)
           created (rt_LastUsedAt rt) w)"

definition sqlc_GetRefreshTokenBySession :: "('s, 't) sqlc_db \<Rightarrow> string \<Rightarrow> 's world \<Rightarrow> go_error + refresh_token" where
  "sqlc_GetRefreshTokenBySession d sessionID w = found id (gen_GetRefreshTokenBySession (sd_pool d) sessionID w)"

definition sqlc_UpdateRefreshToken ::
  "('s, 't) sqlc_db \<Rightarrow> refresh_token \<Rightarrow> 's world \<Rightarrow> go_error option \<times> 's world" where
  "sqlc_UpdateRefreshToken d rt w =
     (case gen_UpdateRefreshToken (sd_pool d) (rt_TokenHash rt) (rt_ExpiresAt rt) (rt_LastUsedAt rt) (rt_Name rt)
             (rt_SessionID rt) w of
        (Inl e, w) \<Rightarrow> (Some e, w)
      | (Inr n, w) \<Rightarrow> if n = 0 then (Some ErrNotFound, w) else (None, w))"

definition sqlc_DeleteRefreshToken :: "('s, 't) sqlc_db \<Rightarrow> string \<Rightarrow> 's world \<Rightarrow> go_error option \<times> 's world" where
  "sqlc_DeleteRefreshToken d sessionID w = gen_DeleteRefreshToken (sd_pool d) sessionID w"

definition sqlc_DeleteUserRefreshTokens :: "('s, 't) sqlc_db \<Rightarrow> string \<Rightarrow> 's world \<Rightarrow> (go_error + int) \<times> 's world" where
  "sqlc_DeleteUserRefreshTokens d userID w = gen_DeleteUserRefreshTokens (sd_pool d) userID w"

definition sqlc_DeleteExpiredRefreshTokens :: "('s, 't) sqlc_db \<Rightarrow> time \<Rightarrow> 's world \<Rightarrow> (go_error + int) \<times> 's world" where
  "sqlc_DeleteExpiredRefreshTokens d before w = gen_DeleteExpiredRefreshTokens (sd_pool d) before w"

definition sqlc_ListUserRefreshTokens :: "('s, 't) sqlc_db \<Rightarrow> string \<Rightarrow> 's world \<Rightarrow> go_error + refresh_token list" where
  "sqlc_ListUserRefreshTokens d userID w = listed id (gen_ListUserRefreshTokens (sd_pool d) userID w)"

definition sqlc_RefreshTokens :: "time \<Rightarrow> ('s, 't) sqlc_db \<Rightarrow> 's refresh_token_store" where
  "sqlc_RefreshTokens now d = \<lparr>ts_CreateRefreshToken = sqlc_CreateRefreshToken now d,
     ts_GetRefreshTokenBySession = sqlc_GetRefreshTokenBySession d,
     ts_UpdateRefreshToken = sqlc_UpdateRefreshToken d, ts_DeleteRefreshToken = sqlc_DeleteRefreshToken d,
     ts_DeleteUserRefreshTokens = sqlc_DeleteUserRefreshTokens d,
     ts_DeleteExpiredRefreshTokens = sqlc_DeleteExpiredRefreshTokens d,
     ts_ListUserRefreshTokens = sqlc_ListUserRefreshTokens d\<rparr>"

section \<open>The authorization server's store\<close>

definition listJSON :: "string list \<Rightarrow> string" where
  "listJSON v = json_Marshal_list v"

definition sqlc_CreateClient :: "('s, 't) sqlc_db \<Rightarrow> oauth_client \<Rightarrow> 's world \<Rightarrow> go_error option \<times> 's world" where
  "sqlc_CreateClient d c w =
     gen_CreateOAuthClient (sd_pool d) (cl_ClientID c) (cl_SecretHash c) (cl_Name c) (listJSON (cl_RedirectURIs c))
       (cl_TokenEndpointAuthMethod c) (listJSON (cl_GrantTypes c)) (cl_CreatedAt c) (cl_LastUsedAt c) w"

definition sqlc_GetClient :: "('s, 't) sqlc_db \<Rightarrow> string \<Rightarrow> 's world \<Rightarrow> go_error + oauth_client" where
  "sqlc_GetClient d clientID w =
     (case gen_GetOAuthClient (sd_pool d) clientID w of
        Inl e \<Rightarrow> Inl (mapNotFound e)
      | Inr (c, redirectUris, grantTypes) \<Rightarrow>
          (case json_Unmarshal_list redirectUris of
             None \<Rightarrow> Inl (StoreErr ''json'')
           | Some rs \<Rightarrow>
               (case json_Unmarshal_list grantTypes of
                  None \<Rightarrow> Inl (StoreErr ''json'')
                | Some gs \<Rightarrow> Inr (c\<lparr>cl_RedirectURIs := rs, cl_GrantTypes := gs\<rparr>))))"

definition sqlc_TouchClient :: "('s, 't) sqlc_db \<Rightarrow> string \<Rightarrow> time \<Rightarrow> 's world \<Rightarrow> go_error option \<times> 's world" where
  "sqlc_TouchClient d clientID t w = gen_TouchOAuthClient (sd_pool d) clientID (Some t) w"

definition sqlc_DeleteStaleClients :: "('s, 't) sqlc_db \<Rightarrow> time \<Rightarrow> 's world \<Rightarrow> (go_error + int) \<times> 's world" where
  "sqlc_DeleteStaleClients d before w = gen_DeleteStaleOAuthClients (sd_pool d) before w"

definition sqlc_CreateCode :: "('s, 't) sqlc_db \<Rightarrow> oauth_code \<Rightarrow> 's world \<Rightarrow> go_error option \<times> 's world" where
  "sqlc_CreateCode d c w =
     gen_CreateOAuthCode (sd_pool d) (cd_CodeHash c) (cd_ClientID c) (cd_UserID c) (cd_RedirectURI c) (cd_Scopes c)
       (cd_Resource c) (cd_CodeChallenge c) (cd_ExpiresAt c) (cd_UsedAt c) (cd_GrantID c) w"

definition sqlc_GetCode :: "('s, 't) sqlc_db \<Rightarrow> string \<Rightarrow> 's world \<Rightarrow> go_error + oauth_code" where
  "sqlc_GetCode d codeHash w = found id (gen_GetOAuthCode (sd_pool d) codeHash w)"

definition sqlc_MarkCodeUsed ::
  "('s, 't) sqlc_db \<Rightarrow> string \<Rightarrow> string \<Rightarrow> time \<Rightarrow> 's world \<Rightarrow> (go_error + bool) \<times> 's world" where
  "sqlc_MarkCodeUsed d codeHash grantID t w = one_row (gen_MarkOAuthCodeUsed (sd_pool d) (Some t) grantID codeHash w)"

definition sqlc_DeleteExpiredCodes :: "('s, 't) sqlc_db \<Rightarrow> time \<Rightarrow> 's world \<Rightarrow> (go_error + int) \<times> 's world" where
  "sqlc_DeleteExpiredCodes d before w = gen_DeleteExpiredOAuthCodes (sd_pool d) before w"

definition sqlc_GetConsent :: "('s, 't) sqlc_db \<Rightarrow> string \<Rightarrow> string \<Rightarrow> 's world \<Rightarrow> go_error + oauth_consent" where
  "sqlc_GetConsent d userID clientID w = found id (gen_GetOAuthConsent (sd_pool d) userID clientID w)"

definition sqlc_SaveConsent :: "('s, 't) sqlc_db \<Rightarrow> oauth_consent \<Rightarrow> 's world \<Rightarrow> go_error option \<times> 's world" where
  "sqlc_SaveConsent d c w =
     gen_SaveOAuthConsent (sd_pool d) (cs_UserID c) (cs_ClientID c) (cs_Scopes c) (cs_CreatedAt c) (cs_UpdatedAt c) w"

definition sqlc_DeleteConsent :: "('s, 't) sqlc_db \<Rightarrow> string \<Rightarrow> string \<Rightarrow> 's world \<Rightarrow> go_error option \<times> 's world" where
  "sqlc_DeleteConsent d userID clientID w = gen_DeleteOAuthConsent (sd_pool d) userID clientID w"

definition sqlc_CreateGrant :: "('s, 't) sqlc_db \<Rightarrow> oauth_grant \<Rightarrow> 's world \<Rightarrow> go_error option \<times> 's world" where
  "sqlc_CreateGrant d g w =
     gen_CreateOAuthGrant (sd_pool d) (g_ID g) (g_UserID g) (g_ClientID g) (g_Scopes g) (g_Resource g) (g_TokenHash g)
       (g_PrevTokenHash g) (g_SecurityStamp g) (g_ExpiresAt g) (g_CreatedAt g) (g_LastUsedAt g) w"

definition sqlc_GetGrant :: "('s, 't) sqlc_db \<Rightarrow> string \<Rightarrow> 's world \<Rightarrow> go_error + oauth_grant" where
  "sqlc_GetGrant d i w = found id (gen_GetOAuthGrant (sd_pool d) i w)"

definition sqlc_RotateGrant ::
  "('s, 't) sqlc_db \<Rightarrow> string \<Rightarrow> string \<Rightarrow> string \<Rightarrow> time \<Rightarrow> time \<Rightarrow> 's world \<Rightarrow> (go_error + bool) \<times> 's world" where
  "sqlc_RotateGrant d i oldHash newHash expiresAt usedAt w =
     one_row (gen_RotateOAuthGrant (sd_pool d) newHash expiresAt (Some usedAt) i oldHash w)"

definition sqlc_DeleteGrant :: "('s, 't) sqlc_db \<Rightarrow> string \<Rightarrow> 's world \<Rightarrow> go_error option \<times> 's world" where
  "sqlc_DeleteGrant d i w = gen_DeleteOAuthGrant (sd_pool d) i w"

definition sqlc_DeleteUserClientGrants ::
  "('s, 't) sqlc_db \<Rightarrow> string \<Rightarrow> string \<Rightarrow> 's world \<Rightarrow> (go_error + int) \<times> 's world" where
  "sqlc_DeleteUserClientGrants d userID clientID w = gen_DeleteUserClientOAuthGrants (sd_pool d) userID clientID w"

definition sqlc_ListUserGrants :: "('s, 't) sqlc_db \<Rightarrow> string \<Rightarrow> 's world \<Rightarrow> go_error + oauth_grant list" where
  "sqlc_ListUserGrants d userID w = listed id (gen_ListUserOAuthGrants (sd_pool d) userID w)"

definition sqlc_DeleteExpiredGrants :: "('s, 't) sqlc_db \<Rightarrow> time \<Rightarrow> 's world \<Rightarrow> (go_error + int) \<times> 's world" where
  "sqlc_DeleteExpiredGrants d before w = gen_DeleteExpiredOAuthGrants (sd_pool d) before w"

definition sqlc_UseClientAssertion ::
  "('s, 't) sqlc_db \<Rightarrow> string \<Rightarrow> string \<Rightarrow> time \<Rightarrow> 's world \<Rightarrow> (go_error + bool) \<times> 's world" where
  "sqlc_UseClientAssertion d clientID jti expiresAt w =
     one_row (gen_UseOAuthClientAssertion (sd_pool d) clientID jti expiresAt w)"

definition sqlc_DeleteExpiredClientAssertions :: "('s, 't) sqlc_db \<Rightarrow> time \<Rightarrow> 's world \<Rightarrow> (go_error + int) \<times> 's world" where
  "sqlc_DeleteExpiredClientAssertions d before w = gen_DeleteExpiredOAuthClientAssertions (sd_pool d) before w"

definition sqlc_OAuth :: "('s, 't) sqlc_db \<Rightarrow> 's oauth_store" where
  "sqlc_OAuth d = \<lparr>os_CreateClient = sqlc_CreateClient d, os_GetClient = sqlc_GetClient d,
     os_TouchClient = sqlc_TouchClient d, os_DeleteStaleClients = sqlc_DeleteStaleClients d,
     os_CreateCode = sqlc_CreateCode d, os_GetCode = sqlc_GetCode d, os_MarkCodeUsed = sqlc_MarkCodeUsed d,
     os_DeleteExpiredCodes = sqlc_DeleteExpiredCodes d, os_GetConsent = sqlc_GetConsent d,
     os_SaveConsent = sqlc_SaveConsent d, os_DeleteConsent = sqlc_DeleteConsent d,
     os_CreateGrant = sqlc_CreateGrant d, os_GetGrant = sqlc_GetGrant d, os_RotateGrant = sqlc_RotateGrant d,
     os_DeleteGrant = sqlc_DeleteGrant d, os_DeleteUserClientGrants = sqlc_DeleteUserClientGrants d,
     os_ListUserGrants = sqlc_ListUserGrants d, os_DeleteExpiredGrants = sqlc_DeleteExpiredGrants d,
     os_UseClientAssertion = sqlc_UseClientAssertion d,
     os_DeleteExpiredClientAssertions = sqlc_DeleteExpiredClientAssertions d\<rparr>"

end
