(* ===== verification/Sqlc_Simulation.thy ===== *)
theory Sqlc_Simulation
  imports Sqlc_Store Pgx_Lookup Pgx_Users
begin

text \<open>
  The generated statements do what the statements of \<open>pgxstore\<close> do under the default names. A driver
  for the one is turned into a driver for the other: it takes the texts of \<open>pgxstore\<close>, and sends the
  generated ones with the arguments in their order. If the server runs the generated statements as
  documented, the driver it is turned into is a server for \<open>pgxstore\<close>.
\<close>

section \<open>The server\<close>

definition sqlc_reads_as :: "string \<Rightarrow> stmt \<Rightarrow> bool" where
  "sqlc_reads_as txt st \<longleftrightarrow> st \<in> snd ` set sqlc_stmts \<and> sql_tokens (uncomment txt) = stmt_tokens DefaultNaming st"

lemma reads_sqlc: "(ls, st) \<in> set sqlc_stmts \<Longrightarrow> sqlc_reads_as (unlines ls) st"
  using sqlc_reads read_lines unfolding sqlc_reads_as_def list_all_iff by force

text \<open>A transaction: the statements one after the other, up to the first that fails.\<close>

fun tx_all :: "'t pgx \<Rightarrow> (string \<times> sval list) list \<Rightarrow> 't \<Rightarrow> go_error option \<times> 't" where
  "tx_all q [] tx = (None, tx)"
| "tx_all q ((txt, args) # qs) tx = (case pg_Exec q txt args tx of (Inl e, tx) \<Rightarrow> (Some e, tx) | (Inr _, tx) \<Rightarrow> tx_all q qs tx)"

definition run_tx :: "('s, 't) sqlc_db \<Rightarrow> (string \<times> sval list) list \<Rightarrow> 's \<Rightarrow> go_error option \<times> 's" where
  "run_tx d qs s =
     (case sd_Begin d s of
        (Inl e, s) \<Rightarrow> (Some e, s)
      | (Inr tx, s) \<Rightarrow>
          (case tx_all (sd_tx d) qs tx of
             (Some e, tx) \<Rightarrow> (Some e, sd_Rollback d tx s)
           | (None, tx) \<Rightarrow> sd_Commit d tx s))"

text \<open>What is assumed of a server and its driver: the statements do what is documented, and a
  transaction of them takes effect as a whole or not at all.\<close>

definition sqlc_server_ok :: "('s, 't) sqlc_db \<Rightarrow> 's view \<Rightarrow> bool" where
  "sqlc_server_ok d V \<longleftrightarrow> server_runs sqlc_reads_as ((sd_pool d)\<lparr>pg_SendBatch := run_tx d\<rparr>) V"

section \<open>The same statements\<close>

text \<open>For each statement of \<open>pgxstore\<close> the number of its arguments, the generated text, and the order in
  which that text takes them.\<close>

type_synonym route = "stmt \<times> nat \<times> string list \<times> (sval list \<Rightarrow> sval list)"

definition same_routes :: "route list" where
  "same_routes =
    [(st_deleteUser, 1, sq_deleteUser, id), (st_findUserByID, 1, sq_getUserByID, id),
     (st_findUserByName, 1, sq_getUserByName, id), (st_findUserByEmail, 1, sq_getUserByEmail, id),
     (st_purgeAnonymous, 1, sq_purgeAnonymousUsers, id), (st_getRoles, 1, sq_getUserRoles, id),
     (st_isInRole, 2, sq_isUserInRole, id), (st_usersInRole, 1, sq_getUsersInRole, id),
     (st_usersForClaim, 2, sq_getUsersForClaim, id), (st_getUserClaims, 1, sq_getUserClaims, id),
     (st_addUserClaim, 3, sq_addUserClaim, id), (st_removeUserClaim, 3, sq_deleteUserClaim, id),
     (st_getToken, 3, sq_getUserToken, id), (st_setToken, 4, sq_upsertUserToken, id),
     (st_removeToken, 3, sq_deleteUserToken, id), (st_addLogin, 4, sq_addUserLogin, id),
     (st_removeLogin, 3, sq_removeUserLogin, id), (st_getLogins, 1, sq_getUserLogins, id),
     (st_findByLogin, 2, sq_getUserIDByLogin, id), (st_createRole, 4, sq_createRole, id),
     (st_deleteRole, 1, sq_deleteRole, id), (st_roleExists, 1, sq_roleExists, id),
     (st_findRoleByID, 1, sq_getRoleByID, id), (st_findRoleByName, 1, sq_getRoleByName, id),
     (st_getRoleClaims, 1, sq_getRoleClaims, id), (st_addRoleClaim, 3, sq_addRoleClaim, id),
     (st_removeRoleClaim, 3, sq_deleteRoleClaim, id), (sk_create, 8, sq_createAPIKey, id),
     (sk_getActiveByHash, 1, sq_getActiveAPIKeyByHash, id), (sk_listByUser, 1, sq_listAPIKeysByUser, id),
     (sk_revoke, 1, sq_revokeAPIKey, id), (sk_touch, 1, sq_touchAPIKeyLastUsed, id),
     (ss_create, 7, sq_createRefreshToken, id), (ss_getBySession, 1, sq_getRefreshTokenBySession, id),
     (ss_del, 1, sq_deleteRefreshToken, id), (ss_delByUser, 1, sq_deleteUserRefreshTokens, id),
     (ss_delExpired, 1, sq_deleteExpiredRefreshTokens, id), (ss_listByUser, 1, sq_listUserRefreshTokens, id),
     (so_createClient, 8, sq_createOAuthClient, id), (so_getClient, 1, sq_getOAuthClient, id),
     (so_touchClient, 2, sq_touchOAuthClient, id), (so_deleteStaleClients, 1, sq_deleteStaleOAuthClients, id),
     (so_createCode, 10, sq_createOAuthCode, id), (so_getCode, 1, sq_getOAuthCode, id),
     (so_deleteExpiredCodes, 1, sq_deleteExpiredOAuthCodes, id), (so_getConsent, 2, sq_getOAuthConsent, id),
     (so_saveConsent, 5, sq_saveOAuthConsent, id), (so_deleteConsent, 2, sq_deleteOAuthConsent, id),
     (so_createGrant, 11, sq_createOAuthGrant, id), (so_getGrant, 1, sq_getOAuthGrant, id),
     (so_deleteGrant, 1, sq_deleteOAuthGrant, id),
     (so_deleteUserClientGrants, 2, sq_deleteUserClientOAuthGrants, id),
     (so_listUserGrants, 1, sq_listUserOAuthGrants, id),
     (so_deleteExpiredGrants, 1, sq_deleteExpiredOAuthGrants, id),
     (so_useAssertion, 3, sq_useOAuthClientAssertion, id),
     (so_deleteExpiredAssertions, 1, sq_deleteExpiredOAuthClientAssertions, id)]"

definition permute :: "nat list \<Rightarrow> sval list \<Rightarrow> sval list" where
  "permute ks args = map (\<lambda>k. args ! k) ks"

definition other_routes :: "route list" where
  "other_routes =
    [(st_createUser, 17, sq_createUser, id),
     (st_updateUser, 18, sq_updateUser, permute [1, 2, 3, 4, 5, 6, 7, 8, 9, 10, 11, 12, 13, 14, 15, 16, 0, 17]),
     (st_countUsers, 1, sq_countUsers, id), (st_listUsers, 3, sq_listUsers, permute [0, 2, 1]),
     (st_updateRole, 5, sq_updateRole, permute [1, 2, 3, 0, 4]),
     (ss_update, 5, sq_updateRefreshToken, permute [1, 2, 3, 4, 0]),
     (so_markCodeUsed, 3, sq_markOAuthCodeUsed, permute [2, 1, 0]),
     (so_rotateGrant, 5, sq_rotateOAuthGrant, permute [2, 3, 4, 0, 1])]"

definition route_ok :: "route \<Rightarrow> bool" where
  "route_ok = (\<lambda>(st, k, ls, f). \<exists>st'. sqlc_reads_as (unlines ls) st' \<and> is_query st' = is_query st \<and>
     (\<forall>args J now sr T. length args = k \<longrightarrow> exec J now sr st' (f args) T = exec J now sr st args T) \<and>
     (\<forall>args le now T out. length args = k \<longrightarrow> answers le now T st' (f args) out = answers le now T st args out))"

lemma same_routes_ok: "list_all route_ok same_routes"
proof -
  have "list_all (\<lambda>(st, k, ls, f). (ls, st) \<in> set sqlc_stmts \<and> f = id) same_routes"
    by (simp add: same_routes_def sqlc_stmts_def)
  then show ?thesis unfolding list_all_iff route_ok_def using reads_sqlc by fastforce
qed

text \<open>A statement that takes its arguments in another order.\<close>

lemma exec_Update_cong:
  assumes "\<And>r. holds T args' now a' r = holds T args now a r"
    and "\<And>r. map (\<lambda>(c, e). (c, ev args' now r e)) asg' = map (\<lambda>(c, e). (c, ev args now r e)) asg"
  shows "exec J now sr (Update t asg' a') args' T = exec J now sr (Update t asg a) args T"
proof -
  have "holds T args' now a' = holds T args now a" using assms(1) by blast
  with assms(2) show ?thesis unfolding exec.simps by presburger
qed

lemma route_okI:
  assumes "(ls, st') \<in> set sqlc_stmts" and "is_query st' = is_query st"
    and "\<And>args J now sr T. length args = k \<Longrightarrow> exec J now sr st' (f args) T = exec J now sr st args T"
    and "\<And>args le now T out. length args = k \<Longrightarrow> answers le now T st' (f args) out = answers le now T st args out"
  shows "route_ok (st, k, ls, f)"
  unfolding route_ok_def prod.case using assms reads_sqlc by (intro exI [of _ st']) blast

lemma route_update:
  assumes "(ls, Update t asg' a') \<in> set sqlc_stmts"
    and "\<And>args now r T. length args = k \<Longrightarrow> holds T (f args) now a' r = holds T args now a r"
    and "\<And>args now r. length args = k \<Longrightarrow>
      map (\<lambda>(c, e). (c, ev (f args) now r e)) asg' = map (\<lambda>(c, e). (c, ev args now r e)) asg"
  shows "route_ok (Update t asg a, k, ls, f)"
  using assms by (intro route_okI [where st' = "Update t asg' a'"] exec_Update_cong) auto

lemma updates_ok:
  "route_ok (st_updateUser, 18, sq_updateUser, permute [1, 2, 3, 4, 5, 6, 7, 8, 9, 10, 11, 12, 13, 14, 15, 16, 0, 17])"
  "route_ok (st_updateRole, 5, sq_updateRole, permute [1, 2, 3, 0, 4])"
  "route_ok (ss_update, 5, sq_updateRefreshToken, permute [1, 2, 3, 4, 0])"
  "route_ok (so_markCodeUsed, 3, sq_markOAuthCodeUsed, permute [2, 1, 0])"
  "route_ok (so_rotateGrant, 5, sq_rotateOAuthGrant, permute [2, 3, 4, 0, 1])"
proof -
  have m: "(sq_updateUser, sx_updateUser) \<in> set sqlc_stmts" "(sq_updateRole, sx_updateRole) \<in> set sqlc_stmts"
    "(sq_updateRefreshToken, sx_updateRefreshToken) \<in> set sqlc_stmts"
    "(sq_markOAuthCodeUsed, sx_markOAuthCodeUsed) \<in> set sqlc_stmts"
    "(sq_rotateOAuthGrant, sx_rotateOAuthGrant) \<in> set sqlc_stmts"
    by (simp_all add: sqlc_stmts_def)
  show "route_ok (st_updateUser, 18, sq_updateUser, permute [1, 2, 3, 4, 5, 6, 7, 8, 9, 10, 11, 12, 13, 14, 15, 16, 0, 17])"
    using m(1) unfolding st_updateUser_def sx_updateUser_def by (rule route_update) (simp_all add: permute_def)
  show "route_ok (st_updateRole, 5, sq_updateRole, permute [1, 2, 3, 0, 4])"
    using m(2) unfolding st_updateRole_def sx_updateRole_def by (rule route_update) (simp_all add: permute_def)
  show "route_ok (ss_update, 5, sq_updateRefreshToken, permute [1, 2, 3, 4, 0])"
    using m(3) unfolding ss_update_def sx_updateRefreshToken_def by (rule route_update) (simp_all add: permute_def)
  show "route_ok (so_markCodeUsed, 3, sq_markOAuthCodeUsed, permute [2, 1, 0])"
    using m(4) unfolding so_markCodeUsed_def sx_markOAuthCodeUsed_def by (rule route_update) (simp_all add: permute_def)
  show "route_ok (so_rotateGrant, 5, sq_rotateOAuthGrant, permute [2, 3, 4, 0, 1])"
    using m(5) unfolding so_rotateGrant_def sx_rotateOAuthGrant_def by (rule route_update) (simp_all add: permute_def)
qed

lemma search_ok:
  "route_ok (st_countUsers, 1, sq_countUsers, id)" "route_ok (st_listUsers, 3, sq_listUsers, permute [0, 2, 1])"
proof -
  have h: "holds T args' now sx_search = holds T args now search_cond" if "take 1 args' = take 1 args" for T args args' now
    using that by (cases args; cases args') (auto simp: fun_eq_iff sx_search_def search_cond_def like_arg_def split: sval.splits)
  have p: "take 1 (permute [0, 2, 1] args) = take 1 args" if "length args = 3" for args
    using that by (cases args) (simp_all add: permute_def)
  show "route_ok (st_countUsers, 1, sq_countUsers, id)"
    by (rule route_okI [where st' = sx_countUsers])
      (simp_all add: sqlc_stmts_def sx_countUsers_def st_countUsers_def h [OF refl])
  have w: "row_window (Some (3, 2)) (permute [0, 2, 1] args) rs = row_window (Some (2, 3)) args rs" if "length args = 3" for args rs
    using that by (simp add: row_window_def permute_def split: sval.splits)
  have "answers le now T sx_listUsers (permute [0, 2, 1] args) out = answers le now T st_listUsers args out"
    if "length args = 3" for args le now T out
    unfolding sx_listUsers_def st_listUsers_def answers.simps h [OF p [OF that]] w [OF that] ..
  then show "route_ok (st_listUsers, 3, sq_listUsers, permute [0, 2, 1])"
    by (intro route_okI [where st' = sx_listUsers]) (simp_all add: sqlc_stmts_def, simp_all add: sx_listUsers_def st_listUsers_def)
qed

text \<open>The columns the generated \<open>INSERT\<close> leaves out default to \<open>now()\<close>.\<close>

lemma create_route_ok: "route_ok (st_createUser, 17, sq_createUser, id)"
proof -
  have "exec J now sr sx_createUser args T = exec J now sr st_createUser args T" for J now sr args T
    unfolding sx_createUser_def st_createUser_def exec.simps new_row_def user_columns_def
    by (simp del: ev.simps) (simp only: ev.simps)
  then show ?thesis
    by (intro route_okI [where st' = sx_createUser])
      (simp_all add: sqlc_stmts_def del: exec.simps, simp_all add: sx_createUser_def st_createUser_def)
qed

definition routes :: "route list" where
  "routes = same_routes @ other_routes"

lemma routes_ok: "list_all route_ok routes"
  using same_routes_ok updates_ok search_ok create_route_ok by (simp add: routes_def other_routes_def)

text \<open>Four statements of \<open>pgxstore\<close> have no counterpart; the stores of \<open>pgxsqlc\<close> do their work with two.\<close>

definition no_route :: "stmt list" where
  "no_route = [st_userExists, st_roleExistsByName, st_addToRole, st_removeFromRole]"

lemma routes_distinct: "distinct (no_route @ map fst routes)"
proof -
  have "mset (no_route @ map fst routes) = mset pgx_stmts"
    unfolding no_route_def routes_def same_routes_def other_routes_def pgx_stmts_def by simp
  then show ?thesis using pgx_stmts_distinct mset_eq_imp_distinct_iff by metis
qed

end
