(* ===== verification/Sqlc_Driver.thy ===== *)
theory Sqlc_Driver
  imports Sqlc_Simulation
begin

text \<open>
  The driver a pool of \<open>pgxsqlc\<close> is turned into: it answers the texts of \<open>pgxstore\<close> with generated
  ones, and it is a server for \<open>pgxstore\<close>.
\<close>

section \<open>The driver\<close>

definition via :: "string \<Rightarrow> sval list \<Rightarrow> (string \<times> sval list) option" where
  "via q args =
     (case stmt_of q of
        None \<Rightarrow> None
      | Some st \<Rightarrow>
          (case map_of routes st of
             None \<Rightarrow> None
           | Some (k, ls, f) \<Rightarrow> if length args = k then Some (unlines ls, f args) else None))"

text \<open>Whether a query finds a row.\<close>

definition some_row :: "go_error + sval list list \<Rightarrow> go_error + sval list list" where
  "some_row r = (case r of Inl e \<Rightarrow> Inl e | Inr rows \<Rightarrow> Inr [[Bool (rows \<noteq> [])]])"

text \<open>A statement on a role that is given by its name: first its id, then the statement.\<close>

definition via_role :: "'s pgx \<Rightarrow> string list \<Rightarrow> sval list \<Rightarrow> 's \<Rightarrow> (go_error + int) \<times> 's" where
  "via_role q ls args s =
     (case args of
        [u, n] \<Rightarrow>
          (case pg_Query q (unlines sq_getRoleIDByName) [n] s of
             Inl e \<Rightarrow> (Inl e, s)
           | Inr [] \<Rightarrow> (Inr 0, s)
           | Inr (row # _) \<Rightarrow>
               (case scan_one asText row of
                  Inl e \<Rightarrow> (Inl e, s) | Inr rid \<Rightarrow> pg_Exec q (unlines ls) [u, Text rid] s))
      | _ \<Rightarrow> (Inl errScan, s))"

definition route_exec :: "'s pgx \<Rightarrow> string \<Rightarrow> sval list \<Rightarrow> 's \<Rightarrow> (go_error + int) \<times> 's" where
  "route_exec q t args s =
     (if stmt_of t = Some st_addToRole then via_role q sq_addUserToRole args s
      else if stmt_of t = Some st_removeFromRole then via_role q sq_removeUserFromRole args s
      else case via t args of None \<Rightarrow> (Inl errScan, s) | Some (t', args') \<Rightarrow> pg_Exec q t' args' s)"

definition route_query :: "'s pgx \<Rightarrow> string \<Rightarrow> sval list \<Rightarrow> 's \<Rightarrow> go_error + sval list list" where
  "route_query q t args s =
     (if stmt_of t = Some st_userExists then some_row (pg_Query q (unlines sq_getUserByID) args s)
      else if stmt_of t = Some st_roleExistsByName then some_row (pg_Query q (unlines sq_getRoleIDByName) args s)
      else case via t args of None \<Rightarrow> Inl errScan | Some (t', args') \<Rightarrow> pg_Query q t' args' s)"

definition route_batch :: "('s, 't) sqlc_db \<Rightarrow> (string \<times> sval list) list \<Rightarrow> 's \<Rightarrow> go_error option \<times> 's" where
  "route_batch d qs s =
     (case those (map (\<lambda>(t, args). via t args) qs) of None \<Rightarrow> (Some errScan, s) | Some qs' \<Rightarrow> run_tx d qs' s)"

definition as_pgx :: "('s, 't) sqlc_db \<Rightarrow> 's pgx" where
  "as_pgx d = \<lparr>pg_Exec = route_exec (sd_pool d), pg_Query = route_query (sd_pool d), pg_SendBatch = route_batch d\<rparr>"

section \<open>Where a text goes\<close>

lemma route_found: "(st, k, ls, f) \<in> set routes \<Longrightarrow> map_of routes st = Some (k, ls, f)"
  using routes_distinct by simp

lemma route_other: "(st, k, ls, f) \<in> set routes \<Longrightarrow> st \<notin> set no_route"
  using routes_distinct by (force simp: disjoint_iff)

lemma via_route:
  assumes "reads_as DefaultNaming t st" and "(st, k, ls, f) \<in> set routes" and "length args = k"
  shows "via t args = Some (unlines ls, f args)"
  using assms stmt_of_reads route_found by (simp add: via_def)

definition acts_as :: "stmt \<Rightarrow> sval list \<Rightarrow> stmt \<Rightarrow> sval list \<Rightarrow> bool" where
  "acts_as st' args' st args \<longleftrightarrow> is_query st' = is_query st \<and>
     (\<forall>J now sr T. exec J now sr st' args' T = exec J now sr st args T) \<and>
     (\<forall>le now T out. answers le now T st' args' out = answers le now T st args out)"

lemma via_reads:
  assumes "reads_as DefaultNaming t st" and "via t args = Some (t', args')"
  shows "\<exists>st'. sqlc_reads_as t' st' \<and> acts_as st' args' st args"
proof -
  from assms obtain k ls f where r: "map_of routes st = Some (k, ls, f)" "length args = k" "t' = unlines ls" "args' = f args"
    using stmt_of_reads by (fastforce simp: via_def split: option.splits prod.splits if_splits)
  then have "route_ok (st, k, ls, f)" using routes_ok map_of_SomeD by (fastforce simp: list_all_iff)
  with r show ?thesis unfolding route_ok_def acts_as_def by auto
qed

lemma routed:
  assumes "reads_as DefaultNaming t st" and "(st, k, ls, f) \<in> set routes" and "length args = k"
  shows "pg_Exec (as_pgx d) t args s = pg_Exec (sd_pool d) (unlines ls) (f args) s"
    and "pg_Query (as_pgx d) t args s = pg_Query (sd_pool d) (unlines ls) (f args) s"
  using via_route [OF assms] stmt_of_reads [OF assms(1)] route_other [OF assms(2)]
  by (simp_all add: as_pgx_def route_exec_def route_query_def no_route_def)

section \<open>The statements on roles\<close>

lemma errScan_driver: "driver_error errScan"
  by (simp add: errScan_def driver_error_def pgx_ErrNoRows_def)

lemma scan_text_error: "scan_one asText row = Inl e \<Longrightarrow> e = errScan"
  by (auto simp: scan_one_def split: list.splits option.splits)

lemma sqlc_errors:
  assumes "sqlc_server_ok d V"
  shows "fst (pg_Exec (sd_pool d) q args s) = Inl e \<Longrightarrow> driver_error e"
    and "pg_Query (sd_pool d) q args s = Inl e \<Longrightarrow> driver_error e"
    and "fst (run_tx d qs s) = Some e \<Longrightarrow> driver_error e"
    and "constraints (v_tables V s)"
  using assms unfolding sqlc_server_ok_def server_runs_def by auto

lemma sqlc_exec:
  assumes "sqlc_server_ok d V" and "sqlc_reads_as q st" and "\<not> is_query st"
  shows "exec_as V st args s (pg_Exec (sd_pool d) q args s)"
  using assms unfolding sqlc_server_ok_def server_runs_def by auto

lemma sqlc_query:
  assumes "sqlc_server_ok d V" and "sqlc_reads_as q st" and "is_query st" and "pg_Query (sd_pool d) q args s = Inr out"
  shows "answers (v_le V) (v_clock V s) (v_tables V s) st args out"
  using assms unfolding sqlc_server_ok_def server_runs_def by auto

text \<open>Role names are unique, so there is at most one row.\<close>

definition named :: "sval \<Rightarrow> row \<Rightarrow> bool" where
  "named n r \<longleftrightarrow> fld r ''normalized_name'' \<noteq> Null \<and> fld r ''normalized_name'' = bound n"

lemma holds_named:
  "holds T [n] now (Eq (Col ''normalized_name'') (Par 1)) = named n"
  "holds T [u, n] now (Eq (Col ''normalized_name'') (Par 2)) = named n"
  by (auto simp: named_def fun_eq_iff)

lemma exec_as_cong:
  assumes "\<And>J now sr. exec J now sr st args (v_tables V s) = exec J now sr st' args' (v_tables V s)"
  shows "exec_as V st args s res = exec_as V st' args' s res"
  unfolding exec_as_def assms ..

lemma role_rows:
  assumes "sqlc_server_ok d V" and "pg_Query (sd_pool d) (unlines sq_getRoleIDByName) [n] s = Inr out"
  obtains "out = []" "filter_mset (named n) (v_tables V s Roles) = {#}"
  | r rid where "out = [[Text rid]]" "r \<in># v_tables V s Roles" "filter_mset (named n) (v_tables V s Roles) = {#r#}" "fld r ''id'' = Text rid"
proof -
  let ?M = "v_tables V s Roles"
  have "sqlc_reads_as (unlines sq_getRoleIDByName) sx_getRoleIDByName"
    by (rule reads_sqlc) (simp add: sqlc_stmts_def)
  from sqlc_query [OF assms(1) this _ assms(2)]
  obtain rs where rs: "mset rs = filter_mset (named n) ?M" "out = map (\<lambda>r. [fld r ''id'']) rs"
    unfolding sx_getRoleIDByName_def answers.simps holds_named by (auto simp: row_window_def)
  show thesis
  proof (cases rs)
    case Nil
    with rs that(1) show thesis by simp
  next
    case (Cons r rs')
    with arg_cong [OF rs(1), of set_mset] have r: "r \<in># ?M" "named n r" by auto
    have u: "unique_on [''normalized_name''] ?M"
      using constraints_unique [OF sqlc_errors(4) [OF assms(1)]] by (simp add: uniques_simps)
    have "filter_mset (named n) ?M = filter_mset (\<lambda>r'. same_on [''normalized_name''] r' r) ?M"
      using r by (intro filter_mset_cong) (auto simp: named_def same_on_def)
    then have one: "filter_mset (named n) ?M = {#r#}" using unique_on_filter [OF u r(1)] by simp
    obtain rid where rid: "fld r ''id'' = Text rid"
      using typed_fld [OF constraints_typed [OF sqlc_errors(4) [OF assms(1)] r(1)], of "''id''"] has_text by fastforce
    from one rs(1) Cons have "rs = [r]" by simp
    with that(2) [OF _ r(1) one rid] rs(2) rid show thesis by simp
  qed
qed

lemma add_role_same:
  assumes "filter_mset (named n) (T Roles) = {#r#}" and "fld r ''id'' = Text rid"
  shows "exec J now sr st_addToRole [u, n] T = exec J now sr sx_addUserToRole [u, Text rid] T"
  unfolding st_addToRole_def exec.simps holds_named assms(1)
  by (simp add: sx_addUserToRole_def insert_row_def Let_def assms(2))

lemma holds_of_role:
  "holds T [u, n] now (EqSel ''role_id'' ''id'' Roles (Eq (Col ''normalized_name'') (Par 2))) r \<longleftrightarrow>
   fld r ''role_id'' \<noteq> Null \<and> (\<exists>x. x \<in># filter_mset (named n) (T Roles) \<and> fld x ''id'' = fld r ''role_id'')"
  unfolding holds.simps(11) holds_named by auto

lemma remove_role_same:
  assumes "filter_mset (named n) (T Roles) = {#r#}" and "fld r ''id'' = Text rid"
  shows "exec J now sr st_removeFromRole [u, n] T = exec J now sr sx_removeUserFromRole [u, Text rid] T"
proof -
  have "holds T [u, n] now (AndC (Eq (Col ''user_id'') (Par 1)) (EqSel ''role_id'' ''id'' Roles (Eq (Col ''normalized_name'') (Par 2)))) =
      holds T [u, Text rid] now (AndC (Eq (Col ''user_id'') (Par 1)) (Eq (Col ''role_id'') (Par 2)))"
    unfolding fun_eq_iff holds.simps(7) holds_of_role assms(1) by (auto simp: assms(2))
  then show ?thesis unfolding st_removeFromRole_def sx_removeUserFromRole_def exec.simps by (simp only: qual_Nil)
qed

lemma no_role_nothing:
  assumes "filter_mset (named n) (T Roles) = {#}"
  shows "exec J now sr st_addToRole [u, n] T = (0, T)" and "exec J now sr st_removeFromRole [u, n] T = (0, T)"
proof -
  show "exec J now sr st_addToRole [u, n] T = (0, T)"
    unfolding st_addToRole_def exec.simps holds_named assms by simp
  have h: "holds T [u, n] now (AndC (Eq (Col ''user_id'') (Par 1)) (EqSel ''role_id'' ''id'' Roles (Eq (Col ''normalized_name'') (Par 2)))) =
      (\<lambda>_. False)"
    unfolding fun_eq_iff holds.simps(7) holds_of_role assms by simp
  show "exec J now sr st_removeFromRole [u, n] T = (0, T)"
    unfolding st_removeFromRole_def exec.simps qual_Nil h by (simp add: delete_rows_def orphaned_def fun_eq_iff)
qed

lemma via_role_exec:
  assumes "sqlc_server_ok d V" and "(ls, st') \<in> set sqlc_stmts" and "\<not> is_query st'"
    and one: "\<And>J now sr T u n r rid. filter_mset (named n) (T Roles) = {#r#} \<Longrightarrow> fld r ''id'' = Text rid \<Longrightarrow>
      exec J now sr st [u, n] T = exec J now sr st' [u, Text rid] T"
    and none: "\<And>J now sr T u n. filter_mset (named n) (T Roles) = {#} \<Longrightarrow> exec J now sr st [u, n] T = (0, T)"
  shows "exec_as V st args s (via_role (sd_pool d) ls args s)"
proof (cases "\<exists>u n. args = [u, n]")
  case False
  then have "via_role (sd_pool d) ls args s = (Inl errScan, s)"
    by (auto simp: via_role_def split: list.splits)
  then show ?thesis by (simp add: exec_as_def)
next
  case True
  then obtain u n where a: "args = [u, n]" by blast
  show ?thesis
  proof (cases "pg_Query (sd_pool d) (unlines sq_getRoleIDByName) [n] s")
    case (Inl e)
    then show ?thesis by (simp add: via_role_def a exec_as_def)
  next
    case (Inr out)
    from assms(1) this show ?thesis
    proof (cases rule: role_rows)
      case 1
      with Inr none show ?thesis by (simp add: via_role_def a exec_as_def)
    next
      case (2 r rid)
      have "exec_as V st' [u, Text rid] s (pg_Exec (sd_pool d) (unlines ls) [u, Text rid] s)"
        by (rule sqlc_exec [OF assms(1) reads_sqlc [OF assms(2)] assms(3)])
      also have "exec_as V st' [u, Text rid] s = exec_as V st [u, n] s"
        by (intro ext exec_as_cong one [symmetric]) (fact 2)+
      finally show ?thesis using Inr 2 by (simp add: via_role_def a scan_one_def asText_def)
    qed
  qed
qed

section \<open>It is a server for \<open>pgxstore\<close>\<close>

lemma sqlc_batch:
  assumes "sqlc_server_ok d V"
    and "list_all2 (\<lambda>(q, args) (st, args'). args = args' \<and> sqlc_reads_as q st \<and> \<not> is_query st) qs sts"
  shows "batch_as V sts s (run_tx d qs s)"
  using assms unfolding sqlc_server_ok_def server_runs_def by auto

lemma those_via:
  assumes "list_all2 (\<lambda>(q, args) (st, args'). args = args' \<and> reads_as DefaultNaming q st \<and> \<not> is_query st) qs sts"
    and "those (map (\<lambda>(t, args). via t args) qs) = Some qs'"
  shows "\<exists>sts'. list_all2 (\<lambda>(q, args) (st, args'). args = args' \<and> sqlc_reads_as q st \<and> \<not> is_query st) qs' sts' \<and>
    length sts' = length sts \<and> (\<forall>J now srs T. exec_all J now (zip srs sts') T = exec_all J now (zip srs sts) T)"
  using assms
proof (induction qs sts arbitrary: qs' rule: list_all2_induct)
  case Nil
  then show ?case by simp
next
  case (Cons x qs y sts)
  obtain t args st where x: "x = (t, args)" "y = (st, args)" "reads_as DefaultNaming t st" "\<not> is_query st"
    using Cons.hyps by (auto split: prod.splits)
  with Cons.prems obtain t' args' qs'' where v: "via t args = Some (t', args')" "qs' = (t', args') # qs''"
      "those (map (\<lambda>(t, args). via t args) qs) = Some qs''"
    by (auto split: option.splits)
  from via_reads [OF x(3) v(1)] obtain st' where st': "sqlc_reads_as t' st'" "acts_as st' args' st args"
    by blast
  from Cons.IH [OF v(3)] obtain sts' where sts':
      "list_all2 (\<lambda>(q, args) (st, args'). args = args' \<and> sqlc_reads_as q st \<and> \<not> is_query st) qs'' sts'"
      "length sts' = length sts" "\<And>J now srs T. exec_all J now (zip srs sts') T = exec_all J now (zip srs sts) T" by blast
  have "exec_all J now (zip srs ((st', args') # sts')) T = exec_all J now (zip srs ((st, args) # sts)) T" for J now srs T
    using st'(2) sts'(3) by (cases srs) (simp_all add: acts_as_def)
  moreover have "list_all2 (\<lambda>(q, args) (st, args'). args = args' \<and> sqlc_reads_as q st \<and> \<not> is_query st) qs' ((st', args') # sts')"
    using st' x(4) sts'(1) unfolding v(2) by (simp add: acts_as_def)
  ultimately show ?case using sts'(2) unfolding x(2) by (intro exI [of _ "(st', args') # sts'"]) simp
qed

lemma route_batch_as:
  assumes "sqlc_server_ok d V"
    and "list_all2 (\<lambda>(q, args) (st, args'). args = args' \<and> reads_as DefaultNaming q st \<and> \<not> is_query st) qs sts"
  shows "batch_as V sts s (route_batch d qs s)"
proof (cases "those (map (\<lambda>(t, args). via t args) qs)")
  case None
  then show ?thesis by (simp add: route_batch_def batch_as_def)
next
  case (Some qs')
  from those_via [OF assms(2) this] obtain sts' where sts':
      "list_all2 (\<lambda>(q, args) (st, args'). args = args' \<and> sqlc_reads_as q st \<and> \<not> is_query st) qs' sts'"
      "length sts' = length sts" "\<And>J now srs T. exec_all J now (zip srs sts') T = exec_all J now (zip srs sts) T" by blast
  have "route_batch d qs s = run_tx d qs' s" using Some by (simp add: route_batch_def)
  with sqlc_batch [OF assms(1) sts'(1), of s] show ?thesis by (simp only: batch_as_def sts'(2, 3))
qed

lemma route_exec_as:
  assumes "sqlc_server_ok d V" and "reads_as DefaultNaming t st" and "\<not> is_query st"
  shows "exec_as V st args s (route_exec (sd_pool d) t args s)"
proof -
  note st = stmt_of_reads [OF assms(2)]
  have a: "(sq_addUserToRole, sx_addUserToRole) \<in> set sqlc_stmts" "(sq_removeUserFromRole, sx_removeUserFromRole) \<in> set sqlc_stmts"
    "\<not> is_query sx_addUserToRole" "\<not> is_query sx_removeUserFromRole"
    by (simp_all add: sqlc_stmts_def) (simp_all add: sx_addUserToRole_def sx_removeUserFromRole_def)
  consider "st = st_addToRole" | "st = st_removeFromRole" | "st \<noteq> st_addToRole" "st \<noteq> st_removeFromRole" "via t args = None"
    | t' args' where "st \<noteq> st_addToRole" "st \<noteq> st_removeFromRole" "via t args = Some (t', args')" by fastforce
  then show ?thesis
  proof cases
    case 1
    have "exec_as V st_addToRole args s (via_role (sd_pool d) sq_addUserToRole args s)"
      using assms(1) a(1, 3) by (rule via_role_exec) (rule add_role_same no_role_nothing; assumption)+
    with 1 st show ?thesis by (simp add: route_exec_def)
  next
    case 2
    have "exec_as V st_removeFromRole args s (via_role (sd_pool d) sq_removeUserFromRole args s)"
      using assms(1) a(2, 4) by (rule via_role_exec) (rule remove_role_same no_role_nothing; assumption)+
    moreover have "st_removeFromRole \<noteq> st_addToRole" by (simp add: st_removeFromRole_def st_addToRole_def)
    ultimately show ?thesis using 2 st by (simp add: route_exec_def)
  next
    case 3
    then show ?thesis using st by (simp add: route_exec_def exec_as_def)
  next
    case 4
    from via_reads [OF assms(2) 4(3)] obtain st' where st': "sqlc_reads_as t' st'" "acts_as st' args' st args"
    by blast
    with sqlc_exec [OF assms(1) st'(1)] assms(3) have "exec_as V st' args' s (pg_Exec (sd_pool d) t' args' s)"
      by (simp add: acts_as_def)
    moreover have "exec_as V st' args' s = exec_as V st args s"
      using st'(2) unfolding acts_as_def by (intro ext exec_as_cong) blast
    ultimately show ?thesis using 4 st by (simp add: route_exec_def)
  qed
qed

lemma route_query_answers:
  assumes "sqlc_server_ok d V" and "reads_as DefaultNaming t st" and "is_query st"
    and "route_query (sd_pool d) t args s = Inr out"
  shows "answers (v_le V) (v_clock V s) (v_tables V s) st args out"
proof -
  note st = stmt_of_reads [OF assms(2)]
  have some: "answers (v_le V) (v_clock V s) (v_tables V s) (Exists tb a) args out"
    if "(ls, Select cs tb a None None) \<in> set sqlc_stmts" "some_row (pg_Query (sd_pool d) (unlines ls) args s) = Inr out" for ls cs tb a
  proof -
    from that(2) obtain rows where rows: "pg_Query (sd_pool d) (unlines ls) args s = Inr rows" "out = [[Bool (rows \<noteq> [])]]"
      by (auto simp: some_row_def split: sum.splits)
    from sqlc_query [OF assms(1) reads_sqlc [OF that(1)] _ rows(1)]
    obtain rs where rs: "mset rs = filter_mset (holds (v_tables V s) args (v_clock V s) a) (v_tables V s tb)"
        "rows = map (\<lambda>r. map (fld r) cs) rs" by (auto simp: row_window_def)
    from rs(2) arg_cong [OF rs(1), of set_mset] have
      "rows \<noteq> [] \<longleftrightarrow> (\<exists>r \<in># v_tables V s tb. holds (v_tables V s) args (v_clock V s) a r)"
      by (cases rs) auto
    with rows(2) show ?thesis by simp
  qed
  have m: "(sq_getUserByID, st_findUserByID) \<in> set sqlc_stmts" "(sq_getRoleIDByName, sx_getRoleIDByName) \<in> set sqlc_stmts"
    by (simp_all add: sqlc_stmts_def)
  consider "st = st_userExists" | "st = st_roleExistsByName" | "st \<noteq> st_userExists" "st \<noteq> st_roleExistsByName" "via t args = None"
    | t' args' where "st \<noteq> st_userExists" "st \<noteq> st_roleExistsByName" "via t args = Some (t', args')" by fastforce
  then show ?thesis
  proof cases
    case 1
    then show ?thesis using some [OF m(1) [unfolded st_findUserByID_def]] assms(4) st
      by (simp add: route_query_def st_userExists_def)
  next
    case 2
    then show ?thesis using some [OF m(2) [unfolded sx_getRoleIDByName_def]] assms(4) st
      by (simp add: route_query_def st_roleExistsByName_def st_userExists_def)
  next
    case 3
    then show ?thesis using assms(4) st by (simp add: route_query_def)
  next
    case 4
    from via_reads [OF assms(2) 4(3)] obtain st' where st': "sqlc_reads_as t' st'" "acts_as st' args' st args"
    by blast
    from sqlc_query [OF assms(1) st'(1), of args' s out] st'(2) assms(3, 4) 4 st show ?thesis
      by (simp add: route_query_def acts_as_def)
  qed
qed

theorem as_pgx_server:
  assumes "sqlc_server_ok d V"
  shows "server_ok DefaultNaming (as_pgx d) V"
proof -
  have "driver_error e" if "fst (route_exec (sd_pool d) t args s) = Inl e" for t args s e
    using that sqlc_errors(1, 2) [OF assms] errScan_driver
    by (auto simp: route_exec_def via_role_def split: if_splits option.splits list.splits sum.splits dest: scan_text_error)
  moreover have "driver_error e" if "route_query (sd_pool d) t args s = Inl e" for t args s e
    using that sqlc_errors(2) [OF assms] errScan_driver
    by (auto simp: route_query_def some_row_def split: if_splits option.splits sum.splits)
  moreover have "driver_error e" if "fst (route_batch d qs s) = Some e" for qs s e
    using that sqlc_errors(3) [OF assms] errScan_driver by (auto simp: route_batch_def split: option.splits)
  ultimately show ?thesis
    using sqlc_errors(4) [OF assms] route_exec_as [OF assms] route_query_answers [OF assms] route_batch_as [OF assms]
    unfolding server_ok_def server_runs_def as_pgx_def by auto
qed

end
