(* ===== verification/Sqlc_Equal.thy ===== *)
theory Sqlc_Equal
  imports Sqlc_Driver
begin

text \<open>
  Operation by operation, the stores of \<open>pgxsqlc\<close> do on a pool what those of \<open>pgxstore\<close> do on the
  driver the pool is turned into.
\<close>

section \<open>The texts\<close>

text \<open>The texts of \<open>pgxstore\<close> in the order of \<open>routes\<close>.\<close>

definition route_texts :: "string list" where
  "route_texts =
     [q_deleteUser (buildQueries DefaultNaming), q_findUserByID (buildQueries DefaultNaming),
      q_findUserByName (buildQueries DefaultNaming), q_findUserByEmail (buildQueries DefaultNaming),
      q_purgeAnonymous (buildQueries DefaultNaming), q_getRoles (buildQueries DefaultNaming),
      q_isInRole (buildQueries DefaultNaming), q_usersInRole (buildQueries DefaultNaming),
      q_usersForClaim (buildQueries DefaultNaming), q_getUserClaims (buildQueries DefaultNaming),
      q_addUserClaim (buildQueries DefaultNaming), q_removeUserClaim (buildQueries DefaultNaming),
      q_getToken (buildQueries DefaultNaming), q_setToken (buildQueries DefaultNaming),
      q_removeToken (buildQueries DefaultNaming), q_addLogin (buildQueries DefaultNaming),
      q_removeLogin (buildQueries DefaultNaming), q_getLogins (buildQueries DefaultNaming),
      q_findByLogin (buildQueries DefaultNaming), q_createRole (buildQueries DefaultNaming),
      q_deleteRole (buildQueries DefaultNaming), q_roleExists (buildQueries DefaultNaming),
      q_findRoleByID (buildQueries DefaultNaming), q_findRoleByName (buildQueries DefaultNaming),
      q_getRoleClaims (buildQueries DefaultNaming), q_addRoleClaim (buildQueries DefaultNaming),
      q_removeRoleClaim (buildQueries DefaultNaming), ak_create (buildAPIKeyQueries DefaultNaming),
      ak_getActiveByHash (buildAPIKeyQueries DefaultNaming), ak_listByUser (buildAPIKeyQueries DefaultNaming),
      ak_revoke (buildAPIKeyQueries DefaultNaming), ak_touch (buildAPIKeyQueries DefaultNaming),
      rq_create (buildRefreshTokenQueries DefaultNaming), rq_getBySession (buildRefreshTokenQueries DefaultNaming),
      rq_del (buildRefreshTokenQueries DefaultNaming), rq_delByUser (buildRefreshTokenQueries DefaultNaming),
      rq_delExpired (buildRefreshTokenQueries DefaultNaming),
      rq_listByUser (buildRefreshTokenQueries DefaultNaming), oq_createClient (buildOAuthQueries DefaultNaming),
      oq_getClient (buildOAuthQueries DefaultNaming), oq_touchClient (buildOAuthQueries DefaultNaming),
      oq_deleteStaleClients (buildOAuthQueries DefaultNaming), oq_createCode (buildOAuthQueries DefaultNaming),
      oq_getCode (buildOAuthQueries DefaultNaming), oq_deleteExpiredCodes (buildOAuthQueries DefaultNaming),
      oq_getConsent (buildOAuthQueries DefaultNaming), oq_saveConsent (buildOAuthQueries DefaultNaming),
      oq_deleteConsent (buildOAuthQueries DefaultNaming), oq_createGrant (buildOAuthQueries DefaultNaming),
      oq_getGrant (buildOAuthQueries DefaultNaming), oq_deleteGrant (buildOAuthQueries DefaultNaming),
      oq_deleteUserClientGrants (buildOAuthQueries DefaultNaming),
      oq_listUserGrants (buildOAuthQueries DefaultNaming),
      oq_deleteExpiredGrants (buildOAuthQueries DefaultNaming), oq_useAssertion (buildOAuthQueries DefaultNaming),
      oq_deleteExpiredAssertions (buildOAuthQueries DefaultNaming), q_createUser (buildQueries DefaultNaming),
      q_updateUser (buildQueries DefaultNaming), q_countUsers (buildQueries DefaultNaming),
      q_listUsers (buildQueries DefaultNaming), q_updateRole (buildQueries DefaultNaming),
      rq_update (buildRefreshTokenQueries DefaultNaming), oq_markCodeUsed (buildOAuthQueries DefaultNaming),
      oq_rotateGrant (buildOAuthQueries DefaultNaming)]"

lemma route_texts_read: "list_all2 (\<lambda>t r. reads_as DefaultNaming t (fst r)) route_texts routes"
  by (simp add: route_texts_def routes_def same_routes_def other_routes_def reads default_names_ok)

lemma routed_texts:
  "list_all2 (\<lambda>t (st, k, ls, f). \<forall>args s. length args = k \<longrightarrow>
     pg_Exec (as_pgx d) t args s = pg_Exec (sd_pool d) (unlines ls) (f args) s \<and>
     pg_Query (as_pgx d) t args s = pg_Query (sd_pool d) (unlines ls) (f args) s) route_texts routes"
proof -
  have "list_all2 (\<lambda>t r. reads_as DefaultNaming t (fst r) \<and> r \<in> set routes) route_texts routes"
    using route_texts_read by (simp add: list_all2_conv_all_nth)
  then show ?thesis by (rule list_all2_mono) (auto intro: routed)
qed

lemmas routed_simps = routed_texts [unfolded route_texts_def routes_def same_routes_def other_routes_def, simplified, unfolded permute_def, simplified]


lemmas sends = exec_tag_def exec_err_def query_row_def query_one_def query_rows_def

lemmas new_stores = NewUserStore_def NewRoleStore_def NewAPIKeyStore_def NewRefreshTokenStore_def NewOAuthStore_def resolve_def

section \<open>Scanning\<close>

lemma scan_errors:
  "scan_identity_user vs = Inl e \<Longrightarrow> e = errScan" "scan_identity_role vs = Inl e \<Longrightarrow> e = errScan"
  "scan_identity_key vs = Inl e \<Longrightarrow> e = errScan" "scan_identity_client vs = Inl e \<Longrightarrow> e = errScan"
  "scanRefreshTokenRow vs = Inl e \<Longrightarrow> e = errScan" "scan_code vs = Inl e \<Longrightarrow> e = errScan"
  "scan_consent vs = Inl e \<Longrightarrow> e = errScan" "scanGrantRow vs = Inl e \<Longrightarrow> e = errScan"
  by (auto simp: scan_identity_user_def scan_identity_role_def scan_identity_key_def scan_identity_client_def
      scanRefreshTokenRow_def scan_code_def scan_consent_def scanGrantRow_def split: list.splits option.splits)

lemma mapNotFound_scan [simp]: "mapNotFound errScan = errScan"
  by (simp add: mapNotFound_def errScan_def pgx_ErrNoRows_def)

text \<open>A row that is there never scans to \<open>ErrNoRows\<close>.\<close>

lemma found_struct:
  assumes "\<And>vs e. g vs = Inl e \<Longrightarrow> e = errScan"
  shows "found f (query_struct q g t args w) =
    (case query_row q t args w of Inl e \<Rightarrow> Inl (mapNotFound e) | Inr vs \<Rightarrow> map_sum id f (g vs))"
  using assms by (auto simp: found_def query_struct_def split: sum.splits) force

lemmas found_rows = found_struct [of scan_identity_user, OF scan_errors(1)] found_struct [of scan_identity_role, OF scan_errors(2)]
  found_struct [of scan_identity_key, OF scan_errors(3)] found_struct [of scanRefreshTokenRow, OF scan_errors(5)]
  found_struct [of scan_code, OF scan_errors(6)] found_struct [of scan_consent, OF scan_errors(7)]
  found_struct [of scanGrantRow, OF scan_errors(8)]

lemma listed_sum: "listed f r = map_sum id (map f) r"
  by (cases r) (simp_all add: listed_def)

lemma scan_rows_map:
  assumes "\<And>vs. g' vs = map_sum id f (g vs)"
  shows "scan_rows g' rows = map_sum id (map f) (scan_rows g rows)"
proof (induction rows)
  case (Cons r rows)
  then show ?case by (cases "g r"; cases "scan_rows g rows") (simp_all add: assms)
qed simp

lemma scan_role: "scanRole row = (case row of Inl e \<Rightarrow> Inl (mapNotFound e) | Inr vs \<Rightarrow> scan_identity_role vs)"
  by (cases row) (simp_all add: scanRole_def scan_identity_role_def)

lemma scan_key: "scanAPIKeyRow vs = map_sum id toAPIKey (scan_identity_key vs)"
  unfolding scanAPIKeyRow_def scan_identity_key_def
  by (auto simp: toAPIKey_def split: list.splits Option.bind_splits option.splits)

lemma scan_client: "scan_client vs = (case scan_identity_client vs of Inl e \<Rightarrow> Inl e
    | Inr (c, redirectUris, grantTypes) \<Rightarrow>
        (case json_Unmarshal_list redirectUris of
           None \<Rightarrow> Inl (StoreErr ''json'')
         | Some rs \<Rightarrow>
             (case json_Unmarshal_list grantTypes of
                None \<Rightarrow> Inl (StoreErr ''json'')
              | Some gs \<Rightarrow> Inr (c\<lparr>cl_RedirectURIs := rs, cl_GrantTypes := gs\<rparr>))))"
  unfolding scan_client_def scan_identity_client_def
  by (auto split: list.splits Option.bind_splits option.splits)

lemmas scan_cases = found_rows listed_sum scan_role scan_key scan_client scan_rows_map [of scanAPIKeyRow, OF scan_key]
  scanRefreshToken_def scanGrant_def scanAPIKey_def sum.map_id list.map_id

section \<open>Roles\<close>

lemma roles_equal:
  "sqlcr_Create d = pgxr_Create (NewRoleStore (as_pgx d) [])"
  "sqlcr_Update x d = pgxr_Update x (NewRoleStore (as_pgx d) [])"
  "sqlcr_Delete d = pgxr_Delete (NewRoleStore (as_pgx d) [])"
  "sqlcr_FindByID d = pgxr_FindByID (NewRoleStore (as_pgx d) [])"
  "sqlcr_FindByName d = pgxr_FindByName (NewRoleStore (as_pgx d) [])"
  "sqlcr_GetClaims d = pgxr_GetClaims (NewRoleStore (as_pgx d) [])"
  "sqlcr_AddClaim d = pgxr_AddClaim (NewRoleStore (as_pgx d) [])"
  "sqlcr_RemoveClaim d = pgxr_RemoveClaim (NewRoleStore (as_pgx d) [])"
  by (simp_all add: fun_eq_iff sends scan_cases new_stores routed_simps sqlcr_Create_def sqlcr_Update_def sqlcr_Delete_def
      sqlcr_FindByID_def sqlcr_FindByName_def sqlcr_GetClaims_def sqlcr_AddClaim_def sqlcr_RemoveClaim_def
      pgxr_Create_def pgxr_Update_def pgxr_Delete_def pgxr_FindByID_def pgxr_FindByName_def pgxr_GetClaims_def
      pgxr_AddClaim_def pgxr_RemoveClaim_def gen_CreateRole_def gen_UpdateRole_def gen_RoleExists_def
      gen_DeleteRole_def gen_GetRoleByID_def gen_GetRoleByName_def gen_GetRoleClaims_def gen_AddRoleClaim_def
      gen_DeleteRoleClaim_def
      split: sum.splits prod.splits if_splits)

section \<open>API keys and sessions\<close>

lemma scopes_same: "scopesJSON s = json_Marshal_list s"
  by (cases s) (simp_all add: scopesJSON_def json_Marshal_list_def)

lemma keys_equal:
  "sqlc_CreateAPIKey now d = pgx_CreateAPIKey now (NewAPIKeyStore (as_pgx d) [])"
  "sqlc_GetActiveAPIKeyByHash d = pgx_GetActiveAPIKeyByHash (NewAPIKeyStore (as_pgx d) [])"
  "sqlc_ListAPIKeysByUser d = pgx_ListAPIKeysByUser (NewAPIKeyStore (as_pgx d) [])"
  "sqlc_RevokeAPIKey d = pgx_RevokeAPIKey (NewAPIKeyStore (as_pgx d) [])"
  "sqlc_TouchAPIKeyLastUsed d = pgx_TouchAPIKeyLastUsed (NewAPIKeyStore (as_pgx d) [])"
  by (simp_all add: fun_eq_iff sends scan_cases new_stores routed_simps sqlc_CreateAPIKey_def sqlc_GetActiveAPIKeyByHash_def
      sqlc_ListAPIKeysByUser_def sqlc_RevokeAPIKey_def sqlc_TouchAPIKeyLastUsed_def pgx_CreateAPIKey_def
      pgx_GetActiveAPIKeyByHash_def pgx_ListAPIKeysByUser_def pgx_RevokeAPIKey_def pgx_TouchAPIKeyLastUsed_def
      gen_CreateAPIKey_def gen_GetActiveAPIKeyByHash_def gen_ListAPIKeysByUser_def gen_RevokeAPIKey_def
      gen_TouchAPIKeyLastUsed_def Let_def scopes_same
      split: sum.splits prod.splits if_splits)

lemma sessions_equal:
  "sqlc_CreateRefreshToken now d = pgx_CreateRefreshToken now (NewRefreshTokenStore (as_pgx d) [])"
  "sqlc_GetRefreshTokenBySession d = pgx_GetRefreshTokenBySession (NewRefreshTokenStore (as_pgx d) [])"
  "sqlc_UpdateRefreshToken d = pgx_UpdateRefreshToken (NewRefreshTokenStore (as_pgx d) [])"
  "sqlc_DeleteRefreshToken d = pgx_DeleteRefreshToken (NewRefreshTokenStore (as_pgx d) [])"
  "sqlc_DeleteUserRefreshTokens d = pgx_DeleteUserRefreshTokens (NewRefreshTokenStore (as_pgx d) [])"
  "sqlc_DeleteExpiredRefreshTokens d = pgx_DeleteExpiredRefreshTokens (NewRefreshTokenStore (as_pgx d) [])"
  "sqlc_ListUserRefreshTokens d = pgx_ListUserRefreshTokens (NewRefreshTokenStore (as_pgx d) [])"
  by (simp_all add: fun_eq_iff sends scan_cases new_stores routed_simps sqlc_CreateRefreshToken_def
      sqlc_GetRefreshTokenBySession_def sqlc_UpdateRefreshToken_def sqlc_DeleteRefreshToken_def
      sqlc_DeleteUserRefreshTokens_def sqlc_DeleteExpiredRefreshTokens_def sqlc_ListUserRefreshTokens_def
      pgx_CreateRefreshToken_def pgx_GetRefreshTokenBySession_def pgx_UpdateRefreshToken_def
      pgx_DeleteRefreshToken_def pgx_DeleteUserRefreshTokens_def pgx_DeleteExpiredRefreshTokens_def
      pgx_ListUserRefreshTokens_def gen_CreateRefreshToken_def gen_GetRefreshTokenBySession_def
      gen_UpdateRefreshToken_def gen_DeleteRefreshToken_def gen_DeleteUserRefreshTokens_def
      gen_DeleteExpiredRefreshTokens_def gen_ListUserRefreshTokens_def Let_def
      split: sum.splits prod.splits if_splits)

section \<open>The authorization server\<close>

lemma clients_equal:
  "sqlc_CreateClient d = pgx_CreateClient (NewOAuthStore (as_pgx d) [])"
  "sqlc_TouchClient d = pgx_TouchClient (NewOAuthStore (as_pgx d) [])"
  "sqlc_DeleteStaleClients d = pgx_DeleteStaleClients (NewOAuthStore (as_pgx d) [])"
  "sqlc_CreateCode d = pgx_CreateCode (NewOAuthStore (as_pgx d) [])"
  "sqlc_GetCode d = pgx_GetCode (NewOAuthStore (as_pgx d) [])"
  "sqlc_MarkCodeUsed d = pgx_MarkCodeUsed (NewOAuthStore (as_pgx d) [])"
  "sqlc_DeleteExpiredCodes d = pgx_DeleteExpiredCodes (NewOAuthStore (as_pgx d) [])"
  "sqlc_GetConsent d = pgx_GetConsent (NewOAuthStore (as_pgx d) [])"
  "sqlc_SaveConsent d = pgx_SaveConsent (NewOAuthStore (as_pgx d) [])"
  "sqlc_DeleteConsent d = pgx_DeleteConsent (NewOAuthStore (as_pgx d) [])"
  by (simp_all add: fun_eq_iff sends scan_cases new_stores routed_simps sqlc_CreateClient_def sqlc_TouchClient_def
      sqlc_DeleteStaleClients_def sqlc_CreateCode_def sqlc_GetCode_def sqlc_MarkCodeUsed_def
      sqlc_DeleteExpiredCodes_def sqlc_GetConsent_def sqlc_SaveConsent_def sqlc_DeleteConsent_def
      pgx_CreateClient_def pgx_TouchClient_def pgx_DeleteStaleClients_def pgx_CreateCode_def pgx_GetCode_def
      pgx_MarkCodeUsed_def pgx_DeleteExpiredCodes_def pgx_GetConsent_def pgx_SaveConsent_def
      pgx_DeleteConsent_def gen_CreateOAuthClient_def gen_TouchOAuthClient_def gen_DeleteStaleOAuthClients_def
      gen_CreateOAuthCode_def gen_GetOAuthCode_def gen_MarkOAuthCodeUsed_def gen_DeleteExpiredOAuthCodes_def
      gen_GetOAuthConsent_def gen_SaveOAuthConsent_def gen_DeleteOAuthConsent_def listJSON_def jsonList_def
      timePtr_def
      split: sum.splits prod.splits if_splits)

lemma GetClient_equal: "sqlc_GetClient d = pgx_GetClient (NewOAuthStore (as_pgx d) [])"
  by (auto simp: fun_eq_iff sends scan_cases new_stores routed_simps sqlc_GetClient_def pgx_GetClient_def gen_GetOAuthClient_def query_struct_def
      dest: scan_errors split: sum.splits list.splits)

lemma grants_equal:
  "sqlc_CreateGrant d = pgx_CreateGrant (NewOAuthStore (as_pgx d) [])"
  "sqlc_GetGrant d = pgx_GetGrant (NewOAuthStore (as_pgx d) [])"
  "sqlc_RotateGrant d = pgx_RotateGrant (NewOAuthStore (as_pgx d) [])"
  "sqlc_DeleteGrant d = pgx_DeleteGrant (NewOAuthStore (as_pgx d) [])"
  "sqlc_DeleteUserClientGrants d = pgx_DeleteUserClientGrants (NewOAuthStore (as_pgx d) [])"
  "sqlc_ListUserGrants d = pgx_ListUserGrants (NewOAuthStore (as_pgx d) [])"
  "sqlc_DeleteExpiredGrants d = pgx_DeleteExpiredGrants (NewOAuthStore (as_pgx d) [])"
  "sqlc_UseClientAssertion d = pgx_UseClientAssertion (NewOAuthStore (as_pgx d) [])"
  "sqlc_DeleteExpiredClientAssertions d = pgx_DeleteExpiredClientAssertions (NewOAuthStore (as_pgx d) [])"
  by (simp_all add: fun_eq_iff sends scan_cases new_stores routed_simps sqlc_CreateGrant_def sqlc_GetGrant_def
      sqlc_RotateGrant_def sqlc_DeleteGrant_def sqlc_DeleteUserClientGrants_def sqlc_ListUserGrants_def
      sqlc_DeleteExpiredGrants_def sqlc_UseClientAssertion_def sqlc_DeleteExpiredClientAssertions_def
      pgx_CreateGrant_def pgx_GetGrant_def pgx_RotateGrant_def pgx_DeleteGrant_def
      pgx_DeleteUserClientGrants_def pgx_ListUserGrants_def pgx_DeleteExpiredGrants_def
      pgx_UseClientAssertion_def pgx_DeleteExpiredClientAssertions_def gen_CreateOAuthGrant_def
      gen_GetOAuthGrant_def gen_RotateOAuthGrant_def gen_DeleteOAuthGrant_def
      gen_DeleteUserClientOAuthGrants_def gen_ListUserOAuthGrants_def gen_DeleteExpiredOAuthGrants_def
      gen_UseOAuthClientAssertion_def gen_DeleteExpiredOAuthClientAssertions_def timePtr_def
      split: sum.splits prod.splits if_splits)

section \<open>Users\<close>

lemma users_equal:
  "sqlc_PurgeAnonymousUsers d = pgx_PurgeAnonymousUsers (NewUserStore (as_pgx d) [])"
  "sqlc_Delete d = pgx_Delete (NewUserStore (as_pgx d) [])"
  "sqlc_GetRoles d = pgx_GetRoles (NewUserStore (as_pgx d) [])"
  "sqlc_IsInRole d = pgx_IsInRole (NewUserStore (as_pgx d) [])"
  "sqlc_GetClaims d = pgx_GetClaims (NewUserStore (as_pgx d) [])"
  "sqlc_GetToken d = pgx_GetToken (NewUserStore (as_pgx d) [])"
  "sqlc_SetToken d = pgx_SetToken (NewUserStore (as_pgx d) [])"
  "sqlc_RemoveToken d = pgx_RemoveToken (NewUserStore (as_pgx d) [])"
  "sqlc_AddLogin d = pgx_AddLogin (NewUserStore (as_pgx d) [])"
  "sqlc_RemoveLogin d = pgx_RemoveLogin (NewUserStore (as_pgx d) [])"
  "sqlc_GetLogins d = pgx_GetLogins (NewUserStore (as_pgx d) [])"
  by (simp_all add: fun_eq_iff sends scan_cases new_stores routed_simps sqlc_PurgeAnonymousUsers_def sqlc_Delete_def
      sqlc_GetRoles_def sqlc_IsInRole_def sqlc_GetClaims_def sqlc_GetToken_def sqlc_SetToken_def
      sqlc_RemoveToken_def sqlc_AddLogin_def sqlc_RemoveLogin_def sqlc_GetLogins_def
      pgx_PurgeAnonymousUsers_def pgx_Delete_def pgx_GetRoles_def pgx_IsInRole_def pgx_GetClaims_def
      pgx_GetToken_def pgx_SetToken_def pgx_RemoveToken_def pgx_AddLogin_def pgx_RemoveLogin_def
      pgx_GetLogins_def gen_PurgeAnonymousUsers_def gen_DeleteUser_def gen_GetUserRoles_def
      gen_IsUserInRole_def gen_GetUserClaims_def gen_GetUserToken_def gen_UpsertUserToken_def
      gen_DeleteUserToken_def gen_AddUserLogin_def gen_RemoveUserLogin_def gen_GetUserLogins_def
      split: sum.splits prod.splits if_splits)

text \<open>A decoding error of the attributes ends a lookup of \<open>pgxstore\<close> and is dropped by \<open>toUser\<close>.\<close>

definition lenient :: "go_error + 'a \<Rightarrow> go_error + 'a \<Rightarrow> bool" where
  "lenient r r' \<longleftrightarrow> r = r' \<or> r' = Inl (StoreErr ''json'')"

lemma lenient_refl [simp]: "lenient r r"
  by (simp add: lenient_def)

lemma scan_user_lenient: "lenient (map_sum id toUser (scan_identity_user vs)) (scanUserRow vs)"
  by (auto simp: lenient_def scan_identity_user_def scanUserRow_def toUser_def split: option.splits)

lemma scan_rows_lenient:
  assumes "\<And>vs. lenient (map_sum id f (g vs)) (g' vs)"
  shows "lenient (map_sum id (map f) (scan_rows g rows)) (scan_rows g' rows)"
proof (induction rows)
  case (Cons r rows)
  then show ?case
    using assms [of r] by (cases "g r"; cases "scan_rows g rows") (auto simp: lenient_def split: sum.splits)
qed simp

lemma finders_equal:
  "lenient (sqlc_FindByID d k w) (pgx_FindByID (NewUserStore (as_pgx d) []) k w)"
  "lenient (sqlc_FindByName d k w) (pgx_FindByName (NewUserStore (as_pgx d) []) k w)"
  "lenient (sqlc_FindByEmail d k w) (pgx_FindByEmail (NewUserStore (as_pgx d) []) k w)"
  "lenient (sqlc_GetUsersInRole d k w) (pgx_GetUsersInRole (NewUserStore (as_pgx d) []) k w)"
  "lenient (sqlc_GetUsersForClaim d k v w) (pgx_GetUsersForClaim (NewUserStore (as_pgx d) []) k v w)"
proof -
  have u: "lenient (map_sum id (map toUser) (scan_rows scan_identity_user rows)) (scan_rows scanUserRow rows)" for rows
    by (rule scan_rows_lenient [OF scan_user_lenient])
  have l: "lenient (case r of Inl e \<Rightarrow> Inl e | Inr rows \<Rightarrow> Inr (usersFromRows rows)) r' \<longleftrightarrow> lenient (map_sum id (map toUser) r) r'" for r r'
    by (cases r) (simp_all add: usersFromRows_def)
  show "lenient (sqlc_FindByID d k w) (pgx_FindByID (NewUserStore (as_pgx d) []) k w)"
    "lenient (sqlc_FindByName d k w) (pgx_FindByName (NewUserStore (as_pgx d) []) k w)"
    "lenient (sqlc_FindByEmail d k w) (pgx_FindByEmail (NewUserStore (as_pgx d) []) k w)"
    using scan_user_lenient
    by (auto simp: sends found_rows new_stores routed_simps scanUser_def sqlc_FindByID_def sqlc_FindByName_def sqlc_FindByEmail_def
        pgx_FindByID_def pgx_FindByName_def pgx_FindByEmail_def gen_GetUserByID_def gen_GetUserByName_def gen_GetUserByEmail_def
        split: sum.splits list.splits)
  show "lenient (sqlc_GetUsersInRole d k w) (pgx_GetUsersInRole (NewUserStore (as_pgx d) []) k w)"
    "lenient (sqlc_GetUsersForClaim d k v w) (pgx_GetUsersForClaim (NewUserStore (as_pgx d) []) k v w)"
    using u by (auto simp: sends l new_stores routed_simps sqlc_GetUsersInRole_def sqlc_GetUsersForClaim_def
        pgx_GetUsersInRole_def pgx_GetUsersForClaim_def gen_GetUsersInRole_def gen_GetUsersForClaim_def split: sum.splits)
qed

lemma FindByLogin_equal: "lenient (sqlc_FindByLogin d p k w) (pgx_FindByLogin (NewUserStore (as_pgx d) []) p k w)"
  using finders_equal(1) [of d _ w]
  by (auto simp: sends new_stores routed_simps sqlc_FindByLogin_def pgx_FindByLogin_def gen_GetUserIDByLogin_def
      split: sum.splits list.splits)

section \<open>Wrapping conversions\<close>

definition fits32 :: "int \<Rightarrow> bool" where
  "fits32 i \<longleftrightarrow> - (2 ^ 31) \<le> i \<and> i < 2 ^ 31"

lemma int32_fits: "fits32 i \<Longrightarrow> int32 i = i"
  by (simp add: int32_def fits32_def sint_sbintrunc' signed_take_bit_int_eq_self)

lemma attrs_same: "attrsToJSON a = marshalAttrs a"
  by (simp add: attrsToJSON_def marshalAttrs_def)

lemma Create_equal:
  assumes "fits32 (u_AccessFailedCount u)"
  shows "sqlc_Create d u w = pgx_Create (NewUserStore (as_pgx d) []) u w"
  using int32_fits [OF assms]
  by (simp add: sends new_stores routed_simps sqlc_Create_def pgx_Create_def gen_CreateUser_def user_args_def attrs_same)

lemma lenient_pair:
  assumes "lenient (map_sum id f r) r'"
  shows "lenient (case r of Inl e \<Rightarrow> Inl e | Inr a \<Rightarrow> Inr (f a, n)) (case r' of Inl e \<Rightarrow> Inl e | Inr a \<Rightarrow> Inr (a, n))"
  using assms by (cases r; cases r') (auto simp: lenient_def)

lemma ListUsers_equal:
  assumes "fits32 (lf_Limit f)" and "fits32 (lf_Offset f)"
  shows "lenient (sqlc_ListUsers x d f w) (pgx_ListUsers x (NewUserStore (as_pgx d) []) f w)"
proof -
  let ?search = "strings_ToUpper x (lf_Search f)"
  have c: "gen_CountUsers (sd_pool d) ?search w =
      query_one (as_pgx d) asNum (q_countUsers (buildQueries DefaultNaming)) [Text ?search] w"
    by (simp add: sends routed_simps gen_CountUsers_def)
  have "lenient (map_sum id (map toUser) (gen_ListUsers (sd_pool d) ?search (lf_Offset f) (lf_Limit f) w))
      (query_rows (as_pgx d) scanUserRow (q_listUsers (buildQueries DefaultNaming)) [Text ?search, Num (lf_Limit f), Num (lf_Offset f)] w)"
    using scan_rows_lenient [OF scan_user_lenient]
    by (auto simp: sends routed_simps gen_ListUsers_def split: sum.splits(1))
  with lenient_pair int32_fits [OF assms(1)] int32_fits [OF assms(2)] show ?thesis
    by (cases "gen_CountUsers (sd_pool d) ?search w") (simp_all add: c new_stores sqlc_ListUsers_def pgx_ListUsers_def Let_def)
qed

text \<open>Where \<open>pgxstore\<close> asks whether the user exists, \<open>pgxsqlc\<close> loads it.\<close>

lemma driver_not_no_rows: "driver_error e \<Longrightarrow> e \<noteq> pgx_ErrNoRows"
  by (auto simp: driver_error_def split: go_error.splits)

lemma as_pgx_exists:
  "pg_Query (as_pgx d) (q_userExists (buildQueries DefaultNaming)) args s =
     some_row (pg_Query (sd_pool d) (unlines sq_getUserByID) args s)"
  "pg_Query (as_pgx d) (q_roleExistsByName (buildQueries DefaultNaming)) args s =
     some_row (pg_Query (sd_pool d) (unlines sq_getRoleIDByName) args s)"
  using stmt_of_reads [OF reads(3) [OF default_names_ok]] stmt_of_reads [OF reads(15) [OF default_names_ok]]
  by (simp_all add: as_pgx_def route_query_def) (simp add: st_userExists_def st_roleExistsByName_def)

lemma missing_user:
  assumes "sqlc_server_ok d V"
  shows "(gen_GetUserByID (sd_pool d) i w = Inl pgx_ErrNoRows) =
    (query_one (as_pgx d) asBool (q_userExists (buildQueries DefaultNaming)) [Text i] w = Inr False)"
proof -
  have "errScan \<noteq> pgx_ErrNoRows" by (simp add: errScan_def pgx_ErrNoRows_def)
  then show ?thesis
    using driver_not_no_rows sqlc_errors(2) [OF assms]
    by (auto simp: sends query_struct_def as_pgx_exists some_row_def scan_one_def asBool_def gen_GetUserByID_def
        dest: scan_errors split: sum.splits list.splits)
qed

lemma Update_equal:
  assumes "sqlc_server_ok d V" and "fits32 (u_AccessFailedCount u)"
  shows "sqlc_Update x d u w = pgx_Update x (NewUserStore (as_pgx d) []) u w"
proof -
  have c: "(case r of Inl e \<Rightarrow> a | Inr b \<Rightarrow> if \<not> b then a' else a) = (if r = Inr False then a' else a)" for r :: "go_error + bool" and a a'
    by (cases r) auto
  show ?thesis
    using int32_fits [OF assms(2)]
    by (simp add: exec_tag_def new_stores routed_simps sqlc_Update_def pgx_Update_def gen_UpdateUser_def user_args_def attrs_same
        Let_def c missing_user [OF assms(1)] split: prod.splits sum.splits)
qed

section \<open>Memberships\<close>

lemma as_pgx_role:
  "pg_Exec (as_pgx d) (q_addToRole (buildQueries DefaultNaming)) args s = via_role (sd_pool d) sq_addUserToRole args s"
  "pg_Exec (as_pgx d) (q_removeFromRole (buildQueries DefaultNaming)) args s = via_role (sd_pool d) sq_removeUserFromRole args s"
  using stmt_of_reads [OF reads(11) [OF default_names_ok]] stmt_of_reads [OF reads(12) [OF default_names_ok]]
  by (simp_all add: as_pgx_def route_exec_def) (simp add: st_addToRole_def st_removeFromRole_def)

lemma role_id_query:
  "gen_GetRoleIDByName q n w =
     (case pg_Query q (unlines sq_getRoleIDByName) [Text n] (db w) of
        Inl e \<Rightarrow> Inl e | Inr [] \<Rightarrow> Inl pgx_ErrNoRows | Inr (row # _) \<Rightarrow> scan_one asText row)"
  by (simp add: gen_GetRoleIDByName_def sends split: sum.splits list.splits)

lemma RemoveFromRole_equal:
  assumes "sqlc_server_ok d V"
  shows "sqlc_RemoveFromRole d u rn w = pgx_RemoveFromRole (NewUserStore (as_pgx d) []) u rn w"
proof -
  have "errScan \<noteq> pgx_ErrNoRows" by (simp add: errScan_def pgx_ErrNoRows_def)
  then show ?thesis
    using driver_not_no_rows sqlc_errors(2) [OF assms]
    by (auto simp: sqlc_RemoveFromRole_def pgx_RemoveFromRole_def role_id_query gen_RemoveUserFromRole_def exec_err_def exec_tag_def
        new_stores as_pgx_role via_role_def dest: scan_text_error split: sum.splits list.splits)
qed

text \<open>An insertion that finds the membership there leaves the role where it was.\<close>

lemma role_still_there:
  assumes "sqlc_server_ok d V" and "pg_Query (sd_pool d) (unlines sq_getRoleIDByName) [n] s = Inr (row # rows)"
    and "pg_Exec (sd_pool d) (unlines sq_addUserToRole) args s = (Inr k, s')"
    and "pg_Query (sd_pool d) (unlines sq_getRoleIDByName) [n] s' = Inr rows'"
  shows "rows' \<noteq> []"
proof -
  have "(sq_addUserToRole, sx_addUserToRole) \<in> set sqlc_stmts" by (simp add: sqlc_stmts_def)
  from sqlc_exec [OF assms(1) reads_sqlc [OF this], of args s] assms(3)
  have "\<exists>sr. (k, v_tables V s') = exec (v_json V) (v_clock V s) sr sx_addUserToRole args (v_tables V s)"
    by (simp add: exec_as_def sx_addUserToRole_def)
  then have "v_tables V s' Roles = v_tables V s Roles"
    by (auto simp: sx_addUserToRole_def insert_row_def split: if_splits)
  moreover have "filter_mset (named n) (v_tables V s Roles) \<noteq> {#}" by (rule role_rows [OF assms(1, 2)]) auto
  ultimately show ?thesis by - (rule role_rows [OF assms(1, 4)], auto)
qed

lemma AddToRole_equal:
  assumes "sqlc_server_ok d V"
  shows "sqlc_AddToRole d u rn w = pgx_AddToRole (NewUserStore (as_pgx d) []) u rn w"
proof -
  have ne: "errScan \<noteq> pgx_ErrNoRows" by (simp add: errScan_def pgx_ErrNoRows_def)
  show ?thesis
    using driver_not_no_rows sqlc_errors(2) [OF assms] ne
    by (auto simp: sqlc_AddToRole_def pgx_AddToRole_def role_id_query gen_AddUserToRole_def sends some_row_def scan_one_def asBool_def
        new_stores as_pgx_role as_pgx_exists via_role_def dest: scan_text_error role_still_there [OF assms] split: sum.splits list.splits prod.splits option.splits)
qed

section \<open>Transactions\<close>

lemma each_claim_tx:
  "each_claim (\<lambda>c. exec_err q (t c) (args c)) cs wt =
     (case tx_all q (map (\<lambda>c. (t c, args c)) cs) (db wt) of (e, tx) \<Rightarrow> (e, wt\<lparr>db := tx\<rparr>))"
proof (induction cs arbitrary: wt)
  case (Cons c cs)
  then show ?case by (simp add: exec_err_def exec_tag_def split: prod.splits sum.splits)
qed simp

lemma inTx_run:
  "sqlc_inTx d (\<lambda>q. each_claim (\<lambda>c. exec_err q (t c) (args c)) cs) w =
     (case run_tx d (map (\<lambda>c. (t c, args c)) cs) (db w) of (e, s) \<Rightarrow> (e, w\<lparr>db := s\<rparr>))"
  by (simp add: sqlc_inTx_def run_tx_def each_claim_tx split: prod.splits sum.splits option.splits)

lemma those_map_Some: "(\<And>x. x \<in> set xs \<Longrightarrow> f x = Some (g x)) \<Longrightarrow> those (map f xs) = Some (map g xs)"
  by (induction xs) simp_all

lemma batch_routed:
  assumes "reads_as DefaultNaming t st" and "(st, k, ls, id) \<in> set routes" and "\<And>c. length (args c) = k"
  shows "route_batch d (map (\<lambda>c. (t, args c)) cs) s = run_tx d (map (\<lambda>c. (unlines ls, args c)) cs) s"
proof -
  have "those (map (\<lambda>(t, args). via t args) (map (\<lambda>c. (t, args c)) cs)) = Some (map (\<lambda>c. (unlines ls, args c)) cs)"
    using via_route [OF assms(1, 2) assms(3)] by (simp add: comp_def those_map_Some)
  then show ?thesis by (simp add: route_batch_def)
qed

lemma claims_equal:
  fixes d :: "('s, 't) sqlc_db"
  shows "sqlc_AddClaims d = pgx_AddClaims (NewUserStore (as_pgx d) [])"
    and "sqlc_RemoveClaims d = pgx_RemoveClaims (NewUserStore (as_pgx d) [])"
proof -
  have r: "(st_addUserClaim, 3, sq_addUserClaim, id) \<in> set routes" "(st_removeUserClaim, 3, sq_deleteUserClaim, id) \<in> set routes"
    by (simp_all add: routes_def same_routes_def)
  have g: "gen_AddUserClaim q i t v = exec_err q (unlines sq_addUserClaim) [Text i, Text t, Text v]"
    "gen_DeleteUserClaim q i t v = exec_err q (unlines sq_deleteUserClaim) [Text i, Text t, Text v]" for q :: "'t pgx" and i t v
    by (simp_all add: fun_eq_iff gen_AddUserClaim_def gen_DeleteUserClaim_def)
  show "sqlc_AddClaims d = pgx_AddClaims (NewUserStore (as_pgx d) [])"
    using batch_routed [OF reads(19) [OF default_names_ok] r(1), of "\<lambda>c :: claim. [Text (u_ID u), Text (c_Type c), Text (c_Value c)]" d for u :: user]
    by (simp add: fun_eq_iff sqlc_AddClaims_def pgx_AddClaims_def g inTx_run send_batch_def new_stores as_pgx_def)
  show "sqlc_RemoveClaims d = pgx_RemoveClaims (NewUserStore (as_pgx d) [])"
    using batch_routed [OF reads(20) [OF default_names_ok] r(2), of "\<lambda>c :: claim. [Text (u_ID u), Text (c_Type c), Text (c_Value c)]" d for u :: user]
    by (simp add: fun_eq_iff sqlc_RemoveClaims_def pgx_RemoveClaims_def g inTx_run send_batch_def new_stores as_pgx_def)
qed

end
