(* ===== verification/Sqlc_Migrate.thy ===== *)
theory Sqlc_Migrate
  imports Sqlc_Queries Pgx_Lookup
begin

text \<open>
  \<open>stores/pgxsqlc/migrate.go\<close> and the schema it embeds (\<open>schema.sql\<close>), line by line. Its tokens are
  those of the text \<open>pgxstore\<close> builds for the default names, so both have the same tables.
\<close>

section \<open>The schema\<close>

definition schema_Users :: "string list" where
  "schema_Users = [
     ''-- Schema for the sqlc-generated pgx store. Columns are NOT NULL with defaults so'',
     ''-- sqlc emits plain Go types (string/bool/int) instead of pgtype wrappers;'',
     ''-- lockout_end stays nullable (-> *time.Time via the override in sqlc.yaml).'',
     ''CREATE TABLE IF NOT EXISTS identity_users ('',
     ''    id                     varchar(36) PRIMARY KEY,'',
     ''    user_name              varchar(256) NOT NULL DEFAULT '' @ [quote_mark] @ [quote_mark] @ '','',
     ''    normalized_user_name   varchar(256) NOT NULL DEFAULT '' @ [quote_mark] @ [quote_mark] @ '','',
     ''    email                  varchar(256) NOT NULL DEFAULT '' @ [quote_mark] @ [quote_mark] @ '','',
     ''    normalized_email       varchar(256) NOT NULL DEFAULT '' @ [quote_mark] @ [quote_mark] @ '','',
     ''    email_confirmed        boolean      NOT NULL DEFAULT false,'',
     ''    password_hash          varchar(256) NOT NULL DEFAULT '' @ [quote_mark] @ [quote_mark] @ '','',
     ''    security_stamp         varchar(64)  NOT NULL DEFAULT '' @ [quote_mark] @ [quote_mark] @ '','',
     ''    concurrency_stamp      varchar(64)  NOT NULL DEFAULT '' @ [quote_mark] @ [quote_mark] @ '','',
     ''    phone_number           varchar(32)  NOT NULL DEFAULT '' @ [quote_mark] @ [quote_mark] @ '','',
     ''    phone_number_confirmed boolean      NOT NULL DEFAULT false,'',
     ''    two_factor_enabled     boolean      NOT NULL DEFAULT false,'',
     ''    lockout_end            timestamptz,'',
     ''    lockout_enabled        boolean      NOT NULL DEFAULT false,'',
     ''    access_failed_count    integer      NOT NULL DEFAULT 0,'',
     ''    attributes             jsonb        NOT NULL DEFAULT '' @ [quote_mark] @ ''{}'' @ [quote_mark] @ ''::jsonb,'',
     ''    is_anonymous           boolean      NOT NULL DEFAULT false,'',
     ''    created_at             timestamptz  NOT NULL DEFAULT now(),'',
     ''    updated_at             timestamptz  NOT NULL DEFAULT now()'',
     '');'',
     ''CREATE UNIQUE INDEX IF NOT EXISTS ux_identity_users_uname ON identity_users (normalized_user_name);'',
     ''CREATE INDEX IF NOT EXISTS ix_identity_users_email ON identity_users (normalized_email);'',
     ''CREATE INDEX IF NOT EXISTS ix_identity_users_guest ON identity_users (created_at) WHERE is_anonymous;'',
     []]"

definition schema_Roles :: "string list" where
  "schema_Roles = [
     ''CREATE TABLE IF NOT EXISTS identity_roles ('',
     ''    id                varchar(36) PRIMARY KEY,'',
     ''    name              varchar(256) NOT NULL DEFAULT '' @ [quote_mark] @ [quote_mark] @ '','',
     ''    normalized_name   varchar(256) NOT NULL DEFAULT '' @ [quote_mark] @ [quote_mark] @ '','',
     ''    concurrency_stamp varchar(64)  NOT NULL DEFAULT '' @ [quote_mark] @ [quote_mark],
     '');'',
     ''CREATE UNIQUE INDEX IF NOT EXISTS ux_identity_roles_name ON identity_roles (normalized_name);'',
     []]"

definition schema_UserRoles :: "string list" where
  "schema_UserRoles = [
     ''CREATE TABLE IF NOT EXISTS identity_user_roles ('',
     ''    user_id varchar(36) NOT NULL REFERENCES identity_users(id) ON DELETE CASCADE,'',
     ''    role_id varchar(36) NOT NULL REFERENCES identity_roles(id) ON DELETE CASCADE,'',
     ''    PRIMARY KEY (user_id, role_id)'',
     '');'',
     []]"

definition schema_UserClaims :: "string list" where
  "schema_UserClaims = [
     ''CREATE TABLE IF NOT EXISTS identity_user_claims ('',
     ''    id          bigserial PRIMARY KEY,'',
     ''    user_id     varchar(36)  NOT NULL REFERENCES identity_users(id) ON DELETE CASCADE,'',
     ''    claim_type  varchar(256) NOT NULL DEFAULT '' @ [quote_mark] @ [quote_mark] @ '','',
     ''    claim_value varchar(256) NOT NULL DEFAULT '' @ [quote_mark] @ [quote_mark],
     '');'',
     ''CREATE INDEX IF NOT EXISTS ix_identity_user_claims_user ON identity_user_claims (user_id);'',
     []]"

definition schema_RoleClaims :: "string list" where
  "schema_RoleClaims = [
     ''CREATE TABLE IF NOT EXISTS identity_role_claims ('',
     ''    id          bigserial PRIMARY KEY,'',
     ''    role_id     varchar(36)  NOT NULL REFERENCES identity_roles(id) ON DELETE CASCADE,'',
     ''    claim_type  varchar(256) NOT NULL DEFAULT '' @ [quote_mark] @ [quote_mark] @ '','',
     ''    claim_value varchar(256) NOT NULL DEFAULT '' @ [quote_mark] @ [quote_mark],
     '');'',
     ''CREATE INDEX IF NOT EXISTS ix_identity_role_claims_role ON identity_role_claims (role_id);'',
     []]"

definition schema_UserLogins :: "string list" where
  "schema_UserLogins = [
     ''CREATE TABLE IF NOT EXISTS identity_user_logins ('',
     ''    login_provider        varchar(128) NOT NULL,'',
     ''    provider_key          varchar(128) NOT NULL,'',
     ''    provider_display_name varchar(128) NOT NULL DEFAULT '' @ [quote_mark] @ [quote_mark] @ '','',
     ''    user_id               varchar(36)  NOT NULL REFERENCES identity_users(id) ON DELETE CASCADE,'',
     ''    PRIMARY KEY (login_provider, provider_key)'',
     '');'',
     ''CREATE INDEX IF NOT EXISTS ix_identity_user_logins_user ON identity_user_logins (user_id);'',
     []]"

definition schema_UserTokens :: "string list" where
  "schema_UserTokens = [
     ''CREATE TABLE IF NOT EXISTS identity_user_tokens ('',
     ''    user_id        varchar(36)  NOT NULL REFERENCES identity_users(id) ON DELETE CASCADE,'',
     ''    login_provider varchar(128) NOT NULL,'',
     ''    name           varchar(128) NOT NULL,'',
     ''    value          text         NOT NULL DEFAULT '' @ [quote_mark] @ [quote_mark] @ '','',
     ''    PRIMARY KEY (user_id, login_provider, name)'',
     '');'',
     []]"

definition schema_APIKeys :: "string list" where
  "schema_APIKeys = [
     ''CREATE TABLE IF NOT EXISTS identity_api_keys ('',
     ''    id           varchar(36)  PRIMARY KEY,'',
     ''    user_id      varchar(36)  NOT NULL REFERENCES identity_users(id) ON DELETE CASCADE,'',
     ''    name         varchar(256) NOT NULL DEFAULT '' @ [quote_mark] @ [quote_mark] @ '','',
     ''    prefix       varchar(32)  NOT NULL DEFAULT '' @ [quote_mark] @ [quote_mark] @ '','',
     ''    key_hash     varchar(128) NOT NULL,'',
     ''    scopes       jsonb        NOT NULL DEFAULT '' @ [quote_mark] @ ''[]'' @ [quote_mark] @ ''::jsonb,'',
     ''    expires_at   timestamptz,'',
     ''    last_used_at timestamptz,'',
     ''    revoked_at   timestamptz,'',
     ''    created_at   timestamptz  NOT NULL DEFAULT now()'',
     '');'',
     ''CREATE UNIQUE INDEX IF NOT EXISTS ux_identity_api_keys_hash ON identity_api_keys (key_hash);'',
     ''CREATE INDEX IF NOT EXISTS ix_identity_api_keys_user ON identity_api_keys (user_id);'',
     []]"

definition schema_RefreshTokens :: "string list" where
  "schema_RefreshTokens = [
     ''CREATE TABLE IF NOT EXISTS identity_refresh_tokens ('',
     ''    session_id   varchar(36)  PRIMARY KEY,'',
     ''    user_id      varchar(36)  NOT NULL REFERENCES identity_users(id) ON DELETE CASCADE,'',
     ''    token_hash   varchar(128) NOT NULL,'',
     ''    name         varchar(256) NOT NULL DEFAULT '' @ [quote_mark] @ [quote_mark] @ '','',
     ''    expires_at   timestamptz  NOT NULL,'',
     ''    created_at   timestamptz  NOT NULL DEFAULT now(),'',
     ''    last_used_at timestamptz'',
     '');'',
     ''CREATE UNIQUE INDEX IF NOT EXISTS ux_identity_refresh_tokens_hash ON identity_refresh_tokens (token_hash);'',
     ''CREATE INDEX IF NOT EXISTS ix_identity_refresh_tokens_user ON identity_refresh_tokens (user_id);'',
     ''CREATE INDEX IF NOT EXISTS ix_identity_refresh_tokens_exp ON identity_refresh_tokens (expires_at);'',
     []]"

definition schema_OAuthClients :: "string list" where
  "schema_OAuthClients = [
     ''-- Embedded OAuth 2.1 authorization server (package oauth).'',
     ''CREATE TABLE IF NOT EXISTS identity_oauth_clients ('',
     ''    client_id                  varchar(512) PRIMARY KEY,'',
     ''    secret_hash                varchar(128) NOT NULL DEFAULT '' @ [quote_mark] @ [quote_mark] @ '','',
     ''    name                       varchar(256) NOT NULL DEFAULT '' @ [quote_mark] @ [quote_mark] @ '','',
     ''    redirect_uris              text         NOT NULL DEFAULT '' @ [quote_mark] @ ''[]'' @ [quote_mark] @ '','',
     ''    token_endpoint_auth_method varchar(32)  NOT NULL DEFAULT '' @ [quote_mark] @ [quote_mark] @ '','',
     ''    grant_types                text         NOT NULL DEFAULT '' @ [quote_mark] @ ''[]'' @ [quote_mark] @ '','',
     ''    created_at                 timestamptz  NOT NULL DEFAULT now(),'',
     ''    last_used_at               timestamptz'',
     '');'',
     []]"

definition schema_OAuthCodes :: "string list" where
  "schema_OAuthCodes = [
     ''CREATE TABLE IF NOT EXISTS identity_oauth_codes ('',
     ''    code_hash      varchar(128) PRIMARY KEY,'',
     ''    client_id      varchar(512) NOT NULL,'',
     ''    user_id        varchar(36)  NOT NULL REFERENCES identity_users(id) ON DELETE CASCADE,'',
     ''    redirect_uri   text         NOT NULL,'',
     ''    scopes         text         NOT NULL DEFAULT '' @ [quote_mark] @ [quote_mark] @ '','',
     ''    resource       text         NOT NULL DEFAULT '' @ [quote_mark] @ [quote_mark] @ '','',
     ''    code_challenge varchar(128) NOT NULL,'',
     ''    expires_at     timestamptz  NOT NULL,'',
     ''    used_at        timestamptz,'',
     ''    grant_id       varchar(36)  NOT NULL DEFAULT '' @ [quote_mark] @ [quote_mark],
     '');'',
     ''CREATE INDEX IF NOT EXISTS ix_identity_oauth_codes_user ON identity_oauth_codes (user_id);'',
     ''CREATE INDEX IF NOT EXISTS ix_identity_oauth_codes_exp ON identity_oauth_codes (expires_at);'',
     []]"

definition schema_OAuthConsents :: "string list" where
  "schema_OAuthConsents = [
     ''CREATE TABLE IF NOT EXISTS identity_oauth_consents ('',
     ''    user_id    varchar(36)  NOT NULL REFERENCES identity_users(id) ON DELETE CASCADE,'',
     ''    client_id  varchar(512) NOT NULL,'',
     ''    scopes     text         NOT NULL DEFAULT '' @ [quote_mark] @ [quote_mark] @ '','',
     ''    created_at timestamptz  NOT NULL DEFAULT now(),'',
     ''    updated_at timestamptz  NOT NULL DEFAULT now(),'',
     ''    PRIMARY KEY (user_id, client_id)'',
     '');'',
     []]"

definition schema_OAuthGrants :: "string list" where
  "schema_OAuthGrants = [
     ''CREATE TABLE IF NOT EXISTS identity_oauth_grants ('',
     ''    id              varchar(36)  PRIMARY KEY,'',
     ''    user_id         varchar(36)  NOT NULL REFERENCES identity_users(id) ON DELETE CASCADE,'',
     ''    client_id       varchar(512) NOT NULL,'',
     ''    scopes          text         NOT NULL DEFAULT '' @ [quote_mark] @ [quote_mark] @ '','',
     ''    resource        text         NOT NULL DEFAULT '' @ [quote_mark] @ [quote_mark] @ '','',
     ''    token_hash      varchar(128) NOT NULL DEFAULT '' @ [quote_mark] @ [quote_mark] @ '','',
     ''    prev_token_hash varchar(128) NOT NULL DEFAULT '' @ [quote_mark] @ [quote_mark] @ '','',
     ''    security_stamp  varchar(64)  NOT NULL DEFAULT '' @ [quote_mark] @ [quote_mark] @ '','',
     ''    expires_at      timestamptz  NOT NULL,'',
     ''    created_at      timestamptz  NOT NULL DEFAULT now(),'',
     ''    last_used_at    timestamptz'',
     '');'',
     ''CREATE INDEX IF NOT EXISTS ix_identity_oauth_grants_user ON identity_oauth_grants (user_id);'',
     ''CREATE INDEX IF NOT EXISTS ix_identity_oauth_grants_client ON identity_oauth_grants (client_id);'',
     ''CREATE INDEX IF NOT EXISTS ix_identity_oauth_grants_exp ON identity_oauth_grants (expires_at);'',
     []]"

definition schema_OAuthAssertions :: "string list" where
  "schema_OAuthAssertions = [
     ''CREATE TABLE IF NOT EXISTS identity_oauth_assertions ('',
     ''    client_id  varchar(512) NOT NULL,'',
     ''    jti        varchar(256) NOT NULL,'',
     ''    expires_at timestamptz  NOT NULL,'',
     ''    PRIMARY KEY (client_id, jti)'',
     '');'',
     ''CREATE INDEX IF NOT EXISTS ix_identity_oauth_assertions_exp ON identity_oauth_assertions (expires_at);'']"

definition schema :: "string list" where
  "schema = schema_Users @ schema_Roles @ schema_UserRoles @ schema_UserClaims @ schema_RoleClaims @ schema_UserLogins @
     schema_UserTokens @ schema_APIKeys @ schema_RefreshTokens @ schema_OAuthClients @ schema_OAuthCodes @
     schema_OAuthConsents @ schema_OAuthGrants @ schema_OAuthAssertions"

definition sqlc_Migrate :: "'s pgx \<Rightarrow> 's world \<Rightarrow> go_error option \<times> 's world" where
  "sqlc_Migrate d w = exec_err d (unlines schema) [] w"

section \<open>Reading it\<close>

definition comment_line :: "string \<Rightarrow> bool" where
  "comment_line l \<longleftrightarrow> take 2 l = ''--'' \<and> CHR 0x0A \<notin> set l"

definition plain_line :: "string \<Rightarrow> bool" where
  "plain_line l \<longleftrightarrow> closed_line l \<and> CHR ''-'' \<notin> set l"

definition code_lines :: "string list \<Rightarrow> string list" where
  "code_lines ls = map (\<lambda>l. if comment_line l then [] else l) ls"

lemma uncomment_plain:
  "CHR ''-'' \<notin> set l \<Longrightarrow> uncomment_from q False (l @ nl @ s) = l @ nl @ uncomment_from (q \<noteq> (\<not> closed_line l)) False s"
proof (induction l arbitrary: q)
  case Nil
  then show ?case by (simp add: closed_line_def nl_def quote_mark_def)
next
  case (Cons c l)
  then show ?case by (cases q) (auto simp: closed_line_def)
qed

lemma uncomment_lines:
  assumes "list_all (\<lambda>l. comment_line l \<or> plain_line l) ls"
  shows "uncomment (unlines ls) = unlines (code_lines ls)"
  using assms
proof (induction ls)
  case Nil
  then show ?case by (simp add: uncomment_def unlines_def code_lines_def)
next
  case (Cons l ls)
  show ?case
  proof (cases "comment_line l")
    case True
    then obtain c where c: "l = CHR ''-'' # CHR ''-'' # c" "CHR 0x0A \<notin> set c"
      by (cases l; cases "tl l") (auto simp: comment_line_def)
    with True Cons uncomment_head [of "CHR ''-'' # c" "unlines ls"] show ?thesis
      by (simp add: uncomment_def unlines_def code_lines_def quote_mark_def)
  next
    case False
    with Cons uncomment_plain [of l False "unlines ls"] show ?thesis
      by (simp add: uncomment_def unlines_def code_lines_def plain_line_def)
  qed
qed

definition schema_reads :: "string list \<Rightarrow> tab \<Rightarrow> bool" where
  "schema_reads ls t \<longleftrightarrow> list_all (\<lambda>l. comment_line l \<or> plain_line l) ls \<and>
     concat (map sql_tokens (code_lines ls)) = table_tokens DefaultNaming t"

lemma schema_parts:
  "schema_reads schema_Users Users" "schema_reads schema_Roles Roles" "schema_reads schema_UserRoles UserRoles"
  "schema_reads schema_UserClaims UserClaims" "schema_reads schema_RoleClaims RoleClaims"
  "schema_reads schema_UserLogins UserLogins" "schema_reads schema_UserTokens UserTokens"
  "schema_reads schema_APIKeys APIKeys" "schema_reads schema_RefreshTokens RefreshTokens"
  "schema_reads schema_OAuthClients OAuthClients" "schema_reads schema_OAuthCodes OAuthCodes"
  "schema_reads schema_OAuthConsents OAuthConsents" "schema_reads schema_OAuthGrants OAuthGrants"
  "schema_reads schema_OAuthAssertions OAuthAssertions"
  by code_simp+

text \<open>The package comment says \<open>same schema\<close>, and so it is.\<close>

lemma schema_read: "sql_tokens (uncomment (unlines schema)) = sql_tokens (buildDDL DefaultNaming)"
proof -
  have ok: "list_all (\<lambda>l. comment_line l \<or> plain_line l) schema"
    using schema_parts by (simp add: schema_def schema_reads_def)
  then have "list_all closed_line (code_lines schema)"
    by (auto simp: list_all_iff code_lines_def plain_line_def closed_line_def)
  then have "sql_tokens (uncomment (unlines schema)) = concat (map sql_tokens (code_lines schema))"
    using uncomment_lines [OF ok] tokens_unlines by simp
  also have "\<dots> = concat (map (table_tokens DefaultNaming) all_tabs)"
    using schema_parts by (simp add: schema_def schema_reads_def code_lines_def all_tabs_def)
  also have "\<dots> = sql_tokens (buildDDL DefaultNaming)"
    using DDL_read [OF default_names_ok] by (simp add: DefaultNaming_def)
  finally show ?thesis .
qed

end
