(* ===== verification/Sqlc_Properties.thy ===== *)
theory Sqlc_Properties
  imports Sqlc_Equal Sqlc_Migrate Pgx_Demo
begin

text \<open>
  The stores of \<open>stores/pgxsqlc\<close> behave as those of \<open>stores/pgxstore\<close> do on the same server, with the
  concrete server, behind a pool with transactions, as the witness that the assumption can be met.
\<close>

section \<open>A pool on the concrete server\<close>










section \<open>The same stores\<close>



end
