(* ===== verification/Spec2Isabelle.thy ===== *)
theory Spec2Isabelle
  imports Account_Properties Memstore_Properties Role_Manager Two_Factor_Properties OAuth_Keys OAuth_Dial OAuth_Resource Naming Pgx_Properties
    Sqlc_Properties
begin

text \<open>
  Verification of \<open>go-idento\<close>, an identity library for Go: user accounts with passwords, lockout and
  two factors, roles, session tokens, API keys, an OAuth 2.1 authorization server, and the HTTP
  middleware that turns credentials into principals.

  \<^bold>\<open>The program.\<close> The package \<open>identity\<close> holds managers that work through store interfaces; \<open>oauth\<close> is the
  authorization server over its own store interface, reading users through the user manager; \<open>auth\<close>
  is the middleware over both; \<open>stores/memstore\<close> is the in-memory implementation of all the stores,
  one mutex around every call; \<open>stores/pgxstore\<close> keeps them in PostgreSQL, one statement per write, and
  \<open>stores/pgxsqlc\<close> does the same with queries generated by \<open>sqlc\<close>. Interactions are calls: a handler
  reads, decides and writes through several store calls, and calls of concurrent requests may come in
  between.

  \<^bold>\<open>The model.\<close> Go values are records and datatypes with the source's fields and cases, errors are
  values, strings are byte lists, times are integers in nanoseconds and machine integers wrap where
  that can matter. A state is \<open>'s world\<close>: the store's contents and the position on a tape of random
  values (\<open>x_rand\<close> and its relatives in \<open>extern\<close>), so a call is a function of the world. Clocks are
  arguments. SHA-256, HMAC, PBKDF2, Unicode tables, the JWT library, URL, JSON and JWK decoding and
  HTTP fetches are parameters (\<open>extern\<close>, \<open>jwt_lib\<close>, \<open>web\<close>); what a theorem needs of them is a named
  hypothesis of documented behaviour, and concrete parameters (\<open>demo_extern\<close>, \<open>table_jwt\<close>, \<open>demo_web\<close>)
  show that the hypotheses can hold.

  \<^bold>\<open>Theories and sources.\<close>
  \<^item> \<open>Prelude\<close>, \<open>Codec\<close>, \<open>Extern\<close>: association lists as Go maps, the string functions, decimal, base64, base32
    and UTF-8 codecs with their round trips, the outside world.
  \<^item> \<open>Entities\<close>, \<open>Store_Interface\<close>, \<open>OAuth_Types\<close>: \<open>identity/entities.go\<close>, \<open>errors.go\<close>, \<open>options.go\<close>,
    \<open>store.go\<close> and \<open>oauth/types.go\<close>; the store interfaces are records of operations and, with their laws,
    the locales \<open>user_crud\<close>, \<open>user_tokens\<close>, \<open>reliable_users\<close>, \<open>role_rows\<close>, \<open>api_keys\<close>, \<open>session_store\<close> and
    \<open>oauth_tables\<close>, in which the lemmas about the managers are proved.
  \<^item> \<open>Memstore\<close>, \<open>Memstore_Correct\<close>, \<open>Memstore_Properties\<close>: \<open>stores/memstore\<close>, every method one step; its
    well-formedness invariant and the interpretations of the locales.
  \<^item> \<open>Hasher\<close>, \<open>Token_Provider\<close>, \<open>User_Manager\<close>, \<open>Sign_In\<close>, \<open>Two_Factor\<close>: \<open>identity/hasher.go\<close>,
    \<open>token_provider.go\<close>, \<open>user_manager.go\<close> with \<open>guest.go\<close>, \<open>external_login.go\<close> and \<open>email.go\<close>,
    \<open>signin_manager.go\<close>, \<open>totp.go\<close>, \<open>twofactor.go\<close>, \<open>twofactor_providers.go\<close> and \<open>phone.go\<close>.
  \<^item> \<open>Account_System\<close>, \<open>Account_Properties\<close>, \<open>Two_Factor_Properties\<close>: the account system as a step relation over
    copies of users held by requests; uniqueness, lost updates, lockout, password reset, codes.
  \<^item> \<open>Role_Manager\<close>, \<open>Api_Key\<close>: \<open>identity/role_manager.go\<close> and \<open>apikey.go\<close>.
  \<^item> \<open>Jwt\<close>, \<open>Signer\<close>, \<open>Token_Service\<close> and its \<open>_Correct\<close> and \<open>_Properties\<close>: the JWT library as a parameter,
    \<open>identity/signer.go\<close>, \<open>ecdsa_signer.go\<close>, \<open>jwks.go\<close> and \<open>token_service.go\<close>.
  \<^item> \<open>OAuth_Util\<close>, \<open>OAuth_Client\<close>, \<open>OAuth_Server\<close>, \<open>OAuth_Token\<close>, \<open>OAuth_Authorize\<close>, \<open>OAuth_Resource\<close>: \<open>oauth/util.go\<close>,
    \<open>client_assertion.go\<close> with \<open>cimd.go\<close>, \<open>server.go\<close> with \<open>register.go\<close>, \<open>token.go\<close>, \<open>authorize.go\<close> and
    \<open>resource.go\<close>.
  \<^item> \<open>OAuth_Correct\<close>, \<open>OAuth_Access\<close>, \<open>OAuth_Properties\<close>, \<open>OAuth_Consent\<close>, \<open>OAuth_Limits\<close>, \<open>OAuth_CIMD\<close>, \<open>OAuth_Keys\<close>,
    \<open>OAuth_Dial\<close>: the properties of the server.
  \<^item> \<open>Auth\<close>, \<open>Auth_Properties\<close>: \<open>auth/middleware.go\<close>, \<open>policy.go\<close>, \<open>cookie.go\<close> and \<open>jwks.go\<close>.
  \<^item> \<open>Naming\<close>: \<open>identity/naming.go\<close>.
  \<^item> \<open>Sql\<close>, \<open>Sql_Server\<close>: the fragment of SQL in use, from text to tokens to statements, and what PostgreSQL
    documents about statements on tables. The driver is a record of functions, an argument of every
    store operation; \<open>server_ok\<close> says that the server keeps the constraints of the schema, may reject any
    statement and otherwise runs it as documented, and that answers come in the order asked for.
  \<^item> \<open>Json_Strings\<close>: \<open>encoding/json\<close> on lists and maps of strings, with round trips.
  \<^item> \<open>Pgx_Migrate\<close>, \<open>Pgx_Queries\<close>, \<open>Pgx_Store\<close>, \<open>Pgx_OAuth\<close>: \<open>stores/pgxstore/migrate.go\<close>, the texts of the four
    query structs with the statement each stands for, \<open>pgxstore.go\<close>, and \<open>apikey.go\<close>, \<open>refreshtoken.go\<close> and
    \<open>oauth.go\<close>.
  \<^item> \<open>Pgx_Correct\<close>, \<open>Pgx_Users\<close>, \<open>Pgx_Satellites\<close>, \<open>Pgx_Runs\<close>, \<open>Pgx_Lookup\<close>, \<open>Pgx_Demo\<close>, \<open>Pgx_Properties\<close>:
    effects of the operations on the tables (the locale \<open>entity_table\<close> for tables of entities under a key), runs of
    statements by many processes, a concrete server on lists that meets \<open>server_ok\<close>, the properties.
  \<^item> \<open>Sqlc_Queries\<close>, \<open>Sqlc_Store\<close>, \<open>Sqlc_Migrate\<close>: \<open>stores/pgxsqlc/internal/sqlcgen\<close> (each text with its comment, each
    method of \<open>Queries\<close>), \<open>store.go\<close> with \<open>oauth.go\<close>, and \<open>migrate.go\<close> with the schema it embeds.
  \<^item> \<open>Sqlc_Simulation\<close>, \<open>Sqlc_Driver\<close>, \<open>Sqlc_Equal\<close>, \<open>Sqlc_Properties\<close>: which generated statement stands for
    which of \<open>pgxstore\<close> and with its parameters in which order, the driver for \<open>pgxstore\<close> that a pool of
    \<open>pgxsqlc\<close> is turned into, the equality of the stores operation by operation.

  \<^bold>\<open>What is shown.\<close> Invariants of the state: the store stays well formed, names and emails stay unique,
  the metadata caches stay bounded and fresh. Safety under interleaving: no lost updates, lockout
  after the allowed failures, codes and assertions used once, rotation and revocation of tokens and
  keys, consent before codes, tokens of different kinds never confused. Refinement and equivalence:
  refresh tokens as an abstract family, recovery codes as a multiset, the rate limiter as one counter
  per address, the address filter as a table of ranges, the PostgreSQL user store as a set of users
  with compare-and-swap, its SQL texts as statements under every accepted naming, the generated store
  as the hand-written one. Round trips: password hashes, key sets,
  remembered scopes, API keys. The flows work: created users sign in, issued tokens validate, codes
  are exchanged for access tokens that the resource accepts. Requests behind the middleware get
  exactly the status their credentials deserve.

  \<^bold>\<open>Bounds.\<close> Loops over strings and bytes take their length as fuel, and lemmas (\<open>runes_of_enough\<close> and
  the codec round trips) show that it is enough; all other recursion is structural or has a measure.

  \<^bold>\<open>Not modelled.\<close> \<open>stores/gormstore\<close>, whose queries are built at run time by the GORM
  library. PostgreSQL itself (isolation of concurrent
  transactions, truncation of long index names) beyond \<open>server_ok\<close>. Log output, HTML rendering, the SQL
  migration files, the demos and the test suite \<open>oauth/oauthtest\<close>.
\<close>

end
